(* ===== verification/Prelude.thy ===== *)
theory Prelude
  imports "HOL-Library.Word" "HOL-Library.Code_Target_Nat"
begin

text \<open>
  Shared vocabulary of the development: names for Rust's machine integers, the three-way
  outcome of a Rust function that returns a \<open>Result\<close> and may overflow, and the bit-level
  lemmas with which the field layouts of A64 words are taken apart and put together.

  \<^item> \<open>u8\<close>, \<open>u16\<close>, \<open>u32\<close>, \<open>u64\<close> are words of that width; \<open>i64\<close> is the 64-bit word read in two's
    complement (\<open>sint\<close>), so that the casts \<open>as i64\<close> and \<open>as u64\<close> are the identity, as in Rust.
  \<^item> Bit positions and counts (\<open>lsb\<close>, \<open>width\<close>, \<open>esize\<close>) are \<open>nat\<close>.
  \<^item> \<open>outcome\<close>: \<open>Ok v\<close> and \<open>Err e\<close> are Rust's \<open>Result\<close>; \<open>Panic\<close> marks an arithmetic overflow of
    \<open>u32\<close>, which panics in a build with overflow checks (the default of debug and test builds).
\<close>

unbundle bit_operations_syntax

section \<open>Machine integers\<close>

type_synonym u4 = "4 word"
type_synonym u5 = "5 word"
type_synonym u8 = "8 word"
type_synonym u16 = "16 word"
type_synonym u32 = "32 word"
type_synonym u64 = "64 word"
type_synonym i64 = "64 word"

section \<open>Outcomes\<close>

datatype ('e, 'a) outcome = Ok 'a | Err 'e | Panic

primrec and_then :: "('e, 'a) outcome \<Rightarrow> ('a \<Rightarrow> ('e, 'b) outcome) \<Rightarrow> ('e, 'b) outcome" where
  "and_then (Ok a) f = f a"
| "and_then (Err e) f = Err e"
| "and_then Panic f = Panic"

lemma and_then_Ok_iff [simp]:
  "and_then r f = Ok b \<longleftrightarrow> (\<exists>a. r = Ok a \<and> f a = Ok b)"
  by (cases r) auto

lemma and_then_Panic_iff: "and_then r f = Panic \<longleftrightarrow> r = Panic \<or> (\<exists>a. r = Ok a \<and> f a = Panic)"
  by (cases r) auto

lemma and_then_assoc: "and_then (and_then r f) g = and_then r (\<lambda>x. and_then (f x) g)"
  by (cases r) auto

lemma and_then_Ok_right [simp]: "and_then r Ok = r"
  by (cases r) auto

lemma and_then_Err_iff: "and_then r f = Err e \<longleftrightarrow> r = Err e \<or> (\<exists>x. r = Ok x \<and> f x = Err e)"
  by (cases r) auto

lemma and_then_if: "and_then (if b then r else s) f = (if b then and_then r f else and_then s f)"
  by simp

text \<open>Rust's \<open>-\<close> and \<open>+\<close> on \<open>u32\<close> with overflow checks.\<close>

definition sub_u32 :: "u32 \<Rightarrow> u32 \<Rightarrow> ('e, u32) outcome" where
  "sub_u32 a b = (if b \<le> a then Ok (a - b) else Panic)"

definition add_u32 :: "u32 \<Rightarrow> u32 \<Rightarrow> ('e, u32) outcome" where
  "add_u32 a b = (if unat a + unat b < 2 ^ 32 then Ok (a + b) else Panic)"

lemma sub_u32_Ok [simp]: "b \<le> a \<Longrightarrow> sub_u32 a b = Ok (a - b)"
  by (simp add: sub_u32_def)

lemma sub_u32_1 [simp]: "a \<noteq> 0 \<Longrightarrow> sub_u32 a 1 = Ok (a - 1)"
  by (simp add: sub_u32_def word_le_nat_alt unat_gt_0 [symmetric] Suc_le_eq)

lemma sub_u32_Panic: "sub_u32 a b = Panic \<longleftrightarrow> a < b"
  unfolding sub_u32_def by (cases "b \<le> a") (simp_all add: linorder_not_le)

lemma sub_u32_not_Err [simp]: "sub_u32 a b \<noteq> Err e"
  by (simp add: sub_u32_def)

lemma add_u32_Panic: "add_u32 a b = Panic \<longleftrightarrow> 2 ^ 32 \<le> unat a + unat b"
  by (simp add: add_u32_def not_less)

lemma ucast_add_2_32: "ucast ((v :: u64) + 0x100000000 * k) = (ucast v :: u32)"
proof -
  have "take_bit 32 (v + 0x100000000 * k) = take_bit 32 v"
    by transfer (simp add: take_bit_eq_mod)
  then have "unat (take_bit 32 (v + 0x100000000 * k)) = unat (take_bit 32 v)" by (rule arg_cong)
  then have "unat (ucast (v + 0x100000000 * k) :: u32) = unat (ucast v :: u32)" by (simp add: unsigned_ucast_eq unsigned_take_bit_eq)
  then show ?thesis by (rule word_unat_eq_iff [THEN iffD2])
qed

lemma add_u32_Ok: "unat a + unat b < 2 ^ 32 \<Longrightarrow> add_u32 a b = Ok (a + b)"
  by (simp add: add_u32_def)

section \<open>Comparing words bit by bit\<close>

text \<open>\<open>field_bits\<close> collects the rewrite rules that reduce a statement about fields to single bits.\<close>

named_theorems field_bits

lemma all_less_32: 
  "(\<forall>n<(32::nat). P n) \<longleftrightarrow>
     P 0 \<and> P 1 \<and> P 2 \<and> P 3 \<and> P 4 \<and> P 5 \<and> P 6 \<and> P 7 \<and> P 8 \<and> P 9 \<and> P 10 \<and> P 11 \<and> P 12 \<and> P 13 \<and>
     P 14 \<and> P 15 \<and> P 16 \<and> P 17 \<and> P 18 \<and> P 19 \<and> P 20 \<and> P 21 \<and> P 22 \<and> P 23 \<and> P 24 \<and> P 25 \<and>
     P 26 \<and> P 27 \<and> P 28 \<and> P 29 \<and> P 30 \<and> P 31"
  by (simp add: All_less_Suc2 numeral_eq_Suc)

lemma u32_eq_bits: "x = (y :: u32) \<longleftrightarrow> (\<forall>n<32. bit x n = bit y n)"
  by (auto simp: bit_eq_iff)

lemmas u32_eq_all_bits = u32_eq_bits [unfolded all_less_32]

lemma all_less_16:
  "(\<forall>n<(16::nat). P n) \<longleftrightarrow>
     P 0 \<and> P 1 \<and> P 2 \<and> P 3 \<and> P 4 \<and> P 5 \<and> P 6 \<and> P 7 \<and> P 8 \<and> P
     9 \<and> P 10 \<and> P 11 \<and> P 12 \<and> P 13 \<and> P 14 \<and> P 15"
  by (simp add: All_less_Suc2 numeral_eq_Suc)

lemma u16_eq_bits: "x = (y :: u16) \<longleftrightarrow> (\<forall>n<16. bit x n = bit y n)"
  by (auto simp: bit_eq_iff)

lemmas u16_eq_all_bits = u16_eq_bits [unfolded all_less_16]

lemma take_bit_split:
  "take_bit (a + b) (w :: 'a :: len word) = take_bit a w OR push_bit a (take_bit b (drop_bit a w))"
  by (rule bit_word_eqI) (auto simp: bit_simps)

lemma word_less_take_bit: "(x :: 'a :: len word) < 2 ^ n \<Longrightarrow> n < LENGTH('a) \<Longrightarrow> take_bit n x = x"
  by (simp add: less_mask_eq take_bit_eq_mask)

lemma unat_take_bit_less: "n < LENGTH('a) \<Longrightarrow> unat (take_bit n (x :: 'a :: len word)) < 2 ^ n"
  by (simp add: unsigned_take_bit_eq)

lemma take_bit_word_less: "n < LENGTH('a) \<Longrightarrow> take_bit n (x :: 'a :: len word) < 2 ^ n"
  by (simp add: take_bit_eq_mask and_mask_less')

text \<open>A run of bits \<open>[l, l + k)\<close> of a word equals a constant exactly when its bits do; with numerals for
  \<open>k\<close> and \<open>c\<close> the rule unfolds completely.\<close>

lemma take_bit_Suc_eq_iff:
  "take_bit (Suc k) (w :: 'a :: len word) = c \<longleftrightarrow>
     (bit w 0 \<longleftrightarrow> bit c 0) \<and> take_bit k (drop_bit 1 w) = drop_bit 1 c" (is "?l \<longleftrightarrow> ?r")
proof
  assume ?l
  then show ?r
    by (auto simp: bit_simps intro!: bit_word_eqI)
next
  assume r: ?r
  show ?l
  proof (rule bit_word_eqI)
    fix n assume n: "n < LENGTH('a)"
    show "bit (take_bit (Suc k) w) n = bit c n"
    proof (cases n)
      case 0
      with r show ?thesis by (simp add: bit_simps)
    next
      case (Suc m)
      from r have "bit (take_bit k (drop_bit 1 w)) m = bit (drop_bit 1 c) m" by simp
      with Suc n show ?thesis by (simp add: bit_simps)
    qed
  qed
qed

text \<open>A word below a small power of two is one of its numerals.\<close>

lemma word_less_cases:
  fixes x :: "'a :: len word"
  shows "unat x < 2 \<Longrightarrow> x \<in> {0, 1}"
    and "unat x < 4 \<Longrightarrow> x \<in> {0, 1, 2, 3}"
    and "unat x < 8 \<Longrightarrow> x \<in> {0, 1, 2, 3, 4, 5, 6, 7}"
    and "unat x < 16 \<Longrightarrow> x \<in> {0, 1, 2, 3, 4, 5, 6, 7, 8, 9, 10, 11, 12, 13, 14, 15}"
proof -
  have x: "x = of_nat (unat x)" by simp
  show "unat x < 2 \<Longrightarrow> x \<in> {0, 1}"
  proof -
    assume "unat x < 2"
    then have "unat x = 0 \<or> unat x = 1" by linarith
    then show ?thesis by (subst x) (elim disjE; simp)
  qed
  show "unat x < 4 \<Longrightarrow> x \<in> {0, 1, 2, 3}"
  proof -
    assume "unat x < 4"
    then have "unat x = 0 \<or> unat x = 1 \<or> unat x = 2 \<or> unat x = 3" by linarith
    then show ?thesis by (subst x) (elim disjE; simp)
  qed
  show "unat x < 8 \<Longrightarrow> x \<in> {0, 1, 2, 3, 4, 5, 6, 7}"
  proof -
    assume "unat x < 8"
    then have "unat x = 0 \<or> unat x = 1 \<or> unat x = 2 \<or> unat x = 3 \<or> unat x = 4 \<or> unat x = 5 \<or>
      unat x = 6 \<or> unat x = 7" by linarith
    then show ?thesis by (subst x) (elim disjE; simp)
  qed
  show "unat x < 16 \<Longrightarrow> x \<in> {0, 1, 2, 3, 4, 5, 6, 7, 8, 9, 10, 11, 12, 13, 14, 15}"
  proof -
    assume "unat x < 16"
    then have "unat x = 0 \<or> unat x = 1 \<or> unat x = 2 \<or> unat x = 3 \<or> unat x = 4 \<or> unat x = 5 \<or>
      unat x = 6 \<or> unat x = 7 \<or> unat x = 8 \<or> unat x = 9 \<or> unat x = 10 \<or> unat x = 11 \<or> unat x = 12 \<or>
      unat x = 13 \<or> unat x = 14 \<or> unat x = 15" by presburger
    then show ?thesis by (subst x) (elim disjE; simp)
  qed
qed

end
