(* ===== verification/Mnemonics.thy ===== *)
theory Mnemonics
  imports Prelude
begin

text \<open>
  The enum \<open>Mnemonic\<close> of \<open>src/mnemonic.rs\<close>: human-readable instruction names.  The enum is \<open>#[repr(u16)]\<close> with
  1705 unit variants, which the crate stores and compares as their discriminant, so the model is the discriminant
  with one name per variant, in the order of the declaration.
\<close>

datatype mnemonic = Mnemonic (mnemonic_disc: nat)

definition declared_mnemonic :: "mnemonic \<Rightarrow> bool" where
  "declared_mnemonic m \<longleftrightarrow> mnemonic_disc m < 1705"

definition mnemonic_from_u16 :: "u16 \<Rightarrow> mnemonic option" where
  "mnemonic_from_u16 v = (let index = unat v in if index < 1705 then Some (Mnemonic index) else None)"

abbreviation "M_Invalid \<equiv> Mnemonic 0"
abbreviation "M_Add \<equiv> Mnemonic 1"
abbreviation "M_Sub \<equiv> Mnemonic 2"
abbreviation "M_Ldr \<equiv> Mnemonic 3"
abbreviation "M_Str \<equiv> Mnemonic 4"
abbreviation "M_B \<equiv> Mnemonic 5"
abbreviation "M_Bl \<equiv> Mnemonic 6"
abbreviation "M_Movz \<equiv> Mnemonic 7"
abbreviation "M_Revd \<equiv> Mnemonic 8"
abbreviation "M_Adc \<equiv> Mnemonic 9"
abbreviation "M_Adcs \<equiv> Mnemonic 10"
abbreviation "M_Adds \<equiv> Mnemonic 11"
abbreviation "M_Subs \<equiv> Mnemonic 12"
abbreviation "M_Sbc \<equiv> Mnemonic 13"
abbreviation "M_Sbcs \<equiv> Mnemonic 14"
abbreviation "M_Adr \<equiv> Mnemonic 15"
abbreviation "M_Adrp \<equiv> Mnemonic 16"
abbreviation "M_Neg \<equiv> Mnemonic 17"
abbreviation "M_Negs \<equiv> Mnemonic 18"
abbreviation "M_Ngc \<equiv> Mnemonic 19"
abbreviation "M_Ngcs \<equiv> Mnemonic 20"
abbreviation "M_Cmp \<equiv> Mnemonic 21"
abbreviation "M_Cmn \<equiv> Mnemonic 22"
abbreviation "M_Mov \<equiv> Mnemonic 23"
abbreviation "M_Movn \<equiv> Mnemonic 24"
abbreviation "M_Movk \<equiv> Mnemonic 25"
abbreviation "M_And \<equiv> Mnemonic 26"
abbreviation "M_Ands \<equiv> Mnemonic 27"
abbreviation "M_Orr \<equiv> Mnemonic 28"
abbreviation "M_Orn \<equiv> Mnemonic 29"
abbreviation "M_Eor \<equiv> Mnemonic 30"
abbreviation "M_Eon \<equiv> Mnemonic 31"
abbreviation "M_Bic \<equiv> Mnemonic 32"
abbreviation "M_Bics \<equiv> Mnemonic 33"
abbreviation "M_Tst \<equiv> Mnemonic 34"
abbreviation "M_Mvn \<equiv> Mnemonic 35"
abbreviation "M_Sbfm \<equiv> Mnemonic 36"
abbreviation "M_Bfm \<equiv> Mnemonic 37"
abbreviation "M_Ubfm \<equiv> Mnemonic 38"
abbreviation "M_Sbfx \<equiv> Mnemonic 39"
abbreviation "M_Sbfiz \<equiv> Mnemonic 40"
abbreviation "M_Bfi \<equiv> Mnemonic 41"
abbreviation "M_Bfxil \<equiv> Mnemonic 42"
abbreviation "M_Bfc \<equiv> Mnemonic 43"
abbreviation "M_Ubfx \<equiv> Mnemonic 44"
abbreviation "M_Ubfiz \<equiv> Mnemonic 45"
abbreviation "M_Extr \<equiv> Mnemonic 46"
abbreviation "M_Lsl \<equiv> Mnemonic 47"
abbreviation "M_Lsr \<equiv> Mnemonic 48"
abbreviation "M_Asr \<equiv> Mnemonic 49"
abbreviation "M_Ror \<equiv> Mnemonic 50"
abbreviation "M_Lslv \<equiv> Mnemonic 51"
abbreviation "M_Lsrv \<equiv> Mnemonic 52"
abbreviation "M_Asrv \<equiv> Mnemonic 53"
abbreviation "M_Rorv \<equiv> Mnemonic 54"
abbreviation "M_Sxtb \<equiv> Mnemonic 55"
abbreviation "M_Sxth \<equiv> Mnemonic 56"
abbreviation "M_Sxtw \<equiv> Mnemonic 57"
abbreviation "M_Uxtb \<equiv> Mnemonic 58"
abbreviation "M_Uxth \<equiv> Mnemonic 59"
abbreviation "M_Csel \<equiv> Mnemonic 60"
abbreviation "M_Csinc \<equiv> Mnemonic 61"
abbreviation "M_Csinv \<equiv> Mnemonic 62"
abbreviation "M_Csneg \<equiv> Mnemonic 63"
abbreviation "M_Cset \<equiv> Mnemonic 64"
abbreviation "M_Csetm \<equiv> Mnemonic 65"
abbreviation "M_Cinc \<equiv> Mnemonic 66"
abbreviation "M_Cinv \<equiv> Mnemonic 67"
abbreviation "M_Cneg \<equiv> Mnemonic 68"
abbreviation "M_Ccmn \<equiv> Mnemonic 69"
abbreviation "M_Ccmp \<equiv> Mnemonic 70"
abbreviation "M_Rbit \<equiv> Mnemonic 71"
abbreviation "M_Rev16 \<equiv> Mnemonic 72"
abbreviation "M_Rev \<equiv> Mnemonic 73"
abbreviation "M_Rev32 \<equiv> Mnemonic 74"
abbreviation "M_Clz \<equiv> Mnemonic 75"
abbreviation "M_Cls \<equiv> Mnemonic 76"
abbreviation "M_Udiv \<equiv> Mnemonic 77"
abbreviation "M_Sdiv \<equiv> Mnemonic 78"
abbreviation "M_Crc32b \<equiv> Mnemonic 79"
abbreviation "M_Crc32h \<equiv> Mnemonic 80"
abbreviation "M_Crc32w \<equiv> Mnemonic 81"
abbreviation "M_Crc32x \<equiv> Mnemonic 82"
abbreviation "M_Crc32cb \<equiv> Mnemonic 83"
abbreviation "M_Crc32ch \<equiv> Mnemonic 84"
abbreviation "M_Crc32cw \<equiv> Mnemonic 85"
abbreviation "M_Crc32cx \<equiv> Mnemonic 86"
abbreviation "M_Madd \<equiv> Mnemonic 87"
abbreviation "M_Msub \<equiv> Mnemonic 88"
abbreviation "M_Mul \<equiv> Mnemonic 89"
abbreviation "M_Mneg \<equiv> Mnemonic 90"
abbreviation "M_Smaddl \<equiv> Mnemonic 91"
abbreviation "M_Smsubl \<equiv> Mnemonic 92"
abbreviation "M_Smull \<equiv> Mnemonic 93"
abbreviation "M_Smnegl \<equiv> Mnemonic 94"
abbreviation "M_Smulh \<equiv> Mnemonic 95"
abbreviation "M_Umaddl \<equiv> Mnemonic 96"
abbreviation "M_Umsubl \<equiv> Mnemonic 97"
abbreviation "M_Umull \<equiv> Mnemonic 98"
abbreviation "M_Umnegl \<equiv> Mnemonic 99"
abbreviation "M_Umulh \<equiv> Mnemonic 100"
abbreviation "M_Br \<equiv> Mnemonic 101"
abbreviation "M_Blr \<equiv> Mnemonic 102"
abbreviation "M_Ret \<equiv> Mnemonic 103"
abbreviation "M_Eret \<equiv> Mnemonic 104"
abbreviation "M_Drps \<equiv> Mnemonic 105"
abbreviation "M_Cbz \<equiv> Mnemonic 106"
abbreviation "M_Cbnz \<equiv> Mnemonic 107"
abbreviation "M_Tbz \<equiv> Mnemonic 108"
abbreviation "M_Tbnz \<equiv> Mnemonic 109"
abbreviation "M_Braa \<equiv> Mnemonic 110"
abbreviation "M_Braaz \<equiv> Mnemonic 111"
abbreviation "M_Brab \<equiv> Mnemonic 112"
abbreviation "M_Brabz \<equiv> Mnemonic 113"
abbreviation "M_Blraa \<equiv> Mnemonic 114"
abbreviation "M_Blraaz \<equiv> Mnemonic 115"
abbreviation "M_Blrab \<equiv> Mnemonic 116"
abbreviation "M_Blrabz \<equiv> Mnemonic 117"
abbreviation "M_Svc \<equiv> Mnemonic 118"
abbreviation "M_Hvc \<equiv> Mnemonic 119"
abbreviation "M_Smc \<equiv> Mnemonic 120"
abbreviation "M_Brk \<equiv> Mnemonic 121"
abbreviation "M_Hlt \<equiv> Mnemonic 122"
abbreviation "M_Dcps1 \<equiv> Mnemonic 123"
abbreviation "M_Dcps2 \<equiv> Mnemonic 124"
abbreviation "M_Dcps3 \<equiv> Mnemonic 125"
abbreviation "M_Nop \<equiv> Mnemonic 126"
abbreviation "M_Yield \<equiv> Mnemonic 127"
abbreviation "M_Wfe \<equiv> Mnemonic 128"
abbreviation "M_Wfi \<equiv> Mnemonic 129"
abbreviation "M_Sev \<equiv> Mnemonic 130"
abbreviation "M_Sevl \<equiv> Mnemonic 131"
abbreviation "M_Esb \<equiv> Mnemonic 132"
abbreviation "M_Psb \<equiv> Mnemonic 133"
abbreviation "M_Csdb \<equiv> Mnemonic 134"
abbreviation "M_Bti \<equiv> Mnemonic 135"
abbreviation "M_Hint \<equiv> Mnemonic 136"
abbreviation "M_Clrex \<equiv> Mnemonic 137"
abbreviation "M_Dsb \<equiv> Mnemonic 138"
abbreviation "M_Dmb \<equiv> Mnemonic 139"
abbreviation "M_Isb \<equiv> Mnemonic 140"
abbreviation "M_Ssbb \<equiv> Mnemonic 141"
abbreviation "M_Pssbb \<equiv> Mnemonic 142"
abbreviation "M_Sb \<equiv> Mnemonic 143"
abbreviation "M_Msr \<equiv> Mnemonic 144"
abbreviation "M_Mrs \<equiv> Mnemonic 145"
abbreviation "M_Sys \<equiv> Mnemonic 146"
abbreviation "M_Sysl \<equiv> Mnemonic 147"
abbreviation "M_Ic \<equiv> Mnemonic 148"
abbreviation "M_Dc \<equiv> Mnemonic 149"
abbreviation "M_At \<equiv> Mnemonic 150"
abbreviation "M_Tlbi \<equiv> Mnemonic 151"
abbreviation "M_Cfinv \<equiv> Mnemonic 152"
abbreviation "M_Axflag \<equiv> Mnemonic 153"
abbreviation "M_Xaflag \<equiv> Mnemonic 154"
abbreviation "M_Pacia \<equiv> Mnemonic 155"
abbreviation "M_Pacib \<equiv> Mnemonic 156"
abbreviation "M_Pacda \<equiv> Mnemonic 157"
abbreviation "M_Pacdb \<equiv> Mnemonic 158"
abbreviation "M_Paciza \<equiv> Mnemonic 159"
abbreviation "M_Pacizb \<equiv> Mnemonic 160"
abbreviation "M_Pacdza \<equiv> Mnemonic 161"
abbreviation "M_Pacdzb \<equiv> Mnemonic 162"
abbreviation "M_Pacia1716 \<equiv> Mnemonic 163"
abbreviation "M_Pacib1716 \<equiv> Mnemonic 164"
abbreviation "M_Paciasp \<equiv> Mnemonic 165"
abbreviation "M_Paciaz \<equiv> Mnemonic 166"
abbreviation "M_Pacibsp \<equiv> Mnemonic 167"
abbreviation "M_Pacibz \<equiv> Mnemonic 168"
abbreviation "M_Pacga \<equiv> Mnemonic 169"
abbreviation "M_Autia \<equiv> Mnemonic 170"
abbreviation "M_Autib \<equiv> Mnemonic 171"
abbreviation "M_Autda \<equiv> Mnemonic 172"
abbreviation "M_Autdb \<equiv> Mnemonic 173"
abbreviation "M_Autiza \<equiv> Mnemonic 174"
abbreviation "M_Autizb \<equiv> Mnemonic 175"
abbreviation "M_Autdza \<equiv> Mnemonic 176"
abbreviation "M_Autdzb \<equiv> Mnemonic 177"
abbreviation "M_Autia1716 \<equiv> Mnemonic 178"
abbreviation "M_Autib1716 \<equiv> Mnemonic 179"
abbreviation "M_Autiasp \<equiv> Mnemonic 180"
abbreviation "M_Autiaz \<equiv> Mnemonic 181"
abbreviation "M_Autibsp \<equiv> Mnemonic 182"
abbreviation "M_Autibz \<equiv> Mnemonic 183"
abbreviation "M_Xpaci \<equiv> Mnemonic 184"
abbreviation "M_Xpacd \<equiv> Mnemonic 185"
abbreviation "M_Xpaclri \<equiv> Mnemonic 186"
abbreviation "M_Retaa \<equiv> Mnemonic 187"
abbreviation "M_Retab \<equiv> Mnemonic 188"
abbreviation "M_Eretaa \<equiv> Mnemonic 189"
abbreviation "M_Eretab \<equiv> Mnemonic 190"
abbreviation "M_Ldrb \<equiv> Mnemonic 191"
abbreviation "M_Ldrh \<equiv> Mnemonic 192"
abbreviation "M_Ldrsb \<equiv> Mnemonic 193"
abbreviation "M_Ldrsh \<equiv> Mnemonic 194"
abbreviation "M_Ldrsw \<equiv> Mnemonic 195"
abbreviation "M_Strb \<equiv> Mnemonic 196"
abbreviation "M_Strh \<equiv> Mnemonic 197"
abbreviation "M_Ldur \<equiv> Mnemonic 198"
abbreviation "M_Stur \<equiv> Mnemonic 199"
abbreviation "M_Ldurb \<equiv> Mnemonic 200"
abbreviation "M_Ldurh \<equiv> Mnemonic 201"
abbreviation "M_Ldursb \<equiv> Mnemonic 202"
abbreviation "M_Ldursh \<equiv> Mnemonic 203"
abbreviation "M_Ldursw \<equiv> Mnemonic 204"
abbreviation "M_Sturb \<equiv> Mnemonic 205"
abbreviation "M_Sturh \<equiv> Mnemonic 206"
abbreviation "M_Ldtr \<equiv> Mnemonic 207"
abbreviation "M_Sttr \<equiv> Mnemonic 208"
abbreviation "M_Ldtrb \<equiv> Mnemonic 209"
abbreviation "M_Ldtrh \<equiv> Mnemonic 210"
abbreviation "M_Ldtrsb \<equiv> Mnemonic 211"
abbreviation "M_Ldtrsh \<equiv> Mnemonic 212"
abbreviation "M_Ldtrsw \<equiv> Mnemonic 213"
abbreviation "M_Sttrb \<equiv> Mnemonic 214"
abbreviation "M_Sttrh \<equiv> Mnemonic 215"
abbreviation "M_Prfm \<equiv> Mnemonic 216"
abbreviation "M_Prfum \<equiv> Mnemonic 217"
abbreviation "M_Ldp \<equiv> Mnemonic 218"
abbreviation "M_Stp \<equiv> Mnemonic 219"
abbreviation "M_Ldpsw \<equiv> Mnemonic 220"
abbreviation "M_Ldnp \<equiv> Mnemonic 221"
abbreviation "M_Stnp \<equiv> Mnemonic 222"
abbreviation "M_Ldar \<equiv> Mnemonic 223"
abbreviation "M_Ldarb \<equiv> Mnemonic 224"
abbreviation "M_Ldarh \<equiv> Mnemonic 225"
abbreviation "M_Stlr \<equiv> Mnemonic 226"
abbreviation "M_Stlrb \<equiv> Mnemonic 227"
abbreviation "M_Stlrh \<equiv> Mnemonic 228"
abbreviation "M_Ldxr \<equiv> Mnemonic 229"
abbreviation "M_Ldxrb \<equiv> Mnemonic 230"
abbreviation "M_Ldxrh \<equiv> Mnemonic 231"
abbreviation "M_Ldxp \<equiv> Mnemonic 232"
abbreviation "M_Stxr \<equiv> Mnemonic 233"
abbreviation "M_Stxrb \<equiv> Mnemonic 234"
abbreviation "M_Stxrh \<equiv> Mnemonic 235"
abbreviation "M_Stxp \<equiv> Mnemonic 236"
abbreviation "M_Ldaxr \<equiv> Mnemonic 237"
abbreviation "M_Ldaxrb \<equiv> Mnemonic 238"
abbreviation "M_Ldaxrh \<equiv> Mnemonic 239"
abbreviation "M_Ldaxp \<equiv> Mnemonic 240"
abbreviation "M_Stlxr \<equiv> Mnemonic 241"
abbreviation "M_Stlxrb \<equiv> Mnemonic 242"
abbreviation "M_Stlxrh \<equiv> Mnemonic 243"
abbreviation "M_Stlxp \<equiv> Mnemonic 244"
abbreviation "M_Ldapr \<equiv> Mnemonic 245"
abbreviation "M_Ldaprb \<equiv> Mnemonic 246"
abbreviation "M_Ldaprh \<equiv> Mnemonic 247"
abbreviation "M_Stllr \<equiv> Mnemonic 248"
abbreviation "M_Stllrb \<equiv> Mnemonic 249"
abbreviation "M_Stllrh \<equiv> Mnemonic 250"
abbreviation "M_Ldlar \<equiv> Mnemonic 251"
abbreviation "M_Ldlarb \<equiv> Mnemonic 252"
abbreviation "M_Ldlarh \<equiv> Mnemonic 253"
abbreviation "M_Cas \<equiv> Mnemonic 254"
abbreviation "M_Casa \<equiv> Mnemonic 255"
abbreviation "M_Casl \<equiv> Mnemonic 256"
abbreviation "M_Casal \<equiv> Mnemonic 257"
abbreviation "M_Casb \<equiv> Mnemonic 258"
abbreviation "M_Casab \<equiv> Mnemonic 259"
abbreviation "M_Caslb \<equiv> Mnemonic 260"
abbreviation "M_Casalb \<equiv> Mnemonic 261"
abbreviation "M_Cash \<equiv> Mnemonic 262"
abbreviation "M_Casah \<equiv> Mnemonic 263"
abbreviation "M_Caslh \<equiv> Mnemonic 264"
abbreviation "M_Casalh \<equiv> Mnemonic 265"
abbreviation "M_Casp \<equiv> Mnemonic 266"
abbreviation "M_Caspa \<equiv> Mnemonic 267"
abbreviation "M_Caspl \<equiv> Mnemonic 268"
abbreviation "M_Caspal \<equiv> Mnemonic 269"
abbreviation "M_Ld64b \<equiv> Mnemonic 270"
abbreviation "M_St64b \<equiv> Mnemonic 271"
abbreviation "M_St64bv \<equiv> Mnemonic 272"
abbreviation "M_St64bv0 \<equiv> Mnemonic 273"
abbreviation "M_Ldclrp \<equiv> Mnemonic 274"
abbreviation "M_Ldclrpa \<equiv> Mnemonic 275"
abbreviation "M_Ldclrpal \<equiv> Mnemonic 276"
abbreviation "M_Ldclrpl \<equiv> Mnemonic 277"
abbreviation "M_Ldsetp \<equiv> Mnemonic 278"
abbreviation "M_Ldsetpa \<equiv> Mnemonic 279"
abbreviation "M_Ldsetpal \<equiv> Mnemonic 280"
abbreviation "M_Ldsetpl \<equiv> Mnemonic 281"
abbreviation "M_Ldtadd \<equiv> Mnemonic 282"
abbreviation "M_Ldtadda \<equiv> Mnemonic 283"
abbreviation "M_Ldtaddal \<equiv> Mnemonic 284"
abbreviation "M_Ldtaddl \<equiv> Mnemonic 285"
abbreviation "M_Ldtclr \<equiv> Mnemonic 286"
abbreviation "M_Ldtclra \<equiv> Mnemonic 287"
abbreviation "M_Ldtclral \<equiv> Mnemonic 288"
abbreviation "M_Ldtclrl \<equiv> Mnemonic 289"
abbreviation "M_Ldtset \<equiv> Mnemonic 290"
abbreviation "M_Ldtseta \<equiv> Mnemonic 291"
abbreviation "M_Ldtsetal \<equiv> Mnemonic 292"
abbreviation "M_Ldtsetl \<equiv> Mnemonic 293"
abbreviation "M_Rcwcas \<equiv> Mnemonic 294"
abbreviation "M_Rcwcasa \<equiv> Mnemonic 295"
abbreviation "M_Rcwcasal \<equiv> Mnemonic 296"
abbreviation "M_Rcwcasl \<equiv> Mnemonic 297"
abbreviation "M_Rcwcasp \<equiv> Mnemonic 298"
abbreviation "M_Rcwcaspa \<equiv> Mnemonic 299"
abbreviation "M_Rcwcaspal \<equiv> Mnemonic 300"
abbreviation "M_Rcwcaspl \<equiv> Mnemonic 301"
abbreviation "M_Rcwclrp \<equiv> Mnemonic 302"
abbreviation "M_Rcwclrpa \<equiv> Mnemonic 303"
abbreviation "M_Rcwclrpal \<equiv> Mnemonic 304"
abbreviation "M_Rcwclrpl \<equiv> Mnemonic 305"
abbreviation "M_Rcwscas \<equiv> Mnemonic 306"
abbreviation "M_Rcwscasa \<equiv> Mnemonic 307"
abbreviation "M_Rcwscasal \<equiv> Mnemonic 308"
abbreviation "M_Rcwscasl \<equiv> Mnemonic 309"
abbreviation "M_Rcwscasp \<equiv> Mnemonic 310"
abbreviation "M_Rcwscaspa \<equiv> Mnemonic 311"
abbreviation "M_Rcwscaspal \<equiv> Mnemonic 312"
abbreviation "M_Rcwscaspl \<equiv> Mnemonic 313"
abbreviation "M_Rcwsclrp \<equiv> Mnemonic 314"
abbreviation "M_Rcwsclrpa \<equiv> Mnemonic 315"
abbreviation "M_Rcwsclrpal \<equiv> Mnemonic 316"
abbreviation "M_Rcwsclrpl \<equiv> Mnemonic 317"
abbreviation "M_Rcwsetp \<equiv> Mnemonic 318"
abbreviation "M_Rcwsetpa \<equiv> Mnemonic 319"
abbreviation "M_Rcwsetpal \<equiv> Mnemonic 320"
abbreviation "M_Rcwsetpl \<equiv> Mnemonic 321"
abbreviation "M_Rcwssetp \<equiv> Mnemonic 322"
abbreviation "M_Rcwssetpa \<equiv> Mnemonic 323"
abbreviation "M_Rcwssetpal \<equiv> Mnemonic 324"
abbreviation "M_Rcwssetpl \<equiv> Mnemonic 325"
abbreviation "M_Rcwsswpp \<equiv> Mnemonic 326"
abbreviation "M_Rcwsswppa \<equiv> Mnemonic 327"
abbreviation "M_Rcwsswppal \<equiv> Mnemonic 328"
abbreviation "M_Rcwsswppl \<equiv> Mnemonic 329"
abbreviation "M_Rcwswpp \<equiv> Mnemonic 330"
abbreviation "M_Rcwswppa \<equiv> Mnemonic 331"
abbreviation "M_Rcwswppal \<equiv> Mnemonic 332"
abbreviation "M_Rcwswppl \<equiv> Mnemonic 333"
abbreviation "M_Rcwclr \<equiv> Mnemonic 334"
abbreviation "M_Rcwclra \<equiv> Mnemonic 335"
abbreviation "M_Rcwclral \<equiv> Mnemonic 336"
abbreviation "M_Rcwclrl \<equiv> Mnemonic 337"
abbreviation "M_Rcwset \<equiv> Mnemonic 338"
abbreviation "M_Rcwseta \<equiv> Mnemonic 339"
abbreviation "M_Rcwsetal \<equiv> Mnemonic 340"
abbreviation "M_Rcwsetl \<equiv> Mnemonic 341"
abbreviation "M_Rcwswp \<equiv> Mnemonic 342"
abbreviation "M_Rcwswpa \<equiv> Mnemonic 343"
abbreviation "M_Rcwswpal \<equiv> Mnemonic 344"
abbreviation "M_Rcwswpl \<equiv> Mnemonic 345"
abbreviation "M_Rcwsclr \<equiv> Mnemonic 346"
abbreviation "M_Rcwsclra \<equiv> Mnemonic 347"
abbreviation "M_Rcwsclral \<equiv> Mnemonic 348"
abbreviation "M_Rcwsclrl \<equiv> Mnemonic 349"
abbreviation "M_Rcwsset \<equiv> Mnemonic 350"
abbreviation "M_Rcwsseta \<equiv> Mnemonic 351"
abbreviation "M_Rcwssetal \<equiv> Mnemonic 352"
abbreviation "M_Rcwssetl \<equiv> Mnemonic 353"
abbreviation "M_Rcwsswp \<equiv> Mnemonic 354"
abbreviation "M_Rcwsswpa \<equiv> Mnemonic 355"
abbreviation "M_Rcwsswpal \<equiv> Mnemonic 356"
abbreviation "M_Rcwsswpl \<equiv> Mnemonic 357"
abbreviation "M_Swpp \<equiv> Mnemonic 358"
abbreviation "M_Swppa \<equiv> Mnemonic 359"
abbreviation "M_Swppal \<equiv> Mnemonic 360"
abbreviation "M_Swppl \<equiv> Mnemonic 361"
abbreviation "M_Swpt \<equiv> Mnemonic 362"
abbreviation "M_Swpta \<equiv> Mnemonic 363"
abbreviation "M_Swptal \<equiv> Mnemonic 364"
abbreviation "M_Swptl \<equiv> Mnemonic 365"
abbreviation "M_Swp \<equiv> Mnemonic 366"
abbreviation "M_Swpa \<equiv> Mnemonic 367"
abbreviation "M_Swpl \<equiv> Mnemonic 368"
abbreviation "M_Swpal \<equiv> Mnemonic 369"
abbreviation "M_Swpb \<equiv> Mnemonic 370"
abbreviation "M_Swpab \<equiv> Mnemonic 371"
abbreviation "M_Swplb \<equiv> Mnemonic 372"
abbreviation "M_Swpalb \<equiv> Mnemonic 373"
abbreviation "M_Swph \<equiv> Mnemonic 374"
abbreviation "M_Swpah \<equiv> Mnemonic 375"
abbreviation "M_Swplh \<equiv> Mnemonic 376"
abbreviation "M_Swpalh \<equiv> Mnemonic 377"
abbreviation "M_Ldadd \<equiv> Mnemonic 378"
abbreviation "M_Ldclr \<equiv> Mnemonic 379"
abbreviation "M_Ldeor \<equiv> Mnemonic 380"
abbreviation "M_Ldset \<equiv> Mnemonic 381"
abbreviation "M_Ldsmax \<equiv> Mnemonic 382"
abbreviation "M_Ldsmin \<equiv> Mnemonic 383"
abbreviation "M_Ldumax \<equiv> Mnemonic 384"
abbreviation "M_Ldumin \<equiv> Mnemonic 385"
abbreviation "M_Ldadda \<equiv> Mnemonic 386"
abbreviation "M_Ldclra \<equiv> Mnemonic 387"
abbreviation "M_Ldeora \<equiv> Mnemonic 388"
abbreviation "M_Ldseta \<equiv> Mnemonic 389"
abbreviation "M_Ldaddl \<equiv> Mnemonic 390"
abbreviation "M_Ldclrl \<equiv> Mnemonic 391"
abbreviation "M_Ldeorl \<equiv> Mnemonic 392"
abbreviation "M_Ldsetl \<equiv> Mnemonic 393"
abbreviation "M_Ldaddal \<equiv> Mnemonic 394"
abbreviation "M_Ldclral \<equiv> Mnemonic 395"
abbreviation "M_Ldeoral \<equiv> Mnemonic 396"
abbreviation "M_Ldsetal \<equiv> Mnemonic 397"
abbreviation "M_Stadd \<equiv> Mnemonic 398"
abbreviation "M_Stclr \<equiv> Mnemonic 399"
abbreviation "M_Steor \<equiv> Mnemonic 400"
abbreviation "M_Stset \<equiv> Mnemonic 401"
abbreviation "M_Stsmax \<equiv> Mnemonic 402"
abbreviation "M_Stsmin \<equiv> Mnemonic 403"
abbreviation "M_Stumax \<equiv> Mnemonic 404"
abbreviation "M_Stumin \<equiv> Mnemonic 405"
abbreviation "M_Ldraa \<equiv> Mnemonic 406"
abbreviation "M_Ldrab \<equiv> Mnemonic 407"
abbreviation "M_Ldapur \<equiv> Mnemonic 408"
abbreviation "M_Ldapurb \<equiv> Mnemonic 409"
abbreviation "M_Ldapurh \<equiv> Mnemonic 410"
abbreviation "M_Ldapursb \<equiv> Mnemonic 411"
abbreviation "M_Ldapursh \<equiv> Mnemonic 412"
abbreviation "M_Ldapursw \<equiv> Mnemonic 413"
abbreviation "M_Stlur \<equiv> Mnemonic 414"
abbreviation "M_Stlurb \<equiv> Mnemonic 415"
abbreviation "M_Stlurh \<equiv> Mnemonic 416"
abbreviation "M_Ldiapp \<equiv> Mnemonic 417"
abbreviation "M_Stilp \<equiv> Mnemonic 418"
abbreviation "M_Ldtp \<equiv> Mnemonic 419"
abbreviation "M_Sttp \<equiv> Mnemonic 420"
abbreviation "M_Ldtnp \<equiv> Mnemonic 421"
abbreviation "M_Sttnp \<equiv> Mnemonic 422"
abbreviation "M_Stg \<equiv> Mnemonic 423"
abbreviation "M_Stzg \<equiv> Mnemonic 424"
abbreviation "M_St2g \<equiv> Mnemonic 425"
abbreviation "M_Stz2g \<equiv> Mnemonic 426"
abbreviation "M_Stgp \<equiv> Mnemonic 427"
abbreviation "M_Ldg \<equiv> Mnemonic 428"
abbreviation "M_Ldgm \<equiv> Mnemonic 429"
abbreviation "M_Stgm \<equiv> Mnemonic 430"
abbreviation "M_Stzgm \<equiv> Mnemonic 431"
abbreviation "M_Cpyfp \<equiv> Mnemonic 432"
abbreviation "M_Cpyfpwt \<equiv> Mnemonic 433"
abbreviation "M_Cpyfprt \<equiv> Mnemonic 434"
abbreviation "M_Cpyfpt \<equiv> Mnemonic 435"
abbreviation "M_Cpyfpwn \<equiv> Mnemonic 436"
abbreviation "M_Cpyfpwtwn \<equiv> Mnemonic 437"
abbreviation "M_Cpyfprtwn \<equiv> Mnemonic 438"
abbreviation "M_Cpyfptwn \<equiv> Mnemonic 439"
abbreviation "M_Cpyfprn \<equiv> Mnemonic 440"
abbreviation "M_Cpyfpwtrn \<equiv> Mnemonic 441"
abbreviation "M_Cpyfprtrn \<equiv> Mnemonic 442"
abbreviation "M_Cpyfptrn \<equiv> Mnemonic 443"
abbreviation "M_Cpyfpn \<equiv> Mnemonic 444"
abbreviation "M_Cpyfpwtn \<equiv> Mnemonic 445"
abbreviation "M_Cpyfprtn \<equiv> Mnemonic 446"
abbreviation "M_Cpyfptn \<equiv> Mnemonic 447"
abbreviation "M_Cpyfm \<equiv> Mnemonic 448"
abbreviation "M_Cpyfmwt \<equiv> Mnemonic 449"
abbreviation "M_Cpyfmrt \<equiv> Mnemonic 450"
abbreviation "M_Cpyfmt \<equiv> Mnemonic 451"
abbreviation "M_Cpyfmwn \<equiv> Mnemonic 452"
abbreviation "M_Cpyfmwtwn \<equiv> Mnemonic 453"
abbreviation "M_Cpyfmrtwn \<equiv> Mnemonic 454"
abbreviation "M_Cpyfmtwn \<equiv> Mnemonic 455"
abbreviation "M_Cpyfmrn \<equiv> Mnemonic 456"
abbreviation "M_Cpyfmwtrn \<equiv> Mnemonic 457"
abbreviation "M_Cpyfmrtrn \<equiv> Mnemonic 458"
abbreviation "M_Cpyfmtrn \<equiv> Mnemonic 459"
abbreviation "M_Cpyfmn \<equiv> Mnemonic 460"
abbreviation "M_Cpyfmwtn \<equiv> Mnemonic 461"
abbreviation "M_Cpyfmrtn \<equiv> Mnemonic 462"
abbreviation "M_Cpyfmtn \<equiv> Mnemonic 463"
abbreviation "M_Cpyfe \<equiv> Mnemonic 464"
abbreviation "M_Cpyfewt \<equiv> Mnemonic 465"
abbreviation "M_Cpyfert \<equiv> Mnemonic 466"
abbreviation "M_Cpyfet \<equiv> Mnemonic 467"
abbreviation "M_Cpyfewn \<equiv> Mnemonic 468"
abbreviation "M_Cpyfewtwn \<equiv> Mnemonic 469"
abbreviation "M_Cpyfertwn \<equiv> Mnemonic 470"
abbreviation "M_Cpyfetwn \<equiv> Mnemonic 471"
abbreviation "M_Cpyfern \<equiv> Mnemonic 472"
abbreviation "M_Cpyfewtrn \<equiv> Mnemonic 473"
abbreviation "M_Cpyfertrn \<equiv> Mnemonic 474"
abbreviation "M_Cpyfetrn \<equiv> Mnemonic 475"
abbreviation "M_Cpyfen \<equiv> Mnemonic 476"
abbreviation "M_Cpyfewtn \<equiv> Mnemonic 477"
abbreviation "M_Cpyfertn \<equiv> Mnemonic 478"
abbreviation "M_Cpyfetn \<equiv> Mnemonic 479"
abbreviation "M_Setp \<equiv> Mnemonic 480"
abbreviation "M_Setpt \<equiv> Mnemonic 481"
abbreviation "M_Setpn \<equiv> Mnemonic 482"
abbreviation "M_Setptn \<equiv> Mnemonic 483"
abbreviation "M_Setm \<equiv> Mnemonic 484"
abbreviation "M_Setmt \<equiv> Mnemonic 485"
abbreviation "M_Setmn \<equiv> Mnemonic 486"
abbreviation "M_Setmtn \<equiv> Mnemonic 487"
abbreviation "M_Sete \<equiv> Mnemonic 488"
abbreviation "M_Setet \<equiv> Mnemonic 489"
abbreviation "M_Seten \<equiv> Mnemonic 490"
abbreviation "M_Setetn \<equiv> Mnemonic 491"
abbreviation "M_Cpyp \<equiv> Mnemonic 492"
abbreviation "M_Cpypwt \<equiv> Mnemonic 493"
abbreviation "M_Cpyprt \<equiv> Mnemonic 494"
abbreviation "M_Cpypt \<equiv> Mnemonic 495"
abbreviation "M_Cpypwn \<equiv> Mnemonic 496"
abbreviation "M_Cpypwtwn \<equiv> Mnemonic 497"
abbreviation "M_Cpyprtwn \<equiv> Mnemonic 498"
abbreviation "M_Cpyptwn \<equiv> Mnemonic 499"
abbreviation "M_Cpyprn \<equiv> Mnemonic 500"
abbreviation "M_Cpypwtrn \<equiv> Mnemonic 501"
abbreviation "M_Cpyprtrn \<equiv> Mnemonic 502"
abbreviation "M_Cpyptrn \<equiv> Mnemonic 503"
abbreviation "M_Cpypn \<equiv> Mnemonic 504"
abbreviation "M_Cpypwtn \<equiv> Mnemonic 505"
abbreviation "M_Cpyprtn \<equiv> Mnemonic 506"
abbreviation "M_Cpyptn \<equiv> Mnemonic 507"
abbreviation "M_Cpym \<equiv> Mnemonic 508"
abbreviation "M_Cpymwt \<equiv> Mnemonic 509"
abbreviation "M_Cpymrt \<equiv> Mnemonic 510"
abbreviation "M_Cpymt \<equiv> Mnemonic 511"
abbreviation "M_Cpymwn \<equiv> Mnemonic 512"
abbreviation "M_Cpymwtwn \<equiv> Mnemonic 513"
abbreviation "M_Cpymrtwn \<equiv> Mnemonic 514"
abbreviation "M_Cpymtwn \<equiv> Mnemonic 515"
abbreviation "M_Cpymrn \<equiv> Mnemonic 516"
abbreviation "M_Cpymwtrn \<equiv> Mnemonic 517"
abbreviation "M_Cpymrtrn \<equiv> Mnemonic 518"
abbreviation "M_Cpymtrn \<equiv> Mnemonic 519"
abbreviation "M_Cpymn \<equiv> Mnemonic 520"
abbreviation "M_Cpymwtn \<equiv> Mnemonic 521"
abbreviation "M_Cpymrtn \<equiv> Mnemonic 522"
abbreviation "M_Cpymtn \<equiv> Mnemonic 523"
abbreviation "M_Cpye \<equiv> Mnemonic 524"
abbreviation "M_Cpyewt \<equiv> Mnemonic 525"
abbreviation "M_Cpyert \<equiv> Mnemonic 526"
abbreviation "M_Cpyet \<equiv> Mnemonic 527"
abbreviation "M_Cpyewn \<equiv> Mnemonic 528"
abbreviation "M_Cpyewtwn \<equiv> Mnemonic 529"
abbreviation "M_Cpyertwn \<equiv> Mnemonic 530"
abbreviation "M_Cpyetwn \<equiv> Mnemonic 531"
abbreviation "M_Cpyern \<equiv> Mnemonic 532"
abbreviation "M_Cpyewtrn \<equiv> Mnemonic 533"
abbreviation "M_Cpyertrn \<equiv> Mnemonic 534"
abbreviation "M_Cpyetrn \<equiv> Mnemonic 535"
abbreviation "M_Cpyen \<equiv> Mnemonic 536"
abbreviation "M_Cpyewtn \<equiv> Mnemonic 537"
abbreviation "M_Cpyertn \<equiv> Mnemonic 538"
abbreviation "M_Cpyetn \<equiv> Mnemonic 539"
abbreviation "M_Setgp \<equiv> Mnemonic 540"
abbreviation "M_Setgpt \<equiv> Mnemonic 541"
abbreviation "M_Setgpn \<equiv> Mnemonic 542"
abbreviation "M_Setgptn \<equiv> Mnemonic 543"
abbreviation "M_Setgm \<equiv> Mnemonic 544"
abbreviation "M_Setgmt \<equiv> Mnemonic 545"
abbreviation "M_Setgmn \<equiv> Mnemonic 546"
abbreviation "M_Setgmtn \<equiv> Mnemonic 547"
abbreviation "M_Setge \<equiv> Mnemonic 548"
abbreviation "M_Setget \<equiv> Mnemonic 549"
abbreviation "M_Setgen \<equiv> Mnemonic 550"
abbreviation "M_Setgetn \<equiv> Mnemonic 551"
abbreviation "M_Ldaddab \<equiv> Mnemonic 552"
abbreviation "M_Ldaddah \<equiv> Mnemonic 553"
abbreviation "M_Ldaddalb \<equiv> Mnemonic 554"
abbreviation "M_Ldaddalh \<equiv> Mnemonic 555"
abbreviation "M_Ldaddb \<equiv> Mnemonic 556"
abbreviation "M_Ldaddh \<equiv> Mnemonic 557"
abbreviation "M_Ldaddlb \<equiv> Mnemonic 558"
abbreviation "M_Ldaddlh \<equiv> Mnemonic 559"
abbreviation "M_Ldclrab \<equiv> Mnemonic 560"
abbreviation "M_Ldclrah \<equiv> Mnemonic 561"
abbreviation "M_Ldclralb \<equiv> Mnemonic 562"
abbreviation "M_Ldclralh \<equiv> Mnemonic 563"
abbreviation "M_Ldclrb \<equiv> Mnemonic 564"
abbreviation "M_Ldclrh \<equiv> Mnemonic 565"
abbreviation "M_Ldclrlb \<equiv> Mnemonic 566"
abbreviation "M_Ldclrlh \<equiv> Mnemonic 567"
abbreviation "M_Ldeorab \<equiv> Mnemonic 568"
abbreviation "M_Ldeorah \<equiv> Mnemonic 569"
abbreviation "M_Ldeoralb \<equiv> Mnemonic 570"
abbreviation "M_Ldeoralh \<equiv> Mnemonic 571"
abbreviation "M_Ldeorb \<equiv> Mnemonic 572"
abbreviation "M_Ldeorh \<equiv> Mnemonic 573"
abbreviation "M_Ldeorlb \<equiv> Mnemonic 574"
abbreviation "M_Ldeorlh \<equiv> Mnemonic 575"
abbreviation "M_Ldsetab \<equiv> Mnemonic 576"
abbreviation "M_Ldsetah \<equiv> Mnemonic 577"
abbreviation "M_Ldsetalb \<equiv> Mnemonic 578"
abbreviation "M_Ldsetalh \<equiv> Mnemonic 579"
abbreviation "M_Ldsetb \<equiv> Mnemonic 580"
abbreviation "M_Ldseth \<equiv> Mnemonic 581"
abbreviation "M_Ldsetlb \<equiv> Mnemonic 582"
abbreviation "M_Ldsetlh \<equiv> Mnemonic 583"
abbreviation "M_Ldsmaxa \<equiv> Mnemonic 584"
abbreviation "M_Ldsmaxab \<equiv> Mnemonic 585"
abbreviation "M_Ldsmaxah \<equiv> Mnemonic 586"
abbreviation "M_Ldsmaxal \<equiv> Mnemonic 587"
abbreviation "M_Ldsmaxalb \<equiv> Mnemonic 588"
abbreviation "M_Ldsmaxalh \<equiv> Mnemonic 589"
abbreviation "M_Ldsmaxb \<equiv> Mnemonic 590"
abbreviation "M_Ldsmaxh \<equiv> Mnemonic 591"
abbreviation "M_Ldsmaxl \<equiv> Mnemonic 592"
abbreviation "M_Ldsmaxlb \<equiv> Mnemonic 593"
abbreviation "M_Ldsmaxlh \<equiv> Mnemonic 594"
abbreviation "M_Ldsmina \<equiv> Mnemonic 595"
abbreviation "M_Ldsminab \<equiv> Mnemonic 596"
abbreviation "M_Ldsminah \<equiv> Mnemonic 597"
abbreviation "M_Ldsminal \<equiv> Mnemonic 598"
abbreviation "M_Ldsminalb \<equiv> Mnemonic 599"
abbreviation "M_Ldsminalh \<equiv> Mnemonic 600"
abbreviation "M_Ldsminb \<equiv> Mnemonic 601"
abbreviation "M_Ldsminh \<equiv> Mnemonic 602"
abbreviation "M_Ldsminl \<equiv> Mnemonic 603"
abbreviation "M_Ldsminlb \<equiv> Mnemonic 604"
abbreviation "M_Ldsminlh \<equiv> Mnemonic 605"
abbreviation "M_Ldumaxa \<equiv> Mnemonic 606"
abbreviation "M_Ldumaxab \<equiv> Mnemonic 607"
abbreviation "M_Ldumaxah \<equiv> Mnemonic 608"
abbreviation "M_Ldumaxal \<equiv> Mnemonic 609"
abbreviation "M_Ldumaxalb \<equiv> Mnemonic 610"
abbreviation "M_Ldumaxalh \<equiv> Mnemonic 611"
abbreviation "M_Ldumaxb \<equiv> Mnemonic 612"
abbreviation "M_Ldumaxh \<equiv> Mnemonic 613"
abbreviation "M_Ldumaxl \<equiv> Mnemonic 614"
abbreviation "M_Ldumaxlb \<equiv> Mnemonic 615"
abbreviation "M_Ldumaxlh \<equiv> Mnemonic 616"
abbreviation "M_Ldumina \<equiv> Mnemonic 617"
abbreviation "M_Lduminab \<equiv> Mnemonic 618"
abbreviation "M_Lduminah \<equiv> Mnemonic 619"
abbreviation "M_Lduminal \<equiv> Mnemonic 620"
abbreviation "M_Lduminalb \<equiv> Mnemonic 621"
abbreviation "M_Lduminalh \<equiv> Mnemonic 622"
abbreviation "M_Lduminb \<equiv> Mnemonic 623"
abbreviation "M_Lduminh \<equiv> Mnemonic 624"
abbreviation "M_Lduminl \<equiv> Mnemonic 625"
abbreviation "M_Lduminlb \<equiv> Mnemonic 626"
abbreviation "M_Lduminlh \<equiv> Mnemonic 627"
abbreviation "M_Staddb \<equiv> Mnemonic 628"
abbreviation "M_Staddh \<equiv> Mnemonic 629"
abbreviation "M_Staddl \<equiv> Mnemonic 630"
abbreviation "M_Staddlb \<equiv> Mnemonic 631"
abbreviation "M_Staddlh \<equiv> Mnemonic 632"
abbreviation "M_Stclrb \<equiv> Mnemonic 633"
abbreviation "M_Stclrh \<equiv> Mnemonic 634"
abbreviation "M_Stclrl \<equiv> Mnemonic 635"
abbreviation "M_Stclrlb \<equiv> Mnemonic 636"
abbreviation "M_Stclrlh \<equiv> Mnemonic 637"
abbreviation "M_Steorb \<equiv> Mnemonic 638"
abbreviation "M_Steorh \<equiv> Mnemonic 639"
abbreviation "M_Steorl \<equiv> Mnemonic 640"
abbreviation "M_Steorlb \<equiv> Mnemonic 641"
abbreviation "M_Steorlh \<equiv> Mnemonic 642"
abbreviation "M_Stsetb \<equiv> Mnemonic 643"
abbreviation "M_Stseth \<equiv> Mnemonic 644"
abbreviation "M_Stsetl \<equiv> Mnemonic 645"
abbreviation "M_Stsetlb \<equiv> Mnemonic 646"
abbreviation "M_Stsetlh \<equiv> Mnemonic 647"
abbreviation "M_Stsmaxb \<equiv> Mnemonic 648"
abbreviation "M_Stsmaxh \<equiv> Mnemonic 649"
abbreviation "M_Stsmaxl \<equiv> Mnemonic 650"
abbreviation "M_Stsmaxlb \<equiv> Mnemonic 651"
abbreviation "M_Stsmaxlh \<equiv> Mnemonic 652"
abbreviation "M_Stsminb \<equiv> Mnemonic 653"
abbreviation "M_Stsminh \<equiv> Mnemonic 654"
abbreviation "M_Stsminl \<equiv> Mnemonic 655"
abbreviation "M_Stsminlb \<equiv> Mnemonic 656"
abbreviation "M_Stsminlh \<equiv> Mnemonic 657"
abbreviation "M_Stumaxb \<equiv> Mnemonic 658"
abbreviation "M_Stumaxh \<equiv> Mnemonic 659"
abbreviation "M_Stumaxl \<equiv> Mnemonic 660"
abbreviation "M_Stumaxlb \<equiv> Mnemonic 661"
abbreviation "M_Stumaxlh \<equiv> Mnemonic 662"
abbreviation "M_Stuminb \<equiv> Mnemonic 663"
abbreviation "M_Stuminh \<equiv> Mnemonic 664"
abbreviation "M_Stuminl \<equiv> Mnemonic 665"
abbreviation "M_Stuminlb \<equiv> Mnemonic 666"
abbreviation "M_Stuminlh \<equiv> Mnemonic 667"
abbreviation "M_Fmov \<equiv> Mnemonic 668"
abbreviation "M_Fcvt \<equiv> Mnemonic 669"
abbreviation "M_Fcvtzs \<equiv> Mnemonic 670"
abbreviation "M_Fcvtzu \<equiv> Mnemonic 671"
abbreviation "M_Fcvtas \<equiv> Mnemonic 672"
abbreviation "M_Fcvtau \<equiv> Mnemonic 673"
abbreviation "M_Fcvtms \<equiv> Mnemonic 674"
abbreviation "M_Fcvtmu \<equiv> Mnemonic 675"
abbreviation "M_Fcvtns \<equiv> Mnemonic 676"
abbreviation "M_Fcvtnu \<equiv> Mnemonic 677"
abbreviation "M_Fcvtps \<equiv> Mnemonic 678"
abbreviation "M_Fcvtpu \<equiv> Mnemonic 679"
abbreviation "M_Scvtf \<equiv> Mnemonic 680"
abbreviation "M_Ucvtf \<equiv> Mnemonic 681"
abbreviation "M_Fabs \<equiv> Mnemonic 682"
abbreviation "M_Fneg \<equiv> Mnemonic 683"
abbreviation "M_Fsqrt \<equiv> Mnemonic 684"
abbreviation "M_Fadd \<equiv> Mnemonic 685"
abbreviation "M_Fsub \<equiv> Mnemonic 686"
abbreviation "M_Fmul \<equiv> Mnemonic 687"
abbreviation "M_Fdiv \<equiv> Mnemonic 688"
abbreviation "M_Fnmul \<equiv> Mnemonic 689"
abbreviation "M_Fmadd \<equiv> Mnemonic 690"
abbreviation "M_Fmsub \<equiv> Mnemonic 691"
abbreviation "M_Fnmadd \<equiv> Mnemonic 692"
abbreviation "M_Fnmsub \<equiv> Mnemonic 693"
abbreviation "M_Fmax \<equiv> Mnemonic 694"
abbreviation "M_Fmin \<equiv> Mnemonic 695"
abbreviation "M_Fmaxnm \<equiv> Mnemonic 696"
abbreviation "M_Fminnm \<equiv> Mnemonic 697"
abbreviation "M_Fcmp \<equiv> Mnemonic 698"
abbreviation "M_Fcmpe \<equiv> Mnemonic 699"
abbreviation "M_Fccmp \<equiv> Mnemonic 700"
abbreviation "M_Fccmpe \<equiv> Mnemonic 701"
abbreviation "M_Fcsel \<equiv> Mnemonic 702"
abbreviation "M_Frinta \<equiv> Mnemonic 703"
abbreviation "M_Frinti \<equiv> Mnemonic 704"
abbreviation "M_Frintm \<equiv> Mnemonic 705"
abbreviation "M_Frintn \<equiv> Mnemonic 706"
abbreviation "M_Frintp \<equiv> Mnemonic 707"
abbreviation "M_Frintx \<equiv> Mnemonic 708"
abbreviation "M_Frintz \<equiv> Mnemonic 709"
abbreviation "M_Fjcvtzs \<equiv> Mnemonic 710"
abbreviation "M_Frint32x \<equiv> Mnemonic 711"
abbreviation "M_Frint32z \<equiv> Mnemonic 712"
abbreviation "M_Frint64x \<equiv> Mnemonic 713"
abbreviation "M_Frint64z \<equiv> Mnemonic 714"
abbreviation "M_Bfcvt \<equiv> Mnemonic 715"
abbreviation "M_Dup \<equiv> Mnemonic 716"
abbreviation "M_Ins \<equiv> Mnemonic 717"
abbreviation "M_Umov \<equiv> Mnemonic 718"
abbreviation "M_Smov \<equiv> Mnemonic 719"
abbreviation "M_Movi \<equiv> Mnemonic 720"
abbreviation "M_Mvni \<equiv> Mnemonic 721"
abbreviation "M_Tbl \<equiv> Mnemonic 722"
abbreviation "M_Tbx \<equiv> Mnemonic 723"
abbreviation "M_Luti2 \<equiv> Mnemonic 724"
abbreviation "M_Luti4 \<equiv> Mnemonic 725"
abbreviation "M_Ext \<equiv> Mnemonic 726"
abbreviation "M_Zip1 \<equiv> Mnemonic 727"
abbreviation "M_Zip2 \<equiv> Mnemonic 728"
abbreviation "M_Uzp1 \<equiv> Mnemonic 729"
abbreviation "M_Uzp2 \<equiv> Mnemonic 730"
abbreviation "M_Zip \<equiv> Mnemonic 731"
abbreviation "M_Uzp \<equiv> Mnemonic 732"
abbreviation "M_Trn1 \<equiv> Mnemonic 733"
abbreviation "M_Trn2 \<equiv> Mnemonic 734"
abbreviation "M_Addv \<equiv> Mnemonic 735"
abbreviation "M_Cnt \<equiv> Mnemonic 736"
abbreviation "M_Ld1 \<equiv> Mnemonic 737"
abbreviation "M_Ld2 \<equiv> Mnemonic 738"
abbreviation "M_Ld3 \<equiv> Mnemonic 739"
abbreviation "M_Ld4 \<equiv> Mnemonic 740"
abbreviation "M_St1 \<equiv> Mnemonic 741"
abbreviation "M_St2 \<equiv> Mnemonic 742"
abbreviation "M_St3 \<equiv> Mnemonic 743"
abbreviation "M_St4 \<equiv> Mnemonic 744"
abbreviation "M_Ld1r \<equiv> Mnemonic 745"
abbreviation "M_Ld2r \<equiv> Mnemonic 746"
abbreviation "M_Ld3r \<equiv> Mnemonic 747"
abbreviation "M_Ld4r \<equiv> Mnemonic 748"
abbreviation "M_Addg \<equiv> Mnemonic 749"
abbreviation "M_Subg \<equiv> Mnemonic 750"
abbreviation "M_Subp \<equiv> Mnemonic 751"
abbreviation "M_Subps \<equiv> Mnemonic 752"
abbreviation "M_Irg \<equiv> Mnemonic 753"
abbreviation "M_Gmi \<equiv> Mnemonic 754"
abbreviation "M_Cfp \<equiv> Mnemonic 755"
abbreviation "M_Cpp \<equiv> Mnemonic 756"
abbreviation "M_Dvp \<equiv> Mnemonic 757"
abbreviation "M_Tcancel \<equiv> Mnemonic 758"
abbreviation "M_Tcommit \<equiv> Mnemonic 759"
abbreviation "M_Tstart \<equiv> Mnemonic 760"
abbreviation "M_Ttest \<equiv> Mnemonic 761"
abbreviation "M_Tsb \<equiv> Mnemonic 762"
abbreviation "M_Wfet \<equiv> Mnemonic 763"
abbreviation "M_Wfit \<equiv> Mnemonic 764"
abbreviation "M_Udf \<equiv> Mnemonic 765"
abbreviation "M_Abs \<equiv> Mnemonic 766"
abbreviation "M_Addhn \<equiv> Mnemonic 767"
abbreviation "M_Addhn2 \<equiv> Mnemonic 768"
abbreviation "M_Addp \<equiv> Mnemonic 769"
abbreviation "M_Cmeq \<equiv> Mnemonic 770"
abbreviation "M_Cmge \<equiv> Mnemonic 771"
abbreviation "M_Cmgt \<equiv> Mnemonic 772"
abbreviation "M_Cmhi \<equiv> Mnemonic 773"
abbreviation "M_Cmhs \<equiv> Mnemonic 774"
abbreviation "M_Cmle \<equiv> Mnemonic 775"
abbreviation "M_Cmlt \<equiv> Mnemonic 776"
abbreviation "M_Cmtst \<equiv> Mnemonic 777"
abbreviation "M_Fabd \<equiv> Mnemonic 778"
abbreviation "M_Facge \<equiv> Mnemonic 779"
abbreviation "M_Facgt \<equiv> Mnemonic 780"
abbreviation "M_Faddp \<equiv> Mnemonic 781"
abbreviation "M_Fcadd \<equiv> Mnemonic 782"
abbreviation "M_Fcmeq \<equiv> Mnemonic 783"
abbreviation "M_Fcmge \<equiv> Mnemonic 784"
abbreviation "M_Fcmgt \<equiv> Mnemonic 785"
abbreviation "M_Fcmla \<equiv> Mnemonic 786"
abbreviation "M_Fcmle \<equiv> Mnemonic 787"
abbreviation "M_Fcmlt \<equiv> Mnemonic 788"
abbreviation "M_Fcvtl \<equiv> Mnemonic 789"
abbreviation "M_Fcvtl2 \<equiv> Mnemonic 790"
abbreviation "M_Fcvtn \<equiv> Mnemonic 791"
abbreviation "M_Fcvtn2 \<equiv> Mnemonic 792"
abbreviation "M_Famax \<equiv> Mnemonic 793"
abbreviation "M_Famin \<equiv> Mnemonic 794"
abbreviation "M_Bfcvtn \<equiv> Mnemonic 795"
abbreviation "M_Bfcvtn2 \<equiv> Mnemonic 796"
abbreviation "M_F1cvtl \<equiv> Mnemonic 797"
abbreviation "M_F1cvtl2 \<equiv> Mnemonic 798"
abbreviation "M_F2cvtl \<equiv> Mnemonic 799"
abbreviation "M_F2cvtl2 \<equiv> Mnemonic 800"
abbreviation "M_Bf1cvtl \<equiv> Mnemonic 801"
abbreviation "M_Bf1cvtl2 \<equiv> Mnemonic 802"
abbreviation "M_Bf2cvtl \<equiv> Mnemonic 803"
abbreviation "M_Bf2cvtl2 \<equiv> Mnemonic 804"
abbreviation "M_Fcvtxn \<equiv> Mnemonic 805"
abbreviation "M_Fcvtxn2 \<equiv> Mnemonic 806"
abbreviation "M_Fmaxnmp \<equiv> Mnemonic 807"
abbreviation "M_Fmaxnmv \<equiv> Mnemonic 808"
abbreviation "M_Fmaxp \<equiv> Mnemonic 809"
abbreviation "M_Fmaxv \<equiv> Mnemonic 810"
abbreviation "M_Fminnmp \<equiv> Mnemonic 811"
abbreviation "M_Fminnmv \<equiv> Mnemonic 812"
abbreviation "M_Fminp \<equiv> Mnemonic 813"
abbreviation "M_Fminv \<equiv> Mnemonic 814"
abbreviation "M_Fmla \<equiv> Mnemonic 815"
abbreviation "M_Fmlal \<equiv> Mnemonic 816"
abbreviation "M_Fmlal2 \<equiv> Mnemonic 817"
abbreviation "M_Fmls \<equiv> Mnemonic 818"
abbreviation "M_Fmlsl \<equiv> Mnemonic 819"
abbreviation "M_Fmlsl2 \<equiv> Mnemonic 820"
abbreviation "M_Fmulx \<equiv> Mnemonic 821"
abbreviation "M_Frecpe \<equiv> Mnemonic 822"
abbreviation "M_Frecps \<equiv> Mnemonic 823"
abbreviation "M_Frecpx \<equiv> Mnemonic 824"
abbreviation "M_Frsqrte \<equiv> Mnemonic 825"
abbreviation "M_Frsqrts \<equiv> Mnemonic 826"
abbreviation "M_Mla \<equiv> Mnemonic 827"
abbreviation "M_Mls \<equiv> Mnemonic 828"
abbreviation "M_Pmul \<equiv> Mnemonic 829"
abbreviation "M_Pmull \<equiv> Mnemonic 830"
abbreviation "M_Pmull2 \<equiv> Mnemonic 831"
abbreviation "M_Raddhn \<equiv> Mnemonic 832"
abbreviation "M_Raddhn2 \<equiv> Mnemonic 833"
abbreviation "M_Rev64 \<equiv> Mnemonic 834"
abbreviation "M_Rsubhn \<equiv> Mnemonic 835"
abbreviation "M_Rsubhn2 \<equiv> Mnemonic 836"
abbreviation "M_Saba \<equiv> Mnemonic 837"
abbreviation "M_Sabal \<equiv> Mnemonic 838"
abbreviation "M_Sabal2 \<equiv> Mnemonic 839"
abbreviation "M_Sabd \<equiv> Mnemonic 840"
abbreviation "M_Sabdl \<equiv> Mnemonic 841"
abbreviation "M_Sabdl2 \<equiv> Mnemonic 842"
abbreviation "M_Sadalp \<equiv> Mnemonic 843"
abbreviation "M_Saddl \<equiv> Mnemonic 844"
abbreviation "M_Saddl2 \<equiv> Mnemonic 845"
abbreviation "M_Saddlp \<equiv> Mnemonic 846"
abbreviation "M_Saddlv \<equiv> Mnemonic 847"
abbreviation "M_Saddw \<equiv> Mnemonic 848"
abbreviation "M_Saddw2 \<equiv> Mnemonic 849"
abbreviation "M_Shadd \<equiv> Mnemonic 850"
abbreviation "M_Shll \<equiv> Mnemonic 851"
abbreviation "M_Shll2 \<equiv> Mnemonic 852"
abbreviation "M_Shsub \<equiv> Mnemonic 853"
abbreviation "M_Smax \<equiv> Mnemonic 854"
abbreviation "M_Smaxp \<equiv> Mnemonic 855"
abbreviation "M_Smaxv \<equiv> Mnemonic 856"
abbreviation "M_Smin \<equiv> Mnemonic 857"
abbreviation "M_Sminp \<equiv> Mnemonic 858"
abbreviation "M_Sminv \<equiv> Mnemonic 859"
abbreviation "M_Smlal \<equiv> Mnemonic 860"
abbreviation "M_Smlal2 \<equiv> Mnemonic 861"
abbreviation "M_Smlsl \<equiv> Mnemonic 862"
abbreviation "M_Smlsl2 \<equiv> Mnemonic 863"
abbreviation "M_Smull2 \<equiv> Mnemonic 864"
abbreviation "M_Sqabs \<equiv> Mnemonic 865"
abbreviation "M_Sqadd \<equiv> Mnemonic 866"
abbreviation "M_Sqdmlal \<equiv> Mnemonic 867"
abbreviation "M_Sqdmlal2 \<equiv> Mnemonic 868"
abbreviation "M_Sqdmlsl \<equiv> Mnemonic 869"
abbreviation "M_Sqdmlsl2 \<equiv> Mnemonic 870"
abbreviation "M_Sqdmulh \<equiv> Mnemonic 871"
abbreviation "M_Sqdmull \<equiv> Mnemonic 872"
abbreviation "M_Sqdmull2 \<equiv> Mnemonic 873"
abbreviation "M_Sqneg \<equiv> Mnemonic 874"
abbreviation "M_Sqrdmlah \<equiv> Mnemonic 875"
abbreviation "M_Sqrdmlsh \<equiv> Mnemonic 876"
abbreviation "M_Sqrdmulh \<equiv> Mnemonic 877"
abbreviation "M_Sqrshl \<equiv> Mnemonic 878"
abbreviation "M_Sqshl \<equiv> Mnemonic 879"
abbreviation "M_Sqsub \<equiv> Mnemonic 880"
abbreviation "M_Sqxtn \<equiv> Mnemonic 881"
abbreviation "M_Sqxtn2 \<equiv> Mnemonic 882"
abbreviation "M_Sqxtun \<equiv> Mnemonic 883"
abbreviation "M_Sqxtun2 \<equiv> Mnemonic 884"
abbreviation "M_Srhadd \<equiv> Mnemonic 885"
abbreviation "M_Srshl \<equiv> Mnemonic 886"
abbreviation "M_Sshl \<equiv> Mnemonic 887"
abbreviation "M_Ssubl \<equiv> Mnemonic 888"
abbreviation "M_Ssubl2 \<equiv> Mnemonic 889"
abbreviation "M_Ssubw \<equiv> Mnemonic 890"
abbreviation "M_Ssubw2 \<equiv> Mnemonic 891"
abbreviation "M_Subhn \<equiv> Mnemonic 892"
abbreviation "M_Subhn2 \<equiv> Mnemonic 893"
abbreviation "M_Suqadd \<equiv> Mnemonic 894"
abbreviation "M_Uaba \<equiv> Mnemonic 895"
abbreviation "M_Uabal \<equiv> Mnemonic 896"
abbreviation "M_Uabal2 \<equiv> Mnemonic 897"
abbreviation "M_Uabd \<equiv> Mnemonic 898"
abbreviation "M_Uabdl \<equiv> Mnemonic 899"
abbreviation "M_Uabdl2 \<equiv> Mnemonic 900"
abbreviation "M_Uadalp \<equiv> Mnemonic 901"
abbreviation "M_Uaddl \<equiv> Mnemonic 902"
abbreviation "M_Uaddl2 \<equiv> Mnemonic 903"
abbreviation "M_Uaddlp \<equiv> Mnemonic 904"
abbreviation "M_Uaddlv \<equiv> Mnemonic 905"
abbreviation "M_Uaddw \<equiv> Mnemonic 906"
abbreviation "M_Uaddw2 \<equiv> Mnemonic 907"
abbreviation "M_Uhadd \<equiv> Mnemonic 908"
abbreviation "M_Uhsub \<equiv> Mnemonic 909"
abbreviation "M_Umax \<equiv> Mnemonic 910"
abbreviation "M_Umaxp \<equiv> Mnemonic 911"
abbreviation "M_Umaxv \<equiv> Mnemonic 912"
abbreviation "M_Umin \<equiv> Mnemonic 913"
abbreviation "M_Uminp \<equiv> Mnemonic 914"
abbreviation "M_Uminv \<equiv> Mnemonic 915"
abbreviation "M_Umlal \<equiv> Mnemonic 916"
abbreviation "M_Umlal2 \<equiv> Mnemonic 917"
abbreviation "M_Umlsl \<equiv> Mnemonic 918"
abbreviation "M_Umlsl2 \<equiv> Mnemonic 919"
abbreviation "M_Umull2 \<equiv> Mnemonic 920"
abbreviation "M_Uqadd \<equiv> Mnemonic 921"
abbreviation "M_Uqrshl \<equiv> Mnemonic 922"
abbreviation "M_Uqshl \<equiv> Mnemonic 923"
abbreviation "M_Uqsub \<equiv> Mnemonic 924"
abbreviation "M_Uqxtn \<equiv> Mnemonic 925"
abbreviation "M_Uqxtn2 \<equiv> Mnemonic 926"
abbreviation "M_Urecpe \<equiv> Mnemonic 927"
abbreviation "M_Urhadd \<equiv> Mnemonic 928"
abbreviation "M_Urshl \<equiv> Mnemonic 929"
abbreviation "M_Ursqrte \<equiv> Mnemonic 930"
abbreviation "M_Ushl \<equiv> Mnemonic 931"
abbreviation "M_Usqadd \<equiv> Mnemonic 932"
abbreviation "M_Usubl \<equiv> Mnemonic 933"
abbreviation "M_Usubl2 \<equiv> Mnemonic 934"
abbreviation "M_Usubw \<equiv> Mnemonic 935"
abbreviation "M_Usubw2 \<equiv> Mnemonic 936"
abbreviation "M_Xtn \<equiv> Mnemonic 937"
abbreviation "M_Xtn2 \<equiv> Mnemonic 938"
abbreviation "M_Sshr \<equiv> Mnemonic 939"
abbreviation "M_Ushr \<equiv> Mnemonic 940"
abbreviation "M_Srshr \<equiv> Mnemonic 941"
abbreviation "M_Urshr \<equiv> Mnemonic 942"
abbreviation "M_Ssra \<equiv> Mnemonic 943"
abbreviation "M_Usra \<equiv> Mnemonic 944"
abbreviation "M_Srsra \<equiv> Mnemonic 945"
abbreviation "M_Ursra \<equiv> Mnemonic 946"
abbreviation "M_Shl \<equiv> Mnemonic 947"
abbreviation "M_Sqshlu \<equiv> Mnemonic 948"
abbreviation "M_Shrn \<equiv> Mnemonic 949"
abbreviation "M_Shrn2 \<equiv> Mnemonic 950"
abbreviation "M_Rshrn \<equiv> Mnemonic 951"
abbreviation "M_Rshrn2 \<equiv> Mnemonic 952"
abbreviation "M_Sqshrn \<equiv> Mnemonic 953"
abbreviation "M_Sqshrn2 \<equiv> Mnemonic 954"
abbreviation "M_Sqrshrn \<equiv> Mnemonic 955"
abbreviation "M_Sqrshrn2 \<equiv> Mnemonic 956"
abbreviation "M_Uqshrn \<equiv> Mnemonic 957"
abbreviation "M_Uqshrn2 \<equiv> Mnemonic 958"
abbreviation "M_Uqrshrn \<equiv> Mnemonic 959"
abbreviation "M_Uqrshrn2 \<equiv> Mnemonic 960"
abbreviation "M_Sqshrun \<equiv> Mnemonic 961"
abbreviation "M_Sqshrun2 \<equiv> Mnemonic 962"
abbreviation "M_Sqrshrun \<equiv> Mnemonic 963"
abbreviation "M_Sqrshrun2 \<equiv> Mnemonic 964"
abbreviation "M_Sshll \<equiv> Mnemonic 965"
abbreviation "M_Sshll2 \<equiv> Mnemonic 966"
abbreviation "M_Ushll \<equiv> Mnemonic 967"
abbreviation "M_Ushll2 \<equiv> Mnemonic 968"
abbreviation "M_Sxtl \<equiv> Mnemonic 969"
abbreviation "M_Sxtl2 \<equiv> Mnemonic 970"
abbreviation "M_Uxtl \<equiv> Mnemonic 971"
abbreviation "M_Uxtl2 \<equiv> Mnemonic 972"
abbreviation "M_Sli \<equiv> Mnemonic 973"
abbreviation "M_Sri \<equiv> Mnemonic 974"
abbreviation "M_Subr \<equiv> Mnemonic 975"
abbreviation "M_Sdivr \<equiv> Mnemonic 976"
abbreviation "M_Udivr \<equiv> Mnemonic 977"
abbreviation "M_Mad \<equiv> Mnemonic 978"
abbreviation "M_Msb \<equiv> Mnemonic 979"
abbreviation "M_Cnot \<equiv> Mnemonic 980"
abbreviation "M_Not \<equiv> Mnemonic 981"
abbreviation "M_Index \<equiv> Mnemonic 982"
abbreviation "M_Movprfx \<equiv> Mnemonic 983"
abbreviation "M_Asrd \<equiv> Mnemonic 984"
abbreviation "M_Asrr \<equiv> Mnemonic 985"
abbreviation "M_Lslr \<equiv> Mnemonic 986"
abbreviation "M_Lsrr \<equiv> Mnemonic 987"
abbreviation "M_Saddv \<equiv> Mnemonic 988"
abbreviation "M_Uaddv \<equiv> Mnemonic 989"
abbreviation "M_Andv \<equiv> Mnemonic 990"
abbreviation "M_Orv \<equiv> Mnemonic 991"
abbreviation "M_Eorv \<equiv> Mnemonic 992"
abbreviation "M_Dupm \<equiv> Mnemonic 993"
abbreviation "M_Cpy \<equiv> Mnemonic 994"
abbreviation "M_Sel \<equiv> Mnemonic 995"
abbreviation "M_Insr \<equiv> Mnemonic 996"
abbreviation "M_Cmpeq \<equiv> Mnemonic 997"
abbreviation "M_Cmpge \<equiv> Mnemonic 998"
abbreviation "M_Cmpgt \<equiv> Mnemonic 999"
abbreviation "M_Cmphi \<equiv> Mnemonic 1000"
abbreviation "M_Cmphs \<equiv> Mnemonic 1001"
abbreviation "M_Cmpne \<equiv> Mnemonic 1002"
abbreviation "M_Cmple \<equiv> Mnemonic 1003"
abbreviation "M_Cmplo \<equiv> Mnemonic 1004"
abbreviation "M_Cmpls \<equiv> Mnemonic 1005"
abbreviation "M_Cmplt \<equiv> Mnemonic 1006"
abbreviation "M_Incb \<equiv> Mnemonic 1007"
abbreviation "M_Inch \<equiv> Mnemonic 1008"
abbreviation "M_Incw \<equiv> Mnemonic 1009"
abbreviation "M_Incd \<equiv> Mnemonic 1010"
abbreviation "M_Decb \<equiv> Mnemonic 1011"
abbreviation "M_Dech \<equiv> Mnemonic 1012"
abbreviation "M_Decw \<equiv> Mnemonic 1013"
abbreviation "M_Decd \<equiv> Mnemonic 1014"
abbreviation "M_Sqincb \<equiv> Mnemonic 1015"
abbreviation "M_Sqinch \<equiv> Mnemonic 1016"
abbreviation "M_Sqincw \<equiv> Mnemonic 1017"
abbreviation "M_Sqincd \<equiv> Mnemonic 1018"
abbreviation "M_Sqdecb \<equiv> Mnemonic 1019"
abbreviation "M_Sqdech \<equiv> Mnemonic 1020"
abbreviation "M_Sqdecw \<equiv> Mnemonic 1021"
abbreviation "M_Sqdecd \<equiv> Mnemonic 1022"
abbreviation "M_Uqincb \<equiv> Mnemonic 1023"
abbreviation "M_Uqinch \<equiv> Mnemonic 1024"
abbreviation "M_Uqincw \<equiv> Mnemonic 1025"
abbreviation "M_Uqincd \<equiv> Mnemonic 1026"
abbreviation "M_Uqdecb \<equiv> Mnemonic 1027"
abbreviation "M_Uqdech \<equiv> Mnemonic 1028"
abbreviation "M_Uqdecw \<equiv> Mnemonic 1029"
abbreviation "M_Uqdecd \<equiv> Mnemonic 1030"
abbreviation "M_Incp \<equiv> Mnemonic 1031"
abbreviation "M_Decp \<equiv> Mnemonic 1032"
abbreviation "M_Sqincp \<equiv> Mnemonic 1033"
abbreviation "M_Sqdecp \<equiv> Mnemonic 1034"
abbreviation "M_Uqincp \<equiv> Mnemonic 1035"
abbreviation "M_Uqdecp \<equiv> Mnemonic 1036"
abbreviation "M_Cntb \<equiv> Mnemonic 1037"
abbreviation "M_Cnth \<equiv> Mnemonic 1038"
abbreviation "M_Cntw \<equiv> Mnemonic 1039"
abbreviation "M_Cntd \<equiv> Mnemonic 1040"
abbreviation "M_Cntp \<equiv> Mnemonic 1041"
abbreviation "M_Addvl \<equiv> Mnemonic 1042"
abbreviation "M_Addpl \<equiv> Mnemonic 1043"
abbreviation "M_Rdvl \<equiv> Mnemonic 1044"
abbreviation "M_Sdot \<equiv> Mnemonic 1045"
abbreviation "M_Udot \<equiv> Mnemonic 1046"
abbreviation "M_Usdot \<equiv> Mnemonic 1047"
abbreviation "M_Sudot \<equiv> Mnemonic 1048"
abbreviation "M_Movs \<equiv> Mnemonic 1049"
abbreviation "M_Nots \<equiv> Mnemonic 1050"
abbreviation "M_Orrs \<equiv> Mnemonic 1051"
abbreviation "M_Eors \<equiv> Mnemonic 1052"
abbreviation "M_Orns \<equiv> Mnemonic 1053"
abbreviation "M_Nand \<equiv> Mnemonic 1054"
abbreviation "M_Nands \<equiv> Mnemonic 1055"
abbreviation "M_Nor \<equiv> Mnemonic 1056"
abbreviation "M_Nors \<equiv> Mnemonic 1057"
abbreviation "M_Rdffr \<equiv> Mnemonic 1058"
abbreviation "M_Uxtw \<equiv> Mnemonic 1059"
abbreviation "M_Cadd \<equiv> Mnemonic 1060"
abbreviation "M_Sqcadd \<equiv> Mnemonic 1061"
abbreviation "M_Cmla \<equiv> Mnemonic 1062"
abbreviation "M_Cdot \<equiv> Mnemonic 1063"
abbreviation "M_Sqrdcmlah \<equiv> Mnemonic 1064"
abbreviation "M_Smullb \<equiv> Mnemonic 1065"
abbreviation "M_Smullt \<equiv> Mnemonic 1066"
abbreviation "M_Umullb \<equiv> Mnemonic 1067"
abbreviation "M_Umullt \<equiv> Mnemonic 1068"
abbreviation "M_Smlalb \<equiv> Mnemonic 1069"
abbreviation "M_Smlalt \<equiv> Mnemonic 1070"
abbreviation "M_Umlalb \<equiv> Mnemonic 1071"
abbreviation "M_Umlalt \<equiv> Mnemonic 1072"
abbreviation "M_Smlslb \<equiv> Mnemonic 1073"
abbreviation "M_Smlslt \<equiv> Mnemonic 1074"
abbreviation "M_Umlslb \<equiv> Mnemonic 1075"
abbreviation "M_Umlslt \<equiv> Mnemonic 1076"
abbreviation "M_Sqdmullb \<equiv> Mnemonic 1077"
abbreviation "M_Sqdmullt \<equiv> Mnemonic 1078"
abbreviation "M_Sqdmlalb \<equiv> Mnemonic 1079"
abbreviation "M_Sqdmlalt \<equiv> Mnemonic 1080"
abbreviation "M_Sqdmlslb \<equiv> Mnemonic 1081"
abbreviation "M_Sqdmlslt \<equiv> Mnemonic 1082"
abbreviation "M_Sqdmlslbt \<equiv> Mnemonic 1083"
abbreviation "M_Sqdmlalbt \<equiv> Mnemonic 1084"
abbreviation "M_Sabdlb \<equiv> Mnemonic 1085"
abbreviation "M_Sabdlt \<equiv> Mnemonic 1086"
abbreviation "M_Uabdlb \<equiv> Mnemonic 1087"
abbreviation "M_Uabdlt \<equiv> Mnemonic 1088"
abbreviation "M_Pmullb \<equiv> Mnemonic 1089"
abbreviation "M_Pmullt \<equiv> Mnemonic 1090"
abbreviation "M_Shsubr \<equiv> Mnemonic 1091"
abbreviation "M_Uhsubr \<equiv> Mnemonic 1092"
abbreviation "M_Smmla \<equiv> Mnemonic 1093"
abbreviation "M_Ummla \<equiv> Mnemonic 1094"
abbreviation "M_Usmmla \<equiv> Mnemonic 1095"
abbreviation "M_Histcnt \<equiv> Mnemonic 1096"
abbreviation "M_Bfmmla \<equiv> Mnemonic 1097"
abbreviation "M_Revb \<equiv> Mnemonic 1098"
abbreviation "M_Revh \<equiv> Mnemonic 1099"
abbreviation "M_Revw \<equiv> Mnemonic 1100"
abbreviation "M_Splice \<equiv> Mnemonic 1101"
abbreviation "M_Compact \<equiv> Mnemonic 1102"
abbreviation "M_Sunpkhi \<equiv> Mnemonic 1103"
abbreviation "M_Sunpklo \<equiv> Mnemonic 1104"
abbreviation "M_Uunpkhi \<equiv> Mnemonic 1105"
abbreviation "M_Uunpklo \<equiv> Mnemonic 1106"
abbreviation "M_Punpkhi \<equiv> Mnemonic 1107"
abbreviation "M_Punpklo \<equiv> Mnemonic 1108"
abbreviation "M_Clasta \<equiv> Mnemonic 1109"
abbreviation "M_Clastb \<equiv> Mnemonic 1110"
abbreviation "M_Lasta \<equiv> Mnemonic 1111"
abbreviation "M_Lastb \<equiv> Mnemonic 1112"
abbreviation "M_Ptrue \<equiv> Mnemonic 1113"
abbreviation "M_Ptrues \<equiv> Mnemonic 1114"
abbreviation "M_Pfalse \<equiv> Mnemonic 1115"
abbreviation "M_Ptest \<equiv> Mnemonic 1116"
abbreviation "M_Pfirst \<equiv> Mnemonic 1117"
abbreviation "M_Pnext \<equiv> Mnemonic 1118"
abbreviation "M_Rdffrs \<equiv> Mnemonic 1119"
abbreviation "M_Wrffr \<equiv> Mnemonic 1120"
abbreviation "M_Setffr \<equiv> Mnemonic 1121"
abbreviation "M_Brka \<equiv> Mnemonic 1122"
abbreviation "M_Brkas \<equiv> Mnemonic 1123"
abbreviation "M_Brkb \<equiv> Mnemonic 1124"
abbreviation "M_Brkbs \<equiv> Mnemonic 1125"
abbreviation "M_Brkn \<equiv> Mnemonic 1126"
abbreviation "M_Brkns \<equiv> Mnemonic 1127"
abbreviation "M_Brkpa \<equiv> Mnemonic 1128"
abbreviation "M_Brkpas \<equiv> Mnemonic 1129"
abbreviation "M_Brkpb \<equiv> Mnemonic 1130"
abbreviation "M_Brkpbs \<equiv> Mnemonic 1131"
abbreviation "M_Whilelt \<equiv> Mnemonic 1132"
abbreviation "M_Whilele \<equiv> Mnemonic 1133"
abbreviation "M_Whilelo \<equiv> Mnemonic 1134"
abbreviation "M_Whilels \<equiv> Mnemonic 1135"
abbreviation "M_Whilege \<equiv> Mnemonic 1136"
abbreviation "M_Whilegt \<equiv> Mnemonic 1137"
abbreviation "M_Whilehi \<equiv> Mnemonic 1138"
abbreviation "M_Whilehs \<equiv> Mnemonic 1139"
abbreviation "M_Whilerw \<equiv> Mnemonic 1140"
abbreviation "M_Whilewr \<equiv> Mnemonic 1141"
abbreviation "M_Ctermeq \<equiv> Mnemonic 1142"
abbreviation "M_Ctermne \<equiv> Mnemonic 1143"
abbreviation "M_Pmov \<equiv> Mnemonic 1144"
abbreviation "M_Expand \<equiv> Mnemonic 1145"
abbreviation "M_Dupq \<equiv> Mnemonic 1146"
abbreviation "M_Extq \<equiv> Mnemonic 1147"
abbreviation "M_Addqv \<equiv> Mnemonic 1148"
abbreviation "M_Smaxqv \<equiv> Mnemonic 1149"
abbreviation "M_Umaxqv \<equiv> Mnemonic 1150"
abbreviation "M_Sminqv \<equiv> Mnemonic 1151"
abbreviation "M_Uminqv \<equiv> Mnemonic 1152"
abbreviation "M_Orqv \<equiv> Mnemonic 1153"
abbreviation "M_Eorqv \<equiv> Mnemonic 1154"
abbreviation "M_Andqv \<equiv> Mnemonic 1155"
abbreviation "M_Faddqv \<equiv> Mnemonic 1156"
abbreviation "M_Fmaxnmqv \<equiv> Mnemonic 1157"
abbreviation "M_Fminnmqv \<equiv> Mnemonic 1158"
abbreviation "M_Fmaxqv \<equiv> Mnemonic 1159"
abbreviation "M_Fminqv \<equiv> Mnemonic 1160"
abbreviation "M_Fmad \<equiv> Mnemonic 1161"
abbreviation "M_Fmsb \<equiv> Mnemonic 1162"
abbreviation "M_Fnmad \<equiv> Mnemonic 1163"
abbreviation "M_Fnmsb \<equiv> Mnemonic 1164"
abbreviation "M_Fnmla \<equiv> Mnemonic 1165"
abbreviation "M_Fnmls \<equiv> Mnemonic 1166"
abbreviation "M_Fscale \<equiv> Mnemonic 1167"
abbreviation "M_Fadda \<equiv> Mnemonic 1168"
abbreviation "M_Faddv \<equiv> Mnemonic 1169"
abbreviation "M_Flogb \<equiv> Mnemonic 1170"
abbreviation "M_Fexpa \<equiv> Mnemonic 1171"
abbreviation "M_Ftmad \<equiv> Mnemonic 1172"
abbreviation "M_Ftsmul \<equiv> Mnemonic 1173"
abbreviation "M_Ftssel \<equiv> Mnemonic 1174"
abbreviation "M_Fcvtlt \<equiv> Mnemonic 1175"
abbreviation "M_Fcvtnt \<equiv> Mnemonic 1176"
abbreviation "M_Fcvtx \<equiv> Mnemonic 1177"
abbreviation "M_Fcvtxnt \<equiv> Mnemonic 1178"
abbreviation "M_Fmmla \<equiv> Mnemonic 1179"
abbreviation "M_Bfdot \<equiv> Mnemonic 1180"
abbreviation "M_Bfmlalb \<equiv> Mnemonic 1181"
abbreviation "M_Bfmlalt \<equiv> Mnemonic 1182"
abbreviation "M_Bfcvtnt \<equiv> Mnemonic 1183"
abbreviation "M_Fmlalb \<equiv> Mnemonic 1184"
abbreviation "M_Fmlalt \<equiv> Mnemonic 1185"
abbreviation "M_Fmlslb \<equiv> Mnemonic 1186"
abbreviation "M_Fmlslt \<equiv> Mnemonic 1187"
abbreviation "M_Fdivr \<equiv> Mnemonic 1188"
abbreviation "M_Fsubr \<equiv> Mnemonic 1189"
abbreviation "M_Fcmne \<equiv> Mnemonic 1190"
abbreviation "M_Fcmuo \<equiv> Mnemonic 1191"
abbreviation "M_Fdup \<equiv> Mnemonic 1192"
abbreviation "M_Ld1b \<equiv> Mnemonic 1193"
abbreviation "M_Ld1h \<equiv> Mnemonic 1194"
abbreviation "M_Ld1w \<equiv> Mnemonic 1195"
abbreviation "M_Ld1d \<equiv> Mnemonic 1196"
abbreviation "M_Ld1sb \<equiv> Mnemonic 1197"
abbreviation "M_Ld1sh \<equiv> Mnemonic 1198"
abbreviation "M_Ld1sw \<equiv> Mnemonic 1199"
abbreviation "M_Ldff1b \<equiv> Mnemonic 1200"
abbreviation "M_Ldff1h \<equiv> Mnemonic 1201"
abbreviation "M_Ldff1w \<equiv> Mnemonic 1202"
abbreviation "M_Ldff1d \<equiv> Mnemonic 1203"
abbreviation "M_Ldff1sb \<equiv> Mnemonic 1204"
abbreviation "M_Ldff1sh \<equiv> Mnemonic 1205"
abbreviation "M_Ldff1sw \<equiv> Mnemonic 1206"
abbreviation "M_Ldnf1b \<equiv> Mnemonic 1207"
abbreviation "M_Ldnf1h \<equiv> Mnemonic 1208"
abbreviation "M_Ldnf1w \<equiv> Mnemonic 1209"
abbreviation "M_Ldnf1d \<equiv> Mnemonic 1210"
abbreviation "M_Ldnf1sb \<equiv> Mnemonic 1211"
abbreviation "M_Ldnf1sh \<equiv> Mnemonic 1212"
abbreviation "M_Ldnf1sw \<equiv> Mnemonic 1213"
abbreviation "M_Ldnt1b \<equiv> Mnemonic 1214"
abbreviation "M_Ldnt1h \<equiv> Mnemonic 1215"
abbreviation "M_Ldnt1w \<equiv> Mnemonic 1216"
abbreviation "M_Ldnt1d \<equiv> Mnemonic 1217"
abbreviation "M_Ldnt1sb \<equiv> Mnemonic 1218"
abbreviation "M_Ldnt1sh \<equiv> Mnemonic 1219"
abbreviation "M_Ldnt1sw \<equiv> Mnemonic 1220"
abbreviation "M_Ld1rb \<equiv> Mnemonic 1221"
abbreviation "M_Ld1rh \<equiv> Mnemonic 1222"
abbreviation "M_Ld1rw \<equiv> Mnemonic 1223"
abbreviation "M_Ld1rd \<equiv> Mnemonic 1224"
abbreviation "M_Ld1rsb \<equiv> Mnemonic 1225"
abbreviation "M_Ld1rsh \<equiv> Mnemonic 1226"
abbreviation "M_Ld1rsw \<equiv> Mnemonic 1227"
abbreviation "M_Ld1rqb \<equiv> Mnemonic 1228"
abbreviation "M_Ld1rqh \<equiv> Mnemonic 1229"
abbreviation "M_Ld1rqw \<equiv> Mnemonic 1230"
abbreviation "M_Ld1rqd \<equiv> Mnemonic 1231"
abbreviation "M_Ld1rob \<equiv> Mnemonic 1232"
abbreviation "M_Ld1roh \<equiv> Mnemonic 1233"
abbreviation "M_Ld1row \<equiv> Mnemonic 1234"
abbreviation "M_Ld1rod \<equiv> Mnemonic 1235"
abbreviation "M_Ld2b \<equiv> Mnemonic 1236"
abbreviation "M_Ld2h \<equiv> Mnemonic 1237"
abbreviation "M_Ld2w \<equiv> Mnemonic 1238"
abbreviation "M_Ld2d \<equiv> Mnemonic 1239"
abbreviation "M_Ld3b \<equiv> Mnemonic 1240"
abbreviation "M_Ld3h \<equiv> Mnemonic 1241"
abbreviation "M_Ld3w \<equiv> Mnemonic 1242"
abbreviation "M_Ld3d \<equiv> Mnemonic 1243"
abbreviation "M_Ld4b \<equiv> Mnemonic 1244"
abbreviation "M_Ld4h \<equiv> Mnemonic 1245"
abbreviation "M_Ld4w \<equiv> Mnemonic 1246"
abbreviation "M_Ld4d \<equiv> Mnemonic 1247"
abbreviation "M_St1b \<equiv> Mnemonic 1248"
abbreviation "M_St1h \<equiv> Mnemonic 1249"
abbreviation "M_St1w \<equiv> Mnemonic 1250"
abbreviation "M_St1d \<equiv> Mnemonic 1251"
abbreviation "M_St2b \<equiv> Mnemonic 1252"
abbreviation "M_St2h \<equiv> Mnemonic 1253"
abbreviation "M_St2w \<equiv> Mnemonic 1254"
abbreviation "M_St2d \<equiv> Mnemonic 1255"
abbreviation "M_St3b \<equiv> Mnemonic 1256"
abbreviation "M_St3h \<equiv> Mnemonic 1257"
abbreviation "M_St3w \<equiv> Mnemonic 1258"
abbreviation "M_St3d \<equiv> Mnemonic 1259"
abbreviation "M_St4b \<equiv> Mnemonic 1260"
abbreviation "M_St4h \<equiv> Mnemonic 1261"
abbreviation "M_St4w \<equiv> Mnemonic 1262"
abbreviation "M_St4d \<equiv> Mnemonic 1263"
abbreviation "M_Stnt1b \<equiv> Mnemonic 1264"
abbreviation "M_Stnt1h \<equiv> Mnemonic 1265"
abbreviation "M_Stnt1w \<equiv> Mnemonic 1266"
abbreviation "M_Stnt1d \<equiv> Mnemonic 1267"
abbreviation "M_Prfb \<equiv> Mnemonic 1268"
abbreviation "M_Prfh \<equiv> Mnemonic 1269"
abbreviation "M_Prfw \<equiv> Mnemonic 1270"
abbreviation "M_Prfd \<equiv> Mnemonic 1271"
abbreviation "M_Eor3 \<equiv> Mnemonic 1272"
abbreviation "M_Bcax \<equiv> Mnemonic 1273"
abbreviation "M_Bsl \<equiv> Mnemonic 1274"
abbreviation "M_Bsl1n \<equiv> Mnemonic 1275"
abbreviation "M_Bsl2n \<equiv> Mnemonic 1276"
abbreviation "M_Nbsl \<equiv> Mnemonic 1277"
abbreviation "M_Xar \<equiv> Mnemonic 1278"
abbreviation "M_Rax1 \<equiv> Mnemonic 1279"
abbreviation "M_Saddlb \<equiv> Mnemonic 1280"
abbreviation "M_Saddlt \<equiv> Mnemonic 1281"
abbreviation "M_Uaddlb \<equiv> Mnemonic 1282"
abbreviation "M_Uaddlt \<equiv> Mnemonic 1283"
abbreviation "M_Ssublb \<equiv> Mnemonic 1284"
abbreviation "M_Ssublt \<equiv> Mnemonic 1285"
abbreviation "M_Usublb \<equiv> Mnemonic 1286"
abbreviation "M_Usublt \<equiv> Mnemonic 1287"
abbreviation "M_Saddwb \<equiv> Mnemonic 1288"
abbreviation "M_Saddwt \<equiv> Mnemonic 1289"
abbreviation "M_Uaddwb \<equiv> Mnemonic 1290"
abbreviation "M_Uaddwt \<equiv> Mnemonic 1291"
abbreviation "M_Ssubwb \<equiv> Mnemonic 1292"
abbreviation "M_Ssubwt \<equiv> Mnemonic 1293"
abbreviation "M_Usubwb \<equiv> Mnemonic 1294"
abbreviation "M_Usubwt \<equiv> Mnemonic 1295"
abbreviation "M_Addhnb \<equiv> Mnemonic 1296"
abbreviation "M_Addhnt \<equiv> Mnemonic 1297"
abbreviation "M_Subhnb \<equiv> Mnemonic 1298"
abbreviation "M_Subhnt \<equiv> Mnemonic 1299"
abbreviation "M_Raddhnb \<equiv> Mnemonic 1300"
abbreviation "M_Raddhnt \<equiv> Mnemonic 1301"
abbreviation "M_Rsubhnb \<equiv> Mnemonic 1302"
abbreviation "M_Rsubhnt \<equiv> Mnemonic 1303"
abbreviation "M_Saddlbt \<equiv> Mnemonic 1304"
abbreviation "M_Ssublbt \<equiv> Mnemonic 1305"
abbreviation "M_Ssubltb \<equiv> Mnemonic 1306"
abbreviation "M_Sabalb \<equiv> Mnemonic 1307"
abbreviation "M_Sabalt \<equiv> Mnemonic 1308"
abbreviation "M_Uabalb \<equiv> Mnemonic 1309"
abbreviation "M_Uabalt \<equiv> Mnemonic 1310"
abbreviation "M_Adclb \<equiv> Mnemonic 1311"
abbreviation "M_Adclt \<equiv> Mnemonic 1312"
abbreviation "M_Sbclb \<equiv> Mnemonic 1313"
abbreviation "M_Sbclt \<equiv> Mnemonic 1314"
abbreviation "M_Sqsubr \<equiv> Mnemonic 1315"
abbreviation "M_Uqsubr \<equiv> Mnemonic 1316"
abbreviation "M_Sqshlr \<equiv> Mnemonic 1317"
abbreviation "M_Uqshlr \<equiv> Mnemonic 1318"
abbreviation "M_Srshlr \<equiv> Mnemonic 1319"
abbreviation "M_Urshlr \<equiv> Mnemonic 1320"
abbreviation "M_Sqrshlr \<equiv> Mnemonic 1321"
abbreviation "M_Uqrshlr \<equiv> Mnemonic 1322"
abbreviation "M_Sshllb \<equiv> Mnemonic 1323"
abbreviation "M_Sshllt \<equiv> Mnemonic 1324"
abbreviation "M_Ushllb \<equiv> Mnemonic 1325"
abbreviation "M_Ushllt \<equiv> Mnemonic 1326"
abbreviation "M_Shrnb \<equiv> Mnemonic 1327"
abbreviation "M_Shrnt \<equiv> Mnemonic 1328"
abbreviation "M_Rshrnb \<equiv> Mnemonic 1329"
abbreviation "M_Rshrnt \<equiv> Mnemonic 1330"
abbreviation "M_Sqshrnb \<equiv> Mnemonic 1331"
abbreviation "M_Sqshrnt \<equiv> Mnemonic 1332"
abbreviation "M_Sqrshrnb \<equiv> Mnemonic 1333"
abbreviation "M_Sqrshrnt \<equiv> Mnemonic 1334"
abbreviation "M_Uqshrnb \<equiv> Mnemonic 1335"
abbreviation "M_Uqshrnt \<equiv> Mnemonic 1336"
abbreviation "M_Uqrshrnb \<equiv> Mnemonic 1337"
abbreviation "M_Uqrshrnt \<equiv> Mnemonic 1338"
abbreviation "M_Sqshrunb \<equiv> Mnemonic 1339"
abbreviation "M_Sqshrunt \<equiv> Mnemonic 1340"
abbreviation "M_Sqrshrunb \<equiv> Mnemonic 1341"
abbreviation "M_Sqrshrunt \<equiv> Mnemonic 1342"
abbreviation "M_Sqxtnb \<equiv> Mnemonic 1343"
abbreviation "M_Sqxtnt \<equiv> Mnemonic 1344"
abbreviation "M_Sqxtunb \<equiv> Mnemonic 1345"
abbreviation "M_Sqxtunt \<equiv> Mnemonic 1346"
abbreviation "M_Uqxtnb \<equiv> Mnemonic 1347"
abbreviation "M_Uqxtnt \<equiv> Mnemonic 1348"
abbreviation "M_Bext \<equiv> Mnemonic 1349"
abbreviation "M_Bdep \<equiv> Mnemonic 1350"
abbreviation "M_Bgrp \<equiv> Mnemonic 1351"
abbreviation "M_Eorbt \<equiv> Mnemonic 1352"
abbreviation "M_Eortb \<equiv> Mnemonic 1353"
abbreviation "M_Histseg \<equiv> Mnemonic 1354"
abbreviation "M_Sm4e \<equiv> Mnemonic 1355"
abbreviation "M_Sm4ekey \<equiv> Mnemonic 1356"
abbreviation "M_Match \<equiv> Mnemonic 1357"
abbreviation "M_Nmatch \<equiv> Mnemonic 1358"
abbreviation "M_Aesd \<equiv> Mnemonic 1359"
abbreviation "M_Aese \<equiv> Mnemonic 1360"
abbreviation "M_Aesmc \<equiv> Mnemonic 1361"
abbreviation "M_Aesimc \<equiv> Mnemonic 1362"
abbreviation "M_Sclamp \<equiv> Mnemonic 1363"
abbreviation "M_Uclamp \<equiv> Mnemonic 1364"
abbreviation "M_Fclamp \<equiv> Mnemonic 1365"
abbreviation "M_Bfclamp \<equiv> Mnemonic 1366"
abbreviation "M_Sha1c \<equiv> Mnemonic 1367"
abbreviation "M_Sha1p \<equiv> Mnemonic 1368"
abbreviation "M_Sha1m \<equiv> Mnemonic 1369"
abbreviation "M_Sha1h \<equiv> Mnemonic 1370"
abbreviation "M_Sha1su0 \<equiv> Mnemonic 1371"
abbreviation "M_Sha1su1 \<equiv> Mnemonic 1372"
abbreviation "M_Sha256h \<equiv> Mnemonic 1373"
abbreviation "M_Sha256h2 \<equiv> Mnemonic 1374"
abbreviation "M_Sha256su0 \<equiv> Mnemonic 1375"
abbreviation "M_Sha256su1 \<equiv> Mnemonic 1376"
abbreviation "M_Sha512h \<equiv> Mnemonic 1377"
abbreviation "M_Sha512h2 \<equiv> Mnemonic 1378"
abbreviation "M_Sha512su0 \<equiv> Mnemonic 1379"
abbreviation "M_Sha512su1 \<equiv> Mnemonic 1380"
abbreviation "M_Sm3ss1 \<equiv> Mnemonic 1381"
abbreviation "M_Sm3tt1a \<equiv> Mnemonic 1382"
abbreviation "M_Sm3tt1b \<equiv> Mnemonic 1383"
abbreviation "M_Sm3tt2a \<equiv> Mnemonic 1384"
abbreviation "M_Sm3tt2b \<equiv> Mnemonic 1385"
abbreviation "M_Sm3partw1 \<equiv> Mnemonic 1386"
abbreviation "M_Sm3partw2 \<equiv> Mnemonic 1387"
abbreviation "M_Rmif \<equiv> Mnemonic 1388"
abbreviation "M_Setf8 \<equiv> Mnemonic 1389"
abbreviation "M_Setf16 \<equiv> Mnemonic 1390"
abbreviation "M_Smstart \<equiv> Mnemonic 1391"
abbreviation "M_Smstop \<equiv> Mnemonic 1392"
abbreviation "M_Mova \<equiv> Mnemonic 1393"
abbreviation "M_Fmopa \<equiv> Mnemonic 1394"
abbreviation "M_Fmops \<equiv> Mnemonic 1395"
abbreviation "M_Bfmopa \<equiv> Mnemonic 1396"
abbreviation "M_Bfmops \<equiv> Mnemonic 1397"
abbreviation "M_Smopa \<equiv> Mnemonic 1398"
abbreviation "M_Smops \<equiv> Mnemonic 1399"
abbreviation "M_Umopa \<equiv> Mnemonic 1400"
abbreviation "M_Umops \<equiv> Mnemonic 1401"
abbreviation "M_Sumopa \<equiv> Mnemonic 1402"
abbreviation "M_Sumops \<equiv> Mnemonic 1403"
abbreviation "M_Usmopa \<equiv> Mnemonic 1404"
abbreviation "M_Usmops \<equiv> Mnemonic 1405"
abbreviation "M_Addha \<equiv> Mnemonic 1406"
abbreviation "M_Addva \<equiv> Mnemonic 1407"
abbreviation "M_Zero \<equiv> Mnemonic 1408"
abbreviation "M_Ld1q \<equiv> Mnemonic 1409"
abbreviation "M_St1q \<equiv> Mnemonic 1410"
abbreviation "M_Bit \<equiv> Mnemonic 1411"
abbreviation "M_Bif \<equiv> Mnemonic 1412"
abbreviation "M_Ctz \<equiv> Mnemonic 1413"
abbreviation "M_Mrrs \<equiv> Mnemonic 1414"
abbreviation "M_Msrr \<equiv> Mnemonic 1415"
abbreviation "M_Sysp \<equiv> Mnemonic 1416"
abbreviation "M_Tlbip \<equiv> Mnemonic 1417"
abbreviation "M_Smlall \<equiv> Mnemonic 1418"
abbreviation "M_Smlsll \<equiv> Mnemonic 1419"
abbreviation "M_Umlall \<equiv> Mnemonic 1420"
abbreviation "M_Umlsll \<equiv> Mnemonic 1421"
abbreviation "M_Usmlall \<equiv> Mnemonic 1422"
abbreviation "M_Sumlall \<equiv> Mnemonic 1423"
abbreviation "M_Fmlall \<equiv> Mnemonic 1424"
abbreviation "M_Bfmla \<equiv> Mnemonic 1425"
abbreviation "M_Bfmls \<equiv> Mnemonic 1426"
abbreviation "M_Bfmul \<equiv> Mnemonic 1427"
abbreviation "M_Bfmlal \<equiv> Mnemonic 1428"
abbreviation "M_Bfmlsl \<equiv> Mnemonic 1429"
abbreviation "M_Ftmopa \<equiv> Mnemonic 1430"
abbreviation "M_Stmopa \<equiv> Mnemonic 1431"
abbreviation "M_Bftmopa \<equiv> Mnemonic 1432"
abbreviation "M_Utmopa \<equiv> Mnemonic 1433"
abbreviation "M_Sutmopa \<equiv> Mnemonic 1434"
abbreviation "M_Ustmopa \<equiv> Mnemonic 1435"
abbreviation "M_Zipq1 \<equiv> Mnemonic 1436"
abbreviation "M_Zipq2 \<equiv> Mnemonic 1437"
abbreviation "M_Uzpq1 \<equiv> Mnemonic 1438"
abbreviation "M_Uzpq2 \<equiv> Mnemonic 1439"
abbreviation "M_Tblq \<equiv> Mnemonic 1440"
abbreviation "M_Tbxq \<equiv> Mnemonic 1441"
abbreviation "M_Addpt \<equiv> Mnemonic 1442"
abbreviation "M_Subpt \<equiv> Mnemonic 1443"
abbreviation "M_Maddpt \<equiv> Mnemonic 1444"
abbreviation "M_Msubpt \<equiv> Mnemonic 1445"
abbreviation "M_Cbgt \<equiv> Mnemonic 1446"
abbreviation "M_Cbge \<equiv> Mnemonic 1447"
abbreviation "M_Cbhi \<equiv> Mnemonic 1448"
abbreviation "M_Cbhs \<equiv> Mnemonic 1449"
abbreviation "M_Cbeq \<equiv> Mnemonic 1450"
abbreviation "M_Cbne \<equiv> Mnemonic 1451"
abbreviation "M_Cblt \<equiv> Mnemonic 1452"
abbreviation "M_Cblo \<equiv> Mnemonic 1453"
abbreviation "M_Cbbgt \<equiv> Mnemonic 1454"
abbreviation "M_Cbbge \<equiv> Mnemonic 1455"
abbreviation "M_Cbbhi \<equiv> Mnemonic 1456"
abbreviation "M_Cbbhs \<equiv> Mnemonic 1457"
abbreviation "M_Cbbeq \<equiv> Mnemonic 1458"
abbreviation "M_Cbbne \<equiv> Mnemonic 1459"
abbreviation "M_Cbhgt \<equiv> Mnemonic 1460"
abbreviation "M_Cbhge \<equiv> Mnemonic 1461"
abbreviation "M_Cbhhi \<equiv> Mnemonic 1462"
abbreviation "M_Cbhhs \<equiv> Mnemonic 1463"
abbreviation "M_Cbheq \<equiv> Mnemonic 1464"
abbreviation "M_Cbhne \<equiv> Mnemonic 1465"
abbreviation "M_Fdot \<equiv> Mnemonic 1466"
abbreviation "M_Fmlallbb \<equiv> Mnemonic 1467"
abbreviation "M_Fmlallbt \<equiv> Mnemonic 1468"
abbreviation "M_Fmlalltb \<equiv> Mnemonic 1469"
abbreviation "M_Fmlalltt \<equiv> Mnemonic 1470"
abbreviation "M_Fvdot \<equiv> Mnemonic 1471"
abbreviation "M_Bfvdot \<equiv> Mnemonic 1472"
abbreviation "M_Uvdot \<equiv> Mnemonic 1473"
abbreviation "M_Svdot \<equiv> Mnemonic 1474"
abbreviation "M_Suvdot \<equiv> Mnemonic 1475"
abbreviation "M_Usvdot \<equiv> Mnemonic 1476"
abbreviation "M_Fvdotb \<equiv> Mnemonic 1477"
abbreviation "M_Fvdott \<equiv> Mnemonic 1478"
abbreviation "M_Ldtxr \<equiv> Mnemonic 1479"
abbreviation "M_Ldatxr \<equiv> Mnemonic 1480"
abbreviation "M_Sttxr \<equiv> Mnemonic 1481"
abbreviation "M_Stltxr \<equiv> Mnemonic 1482"
abbreviation "M_Cast \<equiv> Mnemonic 1483"
abbreviation "M_Casat \<equiv> Mnemonic 1484"
abbreviation "M_Caslt \<equiv> Mnemonic 1485"
abbreviation "M_Casalt \<equiv> Mnemonic 1486"
abbreviation "M_Caspt \<equiv> Mnemonic 1487"
abbreviation "M_Caspat \<equiv> Mnemonic 1488"
abbreviation "M_Casplt \<equiv> Mnemonic 1489"
abbreviation "M_Caspalt \<equiv> Mnemonic 1490"
abbreviation "M_Addsvl \<equiv> Mnemonic 1491"
abbreviation "M_Addspl \<equiv> Mnemonic 1492"
abbreviation "M_Rdsvl \<equiv> Mnemonic 1493"
abbreviation "M_Sqrshr \<equiv> Mnemonic 1494"
abbreviation "M_Uqrshr \<equiv> Mnemonic 1495"
abbreviation "M_Sqrshru \<equiv> Mnemonic 1496"
abbreviation "M_Ldfadd \<equiv> Mnemonic 1497"
abbreviation "M_Ldfadda \<equiv> Mnemonic 1498"
abbreviation "M_Ldfaddl \<equiv> Mnemonic 1499"
abbreviation "M_Ldfaddal \<equiv> Mnemonic 1500"
abbreviation "M_Ldfmax \<equiv> Mnemonic 1501"
abbreviation "M_Ldfmaxa \<equiv> Mnemonic 1502"
abbreviation "M_Ldfmaxl \<equiv> Mnemonic 1503"
abbreviation "M_Ldfmaxal \<equiv> Mnemonic 1504"
abbreviation "M_Ldfmin \<equiv> Mnemonic 1505"
abbreviation "M_Ldfmina \<equiv> Mnemonic 1506"
abbreviation "M_Ldfminl \<equiv> Mnemonic 1507"
abbreviation "M_Ldfminal \<equiv> Mnemonic 1508"
abbreviation "M_Ldfmaxnm \<equiv> Mnemonic 1509"
abbreviation "M_Ldfmaxnma \<equiv> Mnemonic 1510"
abbreviation "M_Ldfmaxnml \<equiv> Mnemonic 1511"
abbreviation "M_Ldfmaxnmal \<equiv> Mnemonic 1512"
abbreviation "M_Ldfminnm \<equiv> Mnemonic 1513"
abbreviation "M_Ldfminnma \<equiv> Mnemonic 1514"
abbreviation "M_Ldfminnml \<equiv> Mnemonic 1515"
abbreviation "M_Ldfminnmal \<equiv> Mnemonic 1516"
abbreviation "M_Stfadd \<equiv> Mnemonic 1517"
abbreviation "M_Stfaddl \<equiv> Mnemonic 1518"
abbreviation "M_Stfmax \<equiv> Mnemonic 1519"
abbreviation "M_Stfmaxl \<equiv> Mnemonic 1520"
abbreviation "M_Stfmin \<equiv> Mnemonic 1521"
abbreviation "M_Stfminl \<equiv> Mnemonic 1522"
abbreviation "M_Stfmaxnm \<equiv> Mnemonic 1523"
abbreviation "M_Stfmaxnml \<equiv> Mnemonic 1524"
abbreviation "M_Stfminnm \<equiv> Mnemonic 1525"
abbreviation "M_Stfminnml \<equiv> Mnemonic 1526"
abbreviation "M_Ldbfadd \<equiv> Mnemonic 1527"
abbreviation "M_Ldbfadda \<equiv> Mnemonic 1528"
abbreviation "M_Ldbfaddl \<equiv> Mnemonic 1529"
abbreviation "M_Ldbfaddal \<equiv> Mnemonic 1530"
abbreviation "M_Ldbfmax \<equiv> Mnemonic 1531"
abbreviation "M_Ldbfmaxa \<equiv> Mnemonic 1532"
abbreviation "M_Ldbfmaxl \<equiv> Mnemonic 1533"
abbreviation "M_Ldbfmaxal \<equiv> Mnemonic 1534"
abbreviation "M_Ldbfmin \<equiv> Mnemonic 1535"
abbreviation "M_Ldbfmina \<equiv> Mnemonic 1536"
abbreviation "M_Ldbfminl \<equiv> Mnemonic 1537"
abbreviation "M_Ldbfminal \<equiv> Mnemonic 1538"
abbreviation "M_Ldbfmaxnm \<equiv> Mnemonic 1539"
abbreviation "M_Ldbfmaxnma \<equiv> Mnemonic 1540"
abbreviation "M_Ldbfmaxnml \<equiv> Mnemonic 1541"
abbreviation "M_Ldbfmaxnmal \<equiv> Mnemonic 1542"
abbreviation "M_Ldbfminnm \<equiv> Mnemonic 1543"
abbreviation "M_Ldbfminnma \<equiv> Mnemonic 1544"
abbreviation "M_Ldbfminnml \<equiv> Mnemonic 1545"
abbreviation "M_Ldbfminnmal \<equiv> Mnemonic 1546"
abbreviation "M_Stbfadd \<equiv> Mnemonic 1547"
abbreviation "M_Stbfaddl \<equiv> Mnemonic 1548"
abbreviation "M_Stbfmax \<equiv> Mnemonic 1549"
abbreviation "M_Stbfmaxl \<equiv> Mnemonic 1550"
abbreviation "M_Stbfmin \<equiv> Mnemonic 1551"
abbreviation "M_Stbfminl \<equiv> Mnemonic 1552"
abbreviation "M_Stbfmaxnm \<equiv> Mnemonic 1553"
abbreviation "M_Stbfmaxnml \<equiv> Mnemonic 1554"
abbreviation "M_Stbfminnm \<equiv> Mnemonic 1555"
abbreviation "M_Stbfminnml \<equiv> Mnemonic 1556"
abbreviation "M_Ld2q \<equiv> Mnemonic 1557"
abbreviation "M_Ld3q \<equiv> Mnemonic 1558"
abbreviation "M_Ld4q \<equiv> Mnemonic 1559"
abbreviation "M_St2q \<equiv> Mnemonic 1560"
abbreviation "M_St3q \<equiv> Mnemonic 1561"
abbreviation "M_St4q \<equiv> Mnemonic 1562"
abbreviation "M_Movaz \<equiv> Mnemonic 1563"
abbreviation "M_Bc \<equiv> Mnemonic 1564"
abbreviation "M_Retaasppc \<equiv> Mnemonic 1565"
abbreviation "M_Retabsppc \<equiv> Mnemonic 1566"
abbreviation "M_Autiasppc \<equiv> Mnemonic 1567"
abbreviation "M_Autibsppc \<equiv> Mnemonic 1568"
abbreviation "M_Paciasppc \<equiv> Mnemonic 1569"
abbreviation "M_Pacibsppc \<equiv> Mnemonic 1570"
abbreviation "M_Pacnbiasppc \<equiv> Mnemonic 1571"
abbreviation "M_Pacnbibsppc \<equiv> Mnemonic 1572"
abbreviation "M_Autiasppcr \<equiv> Mnemonic 1573"
abbreviation "M_Autibsppcr \<equiv> Mnemonic 1574"
abbreviation "M_Retaasppcr \<equiv> Mnemonic 1575"
abbreviation "M_Retabsppcr \<equiv> Mnemonic 1576"
abbreviation "M_Bmopa \<equiv> Mnemonic 1577"
abbreviation "M_Bmops \<equiv> Mnemonic 1578"
abbreviation "M_Fmop4a \<equiv> Mnemonic 1579"
abbreviation "M_Fmop4s \<equiv> Mnemonic 1580"
abbreviation "M_Bfmop4a \<equiv> Mnemonic 1581"
abbreviation "M_Bfmop4s \<equiv> Mnemonic 1582"
abbreviation "M_Smop4a \<equiv> Mnemonic 1583"
abbreviation "M_Smop4s \<equiv> Mnemonic 1584"
abbreviation "M_Umop4a \<equiv> Mnemonic 1585"
abbreviation "M_Umop4s \<equiv> Mnemonic 1586"
abbreviation "M_Sumop4a \<equiv> Mnemonic 1587"
abbreviation "M_Sumop4s \<equiv> Mnemonic 1588"
abbreviation "M_Usmop4a \<equiv> Mnemonic 1589"
abbreviation "M_Usmop4s \<equiv> Mnemonic 1590"
abbreviation "M_Bfadd \<equiv> Mnemonic 1591"
abbreviation "M_Bfsub \<equiv> Mnemonic 1592"
abbreviation "M_Bfmax \<equiv> Mnemonic 1593"
abbreviation "M_Bfmin \<equiv> Mnemonic 1594"
abbreviation "M_Bfmaxnm \<equiv> Mnemonic 1595"
abbreviation "M_Bfminnm \<equiv> Mnemonic 1596"
abbreviation "M_Psel \<equiv> Mnemonic 1597"
abbreviation "M_Bfmlslb \<equiv> Mnemonic 1598"
abbreviation "M_Bfmlslt \<equiv> Mnemonic 1599"
abbreviation "M_Lastp \<equiv> Mnemonic 1600"
abbreviation "M_Firstp \<equiv> Mnemonic 1601"
abbreviation "M_Rprfm \<equiv> Mnemonic 1602"
abbreviation "M_Addqp \<equiv> Mnemonic 1603"
abbreviation "M_Addsubp \<equiv> Mnemonic 1604"
abbreviation "M_Luti6 \<equiv> Mnemonic 1605"
abbreviation "M_Madpt \<equiv> Mnemonic 1606"
abbreviation "M_Mlapt \<equiv> Mnemonic 1607"
abbreviation "M_Ldapp \<equiv> Mnemonic 1608"
abbreviation "M_Ldap \<equiv> Mnemonic 1609"
abbreviation "M_Stlp \<equiv> Mnemonic 1610"
abbreviation "M_Pmlal \<equiv> Mnemonic 1611"
abbreviation "M_Aesemc \<equiv> Mnemonic 1612"
abbreviation "M_Aesdimc \<equiv> Mnemonic 1613"
abbreviation "M_Sqcvtn \<equiv> Mnemonic 1614"
abbreviation "M_Uqcvtn \<equiv> Mnemonic 1615"
abbreviation "M_Sqcvtun \<equiv> Mnemonic 1616"
abbreviation "M_Setgop \<equiv> Mnemonic 1617"
abbreviation "M_Setgopt \<equiv> Mnemonic 1618"
abbreviation "M_Setgopn \<equiv> Mnemonic 1619"
abbreviation "M_Setgoptn \<equiv> Mnemonic 1620"
abbreviation "M_Setgom \<equiv> Mnemonic 1621"
abbreviation "M_Setgomt \<equiv> Mnemonic 1622"
abbreviation "M_Setgomn \<equiv> Mnemonic 1623"
abbreviation "M_Setgomtn \<equiv> Mnemonic 1624"
abbreviation "M_Setgoe \<equiv> Mnemonic 1625"
abbreviation "M_Setgoet \<equiv> Mnemonic 1626"
abbreviation "M_Setgoen \<equiv> Mnemonic 1627"
abbreviation "M_Setgoetn \<equiv> Mnemonic 1628"
abbreviation "M_Tchangef \<equiv> Mnemonic 1629"
abbreviation "M_Tchangeb \<equiv> Mnemonic 1630"
abbreviation "M_Bf2cvt \<equiv> Mnemonic 1631"
abbreviation "M_Scvtflt \<equiv> Mnemonic 1632"
abbreviation "M_Bfscale \<equiv> Mnemonic 1633"
abbreviation "M_Sunpk \<equiv> Mnemonic 1634"
abbreviation "M_Uunpk \<equiv> Mnemonic 1635"
abbreviation "M_Sqcvt \<equiv> Mnemonic 1636"
abbreviation "M_Uqcvt \<equiv> Mnemonic 1637"
abbreviation "M_Sqcvtu \<equiv> Mnemonic 1638"
abbreviation "M_Fcvtzsn \<equiv> Mnemonic 1639"
abbreviation "M_Fcvtzun \<equiv> Mnemonic 1640"
abbreviation "M_F1cvt \<equiv> Mnemonic 1641"
abbreviation "M_F2cvt \<equiv> Mnemonic 1642"
abbreviation "M_Bf1cvt \<equiv> Mnemonic 1643"
abbreviation "M_F1cvtlt \<equiv> Mnemonic 1644"
abbreviation "M_F2cvtlt \<equiv> Mnemonic 1645"
abbreviation "M_Bf1cvtlt \<equiv> Mnemonic 1646"
abbreviation "M_Bf2cvtlt \<equiv> Mnemonic 1647"
abbreviation "M_Fcvtnb \<equiv> Mnemonic 1648"
abbreviation "M_Ucvtflt \<equiv> Mnemonic 1649"
abbreviation "M_Pext \<equiv> Mnemonic 1650"
abbreviation "M_Movt \<equiv> Mnemonic 1651"
abbreviation "M_Plbi \<equiv> Mnemonic 1652"
abbreviation "M_Gic \<equiv> Mnemonic 1653"
abbreviation "M_Gicr \<equiv> Mnemonic 1654"
abbreviation "M_Mlbi \<equiv> Mnemonic 1655"
abbreviation "M_Apas \<equiv> Mnemonic 1656"
abbreviation "M_Trcit \<equiv> Mnemonic 1657"
abbreviation "M_Cosp \<equiv> Mnemonic 1658"
abbreviation "M_Gcspushm \<equiv> Mnemonic 1659"
abbreviation "M_Gcspopm \<equiv> Mnemonic 1660"
abbreviation "M_Gcsss1 \<equiv> Mnemonic 1661"
abbreviation "M_Gcsss2 \<equiv> Mnemonic 1662"
abbreviation "M_Gcspushx \<equiv> Mnemonic 1663"
abbreviation "M_Gcspopx \<equiv> Mnemonic 1664"
abbreviation "M_Gcspopcx \<equiv> Mnemonic 1665"
abbreviation "M_Gcsb \<equiv> Mnemonic 1666"
abbreviation "M_Gcsstr \<equiv> Mnemonic 1667"
abbreviation "M_Gcssttr \<equiv> Mnemonic 1668"
abbreviation "M_Tenter \<equiv> Mnemonic 1669"
abbreviation "M_Shuh \<equiv> Mnemonic 1670"
abbreviation "M_Stshh \<equiv> Mnemonic 1671"
abbreviation "M_Stcph \<equiv> Mnemonic 1672"
abbreviation "M_Chkfeat \<equiv> Mnemonic 1673"
abbreviation "M_Dgh \<equiv> Mnemonic 1674"
abbreviation "M_Clrbhb \<equiv> Mnemonic 1675"
abbreviation "M_Pacm \<equiv> Mnemonic 1676"
abbreviation "M_Gsb \<equiv> Mnemonic 1677"
abbreviation "M_Brb \<equiv> Mnemonic 1678"
abbreviation "M_AmxLdx \<equiv> Mnemonic 1679"
abbreviation "M_AmxLdy \<equiv> Mnemonic 1680"
abbreviation "M_AmxStx \<equiv> Mnemonic 1681"
abbreviation "M_AmxSty \<equiv> Mnemonic 1682"
abbreviation "M_AmxLdz \<equiv> Mnemonic 1683"
abbreviation "M_AmxStz \<equiv> Mnemonic 1684"
abbreviation "M_AmxLdzi \<equiv> Mnemonic 1685"
abbreviation "M_AmxStzi \<equiv> Mnemonic 1686"
abbreviation "M_AmxExtrx \<equiv> Mnemonic 1687"
abbreviation "M_AmxExtry \<equiv> Mnemonic 1688"
abbreviation "M_AmxFma64 \<equiv> Mnemonic 1689"
abbreviation "M_AmxFms64 \<equiv> Mnemonic 1690"
abbreviation "M_AmxFma32 \<equiv> Mnemonic 1691"
abbreviation "M_AmxFms32 \<equiv> Mnemonic 1692"
abbreviation "M_AmxMac16 \<equiv> Mnemonic 1693"
abbreviation "M_AmxFma16 \<equiv> Mnemonic 1694"
abbreviation "M_AmxFms16 \<equiv> Mnemonic 1695"
abbreviation "M_AmxSet \<equiv> Mnemonic 1696"
abbreviation "M_AmxClr \<equiv> Mnemonic 1697"
abbreviation "M_AmxVecint \<equiv> Mnemonic 1698"
abbreviation "M_AmxVecfp \<equiv> Mnemonic 1699"
abbreviation "M_AmxMatint \<equiv> Mnemonic 1700"
abbreviation "M_AmxMatfp \<equiv> Mnemonic 1701"
abbreviation "M_AmxGenlut \<equiv> Mnemonic 1702"
abbreviation "M_Genter \<equiv> Mnemonic 1703"
abbreviation "M_Gexit \<equiv> Mnemonic 1704"

lemma mnemonic_from_u16_declared: "mnemonic_from_u16 v = Some m \<Longrightarrow> declared_mnemonic m"
  by (auto simp: mnemonic_from_u16_def declared_mnemonic_def Let_def split: if_splits)

end
