(* ===== verification/Enums.thy ===== *)
theory Enums
  imports Prelude
begin

text \<open>
  The small public enumerations: \<open>src/enums.rs\<close> (condition codes, shift and extend types, vector
  arrangements, flag effects, flow control), \<open>src/features.rs\<close> (architecture extensions and the runtime
  \<open>FeatureSet\<close>) and \<open>src/error.rs\<close> (\<open>DecodeError\<close>).

  \<^item> The constructors carry the Rust variant's name behind a prefix for its enum, since Rust qualifies
    them (\<open>Condition::Eq\<close> is \<open>CondEq\<close>, \<open>FlowControl::Next\<close> is \<open>FlowNext\<close>).
  \<^item> \<open>Feature\<close> is \<open>#[repr(u16)]\<close> and is used through its discriminant (\<open>f as u32\<close>), so it is modelled as its
    discriminant; \<open>F_Mte\<close> and its kin name the declared ones.
\<close>

section \<open>Condition codes\<close>

datatype condition =
    CondEq | CondNe | CondCs | CondCc | CondMi | CondPl | CondVs | CondVc
  | CondHi | CondLs | CondGe | CondLt | CondGt | CondLe | CondAl | CondNv

definition condition_from_bits :: "u8 \<Rightarrow> condition" where
  "condition_from_bits b =
     (let b = b AND 0xF
      in if b = 0 then CondEq else if b = 1 then CondNe else if b = 2 then CondCs else if b = 3 then CondCc
         else if b = 4 then CondMi else if b = 5 then CondPl else if b = 6 then CondVs else if b = 7 then CondVc
         else if b = 8 then CondHi else if b = 9 then CondLs else if b = 10 then CondGe else if b = 11 then CondLt
         else if b = 12 then CondGt else if b = 13 then CondLe else if b = 14 then CondAl else CondNv)"

primrec condition_as_u4 :: "condition \<Rightarrow> u8" where
  "condition_as_u4 CondEq = 0"
| "condition_as_u4 CondNe = 1"
| "condition_as_u4 CondCs = 2"
| "condition_as_u4 CondCc = 3"
| "condition_as_u4 CondMi = 4"
| "condition_as_u4 CondPl = 5"
| "condition_as_u4 CondVs = 6"
| "condition_as_u4 CondVc = 7"
| "condition_as_u4 CondHi = 8"
| "condition_as_u4 CondLs = 9"
| "condition_as_u4 CondGe = 10"
| "condition_as_u4 CondLt = 11"
| "condition_as_u4 CondGt = 12"
| "condition_as_u4 CondLe = 13"
| "condition_as_u4 CondAl = 14"
| "condition_as_u4 CondNv = 15"

definition condition_invert :: "condition \<Rightarrow> condition" where
  "condition_invert c = condition_from_bits (condition_as_u4 c XOR 1)"

lemma condition_from_as [simp]: "condition_from_bits (condition_as_u4 c) = c"
  by (cases c) (simp_all add: condition_from_bits_def)

lemma u8_nibble_cases:
  "(b :: u8) AND 0xF \<in> {0, 1, 2, 3, 4, 5, 6, 7, 8, 9, 10, 11, 12, 13, 14, 15}"
proof -
  have "b AND 0xF = take_bit 4 b" by (simp add: take_bit_eq_mask mask_eq_exp_minus_1)
  then have "unat (b AND 0xF) < 16" using unat_take_bit_less [of 4 b] by simp
  then show ?thesis by (rule word_less_cases)
qed

lemma condition_as_from [simp]: "condition_as_u4 (condition_from_bits b) = b AND 0xF"
  using u8_nibble_cases [of b] by (auto simp: condition_from_bits_def Let_def)

lemma condition_as_u4_inject [simp]: "condition_as_u4 c = condition_as_u4 d \<longleftrightarrow> c = d"
  by (metis condition_from_as)

lemma condition_invert_invert: "condition_invert (condition_invert c) = c"
  by (cases c) (simp_all add: condition_invert_def condition_from_bits_def)

section \<open>Shift and extend types\<close>

datatype shift_type = ShiftNone | ShiftLsl | ShiftLsr | ShiftAsr | ShiftRor | ShiftMsl

definition shift_type_from_bits :: "u8 \<Rightarrow> shift_type" where
  "shift_type_from_bits b =
     (let b = b AND 3
      in if b = 0 then ShiftLsl else if b = 1 then ShiftLsr else if b = 2 then ShiftAsr else ShiftRor)"

datatype extend_type = ExtUxtb | ExtUxth | ExtUxtw | ExtUxtx | ExtSxtb | ExtSxth | ExtSxtw | ExtSxtx

definition extend_type_from_bits :: "u8 \<Rightarrow> extend_type" where
  "extend_type_from_bits b =
     (let b = b AND 7
      in if b = 0 then ExtUxtb else if b = 1 then ExtUxth else if b = 2 then ExtUxtw else if b = 3 then ExtUxtx
         else if b = 4 then ExtSxtb else if b = 5 then ExtSxth else if b = 6 then ExtSxtw else ExtSxtx)"

primrec extend_type_as_bits :: "extend_type \<Rightarrow> u8" where
  "extend_type_as_bits ExtUxtb = 0"
| "extend_type_as_bits ExtUxth = 1"
| "extend_type_as_bits ExtUxtw = 2"
| "extend_type_as_bits ExtUxtx = 3"
| "extend_type_as_bits ExtSxtb = 4"
| "extend_type_as_bits ExtSxth = 5"
| "extend_type_as_bits ExtSxtw = 6"
| "extend_type_as_bits ExtSxtx = 7"

lemma extend_type_from_as [simp]: "extend_type_from_bits (extend_type_as_bits e) = e"
  by (cases e) (simp_all add: extend_type_from_bits_def)

lemma u8_octal_cases: "(b :: u8) AND 7 \<in> {0, 1, 2, 3, 4, 5, 6, 7}"
proof -
  have "b AND 7 = take_bit 3 b" by (simp add: take_bit_eq_mask mask_eq_exp_minus_1)
  then have "unat (b AND 7) < 8" using unat_take_bit_less [of 3 b] by simp
  then show ?thesis by (rule word_less_cases)
qed

lemma extend_type_as_from [simp]: "extend_type_as_bits (extend_type_from_bits b) = b AND 7"
  using u8_octal_cases [of b] by (auto simp: extend_type_from_bits_def Let_def)

section \<open>Vector arrangements\<close>

datatype vector_arrangement =
    ArrNone | V8B | V16B | V4H | V8H | V2S | V4S | V1D | V2D | V2H | V4B | V2B | V1Q
  | ArrSb | ArrSh | ArrSs | ArrSd | ArrSq

primrec element_bits :: "vector_arrangement \<Rightarrow> nat" where
  "element_bits ArrNone = 0"
| "element_bits V8B = 8" | "element_bits V16B = 8" | "element_bits V4B = 8" | "element_bits V2B = 8"
| "element_bits ArrSb = 8"
| "element_bits V4H = 16" | "element_bits V8H = 16" | "element_bits V2H = 16" | "element_bits ArrSh = 16"
| "element_bits V2S = 32" | "element_bits V4S = 32" | "element_bits ArrSs = 32"
| "element_bits V1D = 64" | "element_bits V2D = 64" | "element_bits ArrSd = 64"
| "element_bits V1Q = 128" | "element_bits ArrSq = 128"

primrec element_count :: "vector_arrangement \<Rightarrow> nat" where
  "element_count V8B = 8" | "element_count V16B = 16" | "element_count V4B = 4" | "element_count V2B = 2"
| "element_count V4H = 4" | "element_count V8H = 8" | "element_count V2S = 2" | "element_count V4S = 4"
| "element_count V1D = 1" | "element_count V2D = 2" | "element_count V2H = 2" | "element_count V1Q = 1"
| "element_count ArrNone = 0" | "element_count ArrSb = 0" | "element_count ArrSh = 0"
| "element_count ArrSs = 0" | "element_count ArrSd = 0" | "element_count ArrSq = 0"

definition is_scalable :: "vector_arrangement \<Rightarrow> bool" where
  "is_scalable a \<longleftrightarrow> a \<in> {ArrSb, ArrSh, ArrSs, ArrSd, ArrSq}"

text \<open>A fixed arrangement is one that spans 16, 32, 64 or 128 bits; a scalable one has no lane count.\<close>

lemma arrangement_width:
  "element_bits a * element_count a =
     (if a = ArrNone \<or> is_scalable a then 0
      else if a = V2B then 16 else if a = V2H \<or> a = V4B then 32
      else if a \<in> {V8B, V4H, V2S, V1D} then 64 else 128)"
  by (cases a) (simp_all add: is_scalable_def)

section \<open>Flag effects and flow control\<close>

datatype flag_effect = FlagsNone | FlagsSets | FlagsSetsNormal | FlagsSetsFloat

definition writes_flags :: "flag_effect \<Rightarrow> bool" where
  "writes_flags e \<longleftrightarrow> e \<noteq> FlagsNone"

datatype flow_control =
    FlowNext | FlowUnconditionalBranch | FlowConditionalBranch | FlowIndirectBranch
  | FlowCall | FlowIndirectCall | FlowReturn | FlowException

definition is_control_transfer :: "flow_control \<Rightarrow> bool" where
  "is_control_transfer f \<longleftrightarrow> f \<noteq> FlowNext"

definition is_call :: "flow_control \<Rightarrow> bool" where
  "is_call f \<longleftrightarrow> f = FlowCall \<or> f = FlowIndirectCall"

definition is_indirect :: "flow_control \<Rightarrow> bool" where
  "is_indirect f \<longleftrightarrow> f = FlowIndirectBranch \<or> f = FlowIndirectCall \<or> f = FlowReturn"

section \<open>Architecture extensions\<close>

datatype feature = Feature (feature_disc: nat)

abbreviation "F_Base \<equiv> Feature 0"
abbreviation "F_Fp16 \<equiv> Feature 1"
abbreviation "F_Bf16 \<equiv> Feature 2"
abbreviation "F_Lse \<equiv> Feature 3"
abbreviation "F_PAuth \<equiv> Feature 4"
abbreviation "F_Mte \<equiv> Feature 5"
abbreviation "F_Sve \<equiv> Feature 6"
abbreviation "F_Sme \<equiv> Feature 7"
abbreviation "F_Crypto \<equiv> Feature 8"
abbreviation "F_Tme \<equiv> Feature 9"
abbreviation "F_Trf \<equiv> Feature 10"
abbreviation "F_Wfxt \<equiv> Feature 11"
abbreviation "F_Frintts \<equiv> Feature 12"
abbreviation "F_Ls64 \<equiv> Feature 13"
abbreviation "F_Xs \<equiv> Feature 14"
abbreviation "F_Mops \<equiv> Feature 15"
abbreviation "F_Cssc \<equiv> Feature 16"
abbreviation "F_Rcpc3 \<equiv> Feature 17"
abbreviation "F_D128 \<equiv> Feature 18"
abbreviation "F_The \<equiv> Feature 19"
abbreviation "F_Lse128 \<equiv> Feature 20"
abbreviation "F_Sme2 \<equiv> Feature 21"
abbreviation "F_Lsui \<equiv> Feature 22"
abbreviation "F_Sve2p1 \<equiv> Feature 23"
abbreviation "F_Cpa \<equiv> Feature 24"
abbreviation "F_Cmpbr \<equiv> Feature 25"
abbreviation "F_I8mm \<equiv> Feature 26"
abbreviation "F_Fp8 \<equiv> Feature 27"
abbreviation "F_Lut \<equiv> Feature 28"
abbreviation "F_Lsfe \<equiv> Feature 29"
abbreviation "F_Faminmax \<equiv> Feature 30"
abbreviation "F_F16f32mm \<equiv> Feature 31"
abbreviation "F_F16mm \<equiv> Feature 32"
abbreviation "F_F8f16mm \<equiv> Feature 33"
abbreviation "F_F8f32mm \<equiv> Feature 34"
abbreviation "F_Hbc \<equiv> Feature 35"
abbreviation "F_PauthLr \<equiv> Feature 36"
abbreviation "F_SmeB16b16 \<equiv> Feature 37"
abbreviation "F_SmeF8f32 \<equiv> Feature 38"
abbreviation "F_SmeF8f16 \<equiv> Feature 39"
abbreviation "F_SmeF16f16 \<equiv> Feature 40"
abbreviation "F_SmeMop4 \<equiv> Feature 41"
abbreviation "F_SveB16b16 \<equiv> Feature 42"
abbreviation "F_Rprfm \<equiv> Feature 43"
abbreviation "F_F16f32dot \<equiv> Feature 44"
abbreviation "F_Sve2p2 \<equiv> Feature 45"
abbreviation "F_Sve2p3 \<equiv> Feature 46"
abbreviation "F_SveAes2 \<equiv> Feature 47"
abbreviation "F_Fprcvt \<equiv> Feature 48"
abbreviation "F_Tchange \<equiv> Feature 49"
abbreviation "F_Gcs \<equiv> Feature 50"
abbreviation "F_Chk \<equiv> Feature 51"
abbreviation "F_Pcdphint \<equiv> Feature 52"
abbreviation "F_Dgh \<equiv> Feature 53"
abbreviation "F_Clrbhb \<equiv> Feature 54"
abbreviation "F_Tev \<equiv> Feature 55"
abbreviation "F_AppleAmx \<equiv> Feature 56"
abbreviation "F_Gxf \<equiv> Feature 57"

definition declared_feature :: "feature \<Rightarrow> bool" where
  "declared_feature f \<longleftrightarrow> feature_disc f \<le> 57"

record feature_set =
  features0 :: u64
  features1 :: u64

definition FeatureSet_BASE :: feature_set where
  "FeatureSet_BASE = \<lparr>features0 = 0, features1 = 0\<rparr>"

definition FeatureSet_ALL :: feature_set where
  "FeatureSet_ALL = \<lparr>features0 = - 1, features1 = - 1\<rparr>"

definition has :: "feature_set \<Rightarrow> feature \<Rightarrow> bool" where
  "has fs f =
     (let bit = feature_disc f
      in if bit = 0 then True
         else if 64 \<le> bit then False
         else features0 fs AND push_bit bit 1 \<noteq> 0)"

definition with_feature :: "feature_set \<Rightarrow> feature \<Rightarrow> feature_set" where
  "with_feature fs f =
     (let bit = feature_disc f
      in if bit = 0 \<or> 64 \<le> bit then fs
         else let mask = push_bit bit 1
              in \<lparr>features0 = features0 fs OR mask, features1 = features1 fs OR mask\<rparr>)"

lemma has_iff: "has fs f \<longleftrightarrow> feature_disc f = 0 \<or> feature_disc f < 64 \<and> bit (features0 fs) (feature_disc f)"
  by (auto simp: has_def Let_def and_exp_eq_0_iff_not_bit)

section \<open>Decode errors\<close>

datatype decode_error =
    DecNone | DecReserved | DecUnmatched | DecUnallocated | DecUndefined | DecEndOfInstruction
  | DecLost | DecUnreachable | DecAssertFailed | DecErrorOperands | DecFeatureRequired feature

primrec decode_error_status :: "decode_error \<Rightarrow> int" where
  "decode_error_status DecNone = 0"
| "decode_error_status DecReserved = - 1"
| "decode_error_status DecUnmatched = - 2"
| "decode_error_status DecUnallocated = - 3"
| "decode_error_status DecUndefined = - 4"
| "decode_error_status DecEndOfInstruction = - 5"
| "decode_error_status DecLost = - 6"
| "decode_error_status DecUnreachable = - 7"
| "decode_error_status DecAssertFailed = - 8"
| "decode_error_status DecErrorOperands = - 9"
| "decode_error_status (DecFeatureRequired f) = - 4"

definition decode_error_is_ok :: "decode_error \<Rightarrow> bool" where
  "decode_error_is_ok e \<longleftrightarrow> e = DecNone"

lemma decode_error_ok_status: "decode_error_is_ok e \<longleftrightarrow> decode_error_status e = 0"
  by (cases e) (simp_all add: decode_error_is_ok_def)

lemma decode_error_status_range: "- 9 \<le> decode_error_status e \<and> decode_error_status e \<le> 0"
  by (cases e) simp_all

section \<open>The interface of a feature gate\<close>

text \<open>
  The decoders use a feature set through \<open>has\<close> only.  The locale states what they rely on: granting a feature
  admits that feature and takes nothing away, and the permissive set admits every feature that can be granted.
\<close>

locale feature_gate =
  fixes admits :: "'s \<Rightarrow> 'f \<Rightarrow> bool"
    and grant :: "'s \<Rightarrow> 'f \<Rightarrow> 's"
    and none all :: 's
    and always gated :: "'f \<Rightarrow> bool"
  assumes admits_grant: "admits (grant s f) g \<longleftrightarrow> admits s g \<or> (gated f \<and> g = f)"
    and admits_none: "admits none g \<longleftrightarrow> always g"
    and admits_all: "admits all g \<longleftrightarrow> always g \<or> gated g"
    and always_admitted: "always g \<Longrightarrow> admits s g"
    and admits_gated: "admits s g \<Longrightarrow> always g \<or> gated g"
begin

lemma grant_mono: "admits s g \<Longrightarrow> admits (grant s f) g"
  by (simp add: admits_grant)

lemma grant_many:
  "admits (foldl grant s fs) g \<longleftrightarrow> admits s g \<or> (gated g \<and> g \<in> set fs)"
  by (induction fs arbitrary: s) (auto simp: admits_grant)

lemma admits_all_greatest: "admits s g \<Longrightarrow> admits all g"
  using admits_gated by (auto simp: admits_all)

end

definition gated_feature :: "feature \<Rightarrow> bool" where
  "gated_feature f \<longleftrightarrow> 0 < feature_disc f \<and> feature_disc f < 64"

interpretation fg: feature_gate has with_feature FeatureSet_BASE FeatureSet_ALL
  "\<lambda>f. feature_disc f = 0" gated_feature
proof unfold_locales
  fix s f g
  show "has (with_feature s f) g \<longleftrightarrow> has s g \<or> (gated_feature f \<and> g = f)"
    by (cases f; cases g) (auto simp: has_iff with_feature_def Let_def gated_feature_def bit_simps)
qed (auto simp: has_iff FeatureSet_BASE_def FeatureSet_ALL_def gated_feature_def)

end
