(* ===== verification/Codes.thy ===== *)
theory Codes
  imports Mnemonics Enums
begin

text \<open>
  The enum \<open>Code\<close> of \<open>src/mnemonic.rs\<close>, the identity of an encoding.  The macro \<open>codes!\<close> generates the enum and the
  two functions \<open>Code::mnemonic\<close> and \<open>Code::feature\<close> from one table of 2979 rows \<open>Variant => Mnemonic, Feature\<close>.
  Here \<open>Code d\<close> is the variant with discriminant \<open>d\<close>, every variant has its name, and the table is the list of
  lists \<open>code_blocks\<close>, in blocks of 64 rows in the order of the macro call.
\<close>

datatype code = Code (code_disc: nat)

abbreviation "C_Invalid \<equiv> Code 0"
abbreviation "C_AddImm64 \<equiv> Code 1"
abbreviation "C_OrrShifted32 \<equiv> Code 2"
abbreviation "C_Movz64 \<equiv> Code 3"
abbreviation "C_BCond \<equiv> Code 4"
abbreviation "C_LdrImmUnsigned64 \<equiv> Code 5"
abbreviation "C_LdpPre64 \<equiv> Code 6"
abbreviation "C_RevdZPZ \<equiv> Code 7"
abbreviation "C_Adr \<equiv> Code 8"
abbreviation "C_Adrp \<equiv> Code 9"
abbreviation "C_AddImm32 \<equiv> Code 10"
abbreviation "C_AddsImm32 \<equiv> Code 11"
abbreviation "C_AddsImm64 \<equiv> Code 12"
abbreviation "C_SubImm32 \<equiv> Code 13"
abbreviation "C_SubImm64 \<equiv> Code 14"
abbreviation "C_SubsImm32 \<equiv> Code 15"
abbreviation "C_SubsImm64 \<equiv> Code 16"
abbreviation "C_AddgImm \<equiv> Code 17"
abbreviation "C_SubgImm \<equiv> Code 18"
abbreviation "C_AndImm32 \<equiv> Code 19"
abbreviation "C_AndImm64 \<equiv> Code 20"
abbreviation "C_OrrImm32 \<equiv> Code 21"
abbreviation "C_OrrImm64 \<equiv> Code 22"
abbreviation "C_EorImm32 \<equiv> Code 23"
abbreviation "C_EorImm64 \<equiv> Code 24"
abbreviation "C_AndsImm32 \<equiv> Code 25"
abbreviation "C_AndsImm64 \<equiv> Code 26"
abbreviation "C_Movn32 \<equiv> Code 27"
abbreviation "C_Movn64 \<equiv> Code 28"
abbreviation "C_Movz32 \<equiv> Code 29"
abbreviation "C_Movk32 \<equiv> Code 30"
abbreviation "C_Movk64 \<equiv> Code 31"
abbreviation "C_Sbfm32 \<equiv> Code 32"
abbreviation "C_Sbfm64 \<equiv> Code 33"
abbreviation "C_Bfm32 \<equiv> Code 34"
abbreviation "C_Bfm64 \<equiv> Code 35"
abbreviation "C_Ubfm32 \<equiv> Code 36"
abbreviation "C_Ubfm64 \<equiv> Code 37"
abbreviation "C_Extr32 \<equiv> Code 38"
abbreviation "C_Extr64 \<equiv> Code 39"
abbreviation "C_BUncond \<equiv> Code 40"
abbreviation "C_BlImm \<equiv> Code 41"
abbreviation "C_Cbz32 \<equiv> Code 42"
abbreviation "C_Cbz64 \<equiv> Code 43"
abbreviation "C_Cbnz32 \<equiv> Code 44"
abbreviation "C_Cbnz64 \<equiv> Code 45"
abbreviation "C_Tbz \<equiv> Code 46"
abbreviation "C_Tbnz \<equiv> Code 47"
abbreviation "C_Br \<equiv> Code 48"
abbreviation "C_Blr \<equiv> Code 49"
abbreviation "C_Ret \<equiv> Code 50"
abbreviation "C_Eret \<equiv> Code 51"
abbreviation "C_Drps \<equiv> Code 52"
abbreviation "C_Braaz \<equiv> Code 53"
abbreviation "C_Brabz \<equiv> Code 54"
abbreviation "C_Blraaz \<equiv> Code 55"
abbreviation "C_Blrabz \<equiv> Code 56"
abbreviation "C_Braa \<equiv> Code 57"
abbreviation "C_Brab \<equiv> Code 58"
abbreviation "C_Blraa \<equiv> Code 59"
abbreviation "C_Blrab \<equiv> Code 60"
abbreviation "C_Retaa \<equiv> Code 61"
abbreviation "C_Retab \<equiv> Code 62"
abbreviation "C_Eretaa \<equiv> Code 63"
abbreviation "C_Eretab \<equiv> Code 64"
abbreviation "C_Svc \<equiv> Code 65"
abbreviation "C_Hvc \<equiv> Code 66"
abbreviation "C_Smc \<equiv> Code 67"
abbreviation "C_Brk \<equiv> Code 68"
abbreviation "C_Hlt \<equiv> Code 69"
abbreviation "C_Dcps1 \<equiv> Code 70"
abbreviation "C_Dcps2 \<equiv> Code 71"
abbreviation "C_Dcps3 \<equiv> Code 72"
abbreviation "C_Nop \<equiv> Code 73"
abbreviation "C_Yield \<equiv> Code 74"
abbreviation "C_Wfe \<equiv> Code 75"
abbreviation "C_Wfi \<equiv> Code 76"
abbreviation "C_Sev \<equiv> Code 77"
abbreviation "C_Sevl \<equiv> Code 78"
abbreviation "C_Esb \<equiv> Code 79"
abbreviation "C_Psb \<equiv> Code 80"
abbreviation "C_Csdb \<equiv> Code 81"
abbreviation "C_Bti \<equiv> Code 82"
abbreviation "C_HintGeneric \<equiv> Code 83"
abbreviation "C_Clrex \<equiv> Code 84"
abbreviation "C_Dmb \<equiv> Code 85"
abbreviation "C_Dsb \<equiv> Code 86"
abbreviation "C_Isb \<equiv> Code 87"
abbreviation "C_Sb \<equiv> Code 88"
abbreviation "C_Cfinv \<equiv> Code 89"
abbreviation "C_Xaflag \<equiv> Code 90"
abbreviation "C_Axflag \<equiv> Code 91"
abbreviation "C_MsrImm \<equiv> Code 92"
abbreviation "C_MsrReg \<equiv> Code 93"
abbreviation "C_Mrs \<equiv> Code 94"
abbreviation "C_Sys \<equiv> Code 95"
abbreviation "C_Sysl \<equiv> Code 96"
abbreviation "C_Pacia \<equiv> Code 97"
abbreviation "C_Pacib \<equiv> Code 98"
abbreviation "C_Pacda \<equiv> Code 99"
abbreviation "C_Pacdb \<equiv> Code 100"
abbreviation "C_Autia \<equiv> Code 101"
abbreviation "C_Autib \<equiv> Code 102"
abbreviation "C_Autda \<equiv> Code 103"
abbreviation "C_Autdb \<equiv> Code 104"
abbreviation "C_Pacga \<equiv> Code 105"
abbreviation "C_Xpaci \<equiv> Code 106"
abbreviation "C_Xpacd \<equiv> Code 107"
abbreviation "C_Tcommit \<equiv> Code 108"
abbreviation "C_Tcancel \<equiv> Code 109"
abbreviation "C_Tstart \<equiv> Code 110"
abbreviation "C_Ttest \<equiv> Code 111"
abbreviation "C_Tsb \<equiv> Code 112"
abbreviation "C_Wfet \<equiv> Code 113"
abbreviation "C_Wfit \<equiv> Code 114"
abbreviation "C_Udf \<equiv> Code 115"
abbreviation "C_LdrImmUnsigned32 \<equiv> Code 116"
abbreviation "C_StrImmUnsigned32 \<equiv> Code 117"
abbreviation "C_StrImmUnsigned64 \<equiv> Code 118"
abbreviation "C_LdrbImmUnsigned \<equiv> Code 119"
abbreviation "C_StrbImmUnsigned \<equiv> Code 120"
abbreviation "C_LdrhImmUnsigned \<equiv> Code 121"
abbreviation "C_StrhImmUnsigned \<equiv> Code 122"
abbreviation "C_LdrsbImmUnsigned32 \<equiv> Code 123"
abbreviation "C_LdrsbImmUnsigned64 \<equiv> Code 124"
abbreviation "C_LdrshImmUnsigned32 \<equiv> Code 125"
abbreviation "C_LdrshImmUnsigned64 \<equiv> Code 126"
abbreviation "C_LdrswImmUnsigned \<equiv> Code 127"
abbreviation "C_PrfmImmUnsigned \<equiv> Code 128"
abbreviation "C_LdrImmPre32 \<equiv> Code 129"
abbreviation "C_LdrImmPre64 \<equiv> Code 130"
abbreviation "C_StrImmPre32 \<equiv> Code 131"
abbreviation "C_StrImmPre64 \<equiv> Code 132"
abbreviation "C_LdrbImmPre \<equiv> Code 133"
abbreviation "C_StrbImmPre \<equiv> Code 134"
abbreviation "C_LdrhImmPre \<equiv> Code 135"
abbreviation "C_StrhImmPre \<equiv> Code 136"
abbreviation "C_LdrsbImmPre32 \<equiv> Code 137"
abbreviation "C_LdrsbImmPre64 \<equiv> Code 138"
abbreviation "C_LdrshImmPre32 \<equiv> Code 139"
abbreviation "C_LdrshImmPre64 \<equiv> Code 140"
abbreviation "C_LdrswImmPre \<equiv> Code 141"
abbreviation "C_LdrImmPost32 \<equiv> Code 142"
abbreviation "C_LdrImmPost64 \<equiv> Code 143"
abbreviation "C_StrImmPost32 \<equiv> Code 144"
abbreviation "C_StrImmPost64 \<equiv> Code 145"
abbreviation "C_LdrbImmPost \<equiv> Code 146"
abbreviation "C_StrbImmPost \<equiv> Code 147"
abbreviation "C_LdrhImmPost \<equiv> Code 148"
abbreviation "C_StrhImmPost \<equiv> Code 149"
abbreviation "C_LdrsbImmPost32 \<equiv> Code 150"
abbreviation "C_LdrsbImmPost64 \<equiv> Code 151"
abbreviation "C_LdrshImmPost32 \<equiv> Code 152"
abbreviation "C_LdrshImmPost64 \<equiv> Code 153"
abbreviation "C_LdrswImmPost \<equiv> Code 154"
abbreviation "C_LdrReg32 \<equiv> Code 155"
abbreviation "C_LdrReg64 \<equiv> Code 156"
abbreviation "C_StrReg32 \<equiv> Code 157"
abbreviation "C_StrReg64 \<equiv> Code 158"
abbreviation "C_LdrbReg \<equiv> Code 159"
abbreviation "C_StrbReg \<equiv> Code 160"
abbreviation "C_LdrhReg \<equiv> Code 161"
abbreviation "C_StrhReg \<equiv> Code 162"
abbreviation "C_LdrsbReg32 \<equiv> Code 163"
abbreviation "C_LdrsbReg64 \<equiv> Code 164"
abbreviation "C_LdrshReg32 \<equiv> Code 165"
abbreviation "C_LdrshReg64 \<equiv> Code 166"
abbreviation "C_LdrswReg \<equiv> Code 167"
abbreviation "C_PrfmReg \<equiv> Code 168"
abbreviation "C_LdrLit32 \<equiv> Code 169"
abbreviation "C_LdrLit64 \<equiv> Code 170"
abbreviation "C_LdrswLit \<equiv> Code 171"
abbreviation "C_PrfmLit \<equiv> Code 172"
abbreviation "C_LdrLitFp32 \<equiv> Code 173"
abbreviation "C_LdrLitFp64 \<equiv> Code 174"
abbreviation "C_LdrLitFp128 \<equiv> Code 175"
abbreviation "C_Ldur32 \<equiv> Code 176"
abbreviation "C_Ldur64 \<equiv> Code 177"
abbreviation "C_Stur32 \<equiv> Code 178"
abbreviation "C_Stur64 \<equiv> Code 179"
abbreviation "C_Ldurb \<equiv> Code 180"
abbreviation "C_Sturb \<equiv> Code 181"
abbreviation "C_Ldurh \<equiv> Code 182"
abbreviation "C_Sturh \<equiv> Code 183"
abbreviation "C_Ldursb32 \<equiv> Code 184"
abbreviation "C_Ldursb64 \<equiv> Code 185"
abbreviation "C_Ldursh32 \<equiv> Code 186"
abbreviation "C_Ldursh64 \<equiv> Code 187"
abbreviation "C_Ldursw \<equiv> Code 188"
abbreviation "C_Prfum \<equiv> Code 189"
abbreviation "C_Ldtr32 \<equiv> Code 190"
abbreviation "C_Ldtr64 \<equiv> Code 191"
abbreviation "C_Sttr32 \<equiv> Code 192"
abbreviation "C_Sttr64 \<equiv> Code 193"
abbreviation "C_Ldtrb \<equiv> Code 194"
abbreviation "C_Sttrb \<equiv> Code 195"
abbreviation "C_Ldtrh \<equiv> Code 196"
abbreviation "C_Sttrh \<equiv> Code 197"
abbreviation "C_Ldtrsb32 \<equiv> Code 198"
abbreviation "C_Ldtrsb64 \<equiv> Code 199"
abbreviation "C_Ldtrsh32 \<equiv> Code 200"
abbreviation "C_Ldtrsh64 \<equiv> Code 201"
abbreviation "C_Ldtrsw \<equiv> Code 202"
abbreviation "C_LdrFpImmUnsigned8 \<equiv> Code 203"
abbreviation "C_LdrFpImmUnsigned16 \<equiv> Code 204"
abbreviation "C_LdrFpImmUnsigned32 \<equiv> Code 205"
abbreviation "C_LdrFpImmUnsigned64 \<equiv> Code 206"
abbreviation "C_LdrFpImmUnsigned128 \<equiv> Code 207"
abbreviation "C_StrFpImmUnsigned8 \<equiv> Code 208"
abbreviation "C_StrFpImmUnsigned16 \<equiv> Code 209"
abbreviation "C_StrFpImmUnsigned32 \<equiv> Code 210"
abbreviation "C_StrFpImmUnsigned64 \<equiv> Code 211"
abbreviation "C_StrFpImmUnsigned128 \<equiv> Code 212"
abbreviation "C_LdrFpReg32 \<equiv> Code 213"
abbreviation "C_LdrFpReg64 \<equiv> Code 214"
abbreviation "C_LdrFpReg128 \<equiv> Code 215"
abbreviation "C_StrFpReg32 \<equiv> Code 216"
abbreviation "C_StrFpReg64 \<equiv> Code 217"
abbreviation "C_StrFpReg128 \<equiv> Code 218"
abbreviation "C_Ldp32 \<equiv> Code 219"
abbreviation "C_Ldp64 \<equiv> Code 220"
abbreviation "C_Stp32 \<equiv> Code 221"
abbreviation "C_Stp64 \<equiv> Code 222"
abbreviation "C_Ldp32Pre \<equiv> Code 223"
abbreviation "C_Stp32Pre \<equiv> Code 224"
abbreviation "C_Stp64Pre \<equiv> Code 225"
abbreviation "C_Ldp32Post \<equiv> Code 226"
abbreviation "C_Ldp64Post \<equiv> Code 227"
abbreviation "C_Stp32Post \<equiv> Code 228"
abbreviation "C_Stp64Post \<equiv> Code 229"
abbreviation "C_Ldpsw \<equiv> Code 230"
abbreviation "C_LdpswPre \<equiv> Code 231"
abbreviation "C_LdpswPost \<equiv> Code 232"
abbreviation "C_Ldnp32 \<equiv> Code 233"
abbreviation "C_Ldnp64 \<equiv> Code 234"
abbreviation "C_Stnp32 \<equiv> Code 235"
abbreviation "C_Stnp64 \<equiv> Code 236"
abbreviation "C_LdpFp32 \<equiv> Code 237"
abbreviation "C_LdpFp64 \<equiv> Code 238"
abbreviation "C_LdpFp128 \<equiv> Code 239"
abbreviation "C_StpFp32 \<equiv> Code 240"
abbreviation "C_StpFp64 \<equiv> Code 241"
abbreviation "C_StpFp128 \<equiv> Code 242"
abbreviation "C_Stxr32 \<equiv> Code 243"
abbreviation "C_Stxr64 \<equiv> Code 244"
abbreviation "C_Stxrb \<equiv> Code 245"
abbreviation "C_Stxrh \<equiv> Code 246"
abbreviation "C_Ldxr32 \<equiv> Code 247"
abbreviation "C_Ldxr64 \<equiv> Code 248"
abbreviation "C_Ldxrb \<equiv> Code 249"
abbreviation "C_Ldxrh \<equiv> Code 250"
abbreviation "C_Stlxr32 \<equiv> Code 251"
abbreviation "C_Stlxr64 \<equiv> Code 252"
abbreviation "C_Stlxrb \<equiv> Code 253"
abbreviation "C_Stlxrh \<equiv> Code 254"
abbreviation "C_Ldaxr32 \<equiv> Code 255"
abbreviation "C_Ldaxr64 \<equiv> Code 256"
abbreviation "C_Ldaxrb \<equiv> Code 257"
abbreviation "C_Ldaxrh \<equiv> Code 258"
abbreviation "C_Stxp32 \<equiv> Code 259"
abbreviation "C_Stxp64 \<equiv> Code 260"
abbreviation "C_Ldxp32 \<equiv> Code 261"
abbreviation "C_Ldxp64 \<equiv> Code 262"
abbreviation "C_Stlxp32 \<equiv> Code 263"
abbreviation "C_Stlxp64 \<equiv> Code 264"
abbreviation "C_Ldaxp32 \<equiv> Code 265"
abbreviation "C_Ldaxp64 \<equiv> Code 266"
abbreviation "C_Ldar32 \<equiv> Code 267"
abbreviation "C_Ldar64 \<equiv> Code 268"
abbreviation "C_Ldarb \<equiv> Code 269"
abbreviation "C_Ldarh \<equiv> Code 270"
abbreviation "C_Stlr32 \<equiv> Code 271"
abbreviation "C_Stlr64 \<equiv> Code 272"
abbreviation "C_Stlrb \<equiv> Code 273"
abbreviation "C_Stlrh \<equiv> Code 274"
abbreviation "C_Ldapr32 \<equiv> Code 275"
abbreviation "C_Ldapr64 \<equiv> Code 276"
abbreviation "C_Ldaprb \<equiv> Code 277"
abbreviation "C_Ldaprh \<equiv> Code 278"
abbreviation "C_Stllr32 \<equiv> Code 279"
abbreviation "C_Stllr64 \<equiv> Code 280"
abbreviation "C_Stllrb \<equiv> Code 281"
abbreviation "C_Stllrh \<equiv> Code 282"
abbreviation "C_Ldlar32 \<equiv> Code 283"
abbreviation "C_Ldlar64 \<equiv> Code 284"
abbreviation "C_Ldlarb \<equiv> Code 285"
abbreviation "C_Ldlarh \<equiv> Code 286"
abbreviation "C_Cas32 \<equiv> Code 287"
abbreviation "C_Cas64 \<equiv> Code 288"
abbreviation "C_Casa32 \<equiv> Code 289"
abbreviation "C_Casa64 \<equiv> Code 290"
abbreviation "C_Casl32 \<equiv> Code 291"
abbreviation "C_Casl64 \<equiv> Code 292"
abbreviation "C_Casal32 \<equiv> Code 293"
abbreviation "C_Casal64 \<equiv> Code 294"
abbreviation "C_Casb \<equiv> Code 295"
abbreviation "C_Casab \<equiv> Code 296"
abbreviation "C_Caslb \<equiv> Code 297"
abbreviation "C_Casalb \<equiv> Code 298"
abbreviation "C_Cash \<equiv> Code 299"
abbreviation "C_Casah \<equiv> Code 300"
abbreviation "C_Caslh \<equiv> Code 301"
abbreviation "C_Casalh \<equiv> Code 302"
abbreviation "C_Casp32 \<equiv> Code 303"
abbreviation "C_Casp64 \<equiv> Code 304"
abbreviation "C_Caspa32 \<equiv> Code 305"
abbreviation "C_Caspa64 \<equiv> Code 306"
abbreviation "C_Caspl32 \<equiv> Code 307"
abbreviation "C_Caspl64 \<equiv> Code 308"
abbreviation "C_Caspal32 \<equiv> Code 309"
abbreviation "C_Caspal64 \<equiv> Code 310"
abbreviation "C_Swp32 \<equiv> Code 311"
abbreviation "C_Swp64 \<equiv> Code 312"
abbreviation "C_Swpa32 \<equiv> Code 313"
abbreviation "C_Swpa64 \<equiv> Code 314"
abbreviation "C_Swpl32 \<equiv> Code 315"
abbreviation "C_Swpl64 \<equiv> Code 316"
abbreviation "C_Swpal32 \<equiv> Code 317"
abbreviation "C_Swpal64 \<equiv> Code 318"
abbreviation "C_Swpb \<equiv> Code 319"
abbreviation "C_Swpab \<equiv> Code 320"
abbreviation "C_Swplb \<equiv> Code 321"
abbreviation "C_Swpalb \<equiv> Code 322"
abbreviation "C_Swph \<equiv> Code 323"
abbreviation "C_Swpah \<equiv> Code 324"
abbreviation "C_Swplh \<equiv> Code 325"
abbreviation "C_Swpalh \<equiv> Code 326"
abbreviation "C_Ld64b \<equiv> Code 327"
abbreviation "C_St64b \<equiv> Code 328"
abbreviation "C_St64bv \<equiv> Code 329"
abbreviation "C_St64bv0 \<equiv> Code 330"
abbreviation "C_Ldtadd32 \<equiv> Code 331"
abbreviation "C_Ldtadd64 \<equiv> Code 332"
abbreviation "C_Ldtaddl32 \<equiv> Code 333"
abbreviation "C_Ldtaddl64 \<equiv> Code 334"
abbreviation "C_Ldtadda32 \<equiv> Code 335"
abbreviation "C_Ldtadda64 \<equiv> Code 336"
abbreviation "C_Ldtaddal32 \<equiv> Code 337"
abbreviation "C_Ldtaddal64 \<equiv> Code 338"
abbreviation "C_Ldtclr32 \<equiv> Code 339"
abbreviation "C_Ldtclr64 \<equiv> Code 340"
abbreviation "C_Ldtclrl32 \<equiv> Code 341"
abbreviation "C_Ldtclrl64 \<equiv> Code 342"
abbreviation "C_Ldtclra32 \<equiv> Code 343"
abbreviation "C_Ldtclra64 \<equiv> Code 344"
abbreviation "C_Ldtclral32 \<equiv> Code 345"
abbreviation "C_Ldtclral64 \<equiv> Code 346"
abbreviation "C_Ldtset32 \<equiv> Code 347"
abbreviation "C_Ldtset64 \<equiv> Code 348"
abbreviation "C_Ldtsetl32 \<equiv> Code 349"
abbreviation "C_Ldtsetl64 \<equiv> Code 350"
abbreviation "C_Ldtseta32 \<equiv> Code 351"
abbreviation "C_Ldtseta64 \<equiv> Code 352"
abbreviation "C_Ldtsetal32 \<equiv> Code 353"
abbreviation "C_Ldtsetal64 \<equiv> Code 354"
abbreviation "C_Swpt32 \<equiv> Code 355"
abbreviation "C_Swpt64 \<equiv> Code 356"
abbreviation "C_Swptl32 \<equiv> Code 357"
abbreviation "C_Swptl64 \<equiv> Code 358"
abbreviation "C_Swpta32 \<equiv> Code 359"
abbreviation "C_Swpta64 \<equiv> Code 360"
abbreviation "C_Swptal32 \<equiv> Code 361"
abbreviation "C_Swptal64 \<equiv> Code 362"
abbreviation "C_Rcwcas \<equiv> Code 363"
abbreviation "C_Rcwcasl \<equiv> Code 364"
abbreviation "C_Rcwcasa \<equiv> Code 365"
abbreviation "C_Rcwcasal \<equiv> Code 366"
abbreviation "C_Rcwcasp \<equiv> Code 367"
abbreviation "C_Rcwcaspl \<equiv> Code 368"
abbreviation "C_Rcwcaspa \<equiv> Code 369"
abbreviation "C_Rcwcaspal \<equiv> Code 370"
abbreviation "C_Rcwclrp \<equiv> Code 371"
abbreviation "C_Rcwclrpl \<equiv> Code 372"
abbreviation "C_Rcwclrpa \<equiv> Code 373"
abbreviation "C_Rcwclrpal \<equiv> Code 374"
abbreviation "C_Rcwsetp \<equiv> Code 375"
abbreviation "C_Rcwsetpl \<equiv> Code 376"
abbreviation "C_Rcwsetpa \<equiv> Code 377"
abbreviation "C_Rcwsetpal \<equiv> Code 378"
abbreviation "C_Rcwswpp \<equiv> Code 379"
abbreviation "C_Rcwswppl \<equiv> Code 380"
abbreviation "C_Rcwswppa \<equiv> Code 381"
abbreviation "C_Rcwswppal \<equiv> Code 382"
abbreviation "C_Rcwscas \<equiv> Code 383"
abbreviation "C_Rcwscasl \<equiv> Code 384"
abbreviation "C_Rcwscasa \<equiv> Code 385"
abbreviation "C_Rcwscasal \<equiv> Code 386"
abbreviation "C_Rcwscasp \<equiv> Code 387"
abbreviation "C_Rcwscaspl \<equiv> Code 388"
abbreviation "C_Rcwscaspa \<equiv> Code 389"
abbreviation "C_Rcwscaspal \<equiv> Code 390"
abbreviation "C_Rcwsclrp \<equiv> Code 391"
abbreviation "C_Rcwsclrpl \<equiv> Code 392"
abbreviation "C_Rcwsclrpa \<equiv> Code 393"
abbreviation "C_Rcwsclrpal \<equiv> Code 394"
abbreviation "C_Rcwssetp \<equiv> Code 395"
abbreviation "C_Rcwssetpl \<equiv> Code 396"
abbreviation "C_Rcwssetpa \<equiv> Code 397"
abbreviation "C_Rcwssetpal \<equiv> Code 398"
abbreviation "C_Rcwsswpp \<equiv> Code 399"
abbreviation "C_Rcwsswppl \<equiv> Code 400"
abbreviation "C_Rcwsswppa \<equiv> Code 401"
abbreviation "C_Rcwsswppal \<equiv> Code 402"
abbreviation "C_Rcwclr \<equiv> Code 403"
abbreviation "C_Rcwclrl \<equiv> Code 404"
abbreviation "C_Rcwclra \<equiv> Code 405"
abbreviation "C_Rcwclral \<equiv> Code 406"
abbreviation "C_Rcwswp \<equiv> Code 407"
abbreviation "C_Rcwswpl \<equiv> Code 408"
abbreviation "C_Rcwswpa \<equiv> Code 409"
abbreviation "C_Rcwswpal \<equiv> Code 410"
abbreviation "C_Rcwset \<equiv> Code 411"
abbreviation "C_Rcwsetl \<equiv> Code 412"
abbreviation "C_Rcwseta \<equiv> Code 413"
abbreviation "C_Rcwsetal \<equiv> Code 414"
abbreviation "C_Rcwsclr \<equiv> Code 415"
abbreviation "C_Rcwsclrl \<equiv> Code 416"
abbreviation "C_Rcwsclra \<equiv> Code 417"
abbreviation "C_Rcwsclral \<equiv> Code 418"
abbreviation "C_Rcwsswp \<equiv> Code 419"
abbreviation "C_Rcwsswpl \<equiv> Code 420"
abbreviation "C_Rcwsswpa \<equiv> Code 421"
abbreviation "C_Rcwsswpal \<equiv> Code 422"
abbreviation "C_Rcwsset \<equiv> Code 423"
abbreviation "C_Rcwssetl \<equiv> Code 424"
abbreviation "C_Rcwsseta \<equiv> Code 425"
abbreviation "C_Rcwssetal \<equiv> Code 426"
abbreviation "C_Ldclrp \<equiv> Code 427"
abbreviation "C_Ldclrpl \<equiv> Code 428"
abbreviation "C_Ldclrpa \<equiv> Code 429"
abbreviation "C_Ldclrpal \<equiv> Code 430"
abbreviation "C_Ldsetp \<equiv> Code 431"
abbreviation "C_Ldsetpl \<equiv> Code 432"
abbreviation "C_Ldsetpa \<equiv> Code 433"
abbreviation "C_Ldsetpal \<equiv> Code 434"
abbreviation "C_Swpp \<equiv> Code 435"
abbreviation "C_Swppl \<equiv> Code 436"
abbreviation "C_Swppa \<equiv> Code 437"
abbreviation "C_Swppal \<equiv> Code 438"
abbreviation "C_Ldadd32 \<equiv> Code 439"
abbreviation "C_Ldadd64 \<equiv> Code 440"
abbreviation "C_Ldadda32 \<equiv> Code 441"
abbreviation "C_Ldadda64 \<equiv> Code 442"
abbreviation "C_Ldaddl32 \<equiv> Code 443"
abbreviation "C_Ldaddl64 \<equiv> Code 444"
abbreviation "C_Ldaddal32 \<equiv> Code 445"
abbreviation "C_Ldaddal64 \<equiv> Code 446"
abbreviation "C_Ldaddb \<equiv> Code 447"
abbreviation "C_Ldaddh \<equiv> Code 448"
abbreviation "C_Stadd32 \<equiv> Code 449"
abbreviation "C_Stadd64 \<equiv> Code 450"
abbreviation "C_Ldclr32 \<equiv> Code 451"
abbreviation "C_Ldclr64 \<equiv> Code 452"
abbreviation "C_Ldclra32 \<equiv> Code 453"
abbreviation "C_Ldclra64 \<equiv> Code 454"
abbreviation "C_Ldclrl32 \<equiv> Code 455"
abbreviation "C_Ldclrl64 \<equiv> Code 456"
abbreviation "C_Ldclral32 \<equiv> Code 457"
abbreviation "C_Ldclral64 \<equiv> Code 458"
abbreviation "C_Ldclrb \<equiv> Code 459"
abbreviation "C_Ldclrh \<equiv> Code 460"
abbreviation "C_Stclr32 \<equiv> Code 461"
abbreviation "C_Stclr64 \<equiv> Code 462"
abbreviation "C_Ldeor32 \<equiv> Code 463"
abbreviation "C_Ldeor64 \<equiv> Code 464"
abbreviation "C_Ldeora32 \<equiv> Code 465"
abbreviation "C_Ldeora64 \<equiv> Code 466"
abbreviation "C_Ldeorl32 \<equiv> Code 467"
abbreviation "C_Ldeorl64 \<equiv> Code 468"
abbreviation "C_Ldeoral32 \<equiv> Code 469"
abbreviation "C_Ldeoral64 \<equiv> Code 470"
abbreviation "C_Ldeorb \<equiv> Code 471"
abbreviation "C_Ldeorh \<equiv> Code 472"
abbreviation "C_Steor32 \<equiv> Code 473"
abbreviation "C_Steor64 \<equiv> Code 474"
abbreviation "C_Ldset32 \<equiv> Code 475"
abbreviation "C_Ldset64 \<equiv> Code 476"
abbreviation "C_Ldseta32 \<equiv> Code 477"
abbreviation "C_Ldseta64 \<equiv> Code 478"
abbreviation "C_Ldsetl32 \<equiv> Code 479"
abbreviation "C_Ldsetl64 \<equiv> Code 480"
abbreviation "C_Ldsetal32 \<equiv> Code 481"
abbreviation "C_Ldsetal64 \<equiv> Code 482"
abbreviation "C_Ldsetb \<equiv> Code 483"
abbreviation "C_Ldseth \<equiv> Code 484"
abbreviation "C_Stset32 \<equiv> Code 485"
abbreviation "C_Stset64 \<equiv> Code 486"
abbreviation "C_Ldsmax32 \<equiv> Code 487"
abbreviation "C_Ldsmax64 \<equiv> Code 488"
abbreviation "C_Ldsmaxb \<equiv> Code 489"
abbreviation "C_Ldsmaxh \<equiv> Code 490"
abbreviation "C_Stsmax32 \<equiv> Code 491"
abbreviation "C_Stsmax64 \<equiv> Code 492"
abbreviation "C_Ldsmin32 \<equiv> Code 493"
abbreviation "C_Ldsmin64 \<equiv> Code 494"
abbreviation "C_Ldsminb \<equiv> Code 495"
abbreviation "C_Ldsminh \<equiv> Code 496"
abbreviation "C_Stsmin32 \<equiv> Code 497"
abbreviation "C_Stsmin64 \<equiv> Code 498"
abbreviation "C_Ldumax32 \<equiv> Code 499"
abbreviation "C_Ldumax64 \<equiv> Code 500"
abbreviation "C_Ldumaxb \<equiv> Code 501"
abbreviation "C_Ldumaxh \<equiv> Code 502"
abbreviation "C_Stumax32 \<equiv> Code 503"
abbreviation "C_Stumax64 \<equiv> Code 504"
abbreviation "C_Ldumin32 \<equiv> Code 505"
abbreviation "C_Ldumin64 \<equiv> Code 506"
abbreviation "C_Lduminb \<equiv> Code 507"
abbreviation "C_Lduminh \<equiv> Code 508"
abbreviation "C_Stumin32 \<equiv> Code 509"
abbreviation "C_Stumin64 \<equiv> Code 510"
abbreviation "C_AndShifted32 \<equiv> Code 511"
abbreviation "C_AndShifted64 \<equiv> Code 512"
abbreviation "C_BicShifted32 \<equiv> Code 513"
abbreviation "C_BicShifted64 \<equiv> Code 514"
abbreviation "C_OrrShifted64 \<equiv> Code 515"
abbreviation "C_OrnShifted32 \<equiv> Code 516"
abbreviation "C_OrnShifted64 \<equiv> Code 517"
abbreviation "C_EorShifted32 \<equiv> Code 518"
abbreviation "C_EorShifted64 \<equiv> Code 519"
abbreviation "C_EonShifted32 \<equiv> Code 520"
abbreviation "C_EonShifted64 \<equiv> Code 521"
abbreviation "C_AndsShifted32 \<equiv> Code 522"
abbreviation "C_AndsShifted64 \<equiv> Code 523"
abbreviation "C_BicsShifted32 \<equiv> Code 524"
abbreviation "C_BicsShifted64 \<equiv> Code 525"
abbreviation "C_AddShifted32 \<equiv> Code 526"
abbreviation "C_AddShifted64 \<equiv> Code 527"
abbreviation "C_AddsShifted32 \<equiv> Code 528"
abbreviation "C_AddsShifted64 \<equiv> Code 529"
abbreviation "C_SubShifted32 \<equiv> Code 530"
abbreviation "C_SubShifted64 \<equiv> Code 531"
abbreviation "C_SubsShifted32 \<equiv> Code 532"
abbreviation "C_SubsShifted64 \<equiv> Code 533"
abbreviation "C_AddExtended32 \<equiv> Code 534"
abbreviation "C_AddExtended64 \<equiv> Code 535"
abbreviation "C_AddsExtended32 \<equiv> Code 536"
abbreviation "C_AddsExtended64 \<equiv> Code 537"
abbreviation "C_SubExtended32 \<equiv> Code 538"
abbreviation "C_SubExtended64 \<equiv> Code 539"
abbreviation "C_SubsExtended32 \<equiv> Code 540"
abbreviation "C_SubsExtended64 \<equiv> Code 541"
abbreviation "C_Adc32 \<equiv> Code 542"
abbreviation "C_Adc64 \<equiv> Code 543"
abbreviation "C_Adcs32 \<equiv> Code 544"
abbreviation "C_Adcs64 \<equiv> Code 545"
abbreviation "C_Sbc32 \<equiv> Code 546"
abbreviation "C_Sbc64 \<equiv> Code 547"
abbreviation "C_Sbcs32 \<equiv> Code 548"
abbreviation "C_Sbcs64 \<equiv> Code 549"
abbreviation "C_CcmnReg32 \<equiv> Code 550"
abbreviation "C_CcmnReg64 \<equiv> Code 551"
abbreviation "C_CcmnImm32 \<equiv> Code 552"
abbreviation "C_CcmnImm64 \<equiv> Code 553"
abbreviation "C_CcmpReg32 \<equiv> Code 554"
abbreviation "C_CcmpReg64 \<equiv> Code 555"
abbreviation "C_CcmpImm32 \<equiv> Code 556"
abbreviation "C_CcmpImm64 \<equiv> Code 557"
abbreviation "C_Csel32 \<equiv> Code 558"
abbreviation "C_Csel64 \<equiv> Code 559"
abbreviation "C_Csinc32 \<equiv> Code 560"
abbreviation "C_Csinc64 \<equiv> Code 561"
abbreviation "C_Csinv32 \<equiv> Code 562"
abbreviation "C_Csinv64 \<equiv> Code 563"
abbreviation "C_Csneg32 \<equiv> Code 564"
abbreviation "C_Csneg64 \<equiv> Code 565"
abbreviation "C_Rbit32 \<equiv> Code 566"
abbreviation "C_Rbit64 \<equiv> Code 567"
abbreviation "C_Rev1632 \<equiv> Code 568"
abbreviation "C_Rev1664 \<equiv> Code 569"
abbreviation "C_Rev3232 \<equiv> Code 570"
abbreviation "C_Rev3264 \<equiv> Code 571"
abbreviation "C_Clz32 \<equiv> Code 572"
abbreviation "C_Clz64 \<equiv> Code 573"
abbreviation "C_Cls32 \<equiv> Code 574"
abbreviation "C_Cls64 \<equiv> Code 575"
abbreviation "C_Rev32Bit \<equiv> Code 576"
abbreviation "C_Rev64Bit \<equiv> Code 577"
abbreviation "C_Udiv32 \<equiv> Code 578"
abbreviation "C_Udiv64 \<equiv> Code 579"
abbreviation "C_Sdiv32 \<equiv> Code 580"
abbreviation "C_Sdiv64 \<equiv> Code 581"
abbreviation "C_Lslv32 \<equiv> Code 582"
abbreviation "C_Lslv64 \<equiv> Code 583"
abbreviation "C_Lsrv32 \<equiv> Code 584"
abbreviation "C_Lsrv64 \<equiv> Code 585"
abbreviation "C_Asrv32 \<equiv> Code 586"
abbreviation "C_Asrv64 \<equiv> Code 587"
abbreviation "C_Rorv32 \<equiv> Code 588"
abbreviation "C_Rorv64 \<equiv> Code 589"
abbreviation "C_Crc32b \<equiv> Code 590"
abbreviation "C_Crc32h \<equiv> Code 591"
abbreviation "C_Crc32w \<equiv> Code 592"
abbreviation "C_Crc32cb \<equiv> Code 593"
abbreviation "C_Crc32ch \<equiv> Code 594"
abbreviation "C_Crc32cw \<equiv> Code 595"
abbreviation "C_Crc32x \<equiv> Code 596"
abbreviation "C_Crc32cx \<equiv> Code 597"
abbreviation "C_Madd32 \<equiv> Code 598"
abbreviation "C_Madd64 \<equiv> Code 599"
abbreviation "C_Msub32 \<equiv> Code 600"
abbreviation "C_Msub64 \<equiv> Code 601"
abbreviation "C_Smaddl \<equiv> Code 602"
abbreviation "C_Smsubl \<equiv> Code 603"
abbreviation "C_Smulh \<equiv> Code 604"
abbreviation "C_Umaddl \<equiv> Code 605"
abbreviation "C_Umsubl \<equiv> Code 606"
abbreviation "C_Umulh \<equiv> Code 607"
abbreviation "C_PaciaDp \<equiv> Code 608"
abbreviation "C_PacibDp \<equiv> Code 609"
abbreviation "C_PacdaDp \<equiv> Code 610"
abbreviation "C_PacdbDp \<equiv> Code 611"
abbreviation "C_AutiaDp \<equiv> Code 612"
abbreviation "C_AutibDp \<equiv> Code 613"
abbreviation "C_AutdaDp \<equiv> Code 614"
abbreviation "C_AutdbDp \<equiv> Code 615"
abbreviation "C_PacizaDp \<equiv> Code 616"
abbreviation "C_PacizbDp \<equiv> Code 617"
abbreviation "C_PacdzaDp \<equiv> Code 618"
abbreviation "C_PacdzbDp \<equiv> Code 619"
abbreviation "C_AutizaDp \<equiv> Code 620"
abbreviation "C_AutizbDp \<equiv> Code 621"
abbreviation "C_AutdzaDp \<equiv> Code 622"
abbreviation "C_AutdzbDp \<equiv> Code 623"
abbreviation "C_XpaciDp \<equiv> Code 624"
abbreviation "C_XpacdDp \<equiv> Code 625"
abbreviation "C_SubpDp \<equiv> Code 626"
abbreviation "C_SubpsDp \<equiv> Code 627"
abbreviation "C_IrgDp \<equiv> Code 628"
abbreviation "C_GmiDp \<equiv> Code 629"
abbreviation "C_FmovS \<equiv> Code 630"
abbreviation "C_FmovD \<equiv> Code 631"
abbreviation "C_FabsS \<equiv> Code 632"
abbreviation "C_FabsD \<equiv> Code 633"
abbreviation "C_FnegS \<equiv> Code 634"
abbreviation "C_FnegD \<equiv> Code 635"
abbreviation "C_FsqrtS \<equiv> Code 636"
abbreviation "C_FsqrtD \<equiv> Code 637"
abbreviation "C_FrintaS \<equiv> Code 638"
abbreviation "C_FrintaD \<equiv> Code 639"
abbreviation "C_FrintiS \<equiv> Code 640"
abbreviation "C_FrintiD \<equiv> Code 641"
abbreviation "C_FrintmS \<equiv> Code 642"
abbreviation "C_FrintmD \<equiv> Code 643"
abbreviation "C_FrintnS \<equiv> Code 644"
abbreviation "C_FrintnD \<equiv> Code 645"
abbreviation "C_FrintpS \<equiv> Code 646"
abbreviation "C_FrintpD \<equiv> Code 647"
abbreviation "C_FrintxS \<equiv> Code 648"
abbreviation "C_FrintxD \<equiv> Code 649"
abbreviation "C_FrintzS \<equiv> Code 650"
abbreviation "C_FrintzD \<equiv> Code 651"
abbreviation "C_FcvtSD \<equiv> Code 652"
abbreviation "C_FcvtDS \<equiv> Code 653"
abbreviation "C_FcvtSH \<equiv> Code 654"
abbreviation "C_FcvtDH \<equiv> Code 655"
abbreviation "C_FcvtHS \<equiv> Code 656"
abbreviation "C_FcvtHD \<equiv> Code 657"
abbreviation "C_FaddS \<equiv> Code 658"
abbreviation "C_FaddD \<equiv> Code 659"
abbreviation "C_FsubS \<equiv> Code 660"
abbreviation "C_FsubD \<equiv> Code 661"
abbreviation "C_FmulS \<equiv> Code 662"
abbreviation "C_FmulD \<equiv> Code 663"
abbreviation "C_FdivS \<equiv> Code 664"
abbreviation "C_FdivD \<equiv> Code 665"
abbreviation "C_FmaxS \<equiv> Code 666"
abbreviation "C_FmaxD \<equiv> Code 667"
abbreviation "C_FminS \<equiv> Code 668"
abbreviation "C_FminD \<equiv> Code 669"
abbreviation "C_FmaxnmS \<equiv> Code 670"
abbreviation "C_FmaxnmD \<equiv> Code 671"
abbreviation "C_FminnmS \<equiv> Code 672"
abbreviation "C_FminnmD \<equiv> Code 673"
abbreviation "C_FnmulS \<equiv> Code 674"
abbreviation "C_FnmulD \<equiv> Code 675"
abbreviation "C_FmaddS \<equiv> Code 676"
abbreviation "C_FmaddD \<equiv> Code 677"
abbreviation "C_FmsubS \<equiv> Code 678"
abbreviation "C_FmsubD \<equiv> Code 679"
abbreviation "C_FnmaddS \<equiv> Code 680"
abbreviation "C_FnmaddD \<equiv> Code 681"
abbreviation "C_FnmsubS \<equiv> Code 682"
abbreviation "C_FnmsubD \<equiv> Code 683"
abbreviation "C_FcmpS \<equiv> Code 684"
abbreviation "C_FcmpD \<equiv> Code 685"
abbreviation "C_FcmpeS \<equiv> Code 686"
abbreviation "C_FcmpeD \<equiv> Code 687"
abbreviation "C_FccmpS \<equiv> Code 688"
abbreviation "C_FccmpD \<equiv> Code 689"
abbreviation "C_FccmpeS \<equiv> Code 690"
abbreviation "C_FccmpeD \<equiv> Code 691"
abbreviation "C_FcselS \<equiv> Code 692"
abbreviation "C_FcselD \<equiv> Code 693"
abbreviation "C_FmovImmS \<equiv> Code 694"
abbreviation "C_FmovImmD \<equiv> Code 695"
abbreviation "C_FcvtzsScalarS32 \<equiv> Code 696"
abbreviation "C_FcvtzsScalarS64 \<equiv> Code 697"
abbreviation "C_FcvtzsScalarD32 \<equiv> Code 698"
abbreviation "C_FcvtzsScalarD64 \<equiv> Code 699"
abbreviation "C_FcvtzuScalarS32 \<equiv> Code 700"
abbreviation "C_FcvtzuScalarS64 \<equiv> Code 701"
abbreviation "C_FcvtzuScalarD32 \<equiv> Code 702"
abbreviation "C_FcvtzuScalarD64 \<equiv> Code 703"
abbreviation "C_ScvtfS32 \<equiv> Code 704"
abbreviation "C_ScvtfS64 \<equiv> Code 705"
abbreviation "C_ScvtfD32 \<equiv> Code 706"
abbreviation "C_ScvtfD64 \<equiv> Code 707"
abbreviation "C_UcvtfS32 \<equiv> Code 708"
abbreviation "C_UcvtfS64 \<equiv> Code 709"
abbreviation "C_UcvtfD32 \<equiv> Code 710"
abbreviation "C_UcvtfD64 \<equiv> Code 711"
abbreviation "C_FcvtasScalar \<equiv> Code 712"
abbreviation "C_FcvtauScalar \<equiv> Code 713"
abbreviation "C_FcvtmsScalar \<equiv> Code 714"
abbreviation "C_FcvtmuScalar \<equiv> Code 715"
abbreviation "C_FcvtnsScalar \<equiv> Code 716"
abbreviation "C_FcvtnuScalar \<equiv> Code 717"
abbreviation "C_FcvtpsScalar \<equiv> Code 718"
abbreviation "C_FcvtpuScalar \<equiv> Code 719"
abbreviation "C_FmovToGp32 \<equiv> Code 720"
abbreviation "C_FmovToGp64 \<equiv> Code 721"
abbreviation "C_FmovFromGp32 \<equiv> Code 722"
abbreviation "C_FmovFromGp64 \<equiv> Code 723"
abbreviation "C_FmovTopToGp \<equiv> Code 724"
abbreviation "C_FmovTopFromGp \<equiv> Code 725"
abbreviation "C_Fjcvtzs \<equiv> Code 726"
abbreviation "C_FmovH \<equiv> Code 727"
abbreviation "C_FabsH \<equiv> Code 728"
abbreviation "C_FnegH \<equiv> Code 729"
abbreviation "C_FsqrtH \<equiv> Code 730"
abbreviation "C_FrintaH \<equiv> Code 731"
abbreviation "C_FrintiH \<equiv> Code 732"
abbreviation "C_FrintmH \<equiv> Code 733"
abbreviation "C_FrintnH \<equiv> Code 734"
abbreviation "C_FrintpH \<equiv> Code 735"
abbreviation "C_FrintxH \<equiv> Code 736"
abbreviation "C_FrintzH \<equiv> Code 737"
abbreviation "C_FaddH \<equiv> Code 738"
abbreviation "C_FsubH \<equiv> Code 739"
abbreviation "C_FmulH \<equiv> Code 740"
abbreviation "C_FdivH \<equiv> Code 741"
abbreviation "C_FmaxH \<equiv> Code 742"
abbreviation "C_FminH \<equiv> Code 743"
abbreviation "C_FmaxnmH \<equiv> Code 744"
abbreviation "C_FminnmH \<equiv> Code 745"
abbreviation "C_FnmulH \<equiv> Code 746"
abbreviation "C_FmaddH \<equiv> Code 747"
abbreviation "C_FmsubH \<equiv> Code 748"
abbreviation "C_FnmaddH \<equiv> Code 749"
abbreviation "C_FnmsubH \<equiv> Code 750"
abbreviation "C_FcmpH \<equiv> Code 751"
abbreviation "C_FcmpeH \<equiv> Code 752"
abbreviation "C_FccmpH \<equiv> Code 753"
abbreviation "C_FccmpeH \<equiv> Code 754"
abbreviation "C_FcselH \<equiv> Code 755"
abbreviation "C_FmovImmH \<equiv> Code 756"
abbreviation "C_FmovToGpH32 \<equiv> Code 757"
abbreviation "C_FmovToGpH64 \<equiv> Code 758"
abbreviation "C_FmovFromGpH32 \<equiv> Code 759"
abbreviation "C_FmovFromGpH64 \<equiv> Code 760"
abbreviation "C_ScvtfH32 \<equiv> Code 761"
abbreviation "C_ScvtfH64 \<equiv> Code 762"
abbreviation "C_UcvtfH32 \<equiv> Code 763"
abbreviation "C_UcvtfH64 \<equiv> Code 764"
abbreviation "C_FcvtzsScalarH32 \<equiv> Code 765"
abbreviation "C_FcvtzsScalarH64 \<equiv> Code 766"
abbreviation "C_FcvtzuScalarH32 \<equiv> Code 767"
abbreviation "C_FcvtzuScalarH64 \<equiv> Code 768"
abbreviation "C_ScvtfFixedS32 \<equiv> Code 769"
abbreviation "C_ScvtfFixedS64 \<equiv> Code 770"
abbreviation "C_ScvtfFixedD32 \<equiv> Code 771"
abbreviation "C_ScvtfFixedD64 \<equiv> Code 772"
abbreviation "C_ScvtfFixedH32 \<equiv> Code 773"
abbreviation "C_ScvtfFixedH64 \<equiv> Code 774"
abbreviation "C_UcvtfFixedS32 \<equiv> Code 775"
abbreviation "C_UcvtfFixedS64 \<equiv> Code 776"
abbreviation "C_UcvtfFixedD32 \<equiv> Code 777"
abbreviation "C_UcvtfFixedD64 \<equiv> Code 778"
abbreviation "C_UcvtfFixedH32 \<equiv> Code 779"
abbreviation "C_UcvtfFixedH64 \<equiv> Code 780"
abbreviation "C_FcvtzsFixedS32 \<equiv> Code 781"
abbreviation "C_FcvtzsFixedS64 \<equiv> Code 782"
abbreviation "C_FcvtzsFixedD32 \<equiv> Code 783"
abbreviation "C_FcvtzsFixedD64 \<equiv> Code 784"
abbreviation "C_FcvtzsFixedH32 \<equiv> Code 785"
abbreviation "C_FcvtzsFixedH64 \<equiv> Code 786"
abbreviation "C_FcvtzuFixedS32 \<equiv> Code 787"
abbreviation "C_FcvtzuFixedS64 \<equiv> Code 788"
abbreviation "C_FcvtzuFixedD32 \<equiv> Code 789"
abbreviation "C_FcvtzuFixedD64 \<equiv> Code 790"
abbreviation "C_FcvtzuFixedH32 \<equiv> Code 791"
abbreviation "C_FcvtzuFixedH64 \<equiv> Code 792"
abbreviation "C_Frint32xS \<equiv> Code 793"
abbreviation "C_Frint32xD \<equiv> Code 794"
abbreviation "C_Frint32zS \<equiv> Code 795"
abbreviation "C_Frint32zD \<equiv> Code 796"
abbreviation "C_Frint64xS \<equiv> Code 797"
abbreviation "C_Frint64xD \<equiv> Code 798"
abbreviation "C_Frint64zS \<equiv> Code 799"
abbreviation "C_Frint64zD \<equiv> Code 800"
abbreviation "C_Bfcvt \<equiv> Code 801"
abbreviation "C_DupElement \<equiv> Code 802"
abbreviation "C_DupElementScalar \<equiv> Code 803"
abbreviation "C_DupGeneral \<equiv> Code 804"
abbreviation "C_InsElement \<equiv> Code 805"
abbreviation "C_InsGeneral \<equiv> Code 806"
abbreviation "C_Umov \<equiv> Code 807"
abbreviation "C_Smov \<equiv> Code 808"
abbreviation "C_MoviVector \<equiv> Code 809"
abbreviation "C_MvniVector \<equiv> Code 810"
abbreviation "C_Tbl \<equiv> Code 811"
abbreviation "C_Tbx \<equiv> Code 812"
abbreviation "C_Ext \<equiv> Code 813"
abbreviation "C_Zip1 \<equiv> Code 814"
abbreviation "C_Zip2 \<equiv> Code 815"
abbreviation "C_Uzp1 \<equiv> Code 816"
abbreviation "C_Uzp2 \<equiv> Code 817"
abbreviation "C_Trn1 \<equiv> Code 818"
abbreviation "C_Trn2 \<equiv> Code 819"
abbreviation "C_AddVector \<equiv> Code 820"
abbreviation "C_SubVector \<equiv> Code 821"
abbreviation "C_Addv \<equiv> Code 822"
abbreviation "C_CntVector \<equiv> Code 823"
abbreviation "C_Ld1Multiple \<equiv> Code 824"
abbreviation "C_St1Multiple \<equiv> Code 825"
abbreviation "C_Ld1SingleRep \<equiv> Code 826"
abbreviation "C_LdraaOff \<equiv> Code 827"
abbreviation "C_LdraaPre \<equiv> Code 828"
abbreviation "C_LdrabOff \<equiv> Code 829"
abbreviation "C_LdrabPre \<equiv> Code 830"
abbreviation "C_Ldapur32 \<equiv> Code 831"
abbreviation "C_Ldapur64 \<equiv> Code 832"
abbreviation "C_Ldapurb \<equiv> Code 833"
abbreviation "C_Ldapurh \<equiv> Code 834"
abbreviation "C_Ldapursb32 \<equiv> Code 835"
abbreviation "C_Ldapursb64 \<equiv> Code 836"
abbreviation "C_Ldapursh32 \<equiv> Code 837"
abbreviation "C_Ldapursh64 \<equiv> Code 838"
abbreviation "C_Ldapursw \<equiv> Code 839"
abbreviation "C_Stlur32 \<equiv> Code 840"
abbreviation "C_Stlur64 \<equiv> Code 841"
abbreviation "C_Stlurb \<equiv> Code 842"
abbreviation "C_Stlurh \<equiv> Code 843"
abbreviation "C_LdapurFp8 \<equiv> Code 844"
abbreviation "C_LdapurFp16 \<equiv> Code 845"
abbreviation "C_LdapurFp32 \<equiv> Code 846"
abbreviation "C_LdapurFp64 \<equiv> Code 847"
abbreviation "C_LdapurFp128 \<equiv> Code 848"
abbreviation "C_StlurFp8 \<equiv> Code 849"
abbreviation "C_StlurFp16 \<equiv> Code 850"
abbreviation "C_StlurFp32 \<equiv> Code 851"
abbreviation "C_StlurFp64 \<equiv> Code 852"
abbreviation "C_StlurFp128 \<equiv> Code 853"
abbreviation "C_LdiappOff \<equiv> Code 854"
abbreviation "C_LdiappPost \<equiv> Code 855"
abbreviation "C_StilpOff \<equiv> Code 856"
abbreviation "C_StilpPre \<equiv> Code 857"
abbreviation "C_LdtpPost \<equiv> Code 858"
abbreviation "C_LdtpOff \<equiv> Code 859"
abbreviation "C_LdtpPre \<equiv> Code 860"
abbreviation "C_SttpPost \<equiv> Code 861"
abbreviation "C_SttpOff \<equiv> Code 862"
abbreviation "C_SttpPre \<equiv> Code 863"
abbreviation "C_Ldtnp \<equiv> Code 864"
abbreviation "C_Sttnp \<equiv> Code 865"
abbreviation "C_LdtpqPost \<equiv> Code 866"
abbreviation "C_LdtpqOff \<equiv> Code 867"
abbreviation "C_LdtpqPre \<equiv> Code 868"
abbreviation "C_SttpqPost \<equiv> Code 869"
abbreviation "C_SttpqOff \<equiv> Code 870"
abbreviation "C_SttpqPre \<equiv> Code 871"
abbreviation "C_Ldtnpq \<equiv> Code 872"
abbreviation "C_Sttnpq \<equiv> Code 873"
abbreviation "C_StlrPre32 \<equiv> Code 874"
abbreviation "C_StlrPre64 \<equiv> Code 875"
abbreviation "C_LdaprPost32 \<equiv> Code 876"
abbreviation "C_LdaprPost64 \<equiv> Code 877"
abbreviation "C_StgOff \<equiv> Code 878"
abbreviation "C_StgPre \<equiv> Code 879"
abbreviation "C_StgPost \<equiv> Code 880"
abbreviation "C_StzgOff \<equiv> Code 881"
abbreviation "C_StzgPre \<equiv> Code 882"
abbreviation "C_StzgPost \<equiv> Code 883"
abbreviation "C_St2gOff \<equiv> Code 884"
abbreviation "C_St2gPre \<equiv> Code 885"
abbreviation "C_St2gPost \<equiv> Code 886"
abbreviation "C_Stz2gOff \<equiv> Code 887"
abbreviation "C_Stz2gPre \<equiv> Code 888"
abbreviation "C_Stz2gPost \<equiv> Code 889"
abbreviation "C_StgpOff \<equiv> Code 890"
abbreviation "C_StgpPre \<equiv> Code 891"
abbreviation "C_StgpPost \<equiv> Code 892"
abbreviation "C_LdgOff \<equiv> Code 893"
abbreviation "C_Ldgm \<equiv> Code 894"
abbreviation "C_Stgm \<equiv> Code 895"
abbreviation "C_Stzgm \<equiv> Code 896"
abbreviation "C_Cpyfp \<equiv> Code 897"
abbreviation "C_Cpyfpwt \<equiv> Code 898"
abbreviation "C_Cpyfprt \<equiv> Code 899"
abbreviation "C_Cpyfpt \<equiv> Code 900"
abbreviation "C_Cpyfpwn \<equiv> Code 901"
abbreviation "C_Cpyfpwtwn \<equiv> Code 902"
abbreviation "C_Cpyfprtwn \<equiv> Code 903"
abbreviation "C_Cpyfptwn \<equiv> Code 904"
abbreviation "C_Cpyfprn \<equiv> Code 905"
abbreviation "C_Cpyfpwtrn \<equiv> Code 906"
abbreviation "C_Cpyfprtrn \<equiv> Code 907"
abbreviation "C_Cpyfptrn \<equiv> Code 908"
abbreviation "C_Cpyfpn \<equiv> Code 909"
abbreviation "C_Cpyfpwtn \<equiv> Code 910"
abbreviation "C_Cpyfprtn \<equiv> Code 911"
abbreviation "C_Cpyfptn \<equiv> Code 912"
abbreviation "C_Cpyfm \<equiv> Code 913"
abbreviation "C_Cpyfmwt \<equiv> Code 914"
abbreviation "C_Cpyfmrt \<equiv> Code 915"
abbreviation "C_Cpyfmt \<equiv> Code 916"
abbreviation "C_Cpyfmwn \<equiv> Code 917"
abbreviation "C_Cpyfmwtwn \<equiv> Code 918"
abbreviation "C_Cpyfmrtwn \<equiv> Code 919"
abbreviation "C_Cpyfmtwn \<equiv> Code 920"
abbreviation "C_Cpyfmrn \<equiv> Code 921"
abbreviation "C_Cpyfmwtrn \<equiv> Code 922"
abbreviation "C_Cpyfmrtrn \<equiv> Code 923"
abbreviation "C_Cpyfmtrn \<equiv> Code 924"
abbreviation "C_Cpyfmn \<equiv> Code 925"
abbreviation "C_Cpyfmwtn \<equiv> Code 926"
abbreviation "C_Cpyfmrtn \<equiv> Code 927"
abbreviation "C_Cpyfmtn \<equiv> Code 928"
abbreviation "C_Cpyfe \<equiv> Code 929"
abbreviation "C_Cpyfewt \<equiv> Code 930"
abbreviation "C_Cpyfert \<equiv> Code 931"
abbreviation "C_Cpyfet \<equiv> Code 932"
abbreviation "C_Cpyfewn \<equiv> Code 933"
abbreviation "C_Cpyfewtwn \<equiv> Code 934"
abbreviation "C_Cpyfertwn \<equiv> Code 935"
abbreviation "C_Cpyfetwn \<equiv> Code 936"
abbreviation "C_Cpyfern \<equiv> Code 937"
abbreviation "C_Cpyfewtrn \<equiv> Code 938"
abbreviation "C_Cpyfertrn \<equiv> Code 939"
abbreviation "C_Cpyfetrn \<equiv> Code 940"
abbreviation "C_Cpyfen \<equiv> Code 941"
abbreviation "C_Cpyfewtn \<equiv> Code 942"
abbreviation "C_Cpyfertn \<equiv> Code 943"
abbreviation "C_Cpyfetn \<equiv> Code 944"
abbreviation "C_Setp \<equiv> Code 945"
abbreviation "C_Setpt \<equiv> Code 946"
abbreviation "C_Setpn \<equiv> Code 947"
abbreviation "C_Setptn \<equiv> Code 948"
abbreviation "C_Setm \<equiv> Code 949"
abbreviation "C_Setmt \<equiv> Code 950"
abbreviation "C_Setmn \<equiv> Code 951"
abbreviation "C_Setmtn \<equiv> Code 952"
abbreviation "C_Sete \<equiv> Code 953"
abbreviation "C_Setet \<equiv> Code 954"
abbreviation "C_Seten \<equiv> Code 955"
abbreviation "C_Setetn \<equiv> Code 956"
abbreviation "C_Cpyp \<equiv> Code 957"
abbreviation "C_Cpypwt \<equiv> Code 958"
abbreviation "C_Cpyprt \<equiv> Code 959"
abbreviation "C_Cpypt \<equiv> Code 960"
abbreviation "C_Cpypwn \<equiv> Code 961"
abbreviation "C_Cpypwtwn \<equiv> Code 962"
abbreviation "C_Cpyprtwn \<equiv> Code 963"
abbreviation "C_Cpyptwn \<equiv> Code 964"
abbreviation "C_Cpyprn \<equiv> Code 965"
abbreviation "C_Cpypwtrn \<equiv> Code 966"
abbreviation "C_Cpyprtrn \<equiv> Code 967"
abbreviation "C_Cpyptrn \<equiv> Code 968"
abbreviation "C_Cpypn \<equiv> Code 969"
abbreviation "C_Cpypwtn \<equiv> Code 970"
abbreviation "C_Cpyprtn \<equiv> Code 971"
abbreviation "C_Cpyptn \<equiv> Code 972"
abbreviation "C_Cpym \<equiv> Code 973"
abbreviation "C_Cpymwt \<equiv> Code 974"
abbreviation "C_Cpymrt \<equiv> Code 975"
abbreviation "C_Cpymt \<equiv> Code 976"
abbreviation "C_Cpymwn \<equiv> Code 977"
abbreviation "C_Cpymwtwn \<equiv> Code 978"
abbreviation "C_Cpymrtwn \<equiv> Code 979"
abbreviation "C_Cpymtwn \<equiv> Code 980"
abbreviation "C_Cpymrn \<equiv> Code 981"
abbreviation "C_Cpymwtrn \<equiv> Code 982"
abbreviation "C_Cpymrtrn \<equiv> Code 983"
abbreviation "C_Cpymtrn \<equiv> Code 984"
abbreviation "C_Cpymn \<equiv> Code 985"
abbreviation "C_Cpymwtn \<equiv> Code 986"
abbreviation "C_Cpymrtn \<equiv> Code 987"
abbreviation "C_Cpymtn \<equiv> Code 988"
abbreviation "C_Cpye \<equiv> Code 989"
abbreviation "C_Cpyewt \<equiv> Code 990"
abbreviation "C_Cpyert \<equiv> Code 991"
abbreviation "C_Cpyet \<equiv> Code 992"
abbreviation "C_Cpyewn \<equiv> Code 993"
abbreviation "C_Cpyewtwn \<equiv> Code 994"
abbreviation "C_Cpyertwn \<equiv> Code 995"
abbreviation "C_Cpyetwn \<equiv> Code 996"
abbreviation "C_Cpyern \<equiv> Code 997"
abbreviation "C_Cpyewtrn \<equiv> Code 998"
abbreviation "C_Cpyertrn \<equiv> Code 999"
abbreviation "C_Cpyetrn \<equiv> Code 1000"
abbreviation "C_Cpyen \<equiv> Code 1001"
abbreviation "C_Cpyewtn \<equiv> Code 1002"
abbreviation "C_Cpyertn \<equiv> Code 1003"
abbreviation "C_Cpyetn \<equiv> Code 1004"
abbreviation "C_Setgp \<equiv> Code 1005"
abbreviation "C_Setgpt \<equiv> Code 1006"
abbreviation "C_Setgpn \<equiv> Code 1007"
abbreviation "C_Setgptn \<equiv> Code 1008"
abbreviation "C_Setgm \<equiv> Code 1009"
abbreviation "C_Setgmt \<equiv> Code 1010"
abbreviation "C_Setgmn \<equiv> Code 1011"
abbreviation "C_Setgmtn \<equiv> Code 1012"
abbreviation "C_Setge \<equiv> Code 1013"
abbreviation "C_Setget \<equiv> Code 1014"
abbreviation "C_Setgen \<equiv> Code 1015"
abbreviation "C_Setgetn \<equiv> Code 1016"
abbreviation "C_AbsVec \<equiv> Code 1017"
abbreviation "C_AddVec \<equiv> Code 1018"
abbreviation "C_AddhnVec \<equiv> Code 1019"
abbreviation "C_Addhn2Vec \<equiv> Code 1020"
abbreviation "C_AddpVec \<equiv> Code 1021"
abbreviation "C_AddvVec \<equiv> Code 1022"
abbreviation "C_ClsVec \<equiv> Code 1023"
abbreviation "C_ClzVec \<equiv> Code 1024"
abbreviation "C_CmeqVec \<equiv> Code 1025"
abbreviation "C_CmgeVec \<equiv> Code 1026"
abbreviation "C_CmgtVec \<equiv> Code 1027"
abbreviation "C_CmhiVec \<equiv> Code 1028"
abbreviation "C_CmhsVec \<equiv> Code 1029"
abbreviation "C_CmleVec \<equiv> Code 1030"
abbreviation "C_CmltVec \<equiv> Code 1031"
abbreviation "C_CmtstVec \<equiv> Code 1032"
abbreviation "C_CntVec \<equiv> Code 1033"
abbreviation "C_FabdVec \<equiv> Code 1034"
abbreviation "C_FabsVec \<equiv> Code 1035"
abbreviation "C_FacgeVec \<equiv> Code 1036"
abbreviation "C_FacgtVec \<equiv> Code 1037"
abbreviation "C_FaddVec \<equiv> Code 1038"
abbreviation "C_FaddpVec \<equiv> Code 1039"
abbreviation "C_FcaddVec \<equiv> Code 1040"
abbreviation "C_FcmeqVec \<equiv> Code 1041"
abbreviation "C_FcmgeVec \<equiv> Code 1042"
abbreviation "C_FcmgtVec \<equiv> Code 1043"
abbreviation "C_FcmlaVec \<equiv> Code 1044"
abbreviation "C_FcmleVec \<equiv> Code 1045"
abbreviation "C_FcmltVec \<equiv> Code 1046"
abbreviation "C_FcvtasVec \<equiv> Code 1047"
abbreviation "C_FcvtauVec \<equiv> Code 1048"
abbreviation "C_FcvtlVec \<equiv> Code 1049"
abbreviation "C_Fcvtl2Vec \<equiv> Code 1050"
abbreviation "C_FcvtmsVec \<equiv> Code 1051"
abbreviation "C_FcvtmuVec \<equiv> Code 1052"
abbreviation "C_FcvtnVec \<equiv> Code 1053"
abbreviation "C_Fcvtn2Vec \<equiv> Code 1054"
abbreviation "C_FcvtnsVec \<equiv> Code 1055"
abbreviation "C_FcvtnuVec \<equiv> Code 1056"
abbreviation "C_FcvtpsVec \<equiv> Code 1057"
abbreviation "C_FcvtpuVec \<equiv> Code 1058"
abbreviation "C_FcvtxnVec \<equiv> Code 1059"
abbreviation "C_Fcvtxn2Vec \<equiv> Code 1060"
abbreviation "C_FcvtzsVec \<equiv> Code 1061"
abbreviation "C_FcvtzuVec \<equiv> Code 1062"
abbreviation "C_FdivVec \<equiv> Code 1063"
abbreviation "C_FmaxVec \<equiv> Code 1064"
abbreviation "C_FmaxnmVec \<equiv> Code 1065"
abbreviation "C_FmaxnmpVec \<equiv> Code 1066"
abbreviation "C_FmaxnmvVec \<equiv> Code 1067"
abbreviation "C_FmaxpVec \<equiv> Code 1068"
abbreviation "C_FmaxvVec \<equiv> Code 1069"
abbreviation "C_FminVec \<equiv> Code 1070"
abbreviation "C_FminnmVec \<equiv> Code 1071"
abbreviation "C_FminnmpVec \<equiv> Code 1072"
abbreviation "C_FminnmvVec \<equiv> Code 1073"
abbreviation "C_FminpVec \<equiv> Code 1074"
abbreviation "C_FminvVec \<equiv> Code 1075"
abbreviation "C_FmlaVec \<equiv> Code 1076"
abbreviation "C_FmlalVec \<equiv> Code 1077"
abbreviation "C_Fmlal2Vec \<equiv> Code 1078"
abbreviation "C_FmlsVec \<equiv> Code 1079"
abbreviation "C_FmlslVec \<equiv> Code 1080"
abbreviation "C_Fmlsl2Vec \<equiv> Code 1081"
abbreviation "C_FmulVec \<equiv> Code 1082"
abbreviation "C_FmulxVec \<equiv> Code 1083"
abbreviation "C_FnegVec \<equiv> Code 1084"
abbreviation "C_FrecpeVec \<equiv> Code 1085"
abbreviation "C_FrecpsVec \<equiv> Code 1086"
abbreviation "C_FrecpxVec \<equiv> Code 1087"
abbreviation "C_Frint32xVec \<equiv> Code 1088"
abbreviation "C_Frint32zVec \<equiv> Code 1089"
abbreviation "C_Frint64xVec \<equiv> Code 1090"
abbreviation "C_Frint64zVec \<equiv> Code 1091"
abbreviation "C_FrintaVec \<equiv> Code 1092"
abbreviation "C_FrintiVec \<equiv> Code 1093"
abbreviation "C_FrintmVec \<equiv> Code 1094"
abbreviation "C_FrintnVec \<equiv> Code 1095"
abbreviation "C_FrintpVec \<equiv> Code 1096"
abbreviation "C_FrintxVec \<equiv> Code 1097"
abbreviation "C_FrintzVec \<equiv> Code 1098"
abbreviation "C_FrsqrteVec \<equiv> Code 1099"
abbreviation "C_FrsqrtsVec \<equiv> Code 1100"
abbreviation "C_FsqrtVec \<equiv> Code 1101"
abbreviation "C_FsubVec \<equiv> Code 1102"
abbreviation "C_MlaVec \<equiv> Code 1103"
abbreviation "C_MlsVec \<equiv> Code 1104"
abbreviation "C_MulVec \<equiv> Code 1105"
abbreviation "C_NegVec \<equiv> Code 1106"
abbreviation "C_PmulVec \<equiv> Code 1107"
abbreviation "C_PmullVec \<equiv> Code 1108"
abbreviation "C_Pmull2Vec \<equiv> Code 1109"
abbreviation "C_RaddhnVec \<equiv> Code 1110"
abbreviation "C_Raddhn2Vec \<equiv> Code 1111"
abbreviation "C_Rev16Vec \<equiv> Code 1112"
abbreviation "C_Rev32Vec \<equiv> Code 1113"
abbreviation "C_Rev64Vec \<equiv> Code 1114"
abbreviation "C_RsubhnVec \<equiv> Code 1115"
abbreviation "C_Rsubhn2Vec \<equiv> Code 1116"
abbreviation "C_SabaVec \<equiv> Code 1117"
abbreviation "C_SabalVec \<equiv> Code 1118"
abbreviation "C_Sabal2Vec \<equiv> Code 1119"
abbreviation "C_SabdVec \<equiv> Code 1120"
abbreviation "C_SabdlVec \<equiv> Code 1121"
abbreviation "C_Sabdl2Vec \<equiv> Code 1122"
abbreviation "C_SadalpVec \<equiv> Code 1123"
abbreviation "C_SaddlVec \<equiv> Code 1124"
abbreviation "C_Saddl2Vec \<equiv> Code 1125"
abbreviation "C_SaddlpVec \<equiv> Code 1126"
abbreviation "C_SaddlvVec \<equiv> Code 1127"
abbreviation "C_SaddwVec \<equiv> Code 1128"
abbreviation "C_Saddw2Vec \<equiv> Code 1129"
abbreviation "C_ScvtfVec \<equiv> Code 1130"
abbreviation "C_ShaddVec \<equiv> Code 1131"
abbreviation "C_ShllVec \<equiv> Code 1132"
abbreviation "C_Shll2Vec \<equiv> Code 1133"
abbreviation "C_ShsubVec \<equiv> Code 1134"
abbreviation "C_SmaxVec \<equiv> Code 1135"
abbreviation "C_SmaxpVec \<equiv> Code 1136"
abbreviation "C_SmaxvVec \<equiv> Code 1137"
abbreviation "C_SminVec \<equiv> Code 1138"
abbreviation "C_SminpVec \<equiv> Code 1139"
abbreviation "C_SminvVec \<equiv> Code 1140"
abbreviation "C_SmlalVec \<equiv> Code 1141"
abbreviation "C_Smlal2Vec \<equiv> Code 1142"
abbreviation "C_SmlslVec \<equiv> Code 1143"
abbreviation "C_Smlsl2Vec \<equiv> Code 1144"
abbreviation "C_SmullVec \<equiv> Code 1145"
abbreviation "C_Smull2Vec \<equiv> Code 1146"
abbreviation "C_SqabsVec \<equiv> Code 1147"
abbreviation "C_SqaddVec \<equiv> Code 1148"
abbreviation "C_SqdmlalVec \<equiv> Code 1149"
abbreviation "C_Sqdmlal2Vec \<equiv> Code 1150"
abbreviation "C_SqdmlslVec \<equiv> Code 1151"
abbreviation "C_Sqdmlsl2Vec \<equiv> Code 1152"
abbreviation "C_SqdmulhVec \<equiv> Code 1153"
abbreviation "C_SqdmullVec \<equiv> Code 1154"
abbreviation "C_Sqdmull2Vec \<equiv> Code 1155"
abbreviation "C_SqnegVec \<equiv> Code 1156"
abbreviation "C_SqrdmlahVec \<equiv> Code 1157"
abbreviation "C_SqrdmlshVec \<equiv> Code 1158"
abbreviation "C_SdotVec \<equiv> Code 1159"
abbreviation "C_UdotVec \<equiv> Code 1160"
abbreviation "C_SdotIdx \<equiv> Code 1161"
abbreviation "C_UdotIdx \<equiv> Code 1162"
abbreviation "C_SqrdmulhVec \<equiv> Code 1163"
abbreviation "C_SqrshlVec \<equiv> Code 1164"
abbreviation "C_SqshlVec \<equiv> Code 1165"
abbreviation "C_SqsubVec \<equiv> Code 1166"
abbreviation "C_SqxtnVec \<equiv> Code 1167"
abbreviation "C_Sqxtn2Vec \<equiv> Code 1168"
abbreviation "C_SqxtunVec \<equiv> Code 1169"
abbreviation "C_Sqxtun2Vec \<equiv> Code 1170"
abbreviation "C_SrhaddVec \<equiv> Code 1171"
abbreviation "C_SrshlVec \<equiv> Code 1172"
abbreviation "C_SshlVec \<equiv> Code 1173"
abbreviation "C_SsublVec \<equiv> Code 1174"
abbreviation "C_Ssubl2Vec \<equiv> Code 1175"
abbreviation "C_SsubwVec \<equiv> Code 1176"
abbreviation "C_Ssubw2Vec \<equiv> Code 1177"
abbreviation "C_SubVec \<equiv> Code 1178"
abbreviation "C_SubhnVec \<equiv> Code 1179"
abbreviation "C_Subhn2Vec \<equiv> Code 1180"
abbreviation "C_SuqaddVec \<equiv> Code 1181"
abbreviation "C_UabaVec \<equiv> Code 1182"
abbreviation "C_UabalVec \<equiv> Code 1183"
abbreviation "C_Uabal2Vec \<equiv> Code 1184"
abbreviation "C_UabdVec \<equiv> Code 1185"
abbreviation "C_UabdlVec \<equiv> Code 1186"
abbreviation "C_Uabdl2Vec \<equiv> Code 1187"
abbreviation "C_UadalpVec \<equiv> Code 1188"
abbreviation "C_UaddlVec \<equiv> Code 1189"
abbreviation "C_Uaddl2Vec \<equiv> Code 1190"
abbreviation "C_UaddlpVec \<equiv> Code 1191"
abbreviation "C_UaddlvVec \<equiv> Code 1192"
abbreviation "C_UaddwVec \<equiv> Code 1193"
abbreviation "C_Uaddw2Vec \<equiv> Code 1194"
abbreviation "C_UcvtfVec \<equiv> Code 1195"
abbreviation "C_UhaddVec \<equiv> Code 1196"
abbreviation "C_UhsubVec \<equiv> Code 1197"
abbreviation "C_UmaxVec \<equiv> Code 1198"
abbreviation "C_UmaxpVec \<equiv> Code 1199"
abbreviation "C_UmaxvVec \<equiv> Code 1200"
abbreviation "C_UminVec \<equiv> Code 1201"
abbreviation "C_UminpVec \<equiv> Code 1202"
abbreviation "C_UminvVec \<equiv> Code 1203"
abbreviation "C_UmlalVec \<equiv> Code 1204"
abbreviation "C_Umlal2Vec \<equiv> Code 1205"
abbreviation "C_UmlslVec \<equiv> Code 1206"
abbreviation "C_Umlsl2Vec \<equiv> Code 1207"
abbreviation "C_UmullVec \<equiv> Code 1208"
abbreviation "C_Umull2Vec \<equiv> Code 1209"
abbreviation "C_UqaddVec \<equiv> Code 1210"
abbreviation "C_UqrshlVec \<equiv> Code 1211"
abbreviation "C_UqshlVec \<equiv> Code 1212"
abbreviation "C_UqsubVec \<equiv> Code 1213"
abbreviation "C_UqxtnVec \<equiv> Code 1214"
abbreviation "C_Uqxtn2Vec \<equiv> Code 1215"
abbreviation "C_UrecpeVec \<equiv> Code 1216"
abbreviation "C_UrhaddVec \<equiv> Code 1217"
abbreviation "C_UrshlVec \<equiv> Code 1218"
abbreviation "C_UrsqrteVec \<equiv> Code 1219"
abbreviation "C_UshlVec \<equiv> Code 1220"
abbreviation "C_UsqaddVec \<equiv> Code 1221"
abbreviation "C_UsublVec \<equiv> Code 1222"
abbreviation "C_Usubl2Vec \<equiv> Code 1223"
abbreviation "C_UsubwVec \<equiv> Code 1224"
abbreviation "C_Usubw2Vec \<equiv> Code 1225"
abbreviation "C_XtnVec \<equiv> Code 1226"
abbreviation "C_Xtn2Vec \<equiv> Code 1227"
abbreviation "C_OrrVecImm \<equiv> Code 1228"
abbreviation "C_BicVecImm \<equiv> Code 1229"
abbreviation "C_FmovVecImmS \<equiv> Code 1230"
abbreviation "C_FmovVecImmH \<equiv> Code 1231"
abbreviation "C_FmovVecImmD2 \<equiv> Code 1232"
abbreviation "C_MoviScalarD \<equiv> Code 1233"
abbreviation "C_MoviVec2D \<equiv> Code 1234"
abbreviation "C_SshrVec \<equiv> Code 1235"
abbreviation "C_UshrVec \<equiv> Code 1236"
abbreviation "C_SrshrVec \<equiv> Code 1237"
abbreviation "C_UrshrVec \<equiv> Code 1238"
abbreviation "C_SsraVec \<equiv> Code 1239"
abbreviation "C_UsraVec \<equiv> Code 1240"
abbreviation "C_SrsraVec \<equiv> Code 1241"
abbreviation "C_UrsraVec \<equiv> Code 1242"
abbreviation "C_ShlVec \<equiv> Code 1243"
abbreviation "C_SqshlImmVec \<equiv> Code 1244"
abbreviation "C_UqshlImmVec \<equiv> Code 1245"
abbreviation "C_SqshluImmVec \<equiv> Code 1246"
abbreviation "C_SliVec \<equiv> Code 1247"
abbreviation "C_SriVec \<equiv> Code 1248"
abbreviation "C_ShrnVec \<equiv> Code 1249"
abbreviation "C_Shrn2Vec \<equiv> Code 1250"
abbreviation "C_RshrnVec \<equiv> Code 1251"
abbreviation "C_Rshrn2Vec \<equiv> Code 1252"
abbreviation "C_SqshrnVec \<equiv> Code 1253"
abbreviation "C_Sqshrn2Vec \<equiv> Code 1254"
abbreviation "C_SqrshrnVec \<equiv> Code 1255"
abbreviation "C_Sqrshrn2Vec \<equiv> Code 1256"
abbreviation "C_UqshrnVec \<equiv> Code 1257"
abbreviation "C_Uqshrn2Vec \<equiv> Code 1258"
abbreviation "C_UqrshrnVec \<equiv> Code 1259"
abbreviation "C_Uqrshrn2Vec \<equiv> Code 1260"
abbreviation "C_SqshrunVec \<equiv> Code 1261"
abbreviation "C_Sqshrun2Vec \<equiv> Code 1262"
abbreviation "C_SqrshrunVec \<equiv> Code 1263"
abbreviation "C_Sqrshrun2Vec \<equiv> Code 1264"
abbreviation "C_SshllVec \<equiv> Code 1265"
abbreviation "C_Sshll2Vec \<equiv> Code 1266"
abbreviation "C_UshllVec \<equiv> Code 1267"
abbreviation "C_Ushll2Vec \<equiv> Code 1268"
abbreviation "C_SxtlVec \<equiv> Code 1269"
abbreviation "C_Sxtl2Vec \<equiv> Code 1270"
abbreviation "C_UxtlVec \<equiv> Code 1271"
abbreviation "C_Uxtl2Vec \<equiv> Code 1272"
abbreviation "C_ScvtfFixedVec \<equiv> Code 1273"
abbreviation "C_UcvtfFixedVec \<equiv> Code 1274"
abbreviation "C_FcvtzsFixedVec \<equiv> Code 1275"
abbreviation "C_FcvtzuFixedVec \<equiv> Code 1276"
abbreviation "C_SshrScalar \<equiv> Code 1277"
abbreviation "C_UshrScalar \<equiv> Code 1278"
abbreviation "C_SrshrScalar \<equiv> Code 1279"
abbreviation "C_UrshrScalar \<equiv> Code 1280"
abbreviation "C_SsraScalar \<equiv> Code 1281"
abbreviation "C_UsraScalar \<equiv> Code 1282"
abbreviation "C_SrsraScalar \<equiv> Code 1283"
abbreviation "C_UrsraScalar \<equiv> Code 1284"
abbreviation "C_ShlScalar \<equiv> Code 1285"
abbreviation "C_SqshlImmScalar \<equiv> Code 1286"
abbreviation "C_UqshlImmScalar \<equiv> Code 1287"
abbreviation "C_SqshluImmScalar \<equiv> Code 1288"
abbreviation "C_SliScalar \<equiv> Code 1289"
abbreviation "C_SriScalar \<equiv> Code 1290"
abbreviation "C_SqshrnScalar \<equiv> Code 1291"
abbreviation "C_SqrshrnScalar \<equiv> Code 1292"
abbreviation "C_UqshrnScalar \<equiv> Code 1293"
abbreviation "C_UqrshrnScalar \<equiv> Code 1294"
abbreviation "C_SqshrunScalar \<equiv> Code 1295"
abbreviation "C_SqrshrunScalar \<equiv> Code 1296"
abbreviation "C_ScvtfFixedScalar \<equiv> Code 1297"
abbreviation "C_UcvtfFixedScalar \<equiv> Code 1298"
abbreviation "C_FcvtzsFixedScalar \<equiv> Code 1299"
abbreviation "C_FcvtzuFixedScalar \<equiv> Code 1300"
abbreviation "C_SveAddZzz \<equiv> Code 1301"
abbreviation "C_SveSubZzz \<equiv> Code 1302"
abbreviation "C_SveSqaddZzz \<equiv> Code 1303"
abbreviation "C_SveUqaddZzz \<equiv> Code 1304"
abbreviation "C_SveSqsubZzz \<equiv> Code 1305"
abbreviation "C_SveUqsubZzz \<equiv> Code 1306"
abbreviation "C_SveMulZzz \<equiv> Code 1307"
abbreviation "C_SveSmulhZzz \<equiv> Code 1308"
abbreviation "C_SveUmulhZzz \<equiv> Code 1309"
abbreviation "C_SvePmulZzz \<equiv> Code 1310"
abbreviation "C_SveAndZzz \<equiv> Code 1311"
abbreviation "C_SveOrrZzz \<equiv> Code 1312"
abbreviation "C_SveEorZzz \<equiv> Code 1313"
abbreviation "C_SveBicZzz \<equiv> Code 1314"
abbreviation "C_SveMovZzz \<equiv> Code 1315"
abbreviation "C_SveAddZpzz \<equiv> Code 1316"
abbreviation "C_SveSubZpzz \<equiv> Code 1317"
abbreviation "C_SveSubrZpzz \<equiv> Code 1318"
abbreviation "C_SveMulZpzz \<equiv> Code 1319"
abbreviation "C_SveSmaxZpzz \<equiv> Code 1320"
abbreviation "C_SveUmaxZpzz \<equiv> Code 1321"
abbreviation "C_SveSminZpzz \<equiv> Code 1322"
abbreviation "C_SveUminZpzz \<equiv> Code 1323"
abbreviation "C_SveSabdZpzz \<equiv> Code 1324"
abbreviation "C_SveUabdZpzz \<equiv> Code 1325"
abbreviation "C_SveSdivZpzz \<equiv> Code 1326"
abbreviation "C_SveUdivZpzz \<equiv> Code 1327"
abbreviation "C_SveSdivrZpzz \<equiv> Code 1328"
abbreviation "C_SveUdivrZpzz \<equiv> Code 1329"
abbreviation "C_SveSmulhZpzz \<equiv> Code 1330"
abbreviation "C_SveUmulhZpzz \<equiv> Code 1331"
abbreviation "C_SveAndZpzz \<equiv> Code 1332"
abbreviation "C_SveOrrZpzz \<equiv> Code 1333"
abbreviation "C_SveEorZpzz \<equiv> Code 1334"
abbreviation "C_SveBicZpzz \<equiv> Code 1335"
abbreviation "C_SveMlaZpzzz \<equiv> Code 1336"
abbreviation "C_SveMlsZpzzz \<equiv> Code 1337"
abbreviation "C_SveMadZpzzz \<equiv> Code 1338"
abbreviation "C_SveMsbZpzzz \<equiv> Code 1339"
abbreviation "C_SveAbsZpz \<equiv> Code 1340"
abbreviation "C_SveNegZpz \<equiv> Code 1341"
abbreviation "C_SveCntZpz \<equiv> Code 1342"
abbreviation "C_SveClsZpz \<equiv> Code 1343"
abbreviation "C_SveClzZpz \<equiv> Code 1344"
abbreviation "C_SveCnotZpz \<equiv> Code 1345"
abbreviation "C_SveNotZpz \<equiv> Code 1346"
abbreviation "C_SveRbitZpz \<equiv> Code 1347"
abbreviation "C_SveSxtbZpz \<equiv> Code 1348"
abbreviation "C_SveSxthZpz \<equiv> Code 1349"
abbreviation "C_SveSxtwZpz \<equiv> Code 1350"
abbreviation "C_SveUxtbZpz \<equiv> Code 1351"
abbreviation "C_SveUxthZpz \<equiv> Code 1352"
abbreviation "C_SveUxtwZpz \<equiv> Code 1353"
abbreviation "C_SveAndZi \<equiv> Code 1354"
abbreviation "C_SveOrrZi \<equiv> Code 1355"
abbreviation "C_SveEorZi \<equiv> Code 1356"
abbreviation "C_SveDupmZi \<equiv> Code 1357"
abbreviation "C_SveAddZi \<equiv> Code 1358"
abbreviation "C_SveSubZi \<equiv> Code 1359"
abbreviation "C_SveSubrZi \<equiv> Code 1360"
abbreviation "C_SveSqaddZi \<equiv> Code 1361"
abbreviation "C_SveUqaddZi \<equiv> Code 1362"
abbreviation "C_SveSqsubZi \<equiv> Code 1363"
abbreviation "C_SveUqsubZi \<equiv> Code 1364"
abbreviation "C_SveSmaxZi \<equiv> Code 1365"
abbreviation "C_SveUmaxZi \<equiv> Code 1366"
abbreviation "C_SveSminZi \<equiv> Code 1367"
abbreviation "C_SveUminZi \<equiv> Code 1368"
abbreviation "C_SveMulZi \<equiv> Code 1369"
abbreviation "C_SveAsrZi \<equiv> Code 1370"
abbreviation "C_SveLsrZi \<equiv> Code 1371"
abbreviation "C_SveLslZi \<equiv> Code 1372"
abbreviation "C_SveAsrZpzi \<equiv> Code 1373"
abbreviation "C_SveLsrZpzi \<equiv> Code 1374"
abbreviation "C_SveLslZpzi \<equiv> Code 1375"
abbreviation "C_SveAsrdZpzi \<equiv> Code 1376"
abbreviation "C_SveAsrZpzz \<equiv> Code 1377"
abbreviation "C_SveLsrZpzz \<equiv> Code 1378"
abbreviation "C_SveLslZpzz \<equiv> Code 1379"
abbreviation "C_SveAsrrZpzz \<equiv> Code 1380"
abbreviation "C_SveLsrrZpzz \<equiv> Code 1381"
abbreviation "C_SveLslrZpzz \<equiv> Code 1382"
abbreviation "C_SveAsrWide \<equiv> Code 1383"
abbreviation "C_SveLsrWide \<equiv> Code 1384"
abbreviation "C_SveLslWide \<equiv> Code 1385"
abbreviation "C_SveAsrWidePred \<equiv> Code 1386"
abbreviation "C_SveLsrWidePred \<equiv> Code 1387"
abbreviation "C_SveLslWidePred \<equiv> Code 1388"
abbreviation "C_SveSaddv \<equiv> Code 1389"
abbreviation "C_SveUaddv \<equiv> Code 1390"
abbreviation "C_SveSmaxv \<equiv> Code 1391"
abbreviation "C_SveSminv \<equiv> Code 1392"
abbreviation "C_SveUmaxv \<equiv> Code 1393"
abbreviation "C_SveUminv \<equiv> Code 1394"
abbreviation "C_SveAndv \<equiv> Code 1395"
abbreviation "C_SveOrv \<equiv> Code 1396"
abbreviation "C_SveEorv \<equiv> Code 1397"
abbreviation "C_SveMovprfxZpz \<equiv> Code 1398"
abbreviation "C_SveMovprfxZz \<equiv> Code 1399"
abbreviation "C_SveIndexImmImm \<equiv> Code 1400"
abbreviation "C_SveIndexIr \<equiv> Code 1401"
abbreviation "C_SveIndexRi \<equiv> Code 1402"
abbreviation "C_SveIndexRr \<equiv> Code 1403"
abbreviation "C_SveCmpZi \<equiv> Code 1404"
abbreviation "C_SveCmpZz \<equiv> Code 1405"
abbreviation "C_SveCmpZw \<equiv> Code 1406"
abbreviation "C_SveIncDecScalar \<equiv> Code 1407"
abbreviation "C_SveIncDecVector \<equiv> Code 1408"
abbreviation "C_SveSqIncDecScalarSx \<equiv> Code 1409"
abbreviation "C_SveIncDecPScalar \<equiv> Code 1410"
abbreviation "C_SveIncDecPVector \<equiv> Code 1411"
abbreviation "C_SveSqIncDecPScalarSx \<equiv> Code 1412"
abbreviation "C_SveCntElem \<equiv> Code 1413"
abbreviation "C_SveCntp \<equiv> Code 1414"
abbreviation "C_SveAddvl \<equiv> Code 1415"
abbreviation "C_SveAddpl \<equiv> Code 1416"
abbreviation "C_SveRdvl \<equiv> Code 1417"
abbreviation "C_SveAddsvl \<equiv> Code 1418"
abbreviation "C_SveAddspl \<equiv> Code 1419"
abbreviation "C_SveRdsvl \<equiv> Code 1420"
abbreviation "C_SveDupImm \<equiv> Code 1421"
abbreviation "C_SveDupScalar \<equiv> Code 1422"
abbreviation "C_SveDupIdx \<equiv> Code 1423"
abbreviation "C_SveCpyImmMerge \<equiv> Code 1424"
abbreviation "C_SveCpyImmZero \<equiv> Code 1425"
abbreviation "C_SveCpyScalar \<equiv> Code 1426"
abbreviation "C_SveCpyVec \<equiv> Code 1427"
abbreviation "C_SveSelZpzz \<equiv> Code 1428"
abbreviation "C_SveInsrScalar \<equiv> Code 1429"
abbreviation "C_SveInsrVec \<equiv> Code 1430"
abbreviation "C_SveAdrSameScaled \<equiv> Code 1431"
abbreviation "C_SveAdrSxtw \<equiv> Code 1432"
abbreviation "C_SveAdrUxtw \<equiv> Code 1433"
abbreviation "C_SveSdot \<equiv> Code 1434"
abbreviation "C_SveUdot \<equiv> Code 1435"
abbreviation "C_SveSdotIdx \<equiv> Code 1436"
abbreviation "C_SveUdotIdx \<equiv> Code 1437"
abbreviation "C_SveSdotH \<equiv> Code 1438"
abbreviation "C_SveUdotH \<equiv> Code 1439"
abbreviation "C_SveSdotHIdx \<equiv> Code 1440"
abbreviation "C_SveUdotHIdx \<equiv> Code 1441"
abbreviation "C_SveAddptPred \<equiv> Code 1442"
abbreviation "C_SveSubptPred \<equiv> Code 1443"
abbreviation "C_SveAddptUnpred \<equiv> Code 1444"
abbreviation "C_SveSubptUnpred \<equiv> Code 1445"
abbreviation "C_Addpt \<equiv> Code 1446"
abbreviation "C_Subpt \<equiv> Code 1447"
abbreviation "C_Maddpt \<equiv> Code 1448"
abbreviation "C_Msubpt \<equiv> Code 1449"
abbreviation "C_Cbgt \<equiv> Code 1450"
abbreviation "C_Cbge \<equiv> Code 1451"
abbreviation "C_Cbhi \<equiv> Code 1452"
abbreviation "C_Cbhs \<equiv> Code 1453"
abbreviation "C_Cbeq \<equiv> Code 1454"
abbreviation "C_Cbne \<equiv> Code 1455"
abbreviation "C_Cblt \<equiv> Code 1456"
abbreviation "C_Cblo \<equiv> Code 1457"
abbreviation "C_Cbbgt \<equiv> Code 1458"
abbreviation "C_Cbbge \<equiv> Code 1459"
abbreviation "C_Cbbhi \<equiv> Code 1460"
abbreviation "C_Cbbhs \<equiv> Code 1461"
abbreviation "C_Cbbeq \<equiv> Code 1462"
abbreviation "C_Cbbne \<equiv> Code 1463"
abbreviation "C_Cbhgt \<equiv> Code 1464"
abbreviation "C_Cbhge \<equiv> Code 1465"
abbreviation "C_Cbhhi \<equiv> Code 1466"
abbreviation "C_Cbhhs \<equiv> Code 1467"
abbreviation "C_Cbheq \<equiv> Code 1468"
abbreviation "C_Cbhne \<equiv> Code 1469"
abbreviation "C_SveSqrdmlah \<equiv> Code 1470"
abbreviation "C_SveSqrdmlsh \<equiv> Code 1471"
abbreviation "C_SveSqrdmlahIdx \<equiv> Code 1472"
abbreviation "C_SveSqrdmlshIdx \<equiv> Code 1473"
abbreviation "C_SveMulIdx \<equiv> Code 1474"
abbreviation "C_SveMlaIdx \<equiv> Code 1475"
abbreviation "C_SveMlsIdx \<equiv> Code 1476"
abbreviation "C_SveSqdmulhIdx \<equiv> Code 1477"
abbreviation "C_SveSqrdmulhIdx \<equiv> Code 1478"
abbreviation "C_SveMulLong \<equiv> Code 1479"
abbreviation "C_SveMulLongIdx \<equiv> Code 1480"
abbreviation "C_SveMlaLong \<equiv> Code 1481"
abbreviation "C_SveMlaLongIdx \<equiv> Code 1482"
abbreviation "C_SveAbdLong \<equiv> Code 1483"
abbreviation "C_SveAddLong \<equiv> Code 1484"
abbreviation "C_SveAddLongBt \<equiv> Code 1485"
abbreviation "C_SveAddWide \<equiv> Code 1486"
abbreviation "C_SveAddHighNarrow \<equiv> Code 1487"
abbreviation "C_SveAbaLong \<equiv> Code 1488"
abbreviation "C_SveAddCarryLong \<equiv> Code 1489"
abbreviation "C_SveCadd \<equiv> Code 1490"
abbreviation "C_SveSqcadd \<equiv> Code 1491"
abbreviation "C_SveAdalp \<equiv> Code 1492"
abbreviation "C_SveShiftAccum \<equiv> Code 1493"
abbreviation "C_SveShiftInsert \<equiv> Code 1494"
abbreviation "C_SveShiftLongImm \<equiv> Code 1495"
abbreviation "C_SveShiftNarrow \<equiv> Code 1496"
abbreviation "C_SveExtractNarrow \<equiv> Code 1497"
abbreviation "C_SveBitPerm \<equiv> Code 1498"
abbreviation "C_SveEorInterleave \<equiv> Code 1499"
abbreviation "C_SveHistcnt \<equiv> Code 1500"
abbreviation "C_SveHistseg \<equiv> Code 1501"
abbreviation "C_SveSm4e \<equiv> Code 1502"
abbreviation "C_SveSm4ekey \<equiv> Code 1503"
abbreviation "C_SveMatmulInt \<equiv> Code 1504"
abbreviation "C_SveDotMixed \<equiv> Code 1505"
abbreviation "C_SveAbaSame \<equiv> Code 1506"
abbreviation "C_SveMatch \<equiv> Code 1507"
abbreviation "C_SveAesZz \<equiv> Code 1508"
abbreviation "C_SveAesMc \<equiv> Code 1509"
abbreviation "C_SveSclamp \<equiv> Code 1510"
abbreviation "C_SveUclamp \<equiv> Code 1511"
abbreviation "C_SveRecipEst \<equiv> Code 1512"
abbreviation "C_SvePmulLong \<equiv> Code 1513"
abbreviation "C_SveSqdmulLong \<equiv> Code 1514"
abbreviation "C_SveSqdmulLongIdx \<equiv> Code 1515"
abbreviation "C_SveSqdmlalLong \<equiv> Code 1516"
abbreviation "C_SveSqdmlalLongIdx \<equiv> Code 1517"
abbreviation "C_SveSqdmlalLongBt \<equiv> Code 1518"
abbreviation "C_SveCmla \<equiv> Code 1519"
abbreviation "C_SveCmlaIdx \<equiv> Code 1520"
abbreviation "C_SveCdot \<equiv> Code 1521"
abbreviation "C_SveCdotIdx \<equiv> Code 1522"
abbreviation "C_SveSqrdcmlah \<equiv> Code 1523"
abbreviation "C_SveSqrdcmlahIdx \<equiv> Code 1524"
abbreviation "C_SveEor3 \<equiv> Code 1525"
abbreviation "C_SveBcax \<equiv> Code 1526"
abbreviation "C_SveBsl \<equiv> Code 1527"
abbreviation "C_SveBsl1n \<equiv> Code 1528"
abbreviation "C_SveBsl2n \<equiv> Code 1529"
abbreviation "C_SveNbsl \<equiv> Code 1530"
abbreviation "C_SveXar \<equiv> Code 1531"
abbreviation "C_SveRax1 \<equiv> Code 1532"
abbreviation "C_SveHalvingZpzz \<equiv> Code 1533"
abbreviation "C_SveSatRoundZpzz \<equiv> Code 1534"
abbreviation "C_SveSatUnaryZpz \<equiv> Code 1535"
abbreviation "C_SvePairZpzz \<equiv> Code 1536"
abbreviation "C_SveZipUzpTrnZzz \<equiv> Code 1537"
abbreviation "C_SveZipUzpTrnQ \<equiv> Code 1538"
abbreviation "C_SveRevZz \<equiv> Code 1539"
abbreviation "C_SveRevbhw \<equiv> Code 1540"
abbreviation "C_SveUnpk \<equiv> Code 1541"
abbreviation "C_SveCompact \<equiv> Code 1542"
abbreviation "C_SveSpliceDes \<equiv> Code 1543"
abbreviation "C_SveSpliceCon \<equiv> Code 1544"
abbreviation "C_SveExtDes \<equiv> Code 1545"
abbreviation "C_SveExtCon \<equiv> Code 1546"
abbreviation "C_SveTbl \<equiv> Code 1547"
abbreviation "C_SveTbl2 \<equiv> Code 1548"
abbreviation "C_SveTbx \<equiv> Code 1549"
abbreviation "C_SveZipqUzpq \<equiv> Code 1550"
abbreviation "C_SveTblq \<equiv> Code 1551"
abbreviation "C_SveTbxq \<equiv> Code 1552"
abbreviation "C_SveExpand \<equiv> Code 1553"
abbreviation "C_SveDupq \<equiv> Code 1554"
abbreviation "C_SveExtq \<equiv> Code 1555"
abbreviation "C_SvePmov \<equiv> Code 1556"
abbreviation "C_SveAddqv \<equiv> Code 1557"
abbreviation "C_SveSmaxqv \<equiv> Code 1558"
abbreviation "C_SveUmaxqv \<equiv> Code 1559"
abbreviation "C_SveSminqv \<equiv> Code 1560"
abbreviation "C_SveUminqv \<equiv> Code 1561"
abbreviation "C_SveOrqv \<equiv> Code 1562"
abbreviation "C_SveEorqv \<equiv> Code 1563"
abbreviation "C_SveAndqv \<equiv> Code 1564"
abbreviation "C_SveFaddqv \<equiv> Code 1565"
abbreviation "C_SveFmaxnmqv \<equiv> Code 1566"
abbreviation "C_SveFminnmqv \<equiv> Code 1567"
abbreviation "C_SveFmaxqv \<equiv> Code 1568"
abbreviation "C_SveFminqv \<equiv> Code 1569"
abbreviation "C_SveLuti2 \<equiv> Code 1570"
abbreviation "C_SveLuti4 \<equiv> Code 1571"
abbreviation "C_SveLuti4Two \<equiv> Code 1572"
abbreviation "C_SveClastV \<equiv> Code 1573"
abbreviation "C_SveClastR \<equiv> Code 1574"
abbreviation "C_SveClastZ \<equiv> Code 1575"
abbreviation "C_SveLastV \<equiv> Code 1576"
abbreviation "C_SveLastR \<equiv> Code 1577"
abbreviation "C_SveZipUzpTrnPpp \<equiv> Code 1578"
abbreviation "C_SveRevP \<equiv> Code 1579"
abbreviation "C_SvePunpk \<equiv> Code 1580"
abbreviation "C_SveDupPred \<equiv> Code 1581"
abbreviation "C_SvePredLogical \<equiv> Code 1582"
abbreviation "C_SveSelPred \<equiv> Code 1583"
abbreviation "C_SvePtrue \<equiv> Code 1584"
abbreviation "C_SvePfalse \<equiv> Code 1585"
abbreviation "C_SvePtest \<equiv> Code 1586"
abbreviation "C_SvePfirst \<equiv> Code 1587"
abbreviation "C_SvePnext \<equiv> Code 1588"
abbreviation "C_SveRdffrPred \<equiv> Code 1589"
abbreviation "C_SveRdffr \<equiv> Code 1590"
abbreviation "C_SveWrffr \<equiv> Code 1591"
abbreviation "C_SveSetffr \<equiv> Code 1592"
abbreviation "C_SveBrkpPred \<equiv> Code 1593"
abbreviation "C_SveBrkPred \<equiv> Code 1594"
abbreviation "C_SveBrkn \<equiv> Code 1595"
abbreviation "C_SveCmpVec \<equiv> Code 1596"
abbreviation "C_SveCmpWide \<equiv> Code 1597"
abbreviation "C_SveCmpUImm \<equiv> Code 1598"
abbreviation "C_SveWhile \<equiv> Code 1599"
abbreviation "C_SveWhileRw \<equiv> Code 1600"
abbreviation "C_SveCterm \<equiv> Code 1601"
abbreviation "C_SveFaddZzz \<equiv> Code 1602"
abbreviation "C_SveFsubZzz \<equiv> Code 1603"
abbreviation "C_SveFmulZzz \<equiv> Code 1604"
abbreviation "C_SveFtsmulZzz \<equiv> Code 1605"
abbreviation "C_SveFrecpsZzz \<equiv> Code 1606"
abbreviation "C_SveFrsqrtsZzz \<equiv> Code 1607"
abbreviation "C_SveFaddZpzz \<equiv> Code 1608"
abbreviation "C_SveFsubZpzz \<equiv> Code 1609"
abbreviation "C_SveFmulZpzz \<equiv> Code 1610"
abbreviation "C_SveFsubrZpzz \<equiv> Code 1611"
abbreviation "C_SveFmaxnmZpzz \<equiv> Code 1612"
abbreviation "C_SveFminnmZpzz \<equiv> Code 1613"
abbreviation "C_SveFmaxZpzz \<equiv> Code 1614"
abbreviation "C_SveFminZpzz \<equiv> Code 1615"
abbreviation "C_SveFabdZpzz \<equiv> Code 1616"
abbreviation "C_SveFscaleZpzz \<equiv> Code 1617"
abbreviation "C_SveFmulxZpzz \<equiv> Code 1618"
abbreviation "C_SveFdivrZpzz \<equiv> Code 1619"
abbreviation "C_SveFdivZpzz \<equiv> Code 1620"
abbreviation "C_SveFaddpZpzz \<equiv> Code 1621"
abbreviation "C_SveFmaxnmpZpzz \<equiv> Code 1622"
abbreviation "C_SveFminnmpZpzz \<equiv> Code 1623"
abbreviation "C_SveFmaxpZpzz \<equiv> Code 1624"
abbreviation "C_SveFminpZpzz \<equiv> Code 1625"
abbreviation "C_SveFaddZpzi \<equiv> Code 1626"
abbreviation "C_SveFsubZpzi \<equiv> Code 1627"
abbreviation "C_SveFmulZpzi \<equiv> Code 1628"
abbreviation "C_SveFsubrZpzi \<equiv> Code 1629"
abbreviation "C_SveFmaxnmZpzi \<equiv> Code 1630"
abbreviation "C_SveFminnmZpzi \<equiv> Code 1631"
abbreviation "C_SveFmaxZpzi \<equiv> Code 1632"
abbreviation "C_SveFminZpzi \<equiv> Code 1633"
abbreviation "C_SveFabsZpz \<equiv> Code 1634"
abbreviation "C_SveFnegZpz \<equiv> Code 1635"
abbreviation "C_SveFrecpxZpz \<equiv> Code 1636"
abbreviation "C_SveFsqrtZpz \<equiv> Code 1637"
abbreviation "C_SveFlogbZpz \<equiv> Code 1638"
abbreviation "C_SveFrintnZpz \<equiv> Code 1639"
abbreviation "C_SveFrintpZpz \<equiv> Code 1640"
abbreviation "C_SveFrintmZpz \<equiv> Code 1641"
abbreviation "C_SveFrintzZpz \<equiv> Code 1642"
abbreviation "C_SveFrintaZpz \<equiv> Code 1643"
abbreviation "C_SveFrintxZpz \<equiv> Code 1644"
abbreviation "C_SveFrintiZpz \<equiv> Code 1645"
abbreviation "C_SveFcvt \<equiv> Code 1646"
abbreviation "C_SveFcvtlt \<equiv> Code 1647"
abbreviation "C_SveFcvtnt \<equiv> Code 1648"
abbreviation "C_SveFcvtx \<equiv> Code 1649"
abbreviation "C_SveFcvtxnt \<equiv> Code 1650"
abbreviation "C_SveBfcvt \<equiv> Code 1651"
abbreviation "C_SveBfcvtnt \<equiv> Code 1652"
abbreviation "C_SveFcvtzs \<equiv> Code 1653"
abbreviation "C_SveFcvtzu \<equiv> Code 1654"
abbreviation "C_SveScvtf \<equiv> Code 1655"
abbreviation "C_SveUcvtf \<equiv> Code 1656"
abbreviation "C_SveFrecpe \<equiv> Code 1657"
abbreviation "C_SveFrsqrte \<equiv> Code 1658"
abbreviation "C_SveFexpa \<equiv> Code 1659"
abbreviation "C_SveFtssel \<equiv> Code 1660"
abbreviation "C_SveFtmad \<equiv> Code 1661"
abbreviation "C_SveFmlaZpzzz \<equiv> Code 1662"
abbreviation "C_SveFmlsZpzzz \<equiv> Code 1663"
abbreviation "C_SveFnmlaZpzzz \<equiv> Code 1664"
abbreviation "C_SveFnmlsZpzzz \<equiv> Code 1665"
abbreviation "C_SveFmadZpzzz \<equiv> Code 1666"
abbreviation "C_SveFmsbZpzzz \<equiv> Code 1667"
abbreviation "C_SveFnmadZpzzz \<equiv> Code 1668"
abbreviation "C_SveFnmsbZpzzz \<equiv> Code 1669"
abbreviation "C_SveFmlaIdx \<equiv> Code 1670"
abbreviation "C_SveFmlsIdx \<equiv> Code 1671"
abbreviation "C_SveFmulIdx \<equiv> Code 1672"
abbreviation "C_SveFcadd \<equiv> Code 1673"
abbreviation "C_SveFcmlaZpzzz \<equiv> Code 1674"
abbreviation "C_SveFcmlaIdx \<equiv> Code 1675"
abbreviation "C_SveFaddv \<equiv> Code 1676"
abbreviation "C_SveFmaxnmv \<equiv> Code 1677"
abbreviation "C_SveFminnmv \<equiv> Code 1678"
abbreviation "C_SveFmaxv \<equiv> Code 1679"
abbreviation "C_SveFminv \<equiv> Code 1680"
abbreviation "C_SveFadda \<equiv> Code 1681"
abbreviation "C_SveFcmeqZz \<equiv> Code 1682"
abbreviation "C_SveFcmgeZz \<equiv> Code 1683"
abbreviation "C_SveFcmgtZz \<equiv> Code 1684"
abbreviation "C_SveFcmneZz \<equiv> Code 1685"
abbreviation "C_SveFcmuoZz \<equiv> Code 1686"
abbreviation "C_SveFacgeZz \<equiv> Code 1687"
abbreviation "C_SveFacgtZz \<equiv> Code 1688"
abbreviation "C_SveFcmeqZ0 \<equiv> Code 1689"
abbreviation "C_SveFcmgeZ0 \<equiv> Code 1690"
abbreviation "C_SveFcmgtZ0 \<equiv> Code 1691"
abbreviation "C_SveFcmltZ0 \<equiv> Code 1692"
abbreviation "C_SveFcmleZ0 \<equiv> Code 1693"
abbreviation "C_SveFcmneZ0 \<equiv> Code 1694"
abbreviation "C_SveFcpy \<equiv> Code 1695"
abbreviation "C_SveFdup \<equiv> Code 1696"
abbreviation "C_SveFmmla \<equiv> Code 1697"
abbreviation "C_SveBfdot \<equiv> Code 1698"
abbreviation "C_SveBfdotIdx \<equiv> Code 1699"
abbreviation "C_SveBfmlalb \<equiv> Code 1700"
abbreviation "C_SveBfmlalt \<equiv> Code 1701"
abbreviation "C_SveBfmlalbIdx \<equiv> Code 1702"
abbreviation "C_SveBfmlaltIdx \<equiv> Code 1703"
abbreviation "C_SveBfmmla \<equiv> Code 1704"
abbreviation "C_SveFmlalb \<equiv> Code 1705"
abbreviation "C_SveFmlalt \<equiv> Code 1706"
abbreviation "C_SveFmlslb \<equiv> Code 1707"
abbreviation "C_SveFmlslt \<equiv> Code 1708"
abbreviation "C_SveFmlalbIdx \<equiv> Code 1709"
abbreviation "C_SveFmlaltIdx \<equiv> Code 1710"
abbreviation "C_SveFmlslbIdx \<equiv> Code 1711"
abbreviation "C_SveFmlsltIdx \<equiv> Code 1712"
abbreviation "C_SveFmlalbFp8Idx \<equiv> Code 1713"
abbreviation "C_SveFmlaltFp8Idx \<equiv> Code 1714"
abbreviation "C_SveFmlallbbFp8Idx \<equiv> Code 1715"
abbreviation "C_SveFmlallbtFp8Idx \<equiv> Code 1716"
abbreviation "C_SveFmlalltbFp8Idx \<equiv> Code 1717"
abbreviation "C_SveFmlallttFp8Idx \<equiv> Code 1718"
abbreviation "C_SveBfmlaIdx \<equiv> Code 1719"
abbreviation "C_SveBfmlsIdx \<equiv> Code 1720"
abbreviation "C_SveBfmulIdx \<equiv> Code 1721"
abbreviation "C_SveLd1bImm \<equiv> Code 1722"
abbreviation "C_SveLd1bSs \<equiv> Code 1723"
abbreviation "C_SveLd1bG32 \<equiv> Code 1724"
abbreviation "C_SveLd1bG64 \<equiv> Code 1725"
abbreviation "C_SveLd1bVi \<equiv> Code 1726"
abbreviation "C_SveLd1hImm \<equiv> Code 1727"
abbreviation "C_SveLd1hSs \<equiv> Code 1728"
abbreviation "C_SveLd1hG32 \<equiv> Code 1729"
abbreviation "C_SveLd1hG64 \<equiv> Code 1730"
abbreviation "C_SveLd1hVi \<equiv> Code 1731"
abbreviation "C_SveLd1wImm \<equiv> Code 1732"
abbreviation "C_SveLd1wSs \<equiv> Code 1733"
abbreviation "C_SveLd1wG32 \<equiv> Code 1734"
abbreviation "C_SveLd1wG64 \<equiv> Code 1735"
abbreviation "C_SveLd1wVi \<equiv> Code 1736"
abbreviation "C_SveLd1dImm \<equiv> Code 1737"
abbreviation "C_SveLd1dSs \<equiv> Code 1738"
abbreviation "C_SveLd1dG32 \<equiv> Code 1739"
abbreviation "C_SveLd1dG64 \<equiv> Code 1740"
abbreviation "C_SveLd1dVi \<equiv> Code 1741"
abbreviation "C_SveLd1sbImm \<equiv> Code 1742"
abbreviation "C_SveLd1sbSs \<equiv> Code 1743"
abbreviation "C_SveLd1sbG32 \<equiv> Code 1744"
abbreviation "C_SveLd1sbG64 \<equiv> Code 1745"
abbreviation "C_SveLd1sbVi \<equiv> Code 1746"
abbreviation "C_SveLd1shImm \<equiv> Code 1747"
abbreviation "C_SveLd1shSs \<equiv> Code 1748"
abbreviation "C_SveLd1shG32 \<equiv> Code 1749"
abbreviation "C_SveLd1shG64 \<equiv> Code 1750"
abbreviation "C_SveLd1shVi \<equiv> Code 1751"
abbreviation "C_SveLd1swImm \<equiv> Code 1752"
abbreviation "C_SveLd1swSs \<equiv> Code 1753"
abbreviation "C_SveLd1swG32 \<equiv> Code 1754"
abbreviation "C_SveLd1swG64 \<equiv> Code 1755"
abbreviation "C_SveLd1swVi \<equiv> Code 1756"
abbreviation "C_SveLdff1bSs \<equiv> Code 1757"
abbreviation "C_SveLdff1bG32 \<equiv> Code 1758"
abbreviation "C_SveLdff1bG64 \<equiv> Code 1759"
abbreviation "C_SveLdff1bVi \<equiv> Code 1760"
abbreviation "C_SveLdff1hSs \<equiv> Code 1761"
abbreviation "C_SveLdff1hG32 \<equiv> Code 1762"
abbreviation "C_SveLdff1hG64 \<equiv> Code 1763"
abbreviation "C_SveLdff1hVi \<equiv> Code 1764"
abbreviation "C_SveLdff1wSs \<equiv> Code 1765"
abbreviation "C_SveLdff1wG32 \<equiv> Code 1766"
abbreviation "C_SveLdff1wG64 \<equiv> Code 1767"
abbreviation "C_SveLdff1wVi \<equiv> Code 1768"
abbreviation "C_SveLdff1dSs \<equiv> Code 1769"
abbreviation "C_SveLdff1dG32 \<equiv> Code 1770"
abbreviation "C_SveLdff1dG64 \<equiv> Code 1771"
abbreviation "C_SveLdff1dVi \<equiv> Code 1772"
abbreviation "C_SveLdff1sbSs \<equiv> Code 1773"
abbreviation "C_SveLdff1sbG32 \<equiv> Code 1774"
abbreviation "C_SveLdff1sbG64 \<equiv> Code 1775"
abbreviation "C_SveLdff1sbVi \<equiv> Code 1776"
abbreviation "C_SveLdff1shSs \<equiv> Code 1777"
abbreviation "C_SveLdff1shG32 \<equiv> Code 1778"
abbreviation "C_SveLdff1shG64 \<equiv> Code 1779"
abbreviation "C_SveLdff1shVi \<equiv> Code 1780"
abbreviation "C_SveLdff1swSs \<equiv> Code 1781"
abbreviation "C_SveLdff1swG32 \<equiv> Code 1782"
abbreviation "C_SveLdff1swG64 \<equiv> Code 1783"
abbreviation "C_SveLdff1swVi \<equiv> Code 1784"
abbreviation "C_SveLdnf1bImm \<equiv> Code 1785"
abbreviation "C_SveLdnf1hImm \<equiv> Code 1786"
abbreviation "C_SveLdnf1wImm \<equiv> Code 1787"
abbreviation "C_SveLdnf1dImm \<equiv> Code 1788"
abbreviation "C_SveLdnf1sbImm \<equiv> Code 1789"
abbreviation "C_SveLdnf1shImm \<equiv> Code 1790"
abbreviation "C_SveLdnf1swImm \<equiv> Code 1791"
abbreviation "C_SveLdnt1bImm \<equiv> Code 1792"
abbreviation "C_SveLdnt1bSs \<equiv> Code 1793"
abbreviation "C_SveLdnt1bVs \<equiv> Code 1794"
abbreviation "C_SveLdnt1hImm \<equiv> Code 1795"
abbreviation "C_SveLdnt1hSs \<equiv> Code 1796"
abbreviation "C_SveLdnt1hVs \<equiv> Code 1797"
abbreviation "C_SveLdnt1wImm \<equiv> Code 1798"
abbreviation "C_SveLdnt1wSs \<equiv> Code 1799"
abbreviation "C_SveLdnt1wVs \<equiv> Code 1800"
abbreviation "C_SveLdnt1dImm \<equiv> Code 1801"
abbreviation "C_SveLdnt1dSs \<equiv> Code 1802"
abbreviation "C_SveLdnt1dVs \<equiv> Code 1803"
abbreviation "C_SveLdnt1sbImm \<equiv> Code 1804"
abbreviation "C_SveLdnt1sbSs \<equiv> Code 1805"
abbreviation "C_SveLdnt1sbVs \<equiv> Code 1806"
abbreviation "C_SveLdnt1shImm \<equiv> Code 1807"
abbreviation "C_SveLdnt1shSs \<equiv> Code 1808"
abbreviation "C_SveLdnt1shVs \<equiv> Code 1809"
abbreviation "C_SveLdnt1swImm \<equiv> Code 1810"
abbreviation "C_SveLdnt1swSs \<equiv> Code 1811"
abbreviation "C_SveLdnt1swVs \<equiv> Code 1812"
abbreviation "C_SveLd1rbImm \<equiv> Code 1813"
abbreviation "C_SveLd1rhImm \<equiv> Code 1814"
abbreviation "C_SveLd1rwImm \<equiv> Code 1815"
abbreviation "C_SveLd1rdImm \<equiv> Code 1816"
abbreviation "C_SveLd1rsbImm \<equiv> Code 1817"
abbreviation "C_SveLd1rshImm \<equiv> Code 1818"
abbreviation "C_SveLd1rswImm \<equiv> Code 1819"
abbreviation "C_SveLd1rqbImm \<equiv> Code 1820"
abbreviation "C_SveLd1rqbSs \<equiv> Code 1821"
abbreviation "C_SveLd1rqhImm \<equiv> Code 1822"
abbreviation "C_SveLd1rqhSs \<equiv> Code 1823"
abbreviation "C_SveLd1rqwImm \<equiv> Code 1824"
abbreviation "C_SveLd1rqwSs \<equiv> Code 1825"
abbreviation "C_SveLd1rqdImm \<equiv> Code 1826"
abbreviation "C_SveLd1rqdSs \<equiv> Code 1827"
abbreviation "C_SveLd1robImm \<equiv> Code 1828"
abbreviation "C_SveLd1robSs \<equiv> Code 1829"
abbreviation "C_SveLd1rohImm \<equiv> Code 1830"
abbreviation "C_SveLd1rohSs \<equiv> Code 1831"
abbreviation "C_SveLd1rowImm \<equiv> Code 1832"
abbreviation "C_SveLd1rowSs \<equiv> Code 1833"
abbreviation "C_SveLd1rodImm \<equiv> Code 1834"
abbreviation "C_SveLd1rodSs \<equiv> Code 1835"
abbreviation "C_SveLd2bImm \<equiv> Code 1836"
abbreviation "C_SveLd2bSs \<equiv> Code 1837"
abbreviation "C_SveLd2hImm \<equiv> Code 1838"
abbreviation "C_SveLd2hSs \<equiv> Code 1839"
abbreviation "C_SveLd2wImm \<equiv> Code 1840"
abbreviation "C_SveLd2wSs \<equiv> Code 1841"
abbreviation "C_SveLd2dImm \<equiv> Code 1842"
abbreviation "C_SveLd2dSs \<equiv> Code 1843"
abbreviation "C_SveLd3bImm \<equiv> Code 1844"
abbreviation "C_SveLd3bSs \<equiv> Code 1845"
abbreviation "C_SveLd3hImm \<equiv> Code 1846"
abbreviation "C_SveLd3hSs \<equiv> Code 1847"
abbreviation "C_SveLd3wImm \<equiv> Code 1848"
abbreviation "C_SveLd3wSs \<equiv> Code 1849"
abbreviation "C_SveLd3dImm \<equiv> Code 1850"
abbreviation "C_SveLd3dSs \<equiv> Code 1851"
abbreviation "C_SveLd4bImm \<equiv> Code 1852"
abbreviation "C_SveLd4bSs \<equiv> Code 1853"
abbreviation "C_SveLd4hImm \<equiv> Code 1854"
abbreviation "C_SveLd4hSs \<equiv> Code 1855"
abbreviation "C_SveLd4wImm \<equiv> Code 1856"
abbreviation "C_SveLd4wSs \<equiv> Code 1857"
abbreviation "C_SveLd4dImm \<equiv> Code 1858"
abbreviation "C_SveLd4dSs \<equiv> Code 1859"
abbreviation "C_SveSt1bImm \<equiv> Code 1860"
abbreviation "C_SveSt1bSs \<equiv> Code 1861"
abbreviation "C_SveSt1bG32 \<equiv> Code 1862"
abbreviation "C_SveSt1bG64 \<equiv> Code 1863"
abbreviation "C_SveSt1bVi \<equiv> Code 1864"
abbreviation "C_SveSt1hImm \<equiv> Code 1865"
abbreviation "C_SveSt1hSs \<equiv> Code 1866"
abbreviation "C_SveSt1hG32 \<equiv> Code 1867"
abbreviation "C_SveSt1hG64 \<equiv> Code 1868"
abbreviation "C_SveSt1hVi \<equiv> Code 1869"
abbreviation "C_SveSt1wImm \<equiv> Code 1870"
abbreviation "C_SveSt1wSs \<equiv> Code 1871"
abbreviation "C_SveSt1wG32 \<equiv> Code 1872"
abbreviation "C_SveSt1wG64 \<equiv> Code 1873"
abbreviation "C_SveSt1wVi \<equiv> Code 1874"
abbreviation "C_SveSt1dImm \<equiv> Code 1875"
abbreviation "C_SveSt1dSs \<equiv> Code 1876"
abbreviation "C_SveSt1dG32 \<equiv> Code 1877"
abbreviation "C_SveSt1dG64 \<equiv> Code 1878"
abbreviation "C_SveSt1dVi \<equiv> Code 1879"
abbreviation "C_SveSt2bImm \<equiv> Code 1880"
abbreviation "C_SveSt2bSs \<equiv> Code 1881"
abbreviation "C_SveSt2hImm \<equiv> Code 1882"
abbreviation "C_SveSt2hSs \<equiv> Code 1883"
abbreviation "C_SveSt2wImm \<equiv> Code 1884"
abbreviation "C_SveSt2wSs \<equiv> Code 1885"
abbreviation "C_SveSt2dImm \<equiv> Code 1886"
abbreviation "C_SveSt2dSs \<equiv> Code 1887"
abbreviation "C_SveSt3bImm \<equiv> Code 1888"
abbreviation "C_SveSt3bSs \<equiv> Code 1889"
abbreviation "C_SveSt3hImm \<equiv> Code 1890"
abbreviation "C_SveSt3hSs \<equiv> Code 1891"
abbreviation "C_SveSt3wImm \<equiv> Code 1892"
abbreviation "C_SveSt3wSs \<equiv> Code 1893"
abbreviation "C_SveSt3dImm \<equiv> Code 1894"
abbreviation "C_SveSt3dSs \<equiv> Code 1895"
abbreviation "C_SveSt4bImm \<equiv> Code 1896"
abbreviation "C_SveSt4bSs \<equiv> Code 1897"
abbreviation "C_SveSt4hImm \<equiv> Code 1898"
abbreviation "C_SveSt4hSs \<equiv> Code 1899"
abbreviation "C_SveSt4wImm \<equiv> Code 1900"
abbreviation "C_SveSt4wSs \<equiv> Code 1901"
abbreviation "C_SveSt4dImm \<equiv> Code 1902"
abbreviation "C_SveSt4dSs \<equiv> Code 1903"
abbreviation "C_SveStnt1bImm \<equiv> Code 1904"
abbreviation "C_SveStnt1bSs \<equiv> Code 1905"
abbreviation "C_SveStnt1bVs \<equiv> Code 1906"
abbreviation "C_SveStnt1hImm \<equiv> Code 1907"
abbreviation "C_SveStnt1hSs \<equiv> Code 1908"
abbreviation "C_SveStnt1hVs \<equiv> Code 1909"
abbreviation "C_SveStnt1wImm \<equiv> Code 1910"
abbreviation "C_SveStnt1wSs \<equiv> Code 1911"
abbreviation "C_SveStnt1wVs \<equiv> Code 1912"
abbreviation "C_SveStnt1dImm \<equiv> Code 1913"
abbreviation "C_SveStnt1dSs \<equiv> Code 1914"
abbreviation "C_SveStnt1dVs \<equiv> Code 1915"
abbreviation "C_SvePrfbImm \<equiv> Code 1916"
abbreviation "C_SvePrfbSs \<equiv> Code 1917"
abbreviation "C_SvePrfbG32 \<equiv> Code 1918"
abbreviation "C_SvePrfbG64 \<equiv> Code 1919"
abbreviation "C_SvePrfbVi \<equiv> Code 1920"
abbreviation "C_SvePrfhImm \<equiv> Code 1921"
abbreviation "C_SvePrfhSs \<equiv> Code 1922"
abbreviation "C_SvePrfhG32 \<equiv> Code 1923"
abbreviation "C_SvePrfhG64 \<equiv> Code 1924"
abbreviation "C_SvePrfhVi \<equiv> Code 1925"
abbreviation "C_SvePrfwImm \<equiv> Code 1926"
abbreviation "C_SvePrfwSs \<equiv> Code 1927"
abbreviation "C_SvePrfwG32 \<equiv> Code 1928"
abbreviation "C_SvePrfwG64 \<equiv> Code 1929"
abbreviation "C_SvePrfwVi \<equiv> Code 1930"
abbreviation "C_SvePrfdImm \<equiv> Code 1931"
abbreviation "C_SvePrfdSs \<equiv> Code 1932"
abbreviation "C_SvePrfdG32 \<equiv> Code 1933"
abbreviation "C_SvePrfdG64 \<equiv> Code 1934"
abbreviation "C_SvePrfdVi \<equiv> Code 1935"
abbreviation "C_SveLdrZ \<equiv> Code 1936"
abbreviation "C_SveLdrP \<equiv> Code 1937"
abbreviation "C_SveStrZ \<equiv> Code 1938"
abbreviation "C_SveStrP \<equiv> Code 1939"
abbreviation "C_Ld2Multiple \<equiv> Code 1940"
abbreviation "C_Ld3Multiple \<equiv> Code 1941"
abbreviation "C_Ld4Multiple \<equiv> Code 1942"
abbreviation "C_St2Multiple \<equiv> Code 1943"
abbreviation "C_St3Multiple \<equiv> Code 1944"
abbreviation "C_St4Multiple \<equiv> Code 1945"
abbreviation "C_Ld1Single \<equiv> Code 1946"
abbreviation "C_Ld2Single \<equiv> Code 1947"
abbreviation "C_Ld3Single \<equiv> Code 1948"
abbreviation "C_Ld4Single \<equiv> Code 1949"
abbreviation "C_St1Single \<equiv> Code 1950"
abbreviation "C_St2Single \<equiv> Code 1951"
abbreviation "C_St3Single \<equiv> Code 1952"
abbreviation "C_St4Single \<equiv> Code 1953"
abbreviation "C_Ld2Rep \<equiv> Code 1954"
abbreviation "C_Ld3Rep \<equiv> Code 1955"
abbreviation "C_Ld4Rep \<equiv> Code 1956"
abbreviation "C_Smstart \<equiv> Code 1957"
abbreviation "C_Smstop \<equiv> Code 1958"
abbreviation "C_SmeMovaZToTile \<equiv> Code 1959"
abbreviation "C_SmeMovaTileToZ \<equiv> Code 1960"
abbreviation "C_SmeFmopaH \<equiv> Code 1961"
abbreviation "C_SmeFmopaS \<equiv> Code 1962"
abbreviation "C_SmeFmopaD \<equiv> Code 1963"
abbreviation "C_SmeFmopsH \<equiv> Code 1964"
abbreviation "C_SmeFmopsS \<equiv> Code 1965"
abbreviation "C_SmeFmopsD \<equiv> Code 1966"
abbreviation "C_SmeBfmopa \<equiv> Code 1967"
abbreviation "C_SmeBfmops \<equiv> Code 1968"
abbreviation "C_SmeSmopaS \<equiv> Code 1969"
abbreviation "C_SmeSmopaD \<equiv> Code 1970"
abbreviation "C_SmeSmopsS \<equiv> Code 1971"
abbreviation "C_SmeSmopsD \<equiv> Code 1972"
abbreviation "C_SmeUmopaS \<equiv> Code 1973"
abbreviation "C_SmeUmopaD \<equiv> Code 1974"
abbreviation "C_SmeUmopsS \<equiv> Code 1975"
abbreviation "C_SmeUmopsD \<equiv> Code 1976"
abbreviation "C_SmeSumopaS \<equiv> Code 1977"
abbreviation "C_SmeSumopaD \<equiv> Code 1978"
abbreviation "C_SmeSumopsS \<equiv> Code 1979"
abbreviation "C_SmeSumopsD \<equiv> Code 1980"
abbreviation "C_SmeUsmopaS \<equiv> Code 1981"
abbreviation "C_SmeUsmopaD \<equiv> Code 1982"
abbreviation "C_SmeUsmopsS \<equiv> Code 1983"
abbreviation "C_SmeUsmopsD \<equiv> Code 1984"
abbreviation "C_SmeAddha \<equiv> Code 1985"
abbreviation "C_SmeAddva \<equiv> Code 1986"
abbreviation "C_SmeLd1bZa \<equiv> Code 1987"
abbreviation "C_SmeLd1hZa \<equiv> Code 1988"
abbreviation "C_SmeLd1wZa \<equiv> Code 1989"
abbreviation "C_SmeLd1dZa \<equiv> Code 1990"
abbreviation "C_SmeLd1qZa \<equiv> Code 1991"
abbreviation "C_SmeSt1bZa \<equiv> Code 1992"
abbreviation "C_SmeSt1hZa \<equiv> Code 1993"
abbreviation "C_SmeSt1wZa \<equiv> Code 1994"
abbreviation "C_SmeSt1dZa \<equiv> Code 1995"
abbreviation "C_SmeSt1qZa \<equiv> Code 1996"
abbreviation "C_SmeLdrZa \<equiv> Code 1997"
abbreviation "C_SmeStrZa \<equiv> Code 1998"
abbreviation "C_AdvAese \<equiv> Code 1999"
abbreviation "C_AdvAesd \<equiv> Code 2000"
abbreviation "C_AdvAesmc \<equiv> Code 2001"
abbreviation "C_AdvAesimc \<equiv> Code 2002"
abbreviation "C_AdvSha1c \<equiv> Code 2003"
abbreviation "C_AdvSha1p \<equiv> Code 2004"
abbreviation "C_AdvSha1m \<equiv> Code 2005"
abbreviation "C_AdvSha1su0 \<equiv> Code 2006"
abbreviation "C_AdvSha256h \<equiv> Code 2007"
abbreviation "C_AdvSha256h2 \<equiv> Code 2008"
abbreviation "C_AdvSha256su1 \<equiv> Code 2009"
abbreviation "C_AdvSha1h \<equiv> Code 2010"
abbreviation "C_AdvSha1su1 \<equiv> Code 2011"
abbreviation "C_AdvSha256su0 \<equiv> Code 2012"
abbreviation "C_AdvSha512h \<equiv> Code 2013"
abbreviation "C_AdvSha512h2 \<equiv> Code 2014"
abbreviation "C_AdvSha512su1 \<equiv> Code 2015"
abbreviation "C_AdvRax1 \<equiv> Code 2016"
abbreviation "C_AdvSm3partw1 \<equiv> Code 2017"
abbreviation "C_AdvSm3partw2 \<equiv> Code 2018"
abbreviation "C_AdvSm4ekey \<equiv> Code 2019"
abbreviation "C_AdvSha512su0 \<equiv> Code 2020"
abbreviation "C_AdvSm4e \<equiv> Code 2021"
abbreviation "C_AdvEor3 \<equiv> Code 2022"
abbreviation "C_AdvBcax \<equiv> Code 2023"
abbreviation "C_AdvSm3ss1 \<equiv> Code 2024"
abbreviation "C_AdvSm3tt1a \<equiv> Code 2025"
abbreviation "C_AdvSm3tt1b \<equiv> Code 2026"
abbreviation "C_AdvSm3tt2a \<equiv> Code 2027"
abbreviation "C_AdvSm3tt2b \<equiv> Code 2028"
abbreviation "C_AdvXar \<equiv> Code 2029"
abbreviation "C_Rmif \<equiv> Code 2030"
abbreviation "C_Setf8 \<equiv> Code 2031"
abbreviation "C_Setf16 \<equiv> Code 2032"
abbreviation "C_AndVec \<equiv> Code 2033"
abbreviation "C_BicVec \<equiv> Code 2034"
abbreviation "C_OrrVec \<equiv> Code 2035"
abbreviation "C_OrnVec \<equiv> Code 2036"
abbreviation "C_EorVec \<equiv> Code 2037"
abbreviation "C_BslVec \<equiv> Code 2038"
abbreviation "C_BitVec \<equiv> Code 2039"
abbreviation "C_BifVec \<equiv> Code 2040"
abbreviation "C_MvnVec \<equiv> Code 2041"
abbreviation "C_RbitVec \<equiv> Code 2042"
abbreviation "C_Abs32 \<equiv> Code 2043"
abbreviation "C_Abs64 \<equiv> Code 2044"
abbreviation "C_Cnt32 \<equiv> Code 2045"
abbreviation "C_Cnt64 \<equiv> Code 2046"
abbreviation "C_Ctz32 \<equiv> Code 2047"
abbreviation "C_Ctz64 \<equiv> Code 2048"
abbreviation "C_SmaxReg32 \<equiv> Code 2049"
abbreviation "C_SmaxReg64 \<equiv> Code 2050"
abbreviation "C_SminReg32 \<equiv> Code 2051"
abbreviation "C_SminReg64 \<equiv> Code 2052"
abbreviation "C_UmaxReg32 \<equiv> Code 2053"
abbreviation "C_UmaxReg64 \<equiv> Code 2054"
abbreviation "C_UminReg32 \<equiv> Code 2055"
abbreviation "C_UminReg64 \<equiv> Code 2056"
abbreviation "C_SmaxImm32 \<equiv> Code 2057"
abbreviation "C_SmaxImm64 \<equiv> Code 2058"
abbreviation "C_SminImm32 \<equiv> Code 2059"
abbreviation "C_SminImm64 \<equiv> Code 2060"
abbreviation "C_UmaxImm32 \<equiv> Code 2061"
abbreviation "C_UmaxImm64 \<equiv> Code 2062"
abbreviation "C_UminImm32 \<equiv> Code 2063"
abbreviation "C_UminImm64 \<equiv> Code 2064"
abbreviation "C_Mrrs \<equiv> Code 2065"
abbreviation "C_Msrr \<equiv> Code 2066"
abbreviation "C_Sysp \<equiv> Code 2067"
abbreviation "C_Tlbip \<equiv> Code 2068"
abbreviation "C_SmeBfmlaHHOV2Gg \<equiv> Code 2069"
abbreviation "C_SmeBfmlaHHOV2Gi \<equiv> Code 2070"
abbreviation "C_SmeBfmlaHHOV2Gs \<equiv> Code 2071"
abbreviation "C_SmeBfmlaHHOV4Gg \<equiv> Code 2072"
abbreviation "C_SmeBfmlaHHOV4Gi \<equiv> Code 2073"
abbreviation "C_SmeBfmlaHHOV4Gs \<equiv> Code 2074"
abbreviation "C_SmeBfmlalSHTSi \<equiv> Code 2075"
abbreviation "C_SmeBfmlalSHTSs \<equiv> Code 2076"
abbreviation "C_SmeBfmlalSHTV2Gg \<equiv> Code 2077"
abbreviation "C_SmeBfmlalSHTV2Gi \<equiv> Code 2078"
abbreviation "C_SmeBfmlalSHTV2Gs \<equiv> Code 2079"
abbreviation "C_SmeBfmlalSHTV4Gg \<equiv> Code 2080"
abbreviation "C_SmeBfmlalSHTV4Gi \<equiv> Code 2081"
abbreviation "C_SmeBfmlalSHTV4Gs \<equiv> Code 2082"
abbreviation "C_SmeBfmlsHHOV2Gg \<equiv> Code 2083"
abbreviation "C_SmeBfmlsHHOV2Gi \<equiv> Code 2084"
abbreviation "C_SmeBfmlsHHOV2Gs \<equiv> Code 2085"
abbreviation "C_SmeBfmlsHHOV4Gg \<equiv> Code 2086"
abbreviation "C_SmeBfmlsHHOV4Gi \<equiv> Code 2087"
abbreviation "C_SmeBfmlsHHOV4Gs \<equiv> Code 2088"
abbreviation "C_SmeBfmlslSHTSi \<equiv> Code 2089"
abbreviation "C_SmeBfmlslSHTSs \<equiv> Code 2090"
abbreviation "C_SmeBfmlslSHTV2Gg \<equiv> Code 2091"
abbreviation "C_SmeBfmlslSHTV2Gi \<equiv> Code 2092"
abbreviation "C_SmeBfmlslSHTV2Gs \<equiv> Code 2093"
abbreviation "C_SmeBfmlslSHTV4Gg \<equiv> Code 2094"
abbreviation "C_SmeBfmlslSHTV4Gi \<equiv> Code 2095"
abbreviation "C_SmeBfmlslSHTV4Gs \<equiv> Code 2096"
abbreviation "C_SmeBftmopaHH \<equiv> Code 2097"
abbreviation "C_SmeBftmopaSH \<equiv> Code 2098"
abbreviation "C_SmeFmlaDDOV2Gg \<equiv> Code 2099"
abbreviation "C_SmeFmlaDDOV2Gi \<equiv> Code 2100"
abbreviation "C_SmeFmlaDDOV2Gs \<equiv> Code 2101"
abbreviation "C_SmeFmlaDDOV4Gg \<equiv> Code 2102"
abbreviation "C_SmeFmlaDDOV4Gi \<equiv> Code 2103"
abbreviation "C_SmeFmlaDDOV4Gs \<equiv> Code 2104"
abbreviation "C_SmeFmlaHHOV2Gg \<equiv> Code 2105"
abbreviation "C_SmeFmlaHHOV2Gi \<equiv> Code 2106"
abbreviation "C_SmeFmlaHHOV2Gs \<equiv> Code 2107"
abbreviation "C_SmeFmlaHHOV4Gg \<equiv> Code 2108"
abbreviation "C_SmeFmlaHHOV4Gi \<equiv> Code 2109"
abbreviation "C_SmeFmlaHHOV4Gs \<equiv> Code 2110"
abbreviation "C_SmeFmlaSSOV2Gg \<equiv> Code 2111"
abbreviation "C_SmeFmlaSSOV2Gi \<equiv> Code 2112"
abbreviation "C_SmeFmlaSSOV2Gs \<equiv> Code 2113"
abbreviation "C_SmeFmlaSSOV4Gg \<equiv> Code 2114"
abbreviation "C_SmeFmlaSSOV4Gi \<equiv> Code 2115"
abbreviation "C_SmeFmlaSSOV4Gs \<equiv> Code 2116"
abbreviation "C_SmeFmlalHBTSi \<equiv> Code 2117"
abbreviation "C_SmeFmlalHBTSs \<equiv> Code 2118"
abbreviation "C_SmeFmlalHBTV2Gg \<equiv> Code 2119"
abbreviation "C_SmeFmlalHBTV2Gi \<equiv> Code 2120"
abbreviation "C_SmeFmlalHBTV2Gs \<equiv> Code 2121"
abbreviation "C_SmeFmlalHBTV4Gg \<equiv> Code 2122"
abbreviation "C_SmeFmlalHBTV4Gi \<equiv> Code 2123"
abbreviation "C_SmeFmlalHBTV4Gs \<equiv> Code 2124"
abbreviation "C_SmeFmlalSHTSi \<equiv> Code 2125"
abbreviation "C_SmeFmlalSHTSs \<equiv> Code 2126"
abbreviation "C_SmeFmlalSHTV2Gg \<equiv> Code 2127"
abbreviation "C_SmeFmlalSHTV2Gi \<equiv> Code 2128"
abbreviation "C_SmeFmlalSHTV2Gs \<equiv> Code 2129"
abbreviation "C_SmeFmlalSHTV4Gg \<equiv> Code 2130"
abbreviation "C_SmeFmlalSHTV4Gi \<equiv> Code 2131"
abbreviation "C_SmeFmlalSHTV4Gs \<equiv> Code 2132"
abbreviation "C_SmeFmlallSBQSi \<equiv> Code 2133"
abbreviation "C_SmeFmlallSBQSs \<equiv> Code 2134"
abbreviation "C_SmeFmlallSBQV2Gg \<equiv> Code 2135"
abbreviation "C_SmeFmlallSBQV2Gi \<equiv> Code 2136"
abbreviation "C_SmeFmlallSBQV2Gs \<equiv> Code 2137"
abbreviation "C_SmeFmlallSBQV4Gg \<equiv> Code 2138"
abbreviation "C_SmeFmlallSBQV4Gi \<equiv> Code 2139"
abbreviation "C_SmeFmlallSBQV4Gs \<equiv> Code 2140"
abbreviation "C_SmeFmlsDDOV2Gg \<equiv> Code 2141"
abbreviation "C_SmeFmlsDDOV2Gi \<equiv> Code 2142"
abbreviation "C_SmeFmlsDDOV2Gs \<equiv> Code 2143"
abbreviation "C_SmeFmlsDDOV4Gg \<equiv> Code 2144"
abbreviation "C_SmeFmlsDDOV4Gi \<equiv> Code 2145"
abbreviation "C_SmeFmlsDDOV4Gs \<equiv> Code 2146"
abbreviation "C_SmeFmlsHHOV2Gg \<equiv> Code 2147"
abbreviation "C_SmeFmlsHHOV2Gi \<equiv> Code 2148"
abbreviation "C_SmeFmlsHHOV2Gs \<equiv> Code 2149"
abbreviation "C_SmeFmlsHHOV4Gg \<equiv> Code 2150"
abbreviation "C_SmeFmlsHHOV4Gi \<equiv> Code 2151"
abbreviation "C_SmeFmlsHHOV4Gs \<equiv> Code 2152"
abbreviation "C_SmeFmlsSSOV2Gg \<equiv> Code 2153"
abbreviation "C_SmeFmlsSSOV2Gi \<equiv> Code 2154"
abbreviation "C_SmeFmlsSSOV2Gs \<equiv> Code 2155"
abbreviation "C_SmeFmlsSSOV4Gg \<equiv> Code 2156"
abbreviation "C_SmeFmlsSSOV4Gi \<equiv> Code 2157"
abbreviation "C_SmeFmlsSSOV4Gs \<equiv> Code 2158"
abbreviation "C_SmeFmlslSHTSi \<equiv> Code 2159"
abbreviation "C_SmeFmlslSHTSs \<equiv> Code 2160"
abbreviation "C_SmeFmlslSHTV2Gg \<equiv> Code 2161"
abbreviation "C_SmeFmlslSHTV2Gi \<equiv> Code 2162"
abbreviation "C_SmeFmlslSHTV2Gs \<equiv> Code 2163"
abbreviation "C_SmeFmlslSHTV4Gg \<equiv> Code 2164"
abbreviation "C_SmeFmlslSHTV4Gi \<equiv> Code 2165"
abbreviation "C_SmeFmlslSHTV4Gs \<equiv> Code 2166"
abbreviation "C_SmeFtmopaHB \<equiv> Code 2167"
abbreviation "C_SmeFtmopaHH \<equiv> Code 2168"
abbreviation "C_SmeFtmopaSB \<equiv> Code 2169"
abbreviation "C_SmeFtmopaSH \<equiv> Code 2170"
abbreviation "C_SmeFtmopaSS \<equiv> Code 2171"
abbreviation "C_SmeSmlalSHTSi \<equiv> Code 2172"
abbreviation "C_SmeSmlalSHTSs \<equiv> Code 2173"
abbreviation "C_SmeSmlalSHTV2Gg \<equiv> Code 2174"
abbreviation "C_SmeSmlalSHTV2Gi \<equiv> Code 2175"
abbreviation "C_SmeSmlalSHTV2Gs \<equiv> Code 2176"
abbreviation "C_SmeSmlalSHTV4Gg \<equiv> Code 2177"
abbreviation "C_SmeSmlalSHTV4Gi \<equiv> Code 2178"
abbreviation "C_SmeSmlalSHTV4Gs \<equiv> Code 2179"
abbreviation "C_SmeSmlallDHQSi \<equiv> Code 2180"
abbreviation "C_SmeSmlallDHQSs \<equiv> Code 2181"
abbreviation "C_SmeSmlallDHQV2Gg \<equiv> Code 2182"
abbreviation "C_SmeSmlallDHQV2Gi \<equiv> Code 2183"
abbreviation "C_SmeSmlallDHQV2Gs \<equiv> Code 2184"
abbreviation "C_SmeSmlallDHQV4Gg \<equiv> Code 2185"
abbreviation "C_SmeSmlallDHQV4Gi \<equiv> Code 2186"
abbreviation "C_SmeSmlallDHQV4Gs \<equiv> Code 2187"
abbreviation "C_SmeSmlallSBQSi \<equiv> Code 2188"
abbreviation "C_SmeSmlallSBQSs \<equiv> Code 2189"
abbreviation "C_SmeSmlallSBQV2Gg \<equiv> Code 2190"
abbreviation "C_SmeSmlallSBQV2Gi \<equiv> Code 2191"
abbreviation "C_SmeSmlallSBQV2Gs \<equiv> Code 2192"
abbreviation "C_SmeSmlallSBQV4Gg \<equiv> Code 2193"
abbreviation "C_SmeSmlallSBQV4Gi \<equiv> Code 2194"
abbreviation "C_SmeSmlallSBQV4Gs \<equiv> Code 2195"
abbreviation "C_SmeSmlslSHTSi \<equiv> Code 2196"
abbreviation "C_SmeSmlslSHTSs \<equiv> Code 2197"
abbreviation "C_SmeSmlslSHTV2Gg \<equiv> Code 2198"
abbreviation "C_SmeSmlslSHTV2Gi \<equiv> Code 2199"
abbreviation "C_SmeSmlslSHTV2Gs \<equiv> Code 2200"
abbreviation "C_SmeSmlslSHTV4Gg \<equiv> Code 2201"
abbreviation "C_SmeSmlslSHTV4Gi \<equiv> Code 2202"
abbreviation "C_SmeSmlslSHTV4Gs \<equiv> Code 2203"
abbreviation "C_SmeSmlsllDHQSi \<equiv> Code 2204"
abbreviation "C_SmeSmlsllDHQSs \<equiv> Code 2205"
abbreviation "C_SmeSmlsllDHQV2Gg \<equiv> Code 2206"
abbreviation "C_SmeSmlsllDHQV2Gi \<equiv> Code 2207"
abbreviation "C_SmeSmlsllDHQV2Gs \<equiv> Code 2208"
abbreviation "C_SmeSmlsllDHQV4Gg \<equiv> Code 2209"
abbreviation "C_SmeSmlsllDHQV4Gi \<equiv> Code 2210"
abbreviation "C_SmeSmlsllDHQV4Gs \<equiv> Code 2211"
abbreviation "C_SmeSmlsllSBQSi \<equiv> Code 2212"
abbreviation "C_SmeSmlsllSBQSs \<equiv> Code 2213"
abbreviation "C_SmeSmlsllSBQV2Gg \<equiv> Code 2214"
abbreviation "C_SmeSmlsllSBQV2Gi \<equiv> Code 2215"
abbreviation "C_SmeSmlsllSBQV2Gs \<equiv> Code 2216"
abbreviation "C_SmeSmlsllSBQV4Gg \<equiv> Code 2217"
abbreviation "C_SmeSmlsllSBQV4Gi \<equiv> Code 2218"
abbreviation "C_SmeSmlsllSBQV4Gs \<equiv> Code 2219"
abbreviation "C_SmeStmopaSB \<equiv> Code 2220"
abbreviation "C_SmeStmopaSH \<equiv> Code 2221"
abbreviation "C_SmeSumlallSBQSi \<equiv> Code 2222"
abbreviation "C_SmeSumlallSBQV2Gi \<equiv> Code 2223"
abbreviation "C_SmeSumlallSBQV2Gs \<equiv> Code 2224"
abbreviation "C_SmeSumlallSBQV4Gi \<equiv> Code 2225"
abbreviation "C_SmeSumlallSBQV4Gs \<equiv> Code 2226"
abbreviation "C_SmeSutmopaSB \<equiv> Code 2227"
abbreviation "C_SmeUmlalSHTSi \<equiv> Code 2228"
abbreviation "C_SmeUmlalSHTSs \<equiv> Code 2229"
abbreviation "C_SmeUmlalSHTV2Gg \<equiv> Code 2230"
abbreviation "C_SmeUmlalSHTV2Gi \<equiv> Code 2231"
abbreviation "C_SmeUmlalSHTV2Gs \<equiv> Code 2232"
abbreviation "C_SmeUmlalSHTV4Gg \<equiv> Code 2233"
abbreviation "C_SmeUmlalSHTV4Gi \<equiv> Code 2234"
abbreviation "C_SmeUmlalSHTV4Gs \<equiv> Code 2235"
abbreviation "C_SmeUmlallDHQSi \<equiv> Code 2236"
abbreviation "C_SmeUmlallDHQSs \<equiv> Code 2237"
abbreviation "C_SmeUmlallDHQV2Gg \<equiv> Code 2238"
abbreviation "C_SmeUmlallDHQV2Gi \<equiv> Code 2239"
abbreviation "C_SmeUmlallDHQV2Gs \<equiv> Code 2240"
abbreviation "C_SmeUmlallDHQV4Gg \<equiv> Code 2241"
abbreviation "C_SmeUmlallDHQV4Gi \<equiv> Code 2242"
abbreviation "C_SmeUmlallDHQV4Gs \<equiv> Code 2243"
abbreviation "C_SmeUmlallSBQSi \<equiv> Code 2244"
abbreviation "C_SmeUmlallSBQSs \<equiv> Code 2245"
abbreviation "C_SmeUmlallSBQV2Gg \<equiv> Code 2246"
abbreviation "C_SmeUmlallSBQV2Gi \<equiv> Code 2247"
abbreviation "C_SmeUmlallSBQV2Gs \<equiv> Code 2248"
abbreviation "C_SmeUmlallSBQV4Gg \<equiv> Code 2249"
abbreviation "C_SmeUmlallSBQV4Gi \<equiv> Code 2250"
abbreviation "C_SmeUmlallSBQV4Gs \<equiv> Code 2251"
abbreviation "C_SmeUmlslSHTSi \<equiv> Code 2252"
abbreviation "C_SmeUmlslSHTSs \<equiv> Code 2253"
abbreviation "C_SmeUmlslSHTV2Gg \<equiv> Code 2254"
abbreviation "C_SmeUmlslSHTV2Gi \<equiv> Code 2255"
abbreviation "C_SmeUmlslSHTV2Gs \<equiv> Code 2256"
abbreviation "C_SmeUmlslSHTV4Gg \<equiv> Code 2257"
abbreviation "C_SmeUmlslSHTV4Gi \<equiv> Code 2258"
abbreviation "C_SmeUmlslSHTV4Gs \<equiv> Code 2259"
abbreviation "C_SmeUmlsllDHQSi \<equiv> Code 2260"
abbreviation "C_SmeUmlsllDHQSs \<equiv> Code 2261"
abbreviation "C_SmeUmlsllDHQV2Gg \<equiv> Code 2262"
abbreviation "C_SmeUmlsllDHQV2Gi \<equiv> Code 2263"
abbreviation "C_SmeUmlsllDHQV2Gs \<equiv> Code 2264"
abbreviation "C_SmeUmlsllDHQV4Gg \<equiv> Code 2265"
abbreviation "C_SmeUmlsllDHQV4Gi \<equiv> Code 2266"
abbreviation "C_SmeUmlsllDHQV4Gs \<equiv> Code 2267"
abbreviation "C_SmeUmlsllSBQSi \<equiv> Code 2268"
abbreviation "C_SmeUmlsllSBQSs \<equiv> Code 2269"
abbreviation "C_SmeUmlsllSBQV2Gg \<equiv> Code 2270"
abbreviation "C_SmeUmlsllSBQV2Gi \<equiv> Code 2271"
abbreviation "C_SmeUmlsllSBQV2Gs \<equiv> Code 2272"
abbreviation "C_SmeUmlsllSBQV4Gg \<equiv> Code 2273"
abbreviation "C_SmeUmlsllSBQV4Gi \<equiv> Code 2274"
abbreviation "C_SmeUmlsllSBQV4Gs \<equiv> Code 2275"
abbreviation "C_SmeUsmlallSBQSi \<equiv> Code 2276"
abbreviation "C_SmeUsmlallSBQSs \<equiv> Code 2277"
abbreviation "C_SmeUsmlallSBQV2Gg \<equiv> Code 2278"
abbreviation "C_SmeUsmlallSBQV2Gi \<equiv> Code 2279"
abbreviation "C_SmeUsmlallSBQV2Gs \<equiv> Code 2280"
abbreviation "C_SmeUsmlallSBQV4Gg \<equiv> Code 2281"
abbreviation "C_SmeUsmlallSBQV4Gi \<equiv> Code 2282"
abbreviation "C_SmeUsmlallSBQV4Gs \<equiv> Code 2283"
abbreviation "C_SmeUstmopaSB \<equiv> Code 2284"
abbreviation "C_SmeUtmopaSB \<equiv> Code 2285"
abbreviation "C_SmeUtmopaSH \<equiv> Code 2286"
abbreviation "C_FdotVec \<equiv> Code 2287"
abbreviation "C_FdotIdx \<equiv> Code 2288"
abbreviation "C_UsdotVec \<equiv> Code 2289"
abbreviation "C_UsdotIdx \<equiv> Code 2290"
abbreviation "C_SudotIdx \<equiv> Code 2291"
abbreviation "C_BfdotVec \<equiv> Code 2292"
abbreviation "C_BfdotIdx \<equiv> Code 2293"
abbreviation "C_BfmlalbVec \<equiv> Code 2294"
abbreviation "C_BfmlaltVec \<equiv> Code 2295"
abbreviation "C_FmlalbVec \<equiv> Code 2296"
abbreviation "C_FmlaltVec \<equiv> Code 2297"
abbreviation "C_FmlallbbVec \<equiv> Code 2298"
abbreviation "C_FmlallbtVec \<equiv> Code 2299"
abbreviation "C_FmlalltbVec \<equiv> Code 2300"
abbreviation "C_FmlallttVec \<equiv> Code 2301"
abbreviation "C_SmmlaVec \<equiv> Code 2302"
abbreviation "C_UmmlaVec \<equiv> Code 2303"
abbreviation "C_UsmmlaVec \<equiv> Code 2304"
abbreviation "C_FamaxVec \<equiv> Code 2305"
abbreviation "C_FaminVec \<equiv> Code 2306"
abbreviation "C_FscaleVec \<equiv> Code 2307"
abbreviation "C_FcvtnFp8 \<equiv> Code 2308"
abbreviation "C_Fcvtn2Fp8 \<equiv> Code 2309"
abbreviation "C_BfcvtnVec \<equiv> Code 2310"
abbreviation "C_Bfcvtn2Vec \<equiv> Code 2311"
abbreviation "C_F1cvtlVec \<equiv> Code 2312"
abbreviation "C_F1cvtl2Vec \<equiv> Code 2313"
abbreviation "C_F2cvtlVec \<equiv> Code 2314"
abbreviation "C_F2cvtl2Vec \<equiv> Code 2315"
abbreviation "C_Bf1cvtlVec \<equiv> Code 2316"
abbreviation "C_Bf1cvtl2Vec \<equiv> Code 2317"
abbreviation "C_Bf2cvtlVec \<equiv> Code 2318"
abbreviation "C_Bf2cvtl2Vec \<equiv> Code 2319"
abbreviation "C_Luti2Vec \<equiv> Code 2320"
abbreviation "C_Luti4Vec \<equiv> Code 2321"
abbreviation "C_Luti4TwoVec \<equiv> Code 2322"
abbreviation "C_SmeAddDDV2Gg \<equiv> Code 2323"
abbreviation "C_SmeAddDDV2Go \<equiv> Code 2324"
abbreviation "C_SmeAddDDV2Gs \<equiv> Code 2325"
abbreviation "C_SmeAddDDV4Gg \<equiv> Code 2326"
abbreviation "C_SmeAddDDV4Go \<equiv> Code 2327"
abbreviation "C_SmeAddDDV4Gs \<equiv> Code 2328"
abbreviation "C_SmeAddSSV2Gg \<equiv> Code 2329"
abbreviation "C_SmeAddSSV2Go \<equiv> Code 2330"
abbreviation "C_SmeAddSSV2Gs \<equiv> Code 2331"
abbreviation "C_SmeAddSSV4Gg \<equiv> Code 2332"
abbreviation "C_SmeAddSSV4Go \<equiv> Code 2333"
abbreviation "C_SmeAddSSV4Gs \<equiv> Code 2334"
abbreviation "C_SmeBfdotSHV2Gg \<equiv> Code 2335"
abbreviation "C_SmeBfdotSHV2Gi \<equiv> Code 2336"
abbreviation "C_SmeBfdotSHV2Gs \<equiv> Code 2337"
abbreviation "C_SmeBfdotSHV4Gg \<equiv> Code 2338"
abbreviation "C_SmeBfdotSHV4Gi \<equiv> Code 2339"
abbreviation "C_SmeBfdotSHV4Gs \<equiv> Code 2340"
abbreviation "C_SmeBfvdotSHV2Gi \<equiv> Code 2341"
abbreviation "C_SmeFaddDDV2Go \<equiv> Code 2342"
abbreviation "C_SmeFaddDDV4Go \<equiv> Code 2343"
abbreviation "C_SmeFaddHHV2Go \<equiv> Code 2344"
abbreviation "C_SmeFaddHHV4Go \<equiv> Code 2345"
abbreviation "C_SmeFaddSSV2Go \<equiv> Code 2346"
abbreviation "C_SmeFaddSSV4Go \<equiv> Code 2347"
abbreviation "C_SmeFdotHBV2Gg \<equiv> Code 2348"
abbreviation "C_SmeFdotHBV2Gi \<equiv> Code 2349"
abbreviation "C_SmeFdotHBV2Gs \<equiv> Code 2350"
abbreviation "C_SmeFdotHBV4Gg \<equiv> Code 2351"
abbreviation "C_SmeFdotHBV4Gi \<equiv> Code 2352"
abbreviation "C_SmeFdotHBV4Gs \<equiv> Code 2353"
abbreviation "C_SmeFdotSHV2Gg \<equiv> Code 2354"
abbreviation "C_SmeFdotSHV2Gi \<equiv> Code 2355"
abbreviation "C_SmeFdotSHV2Gs \<equiv> Code 2356"
abbreviation "C_SmeFdotSHV4Gg \<equiv> Code 2357"
abbreviation "C_SmeFdotSHV4Gi \<equiv> Code 2358"
abbreviation "C_SmeFdotSHV4Gs \<equiv> Code 2359"
abbreviation "C_SmeFsubDDV2Go \<equiv> Code 2360"
abbreviation "C_SmeFsubDDV4Go \<equiv> Code 2361"
abbreviation "C_SmeFsubHHV2Go \<equiv> Code 2362"
abbreviation "C_SmeFsubHHV4Go \<equiv> Code 2363"
abbreviation "C_SmeFsubSSV2Go \<equiv> Code 2364"
abbreviation "C_SmeFsubSSV4Go \<equiv> Code 2365"
abbreviation "C_SmeFvdotSHV2Gi \<equiv> Code 2366"
abbreviation "C_SmeFvdotbSBV4GiB \<equiv> Code 2367"
abbreviation "C_SmeFvdottSBV4GiB \<equiv> Code 2368"
abbreviation "C_SmeSdotDHV2Gg \<equiv> Code 2369"
abbreviation "C_SmeSdotDHV2Gi \<equiv> Code 2370"
abbreviation "C_SmeSdotDHV2Gs \<equiv> Code 2371"
abbreviation "C_SmeSdotDHV4Gg \<equiv> Code 2372"
abbreviation "C_SmeSdotDHV4Gi \<equiv> Code 2373"
abbreviation "C_SmeSdotDHV4Gs \<equiv> Code 2374"
abbreviation "C_SmeSdotSBV2Gg \<equiv> Code 2375"
abbreviation "C_SmeSdotSBV2Gi \<equiv> Code 2376"
abbreviation "C_SmeSdotSBV2Gs \<equiv> Code 2377"
abbreviation "C_SmeSdotSBV4Gg \<equiv> Code 2378"
abbreviation "C_SmeSdotSBV4Gi \<equiv> Code 2379"
abbreviation "C_SmeSdotSBV4Gs \<equiv> Code 2380"
abbreviation "C_SmeSdotSHV2Gg \<equiv> Code 2381"
abbreviation "C_SmeSdotSHV2Gi \<equiv> Code 2382"
abbreviation "C_SmeSdotSHV2Gs \<equiv> Code 2383"
abbreviation "C_SmeSdotSHV4Gg \<equiv> Code 2384"
abbreviation "C_SmeSdotSHV4Gi \<equiv> Code 2385"
abbreviation "C_SmeSdotSHV4Gs \<equiv> Code 2386"
abbreviation "C_SmeSubDDV2Gg \<equiv> Code 2387"
abbreviation "C_SmeSubDDV2Go \<equiv> Code 2388"
abbreviation "C_SmeSubDDV2Gs \<equiv> Code 2389"
abbreviation "C_SmeSubDDV4Gg \<equiv> Code 2390"
abbreviation "C_SmeSubDDV4Go \<equiv> Code 2391"
abbreviation "C_SmeSubDDV4Gs \<equiv> Code 2392"
abbreviation "C_SmeSubSSV2Gg \<equiv> Code 2393"
abbreviation "C_SmeSubSSV2Go \<equiv> Code 2394"
abbreviation "C_SmeSubSSV2Gs \<equiv> Code 2395"
abbreviation "C_SmeSubSSV4Gg \<equiv> Code 2396"
abbreviation "C_SmeSubSSV4Go \<equiv> Code 2397"
abbreviation "C_SmeSubSSV4Gs \<equiv> Code 2398"
abbreviation "C_SmeSudotSBV2Gi \<equiv> Code 2399"
abbreviation "C_SmeSudotSBV2Gs \<equiv> Code 2400"
abbreviation "C_SmeSudotSBV4Gi \<equiv> Code 2401"
abbreviation "C_SmeSudotSBV4Gs \<equiv> Code 2402"
abbreviation "C_SmeSuvdotSBV4Gi \<equiv> Code 2403"
abbreviation "C_SmeSvdotDHV4Gi \<equiv> Code 2404"
abbreviation "C_SmeSvdotSHV2Gi \<equiv> Code 2405"
abbreviation "C_SmeUdotDHV2Gg \<equiv> Code 2406"
abbreviation "C_SmeUdotDHV2Gi \<equiv> Code 2407"
abbreviation "C_SmeUdotDHV2Gs \<equiv> Code 2408"
abbreviation "C_SmeUdotDHV4Gg \<equiv> Code 2409"
abbreviation "C_SmeUdotDHV4Gi \<equiv> Code 2410"
abbreviation "C_SmeUdotDHV4Gs \<equiv> Code 2411"
abbreviation "C_SmeUdotSBV2Gg \<equiv> Code 2412"
abbreviation "C_SmeUdotSBV2Gi \<equiv> Code 2413"
abbreviation "C_SmeUdotSBV2Gs \<equiv> Code 2414"
abbreviation "C_SmeUdotSBV4Gg \<equiv> Code 2415"
abbreviation "C_SmeUdotSBV4Gi \<equiv> Code 2416"
abbreviation "C_SmeUdotSBV4Gs \<equiv> Code 2417"
abbreviation "C_SmeUdotSHV2Gg \<equiv> Code 2418"
abbreviation "C_SmeUdotSHV2Gi \<equiv> Code 2419"
abbreviation "C_SmeUdotSHV2Gs \<equiv> Code 2420"
abbreviation "C_SmeUdotSHV4Gg \<equiv> Code 2421"
abbreviation "C_SmeUdotSHV4Gi \<equiv> Code 2422"
abbreviation "C_SmeUdotSHV4Gs \<equiv> Code 2423"
abbreviation "C_SmeUsdotSBV2Gg \<equiv> Code 2424"
abbreviation "C_SmeUsdotSBV2Gi \<equiv> Code 2425"
abbreviation "C_SmeUsdotSBV2Gs \<equiv> Code 2426"
abbreviation "C_SmeUsdotSBV4Gg \<equiv> Code 2427"
abbreviation "C_SmeUsdotSBV4Gi \<equiv> Code 2428"
abbreviation "C_SmeUsdotSBV4Gs \<equiv> Code 2429"
abbreviation "C_SmeUsvdotSBV4Gi \<equiv> Code 2430"
abbreviation "C_SmeUvdotDHV4Gi \<equiv> Code 2431"
abbreviation "C_SmeUvdotSHV2Gi \<equiv> Code 2432"
abbreviation "C_SmeFdotSBV2Gg \<equiv> Code 2433"
abbreviation "C_SmeFdotSBV2Gi \<equiv> Code 2434"
abbreviation "C_SmeFdotSBV2Gs \<equiv> Code 2435"
abbreviation "C_SmeFdotSBV4Gg \<equiv> Code 2436"
abbreviation "C_SmeFdotSBV4Gi \<equiv> Code 2437"
abbreviation "C_SmeFdotSBV4Gs \<equiv> Code 2438"
abbreviation "C_SmeFvdotHBV2Gi \<equiv> Code 2439"
abbreviation "C_SmeSvdotSBV4Gi \<equiv> Code 2440"
abbreviation "C_SmeUvdotSBV4Gi \<equiv> Code 2441"
abbreviation "C_Ldtxr32 \<equiv> Code 2442"
abbreviation "C_Ldtxr64 \<equiv> Code 2443"
abbreviation "C_Ldatxr32 \<equiv> Code 2444"
abbreviation "C_Ldatxr64 \<equiv> Code 2445"
abbreviation "C_Sttxr32 \<equiv> Code 2446"
abbreviation "C_Sttxr64 \<equiv> Code 2447"
abbreviation "C_Stltxr32 \<equiv> Code 2448"
abbreviation "C_Stltxr64 \<equiv> Code 2449"
abbreviation "C_Cast64 \<equiv> Code 2450"
abbreviation "C_Casat64 \<equiv> Code 2451"
abbreviation "C_Caslt64 \<equiv> Code 2452"
abbreviation "C_Casalt64 \<equiv> Code 2453"
abbreviation "C_Caspt64 \<equiv> Code 2454"
abbreviation "C_Caspat64 \<equiv> Code 2455"
abbreviation "C_Casplt64 \<equiv> Code 2456"
abbreviation "C_Caspalt64 \<equiv> Code 2457"
abbreviation "C_SmeSelMV2 \<equiv> Code 2458"
abbreviation "C_SmeSelMV4 \<equiv> Code 2459"
abbreviation "C_SmeUclampMV2 \<equiv> Code 2460"
abbreviation "C_SmeUclampMV4 \<equiv> Code 2461"
abbreviation "C_SmeSclampMV2 \<equiv> Code 2462"
abbreviation "C_SmeSclampMV4 \<equiv> Code 2463"
abbreviation "C_SmeFclampMV2 \<equiv> Code 2464"
abbreviation "C_SmeFclampMV4 \<equiv> Code 2465"
abbreviation "C_SmeBfclampMV2 \<equiv> Code 2466"
abbreviation "C_SmeBfclampMV4 \<equiv> Code 2467"
abbreviation "C_SmeZipMV2 \<equiv> Code 2468"
abbreviation "C_SmeZipMV4 \<equiv> Code 2469"
abbreviation "C_SmeUzpMV2 \<equiv> Code 2470"
abbreviation "C_SmeUzpMV4 \<equiv> Code 2471"
abbreviation "C_SmeFmulMV2 \<equiv> Code 2472"
abbreviation "C_SmeFmulMV4 \<equiv> Code 2473"
abbreviation "C_SmeLd1bMV \<equiv> Code 2474"
abbreviation "C_SmeLd1hMV \<equiv> Code 2475"
abbreviation "C_SmeLd1wMV \<equiv> Code 2476"
abbreviation "C_SmeLd1dMV \<equiv> Code 2477"
abbreviation "C_SmeLdnt1bMV \<equiv> Code 2478"
abbreviation "C_SmeLdnt1hMV \<equiv> Code 2479"
abbreviation "C_SmeLdnt1wMV \<equiv> Code 2480"
abbreviation "C_SmeLdnt1dMV \<equiv> Code 2481"
abbreviation "C_SmeSt1bMV \<equiv> Code 2482"
abbreviation "C_SmeSt1hMV \<equiv> Code 2483"
abbreviation "C_SmeSt1wMV \<equiv> Code 2484"
abbreviation "C_SmeSt1dMV \<equiv> Code 2485"
abbreviation "C_SmeStnt1bMV \<equiv> Code 2486"
abbreviation "C_SmeStnt1hMV \<equiv> Code 2487"
abbreviation "C_SmeStnt1wMV \<equiv> Code 2488"
abbreviation "C_SmeStnt1dMV \<equiv> Code 2489"
abbreviation "C_SmeSqrshr \<equiv> Code 2490"
abbreviation "C_SmeUqrshr \<equiv> Code 2491"
abbreviation "C_SmeSqrshrn \<equiv> Code 2492"
abbreviation "C_SmeUqrshrn \<equiv> Code 2493"
abbreviation "C_SmeSqrshru \<equiv> Code 2494"
abbreviation "C_SmeSqrshrun \<equiv> Code 2495"
abbreviation "C_Ldfadd \<equiv> Code 2496"
abbreviation "C_Ldfadda \<equiv> Code 2497"
abbreviation "C_Ldfaddl \<equiv> Code 2498"
abbreviation "C_Ldfaddal \<equiv> Code 2499"
abbreviation "C_Ldfmax \<equiv> Code 2500"
abbreviation "C_Ldfmaxa \<equiv> Code 2501"
abbreviation "C_Ldfmaxl \<equiv> Code 2502"
abbreviation "C_Ldfmaxal \<equiv> Code 2503"
abbreviation "C_Ldfmin \<equiv> Code 2504"
abbreviation "C_Ldfmina \<equiv> Code 2505"
abbreviation "C_Ldfminl \<equiv> Code 2506"
abbreviation "C_Ldfminal \<equiv> Code 2507"
abbreviation "C_Ldfmaxnm \<equiv> Code 2508"
abbreviation "C_Ldfmaxnma \<equiv> Code 2509"
abbreviation "C_Ldfmaxnml \<equiv> Code 2510"
abbreviation "C_Ldfmaxnmal \<equiv> Code 2511"
abbreviation "C_Ldfminnm \<equiv> Code 2512"
abbreviation "C_Ldfminnma \<equiv> Code 2513"
abbreviation "C_Ldfminnml \<equiv> Code 2514"
abbreviation "C_Ldfminnmal \<equiv> Code 2515"
abbreviation "C_Stfadd \<equiv> Code 2516"
abbreviation "C_Stfaddl \<equiv> Code 2517"
abbreviation "C_Stfmax \<equiv> Code 2518"
abbreviation "C_Stfmaxl \<equiv> Code 2519"
abbreviation "C_Stfmin \<equiv> Code 2520"
abbreviation "C_Stfminl \<equiv> Code 2521"
abbreviation "C_Stfmaxnm \<equiv> Code 2522"
abbreviation "C_Stfmaxnml \<equiv> Code 2523"
abbreviation "C_Stfminnm \<equiv> Code 2524"
abbreviation "C_Stfminnml \<equiv> Code 2525"
abbreviation "C_Ldbfadd \<equiv> Code 2526"
abbreviation "C_Ldbfadda \<equiv> Code 2527"
abbreviation "C_Ldbfaddl \<equiv> Code 2528"
abbreviation "C_Ldbfaddal \<equiv> Code 2529"
abbreviation "C_Ldbfmax \<equiv> Code 2530"
abbreviation "C_Ldbfmaxa \<equiv> Code 2531"
abbreviation "C_Ldbfmaxl \<equiv> Code 2532"
abbreviation "C_Ldbfmaxal \<equiv> Code 2533"
abbreviation "C_Ldbfmin \<equiv> Code 2534"
abbreviation "C_Ldbfmina \<equiv> Code 2535"
abbreviation "C_Ldbfminl \<equiv> Code 2536"
abbreviation "C_Ldbfminal \<equiv> Code 2537"
abbreviation "C_Ldbfmaxnm \<equiv> Code 2538"
abbreviation "C_Ldbfmaxnma \<equiv> Code 2539"
abbreviation "C_Ldbfmaxnml \<equiv> Code 2540"
abbreviation "C_Ldbfmaxnmal \<equiv> Code 2541"
abbreviation "C_Ldbfminnm \<equiv> Code 2542"
abbreviation "C_Ldbfminnma \<equiv> Code 2543"
abbreviation "C_Ldbfminnml \<equiv> Code 2544"
abbreviation "C_Ldbfminnmal \<equiv> Code 2545"
abbreviation "C_Stbfadd \<equiv> Code 2546"
abbreviation "C_Stbfaddl \<equiv> Code 2547"
abbreviation "C_Stbfmax \<equiv> Code 2548"
abbreviation "C_Stbfmaxl \<equiv> Code 2549"
abbreviation "C_Stbfmin \<equiv> Code 2550"
abbreviation "C_Stbfminl \<equiv> Code 2551"
abbreviation "C_Stbfmaxnm \<equiv> Code 2552"
abbreviation "C_Stbfmaxnml \<equiv> Code 2553"
abbreviation "C_Stbfminnm \<equiv> Code 2554"
abbreviation "C_Stbfminnml \<equiv> Code 2555"
abbreviation "C_SveLd1qG \<equiv> Code 2556"
abbreviation "C_SveSt1qS \<equiv> Code 2557"
abbreviation "C_SveLd2qSs \<equiv> Code 2558"
abbreviation "C_SveLd2qImm \<equiv> Code 2559"
abbreviation "C_SveLd3qSs \<equiv> Code 2560"
abbreviation "C_SveLd3qImm \<equiv> Code 2561"
abbreviation "C_SveLd4qSs \<equiv> Code 2562"
abbreviation "C_SveLd4qImm \<equiv> Code 2563"
abbreviation "C_SveSt2qSs \<equiv> Code 2564"
abbreviation "C_SveSt2qImm \<equiv> Code 2565"
abbreviation "C_SveSt3qSs \<equiv> Code 2566"
abbreviation "C_SveSt3qImm \<equiv> Code 2567"
abbreviation "C_SveSt4qSs \<equiv> Code 2568"
abbreviation "C_SveSt4qImm \<equiv> Code 2569"
abbreviation "C_SveRevdZpzZero \<equiv> Code 2570"
abbreviation "C_SveWhilePair \<equiv> Code 2571"
abbreviation "C_SveWhilePn \<equiv> Code 2572"
abbreviation "C_SveFrintnZ \<equiv> Code 2573"
abbreviation "C_SveFrintpZ \<equiv> Code 2574"
abbreviation "C_SveFrintmZ \<equiv> Code 2575"
abbreviation "C_SveFrintzZ \<equiv> Code 2576"
abbreviation "C_SveFrintaZ \<equiv> Code 2577"
abbreviation "C_SveFrintxZ \<equiv> Code 2578"
abbreviation "C_SveFrintiZ \<equiv> Code 2579"
abbreviation "C_SveFrecpxZ \<equiv> Code 2580"
abbreviation "C_SveFsqrtZ \<equiv> Code 2581"
abbreviation "C_SveFcvtZ \<equiv> Code 2582"
abbreviation "C_SveFcvtxZ \<equiv> Code 2583"
abbreviation "C_SveScvtfZ \<equiv> Code 2584"
abbreviation "C_SveUcvtfZ \<equiv> Code 2585"
abbreviation "C_SveFcvtzsZ \<equiv> Code 2586"
abbreviation "C_SveFcvtzuZ \<equiv> Code 2587"
abbreviation "C_SveBfcvtZ \<equiv> Code 2588"
abbreviation "C_SveFlogbZ \<equiv> Code 2589"
abbreviation "C_SmeLuti2Zt \<equiv> Code 2590"
abbreviation "C_SmeLuti4Zt \<equiv> Code 2591"
abbreviation "C_SmeMovaMultiZToTile \<equiv> Code 2592"
abbreviation "C_SmeMovaMultiTileToZ \<equiv> Code 2593"
abbreviation "C_SmeMovazMultiTileToZ \<equiv> Code 2594"
abbreviation "C_FmmlaVecF16F32 \<equiv> Code 2595"
abbreviation "C_FmmlaVecF16 \<equiv> Code 2596"
abbreviation "C_FmmlaVecF8F16 \<equiv> Code 2597"
abbreviation "C_FmmlaVecF8F32 \<equiv> Code 2598"
abbreviation "C_BfmmlaVec \<equiv> Code 2599"
abbreviation "C_BcCond \<equiv> Code 2600"
abbreviation "C_Retaasppc \<equiv> Code 2601"
abbreviation "C_Retabsppc \<equiv> Code 2602"
abbreviation "C_Autiasppc \<equiv> Code 2603"
abbreviation "C_Autibsppc \<equiv> Code 2604"
abbreviation "C_Paciasppc \<equiv> Code 2605"
abbreviation "C_Pacibsppc \<equiv> Code 2606"
abbreviation "C_Pacnbiasppc \<equiv> Code 2607"
abbreviation "C_Pacnbibsppc \<equiv> Code 2608"
abbreviation "C_Autiasppcr \<equiv> Code 2609"
abbreviation "C_Autibsppcr \<equiv> Code 2610"
abbreviation "C_Retaasppcr \<equiv> Code 2611"
abbreviation "C_Retabsppcr \<equiv> Code 2612"
abbreviation "C_SmeBmopaS \<equiv> Code 2613"
abbreviation "C_SmeBmopsS \<equiv> Code 2614"
abbreviation "C_SmeBfmopaH \<equiv> Code 2615"
abbreviation "C_SmeBfmopsH \<equiv> Code 2616"
abbreviation "C_SmeFmopaHh \<equiv> Code 2617"
abbreviation "C_SmeFmopsHh \<equiv> Code 2618"
abbreviation "C_SmeFmopaB \<equiv> Code 2619"
abbreviation "C_SmeFmopaBh \<equiv> Code 2620"
abbreviation "C_SmeSmopaHs \<equiv> Code 2621"
abbreviation "C_SmeSmopsHs \<equiv> Code 2622"
abbreviation "C_SmeUmopaHs \<equiv> Code 2623"
abbreviation "C_SmeUmopsHs \<equiv> Code 2624"
abbreviation "C_SmeFmop4aS \<equiv> Code 2625"
abbreviation "C_SmeFmop4sS \<equiv> Code 2626"
abbreviation "C_SmeFmop4aD \<equiv> Code 2627"
abbreviation "C_SmeFmop4sD \<equiv> Code 2628"
abbreviation "C_SmeFmop4aHs \<equiv> Code 2629"
abbreviation "C_SmeFmop4sHs \<equiv> Code 2630"
abbreviation "C_SmeFmop4aHh \<equiv> Code 2631"
abbreviation "C_SmeFmop4sHh \<equiv> Code 2632"
abbreviation "C_SmeFmop4aB \<equiv> Code 2633"
abbreviation "C_SmeFmop4aBh \<equiv> Code 2634"
abbreviation "C_SmeBfmop4aS \<equiv> Code 2635"
abbreviation "C_SmeBfmop4sS \<equiv> Code 2636"
abbreviation "C_SmeBfmop4aHh \<equiv> Code 2637"
abbreviation "C_SmeBfmop4sHh \<equiv> Code 2638"
abbreviation "C_SmeSmop4aS \<equiv> Code 2639"
abbreviation "C_SmeSmop4sS \<equiv> Code 2640"
abbreviation "C_SmeUmop4aS \<equiv> Code 2641"
abbreviation "C_SmeUmop4sS \<equiv> Code 2642"
abbreviation "C_SmeSumop4aS \<equiv> Code 2643"
abbreviation "C_SmeSumop4sS \<equiv> Code 2644"
abbreviation "C_SmeUsmop4aS \<equiv> Code 2645"
abbreviation "C_SmeUsmop4sS \<equiv> Code 2646"
abbreviation "C_SmeSmop4aHs \<equiv> Code 2647"
abbreviation "C_SmeSmop4sHs \<equiv> Code 2648"
abbreviation "C_SmeUmop4aHs \<equiv> Code 2649"
abbreviation "C_SmeUmop4sHs \<equiv> Code 2650"
abbreviation "C_SmeSmop4aD \<equiv> Code 2651"
abbreviation "C_SmeSmop4sD \<equiv> Code 2652"
abbreviation "C_SmeUmop4aD \<equiv> Code 2653"
abbreviation "C_SmeUmop4sD \<equiv> Code 2654"
abbreviation "C_SmeSumop4aD \<equiv> Code 2655"
abbreviation "C_SmeSumop4sD \<equiv> Code 2656"
abbreviation "C_SmeUsmop4aD \<equiv> Code 2657"
abbreviation "C_SmeUsmop4sD \<equiv> Code 2658"
abbreviation "C_SveLd1wqSs \<equiv> Code 2659"
abbreviation "C_SveLd1wqImm \<equiv> Code 2660"
abbreviation "C_SveLd1dqSs \<equiv> Code 2661"
abbreviation "C_SveLd1dqImm \<equiv> Code 2662"
abbreviation "C_SveSt1wqSs \<equiv> Code 2663"
abbreviation "C_SveSt1wqImm \<equiv> Code 2664"
abbreviation "C_SveSt1dqSs \<equiv> Code 2665"
abbreviation "C_SveSt1dqImm \<equiv> Code 2666"
abbreviation "C_SveBfaddZzz \<equiv> Code 2667"
abbreviation "C_SveBfsubZzz \<equiv> Code 2668"
abbreviation "C_SveBfmulZzz \<equiv> Code 2669"
abbreviation "C_SveBfaddZpzz \<equiv> Code 2670"
abbreviation "C_SveBfsubZpzz \<equiv> Code 2671"
abbreviation "C_SveBfmulZpzz \<equiv> Code 2672"
abbreviation "C_SveBfmaxnmZpzz \<equiv> Code 2673"
abbreviation "C_SveBfminnmZpzz \<equiv> Code 2674"
abbreviation "C_SveBfmaxZpzz \<equiv> Code 2675"
abbreviation "C_SveBfminZpzz \<equiv> Code 2676"
abbreviation "C_SveBfmlaZpzzz \<equiv> Code 2677"
abbreviation "C_SveBfmlsZpzzz \<equiv> Code 2678"
abbreviation "C_SveBfclamp \<equiv> Code 2679"
abbreviation "C_SveBfmlslb \<equiv> Code 2680"
abbreviation "C_SveBfmlslt \<equiv> Code 2681"
abbreviation "C_SveBfmlslbIdx \<equiv> Code 2682"
abbreviation "C_SveBfmlsltIdx \<equiv> Code 2683"
abbreviation "C_SveFclamp \<equiv> Code 2684"
abbreviation "C_SveFdotShVec \<equiv> Code 2685"
abbreviation "C_SveFdotShIdx \<equiv> Code 2686"
abbreviation "C_SveFdotHbVec \<equiv> Code 2687"
abbreviation "C_SveFdotHbIdx \<equiv> Code 2688"
abbreviation "C_SveFdotSbVec \<equiv> Code 2689"
abbreviation "C_SveFdotSbIdx \<equiv> Code 2690"
abbreviation "C_SveFmlalbFp8 \<equiv> Code 2691"
abbreviation "C_SveFmlaltFp8 \<equiv> Code 2692"
abbreviation "C_SveFmlallbbFp8 \<equiv> Code 2693"
abbreviation "C_SveFmlallbtFp8 \<equiv> Code 2694"
abbreviation "C_SveFmlalltbFp8 \<equiv> Code 2695"
abbreviation "C_SveFmlallttFp8 \<equiv> Code 2696"
abbreviation "C_SveFmmlaF8F32 \<equiv> Code 2697"
abbreviation "C_SveFmmlaF8 \<equiv> Code 2698"
abbreviation "C_SveFmmlaF16 \<equiv> Code 2699"
abbreviation "C_SveBfmmlaH \<equiv> Code 2700"
abbreviation "C_SvePsel \<equiv> Code 2701"
abbreviation "C_SveSabal \<equiv> Code 2702"
abbreviation "C_SveUabal \<equiv> Code 2703"
abbreviation "C_SveFrint32zZ \<equiv> Code 2704"
abbreviation "C_SveFrint32xZ \<equiv> Code 2705"
abbreviation "C_SveFrint64zZ \<equiv> Code 2706"
abbreviation "C_SveFrint64xZ \<equiv> Code 2707"
abbreviation "C_SveLastp \<equiv> Code 2708"
abbreviation "C_SveFirstp \<equiv> Code 2709"
abbreviation "C_RprfmReg \<equiv> Code 2710"
abbreviation "C_NeonFdotF16Vec \<equiv> Code 2711"
abbreviation "C_NeonFdotF16Idx \<equiv> Code 2712"
abbreviation "C_SveAddqp \<equiv> Code 2713"
abbreviation "C_SveAddsubp \<equiv> Code 2714"
abbreviation "C_SveLuti6B \<equiv> Code 2715"
abbreviation "C_SveLuti6H \<equiv> Code 2716"
abbreviation "C_SveFmmlaF16F32 \<equiv> Code 2717"
abbreviation "C_SveSdotHb \<equiv> Code 2718"
abbreviation "C_SveUdotHb \<equiv> Code 2719"
abbreviation "C_SveSqabsZ \<equiv> Code 2720"
abbreviation "C_SveSqnegZ \<equiv> Code 2721"
abbreviation "C_SveMadpt \<equiv> Code 2722"
abbreviation "C_SveMlapt \<equiv> Code 2723"
abbreviation "C_SveSubpPred \<equiv> Code 2724"
abbreviation "C_SveFamax \<equiv> Code 2725"
abbreviation "C_SveFamin \<equiv> Code 2726"
abbreviation "C_SveFrint32zM \<equiv> Code 2727"
abbreviation "C_SveFrint32xM \<equiv> Code 2728"
abbreviation "C_SveFrint64zM \<equiv> Code 2729"
abbreviation "C_SveFrint64xM \<equiv> Code 2730"
abbreviation "C_LdappPair \<equiv> Code 2731"
abbreviation "C_LdapPair \<equiv> Code 2732"
abbreviation "C_StlpPair \<equiv> Code 2733"
abbreviation "C_SmeMovazTileToZ \<equiv> Code 2734"
abbreviation "C_SmeFmaxMV2 \<equiv> Code 2735"
abbreviation "C_SmeFmaxMV4 \<equiv> Code 2736"
abbreviation "C_SmeFminMV2 \<equiv> Code 2737"
abbreviation "C_SmeFminMV4 \<equiv> Code 2738"
abbreviation "C_SmeFmaxnmMV2 \<equiv> Code 2739"
abbreviation "C_SmeFmaxnmMV4 \<equiv> Code 2740"
abbreviation "C_SmeFminnmMV2 \<equiv> Code 2741"
abbreviation "C_SmeFminnmMV4 \<equiv> Code 2742"
abbreviation "C_SmeFmulMVS2 \<equiv> Code 2743"
abbreviation "C_SmeFmulMVS4 \<equiv> Code 2744"
abbreviation "C_SmeLuti6 \<equiv> Code 2745"
abbreviation "C_SveFcvtntZ \<equiv> Code 2746"
abbreviation "C_SveFcvtltZ \<equiv> Code 2747"
abbreviation "C_SveFcvtxntZ \<equiv> Code 2748"
abbreviation "C_SveBfcvtntZ \<equiv> Code 2749"
abbreviation "C_SveUrecpeZ \<equiv> Code 2750"
abbreviation "C_SveUrsqrteZ \<equiv> Code 2751"
abbreviation "C_SveAese2 \<equiv> Code 2752"
abbreviation "C_SveAesd2 \<equiv> Code 2753"
abbreviation "C_SveAesemc2 \<equiv> Code 2754"
abbreviation "C_SveAesdimc2 \<equiv> Code 2755"
abbreviation "C_SvePmull2 \<equiv> Code 2756"
abbreviation "C_SvePmlal2 \<equiv> Code 2757"
abbreviation "C_SveSqcvtn \<equiv> Code 2758"
abbreviation "C_SveUqcvtn \<equiv> Code 2759"
abbreviation "C_SveSqcvtun \<equiv> Code 2760"
abbreviation "C_SveShiftNarrowMulti \<equiv> Code 2761"
abbreviation "C_SveCntpCount \<equiv> Code 2762"
abbreviation "C_SveBf2cvt \<equiv> Code 2763"
abbreviation "C_SveScvtflt \<equiv> Code 2764"
abbreviation "C_SveBfscale \<equiv> Code 2765"
abbreviation "C_FcvtnsFprcvt \<equiv> Code 2766"
abbreviation "C_FcvtnuFprcvt \<equiv> Code 2767"
abbreviation "C_FcvtpsFprcvt \<equiv> Code 2768"
abbreviation "C_FcvtpuFprcvt \<equiv> Code 2769"
abbreviation "C_FcvtmsFprcvt \<equiv> Code 2770"
abbreviation "C_FcvtmuFprcvt \<equiv> Code 2771"
abbreviation "C_FcvtzsFprcvt \<equiv> Code 2772"
abbreviation "C_FcvtzuFprcvt \<equiv> Code 2773"
abbreviation "C_FcvtasFprcvt \<equiv> Code 2774"
abbreviation "C_FcvtauFprcvt \<equiv> Code 2775"
abbreviation "C_ScvtfFprcvt \<equiv> Code 2776"
abbreviation "C_UcvtfFprcvt \<equiv> Code 2777"
abbreviation "C_SetgopMops \<equiv> Code 2778"
abbreviation "C_SetgoptMops \<equiv> Code 2779"
abbreviation "C_SetgopnMops \<equiv> Code 2780"
abbreviation "C_SetgoptnMops \<equiv> Code 2781"
abbreviation "C_SetgomMops \<equiv> Code 2782"
abbreviation "C_SetgomtMops \<equiv> Code 2783"
abbreviation "C_SetgomnMops \<equiv> Code 2784"
abbreviation "C_SetgomtnMops \<equiv> Code 2785"
abbreviation "C_SetgoeMops \<equiv> Code 2786"
abbreviation "C_SetgoetMops \<equiv> Code 2787"
abbreviation "C_SetgoenMops \<equiv> Code 2788"
abbreviation "C_SetgoetnMops \<equiv> Code 2789"
abbreviation "C_TchangefReg \<equiv> Code 2790"
abbreviation "C_TchangebReg \<equiv> Code 2791"
abbreviation "C_TchangefImm \<equiv> Code 2792"
abbreviation "C_TchangebImm \<equiv> Code 2793"
abbreviation "C_SmeAddMVS2 \<equiv> Code 2794"
abbreviation "C_SmeAddMVS4 \<equiv> Code 2795"
abbreviation "C_SmeSmaxMVS2 \<equiv> Code 2796"
abbreviation "C_SmeSmaxMVS4 \<equiv> Code 2797"
abbreviation "C_SmeUmaxMVS2 \<equiv> Code 2798"
abbreviation "C_SmeUmaxMVS4 \<equiv> Code 2799"
abbreviation "C_SmeSminMVS2 \<equiv> Code 2800"
abbreviation "C_SmeSminMVS4 \<equiv> Code 2801"
abbreviation "C_SmeUminMVS2 \<equiv> Code 2802"
abbreviation "C_SmeUminMVS4 \<equiv> Code 2803"
abbreviation "C_SmeSrshlMVS2 \<equiv> Code 2804"
abbreviation "C_SmeSrshlMVS4 \<equiv> Code 2805"
abbreviation "C_SmeUrshlMVS2 \<equiv> Code 2806"
abbreviation "C_SmeUrshlMVS4 \<equiv> Code 2807"
abbreviation "C_SmeSqdmulhMVS2 \<equiv> Code 2808"
abbreviation "C_SmeSqdmulhMVS4 \<equiv> Code 2809"
abbreviation "C_SmeFmaxMVS2 \<equiv> Code 2810"
abbreviation "C_SmeFmaxMVS4 \<equiv> Code 2811"
abbreviation "C_SmeFminMVS2 \<equiv> Code 2812"
abbreviation "C_SmeFminMVS4 \<equiv> Code 2813"
abbreviation "C_SmeFmaxnmMVS2 \<equiv> Code 2814"
abbreviation "C_SmeFmaxnmMVS4 \<equiv> Code 2815"
abbreviation "C_SmeFminnmMVS2 \<equiv> Code 2816"
abbreviation "C_SmeFminnmMVS4 \<equiv> Code 2817"
abbreviation "C_SmeFscaleMVS2 \<equiv> Code 2818"
abbreviation "C_SmeFscaleMVS4 \<equiv> Code 2819"
abbreviation "C_SmeBfmaxMVS2 \<equiv> Code 2820"
abbreviation "C_SmeBfmaxMVS4 \<equiv> Code 2821"
abbreviation "C_SmeBfminMVS2 \<equiv> Code 2822"
abbreviation "C_SmeBfminMVS4 \<equiv> Code 2823"
abbreviation "C_SmeBfmaxnmMVS2 \<equiv> Code 2824"
abbreviation "C_SmeBfmaxnmMVS4 \<equiv> Code 2825"
abbreviation "C_SmeBfminnmMVS2 \<equiv> Code 2826"
abbreviation "C_SmeBfminnmMVS4 \<equiv> Code 2827"
abbreviation "C_SmeBfscaleMVS2 \<equiv> Code 2828"
abbreviation "C_SmeBfscaleMVS4 \<equiv> Code 2829"
abbreviation "C_SmeBfmulMV2 \<equiv> Code 2830"
abbreviation "C_SmeBfmulMV4 \<equiv> Code 2831"
abbreviation "C_SmeBfmulMVS2 \<equiv> Code 2832"
abbreviation "C_SmeBfmulMVS4 \<equiv> Code 2833"
abbreviation "C_SmeSunpk \<equiv> Code 2834"
abbreviation "C_SmeUunpk \<equiv> Code 2835"
abbreviation "C_SmeSqcvt \<equiv> Code 2836"
abbreviation "C_SmeUqcvt \<equiv> Code 2837"
abbreviation "C_SmeSqcvtu \<equiv> Code 2838"
abbreviation "C_SmeSqcvtnNarrow \<equiv> Code 2839"
abbreviation "C_SmeUqcvtnNarrow \<equiv> Code 2840"
abbreviation "C_SmeSqcvtunNarrow \<equiv> Code 2841"
abbreviation "C_SmeSqrshrV2 \<equiv> Code 2842"
abbreviation "C_SmeUqrshrV2 \<equiv> Code 2843"
abbreviation "C_SmeSqrshruV2 \<equiv> Code 2844"
abbreviation "C_SmeLuti6Consec \<equiv> Code 2845"
abbreviation "C_SveFcvtzsn \<equiv> Code 2846"
abbreviation "C_SveFcvtzun \<equiv> Code 2847"
abbreviation "C_SveF1cvt \<equiv> Code 2848"
abbreviation "C_SveF2cvt \<equiv> Code 2849"
abbreviation "C_SveBf1cvt \<equiv> Code 2850"
abbreviation "C_SveF1cvtlt \<equiv> Code 2851"
abbreviation "C_SveF2cvtlt \<equiv> Code 2852"
abbreviation "C_SveBf1cvtlt \<equiv> Code 2853"
abbreviation "C_SveBf2cvtlt \<equiv> Code 2854"
abbreviation "C_SveFcvtnFp8 \<equiv> Code 2855"
abbreviation "C_SveFcvtnbFp8 \<equiv> Code 2856"
abbreviation "C_SveBfcvtnFp8 \<equiv> Code 2857"
abbreviation "C_SveFcvtntFp8 \<equiv> Code 2858"
abbreviation "C_SveScvtfWiden \<equiv> Code 2859"
abbreviation "C_SveUcvtfWiden \<equiv> Code 2860"
abbreviation "C_SveUcvtflt \<equiv> Code 2861"
abbreviation "C_SmeFcvtNarrow \<equiv> Code 2862"
abbreviation "C_SmeFcvtnNarrowFp \<equiv> Code 2863"
abbreviation "C_SmeBfcvtNarrow \<equiv> Code 2864"
abbreviation "C_SmeBfcvtnNarrowFp \<equiv> Code 2865"
abbreviation "C_SmeFcvtWiden \<equiv> Code 2866"
abbreviation "C_SmeFcvtlWiden \<equiv> Code 2867"
abbreviation "C_SmeSmaxMV2 \<equiv> Code 2868"
abbreviation "C_SmeSmaxMV4 \<equiv> Code 2869"
abbreviation "C_SmeUmaxMV2 \<equiv> Code 2870"
abbreviation "C_SmeUmaxMV4 \<equiv> Code 2871"
abbreviation "C_SmeSminMV2 \<equiv> Code 2872"
abbreviation "C_SmeSminMV4 \<equiv> Code 2873"
abbreviation "C_SmeUminMV2 \<equiv> Code 2874"
abbreviation "C_SmeUminMV4 \<equiv> Code 2875"
abbreviation "C_SmeSrshlMV2 \<equiv> Code 2876"
abbreviation "C_SmeSrshlMV4 \<equiv> Code 2877"
abbreviation "C_SmeUrshlMV2 \<equiv> Code 2878"
abbreviation "C_SmeUrshlMV4 \<equiv> Code 2879"
abbreviation "C_SmeSqdmulhMV2 \<equiv> Code 2880"
abbreviation "C_SmeSqdmulhMV4 \<equiv> Code 2881"
abbreviation "C_SmeFamaxMV2 \<equiv> Code 2882"
abbreviation "C_SmeFamaxMV4 \<equiv> Code 2883"
abbreviation "C_SmeFaminMV2 \<equiv> Code 2884"
abbreviation "C_SmeFaminMV4 \<equiv> Code 2885"
abbreviation "C_SmeFscaleMVMV2 \<equiv> Code 2886"
abbreviation "C_SmeFscaleMVMV4 \<equiv> Code 2887"
abbreviation "C_SmeBfmaxMV2 \<equiv> Code 2888"
abbreviation "C_SmeBfmaxMV4 \<equiv> Code 2889"
abbreviation "C_SmeBfminMV2 \<equiv> Code 2890"
abbreviation "C_SmeBfminMV4 \<equiv> Code 2891"
abbreviation "C_SmeBfmaxnmMV2 \<equiv> Code 2892"
abbreviation "C_SmeBfmaxnmMV4 \<equiv> Code 2893"
abbreviation "C_SmeBfminnmMV2 \<equiv> Code 2894"
abbreviation "C_SmeBfminnmMV4 \<equiv> Code 2895"
abbreviation "C_SmeBfscaleMV2 \<equiv> Code 2896"
abbreviation "C_SmeBfscaleMV4 \<equiv> Code 2897"
abbreviation "C_SmeMovaArrayToVec \<equiv> Code 2898"
abbreviation "C_SmeMovazArrayToVec \<equiv> Code 2899"
abbreviation "C_SmeMovaVecToArray \<equiv> Code 2900"
abbreviation "C_SmeLuti6Single \<equiv> Code 2901"
abbreviation "C_SmeBfaddV2Go \<equiv> Code 2902"
abbreviation "C_SmeBfaddV4Go \<equiv> Code 2903"
abbreviation "C_SmeBfsubV2Go \<equiv> Code 2904"
abbreviation "C_SmeBfsubV4Go \<equiv> Code 2905"
abbreviation "C_SmeFcvtNarrowFp8 \<equiv> Code 2906"
abbreviation "C_SmeFcvtnNarrowFp8 \<equiv> Code 2907"
abbreviation "C_SmeBfcvtNarrowFp8 \<equiv> Code 2908"
abbreviation "C_SmeF1cvtWiden \<equiv> Code 2909"
abbreviation "C_SmeF1cvtlWiden \<equiv> Code 2910"
abbreviation "C_SmeF2cvtWiden \<equiv> Code 2911"
abbreviation "C_SmeF2cvtlWiden \<equiv> Code 2912"
abbreviation "C_SmeBf1cvtWiden \<equiv> Code 2913"
abbreviation "C_SmeBf1cvtlWiden \<equiv> Code 2914"
abbreviation "C_SmeBf2cvtWiden \<equiv> Code 2915"
abbreviation "C_SmeBf2cvtlWiden \<equiv> Code 2916"
abbreviation "C_SmeFrintn \<equiv> Code 2917"
abbreviation "C_SmeFrintp \<equiv> Code 2918"
abbreviation "C_SmeFrintm \<equiv> Code 2919"
abbreviation "C_SmeFrinta \<equiv> Code 2920"
abbreviation "C_SmeScvtf \<equiv> Code 2921"
abbreviation "C_SmeUcvtf \<equiv> Code 2922"
abbreviation "C_SmeFcvtzs \<equiv> Code 2923"
abbreviation "C_SmeFcvtzu \<equiv> Code 2924"
abbreviation "C_SvePextSingle \<equiv> Code 2925"
abbreviation "C_SvePextPair \<equiv> Code 2926"
abbreviation "C_SvePtruePn \<equiv> Code 2927"
abbreviation "C_SmeZeroMask \<equiv> Code 2928"
abbreviation "C_SmeZeroZt0 \<equiv> Code 2929"
abbreviation "C_SmeZeroArray \<equiv> Code 2930"
abbreviation "C_SmeMovtZt0Z \<equiv> Code 2931"
abbreviation "C_SmeMovtZt0X \<equiv> Code 2932"
abbreviation "C_SmeMovtXZt0 \<equiv> Code 2933"
abbreviation "C_SmeLuti6Zt \<equiv> Code 2934"
abbreviation "C_Gcspushm \<equiv> Code 2935"
abbreviation "C_Gcspopm \<equiv> Code 2936"
abbreviation "C_Gcsss1 \<equiv> Code 2937"
abbreviation "C_Gcsss2 \<equiv> Code 2938"
abbreviation "C_Gcspushx \<equiv> Code 2939"
abbreviation "C_Gcspopx \<equiv> Code 2940"
abbreviation "C_Gcspopcx \<equiv> Code 2941"
abbreviation "C_Gcsb \<equiv> Code 2942"
abbreviation "C_Tenter \<equiv> Code 2943"
abbreviation "C_Shuh \<equiv> Code 2944"
abbreviation "C_Stshh \<equiv> Code 2945"
abbreviation "C_Stcph \<equiv> Code 2946"
abbreviation "C_Chkfeat \<equiv> Code 2947"
abbreviation "C_Dgh \<equiv> Code 2948"
abbreviation "C_Clrbhb \<equiv> Code 2949"
abbreviation "C_Pacm \<equiv> Code 2950"
abbreviation "C_Gcsstr \<equiv> Code 2951"
abbreviation "C_Gcssttr \<equiv> Code 2952"
abbreviation "C_AmxLdx \<equiv> Code 2953"
abbreviation "C_AmxLdy \<equiv> Code 2954"
abbreviation "C_AmxStx \<equiv> Code 2955"
abbreviation "C_AmxSty \<equiv> Code 2956"
abbreviation "C_AmxLdz \<equiv> Code 2957"
abbreviation "C_AmxStz \<equiv> Code 2958"
abbreviation "C_AmxLdzi \<equiv> Code 2959"
abbreviation "C_AmxStzi \<equiv> Code 2960"
abbreviation "C_AmxExtrx \<equiv> Code 2961"
abbreviation "C_AmxExtry \<equiv> Code 2962"
abbreviation "C_AmxFma64 \<equiv> Code 2963"
abbreviation "C_AmxFms64 \<equiv> Code 2964"
abbreviation "C_AmxFma32 \<equiv> Code 2965"
abbreviation "C_AmxFms32 \<equiv> Code 2966"
abbreviation "C_AmxMac16 \<equiv> Code 2967"
abbreviation "C_AmxFma16 \<equiv> Code 2968"
abbreviation "C_AmxFms16 \<equiv> Code 2969"
abbreviation "C_AmxSet \<equiv> Code 2970"
abbreviation "C_AmxClr \<equiv> Code 2971"
abbreviation "C_AmxVecint \<equiv> Code 2972"
abbreviation "C_AmxVecfp \<equiv> Code 2973"
abbreviation "C_AmxMatint \<equiv> Code 2974"
abbreviation "C_AmxMatfp \<equiv> Code 2975"
abbreviation "C_AmxGenlut \<equiv> Code 2976"
abbreviation "C_Genter \<equiv> Code 2977"
abbreviation "C_Gexit \<equiv> Code 2978"

section \<open>The table\<close>

definition code_rows_0 :: "(code \<times> mnemonic \<times> feature) list" where
  "code_rows_0 =
    [(C_Invalid, M_Invalid, F_Base), (C_AddImm64, M_Add, F_Base), (C_OrrShifted32, M_Orr, F_Base),
     (C_Movz64, M_Movz, F_Base), (C_BCond, M_B, F_Base), (C_LdrImmUnsigned64, M_Ldr, F_Base),
     (C_LdpPre64, M_Ldp, F_Base), (C_RevdZPZ, M_Revd, F_Base), (C_Adr, M_Adr, F_Base), (C_Adrp, M_Adrp, F_Base),
     (C_AddImm32, M_Add, F_Base), (C_AddsImm32, M_Adds, F_Base), (C_AddsImm64, M_Adds, F_Base),
     (C_SubImm32, M_Sub, F_Base), (C_SubImm64, M_Sub, F_Base), (C_SubsImm32, M_Subs, F_Base),
     (C_SubsImm64, M_Subs, F_Base), (C_AddgImm, M_Addg, F_Mte), (C_SubgImm, M_Subg, F_Mte),
     (C_AndImm32, M_And, F_Base), (C_AndImm64, M_And, F_Base), (C_OrrImm32, M_Orr, F_Base),
     (C_OrrImm64, M_Orr, F_Base), (C_EorImm32, M_Eor, F_Base), (C_EorImm64, M_Eor, F_Base),
     (C_AndsImm32, M_Ands, F_Base), (C_AndsImm64, M_Ands, F_Base), (C_Movn32, M_Movn, F_Base),
     (C_Movn64, M_Movn, F_Base), (C_Movz32, M_Movz, F_Base), (C_Movk32, M_Movk, F_Base), (C_Movk64, M_Movk, F_Base),
     (C_Sbfm32, M_Sbfm, F_Base), (C_Sbfm64, M_Sbfm, F_Base), (C_Bfm32, M_Bfm, F_Base), (C_Bfm64, M_Bfm, F_Base),
     (C_Ubfm32, M_Ubfm, F_Base), (C_Ubfm64, M_Ubfm, F_Base), (C_Extr32, M_Extr, F_Base), (C_Extr64, M_Extr, F_Base),
     (C_BUncond, M_B, F_Base), (C_BlImm, M_Bl, F_Base), (C_Cbz32, M_Cbz, F_Base), (C_Cbz64, M_Cbz, F_Base),
     (C_Cbnz32, M_Cbnz, F_Base), (C_Cbnz64, M_Cbnz, F_Base), (C_Tbz, M_Tbz, F_Base), (C_Tbnz, M_Tbnz, F_Base),
     (C_Br, M_Br, F_Base), (C_Blr, M_Blr, F_Base), (C_Ret, M_Ret, F_Base), (C_Eret, M_Eret, F_Base),
     (C_Drps, M_Drps, F_Base), (C_Braaz, M_Braaz, F_PAuth), (C_Brabz, M_Brabz, F_PAuth),
     (C_Blraaz, M_Blraaz, F_PAuth), (C_Blrabz, M_Blrabz, F_PAuth), (C_Braa, M_Braa, F_PAuth),
     (C_Brab, M_Brab, F_PAuth), (C_Blraa, M_Blraa, F_PAuth), (C_Blrab, M_Blrab, F_PAuth), (C_Retaa, M_Retaa, F_PAuth),
     (C_Retab, M_Retab, F_PAuth), (C_Eretaa, M_Eretaa, F_PAuth)]"

definition code_rows_1 :: "(code \<times> mnemonic \<times> feature) list" where
  "code_rows_1 =
    [(C_Eretab, M_Eretab, F_PAuth), (C_Svc, M_Svc, F_Base), (C_Hvc, M_Hvc, F_Base), (C_Smc, M_Smc, F_Base),
     (C_Brk, M_Brk, F_Base), (C_Hlt, M_Hlt, F_Base), (C_Dcps1, M_Dcps1, F_Base), (C_Dcps2, M_Dcps2, F_Base),
     (C_Dcps3, M_Dcps3, F_Base), (C_Nop, M_Nop, F_Base), (C_Yield, M_Yield, F_Base), (C_Wfe, M_Wfe, F_Base),
     (C_Wfi, M_Wfi, F_Base), (C_Sev, M_Sev, F_Base), (C_Sevl, M_Sevl, F_Base), (C_Esb, M_Esb, F_Base),
     (C_Psb, M_Psb, F_Base), (C_Csdb, M_Csdb, F_Base), (C_Bti, M_Bti, F_Base), (C_HintGeneric, M_Hint, F_Base),
     (C_Clrex, M_Clrex, F_Base), (C_Dmb, M_Dmb, F_Base), (C_Dsb, M_Dsb, F_Base), (C_Isb, M_Isb, F_Base),
     (C_Sb, M_Sb, F_Base), (C_Cfinv, M_Cfinv, F_Base), (C_Xaflag, M_Xaflag, F_Base), (C_Axflag, M_Axflag, F_Base),
     (C_MsrImm, M_Msr, F_Base), (C_MsrReg, M_Msr, F_Base), (C_Mrs, M_Mrs, F_Base), (C_Sys, M_Sys, F_Base),
     (C_Sysl, M_Sysl, F_Base), (C_Pacia, M_Pacia, F_PAuth), (C_Pacib, M_Pacib, F_PAuth), (C_Pacda, M_Pacda, F_PAuth),
     (C_Pacdb, M_Pacdb, F_PAuth), (C_Autia, M_Autia, F_PAuth), (C_Autib, M_Autib, F_PAuth),
     (C_Autda, M_Autda, F_PAuth), (C_Autdb, M_Autdb, F_PAuth), (C_Pacga, M_Pacga, F_PAuth),
     (C_Xpaci, M_Xpaci, F_PAuth), (C_Xpacd, M_Xpacd, F_PAuth), (C_Tcommit, M_Tcommit, F_Tme),
     (C_Tcancel, M_Tcancel, F_Tme), (C_Tstart, M_Tstart, F_Tme), (C_Ttest, M_Ttest, F_Tme), (C_Tsb, M_Tsb, F_Trf),
     (C_Wfet, M_Wfet, F_Wfxt), (C_Wfit, M_Wfit, F_Wfxt), (C_Udf, M_Udf, F_Base), (C_LdrImmUnsigned32, M_Ldr, F_Base),
     (C_StrImmUnsigned32, M_Str, F_Base), (C_StrImmUnsigned64, M_Str, F_Base), (C_LdrbImmUnsigned, M_Ldrb, F_Base),
     (C_StrbImmUnsigned, M_Strb, F_Base), (C_LdrhImmUnsigned, M_Ldrh, F_Base), (C_StrhImmUnsigned, M_Strh, F_Base),
     (C_LdrsbImmUnsigned32, M_Ldrsb, F_Base), (C_LdrsbImmUnsigned64, M_Ldrsb, F_Base),
     (C_LdrshImmUnsigned32, M_Ldrsh, F_Base), (C_LdrshImmUnsigned64, M_Ldrsh, F_Base),
     (C_LdrswImmUnsigned, M_Ldrsw, F_Base)]"

definition code_rows_2 :: "(code \<times> mnemonic \<times> feature) list" where
  "code_rows_2 =
    [(C_PrfmImmUnsigned, M_Prfm, F_Base), (C_LdrImmPre32, M_Ldr, F_Base), (C_LdrImmPre64, M_Ldr, F_Base),
     (C_StrImmPre32, M_Str, F_Base), (C_StrImmPre64, M_Str, F_Base), (C_LdrbImmPre, M_Ldrb, F_Base),
     (C_StrbImmPre, M_Strb, F_Base), (C_LdrhImmPre, M_Ldrh, F_Base), (C_StrhImmPre, M_Strh, F_Base),
     (C_LdrsbImmPre32, M_Ldrsb, F_Base), (C_LdrsbImmPre64, M_Ldrsb, F_Base), (C_LdrshImmPre32, M_Ldrsh, F_Base),
     (C_LdrshImmPre64, M_Ldrsh, F_Base), (C_LdrswImmPre, M_Ldrsw, F_Base), (C_LdrImmPost32, M_Ldr, F_Base),
     (C_LdrImmPost64, M_Ldr, F_Base), (C_StrImmPost32, M_Str, F_Base), (C_StrImmPost64, M_Str, F_Base),
     (C_LdrbImmPost, M_Ldrb, F_Base), (C_StrbImmPost, M_Strb, F_Base), (C_LdrhImmPost, M_Ldrh, F_Base),
     (C_StrhImmPost, M_Strh, F_Base), (C_LdrsbImmPost32, M_Ldrsb, F_Base), (C_LdrsbImmPost64, M_Ldrsb, F_Base),
     (C_LdrshImmPost32, M_Ldrsh, F_Base), (C_LdrshImmPost64, M_Ldrsh, F_Base), (C_LdrswImmPost, M_Ldrsw, F_Base),
     (C_LdrReg32, M_Ldr, F_Base), (C_LdrReg64, M_Ldr, F_Base), (C_StrReg32, M_Str, F_Base),
     (C_StrReg64, M_Str, F_Base), (C_LdrbReg, M_Ldrb, F_Base), (C_StrbReg, M_Strb, F_Base),
     (C_LdrhReg, M_Ldrh, F_Base), (C_StrhReg, M_Strh, F_Base), (C_LdrsbReg32, M_Ldrsb, F_Base),
     (C_LdrsbReg64, M_Ldrsb, F_Base), (C_LdrshReg32, M_Ldrsh, F_Base), (C_LdrshReg64, M_Ldrsh, F_Base),
     (C_LdrswReg, M_Ldrsw, F_Base), (C_PrfmReg, M_Prfm, F_Base), (C_LdrLit32, M_Ldr, F_Base),
     (C_LdrLit64, M_Ldr, F_Base), (C_LdrswLit, M_Ldrsw, F_Base), (C_PrfmLit, M_Prfm, F_Base),
     (C_LdrLitFp32, M_Ldr, F_Base), (C_LdrLitFp64, M_Ldr, F_Base), (C_LdrLitFp128, M_Ldr, F_Base),
     (C_Ldur32, M_Ldur, F_Base), (C_Ldur64, M_Ldur, F_Base), (C_Stur32, M_Stur, F_Base), (C_Stur64, M_Stur, F_Base),
     (C_Ldurb, M_Ldurb, F_Base), (C_Sturb, M_Sturb, F_Base), (C_Ldurh, M_Ldurh, F_Base), (C_Sturh, M_Sturh, F_Base),
     (C_Ldursb32, M_Ldursb, F_Base), (C_Ldursb64, M_Ldursb, F_Base), (C_Ldursh32, M_Ldursh, F_Base),
     (C_Ldursh64, M_Ldursh, F_Base), (C_Ldursw, M_Ldursw, F_Base), (C_Prfum, M_Prfum, F_Base),
     (C_Ldtr32, M_Ldtr, F_Base), (C_Ldtr64, M_Ldtr, F_Base)]"

definition code_rows_3 :: "(code \<times> mnemonic \<times> feature) list" where
  "code_rows_3 =
    [(C_Sttr32, M_Sttr, F_Base), (C_Sttr64, M_Sttr, F_Base), (C_Ldtrb, M_Ldtrb, F_Base), (C_Sttrb, M_Sttrb, F_Base),
     (C_Ldtrh, M_Ldtrh, F_Base), (C_Sttrh, M_Sttrh, F_Base), (C_Ldtrsb32, M_Ldtrsb, F_Base),
     (C_Ldtrsb64, M_Ldtrsb, F_Base), (C_Ldtrsh32, M_Ldtrsh, F_Base), (C_Ldtrsh64, M_Ldtrsh, F_Base),
     (C_Ldtrsw, M_Ldtrsw, F_Base), (C_LdrFpImmUnsigned8, M_Ldr, F_Base), (C_LdrFpImmUnsigned16, M_Ldr, F_Base),
     (C_LdrFpImmUnsigned32, M_Ldr, F_Base), (C_LdrFpImmUnsigned64, M_Ldr, F_Base),
     (C_LdrFpImmUnsigned128, M_Ldr, F_Base), (C_StrFpImmUnsigned8, M_Str, F_Base),
     (C_StrFpImmUnsigned16, M_Str, F_Base), (C_StrFpImmUnsigned32, M_Str, F_Base),
     (C_StrFpImmUnsigned64, M_Str, F_Base), (C_StrFpImmUnsigned128, M_Str, F_Base), (C_LdrFpReg32, M_Ldr, F_Base),
     (C_LdrFpReg64, M_Ldr, F_Base), (C_LdrFpReg128, M_Ldr, F_Base), (C_StrFpReg32, M_Str, F_Base),
     (C_StrFpReg64, M_Str, F_Base), (C_StrFpReg128, M_Str, F_Base), (C_Ldp32, M_Ldp, F_Base),
     (C_Ldp64, M_Ldp, F_Base), (C_Stp32, M_Stp, F_Base), (C_Stp64, M_Stp, F_Base), (C_Ldp32Pre, M_Ldp, F_Base),
     (C_Stp32Pre, M_Stp, F_Base), (C_Stp64Pre, M_Stp, F_Base), (C_Ldp32Post, M_Ldp, F_Base),
     (C_Ldp64Post, M_Ldp, F_Base), (C_Stp32Post, M_Stp, F_Base), (C_Stp64Post, M_Stp, F_Base),
     (C_Ldpsw, M_Ldpsw, F_Base), (C_LdpswPre, M_Ldpsw, F_Base), (C_LdpswPost, M_Ldpsw, F_Base),
     (C_Ldnp32, M_Ldnp, F_Base), (C_Ldnp64, M_Ldnp, F_Base), (C_Stnp32, M_Stnp, F_Base), (C_Stnp64, M_Stnp, F_Base),
     (C_LdpFp32, M_Ldp, F_Base), (C_LdpFp64, M_Ldp, F_Base), (C_LdpFp128, M_Ldp, F_Base), (C_StpFp32, M_Stp, F_Base),
     (C_StpFp64, M_Stp, F_Base), (C_StpFp128, M_Stp, F_Base), (C_Stxr32, M_Stxr, F_Base), (C_Stxr64, M_Stxr, F_Base),
     (C_Stxrb, M_Stxrb, F_Base), (C_Stxrh, M_Stxrh, F_Base), (C_Ldxr32, M_Ldxr, F_Base), (C_Ldxr64, M_Ldxr, F_Base),
     (C_Ldxrb, M_Ldxrb, F_Base), (C_Ldxrh, M_Ldxrh, F_Base), (C_Stlxr32, M_Stlxr, F_Base),
     (C_Stlxr64, M_Stlxr, F_Base), (C_Stlxrb, M_Stlxrb, F_Base), (C_Stlxrh, M_Stlxrh, F_Base),
     (C_Ldaxr32, M_Ldaxr, F_Base)]"

definition code_rows_4 :: "(code \<times> mnemonic \<times> feature) list" where
  "code_rows_4 =
    [(C_Ldaxr64, M_Ldaxr, F_Base), (C_Ldaxrb, M_Ldaxrb, F_Base), (C_Ldaxrh, M_Ldaxrh, F_Base),
     (C_Stxp32, M_Stxp, F_Base), (C_Stxp64, M_Stxp, F_Base), (C_Ldxp32, M_Ldxp, F_Base), (C_Ldxp64, M_Ldxp, F_Base),
     (C_Stlxp32, M_Stlxp, F_Base), (C_Stlxp64, M_Stlxp, F_Base), (C_Ldaxp32, M_Ldaxp, F_Base),
     (C_Ldaxp64, M_Ldaxp, F_Base), (C_Ldar32, M_Ldar, F_Base), (C_Ldar64, M_Ldar, F_Base), (C_Ldarb, M_Ldarb, F_Base),
     (C_Ldarh, M_Ldarh, F_Base), (C_Stlr32, M_Stlr, F_Base), (C_Stlr64, M_Stlr, F_Base), (C_Stlrb, M_Stlrb, F_Base),
     (C_Stlrh, M_Stlrh, F_Base), (C_Ldapr32, M_Ldapr, F_Base), (C_Ldapr64, M_Ldapr, F_Base),
     (C_Ldaprb, M_Ldaprb, F_Base), (C_Ldaprh, M_Ldaprh, F_Base), (C_Stllr32, M_Stllr, F_Base),
     (C_Stllr64, M_Stllr, F_Base), (C_Stllrb, M_Stllrb, F_Base), (C_Stllrh, M_Stllrh, F_Base),
     (C_Ldlar32, M_Ldlar, F_Base), (C_Ldlar64, M_Ldlar, F_Base), (C_Ldlarb, M_Ldlarb, F_Base),
     (C_Ldlarh, M_Ldlarh, F_Base), (C_Cas32, M_Cas, F_Lse), (C_Cas64, M_Cas, F_Lse), (C_Casa32, M_Casa, F_Lse),
     (C_Casa64, M_Casa, F_Lse), (C_Casl32, M_Casl, F_Lse), (C_Casl64, M_Casl, F_Lse), (C_Casal32, M_Casal, F_Lse),
     (C_Casal64, M_Casal, F_Lse), (C_Casb, M_Casb, F_Lse), (C_Casab, M_Casab, F_Lse), (C_Caslb, M_Caslb, F_Lse),
     (C_Casalb, M_Casalb, F_Lse), (C_Cash, M_Cash, F_Lse), (C_Casah, M_Casah, F_Lse), (C_Caslh, M_Caslh, F_Lse),
     (C_Casalh, M_Casalh, F_Lse), (C_Casp32, M_Casp, F_Lse), (C_Casp64, M_Casp, F_Lse), (C_Caspa32, M_Caspa, F_Lse),
     (C_Caspa64, M_Caspa, F_Lse), (C_Caspl32, M_Caspl, F_Lse), (C_Caspl64, M_Caspl, F_Lse),
     (C_Caspal32, M_Caspal, F_Lse), (C_Caspal64, M_Caspal, F_Lse), (C_Swp32, M_Swp, F_Lse), (C_Swp64, M_Swp, F_Lse),
     (C_Swpa32, M_Swpa, F_Lse), (C_Swpa64, M_Swpa, F_Lse), (C_Swpl32, M_Swpl, F_Lse), (C_Swpl64, M_Swpl, F_Lse),
     (C_Swpal32, M_Swpal, F_Lse), (C_Swpal64, M_Swpal, F_Lse), (C_Swpb, M_Swpb, F_Lse)]"

definition code_rows_5 :: "(code \<times> mnemonic \<times> feature) list" where
  "code_rows_5 =
    [(C_Swpab, M_Swpab, F_Lse), (C_Swplb, M_Swplb, F_Lse), (C_Swpalb, M_Swpalb, F_Lse), (C_Swph, M_Swph, F_Lse),
     (C_Swpah, M_Swpah, F_Lse), (C_Swplh, M_Swplh, F_Lse), (C_Swpalh, M_Swpalh, F_Lse), (C_Ld64b, M_Ld64b, F_Ls64),
     (C_St64b, M_St64b, F_Ls64), (C_St64bv, M_St64bv, F_Ls64), (C_St64bv0, M_St64bv0, F_Ls64),
     (C_Ldtadd32, M_Ldtadd, F_The), (C_Ldtadd64, M_Ldtadd, F_The), (C_Ldtaddl32, M_Ldtaddl, F_The),
     (C_Ldtaddl64, M_Ldtaddl, F_The), (C_Ldtadda32, M_Ldtadda, F_The), (C_Ldtadda64, M_Ldtadda, F_The),
     (C_Ldtaddal32, M_Ldtaddal, F_The), (C_Ldtaddal64, M_Ldtaddal, F_The), (C_Ldtclr32, M_Ldtclr, F_The),
     (C_Ldtclr64, M_Ldtclr, F_The), (C_Ldtclrl32, M_Ldtclrl, F_The), (C_Ldtclrl64, M_Ldtclrl, F_The),
     (C_Ldtclra32, M_Ldtclra, F_The), (C_Ldtclra64, M_Ldtclra, F_The), (C_Ldtclral32, M_Ldtclral, F_The),
     (C_Ldtclral64, M_Ldtclral, F_The), (C_Ldtset32, M_Ldtset, F_The), (C_Ldtset64, M_Ldtset, F_The),
     (C_Ldtsetl32, M_Ldtsetl, F_The), (C_Ldtsetl64, M_Ldtsetl, F_The), (C_Ldtseta32, M_Ldtseta, F_The),
     (C_Ldtseta64, M_Ldtseta, F_The), (C_Ldtsetal32, M_Ldtsetal, F_The), (C_Ldtsetal64, M_Ldtsetal, F_The),
     (C_Swpt32, M_Swpt, F_The), (C_Swpt64, M_Swpt, F_The), (C_Swptl32, M_Swptl, F_The), (C_Swptl64, M_Swptl, F_The),
     (C_Swpta32, M_Swpta, F_The), (C_Swpta64, M_Swpta, F_The), (C_Swptal32, M_Swptal, F_The),
     (C_Swptal64, M_Swptal, F_The), (C_Rcwcas, M_Rcwcas, F_The), (C_Rcwcasl, M_Rcwcasl, F_The),
     (C_Rcwcasa, M_Rcwcasa, F_The), (C_Rcwcasal, M_Rcwcasal, F_The), (C_Rcwcasp, M_Rcwcasp, F_The),
     (C_Rcwcaspl, M_Rcwcaspl, F_The), (C_Rcwcaspa, M_Rcwcaspa, F_The), (C_Rcwcaspal, M_Rcwcaspal, F_The),
     (C_Rcwclrp, M_Rcwclrp, F_The), (C_Rcwclrpl, M_Rcwclrpl, F_The), (C_Rcwclrpa, M_Rcwclrpa, F_The),
     (C_Rcwclrpal, M_Rcwclrpal, F_The), (C_Rcwsetp, M_Rcwsetp, F_The), (C_Rcwsetpl, M_Rcwsetpl, F_The),
     (C_Rcwsetpa, M_Rcwsetpa, F_The), (C_Rcwsetpal, M_Rcwsetpal, F_The), (C_Rcwswpp, M_Rcwswpp, F_The),
     (C_Rcwswppl, M_Rcwswppl, F_The), (C_Rcwswppa, M_Rcwswppa, F_The), (C_Rcwswppal, M_Rcwswppal, F_The),
     (C_Rcwscas, M_Rcwscas, F_The)]"

definition code_rows_6 :: "(code \<times> mnemonic \<times> feature) list" where
  "code_rows_6 =
    [(C_Rcwscasl, M_Rcwscasl, F_The), (C_Rcwscasa, M_Rcwscasa, F_The), (C_Rcwscasal, M_Rcwscasal, F_The),
     (C_Rcwscasp, M_Rcwscasp, F_The), (C_Rcwscaspl, M_Rcwscaspl, F_The), (C_Rcwscaspa, M_Rcwscaspa, F_The),
     (C_Rcwscaspal, M_Rcwscaspal, F_The), (C_Rcwsclrp, M_Rcwsclrp, F_The), (C_Rcwsclrpl, M_Rcwsclrpl, F_The),
     (C_Rcwsclrpa, M_Rcwsclrpa, F_The), (C_Rcwsclrpal, M_Rcwsclrpal, F_The), (C_Rcwssetp, M_Rcwssetp, F_The),
     (C_Rcwssetpl, M_Rcwssetpl, F_The), (C_Rcwssetpa, M_Rcwssetpa, F_The), (C_Rcwssetpal, M_Rcwssetpal, F_The),
     (C_Rcwsswpp, M_Rcwsswpp, F_The), (C_Rcwsswppl, M_Rcwsswppl, F_The), (C_Rcwsswppa, M_Rcwsswppa, F_The),
     (C_Rcwsswppal, M_Rcwsswppal, F_The), (C_Rcwclr, M_Rcwclr, F_The), (C_Rcwclrl, M_Rcwclrl, F_The),
     (C_Rcwclra, M_Rcwclra, F_The), (C_Rcwclral, M_Rcwclral, F_The), (C_Rcwswp, M_Rcwswp, F_The),
     (C_Rcwswpl, M_Rcwswpl, F_The), (C_Rcwswpa, M_Rcwswpa, F_The), (C_Rcwswpal, M_Rcwswpal, F_The),
     (C_Rcwset, M_Rcwset, F_The), (C_Rcwsetl, M_Rcwsetl, F_The), (C_Rcwseta, M_Rcwseta, F_The),
     (C_Rcwsetal, M_Rcwsetal, F_The), (C_Rcwsclr, M_Rcwsclr, F_The), (C_Rcwsclrl, M_Rcwsclrl, F_The),
     (C_Rcwsclra, M_Rcwsclra, F_The), (C_Rcwsclral, M_Rcwsclral, F_The), (C_Rcwsswp, M_Rcwsswp, F_The),
     (C_Rcwsswpl, M_Rcwsswpl, F_The), (C_Rcwsswpa, M_Rcwsswpa, F_The), (C_Rcwsswpal, M_Rcwsswpal, F_The),
     (C_Rcwsset, M_Rcwsset, F_The), (C_Rcwssetl, M_Rcwssetl, F_The), (C_Rcwsseta, M_Rcwsseta, F_The),
     (C_Rcwssetal, M_Rcwssetal, F_The), (C_Ldclrp, M_Ldclrp, F_Lse128), (C_Ldclrpl, M_Ldclrpl, F_Lse128),
     (C_Ldclrpa, M_Ldclrpa, F_Lse128), (C_Ldclrpal, M_Ldclrpal, F_Lse128), (C_Ldsetp, M_Ldsetp, F_Lse128),
     (C_Ldsetpl, M_Ldsetpl, F_Lse128), (C_Ldsetpa, M_Ldsetpa, F_Lse128), (C_Ldsetpal, M_Ldsetpal, F_Lse128),
     (C_Swpp, M_Swpp, F_Lse128), (C_Swppl, M_Swppl, F_Lse128), (C_Swppa, M_Swppa, F_Lse128),
     (C_Swppal, M_Swppal, F_Lse128), (C_Ldadd32, M_Ldadd, F_Lse), (C_Ldadd64, M_Ldadd, F_Lse),
     (C_Ldadda32, M_Ldadda, F_Lse), (C_Ldadda64, M_Ldadda, F_Lse), (C_Ldaddl32, M_Ldaddl, F_Lse),
     (C_Ldaddl64, M_Ldaddl, F_Lse), (C_Ldaddal32, M_Ldaddal, F_Lse), (C_Ldaddal64, M_Ldaddal, F_Lse),
     (C_Ldaddb, M_Ldadd, F_Lse)]"

definition code_rows_7 :: "(code \<times> mnemonic \<times> feature) list" where
  "code_rows_7 =
    [(C_Ldaddh, M_Ldadd, F_Lse), (C_Stadd32, M_Stadd, F_Lse), (C_Stadd64, M_Stadd, F_Lse),
     (C_Ldclr32, M_Ldclr, F_Lse), (C_Ldclr64, M_Ldclr, F_Lse), (C_Ldclra32, M_Ldclra, F_Lse),
     (C_Ldclra64, M_Ldclra, F_Lse), (C_Ldclrl32, M_Ldclrl, F_Lse), (C_Ldclrl64, M_Ldclrl, F_Lse),
     (C_Ldclral32, M_Ldclral, F_Lse), (C_Ldclral64, M_Ldclral, F_Lse), (C_Ldclrb, M_Ldclr, F_Lse),
     (C_Ldclrh, M_Ldclr, F_Lse), (C_Stclr32, M_Stclr, F_Lse), (C_Stclr64, M_Stclr, F_Lse),
     (C_Ldeor32, M_Ldeor, F_Lse), (C_Ldeor64, M_Ldeor, F_Lse), (C_Ldeora32, M_Ldeora, F_Lse),
     (C_Ldeora64, M_Ldeora, F_Lse), (C_Ldeorl32, M_Ldeorl, F_Lse), (C_Ldeorl64, M_Ldeorl, F_Lse),
     (C_Ldeoral32, M_Ldeoral, F_Lse), (C_Ldeoral64, M_Ldeoral, F_Lse), (C_Ldeorb, M_Ldeor, F_Lse),
     (C_Ldeorh, M_Ldeor, F_Lse), (C_Steor32, M_Steor, F_Lse), (C_Steor64, M_Steor, F_Lse),
     (C_Ldset32, M_Ldset, F_Lse), (C_Ldset64, M_Ldset, F_Lse), (C_Ldseta32, M_Ldseta, F_Lse),
     (C_Ldseta64, M_Ldseta, F_Lse), (C_Ldsetl32, M_Ldsetl, F_Lse), (C_Ldsetl64, M_Ldsetl, F_Lse),
     (C_Ldsetal32, M_Ldsetal, F_Lse), (C_Ldsetal64, M_Ldsetal, F_Lse), (C_Ldsetb, M_Ldset, F_Lse),
     (C_Ldseth, M_Ldset, F_Lse), (C_Stset32, M_Stset, F_Lse), (C_Stset64, M_Stset, F_Lse),
     (C_Ldsmax32, M_Ldsmax, F_Lse), (C_Ldsmax64, M_Ldsmax, F_Lse), (C_Ldsmaxb, M_Ldsmax, F_Lse),
     (C_Ldsmaxh, M_Ldsmax, F_Lse), (C_Stsmax32, M_Stsmax, F_Lse), (C_Stsmax64, M_Stsmax, F_Lse),
     (C_Ldsmin32, M_Ldsmin, F_Lse), (C_Ldsmin64, M_Ldsmin, F_Lse), (C_Ldsminb, M_Ldsmin, F_Lse),
     (C_Ldsminh, M_Ldsmin, F_Lse), (C_Stsmin32, M_Stsmin, F_Lse), (C_Stsmin64, M_Stsmin, F_Lse),
     (C_Ldumax32, M_Ldumax, F_Lse), (C_Ldumax64, M_Ldumax, F_Lse), (C_Ldumaxb, M_Ldumax, F_Lse),
     (C_Ldumaxh, M_Ldumax, F_Lse), (C_Stumax32, M_Stumax, F_Lse), (C_Stumax64, M_Stumax, F_Lse),
     (C_Ldumin32, M_Ldumin, F_Lse), (C_Ldumin64, M_Ldumin, F_Lse), (C_Lduminb, M_Ldumin, F_Lse),
     (C_Lduminh, M_Ldumin, F_Lse), (C_Stumin32, M_Stumin, F_Lse), (C_Stumin64, M_Stumin, F_Lse),
     (C_AndShifted32, M_And, F_Base)]"

definition code_rows_8 :: "(code \<times> mnemonic \<times> feature) list" where
  "code_rows_8 =
    [(C_AndShifted64, M_And, F_Base), (C_BicShifted32, M_Bic, F_Base), (C_BicShifted64, M_Bic, F_Base),
     (C_OrrShifted64, M_Orr, F_Base), (C_OrnShifted32, M_Orn, F_Base), (C_OrnShifted64, M_Orn, F_Base),
     (C_EorShifted32, M_Eor, F_Base), (C_EorShifted64, M_Eor, F_Base), (C_EonShifted32, M_Eon, F_Base),
     (C_EonShifted64, M_Eon, F_Base), (C_AndsShifted32, M_Ands, F_Base), (C_AndsShifted64, M_Ands, F_Base),
     (C_BicsShifted32, M_Bics, F_Base), (C_BicsShifted64, M_Bics, F_Base), (C_AddShifted32, M_Add, F_Base),
     (C_AddShifted64, M_Add, F_Base), (C_AddsShifted32, M_Adds, F_Base), (C_AddsShifted64, M_Adds, F_Base),
     (C_SubShifted32, M_Sub, F_Base), (C_SubShifted64, M_Sub, F_Base), (C_SubsShifted32, M_Subs, F_Base),
     (C_SubsShifted64, M_Subs, F_Base), (C_AddExtended32, M_Add, F_Base), (C_AddExtended64, M_Add, F_Base),
     (C_AddsExtended32, M_Adds, F_Base), (C_AddsExtended64, M_Adds, F_Base), (C_SubExtended32, M_Sub, F_Base),
     (C_SubExtended64, M_Sub, F_Base), (C_SubsExtended32, M_Subs, F_Base), (C_SubsExtended64, M_Subs, F_Base),
     (C_Adc32, M_Adc, F_Base), (C_Adc64, M_Adc, F_Base), (C_Adcs32, M_Adcs, F_Base), (C_Adcs64, M_Adcs, F_Base),
     (C_Sbc32, M_Sbc, F_Base), (C_Sbc64, M_Sbc, F_Base), (C_Sbcs32, M_Sbcs, F_Base), (C_Sbcs64, M_Sbcs, F_Base),
     (C_CcmnReg32, M_Ccmn, F_Base), (C_CcmnReg64, M_Ccmn, F_Base), (C_CcmnImm32, M_Ccmn, F_Base),
     (C_CcmnImm64, M_Ccmn, F_Base), (C_CcmpReg32, M_Ccmp, F_Base), (C_CcmpReg64, M_Ccmp, F_Base),
     (C_CcmpImm32, M_Ccmp, F_Base), (C_CcmpImm64, M_Ccmp, F_Base), (C_Csel32, M_Csel, F_Base),
     (C_Csel64, M_Csel, F_Base), (C_Csinc32, M_Csinc, F_Base), (C_Csinc64, M_Csinc, F_Base),
     (C_Csinv32, M_Csinv, F_Base), (C_Csinv64, M_Csinv, F_Base), (C_Csneg32, M_Csneg, F_Base),
     (C_Csneg64, M_Csneg, F_Base), (C_Rbit32, M_Rbit, F_Base), (C_Rbit64, M_Rbit, F_Base),
     (C_Rev1632, M_Rev16, F_Base), (C_Rev1664, M_Rev16, F_Base), (C_Rev3232, M_Rev32, F_Base),
     (C_Rev3264, M_Rev32, F_Base), (C_Clz32, M_Clz, F_Base), (C_Clz64, M_Clz, F_Base), (C_Cls32, M_Cls, F_Base),
     (C_Cls64, M_Cls, F_Base)]"

definition code_rows_9 :: "(code \<times> mnemonic \<times> feature) list" where
  "code_rows_9 =
    [(C_Rev32Bit, M_Rev, F_Base), (C_Rev64Bit, M_Rev, F_Base), (C_Udiv32, M_Udiv, F_Base), (C_Udiv64, M_Udiv, F_Base),
     (C_Sdiv32, M_Sdiv, F_Base), (C_Sdiv64, M_Sdiv, F_Base), (C_Lslv32, M_Lslv, F_Base), (C_Lslv64, M_Lslv, F_Base),
     (C_Lsrv32, M_Lsrv, F_Base), (C_Lsrv64, M_Lsrv, F_Base), (C_Asrv32, M_Asrv, F_Base), (C_Asrv64, M_Asrv, F_Base),
     (C_Rorv32, M_Rorv, F_Base), (C_Rorv64, M_Rorv, F_Base), (C_Crc32b, M_Crc32b, F_Base),
     (C_Crc32h, M_Crc32h, F_Base), (C_Crc32w, M_Crc32w, F_Base), (C_Crc32cb, M_Crc32cb, F_Base),
     (C_Crc32ch, M_Crc32ch, F_Base), (C_Crc32cw, M_Crc32cw, F_Base), (C_Crc32x, M_Crc32x, F_Base),
     (C_Crc32cx, M_Crc32cx, F_Base), (C_Madd32, M_Madd, F_Base), (C_Madd64, M_Madd, F_Base),
     (C_Msub32, M_Msub, F_Base), (C_Msub64, M_Msub, F_Base), (C_Smaddl, M_Smaddl, F_Base),
     (C_Smsubl, M_Smsubl, F_Base), (C_Smulh, M_Smulh, F_Base), (C_Umaddl, M_Umaddl, F_Base),
     (C_Umsubl, M_Umsubl, F_Base), (C_Umulh, M_Umulh, F_Base), (C_PaciaDp, M_Pacia, F_PAuth),
     (C_PacibDp, M_Pacib, F_PAuth), (C_PacdaDp, M_Pacda, F_PAuth), (C_PacdbDp, M_Pacdb, F_PAuth),
     (C_AutiaDp, M_Autia, F_PAuth), (C_AutibDp, M_Autib, F_PAuth), (C_AutdaDp, M_Autda, F_PAuth),
     (C_AutdbDp, M_Autdb, F_PAuth), (C_PacizaDp, M_Paciza, F_PAuth), (C_PacizbDp, M_Pacizb, F_PAuth),
     (C_PacdzaDp, M_Pacdza, F_PAuth), (C_PacdzbDp, M_Pacdzb, F_PAuth), (C_AutizaDp, M_Autiza, F_PAuth),
     (C_AutizbDp, M_Autizb, F_PAuth), (C_AutdzaDp, M_Autdza, F_PAuth), (C_AutdzbDp, M_Autdzb, F_PAuth),
     (C_XpaciDp, M_Xpaci, F_PAuth), (C_XpacdDp, M_Xpacd, F_PAuth), (C_SubpDp, M_Subp, F_Mte),
     (C_SubpsDp, M_Subps, F_Mte), (C_IrgDp, M_Irg, F_Mte), (C_GmiDp, M_Gmi, F_Mte), (C_FmovS, M_Fmov, F_Base),
     (C_FmovD, M_Fmov, F_Base), (C_FabsS, M_Fabs, F_Base), (C_FabsD, M_Fabs, F_Base), (C_FnegS, M_Fneg, F_Base),
     (C_FnegD, M_Fneg, F_Base), (C_FsqrtS, M_Fsqrt, F_Base), (C_FsqrtD, M_Fsqrt, F_Base),
     (C_FrintaS, M_Frinta, F_Base), (C_FrintaD, M_Frinta, F_Base)]"

definition code_rows_10 :: "(code \<times> mnemonic \<times> feature) list" where
  "code_rows_10 =
    [(C_FrintiS, M_Frinti, F_Base), (C_FrintiD, M_Frinti, F_Base), (C_FrintmS, M_Frintm, F_Base),
     (C_FrintmD, M_Frintm, F_Base), (C_FrintnS, M_Frintn, F_Base), (C_FrintnD, M_Frintn, F_Base),
     (C_FrintpS, M_Frintp, F_Base), (C_FrintpD, M_Frintp, F_Base), (C_FrintxS, M_Frintx, F_Base),
     (C_FrintxD, M_Frintx, F_Base), (C_FrintzS, M_Frintz, F_Base), (C_FrintzD, M_Frintz, F_Base),
     (C_FcvtSD, M_Fcvt, F_Base), (C_FcvtDS, M_Fcvt, F_Base), (C_FcvtSH, M_Fcvt, F_Base), (C_FcvtDH, M_Fcvt, F_Base),
     (C_FcvtHS, M_Fcvt, F_Base), (C_FcvtHD, M_Fcvt, F_Base), (C_FaddS, M_Fadd, F_Base), (C_FaddD, M_Fadd, F_Base),
     (C_FsubS, M_Fsub, F_Base), (C_FsubD, M_Fsub, F_Base), (C_FmulS, M_Fmul, F_Base), (C_FmulD, M_Fmul, F_Base),
     (C_FdivS, M_Fdiv, F_Base), (C_FdivD, M_Fdiv, F_Base), (C_FmaxS, M_Fmax, F_Base), (C_FmaxD, M_Fmax, F_Base),
     (C_FminS, M_Fmin, F_Base), (C_FminD, M_Fmin, F_Base), (C_FmaxnmS, M_Fmaxnm, F_Base),
     (C_FmaxnmD, M_Fmaxnm, F_Base), (C_FminnmS, M_Fminnm, F_Base), (C_FminnmD, M_Fminnm, F_Base),
     (C_FnmulS, M_Fnmul, F_Base), (C_FnmulD, M_Fnmul, F_Base), (C_FmaddS, M_Fmadd, F_Base),
     (C_FmaddD, M_Fmadd, F_Base), (C_FmsubS, M_Fmsub, F_Base), (C_FmsubD, M_Fmsub, F_Base),
     (C_FnmaddS, M_Fnmadd, F_Base), (C_FnmaddD, M_Fnmadd, F_Base), (C_FnmsubS, M_Fnmsub, F_Base),
     (C_FnmsubD, M_Fnmsub, F_Base), (C_FcmpS, M_Fcmp, F_Base), (C_FcmpD, M_Fcmp, F_Base), (C_FcmpeS, M_Fcmpe, F_Base),
     (C_FcmpeD, M_Fcmpe, F_Base), (C_FccmpS, M_Fccmp, F_Base), (C_FccmpD, M_Fccmp, F_Base),
     (C_FccmpeS, M_Fccmpe, F_Base), (C_FccmpeD, M_Fccmpe, F_Base), (C_FcselS, M_Fcsel, F_Base),
     (C_FcselD, M_Fcsel, F_Base), (C_FmovImmS, M_Fmov, F_Base), (C_FmovImmD, M_Fmov, F_Base),
     (C_FcvtzsScalarS32, M_Fcvtzs, F_Base), (C_FcvtzsScalarS64, M_Fcvtzs, F_Base),
     (C_FcvtzsScalarD32, M_Fcvtzs, F_Base), (C_FcvtzsScalarD64, M_Fcvtzs, F_Base),
     (C_FcvtzuScalarS32, M_Fcvtzu, F_Base), (C_FcvtzuScalarS64, M_Fcvtzu, F_Base),
     (C_FcvtzuScalarD32, M_Fcvtzu, F_Base), (C_FcvtzuScalarD64, M_Fcvtzu, F_Base)]"

definition code_rows_11 :: "(code \<times> mnemonic \<times> feature) list" where
  "code_rows_11 =
    [(C_ScvtfS32, M_Scvtf, F_Base), (C_ScvtfS64, M_Scvtf, F_Base), (C_ScvtfD32, M_Scvtf, F_Base),
     (C_ScvtfD64, M_Scvtf, F_Base), (C_UcvtfS32, M_Ucvtf, F_Base), (C_UcvtfS64, M_Ucvtf, F_Base),
     (C_UcvtfD32, M_Ucvtf, F_Base), (C_UcvtfD64, M_Ucvtf, F_Base), (C_FcvtasScalar, M_Fcvtas, F_Base),
     (C_FcvtauScalar, M_Fcvtau, F_Base), (C_FcvtmsScalar, M_Fcvtms, F_Base), (C_FcvtmuScalar, M_Fcvtmu, F_Base),
     (C_FcvtnsScalar, M_Fcvtns, F_Base), (C_FcvtnuScalar, M_Fcvtnu, F_Base), (C_FcvtpsScalar, M_Fcvtps, F_Base),
     (C_FcvtpuScalar, M_Fcvtpu, F_Base), (C_FmovToGp32, M_Fmov, F_Base), (C_FmovToGp64, M_Fmov, F_Base),
     (C_FmovFromGp32, M_Fmov, F_Base), (C_FmovFromGp64, M_Fmov, F_Base), (C_FmovTopToGp, M_Fmov, F_Base),
     (C_FmovTopFromGp, M_Fmov, F_Base), (C_Fjcvtzs, M_Fjcvtzs, F_Base), (C_FmovH, M_Fmov, F_Fp16),
     (C_FabsH, M_Fabs, F_Fp16), (C_FnegH, M_Fneg, F_Fp16), (C_FsqrtH, M_Fsqrt, F_Fp16), (C_FrintaH, M_Frinta, F_Fp16),
     (C_FrintiH, M_Frinti, F_Fp16), (C_FrintmH, M_Frintm, F_Fp16), (C_FrintnH, M_Frintn, F_Fp16),
     (C_FrintpH, M_Frintp, F_Fp16), (C_FrintxH, M_Frintx, F_Fp16), (C_FrintzH, M_Frintz, F_Fp16),
     (C_FaddH, M_Fadd, F_Fp16), (C_FsubH, M_Fsub, F_Fp16), (C_FmulH, M_Fmul, F_Fp16), (C_FdivH, M_Fdiv, F_Fp16),
     (C_FmaxH, M_Fmax, F_Fp16), (C_FminH, M_Fmin, F_Fp16), (C_FmaxnmH, M_Fmaxnm, F_Fp16),
     (C_FminnmH, M_Fminnm, F_Fp16), (C_FnmulH, M_Fnmul, F_Fp16), (C_FmaddH, M_Fmadd, F_Fp16),
     (C_FmsubH, M_Fmsub, F_Fp16), (C_FnmaddH, M_Fnmadd, F_Fp16), (C_FnmsubH, M_Fnmsub, F_Fp16),
     (C_FcmpH, M_Fcmp, F_Fp16), (C_FcmpeH, M_Fcmpe, F_Fp16), (C_FccmpH, M_Fccmp, F_Fp16),
     (C_FccmpeH, M_Fccmpe, F_Fp16), (C_FcselH, M_Fcsel, F_Fp16), (C_FmovImmH, M_Fmov, F_Fp16),
     (C_FmovToGpH32, M_Fmov, F_Fp16), (C_FmovToGpH64, M_Fmov, F_Fp16), (C_FmovFromGpH32, M_Fmov, F_Fp16),
     (C_FmovFromGpH64, M_Fmov, F_Fp16), (C_ScvtfH32, M_Scvtf, F_Fp16), (C_ScvtfH64, M_Scvtf, F_Fp16),
     (C_UcvtfH32, M_Ucvtf, F_Fp16), (C_UcvtfH64, M_Ucvtf, F_Fp16), (C_FcvtzsScalarH32, M_Fcvtzs, F_Fp16),
     (C_FcvtzsScalarH64, M_Fcvtzs, F_Fp16), (C_FcvtzuScalarH32, M_Fcvtzu, F_Fp16)]"

definition code_rows_12 :: "(code \<times> mnemonic \<times> feature) list" where
  "code_rows_12 =
    [(C_FcvtzuScalarH64, M_Fcvtzu, F_Fp16), (C_ScvtfFixedS32, M_Scvtf, F_Base), (C_ScvtfFixedS64, M_Scvtf, F_Base),
     (C_ScvtfFixedD32, M_Scvtf, F_Base), (C_ScvtfFixedD64, M_Scvtf, F_Base), (C_ScvtfFixedH32, M_Scvtf, F_Fp16),
     (C_ScvtfFixedH64, M_Scvtf, F_Fp16), (C_UcvtfFixedS32, M_Ucvtf, F_Base), (C_UcvtfFixedS64, M_Ucvtf, F_Base),
     (C_UcvtfFixedD32, M_Ucvtf, F_Base), (C_UcvtfFixedD64, M_Ucvtf, F_Base), (C_UcvtfFixedH32, M_Ucvtf, F_Fp16),
     (C_UcvtfFixedH64, M_Ucvtf, F_Fp16), (C_FcvtzsFixedS32, M_Fcvtzs, F_Base), (C_FcvtzsFixedS64, M_Fcvtzs, F_Base),
     (C_FcvtzsFixedD32, M_Fcvtzs, F_Base), (C_FcvtzsFixedD64, M_Fcvtzs, F_Base), (C_FcvtzsFixedH32, M_Fcvtzs, F_Fp16),
     (C_FcvtzsFixedH64, M_Fcvtzs, F_Fp16), (C_FcvtzuFixedS32, M_Fcvtzu, F_Base), (C_FcvtzuFixedS64, M_Fcvtzu, F_Base),
     (C_FcvtzuFixedD32, M_Fcvtzu, F_Base), (C_FcvtzuFixedD64, M_Fcvtzu, F_Base), (C_FcvtzuFixedH32, M_Fcvtzu, F_Fp16),
     (C_FcvtzuFixedH64, M_Fcvtzu, F_Fp16), (C_Frint32xS, M_Frint32x, F_Frintts), (C_Frint32xD, M_Frint32x, F_Frintts),
     (C_Frint32zS, M_Frint32z, F_Frintts), (C_Frint32zD, M_Frint32z, F_Frintts), (C_Frint64xS, M_Frint64x, F_Frintts),
     (C_Frint64xD, M_Frint64x, F_Frintts), (C_Frint64zS, M_Frint64z, F_Frintts), (C_Frint64zD, M_Frint64z, F_Frintts),
     (C_Bfcvt, M_Bfcvt, F_Bf16), (C_DupElement, M_Dup, F_Base), (C_DupElementScalar, M_Dup, F_Base),
     (C_DupGeneral, M_Dup, F_Base), (C_InsElement, M_Ins, F_Base), (C_InsGeneral, M_Ins, F_Base),
     (C_Umov, M_Umov, F_Base), (C_Smov, M_Smov, F_Base), (C_MoviVector, M_Movi, F_Base),
     (C_MvniVector, M_Mvni, F_Base), (C_Tbl, M_Tbl, F_Base), (C_Tbx, M_Tbx, F_Base), (C_Ext, M_Ext, F_Base),
     (C_Zip1, M_Zip1, F_Base), (C_Zip2, M_Zip2, F_Base), (C_Uzp1, M_Uzp1, F_Base), (C_Uzp2, M_Uzp2, F_Base),
     (C_Trn1, M_Trn1, F_Base), (C_Trn2, M_Trn2, F_Base), (C_AddVector, M_Add, F_Base), (C_SubVector, M_Sub, F_Base),
     (C_Addv, M_Addv, F_Base), (C_CntVector, M_Cnt, F_Base), (C_Ld1Multiple, M_Ld1, F_Base),
     (C_St1Multiple, M_St1, F_Base), (C_Ld1SingleRep, M_Ld1r, F_Base), (C_LdraaOff, M_Ldraa, F_PAuth),
     (C_LdraaPre, M_Ldraa, F_PAuth), (C_LdrabOff, M_Ldrab, F_PAuth), (C_LdrabPre, M_Ldrab, F_PAuth),
     (C_Ldapur32, M_Ldapur, F_Base)]"

definition code_rows_13 :: "(code \<times> mnemonic \<times> feature) list" where
  "code_rows_13 =
    [(C_Ldapur64, M_Ldapur, F_Base), (C_Ldapurb, M_Ldapurb, F_Base), (C_Ldapurh, M_Ldapurh, F_Base),
     (C_Ldapursb32, M_Ldapursb, F_Base), (C_Ldapursb64, M_Ldapursb, F_Base), (C_Ldapursh32, M_Ldapursh, F_Base),
     (C_Ldapursh64, M_Ldapursh, F_Base), (C_Ldapursw, M_Ldapursw, F_Base), (C_Stlur32, M_Stlur, F_Base),
     (C_Stlur64, M_Stlur, F_Base), (C_Stlurb, M_Stlurb, F_Base), (C_Stlurh, M_Stlurh, F_Base),
     (C_LdapurFp8, M_Ldapur, F_Rcpc3), (C_LdapurFp16, M_Ldapur, F_Rcpc3), (C_LdapurFp32, M_Ldapur, F_Rcpc3),
     (C_LdapurFp64, M_Ldapur, F_Rcpc3), (C_LdapurFp128, M_Ldapur, F_Rcpc3), (C_StlurFp8, M_Stlur, F_Rcpc3),
     (C_StlurFp16, M_Stlur, F_Rcpc3), (C_StlurFp32, M_Stlur, F_Rcpc3), (C_StlurFp64, M_Stlur, F_Rcpc3),
     (C_StlurFp128, M_Stlur, F_Rcpc3), (C_LdiappOff, M_Ldiapp, F_Rcpc3), (C_LdiappPost, M_Ldiapp, F_Rcpc3),
     (C_StilpOff, M_Stilp, F_Rcpc3), (C_StilpPre, M_Stilp, F_Rcpc3), (C_LdtpPost, M_Ldtp, F_The),
     (C_LdtpOff, M_Ldtp, F_The), (C_LdtpPre, M_Ldtp, F_The), (C_SttpPost, M_Sttp, F_The), (C_SttpOff, M_Sttp, F_The),
     (C_SttpPre, M_Sttp, F_The), (C_Ldtnp, M_Ldtnp, F_The), (C_Sttnp, M_Sttnp, F_The), (C_LdtpqPost, M_Ldtp, F_Lsui),
     (C_LdtpqOff, M_Ldtp, F_Lsui), (C_LdtpqPre, M_Ldtp, F_Lsui), (C_SttpqPost, M_Sttp, F_Lsui),
     (C_SttpqOff, M_Sttp, F_Lsui), (C_SttpqPre, M_Sttp, F_Lsui), (C_Ldtnpq, M_Ldtnp, F_Lsui),
     (C_Sttnpq, M_Sttnp, F_Lsui), (C_StlrPre32, M_Stlr, F_Rcpc3), (C_StlrPre64, M_Stlr, F_Rcpc3),
     (C_LdaprPost32, M_Ldapr, F_Rcpc3), (C_LdaprPost64, M_Ldapr, F_Rcpc3), (C_StgOff, M_Stg, F_Mte),
     (C_StgPre, M_Stg, F_Mte), (C_StgPost, M_Stg, F_Mte), (C_StzgOff, M_Stzg, F_Mte), (C_StzgPre, M_Stzg, F_Mte),
     (C_StzgPost, M_Stzg, F_Mte), (C_St2gOff, M_St2g, F_Mte), (C_St2gPre, M_St2g, F_Mte), (C_St2gPost, M_St2g, F_Mte),
     (C_Stz2gOff, M_Stz2g, F_Mte), (C_Stz2gPre, M_Stz2g, F_Mte), (C_Stz2gPost, M_Stz2g, F_Mte),
     (C_StgpOff, M_Stgp, F_Mte), (C_StgpPre, M_Stgp, F_Mte), (C_StgpPost, M_Stgp, F_Mte), (C_LdgOff, M_Ldg, F_Mte),
     (C_Ldgm, M_Ldgm, F_Mte), (C_Stgm, M_Stgm, F_Mte)]"

definition code_rows_14 :: "(code \<times> mnemonic \<times> feature) list" where
  "code_rows_14 =
    [(C_Stzgm, M_Stzgm, F_Mte), (C_Cpyfp, M_Cpyfp, F_Mops), (C_Cpyfpwt, M_Cpyfpwt, F_Mops),
     (C_Cpyfprt, M_Cpyfprt, F_Mops), (C_Cpyfpt, M_Cpyfpt, F_Mops), (C_Cpyfpwn, M_Cpyfpwn, F_Mops),
     (C_Cpyfpwtwn, M_Cpyfpwtwn, F_Mops), (C_Cpyfprtwn, M_Cpyfprtwn, F_Mops), (C_Cpyfptwn, M_Cpyfptwn, F_Mops),
     (C_Cpyfprn, M_Cpyfprn, F_Mops), (C_Cpyfpwtrn, M_Cpyfpwtrn, F_Mops), (C_Cpyfprtrn, M_Cpyfprtrn, F_Mops),
     (C_Cpyfptrn, M_Cpyfptrn, F_Mops), (C_Cpyfpn, M_Cpyfpn, F_Mops), (C_Cpyfpwtn, M_Cpyfpwtn, F_Mops),
     (C_Cpyfprtn, M_Cpyfprtn, F_Mops), (C_Cpyfptn, M_Cpyfptn, F_Mops), (C_Cpyfm, M_Cpyfm, F_Mops),
     (C_Cpyfmwt, M_Cpyfmwt, F_Mops), (C_Cpyfmrt, M_Cpyfmrt, F_Mops), (C_Cpyfmt, M_Cpyfmt, F_Mops),
     (C_Cpyfmwn, M_Cpyfmwn, F_Mops), (C_Cpyfmwtwn, M_Cpyfmwtwn, F_Mops), (C_Cpyfmrtwn, M_Cpyfmrtwn, F_Mops),
     (C_Cpyfmtwn, M_Cpyfmtwn, F_Mops), (C_Cpyfmrn, M_Cpyfmrn, F_Mops), (C_Cpyfmwtrn, M_Cpyfmwtrn, F_Mops),
     (C_Cpyfmrtrn, M_Cpyfmrtrn, F_Mops), (C_Cpyfmtrn, M_Cpyfmtrn, F_Mops), (C_Cpyfmn, M_Cpyfmn, F_Mops),
     (C_Cpyfmwtn, M_Cpyfmwtn, F_Mops), (C_Cpyfmrtn, M_Cpyfmrtn, F_Mops), (C_Cpyfmtn, M_Cpyfmtn, F_Mops),
     (C_Cpyfe, M_Cpyfe, F_Mops), (C_Cpyfewt, M_Cpyfewt, F_Mops), (C_Cpyfert, M_Cpyfert, F_Mops),
     (C_Cpyfet, M_Cpyfet, F_Mops), (C_Cpyfewn, M_Cpyfewn, F_Mops), (C_Cpyfewtwn, M_Cpyfewtwn, F_Mops),
     (C_Cpyfertwn, M_Cpyfertwn, F_Mops), (C_Cpyfetwn, M_Cpyfetwn, F_Mops), (C_Cpyfern, M_Cpyfern, F_Mops),
     (C_Cpyfewtrn, M_Cpyfewtrn, F_Mops), (C_Cpyfertrn, M_Cpyfertrn, F_Mops), (C_Cpyfetrn, M_Cpyfetrn, F_Mops),
     (C_Cpyfen, M_Cpyfen, F_Mops), (C_Cpyfewtn, M_Cpyfewtn, F_Mops), (C_Cpyfertn, M_Cpyfertn, F_Mops),
     (C_Cpyfetn, M_Cpyfetn, F_Mops), (C_Setp, M_Setp, F_Mops), (C_Setpt, M_Setpt, F_Mops), (C_Setpn, M_Setpn, F_Mops),
     (C_Setptn, M_Setptn, F_Mops), (C_Setm, M_Setm, F_Mops), (C_Setmt, M_Setmt, F_Mops), (C_Setmn, M_Setmn, F_Mops),
     (C_Setmtn, M_Setmtn, F_Mops), (C_Sete, M_Sete, F_Mops), (C_Setet, M_Setet, F_Mops), (C_Seten, M_Seten, F_Mops),
     (C_Setetn, M_Setetn, F_Mops), (C_Cpyp, M_Cpyp, F_Mops), (C_Cpypwt, M_Cpypwt, F_Mops),
     (C_Cpyprt, M_Cpyprt, F_Mops)]"

definition code_rows_15 :: "(code \<times> mnemonic \<times> feature) list" where
  "code_rows_15 =
    [(C_Cpypt, M_Cpypt, F_Mops), (C_Cpypwn, M_Cpypwn, F_Mops), (C_Cpypwtwn, M_Cpypwtwn, F_Mops),
     (C_Cpyprtwn, M_Cpyprtwn, F_Mops), (C_Cpyptwn, M_Cpyptwn, F_Mops), (C_Cpyprn, M_Cpyprn, F_Mops),
     (C_Cpypwtrn, M_Cpypwtrn, F_Mops), (C_Cpyprtrn, M_Cpyprtrn, F_Mops), (C_Cpyptrn, M_Cpyptrn, F_Mops),
     (C_Cpypn, M_Cpypn, F_Mops), (C_Cpypwtn, M_Cpypwtn, F_Mops), (C_Cpyprtn, M_Cpyprtn, F_Mops),
     (C_Cpyptn, M_Cpyptn, F_Mops), (C_Cpym, M_Cpym, F_Mops), (C_Cpymwt, M_Cpymwt, F_Mops),
     (C_Cpymrt, M_Cpymrt, F_Mops), (C_Cpymt, M_Cpymt, F_Mops), (C_Cpymwn, M_Cpymwn, F_Mops),
     (C_Cpymwtwn, M_Cpymwtwn, F_Mops), (C_Cpymrtwn, M_Cpymrtwn, F_Mops), (C_Cpymtwn, M_Cpymtwn, F_Mops),
     (C_Cpymrn, M_Cpymrn, F_Mops), (C_Cpymwtrn, M_Cpymwtrn, F_Mops), (C_Cpymrtrn, M_Cpymrtrn, F_Mops),
     (C_Cpymtrn, M_Cpymtrn, F_Mops), (C_Cpymn, M_Cpymn, F_Mops), (C_Cpymwtn, M_Cpymwtn, F_Mops),
     (C_Cpymrtn, M_Cpymrtn, F_Mops), (C_Cpymtn, M_Cpymtn, F_Mops), (C_Cpye, M_Cpye, F_Mops),
     (C_Cpyewt, M_Cpyewt, F_Mops), (C_Cpyert, M_Cpyert, F_Mops), (C_Cpyet, M_Cpyet, F_Mops),
     (C_Cpyewn, M_Cpyewn, F_Mops), (C_Cpyewtwn, M_Cpyewtwn, F_Mops), (C_Cpyertwn, M_Cpyertwn, F_Mops),
     (C_Cpyetwn, M_Cpyetwn, F_Mops), (C_Cpyern, M_Cpyern, F_Mops), (C_Cpyewtrn, M_Cpyewtrn, F_Mops),
     (C_Cpyertrn, M_Cpyertrn, F_Mops), (C_Cpyetrn, M_Cpyetrn, F_Mops), (C_Cpyen, M_Cpyen, F_Mops),
     (C_Cpyewtn, M_Cpyewtn, F_Mops), (C_Cpyertn, M_Cpyertn, F_Mops), (C_Cpyetn, M_Cpyetn, F_Mops),
     (C_Setgp, M_Setgp, F_Mops), (C_Setgpt, M_Setgpt, F_Mops), (C_Setgpn, M_Setgpn, F_Mops),
     (C_Setgptn, M_Setgptn, F_Mops), (C_Setgm, M_Setgm, F_Mops), (C_Setgmt, M_Setgmt, F_Mops),
     (C_Setgmn, M_Setgmn, F_Mops), (C_Setgmtn, M_Setgmtn, F_Mops), (C_Setge, M_Setge, F_Mops),
     (C_Setget, M_Setget, F_Mops), (C_Setgen, M_Setgen, F_Mops), (C_Setgetn, M_Setgetn, F_Mops),
     (C_AbsVec, M_Abs, F_Base), (C_AddVec, M_Add, F_Base), (C_AddhnVec, M_Addhn, F_Base),
     (C_Addhn2Vec, M_Addhn2, F_Base), (C_AddpVec, M_Addp, F_Base), (C_AddvVec, M_Addv, F_Base),
     (C_ClsVec, M_Cls, F_Base)]"

definition code_rows_16 :: "(code \<times> mnemonic \<times> feature) list" where
  "code_rows_16 =
    [(C_ClzVec, M_Clz, F_Base), (C_CmeqVec, M_Cmeq, F_Base), (C_CmgeVec, M_Cmge, F_Base), (C_CmgtVec, M_Cmgt, F_Base),
     (C_CmhiVec, M_Cmhi, F_Base), (C_CmhsVec, M_Cmhs, F_Base), (C_CmleVec, M_Cmle, F_Base),
     (C_CmltVec, M_Cmlt, F_Base), (C_CmtstVec, M_Cmtst, F_Base), (C_CntVec, M_Cnt, F_Base),
     (C_FabdVec, M_Fabd, F_Base), (C_FabsVec, M_Fabs, F_Base), (C_FacgeVec, M_Facge, F_Base),
     (C_FacgtVec, M_Facgt, F_Base), (C_FaddVec, M_Fadd, F_Base), (C_FaddpVec, M_Faddp, F_Base),
     (C_FcaddVec, M_Fcadd, F_Base), (C_FcmeqVec, M_Fcmeq, F_Base), (C_FcmgeVec, M_Fcmge, F_Base),
     (C_FcmgtVec, M_Fcmgt, F_Base), (C_FcmlaVec, M_Fcmla, F_Base), (C_FcmleVec, M_Fcmle, F_Base),
     (C_FcmltVec, M_Fcmlt, F_Base), (C_FcvtasVec, M_Fcvtas, F_Base), (C_FcvtauVec, M_Fcvtau, F_Base),
     (C_FcvtlVec, M_Fcvtl, F_Base), (C_Fcvtl2Vec, M_Fcvtl2, F_Base), (C_FcvtmsVec, M_Fcvtms, F_Base),
     (C_FcvtmuVec, M_Fcvtmu, F_Base), (C_FcvtnVec, M_Fcvtn, F_Base), (C_Fcvtn2Vec, M_Fcvtn2, F_Base),
     (C_FcvtnsVec, M_Fcvtns, F_Base), (C_FcvtnuVec, M_Fcvtnu, F_Base), (C_FcvtpsVec, M_Fcvtps, F_Base),
     (C_FcvtpuVec, M_Fcvtpu, F_Base), (C_FcvtxnVec, M_Fcvtxn, F_Base), (C_Fcvtxn2Vec, M_Fcvtxn2, F_Base),
     (C_FcvtzsVec, M_Fcvtzs, F_Base), (C_FcvtzuVec, M_Fcvtzu, F_Base), (C_FdivVec, M_Fdiv, F_Base),
     (C_FmaxVec, M_Fmax, F_Base), (C_FmaxnmVec, M_Fmaxnm, F_Base), (C_FmaxnmpVec, M_Fmaxnmp, F_Base),
     (C_FmaxnmvVec, M_Fmaxnmv, F_Base), (C_FmaxpVec, M_Fmaxp, F_Base), (C_FmaxvVec, M_Fmaxv, F_Base),
     (C_FminVec, M_Fmin, F_Base), (C_FminnmVec, M_Fminnm, F_Base), (C_FminnmpVec, M_Fminnmp, F_Base),
     (C_FminnmvVec, M_Fminnmv, F_Base), (C_FminpVec, M_Fminp, F_Base), (C_FminvVec, M_Fminv, F_Base),
     (C_FmlaVec, M_Fmla, F_Base), (C_FmlalVec, M_Fmlal, F_Base), (C_Fmlal2Vec, M_Fmlal2, F_Base),
     (C_FmlsVec, M_Fmls, F_Base), (C_FmlslVec, M_Fmlsl, F_Base), (C_Fmlsl2Vec, M_Fmlsl2, F_Base),
     (C_FmulVec, M_Fmul, F_Base), (C_FmulxVec, M_Fmulx, F_Base), (C_FnegVec, M_Fneg, F_Base),
     (C_FrecpeVec, M_Frecpe, F_Base), (C_FrecpsVec, M_Frecps, F_Base), (C_FrecpxVec, M_Frecpx, F_Base)]"

definition code_rows_17 :: "(code \<times> mnemonic \<times> feature) list" where
  "code_rows_17 =
    [(C_Frint32xVec, M_Frint32x, F_Base), (C_Frint32zVec, M_Frint32z, F_Base), (C_Frint64xVec, M_Frint64x, F_Base),
     (C_Frint64zVec, M_Frint64z, F_Base), (C_FrintaVec, M_Frinta, F_Base), (C_FrintiVec, M_Frinti, F_Base),
     (C_FrintmVec, M_Frintm, F_Base), (C_FrintnVec, M_Frintn, F_Base), (C_FrintpVec, M_Frintp, F_Base),
     (C_FrintxVec, M_Frintx, F_Base), (C_FrintzVec, M_Frintz, F_Base), (C_FrsqrteVec, M_Frsqrte, F_Base),
     (C_FrsqrtsVec, M_Frsqrts, F_Base), (C_FsqrtVec, M_Fsqrt, F_Base), (C_FsubVec, M_Fsub, F_Base),
     (C_MlaVec, M_Mla, F_Base), (C_MlsVec, M_Mls, F_Base), (C_MulVec, M_Mul, F_Base), (C_NegVec, M_Neg, F_Base),
     (C_PmulVec, M_Pmul, F_Base), (C_PmullVec, M_Pmull, F_Base), (C_Pmull2Vec, M_Pmull2, F_Base),
     (C_RaddhnVec, M_Raddhn, F_Base), (C_Raddhn2Vec, M_Raddhn2, F_Base), (C_Rev16Vec, M_Rev16, F_Base),
     (C_Rev32Vec, M_Rev32, F_Base), (C_Rev64Vec, M_Rev64, F_Base), (C_RsubhnVec, M_Rsubhn, F_Base),
     (C_Rsubhn2Vec, M_Rsubhn2, F_Base), (C_SabaVec, M_Saba, F_Base), (C_SabalVec, M_Sabal, F_Base),
     (C_Sabal2Vec, M_Sabal2, F_Base), (C_SabdVec, M_Sabd, F_Base), (C_SabdlVec, M_Sabdl, F_Base),
     (C_Sabdl2Vec, M_Sabdl2, F_Base), (C_SadalpVec, M_Sadalp, F_Base), (C_SaddlVec, M_Saddl, F_Base),
     (C_Saddl2Vec, M_Saddl2, F_Base), (C_SaddlpVec, M_Saddlp, F_Base), (C_SaddlvVec, M_Saddlv, F_Base),
     (C_SaddwVec, M_Saddw, F_Base), (C_Saddw2Vec, M_Saddw2, F_Base), (C_ScvtfVec, M_Scvtf, F_Base),
     (C_ShaddVec, M_Shadd, F_Base), (C_ShllVec, M_Shll, F_Base), (C_Shll2Vec, M_Shll2, F_Base),
     (C_ShsubVec, M_Shsub, F_Base), (C_SmaxVec, M_Smax, F_Base), (C_SmaxpVec, M_Smaxp, F_Base),
     (C_SmaxvVec, M_Smaxv, F_Base), (C_SminVec, M_Smin, F_Base), (C_SminpVec, M_Sminp, F_Base),
     (C_SminvVec, M_Sminv, F_Base), (C_SmlalVec, M_Smlal, F_Base), (C_Smlal2Vec, M_Smlal2, F_Base),
     (C_SmlslVec, M_Smlsl, F_Base), (C_Smlsl2Vec, M_Smlsl2, F_Base), (C_SmullVec, M_Smull, F_Base),
     (C_Smull2Vec, M_Smull2, F_Base), (C_SqabsVec, M_Sqabs, F_Base), (C_SqaddVec, M_Sqadd, F_Base),
     (C_SqdmlalVec, M_Sqdmlal, F_Base), (C_Sqdmlal2Vec, M_Sqdmlal2, F_Base), (C_SqdmlslVec, M_Sqdmlsl, F_Base)]"

definition code_rows_18 :: "(code \<times> mnemonic \<times> feature) list" where
  "code_rows_18 =
    [(C_Sqdmlsl2Vec, M_Sqdmlsl2, F_Base), (C_SqdmulhVec, M_Sqdmulh, F_Base), (C_SqdmullVec, M_Sqdmull, F_Base),
     (C_Sqdmull2Vec, M_Sqdmull2, F_Base), (C_SqnegVec, M_Sqneg, F_Base), (C_SqrdmlahVec, M_Sqrdmlah, F_Base),
     (C_SqrdmlshVec, M_Sqrdmlsh, F_Base), (C_SdotVec, M_Sdot, F_Base), (C_UdotVec, M_Udot, F_Base),
     (C_SdotIdx, M_Sdot, F_Base), (C_UdotIdx, M_Udot, F_Base), (C_SqrdmulhVec, M_Sqrdmulh, F_Base),
     (C_SqrshlVec, M_Sqrshl, F_Base), (C_SqshlVec, M_Sqshl, F_Base), (C_SqsubVec, M_Sqsub, F_Base),
     (C_SqxtnVec, M_Sqxtn, F_Base), (C_Sqxtn2Vec, M_Sqxtn2, F_Base), (C_SqxtunVec, M_Sqxtun, F_Base),
     (C_Sqxtun2Vec, M_Sqxtun2, F_Base), (C_SrhaddVec, M_Srhadd, F_Base), (C_SrshlVec, M_Srshl, F_Base),
     (C_SshlVec, M_Sshl, F_Base), (C_SsublVec, M_Ssubl, F_Base), (C_Ssubl2Vec, M_Ssubl2, F_Base),
     (C_SsubwVec, M_Ssubw, F_Base), (C_Ssubw2Vec, M_Ssubw2, F_Base), (C_SubVec, M_Sub, F_Base),
     (C_SubhnVec, M_Subhn, F_Base), (C_Subhn2Vec, M_Subhn2, F_Base), (C_SuqaddVec, M_Suqadd, F_Base),
     (C_UabaVec, M_Uaba, F_Base), (C_UabalVec, M_Uabal, F_Base), (C_Uabal2Vec, M_Uabal2, F_Base),
     (C_UabdVec, M_Uabd, F_Base), (C_UabdlVec, M_Uabdl, F_Base), (C_Uabdl2Vec, M_Uabdl2, F_Base),
     (C_UadalpVec, M_Uadalp, F_Base), (C_UaddlVec, M_Uaddl, F_Base), (C_Uaddl2Vec, M_Uaddl2, F_Base),
     (C_UaddlpVec, M_Uaddlp, F_Base), (C_UaddlvVec, M_Uaddlv, F_Base), (C_UaddwVec, M_Uaddw, F_Base),
     (C_Uaddw2Vec, M_Uaddw2, F_Base), (C_UcvtfVec, M_Ucvtf, F_Base), (C_UhaddVec, M_Uhadd, F_Base),
     (C_UhsubVec, M_Uhsub, F_Base), (C_UmaxVec, M_Umax, F_Base), (C_UmaxpVec, M_Umaxp, F_Base),
     (C_UmaxvVec, M_Umaxv, F_Base), (C_UminVec, M_Umin, F_Base), (C_UminpVec, M_Uminp, F_Base),
     (C_UminvVec, M_Uminv, F_Base), (C_UmlalVec, M_Umlal, F_Base), (C_Umlal2Vec, M_Umlal2, F_Base),
     (C_UmlslVec, M_Umlsl, F_Base), (C_Umlsl2Vec, M_Umlsl2, F_Base), (C_UmullVec, M_Umull, F_Base),
     (C_Umull2Vec, M_Umull2, F_Base), (C_UqaddVec, M_Uqadd, F_Base), (C_UqrshlVec, M_Uqrshl, F_Base),
     (C_UqshlVec, M_Uqshl, F_Base), (C_UqsubVec, M_Uqsub, F_Base), (C_UqxtnVec, M_Uqxtn, F_Base),
     (C_Uqxtn2Vec, M_Uqxtn2, F_Base)]"

definition code_rows_19 :: "(code \<times> mnemonic \<times> feature) list" where
  "code_rows_19 =
    [(C_UrecpeVec, M_Urecpe, F_Base), (C_UrhaddVec, M_Urhadd, F_Base), (C_UrshlVec, M_Urshl, F_Base),
     (C_UrsqrteVec, M_Ursqrte, F_Base), (C_UshlVec, M_Ushl, F_Base), (C_UsqaddVec, M_Usqadd, F_Base),
     (C_UsublVec, M_Usubl, F_Base), (C_Usubl2Vec, M_Usubl2, F_Base), (C_UsubwVec, M_Usubw, F_Base),
     (C_Usubw2Vec, M_Usubw2, F_Base), (C_XtnVec, M_Xtn, F_Base), (C_Xtn2Vec, M_Xtn2, F_Base),
     (C_OrrVecImm, M_Orr, F_Base), (C_BicVecImm, M_Bic, F_Base), (C_FmovVecImmS, M_Fmov, F_Base),
     (C_FmovVecImmH, M_Fmov, F_Fp16), (C_FmovVecImmD2, M_Fmov, F_Base), (C_MoviScalarD, M_Movi, F_Base),
     (C_MoviVec2D, M_Movi, F_Base), (C_SshrVec, M_Sshr, F_Base), (C_UshrVec, M_Ushr, F_Base),
     (C_SrshrVec, M_Srshr, F_Base), (C_UrshrVec, M_Urshr, F_Base), (C_SsraVec, M_Ssra, F_Base),
     (C_UsraVec, M_Usra, F_Base), (C_SrsraVec, M_Srsra, F_Base), (C_UrsraVec, M_Ursra, F_Base),
     (C_ShlVec, M_Shl, F_Base), (C_SqshlImmVec, M_Sqshl, F_Base), (C_UqshlImmVec, M_Uqshl, F_Base),
     (C_SqshluImmVec, M_Sqshlu, F_Base), (C_SliVec, M_Sli, F_Base), (C_SriVec, M_Sri, F_Base),
     (C_ShrnVec, M_Shrn, F_Base), (C_Shrn2Vec, M_Shrn2, F_Base), (C_RshrnVec, M_Rshrn, F_Base),
     (C_Rshrn2Vec, M_Rshrn2, F_Base), (C_SqshrnVec, M_Sqshrn, F_Base), (C_Sqshrn2Vec, M_Sqshrn2, F_Base),
     (C_SqrshrnVec, M_Sqrshrn, F_Base), (C_Sqrshrn2Vec, M_Sqrshrn2, F_Base), (C_UqshrnVec, M_Uqshrn, F_Base),
     (C_Uqshrn2Vec, M_Uqshrn2, F_Base), (C_UqrshrnVec, M_Uqrshrn, F_Base), (C_Uqrshrn2Vec, M_Uqrshrn2, F_Base),
     (C_SqshrunVec, M_Sqshrun, F_Base), (C_Sqshrun2Vec, M_Sqshrun2, F_Base), (C_SqrshrunVec, M_Sqrshrun, F_Base),
     (C_Sqrshrun2Vec, M_Sqrshrun2, F_Base), (C_SshllVec, M_Sshll, F_Base), (C_Sshll2Vec, M_Sshll2, F_Base),
     (C_UshllVec, M_Ushll, F_Base), (C_Ushll2Vec, M_Ushll2, F_Base), (C_SxtlVec, M_Sxtl, F_Base),
     (C_Sxtl2Vec, M_Sxtl2, F_Base), (C_UxtlVec, M_Uxtl, F_Base), (C_Uxtl2Vec, M_Uxtl2, F_Base),
     (C_ScvtfFixedVec, M_Scvtf, F_Base), (C_UcvtfFixedVec, M_Ucvtf, F_Base), (C_FcvtzsFixedVec, M_Fcvtzs, F_Base),
     (C_FcvtzuFixedVec, M_Fcvtzu, F_Base), (C_SshrScalar, M_Sshr, F_Base), (C_UshrScalar, M_Ushr, F_Base),
     (C_SrshrScalar, M_Srshr, F_Base)]"

definition code_rows_20 :: "(code \<times> mnemonic \<times> feature) list" where
  "code_rows_20 =
    [(C_UrshrScalar, M_Urshr, F_Base), (C_SsraScalar, M_Ssra, F_Base), (C_UsraScalar, M_Usra, F_Base),
     (C_SrsraScalar, M_Srsra, F_Base), (C_UrsraScalar, M_Ursra, F_Base), (C_ShlScalar, M_Shl, F_Base),
     (C_SqshlImmScalar, M_Sqshl, F_Base), (C_UqshlImmScalar, M_Uqshl, F_Base), (C_SqshluImmScalar, M_Sqshlu, F_Base),
     (C_SliScalar, M_Sli, F_Base), (C_SriScalar, M_Sri, F_Base), (C_SqshrnScalar, M_Sqshrn, F_Base),
     (C_SqrshrnScalar, M_Sqrshrn, F_Base), (C_UqshrnScalar, M_Uqshrn, F_Base), (C_UqrshrnScalar, M_Uqrshrn, F_Base),
     (C_SqshrunScalar, M_Sqshrun, F_Base), (C_SqrshrunScalar, M_Sqrshrun, F_Base),
     (C_ScvtfFixedScalar, M_Scvtf, F_Base), (C_UcvtfFixedScalar, M_Ucvtf, F_Base),
     (C_FcvtzsFixedScalar, M_Fcvtzs, F_Base), (C_FcvtzuFixedScalar, M_Fcvtzu, F_Base), (C_SveAddZzz, M_Add, F_Sve),
     (C_SveSubZzz, M_Sub, F_Sve), (C_SveSqaddZzz, M_Sqadd, F_Sve), (C_SveUqaddZzz, M_Uqadd, F_Sve),
     (C_SveSqsubZzz, M_Sqsub, F_Sve), (C_SveUqsubZzz, M_Uqsub, F_Sve), (C_SveMulZzz, M_Mul, F_Sve),
     (C_SveSmulhZzz, M_Smulh, F_Sve), (C_SveUmulhZzz, M_Umulh, F_Sve), (C_SvePmulZzz, M_Pmul, F_Sve),
     (C_SveAndZzz, M_And, F_Sve), (C_SveOrrZzz, M_Orr, F_Sve), (C_SveEorZzz, M_Eor, F_Sve),
     (C_SveBicZzz, M_Bic, F_Sve), (C_SveMovZzz, M_Mov, F_Sve), (C_SveAddZpzz, M_Add, F_Sve),
     (C_SveSubZpzz, M_Sub, F_Sve), (C_SveSubrZpzz, M_Subr, F_Sve), (C_SveMulZpzz, M_Mul, F_Sve),
     (C_SveSmaxZpzz, M_Smax, F_Sve), (C_SveUmaxZpzz, M_Umax, F_Sve), (C_SveSminZpzz, M_Smin, F_Sve),
     (C_SveUminZpzz, M_Umin, F_Sve), (C_SveSabdZpzz, M_Sabd, F_Sve), (C_SveUabdZpzz, M_Uabd, F_Sve),
     (C_SveSdivZpzz, M_Sdiv, F_Sve), (C_SveUdivZpzz, M_Udiv, F_Sve), (C_SveSdivrZpzz, M_Sdivr, F_Sve),
     (C_SveUdivrZpzz, M_Udivr, F_Sve), (C_SveSmulhZpzz, M_Smulh, F_Sve), (C_SveUmulhZpzz, M_Umulh, F_Sve),
     (C_SveAndZpzz, M_And, F_Sve), (C_SveOrrZpzz, M_Orr, F_Sve), (C_SveEorZpzz, M_Eor, F_Sve),
     (C_SveBicZpzz, M_Bic, F_Sve), (C_SveMlaZpzzz, M_Mla, F_Sve), (C_SveMlsZpzzz, M_Mls, F_Sve),
     (C_SveMadZpzzz, M_Mad, F_Sve), (C_SveMsbZpzzz, M_Msb, F_Sve), (C_SveAbsZpz, M_Abs, F_Sve),
     (C_SveNegZpz, M_Neg, F_Sve), (C_SveCntZpz, M_Cnt, F_Sve), (C_SveClsZpz, M_Cls, F_Sve)]"

definition code_rows_21 :: "(code \<times> mnemonic \<times> feature) list" where
  "code_rows_21 =
    [(C_SveClzZpz, M_Clz, F_Sve), (C_SveCnotZpz, M_Cnot, F_Sve), (C_SveNotZpz, M_Not, F_Sve),
     (C_SveRbitZpz, M_Rbit, F_Sve), (C_SveSxtbZpz, M_Sxtb, F_Sve), (C_SveSxthZpz, M_Sxth, F_Sve),
     (C_SveSxtwZpz, M_Sxtw, F_Sve), (C_SveUxtbZpz, M_Uxtb, F_Sve), (C_SveUxthZpz, M_Uxth, F_Sve),
     (C_SveUxtwZpz, M_Uxtw, F_Sve), (C_SveAndZi, M_And, F_Sve), (C_SveOrrZi, M_Orr, F_Sve),
     (C_SveEorZi, M_Eor, F_Sve), (C_SveDupmZi, M_Dupm, F_Sve), (C_SveAddZi, M_Add, F_Sve), (C_SveSubZi, M_Sub, F_Sve),
     (C_SveSubrZi, M_Subr, F_Sve), (C_SveSqaddZi, M_Sqadd, F_Sve), (C_SveUqaddZi, M_Uqadd, F_Sve),
     (C_SveSqsubZi, M_Sqsub, F_Sve), (C_SveUqsubZi, M_Uqsub, F_Sve), (C_SveSmaxZi, M_Smax, F_Sve),
     (C_SveUmaxZi, M_Umax, F_Sve), (C_SveSminZi, M_Smin, F_Sve), (C_SveUminZi, M_Umin, F_Sve),
     (C_SveMulZi, M_Mul, F_Sve), (C_SveAsrZi, M_Asr, F_Sve), (C_SveLsrZi, M_Lsr, F_Sve), (C_SveLslZi, M_Lsl, F_Sve),
     (C_SveAsrZpzi, M_Asr, F_Sve), (C_SveLsrZpzi, M_Lsr, F_Sve), (C_SveLslZpzi, M_Lsl, F_Sve),
     (C_SveAsrdZpzi, M_Asrd, F_Sve), (C_SveAsrZpzz, M_Asr, F_Sve), (C_SveLsrZpzz, M_Lsr, F_Sve),
     (C_SveLslZpzz, M_Lsl, F_Sve), (C_SveAsrrZpzz, M_Asrr, F_Sve), (C_SveLsrrZpzz, M_Lsrr, F_Sve),
     (C_SveLslrZpzz, M_Lslr, F_Sve), (C_SveAsrWide, M_Asr, F_Sve), (C_SveLsrWide, M_Lsr, F_Sve),
     (C_SveLslWide, M_Lsl, F_Sve), (C_SveAsrWidePred, M_Asr, F_Sve), (C_SveLsrWidePred, M_Lsr, F_Sve),
     (C_SveLslWidePred, M_Lsl, F_Sve), (C_SveSaddv, M_Saddv, F_Sve), (C_SveUaddv, M_Uaddv, F_Sve),
     (C_SveSmaxv, M_Smaxv, F_Sve), (C_SveSminv, M_Sminv, F_Sve), (C_SveUmaxv, M_Umaxv, F_Sve),
     (C_SveUminv, M_Uminv, F_Sve), (C_SveAndv, M_Andv, F_Sve), (C_SveOrv, M_Orv, F_Sve), (C_SveEorv, M_Eorv, F_Sve),
     (C_SveMovprfxZpz, M_Movprfx, F_Sve), (C_SveMovprfxZz, M_Movprfx, F_Sve), (C_SveIndexImmImm, M_Index, F_Sve),
     (C_SveIndexIr, M_Index, F_Sve), (C_SveIndexRi, M_Index, F_Sve), (C_SveIndexRr, M_Index, F_Sve),
     (C_SveCmpZi, M_Cmpeq, F_Sve), (C_SveCmpZz, M_Cmpeq, F_Sve), (C_SveCmpZw, M_Cmpeq, F_Sve),
     (C_SveIncDecScalar, M_Incb, F_Sve)]"

definition code_rows_22 :: "(code \<times> mnemonic \<times> feature) list" where
  "code_rows_22 =
    [(C_SveIncDecVector, M_Inch, F_Sve), (C_SveSqIncDecScalarSx, M_Sqincb, F_Sve),
     (C_SveIncDecPScalar, M_Incp, F_Sve), (C_SveIncDecPVector, M_Incp, F_Sve),
     (C_SveSqIncDecPScalarSx, M_Sqincp, F_Sve), (C_SveCntElem, M_Cntb, F_Sve), (C_SveCntp, M_Cntp, F_Sve),
     (C_SveAddvl, M_Addvl, F_Sve), (C_SveAddpl, M_Addpl, F_Sve), (C_SveRdvl, M_Rdvl, F_Sve),
     (C_SveAddsvl, M_Addsvl, F_Sme), (C_SveAddspl, M_Addspl, F_Sme), (C_SveRdsvl, M_Rdsvl, F_Sme),
     (C_SveDupImm, M_Mov, F_Sve), (C_SveDupScalar, M_Mov, F_Sve), (C_SveDupIdx, M_Mov, F_Sve),
     (C_SveCpyImmMerge, M_Cpy, F_Sve), (C_SveCpyImmZero, M_Cpy, F_Sve), (C_SveCpyScalar, M_Cpy, F_Sve),
     (C_SveCpyVec, M_Cpy, F_Sve), (C_SveSelZpzz, M_Sel, F_Sve), (C_SveInsrScalar, M_Insr, F_Sve),
     (C_SveInsrVec, M_Insr, F_Sve), (C_SveAdrSameScaled, M_Adr, F_Sve), (C_SveAdrSxtw, M_Adr, F_Sve),
     (C_SveAdrUxtw, M_Adr, F_Sve), (C_SveSdot, M_Sdot, F_Sve), (C_SveUdot, M_Udot, F_Sve),
     (C_SveSdotIdx, M_Sdot, F_Sve), (C_SveUdotIdx, M_Udot, F_Sve), (C_SveSdotH, M_Sdot, F_Sve2p1),
     (C_SveUdotH, M_Udot, F_Sve2p1), (C_SveSdotHIdx, M_Sdot, F_Sve2p1), (C_SveUdotHIdx, M_Udot, F_Sve2p1),
     (C_SveAddptPred, M_Addpt, F_Cpa), (C_SveSubptPred, M_Subpt, F_Cpa), (C_SveAddptUnpred, M_Addpt, F_Cpa),
     (C_SveSubptUnpred, M_Subpt, F_Cpa), (C_Addpt, M_Addpt, F_Cpa), (C_Subpt, M_Subpt, F_Cpa),
     (C_Maddpt, M_Maddpt, F_Cpa), (C_Msubpt, M_Msubpt, F_Cpa), (C_Cbgt, M_Cbgt, F_Cmpbr), (C_Cbge, M_Cbge, F_Cmpbr),
     (C_Cbhi, M_Cbhi, F_Cmpbr), (C_Cbhs, M_Cbhs, F_Cmpbr), (C_Cbeq, M_Cbeq, F_Cmpbr), (C_Cbne, M_Cbne, F_Cmpbr),
     (C_Cblt, M_Cblt, F_Cmpbr), (C_Cblo, M_Cblo, F_Cmpbr), (C_Cbbgt, M_Cbbgt, F_Cmpbr), (C_Cbbge, M_Cbbge, F_Cmpbr),
     (C_Cbbhi, M_Cbbhi, F_Cmpbr), (C_Cbbhs, M_Cbbhs, F_Cmpbr), (C_Cbbeq, M_Cbbeq, F_Cmpbr),
     (C_Cbbne, M_Cbbne, F_Cmpbr), (C_Cbhgt, M_Cbhgt, F_Cmpbr), (C_Cbhge, M_Cbhge, F_Cmpbr),
     (C_Cbhhi, M_Cbhhi, F_Cmpbr), (C_Cbhhs, M_Cbhhs, F_Cmpbr), (C_Cbheq, M_Cbheq, F_Cmpbr),
     (C_Cbhne, M_Cbhne, F_Cmpbr), (C_SveSqrdmlah, M_Sqrdmlah, F_Sve), (C_SveSqrdmlsh, M_Sqrdmlsh, F_Sve)]"

definition code_rows_23 :: "(code \<times> mnemonic \<times> feature) list" where
  "code_rows_23 =
    [(C_SveSqrdmlahIdx, M_Sqrdmlah, F_Sve), (C_SveSqrdmlshIdx, M_Sqrdmlsh, F_Sve), (C_SveMulIdx, M_Mul, F_Sve),
     (C_SveMlaIdx, M_Mla, F_Sve), (C_SveMlsIdx, M_Mls, F_Sve), (C_SveSqdmulhIdx, M_Sqdmulh, F_Sve),
     (C_SveSqrdmulhIdx, M_Sqrdmulh, F_Sve), (C_SveMulLong, M_Smullb, F_Sve), (C_SveMulLongIdx, M_Smullb, F_Sve),
     (C_SveMlaLong, M_Smlalb, F_Sve), (C_SveMlaLongIdx, M_Smlalb, F_Sve), (C_SveAbdLong, M_Sabdlb, F_Sve),
     (C_SveAddLong, M_Saddlb, F_Sve), (C_SveAddLongBt, M_Saddlbt, F_Sve), (C_SveAddWide, M_Saddwb, F_Sve),
     (C_SveAddHighNarrow, M_Addhnb, F_Sve), (C_SveAbaLong, M_Sabalb, F_Sve), (C_SveAddCarryLong, M_Adclb, F_Sve),
     (C_SveCadd, M_Cadd, F_Sve), (C_SveSqcadd, M_Sqcadd, F_Sve), (C_SveAdalp, M_Sadalp, F_Sve),
     (C_SveShiftAccum, M_Ssra, F_Sve), (C_SveShiftInsert, M_Sli, F_Sve), (C_SveShiftLongImm, M_Sshllb, F_Sve),
     (C_SveShiftNarrow, M_Shrnb, F_Sve), (C_SveExtractNarrow, M_Sqxtnb, F_Sve), (C_SveBitPerm, M_Bext, F_Sve),
     (C_SveEorInterleave, M_Eorbt, F_Sve), (C_SveHistcnt, M_Histcnt, F_Sve), (C_SveHistseg, M_Histseg, F_Sve),
     (C_SveSm4e, M_Sm4e, F_Sve), (C_SveSm4ekey, M_Sm4ekey, F_Sve), (C_SveMatmulInt, M_Smmla, F_Sve),
     (C_SveDotMixed, M_Usdot, F_Sve), (C_SveAbaSame, M_Saba, F_Sve), (C_SveMatch, M_Match, F_Sve),
     (C_SveAesZz, M_Aesd, F_Sve), (C_SveAesMc, M_Aesmc, F_Sve), (C_SveSclamp, M_Sclamp, F_Sve),
     (C_SveUclamp, M_Uclamp, F_Sve), (C_SveRecipEst, M_Urecpe, F_Sve), (C_SvePmulLong, M_Pmullb, F_Sve),
     (C_SveSqdmulLong, M_Sqdmullb, F_Sve), (C_SveSqdmulLongIdx, M_Sqdmullb, F_Sve),
     (C_SveSqdmlalLong, M_Sqdmlalb, F_Sve), (C_SveSqdmlalLongIdx, M_Sqdmlalb, F_Sve),
     (C_SveSqdmlalLongBt, M_Sqdmlalbt, F_Sve), (C_SveCmla, M_Cmla, F_Sve), (C_SveCmlaIdx, M_Cmla, F_Sve),
     (C_SveCdot, M_Cdot, F_Sve), (C_SveCdotIdx, M_Cdot, F_Sve), (C_SveSqrdcmlah, M_Sqrdcmlah, F_Sve),
     (C_SveSqrdcmlahIdx, M_Sqrdcmlah, F_Sve), (C_SveEor3, M_Eor3, F_Sve), (C_SveBcax, M_Bcax, F_Sve),
     (C_SveBsl, M_Bsl, F_Sve), (C_SveBsl1n, M_Bsl1n, F_Sve), (C_SveBsl2n, M_Bsl2n, F_Sve), (C_SveNbsl, M_Nbsl, F_Sve),
     (C_SveXar, M_Xar, F_Sve), (C_SveRax1, M_Rax1, F_Sve), (C_SveHalvingZpzz, M_Shadd, F_Sve),
     (C_SveSatRoundZpzz, M_Sqsub, F_Sve), (C_SveSatUnaryZpz, M_Sqabs, F_Sve)]"

definition code_rows_24 :: "(code \<times> mnemonic \<times> feature) list" where
  "code_rows_24 =
    [(C_SvePairZpzz, M_Smaxp, F_Sve), (C_SveZipUzpTrnZzz, M_Zip1, F_Sve), (C_SveZipUzpTrnQ, M_Zip1, F_Sve),
     (C_SveRevZz, M_Rev, F_Sve), (C_SveRevbhw, M_Revb, F_Sve), (C_SveUnpk, M_Sunpkhi, F_Sve),
     (C_SveCompact, M_Compact, F_Sve), (C_SveSpliceDes, M_Splice, F_Sve), (C_SveSpliceCon, M_Splice, F_Sve),
     (C_SveExtDes, M_Ext, F_Sve), (C_SveExtCon, M_Ext, F_Sve), (C_SveTbl, M_Tbl, F_Sve), (C_SveTbl2, M_Tbl, F_Sve),
     (C_SveTbx, M_Tbx, F_Sve), (C_SveZipqUzpq, M_Zipq1, F_Sve2p1), (C_SveTblq, M_Tblq, F_Sve2p1),
     (C_SveTbxq, M_Tbxq, F_Sve2p1), (C_SveExpand, M_Expand, F_Sve2p1), (C_SveDupq, M_Dupq, F_Sve2p1),
     (C_SveExtq, M_Extq, F_Sve2p1), (C_SvePmov, M_Pmov, F_Sve2p1), (C_SveAddqv, M_Addqv, F_Sve2p1),
     (C_SveSmaxqv, M_Smaxqv, F_Sve2p1), (C_SveUmaxqv, M_Umaxqv, F_Sve2p1), (C_SveSminqv, M_Sminqv, F_Sve2p1),
     (C_SveUminqv, M_Uminqv, F_Sve2p1), (C_SveOrqv, M_Orqv, F_Sve2p1), (C_SveEorqv, M_Eorqv, F_Sve2p1),
     (C_SveAndqv, M_Andqv, F_Sve2p1), (C_SveFaddqv, M_Faddqv, F_Sve2p1), (C_SveFmaxnmqv, M_Fmaxnmqv, F_Sve2p1),
     (C_SveFminnmqv, M_Fminnmqv, F_Sve2p1), (C_SveFmaxqv, M_Fmaxqv, F_Sve2p1), (C_SveFminqv, M_Fminqv, F_Sve2p1),
     (C_SveLuti2, M_Luti2, F_Lut), (C_SveLuti4, M_Luti4, F_Lut), (C_SveLuti4Two, M_Luti4, F_Lut),
     (C_SveClastV, M_Clasta, F_Sve), (C_SveClastR, M_Clasta, F_Sve), (C_SveClastZ, M_Clasta, F_Sve),
     (C_SveLastV, M_Lasta, F_Sve), (C_SveLastR, M_Lasta, F_Sve), (C_SveZipUzpTrnPpp, M_Zip1, F_Sve),
     (C_SveRevP, M_Rev, F_Sve), (C_SvePunpk, M_Punpkhi, F_Sve), (C_SveDupPred, M_Cpy, F_Sve),
     (C_SvePredLogical, M_And, F_Sve), (C_SveSelPred, M_Sel, F_Sve), (C_SvePtrue, M_Ptrue, F_Sve),
     (C_SvePfalse, M_Pfalse, F_Sve), (C_SvePtest, M_Ptest, F_Sve), (C_SvePfirst, M_Pfirst, F_Sve),
     (C_SvePnext, M_Pnext, F_Sve), (C_SveRdffrPred, M_Rdffr, F_Sve), (C_SveRdffr, M_Rdffr, F_Sve),
     (C_SveWrffr, M_Wrffr, F_Sve), (C_SveSetffr, M_Setffr, F_Sve), (C_SveBrkpPred, M_Brkpa, F_Sve),
     (C_SveBrkPred, M_Brka, F_Sve), (C_SveBrkn, M_Brkn, F_Sve), (C_SveCmpVec, M_Cmpeq, F_Sve),
     (C_SveCmpWide, M_Cmpeq, F_Sve), (C_SveCmpUImm, M_Cmphi, F_Sve), (C_SveWhile, M_Whilelt, F_Sve)]"

definition code_rows_25 :: "(code \<times> mnemonic \<times> feature) list" where
  "code_rows_25 =
    [(C_SveWhileRw, M_Whilerw, F_Sve), (C_SveCterm, M_Ctermeq, F_Sve), (C_SveFaddZzz, M_Fadd, F_Sve),
     (C_SveFsubZzz, M_Fsub, F_Sve), (C_SveFmulZzz, M_Fmul, F_Sve), (C_SveFtsmulZzz, M_Ftsmul, F_Sve),
     (C_SveFrecpsZzz, M_Frecps, F_Sve), (C_SveFrsqrtsZzz, M_Frsqrts, F_Sve), (C_SveFaddZpzz, M_Fadd, F_Sve),
     (C_SveFsubZpzz, M_Fsub, F_Sve), (C_SveFmulZpzz, M_Fmul, F_Sve), (C_SveFsubrZpzz, M_Fsubr, F_Sve),
     (C_SveFmaxnmZpzz, M_Fmaxnm, F_Sve), (C_SveFminnmZpzz, M_Fminnm, F_Sve), (C_SveFmaxZpzz, M_Fmax, F_Sve),
     (C_SveFminZpzz, M_Fmin, F_Sve), (C_SveFabdZpzz, M_Fabd, F_Sve), (C_SveFscaleZpzz, M_Fscale, F_Sve),
     (C_SveFmulxZpzz, M_Fmulx, F_Sve), (C_SveFdivrZpzz, M_Fdivr, F_Sve), (C_SveFdivZpzz, M_Fdiv, F_Sve),
     (C_SveFaddpZpzz, M_Faddp, F_Sve), (C_SveFmaxnmpZpzz, M_Fmaxnmp, F_Sve), (C_SveFminnmpZpzz, M_Fminnmp, F_Sve),
     (C_SveFmaxpZpzz, M_Fmaxp, F_Sve), (C_SveFminpZpzz, M_Fminp, F_Sve), (C_SveFaddZpzi, M_Fadd, F_Sve),
     (C_SveFsubZpzi, M_Fsub, F_Sve), (C_SveFmulZpzi, M_Fmul, F_Sve), (C_SveFsubrZpzi, M_Fsubr, F_Sve),
     (C_SveFmaxnmZpzi, M_Fmaxnm, F_Sve), (C_SveFminnmZpzi, M_Fminnm, F_Sve), (C_SveFmaxZpzi, M_Fmax, F_Sve),
     (C_SveFminZpzi, M_Fmin, F_Sve), (C_SveFabsZpz, M_Fabs, F_Sve), (C_SveFnegZpz, M_Fneg, F_Sve),
     (C_SveFrecpxZpz, M_Frecpx, F_Sve), (C_SveFsqrtZpz, M_Fsqrt, F_Sve), (C_SveFlogbZpz, M_Flogb, F_Sve),
     (C_SveFrintnZpz, M_Frintn, F_Sve), (C_SveFrintpZpz, M_Frintp, F_Sve), (C_SveFrintmZpz, M_Frintm, F_Sve),
     (C_SveFrintzZpz, M_Frintz, F_Sve), (C_SveFrintaZpz, M_Frinta, F_Sve), (C_SveFrintxZpz, M_Frintx, F_Sve),
     (C_SveFrintiZpz, M_Frinti, F_Sve), (C_SveFcvt, M_Fcvt, F_Sve), (C_SveFcvtlt, M_Fcvtlt, F_Sve),
     (C_SveFcvtnt, M_Fcvtnt, F_Sve), (C_SveFcvtx, M_Fcvtx, F_Sve), (C_SveFcvtxnt, M_Fcvtxnt, F_Sve),
     (C_SveBfcvt, M_Bfcvt, F_Bf16), (C_SveBfcvtnt, M_Bfcvtnt, F_Bf16), (C_SveFcvtzs, M_Fcvtzs, F_Sve),
     (C_SveFcvtzu, M_Fcvtzu, F_Sve), (C_SveScvtf, M_Scvtf, F_Sve), (C_SveUcvtf, M_Ucvtf, F_Sve),
     (C_SveFrecpe, M_Frecpe, F_Sve), (C_SveFrsqrte, M_Frsqrte, F_Sve), (C_SveFexpa, M_Fexpa, F_Sve),
     (C_SveFtssel, M_Ftssel, F_Sve), (C_SveFtmad, M_Ftmad, F_Sve), (C_SveFmlaZpzzz, M_Fmla, F_Sve),
     (C_SveFmlsZpzzz, M_Fmls, F_Sve)]"

definition code_rows_26 :: "(code \<times> mnemonic \<times> feature) list" where
  "code_rows_26 =
    [(C_SveFnmlaZpzzz, M_Fnmla, F_Sve), (C_SveFnmlsZpzzz, M_Fnmls, F_Sve), (C_SveFmadZpzzz, M_Fmad, F_Sve),
     (C_SveFmsbZpzzz, M_Fmsb, F_Sve), (C_SveFnmadZpzzz, M_Fnmad, F_Sve), (C_SveFnmsbZpzzz, M_Fnmsb, F_Sve),
     (C_SveFmlaIdx, M_Fmla, F_Sve), (C_SveFmlsIdx, M_Fmls, F_Sve), (C_SveFmulIdx, M_Fmul, F_Sve),
     (C_SveFcadd, M_Fcadd, F_Sve), (C_SveFcmlaZpzzz, M_Fcmla, F_Sve), (C_SveFcmlaIdx, M_Fcmla, F_Sve),
     (C_SveFaddv, M_Faddv, F_Sve), (C_SveFmaxnmv, M_Fmaxnmv, F_Sve), (C_SveFminnmv, M_Fminnmv, F_Sve),
     (C_SveFmaxv, M_Fmaxv, F_Sve), (C_SveFminv, M_Fminv, F_Sve), (C_SveFadda, M_Fadda, F_Sve),
     (C_SveFcmeqZz, M_Fcmeq, F_Sve), (C_SveFcmgeZz, M_Fcmge, F_Sve), (C_SveFcmgtZz, M_Fcmgt, F_Sve),
     (C_SveFcmneZz, M_Fcmne, F_Sve), (C_SveFcmuoZz, M_Fcmuo, F_Sve), (C_SveFacgeZz, M_Facge, F_Sve),
     (C_SveFacgtZz, M_Facgt, F_Sve), (C_SveFcmeqZ0, M_Fcmeq, F_Sve), (C_SveFcmgeZ0, M_Fcmge, F_Sve),
     (C_SveFcmgtZ0, M_Fcmgt, F_Sve), (C_SveFcmltZ0, M_Fcmlt, F_Sve), (C_SveFcmleZ0, M_Fcmle, F_Sve),
     (C_SveFcmneZ0, M_Fcmne, F_Sve), (C_SveFcpy, M_Fmov, F_Sve), (C_SveFdup, M_Fmov, F_Sve),
     (C_SveFmmla, M_Fmmla, F_Sve), (C_SveBfdot, M_Bfdot, F_Bf16), (C_SveBfdotIdx, M_Bfdot, F_Bf16),
     (C_SveBfmlalb, M_Bfmlalb, F_Bf16), (C_SveBfmlalt, M_Bfmlalt, F_Bf16), (C_SveBfmlalbIdx, M_Bfmlalb, F_Bf16),
     (C_SveBfmlaltIdx, M_Bfmlalt, F_Bf16), (C_SveBfmmla, M_Bfmmla, F_Bf16), (C_SveFmlalb, M_Fmlalb, F_Sve),
     (C_SveFmlalt, M_Fmlalt, F_Sve), (C_SveFmlslb, M_Fmlslb, F_Sve), (C_SveFmlslt, M_Fmlslt, F_Sve),
     (C_SveFmlalbIdx, M_Fmlalb, F_Sve), (C_SveFmlaltIdx, M_Fmlalt, F_Sve), (C_SveFmlslbIdx, M_Fmlslb, F_Sve),
     (C_SveFmlsltIdx, M_Fmlslt, F_Sve), (C_SveFmlalbFp8Idx, M_Fmlalb, F_Fp8), (C_SveFmlaltFp8Idx, M_Fmlalt, F_Fp8),
     (C_SveFmlallbbFp8Idx, M_Fmlallbb, F_Fp8), (C_SveFmlallbtFp8Idx, M_Fmlallbt, F_Fp8),
     (C_SveFmlalltbFp8Idx, M_Fmlalltb, F_Fp8), (C_SveFmlallttFp8Idx, M_Fmlalltt, F_Fp8),
     (C_SveBfmlaIdx, M_Bfmla, F_Bf16), (C_SveBfmlsIdx, M_Bfmls, F_Bf16), (C_SveBfmulIdx, M_Bfmul, F_Bf16),
     (C_SveLd1bImm, M_Ld1b, F_Sve), (C_SveLd1bSs, M_Ld1b, F_Sve), (C_SveLd1bG32, M_Ld1b, F_Sve),
     (C_SveLd1bG64, M_Ld1b, F_Sve), (C_SveLd1bVi, M_Ld1b, F_Sve), (C_SveLd1hImm, M_Ld1h, F_Sve)]"

definition code_rows_27 :: "(code \<times> mnemonic \<times> feature) list" where
  "code_rows_27 =
    [(C_SveLd1hSs, M_Ld1h, F_Sve), (C_SveLd1hG32, M_Ld1h, F_Sve), (C_SveLd1hG64, M_Ld1h, F_Sve),
     (C_SveLd1hVi, M_Ld1h, F_Sve), (C_SveLd1wImm, M_Ld1w, F_Sve), (C_SveLd1wSs, M_Ld1w, F_Sve),
     (C_SveLd1wG32, M_Ld1w, F_Sve), (C_SveLd1wG64, M_Ld1w, F_Sve), (C_SveLd1wVi, M_Ld1w, F_Sve),
     (C_SveLd1dImm, M_Ld1d, F_Sve), (C_SveLd1dSs, M_Ld1d, F_Sve), (C_SveLd1dG32, M_Ld1d, F_Sve),
     (C_SveLd1dG64, M_Ld1d, F_Sve), (C_SveLd1dVi, M_Ld1d, F_Sve), (C_SveLd1sbImm, M_Ld1sb, F_Sve),
     (C_SveLd1sbSs, M_Ld1sb, F_Sve), (C_SveLd1sbG32, M_Ld1sb, F_Sve), (C_SveLd1sbG64, M_Ld1sb, F_Sve),
     (C_SveLd1sbVi, M_Ld1sb, F_Sve), (C_SveLd1shImm, M_Ld1sh, F_Sve), (C_SveLd1shSs, M_Ld1sh, F_Sve),
     (C_SveLd1shG32, M_Ld1sh, F_Sve), (C_SveLd1shG64, M_Ld1sh, F_Sve), (C_SveLd1shVi, M_Ld1sh, F_Sve),
     (C_SveLd1swImm, M_Ld1sw, F_Sve), (C_SveLd1swSs, M_Ld1sw, F_Sve), (C_SveLd1swG32, M_Ld1sw, F_Sve),
     (C_SveLd1swG64, M_Ld1sw, F_Sve), (C_SveLd1swVi, M_Ld1sw, F_Sve), (C_SveLdff1bSs, M_Ldff1b, F_Sve),
     (C_SveLdff1bG32, M_Ldff1b, F_Sve), (C_SveLdff1bG64, M_Ldff1b, F_Sve), (C_SveLdff1bVi, M_Ldff1b, F_Sve),
     (C_SveLdff1hSs, M_Ldff1h, F_Sve), (C_SveLdff1hG32, M_Ldff1h, F_Sve), (C_SveLdff1hG64, M_Ldff1h, F_Sve),
     (C_SveLdff1hVi, M_Ldff1h, F_Sve), (C_SveLdff1wSs, M_Ldff1w, F_Sve), (C_SveLdff1wG32, M_Ldff1w, F_Sve),
     (C_SveLdff1wG64, M_Ldff1w, F_Sve), (C_SveLdff1wVi, M_Ldff1w, F_Sve), (C_SveLdff1dSs, M_Ldff1d, F_Sve),
     (C_SveLdff1dG32, M_Ldff1d, F_Sve), (C_SveLdff1dG64, M_Ldff1d, F_Sve), (C_SveLdff1dVi, M_Ldff1d, F_Sve),
     (C_SveLdff1sbSs, M_Ldff1sb, F_Sve), (C_SveLdff1sbG32, M_Ldff1sb, F_Sve), (C_SveLdff1sbG64, M_Ldff1sb, F_Sve),
     (C_SveLdff1sbVi, M_Ldff1sb, F_Sve), (C_SveLdff1shSs, M_Ldff1sh, F_Sve), (C_SveLdff1shG32, M_Ldff1sh, F_Sve),
     (C_SveLdff1shG64, M_Ldff1sh, F_Sve), (C_SveLdff1shVi, M_Ldff1sh, F_Sve), (C_SveLdff1swSs, M_Ldff1sw, F_Sve),
     (C_SveLdff1swG32, M_Ldff1sw, F_Sve), (C_SveLdff1swG64, M_Ldff1sw, F_Sve), (C_SveLdff1swVi, M_Ldff1sw, F_Sve),
     (C_SveLdnf1bImm, M_Ldnf1b, F_Sve), (C_SveLdnf1hImm, M_Ldnf1h, F_Sve), (C_SveLdnf1wImm, M_Ldnf1w, F_Sve),
     (C_SveLdnf1dImm, M_Ldnf1d, F_Sve), (C_SveLdnf1sbImm, M_Ldnf1sb, F_Sve), (C_SveLdnf1shImm, M_Ldnf1sh, F_Sve),
     (C_SveLdnf1swImm, M_Ldnf1sw, F_Sve)]"

definition code_rows_28 :: "(code \<times> mnemonic \<times> feature) list" where
  "code_rows_28 =
    [(C_SveLdnt1bImm, M_Ldnt1b, F_Sve), (C_SveLdnt1bSs, M_Ldnt1b, F_Sve), (C_SveLdnt1bVs, M_Ldnt1b, F_Sve),
     (C_SveLdnt1hImm, M_Ldnt1h, F_Sve), (C_SveLdnt1hSs, M_Ldnt1h, F_Sve), (C_SveLdnt1hVs, M_Ldnt1h, F_Sve),
     (C_SveLdnt1wImm, M_Ldnt1w, F_Sve), (C_SveLdnt1wSs, M_Ldnt1w, F_Sve), (C_SveLdnt1wVs, M_Ldnt1w, F_Sve),
     (C_SveLdnt1dImm, M_Ldnt1d, F_Sve), (C_SveLdnt1dSs, M_Ldnt1d, F_Sve), (C_SveLdnt1dVs, M_Ldnt1d, F_Sve),
     (C_SveLdnt1sbImm, M_Ldnt1sb, F_Sve), (C_SveLdnt1sbSs, M_Ldnt1sb, F_Sve), (C_SveLdnt1sbVs, M_Ldnt1sb, F_Sve),
     (C_SveLdnt1shImm, M_Ldnt1sh, F_Sve), (C_SveLdnt1shSs, M_Ldnt1sh, F_Sve), (C_SveLdnt1shVs, M_Ldnt1sh, F_Sve),
     (C_SveLdnt1swImm, M_Ldnt1sw, F_Sve), (C_SveLdnt1swSs, M_Ldnt1sw, F_Sve), (C_SveLdnt1swVs, M_Ldnt1sw, F_Sve),
     (C_SveLd1rbImm, M_Ld1rb, F_Sve), (C_SveLd1rhImm, M_Ld1rh, F_Sve), (C_SveLd1rwImm, M_Ld1rw, F_Sve),
     (C_SveLd1rdImm, M_Ld1rd, F_Sve), (C_SveLd1rsbImm, M_Ld1rsb, F_Sve), (C_SveLd1rshImm, M_Ld1rsh, F_Sve),
     (C_SveLd1rswImm, M_Ld1rsw, F_Sve), (C_SveLd1rqbImm, M_Ld1rqb, F_Sve), (C_SveLd1rqbSs, M_Ld1rqb, F_Sve),
     (C_SveLd1rqhImm, M_Ld1rqh, F_Sve), (C_SveLd1rqhSs, M_Ld1rqh, F_Sve), (C_SveLd1rqwImm, M_Ld1rqw, F_Sve),
     (C_SveLd1rqwSs, M_Ld1rqw, F_Sve), (C_SveLd1rqdImm, M_Ld1rqd, F_Sve), (C_SveLd1rqdSs, M_Ld1rqd, F_Sve),
     (C_SveLd1robImm, M_Ld1rob, F_Sve), (C_SveLd1robSs, M_Ld1rob, F_Sve), (C_SveLd1rohImm, M_Ld1roh, F_Sve),
     (C_SveLd1rohSs, M_Ld1roh, F_Sve), (C_SveLd1rowImm, M_Ld1row, F_Sve), (C_SveLd1rowSs, M_Ld1row, F_Sve),
     (C_SveLd1rodImm, M_Ld1rod, F_Sve), (C_SveLd1rodSs, M_Ld1rod, F_Sve), (C_SveLd2bImm, M_Ld2b, F_Sve),
     (C_SveLd2bSs, M_Ld2b, F_Sve), (C_SveLd2hImm, M_Ld2h, F_Sve), (C_SveLd2hSs, M_Ld2h, F_Sve),
     (C_SveLd2wImm, M_Ld2w, F_Sve), (C_SveLd2wSs, M_Ld2w, F_Sve), (C_SveLd2dImm, M_Ld2d, F_Sve),
     (C_SveLd2dSs, M_Ld2d, F_Sve), (C_SveLd3bImm, M_Ld3b, F_Sve), (C_SveLd3bSs, M_Ld3b, F_Sve),
     (C_SveLd3hImm, M_Ld3h, F_Sve), (C_SveLd3hSs, M_Ld3h, F_Sve), (C_SveLd3wImm, M_Ld3w, F_Sve),
     (C_SveLd3wSs, M_Ld3w, F_Sve), (C_SveLd3dImm, M_Ld3d, F_Sve), (C_SveLd3dSs, M_Ld3d, F_Sve),
     (C_SveLd4bImm, M_Ld4b, F_Sve), (C_SveLd4bSs, M_Ld4b, F_Sve), (C_SveLd4hImm, M_Ld4h, F_Sve),
     (C_SveLd4hSs, M_Ld4h, F_Sve)]"

definition code_rows_29 :: "(code \<times> mnemonic \<times> feature) list" where
  "code_rows_29 =
    [(C_SveLd4wImm, M_Ld4w, F_Sve), (C_SveLd4wSs, M_Ld4w, F_Sve), (C_SveLd4dImm, M_Ld4d, F_Sve),
     (C_SveLd4dSs, M_Ld4d, F_Sve), (C_SveSt1bImm, M_St1b, F_Sve), (C_SveSt1bSs, M_St1b, F_Sve),
     (C_SveSt1bG32, M_St1b, F_Sve), (C_SveSt1bG64, M_St1b, F_Sve), (C_SveSt1bVi, M_St1b, F_Sve),
     (C_SveSt1hImm, M_St1h, F_Sve), (C_SveSt1hSs, M_St1h, F_Sve), (C_SveSt1hG32, M_St1h, F_Sve),
     (C_SveSt1hG64, M_St1h, F_Sve), (C_SveSt1hVi, M_St1h, F_Sve), (C_SveSt1wImm, M_St1w, F_Sve),
     (C_SveSt1wSs, M_St1w, F_Sve), (C_SveSt1wG32, M_St1w, F_Sve), (C_SveSt1wG64, M_St1w, F_Sve),
     (C_SveSt1wVi, M_St1w, F_Sve), (C_SveSt1dImm, M_St1d, F_Sve), (C_SveSt1dSs, M_St1d, F_Sve),
     (C_SveSt1dG32, M_St1d, F_Sve), (C_SveSt1dG64, M_St1d, F_Sve), (C_SveSt1dVi, M_St1d, F_Sve),
     (C_SveSt2bImm, M_St2b, F_Sve), (C_SveSt2bSs, M_St2b, F_Sve), (C_SveSt2hImm, M_St2h, F_Sve),
     (C_SveSt2hSs, M_St2h, F_Sve), (C_SveSt2wImm, M_St2w, F_Sve), (C_SveSt2wSs, M_St2w, F_Sve),
     (C_SveSt2dImm, M_St2d, F_Sve), (C_SveSt2dSs, M_St2d, F_Sve), (C_SveSt3bImm, M_St3b, F_Sve),
     (C_SveSt3bSs, M_St3b, F_Sve), (C_SveSt3hImm, M_St3h, F_Sve), (C_SveSt3hSs, M_St3h, F_Sve),
     (C_SveSt3wImm, M_St3w, F_Sve), (C_SveSt3wSs, M_St3w, F_Sve), (C_SveSt3dImm, M_St3d, F_Sve),
     (C_SveSt3dSs, M_St3d, F_Sve), (C_SveSt4bImm, M_St4b, F_Sve), (C_SveSt4bSs, M_St4b, F_Sve),
     (C_SveSt4hImm, M_St4h, F_Sve), (C_SveSt4hSs, M_St4h, F_Sve), (C_SveSt4wImm, M_St4w, F_Sve),
     (C_SveSt4wSs, M_St4w, F_Sve), (C_SveSt4dImm, M_St4d, F_Sve), (C_SveSt4dSs, M_St4d, F_Sve),
     (C_SveStnt1bImm, M_Stnt1b, F_Sve), (C_SveStnt1bSs, M_Stnt1b, F_Sve), (C_SveStnt1bVs, M_Stnt1b, F_Sve),
     (C_SveStnt1hImm, M_Stnt1h, F_Sve), (C_SveStnt1hSs, M_Stnt1h, F_Sve), (C_SveStnt1hVs, M_Stnt1h, F_Sve),
     (C_SveStnt1wImm, M_Stnt1w, F_Sve), (C_SveStnt1wSs, M_Stnt1w, F_Sve), (C_SveStnt1wVs, M_Stnt1w, F_Sve),
     (C_SveStnt1dImm, M_Stnt1d, F_Sve), (C_SveStnt1dSs, M_Stnt1d, F_Sve), (C_SveStnt1dVs, M_Stnt1d, F_Sve),
     (C_SvePrfbImm, M_Prfb, F_Sve), (C_SvePrfbSs, M_Prfb, F_Sve), (C_SvePrfbG32, M_Prfb, F_Sve),
     (C_SvePrfbG64, M_Prfb, F_Sve)]"

definition code_rows_30 :: "(code \<times> mnemonic \<times> feature) list" where
  "code_rows_30 =
    [(C_SvePrfbVi, M_Prfb, F_Sve), (C_SvePrfhImm, M_Prfh, F_Sve), (C_SvePrfhSs, M_Prfh, F_Sve),
     (C_SvePrfhG32, M_Prfh, F_Sve), (C_SvePrfhG64, M_Prfh, F_Sve), (C_SvePrfhVi, M_Prfh, F_Sve),
     (C_SvePrfwImm, M_Prfw, F_Sve), (C_SvePrfwSs, M_Prfw, F_Sve), (C_SvePrfwG32, M_Prfw, F_Sve),
     (C_SvePrfwG64, M_Prfw, F_Sve), (C_SvePrfwVi, M_Prfw, F_Sve), (C_SvePrfdImm, M_Prfd, F_Sve),
     (C_SvePrfdSs, M_Prfd, F_Sve), (C_SvePrfdG32, M_Prfd, F_Sve), (C_SvePrfdG64, M_Prfd, F_Sve),
     (C_SvePrfdVi, M_Prfd, F_Sve), (C_SveLdrZ, M_Ldr, F_Sve), (C_SveLdrP, M_Ldr, F_Sve), (C_SveStrZ, M_Str, F_Sve),
     (C_SveStrP, M_Str, F_Sve), (C_Ld2Multiple, M_Ld2, F_Base), (C_Ld3Multiple, M_Ld3, F_Base),
     (C_Ld4Multiple, M_Ld4, F_Base), (C_St2Multiple, M_St2, F_Base), (C_St3Multiple, M_St3, F_Base),
     (C_St4Multiple, M_St4, F_Base), (C_Ld1Single, M_Ld1, F_Base), (C_Ld2Single, M_Ld2, F_Base),
     (C_Ld3Single, M_Ld3, F_Base), (C_Ld4Single, M_Ld4, F_Base), (C_St1Single, M_St1, F_Base),
     (C_St2Single, M_St2, F_Base), (C_St3Single, M_St3, F_Base), (C_St4Single, M_St4, F_Base),
     (C_Ld2Rep, M_Ld2r, F_Base), (C_Ld3Rep, M_Ld3r, F_Base), (C_Ld4Rep, M_Ld4r, F_Base),
     (C_Smstart, M_Smstart, F_Sme), (C_Smstop, M_Smstop, F_Sme), (C_SmeMovaZToTile, M_Mova, F_Sme),
     (C_SmeMovaTileToZ, M_Mova, F_Sme), (C_SmeFmopaH, M_Fmopa, F_Sme), (C_SmeFmopaS, M_Fmopa, F_Sme),
     (C_SmeFmopaD, M_Fmopa, F_Sme), (C_SmeFmopsH, M_Fmops, F_Sme), (C_SmeFmopsS, M_Fmops, F_Sme),
     (C_SmeFmopsD, M_Fmops, F_Sme), (C_SmeBfmopa, M_Bfmopa, F_Sme), (C_SmeBfmops, M_Bfmops, F_Sme),
     (C_SmeSmopaS, M_Smopa, F_Sme), (C_SmeSmopaD, M_Smopa, F_Sme), (C_SmeSmopsS, M_Smops, F_Sme),
     (C_SmeSmopsD, M_Smops, F_Sme), (C_SmeUmopaS, M_Umopa, F_Sme), (C_SmeUmopaD, M_Umopa, F_Sme),
     (C_SmeUmopsS, M_Umops, F_Sme), (C_SmeUmopsD, M_Umops, F_Sme), (C_SmeSumopaS, M_Sumopa, F_Sme),
     (C_SmeSumopaD, M_Sumopa, F_Sme), (C_SmeSumopsS, M_Sumops, F_Sme), (C_SmeSumopsD, M_Sumops, F_Sme),
     (C_SmeUsmopaS, M_Usmopa, F_Sme), (C_SmeUsmopaD, M_Usmopa, F_Sme), (C_SmeUsmopsS, M_Usmops, F_Sme)]"

definition code_rows_31 :: "(code \<times> mnemonic \<times> feature) list" where
  "code_rows_31 =
    [(C_SmeUsmopsD, M_Usmops, F_Sme), (C_SmeAddha, M_Addha, F_Sme), (C_SmeAddva, M_Addva, F_Sme),
     (C_SmeLd1bZa, M_Ld1b, F_Sme), (C_SmeLd1hZa, M_Ld1h, F_Sme), (C_SmeLd1wZa, M_Ld1w, F_Sme),
     (C_SmeLd1dZa, M_Ld1d, F_Sme), (C_SmeLd1qZa, M_Ld1q, F_Sme), (C_SmeSt1bZa, M_St1b, F_Sme),
     (C_SmeSt1hZa, M_St1h, F_Sme), (C_SmeSt1wZa, M_St1w, F_Sme), (C_SmeSt1dZa, M_St1d, F_Sme),
     (C_SmeSt1qZa, M_St1q, F_Sme), (C_SmeLdrZa, M_Ldr, F_Sme), (C_SmeStrZa, M_Str, F_Sme),
     (C_AdvAese, M_Aese, F_Crypto), (C_AdvAesd, M_Aesd, F_Crypto), (C_AdvAesmc, M_Aesmc, F_Crypto),
     (C_AdvAesimc, M_Aesimc, F_Crypto), (C_AdvSha1c, M_Sha1c, F_Crypto), (C_AdvSha1p, M_Sha1p, F_Crypto),
     (C_AdvSha1m, M_Sha1m, F_Crypto), (C_AdvSha1su0, M_Sha1su0, F_Crypto), (C_AdvSha256h, M_Sha256h, F_Crypto),
     (C_AdvSha256h2, M_Sha256h2, F_Crypto), (C_AdvSha256su1, M_Sha256su1, F_Crypto), (C_AdvSha1h, M_Sha1h, F_Crypto),
     (C_AdvSha1su1, M_Sha1su1, F_Crypto), (C_AdvSha256su0, M_Sha256su0, F_Crypto),
     (C_AdvSha512h, M_Sha512h, F_Crypto), (C_AdvSha512h2, M_Sha512h2, F_Crypto),
     (C_AdvSha512su1, M_Sha512su1, F_Crypto), (C_AdvRax1, M_Rax1, F_Crypto), (C_AdvSm3partw1, M_Sm3partw1, F_Crypto),
     (C_AdvSm3partw2, M_Sm3partw2, F_Crypto), (C_AdvSm4ekey, M_Sm4ekey, F_Crypto),
     (C_AdvSha512su0, M_Sha512su0, F_Crypto), (C_AdvSm4e, M_Sm4e, F_Crypto), (C_AdvEor3, M_Eor3, F_Crypto),
     (C_AdvBcax, M_Bcax, F_Crypto), (C_AdvSm3ss1, M_Sm3ss1, F_Crypto), (C_AdvSm3tt1a, M_Sm3tt1a, F_Crypto),
     (C_AdvSm3tt1b, M_Sm3tt1b, F_Crypto), (C_AdvSm3tt2a, M_Sm3tt2a, F_Crypto), (C_AdvSm3tt2b, M_Sm3tt2b, F_Crypto),
     (C_AdvXar, M_Xar, F_Crypto), (C_Rmif, M_Rmif, F_Base), (C_Setf8, M_Setf8, F_Base), (C_Setf16, M_Setf16, F_Base),
     (C_AndVec, M_And, F_Base), (C_BicVec, M_Bic, F_Base), (C_OrrVec, M_Orr, F_Base), (C_OrnVec, M_Orn, F_Base),
     (C_EorVec, M_Eor, F_Base), (C_BslVec, M_Bsl, F_Base), (C_BitVec, M_Bit, F_Base), (C_BifVec, M_Bif, F_Base),
     (C_MvnVec, M_Mvn, F_Base), (C_RbitVec, M_Rbit, F_Base), (C_Abs32, M_Abs, F_Cssc), (C_Abs64, M_Abs, F_Cssc),
     (C_Cnt32, M_Cnt, F_Cssc), (C_Cnt64, M_Cnt, F_Cssc), (C_Ctz32, M_Ctz, F_Cssc)]"

definition code_rows_32 :: "(code \<times> mnemonic \<times> feature) list" where
  "code_rows_32 =
    [(C_Ctz64, M_Ctz, F_Cssc), (C_SmaxReg32, M_Smax, F_Cssc), (C_SmaxReg64, M_Smax, F_Cssc),
     (C_SminReg32, M_Smin, F_Cssc), (C_SminReg64, M_Smin, F_Cssc), (C_UmaxReg32, M_Umax, F_Cssc),
     (C_UmaxReg64, M_Umax, F_Cssc), (C_UminReg32, M_Umin, F_Cssc), (C_UminReg64, M_Umin, F_Cssc),
     (C_SmaxImm32, M_Smax, F_Cssc), (C_SmaxImm64, M_Smax, F_Cssc), (C_SminImm32, M_Smin, F_Cssc),
     (C_SminImm64, M_Smin, F_Cssc), (C_UmaxImm32, M_Umax, F_Cssc), (C_UmaxImm64, M_Umax, F_Cssc),
     (C_UminImm32, M_Umin, F_Cssc), (C_UminImm64, M_Umin, F_Cssc), (C_Mrrs, M_Mrrs, F_D128), (C_Msrr, M_Msrr, F_D128),
     (C_Sysp, M_Sysp, F_D128), (C_Tlbip, M_Tlbip, F_D128), (C_SmeBfmlaHHOV2Gg, M_Bfmla, F_Sme2),
     (C_SmeBfmlaHHOV2Gi, M_Bfmla, F_Sme2), (C_SmeBfmlaHHOV2Gs, M_Bfmla, F_Sme2), (C_SmeBfmlaHHOV4Gg, M_Bfmla, F_Sme2),
     (C_SmeBfmlaHHOV4Gi, M_Bfmla, F_Sme2), (C_SmeBfmlaHHOV4Gs, M_Bfmla, F_Sme2), (C_SmeBfmlalSHTSi, M_Bfmlal, F_Sme2),
     (C_SmeBfmlalSHTSs, M_Bfmlal, F_Sme2), (C_SmeBfmlalSHTV2Gg, M_Bfmlal, F_Sme2),
     (C_SmeBfmlalSHTV2Gi, M_Bfmlal, F_Sme2), (C_SmeBfmlalSHTV2Gs, M_Bfmlal, F_Sme2),
     (C_SmeBfmlalSHTV4Gg, M_Bfmlal, F_Sme2), (C_SmeBfmlalSHTV4Gi, M_Bfmlal, F_Sme2),
     (C_SmeBfmlalSHTV4Gs, M_Bfmlal, F_Sme2), (C_SmeBfmlsHHOV2Gg, M_Bfmls, F_Sme2),
     (C_SmeBfmlsHHOV2Gi, M_Bfmls, F_Sme2), (C_SmeBfmlsHHOV2Gs, M_Bfmls, F_Sme2), (C_SmeBfmlsHHOV4Gg, M_Bfmls, F_Sme2),
     (C_SmeBfmlsHHOV4Gi, M_Bfmls, F_Sme2), (C_SmeBfmlsHHOV4Gs, M_Bfmls, F_Sme2), (C_SmeBfmlslSHTSi, M_Bfmlsl, F_Sme2),
     (C_SmeBfmlslSHTSs, M_Bfmlsl, F_Sme2), (C_SmeBfmlslSHTV2Gg, M_Bfmlsl, F_Sme2),
     (C_SmeBfmlslSHTV2Gi, M_Bfmlsl, F_Sme2), (C_SmeBfmlslSHTV2Gs, M_Bfmlsl, F_Sme2),
     (C_SmeBfmlslSHTV4Gg, M_Bfmlsl, F_Sme2), (C_SmeBfmlslSHTV4Gi, M_Bfmlsl, F_Sme2),
     (C_SmeBfmlslSHTV4Gs, M_Bfmlsl, F_Sme2), (C_SmeBftmopaHH, M_Bftmopa, F_Sme2), (C_SmeBftmopaSH, M_Bftmopa, F_Sme2),
     (C_SmeFmlaDDOV2Gg, M_Fmla, F_Sme2), (C_SmeFmlaDDOV2Gi, M_Fmla, F_Sme2), (C_SmeFmlaDDOV2Gs, M_Fmla, F_Sme2),
     (C_SmeFmlaDDOV4Gg, M_Fmla, F_Sme2), (C_SmeFmlaDDOV4Gi, M_Fmla, F_Sme2), (C_SmeFmlaDDOV4Gs, M_Fmla, F_Sme2),
     (C_SmeFmlaHHOV2Gg, M_Fmla, F_Sme2), (C_SmeFmlaHHOV2Gi, M_Fmla, F_Sme2), (C_SmeFmlaHHOV2Gs, M_Fmla, F_Sme2),
     (C_SmeFmlaHHOV4Gg, M_Fmla, F_Sme2), (C_SmeFmlaHHOV4Gi, M_Fmla, F_Sme2), (C_SmeFmlaHHOV4Gs, M_Fmla, F_Sme2),
     (C_SmeFmlaSSOV2Gg, M_Fmla, F_Sme2)]"

definition code_rows_33 :: "(code \<times> mnemonic \<times> feature) list" where
  "code_rows_33 =
    [(C_SmeFmlaSSOV2Gi, M_Fmla, F_Sme2), (C_SmeFmlaSSOV2Gs, M_Fmla, F_Sme2), (C_SmeFmlaSSOV4Gg, M_Fmla, F_Sme2),
     (C_SmeFmlaSSOV4Gi, M_Fmla, F_Sme2), (C_SmeFmlaSSOV4Gs, M_Fmla, F_Sme2), (C_SmeFmlalHBTSi, M_Fmlal, F_Sme2),
     (C_SmeFmlalHBTSs, M_Fmlal, F_Sme2), (C_SmeFmlalHBTV2Gg, M_Fmlal, F_Sme2), (C_SmeFmlalHBTV2Gi, M_Fmlal, F_Sme2),
     (C_SmeFmlalHBTV2Gs, M_Fmlal, F_Sme2), (C_SmeFmlalHBTV4Gg, M_Fmlal, F_Sme2), (C_SmeFmlalHBTV4Gi, M_Fmlal, F_Sme2),
     (C_SmeFmlalHBTV4Gs, M_Fmlal, F_Sme2), (C_SmeFmlalSHTSi, M_Fmlal, F_Sme2), (C_SmeFmlalSHTSs, M_Fmlal, F_Sme2),
     (C_SmeFmlalSHTV2Gg, M_Fmlal, F_Sme2), (C_SmeFmlalSHTV2Gi, M_Fmlal, F_Sme2), (C_SmeFmlalSHTV2Gs, M_Fmlal, F_Sme2),
     (C_SmeFmlalSHTV4Gg, M_Fmlal, F_Sme2), (C_SmeFmlalSHTV4Gi, M_Fmlal, F_Sme2), (C_SmeFmlalSHTV4Gs, M_Fmlal, F_Sme2),
     (C_SmeFmlallSBQSi, M_Fmlall, F_Sme2), (C_SmeFmlallSBQSs, M_Fmlall, F_Sme2),
     (C_SmeFmlallSBQV2Gg, M_Fmlall, F_Sme2), (C_SmeFmlallSBQV2Gi, M_Fmlall, F_Sme2),
     (C_SmeFmlallSBQV2Gs, M_Fmlall, F_Sme2), (C_SmeFmlallSBQV4Gg, M_Fmlall, F_Sme2),
     (C_SmeFmlallSBQV4Gi, M_Fmlall, F_Sme2), (C_SmeFmlallSBQV4Gs, M_Fmlall, F_Sme2),
     (C_SmeFmlsDDOV2Gg, M_Fmls, F_Sme2), (C_SmeFmlsDDOV2Gi, M_Fmls, F_Sme2), (C_SmeFmlsDDOV2Gs, M_Fmls, F_Sme2),
     (C_SmeFmlsDDOV4Gg, M_Fmls, F_Sme2), (C_SmeFmlsDDOV4Gi, M_Fmls, F_Sme2), (C_SmeFmlsDDOV4Gs, M_Fmls, F_Sme2),
     (C_SmeFmlsHHOV2Gg, M_Fmls, F_Sme2), (C_SmeFmlsHHOV2Gi, M_Fmls, F_Sme2), (C_SmeFmlsHHOV2Gs, M_Fmls, F_Sme2),
     (C_SmeFmlsHHOV4Gg, M_Fmls, F_Sme2), (C_SmeFmlsHHOV4Gi, M_Fmls, F_Sme2), (C_SmeFmlsHHOV4Gs, M_Fmls, F_Sme2),
     (C_SmeFmlsSSOV2Gg, M_Fmls, F_Sme2), (C_SmeFmlsSSOV2Gi, M_Fmls, F_Sme2), (C_SmeFmlsSSOV2Gs, M_Fmls, F_Sme2),
     (C_SmeFmlsSSOV4Gg, M_Fmls, F_Sme2), (C_SmeFmlsSSOV4Gi, M_Fmls, F_Sme2), (C_SmeFmlsSSOV4Gs, M_Fmls, F_Sme2),
     (C_SmeFmlslSHTSi, M_Fmlsl, F_Sme2), (C_SmeFmlslSHTSs, M_Fmlsl, F_Sme2), (C_SmeFmlslSHTV2Gg, M_Fmlsl, F_Sme2),
     (C_SmeFmlslSHTV2Gi, M_Fmlsl, F_Sme2), (C_SmeFmlslSHTV2Gs, M_Fmlsl, F_Sme2), (C_SmeFmlslSHTV4Gg, M_Fmlsl, F_Sme2),
     (C_SmeFmlslSHTV4Gi, M_Fmlsl, F_Sme2), (C_SmeFmlslSHTV4Gs, M_Fmlsl, F_Sme2), (C_SmeFtmopaHB, M_Ftmopa, F_Sme2),
     (C_SmeFtmopaHH, M_Ftmopa, F_Sme2), (C_SmeFtmopaSB, M_Ftmopa, F_Sme2), (C_SmeFtmopaSH, M_Ftmopa, F_Sme2),
     (C_SmeFtmopaSS, M_Ftmopa, F_Sme2), (C_SmeSmlalSHTSi, M_Smlal, F_Sme2), (C_SmeSmlalSHTSs, M_Smlal, F_Sme2),
     (C_SmeSmlalSHTV2Gg, M_Smlal, F_Sme2), (C_SmeSmlalSHTV2Gi, M_Smlal, F_Sme2)]"

definition code_rows_34 :: "(code \<times> mnemonic \<times> feature) list" where
  "code_rows_34 =
    [(C_SmeSmlalSHTV2Gs, M_Smlal, F_Sme2), (C_SmeSmlalSHTV4Gg, M_Smlal, F_Sme2), (C_SmeSmlalSHTV4Gi, M_Smlal, F_Sme2),
     (C_SmeSmlalSHTV4Gs, M_Smlal, F_Sme2), (C_SmeSmlallDHQSi, M_Smlall, F_Sme2), (C_SmeSmlallDHQSs, M_Smlall, F_Sme2),
     (C_SmeSmlallDHQV2Gg, M_Smlall, F_Sme2), (C_SmeSmlallDHQV2Gi, M_Smlall, F_Sme2),
     (C_SmeSmlallDHQV2Gs, M_Smlall, F_Sme2), (C_SmeSmlallDHQV4Gg, M_Smlall, F_Sme2),
     (C_SmeSmlallDHQV4Gi, M_Smlall, F_Sme2), (C_SmeSmlallDHQV4Gs, M_Smlall, F_Sme2),
     (C_SmeSmlallSBQSi, M_Smlall, F_Sme2), (C_SmeSmlallSBQSs, M_Smlall, F_Sme2),
     (C_SmeSmlallSBQV2Gg, M_Smlall, F_Sme2), (C_SmeSmlallSBQV2Gi, M_Smlall, F_Sme2),
     (C_SmeSmlallSBQV2Gs, M_Smlall, F_Sme2), (C_SmeSmlallSBQV4Gg, M_Smlall, F_Sme2),
     (C_SmeSmlallSBQV4Gi, M_Smlall, F_Sme2), (C_SmeSmlallSBQV4Gs, M_Smlall, F_Sme2),
     (C_SmeSmlslSHTSi, M_Smlsl, F_Sme2), (C_SmeSmlslSHTSs, M_Smlsl, F_Sme2), (C_SmeSmlslSHTV2Gg, M_Smlsl, F_Sme2),
     (C_SmeSmlslSHTV2Gi, M_Smlsl, F_Sme2), (C_SmeSmlslSHTV2Gs, M_Smlsl, F_Sme2), (C_SmeSmlslSHTV4Gg, M_Smlsl, F_Sme2),
     (C_SmeSmlslSHTV4Gi, M_Smlsl, F_Sme2), (C_SmeSmlslSHTV4Gs, M_Smlsl, F_Sme2), (C_SmeSmlsllDHQSi, M_Smlsll, F_Sme2),
     (C_SmeSmlsllDHQSs, M_Smlsll, F_Sme2), (C_SmeSmlsllDHQV2Gg, M_Smlsll, F_Sme2),
     (C_SmeSmlsllDHQV2Gi, M_Smlsll, F_Sme2), (C_SmeSmlsllDHQV2Gs, M_Smlsll, F_Sme2),
     (C_SmeSmlsllDHQV4Gg, M_Smlsll, F_Sme2), (C_SmeSmlsllDHQV4Gi, M_Smlsll, F_Sme2),
     (C_SmeSmlsllDHQV4Gs, M_Smlsll, F_Sme2), (C_SmeSmlsllSBQSi, M_Smlsll, F_Sme2),
     (C_SmeSmlsllSBQSs, M_Smlsll, F_Sme2), (C_SmeSmlsllSBQV2Gg, M_Smlsll, F_Sme2),
     (C_SmeSmlsllSBQV2Gi, M_Smlsll, F_Sme2), (C_SmeSmlsllSBQV2Gs, M_Smlsll, F_Sme2),
     (C_SmeSmlsllSBQV4Gg, M_Smlsll, F_Sme2), (C_SmeSmlsllSBQV4Gi, M_Smlsll, F_Sme2),
     (C_SmeSmlsllSBQV4Gs, M_Smlsll, F_Sme2), (C_SmeStmopaSB, M_Stmopa, F_Sme2), (C_SmeStmopaSH, M_Stmopa, F_Sme2),
     (C_SmeSumlallSBQSi, M_Sumlall, F_Sme2), (C_SmeSumlallSBQV2Gi, M_Sumlall, F_Sme2),
     (C_SmeSumlallSBQV2Gs, M_Sumlall, F_Sme2), (C_SmeSumlallSBQV4Gi, M_Sumlall, F_Sme2),
     (C_SmeSumlallSBQV4Gs, M_Sumlall, F_Sme2), (C_SmeSutmopaSB, M_Sutmopa, F_Sme2),
     (C_SmeUmlalSHTSi, M_Umlal, F_Sme2), (C_SmeUmlalSHTSs, M_Umlal, F_Sme2), (C_SmeUmlalSHTV2Gg, M_Umlal, F_Sme2),
     (C_SmeUmlalSHTV2Gi, M_Umlal, F_Sme2), (C_SmeUmlalSHTV2Gs, M_Umlal, F_Sme2), (C_SmeUmlalSHTV4Gg, M_Umlal, F_Sme2),
     (C_SmeUmlalSHTV4Gi, M_Umlal, F_Sme2), (C_SmeUmlalSHTV4Gs, M_Umlal, F_Sme2), (C_SmeUmlallDHQSi, M_Umlall, F_Sme2),
     (C_SmeUmlallDHQSs, M_Umlall, F_Sme2), (C_SmeUmlallDHQV2Gg, M_Umlall, F_Sme2),
     (C_SmeUmlallDHQV2Gi, M_Umlall, F_Sme2)]"

definition code_rows_35 :: "(code \<times> mnemonic \<times> feature) list" where
  "code_rows_35 =
    [(C_SmeUmlallDHQV2Gs, M_Umlall, F_Sme2), (C_SmeUmlallDHQV4Gg, M_Umlall, F_Sme2),
     (C_SmeUmlallDHQV4Gi, M_Umlall, F_Sme2), (C_SmeUmlallDHQV4Gs, M_Umlall, F_Sme2),
     (C_SmeUmlallSBQSi, M_Umlall, F_Sme2), (C_SmeUmlallSBQSs, M_Umlall, F_Sme2),
     (C_SmeUmlallSBQV2Gg, M_Umlall, F_Sme2), (C_SmeUmlallSBQV2Gi, M_Umlall, F_Sme2),
     (C_SmeUmlallSBQV2Gs, M_Umlall, F_Sme2), (C_SmeUmlallSBQV4Gg, M_Umlall, F_Sme2),
     (C_SmeUmlallSBQV4Gi, M_Umlall, F_Sme2), (C_SmeUmlallSBQV4Gs, M_Umlall, F_Sme2),
     (C_SmeUmlslSHTSi, M_Umlsl, F_Sme2), (C_SmeUmlslSHTSs, M_Umlsl, F_Sme2), (C_SmeUmlslSHTV2Gg, M_Umlsl, F_Sme2),
     (C_SmeUmlslSHTV2Gi, M_Umlsl, F_Sme2), (C_SmeUmlslSHTV2Gs, M_Umlsl, F_Sme2), (C_SmeUmlslSHTV4Gg, M_Umlsl, F_Sme2),
     (C_SmeUmlslSHTV4Gi, M_Umlsl, F_Sme2), (C_SmeUmlslSHTV4Gs, M_Umlsl, F_Sme2), (C_SmeUmlsllDHQSi, M_Umlsll, F_Sme2),
     (C_SmeUmlsllDHQSs, M_Umlsll, F_Sme2), (C_SmeUmlsllDHQV2Gg, M_Umlsll, F_Sme2),
     (C_SmeUmlsllDHQV2Gi, M_Umlsll, F_Sme2), (C_SmeUmlsllDHQV2Gs, M_Umlsll, F_Sme2),
     (C_SmeUmlsllDHQV4Gg, M_Umlsll, F_Sme2), (C_SmeUmlsllDHQV4Gi, M_Umlsll, F_Sme2),
     (C_SmeUmlsllDHQV4Gs, M_Umlsll, F_Sme2), (C_SmeUmlsllSBQSi, M_Umlsll, F_Sme2),
     (C_SmeUmlsllSBQSs, M_Umlsll, F_Sme2), (C_SmeUmlsllSBQV2Gg, M_Umlsll, F_Sme2),
     (C_SmeUmlsllSBQV2Gi, M_Umlsll, F_Sme2), (C_SmeUmlsllSBQV2Gs, M_Umlsll, F_Sme2),
     (C_SmeUmlsllSBQV4Gg, M_Umlsll, F_Sme2), (C_SmeUmlsllSBQV4Gi, M_Umlsll, F_Sme2),
     (C_SmeUmlsllSBQV4Gs, M_Umlsll, F_Sme2), (C_SmeUsmlallSBQSi, M_Usmlall, F_Sme2),
     (C_SmeUsmlallSBQSs, M_Usmlall, F_Sme2), (C_SmeUsmlallSBQV2Gg, M_Usmlall, F_Sme2),
     (C_SmeUsmlallSBQV2Gi, M_Usmlall, F_Sme2), (C_SmeUsmlallSBQV2Gs, M_Usmlall, F_Sme2),
     (C_SmeUsmlallSBQV4Gg, M_Usmlall, F_Sme2), (C_SmeUsmlallSBQV4Gi, M_Usmlall, F_Sme2),
     (C_SmeUsmlallSBQV4Gs, M_Usmlall, F_Sme2), (C_SmeUstmopaSB, M_Ustmopa, F_Sme2), (C_SmeUtmopaSB, M_Utmopa, F_Sme2),
     (C_SmeUtmopaSH, M_Utmopa, F_Sme2), (C_FdotVec, M_Fdot, F_Fp8), (C_FdotIdx, M_Fdot, F_Fp8),
     (C_UsdotVec, M_Usdot, F_I8mm), (C_UsdotIdx, M_Usdot, F_I8mm), (C_SudotIdx, M_Sudot, F_I8mm),
     (C_BfdotVec, M_Bfdot, F_Bf16), (C_BfdotIdx, M_Bfdot, F_Bf16), (C_BfmlalbVec, M_Bfmlalb, F_Bf16),
     (C_BfmlaltVec, M_Bfmlalt, F_Bf16), (C_FmlalbVec, M_Fmlalb, F_Fp8), (C_FmlaltVec, M_Fmlalt, F_Fp8),
     (C_FmlallbbVec, M_Fmlallbb, F_Fp8), (C_FmlallbtVec, M_Fmlallbt, F_Fp8), (C_FmlalltbVec, M_Fmlalltb, F_Fp8),
     (C_FmlallttVec, M_Fmlalltt, F_Fp8), (C_SmmlaVec, M_Smmla, F_I8mm), (C_UmmlaVec, M_Ummla, F_I8mm)]"

definition code_rows_36 :: "(code \<times> mnemonic \<times> feature) list" where
  "code_rows_36 =
    [(C_UsmmlaVec, M_Usmmla, F_I8mm), (C_FamaxVec, M_Famax, F_Faminmax), (C_FaminVec, M_Famin, F_Faminmax),
     (C_FscaleVec, M_Fscale, F_Fp8), (C_FcvtnFp8, M_Fcvtn, F_Fp8), (C_Fcvtn2Fp8, M_Fcvtn2, F_Fp8),
     (C_BfcvtnVec, M_Bfcvtn, F_Bf16), (C_Bfcvtn2Vec, M_Bfcvtn2, F_Bf16), (C_F1cvtlVec, M_F1cvtl, F_Fp8),
     (C_F1cvtl2Vec, M_F1cvtl2, F_Fp8), (C_F2cvtlVec, M_F2cvtl, F_Fp8), (C_F2cvtl2Vec, M_F2cvtl2, F_Fp8),
     (C_Bf1cvtlVec, M_Bf1cvtl, F_Fp8), (C_Bf1cvtl2Vec, M_Bf1cvtl2, F_Fp8), (C_Bf2cvtlVec, M_Bf2cvtl, F_Fp8),
     (C_Bf2cvtl2Vec, M_Bf2cvtl2, F_Fp8), (C_Luti2Vec, M_Luti2, F_Lut), (C_Luti4Vec, M_Luti4, F_Lut),
     (C_Luti4TwoVec, M_Luti4, F_Lut), (C_SmeAddDDV2Gg, M_Add, F_Sme2), (C_SmeAddDDV2Go, M_Add, F_Sme2),
     (C_SmeAddDDV2Gs, M_Add, F_Sme2), (C_SmeAddDDV4Gg, M_Add, F_Sme2), (C_SmeAddDDV4Go, M_Add, F_Sme2),
     (C_SmeAddDDV4Gs, M_Add, F_Sme2), (C_SmeAddSSV2Gg, M_Add, F_Sme2), (C_SmeAddSSV2Go, M_Add, F_Sme2),
     (C_SmeAddSSV2Gs, M_Add, F_Sme2), (C_SmeAddSSV4Gg, M_Add, F_Sme2), (C_SmeAddSSV4Go, M_Add, F_Sme2),
     (C_SmeAddSSV4Gs, M_Add, F_Sme2), (C_SmeBfdotSHV2Gg, M_Bfdot, F_Sme2), (C_SmeBfdotSHV2Gi, M_Bfdot, F_Sme2),
     (C_SmeBfdotSHV2Gs, M_Bfdot, F_Sme2), (C_SmeBfdotSHV4Gg, M_Bfdot, F_Sme2), (C_SmeBfdotSHV4Gi, M_Bfdot, F_Sme2),
     (C_SmeBfdotSHV4Gs, M_Bfdot, F_Sme2), (C_SmeBfvdotSHV2Gi, M_Bfvdot, F_Sme2), (C_SmeFaddDDV2Go, M_Fadd, F_Sme2),
     (C_SmeFaddDDV4Go, M_Fadd, F_Sme2), (C_SmeFaddHHV2Go, M_Fadd, F_Sme2), (C_SmeFaddHHV4Go, M_Fadd, F_Sme2),
     (C_SmeFaddSSV2Go, M_Fadd, F_Sme2), (C_SmeFaddSSV4Go, M_Fadd, F_Sme2), (C_SmeFdotHBV2Gg, M_Fdot, F_Sme2),
     (C_SmeFdotHBV2Gi, M_Fdot, F_Sme2), (C_SmeFdotHBV2Gs, M_Fdot, F_Sme2), (C_SmeFdotHBV4Gg, M_Fdot, F_Sme2),
     (C_SmeFdotHBV4Gi, M_Fdot, F_Sme2), (C_SmeFdotHBV4Gs, M_Fdot, F_Sme2), (C_SmeFdotSHV2Gg, M_Fdot, F_Sme2),
     (C_SmeFdotSHV2Gi, M_Fdot, F_Sme2), (C_SmeFdotSHV2Gs, M_Fdot, F_Sme2), (C_SmeFdotSHV4Gg, M_Fdot, F_Sme2),
     (C_SmeFdotSHV4Gi, M_Fdot, F_Sme2), (C_SmeFdotSHV4Gs, M_Fdot, F_Sme2), (C_SmeFsubDDV2Go, M_Fsub, F_Sme2),
     (C_SmeFsubDDV4Go, M_Fsub, F_Sme2), (C_SmeFsubHHV2Go, M_Fsub, F_Sme2), (C_SmeFsubHHV4Go, M_Fsub, F_Sme2),
     (C_SmeFsubSSV2Go, M_Fsub, F_Sme2), (C_SmeFsubSSV4Go, M_Fsub, F_Sme2), (C_SmeFvdotSHV2Gi, M_Fvdot, F_Sme2),
     (C_SmeFvdotbSBV4GiB, M_Fvdotb, F_Sme2)]"

definition code_rows_37 :: "(code \<times> mnemonic \<times> feature) list" where
  "code_rows_37 =
    [(C_SmeFvdottSBV4GiB, M_Fvdott, F_Sme2), (C_SmeSdotDHV2Gg, M_Sdot, F_Sme2), (C_SmeSdotDHV2Gi, M_Sdot, F_Sme2),
     (C_SmeSdotDHV2Gs, M_Sdot, F_Sme2), (C_SmeSdotDHV4Gg, M_Sdot, F_Sme2), (C_SmeSdotDHV4Gi, M_Sdot, F_Sme2),
     (C_SmeSdotDHV4Gs, M_Sdot, F_Sme2), (C_SmeSdotSBV2Gg, M_Sdot, F_Sme2), (C_SmeSdotSBV2Gi, M_Sdot, F_Sme2),
     (C_SmeSdotSBV2Gs, M_Sdot, F_Sme2), (C_SmeSdotSBV4Gg, M_Sdot, F_Sme2), (C_SmeSdotSBV4Gi, M_Sdot, F_Sme2),
     (C_SmeSdotSBV4Gs, M_Sdot, F_Sme2), (C_SmeSdotSHV2Gg, M_Sdot, F_Sme2), (C_SmeSdotSHV2Gi, M_Sdot, F_Sme2),
     (C_SmeSdotSHV2Gs, M_Sdot, F_Sme2), (C_SmeSdotSHV4Gg, M_Sdot, F_Sme2), (C_SmeSdotSHV4Gi, M_Sdot, F_Sme2),
     (C_SmeSdotSHV4Gs, M_Sdot, F_Sme2), (C_SmeSubDDV2Gg, M_Sub, F_Sme2), (C_SmeSubDDV2Go, M_Sub, F_Sme2),
     (C_SmeSubDDV2Gs, M_Sub, F_Sme2), (C_SmeSubDDV4Gg, M_Sub, F_Sme2), (C_SmeSubDDV4Go, M_Sub, F_Sme2),
     (C_SmeSubDDV4Gs, M_Sub, F_Sme2), (C_SmeSubSSV2Gg, M_Sub, F_Sme2), (C_SmeSubSSV2Go, M_Sub, F_Sme2),
     (C_SmeSubSSV2Gs, M_Sub, F_Sme2), (C_SmeSubSSV4Gg, M_Sub, F_Sme2), (C_SmeSubSSV4Go, M_Sub, F_Sme2),
     (C_SmeSubSSV4Gs, M_Sub, F_Sme2), (C_SmeSudotSBV2Gi, M_Sudot, F_Sme2), (C_SmeSudotSBV2Gs, M_Sudot, F_Sme2),
     (C_SmeSudotSBV4Gi, M_Sudot, F_Sme2), (C_SmeSudotSBV4Gs, M_Sudot, F_Sme2), (C_SmeSuvdotSBV4Gi, M_Suvdot, F_Sme2),
     (C_SmeSvdotDHV4Gi, M_Svdot, F_Sme2), (C_SmeSvdotSHV2Gi, M_Svdot, F_Sme2), (C_SmeUdotDHV2Gg, M_Udot, F_Sme2),
     (C_SmeUdotDHV2Gi, M_Udot, F_Sme2), (C_SmeUdotDHV2Gs, M_Udot, F_Sme2), (C_SmeUdotDHV4Gg, M_Udot, F_Sme2),
     (C_SmeUdotDHV4Gi, M_Udot, F_Sme2), (C_SmeUdotDHV4Gs, M_Udot, F_Sme2), (C_SmeUdotSBV2Gg, M_Udot, F_Sme2),
     (C_SmeUdotSBV2Gi, M_Udot, F_Sme2), (C_SmeUdotSBV2Gs, M_Udot, F_Sme2), (C_SmeUdotSBV4Gg, M_Udot, F_Sme2),
     (C_SmeUdotSBV4Gi, M_Udot, F_Sme2), (C_SmeUdotSBV4Gs, M_Udot, F_Sme2), (C_SmeUdotSHV2Gg, M_Udot, F_Sme2),
     (C_SmeUdotSHV2Gi, M_Udot, F_Sme2), (C_SmeUdotSHV2Gs, M_Udot, F_Sme2), (C_SmeUdotSHV4Gg, M_Udot, F_Sme2),
     (C_SmeUdotSHV4Gi, M_Udot, F_Sme2), (C_SmeUdotSHV4Gs, M_Udot, F_Sme2), (C_SmeUsdotSBV2Gg, M_Usdot, F_Sme2),
     (C_SmeUsdotSBV2Gi, M_Usdot, F_Sme2), (C_SmeUsdotSBV2Gs, M_Usdot, F_Sme2), (C_SmeUsdotSBV4Gg, M_Usdot, F_Sme2),
     (C_SmeUsdotSBV4Gi, M_Usdot, F_Sme2), (C_SmeUsdotSBV4Gs, M_Usdot, F_Sme2), (C_SmeUsvdotSBV4Gi, M_Usvdot, F_Sme2),
     (C_SmeUvdotDHV4Gi, M_Uvdot, F_Sme2)]"

definition code_rows_38 :: "(code \<times> mnemonic \<times> feature) list" where
  "code_rows_38 =
    [(C_SmeUvdotSHV2Gi, M_Uvdot, F_Sme2), (C_SmeFdotSBV2Gg, M_Fdot, F_Sme2), (C_SmeFdotSBV2Gi, M_Fdot, F_Sme2),
     (C_SmeFdotSBV2Gs, M_Fdot, F_Sme2), (C_SmeFdotSBV4Gg, M_Fdot, F_Sme2), (C_SmeFdotSBV4Gi, M_Fdot, F_Sme2),
     (C_SmeFdotSBV4Gs, M_Fdot, F_Sme2), (C_SmeFvdotHBV2Gi, M_Fvdot, F_Sme2), (C_SmeSvdotSBV4Gi, M_Svdot, F_Sme2),
     (C_SmeUvdotSBV4Gi, M_Uvdot, F_Sme2), (C_Ldtxr32, M_Ldtxr, F_Lsui), (C_Ldtxr64, M_Ldtxr, F_Lsui),
     (C_Ldatxr32, M_Ldatxr, F_Lsui), (C_Ldatxr64, M_Ldatxr, F_Lsui), (C_Sttxr32, M_Sttxr, F_Lsui),
     (C_Sttxr64, M_Sttxr, F_Lsui), (C_Stltxr32, M_Stltxr, F_Lsui), (C_Stltxr64, M_Stltxr, F_Lsui),
     (C_Cast64, M_Cast, F_Lsui), (C_Casat64, M_Casat, F_Lsui), (C_Caslt64, M_Caslt, F_Lsui),
     (C_Casalt64, M_Casalt, F_Lsui), (C_Caspt64, M_Caspt, F_Lsui), (C_Caspat64, M_Caspat, F_Lsui),
     (C_Casplt64, M_Casplt, F_Lsui), (C_Caspalt64, M_Caspalt, F_Lsui), (C_SmeSelMV2, M_Sel, F_Sme2),
     (C_SmeSelMV4, M_Sel, F_Sme2), (C_SmeUclampMV2, M_Uclamp, F_Sme2), (C_SmeUclampMV4, M_Uclamp, F_Sme2),
     (C_SmeSclampMV2, M_Sclamp, F_Sme2), (C_SmeSclampMV4, M_Sclamp, F_Sme2), (C_SmeFclampMV2, M_Fclamp, F_Sme2),
     (C_SmeFclampMV4, M_Fclamp, F_Sme2), (C_SmeBfclampMV2, M_Bfclamp, F_Sme2), (C_SmeBfclampMV4, M_Bfclamp, F_Sme2),
     (C_SmeZipMV2, M_Zip, F_Sme2), (C_SmeZipMV4, M_Zip, F_Sme2), (C_SmeUzpMV2, M_Uzp, F_Sme2),
     (C_SmeUzpMV4, M_Uzp, F_Sme2), (C_SmeFmulMV2, M_Fmul, F_Sme2), (C_SmeFmulMV4, M_Fmul, F_Sme2),
     (C_SmeLd1bMV, M_Ld1b, F_Sme2), (C_SmeLd1hMV, M_Ld1h, F_Sme2), (C_SmeLd1wMV, M_Ld1w, F_Sme2),
     (C_SmeLd1dMV, M_Ld1d, F_Sme2), (C_SmeLdnt1bMV, M_Ldnt1b, F_Sme2), (C_SmeLdnt1hMV, M_Ldnt1h, F_Sme2),
     (C_SmeLdnt1wMV, M_Ldnt1w, F_Sme2), (C_SmeLdnt1dMV, M_Ldnt1d, F_Sme2), (C_SmeSt1bMV, M_St1b, F_Sme2),
     (C_SmeSt1hMV, M_St1h, F_Sme2), (C_SmeSt1wMV, M_St1w, F_Sme2), (C_SmeSt1dMV, M_St1d, F_Sme2),
     (C_SmeStnt1bMV, M_Stnt1b, F_Sme2), (C_SmeStnt1hMV, M_Stnt1h, F_Sme2), (C_SmeStnt1wMV, M_Stnt1w, F_Sme2),
     (C_SmeStnt1dMV, M_Stnt1d, F_Sme2), (C_SmeSqrshr, M_Sqrshr, F_Sme2), (C_SmeUqrshr, M_Uqrshr, F_Sme2),
     (C_SmeSqrshrn, M_Sqrshrn, F_Sme2), (C_SmeUqrshrn, M_Uqrshrn, F_Sme2), (C_SmeSqrshru, M_Sqrshru, F_Sme2),
     (C_SmeSqrshrun, M_Sqrshrun, F_Sme2)]"

definition code_rows_39 :: "(code \<times> mnemonic \<times> feature) list" where
  "code_rows_39 =
    [(C_Ldfadd, M_Ldfadd, F_Lsfe), (C_Ldfadda, M_Ldfadda, F_Lsfe), (C_Ldfaddl, M_Ldfaddl, F_Lsfe),
     (C_Ldfaddal, M_Ldfaddal, F_Lsfe), (C_Ldfmax, M_Ldfmax, F_Lsfe), (C_Ldfmaxa, M_Ldfmaxa, F_Lsfe),
     (C_Ldfmaxl, M_Ldfmaxl, F_Lsfe), (C_Ldfmaxal, M_Ldfmaxal, F_Lsfe), (C_Ldfmin, M_Ldfmin, F_Lsfe),
     (C_Ldfmina, M_Ldfmina, F_Lsfe), (C_Ldfminl, M_Ldfminl, F_Lsfe), (C_Ldfminal, M_Ldfminal, F_Lsfe),
     (C_Ldfmaxnm, M_Ldfmaxnm, F_Lsfe), (C_Ldfmaxnma, M_Ldfmaxnma, F_Lsfe), (C_Ldfmaxnml, M_Ldfmaxnml, F_Lsfe),
     (C_Ldfmaxnmal, M_Ldfmaxnmal, F_Lsfe), (C_Ldfminnm, M_Ldfminnm, F_Lsfe), (C_Ldfminnma, M_Ldfminnma, F_Lsfe),
     (C_Ldfminnml, M_Ldfminnml, F_Lsfe), (C_Ldfminnmal, M_Ldfminnmal, F_Lsfe), (C_Stfadd, M_Stfadd, F_Lsfe),
     (C_Stfaddl, M_Stfaddl, F_Lsfe), (C_Stfmax, M_Stfmax, F_Lsfe), (C_Stfmaxl, M_Stfmaxl, F_Lsfe),
     (C_Stfmin, M_Stfmin, F_Lsfe), (C_Stfminl, M_Stfminl, F_Lsfe), (C_Stfmaxnm, M_Stfmaxnm, F_Lsfe),
     (C_Stfmaxnml, M_Stfmaxnml, F_Lsfe), (C_Stfminnm, M_Stfminnm, F_Lsfe), (C_Stfminnml, M_Stfminnml, F_Lsfe),
     (C_Ldbfadd, M_Ldbfadd, F_Lsfe), (C_Ldbfadda, M_Ldbfadda, F_Lsfe), (C_Ldbfaddl, M_Ldbfaddl, F_Lsfe),
     (C_Ldbfaddal, M_Ldbfaddal, F_Lsfe), (C_Ldbfmax, M_Ldbfmax, F_Lsfe), (C_Ldbfmaxa, M_Ldbfmaxa, F_Lsfe),
     (C_Ldbfmaxl, M_Ldbfmaxl, F_Lsfe), (C_Ldbfmaxal, M_Ldbfmaxal, F_Lsfe), (C_Ldbfmin, M_Ldbfmin, F_Lsfe),
     (C_Ldbfmina, M_Ldbfmina, F_Lsfe), (C_Ldbfminl, M_Ldbfminl, F_Lsfe), (C_Ldbfminal, M_Ldbfminal, F_Lsfe),
     (C_Ldbfmaxnm, M_Ldbfmaxnm, F_Lsfe), (C_Ldbfmaxnma, M_Ldbfmaxnma, F_Lsfe), (C_Ldbfmaxnml, M_Ldbfmaxnml, F_Lsfe),
     (C_Ldbfmaxnmal, M_Ldbfmaxnmal, F_Lsfe), (C_Ldbfminnm, M_Ldbfminnm, F_Lsfe), (C_Ldbfminnma, M_Ldbfminnma, F_Lsfe),
     (C_Ldbfminnml, M_Ldbfminnml, F_Lsfe), (C_Ldbfminnmal, M_Ldbfminnmal, F_Lsfe), (C_Stbfadd, M_Stbfadd, F_Lsfe),
     (C_Stbfaddl, M_Stbfaddl, F_Lsfe), (C_Stbfmax, M_Stbfmax, F_Lsfe), (C_Stbfmaxl, M_Stbfmaxl, F_Lsfe),
     (C_Stbfmin, M_Stbfmin, F_Lsfe), (C_Stbfminl, M_Stbfminl, F_Lsfe), (C_Stbfmaxnm, M_Stbfmaxnm, F_Lsfe),
     (C_Stbfmaxnml, M_Stbfmaxnml, F_Lsfe), (C_Stbfminnm, M_Stbfminnm, F_Lsfe), (C_Stbfminnml, M_Stbfminnml, F_Lsfe),
     (C_SveLd1qG, M_Ld1q, F_Sve2p1), (C_SveSt1qS, M_St1q, F_Sve2p1), (C_SveLd2qSs, M_Ld2q, F_Sve2p1),
     (C_SveLd2qImm, M_Ld2q, F_Sve2p1)]"

definition code_rows_40 :: "(code \<times> mnemonic \<times> feature) list" where
  "code_rows_40 =
    [(C_SveLd3qSs, M_Ld3q, F_Sve2p1), (C_SveLd3qImm, M_Ld3q, F_Sve2p1), (C_SveLd4qSs, M_Ld4q, F_Sve2p1),
     (C_SveLd4qImm, M_Ld4q, F_Sve2p1), (C_SveSt2qSs, M_St2q, F_Sve2p1), (C_SveSt2qImm, M_St2q, F_Sve2p1),
     (C_SveSt3qSs, M_St3q, F_Sve2p1), (C_SveSt3qImm, M_St3q, F_Sve2p1), (C_SveSt4qSs, M_St4q, F_Sve2p1),
     (C_SveSt4qImm, M_St4q, F_Sve2p1), (C_SveRevdZpzZero, M_Revd, F_Sve2p1), (C_SveWhilePair, M_Whilege, F_Sve2p1),
     (C_SveWhilePn, M_Whilege, F_Sve2p1), (C_SveFrintnZ, M_Frintn, F_Sve2p1), (C_SveFrintpZ, M_Frintp, F_Sve2p1),
     (C_SveFrintmZ, M_Frintm, F_Sve2p1), (C_SveFrintzZ, M_Frintz, F_Sve2p1), (C_SveFrintaZ, M_Frinta, F_Sve2p1),
     (C_SveFrintxZ, M_Frintx, F_Sve2p1), (C_SveFrintiZ, M_Frinti, F_Sve2p1), (C_SveFrecpxZ, M_Frecpx, F_Sve2p1),
     (C_SveFsqrtZ, M_Fsqrt, F_Sve2p1), (C_SveFcvtZ, M_Fcvt, F_Sve2p1), (C_SveFcvtxZ, M_Fcvtx, F_Sve2p1),
     (C_SveScvtfZ, M_Scvtf, F_Sve2p1), (C_SveUcvtfZ, M_Ucvtf, F_Sve2p1), (C_SveFcvtzsZ, M_Fcvtzs, F_Sve2p1),
     (C_SveFcvtzuZ, M_Fcvtzu, F_Sve2p1), (C_SveBfcvtZ, M_Bfcvt, F_Sve2p1), (C_SveFlogbZ, M_Flogb, F_Sve2p1),
     (C_SmeLuti2Zt, M_Luti2, F_Lut), (C_SmeLuti4Zt, M_Luti4, F_Lut), (C_SmeMovaMultiZToTile, M_Mov, F_Sme2),
     (C_SmeMovaMultiTileToZ, M_Mov, F_Sme2), (C_SmeMovazMultiTileToZ, M_Movaz, F_Sme2),
     (C_FmmlaVecF16F32, M_Fmmla, F_F16f32mm), (C_FmmlaVecF16, M_Fmmla, F_F16mm),
     (C_FmmlaVecF8F16, M_Fmmla, F_F8f16mm), (C_FmmlaVecF8F32, M_Fmmla, F_F8f32mm), (C_BfmmlaVec, M_Bfmmla, F_Bf16),
     (C_BcCond, M_Bc, F_Hbc), (C_Retaasppc, M_Retaasppc, F_PauthLr), (C_Retabsppc, M_Retabsppc, F_PauthLr),
     (C_Autiasppc, M_Autiasppc, F_PauthLr), (C_Autibsppc, M_Autibsppc, F_PauthLr),
     (C_Paciasppc, M_Paciasppc, F_PauthLr), (C_Pacibsppc, M_Pacibsppc, F_PauthLr),
     (C_Pacnbiasppc, M_Pacnbiasppc, F_PauthLr), (C_Pacnbibsppc, M_Pacnbibsppc, F_PauthLr),
     (C_Autiasppcr, M_Autiasppcr, F_PauthLr), (C_Autibsppcr, M_Autibsppcr, F_PauthLr),
     (C_Retaasppcr, M_Retaasppcr, F_PauthLr), (C_Retabsppcr, M_Retabsppcr, F_PauthLr),
     (C_SmeBmopaS, M_Bmopa, F_SmeB16b16), (C_SmeBmopsS, M_Bmops, F_SmeB16b16), (C_SmeBfmopaH, M_Bfmopa, F_SmeB16b16),
     (C_SmeBfmopsH, M_Bfmops, F_SmeB16b16), (C_SmeFmopaHh, M_Fmopa, F_SmeF16f16),
     (C_SmeFmopsHh, M_Fmops, F_SmeF16f16), (C_SmeFmopaB, M_Fmopa, F_SmeF8f32), (C_SmeFmopaBh, M_Fmopa, F_SmeF8f16),
     (C_SmeSmopaHs, M_Smopa, F_Sme2), (C_SmeSmopsHs, M_Smops, F_Sme2), (C_SmeUmopaHs, M_Umopa, F_Sme2)]"

definition code_rows_41 :: "(code \<times> mnemonic \<times> feature) list" where
  "code_rows_41 =
    [(C_SmeUmopsHs, M_Umops, F_Sme2), (C_SmeFmop4aS, M_Fmop4a, F_SmeMop4), (C_SmeFmop4sS, M_Fmop4s, F_SmeMop4),
     (C_SmeFmop4aD, M_Fmop4a, F_SmeMop4), (C_SmeFmop4sD, M_Fmop4s, F_SmeMop4), (C_SmeFmop4aHs, M_Fmop4a, F_SmeMop4),
     (C_SmeFmop4sHs, M_Fmop4s, F_SmeMop4), (C_SmeFmop4aHh, M_Fmop4a, F_SmeMop4), (C_SmeFmop4sHh, M_Fmop4s, F_SmeMop4),
     (C_SmeFmop4aB, M_Fmop4a, F_SmeMop4), (C_SmeFmop4aBh, M_Fmop4a, F_SmeMop4), (C_SmeBfmop4aS, M_Bfmop4a, F_SmeMop4),
     (C_SmeBfmop4sS, M_Bfmop4s, F_SmeMop4), (C_SmeBfmop4aHh, M_Bfmop4a, F_SmeMop4),
     (C_SmeBfmop4sHh, M_Bfmop4s, F_SmeMop4), (C_SmeSmop4aS, M_Smop4a, F_SmeMop4), (C_SmeSmop4sS, M_Smop4s, F_SmeMop4),
     (C_SmeUmop4aS, M_Umop4a, F_SmeMop4), (C_SmeUmop4sS, M_Umop4s, F_SmeMop4), (C_SmeSumop4aS, M_Sumop4a, F_SmeMop4),
     (C_SmeSumop4sS, M_Sumop4s, F_SmeMop4), (C_SmeUsmop4aS, M_Usmop4a, F_SmeMop4),
     (C_SmeUsmop4sS, M_Usmop4s, F_SmeMop4), (C_SmeSmop4aHs, M_Smop4a, F_SmeMop4),
     (C_SmeSmop4sHs, M_Smop4s, F_SmeMop4), (C_SmeUmop4aHs, M_Umop4a, F_SmeMop4), (C_SmeUmop4sHs, M_Umop4s, F_SmeMop4),
     (C_SmeSmop4aD, M_Smop4a, F_SmeMop4), (C_SmeSmop4sD, M_Smop4s, F_SmeMop4), (C_SmeUmop4aD, M_Umop4a, F_SmeMop4),
     (C_SmeUmop4sD, M_Umop4s, F_SmeMop4), (C_SmeSumop4aD, M_Sumop4a, F_SmeMop4),
     (C_SmeSumop4sD, M_Sumop4s, F_SmeMop4), (C_SmeUsmop4aD, M_Usmop4a, F_SmeMop4),
     (C_SmeUsmop4sD, M_Usmop4s, F_SmeMop4), (C_SveLd1wqSs, M_Ld1w, F_Sve2p1), (C_SveLd1wqImm, M_Ld1w, F_Sve2p1),
     (C_SveLd1dqSs, M_Ld1d, F_Sve2p1), (C_SveLd1dqImm, M_Ld1d, F_Sve2p1), (C_SveSt1wqSs, M_St1w, F_Sve2p1),
     (C_SveSt1wqImm, M_St1w, F_Sve2p1), (C_SveSt1dqSs, M_St1d, F_Sve2p1), (C_SveSt1dqImm, M_St1d, F_Sve2p1),
     (C_SveBfaddZzz, M_Bfadd, F_SveB16b16), (C_SveBfsubZzz, M_Bfsub, F_SveB16b16),
     (C_SveBfmulZzz, M_Bfmul, F_SveB16b16), (C_SveBfaddZpzz, M_Bfadd, F_SveB16b16),
     (C_SveBfsubZpzz, M_Bfsub, F_SveB16b16), (C_SveBfmulZpzz, M_Bfmul, F_SveB16b16),
     (C_SveBfmaxnmZpzz, M_Bfmaxnm, F_SveB16b16), (C_SveBfminnmZpzz, M_Bfminnm, F_SveB16b16),
     (C_SveBfmaxZpzz, M_Bfmax, F_SveB16b16), (C_SveBfminZpzz, M_Bfmin, F_SveB16b16),
     (C_SveBfmlaZpzzz, M_Bfmla, F_SveB16b16), (C_SveBfmlsZpzzz, M_Bfmls, F_SveB16b16),
     (C_SveBfclamp, M_Bfclamp, F_SveB16b16), (C_SveBfmlslb, M_Bfmlslb, F_Bf16), (C_SveBfmlslt, M_Bfmlslt, F_Bf16),
     (C_SveBfmlslbIdx, M_Bfmlslb, F_Bf16), (C_SveBfmlsltIdx, M_Bfmlslt, F_Bf16), (C_SveFclamp, M_Fclamp, F_Sve2p1),
     (C_SveFdotShVec, M_Fdot, F_Sve2p1), (C_SveFdotShIdx, M_Fdot, F_Sve2p1), (C_SveFdotHbVec, M_Fdot, F_Fp8)]"

definition code_rows_42 :: "(code \<times> mnemonic \<times> feature) list" where
  "code_rows_42 =
    [(C_SveFdotHbIdx, M_Fdot, F_Fp8), (C_SveFdotSbVec, M_Fdot, F_Fp8), (C_SveFdotSbIdx, M_Fdot, F_Fp8),
     (C_SveFmlalbFp8, M_Fmlalb, F_Fp8), (C_SveFmlaltFp8, M_Fmlalt, F_Fp8), (C_SveFmlallbbFp8, M_Fmlallbb, F_Fp8),
     (C_SveFmlallbtFp8, M_Fmlallbt, F_Fp8), (C_SveFmlalltbFp8, M_Fmlalltb, F_Fp8),
     (C_SveFmlallttFp8, M_Fmlalltt, F_Fp8), (C_SveFmmlaF8F32, M_Fmmla, F_F8f32mm), (C_SveFmmlaF8, M_Fmmla, F_F8f16mm),
     (C_SveFmmlaF16, M_Fmmla, F_F16mm), (C_SveBfmmlaH, M_Bfmmla, F_SveB16b16), (C_SvePsel, M_Psel, F_Sve2p1),
     (C_SveSabal, M_Sabal, F_Sve), (C_SveUabal, M_Uabal, F_Sve), (C_SveFrint32zZ, M_Frint32z, F_Sve2p1),
     (C_SveFrint32xZ, M_Frint32x, F_Sve2p1), (C_SveFrint64zZ, M_Frint64z, F_Sve2p1),
     (C_SveFrint64xZ, M_Frint64x, F_Sve2p1), (C_SveLastp, M_Lastp, F_Sve2p1), (C_SveFirstp, M_Firstp, F_Sve2p1),
     (C_RprfmReg, M_Rprfm, F_Rprfm), (C_NeonFdotF16Vec, M_Fdot, F_F16f32dot), (C_NeonFdotF16Idx, M_Fdot, F_F16f32dot),
     (C_SveAddqp, M_Addqp, F_Sve2p3), (C_SveAddsubp, M_Addsubp, F_Sve2p3), (C_SveLuti6B, M_Luti6, F_Lut),
     (C_SveLuti6H, M_Luti6, F_Lut), (C_SveFmmlaF16F32, M_Fmmla, F_F16f32mm), (C_SveSdotHb, M_Sdot, F_Sve2p3),
     (C_SveUdotHb, M_Udot, F_Sve2p3), (C_SveSqabsZ, M_Sqabs, F_Sve2p2), (C_SveSqnegZ, M_Sqneg, F_Sve2p2),
     (C_SveMadpt, M_Madpt, F_Cpa), (C_SveMlapt, M_Mlapt, F_Cpa), (C_SveSubpPred, M_Subp, F_Cpa),
     (C_SveFamax, M_Famax, F_Faminmax), (C_SveFamin, M_Famin, F_Faminmax), (C_SveFrint32zM, M_Frint32z, F_Sve2p2),
     (C_SveFrint32xM, M_Frint32x, F_Sve2p2), (C_SveFrint64zM, M_Frint64z, F_Sve2p2),
     (C_SveFrint64xM, M_Frint64x, F_Sve2p2), (C_LdappPair, M_Ldapp, F_Rcpc3), (C_LdapPair, M_Ldap, F_Rcpc3),
     (C_StlpPair, M_Stlp, F_Rcpc3), (C_SmeMovazTileToZ, M_Movaz, F_Sme2), (C_SmeFmaxMV2, M_Fmax, F_Sme2),
     (C_SmeFmaxMV4, M_Fmax, F_Sme2), (C_SmeFminMV2, M_Fmin, F_Sme2), (C_SmeFminMV4, M_Fmin, F_Sme2),
     (C_SmeFmaxnmMV2, M_Fmaxnm, F_Sme2), (C_SmeFmaxnmMV4, M_Fmaxnm, F_Sme2), (C_SmeFminnmMV2, M_Fminnm, F_Sme2),
     (C_SmeFminnmMV4, M_Fminnm, F_Sme2), (C_SmeFmulMVS2, M_Fmul, F_Sme2), (C_SmeFmulMVS4, M_Fmul, F_Sme2),
     (C_SmeLuti6, M_Luti6, F_Lut), (C_SveFcvtntZ, M_Fcvtnt, F_Sve2p2), (C_SveFcvtltZ, M_Fcvtlt, F_Sve2p2),
     (C_SveFcvtxntZ, M_Fcvtxnt, F_Sve2p2), (C_SveBfcvtntZ, M_Bfcvtnt, F_Sve2p2), (C_SveUrecpeZ, M_Urecpe, F_Sve2p2),
     (C_SveUrsqrteZ, M_Ursqrte, F_Sve2p2)]"

definition code_rows_43 :: "(code \<times> mnemonic \<times> feature) list" where
  "code_rows_43 =
    [(C_SveAese2, M_Aese, F_SveAes2), (C_SveAesd2, M_Aesd, F_SveAes2), (C_SveAesemc2, M_Aesemc, F_SveAes2),
     (C_SveAesdimc2, M_Aesdimc, F_SveAes2), (C_SvePmull2, M_Pmull, F_SveAes2), (C_SvePmlal2, M_Pmlal, F_SveAes2),
     (C_SveSqcvtn, M_Sqcvtn, F_Sve2p1), (C_SveUqcvtn, M_Uqcvtn, F_Sve2p1), (C_SveSqcvtun, M_Sqcvtun, F_Sve2p1),
     (C_SveShiftNarrowMulti, M_Sqshrn, F_Sve2p1), (C_SveCntpCount, M_Cntp, F_Sve2p1), (C_SveBf2cvt, M_Bf2cvt, F_Fp8),
     (C_SveScvtflt, M_Scvtflt, F_Fp8), (C_SveBfscale, M_Bfscale, F_SveB16b16), (C_FcvtnsFprcvt, M_Fcvtns, F_Fprcvt),
     (C_FcvtnuFprcvt, M_Fcvtnu, F_Fprcvt), (C_FcvtpsFprcvt, M_Fcvtps, F_Fprcvt), (C_FcvtpuFprcvt, M_Fcvtpu, F_Fprcvt),
     (C_FcvtmsFprcvt, M_Fcvtms, F_Fprcvt), (C_FcvtmuFprcvt, M_Fcvtmu, F_Fprcvt), (C_FcvtzsFprcvt, M_Fcvtzs, F_Fprcvt),
     (C_FcvtzuFprcvt, M_Fcvtzu, F_Fprcvt), (C_FcvtasFprcvt, M_Fcvtas, F_Fprcvt), (C_FcvtauFprcvt, M_Fcvtau, F_Fprcvt),
     (C_ScvtfFprcvt, M_Scvtf, F_Fprcvt), (C_UcvtfFprcvt, M_Ucvtf, F_Fprcvt), (C_SetgopMops, M_Setgop, F_Mops),
     (C_SetgoptMops, M_Setgopt, F_Mops), (C_SetgopnMops, M_Setgopn, F_Mops), (C_SetgoptnMops, M_Setgoptn, F_Mops),
     (C_SetgomMops, M_Setgom, F_Mops), (C_SetgomtMops, M_Setgomt, F_Mops), (C_SetgomnMops, M_Setgomn, F_Mops),
     (C_SetgomtnMops, M_Setgomtn, F_Mops), (C_SetgoeMops, M_Setgoe, F_Mops), (C_SetgoetMops, M_Setgoet, F_Mops),
     (C_SetgoenMops, M_Setgoen, F_Mops), (C_SetgoetnMops, M_Setgoetn, F_Mops), (C_TchangefReg, M_Tchangef, F_Tchange),
     (C_TchangebReg, M_Tchangeb, F_Tchange), (C_TchangefImm, M_Tchangef, F_Tchange),
     (C_TchangebImm, M_Tchangeb, F_Tchange), (C_SmeAddMVS2, M_Add, F_Sme2), (C_SmeAddMVS4, M_Add, F_Sme2),
     (C_SmeSmaxMVS2, M_Smax, F_Sme2), (C_SmeSmaxMVS4, M_Smax, F_Sme2), (C_SmeUmaxMVS2, M_Umax, F_Sme2),
     (C_SmeUmaxMVS4, M_Umax, F_Sme2), (C_SmeSminMVS2, M_Smin, F_Sme2), (C_SmeSminMVS4, M_Smin, F_Sme2),
     (C_SmeUminMVS2, M_Umin, F_Sme2), (C_SmeUminMVS4, M_Umin, F_Sme2), (C_SmeSrshlMVS2, M_Srshl, F_Sme2),
     (C_SmeSrshlMVS4, M_Srshl, F_Sme2), (C_SmeUrshlMVS2, M_Urshl, F_Sme2), (C_SmeUrshlMVS4, M_Urshl, F_Sme2),
     (C_SmeSqdmulhMVS2, M_Sqdmulh, F_Sme2), (C_SmeSqdmulhMVS4, M_Sqdmulh, F_Sme2), (C_SmeFmaxMVS2, M_Fmax, F_Sme2),
     (C_SmeFmaxMVS4, M_Fmax, F_Sme2), (C_SmeFminMVS2, M_Fmin, F_Sme2), (C_SmeFminMVS4, M_Fmin, F_Sme2),
     (C_SmeFmaxnmMVS2, M_Fmaxnm, F_Sme2), (C_SmeFmaxnmMVS4, M_Fmaxnm, F_Sme2)]"

definition code_rows_44 :: "(code \<times> mnemonic \<times> feature) list" where
  "code_rows_44 =
    [(C_SmeFminnmMVS2, M_Fminnm, F_Sme2), (C_SmeFminnmMVS4, M_Fminnm, F_Sme2), (C_SmeFscaleMVS2, M_Fscale, F_Sme2),
     (C_SmeFscaleMVS4, M_Fscale, F_Sme2), (C_SmeBfmaxMVS2, M_Bfmax, F_SmeB16b16),
     (C_SmeBfmaxMVS4, M_Bfmax, F_SmeB16b16), (C_SmeBfminMVS2, M_Bfmin, F_SmeB16b16),
     (C_SmeBfminMVS4, M_Bfmin, F_SmeB16b16), (C_SmeBfmaxnmMVS2, M_Bfmaxnm, F_SmeB16b16),
     (C_SmeBfmaxnmMVS4, M_Bfmaxnm, F_SmeB16b16), (C_SmeBfminnmMVS2, M_Bfminnm, F_SmeB16b16),
     (C_SmeBfminnmMVS4, M_Bfminnm, F_SmeB16b16), (C_SmeBfscaleMVS2, M_Bfscale, F_SmeB16b16),
     (C_SmeBfscaleMVS4, M_Bfscale, F_SmeB16b16), (C_SmeBfmulMV2, M_Bfmul, F_SmeB16b16),
     (C_SmeBfmulMV4, M_Bfmul, F_SmeB16b16), (C_SmeBfmulMVS2, M_Bfmul, F_SmeB16b16),
     (C_SmeBfmulMVS4, M_Bfmul, F_SmeB16b16), (C_SmeSunpk, M_Sunpk, F_Sme2), (C_SmeUunpk, M_Uunpk, F_Sme2),
     (C_SmeSqcvt, M_Sqcvt, F_Sme2), (C_SmeUqcvt, M_Uqcvt, F_Sme2), (C_SmeSqcvtu, M_Sqcvtu, F_Sme2),
     (C_SmeSqcvtnNarrow, M_Sqcvtn, F_Sme2), (C_SmeUqcvtnNarrow, M_Uqcvtn, F_Sme2),
     (C_SmeSqcvtunNarrow, M_Sqcvtun, F_Sme2), (C_SmeSqrshrV2, M_Sqrshr, F_Sme2), (C_SmeUqrshrV2, M_Uqrshr, F_Sme2),
     (C_SmeSqrshruV2, M_Sqrshru, F_Sme2), (C_SmeLuti6Consec, M_Luti6, F_Lut), (C_SveFcvtzsn, M_Fcvtzsn, F_Sve2p2),
     (C_SveFcvtzun, M_Fcvtzun, F_Sve2p2), (C_SveF1cvt, M_F1cvt, F_Fp8), (C_SveF2cvt, M_F2cvt, F_Fp8),
     (C_SveBf1cvt, M_Bf1cvt, F_Fp8), (C_SveF1cvtlt, M_F1cvtlt, F_Fp8), (C_SveF2cvtlt, M_F2cvtlt, F_Fp8),
     (C_SveBf1cvtlt, M_Bf1cvtlt, F_Fp8), (C_SveBf2cvtlt, M_Bf2cvtlt, F_Fp8), (C_SveFcvtnFp8, M_Fcvtn, F_Fp8),
     (C_SveFcvtnbFp8, M_Fcvtnb, F_Fp8), (C_SveBfcvtnFp8, M_Bfcvtn, F_Fp8), (C_SveFcvtntFp8, M_Fcvtnt, F_Fp8),
     (C_SveScvtfWiden, M_Scvtf, F_Sve2p3), (C_SveUcvtfWiden, M_Ucvtf, F_Sve2p3), (C_SveUcvtflt, M_Ucvtflt, F_Sve2p3),
     (C_SmeFcvtNarrow, M_Fcvt, F_Sme2), (C_SmeFcvtnNarrowFp, M_Fcvtn, F_SmeF16f16),
     (C_SmeBfcvtNarrow, M_Bfcvt, F_Sme2), (C_SmeBfcvtnNarrowFp, M_Bfcvtn, F_SmeF16f16),
     (C_SmeFcvtWiden, M_Fcvt, F_SmeF16f16), (C_SmeFcvtlWiden, M_Fcvtl, F_SmeF16f16), (C_SmeSmaxMV2, M_Smax, F_Sme2),
     (C_SmeSmaxMV4, M_Smax, F_Sme2), (C_SmeUmaxMV2, M_Umax, F_Sme2), (C_SmeUmaxMV4, M_Umax, F_Sme2),
     (C_SmeSminMV2, M_Smin, F_Sme2), (C_SmeSminMV4, M_Smin, F_Sme2), (C_SmeUminMV2, M_Umin, F_Sme2),
     (C_SmeUminMV4, M_Umin, F_Sme2), (C_SmeSrshlMV2, M_Srshl, F_Sme2), (C_SmeSrshlMV4, M_Srshl, F_Sme2),
     (C_SmeUrshlMV2, M_Urshl, F_Sme2), (C_SmeUrshlMV4, M_Urshl, F_Sme2)]"

definition code_rows_45 :: "(code \<times> mnemonic \<times> feature) list" where
  "code_rows_45 =
    [(C_SmeSqdmulhMV2, M_Sqdmulh, F_Sme2), (C_SmeSqdmulhMV4, M_Sqdmulh, F_Sme2), (C_SmeFamaxMV2, M_Famax, F_Faminmax),
     (C_SmeFamaxMV4, M_Famax, F_Faminmax), (C_SmeFaminMV2, M_Famin, F_Faminmax), (C_SmeFaminMV4, M_Famin, F_Faminmax),
     (C_SmeFscaleMVMV2, M_Fscale, F_Sme2), (C_SmeFscaleMVMV4, M_Fscale, F_Sme2),
     (C_SmeBfmaxMV2, M_Bfmax, F_SmeB16b16), (C_SmeBfmaxMV4, M_Bfmax, F_SmeB16b16),
     (C_SmeBfminMV2, M_Bfmin, F_SmeB16b16), (C_SmeBfminMV4, M_Bfmin, F_SmeB16b16),
     (C_SmeBfmaxnmMV2, M_Bfmaxnm, F_SmeB16b16), (C_SmeBfmaxnmMV4, M_Bfmaxnm, F_SmeB16b16),
     (C_SmeBfminnmMV2, M_Bfminnm, F_SmeB16b16), (C_SmeBfminnmMV4, M_Bfminnm, F_SmeB16b16),
     (C_SmeBfscaleMV2, M_Bfscale, F_SmeB16b16), (C_SmeBfscaleMV4, M_Bfscale, F_SmeB16b16),
     (C_SmeMovaArrayToVec, M_Mov, F_Sme2), (C_SmeMovazArrayToVec, M_Movaz, F_Sme2),
     (C_SmeMovaVecToArray, M_Mov, F_Sme2), (C_SmeLuti6Single, M_Luti6, F_Lut), (C_SmeBfaddV2Go, M_Bfadd, F_SmeB16b16),
     (C_SmeBfaddV4Go, M_Bfadd, F_SmeB16b16), (C_SmeBfsubV2Go, M_Bfsub, F_SmeB16b16),
     (C_SmeBfsubV4Go, M_Bfsub, F_SmeB16b16), (C_SmeFcvtNarrowFp8, M_Fcvt, F_SmeF8f16),
     (C_SmeFcvtnNarrowFp8, M_Fcvtn, F_SmeF8f16), (C_SmeBfcvtNarrowFp8, M_Bfcvt, F_SmeF8f16),
     (C_SmeF1cvtWiden, M_F1cvt, F_SmeF8f16), (C_SmeF1cvtlWiden, M_F1cvtl, F_SmeF8f16),
     (C_SmeF2cvtWiden, M_F2cvt, F_SmeF8f16), (C_SmeF2cvtlWiden, M_F2cvtl, F_SmeF8f16),
     (C_SmeBf1cvtWiden, M_Bf1cvt, F_SmeF8f16), (C_SmeBf1cvtlWiden, M_Bf1cvtl, F_SmeF8f16),
     (C_SmeBf2cvtWiden, M_Bf2cvt, F_SmeF8f16), (C_SmeBf2cvtlWiden, M_Bf2cvtl, F_SmeF8f16),
     (C_SmeFrintn, M_Frintn, F_Sme2), (C_SmeFrintp, M_Frintp, F_Sme2), (C_SmeFrintm, M_Frintm, F_Sme2),
     (C_SmeFrinta, M_Frinta, F_Sme2), (C_SmeScvtf, M_Scvtf, F_Sme2), (C_SmeUcvtf, M_Ucvtf, F_Sme2),
     (C_SmeFcvtzs, M_Fcvtzs, F_Sme2), (C_SmeFcvtzu, M_Fcvtzu, F_Sme2), (C_SvePextSingle, M_Pext, F_Sve2p1),
     (C_SvePextPair, M_Pext, F_Sve2p1), (C_SvePtruePn, M_Ptrue, F_Sve2p1), (C_SmeZeroMask, M_Zero, F_Sme),
     (C_SmeZeroZt0, M_Zero, F_Sme2), (C_SmeZeroArray, M_Zero, F_Sme2), (C_SmeMovtZt0Z, M_Movt, F_Sme2),
     (C_SmeMovtZt0X, M_Movt, F_Sme2), (C_SmeMovtXZt0, M_Movt, F_Sme2), (C_SmeLuti6Zt, M_Luti6, F_Lut),
     (C_Gcspushm, M_Gcspushm, F_Gcs), (C_Gcspopm, M_Gcspopm, F_Gcs), (C_Gcsss1, M_Gcsss1, F_Gcs),
     (C_Gcsss2, M_Gcsss2, F_Gcs), (C_Gcspushx, M_Gcspushx, F_Gcs), (C_Gcspopx, M_Gcspopx, F_Gcs),
     (C_Gcspopcx, M_Gcspopcx, F_Gcs), (C_Gcsb, M_Gcsb, F_Gcs), (C_Tenter, M_Tenter, F_Tev)]"

definition code_rows_46 :: "(code \<times> mnemonic \<times> feature) list" where
  "code_rows_46 =
    [(C_Shuh, M_Shuh, F_Pcdphint), (C_Stshh, M_Stshh, F_Pcdphint), (C_Stcph, M_Stcph, F_Pcdphint),
     (C_Chkfeat, M_Chkfeat, F_Chk), (C_Dgh, M_Dgh, F_Dgh), (C_Clrbhb, M_Clrbhb, F_Clrbhb), (C_Pacm, M_Pacm, F_PAuth),
     (C_Gcsstr, M_Gcsstr, F_Gcs), (C_Gcssttr, M_Gcssttr, F_Gcs), (C_AmxLdx, M_AmxLdx, F_AppleAmx),
     (C_AmxLdy, M_AmxLdy, F_AppleAmx), (C_AmxStx, M_AmxStx, F_AppleAmx), (C_AmxSty, M_AmxSty, F_AppleAmx),
     (C_AmxLdz, M_AmxLdz, F_AppleAmx), (C_AmxStz, M_AmxStz, F_AppleAmx), (C_AmxLdzi, M_AmxLdzi, F_AppleAmx),
     (C_AmxStzi, M_AmxStzi, F_AppleAmx), (C_AmxExtrx, M_AmxExtrx, F_AppleAmx), (C_AmxExtry, M_AmxExtry, F_AppleAmx),
     (C_AmxFma64, M_AmxFma64, F_AppleAmx), (C_AmxFms64, M_AmxFms64, F_AppleAmx), (C_AmxFma32, M_AmxFma32, F_AppleAmx),
     (C_AmxFms32, M_AmxFms32, F_AppleAmx), (C_AmxMac16, M_AmxMac16, F_AppleAmx), (C_AmxFma16, M_AmxFma16, F_AppleAmx),
     (C_AmxFms16, M_AmxFms16, F_AppleAmx), (C_AmxSet, M_AmxSet, F_AppleAmx), (C_AmxClr, M_AmxClr, F_AppleAmx),
     (C_AmxVecint, M_AmxVecint, F_AppleAmx), (C_AmxVecfp, M_AmxVecfp, F_AppleAmx),
     (C_AmxMatint, M_AmxMatint, F_AppleAmx), (C_AmxMatfp, M_AmxMatfp, F_AppleAmx),
     (C_AmxGenlut, M_AmxGenlut, F_AppleAmx), (C_Genter, M_Genter, F_Gxf), (C_Gexit, M_Gexit, F_Gxf)]"

definition code_blocks :: "(code \<times> mnemonic \<times> feature) list list" where
  "code_blocks =
    [code_rows_0, code_rows_1, code_rows_2, code_rows_3, code_rows_4, code_rows_5, code_rows_6, code_rows_7, 
     code_rows_8, code_rows_9, code_rows_10, code_rows_11, code_rows_12, code_rows_13, code_rows_14, code_rows_15, 
     code_rows_16, code_rows_17, code_rows_18, code_rows_19, code_rows_20, code_rows_21, code_rows_22, code_rows_23, 
     code_rows_24, code_rows_25, code_rows_26, code_rows_27, code_rows_28, code_rows_29, code_rows_30, code_rows_31, 
     code_rows_32, code_rows_33, code_rows_34, code_rows_35, code_rows_36, code_rows_37, code_rows_38, code_rows_39, 
     code_rows_40, code_rows_41, code_rows_42, code_rows_43, code_rows_44, code_rows_45, code_rows_46]"

definition declared_code :: "code \<Rightarrow> bool" where
  "declared_code c \<longleftrightarrow> code_disc c < 2979"

definition code_from_u16 :: "u16 \<Rightarrow> code option" where
  "code_from_u16 v = (let index = unat v in if index < 2979 then Some (Code index) else None)"

definition code_row :: "code \<Rightarrow> code \<times> mnemonic \<times> feature" where
  "code_row c = code_blocks ! (code_disc c div 64) ! (code_disc c mod 64)"

definition code_mnemonic :: "code \<Rightarrow> mnemonic" where
  "code_mnemonic c = fst (snd (code_row c))"

definition code_feature :: "code \<Rightarrow> feature" where
  "code_feature c = snd (snd (code_row c))"

definition is_base :: "code \<Rightarrow> bool" where
  "is_base c \<longleftrightarrow> code_feature c = F_Base"

section \<open>The rows stand in the order of the discriminants\<close>

text \<open>One evaluation per block shows that its rows are numbered consecutively and name declared mnemonics and features.\<close>

definition rows_ok :: "nat \<Rightarrow> nat \<Rightarrow> (code \<times> mnemonic \<times> feature) list \<Rightarrow> bool" where
  "rows_ok d n rs \<longleftrightarrow>
     map fst rs = map Code [d..<d + n] \<and> list_all (\<lambda>(c, m, f). declared_mnemonic m \<and> declared_feature f) rs"

lemmas rows_ok_eval = rows_ok_def upt_rec declared_mnemonic_def declared_feature_def

lemma rows_ok_0: "rows_ok 0 64 code_rows_0"
  by (simp add: code_rows_0_def rows_ok_eval)
lemma rows_ok_1: "rows_ok 64 64 code_rows_1"
  by (simp add: code_rows_1_def rows_ok_eval)
lemma rows_ok_2: "rows_ok 128 64 code_rows_2"
  by (simp add: code_rows_2_def rows_ok_eval)
lemma rows_ok_3: "rows_ok 192 64 code_rows_3"
  by (simp add: code_rows_3_def rows_ok_eval)
lemma rows_ok_4: "rows_ok 256 64 code_rows_4"
  by (simp add: code_rows_4_def rows_ok_eval)
lemma rows_ok_5: "rows_ok 320 64 code_rows_5"
  by (simp add: code_rows_5_def rows_ok_eval)
lemma rows_ok_6: "rows_ok 384 64 code_rows_6"
  by (simp add: code_rows_6_def rows_ok_eval)
lemma rows_ok_7: "rows_ok 448 64 code_rows_7"
  by (simp add: code_rows_7_def rows_ok_eval)
lemma rows_ok_8: "rows_ok 512 64 code_rows_8"
  by (simp add: code_rows_8_def rows_ok_eval)
lemma rows_ok_9: "rows_ok 576 64 code_rows_9"
  by (simp add: code_rows_9_def rows_ok_eval)
lemma rows_ok_10: "rows_ok 640 64 code_rows_10"
  by (simp add: code_rows_10_def rows_ok_eval)
lemma rows_ok_11: "rows_ok 704 64 code_rows_11"
  by (simp add: code_rows_11_def rows_ok_eval)
lemma rows_ok_12: "rows_ok 768 64 code_rows_12"
  by (simp add: code_rows_12_def rows_ok_eval)
lemma rows_ok_13: "rows_ok 832 64 code_rows_13"
  by (simp add: code_rows_13_def rows_ok_eval)
lemma rows_ok_14: "rows_ok 896 64 code_rows_14"
  by (simp add: code_rows_14_def rows_ok_eval)
lemma rows_ok_15: "rows_ok 960 64 code_rows_15"
  by (simp add: code_rows_15_def rows_ok_eval)
lemma rows_ok_16: "rows_ok 1024 64 code_rows_16"
  by (simp add: code_rows_16_def rows_ok_eval)
lemma rows_ok_17: "rows_ok 1088 64 code_rows_17"
  by (simp add: code_rows_17_def rows_ok_eval)
lemma rows_ok_18: "rows_ok 1152 64 code_rows_18"
  by (simp add: code_rows_18_def rows_ok_eval)
lemma rows_ok_19: "rows_ok 1216 64 code_rows_19"
  by (simp add: code_rows_19_def rows_ok_eval)
lemma rows_ok_20: "rows_ok 1280 64 code_rows_20"
  by (simp add: code_rows_20_def rows_ok_eval)
lemma rows_ok_21: "rows_ok 1344 64 code_rows_21"
  by (simp add: code_rows_21_def rows_ok_eval)
lemma rows_ok_22: "rows_ok 1408 64 code_rows_22"
  by (simp add: code_rows_22_def rows_ok_eval)
lemma rows_ok_23: "rows_ok 1472 64 code_rows_23"
  by (simp add: code_rows_23_def rows_ok_eval)
lemma rows_ok_24: "rows_ok 1536 64 code_rows_24"
  by (simp add: code_rows_24_def rows_ok_eval)
lemma rows_ok_25: "rows_ok 1600 64 code_rows_25"
  by (simp add: code_rows_25_def rows_ok_eval)
lemma rows_ok_26: "rows_ok 1664 64 code_rows_26"
  by (simp add: code_rows_26_def rows_ok_eval)
lemma rows_ok_27: "rows_ok 1728 64 code_rows_27"
  by (simp add: code_rows_27_def rows_ok_eval)
lemma rows_ok_28: "rows_ok 1792 64 code_rows_28"
  by (simp add: code_rows_28_def rows_ok_eval)
lemma rows_ok_29: "rows_ok 1856 64 code_rows_29"
  by (simp add: code_rows_29_def rows_ok_eval)
lemma rows_ok_30: "rows_ok 1920 64 code_rows_30"
  by (simp add: code_rows_30_def rows_ok_eval)
lemma rows_ok_31: "rows_ok 1984 64 code_rows_31"
  by (simp add: code_rows_31_def rows_ok_eval)
lemma rows_ok_32: "rows_ok 2048 64 code_rows_32"
  by (simp add: code_rows_32_def rows_ok_eval)
lemma rows_ok_33: "rows_ok 2112 64 code_rows_33"
  by (simp add: code_rows_33_def rows_ok_eval)
lemma rows_ok_34: "rows_ok 2176 64 code_rows_34"
  by (simp add: code_rows_34_def rows_ok_eval)
lemma rows_ok_35: "rows_ok 2240 64 code_rows_35"
  by (simp add: code_rows_35_def rows_ok_eval)
lemma rows_ok_36: "rows_ok 2304 64 code_rows_36"
  by (simp add: code_rows_36_def rows_ok_eval)
lemma rows_ok_37: "rows_ok 2368 64 code_rows_37"
  by (simp add: code_rows_37_def rows_ok_eval)
lemma rows_ok_38: "rows_ok 2432 64 code_rows_38"
  by (simp add: code_rows_38_def rows_ok_eval)
lemma rows_ok_39: "rows_ok 2496 64 code_rows_39"
  by (simp add: code_rows_39_def rows_ok_eval)
lemma rows_ok_40: "rows_ok 2560 64 code_rows_40"
  by (simp add: code_rows_40_def rows_ok_eval)
lemma rows_ok_41: "rows_ok 2624 64 code_rows_41"
  by (simp add: code_rows_41_def rows_ok_eval)
lemma rows_ok_42: "rows_ok 2688 64 code_rows_42"
  by (simp add: code_rows_42_def rows_ok_eval)
lemma rows_ok_43: "rows_ok 2752 64 code_rows_43"
  by (simp add: code_rows_43_def rows_ok_eval)
lemma rows_ok_44: "rows_ok 2816 64 code_rows_44"
  by (simp add: code_rows_44_def rows_ok_eval)
lemma rows_ok_45: "rows_ok 2880 64 code_rows_45"
  by (simp add: code_rows_45_def rows_ok_eval)
lemma rows_ok_46: "rows_ok 2944 35 code_rows_46"
  by (simp add: code_rows_46_def rows_ok_eval)

lemma rows_ok_nth:
  assumes "rows_ok d n rs" "i < n"
  shows "fst (rs ! i) = Code (d + i)" "declared_mnemonic (fst (snd (rs ! i)))" "declared_feature (snd (snd (rs ! i)))"
proof -
  have m: "map fst rs = map Code [d..<d + n]" and a: "list_all (\<lambda>(c, m, f). declared_mnemonic m \<and> declared_feature f) rs"
    using assms(1) by (simp_all add: rows_ok_def)
  from m have l: "length rs = n" by (metis length_map length_upt add_diff_cancel_left')
  then show "fst (rs ! i) = Code (d + i)"
    using m assms(2) nth_map [of i rs fst] by simp
  have "(\<lambda>(c, m, f). declared_mnemonic m \<and> declared_feature f) (rs ! i)"
    using a assms(2) l by (simp add: list_all_length)
  then show "declared_mnemonic (fst (snd (rs ! i)))" "declared_feature (snd (snd (rs ! i)))"
    by (simp_all add: case_prod_beta)
qed

text \<open>All but the last block have 64 rows.\<close>

lemma code_blocks_ok:
  "list_all2 (\<lambda>(d, n) rs. rows_ok d n rs)
     (map (\<lambda>b. (64 * b, if b < 46 then 64 else 35)) [0..<47]) code_blocks"
  by (simp add: code_blocks_def upt_rec
    rows_ok_0 rows_ok_1 rows_ok_2 rows_ok_3 rows_ok_4 rows_ok_5 rows_ok_6 rows_ok_7 rows_ok_8 rows_ok_9
    rows_ok_10 rows_ok_11 rows_ok_12 rows_ok_13 rows_ok_14 rows_ok_15 rows_ok_16 rows_ok_17 rows_ok_18 rows_ok_19
    rows_ok_20 rows_ok_21 rows_ok_22 rows_ok_23 rows_ok_24 rows_ok_25 rows_ok_26 rows_ok_27 rows_ok_28 rows_ok_29
    rows_ok_30 rows_ok_31 rows_ok_32 rows_ok_33 rows_ok_34 rows_ok_35 rows_ok_36 rows_ok_37 rows_ok_38 rows_ok_39
    rows_ok_40 rows_ok_41 rows_ok_42 rows_ok_43 rows_ok_44 rows_ok_45 rows_ok_46)

lemma code_row_ok:
  assumes "declared_code c"
  shows "fst (code_row c) = c" "declared_mnemonic (code_mnemonic c)" "declared_feature (code_feature c)"
proof -
  define b i where "b = code_disc c div 64" and "i = code_disc c mod 64"
  have d: "code_disc c = 64 * b + i" and i: "i < 64" by (simp_all add: b_def i_def)
  have lt: "64 * b + i < 2979" using assms by (simp add: declared_code_def flip: d)
  have b: "b < 47" using lt by linarith
  have ok: "rows_ok (64 * b) (if b < 46 then 64 else 35) (code_blocks ! b)"
    using list_all2_nthD [OF code_blocks_ok, of b] b by (simp del: upt_rec_numeral upt_Suc)
  have n: "i < (if b < 46 then 64 else 35)" using i lt b by auto
  have row: "code_row c = code_blocks ! b ! i" by (simp only: code_row_def b_def i_def)
  show "fst (code_row c) = c" using rows_ok_nth(1) [OF ok n] d by (simp add: row code.expand)
  show "declared_mnemonic (code_mnemonic c)" "declared_feature (code_feature c)"
    using rows_ok_nth(2,3) [OF ok n] by (simp_all add: code_mnemonic_def code_feature_def row)
qed

lemma code_from_u16_declared: "code_from_u16 v = Some c \<longleftrightarrow> declared_code c \<and> code_disc c = unat v"
  by (cases c) (auto simp: code_from_u16_def declared_code_def Let_def)

end
