(* ===== verification/Registers.thy ===== *)
theory Registers
  imports Prelude
begin

text \<open>
  \<open>src/register.rs\<close>: the register file.  The Rust enum lists its 344 variants in blocks of consecutive
  discriminants; the model has one constructor per block, indexed by the register number, which is a bijection:
  \<^item> \<open>RW n\<close> is \<open>W0\<close> to \<open>W30\<close> for \<open>n < 31\<close>, and \<open>RW 31\<close> is the next variant, \<open>Wzr\<close>; \<open>Wsp\<close> is \<open>RWsp\<close>;
    \<open>RX n\<close>, \<open>Xzr = RX 31\<close> and \<open>RSp\<close> are the 64-bit views in the same way;
  \<^item> \<open>RB\<close>, \<open>RH\<close>, \<open>RS\<close>, \<open>RD\<close>, \<open>RQ\<close> are the scalar floating-point views, \<open>RV\<close> the vectors, \<open>RZ\<close> the scalable
    vectors, \<open>RP\<close> the 16 predicates, \<open>RPf\<close> the prefetch slots; the rest are single variants.
  The order of the enum (it derives \<open>Ord\<close>) is that of the discriminants.
\<close>

datatype (plugins del: quickcheck_random quickcheck_exhaustive quickcheck_narrowing quickcheck_bounded_forall quickcheck_full_exhaustive) register =
    RNone
  | RW u5 | RWsp
  | RX u5 | RSp
  | RB u5 | RH u5 | RS u5 | RD u5 | RQ u5
  | RV u5 | RZ u5 | RP u4 | RPf u5
  | RZt0 | RNzcv | RFfr | RZa | RPc

abbreviation "RWzr \<equiv> RW 31"
abbreviation "RXzr \<equiv> RX 31"

datatype reg_class =
    ClassNone | ClassGp | ClassScalarFp | ClassVector | ClassSve | ClassPredicate | ClassPrefetch
  | ClassZtLut | ClassSpecial

datatype reg_width = W32 | X64

section \<open>Accessors\<close>

primrec width_bits :: "register \<Rightarrow> nat" where
  "width_bits RNone = 0"
| "width_bits (RW n) = 32" | "width_bits RWsp = 32"
| "width_bits (RX n) = 64" | "width_bits RSp = 64"
| "width_bits (RB n) = 8" | "width_bits (RH n) = 16" | "width_bits (RS n) = 32"
| "width_bits (RD n) = 64" | "width_bits (RQ n) = 128" | "width_bits (RV n) = 128"
| "width_bits (RZ n) = 0" | "width_bits (RP m) = 0" | "width_bits (RPf n) = 0"
| "width_bits RZt0 = 0" | "width_bits RNzcv = 4" | "width_bits RFfr = 0" | "width_bits RZa = 0"
| "width_bits RPc = 64"

primrec reg_number :: "register \<Rightarrow> u8" where
  "reg_number RNone = 0"
| "reg_number (RW n) = ucast n" | "reg_number RWsp = 31"
| "reg_number (RX n) = ucast n" | "reg_number RSp = 31"
| "reg_number (RB n) = ucast n" | "reg_number (RH n) = ucast n" | "reg_number (RS n) = ucast n"
| "reg_number (RD n) = ucast n" | "reg_number (RQ n) = ucast n" | "reg_number (RV n) = ucast n"
| "reg_number (RZ n) = ucast n" | "reg_number (RP m) = ucast m" | "reg_number (RPf n) = ucast n"
| "reg_number RZt0 = 0" | "reg_number RNzcv = 0" | "reg_number RFfr = 0" | "reg_number RZa = 0"
| "reg_number RPc = 0"

fun as_x :: "register \<Rightarrow> register" where
  "as_x (RW n) = RX n"
| "as_x RWsp = RSp"
| "as_x other = other"

fun as_w :: "register \<Rightarrow> register" where
  "as_w (RX n) = RW n"
| "as_w RSp = RWsp"
| "as_w other = other"

primrec register_class :: "register \<Rightarrow> reg_class" where
  "register_class RNone = ClassNone"
| "register_class (RW n) = ClassGp" | "register_class RWsp = ClassGp"
| "register_class (RX n) = ClassGp" | "register_class RSp = ClassGp"
| "register_class (RB n) = ClassScalarFp" | "register_class (RH n) = ClassScalarFp" | "register_class (RS n) = ClassScalarFp"
| "register_class (RD n) = ClassScalarFp" | "register_class (RQ n) = ClassScalarFp"
| "register_class (RV n) = ClassVector" | "register_class (RZ n) = ClassSve" | "register_class (RP m) = ClassPredicate"
| "register_class (RPf n) = ClassPrefetch" | "register_class RZt0 = ClassZtLut"
| "register_class RNzcv = ClassSpecial" | "register_class RFfr = ClassSpecial" | "register_class RZa = ClassSpecial"
| "register_class RPc = ClassSpecial"

text \<open>\<open>n % 32\<close> of a \<open>u8\<close> is the cast to five bits.\<close>

definition v_numbered :: "u8 \<Rightarrow> register" where
  "v_numbered n = RV (ucast n)"

definition sve_register :: "u8 \<Rightarrow> register" where
  "sve_register n = RZ (ucast n)"

definition full_register :: "register \<Rightarrow> register" where
  "full_register r =
     (case register_class r of
        ClassScalarFp \<Rightarrow> v_numbered (reg_number r)
      | ClassVector \<Rightarrow> v_numbered (reg_number r)
      | _ \<Rightarrow> r)"

definition is_simd :: "register \<Rightarrow> bool" where
  "is_simd r \<longleftrightarrow> register_class r = ClassScalarFp \<or> register_class r = ClassVector"

definition is_sve_register :: "register \<Rightarrow> bool" where
  "is_sve_register r \<longleftrightarrow> register_class r = ClassSve \<or> register_class r = ClassPredicate"

definition is_pseudo :: "register \<Rightarrow> bool" where
  "is_pseudo r \<longleftrightarrow> r \<in> {RNzcv, RFfr, RZa, RPc}"

section \<open>Resolving register 31\<close>

definition gp_x_numbered :: "u8 \<Rightarrow> register" where
  "gp_x_numbered n = (if n \<le> 30 then RX (ucast n) else RXzr)"

definition gp_register :: "bool \<Rightarrow> reg_width \<Rightarrow> u8 \<Rightarrow> register" where
  "gp_register use_sp width n =
     (let n = n mod 32
      in case width of
           W32 \<Rightarrow> if n = 31 then (if use_sp then RWsp else RWzr) else as_w (gp_x_numbered n)
         | X64 \<Rightarrow> if n = 31 then (if use_sp then RSp else RXzr) else gp_x_numbered n)"

lemma mod_32_u8: "(n :: u8) mod 32 = take_bit 5 n"
  by (simp add: take_bit_eq_mod)

lemma le_30_u8: "(n :: u8) mod 32 \<le> 30 \<longleftrightarrow> n mod 32 \<noteq> 31"
proof -
  have "unat (n mod 32) < 32" by (simp add: unat_mod)
  moreover have "n mod 32 = 31 \<longleftrightarrow> unat (n mod 32) = 31" by (simp add: word_unat_eq_iff)
  ultimately show ?thesis by (auto simp: word_le_nat_alt)
qed

text \<open>The closed form of \<open>gp_register\<close>: \<open>sp\<close> is chosen exactly when the field is 31 and the role asks for it.\<close>

lemma gp_register_eq:
  "gp_register use_sp width n =
     (if use_sp \<and> n mod 32 = 31 then (case width of W32 \<Rightarrow> RWsp | X64 \<Rightarrow> RSp)
      else (case width of W32 \<Rightarrow> RW (ucast n) | X64 \<Rightarrow> RX (ucast n)))"
proof -
  have "ucast (n mod 32) = (ucast n :: u5)"
    unfolding mod_32_u8 by (rule bit_word_eqI) (simp add: bit_simps)
  moreover have "n mod 32 = 31 \<Longrightarrow> (ucast n :: u5) = 31"
    using calculation by simp
  ultimately show ?thesis
    by (auto simp: gp_register_def Let_def gp_x_numbered_def le_30_u8 split: reg_width.splits)
qed

lemma ucast_5_8: "(ucast (ucast (n :: u8) :: u5) :: u8) = n AND 31"
proof -
  have "n AND 31 = take_bit 5 n" by (simp add: take_bit_eq_mask mask_eq_exp_minus_1)
  then show ?thesis by (auto intro!: bit_word_eqI simp: bit_simps)
qed

lemma reg_number_gp_register [simp]: "reg_number (gp_register use_sp width n) = n AND 31"
proof -
  have "n mod 32 = n AND 31" by (simp add: mod_32_u8 take_bit_eq_mask mask_eq_exp_minus_1)
  then show ?thesis
    by (auto simp: gp_register_eq ucast_5_8 split: reg_width.splits)
qed

lemma reg_number_less: "unat (reg_number r) < 32"
proof (cases r)
  case (RP m)
  have "unat m < 16" using unsigned_less [of m] by simp
  with RP show ?thesis by (simp add: unsigned_ucast_eq take_bit_nat_eq_self)
qed (simp_all add: unsigned_ucast_eq unsigned_less [THEN less_le_trans] take_bit_nat_eq_self)

lemma gp_register_class [simp]: "register_class (gp_register use_sp width n) = ClassGp"
  by (auto simp: gp_register_eq split: reg_width.splits)

lemma gp_register_width: "width_bits (gp_register use_sp width n) = (case width of W32 \<Rightarrow> 32 | X64 \<Rightarrow> 64)"
  by (auto simp: gp_register_eq split: reg_width.splits)

lemma reg_number_as_w [simp]: "reg_number (as_w r) = reg_number r"
  by (cases r rule: as_w.cases) simp_all

lemma reg_number_as_x [simp]: "reg_number (as_x r) = reg_number r"
  by (cases r rule: as_x.cases) simp_all

lemma as_w_as_x: "as_w (as_x r) = as_w r" and as_x_as_w: "as_x (as_w r) = as_x r"
  by (cases r; simp)+

lemma reg_number_v_numbered [simp]: "reg_number (v_numbered n) = n AND 31"
  by (simp add: v_numbered_def ucast_5_8)

lemma ucast_8_5 [simp]: "(ucast (ucast (n :: u5) :: u8) :: u5) = n"
  by (rule bit_word_eqI) (simp add: bit_simps)

lemma full_register_idem: "full_register (full_register r) = full_register r"
  by (cases r) (simp_all add: full_register_def v_numbered_def)

section \<open>The derived order\<close>

text \<open>The \<open>#[repr(u16)]\<close> discriminant of each variant.\<close>

primrec reg_disc :: "register \<Rightarrow> nat" where
  "reg_disc RNone = 0"
| "reg_disc (RW n) = 1 + unat n" | "reg_disc RWsp = 33"
| "reg_disc (RX n) = 34 + unat n" | "reg_disc RSp = 66"
| "reg_disc (RB n) = 67 + unat n" | "reg_disc (RH n) = 99 + unat n" | "reg_disc (RS n) = 131 + unat n"
| "reg_disc (RD n) = 163 + unat n" | "reg_disc (RQ n) = 195 + unat n" | "reg_disc (RV n) = 227 + unat n"
| "reg_disc (RZ n) = 259 + unat n" | "reg_disc (RP m) = 291 + unat m" | "reg_disc (RPf n) = 307 + unat n"
| "reg_disc RZt0 = 339" | "reg_disc RNzcv = 340" | "reg_disc RFfr = 341" | "reg_disc RZa = 342"
| "reg_disc RPc = 343"

lemma unat_u5: "unat (n :: u5) < 32" and unat_u4: "unat (m :: u4) < 16"
  using unsigned_less [of n] unsigned_less [of m] by simp_all

definition reg_of_disc :: "nat \<Rightarrow> register" where
  "reg_of_disc d =
     (if d = 0 then RNone
      else if d \<le> 32 then RW (of_nat (d - 1)) else if d = 33 then RWsp
      else if d \<le> 65 then RX (of_nat (d - 34)) else if d = 66 then RSp
      else if d \<le> 98 then RB (of_nat (d - 67)) else if d \<le> 130 then RH (of_nat (d - 99))
      else if d \<le> 162 then RS (of_nat (d - 131)) else if d \<le> 194 then RD (of_nat (d - 163))
      else if d \<le> 226 then RQ (of_nat (d - 195)) else if d \<le> 258 then RV (of_nat (d - 227))
      else if d \<le> 290 then RZ (of_nat (d - 259)) else if d \<le> 306 then RP (of_nat (d - 291))
      else if d \<le> 338 then RPf (of_nat (d - 307))
      else if d = 339 then RZt0 else if d = 340 then RNzcv else if d = 341 then RFfr
      else if d = 342 then RZa else RPc)"

lemma reg_of_disc_disc [simp]: "reg_of_disc (reg_disc r) = r"
proof -
  have b: "unat (n :: u5) \<le> 31" "unat (m :: u4) \<le> 15" for n m
    using unat_u5 [of n] unat_u4 [of m] by auto
  show ?thesis
    using b by (cases r) (simp_all add: reg_of_disc_def)
qed

lemma reg_disc_inject: "reg_disc r = reg_disc s \<Longrightarrow> r = s"
  by (metis reg_of_disc_disc)

instantiation register :: linorder
begin

definition less_eq_register :: "register \<Rightarrow> register \<Rightarrow> bool" where
  "less_eq_register r s \<longleftrightarrow> reg_disc r \<le> reg_disc s"

definition less_register :: "register \<Rightarrow> register \<Rightarrow> bool" where
  "less_register r s \<longleftrightarrow> reg_disc r < reg_disc s"

instance
  by intro_classes (auto simp: less_eq_register_def less_register_def dest: reg_disc_inject)

end

end
