(* ===== verification/Operands.thy ===== *)
theory Operands
  imports Registers Enums
begin

text \<open>
  \<open>src/operand.rs\<close>: the operand of an instruction and its kind; \<open>src/sysreg.rs\<close> and \<open>src/sysop.rs\<close> for the two
  newtypes over \<open>u16\<close> that operands carry.

  \<^item> The variants of \<open>Operand\<close> keep their names behind the prefix \<open>Op\<close>, with the fields in the order of the source.
  \<^item> \<open>FpImm\<close> holds an \<open>f32\<close>; the model keeps its 32 bits, since the crate only moves the value.
  \<^item> Signed fields (\<open>i64\<close>, \<open>i32\<close>, \<open>i16\<close>) are words read in two's complement.
\<close>

datatype system_reg = SystemReg u16

datatype sys_token = SysToken u16

datatype mem_index_mode = MemOffset | MemPreIndex | MemPreNoOffset | MemPostImm | MemPostReg

datatype pred_qual = PredQualNone | PredQualZeroing | PredQualMerging

datatype sve_mem_mode =
    SveScalarImmMulVl | SveScalarImm | SveScalarImmDec | SveVecImm | SveVecScalar | SveScalarVec | SveVecVec

datatype slice_indicator = SliceNone | SliceHorizontal | SliceVertical

datatype (plugins only: code size) operand =
    OpNone
  | OpReg register "vector_arrangement option" "u8 option" "(shift_type \<times> u8) option" "extend_type option"
      "pred_qual option"
  | OpImmUnsigned u64
  | OpImmSigned i64
  | OpImmLogical u64
  | OpImmShiftedMove u16 u8
  | OpImmShiftedMsl u16 u8
  | OpFpImm u32
  | OpShiftAmount u8
  | OpLabel u64
  | OpCond condition
  | OpSysReg system_reg
  | OpSysOp sys_token
  | OpMemImm register i64 mem_index_mode
  | OpMemExt register register extend_type u8
  | OpMultiReg "register \<times> register \<times> register \<times> register" u8 "vector_arrangement option" "u8 option"
  | OpIndexedElement register "vector_arrangement option" register i64
  | OpSmeTile u16 slice_indicator
  | OpImplSpec "u8 list"
  | OpSvePattern u8
  | OpSveMul u8
  | OpImmSignedDec i64
  | OpSveMem register register "vector_arrangement option" extend_type u32 u8 sve_mem_mode
  | OpSmeTileSlice register slice_indicator "vector_arrangement option" register u16 bool
  | OpRegBang register
  | OpRegPair register register
  | OpSmeZaSlice "vector_arrangement option" register u8 u8 u8 u8 slice_indicator
  | OpSveVecGroup register u8 "vector_arrangement option" bool u8 "u8 option"
  | OpPredCounter register bool "vector_arrangement option" "u8 option"
  | OpVlMul u8
  | OpSmeZaMask u8 bool
  | OpSmeZt0Index u8 bool

datatype (plugins only: code size) op_kind =
    KindNone | KindRegister | KindImmUnsigned | KindImmSigned | KindImmLogical | KindImmShiftedMove
  | KindImmShiftedMsl | KindFpImm | KindShiftAmount | KindLabel | KindCond | KindSysReg | KindSysOp
  | KindMemImm | KindMemExt | KindMultiReg | KindIndexedElement | KindSmeTile | KindImplSpec
  | KindSvePattern | KindSveMul | KindImmSignedDec | KindSveMem | KindSmeTileSlice | KindRegBang
  | KindRegPair | KindSmeZaSlice | KindSveVecGroup | KindPredCounter | KindVlMul | KindSmeZaMask
  | KindSmeZt0Index

primrec operand_kind :: "operand \<Rightarrow> op_kind" where
  "operand_kind OpNone = KindNone"
| "operand_kind (OpReg r a l s e p) = KindRegister"
| "operand_kind (OpImmUnsigned v) = KindImmUnsigned"
| "operand_kind (OpImmSigned v) = KindImmSigned"
| "operand_kind (OpImmLogical v) = KindImmLogical"
| "operand_kind (OpImmShiftedMove i l) = KindImmShiftedMove"
| "operand_kind (OpImmShiftedMsl i l) = KindImmShiftedMsl"
| "operand_kind (OpFpImm f) = KindFpImm"
| "operand_kind (OpShiftAmount v) = KindShiftAmount"
| "operand_kind (OpLabel v) = KindLabel"
| "operand_kind (OpCond c) = KindCond"
| "operand_kind (OpSysReg s) = KindSysReg"
| "operand_kind (OpSysOp t) = KindSysOp"
| "operand_kind (OpMemImm b i m) = KindMemImm"
| "operand_kind (OpMemExt b i e s) = KindMemExt"
| "operand_kind (OpMultiReg rs c a l) = KindMultiReg"
| "operand_kind (OpIndexedElement r a i m) = KindIndexedElement"
| "operand_kind (OpSmeTile t s) = KindSmeTile"
| "operand_kind (OpImplSpec fs) = KindImplSpec"
| "operand_kind (OpSvePattern p) = KindSvePattern"
| "operand_kind (OpSveMul m) = KindSveMul"
| "operand_kind (OpImmSignedDec v) = KindImmSignedDec"
| "operand_kind (OpSveMem b off a e i amt m) = KindSveMem"
| "operand_kind (OpSmeTileSlice r s a sel i h) = KindSmeTileSlice"
| "operand_kind (OpRegBang r) = KindRegBang"
| "operand_kind (OpRegPair f s) = KindRegPair"
| "operand_kind (OpSmeZaSlice a sel off sp vg t s) = KindSmeZaSlice"
| "operand_kind (OpSveVecGroup f c a r s l) = KindSveVecGroup"
| "operand_kind (OpPredCounter r z a i) = KindPredCounter"
| "operand_kind (OpVlMul m) = KindVlMul"
| "operand_kind (OpSmeZaMask m z) = KindSmeZaMask"
| "operand_kind (OpSmeZt0Index i m) = KindSmeZt0Index"

text \<open>The plain register operand, which the decoders of every integer group build.\<close>

abbreviation OpPlainReg :: "register \<Rightarrow> operand" where
  "OpPlainReg r \<equiv> OpReg r None None None None None"

section \<open>System registers and system tokens\<close>

definition sysreg_from_fields :: "u8 \<Rightarrow> u8 \<Rightarrow> u8 \<Rightarrow> u8 \<Rightarrow> u8 \<Rightarrow> system_reg" where
  "sysreg_from_fields op0 op1 crn crm op2 =
     SystemReg
       (push_bit 14 (ucast op0 AND 0x3) OR push_bit 11 (ucast op1 AND 0x7) OR push_bit 7 (ucast crn AND 0xf) OR
        push_bit 3 (ucast crm AND 0xf) OR (ucast op2 AND 0x7))"

text \<open>The packed key and the field accessors.\<close>

primrec sysreg_packed :: "system_reg \<Rightarrow> u16" where
  "sysreg_packed (SystemReg v) = v"

definition sysreg_op0 :: "system_reg \<Rightarrow> u8" where
  "sysreg_op0 r = ucast (drop_bit 14 (sysreg_packed r) AND 0x3)"

definition sysreg_op1 :: "system_reg \<Rightarrow> u8" where
  "sysreg_op1 r = ucast (drop_bit 11 (sysreg_packed r) AND 0x7)"

definition sysreg_crn :: "system_reg \<Rightarrow> u8" where
  "sysreg_crn r = ucast (drop_bit 7 (sysreg_packed r) AND 0xf)"

definition sysreg_crm :: "system_reg \<Rightarrow> u8" where
  "sysreg_crm r = ucast (drop_bit 3 (sysreg_packed r) AND 0xf)"

definition sysreg_op2 :: "system_reg \<Rightarrow> u8" where
  "sysreg_op2 r = ucast (sysreg_packed r AND 0x7)"

lemmas sysreg_field_defs = sysreg_op0_def sysreg_op1_def sysreg_crn_def sysreg_crm_def sysreg_op2_def

lemma sysreg_masks:
  "(x :: u16) AND 0x3 = take_bit 2 x" "(x :: u16) AND 0x7 = take_bit 3 x" "(x :: u16) AND 0xf = take_bit 4 x"
  by (simp_all add: take_bit_eq_mask mask_eq_exp_minus_1)

lemma sysreg_fields_from_fields:
  "sysreg_op0 (sysreg_from_fields op0 op1 crn crm op2) = take_bit 2 op0"
  "sysreg_op1 (sysreg_from_fields op0 op1 crn crm op2) = take_bit 3 op1"
  "sysreg_crn (sysreg_from_fields op0 op1 crn crm op2) = take_bit 4 crn"
  "sysreg_crm (sysreg_from_fields op0 op1 crn crm op2) = take_bit 4 crm"
  "sysreg_op2 (sysreg_from_fields op0 op1 crn crm op2) = take_bit 3 op2"
  unfolding sysreg_field_defs sysreg_from_fields_def sysreg_packed.simps sysreg_masks
  by (rule bit_word_eqI; auto simp: bit_simps)+

lemma sysreg_from_own_fields:
  "sysreg_from_fields (sysreg_op0 r) (sysreg_op1 r) (sysreg_crn r) (sysreg_crm r) (sysreg_op2 r) = r"
proof (cases r)
  case (SystemReg v)
  have "push_bit 14 (take_bit 2 (drop_bit 14 v)) OR push_bit 11 (take_bit 3 (drop_bit 11 v)) OR
      push_bit 7 (take_bit 4 (drop_bit 7 v)) OR push_bit 3 (take_bit 4 (drop_bit 3 v)) OR take_bit 3 v = v"
    unfolding u16_eq_all_bits by (simp add: bit_simps)
  moreover have "take_bit k (ucast (ucast (take_bit k x) :: u8) :: u16) = take_bit k x" if "k \<le> 8" for k x
    using that by (intro bit_word_eqI) (auto simp: bit_simps)
  ultimately show ?thesis
    by (simp only: SystemReg sysreg_field_defs sysreg_from_fields_def sysreg_packed.simps sysreg_masks)
qed

end
