(* ===== verification/Insn.thy ===== *)
theory Insn
  imports Codes Operands
begin

text \<open>
  \<open>src/instruction.rs\<close>: the decoded instruction, its accessors, the construction methods of the decoders and the
  editing methods.

  \<^item> \<open>insn\<close> is \<open>struct Instruction\<close>; \<open>op_count\<close> is a \<open>nat\<close> here (a \<open>u8\<close> in Rust, at most \<open>MAX_OPERANDS\<close> by
    \<open>wf_insn\<close>), and the array \<open>operands\<close> is a list, of length \<open>MAX_OPERANDS\<close> by \<open>wf_insn\<close>.
  \<^item> A method on \<open>&mut self\<close> returns the new instruction; the editing methods return it with their \<open>bool\<close>.
  \<^item> A loop over \<open>operands[..op_count]\<close> that stops at its first hit is \<open>first_some\<close> (reading) or
    \<open>edit_first\<close> (writing).
\<close>

section \<open>The record\<close>

record insn =
  i_word :: u32
  i_ip :: u64
  i_code :: code
  i_mnemonic :: mnemonic
  i_op_count :: nat
  i_flags :: u8
  i_operands :: "operand list"

definition MAX_OPERANDS :: nat where
  "MAX_OPERANDS = 5"

definition INSN_LEN :: nat where
  "INSN_LEN = 4"

definition new_invalid :: "u32 \<Rightarrow> u64 \<Rightarrow> insn" where
  "new_invalid word ip =
     \<lparr>i_word = word, i_ip = ip, i_code = C_Invalid, i_mnemonic = M_Invalid, i_op_count = 0, i_flags = 0,
      i_operands = replicate MAX_OPERANDS OpNone\<rparr>"

definition insn_default :: insn where
  "insn_default = new_invalid 0 0"

definition wf_insn :: "insn \<Rightarrow> bool" where
  "wf_insn i \<longleftrightarrow>
     length (i_operands i) = MAX_OPERANDS \<and> i_op_count i \<le> MAX_OPERANDS \<and>
     list_all (\<lambda>op. op = OpNone) (drop (i_op_count i) (i_operands i))"

definition live_operands :: "insn \<Rightarrow> operand list" where
  "live_operands i = take (i_op_count i) (i_operands i)"

text \<open>The first \<open>Some\<close> of \<open>f\<close> along a list, and the list edited there: \<open>None\<close> of \<open>f\<close> skips an element,
  \<open>Some None\<close> gives up, \<open>Some (Some y)\<close> replaces the element and stops.\<close>

primrec first_some :: "('a \<Rightarrow> 'b option) \<Rightarrow> 'a list \<Rightarrow> 'b option" where
  "first_some f [] = None"
| "first_some f (x # xs) = (case f x of Some y \<Rightarrow> Some y | None \<Rightarrow> first_some f xs)"

primrec edit_first :: "('a \<Rightarrow> 'a option option) \<Rightarrow> 'a list \<Rightarrow> 'a list option" where
  "edit_first f [] = None"
| "edit_first f (x # xs) =
     (case f x of
        Some (Some y) \<Rightarrow> Some (y # xs)
      | Some None \<Rightarrow> None
      | None \<Rightarrow> map_option ((#) x) (edit_first f xs))"

section \<open>Accessors\<close>

definition insn_op_kind :: "insn \<Rightarrow> nat \<Rightarrow> op_kind" where
  "insn_op_kind i n = (if n < i_op_count i then operand_kind (i_operands i ! n) else KindNone)"

definition insn_op :: "insn \<Rightarrow> nat \<Rightarrow> operand" where
  "insn_op i n = (if n < i_op_count i then i_operands i ! n else OpNone)"

definition insn_op_register :: "insn \<Rightarrow> nat \<Rightarrow> register" where
  "insn_op_register i n = (case insn_op i n of OpReg reg _ _ _ _ _ \<Rightarrow> reg | _ \<Rightarrow> RNone)"

definition insn_op_immediate :: "insn \<Rightarrow> nat \<Rightarrow> u64" where
  "insn_op_immediate i n =
     (case insn_op i n of
        OpImmUnsigned v \<Rightarrow> v
      | OpImmLogical v \<Rightarrow> v
      | OpImmSigned v \<Rightarrow> v
      | OpLabel v \<Rightarrow> v
      | _ \<Rightarrow> 0)"

definition insn_next_ip :: "insn \<Rightarrow> u64" where
  "insn_next_ip i = i_ip i + of_nat INSN_LEN"

definition insn_is_invalid :: "insn \<Rightarrow> bool" where
  "insn_is_invalid i \<longleftrightarrow> i_code i = C_Invalid"

definition insn_flow_control :: "insn \<Rightarrow> flow_control" where
  "insn_flow_control i =
     (let m = i_mnemonic i
      in if m = M_B then
           (if i_code i = C_BCond then FlowConditionalBranch else FlowUnconditionalBranch)
         else if m = M_Bc then FlowConditionalBranch
         else if m \<in> {M_Cbz, M_Cbnz, M_Tbz, M_Tbnz} then FlowConditionalBranch
         else if m \<in> {M_Cbgt, M_Cbge, M_Cbhi, M_Cbhs, M_Cbeq, M_Cbne, M_Cblt, M_Cblo, M_Cbbgt, M_Cbbge, M_Cbbhi,
                       M_Cbbhs, M_Cbbeq, M_Cbbne, M_Cbhgt, M_Cbhge, M_Cbhhi, M_Cbhhs, M_Cbheq, M_Cbhne} then
           FlowConditionalBranch
         else if m = M_Bl then FlowCall
         else if m \<in> {M_Blr, M_Blraa, M_Blraaz, M_Blrab, M_Blrabz} then FlowIndirectCall
         else if m \<in> {M_Br, M_Braa, M_Braaz, M_Brab, M_Brabz} then FlowIndirectBranch
         else if m \<in> {M_Ret, M_Retaa, M_Retab, M_Eret, M_Eretaa, M_Eretab, M_Drps} then FlowReturn
         else if m \<in> {M_Retaasppc, M_Retabsppc, M_Retaasppcr, M_Retabsppcr} then FlowReturn
         else if m \<in> {M_Svc, M_Hvc, M_Smc, M_Brk, M_Hlt, M_Dcps1, M_Dcps2, M_Dcps3} then FlowException
         else FlowNext)"

definition insn_set_flags :: "insn \<Rightarrow> flag_effect" where
  "insn_set_flags i =
     (let m = i_mnemonic i
      in if m \<in> {M_Adds, M_Subs, M_Adcs, M_Sbcs, M_Ands, M_Bics, M_Negs, M_Ngcs, M_Cmp, M_Cmn, M_Tst, M_Ccmp, M_Ccmn}
         then FlagsSetsNormal
         else if m \<in> {M_Fcmp, M_Fcmpe, M_Fccmp, M_Fccmpe} then FlagsSetsFloat
         else if m \<in> {M_Rmif, M_Setf8, M_Setf16, M_Cfinv, M_Axflag, M_Xaflag, M_Rdffrs} then FlagsSets
         else FlagsNone)"

definition has_direct_target :: "insn \<Rightarrow> bool" where
  "has_direct_target i \<longleftrightarrow>
     insn_flow_control i \<in> {FlowConditionalBranch, FlowUnconditionalBranch, FlowCall}"

definition the_default :: "'a \<Rightarrow> 'a option \<Rightarrow> 'a" where
  "the_default d x = (case x of None \<Rightarrow> d | Some y \<Rightarrow> y)"


definition insn_near_branch_target :: "insn \<Rightarrow> u64" where
  "insn_near_branch_target i =
     (if has_direct_target i
      then the_default 0 (first_some (\<lambda>op. case op of OpLabel t \<Rightarrow> Some t | _ \<Rightarrow> None) (live_operands i))
      else 0)"

definition insn_condition :: "insn \<Rightarrow> condition option" where
  "insn_condition i =
     (case first_some (\<lambda>op. case op of OpCond c \<Rightarrow> Some c | _ \<Rightarrow> None) (live_operands i) of
        Some c \<Rightarrow> Some c
      | None \<Rightarrow>
         (let m = i_mnemonic i
          in if m \<in> {M_Cbgt, M_Cbbgt, M_Cbhgt} then Some CondGt
             else if m \<in> {M_Cbge, M_Cbbge, M_Cbhge} then Some CondGe
             else if m \<in> {M_Cbhi, M_Cbbhi, M_Cbhhi} then Some CondHi
             else if m \<in> {M_Cbhs, M_Cbbhs, M_Cbhhs} then Some CondCs
             else if m \<in> {M_Cbeq, M_Cbbeq, M_Cbheq} then Some CondEq
             else if m \<in> {M_Cbne, M_Cbbne, M_Cbhne} then Some CondNe
             else if m = M_Cblt then Some CondLt
             else if m = M_Cblo then Some CondCc
             else None))"

definition insn_memory_base :: "insn \<Rightarrow> register" where
  "insn_memory_base i =
     the_default RNone
       (first_some (\<lambda>op. case op of OpMemImm b _ _ \<Rightarrow> Some b | OpMemExt b _ _ _ \<Rightarrow> Some b | _ \<Rightarrow> None) (live_operands i))"

definition insn_memory_index :: "insn \<Rightarrow> register" where
  "insn_memory_index i =
     the_default RNone (first_some (\<lambda>op. case op of OpMemExt _ x _ _ \<Rightarrow> Some x | _ \<Rightarrow> None) (live_operands i))"

definition insn_memory_index_scale :: "insn \<Rightarrow> u32" where
  "insn_memory_index_scale i =
     the_default 0
       (first_some (\<lambda>op. case op of OpMemExt _ _ _ s \<Rightarrow> Some (ucast (s AND 0x7f)) | _ \<Rightarrow> None) (live_operands i))"

definition insn_memory_displacement64 :: "insn \<Rightarrow> i64" where
  "insn_memory_displacement64 i =
     the_default 0 (first_some (\<lambda>op. case op of OpMemImm _ m _ \<Rightarrow> Some m | _ \<Rightarrow> None) (live_operands i))"

section \<open>Construction\<close>

definition insn_set :: "code \<Rightarrow> insn \<Rightarrow> insn" where
  "insn_set c i =
     i\<lparr>i_code := c, i_mnemonic := code_mnemonic c, i_op_count := 0, i_operands := replicate MAX_OPERANDS OpNone\<rparr>"

definition set_alias :: "mnemonic \<Rightarrow> insn \<Rightarrow> insn" where
  "set_alias m i = i\<lparr>i_mnemonic := m\<rparr>"

definition push_operand :: "operand \<Rightarrow> insn \<Rightarrow> insn" where
  "push_operand op i =
     (let k = i_op_count i
      in if k < MAX_OPERANDS then i\<lparr>i_operands := (i_operands i)[k := op], i_op_count := k + 1\<rparr> else i)"

text \<open>The shape of everything a decoder builds from \<open>out\<close>: a code, a mnemonic and the list of its operands.\<close>

definition built :: "insn \<Rightarrow> code \<Rightarrow> mnemonic \<Rightarrow> operand list \<Rightarrow> insn" where
  "built out c m ops =
     out\<lparr>i_code := c, i_mnemonic := m, i_op_count := length ops,
         i_operands := ops @ replicate (MAX_OPERANDS - length ops) OpNone\<rparr>"

lemma insn_set_built [simp]: "insn_set c out = built out c (code_mnemonic c) []"
  by (simp add: insn_set_def built_def)

lemma set_alias_built [simp]: "set_alias m (built out c m' ops) = built out c m ops"
  by (simp add: set_alias_def built_def)

lemma push_operand_built [simp]:
  "length ops < 5 \<Longrightarrow> push_operand op (built out c m ops) = built out c m (ops @ [op])"
proof -
  assume l: "length ops < 5"
  then obtain k where "5 - length ops = Suc k" by (metis Suc_diff_Suc)
  then show ?thesis
    using l by (simp add: push_operand_def built_def MAX_OPERANDS_def list_update_append)
qed

lemma built_fields [simp]:
  "i_code (built out c m ops) = c"
  "i_mnemonic (built out c m ops) = m"
  "i_ip (built out c m ops) = i_ip out"
  "i_word (built out c m ops) = i_word out"
  "i_flags (built out c m ops) = i_flags out"
  "i_op_count (built out c m ops) = length ops"
  by (simp_all add: built_def)

lemma insn_op_built [simp]: "insn_op (built out c m ops) n = (if n < length ops then ops ! n else OpNone)"
  by (simp add: insn_op_def built_def nth_append)

lemma live_built [simp]: "live_operands (built out c m ops) = ops"
  by (simp add: live_operands_def built_def)

lemma wf_built [simp]: "length ops \<le> 5 \<Longrightarrow> wf_insn (built out c m ops)"
  by (auto simp: wf_insn_def built_def MAX_OPERANDS_def list_all_iff)

lemma wf_new_invalid [simp]: "wf_insn (new_invalid w ip)"
  by (simp add: wf_insn_def new_invalid_def MAX_OPERANDS_def list_all_iff)

lemma insn_op_live: "wf_insn i \<Longrightarrow> insn_op i n = (if n < length (live_operands i) then live_operands i ! n else OpNone)"
  by (auto simp: insn_op_def live_operands_def wf_insn_def)

text \<open>A well-formed instruction is determined by its header and its live operands.\<close>

lemma wf_insn_eq_built: "wf_insn i \<Longrightarrow> i = built i (i_code i) (i_mnemonic i) (live_operands i)"
proof -
  assume wf: "wf_insn i"
  then have "drop (i_op_count i) (i_operands i) = replicate (MAX_OPERANDS - i_op_count i) OpNone"
    by (intro replicate_eqI) (auto simp: wf_insn_def list_all_iff)
  then have "i_operands i = live_operands i @ replicate (MAX_OPERANDS - i_op_count i) OpNone"
    by (metis append_take_drop_id live_operands_def)
  moreover have "length (live_operands i) = i_op_count i" using wf by (auto simp: live_operands_def wf_insn_def)
  ultimately show ?thesis by (simp add: built_def)
qed

end
