(* ===== verification/Code_Facts.thy ===== *)
theory Code_Facts
  imports Codes
begin

text \<open>
  The rows of the encodings that the modelled groups produce, evaluated from the table of \<open>Codes\<close>: for each group, the
  mnemonic of each of its codes and the codes that an extension gates.  \<open>code_eval\<close> is the common evaluation.
\<close>

lemmas code_eval = code_mnemonic_def code_feature_def code_row_def code_blocks_def

lemma invalid_rows_0_0 [simp]:
  "code_mnemonic C_Invalid = M_Invalid"
  "code_feature C_Invalid = F_Base"
  by (simp_all add: code_eval code_rows_0_def)

section \<open>Group \<open>dp_imm\<close>\<close>

lemma dp_imm_rows_0_0 [simp]:
  "code_mnemonic C_Adr = M_Adr"
  "code_mnemonic C_Adrp = M_Adrp"
  "code_mnemonic C_AddImm32 = M_Add"
  "code_mnemonic C_AddImm64 = M_Add"
  "code_mnemonic C_AddsImm32 = M_Adds"
  "code_mnemonic C_AddsImm64 = M_Adds"
  "code_mnemonic C_SubImm32 = M_Sub"
  "code_mnemonic C_SubImm64 = M_Sub"
  "code_mnemonic C_SubsImm32 = M_Subs"
  "code_mnemonic C_SubsImm64 = M_Subs"
  "code_mnemonic C_AddgImm = M_Addg"
  "code_mnemonic C_SubgImm = M_Subg"
  "code_mnemonic C_AndImm32 = M_And"
  "code_mnemonic C_AndImm64 = M_And"
  "code_mnemonic C_OrrImm32 = M_Orr"
  "code_mnemonic C_OrrImm64 = M_Orr"
  "code_feature C_Adr = F_Base"
  "code_feature C_Adrp = F_Base"
  "code_feature C_AddImm32 = F_Base"
  "code_feature C_AddImm64 = F_Base"
  "code_feature C_AddsImm32 = F_Base"
  "code_feature C_AddsImm64 = F_Base"
  "code_feature C_SubImm32 = F_Base"
  "code_feature C_SubImm64 = F_Base"
  "code_feature C_SubsImm32 = F_Base"
  "code_feature C_SubsImm64 = F_Base"
  "code_feature C_AddgImm = F_Mte"
  "code_feature C_SubgImm = F_Mte"
  "code_feature C_AndImm32 = F_Base"
  "code_feature C_AndImm64 = F_Base"
  "code_feature C_OrrImm32 = F_Base"
  "code_feature C_OrrImm64 = F_Base"
  by (simp_all add: code_eval code_rows_0_def)

lemma dp_imm_rows_0_1 [simp]:
  "code_mnemonic C_EorImm32 = M_Eor"
  "code_mnemonic C_EorImm64 = M_Eor"
  "code_mnemonic C_AndsImm32 = M_Ands"
  "code_mnemonic C_AndsImm64 = M_Ands"
  "code_mnemonic C_Movn32 = M_Movn"
  "code_mnemonic C_Movn64 = M_Movn"
  "code_mnemonic C_Movz32 = M_Movz"
  "code_mnemonic C_Movz64 = M_Movz"
  "code_mnemonic C_Movk32 = M_Movk"
  "code_mnemonic C_Movk64 = M_Movk"
  "code_mnemonic C_Sbfm32 = M_Sbfm"
  "code_mnemonic C_Sbfm64 = M_Sbfm"
  "code_mnemonic C_Bfm32 = M_Bfm"
  "code_mnemonic C_Bfm64 = M_Bfm"
  "code_mnemonic C_Ubfm32 = M_Ubfm"
  "code_mnemonic C_Ubfm64 = M_Ubfm"
  "code_feature C_EorImm32 = F_Base"
  "code_feature C_EorImm64 = F_Base"
  "code_feature C_AndsImm32 = F_Base"
  "code_feature C_AndsImm64 = F_Base"
  "code_feature C_Movn32 = F_Base"
  "code_feature C_Movn64 = F_Base"
  "code_feature C_Movz32 = F_Base"
  "code_feature C_Movz64 = F_Base"
  "code_feature C_Movk32 = F_Base"
  "code_feature C_Movk64 = F_Base"
  "code_feature C_Sbfm32 = F_Base"
  "code_feature C_Sbfm64 = F_Base"
  "code_feature C_Bfm32 = F_Base"
  "code_feature C_Bfm64 = F_Base"
  "code_feature C_Ubfm32 = F_Base"
  "code_feature C_Ubfm64 = F_Base"
  by (simp_all add: code_eval code_rows_0_def)

lemma dp_imm_rows_0_2 [simp]:
  "code_mnemonic C_Extr32 = M_Extr"
  "code_mnemonic C_Extr64 = M_Extr"
  "code_feature C_Extr32 = F_Base"
  "code_feature C_Extr64 = F_Base"
  by (simp_all add: code_eval code_rows_0_def)

lemma dp_imm_rows_32_0 [simp]:
  "code_mnemonic C_SmaxImm32 = M_Smax"
  "code_mnemonic C_SmaxImm64 = M_Smax"
  "code_mnemonic C_SminImm32 = M_Smin"
  "code_mnemonic C_SminImm64 = M_Smin"
  "code_mnemonic C_UmaxImm32 = M_Umax"
  "code_mnemonic C_UmaxImm64 = M_Umax"
  "code_mnemonic C_UminImm32 = M_Umin"
  "code_mnemonic C_UminImm64 = M_Umin"
  "code_feature C_SmaxImm32 = F_Cssc"
  "code_feature C_SmaxImm64 = F_Cssc"
  "code_feature C_SminImm32 = F_Cssc"
  "code_feature C_SminImm64 = F_Cssc"
  "code_feature C_UmaxImm32 = F_Cssc"
  "code_feature C_UmaxImm64 = F_Cssc"
  "code_feature C_UminImm32 = F_Cssc"
  "code_feature C_UminImm64 = F_Cssc"
  by (simp_all add: code_eval code_rows_32_def)

section \<open>Group \<open>dp_reg\<close>\<close>

lemma dp_reg_rows_0_0 [simp]:
  "code_mnemonic C_OrrShifted32 = M_Orr"
  "code_feature C_OrrShifted32 = F_Base"
  by (simp_all add: code_eval code_rows_0_def)

lemma dp_reg_rows_1_0 [simp]:
  "code_mnemonic C_Pacga = M_Pacga"
  "code_feature C_Pacga = F_PAuth"
  by (simp_all add: code_eval code_rows_1_def)

lemma dp_reg_rows_7_0 [simp]:
  "code_mnemonic C_AndShifted32 = M_And"
  "code_feature C_AndShifted32 = F_Base"
  by (simp_all add: code_eval code_rows_7_def)

lemma dp_reg_rows_8_0 [simp]:
  "code_mnemonic C_AndShifted64 = M_And"
  "code_mnemonic C_BicShifted32 = M_Bic"
  "code_mnemonic C_BicShifted64 = M_Bic"
  "code_mnemonic C_OrrShifted64 = M_Orr"
  "code_mnemonic C_OrnShifted32 = M_Orn"
  "code_mnemonic C_OrnShifted64 = M_Orn"
  "code_mnemonic C_EorShifted32 = M_Eor"
  "code_mnemonic C_EorShifted64 = M_Eor"
  "code_mnemonic C_EonShifted32 = M_Eon"
  "code_mnemonic C_EonShifted64 = M_Eon"
  "code_mnemonic C_AndsShifted32 = M_Ands"
  "code_mnemonic C_AndsShifted64 = M_Ands"
  "code_mnemonic C_BicsShifted32 = M_Bics"
  "code_mnemonic C_BicsShifted64 = M_Bics"
  "code_mnemonic C_AddShifted32 = M_Add"
  "code_mnemonic C_AddShifted64 = M_Add"
  "code_feature C_AndShifted64 = F_Base"
  "code_feature C_BicShifted32 = F_Base"
  "code_feature C_BicShifted64 = F_Base"
  "code_feature C_OrrShifted64 = F_Base"
  "code_feature C_OrnShifted32 = F_Base"
  "code_feature C_OrnShifted64 = F_Base"
  "code_feature C_EorShifted32 = F_Base"
  "code_feature C_EorShifted64 = F_Base"
  "code_feature C_EonShifted32 = F_Base"
  "code_feature C_EonShifted64 = F_Base"
  "code_feature C_AndsShifted32 = F_Base"
  "code_feature C_AndsShifted64 = F_Base"
  "code_feature C_BicsShifted32 = F_Base"
  "code_feature C_BicsShifted64 = F_Base"
  "code_feature C_AddShifted32 = F_Base"
  "code_feature C_AddShifted64 = F_Base"
  by (simp_all add: code_eval code_rows_8_def)

lemma dp_reg_rows_8_1 [simp]:
  "code_mnemonic C_AddsShifted32 = M_Adds"
  "code_mnemonic C_AddsShifted64 = M_Adds"
  "code_mnemonic C_SubShifted32 = M_Sub"
  "code_mnemonic C_SubShifted64 = M_Sub"
  "code_mnemonic C_SubsShifted32 = M_Subs"
  "code_mnemonic C_SubsShifted64 = M_Subs"
  "code_mnemonic C_AddExtended32 = M_Add"
  "code_mnemonic C_AddExtended64 = M_Add"
  "code_mnemonic C_AddsExtended32 = M_Adds"
  "code_mnemonic C_AddsExtended64 = M_Adds"
  "code_mnemonic C_SubExtended32 = M_Sub"
  "code_mnemonic C_SubExtended64 = M_Sub"
  "code_mnemonic C_SubsExtended32 = M_Subs"
  "code_mnemonic C_SubsExtended64 = M_Subs"
  "code_mnemonic C_Adc32 = M_Adc"
  "code_mnemonic C_Adc64 = M_Adc"
  "code_feature C_AddsShifted32 = F_Base"
  "code_feature C_AddsShifted64 = F_Base"
  "code_feature C_SubShifted32 = F_Base"
  "code_feature C_SubShifted64 = F_Base"
  "code_feature C_SubsShifted32 = F_Base"
  "code_feature C_SubsShifted64 = F_Base"
  "code_feature C_AddExtended32 = F_Base"
  "code_feature C_AddExtended64 = F_Base"
  "code_feature C_AddsExtended32 = F_Base"
  "code_feature C_AddsExtended64 = F_Base"
  "code_feature C_SubExtended32 = F_Base"
  "code_feature C_SubExtended64 = F_Base"
  "code_feature C_SubsExtended32 = F_Base"
  "code_feature C_SubsExtended64 = F_Base"
  "code_feature C_Adc32 = F_Base"
  "code_feature C_Adc64 = F_Base"
  by (simp_all add: code_eval code_rows_8_def)

lemma dp_reg_rows_8_2 [simp]:
  "code_mnemonic C_Adcs32 = M_Adcs"
  "code_mnemonic C_Adcs64 = M_Adcs"
  "code_mnemonic C_Sbc32 = M_Sbc"
  "code_mnemonic C_Sbc64 = M_Sbc"
  "code_mnemonic C_Sbcs32 = M_Sbcs"
  "code_mnemonic C_Sbcs64 = M_Sbcs"
  "code_mnemonic C_CcmnReg32 = M_Ccmn"
  "code_mnemonic C_CcmnReg64 = M_Ccmn"
  "code_mnemonic C_CcmnImm32 = M_Ccmn"
  "code_mnemonic C_CcmnImm64 = M_Ccmn"
  "code_mnemonic C_CcmpReg32 = M_Ccmp"
  "code_mnemonic C_CcmpReg64 = M_Ccmp"
  "code_mnemonic C_CcmpImm32 = M_Ccmp"
  "code_mnemonic C_CcmpImm64 = M_Ccmp"
  "code_mnemonic C_Csel32 = M_Csel"
  "code_mnemonic C_Csel64 = M_Csel"
  "code_feature C_Adcs32 = F_Base"
  "code_feature C_Adcs64 = F_Base"
  "code_feature C_Sbc32 = F_Base"
  "code_feature C_Sbc64 = F_Base"
  "code_feature C_Sbcs32 = F_Base"
  "code_feature C_Sbcs64 = F_Base"
  "code_feature C_CcmnReg32 = F_Base"
  "code_feature C_CcmnReg64 = F_Base"
  "code_feature C_CcmnImm32 = F_Base"
  "code_feature C_CcmnImm64 = F_Base"
  "code_feature C_CcmpReg32 = F_Base"
  "code_feature C_CcmpReg64 = F_Base"
  "code_feature C_CcmpImm32 = F_Base"
  "code_feature C_CcmpImm64 = F_Base"
  "code_feature C_Csel32 = F_Base"
  "code_feature C_Csel64 = F_Base"
  by (simp_all add: code_eval code_rows_8_def)

lemma dp_reg_rows_8_3 [simp]:
  "code_mnemonic C_Csinc32 = M_Csinc"
  "code_mnemonic C_Csinc64 = M_Csinc"
  "code_mnemonic C_Csinv32 = M_Csinv"
  "code_mnemonic C_Csinv64 = M_Csinv"
  "code_mnemonic C_Csneg32 = M_Csneg"
  "code_mnemonic C_Csneg64 = M_Csneg"
  "code_mnemonic C_Rbit32 = M_Rbit"
  "code_mnemonic C_Rbit64 = M_Rbit"
  "code_mnemonic C_Rev1632 = M_Rev16"
  "code_mnemonic C_Rev1664 = M_Rev16"
  "code_mnemonic C_Rev3232 = M_Rev32"
  "code_mnemonic C_Rev3264 = M_Rev32"
  "code_mnemonic C_Clz32 = M_Clz"
  "code_mnemonic C_Clz64 = M_Clz"
  "code_mnemonic C_Cls32 = M_Cls"
  "code_mnemonic C_Cls64 = M_Cls"
  "code_feature C_Csinc32 = F_Base"
  "code_feature C_Csinc64 = F_Base"
  "code_feature C_Csinv32 = F_Base"
  "code_feature C_Csinv64 = F_Base"
  "code_feature C_Csneg32 = F_Base"
  "code_feature C_Csneg64 = F_Base"
  "code_feature C_Rbit32 = F_Base"
  "code_feature C_Rbit64 = F_Base"
  "code_feature C_Rev1632 = F_Base"
  "code_feature C_Rev1664 = F_Base"
  "code_feature C_Rev3232 = F_Base"
  "code_feature C_Rev3264 = F_Base"
  "code_feature C_Clz32 = F_Base"
  "code_feature C_Clz64 = F_Base"
  "code_feature C_Cls32 = F_Base"
  "code_feature C_Cls64 = F_Base"
  by (simp_all add: code_eval code_rows_8_def)

lemma dp_reg_rows_9_0 [simp]:
  "code_mnemonic C_Madd32 = M_Madd"
  "code_mnemonic C_Madd64 = M_Madd"
  "code_mnemonic C_Msub32 = M_Msub"
  "code_mnemonic C_Msub64 = M_Msub"
  "code_mnemonic C_Smaddl = M_Smaddl"
  "code_mnemonic C_Smsubl = M_Smsubl"
  "code_mnemonic C_Smulh = M_Smulh"
  "code_mnemonic C_Umaddl = M_Umaddl"
  "code_mnemonic C_Umsubl = M_Umsubl"
  "code_mnemonic C_Umulh = M_Umulh"
  "code_mnemonic C_Udiv32 = M_Udiv"
  "code_mnemonic C_Udiv64 = M_Udiv"
  "code_mnemonic C_Sdiv32 = M_Sdiv"
  "code_mnemonic C_Sdiv64 = M_Sdiv"
  "code_mnemonic C_Lslv32 = M_Lslv"
  "code_mnemonic C_Lslv64 = M_Lslv"
  "code_feature C_Madd32 = F_Base"
  "code_feature C_Madd64 = F_Base"
  "code_feature C_Msub32 = F_Base"
  "code_feature C_Msub64 = F_Base"
  "code_feature C_Smaddl = F_Base"
  "code_feature C_Smsubl = F_Base"
  "code_feature C_Smulh = F_Base"
  "code_feature C_Umaddl = F_Base"
  "code_feature C_Umsubl = F_Base"
  "code_feature C_Umulh = F_Base"
  "code_feature C_Udiv32 = F_Base"
  "code_feature C_Udiv64 = F_Base"
  "code_feature C_Sdiv32 = F_Base"
  "code_feature C_Sdiv64 = F_Base"
  "code_feature C_Lslv32 = F_Base"
  "code_feature C_Lslv64 = F_Base"
  by (simp_all add: code_eval code_rows_9_def)

lemma dp_reg_rows_9_1 [simp]:
  "code_mnemonic C_Lsrv32 = M_Lsrv"
  "code_mnemonic C_Lsrv64 = M_Lsrv"
  "code_mnemonic C_Asrv32 = M_Asrv"
  "code_mnemonic C_Asrv64 = M_Asrv"
  "code_mnemonic C_Rorv32 = M_Rorv"
  "code_mnemonic C_Rorv64 = M_Rorv"
  "code_mnemonic C_Crc32b = M_Crc32b"
  "code_mnemonic C_Crc32h = M_Crc32h"
  "code_mnemonic C_Crc32w = M_Crc32w"
  "code_mnemonic C_Crc32x = M_Crc32x"
  "code_mnemonic C_Crc32cb = M_Crc32cb"
  "code_mnemonic C_Crc32ch = M_Crc32ch"
  "code_mnemonic C_Crc32cw = M_Crc32cw"
  "code_mnemonic C_Crc32cx = M_Crc32cx"
  "code_mnemonic C_SubpDp = M_Subp"
  "code_mnemonic C_SubpsDp = M_Subps"
  "code_feature C_Lsrv32 = F_Base"
  "code_feature C_Lsrv64 = F_Base"
  "code_feature C_Asrv32 = F_Base"
  "code_feature C_Asrv64 = F_Base"
  "code_feature C_Rorv32 = F_Base"
  "code_feature C_Rorv64 = F_Base"
  "code_feature C_Crc32b = F_Base"
  "code_feature C_Crc32h = F_Base"
  "code_feature C_Crc32w = F_Base"
  "code_feature C_Crc32x = F_Base"
  "code_feature C_Crc32cb = F_Base"
  "code_feature C_Crc32ch = F_Base"
  "code_feature C_Crc32cw = F_Base"
  "code_feature C_Crc32cx = F_Base"
  "code_feature C_SubpDp = F_Mte"
  "code_feature C_SubpsDp = F_Mte"
  by (simp_all add: code_eval code_rows_9_def)

lemma dp_reg_rows_9_2 [simp]:
  "code_mnemonic C_IrgDp = M_Irg"
  "code_mnemonic C_GmiDp = M_Gmi"
  "code_mnemonic C_Rev32Bit = M_Rev"
  "code_mnemonic C_Rev64Bit = M_Rev"
  "code_mnemonic C_PaciaDp = M_Pacia"
  "code_mnemonic C_PacibDp = M_Pacib"
  "code_mnemonic C_PacdaDp = M_Pacda"
  "code_mnemonic C_PacdbDp = M_Pacdb"
  "code_mnemonic C_AutiaDp = M_Autia"
  "code_mnemonic C_AutibDp = M_Autib"
  "code_mnemonic C_AutdaDp = M_Autda"
  "code_mnemonic C_AutdbDp = M_Autdb"
  "code_mnemonic C_PacizaDp = M_Paciza"
  "code_mnemonic C_PacizbDp = M_Pacizb"
  "code_mnemonic C_PacdzaDp = M_Pacdza"
  "code_mnemonic C_PacdzbDp = M_Pacdzb"
  "code_feature C_IrgDp = F_Mte"
  "code_feature C_GmiDp = F_Mte"
  "code_feature C_Rev32Bit = F_Base"
  "code_feature C_Rev64Bit = F_Base"
  "code_feature C_PaciaDp = F_PAuth"
  "code_feature C_PacibDp = F_PAuth"
  "code_feature C_PacdaDp = F_PAuth"
  "code_feature C_PacdbDp = F_PAuth"
  "code_feature C_AutiaDp = F_PAuth"
  "code_feature C_AutibDp = F_PAuth"
  "code_feature C_AutdaDp = F_PAuth"
  "code_feature C_AutdbDp = F_PAuth"
  "code_feature C_PacizaDp = F_PAuth"
  "code_feature C_PacizbDp = F_PAuth"
  "code_feature C_PacdzaDp = F_PAuth"
  "code_feature C_PacdzbDp = F_PAuth"
  by (simp_all add: code_eval code_rows_9_def)

lemma dp_reg_rows_9_3 [simp]:
  "code_mnemonic C_AutizaDp = M_Autiza"
  "code_mnemonic C_AutizbDp = M_Autizb"
  "code_mnemonic C_AutdzaDp = M_Autdza"
  "code_mnemonic C_AutdzbDp = M_Autdzb"
  "code_mnemonic C_XpaciDp = M_Xpaci"
  "code_mnemonic C_XpacdDp = M_Xpacd"
  "code_feature C_AutizaDp = F_PAuth"
  "code_feature C_AutizbDp = F_PAuth"
  "code_feature C_AutdzaDp = F_PAuth"
  "code_feature C_AutdzbDp = F_PAuth"
  "code_feature C_XpaciDp = F_PAuth"
  "code_feature C_XpacdDp = F_PAuth"
  by (simp_all add: code_eval code_rows_9_def)

lemma dp_reg_rows_22_0 [simp]:
  "code_mnemonic C_Maddpt = M_Maddpt"
  "code_mnemonic C_Msubpt = M_Msubpt"
  "code_mnemonic C_Addpt = M_Addpt"
  "code_mnemonic C_Subpt = M_Subpt"
  "code_feature C_Maddpt = F_Cpa"
  "code_feature C_Msubpt = F_Cpa"
  "code_feature C_Addpt = F_Cpa"
  "code_feature C_Subpt = F_Cpa"
  by (simp_all add: code_eval code_rows_22_def)

lemma dp_reg_rows_31_0 [simp]:
  "code_mnemonic C_Rmif = M_Rmif"
  "code_mnemonic C_Setf8 = M_Setf8"
  "code_mnemonic C_Setf16 = M_Setf16"
  "code_mnemonic C_Abs32 = M_Abs"
  "code_mnemonic C_Abs64 = M_Abs"
  "code_mnemonic C_Cnt32 = M_Cnt"
  "code_mnemonic C_Cnt64 = M_Cnt"
  "code_mnemonic C_Ctz32 = M_Ctz"
  "code_feature C_Rmif = F_Base"
  "code_feature C_Setf8 = F_Base"
  "code_feature C_Setf16 = F_Base"
  "code_feature C_Abs32 = F_Cssc"
  "code_feature C_Abs64 = F_Cssc"
  "code_feature C_Cnt32 = F_Cssc"
  "code_feature C_Cnt64 = F_Cssc"
  "code_feature C_Ctz32 = F_Cssc"
  by (simp_all add: code_eval code_rows_31_def)

lemma dp_reg_rows_32_0 [simp]:
  "code_mnemonic C_SmaxReg32 = M_Smax"
  "code_mnemonic C_SmaxReg64 = M_Smax"
  "code_mnemonic C_SminReg32 = M_Smin"
  "code_mnemonic C_SminReg64 = M_Smin"
  "code_mnemonic C_UmaxReg32 = M_Umax"
  "code_mnemonic C_UmaxReg64 = M_Umax"
  "code_mnemonic C_UminReg32 = M_Umin"
  "code_mnemonic C_UminReg64 = M_Umin"
  "code_mnemonic C_Ctz64 = M_Ctz"
  "code_feature C_SmaxReg32 = F_Cssc"
  "code_feature C_SmaxReg64 = F_Cssc"
  "code_feature C_SminReg32 = F_Cssc"
  "code_feature C_SminReg64 = F_Cssc"
  "code_feature C_UmaxReg32 = F_Cssc"
  "code_feature C_UmaxReg64 = F_Cssc"
  "code_feature C_UminReg32 = F_Cssc"
  "code_feature C_UminReg64 = F_Cssc"
  "code_feature C_Ctz64 = F_Cssc"
  by (simp_all add: code_eval code_rows_32_def)

lemma dp_reg_rows_40_0 [simp]:
  "code_mnemonic C_Paciasppc = M_Paciasppc"
  "code_mnemonic C_Pacibsppc = M_Pacibsppc"
  "code_mnemonic C_Pacnbiasppc = M_Pacnbiasppc"
  "code_mnemonic C_Pacnbibsppc = M_Pacnbibsppc"
  "code_mnemonic C_Autiasppcr = M_Autiasppcr"
  "code_mnemonic C_Autibsppcr = M_Autibsppcr"
  "code_feature C_Paciasppc = F_PauthLr"
  "code_feature C_Pacibsppc = F_PauthLr"
  "code_feature C_Pacnbiasppc = F_PauthLr"
  "code_feature C_Pacnbibsppc = F_PauthLr"
  "code_feature C_Autiasppcr = F_PauthLr"
  "code_feature C_Autibsppcr = F_PauthLr"
  by (simp_all add: code_eval code_rows_40_def)

section \<open>Group \<open>branch_sys\<close>\<close>

lemma branch_sys_rows_0_0 [simp]:
  "code_mnemonic C_BCond = M_B"
  "code_mnemonic C_BUncond = M_B"
  "code_mnemonic C_BlImm = M_Bl"
  "code_mnemonic C_Cbz32 = M_Cbz"
  "code_mnemonic C_Cbz64 = M_Cbz"
  "code_mnemonic C_Cbnz32 = M_Cbnz"
  "code_mnemonic C_Cbnz64 = M_Cbnz"
  "code_mnemonic C_Tbz = M_Tbz"
  "code_mnemonic C_Tbnz = M_Tbnz"
  "code_mnemonic C_Br = M_Br"
  "code_mnemonic C_Blr = M_Blr"
  "code_mnemonic C_Ret = M_Ret"
  "code_mnemonic C_Eret = M_Eret"
  "code_mnemonic C_Drps = M_Drps"
  "code_mnemonic C_Braaz = M_Braaz"
  "code_mnemonic C_Brabz = M_Brabz"
  "code_feature C_BCond = F_Base"
  "code_feature C_BUncond = F_Base"
  "code_feature C_BlImm = F_Base"
  "code_feature C_Cbz32 = F_Base"
  "code_feature C_Cbz64 = F_Base"
  "code_feature C_Cbnz32 = F_Base"
  "code_feature C_Cbnz64 = F_Base"
  "code_feature C_Tbz = F_Base"
  "code_feature C_Tbnz = F_Base"
  "code_feature C_Br = F_Base"
  "code_feature C_Blr = F_Base"
  "code_feature C_Ret = F_Base"
  "code_feature C_Eret = F_Base"
  "code_feature C_Drps = F_Base"
  "code_feature C_Braaz = F_PAuth"
  "code_feature C_Brabz = F_PAuth"
  by (simp_all add: code_eval code_rows_0_def)

lemma branch_sys_rows_0_1 [simp]:
  "code_mnemonic C_Blraaz = M_Blraaz"
  "code_mnemonic C_Blrabz = M_Blrabz"
  "code_mnemonic C_Braa = M_Braa"
  "code_mnemonic C_Brab = M_Brab"
  "code_mnemonic C_Blraa = M_Blraa"
  "code_mnemonic C_Blrab = M_Blrab"
  "code_mnemonic C_Retaa = M_Retaa"
  "code_mnemonic C_Retab = M_Retab"
  "code_mnemonic C_Eretaa = M_Eretaa"
  "code_feature C_Blraaz = F_PAuth"
  "code_feature C_Blrabz = F_PAuth"
  "code_feature C_Braa = F_PAuth"
  "code_feature C_Brab = F_PAuth"
  "code_feature C_Blraa = F_PAuth"
  "code_feature C_Blrab = F_PAuth"
  "code_feature C_Retaa = F_PAuth"
  "code_feature C_Retab = F_PAuth"
  "code_feature C_Eretaa = F_PAuth"
  by (simp_all add: code_eval code_rows_0_def)

lemma branch_sys_rows_1_0 [simp]:
  "code_mnemonic C_Eretab = M_Eretab"
  "code_mnemonic C_Svc = M_Svc"
  "code_mnemonic C_Hvc = M_Hvc"
  "code_mnemonic C_Smc = M_Smc"
  "code_mnemonic C_Brk = M_Brk"
  "code_mnemonic C_Hlt = M_Hlt"
  "code_mnemonic C_Tcancel = M_Tcancel"
  "code_mnemonic C_Dcps1 = M_Dcps1"
  "code_mnemonic C_Dcps2 = M_Dcps2"
  "code_mnemonic C_Dcps3 = M_Dcps3"
  "code_mnemonic C_Nop = M_Nop"
  "code_mnemonic C_Yield = M_Yield"
  "code_mnemonic C_Wfe = M_Wfe"
  "code_mnemonic C_Wfi = M_Wfi"
  "code_mnemonic C_Sev = M_Sev"
  "code_mnemonic C_Sevl = M_Sevl"
  "code_feature C_Eretab = F_PAuth"
  "code_feature C_Svc = F_Base"
  "code_feature C_Hvc = F_Base"
  "code_feature C_Smc = F_Base"
  "code_feature C_Brk = F_Base"
  "code_feature C_Hlt = F_Base"
  "code_feature C_Tcancel = F_Tme"
  "code_feature C_Dcps1 = F_Base"
  "code_feature C_Dcps2 = F_Base"
  "code_feature C_Dcps3 = F_Base"
  "code_feature C_Nop = F_Base"
  "code_feature C_Yield = F_Base"
  "code_feature C_Wfe = F_Base"
  "code_feature C_Wfi = F_Base"
  "code_feature C_Sev = F_Base"
  "code_feature C_Sevl = F_Base"
  by (simp_all add: code_eval code_rows_1_def)

lemma branch_sys_rows_1_1 [simp]:
  "code_mnemonic C_Esb = M_Esb"
  "code_mnemonic C_Psb = M_Psb"
  "code_mnemonic C_Csdb = M_Csdb"
  "code_mnemonic C_Bti = M_Bti"
  "code_mnemonic C_Tsb = M_Tsb"
  "code_mnemonic C_HintGeneric = M_Hint"
  "code_mnemonic C_Wfet = M_Wfet"
  "code_mnemonic C_Wfit = M_Wfit"
  "code_mnemonic C_Clrex = M_Clrex"
  "code_mnemonic C_Dmb = M_Dmb"
  "code_mnemonic C_Dsb = M_Dsb"
  "code_mnemonic C_Isb = M_Isb"
  "code_mnemonic C_Sb = M_Sb"
  "code_mnemonic C_Tcommit = M_Tcommit"
  "code_mnemonic C_MsrImm = M_Msr"
  "code_mnemonic C_Cfinv = M_Cfinv"
  "code_feature C_Esb = F_Base"
  "code_feature C_Psb = F_Base"
  "code_feature C_Csdb = F_Base"
  "code_feature C_Bti = F_Base"
  "code_feature C_Tsb = F_Trf"
  "code_feature C_HintGeneric = F_Base"
  "code_feature C_Wfet = F_Wfxt"
  "code_feature C_Wfit = F_Wfxt"
  "code_feature C_Clrex = F_Base"
  "code_feature C_Dmb = F_Base"
  "code_feature C_Dsb = F_Base"
  "code_feature C_Isb = F_Base"
  "code_feature C_Sb = F_Base"
  "code_feature C_Tcommit = F_Tme"
  "code_feature C_MsrImm = F_Base"
  "code_feature C_Cfinv = F_Base"
  by (simp_all add: code_eval code_rows_1_def)

lemma branch_sys_rows_1_2 [simp]:
  "code_mnemonic C_Xaflag = M_Xaflag"
  "code_mnemonic C_Axflag = M_Axflag"
  "code_mnemonic C_MsrReg = M_Msr"
  "code_mnemonic C_Mrs = M_Mrs"
  "code_mnemonic C_Sys = M_Sys"
  "code_mnemonic C_Sysl = M_Sysl"
  "code_mnemonic C_Tstart = M_Tstart"
  "code_mnemonic C_Ttest = M_Ttest"
  "code_mnemonic C_Udf = M_Udf"
  "code_feature C_Xaflag = F_Base"
  "code_feature C_Axflag = F_Base"
  "code_feature C_MsrReg = F_Base"
  "code_feature C_Mrs = F_Base"
  "code_feature C_Sys = F_Base"
  "code_feature C_Sysl = F_Base"
  "code_feature C_Tstart = F_Tme"
  "code_feature C_Ttest = F_Tme"
  "code_feature C_Udf = F_Base"
  by (simp_all add: code_eval code_rows_1_def)

lemma branch_sys_rows_22_0 [simp]:
  "code_mnemonic C_Cbgt = M_Cbgt"
  "code_mnemonic C_Cbge = M_Cbge"
  "code_mnemonic C_Cbhi = M_Cbhi"
  "code_mnemonic C_Cbhs = M_Cbhs"
  "code_mnemonic C_Cbeq = M_Cbeq"
  "code_mnemonic C_Cbne = M_Cbne"
  "code_mnemonic C_Cblt = M_Cblt"
  "code_mnemonic C_Cblo = M_Cblo"
  "code_mnemonic C_Cbbgt = M_Cbbgt"
  "code_mnemonic C_Cbbge = M_Cbbge"
  "code_mnemonic C_Cbbhi = M_Cbbhi"
  "code_mnemonic C_Cbbhs = M_Cbbhs"
  "code_mnemonic C_Cbbeq = M_Cbbeq"
  "code_mnemonic C_Cbbne = M_Cbbne"
  "code_mnemonic C_Cbhgt = M_Cbhgt"
  "code_mnemonic C_Cbhge = M_Cbhge"
  "code_feature C_Cbgt = F_Cmpbr"
  "code_feature C_Cbge = F_Cmpbr"
  "code_feature C_Cbhi = F_Cmpbr"
  "code_feature C_Cbhs = F_Cmpbr"
  "code_feature C_Cbeq = F_Cmpbr"
  "code_feature C_Cbne = F_Cmpbr"
  "code_feature C_Cblt = F_Cmpbr"
  "code_feature C_Cblo = F_Cmpbr"
  "code_feature C_Cbbgt = F_Cmpbr"
  "code_feature C_Cbbge = F_Cmpbr"
  "code_feature C_Cbbhi = F_Cmpbr"
  "code_feature C_Cbbhs = F_Cmpbr"
  "code_feature C_Cbbeq = F_Cmpbr"
  "code_feature C_Cbbne = F_Cmpbr"
  "code_feature C_Cbhgt = F_Cmpbr"
  "code_feature C_Cbhge = F_Cmpbr"
  by (simp_all add: code_eval code_rows_22_def)

lemma branch_sys_rows_22_1 [simp]:
  "code_mnemonic C_Cbhhi = M_Cbhhi"
  "code_mnemonic C_Cbhhs = M_Cbhhs"
  "code_mnemonic C_Cbheq = M_Cbheq"
  "code_mnemonic C_Cbhne = M_Cbhne"
  "code_feature C_Cbhhi = F_Cmpbr"
  "code_feature C_Cbhhs = F_Cmpbr"
  "code_feature C_Cbheq = F_Cmpbr"
  "code_feature C_Cbhne = F_Cmpbr"
  by (simp_all add: code_eval code_rows_22_def)

lemma branch_sys_rows_30_0 [simp]:
  "code_mnemonic C_Smstart = M_Smstart"
  "code_mnemonic C_Smstop = M_Smstop"
  "code_feature C_Smstart = F_Sme"
  "code_feature C_Smstop = F_Sme"
  by (simp_all add: code_eval code_rows_30_def)

lemma branch_sys_rows_32_0 [simp]:
  "code_mnemonic C_Mrrs = M_Mrrs"
  "code_mnemonic C_Msrr = M_Msrr"
  "code_mnemonic C_Sysp = M_Sysp"
  "code_feature C_Mrrs = F_D128"
  "code_feature C_Msrr = F_D128"
  "code_feature C_Sysp = F_D128"
  by (simp_all add: code_eval code_rows_32_def)

lemma branch_sys_rows_40_0 [simp]:
  "code_mnemonic C_BcCond = M_Bc"
  "code_mnemonic C_Retaasppc = M_Retaasppc"
  "code_mnemonic C_Retabsppc = M_Retabsppc"
  "code_mnemonic C_Autiasppc = M_Autiasppc"
  "code_mnemonic C_Autibsppc = M_Autibsppc"
  "code_mnemonic C_Retaasppcr = M_Retaasppcr"
  "code_mnemonic C_Retabsppcr = M_Retabsppcr"
  "code_feature C_BcCond = F_Hbc"
  "code_feature C_Retaasppc = F_PauthLr"
  "code_feature C_Retabsppc = F_PauthLr"
  "code_feature C_Autiasppc = F_PauthLr"
  "code_feature C_Autibsppc = F_PauthLr"
  "code_feature C_Retaasppcr = F_PauthLr"
  "code_feature C_Retabsppcr = F_PauthLr"
  by (simp_all add: code_eval code_rows_40_def)

lemma branch_sys_rows_43_0 [simp]:
  "code_mnemonic C_TchangefReg = M_Tchangef"
  "code_mnemonic C_TchangebReg = M_Tchangeb"
  "code_mnemonic C_TchangefImm = M_Tchangef"
  "code_mnemonic C_TchangebImm = M_Tchangeb"
  "code_feature C_TchangefReg = F_Tchange"
  "code_feature C_TchangebReg = F_Tchange"
  "code_feature C_TchangefImm = F_Tchange"
  "code_feature C_TchangebImm = F_Tchange"
  by (simp_all add: code_eval code_rows_43_def)

lemma branch_sys_rows_45_0 [simp]:
  "code_mnemonic C_Tenter = M_Tenter"
  "code_mnemonic C_Gcsb = M_Gcsb"
  "code_mnemonic C_Gcspushm = M_Gcspushm"
  "code_mnemonic C_Gcspopm = M_Gcspopm"
  "code_mnemonic C_Gcsss1 = M_Gcsss1"
  "code_mnemonic C_Gcsss2 = M_Gcsss2"
  "code_mnemonic C_Gcspushx = M_Gcspushx"
  "code_mnemonic C_Gcspopx = M_Gcspopx"
  "code_mnemonic C_Gcspopcx = M_Gcspopcx"
  "code_feature C_Tenter = F_Tev"
  "code_feature C_Gcsb = F_Gcs"
  "code_feature C_Gcspushm = F_Gcs"
  "code_feature C_Gcspopm = F_Gcs"
  "code_feature C_Gcsss1 = F_Gcs"
  "code_feature C_Gcsss2 = F_Gcs"
  "code_feature C_Gcspushx = F_Gcs"
  "code_feature C_Gcspopx = F_Gcs"
  "code_feature C_Gcspopcx = F_Gcs"
  by (simp_all add: code_eval code_rows_45_def)

lemma branch_sys_rows_46_0 [simp]:
  "code_mnemonic C_Shuh = M_Shuh"
  "code_mnemonic C_Stshh = M_Stshh"
  "code_mnemonic C_Stcph = M_Stcph"
  "code_mnemonic C_Chkfeat = M_Chkfeat"
  "code_mnemonic C_Dgh = M_Dgh"
  "code_mnemonic C_Clrbhb = M_Clrbhb"
  "code_mnemonic C_Pacm = M_Pacm"
  "code_feature C_Shuh = F_Pcdphint"
  "code_feature C_Stshh = F_Pcdphint"
  "code_feature C_Stcph = F_Pcdphint"
  "code_feature C_Chkfeat = F_Chk"
  "code_feature C_Dgh = F_Dgh"
  "code_feature C_Clrbhb = F_Clrbhb"
  "code_feature C_Pacm = F_PAuth"
  by (simp_all add: code_eval code_rows_46_def)

section \<open>Group \<open>mops\<close>\<close>

lemma mops_rows_14_0 [simp]:
  "code_mnemonic C_Cpyfp = M_Cpyfp"
  "code_mnemonic C_Cpyfpwt = M_Cpyfpwt"
  "code_mnemonic C_Cpyfprt = M_Cpyfprt"
  "code_mnemonic C_Cpyfpt = M_Cpyfpt"
  "code_mnemonic C_Cpyfpwn = M_Cpyfpwn"
  "code_mnemonic C_Cpyfpwtwn = M_Cpyfpwtwn"
  "code_mnemonic C_Cpyfprtwn = M_Cpyfprtwn"
  "code_mnemonic C_Cpyfptwn = M_Cpyfptwn"
  "code_mnemonic C_Cpyfprn = M_Cpyfprn"
  "code_mnemonic C_Cpyfpwtrn = M_Cpyfpwtrn"
  "code_mnemonic C_Cpyfprtrn = M_Cpyfprtrn"
  "code_mnemonic C_Cpyfptrn = M_Cpyfptrn"
  "code_mnemonic C_Cpyfpn = M_Cpyfpn"
  "code_mnemonic C_Cpyfpwtn = M_Cpyfpwtn"
  "code_mnemonic C_Cpyfprtn = M_Cpyfprtn"
  "code_mnemonic C_Cpyfptn = M_Cpyfptn"
  "code_feature C_Cpyfp = F_Mops"
  "code_feature C_Cpyfpwt = F_Mops"
  "code_feature C_Cpyfprt = F_Mops"
  "code_feature C_Cpyfpt = F_Mops"
  "code_feature C_Cpyfpwn = F_Mops"
  "code_feature C_Cpyfpwtwn = F_Mops"
  "code_feature C_Cpyfprtwn = F_Mops"
  "code_feature C_Cpyfptwn = F_Mops"
  "code_feature C_Cpyfprn = F_Mops"
  "code_feature C_Cpyfpwtrn = F_Mops"
  "code_feature C_Cpyfprtrn = F_Mops"
  "code_feature C_Cpyfptrn = F_Mops"
  "code_feature C_Cpyfpn = F_Mops"
  "code_feature C_Cpyfpwtn = F_Mops"
  "code_feature C_Cpyfprtn = F_Mops"
  "code_feature C_Cpyfptn = F_Mops"
  by (simp_all add: code_eval code_rows_14_def)

lemma mops_rows_14_1 [simp]:
  "code_mnemonic C_Cpyfm = M_Cpyfm"
  "code_mnemonic C_Cpyfmwt = M_Cpyfmwt"
  "code_mnemonic C_Cpyfmrt = M_Cpyfmrt"
  "code_mnemonic C_Cpyfmt = M_Cpyfmt"
  "code_mnemonic C_Cpyfmwn = M_Cpyfmwn"
  "code_mnemonic C_Cpyfmwtwn = M_Cpyfmwtwn"
  "code_mnemonic C_Cpyfmrtwn = M_Cpyfmrtwn"
  "code_mnemonic C_Cpyfmtwn = M_Cpyfmtwn"
  "code_mnemonic C_Cpyfmrn = M_Cpyfmrn"
  "code_mnemonic C_Cpyfmwtrn = M_Cpyfmwtrn"
  "code_mnemonic C_Cpyfmrtrn = M_Cpyfmrtrn"
  "code_mnemonic C_Cpyfmtrn = M_Cpyfmtrn"
  "code_mnemonic C_Cpyfmn = M_Cpyfmn"
  "code_mnemonic C_Cpyfmwtn = M_Cpyfmwtn"
  "code_mnemonic C_Cpyfmrtn = M_Cpyfmrtn"
  "code_mnemonic C_Cpyfmtn = M_Cpyfmtn"
  "code_feature C_Cpyfm = F_Mops"
  "code_feature C_Cpyfmwt = F_Mops"
  "code_feature C_Cpyfmrt = F_Mops"
  "code_feature C_Cpyfmt = F_Mops"
  "code_feature C_Cpyfmwn = F_Mops"
  "code_feature C_Cpyfmwtwn = F_Mops"
  "code_feature C_Cpyfmrtwn = F_Mops"
  "code_feature C_Cpyfmtwn = F_Mops"
  "code_feature C_Cpyfmrn = F_Mops"
  "code_feature C_Cpyfmwtrn = F_Mops"
  "code_feature C_Cpyfmrtrn = F_Mops"
  "code_feature C_Cpyfmtrn = F_Mops"
  "code_feature C_Cpyfmn = F_Mops"
  "code_feature C_Cpyfmwtn = F_Mops"
  "code_feature C_Cpyfmrtn = F_Mops"
  "code_feature C_Cpyfmtn = F_Mops"
  by (simp_all add: code_eval code_rows_14_def)

lemma mops_rows_14_2 [simp]:
  "code_mnemonic C_Cpyfe = M_Cpyfe"
  "code_mnemonic C_Cpyfewt = M_Cpyfewt"
  "code_mnemonic C_Cpyfert = M_Cpyfert"
  "code_mnemonic C_Cpyfet = M_Cpyfet"
  "code_mnemonic C_Cpyfewn = M_Cpyfewn"
  "code_mnemonic C_Cpyfewtwn = M_Cpyfewtwn"
  "code_mnemonic C_Cpyfertwn = M_Cpyfertwn"
  "code_mnemonic C_Cpyfetwn = M_Cpyfetwn"
  "code_mnemonic C_Cpyfern = M_Cpyfern"
  "code_mnemonic C_Cpyfewtrn = M_Cpyfewtrn"
  "code_mnemonic C_Cpyfertrn = M_Cpyfertrn"
  "code_mnemonic C_Cpyfetrn = M_Cpyfetrn"
  "code_mnemonic C_Cpyfen = M_Cpyfen"
  "code_mnemonic C_Cpyfewtn = M_Cpyfewtn"
  "code_mnemonic C_Cpyfertn = M_Cpyfertn"
  "code_mnemonic C_Cpyfetn = M_Cpyfetn"
  "code_feature C_Cpyfe = F_Mops"
  "code_feature C_Cpyfewt = F_Mops"
  "code_feature C_Cpyfert = F_Mops"
  "code_feature C_Cpyfet = F_Mops"
  "code_feature C_Cpyfewn = F_Mops"
  "code_feature C_Cpyfewtwn = F_Mops"
  "code_feature C_Cpyfertwn = F_Mops"
  "code_feature C_Cpyfetwn = F_Mops"
  "code_feature C_Cpyfern = F_Mops"
  "code_feature C_Cpyfewtrn = F_Mops"
  "code_feature C_Cpyfertrn = F_Mops"
  "code_feature C_Cpyfetrn = F_Mops"
  "code_feature C_Cpyfen = F_Mops"
  "code_feature C_Cpyfewtn = F_Mops"
  "code_feature C_Cpyfertn = F_Mops"
  "code_feature C_Cpyfetn = F_Mops"
  by (simp_all add: code_eval code_rows_14_def)

lemma mops_rows_14_3 [simp]:
  "code_mnemonic C_Setp = M_Setp"
  "code_mnemonic C_Setpt = M_Setpt"
  "code_mnemonic C_Setpn = M_Setpn"
  "code_mnemonic C_Setptn = M_Setptn"
  "code_mnemonic C_Setm = M_Setm"
  "code_mnemonic C_Setmt = M_Setmt"
  "code_mnemonic C_Setmn = M_Setmn"
  "code_mnemonic C_Setmtn = M_Setmtn"
  "code_mnemonic C_Sete = M_Sete"
  "code_mnemonic C_Setet = M_Setet"
  "code_mnemonic C_Seten = M_Seten"
  "code_mnemonic C_Setetn = M_Setetn"
  "code_mnemonic C_Cpyp = M_Cpyp"
  "code_mnemonic C_Cpypwt = M_Cpypwt"
  "code_mnemonic C_Cpyprt = M_Cpyprt"
  "code_feature C_Setp = F_Mops"
  "code_feature C_Setpt = F_Mops"
  "code_feature C_Setpn = F_Mops"
  "code_feature C_Setptn = F_Mops"
  "code_feature C_Setm = F_Mops"
  "code_feature C_Setmt = F_Mops"
  "code_feature C_Setmn = F_Mops"
  "code_feature C_Setmtn = F_Mops"
  "code_feature C_Sete = F_Mops"
  "code_feature C_Setet = F_Mops"
  "code_feature C_Seten = F_Mops"
  "code_feature C_Setetn = F_Mops"
  "code_feature C_Cpyp = F_Mops"
  "code_feature C_Cpypwt = F_Mops"
  "code_feature C_Cpyprt = F_Mops"
  by (simp_all add: code_eval code_rows_14_def)

lemma mops_rows_15_0 [simp]:
  "code_mnemonic C_Cpypt = M_Cpypt"
  "code_mnemonic C_Cpypwn = M_Cpypwn"
  "code_mnemonic C_Cpypwtwn = M_Cpypwtwn"
  "code_mnemonic C_Cpyprtwn = M_Cpyprtwn"
  "code_mnemonic C_Cpyptwn = M_Cpyptwn"
  "code_mnemonic C_Cpyprn = M_Cpyprn"
  "code_mnemonic C_Cpypwtrn = M_Cpypwtrn"
  "code_mnemonic C_Cpyprtrn = M_Cpyprtrn"
  "code_mnemonic C_Cpyptrn = M_Cpyptrn"
  "code_mnemonic C_Cpypn = M_Cpypn"
  "code_mnemonic C_Cpypwtn = M_Cpypwtn"
  "code_mnemonic C_Cpyprtn = M_Cpyprtn"
  "code_mnemonic C_Cpyptn = M_Cpyptn"
  "code_mnemonic C_Cpym = M_Cpym"
  "code_mnemonic C_Cpymwt = M_Cpymwt"
  "code_mnemonic C_Cpymrt = M_Cpymrt"
  "code_feature C_Cpypt = F_Mops"
  "code_feature C_Cpypwn = F_Mops"
  "code_feature C_Cpypwtwn = F_Mops"
  "code_feature C_Cpyprtwn = F_Mops"
  "code_feature C_Cpyptwn = F_Mops"
  "code_feature C_Cpyprn = F_Mops"
  "code_feature C_Cpypwtrn = F_Mops"
  "code_feature C_Cpyprtrn = F_Mops"
  "code_feature C_Cpyptrn = F_Mops"
  "code_feature C_Cpypn = F_Mops"
  "code_feature C_Cpypwtn = F_Mops"
  "code_feature C_Cpyprtn = F_Mops"
  "code_feature C_Cpyptn = F_Mops"
  "code_feature C_Cpym = F_Mops"
  "code_feature C_Cpymwt = F_Mops"
  "code_feature C_Cpymrt = F_Mops"
  by (simp_all add: code_eval code_rows_15_def)

lemma mops_rows_15_1 [simp]:
  "code_mnemonic C_Cpymt = M_Cpymt"
  "code_mnemonic C_Cpymwn = M_Cpymwn"
  "code_mnemonic C_Cpymwtwn = M_Cpymwtwn"
  "code_mnemonic C_Cpymrtwn = M_Cpymrtwn"
  "code_mnemonic C_Cpymtwn = M_Cpymtwn"
  "code_mnemonic C_Cpymrn = M_Cpymrn"
  "code_mnemonic C_Cpymwtrn = M_Cpymwtrn"
  "code_mnemonic C_Cpymrtrn = M_Cpymrtrn"
  "code_mnemonic C_Cpymtrn = M_Cpymtrn"
  "code_mnemonic C_Cpymn = M_Cpymn"
  "code_mnemonic C_Cpymwtn = M_Cpymwtn"
  "code_mnemonic C_Cpymrtn = M_Cpymrtn"
  "code_mnemonic C_Cpymtn = M_Cpymtn"
  "code_mnemonic C_Cpye = M_Cpye"
  "code_mnemonic C_Cpyewt = M_Cpyewt"
  "code_mnemonic C_Cpyert = M_Cpyert"
  "code_feature C_Cpymt = F_Mops"
  "code_feature C_Cpymwn = F_Mops"
  "code_feature C_Cpymwtwn = F_Mops"
  "code_feature C_Cpymrtwn = F_Mops"
  "code_feature C_Cpymtwn = F_Mops"
  "code_feature C_Cpymrn = F_Mops"
  "code_feature C_Cpymwtrn = F_Mops"
  "code_feature C_Cpymrtrn = F_Mops"
  "code_feature C_Cpymtrn = F_Mops"
  "code_feature C_Cpymn = F_Mops"
  "code_feature C_Cpymwtn = F_Mops"
  "code_feature C_Cpymrtn = F_Mops"
  "code_feature C_Cpymtn = F_Mops"
  "code_feature C_Cpye = F_Mops"
  "code_feature C_Cpyewt = F_Mops"
  "code_feature C_Cpyert = F_Mops"
  by (simp_all add: code_eval code_rows_15_def)

lemma mops_rows_15_2 [simp]:
  "code_mnemonic C_Cpyet = M_Cpyet"
  "code_mnemonic C_Cpyewn = M_Cpyewn"
  "code_mnemonic C_Cpyewtwn = M_Cpyewtwn"
  "code_mnemonic C_Cpyertwn = M_Cpyertwn"
  "code_mnemonic C_Cpyetwn = M_Cpyetwn"
  "code_mnemonic C_Cpyern = M_Cpyern"
  "code_mnemonic C_Cpyewtrn = M_Cpyewtrn"
  "code_mnemonic C_Cpyertrn = M_Cpyertrn"
  "code_mnemonic C_Cpyetrn = M_Cpyetrn"
  "code_mnemonic C_Cpyen = M_Cpyen"
  "code_mnemonic C_Cpyewtn = M_Cpyewtn"
  "code_mnemonic C_Cpyertn = M_Cpyertn"
  "code_mnemonic C_Cpyetn = M_Cpyetn"
  "code_mnemonic C_Setgp = M_Setgp"
  "code_mnemonic C_Setgpt = M_Setgpt"
  "code_mnemonic C_Setgpn = M_Setgpn"
  "code_feature C_Cpyet = F_Mops"
  "code_feature C_Cpyewn = F_Mops"
  "code_feature C_Cpyewtwn = F_Mops"
  "code_feature C_Cpyertwn = F_Mops"
  "code_feature C_Cpyetwn = F_Mops"
  "code_feature C_Cpyern = F_Mops"
  "code_feature C_Cpyewtrn = F_Mops"
  "code_feature C_Cpyertrn = F_Mops"
  "code_feature C_Cpyetrn = F_Mops"
  "code_feature C_Cpyen = F_Mops"
  "code_feature C_Cpyewtn = F_Mops"
  "code_feature C_Cpyertn = F_Mops"
  "code_feature C_Cpyetn = F_Mops"
  "code_feature C_Setgp = F_Mops"
  "code_feature C_Setgpt = F_Mops"
  "code_feature C_Setgpn = F_Mops"
  by (simp_all add: code_eval code_rows_15_def)

lemma mops_rows_15_3 [simp]:
  "code_mnemonic C_Setgptn = M_Setgptn"
  "code_mnemonic C_Setgm = M_Setgm"
  "code_mnemonic C_Setgmt = M_Setgmt"
  "code_mnemonic C_Setgmn = M_Setgmn"
  "code_mnemonic C_Setgmtn = M_Setgmtn"
  "code_mnemonic C_Setge = M_Setge"
  "code_mnemonic C_Setget = M_Setget"
  "code_mnemonic C_Setgen = M_Setgen"
  "code_mnemonic C_Setgetn = M_Setgetn"
  "code_feature C_Setgptn = F_Mops"
  "code_feature C_Setgm = F_Mops"
  "code_feature C_Setgmt = F_Mops"
  "code_feature C_Setgmn = F_Mops"
  "code_feature C_Setgmtn = F_Mops"
  "code_feature C_Setge = F_Mops"
  "code_feature C_Setget = F_Mops"
  "code_feature C_Setgen = F_Mops"
  "code_feature C_Setgetn = F_Mops"
  by (simp_all add: code_eval code_rows_15_def)

lemma mops_rows_43_0 [simp]:
  "code_mnemonic C_SetgopMops = M_Setgop"
  "code_mnemonic C_SetgoptMops = M_Setgopt"
  "code_mnemonic C_SetgopnMops = M_Setgopn"
  "code_mnemonic C_SetgoptnMops = M_Setgoptn"
  "code_mnemonic C_SetgomMops = M_Setgom"
  "code_mnemonic C_SetgomtMops = M_Setgomt"
  "code_mnemonic C_SetgomnMops = M_Setgomn"
  "code_mnemonic C_SetgomtnMops = M_Setgomtn"
  "code_mnemonic C_SetgoeMops = M_Setgoe"
  "code_mnemonic C_SetgoetMops = M_Setgoet"
  "code_mnemonic C_SetgoenMops = M_Setgoen"
  "code_mnemonic C_SetgoetnMops = M_Setgoetn"
  "code_feature C_SetgopMops = F_Mops"
  "code_feature C_SetgoptMops = F_Mops"
  "code_feature C_SetgopnMops = F_Mops"
  "code_feature C_SetgoptnMops = F_Mops"
  "code_feature C_SetgomMops = F_Mops"
  "code_feature C_SetgomtMops = F_Mops"
  "code_feature C_SetgomnMops = F_Mops"
  "code_feature C_SetgomtnMops = F_Mops"
  "code_feature C_SetgoeMops = F_Mops"
  "code_feature C_SetgoetMops = F_Mops"
  "code_feature C_SetgoenMops = F_Mops"
  "code_feature C_SetgoetnMops = F_Mops"
  by (simp_all add: code_eval code_rows_43_def)

section \<open>Group \<open>apple\<close>\<close>

lemma apple_rows_46_0 [simp]:
  "code_mnemonic C_AmxLdx = M_AmxLdx"
  "code_mnemonic C_AmxLdy = M_AmxLdy"
  "code_mnemonic C_AmxStx = M_AmxStx"
  "code_mnemonic C_AmxSty = M_AmxSty"
  "code_mnemonic C_AmxLdz = M_AmxLdz"
  "code_mnemonic C_AmxStz = M_AmxStz"
  "code_mnemonic C_AmxLdzi = M_AmxLdzi"
  "code_mnemonic C_AmxStzi = M_AmxStzi"
  "code_mnemonic C_AmxExtrx = M_AmxExtrx"
  "code_mnemonic C_AmxExtry = M_AmxExtry"
  "code_mnemonic C_AmxFma64 = M_AmxFma64"
  "code_mnemonic C_AmxFms64 = M_AmxFms64"
  "code_mnemonic C_AmxFma32 = M_AmxFma32"
  "code_mnemonic C_AmxFms32 = M_AmxFms32"
  "code_mnemonic C_AmxMac16 = M_AmxMac16"
  "code_mnemonic C_AmxFma16 = M_AmxFma16"
  "code_feature C_AmxLdx = F_AppleAmx"
  "code_feature C_AmxLdy = F_AppleAmx"
  "code_feature C_AmxStx = F_AppleAmx"
  "code_feature C_AmxSty = F_AppleAmx"
  "code_feature C_AmxLdz = F_AppleAmx"
  "code_feature C_AmxStz = F_AppleAmx"
  "code_feature C_AmxLdzi = F_AppleAmx"
  "code_feature C_AmxStzi = F_AppleAmx"
  "code_feature C_AmxExtrx = F_AppleAmx"
  "code_feature C_AmxExtry = F_AppleAmx"
  "code_feature C_AmxFma64 = F_AppleAmx"
  "code_feature C_AmxFms64 = F_AppleAmx"
  "code_feature C_AmxFma32 = F_AppleAmx"
  "code_feature C_AmxFms32 = F_AppleAmx"
  "code_feature C_AmxMac16 = F_AppleAmx"
  "code_feature C_AmxFma16 = F_AppleAmx"
  by (simp_all add: code_eval code_rows_46_def)

lemma apple_rows_46_1 [simp]:
  "code_mnemonic C_AmxFms16 = M_AmxFms16"
  "code_mnemonic C_AmxSet = M_AmxSet"
  "code_mnemonic C_AmxClr = M_AmxClr"
  "code_mnemonic C_AmxVecint = M_AmxVecint"
  "code_mnemonic C_AmxVecfp = M_AmxVecfp"
  "code_mnemonic C_AmxMatint = M_AmxMatint"
  "code_mnemonic C_AmxMatfp = M_AmxMatfp"
  "code_mnemonic C_AmxGenlut = M_AmxGenlut"
  "code_mnemonic C_Genter = M_Genter"
  "code_mnemonic C_Gexit = M_Gexit"
  "code_feature C_AmxFms16 = F_AppleAmx"
  "code_feature C_AmxSet = F_AppleAmx"
  "code_feature C_AmxClr = F_AppleAmx"
  "code_feature C_AmxVecint = F_AppleAmx"
  "code_feature C_AmxVecfp = F_AppleAmx"
  "code_feature C_AmxMatint = F_AppleAmx"
  "code_feature C_AmxMatfp = F_AppleAmx"
  "code_feature C_AmxGenlut = F_AppleAmx"
  "code_feature C_Genter = F_Gxf"
  "code_feature C_Gexit = F_Gxf"
  by (simp_all add: code_eval code_rows_46_def)

text \<open>The simplifier writes 1 as \<open>Suc 0\<close>, so the row of \<open>AddImm64\<close>, code 1, is wanted in that form too.\<close>

lemma row_Suc_0 [simp]: "code_mnemonic (Code (Suc 0)) = M_Add" "code_feature (Code (Suc 0)) = F_Base"
  using dp_imm_rows_0_0 by simp_all

end
