(* ===== verification/Bits.thy ===== *)
theory Bits
  imports Prelude
begin

text \<open>
  \<open>src/decode/bits.rs\<close>: field extraction and the Arm shared pseudocode (\<open>SignExtend\<close>, \<open>HighestSetBit\<close>,
  \<open>Replicate\<close>, \<open>DecodeBitMasks\<close>, \<open>MoveWidePreferred\<close>, \<open>AdvSIMDExpandImm\<close>, \<open>VFPExpandImm\<close>), in the order
  of the file.  Rust's \<open>bit\<close> is called \<open>bit_at\<close> here and \<open>replicate\<close> is \<open>replicate_bits\<close>, because HOL
  has constants of those names.
\<close>

section \<open>Field extraction\<close>

definition bits :: "u32 \<Rightarrow> nat \<Rightarrow> nat \<Rightarrow> u32" where
  "bits word lsb width =
     (if width = 0 then 0
      else let mask = (if 32 \<le> width then - 1 else push_bit width 1 - 1)
           in drop_bit lsb word AND mask)"

definition bit_at :: "u32 \<Rightarrow> nat \<Rightarrow> u32" where
  "bit_at word pos = drop_bit pos word AND 1"

definition bits64 :: "u64 \<Rightarrow> nat \<Rightarrow> nat \<Rightarrow> u64" where
  "bits64 v lsb width =
     (if width = 0 then 0
      else let mask = (if 64 \<le> width then - 1 else push_bit width 1 - 1)
           in drop_bit lsb v AND mask)"

lemma bits_eq: "bits w l k = take_bit k (drop_bit l w)"
proof (cases "32 \<le> k")
  case True
  then show ?thesis
    by (intro bit_word_eqI) (auto simp: bits_def bit_simps)
next
  case False
  then show ?thesis
    by (auto simp: bits_def take_bit_eq_mask mask_eq_exp_minus_1 push_bit_eq_mult)
qed

lemma bits64_eq: "bits64 w l k = take_bit k (drop_bit l w)"
proof (cases "64 \<le> k")
  case True
  then show ?thesis
    by (intro bit_word_eqI) (auto simp: bits64_def bit_simps)
next
  case False
  then show ?thesis
    by (auto simp: bits64_def take_bit_eq_mask mask_eq_exp_minus_1 push_bit_eq_mult)
qed

lemma bit_at_eq: "bit_at w p = bits w p 1"
  by (simp add: bit_at_def bits_eq take_bit_eq_mask)

lemma bit_bits [field_bits]: "bit (bits w l k) n \<longleftrightarrow> n < k \<and> bit w (l + n)"
  by (auto simp: bits_eq bit_simps)

lemma bit_bit_at [field_bits]: "bit (bit_at w p) n \<longleftrightarrow> n = 0 \<and> bit w p"
  by (auto simp: bit_at_eq bit_bits)

lemma bit_bits64 [field_bits]: "bit (bits64 w l k) n \<longleftrightarrow> n < k \<and> bit w (l + n)"
  by (auto simp: bits64_eq bit_simps)

lemma bit_at_cases: "bit_at w p = 0 \<or> bit_at w p = 1"
  by (cases "bit w p") (auto intro!: bit_word_eqI simp: bit_bit_at bit_1_iff bit_simps)

lemma bit_at_eq_iffs [simp]:
  "bit_at w p = 1 \<longleftrightarrow> bit w p"
  "bit_at w p = 0 \<longleftrightarrow> \<not> bit w p"
proof -
  have "bit_at w p = of_bool (bit w p)"
    by (rule bit_word_eqI) (auto simp: bit_bit_at bit_simps)
  then show "bit_at w p = 1 \<longleftrightarrow> bit w p" "bit_at w p = 0 \<longleftrightarrow> \<not> bit w p"
    by simp_all
qed

lemma bits_less: "k < 32 \<Longrightarrow> bits w l k < 2 ^ k"
  by (simp add: bits_eq take_bit_word_less)

lemma unat_bits_less: "k < 32 \<Longrightarrow> unat (bits w l k) < 2 ^ k"
  by (simp only: bits_eq) (rule unat_take_bit_less, simp)

lemma bits_mask [simp]: "bits w l k AND mask k = bits w l k"
  by (simp add: bits_eq flip: take_bit_eq_mask)

text \<open>Two neighbouring fields read at once.\<close>

lemma bits_split: "bits w l (a + b) = bits w l a OR push_bit a (bits w (l + a) b)"
  by (simp add: bits_eq take_bit_split drop_bit_drop_bit add.commute)

text \<open>\<open>bits_eq_numeral\<close> turns a test of a field against a constant into its single bits.\<close>

lemma bits_Suc_eq_iff [field_bits]:
  "bits w l (Suc k) = c \<longleftrightarrow> (bit w l \<longleftrightarrow> bit c 0) \<and> bits w (Suc l) k = drop_bit 1 c"
  by (simp only: bits_eq take_bit_Suc_eq_iff drop_bit_drop_bit) (simp add: bit_simps add.commute)

lemma bits_0 [simp]: "bits w l 0 = 0"
  by (simp add: bits_def)

section \<open>Arm shared pseudocode: sign extension, highest set bit, replication\<close>

definition sign_extend :: "u64 \<Rightarrow> nat \<Rightarrow> i64" where
  "sign_extend v n =
     (if n = 0 \<or> 64 \<le> n then v
      else let shift = 64 - n in signed_drop_bit shift (push_bit shift v))"

text \<open>\<open>u64::leading_zeros\<close>: the number of clear bits above the most significant set bit.\<close>

definition leading_zeros :: "u64 \<Rightarrow> nat" where
  "leading_zeros v = length (takeWhile (\<lambda>i. \<not> bit v i) (rev [0..<64]))"

definition highest_set_bit :: "u64 \<Rightarrow> int" where
  "highest_set_bit v = (if v = 0 then - 1 else 63 - int (leading_zeros v))"

text \<open>\<open>replicate_loop\<close> is the \<open>while shift < to\<close> loop; its counter grows by \<open>from > 0\<close>.\<close>

function replicate_loop :: "u64 \<Rightarrow> nat \<Rightarrow> nat \<Rightarrow> nat \<Rightarrow> u64 \<Rightarrow> u64" where
  "replicate_loop unit from to shift acc =
     (if shift < to \<and> 0 < from
      then replicate_loop unit from to (shift + from) (acc OR push_bit shift unit)
      else acc)"
  by pat_completeness auto
termination
  by (relation "measure (\<lambda>(unit, from, to, shift, acc). to - shift)") auto

declare replicate_loop.simps [simp del]

definition replicate_bits :: "u64 \<Rightarrow> nat \<Rightarrow> nat \<Rightarrow> u64" where
  "replicate_bits v from to =
     (if from = 0 \<or> 64 < from \<or> to = 0 \<or> 64 < to \<or> to < from then v
      else bits64 (replicate_loop (bits64 v 0 from) from to 0 0) 0 to)"

section \<open>DecodeBitMasks\<close>

record bit_masks =
  wmask :: u64
  tmask :: u64

definition ones :: "nat \<Rightarrow> u64" where
  "ones n = (if n = 0 then 0 else if 64 \<le> n then - 1 else push_bit n 1 - 1)"

definition ror :: "u64 \<Rightarrow> nat \<Rightarrow> nat \<Rightarrow> u64" where
  "ror x shift width =
     (let x = bits64 x 0 width
      in if shift = 0 then x
         else let lo = drop_bit shift x;
                  hi = push_bit (width - shift) x
              in bits64 (lo OR hi) 0 width)"

definition decode_bit_masks :: "u32 \<Rightarrow> u32 \<Rightarrow> u32 \<Rightarrow> bool \<Rightarrow> nat \<Rightarrow> bit_masks option" where
  "decode_bit_masks imm_n imms immr immediate m =
     (let imms = imms AND 0x3F;
          immr = immr AND 0x3F;
          imm_n = imm_n AND 1;
          concat = push_bit 6 imm_n OR (NOT imms AND 0x3F);
          len = highest_set_bit (ucast concat)
      in if len < 1 then None
         else
          let len = nat len;
              levels = (ucast (ones len) :: u32)
          in if immediate \<and> imms AND levels = levels then None
             else
              let s = (ucast (imms AND levels) :: u64);
                  r = (ucast (immr AND levels) :: u64);
                  diff = s - r;
                  esize = 2 ^ len;
                  d = bits64 diff 0 len;
                  welem = ones (unat s + 1);
                  telem = ones (unat d + 1);
                  welem_ror = ror welem (unat r mod esize) esize
              in Some \<lparr>wmask = replicate_bits welem_ror esize m, tmask = replicate_bits telem esize m\<rparr>)"

section \<open>MoveWidePreferred\<close>

definition move_wide_preferred :: "u32 \<Rightarrow> u32 \<Rightarrow> u32 \<Rightarrow> u32 \<Rightarrow> bool" where
  "move_wide_preferred sf imm_n imms immr =
     (let sf = sf AND 1;
          imm_n = imm_n AND 1;
          imms = imms AND 0x3F;
          immr = immr AND 0x3F;
          s = uint imms;
          r = uint immr;
          width = (if sf = 1 then 64 else 32)
      in if sf = 1 \<and> imm_n \<noteq> 1 then False
         else if sf = 0 \<and> \<not> (imm_n = 0 \<and> bit_at imms 5 = 0) then False
         else if s < 16 then (- r) mod 16 \<le> 15 - s
         else if width - 15 \<le> s then r mod 16 \<le> s - (width - 15)
         else False)"

section \<open>Expanding floating-point and AdvSIMD immediates\<close>

definition fp_imm32 :: "u64 \<Rightarrow> u64" where
  "fp_imm32 imm8 =
     (let sign = drop_bit 7 imm8 AND 1;
          b6 = drop_bit 6 imm8 AND 1;
          not_b6 = b6 XOR 1;
          exp = push_bit 5 not_b6 OR (replicate_bits b6 1 5 AND 0x1F);
          frac = imm8 AND 0x3F
      in push_bit 31 sign OR push_bit 25 exp OR push_bit 19 frac)"

definition fp_imm64 :: "u64 \<Rightarrow> u64" where
  "fp_imm64 imm8 =
     (let sign = drop_bit 7 imm8 AND 1;
          b6 = drop_bit 6 imm8 AND 1;
          not_b6 = b6 XOR 1;
          exp = push_bit 8 not_b6 OR (replicate_bits b6 1 8 AND 0xFF);
          frac = imm8 AND 0x3F
      in push_bit 63 sign OR push_bit 54 exp OR push_bit 48 frac)"

definition fp_imm16 :: "u64 \<Rightarrow> u64" where
  "fp_imm16 imm8 =
     (let sign = drop_bit 7 imm8 AND 1;
          b6 = drop_bit 6 imm8 AND 1;
          not_b6 = b6 XOR 1;
          exp = push_bit 2 not_b6 OR (replicate_bits b6 1 2 AND 0x3);
          frac = imm8 AND 0x3F
      in push_bit 15 sign OR push_bit 12 exp OR push_bit 6 frac)"

definition vfp_expand_imm :: "u32 \<Rightarrow> nat \<Rightarrow> u64" where
  "vfp_expand_imm imm8 n =
     (let imm8 = (ucast (imm8 AND 0xFF) :: u64)
      in if n = 16 then fp_imm16 imm8
         else if n = 32 then fp_imm32 imm8
         else if n = 64 then fp_imm64 imm8
         else 0)"

text \<open>The byte-mask loop of \<open>cmode = 1110, op = 1\<close>: bit \<open>i\<close> of \<open>imm8\<close> selects byte \<open>i\<close>.\<close>

fun movi_bytes :: "u64 \<Rightarrow> nat \<Rightarrow> u64" where
  "movi_bytes imm8 0 = 0"
| "movi_bytes imm8 (Suc i) =
     (let imm64 = movi_bytes imm8 i
      in if drop_bit i imm8 AND 1 \<noteq> 0 then imm64 OR push_bit (i * 8) 0xFF else imm64)"

definition adv_simd_expand_imm :: "u32 \<Rightarrow> u32 \<Rightarrow> u32 \<Rightarrow> u64" where
  "adv_simd_expand_imm op cmode imm8 =
     (let op = op AND 1;
          cmode = cmode AND 0xF;
          imm8 = (ucast (imm8 AND 0xFF) :: u64);
          cmode_hi = drop_bit 1 cmode AND 0x7;
          cmode0 = cmode AND 1
      in if cmode_hi = 0 then replicate_bits imm8 32 64
         else if cmode_hi = 1 then replicate_bits (push_bit 8 imm8) 32 64
         else if cmode_hi = 2 then replicate_bits (push_bit 16 imm8) 32 64
         else if cmode_hi = 3 then replicate_bits (push_bit 24 imm8) 32 64
         else if cmode_hi = 4 then replicate_bits imm8 16 64
         else if cmode_hi = 5 then replicate_bits (push_bit 8 imm8) 16 64
         else if cmode_hi = 6 then
           (let elem = (if cmode0 = 0 then push_bit 8 imm8 OR 0xFF else push_bit 16 imm8 OR 0xFFFF)
            in replicate_bits elem 32 64)
         else if cmode0 = 0 then
           (if op = 0 then replicate_bits imm8 8 64 else movi_bytes imm8 8)
         else if op = 0 then replicate_bits (fp_imm32 imm8) 32 64
         else fp_imm64 imm8)"

end
