(* ===== verification/Decode_Base.thy ===== *)
theory Decode_Base
  imports Insn Code_Facts Bits_Spec
begin

text \<open>
  What the group decoders share: the register operand that each of \<open>decode/dp_imm.rs\<close>, \<open>decode/dp_reg.rs\<close> and
  \<open>decode/branch_sys.rs\<close> builds with its own copy of \<open>fn reg\<close>, the width of an \<open>sf\<close> bit, and the
  PC-relative forms of FEAT_PAuth_LR, which live in \<open>branch_sys.rs\<close> but are reached from two groups.

  Decoders take the instruction under construction (\<open>out\<close>, made by \<open>new_invalid\<close>) and return it.  A sequence of
  \<open>out.push_operand\<close> calls is \<open>fold push_operand\<close> over the operands in the order of the calls.
\<close>

definition gp_reg :: "bool \<Rightarrow> reg_width \<Rightarrow> u32 \<Rightarrow> operand" where
  "gp_reg use_sp width n = OpPlainReg (gp_register use_sp width (ucast (n AND 0x1f)))"

lemma kind_gp_reg [simp]: "operand_kind (gp_reg u wd n) = KindRegister"
  by (simp add: gp_reg_def)

definition width_of :: "u32 \<Rightarrow> reg_width" where
  "width_of sf = (if sf AND 1 = 1 then X64 else W32)"

lemma width_of_simps [simp]: "width_of 0 = W32" "width_of 1 = X64"
  by (simp_all add: width_of_def)

text \<open>The number of a register read from a five-bit field is that field.\<close>

definition operand_number :: "operand \<Rightarrow> u32" where
  "operand_number op = (case op of OpReg r _ _ _ _ _ \<Rightarrow> ucast (reg_number r) | _ \<Rightarrow> 0)"

lemma and_31_u8: "x AND (31 :: u8) = take_bit 5 x" and and_31_u32: "y AND (31 :: u32) = take_bit 5 y"
  by (simp_all add: take_bit_eq_mask mask_eq_exp_minus_1)

lemma reg_number_field [simp]:
  "ucast (reg_number (gp_register use_sp width (ucast (bits w l 5 AND 31)))) = bits w l 5"
  unfolding reg_number_gp_register and_31_u8 and_31_u32
  by (rule bit_word_eqI) (auto simp: bit_simps bit_bits)

lemma gp_register_31 [simp]:
  "ucast (reg_number (gp_register use_sp width 31)) = (31 :: u32)"
  unfolding reg_number_gp_register by simp

text \<open>Narrowing a field and widening it again.\<close>

lemma ucast_field_u16: "k \<le> 16 \<Longrightarrow> ucast (ucast (bits w l k) :: u16) = bits w l k"
  by (rule bit_word_eqI) (auto simp: bit_simps bit_bits)

lemma ucast_field_u8: "k \<le> 8 \<Longrightarrow> ucast (ucast (bits w l k) :: u8) = bits w l k"
  by (rule bit_word_eqI) (auto simp: bit_simps bit_bits)

lemma ucast_field_u64: "ucast (ucast (x :: u32) :: u64) = x"
  by (rule bit_word_eqI) (auto simp: bit_simps)

lemma ucast_sign_extend_field:
  assumes "0 < k" "k \<le> 32"
  shows "take_bit k (ucast (sign_extend (ucast (bits w l k)) k) :: u32) = bits w l k"
  using assms by (intro bit_word_eqI) (auto simp: bit_simps bit_bits bit_sign_extend)

section \<open>The signed-PC labels of FEAT_PAuth_LR\<close>

definition push_sppc_label :: "u32 \<Rightarrow> insn \<Rightarrow> insn" where
  "push_sppc_label word out =
     (let imm16 = bits word 5 16;
          off = push_bit 2 (ucast imm16 :: u64)
      in push_operand (OpLabel (i_ip out - off)) out)"

definition decode_ret_sppc :: "u32 \<Rightarrow> feature_set \<Rightarrow> insn \<Rightarrow> insn" where
  "decode_ret_sppc word features out =
     (if \<not> has features F_PauthLr then out
      else if bits word 22 2 \<noteq> 0 \<or> bits word 0 5 \<noteq> 0b11111 then out
      else push_sppc_label word (insn_set (if bit_at word 21 = 1 then C_Retabsppc else C_Retaasppc) out))"

definition decode_auti_sppc :: "u32 \<Rightarrow> insn \<Rightarrow> insn" where
  "decode_auti_sppc word out =
     push_sppc_label word (insn_set (if bit_at word 21 = 1 then C_Autibsppc else C_Autiasppc) out)"

end
