(* ===== verification/Dp_Reg_Decode.thy ===== *)
theory Dp_Reg_Decode
  imports Decode_Base
begin

text \<open>
  \<open>src/decode/dp_reg.rs\<close>: Data Processing -- Register.  One definition per function of the file, in its order; the
  dispatcher \<open>decode\<close> is \<open>decode_dp_reg\<close> and the file's \<open>reg\<close> is \<open>gp_reg\<close>.  The match tables of \<open>decode_dp_3source\<close> and of
  the one-source forms stand by themselves, because their last arm (\<open>_ => return\<close>) is the \<open>None\<close> of an option.
\<close>

section \<open>Operands\<close>

definition reg_shifted :: "reg_width \<Rightarrow> u32 \<Rightarrow> shift_type \<Rightarrow> u32 \<Rightarrow> operand" where
  "reg_shifted width n st amt =
     (let shift = (if st = ShiftLsl \<and> amt = 0 then None else Some (st, ucast amt))
      in OpReg (gp_register False width (ucast (n AND 0x1f))) None None shift None None)"

section \<open>Logical (shifted register)\<close>

definition decode_logical_shifted :: "u32 \<Rightarrow> insn \<Rightarrow> insn" where
  "decode_logical_shifted word out =
     (let sf = bit_at word 31;
          opc = bits word 29 2;
          shift = bits word 22 2;
          n = bit_at word 21;
          rm = bits word 16 5;
          imm6 = bits word 10 6;
          rn = bits word 5 5;
          rd = bits word 0 5
      in if sf = 0 \<and> bit_at imm6 5 = 1 then out
         else
          let w = width_of sf;
              st = shift_type_from_bits (ucast shift);
              code =
                (if (sf, opc, n) = (0, 0b00, 0) then C_AndShifted32
                 else if (sf, opc, n) = (1, 0b00, 0) then C_AndShifted64
                 else if (sf, opc, n) = (0, 0b00, 1) then C_BicShifted32
                 else if (sf, opc, n) = (1, 0b00, 1) then C_BicShifted64
                 else if (sf, opc, n) = (0, 0b01, 0) then C_OrrShifted32
                 else if (sf, opc, n) = (1, 0b01, 0) then C_OrrShifted64
                 else if (sf, opc, n) = (0, 0b01, 1) then C_OrnShifted32
                 else if (sf, opc, n) = (1, 0b01, 1) then C_OrnShifted64
                 else if (sf, opc, n) = (0, 0b10, 0) then C_EorShifted32
                 else if (sf, opc, n) = (1, 0b10, 0) then C_EorShifted64
                 else if (sf, opc, n) = (0, 0b10, 1) then C_EonShifted32
                 else if (sf, opc, n) = (1, 0b10, 1) then C_EonShifted64
                 else if (sf, n) = (0, 0) then C_AndsShifted32
                 else if (sf, n) = (1, 0) then C_AndsShifted64
                 else if sf = 0 then C_BicsShifted32
                 else C_BicsShifted64);
              out = insn_set code out;
              is_orr = (opc = 0b01 \<and> n = 0);
              is_orn = (opc = 0b01 \<and> n = 1);
              is_ands = (opc = 0b11 \<and> n = 0)
          in if is_orr \<and> rn = 31 \<and> st = ShiftLsl \<and> imm6 = 0 then
               fold push_operand [gp_reg False w rd, gp_reg False w rm] (set_alias M_Mov out)
             else if is_orn \<and> rn = 31 then
               fold push_operand [gp_reg False w rd, reg_shifted w rm st imm6] (set_alias M_Mvn out)
             else if is_ands \<and> rd = 31 then
               fold push_operand [gp_reg False w rn, reg_shifted w rm st imm6] (set_alias M_Tst out)
             else
               fold push_operand [gp_reg False w rd, gp_reg False w rn, reg_shifted w rm st imm6] out)"

section \<open>Add/subtract (shifted register)\<close>

definition decode_addsub_shifted :: "u32 \<Rightarrow> insn \<Rightarrow> insn" where
  "decode_addsub_shifted word out =
     (let sf = bit_at word 31;
          op = bit_at word 30;
          s = bit_at word 29;
          shift = bits word 22 2;
          rm = bits word 16 5;
          imm6 = bits word 10 6;
          rn = bits word 5 5;
          rd = bits word 0 5
      in if shift = 0b11 then out
         else if sf = 0 \<and> bit_at imm6 5 = 1 then out
         else
          let w = width_of sf;
              st = shift_type_from_bits (ucast shift);
              code =
                (if (sf, op, s) = (0, 0, 0) then C_AddShifted32
                 else if (sf, op, s) = (1, 0, 0) then C_AddShifted64
                 else if (sf, op, s) = (0, 0, 1) then C_AddsShifted32
                 else if (sf, op, s) = (1, 0, 1) then C_AddsShifted64
                 else if (sf, op, s) = (0, 1, 0) then C_SubShifted32
                 else if (sf, op, s) = (1, 1, 0) then C_SubShifted64
                 else if (sf, op, s) = (0, 1, 1) then C_SubsShifted32
                 else C_SubsShifted64);
              out = insn_set code out;
              flag_setting = (s = 1)
          in if flag_setting \<and> rd = 31 then
               fold push_operand [gp_reg False w rn, reg_shifted w rm st imm6] (set_alias (if op = 1 then M_Cmp else M_Cmn) out)
             else if op = 1 \<and> rn = 31 then
               fold push_operand [gp_reg False w rd, reg_shifted w rm st imm6]
                 (set_alias (if flag_setting then M_Negs else M_Neg) out)
             else
               fold push_operand [gp_reg False w rd, gp_reg False w rn, reg_shifted w rm st imm6] out)"

section \<open>Add/subtract (extended register)\<close>

definition build_extended_rm :: "u32 \<Rightarrow> reg_width \<Rightarrow> extend_type \<Rightarrow> u32 \<Rightarrow> bool \<Rightarrow> operand" where
  "build_extended_rm rm rm_w ext imm3 use_lsl =
     (let reg = gp_register False rm_w (ucast (rm AND 0x1f))
      in if use_lsl then
           let shift = (if imm3 = 0 then None else Some (ShiftLsl, ucast imm3))
           in OpReg reg None None shift None None
         else OpReg reg None None (Some (ShiftLsl, ucast imm3)) (Some ext) None)"

definition decode_addsub_extended :: "u32 \<Rightarrow> insn \<Rightarrow> insn" where
  "decode_addsub_extended word out =
     (let sf = bit_at word 31;
          op = bit_at word 30;
          s = bit_at word 29;
          option = bits word 13 3;
          imm3 = bits word 10 3;
          rm = bits word 16 5;
          rn = bits word 5 5;
          rd = bits word 0 5
      in if bits word 22 2 \<noteq> 0 then out
         else if imm3 > 4 then out
         else
          let w = width_of sf;
              ext = extend_type_from_bits (ucast option);
              code =
                (if (sf, op, s) = (0, 0, 0) then C_AddExtended32
                 else if (sf, op, s) = (1, 0, 0) then C_AddExtended64
                 else if (sf, op, s) = (0, 0, 1) then C_AddsExtended32
                 else if (sf, op, s) = (1, 0, 1) then C_AddsExtended64
                 else if (sf, op, s) = (0, 1, 0) then C_SubExtended32
                 else if (sf, op, s) = (1, 1, 0) then C_SubExtended64
                 else if (sf, op, s) = (0, 1, 1) then C_SubsExtended32
                 else C_SubsExtended64);
              out = insn_set code out;
              flag_setting = (s = 1);
              is_cmp = (flag_setting \<and> rd = 31);
              rm_w = (if sf = 1 \<and> option AND 0b11 = 0b11 then X64 else W32);
              default_option = (if sf = 1 then 0b011 else 0b010);
              sp_involved = (if is_cmp then rn = 31 else rd = 31 \<or> rn = 31);
              use_lsl = (option = default_option \<and> sp_involved);
              rm_op = build_extended_rm rm rm_w ext imm3 use_lsl
          in if is_cmp then
               fold push_operand [gp_reg True w rn, rm_op] (set_alias (if op = 1 then M_Cmp else M_Cmn) out)
             else if flag_setting then
               fold push_operand [gp_reg False w rd, gp_reg True w rn, rm_op] out
             else
               fold push_operand [gp_reg True w rd, gp_reg True w rn, rm_op] out)"

section \<open>Add/subtract with carry, checked pointer\<close>

definition decode_addsub_carry :: "u32 \<Rightarrow> insn \<Rightarrow> insn" where
  "decode_addsub_carry word out =
     (let sf = bit_at word 31;
          op = bit_at word 30;
          s = bit_at word 29;
          opcode2 = bits word 10 6;
          rm = bits word 16 5;
          rn = bits word 5 5;
          rd = bits word 0 5
      in if opcode2 \<noteq> 0 then out
         else
          let w = width_of sf;
              code =
                (if (sf, op, s) = (0, 0, 0) then C_Adc32
                 else if (sf, op, s) = (1, 0, 0) then C_Adc64
                 else if (sf, op, s) = (0, 0, 1) then C_Adcs32
                 else if (sf, op, s) = (1, 0, 1) then C_Adcs64
                 else if (sf, op, s) = (0, 1, 0) then C_Sbc32
                 else if (sf, op, s) = (1, 1, 0) then C_Sbc64
                 else if (sf, op, s) = (0, 1, 1) then C_Sbcs32
                 else C_Sbcs64);
              out = insn_set code out
          in if op = 1 \<and> rn = 31 then
               fold push_operand [gp_reg False w rd, gp_reg False w rm] (set_alias (if s = 1 then M_Ngcs else M_Ngc) out)
             else
               fold push_operand [gp_reg False w rd, gp_reg False w rn, gp_reg False w rm] out)"

definition decode_addsub_pt :: "u32 \<Rightarrow> feature_set \<Rightarrow> insn \<Rightarrow> insn" where
  "decode_addsub_pt word features out =
     (if \<not> has features F_Cpa then out
      else
       let sf = bit_at word 31;
           op = bit_at word 30;
           s = bit_at word 29
       in if sf = 0 \<or> s = 1 then out
          else
           let rm = bits word 16 5;
               amt = bits word 10 3;
               rn = bits word 5 5;
               rd = bits word 0 5
           in fold push_operand [gp_reg True X64 rd, gp_reg True X64 rn, reg_shifted X64 rm ShiftLsl amt]
                (insn_set (if op = 0 then C_Addpt else C_Subpt) out))"

section \<open>Flag manipulation\<close>

definition decode_rmif :: "u32 \<Rightarrow> insn \<Rightarrow> insn" where
  "decode_rmif word out =
     (if bit_at word 31 \<noteq> 1 \<or> bit_at word 30 \<noteq> 0 \<or> bit_at word 29 \<noteq> 1 \<or> bit_at word 4 \<noteq> 0 then out
      else
       let imm6 = bits word 15 6;
           rn = bits word 5 5;
           mask = bits word 0 4
       in fold push_operand [gp_reg False X64 rn, OpImmUnsigned (ucast imm6), OpImmUnsigned (ucast mask)] (insn_set C_Rmif out))"

definition decode_setf :: "u32 \<Rightarrow> insn \<Rightarrow> insn" where
  "decode_setf word out =
     (if bit_at word 31 \<noteq> 0 \<or> bit_at word 30 \<noteq> 0 \<or> bit_at word 29 \<noteq> 1 then out
      else if bits word 15 6 \<noteq> 0 \<or> bit_at word 4 \<noteq> 0 \<or> bits word 0 4 \<noteq> 0b1101 then out
      else
       let sz = bit_at word 14;
           rn = bits word 5 5
       in push_operand (gp_reg False W32 rn) (insn_set (if sz = 0 then C_Setf8 else C_Setf16) out))"

section \<open>Conditional compare and select\<close>

definition decode_cond_compare :: "u32 \<Rightarrow> insn \<Rightarrow> insn" where
  "decode_cond_compare word out =
     (let sf = bit_at word 31;
          op = bit_at word 30;
          s = bit_at word 29;
          imm_form = bit_at word 11;
          o2 = bit_at word 10;
          o3 = bit_at word 4;
          rm = bits word 16 5;
          cond = bits word 12 4;
          rn = bits word 5 5;
          nzcv = bits word 0 4
      in if s \<noteq> 1 \<or> o2 \<noteq> 0 \<or> o3 \<noteq> 0 then out
         else
          let w = width_of sf;
              code =
                (if (op, imm_form, sf) = (0, 0, 0) then C_CcmnReg32
                 else if (op, imm_form, sf) = (0, 0, 1) then C_CcmnReg64
                 else if (op, imm_form, sf) = (0, 1, 0) then C_CcmnImm32
                 else if (op, imm_form, sf) = (0, 1, 1) then C_CcmnImm64
                 else if (op, imm_form, sf) = (1, 0, 0) then C_CcmpReg32
                 else if (op, imm_form, sf) = (1, 0, 1) then C_CcmpReg64
                 else if (op, imm_form, sf) = (1, 1, 0) then C_CcmpImm32
                 else C_CcmpImm64)
          in fold push_operand
               [gp_reg False w rn, (if imm_form = 1 then OpImmUnsigned (ucast rm) else gp_reg False w rm),
                OpImmUnsigned (ucast nzcv), OpCond (condition_from_bits (ucast cond))]
               (insn_set code out))"

definition decode_cond_select :: "u32 \<Rightarrow> insn \<Rightarrow> insn" where
  "decode_cond_select word out =
     (let sf = bit_at word 31;
          op = bit_at word 30;
          s = bit_at word 29;
          o1 = bit_at word 11;
          o2 = bit_at word 10;
          rm = bits word 16 5;
          cond = bits word 12 4;
          rn = bits word 5 5;
          rd = bits word 0 5
      in if s \<noteq> 0 \<or> o1 \<noteq> 0 then out
         else
          let w = width_of sf;
              code =
                (if (sf, op, o2) = (0, 0, 0) then C_Csel32
                 else if (sf, op, o2) = (1, 0, 0) then C_Csel64
                 else if (sf, op, o2) = (0, 0, 1) then C_Csinc32
                 else if (sf, op, o2) = (1, 0, 1) then C_Csinc64
                 else if (sf, op, o2) = (0, 1, 0) then C_Csinv32
                 else if (sf, op, o2) = (1, 1, 0) then C_Csinv64
                 else if (sf, op, o2) = (0, 1, 1) then C_Csneg32
                 else C_Csneg64);
              out = insn_set code out;
              c = condition_from_bits (ucast cond);
              cond_ok = (cond AND 0b1110 \<noteq> 0b1110);
              is_csinc = (op = 0 \<and> o2 = 1);
              is_csinv = (op = 1 \<and> o2 = 0);
              is_csneg = (op = 1 \<and> o2 = 1)
          in if (is_csinc \<or> is_csinv) \<and> rm = 31 \<and> rn = 31 \<and> cond_ok then
               fold push_operand [gp_reg False w rd, OpCond (condition_invert c)]
                 (set_alias (if is_csinc then M_Cset else M_Csetm) out)
             else if (is_csinc \<or> is_csinv \<or> is_csneg) \<and> rm = rn \<and> cond_ok then
               let m = (if is_csinc then M_Cinc else if is_csinv then M_Cinv else M_Cneg)
               in fold push_operand [gp_reg False w rd, gp_reg False w rn, OpCond (condition_invert c)] (set_alias m out)
             else
               fold push_operand [gp_reg False w rd, gp_reg False w rn, gp_reg False w rm, OpCond c] out)"

section \<open>Data-processing (3 source)\<close>

datatype dp3_kind = MaddSub | WidenMaddSub | HighMul | PtMaddSub

definition dp3_code :: "u32 \<Rightarrow> u32 \<Rightarrow> u32 \<Rightarrow> (code \<times> dp3_kind) option" where
  "dp3_code sf op31 o0 =
     (if (sf, op31, o0) = (0, 0b000, 0) then Some (C_Madd32, MaddSub)
      else if (sf, op31, o0) = (1, 0b000, 0) then Some (C_Madd64, MaddSub)
      else if (sf, op31, o0) = (0, 0b000, 1) then Some (C_Msub32, MaddSub)
      else if (sf, op31, o0) = (1, 0b000, 1) then Some (C_Msub64, MaddSub)
      else if (sf, op31, o0) = (1, 0b001, 0) then Some (C_Smaddl, WidenMaddSub)
      else if (sf, op31, o0) = (1, 0b001, 1) then Some (C_Smsubl, WidenMaddSub)
      else if (sf, op31, o0) = (1, 0b011, 0) then Some (C_Maddpt, PtMaddSub)
      else if (sf, op31, o0) = (1, 0b011, 1) then Some (C_Msubpt, PtMaddSub)
      else if (sf, op31, o0) = (1, 0b010, 0) then Some (C_Smulh, HighMul)
      else if (sf, op31, o0) = (1, 0b101, 0) then Some (C_Umaddl, WidenMaddSub)
      else if (sf, op31, o0) = (1, 0b101, 1) then Some (C_Umsubl, WidenMaddSub)
      else if (sf, op31, o0) = (1, 0b110, 0) then Some (C_Umulh, HighMul)
      else None)"

definition dp3_operands :: "u32 \<Rightarrow> dp3_kind \<Rightarrow> insn \<Rightarrow> insn" where
  "dp3_operands word kind out =
     (let sf = bit_at word 31;
          op31 = bits word 21 3;
          o0 = bit_at word 15;
          rm = bits word 16 5;
          ra = bits word 10 5;
          rn = bits word 5 5;
          rd = bits word 0 5
      in case kind of
           HighMul \<Rightarrow> fold push_operand [gp_reg False X64 rd, gp_reg False X64 rn, gp_reg False X64 rm] out
         | MaddSub \<Rightarrow>
             let w = width_of sf;
                 is_msub = (o0 = 1)
             in if ra = 31 then
                  fold push_operand [gp_reg False w rd, gp_reg False w rn, gp_reg False w rm]
                    (set_alias (if is_msub then M_Mneg else M_Mul) out)
                else
                  fold push_operand [gp_reg False w rd, gp_reg False w rn, gp_reg False w rm, gp_reg False w ra] out
         | WidenMaddSub \<Rightarrow>
             let is_msub = (o0 = 1);
                 is_signed = (op31 = 0b001)
             in if ra = 31 then
                  let m = (if is_signed \<and> \<not> is_msub then M_Smull
                           else if is_signed \<and> is_msub then M_Smnegl
                           else if \<not> is_signed \<and> \<not> is_msub then M_Umull
                           else M_Umnegl)
                  in fold push_operand [gp_reg False X64 rd, gp_reg False W32 rn, gp_reg False W32 rm] (set_alias m out)
                else
                  fold push_operand [gp_reg False X64 rd, gp_reg False W32 rn, gp_reg False W32 rm, gp_reg False X64 ra] out
         | PtMaddSub \<Rightarrow>
             fold push_operand [gp_reg False X64 rd, gp_reg False X64 rn, gp_reg False X64 rm, gp_reg False X64 ra] out)"

definition decode_dp_3source :: "u32 \<Rightarrow> insn \<Rightarrow> insn" where
  "decode_dp_3source word out =
     (let sf = bit_at word 31;
          op54 = bits word 29 2;
          op31 = bits word 21 3;
          o0 = bit_at word 15
      in if op54 \<noteq> 0 then out
         else
          case dp3_code sf op31 o0 of
            None \<Rightarrow> out
          | Some (code, kind) \<Rightarrow> dp3_operands word kind (insn_set code out))"

section \<open>Data-processing (2 source)\<close>

definition push_rrr :: "reg_width \<Rightarrow> u32 \<Rightarrow> u32 \<Rightarrow> u32 \<Rightarrow> insn \<Rightarrow> insn" where
  "push_rrr w rd rn rm out = fold push_operand [gp_reg False w rd, gp_reg False w rn, gp_reg False w rm] out"

definition decode_crc32 :: "u32 \<Rightarrow> u32 \<Rightarrow> u32 \<Rightarrow> u32 \<Rightarrow> u32 \<Rightarrow> insn \<Rightarrow> insn" where
  "decode_crc32 sf opcode rd rn rm out =
     (let c = bit_at opcode 2;
          sz = opcode AND 0b11
      in if sz = 0b11 \<and> sf \<noteq> 1 then out
         else if sz \<noteq> 0b11 \<and> sf \<noteq> 0 then out
         else
          let code =
                (if (c, sz) = (0, 0b00) then C_Crc32b
                 else if (c, sz) = (0, 0b01) then C_Crc32h
                 else if (c, sz) = (0, 0b10) then C_Crc32w
                 else if (c, sz) = (0, 0b11) then C_Crc32x
                 else if sz = 0b00 then C_Crc32cb
                 else if sz = 0b01 then C_Crc32ch
                 else if sz = 0b10 then C_Crc32cw
                 else C_Crc32cx);
              rm_w = (if sz = 0b11 then X64 else W32)
          in fold push_operand [gp_reg False W32 rd, gp_reg False W32 rn, gp_reg False rm_w rm] (insn_set code out))"

definition decode_dp_2source :: "u32 \<Rightarrow> feature_set \<Rightarrow> insn \<Rightarrow> insn" where
  "decode_dp_2source word features out =
     (let sf = bit_at word 31;
          s = bit_at word 29;
          opcode = bits word 10 6;
          rm = bits word 16 5;
          rn = bits word 5 5;
          rd = bits word 0 5;
          w = width_of sf
      in if opcode = 0b000000 then
           (if sf \<noteq> 1 then out
            else if \<not> has features F_Mte then out
            else
             fold push_operand [gp_reg False X64 rd, gp_reg True X64 rn, gp_reg True X64 rm]
               (insn_set (if s = 1 then C_SubpsDp else C_SubpDp) out))
         else if s \<noteq> 0 then out
         else if opcode = 0b000010 then push_rrr w rd rn rm (insn_set (if sf = 1 then C_Udiv64 else C_Udiv32) out)
         else if opcode = 0b000011 then push_rrr w rd rn rm (insn_set (if sf = 1 then C_Sdiv64 else C_Sdiv32) out)
         else if opcode = 0b001000 then push_rrr w rd rn rm (set_alias M_Lsl (insn_set (if sf = 1 then C_Lslv64 else C_Lslv32) out))
         else if opcode = 0b001001 then push_rrr w rd rn rm (set_alias M_Lsr (insn_set (if sf = 1 then C_Lsrv64 else C_Lsrv32) out))
         else if opcode = 0b001010 then push_rrr w rd rn rm (set_alias M_Asr (insn_set (if sf = 1 then C_Asrv64 else C_Asrv32) out))
         else if opcode = 0b001011 then push_rrr w rd rn rm (set_alias M_Ror (insn_set (if sf = 1 then C_Rorv64 else C_Rorv32) out))
         else if opcode = 0b000100 then
           (if sf \<noteq> 1 \<or> \<not> has features F_Mte then out
            else
             let out = fold push_operand [gp_reg True X64 rd, gp_reg True X64 rn] (insn_set C_IrgDp out)
             in if rm \<noteq> 31 then push_operand (gp_reg False X64 rm) out else out)
         else if opcode = 0b000101 then
           (if sf \<noteq> 1 \<or> \<not> has features F_Mte then out
            else fold push_operand [gp_reg False X64 rd, gp_reg True X64 rn, gp_reg False X64 rm] (insn_set C_GmiDp out))
         else if opcode = 0b001100 then
           (if sf \<noteq> 1 \<or> \<not> has features F_PAuth then out
            else fold push_operand [gp_reg False X64 rd, gp_reg False X64 rn, gp_reg True X64 rm] (insn_set C_Pacga out))
         else if 0b010000 \<le> opcode \<and> opcode \<le> 0b010111 then decode_crc32 sf opcode rd rn rm out
         else if 0b011000 \<le> opcode \<and> opcode \<le> 0b011011 then
           (if \<not> has features F_Cssc then out
            else
             let code =
                   (if (sf, opcode) = (0, 0b011000) then C_SmaxReg32
                    else if (sf, opcode) = (1, 0b011000) then C_SmaxReg64
                    else if (sf, opcode) = (0, 0b011001) then C_UmaxReg32
                    else if (sf, opcode) = (1, 0b011001) then C_UmaxReg64
                    else if (sf, opcode) = (0, 0b011010) then C_SminReg32
                    else if (sf, opcode) = (1, 0b011010) then C_SminReg64
                    else if (sf, opcode) = (0, 0b011011) then C_UminReg32
                    else C_UminReg64)
             in push_rrr w rd rn rm (insn_set code out))
         else out)"

section \<open>Data-processing (1 source)\<close>

definition dp1_code :: "u32 \<Rightarrow> u32 \<Rightarrow> feature_set \<Rightarrow> code option" where
  "dp1_code sf opcode features =
     (if (sf, opcode) = (0, 0b000000) then Some C_Rbit32
      else if (sf, opcode) = (1, 0b000000) then Some C_Rbit64
      else if (sf, opcode) = (0, 0b000001) then Some C_Rev1632
      else if (sf, opcode) = (1, 0b000001) then Some C_Rev1664
      else if (sf, opcode) = (0, 0b000010) then Some C_Rev32Bit
      else if (sf, opcode) = (1, 0b000010) then Some C_Rev3264
      else if (sf, opcode) = (1, 0b000011) then Some C_Rev64Bit
      else if (sf, opcode) = (0, 0b000100) then Some C_Clz32
      else if (sf, opcode) = (1, 0b000100) then Some C_Clz64
      else if (sf, opcode) = (0, 0b000101) then Some C_Cls32
      else if (sf, opcode) = (1, 0b000101) then Some C_Cls64
      else if opcode = 0b000110 \<or> opcode = 0b000111 \<or> opcode = 0b001000 then
        (if \<not> has features F_Cssc then None
         else if (sf, opcode) = (0, 0b000110) then Some C_Ctz32
         else if (sf, opcode) = (1, 0b000110) then Some C_Ctz64
         else if (sf, opcode) = (0, 0b000111) then Some C_Cnt32
         else if (sf, opcode) = (1, 0b000111) then Some C_Cnt64
         else if (sf, opcode) = (0, 0b001000) then Some C_Abs32
         else Some C_Abs64)
      else None)"

definition decode_dp_1source_basic :: "u32 \<Rightarrow> u32 \<Rightarrow> u32 \<Rightarrow> u32 \<Rightarrow> feature_set \<Rightarrow> insn \<Rightarrow> insn" where
  "decode_dp_1source_basic sf opcode rn rd features out =
     (let w = width_of sf
      in case dp1_code sf opcode features of
           None \<Rightarrow> out
         | Some code \<Rightarrow> fold push_operand [gp_reg False w rd, gp_reg False w rn] (insn_set code out))"

definition pauth_lr_code :: "u32 \<Rightarrow> u32 \<Rightarrow> code option" where
  "pauth_lr_code opcode rn =
     (if (opcode, rn) = (0b101000, 31) then Some C_Paciasppc
      else if (opcode, rn) = (0b101001, 31) then Some C_Pacibsppc
      else if (opcode, rn) = (0b100000, 31) then Some C_Pacnbiasppc
      else if (opcode, rn) = (0b100001, 31) then Some C_Pacnbibsppc
      else if opcode = 0b100100 then Some C_Autiasppcr
      else if opcode = 0b100101 then Some C_Autibsppcr
      else None)"

definition pauth_rows :: "(u32 \<times> code \<times> bool) list" where
  "pauth_rows =
     [(0b000000, C_PaciaDp, False), (0b000001, C_PacibDp, False), (0b000010, C_PacdaDp, False), (0b000011, C_PacdbDp, False),
      (0b000100, C_AutiaDp, False), (0b000101, C_AutibDp, False), (0b000110, C_AutdaDp, False), (0b000111, C_AutdbDp, False),
      (0b001000, C_PacizaDp, True), (0b001001, C_PacizbDp, True), (0b001010, C_PacdzaDp, True), (0b001011, C_PacdzbDp, True),
      (0b001100, C_AutizaDp, True), (0b001101, C_AutizbDp, True), (0b001110, C_AutdzaDp, True), (0b001111, C_AutdzbDp, True),
      (0b010000, C_XpaciDp, True), (0b010001, C_XpacdDp, True)]"

definition decode_pauth_rows :: "u32 \<Rightarrow> u32 \<Rightarrow> u32 \<Rightarrow> feature_set \<Rightarrow> insn \<Rightarrow> insn" where
  "decode_pauth_rows opcode rn rd features out =
     (if \<not> has features F_PAuth then out
      else
       case map_of pauth_rows opcode of
         None \<Rightarrow> out
       | Some (code, z) \<Rightarrow>
          if z \<and> rn \<noteq> 31 then out
          else
           let out = push_operand (gp_reg False X64 rd) (insn_set code out)
           in if \<not> z then push_operand (gp_reg True X64 rn) out else out)"

definition decode_dp_1source_pauth :: "u32 \<Rightarrow> u32 \<Rightarrow> u32 \<Rightarrow> u32 \<Rightarrow> feature_set \<Rightarrow> insn \<Rightarrow> insn" where
  "decode_dp_1source_pauth sf opcode rn rd features out =
     (if sf \<noteq> 1 then out
      else
       let lr_code = (if has features F_PauthLr \<and> rd = 30 then pauth_lr_code opcode rn else None)
       in case lr_code of
            Some code \<Rightarrow>
              let out = insn_set code out
              in if code \<in> {C_Autiasppcr, C_Autibsppcr} then push_operand (gp_reg False X64 rn) out else out
          | None \<Rightarrow> decode_pauth_rows opcode rn rd features out)"

definition decode_dp_1source :: "u32 \<Rightarrow> feature_set \<Rightarrow> insn \<Rightarrow> insn" where
  "decode_dp_1source word features out =
     (let sf = bit_at word 31;
          s = bit_at word 29;
          opcode2 = bits word 16 5;
          opcode = bits word 10 6;
          rn = bits word 5 5;
          rd = bits word 0 5
      in if s \<noteq> 0 then out
         else if opcode2 = 0b00000 then decode_dp_1source_basic sf opcode rn rd features out
         else if opcode2 = 0b00001 then decode_dp_1source_pauth sf opcode rn rd features out
         else out)"

section \<open>Dispatcher\<close>

definition decode_dp_reg :: "u32 \<Rightarrow> u64 \<Rightarrow> feature_set \<Rightarrow> insn \<Rightarrow> insn" where
  "decode_dp_reg word ip features out =
     (let op28_24 = bits word 24 5
      in if op28_24 = 0b01010 then decode_logical_shifted word out
         else if op28_24 = 0b01011 then
           (if bit_at word 21 = 0 then decode_addsub_shifted word out else decode_addsub_extended word out)
         else if op28_24 = 0b11010 then
           (let op2 = bits word 21 3
            in if op2 = 0b000 then
                 (let op3 = bits word 10 6
                  in if op3 = 0 then decode_addsub_carry word out
                     else if op3 AND 0x1f = 1 then decode_rmif word out
                     else if op3 AND 0xf = 2 then decode_setf word out
                     else if bits word 13 3 = 0b001 then decode_addsub_pt word features out
                     else out)
               else if op2 = 0b010 then decode_cond_compare word out
               else if op2 = 0b100 then decode_cond_select word out
               else if op2 = 0b110 then
                 (if bit_at word 30 = 1 then decode_dp_1source word features out else decode_dp_2source word features out)
               else out)
         else if op28_24 = 0b11011 then decode_dp_3source word out
         else out)"

end
