(* ===== verification/Encode_Bits.thy ===== *)
theory Encode_Bits
  imports Bits
begin

text \<open>
  \<open>src/encode/bits.rs\<close>: the inverse immediate helpers of the encoder.  \<open>encode_bit_masks\<close> searches the
  element sizes 2, 4, 8, \<dots> up to the data size; its loop is \<open>encode_bit_masks_loop\<close>, whose counter doubles.
  The floating-point search works on the raw bits of the \<open>f32\<close> that the decoder materialised; the two
  conversions that need Rust's float casts are parameters of \<open>encode_vfp_imm\<close>.
\<close>

section \<open>Logical immediates\<close>

text \<open>Rust's private \<open>mask\<close> and \<open>ror_elem\<close> of this file; \<open>mask\<close> is a constant of HOL.\<close>

definition mask_low :: "nat \<Rightarrow> u64" where
  "mask_low width = (if 64 \<le> width then - 1 else push_bit width 1 - 1)"

definition ror_elem :: "u64 \<Rightarrow> nat \<Rightarrow> nat \<Rightarrow> u64" where
  "ror_elem x shift width =
     (let x = x AND mask_low width
      in if shift = 0 then x
         else let lo = drop_bit shift x;
                  hi = push_bit (width - shift) x
              in (lo OR hi) AND mask_low width)"

definition replicates :: "u64 \<Rightarrow> nat \<Rightarrow> nat \<Rightarrow> u64 \<Rightarrow> bool" where
  "replicates elem esize datasize v = (replicate_loop elem esize datasize 0 0 = v)"

definition count_ones :: "u64 \<Rightarrow> nat" where
  "count_ones v = length (filter (bit v) [0..<64])"

definition encode_element :: "u64 \<Rightarrow> nat \<Rightarrow> (nat \<times> nat) option" where
  "encode_element elem esize =
     (let elem = elem AND mask_low esize
      in if elem = 0 \<or> elem = mask_low esize then None
         else let count = count_ones elem;
                  ones = mask_low count
              in map_option (\<lambda>r. (r, count - 1)) (find (\<lambda>r. ror_elem ones r esize = elem) [0..<esize]))"

definition pack_n_imms :: "nat \<Rightarrow> u32 \<Rightarrow> u32 \<times> u32" where
  "pack_n_imms len s =
     (if len = 6 then (1, s AND 0x3F)
      else let high_ones = push_bit (len + 1) (drop_bit (len + 1) 0x3F);
               imms = high_ones OR (s AND ucast (mask_low len))
           in (0, imms AND 0x3F))"

text \<open>\<open>u32::trailing_zeros\<close> of the element size.\<close>

definition trailing_zeros :: "nat \<Rightarrow> nat" where
  "trailing_zeros n = length (takeWhile (\<lambda>i. \<not> bit n i) [0..<32])"

definition try_esize :: "u64 \<Rightarrow> nat \<Rightarrow> nat \<Rightarrow> (u32 \<times> u32 \<times> u32) option" where
  "try_esize v datasize esize =
     (if datasize mod esize = 0
      then let elem = v AND mask_low esize
           in if replicates elem esize datasize v
              then case encode_element elem esize of
                     None \<Rightarrow> None
                   | Some (immr, imms) \<Rightarrow>
                      (let len = trailing_zeros esize;
                           (n, imms_field) = pack_n_imms len (of_nat imms);
                           immr = of_nat immr
                       in case decode_bit_masks n imms_field immr True datasize of
                            None \<Rightarrow> None
                          | Some m \<Rightarrow>
                             (let got = (if datasize = 32 then wmask m AND 0xFFFFFFFF else wmask m)
                              in if got = v then Some (n, immr, imms_field) else None))
              else None
      else None)"

function encode_bit_masks_loop :: "u64 \<Rightarrow> nat \<Rightarrow> nat \<Rightarrow> (u32 \<times> u32 \<times> u32) option" where
  "encode_bit_masks_loop v datasize esize =
     (if esize \<le> datasize \<and> 0 < esize
      then case try_esize v datasize esize of
             Some t \<Rightarrow> Some t
           | None \<Rightarrow> encode_bit_masks_loop v datasize (2 * esize)
      else None)"
  by pat_completeness auto
termination
  by (relation "measure (\<lambda>(v, datasize, esize). datasize + 1 - esize)") auto

declare encode_bit_masks_loop.simps [simp del]

definition encode_bit_masks :: "u64 \<Rightarrow> nat \<Rightarrow> (u32 \<times> u32 \<times> u32) option" where
  "encode_bit_masks v datasize =
     (let datasize = (if datasize = 32 then 32 else 64);
          v = (if datasize = 32 then v AND 0xFFFFFFFF else v);
          full = (if datasize = 64 then - 1 else 0xFFFFFFFF)
      in if v = 0 \<or> v = full then None
         else encode_bit_masks_loop v datasize 2)"

section \<open>Floating-point and AdvSIMD immediates\<close>

text \<open>
  \<open>encode_vfp_imm\<close> compares the bits of the \<open>f32\<close> that each \<open>imm8\<close> stands for.  For widths 16 and 32 these
  bits are integer arithmetic (\<open>f16_bits_to_f32_enc\<close>, \<open>from_bits\<close>); width 64 rounds an \<open>f64\<close> to an
  \<open>f32\<close>, which is the argument \<open>f64_to_f32\<close> on the raw bits.  In \<open>f16_bits_to_f32_enc\<close> the normalisation loop of
  the subnormal branch is \<open>norm_f16\<close>; it stops because its argument grows towards \<open>0x400\<close>.
\<close>

fun norm_f16 :: "nat \<Rightarrow> int \<Rightarrow> u32 \<Rightarrow> int \<times> u32" where
  "norm_f16 0 e f = (e, f)"
| "norm_f16 (Suc k) e f = (if f AND 0x400 = 0 then norm_f16 k (e - 1) (push_bit 1 f) else (e, f))"

definition f16_bits_to_f32_enc :: "u16 \<Rightarrow> u32" where
  "f16_bits_to_f32_enc h =
     (let sign = (ucast (drop_bit 15 h AND 1) :: u32);
          exp = (ucast (drop_bit 10 h AND 0x1F) :: u32);
          frac = (ucast (h AND 0x3FF) :: u32)
      in if exp = 0 then
           (if frac = 0 then push_bit 31 sign
            else let (e, f) = norm_f16 11 (- 1) frac;
                     f = f AND 0x3FF;
                     exp32 = (word_of_int (e + 127 - 15) :: u32)
                 in push_bit 31 sign OR push_bit 23 exp32 OR push_bit 13 f)
         else if exp = 0x1F then push_bit 31 sign OR push_bit 23 0xFF OR push_bit 13 frac
         else let exp32 = exp + (127 - 15)
              in push_bit 31 sign OR push_bit 23 exp32 OR push_bit 13 frac)"

definition vfp_imm_bits :: "(u64 \<Rightarrow> u32) \<Rightarrow> nat \<Rightarrow> u32 \<Rightarrow> u32 option" where
  "vfp_imm_bits f64_to_f32 n imm8 =
     (let bits_val = vfp_expand_imm imm8 n
      in if n = 16 then Some (f16_bits_to_f32_enc (ucast bits_val))
         else if n = 32 then Some (ucast bits_val)
         else if n = 64 then Some (f64_to_f32 bits_val)
         else None)"

definition encode_vfp_imm :: "(u64 \<Rightarrow> u32) \<Rightarrow> u32 \<Rightarrow> nat \<Rightarrow> u32 option" where
  "encode_vfp_imm f64_to_f32 v n =
     map_option of_nat (find (\<lambda>imm8. vfp_imm_bits f64_to_f32 n (of_nat imm8) = Some v) [0..<256])"

fun movi64_loop :: "u64 \<Rightarrow> nat \<Rightarrow> u32 option" where
  "movi64_loop v 0 = Some 0"
| "movi64_loop v (Suc i) =
     (case movi64_loop v i of
        None \<Rightarrow> None
      | Some imm8 \<Rightarrow>
         (let byte = drop_bit (i * 8) v AND 0xFF
          in if byte = 0xFF then Some (imm8 OR push_bit i 1)
             else if byte \<noteq> 0 then None
             else Some imm8))"

definition encode_advsimd_movi64 :: "u64 \<Rightarrow> u32 option" where
  "encode_advsimd_movi64 v =
     (case movi64_loop v 8 of
        None \<Rightarrow> None
      | Some imm8 \<Rightarrow> if adv_simd_expand_imm 1 0xE imm8 = v then Some imm8 else None)"

end
