(* ===== verification/Encode_Base.thy ===== *)
theory Encode_Base
  imports Insn Code_Facts Encode_Bits
begin

text \<open>
  What the group encoders share: \<open>EncodeError\<close> of \<open>src/encode/mod.rs\<close> and the readers of operand fields, of which
  each encoder file has its own copy.  An encoder returns \<open>Ok word\<close>, \<open>Err e\<close>, or \<open>Panic\<close> where a \<open>u32\<close> operation of the
  source overflows.
\<close>

datatype encode_error = EncUnsupported | EncInvalidOperand | EncInvalidImmediate | EncInvalid

type_synonym 'a encoded = "(encode_error, 'a) outcome"

definition reg_num :: "insn \<Rightarrow> nat \<Rightarrow> u32 encoded" where
  "reg_num insn n =
     (case insn_op insn n of
        OpReg reg _ _ _ _ _ \<Rightarrow> Ok (ucast (reg_number reg))
      | _ \<Rightarrow> Err EncInvalidOperand)"

definition imm_u :: "insn \<Rightarrow> nat \<Rightarrow> u64 encoded" where
  "imm_u insn n =
     (case insn_op insn n of
        OpImmUnsigned v \<Rightarrow> Ok v
      | OpImmLogical v \<Rightarrow> Ok v
      | OpImmSigned v \<Rightarrow> Ok v
      | OpShiftAmount v \<Rightarrow> Ok (ucast v)
      | _ \<Rightarrow> Err EncInvalidOperand)"

text \<open>A \<open>match\<close> that rejects, as an outcome.\<close>

definition ok_or :: "encode_error \<Rightarrow> 'a option \<Rightarrow> 'a encoded" where
  "ok_or e x = (case x of None \<Rightarrow> Err e | Some y \<Rightarrow> Ok y)"

lemma ok_or_simps [simp]: "ok_or e None = Err e" "ok_or e (Some y) = Ok y"
  by (simp_all add: ok_or_def)

lemma ok_or_Err_iff: "ok_or e x = Err d \<longleftrightarrow> x = None \<and> e = d"
  by (cases x) simp_all

text \<open>No reader of an operand fails as \<open>Unsupported\<close>: that error is about the code.\<close>

lemma readers_supported [simp]: "reg_num insn n \<noteq> Err EncUnsupported" "imm_u insn n \<noteq> Err EncUnsupported"
  by (auto simp: reg_num_def imm_u_def split: operand.split)

lemma reg_num_less: "reg_num insn n = Ok r \<Longrightarrow> unat r < 32"
proof -
  assume "reg_num insn n = Ok r"
  then obtain reg where "r = ucast (reg_number reg)" by (auto simp: reg_num_def split: operand.splits)
  then show ?thesis
    using reg_number_less [of reg] by (simp add: unsigned_ucast_eq take_bit_nat_eq_self)
qed

end
