(* ===== verification/Dp_Reg_Encode.thy ===== *)
theory Dp_Reg_Encode
  imports Encode_Base
begin

text \<open>
  \<open>src/encode/dp_reg.rs\<close>: the encoder of Data Processing -- Register, and \<open>is_dp_reg\<close> of \<open>src/encode/mod.rs\<close>.  One definition
  per function of the file; the file's \<open>is_64\<close> is \<open>is_64_reg\<close> and its dispatcher \<open>encode\<close> is \<open>encode_dp_reg\<close>.  The match tables
  that map a code to its selector fields stand by themselves.
\<close>

section \<open>Field and operand readers\<close>

definition cond_of :: "insn \<Rightarrow> nat \<Rightarrow> condition encoded" where
  "cond_of insn n = (case insn_op insn n of OpCond c \<Rightarrow> Ok c | _ \<Rightarrow> Err EncInvalidOperand)"

definition is_64_reg :: "code \<Rightarrow> bool" where
  "is_64_reg code \<longleftrightarrow>
     code \<in> {C_AndShifted64, C_BicShifted64, C_OrrShifted64, C_OrnShifted64, C_EorShifted64, C_EonShifted64, C_AndsShifted64,
             C_BicsShifted64, C_AddShifted64, C_AddsShifted64, C_SubShifted64, C_SubsShifted64, C_AddExtended64,
             C_AddsExtended64, C_SubExtended64, C_SubsExtended64, C_Adc64, C_Adcs64, C_Sbc64, C_Sbcs64, C_CcmnReg64,
             C_CcmnImm64, C_CcmpReg64, C_CcmpImm64, C_Csel64, C_Csinc64, C_Csinv64, C_Csneg64, C_Madd64, C_Msub64, C_Udiv64,
             C_Sdiv64, C_Lslv64, C_Lsrv64, C_Asrv64, C_Rorv64, C_Rbit64, C_Rev1664, C_Rev3264, C_Rev64Bit, C_Clz64, C_Cls64,
             C_Abs64, C_Cnt64, C_Ctz64, C_SmaxReg64, C_SminReg64, C_UmaxReg64, C_UminReg64}"

definition sf_of :: "code \<Rightarrow> u32" where
  "sf_of code = (if is_64_reg code then 1 else 0)"

definition reg_with_shift :: "insn \<Rightarrow> nat \<Rightarrow> (u32 \<times> (shift_type \<times> u8) option) encoded" where
  "reg_with_shift insn n =
     (case insn_op insn n of OpReg reg _ _ shift _ _ \<Rightarrow> Ok (ucast (reg_number reg), shift) | _ \<Rightarrow> Err EncInvalidOperand)"

definition shift_field :: "shift_type \<Rightarrow> u32 option" where
  "shift_field st =
     (case st of ShiftLsl \<Rightarrow> Some 0 | ShiftLsr \<Rightarrow> Some 1 | ShiftAsr \<Rightarrow> Some 2 | ShiftRor \<Rightarrow> Some 3 | _ \<Rightarrow> None)"

definition recover_shift :: "insn \<Rightarrow> nat \<Rightarrow> u32 \<Rightarrow> (u32 \<times> u32) encoded" where
  "recover_shift insn n sf =
     and_then (reg_with_shift insn n) (\<lambda>(_, shift).
       let (st, amt) = (case shift of None \<Rightarrow> (ShiftLsl, 0) | Some x \<Rightarrow> x)
       in and_then (ok_or EncInvalidOperand (shift_field st)) (\<lambda>sh.
            let imm6 = ucast amt
            in if imm6 > 0x3f then Err EncInvalidImmediate
               else if sf = 0 \<and> imm6 AND 0b100000 \<noteq> 0 then Err EncInvalidImmediate
               else Ok (sh, imm6)))"

section \<open>Logical (shifted register)\<close>

definition logical_fields :: "code \<Rightarrow> u32 \<times> u32" where
  "logical_fields code =
     (if code \<in> {C_AndShifted32, C_AndShifted64} then (0b00, 0)
      else if code \<in> {C_BicShifted32, C_BicShifted64} then (0b00, 1)
      else if code \<in> {C_OrrShifted32, C_OrrShifted64} then (0b01, 0)
      else if code \<in> {C_OrnShifted32, C_OrnShifted64} then (0b01, 1)
      else if code \<in> {C_EorShifted32, C_EorShifted64} then (0b10, 0)
      else if code \<in> {C_EonShifted32, C_EonShifted64} then (0b10, 1)
      else if code \<in> {C_AndsShifted32, C_AndsShifted64} then (0b11, 0)
      else (0b11, 1))"

definition enc_logical_shifted :: "insn \<Rightarrow> u32 encoded" where
  "enc_logical_shifted insn =
     (let code = i_code insn;
          sf = sf_of code;
          (opc, n) = logical_fields code
      in and_then
           (if i_mnemonic insn = M_Mov then
              and_then (reg_num insn 0) (\<lambda>rd. and_then (reg_num insn 1) (\<lambda>rm. Ok (rd, 31, rm, 0, 0)))
            else if i_mnemonic insn = M_Mvn then
              and_then (reg_num insn 0) (\<lambda>rd. and_then (reg_num insn 1) (\<lambda>rm.
                and_then (recover_shift insn 1 sf) (\<lambda>(sh, imm6). Ok (rd, 31, rm, sh, imm6))))
            else if i_mnemonic insn = M_Tst then
              and_then (reg_num insn 0) (\<lambda>rn. and_then (reg_num insn 1) (\<lambda>rm.
                and_then (recover_shift insn 1 sf) (\<lambda>(sh, imm6). Ok (31, rn, rm, sh, imm6))))
            else
              and_then (reg_num insn 0) (\<lambda>rd. and_then (reg_num insn 1) (\<lambda>rn. and_then (reg_num insn 2) (\<lambda>rm.
                and_then (recover_shift insn 2 sf) (\<lambda>(sh, imm6). Ok (rd, rn, rm, sh, imm6))))))
           (\<lambda>(rd, rn, rm, sh, imm6).
             Ok (push_bit 31 sf OR push_bit 29 opc OR push_bit 24 0b01010 OR push_bit 22 sh OR push_bit 21 n OR push_bit 16 rm OR
                 push_bit 10 imm6 OR push_bit 5 rn OR rd)))"

section \<open>Add/subtract (shifted register)\<close>

definition addsub_shifted_fields :: "code \<Rightarrow> u32 \<times> u32" where
  "addsub_shifted_fields code =
     (if code \<in> {C_AddShifted32, C_AddShifted64} then (0, 0)
      else if code \<in> {C_AddsShifted32, C_AddsShifted64} then (0, 1)
      else if code \<in> {C_SubShifted32, C_SubShifted64} then (1, 0)
      else (1, 1))"

definition enc_addsub_shifted :: "insn \<Rightarrow> u32 encoded" where
  "enc_addsub_shifted insn =
     (let code = i_code insn;
          sf = sf_of code;
          (op, s) = addsub_shifted_fields code
      in and_then
           (if i_mnemonic insn \<in> {M_Cmp, M_Cmn} then
              and_then (reg_num insn 0) (\<lambda>rn. and_then (reg_num insn 1) (\<lambda>rm.
                and_then (recover_shift insn 1 sf) (\<lambda>(sh, imm6). Ok (31, rn, rm, sh, imm6))))
            else if i_mnemonic insn \<in> {M_Neg, M_Negs} then
              and_then (reg_num insn 0) (\<lambda>rd. and_then (reg_num insn 1) (\<lambda>rm.
                and_then (recover_shift insn 1 sf) (\<lambda>(sh, imm6). Ok (rd, 31, rm, sh, imm6))))
            else
              and_then (reg_num insn 0) (\<lambda>rd. and_then (reg_num insn 1) (\<lambda>rn. and_then (reg_num insn 2) (\<lambda>rm.
                and_then (recover_shift insn 2 sf) (\<lambda>(sh, imm6). Ok (rd, rn, rm, sh, imm6))))))
           (\<lambda>(rd, rn, rm, sh, imm6).
             if sh = 0b11 then Err EncInvalidOperand
             else
              Ok (push_bit 31 sf OR push_bit 30 op OR push_bit 29 s OR push_bit 24 0b01011 OR push_bit 22 sh OR push_bit 16 rm OR
                  push_bit 10 imm6 OR push_bit 5 rn OR rd)))"

section \<open>Add/subtract (extended register)\<close>

definition addsub_extended_fields :: "code \<Rightarrow> u32 \<times> u32" where
  "addsub_extended_fields code =
     (if code \<in> {C_AddExtended32, C_AddExtended64} then (0, 0)
      else if code \<in> {C_AddsExtended32, C_AddsExtended64} then (0, 1)
      else if code \<in> {C_SubExtended32, C_SubExtended64} then (1, 0)
      else (1, 1))"

definition recover_extended_rm :: "insn \<Rightarrow> nat \<Rightarrow> u32 \<Rightarrow> (u32 \<times> u32 \<times> u32) encoded" where
  "recover_extended_rm insn n default_option =
     (case insn_op insn n of
        OpReg reg _ _ shift extend_opt _ \<Rightarrow>
          (let rm = ucast (reg_number reg);
               amt = (case shift of None \<Rightarrow> 0 | Some (_, a) \<Rightarrow> ucast a);
               option = (case extend_opt of Some ext \<Rightarrow> ucast (extend_type_as_bits ext) | None \<Rightarrow> default_option)
           in Ok (rm, option, amt))
      | _ \<Rightarrow> Err EncInvalidOperand)"

definition enc_addsub_extended :: "insn \<Rightarrow> u32 encoded" where
  "enc_addsub_extended insn =
     (let code = i_code insn;
          sf = sf_of code;
          (op, s) = addsub_extended_fields code;
          default_option = (if sf = 1 then 0b011 else 0b010)
      in and_then
           (if i_mnemonic insn \<in> {M_Cmp, M_Cmn} then
              and_then (reg_num insn 0) (\<lambda>rn.
                and_then (recover_extended_rm insn 1 default_option) (\<lambda>(rm, option, imm3). Ok (31, rn, rm, option, imm3)))
            else
              and_then (reg_num insn 0) (\<lambda>rd. and_then (reg_num insn 1) (\<lambda>rn.
                and_then (recover_extended_rm insn 2 default_option) (\<lambda>(rm, option, imm3). Ok (rd, rn, rm, option, imm3)))))
           (\<lambda>(rd, rn, rm, option, imm3).
             if imm3 > 4 then Err EncInvalidImmediate
             else
              Ok (push_bit 31 sf OR push_bit 30 op OR push_bit 29 s OR push_bit 24 0b01011 OR push_bit 21 1 OR push_bit 16 rm OR
                  push_bit 13 option OR push_bit 10 imm3 OR push_bit 5 rn OR rd)))"

section \<open>Add/subtract with carry, checked pointer\<close>

definition addsub_carry_fields :: "code \<Rightarrow> u32 \<times> u32" where
  "addsub_carry_fields code =
     (if code \<in> {C_Adc32, C_Adc64} then (0, 0)
      else if code \<in> {C_Adcs32, C_Adcs64} then (0, 1)
      else if code \<in> {C_Sbc32, C_Sbc64} then (1, 0)
      else (1, 1))"

definition enc_addsub_carry :: "insn \<Rightarrow> u32 encoded" where
  "enc_addsub_carry insn =
     (let code = i_code insn;
          sf = sf_of code;
          (op, s) = addsub_carry_fields code
      in and_then
           (if i_mnemonic insn \<in> {M_Ngc, M_Ngcs} then
              and_then (reg_num insn 0) (\<lambda>rd. and_then (reg_num insn 1) (\<lambda>rm. Ok (rd, 31, rm)))
            else
              and_then (reg_num insn 0) (\<lambda>rd. and_then (reg_num insn 1) (\<lambda>rn. and_then (reg_num insn 2) (\<lambda>rm. Ok (rd, rn, rm)))))
           (\<lambda>(rd, rn, rm).
             Ok (push_bit 31 sf OR push_bit 30 op OR push_bit 29 s OR push_bit 21 0b11010000 OR push_bit 16 rm OR push_bit 5 rn OR rd)))"

definition enc_addsub_pt :: "insn \<Rightarrow> u32 encoded" where
  "enc_addsub_pt insn =
     (let op = (if i_code insn = C_Subpt then 1 else 0)
      in and_then (reg_num insn 0) (\<lambda>rd. and_then (reg_num insn 1) (\<lambda>rn. and_then (reg_with_shift insn 2) (\<lambda>(rm, shift).
         and_then (case shift of None \<Rightarrow> Ok 0 | Some (st, a) \<Rightarrow> (if st = ShiftLsl then Ok (ucast a) else Err EncInvalidOperand)) (\<lambda>amt.
           if amt > 7 then Err EncInvalidImmediate
           else
            Ok (push_bit 31 1 OR push_bit 30 op OR push_bit 21 0b11010000 OR push_bit 16 rm OR push_bit 13 0b001 OR
                push_bit 10 amt OR push_bit 5 rn OR rd))))))"

section \<open>Flag manipulation\<close>

definition enc_rmif :: "insn \<Rightarrow> u32 encoded" where
  "enc_rmif insn =
     and_then (reg_num insn 0) (\<lambda>rn. and_then (imm_u insn 1) (\<lambda>imm6. and_then (imm_u insn 2) (\<lambda>mask.
       if imm6 > 0x3f \<or> mask > 0xf then Err EncInvalidImmediate
       else
        Ok (push_bit 31 1 OR push_bit 29 1 OR push_bit 21 0b11010000 OR push_bit 15 (ucast imm6) OR push_bit 10 0b00001 OR
            push_bit 5 rn OR ucast mask))))"

definition enc_setf :: "insn \<Rightarrow> u32 encoded" where
  "enc_setf insn =
     (let sz = (if i_code insn = C_Setf16 then 1 else 0)
      in and_then (reg_num insn 0) (\<lambda>rn.
           Ok (push_bit 29 1 OR push_bit 21 0b11010000 OR push_bit 14 sz OR push_bit 10 0b000010 OR push_bit 5 rn OR 0b01101)))"

section \<open>Conditional compare and select\<close>

definition cond_compare_fields :: "code \<Rightarrow> u32 \<times> u32" where
  "cond_compare_fields code =
     (if code \<in> {C_CcmnReg32, C_CcmnReg64} then (0, 0)
      else if code \<in> {C_CcmnImm32, C_CcmnImm64} then (0, 1)
      else if code \<in> {C_CcmpReg32, C_CcmpReg64} then (1, 0)
      else (1, 1))"

definition enc_cond_compare :: "insn \<Rightarrow> u32 encoded" where
  "enc_cond_compare insn =
     (let code = i_code insn;
          sf = sf_of code;
          (op, imm_form) = cond_compare_fields code
      in and_then (reg_num insn 0) (\<lambda>rn.
         and_then
           (if imm_form = 1 then
              and_then (imm_u insn 1) (\<lambda>v. if v > 0x1f then Err EncInvalidImmediate else Ok (ucast v))
            else reg_num insn 1) (\<lambda>rm.
         and_then (imm_u insn 2) (\<lambda>nzcv.
           if nzcv > 0xf then Err EncInvalidImmediate
           else
            and_then (cond_of insn 3) (\<lambda>c.
              let cond = ucast (condition_as_u4 c)
              in Ok (push_bit 31 sf OR push_bit 30 op OR push_bit 21 0b111010010 OR push_bit 16 rm OR push_bit 12 cond OR
                     push_bit 11 imm_form OR push_bit 5 rn OR ucast nzcv))))))"

definition cond_select_fields :: "code \<Rightarrow> u32 \<times> u32" where
  "cond_select_fields code =
     (if code \<in> {C_Csel32, C_Csel64} then (0, 0)
      else if code \<in> {C_Csinc32, C_Csinc64} then (0, 1)
      else if code \<in> {C_Csinv32, C_Csinv64} then (1, 0)
      else (1, 1))"

definition enc_cond_select :: "insn \<Rightarrow> u32 encoded" where
  "enc_cond_select insn =
     (let code = i_code insn;
          sf = sf_of code;
          (op, o2) = cond_select_fields code
      in and_then
           (if i_mnemonic insn \<in> {M_Cset, M_Csetm} then
              and_then (reg_num insn 0) (\<lambda>rd. and_then (cond_of insn 1) (\<lambda>c.
                Ok (rd, 31, 31, ucast (condition_as_u4 (condition_invert c)))))
            else if i_mnemonic insn \<in> {M_Cinc, M_Cinv, M_Cneg} then
              and_then (reg_num insn 0) (\<lambda>rd. and_then (reg_num insn 1) (\<lambda>rn. and_then (cond_of insn 2) (\<lambda>c.
                Ok (rd, rn, rn, ucast (condition_as_u4 (condition_invert c))))))
            else
              and_then (reg_num insn 0) (\<lambda>rd. and_then (reg_num insn 1) (\<lambda>rn. and_then (reg_num insn 2) (\<lambda>rm.
              and_then (cond_of insn 3) (\<lambda>c. Ok (rd, rn, rm, ucast (condition_as_u4 c)))))))
           (\<lambda>(rd, rn, rm, cond).
             Ok (push_bit 31 sf OR push_bit 30 op OR push_bit 21 0b011010100 OR push_bit 16 rm OR push_bit 12 cond OR
                 push_bit 10 o2 OR push_bit 5 rn OR rd)))"

section \<open>Data-processing (3 source)\<close>

definition dp3_fields :: "code \<Rightarrow> u32 \<times> u32" where
  "dp3_fields code =
     (if code \<in> {C_Madd32, C_Madd64} then (0b000, 0)
      else if code \<in> {C_Msub32, C_Msub64} then (0b000, 1)
      else if code = C_Smaddl then (0b001, 0)
      else if code = C_Smsubl then (0b001, 1)
      else if code = C_Smulh then (0b010, 0)
      else if code = C_Maddpt then (0b011, 0)
      else if code = C_Msubpt then (0b011, 1)
      else if code = C_Umaddl then (0b101, 0)
      else if code = C_Umsubl then (0b101, 1)
      else (0b110, 0))"

definition enc_dp_3source :: "insn \<Rightarrow> u32 encoded" where
  "enc_dp_3source insn =
     (let code = i_code insn;
          sf = (if code \<in> {C_Madd32, C_Msub32} then 0 else 1);
          (op31, o0) = dp3_fields code
      in and_then
           (if code \<in> {C_Smulh, C_Umulh} then
              and_then (reg_num insn 0) (\<lambda>rd. and_then (reg_num insn 1) (\<lambda>rn. and_then (reg_num insn 2) (\<lambda>rm. Ok (rd, rn, rm, 31))))
            else if i_mnemonic insn \<in> {M_Mul, M_Mneg, M_Smull, M_Smnegl, M_Umull, M_Umnegl} then
              and_then (reg_num insn 0) (\<lambda>rd. and_then (reg_num insn 1) (\<lambda>rn. and_then (reg_num insn 2) (\<lambda>rm. Ok (rd, rn, rm, 31))))
            else
              and_then (reg_num insn 0) (\<lambda>rd. and_then (reg_num insn 1) (\<lambda>rn. and_then (reg_num insn 2) (\<lambda>rm.
              and_then (reg_num insn 3) (\<lambda>ra. Ok (rd, rn, rm, ra))))))
           (\<lambda>(rd, rn, rm, ra).
             Ok (push_bit 31 sf OR push_bit 24 0b11011 OR push_bit 21 op31 OR push_bit 16 rm OR push_bit 15 o0 OR push_bit 10 ra OR
                 push_bit 5 rn OR rd)))"

section \<open>Data-processing (2 source)\<close>

definition dp2_rows :: "(code \<times> u32 \<times> u32 \<times> u32) list" where
  "dp2_rows =
     [(C_Udiv32, 0, 0, 0b000010), (C_Udiv64, 1, 0, 0b000010), (C_Sdiv32, 0, 0, 0b000011), (C_Sdiv64, 1, 0, 0b000011),
      (C_Lslv32, 0, 0, 0b001000), (C_Lslv64, 1, 0, 0b001000), (C_Lsrv32, 0, 0, 0b001001), (C_Lsrv64, 1, 0, 0b001001),
      (C_Asrv32, 0, 0, 0b001010), (C_Asrv64, 1, 0, 0b001010), (C_Rorv32, 0, 0, 0b001011), (C_Rorv64, 1, 0, 0b001011),
      (C_SubpDp, 1, 0, 0b000000), (C_SubpsDp, 1, 1, 0b000000), (C_IrgDp, 1, 0, 0b000100), (C_GmiDp, 1, 0, 0b000101),
      (C_Pacga, 1, 0, 0b001100), (C_Crc32b, 0, 0, 0b010000), (C_Crc32h, 0, 0, 0b010001), (C_Crc32w, 0, 0, 0b010010),
      (C_Crc32x, 1, 0, 0b010011), (C_Crc32cb, 0, 0, 0b010100), (C_Crc32ch, 0, 0, 0b010101), (C_Crc32cw, 0, 0, 0b010110),
      (C_Crc32cx, 1, 0, 0b010111), (C_SmaxReg32, 0, 0, 0b011000), (C_SmaxReg64, 1, 0, 0b011000), (C_UmaxReg32, 0, 0, 0b011001),
      (C_UmaxReg64, 1, 0, 0b011001), (C_SminReg32, 0, 0, 0b011010), (C_SminReg64, 1, 0, 0b011010), (C_UminReg32, 0, 0, 0b011011)]"

definition dp2_fields :: "code \<Rightarrow> u32 \<times> u32 \<times> u32" where
  "dp2_fields code = (case map_of dp2_rows code of Some f \<Rightarrow> f | None \<Rightarrow> (1, 0, 0b011011))"

definition enc_dp_2source :: "insn \<Rightarrow> u32 encoded" where
  "enc_dp_2source insn =
     (let code = i_code insn;
          (sf, s, opcode) = dp2_fields code
      in and_then
           (if code = C_IrgDp then
              and_then (reg_num insn 0) (\<lambda>rd. and_then (reg_num insn 1) (\<lambda>rn.
              and_then (if i_op_count insn \<ge> 3 then reg_num insn 2 else Ok 31) (\<lambda>rm. Ok (rd, rn, rm))))
            else
              and_then (reg_num insn 0) (\<lambda>rd. and_then (reg_num insn 1) (\<lambda>rn. and_then (reg_num insn 2) (\<lambda>rm. Ok (rd, rn, rm)))))
           (\<lambda>(rd, rn, rm).
             Ok (push_bit 31 sf OR push_bit 29 s OR push_bit 21 0b011010110 OR push_bit 16 rm OR push_bit 10 opcode OR
                 push_bit 5 rn OR rd)))"

section \<open>Data-processing (1 source)\<close>

definition dp1_opcode :: "code \<Rightarrow> u32" where
  "dp1_opcode code =
     (if code \<in> {C_Rbit32, C_Rbit64} then 0b000000
      else if code \<in> {C_Rev1632, C_Rev1664} then 0b000001
      else if code \<in> {C_Rev32Bit, C_Rev3232, C_Rev3264} then 0b000010
      else if code = C_Rev64Bit then 0b000011
      else if code \<in> {C_Clz32, C_Clz64} then 0b000100
      else if code \<in> {C_Cls32, C_Cls64} then 0b000101
      else if code \<in> {C_Ctz32, C_Ctz64} then 0b000110
      else if code \<in> {C_Cnt32, C_Cnt64} then 0b000111
      else 0b001000)"

definition enc_dp_1source_basic :: "insn \<Rightarrow> u32 encoded" where
  "enc_dp_1source_basic insn =
     (let code = i_code insn;
          sf = sf_of code;
          opcode = dp1_opcode code
      in and_then (reg_num insn 0) (\<lambda>rd. and_then (reg_num insn 1) (\<lambda>rn.
           Ok (push_bit 31 sf OR push_bit 30 1 OR push_bit 21 0b11010110 OR push_bit 10 opcode OR push_bit 5 rn OR rd))))"

definition pauth_lr_rows :: "(code \<times> u32) list" where
  "pauth_lr_rows =
     [(C_Paciasppc, 0b101000), (C_Pacibsppc, 0b101001), (C_Pacnbiasppc, 0b100000), (C_Pacnbibsppc, 0b100001),
      (C_Autiasppcr, 0b100100), (C_Autibsppcr, 0b100101)]"

definition pauth_enc_rows :: "(code \<times> u32 \<times> bool) list" where
  "pauth_enc_rows =
     [(C_PaciaDp, 0b000000, False), (C_PacibDp, 0b000001, False), (C_PacdaDp, 0b000010, False), (C_PacdbDp, 0b000011, False),
      (C_AutiaDp, 0b000100, False), (C_AutibDp, 0b000101, False), (C_AutdaDp, 0b000110, False), (C_AutdbDp, 0b000111, False),
      (C_PacizaDp, 0b001000, True), (C_PacizbDp, 0b001001, True), (C_PacdzaDp, 0b001010, True), (C_PacdzbDp, 0b001011, True),
      (C_AutizaDp, 0b001100, True), (C_AutizbDp, 0b001101, True), (C_AutdzaDp, 0b001110, True), (C_AutdzbDp, 0b001111, True),
      (C_XpaciDp, 0b010000, True)]"

definition enc_dp_1source_pauth :: "insn \<Rightarrow> u32 encoded" where
  "enc_dp_1source_pauth insn =
     (let code = i_code insn
      in case map_of pauth_lr_rows code of
           Some opcode \<Rightarrow>
             and_then (if code \<in> {C_Autiasppcr, C_Autibsppcr} then reg_num insn 0 else Ok 31) (\<lambda>rn.
               Ok (push_bit 31 1 OR push_bit 30 1 OR push_bit 21 0b11010110 OR push_bit 16 1 OR push_bit 10 opcode OR
                   push_bit 5 rn OR 0b11110))
         | None \<Rightarrow>
             let (opcode, z) = (case map_of pauth_enc_rows code of Some f \<Rightarrow> f | None \<Rightarrow> (0b010001, True))
             in and_then (reg_num insn 0) (\<lambda>rd. and_then (if z then Ok 31 else reg_num insn 1) (\<lambda>rn.
                  Ok (push_bit 31 1 OR push_bit 30 1 OR push_bit 21 0b11010110 OR push_bit 16 1 OR push_bit 10 opcode OR
                      push_bit 5 rn OR rd))))"

section \<open>Dispatcher\<close>

definition logical_codes :: "code list" where
  "logical_codes =
     [C_AndShifted32, C_AndShifted64, C_BicShifted32, C_BicShifted64, C_OrrShifted32, C_OrrShifted64, C_OrnShifted32,
      C_OrnShifted64, C_EorShifted32, C_EorShifted64, C_EonShifted32, C_EonShifted64, C_AndsShifted32, C_AndsShifted64,
      C_BicsShifted32, C_BicsShifted64]"

definition addsub_shifted_codes :: "code list" where
  "addsub_shifted_codes =
     [C_AddShifted32, C_AddShifted64, C_AddsShifted32, C_AddsShifted64, C_SubShifted32, C_SubShifted64, C_SubsShifted32,
      C_SubsShifted64]"

definition addsub_extended_codes :: "code list" where
  "addsub_extended_codes =
     [C_AddExtended32, C_AddExtended64, C_AddsExtended32, C_AddsExtended64, C_SubExtended32, C_SubExtended64,
      C_SubsExtended32, C_SubsExtended64]"

definition addsub_carry_codes :: "code list" where
  "addsub_carry_codes = [C_Adc32, C_Adc64, C_Adcs32, C_Adcs64, C_Sbc32, C_Sbc64, C_Sbcs32, C_Sbcs64]"

definition cond_compare_codes :: "code list" where
  "cond_compare_codes =
     [C_CcmnReg32, C_CcmnReg64, C_CcmnImm32, C_CcmnImm64, C_CcmpReg32, C_CcmpReg64, C_CcmpImm32, C_CcmpImm64]"

definition cond_select_codes :: "code list" where
  "cond_select_codes = [C_Csel32, C_Csel64, C_Csinc32, C_Csinc64, C_Csinv32, C_Csinv64, C_Csneg32, C_Csneg64]"

definition dp3_codes :: "code list" where
  "dp3_codes =
     [C_Madd32, C_Madd64, C_Msub32, C_Msub64, C_Smaddl, C_Smsubl, C_Smulh, C_Umaddl, C_Umsubl, C_Umulh, C_Maddpt, C_Msubpt]"

definition dp2_codes :: "code list" where
  "dp2_codes =
     [C_Udiv32, C_Udiv64, C_Sdiv32, C_Sdiv64, C_Lslv32, C_Lslv64, C_Lsrv32, C_Lsrv64, C_Asrv32, C_Asrv64, C_Rorv32, C_Rorv64,
      C_Crc32b, C_Crc32h, C_Crc32w, C_Crc32x, C_Crc32cb, C_Crc32ch, C_Crc32cw, C_Crc32cx, C_SubpDp, C_SubpsDp, C_IrgDp, C_GmiDp,
      C_Pacga, C_SmaxReg32, C_SmaxReg64, C_SminReg32, C_SminReg64, C_UmaxReg32, C_UmaxReg64, C_UminReg32, C_UminReg64]"

definition dp1_codes :: "code list" where
  "dp1_codes =
     [C_Rbit32, C_Rbit64, C_Rev1632, C_Rev1664, C_Rev3232, C_Rev3264, C_Rev32Bit, C_Rev64Bit, C_Clz32, C_Clz64, C_Cls32,
      C_Cls64, C_Abs32, C_Abs64, C_Cnt32, C_Cnt64, C_Ctz32, C_Ctz64]"

definition pauth_codes :: "code list" where
  "pauth_codes =
     [C_PaciaDp, C_PacibDp, C_PacdaDp, C_PacdbDp, C_AutiaDp, C_AutibDp, C_AutdaDp, C_AutdbDp, C_PacizaDp, C_PacizbDp,
      C_PacdzaDp, C_PacdzbDp, C_AutizaDp, C_AutizbDp, C_AutdzaDp, C_AutdzbDp, C_XpaciDp, C_XpacdDp, C_Paciasppc, C_Pacibsppc,
      C_Pacnbiasppc, C_Pacnbibsppc, C_Autiasppcr, C_Autibsppcr]"

definition encode_dp_reg :: "insn \<Rightarrow> u32 encoded" where
  "encode_dp_reg insn =
     (let code = i_code insn
      in if code \<in> set logical_codes then enc_logical_shifted insn
         else if code \<in> set addsub_shifted_codes then enc_addsub_shifted insn
         else if code \<in> set addsub_extended_codes then enc_addsub_extended insn
         else if code \<in> set addsub_carry_codes then enc_addsub_carry insn
         else if code = C_Rmif then enc_rmif insn
         else if code \<in> {C_Setf8, C_Setf16} then enc_setf insn
         else if code \<in> set cond_compare_codes then enc_cond_compare insn
         else if code \<in> set cond_select_codes then enc_cond_select insn
         else if code \<in> set dp3_codes then enc_dp_3source insn
         else if code \<in> {C_Addpt, C_Subpt} then enc_addsub_pt insn
         else if code \<in> set dp2_codes then enc_dp_2source insn
         else if code \<in> set dp1_codes then enc_dp_1source_basic insn
         else if code \<in> set pauth_codes then enc_dp_1source_pauth insn
         else Err EncUnsupported)"

text \<open>\<open>is_dp_reg\<close> of \<open>encode/mod.rs\<close>: the codes of the group, listed once more; \<open>Rev3232\<close> is among them although no word decodes to it.\<close>

definition is_dp_reg :: "code \<Rightarrow> bool" where
  "is_dp_reg code \<longleftrightarrow>
     code \<in> set [
              C_AndShifted32, C_AndShifted64, C_BicShifted32, C_BicShifted64, C_OrrShifted32, C_OrrShifted64,
              C_OrnShifted32, C_OrnShifted64, C_EorShifted32, C_EorShifted64, C_EonShifted32,
              C_EonShifted64, C_AndsShifted32, C_AndsShifted64, C_BicsShifted32, C_BicsShifted64,
              C_AddShifted32, C_AddShifted64, C_AddsShifted32, C_AddsShifted64, C_SubShifted32,
              C_SubShifted64, C_SubsShifted32, C_SubsShifted64,
              C_AddExtended32, C_AddExtended64, C_AddsExtended32, C_AddsExtended64, C_SubExtended32,
              C_SubExtended64, C_SubsExtended32, C_SubsExtended64,
              C_Adc32, C_Adc64, C_Adcs32, C_Adcs64, C_Sbc32, C_Sbc64, C_Sbcs32, C_Sbcs64,
              C_Rmif, C_Setf8, C_Setf16,
              C_CcmnReg32, C_CcmnReg64, C_CcmnImm32, C_CcmnImm64, C_CcmpReg32, C_CcmpReg64, C_CcmpImm32,
              C_CcmpImm64,
              C_Csel32, C_Csel64, C_Csinc32, C_Csinc64, C_Csinv32, C_Csinv64, C_Csneg32, C_Csneg64,
              C_Madd32, C_Madd64, C_Msub32, C_Msub64, C_Smaddl, C_Smsubl, C_Smulh, C_Umaddl, C_Umsubl,
              C_Umulh, C_Maddpt, C_Msubpt,
              C_Addpt, C_Subpt,
              C_Udiv32, C_Udiv64, C_Sdiv32, C_Sdiv64, C_Lslv32, C_Lslv64, C_Lsrv32, C_Lsrv64, C_Asrv32,
              C_Asrv64, C_Rorv32, C_Rorv64, C_Crc32b, C_Crc32h, C_Crc32w, C_Crc32x, C_Crc32cb, C_Crc32ch,
              C_Crc32cw, C_Crc32cx, C_SubpDp, C_SubpsDp, C_IrgDp, C_GmiDp, C_Pacga,
              C_SmaxReg32, C_SmaxReg64, C_SminReg32, C_SminReg64,
              C_UmaxReg32, C_UmaxReg64, C_UminReg32, C_UminReg64,
              C_Rbit32, C_Rbit64, C_Rev1632, C_Rev1664, C_Rev3232, C_Rev3264, C_Rev32Bit, C_Rev64Bit,
              C_Clz32, C_Clz64, C_Cls32, C_Cls64,
              C_Abs32, C_Abs64, C_Cnt32, C_Cnt64, C_Ctz32, C_Ctz64,
              C_PaciaDp, C_PacibDp, C_PacdaDp, C_PacdbDp, C_AutiaDp, C_AutibDp, C_AutdaDp, C_AutdbDp,
              C_PacizaDp, C_PacizbDp, C_PacdzaDp, C_PacdzbDp, C_AutizaDp, C_AutizbDp, C_AutdzaDp,
              C_AutdzbDp, C_XpaciDp, C_XpacdDp,
              C_Paciasppc, C_Pacibsppc, C_Pacnbiasppc, C_Pacnbibsppc, C_Autiasppcr, C_Autibsppcr]"

end
