(* ===== verification/Codec_Base.thy ===== *)
theory Codec_Base
  imports Decode_Base Encode_Base
begin

text \<open>
  The contract between a group's decoder and its encoder, and the evaluation rules with which each group proves it.

  \<^item> \<open>same_semantics i j\<close>: the instructions agree on everything an encoder may look at (code, mnemonic, address, live
    operands), not on the stored word or the flags.
  \<^item> \<open>group_codec\<close>: a decoder for the words of a group that keeps the frame, stays inside the codes of the group,
    builds well-formed instructions, respects the extension gate of the code, and whose results the encoder maps to a
    word that decodes to the same semantics.
  \<^item> \<open>exact_codec\<close>: the encoder returns the very word.

  A round trip is proved in two steps: the decoder is evaluated on every combination of its selector bits (\<open>dec_eval\<close>),
  the encoder on the result (\<open>enc_eval\<close>), and the word put together is the original one by the layout of the class,
  which \<open>to_bits\<close> checks bit by bit.
\<close>

section \<open>Evaluation rules\<close>

definition op_num :: "operand \<Rightarrow> u32 encoded" where
  "op_num op = (case op of OpReg reg _ _ _ _ _ \<Rightarrow> Ok (ucast (reg_number reg)) | _ \<Rightarrow> Err EncInvalidOperand)"

lemma reg_num_op: "reg_num insn n = op_num (insn_op insn n)"
  by (simp add: reg_num_def op_num_def)

lemma op_num_gp_reg [simp]: "op_num (gp_reg u wd (bits w l 5)) = Ok (bits w l 5)"
  unfolding op_num_def gp_reg_def operand.case reg_number_field ..

lemma op_num_gp_reg_31 [simp]: "op_num (gp_reg u wd 31) = Ok 31"
  by (simp add: op_num_def gp_reg_def)

definition op_imm :: "operand \<Rightarrow> u64 encoded" where
  "op_imm op =
     (case op of OpImmUnsigned v \<Rightarrow> Ok v | OpImmLogical v \<Rightarrow> Ok v | OpImmSigned v \<Rightarrow> Ok v
      | OpShiftAmount v \<Rightarrow> Ok (ucast v) | _ \<Rightarrow> Err EncInvalidOperand)"

lemma op_imm_simps [simp]:
  "op_imm (OpImmUnsigned v) = Ok v" "op_imm (OpImmLogical v) = Ok v" "op_imm (OpImmSigned v) = Ok v"
  "op_imm (OpShiftAmount s) = Ok (ucast s)"
  by (simp_all add: op_imm_def)

lemma imm_u_op: "imm_u insn n = op_imm (insn_op insn n)"
  by (simp add: imm_u_def op_imm_def)

lemma bit_at_1: "bit w p \<Longrightarrow> bit_at w p = 1"
  and bit_at_0: "\<not> bit w p \<Longrightarrow> bit_at w p = 0"
  by simp_all

lemmas to_bits = u32_eq_all_bits bit_bits bit_bit_at bit_simps numeral_2_eq_2 [symmetric]
lemmas dec_eval = Let_def bit_at_1 bit_at_0
lemmas enc_eval = Let_def bit_at_1 bit_at_0 reg_num_op imm_u_op ucast_field_u16 ucast_field_u8 ucast_field_u64

text \<open>A field stays below the power of two of its width; the widths that occur, as evaluated bounds.\<close>

lemma bits_le: "bits w l k \<le> mask k"
  by (metis bits_mask word_and_le1)

lemma field_bounds [simp]:
  "\<not> 0xfff < bits w l 12" "\<not> 0x3f < bits w l 6" "\<not> 0xffff < bits w l 16" "\<not> 0x1f < bits w l 5"
  "\<not> 0xf < bits w l 4" "\<not> 7 < bits w l 3" "\<not> 0xff < bits w l 8"
  using bits_le [of w l 12] bits_le [of w l 6] bits_le [of w l 16] bits_le [of w l 5] bits_le [of w l 4]
    bits_le [of w l 3] bits_le [of w l 8]
  by (simp_all add: mask_eq_exp_minus_1)

lemma ucast_bits_le: "k < 32 \<Longrightarrow> ucast (bits w l k) \<le> (mask k :: u64)"
proof -
  assume "k < 32"
  have "ucast (bits w l k) AND (mask k :: u64) = ucast (bits w l k)"
    by (rule bit_word_eqI) (auto simp: bit_simps bit_bits)
  then show ?thesis by (metis word_and_le1)
qed

lemma field_bounds_u64 [simp]:
  "\<not> 0xfff < (ucast (bits w l 12) :: u64)" "\<not> 0x3f < (ucast (bits w l 6) :: u64)"
  "\<not> 0xf < (ucast (bits w l 4) :: u64)" "\<not> 0xff < (ucast (bits w l 8) :: u64)"
  "\<not> 0xffff < (ucast (bits w l 16) :: u64)" "\<not> 7 < (ucast (bits w l 3) :: u64)" "\<not> 0x7f < (ucast (bits w l 7) :: u64)"
  using ucast_bits_le [of 12 w l] ucast_bits_le [of 6 w l] ucast_bits_le [of 4 w l] ucast_bits_le [of 8 w l]
    ucast_bits_le [of 16 w l] ucast_bits_le [of 3 w l] ucast_bits_le [of 7 w l]
  by (simp_all add: mask_eq_exp_minus_1)

text \<open>Two- and three-bit selectors.\<close>

lemma bits_1_cases: "bits w l 1 = 0 \<or> bits w l 1 = 1"
  using bit_at_cases [of w l] by (simp add: bit_at_eq)

lemma bits_2_cases: "bits w l 2 = 0 \<or> bits w l 2 = 1 \<or> bits w l 2 = 2 \<or> bits w l 2 = 3"
  using word_less_cases(2) [of "bits w l 2"] unat_bits_less [of 2 w l] by simp

lemma bits_3_cases:
  "bits w l 3 = 0 \<or> bits w l 3 = 1 \<or> bits w l 3 = 2 \<or> bits w l 3 = 3 \<or>
   bits w l 3 = 4 \<or> bits w l 3 = 5 \<or> bits w l 3 = 6 \<or> bits w l 3 = 7"
  using word_less_cases(3) [of "bits w l 3"] unat_bits_less [of 3 w l] by simp

lemma bits_4_cases:
  "bits w l 4 = 0 \<or> bits w l 4 = 1 \<or> bits w l 4 = 2 \<or> bits w l 4 = 3 \<or>
   bits w l 4 = 4 \<or> bits w l 4 = 5 \<or> bits w l 4 = 6 \<or> bits w l 4 = 7 \<or>
   bits w l 4 = 8 \<or> bits w l 4 = 9 \<or> bits w l 4 = 10 \<or> bits w l 4 = 11 \<or>
   bits w l 4 = 12 \<or> bits w l 4 = 13 \<or> bits w l 4 = 14 \<or> bits w l 4 = 15"
  using word_less_cases(4) [of "bits w l 4"] unat_bits_less [of 4 w l] by simp

lemma sign_extend_reach:
  assumes "0 < n" "n < 64"
  shows "signed_drop_bit (n - 1) (sign_extend x n) = (if bit x (n - 1) then - 1 else 0)"
proof (rule bit_word_eqI)
  fix i assume "i < LENGTH(64)"
  moreover have "n + i - 1 < n \<longleftrightarrow> i = 0" using assms by auto
  ultimately show "bit (signed_drop_bit (n - 1) (sign_extend x n)) i = bit (if bit x (n - 1) then - 1 else (0 :: u64)) i"
    using assms by (cases "i = 0") (auto simp: bit_signed_drop_bit_iff bit_sign_extend)
qed

lemma sint_sign_extend:
  assumes "0 < n" "n < 64"
  shows "sint (sign_extend x n) = signed_take_bit (n - 1) (uint x)"
proof (intro bit_eqI)
  fix i
  have "min i (n - 1) = (if i < n then i else n - 1)" using assms by (auto simp: min_def)
  then show "bit (sint (sign_extend x n)) i = bit (signed_take_bit (n - 1) (uint x)) i"
    using assms by (auto simp: bit_sint_iff bit_sign_extend Bit_Operations.bit_signed_take_bit_iff bit_uint_iff)
qed

lemma sint_sign_extend_8: "- 128 \<le> sint (sign_extend x 8) \<and> sint (sign_extend x 8) \<le> 127"
  using signed_take_bit_int_greater_eq_minus_exp [of 7 "uint x"] signed_take_bit_int_less_exp [of 7 "uint x"]
  by (simp add: sint_sign_extend)

lemma bit_at_inject [simp]: "bit_at w p = bit_at v q \<longleftrightarrow> (bit w p \<longleftrightarrow> bit v q)"
  using bit_at_cases [of w p] bit_at_cases [of v q] by (metis bit_at_eq_iffs)

lemma take_bit_bits [simp]: "k \<le> n \<Longrightarrow> take_bit n (bits w l k) = bits w l k"
  by (auto intro!: bit_word_eqI simp: bit_bits bit_take_bit_iff)

text \<open>A test of a field against a constant, as a test of its bits.\<close>

lemma bits_eqD: "bits w l k = c \<Longrightarrow> n < k \<Longrightarrow> bit w (l + n) \<longleftrightarrow> bit c n"
  using bit_bits [of w l k n] by simp

text \<open>A difference of addresses that fits a signed field of \<open>n\<close> bits, as the encoders test it and as a range.\<close>

lemma int_div_range: "0 < m \<Longrightarrow> x div m = 0 \<or> x div m = - 1 \<longleftrightarrow> - m \<le> x \<and> x < (m :: int)"
proof
  assume m: "0 < m"
  have e: "x = m * (x div m) + x mod m" "0 \<le> x mod m" "x mod m < m" using m by simp_all
  assume "x div m = 0 \<or> x div m = - 1"
  then show "- m \<le> x \<and> x < m"
  proof
    assume "x div m = 0"
    then have "x = x mod m" using e(1) by simp
    then show ?thesis using e(2,3) m by linarith
  next
    assume "x div m = - 1"
    then have "x = - m + x mod m" using e(1) by simp
    then show ?thesis using e(2,3) m by linarith
  qed
next
  assume m: "0 < m" and "- m \<le> x \<and> x < m"
  then have "0 \<le> x \<and> x < m \<or> 0 \<le> x + m \<and> x + m < m" by linarith
  then show "x div m = 0 \<or> x div m = - 1"
  proof
    assume "0 \<le> x + m \<and> x + m < m"
    then have "(x + m) div m = 0" by simp
    then show ?thesis using div_add_self2 [of m x] m by simp
  qed simp
qed

definition fits_signed :: "nat \<Rightarrow> i64 \<Rightarrow> bool" where
  "fits_signed n d \<longleftrightarrow> - (2 ^ (n - 1)) \<le> sint d \<and> sint d < 2 ^ (n - 1)"

lemma signed_drop_bit_fits: "signed_drop_bit (n - 1) d = 0 \<or> signed_drop_bit (n - 1) d = - 1 \<longleftrightarrow> fits_signed n d"
proof -
  have "signed_drop_bit (n - 1) d = 0 \<longleftrightarrow> sint (signed_drop_bit (n - 1) d) = sint (0 :: i64)"
    "signed_drop_bit (n - 1) d = - 1 \<longleftrightarrow> sint (signed_drop_bit (n - 1) d) = sint (- 1 :: i64)"
    by (simp_all only: word_eq_iff_signed)
  then show ?thesis
    using int_div_range [of "2 ^ (n - 1)" "sint d"]
    by (simp add: sint_signed_drop_bit_eq drop_bit_eq_div fits_signed_def)
qed

lemma sign_extend_fits:
  assumes "0 < n" "n < 64" "signed_drop_bit (n - 1) d = 0 \<or> signed_drop_bit (n - 1) d = (- 1 :: i64)"
  shows "sign_extend (take_bit n d) n = d"
proof (rule bit_word_eqI)
  fix i assume i: "i < LENGTH(64)"
  show "bit (sign_extend (take_bit n d) n) i = bit d i"
  proof (cases "i < n")
    case True
    then show ?thesis using assms i by (simp add: bit_sign_extend bit_take_bit_iff)
  next
    case False
    have "bit (signed_drop_bit (n - 1) d) 0 = bit (signed_drop_bit (n - 1) d) (i - (n - 1))"
      using assms(3) i by auto
    then have "bit d (n - 1) = bit d i"
      using assms(1,2) i False by (auto simp: bit_signed_drop_bit_iff split: if_splits)
    then show ?thesis using assms i False by (simp add: bit_sign_extend bit_take_bit_iff)
  qed
qed

text \<open>The readers never panic.\<close>

lemma no_panic [simp]: "op_num op \<noteq> Panic" "op_imm op \<noteq> Panic" "ok_or e x \<noteq> Panic"
  by (auto simp: op_num_def op_imm_def ok_or_def split: operand.split option.split)

lemma op_supported [simp]: "op_num op \<noteq> Err EncUnsupported" "op_imm op \<noteq> Err EncUnsupported"
  by (auto simp: op_num_def op_imm_def split: operand.split)

section \<open>Replacing a field of a word\<close>

definition agree :: "nat \<Rightarrow> nat \<Rightarrow> u32 \<Rightarrow> u32 \<Rightarrow> bool" where
  "agree l k w v \<longleftrightarrow> (\<forall>i. i < l \<or> l + k \<le> i \<longrightarrow> bit w i = bit v i)"

lemma agree_refl [simp]: "agree l k w w"
  by (simp add: agree_def)

lemma agree_bits:
  "agree l k w v \<Longrightarrow> a + n \<le> l \<or> l + k \<le> a \<Longrightarrow> bits v a n = bits w a n"
  by (rule bit_word_eqI) (auto simp: agree_def bit_bits)

lemma agree_bit_at: "agree l k w v \<Longrightarrow> a < l \<or> l + k \<le> a \<Longrightarrow> bit_at v a = bit_at w a"
  by (auto simp: agree_def)

definition with_field :: "nat \<Rightarrow> nat \<Rightarrow> u32 \<Rightarrow> u32 \<Rightarrow> u32" where
  "with_field l k v w = (w AND NOT (push_bit l (mask k))) OR push_bit l (take_bit k v)"

lemma with_field:
  assumes "l + k \<le> 32"
  shows "agree l k w (with_field l k v w)" "bits (with_field l k v w) l k = take_bit k v"
proof -
  show "agree l k w (with_field l k v w)"
    using assms by (auto simp: agree_def with_field_def bit_simps dest: bit_imp_le_length)
  show "bits (with_field l k v w) l k = take_bit k v"
    using assms by (intro bit_word_eqI) (auto simp: with_field_def bit_bits bit_simps)
qed

section \<open>The contract\<close>

definition same_semantics :: "insn \<Rightarrow> insn \<Rightarrow> bool" where
  "same_semantics i j \<longleftrightarrow>
     i_code i = i_code j \<and> i_mnemonic i = i_mnemonic j \<and> i_ip i = i_ip j \<and> live_operands i = live_operands j"

lemma same_semantics_refl [simp]: "same_semantics i i"
  by (simp add: same_semantics_def)

lemma same_semantics_sym: "same_semantics i j \<Longrightarrow> same_semantics j i"
  by (simp add: same_semantics_def)

lemma same_semantics_trans: "same_semantics i j \<Longrightarrow> same_semantics j k \<Longrightarrow> same_semantics i k"
  by (simp add: same_semantics_def)

lemma length_live_operands: "wf_insn i \<Longrightarrow> length (live_operands i) = i_op_count i"
  by (simp add: live_operands_def wf_insn_def)

lemma same_semantics_op: "wf_insn i \<Longrightarrow> wf_insn j \<Longrightarrow> same_semantics i j \<Longrightarrow> insn_op i n = insn_op j n"
  by (simp add: same_semantics_def insn_op_live)

lemma same_semantics_built [simp]:
  "same_semantics (built o1 c m ops) (built o2 c' m' ops') \<longleftrightarrow> c = c' \<and> m = m' \<and> ops = ops' \<and> i_ip o1 = i_ip o2"
  by (auto simp: same_semantics_def)

lemma same_semantics_if:
  "same_semantics (if c then a else b) (if c then a' else b') = (if c then same_semantics a a' else same_semantics b b')"
  by simp

text \<open>What a group decoder returns from \<open>new_invalid\<close>: the argument, or a fresh instruction with the same header.\<close>

definition decoded :: "(u32 \<Rightarrow> u64 \<Rightarrow> feature_set \<Rightarrow> insn \<Rightarrow> insn) \<Rightarrow> u32 \<Rightarrow> u64 \<Rightarrow> feature_set \<Rightarrow> insn" where
  "decoded dec w ip fs = dec w ip fs (new_invalid w ip)"

text \<open>The extension gate of a code.  \<open>SMSTART\<close> and \<open>SMSTOP\<close> (FEAT_SME) and \<open>MADDPT\<close> and \<open>MSUBPT\<close> (FEAT_CPA) are the codes the
  decoder lets through without their extension.\<close>

definition ungated :: "code \<Rightarrow> bool" where
  "ungated c \<longleftrightarrow> c \<in> {C_Smstart, C_Smstop, C_Maddpt, C_Msubpt}"

definition admitted :: "feature_set \<Rightarrow> code \<Rightarrow> bool" where
  "admitted fs c \<longleftrightarrow> has fs (code_feature c) \<or> ungated c"

definition built_from :: "(code \<Rightarrow> bool) \<Rightarrow> feature_set \<Rightarrow> insn \<Rightarrow> insn \<Rightarrow> bool" where
  "built_from owned fs out d \<longleftrightarrow>
     d = out \<or> (\<exists>c m ops. d = built out c m ops \<and> owned c \<and> length ops \<le> 5 \<and> admitted fs c)"

lemma built_from_out [simp]: "built_from owned fs out out"
  by (simp add: built_from_def)

lemma built_from_built:
  "owned c \<Longrightarrow> length ops \<le> 5 \<Longrightarrow> admitted fs c \<Longrightarrow> built_from owned fs out (built out c m ops)"
  by (auto simp: built_from_def)

lemma admitted_has [intro, simp]: "has fs (code_feature c) \<Longrightarrow> admitted fs c"
  and admitted_ungated [simp]: "admitted fs C_Smstart" "admitted fs C_Smstop" "admitted fs C_Maddpt" "admitted fs C_Msubpt"
  by (simp_all add: admitted_def ungated_def)

lemma has_Base [simp]: "has fs F_Base"
  by (simp add: has_iff)

text \<open>What a decoder leaves is either nothing or something the encoder maps to the word \<open>w\<close>.  The rules take a chain of
  conditionals apart, one leaf at a time.\<close>

definition encodes_to :: "(insn \<Rightarrow> u32 encoded) \<Rightarrow> insn \<Rightarrow> u32 \<Rightarrow> insn \<Rightarrow> bool" where
  "encodes_to enc out w d \<longleftrightarrow> d = out \<or> enc d = Ok w"

lemma encodes_if:
  "(b \<Longrightarrow> encodes_to enc out w x) \<Longrightarrow> (\<not> b \<Longrightarrow> encodes_to enc out w y) \<Longrightarrow> encodes_to enc out w (if b then x else y)"
  by simp

lemma encodes_option:
  "(x = None \<Longrightarrow> encodes_to enc out w d) \<Longrightarrow> (\<And>y. x = Some y \<Longrightarrow> encodes_to enc out w (f y)) \<Longrightarrow>
   encodes_to enc out w (case x of None \<Rightarrow> d | Some y \<Rightarrow> f y)"
  by (simp split: option.split)

lemma encodes_out [simp]: "encodes_to enc out w out"
  by (simp add: encodes_to_def)

lemma encodes_leaf: "enc d = Ok w \<Longrightarrow> encodes_to enc out w d"
  by (simp add: encodes_to_def)

lemmas encodes_split = encodes_if encodes_option encodes_out

lemma encodes_toD: "encodes_to enc out w d \<Longrightarrow> i_code d \<noteq> C_Invalid \<Longrightarrow> i_code out = C_Invalid \<Longrightarrow> enc d = Ok w"
  by (auto simp: encodes_to_def)

text \<open>The same, for any predicate of the leaves.\<close>

definition leaves :: "(insn \<Rightarrow> bool) \<Rightarrow> insn \<Rightarrow> insn \<Rightarrow> bool" where
  "leaves P out d \<longleftrightarrow> d = out \<or> P d"

lemma leaves_if: "(b \<Longrightarrow> leaves P out x) \<Longrightarrow> (\<not> b \<Longrightarrow> leaves P out y) \<Longrightarrow> leaves P out (if b then x else y)"
  by simp

lemma leaves_option:
  "(x = None \<Longrightarrow> leaves P out d) \<Longrightarrow> (\<And>y. x = Some y \<Longrightarrow> leaves P out (f y)) \<Longrightarrow>
   leaves P out (case x of None \<Rightarrow> d | Some y \<Rightarrow> f y)"
  by (simp split: option.split)

lemma leaves_out [simp]: "leaves P out out"
  by (simp add: leaves_def)

lemma leaves_leaf: "P d \<Longrightarrow> leaves P out d"
  by (simp add: leaves_def)

lemma leaves_mono: "leaves P out d \<Longrightarrow> (\<And>d. P d \<Longrightarrow> Q d) \<Longrightarrow> leaves Q out d"
  by (auto simp: leaves_def)

lemmas leaves_split = leaves_if leaves_option leaves_out

lemma leavesD: "leaves P out d \<Longrightarrow> i_code d \<noteq> C_Invalid \<Longrightarrow> i_code out = C_Invalid \<Longrightarrow> P d"
  by (auto simp: leaves_def)

lemma built_from_leaves:
  "built_from owned fs out = leaves (\<lambda>d. \<exists>c m ops. d = built out c m ops \<and> owned c \<and> length ops \<le> 5 \<and> admitted fs c) out"
  by (simp add: fun_eq_iff built_from_def leaves_def)

lemma built_if: "(b \<Longrightarrow> built_from P fs out x) \<Longrightarrow> (\<not> b \<Longrightarrow> built_from P fs out y) \<Longrightarrow> built_from P fs out (if b then x else y)"
  by simp

lemma built_option:
  "(x = None \<Longrightarrow> built_from P fs out d) \<Longrightarrow> (\<And>y. x = Some y \<Longrightarrow> built_from P fs out (f y)) \<Longrightarrow>
   built_from P fs out (case x of None \<Rightarrow> d | Some y \<Rightarrow> f y)"
  by (simp split: option.split)

lemmas built_split = built_if built_option built_from_out

text \<open>Two runs of a decoder from different words of the same address.\<close>

lemma same_if:
  "(b \<Longrightarrow> same_semantics x x') \<Longrightarrow> (\<not> b \<Longrightarrow> same_semantics y y') \<Longrightarrow>
   same_semantics (if b then x else y) (if b then x' else y')"
  by simp

lemma same_option:
  "(x = None \<Longrightarrow> same_semantics d d') \<Longrightarrow> (\<And>y. x = Some y \<Longrightarrow> same_semantics (f y) (f' y)) \<Longrightarrow>
   same_semantics (case x of None \<Rightarrow> d | Some y \<Rightarrow> f y) (case x of None \<Rightarrow> d' | Some y \<Rightarrow> f' y)"
  by (simp split: option.split)

lemma same_invalid [simp]: "same_semantics (new_invalid w ip) (new_invalid w' ip)"
  by (simp add: same_semantics_def new_invalid_def live_operands_def)

lemmas same_split = same_if same_option

locale group_codec =
  fixes in_group :: "u32 \<Rightarrow> bool"
    and dec :: "u32 \<Rightarrow> u64 \<Rightarrow> feature_set \<Rightarrow> insn \<Rightarrow> insn"
    and enc :: "insn \<Rightarrow> u32 encoded"
    and owned :: "code \<Rightarrow> bool"
  assumes not_owned_Invalid: "\<not> owned C_Invalid"
    and dec_built: "in_group w \<Longrightarrow> built_from owned fs out (dec w ip fs out)"
    and enc_same: "wf_insn i \<Longrightarrow> wf_insn j \<Longrightarrow> same_semantics i j \<Longrightarrow> enc i = enc j"
    and round_trip: "in_group w \<Longrightarrow> owned (i_code (decoded dec w ip fs)) \<Longrightarrow>
      \<exists>w'. enc (decoded dec w ip fs) = Ok w' \<and> in_group w' \<and> same_semantics (decoded dec w' ip fs) (decoded dec w ip fs)"
begin

lemma dec_frame:
  assumes "in_group w"
  shows "i_word (decoded dec w ip fs) = w" "i_ip (decoded dec w ip fs) = ip" "i_flags (decoded dec w ip fs) = 0"
  using dec_built [OF assms, of fs "new_invalid w ip" ip]
  by (auto simp: decoded_def built_from_def new_invalid_def)

lemma dec_wf: "in_group w \<Longrightarrow> wf_insn (decoded dec w ip fs)"
  using dec_built [of w fs "new_invalid w ip" ip] by (auto simp: decoded_def built_from_def)

lemma dec_owned: "in_group w \<Longrightarrow> owned (i_code (decoded dec w ip fs)) \<longleftrightarrow> i_code (decoded dec w ip fs) \<noteq> C_Invalid"
  using dec_built [of w fs "new_invalid w ip" ip] not_owned_Invalid
  by (auto simp: decoded_def built_from_def new_invalid_def)

lemma dec_feature: "in_group w \<Longrightarrow> admitted fs (i_code (decoded dec w ip fs))"
  using dec_built [of w fs "new_invalid w ip" ip]
  by (auto simp: decoded_def built_from_def new_invalid_def)

text \<open>Encoding a decoded instruction yields a fixed point: a word that encodes back to itself.\<close>

lemma canonical:
  assumes "in_group w" "i_code (decoded dec w ip fs) \<noteq> C_Invalid" "enc (decoded dec w ip fs) = Ok w'"
  shows "enc (decoded dec w' ip fs) = Ok w'"
proof -
  have "owned (i_code (decoded dec w ip fs))" using assms dec_owned by blast
  from round_trip [OF assms(1) this] assms(3)
  have w': "in_group w'" "same_semantics (decoded dec w' ip fs) (decoded dec w ip fs)" by auto
  then have "enc (decoded dec w' ip fs) = enc (decoded dec w ip fs)"
    using dec_wf assms(1) by (intro enc_same) auto
  with assms(3) show ?thesis by simp
qed

end

locale exact_codec =
  fixes in_group :: "u32 \<Rightarrow> bool"
    and dec :: "u32 \<Rightarrow> u64 \<Rightarrow> feature_set \<Rightarrow> insn \<Rightarrow> insn"
    and enc :: "insn \<Rightarrow> u32 encoded"
    and owned :: "code \<Rightarrow> bool"
  assumes x_not_owned_Invalid: "\<not> owned C_Invalid"
    and x_dec_built: "in_group w \<Longrightarrow> built_from owned fs out (dec w ip fs out)"
    and x_enc_same: "wf_insn i \<Longrightarrow> wf_insn j \<Longrightarrow> same_semantics i j \<Longrightarrow> enc i = enc j"
    and exact: "in_group w \<Longrightarrow> owned (i_code (decoded dec w ip fs)) \<Longrightarrow> enc (decoded dec w ip fs) = Ok w"

sublocale exact_codec \<subseteq> group_codec
proof
  fix w ip fs
  assume "in_group w" "owned (i_code (decoded dec w ip fs))"
  then show "\<exists>w'. enc (decoded dec w ip fs) = Ok w' \<and> in_group w' \<and>
      same_semantics (decoded dec w' ip fs) (decoded dec w ip fs)"
    using exact same_semantics_refl by blast
qed (fact x_not_owned_Invalid x_dec_built x_enc_same)+

context exact_codec
begin

text \<open>An exact encoder separates words: two words with the same semantics at the same address are equal.\<close>

lemma dec_injective:
  assumes "in_group w" "in_group w'" "i_code (decoded dec w ip fs) \<noteq> C_Invalid"
    "same_semantics (decoded dec w ip fs) (decoded dec w' ip fs)"
  shows "w = w'"
proof -
  have c: "i_code (decoded dec w' ip fs) \<noteq> C_Invalid" using assms by (simp add: same_semantics_def)
  have "enc (decoded dec w ip fs) = enc (decoded dec w' ip fs)"
    using assms dec_wf by (intro enc_same) auto
  then show ?thesis using exact assms c dec_owned by simp
qed

end

end
