(* ===== verification/Dp_Reg_Exact.thy ===== *)
theory Dp_Reg_Exact
  imports Dp_Reg_Decode Dp_Reg_Encode Codec_Base
begin

text \<open>
  The encoding classes of Data Processing -- Register: for each class, \<open>layout_*\<close> puts the word together from its fields and
  \<open>exact_*\<close> is the round trip.  All classes but SMULH and UMULH return the very word.
\<close>

section \<open>Dispatch of the encoder\<close>

lemmas dp_reg_code_lists = logical_codes_def addsub_shifted_codes_def addsub_extended_codes_def addsub_carry_codes_def
  cond_compare_codes_def cond_select_codes_def dp3_codes_def dp2_codes_def dp1_codes_def pauth_codes_def

text \<open>The classes are disjoint, so the encoder of a code is the encoder of its class.\<close>

definition encodes_with :: "(insn \<Rightarrow> u32 encoded) \<Rightarrow> code \<Rightarrow> bool" where
  "encodes_with enc c \<longleftrightarrow> (\<forall>i. i_code i = c \<longrightarrow> encode_dp_reg i = enc i)"

lemma encodes_withD: "list_all (encodes_with enc) cs \<Longrightarrow> i_code i \<in> set cs \<Longrightarrow> encode_dp_reg i = enc i"
  by (auto simp: list_all_iff encodes_with_def)

lemma encode_dp_reg_rows_1:
  "list_all (encodes_with enc_logical_shifted) logical_codes"
  "list_all (encodes_with enc_addsub_shifted) addsub_shifted_codes"
  "list_all (encodes_with enc_addsub_extended) addsub_extended_codes"
  "list_all (encodes_with enc_addsub_carry) addsub_carry_codes"
  "list_all (encodes_with enc_rmif) [C_Rmif]"
  "list_all (encodes_with enc_setf) [C_Setf8, C_Setf16]"
  "list_all (encodes_with enc_cond_compare) cond_compare_codes"
  "list_all (encodes_with enc_cond_select) cond_select_codes"
  "list_all (encodes_with enc_dp_3source) dp3_codes"
  "list_all (encodes_with enc_addsub_pt) [C_Addpt, C_Subpt]"
  "list_all (encodes_with enc_dp_1source_basic) dp1_codes"
  by (simp_all add: dp_reg_code_lists encodes_with_def encode_dp_reg_def)

lemma encode_dp_reg_rows_2: "list_all (encodes_with enc_dp_2source) dp2_codes"
  by (simp add: dp_reg_code_lists encodes_with_def encode_dp_reg_def)

lemma encode_dp_reg_rows_3: "list_all (encodes_with enc_dp_1source_pauth) pauth_codes"
  by (simp add: dp_reg_code_lists encodes_with_def encode_dp_reg_def)

lemmas encode_dp_reg_class = encode_dp_reg_rows_1 [THEN encodes_withD] encode_dp_reg_rows_2 [THEN encodes_withD]
  encode_dp_reg_rows_3 [THEN encodes_withD]

section \<open>Shifted registers\<close>

lemma shift_type_field:
  "shift_field (shift_type_from_bits (ucast (bits w l 2))) = Some (bits w l 2)"
  "shift_type_from_bits (ucast (bits w l 2)) = ShiftLsl \<longleftrightarrow> bits w l 2 = 0"
  using bits_2_cases [of w l] by (auto simp: shift_type_from_bits_def shift_field_def)

lemma reg_num_shifted [simp]: "op_num (reg_shifted wd (bits w l 5) st amt) = Ok (bits w l 5)"
  unfolding op_num_def reg_shifted_def Let_def operand.case reg_number_field ..

definition shift_op :: "operand \<Rightarrow> u32 \<Rightarrow> (u32 \<times> u32) encoded" where
  "shift_op op sf =
     (case op of
        OpReg reg _ _ shift _ _ \<Rightarrow>
          (let (st, amt) = (case shift of None \<Rightarrow> (ShiftLsl, 0) | Some x \<Rightarrow> x)
           in and_then (ok_or EncInvalidOperand (shift_field st)) (\<lambda>sh.
                let imm6 = ucast amt
                in if imm6 > 0x3f then Err EncInvalidImmediate
                   else if sf = 0 \<and> imm6 AND 0b100000 \<noteq> 0 then Err EncInvalidImmediate
                   else Ok (sh, imm6)))
      | _ \<Rightarrow> Err EncInvalidOperand)"

lemma recover_shift_op: "recover_shift i n sf = shift_op (insn_op i n) sf"
  by (simp add: recover_shift_def reg_with_shift_def shift_op_def split: operand.split)

lemma shift_op_back [simp]:
  assumes "sf = 0 \<longrightarrow> \<not> bit w 15"
  shows "shift_op (reg_shifted wd (bits w 16 5) (shift_type_from_bits (ucast (bits w 22 2))) (bits w 10 6)) sf =
    Ok (bits w 22 2, bits w 10 6)"
proof -
  have m: "sf = 0 \<Longrightarrow> bits w 10 6 AND 32 = 0"
    using assms by (auto simp: to_bits)
  show ?thesis
    using m shift_type_field [of w 22]
    by (auto simp: shift_op_def reg_shifted_def Let_def ucast_field_u8 shift_field_def)
qed

text \<open>The bits of the class selector.\<close>

lemma op28_bits:
  assumes "bits w 24 5 = c"
  shows "bit w 28 \<longleftrightarrow> bit c 4" "bit w 27 \<longleftrightarrow> bit c 3" "bit w 26 \<longleftrightarrow> bit c 2" "bit w 25 \<longleftrightarrow> bit c 1" "bit w 24 \<longleftrightarrow> bit c 0"
  using bits_eqD [OF assms, of 4] bits_eqD [OF assms, of 3] bits_eqD [OF assms, of 2] bits_eqD [OF assms, of 1]
    bits_eqD [OF assms, of 0] by simp_all

lemma op2_bits:
  assumes "bits w 21 3 = c"
  shows "bit w 23 \<longleftrightarrow> bit c 2" "bit w 22 \<longleftrightarrow> bit c 1" "bit w 21 \<longleftrightarrow> bit c 0"
  using bits_eqD [OF assms, of 2] bits_eqD [OF assms, of 1] bits_eqD [OF assms, of 0] by simp_all

lemma opcode6_bits:
  assumes "bits w 10 6 = c"
  shows "bit w 15 \<longleftrightarrow> bit c 5" "bit w 14 \<longleftrightarrow> bit c 4" "bit w 13 \<longleftrightarrow> bit c 3" "bit w 12 \<longleftrightarrow> bit c 2" "bit w 11 \<longleftrightarrow> bit c 1"
    "bit w 10 \<longleftrightarrow> bit c 0"
  using bits_eqD [OF assms, of 5] bits_eqD [OF assms, of 4] bits_eqD [OF assms, of 3] bits_eqD [OF assms, of 2]
    bits_eqD [OF assms, of 1] bits_eqD [OF assms, of 0] by simp_all

lemmas reg_enc_eval = enc_eval encode_dp_reg_class dp_reg_code_lists sf_of_def is_64_reg_def recover_shift_op

section \<open>Logical (shifted register)\<close>

lemma layout_logical_shifted:
  assumes "bits w 24 5 = 0b01010"
  shows "push_bit 31 (bit_at w 31) OR push_bit 29 (bits w 29 2) OR push_bit 24 0b01010 OR push_bit 22 (bits w 22 2) OR
    push_bit 21 (bit_at w 21) OR push_bit 16 (bits w 16 5) OR push_bit 10 (bits w 10 6) OR push_bit 5 (bits w 5 5) OR bits w 0 5 = w"
  using op28_bits [OF assms] by (simp add: to_bits)

lemma exact_logical_shifted:
  assumes "bits w 24 5 = 0b01010" "i_code (decode_logical_shifted w out) \<noteq> C_Invalid" "i_code out = C_Invalid"
  shows "encode_dp_reg (decode_logical_shifted w out) = Ok w"
proof -
  have g: "\<not> bit w 31 \<Longrightarrow> \<not> bit w 15"
    using assms(2,3) by (auto simp: decode_logical_shifted_def Let_def bit_bits split: if_splits)
  show ?thesis
    using bits_2_cases [of w 29]
    apply (cases "bit w 31"; cases "bit w 21"; elim disjE)
    apply (simp_all add: decode_logical_shifted_def dec_eval g bit_bits shift_type_field split: if_split)
    using layout_logical_shifted [OF assms(1)] g
    apply (auto simp: reg_enc_eval enc_logical_shifted_def logical_fields_def)
    done
qed

section \<open>Add/subtract\<close>

lemma layout_addsub_shifted:
  assumes "bits w 24 5 = 0b01011" "\<not> bit w 21"
  shows "push_bit 31 (bit_at w 31) OR push_bit 30 (bit_at w 30) OR push_bit 29 (bit_at w 29) OR push_bit 24 0b01011 OR
    push_bit 22 (bits w 22 2) OR push_bit 16 (bits w 16 5) OR push_bit 10 (bits w 10 6) OR push_bit 5 (bits w 5 5) OR bits w 0 5 = w"
  using op28_bits [OF assms(1)] assms(2) by (simp add: to_bits)

lemma exact_addsub_shifted:
  assumes "bits w 24 5 = 0b01011" "\<not> bit w 21" "i_code (decode_addsub_shifted w out) \<noteq> C_Invalid" "i_code out = C_Invalid"
  shows "encode_dp_reg (decode_addsub_shifted w out) = Ok w"
proof -
  have g: "\<not> bit w 31 \<Longrightarrow> \<not> bit w 15" "bits w 22 2 \<noteq> 3"
    using assms(3,4) by (auto simp: decode_addsub_shifted_def Let_def bit_bits split: if_splits)
  show ?thesis
    apply (cases "bit w 31"; cases "bit w 30"; cases "bit w 29")
    apply (simp_all add: decode_addsub_shifted_def dec_eval g bit_bits split: if_split)
    using layout_addsub_shifted [OF assms(1,2)] g
    apply (auto simp: reg_enc_eval enc_addsub_shifted_def addsub_shifted_fields_def)
    done
qed

definition extended_op :: "operand \<Rightarrow> u32 \<Rightarrow> (u32 \<times> u32 \<times> u32) encoded" where
  "extended_op op default_option =
     (case op of
        OpReg reg _ _ shift extend_opt _ \<Rightarrow>
          (let rm = ucast (reg_number reg);
               amt = (case shift of None \<Rightarrow> 0 | Some (_, a) \<Rightarrow> ucast a);
               option = (case extend_opt of Some ext \<Rightarrow> ucast (extend_type_as_bits ext) | None \<Rightarrow> default_option)
           in Ok (rm, option, amt))
      | _ \<Rightarrow> Err EncInvalidOperand)"

lemma recover_extended_rm_op: "recover_extended_rm i n d = extended_op (insn_op i n) d"
  by (simp add: recover_extended_rm_def extended_op_def)

lemma extended_op_back [simp]:
  "extended_op (build_extended_rm (bits w 16 5) rm_w (extend_type_from_bits (ucast (bits w 13 3))) (bits w 10 3) use_lsl) d =
    Ok (bits w 16 5, if use_lsl then d else bits w 13 3, bits w 10 3)"
proof -
  have m: "x AND (7 :: u8) = take_bit 3 x" for x by (simp add: take_bit_eq_mask mask_eq_exp_minus_1)
  have "ucast (ucast (bits w 13 3) AND (7 :: u8)) = bits w 13 3"
    unfolding m by (rule bit_word_eqI) (auto simp: bit_simps bit_bits)
  then show ?thesis
    unfolding extended_op_def build_extended_rm_def Let_def
    by (simp add: ucast_field_u8 del: reg_number_gp_register)
qed

lemma layout_addsub_extended:
  assumes "bits w 24 5 = 0b01011" "bit w 21" "bits w 22 2 = 0"
  shows "push_bit 31 (bit_at w 31) OR push_bit 30 (bit_at w 30) OR push_bit 29 (bit_at w 29) OR push_bit 24 0b01011 OR
    push_bit 21 1 OR push_bit 16 (bits w 16 5) OR push_bit 13 (bits w 13 3) OR push_bit 10 (bits w 10 3) OR
    push_bit 5 (bits w 5 5) OR bits w 0 5 = w"
  using op28_bits [OF assms(1)] assms(2) bits_eqD [OF assms(3), of 0] bits_eqD [OF assms(3), of 1] by (simp add: to_bits)

lemma exact_addsub_extended:
  assumes "bits w 24 5 = 0b01011" "bit w 21" "i_code (decode_addsub_extended w out) \<noteq> C_Invalid" "i_code out = C_Invalid"
  shows "encode_dp_reg (decode_addsub_extended w out) = Ok w"
proof -
  have g: "bits w 22 2 = 0" "\<not> 4 < bits w 10 3"
    using assms(3,4) by (auto simp: decode_addsub_extended_def Let_def split: if_splits)
  show ?thesis
    apply (cases "bit w 31"; cases "bit w 30"; cases "bit w 29")
    apply (simp_all add: decode_addsub_extended_def dec_eval g split: if_split)
    using layout_addsub_extended [OF assms(1,2) g(1)] g
    apply (auto simp: reg_enc_eval enc_addsub_extended_def addsub_extended_fields_def recover_extended_rm_op)
    done
qed

lemma layout_addsub_carry:
  assumes "bits w 24 5 = 0b11010" "bits w 21 3 = 0" "bits w 10 6 = 0"
  shows "push_bit 31 (bit_at w 31) OR push_bit 30 (bit_at w 30) OR push_bit 29 (bit_at w 29) OR push_bit 21 0b11010000 OR
    push_bit 16 (bits w 16 5) OR push_bit 5 (bits w 5 5) OR bits w 0 5 = w"
  using op28_bits [OF assms(1)] op2_bits [OF assms(2)] opcode6_bits [OF assms(3)] by (simp add: to_bits)

lemma exact_addsub_carry:
  assumes "bits w 24 5 = 0b11010" "bits w 21 3 = 0" "bits w 10 6 = 0"
  shows "encode_dp_reg (decode_addsub_carry w out) = Ok w"
  apply (cases "bit w 31"; cases "bit w 30"; cases "bit w 29")
  apply (simp_all add: decode_addsub_carry_def dec_eval assms(3) split: if_split)
  using layout_addsub_carry [OF assms]
  apply (auto simp: reg_enc_eval enc_addsub_carry_def addsub_carry_fields_def)
  done

section \<open>Checked pointer, flag manipulation\<close>

definition with_shift_op :: "operand \<Rightarrow> (u32 \<times> (shift_type \<times> u8) option) encoded" where
  "with_shift_op op =
     (case op of OpReg reg _ _ shift _ _ \<Rightarrow> Ok (ucast (reg_number reg), shift) | _ \<Rightarrow> Err EncInvalidOperand)"

lemma reg_with_shift_op: "reg_with_shift i n = with_shift_op (insn_op i n)"
  by (simp add: reg_with_shift_def with_shift_op_def)

lemma with_shift_op_back [simp]:
  "with_shift_op (reg_shifted wd (bits w l 5) st amt) =
    Ok (bits w l 5, if st = ShiftLsl \<and> amt = 0 then None else Some (st, ucast amt))"
  unfolding with_shift_op_def reg_shifted_def Let_def operand.case reg_number_field ..

lemma layout_addsub_pt:
  assumes "bits w 24 5 = 0b11010" "bits w 21 3 = 0" "bits w 13 3 = 1" "bit w 31" "\<not> bit w 29"
  shows "push_bit 31 1 OR push_bit 30 (bit_at w 30) OR push_bit 21 0b11010000 OR push_bit 16 (bits w 16 5) OR
    push_bit 13 0b001 OR push_bit 10 (bits w 10 3) OR push_bit 5 (bits w 5 5) OR bits w 0 5 = w"
  using op28_bits [OF assms(1)] op2_bits [OF assms(2)] bits_eqD [OF assms(3), of 0] bits_eqD [OF assms(3), of 1]
    bits_eqD [OF assms(3), of 2] assms(4,5) by (simp add: to_bits)

lemma exact_addsub_pt:
  assumes "bits w 24 5 = 0b11010" "bits w 21 3 = 0" "bits w 13 3 = 1" "i_code (decode_addsub_pt w fs out) \<noteq> C_Invalid"
    "i_code out = C_Invalid"
  shows "encode_dp_reg (decode_addsub_pt w fs out) = Ok w"
proof -
  have g: "has fs F_Cpa" "bit w 31" "\<not> bit w 29"
    using assms(4,5) by (auto simp: decode_addsub_pt_def Let_def split: if_splits)
  show ?thesis
    apply (cases "bit w 30")
    apply (simp_all add: decode_addsub_pt_def dec_eval g)
    using layout_addsub_pt [OF assms(1-3) g(2,3)]
    apply (auto simp: reg_enc_eval enc_addsub_pt_def reg_with_shift_op)
    done
qed

lemma layout_rmif:
  assumes "bits w 24 5 = 0b11010" "bits w 21 3 = 0" "bits w 10 6 AND 0x1f = 1" "bit w 31" "\<not> bit w 30" "bit w 29" "\<not> bit w 4"
  shows "push_bit 31 1 OR push_bit 29 1 OR push_bit 21 0b11010000 OR push_bit 15 (bits w 15 6) OR push_bit 10 0b00001 OR
    push_bit 5 (bits w 5 5) OR bits w 0 4 = w"
proof -
  have "bits w 10 5 = 1" using assms(3) by (simp add: and_31_u32 bits_eq)
  note b = bits_eqD [OF this]
  show ?thesis
    using op28_bits [OF assms(1)] op2_bits [OF assms(2)] b [of 0] b [of 1] b [of 2] b [of 3] b [of 4] assms(4-)
    by (simp add: to_bits)
qed

lemma exact_rmif:
  assumes "bits w 24 5 = 0b11010" "bits w 21 3 = 0" "bits w 10 6 AND 0x1f = 1" "i_code (decode_rmif w out) \<noteq> C_Invalid"
    "i_code out = C_Invalid"
  shows "encode_dp_reg (decode_rmif w out) = Ok w"
proof -
  have g: "bit w 31" "\<not> bit w 30" "bit w 29" "\<not> bit w 4"
    using assms(4,5) by (auto simp: decode_rmif_def Let_def split: if_splits)
  show ?thesis
    using layout_rmif [OF assms(1-3) g] g by (simp add: decode_rmif_def dec_eval reg_enc_eval enc_rmif_def)
qed

lemma layout_setf:
  assumes "bits w 24 5 = 0b11010" "bits w 21 3 = 0" "bits w 10 6 AND 0xf = 2" "\<not> bit w 31" "\<not> bit w 30" "bit w 29"
    "bits w 15 6 = 0" "\<not> bit w 4" "bits w 0 4 = 0b1101"
  shows "push_bit 29 1 OR push_bit 21 0b11010000 OR push_bit 14 (bit_at w 14) OR push_bit 10 0b000010 OR push_bit 5 (bits w 5 5) OR
    0b01101 = w"
proof -
  have m: "(x :: u32) AND 0xf = take_bit 4 x" for x by (simp add: take_bit_eq_mask mask_eq_exp_minus_1)
  have "bits w 10 4 = 2" using assms(3) by (simp add: m bits_eq)
  note b = bits_eqD [OF this] bits_eqD [OF assms(7)] bits_eqD [OF assms(9)]
  show ?thesis
    using op28_bits [OF assms(1)] op2_bits [OF assms(2)] b(1) [of 0] b(1) [of 1] b(1) [of 2] b(1) [of 3] b(2) [of 0] b(2) [of 1]
      b(2) [of 2] b(2) [of 3] b(2) [of 4] b(2) [of 5] b(3) [of 0] b(3) [of 1] b(3) [of 2] b(3) [of 3] assms(4-6,8)
    by (simp add: to_bits)
qed

lemma exact_setf:
  assumes "bits w 24 5 = 0b11010" "bits w 21 3 = 0" "bits w 10 6 AND 0xf = 2" "i_code (decode_setf w out) \<noteq> C_Invalid"
    "i_code out = C_Invalid"
  shows "encode_dp_reg (decode_setf w out) = Ok w"
proof -
  have g: "\<not> bit w 31" "\<not> bit w 30" "bit w 29" "bits w 15 6 = 0" "\<not> bit w 4" "bits w 0 4 = 0b1101"
    using assms(4,5) by (auto simp: decode_setf_def Let_def split: if_splits)
  show ?thesis
    using layout_setf [OF assms(1-3) g] g
    by (cases "bit w 14") (simp_all add: decode_setf_def dec_eval reg_enc_eval enc_setf_def)
qed

section \<open>Conditions\<close>

definition cond_op :: "operand \<Rightarrow> condition encoded" where
  "cond_op op = (case op of OpCond c \<Rightarrow> Ok c | _ \<Rightarrow> Err EncInvalidOperand)"

lemma cond_of_op: "cond_of i n = cond_op (insn_op i n)"
  by (simp add: cond_of_def cond_op_def)

lemma cond_op_simps [simp]: "cond_op (OpCond c) = Ok c"
  by (simp add: cond_op_def)

lemma condition_field: "ucast (ucast (bits w l 4) AND (15 :: u8)) = bits w l 4"
proof -
  have m: "x AND (15 :: u8) = take_bit 4 x" for x by (simp add: take_bit_eq_mask mask_eq_exp_minus_1)
  show ?thesis unfolding m by (rule bit_word_eqI) (auto simp: bit_simps bit_bits)
qed

lemma layout_cond_compare:
  assumes "bits w 24 5 = 0b11010" "bits w 21 3 = 2" "bit w 29" "\<not> bit w 10" "\<not> bit w 4"
  shows "push_bit 31 (bit_at w 31) OR push_bit 30 (bit_at w 30) OR push_bit 21 0b111010010 OR push_bit 16 (bits w 16 5) OR
    push_bit 12 (bits w 12 4) OR push_bit 11 (bit_at w 11) OR push_bit 5 (bits w 5 5) OR bits w 0 4 = w"
  using op28_bits [OF assms(1)] op2_bits [OF assms(2)] assms(3-) by (simp add: to_bits)

lemma exact_cond_compare:
  assumes "bits w 24 5 = 0b11010" "bits w 21 3 = 2" "i_code (decode_cond_compare w out) \<noteq> C_Invalid" "i_code out = C_Invalid"
  shows "encode_dp_reg (decode_cond_compare w out) = Ok w"
proof -
  have g: "bit w 29" "\<not> bit w 10" "\<not> bit w 4"
    using assms(3,4) by (auto simp: decode_cond_compare_def Let_def split: if_splits)
  have u: "\<not> 0x1f < (ucast (bits w 16 5) :: u64)" using ucast_bits_le [of 5 w 16] by (simp add: mask_eq_exp_minus_1)
  show ?thesis
    apply (cases "bit w 31"; cases "bit w 30"; cases "bit w 11")
    apply (simp_all add: decode_cond_compare_def dec_eval g)
    using layout_cond_compare [OF assms(1,2) g] u
    apply (auto simp: reg_enc_eval enc_cond_compare_def cond_compare_fields_def cond_of_op condition_field)
    done
qed

lemma layout_cond_select:
  assumes "bits w 24 5 = 0b11010" "bits w 21 3 = 4" "\<not> bit w 29" "\<not> bit w 11"
  shows "push_bit 31 (bit_at w 31) OR push_bit 30 (bit_at w 30) OR push_bit 21 0b011010100 OR push_bit 16 (bits w 16 5) OR
    push_bit 12 (bits w 12 4) OR push_bit 10 (bit_at w 10) OR push_bit 5 (bits w 5 5) OR bits w 0 5 = w"
  using op28_bits [OF assms(1)] op2_bits [OF assms(2)] assms(3-) by (simp add: to_bits)

lemma exact_cond_select:
  assumes "bits w 24 5 = 0b11010" "bits w 21 3 = 4" "i_code (decode_cond_select w out) \<noteq> C_Invalid" "i_code out = C_Invalid"
  shows "encode_dp_reg (decode_cond_select w out) = Ok w"
proof -
  have g: "\<not> bit w 29" "\<not> bit w 11"
    using assms(3,4) by (auto simp: decode_cond_select_def Let_def split: if_splits)
  show ?thesis
    apply (cases "bit w 31"; cases "bit w 30"; cases "bit w 10")
    apply (simp_all add: decode_cond_select_def dec_eval g split: if_split)
    using layout_cond_select [OF assms(1,2) g]
    apply (auto simp: reg_enc_eval enc_cond_select_def cond_select_fields_def cond_of_op condition_field condition_invert_invert)
    done
qed

section \<open>Data-processing (3 source)\<close>

text \<open>SMULH and UMULH have no accumulator: the decoder ignores the field of \<open>Ra\<close>, which the encoder sets to ones.\<close>

definition canon_high_mul :: "u32 \<Rightarrow> u32" where
  "canon_high_mul w = w OR 0x7C00"

lemma bit_canon_high_mul: "bit (canon_high_mul w) n \<longleftrightarrow> bit w n \<or> n \<in> {10, 11, 12, 13, 14}"
proof -
  have m: "(0x7C00 :: u32) = push_bit 10 (mask 5)" by (simp add: mask_eq_exp_minus_1)
  have "bit (canon_high_mul w) n \<longleftrightarrow> bit w n \<or> 10 \<le> n \<and> n - 10 < 5"
    unfolding canon_high_mul_def m by (simp only: bit_or_iff bit_push_bit_iff bit_mask_iff possible_bit_word) auto
  then show ?thesis by auto
qed

lemma layout_dp_3source:
  assumes "bits w 24 5 = 0b11011" "bits w 29 2 = 0"
  shows "push_bit 31 (bit_at w 31) OR push_bit 24 0b11011 OR push_bit 21 (bits w 21 3) OR push_bit 16 (bits w 16 5) OR
    push_bit 15 (bit_at w 15) OR push_bit 10 (bits w 10 5) OR push_bit 5 (bits w 5 5) OR bits w 0 5 = w"
  using op28_bits [OF assms(1)] bits_eqD [OF assms(2), of 0] bits_eqD [OF assms(2), of 1] by (simp add: to_bits)

lemma layout_high_mul:
  assumes "bits w 24 5 = 0b11011" "bits w 29 2 = 0"
  shows "push_bit 31 (bit_at w 31) OR push_bit 24 0b11011 OR push_bit 21 (bits w 21 3) OR push_bit 16 (bits w 16 5) OR
    push_bit 15 (bit_at w 15) OR push_bit 10 31 OR push_bit 5 (bits w 5 5) OR bits w 0 5 = canon_high_mul w"
  using op28_bits [OF assms(1)] bits_eqD [OF assms(2), of 0] bits_eqD [OF assms(2), of 1]
  by (simp add: to_bits bit_canon_high_mul)

definition is_high_mul :: "u32 \<Rightarrow> bool" where
  "is_high_mul w \<longleftrightarrow> bits w 21 3 = 2 \<or> bits w 21 3 = 6"

lemma dp3_class:
  assumes "dp3_code sf op31 o0 = Some (code, kind)"
  shows "encode_dp_reg (dp3_operands w kind (insn_set code out)) = enc_dp_3source (dp3_operands w kind (insn_set code out))"
proof -
  have "i_code (dp3_operands w kind (insn_set code out)) = code"
    by (cases kind) (simp_all add: dp3_operands_def Let_def)
  moreover have "code \<in> set dp3_codes"
    using assms by (auto simp: dp3_code_def dp3_codes_def split: if_splits)
  ultimately show ?thesis using encode_dp_reg_rows_1(9) encodes_withD by metis
qed

lemma encode_dp_3source:
  assumes "bits w 24 5 = 0b11011" "i_code (decode_dp_3source w out) \<noteq> C_Invalid" "i_code out = C_Invalid"
  shows "encode_dp_reg (decode_dp_3source w out) = Ok (if is_high_mul w then canon_high_mul w else w)"
proof -
  have g: "bits w 29 2 = 0" using assms(2,3) by (auto simp: decode_dp_3source_def Let_def split: if_splits)
  obtain code kind where d: "dp3_code (bit_at w 31) (bits w 21 3) (bit_at w 15) = Some (code, kind)"
    using assms(2,3) by (auto simp: decode_dp_3source_def Let_def split: if_splits option.splits)
  note l = layout_dp_3source [OF assms(1) g] layout_high_mul [OF assms(1) g]
  have "enc_dp_3source (dp3_operands w kind (insn_set code out)) = Ok (if is_high_mul w then canon_high_mul w else w)"
    using bits_3_cases [of w 21] d
    apply (cases "bit w 31"; cases "bit w 15"; elim disjE)
    apply (simp_all add: dp3_code_def dec_eval)
    apply (elim conjE; hypsubst; cases "bits w 10 5 = 31"; use l in \<open>simp add: dp3_operands_def enc_eval enc_dp_3source_def dp3_fields_def is_high_mul_def\<close>)+
    done
  then show ?thesis using d by (simp add: decode_dp_3source_def Let_def g dp3_class del: insn_set_built)
qed

end
