(* ===== verification/Dp_Reg_Sources.thy ===== *)
theory Dp_Reg_Sources
  imports Dp_Reg_Exact
begin

text \<open>The two-source and one-source classes.\<close>

section \<open>Data-processing (2 source)\<close>

lemma layout_dp_2source:
  assumes "bits w 24 5 = 0b11010" "bits w 21 3 = 6" "\<not> bit w 30"
  shows "push_bit 31 (bit_at w 31) OR push_bit 29 (bit_at w 29) OR push_bit 21 0b011010110 OR push_bit 16 (bits w 16 5) OR
    push_bit 10 (bits w 10 6) OR push_bit 5 (bits w 5 5) OR bits w 0 5 = w"
  using op28_bits [OF assms(1)] op2_bits [OF assms(2)] assms(3) by (simp add: to_bits)

lemma word_range_8:
  "16 \<le> x \<and> x \<le> (23 :: u32) \<longleftrightarrow> x \<in> {16, 17, 18, 19, 20, 21, 22, 23}"
  "24 \<le> x \<and> x \<le> (27 :: u32) \<longleftrightarrow> x \<in> {24, 25, 26, 27}"
  by (simp_all add: word_unat_eq_iff word_le_nat_alt) arith+

lemma dp2_class: "c \<in> set dp2_codes \<Longrightarrow> encode_dp_reg (built out c m ops) = enc_dp_2source (built out c m ops)"
  using encode_dp_reg_rows_2 encodes_withD by (metis built_fields(1))

text \<open>The three-register forms, by the row of their code.\<close>

lemma dp2_rrr:
  assumes "map_of dp2_rows c = Some (bit_at w 31, bit_at w 29, bits w 10 6)" "c \<in> set dp2_codes" "c \<noteq> C_IrgDp"
    "bits w 24 5 = 0b11010" "bits w 21 3 = 6" "\<not> bit w 30"
  shows "encode_dp_reg (built out c m [gp_reg a wa (bits w 0 5), gp_reg b wb (bits w 5 5), gp_reg d wd (bits w 16 5)]) = Ok w"
  using assms(1,3) layout_dp_2source [OF assms(4-6)]
  by (simp add: dp2_class [OF assms(2)] enc_dp_2source_def dp2_fields_def enc_eval)

lemma exact_crc32:
  assumes "bits w 24 5 = 0b11010" "bits w 21 3 = 6" "\<not> bit w 30" "\<not> bit w 29" "bits w 10 6 \<in> {16, 17, 18, 19, 20, 21, 22, 23}"
  shows "encodes_to encode_dp_reg out w (decode_crc32 (bit_at w 31) (bits w 10 6) (bits w 0 5) (bits w 5 5) (bits w 16 5) out)"
proof -
  have b: "bit_at 16 2 = 0" "bit_at 17 2 = 0" "bit_at 18 2 = 0" "bit_at 19 2 = 0"
    "bit_at 20 2 = 1" "bit_at 21 2 = 1" "bit_at 22 2 = 1" "bit_at 23 2 = 1"
    by (simp_all add: bit_at_def)
  note r = dp2_rrr [OF _ _ _ assms(1-3)]
  show ?thesis
    using assms(5) unfolding insert_iff empty_iff
    apply (cases "bit w 31"; elim disjE)
    apply (simp_all add: decode_crc32_def Let_def bit_at_1 bit_at_0 b)
    apply (simp_all add: encodes_to_def r assms(4) dp2_rows_def dp2_codes_def bit_at_1 bit_at_0)
    done
qed

lemma exact_minmax_reg:
  assumes "bits w 24 5 = 0b11010" "bits w 21 3 = 6" "\<not> bit w 30" "\<not> bit w 29"
    "bits w 10 6 = 24 \<and> (if bit w 31 then c = C_SmaxReg64 else c = C_SmaxReg32) \<or>
     bits w 10 6 = 25 \<and> (if bit w 31 then c = C_UmaxReg64 else c = C_UmaxReg32) \<or>
     bits w 10 6 = 26 \<and> (if bit w 31 then c = C_SminReg64 else c = C_SminReg32) \<or>
     bits w 10 6 = 27 \<and> (if bit w 31 then c = C_UminReg64 else c = C_UminReg32)"
  shows "encode_dp_reg (fold push_operand [gp_reg a wa (bits w 0 5), gp_reg b wb (bits w 5 5), gp_reg d wd (bits w 16 5)]
    (insn_set c out)) = Ok w"
proof -
  have "c \<in> set dp2_codes" using assms(5) by (auto simp: dp2_codes_def split: if_splits)
  moreover have "dp2_fields c = (bit_at w 31, bit_at w 29, bits w 10 6)" "c \<noteq> C_IrgDp"
    using assms(4,5) by (auto simp: dp2_fields_def dp2_rows_def bit_at_0 bit_at_1 split: if_splits)
  ultimately show ?thesis
    using layout_dp_2source [OF assms(1-3)] by (simp add: dp2_class enc_dp_2source_def enc_eval)
qed

lemma exact_irg:
  assumes "bits w 24 5 = 0b11010" "bits w 21 3 = 6" "\<not> bit w 30" "\<not> bit w 29" "bit w 31" "bits w 10 6 = 4"
    "ops = (if bits w 16 5 = 31 then [] else [gp_reg d wd (bits w 16 5)])"
  shows "encode_dp_reg (built out C_IrgDp m (gp_reg a wa (bits w 0 5) # gp_reg b wb (bits w 5 5) # ops)) = Ok w"
proof -
  have "C_IrgDp \<in> set dp2_codes" by (simp add: dp2_codes_def)
  then show ?thesis
    using layout_dp_2source [OF assms(1-3)] assms(4-)
    by (cases "bits w 16 5 = 31") (simp_all add: dp2_class enc_dp_2source_def dp2_fields_def dp2_rows_def enc_eval)
qed

lemma exact_dp_2source:
  assumes "bits w 24 5 = 0b11010" "bits w 21 3 = 6" "\<not> bit w 30"
  shows "encodes_to encode_dp_reg out w (decode_dp_2source w fs out)"
proof -
  note r = dp2_rrr [OF _ _ _ assms]
  show ?thesis
    unfolding decode_dp_2source_def push_rrr_def Let_def word_range_8
    apply (intro encodes_split)
    apply (rule exact_crc32; simp add: assms; fail
      | (rule encodes_leaf, cases "bit w 31"; cases "bit w 29";
         simp add: r dp2_rows_def dp2_codes_def dec_eval exact_irg [OF assms] assms; fail))+
    apply (rule encodes_leaf, rule exact_minmax_reg [OF assms]; cases "bit w 31"; auto simp: bit_at_1 bit_at_0)
    done
qed

section \<open>Data-processing (1 source)\<close>

lemma layout_dp_1source:
  assumes "bits w 24 5 = 0b11010" "bits w 21 3 = 6" "bit w 30" "\<not> bit w 29"
  shows "bits w 16 5 = 0 \<Longrightarrow> push_bit 31 (bit_at w 31) OR push_bit 30 1 OR push_bit 21 0b11010110 OR push_bit 10 (bits w 10 6) OR
      push_bit 5 (bits w 5 5) OR bits w 0 5 = w"
    and "bits w 16 5 = 1 \<Longrightarrow> bit w 31 \<Longrightarrow> push_bit 31 1 OR push_bit 30 1 OR push_bit 21 0b11010110 OR push_bit 16 1 OR
      push_bit 10 (bits w 10 6) OR push_bit 5 (bits w 5 5) OR bits w 0 5 = w"
proof -
  note b = op28_bits [OF assms(1)] op2_bits [OF assms(2)] assms(3,4)
  { assume "bits w 16 5 = 0"
    note c = bits_eqD [OF this]
    show "push_bit 31 (bit_at w 31) OR push_bit 30 1 OR push_bit 21 0b11010110 OR push_bit 10 (bits w 10 6) OR
      push_bit 5 (bits w 5 5) OR bits w 0 5 = w"
      using b c [of 0] c [of 1] c [of 2] c [of 3] c [of 4] by (simp add: to_bits) }
  { assume "bits w 16 5 = 1"
    note c = bits_eqD [OF this]
    assume "bit w 31"
    then show "push_bit 31 1 OR push_bit 30 1 OR push_bit 21 0b11010110 OR push_bit 16 1 OR
      push_bit 10 (bits w 10 6) OR push_bit 5 (bits w 5 5) OR bits w 0 5 = w"
      using b c [of 0] c [of 1] c [of 2] c [of 3] c [of 4] by (simp add: to_bits) }
qed

lemma dp1_code_fields:
  assumes "dp1_code (bit_at w 31) (bits w 10 6) fs = Some c"
  shows "c \<in> set dp1_codes" "dp1_opcode c = bits w 10 6" "sf_of c = bit_at w 31"
  using assms
  by (cases "bit w 31"; auto simp: dp1_code_def dp1_codes_def dp1_opcode_def sf_of_def is_64_reg_def bit_at_0 bit_at_1 split: if_splits)+

lemma exact_dp_1source_basic:
  assumes "bits w 24 5 = 0b11010" "bits w 21 3 = 6" "bit w 30" "\<not> bit w 29" "bits w 16 5 = 0"
  shows "encodes_to encode_dp_reg out w (decode_dp_1source_basic (bit_at w 31) (bits w 10 6) (bits w 5 5) (bits w 0 5) fs out)"
proof -
  have "encode_dp_reg (built out c m [gp_reg False wd (bits w 0 5), gp_reg False wd (bits w 5 5)]) = Ok w"
    if "dp1_code (bit_at w 31) (bits w 10 6) fs = Some c" for c m wd
    using dp1_code_fields [OF that] layout_dp_1source(1) [OF assms]
      encodes_withD [OF encode_dp_reg_rows_1(11), of "built out c m [gp_reg False wd (bits w 0 5), gp_reg False wd (bits w 5 5)]"]
    by (simp add: enc_dp_1source_basic_def reg_num_op)
  then show ?thesis by (simp add: decode_dp_1source_basic_def Let_def encodes_to_def split: option.split)
qed

lemma pauth_class: "c \<in> set pauth_codes \<Longrightarrow> encode_dp_reg (built out c m ops) = enc_dp_1source_pauth (built out c m ops)"
  using encode_dp_reg_rows_3 encodes_withD by (metis built_fields(1))

lemma pauth_lr_code_row:
  assumes "pauth_lr_code opcode rn = Some c"
  shows "c \<in> set pauth_codes" "map_of pauth_lr_rows c = Some opcode" "c \<in> {C_Autiasppcr, C_Autibsppcr} \<or> rn = 31"
  using assms by (auto simp: pauth_lr_code_def pauth_codes_def pauth_lr_rows_def split: if_splits)

lemma pauth_row_inverse:
  "list_all (\<lambda>(opcode, c, z). c \<in> set pauth_codes \<and> map_of pauth_lr_rows c = None \<and>
     (case map_of pauth_enc_rows c of Some f \<Rightarrow> f | None \<Rightarrow> (0b010001, True)) = (opcode, z)) pauth_rows"
  by (simp add: pauth_rows_def pauth_codes_def pauth_lr_rows_def pauth_enc_rows_def)

lemma pauth_row:
  assumes "map_of pauth_rows opcode = Some (c, z)"
  shows "c \<in> set pauth_codes" "map_of pauth_lr_rows c = None"
    "(case map_of pauth_enc_rows c of Some f \<Rightarrow> f | None \<Rightarrow> (0b010001, True)) = (opcode, z)"
  using map_of_SomeD [OF assms] pauth_row_inverse by (auto simp: list_all_iff)

lemma exact_pauth_rows:
  assumes "bits w 24 5 = 0b11010" "bits w 21 3 = 6" "bit w 30" "\<not> bit w 29" "bits w 16 5 = 1" "bit w 31"
  shows "encodes_to encode_dp_reg out w (decode_pauth_rows (bits w 10 6) (bits w 5 5) (bits w 0 5) fs out)"
proof (cases "map_of pauth_rows (bits w 10 6)")
  case (Some cz)
  then obtain c z where r: "map_of pauth_rows (bits w 10 6) = Some (c, z)" by (cases cz) auto
  show ?thesis
    using pauth_row [OF r] layout_dp_1source(2) [OF assms]
    by (cases z; cases "bits w 5 5 = 31") (simp_all add: decode_pauth_rows_def r encodes_to_def pauth_class enc_dp_1source_pauth_def reg_num_op Let_def)
qed (simp add: decode_pauth_rows_def)

lemma exact_pauth_lr:
  assumes "bits w 24 5 = 0b11010" "bits w 21 3 = 6" "bit w 30" "\<not> bit w 29" "bits w 16 5 = 1" "bit w 31" "bits w 0 5 = 30"
    and c: "pauth_lr_code (bits w 10 6) (bits w 5 5) = Some c"
  shows "encode_dp_reg (let out = insn_set c out
    in if c \<in> {C_Autiasppcr, C_Autibsppcr} then push_operand (gp_reg False X64 (bits w 5 5)) out else out) = Ok w"
  using pauth_lr_code_row [OF c] layout_dp_1source(2) [OF assms(1-6)] assms(7)
  by (auto simp: Let_def pauth_class enc_dp_1source_pauth_def reg_num_op)

lemma exact_dp_1source:
  assumes "bits w 24 5 = 0b11010" "bits w 21 3 = 6" "bit w 30"
  shows "encodes_to encode_dp_reg out w (decode_dp_1source w fs out)"
proof -
  note b = exact_dp_1source_basic [OF assms] exact_pauth_rows [OF assms] exact_pauth_lr [OF assms]
  have p: "encodes_to encode_dp_reg out w (decode_dp_1source_pauth (bit_at w 31) (bits w 10 6) (bits w 5 5) (bits w 0 5) fs out)"
    if "\<not> bit w 29" "bits w 16 5 = 1"
  proof (cases "bit w 31 \<and> has fs F_PauthLr \<and> bits w 0 5 = 30 \<and> pauth_lr_code (bits w 10 6) (bits w 5 5) \<noteq> None")
    case True
    then obtain c where c: "pauth_lr_code (bits w 10 6) (bits w 5 5) = Some c" by auto
    then show ?thesis
      using True encodes_leaf [where enc = encode_dp_reg, OF b(3) [OF that _ _ c]] by (simp add: decode_dp_1source_pauth_def bit_at_1)
  next
    case False
    then show ?thesis using b(2) [OF that] by (auto simp: decode_dp_1source_pauth_def Let_def)
  qed
  show ?thesis
    unfolding decode_dp_1source_def Let_def using b(1) p by (auto intro!: encodes_split)
qed

section \<open>The group\<close>

text \<open>The words of the group, which the dispatcher sends here: bits 27:25 are 101.\<close>

definition in_dp_reg :: "u32 \<Rightarrow> bool" where
  "in_dp_reg w \<longleftrightarrow> bits w 25 3 = 0b101"

definition canon_dp_reg :: "u32 \<Rightarrow> u32" where
  "canon_dp_reg w = (if bits w 24 5 = 0b11011 \<and> is_high_mul w then canon_high_mul w else w)"

lemma dp_reg_encode:
  assumes "i_code (decoded decode_dp_reg w ip fs) \<noteq> C_Invalid"
  shows "encode_dp_reg (decoded decode_dp_reg w ip fs) = Ok (canon_dp_reg w)"
proof -
  let ?o = "new_invalid w ip"
  have o: "i_code ?o = C_Invalid" by (simp add: new_invalid_def)
  note ex = exact_logical_shifted [OF _ _ o] exact_addsub_shifted [OF _ _ _ o] exact_addsub_extended [OF _ _ _ o]
    exact_addsub_carry exact_rmif [OF _ _ _ _ o] exact_setf [OF _ _ _ _ o] exact_addsub_pt [OF _ _ _ _ o]
    exact_cond_compare [OF _ _ _ o] exact_cond_select [OF _ _ _ o] encode_dp_3source [OF _ _ o]
    encodes_toD [OF exact_dp_1source _ o] encodes_toD [OF exact_dp_2source _ o]
  have "leaves (\<lambda>d. i_code d \<noteq> C_Invalid \<longrightarrow> encode_dp_reg d = Ok (canon_dp_reg w)) ?o (decode_dp_reg w ip fs ?o)"
    unfolding decode_dp_reg_def Let_def canon_dp_reg_def
    by (intro leaves_split) (rule leaves_leaf, rule impI, simp add: ex)+
  then show ?thesis using assms o by (auto simp: decoded_def leaves_def)
qed

end
