(* ===== verification/Dp_Reg_Codec.thy ===== *)
theory Dp_Reg_Codec
  imports Dp_Reg_Sources
begin

text \<open>
  The codec of Data Processing -- Register: its decoder builds well-formed instructions of the group, its encoder depends on the
  semantics only, and the two are inverse up to the unused accumulator field of SMULH and UMULH, so \<open>dp_reg\<close> is an
  interpretation of \<open>group_codec\<close>.
\<close>

section \<open>The codes of the group\<close>

text \<open>The list of \<open>is_dp_reg\<close> in \<open>encode/mod.rs\<close> holds exactly the codes for which the \<open>match\<close> of \<open>encode/dp_reg.rs\<close> has an arm.\<close>

lemma is_dp_reg_dispatched:
  "is_dp_reg c \<longleftrightarrow>
     c \<in> set (logical_codes @ addsub_shifted_codes @ addsub_extended_codes @ addsub_carry_codes @
       [C_Rmif, C_Setf8, C_Setf16] @ cond_compare_codes @ cond_select_codes @ dp3_codes @ [C_Addpt, C_Subpt] @ dp2_codes @
       dp1_codes @ pauth_codes)"
  unfolding is_dp_reg_def by (rule arg_cong [where f = "\<lambda>cs. c \<in> set cs"]) (simp add: dp_reg_code_lists)

section \<open>What the decoder builds\<close>

lemma is_dp_reg_classes:
  "c \<in> set logical_codes \<Longrightarrow> is_dp_reg c" "c \<in> set addsub_shifted_codes \<Longrightarrow> is_dp_reg c"
  "c \<in> set addsub_extended_codes \<Longrightarrow> is_dp_reg c" "c \<in> set addsub_carry_codes \<Longrightarrow> is_dp_reg c"
  "c \<in> set cond_compare_codes \<Longrightarrow> is_dp_reg c" "c \<in> set cond_select_codes \<Longrightarrow> is_dp_reg c" "c \<in> set dp3_codes \<Longrightarrow> is_dp_reg c"
  "c \<in> set dp2_codes \<Longrightarrow> is_dp_reg c" "c \<in> set dp1_codes \<Longrightarrow> is_dp_reg c" "c \<in> set pauth_codes \<Longrightarrow> is_dp_reg c"
  "is_dp_reg C_Rmif" "is_dp_reg C_Setf8" "is_dp_reg C_Setf16" "is_dp_reg C_Addpt" "is_dp_reg C_Subpt"
  by (simp_all add: is_dp_reg_dispatched)

text \<open>A class whose codes need no extension.\<close>

definition base_codes :: "code list \<Rightarrow> bool" where
  "base_codes cs \<longleftrightarrow> list_all (\<lambda>c. is_dp_reg c \<and> code_feature c = F_Base) cs"

lemma base_classes:
  "base_codes logical_codes" "base_codes addsub_shifted_codes" "base_codes addsub_extended_codes" "base_codes addsub_carry_codes"
  "base_codes cond_compare_codes" "base_codes cond_select_codes"
  by (simp_all add: base_codes_def list_all_iff is_dp_reg_classes) (simp_all add: dp_reg_code_lists)

lemma built_base: "base_codes cs \<Longrightarrow> c \<in> set cs \<Longrightarrow> length ops \<le> 5 \<Longrightarrow> built_from is_dp_reg fs out (built out c m ops)"
  by (rule built_from_built) (auto simp: base_codes_def list_all_iff)

lemma built_reg_logical: "built_from is_dp_reg fs out (decode_logical_shifted w out)"
  unfolding decode_logical_shifted_def Let_def
  by (simp add: built_base [OF base_classes(1)] logical_codes_def split: if_split)

lemma built_reg_addsub:
  "built_from is_dp_reg fs out (decode_addsub_shifted w out)"
  "built_from is_dp_reg fs out (decode_addsub_extended w out)"
  "built_from is_dp_reg fs out (decode_addsub_carry w out)"
  unfolding decode_addsub_shifted_def decode_addsub_extended_def decode_addsub_carry_def Let_def
  by (simp_all add: built_base [OF base_classes(2)] built_base [OF base_classes(3)] built_base [OF base_classes(4)]
      addsub_shifted_codes_def addsub_extended_codes_def addsub_carry_codes_def split: if_split)

lemma built_conditions:
  "built_from is_dp_reg fs out (decode_cond_compare w out)"
  "built_from is_dp_reg fs out (decode_cond_select w out)"
  unfolding decode_cond_compare_def decode_cond_select_def Let_def
  by (simp_all add: built_base [OF base_classes(5)] built_base [OF base_classes(6)] cond_compare_codes_def cond_select_codes_def
      split: if_split)

lemma built_flags:
  "built_from is_dp_reg fs out (decode_addsub_pt w fs out)"
  "built_from is_dp_reg fs out (decode_rmif w out)"
  "built_from is_dp_reg fs out (decode_setf w out)"
  unfolding decode_addsub_pt_def decode_rmif_def decode_setf_def Let_def
  by (simp_all add: built_from_built is_dp_reg_classes split: if_split)

lemma dp3_codes_admitted: "list_all (\<lambda>c. admitted fs c) dp3_codes"
  by (simp add: dp3_codes_def)

lemma built_dp_3source: "built_from is_dp_reg fs out (decode_dp_3source w out)"
proof -
  have "built_from is_dp_reg fs out (dp3_operands w kind (insn_set code out))"
    if "dp3_code sf op31 o0 = Some (code, kind)" for sf op31 o0 code kind
  proof -
    have "code \<in> set dp3_codes" using that by (auto simp: dp3_code_def dp3_codes_def split: if_splits)
    then have "is_dp_reg code" "admitted fs code" using is_dp_reg_classes dp3_codes_admitted by (auto simp: list_all_iff)
    then show ?thesis by (cases kind) (simp_all add: dp3_operands_def Let_def built_from_built)
  qed
  then show ?thesis unfolding decode_dp_3source_def Let_def by (auto split: option.split)
qed

lemma built_dp_2source: "built_from is_dp_reg fs out (decode_dp_2source w fs out)"
  unfolding decode_dp_2source_def decode_crc32_def push_rrr_def Let_def
  by (intro built_split) (simp_all add: built_from_built is_dp_reg_classes(8) dp2_codes_def)

lemma dp1_code_admitted:
  assumes "dp1_code sf opcode fs = Some c"
  shows "is_dp_reg c" "admitted fs c"
proof -
  have "case dp1_code sf opcode fs of None \<Rightarrow> True | Some c \<Rightarrow> c \<in> set dp1_codes \<and> admitted fs c"
    by (simp add: dp1_code_def dp1_codes_def split: if_split)
  then have "c \<in> set dp1_codes \<and> admitted fs c" using assms by simp
  then show "is_dp_reg c" "admitted fs c" using is_dp_reg_classes by auto
qed

lemma pauth_codes_admitted:
  "pauth_lr_code opcode rn = Some c \<Longrightarrow> is_dp_reg c \<and> code_feature c = F_PauthLr"
  by (auto simp: pauth_lr_code_def is_dp_reg_classes(10) pauth_codes_def split: if_splits)

lemma pauth_rows_admitted: "list_all (\<lambda>(opcode, c, z). is_dp_reg c \<and> code_feature c = F_PAuth) pauth_rows"
  by (simp add: pauth_rows_def is_dp_reg_classes(10) pauth_codes_def)

lemma built_pauth_rows: "built_from is_dp_reg fs out (decode_pauth_rows opcode rn rd fs out)"
proof (cases "map_of pauth_rows opcode")
  case (Some cz)
  then obtain c z where r: "map_of pauth_rows opcode = Some (c, z)" by (cases cz) auto
  then have "is_dp_reg c" "code_feature c = F_PAuth" using map_of_SomeD [OF r] pauth_rows_admitted by (auto simp: list_all_iff)
  then show ?thesis by (cases z) (simp_all add: decode_pauth_rows_def r Let_def built_from_built split: if_split)
qed (simp add: decode_pauth_rows_def)

lemma built_dp_1source: "built_from is_dp_reg fs out (decode_dp_1source w fs out)"
proof -
  have b: "built_from is_dp_reg fs out (decode_dp_1source_basic sf opcode rn rd fs out)" for sf opcode rn rd
    using dp1_code_admitted by (auto simp: decode_dp_1source_basic_def Let_def built_from_built split: option.split)
  have p: "built_from is_dp_reg fs out (decode_dp_1source_pauth sf opcode rn rd fs out)" for sf opcode rn rd
    using pauth_codes_admitted built_pauth_rows
    by (auto simp: decode_dp_1source_pauth_def Let_def split: option.split intro!: built_from_built)
  show ?thesis unfolding decode_dp_1source_def Let_def by (simp add: b p split: if_split)
qed

lemma decode_dp_reg_built: "built_from is_dp_reg fs out (decode_dp_reg w ip fs out)"
  unfolding decode_dp_reg_def Let_def
  by (simp add: built_reg_logical built_reg_addsub built_conditions built_flags built_dp_3source built_dp_2source built_dp_1source split: if_split)

section \<open>What the encoder reads\<close>

lemmas dp_reg_enc_defs = enc_logical_shifted_def enc_addsub_shifted_def enc_addsub_extended_def enc_addsub_carry_def
  enc_addsub_pt_def enc_rmif_def enc_setf_def enc_cond_compare_def enc_cond_select_def enc_dp_3source_def enc_dp_2source_def
  enc_dp_1source_basic_def enc_dp_1source_pauth_def reg_num_op imm_u_op recover_shift_op recover_extended_rm_op reg_with_shift_op
  cond_of_op

lemma dp_reg_enc_same:
  assumes "wf_insn i" "wf_insn j" "same_semantics i j"
  shows "encode_dp_reg i = encode_dp_reg j"
proof -
  have o: "insn_op i n = insn_op j n" for n using same_semantics_op [OF assms] .
  have c: "i_code i = i_code j" "i_mnemonic i = i_mnemonic j" using assms(3) by (simp_all add: same_semantics_def)
  have k: "i_op_count i = i_op_count j" using assms by (metis length_live_operands same_semantics_def)
  have e: "enc_logical_shifted i = enc_logical_shifted j" "enc_addsub_shifted i = enc_addsub_shifted j"
    "enc_addsub_extended i = enc_addsub_extended j" "enc_addsub_carry i = enc_addsub_carry j" "enc_addsub_pt i = enc_addsub_pt j"
    "enc_rmif i = enc_rmif j" "enc_setf i = enc_setf j" "enc_cond_compare i = enc_cond_compare j"
    "enc_cond_select i = enc_cond_select j" "enc_dp_3source i = enc_dp_3source j" "enc_dp_2source i = enc_dp_2source j"
    "enc_dp_1source_basic i = enc_dp_1source_basic j" "enc_dp_1source_pauth i = enc_dp_1source_pauth j"
    by (simp_all only: dp_reg_enc_defs o c k)
  show ?thesis unfolding encode_dp_reg_def c e ..
qed

lemma not_dp_reg_Invalid: "\<not> is_dp_reg C_Invalid"
  by (simp add: is_dp_reg_def)

section \<open>The canonical word\<close>

lemma high_mul_fields:
  "bits (canon_high_mul w) 24 5 = bits w 24 5" "bits (canon_high_mul w) 21 3 = bits w 21 3" "bits (canon_high_mul w) 29 2 = bits w 29 2"
  "bits (canon_high_mul w) 16 5 = bits w 16 5" "bits (canon_high_mul w) 5 5 = bits w 5 5" "bits (canon_high_mul w) 0 5 = bits w 0 5"
  "bits (canon_high_mul w) 25 3 = bits w 25 3" "bit_at (canon_high_mul w) 31 = bit_at w 31" "bit_at (canon_high_mul w) 15 = bit_at w 15"
  by (simp_all add: to_bits bit_canon_high_mul)

lemma canon_dp_reg_idem: "canon_dp_reg (canon_dp_reg w) = canon_dp_reg w"
proof -
  have "canon_high_mul (canon_high_mul w) = canon_high_mul w" by (rule bit_word_eqI) (auto simp: bit_canon_high_mul)
  then show ?thesis by (auto simp: canon_dp_reg_def is_high_mul_def high_mul_fields)
qed

lemma in_dp_reg_canon: "in_dp_reg w \<Longrightarrow> in_dp_reg (canon_dp_reg w)"
  by (simp add: in_dp_reg_def canon_dp_reg_def high_mul_fields)

lemma same_high_mul:
  assumes "is_high_mul w"
  shows "same_semantics (decode_dp_3source (canon_high_mul w) (new_invalid (canon_high_mul w) ip)) (decode_dp_3source w (new_invalid w ip))"
proof -
  have k: "kind = HighMul" if "dp3_code (bit_at w 31) (bits w 21 3) (bit_at w 15) = Some (code, kind)" for code kind
    using that assms by (auto simp: dp3_code_def is_high_mul_def split: if_splits)
  show ?thesis
    unfolding decode_dp_3source_def Let_def high_mul_fields
  proof (intro same_split same_invalid)
    fix y assume "dp3_code (bit_at w 31) (bits w 21 3) (bit_at w 15) = Some y"
    moreover obtain code kind where "y = (code, kind)" by (cases y)
    ultimately show "same_semantics
        (case y of (code, kind) \<Rightarrow> dp3_operands (canon_high_mul w) kind (insn_set code (new_invalid (canon_high_mul w) ip)))
        (case y of (code, kind) \<Rightarrow> dp3_operands w kind (insn_set code (new_invalid w ip)))"
      using k by (simp add: dp3_operands_def Let_def high_mul_fields new_invalid_def)
  qed
qed

lemma dp_reg_same:
  "same_semantics (decoded decode_dp_reg (canon_dp_reg w) ip fs) (decoded decode_dp_reg w ip fs)"
proof (cases "bits w 24 5 = 0b11011 \<and> is_high_mul w")
  case True
  then show ?thesis
    using same_high_mul [of w ip] by (simp add: canon_dp_reg_def decoded_def decode_dp_reg_def high_mul_fields)
qed (auto simp: canon_dp_reg_def)

section \<open>The codec\<close>

interpretation dp_reg: group_codec in_dp_reg decode_dp_reg encode_dp_reg is_dp_reg
proof
  fix w ip fs
  assume g: "in_dp_reg w" "is_dp_reg (i_code (decoded decode_dp_reg w ip fs))"
  then have "i_code (decoded decode_dp_reg w ip fs) \<noteq> C_Invalid" using not_dp_reg_Invalid by metis
  with g(1) show "\<exists>w'. encode_dp_reg (decoded decode_dp_reg w ip fs) = Ok w' \<and> in_dp_reg w' \<and>
      same_semantics (decoded decode_dp_reg w' ip fs) (decoded decode_dp_reg w ip fs)"
    using dp_reg_encode dp_reg_same in_dp_reg_canon by blast
qed (rule not_dp_reg_Invalid decode_dp_reg_built dp_reg_enc_same; assumption?)+

end
