(* ===== verification/Insn_Edit.thy ===== *)
theory Insn_Edit
  imports Insn
begin

text \<open>
  The editing methods of \<open>src/instruction.rs\<close>.  Each returns whether it applied, with the instruction afterwards.  They
  share one contract, the locale \<open>insn_edit\<close>: a refused edit changes nothing; an accepted one marks the instruction as
  modified, touches neither \<open>word\<close> nor \<open>ip\<close>, and keeps it well-formed.
\<close>

section \<open>The modified flag\<close>

definition FLAG_MODIFIED :: u8 where
  "FLAG_MODIFIED = push_bit 0 1"

definition is_modified :: "insn \<Rightarrow> bool" where
  "is_modified i \<longleftrightarrow> i_flags i AND FLAG_MODIFIED \<noteq> 0"

definition mark_modified :: "insn \<Rightarrow> insn" where
  "mark_modified i = i\<lparr>i_flags := i_flags i OR FLAG_MODIFIED\<rparr>"

definition clear_modified :: "insn \<Rightarrow> insn" where
  "clear_modified i = i\<lparr>i_flags := i_flags i AND NOT FLAG_MODIFIED\<rparr>"

lemma is_modified_bit: "is_modified i \<longleftrightarrow> bit (i_flags i) 0"
  by (simp add: is_modified_def FLAG_MODIFIED_def and_exp_eq_0_iff_not_bit [of _ 0, simplified] and_one_eq bit_0 odd_iff_mod_2_eq_one)

lemma is_modified_mark [simp]: "is_modified (mark_modified i)"
  by (simp add: is_modified_bit mark_modified_def FLAG_MODIFIED_def bit_simps)

lemma is_modified_clear [simp]: "\<not> is_modified (clear_modified i)"
  by (simp add: is_modified_bit clear_modified_def FLAG_MODIFIED_def bit_simps)

lemma mark_modified_fields [simp]:
  "i_word (mark_modified i) = i_word i" "i_ip (mark_modified i) = i_ip i" "i_code (mark_modified i) = i_code i"
  "i_mnemonic (mark_modified i) = i_mnemonic i" "i_op_count (mark_modified i) = i_op_count i"
  "i_operands (mark_modified i) = i_operands i"
  by (simp_all add: mark_modified_def)

section \<open>Address\<close>

definition is_label :: "operand \<Rightarrow> bool" where
  "is_label op \<longleftrightarrow> (case op of OpLabel _ \<Rightarrow> True | _ \<Rightarrow> False)"

definition has_label :: "insn \<Rightarrow> bool" where
  "has_label i \<longleftrightarrow> list_ex is_label (live_operands i)"

definition set_ip :: "u64 \<Rightarrow> insn \<Rightarrow> insn" where
  "set_ip ip i = (let i = i\<lparr>i_ip := ip\<rparr> in if has_label i then mark_modified i else i)"

definition shift_label :: "u64 \<Rightarrow> operand \<Rightarrow> operand" where
  "shift_label delta op = (case op of OpLabel t \<Rightarrow> OpLabel (t + delta) | _ \<Rightarrow> op)"

definition relocate :: "u64 \<Rightarrow> insn \<Rightarrow> insn" where
  "relocate ip i =
     (let delta = ip - i_ip i;
          moved = has_label i;
          j = i\<lparr>i_operands := map (shift_label delta) (live_operands i) @ drop (i_op_count i) (i_operands i),
                i_ip := ip\<rparr>
      in if moved then mark_modified j else j)"

section \<open>Identity\<close>

definition set_code :: "code \<Rightarrow> insn \<Rightarrow> insn" where
  "set_code c i = mark_modified (i\<lparr>i_code := c, i_mnemonic := code_mnemonic c\<rparr>)"

definition set_mnemonic :: "mnemonic \<Rightarrow> insn \<Rightarrow> insn" where
  "set_mnemonic m i = mark_modified (i\<lparr>i_mnemonic := m\<rparr>)"

section \<open>Operands\<close>

definition set_op :: "nat \<Rightarrow> operand \<Rightarrow> insn \<Rightarrow> bool \<times> insn" where
  "set_op n op i =
     (if MAX_OPERANDS \<le> n then (False, i)
      else let j = i\<lparr>i_operands := (i_operands i)[n := op]\<rparr>;
               j = (if i_op_count i \<le> n then j\<lparr>i_op_count := n + 1\<rparr> else j)
           in (True, mark_modified j))"

definition set_op_count :: "nat \<Rightarrow> insn \<Rightarrow> bool \<times> insn" where
  "set_op_count count i =
     (if MAX_OPERANDS < count then (False, i)
      else (True, mark_modified
             (i\<lparr>i_operands := take count (i_operands i) @ map (\<lambda>_. OpNone) (drop count (i_operands i)),
                i_op_count := count\<rparr>)))"

definition push_op :: "operand \<Rightarrow> insn \<Rightarrow> bool \<times> insn" where
  "push_op op i =
     (let k = i_op_count i
      in if MAX_OPERANDS \<le> k then (False, i)
         else (True, mark_modified (i\<lparr>i_operands := (i_operands i)[k := op], i_op_count := k + 1\<rparr>)))"

definition operand_accepts_register :: "operand \<Rightarrow> register \<Rightarrow> bool" where
  "operand_accepts_register op reg =
     (case op of OpPredCounter _ _ _ _ \<Rightarrow> 8 \<le> reg_number reg | _ \<Rightarrow> True)"

definition op_register_component :: "insn \<Rightarrow> nat \<Rightarrow> register option" where
  "op_register_component i n =
     (case insn_op i n of
        OpReg reg _ _ _ _ _ \<Rightarrow> Some reg
      | OpRegBang reg \<Rightarrow> Some reg
      | OpIndexedElement reg _ _ _ \<Rightarrow> Some reg
      | OpPredCounter reg _ _ _ \<Rightarrow> Some reg
      | _ \<Rightarrow> None)"

definition replace_register :: "register \<Rightarrow> operand \<Rightarrow> operand option" where
  "replace_register reg op =
     (case op of
        OpReg _ arr lane shift ext pred \<Rightarrow> Some (OpReg reg arr lane shift ext pred)
      | OpRegBang _ \<Rightarrow> Some (OpRegBang reg)
      | OpIndexedElement _ arr index imm \<Rightarrow> Some (OpIndexedElement reg arr index imm)
      | OpPredCounter _ zeroing arr index \<Rightarrow> Some (OpPredCounter reg zeroing arr index)
      | _ \<Rightarrow> None)"

text \<open>Writing one live operand, when the new value exists.\<close>

definition write_op :: "nat \<Rightarrow> (operand \<Rightarrow> operand option) \<Rightarrow> insn \<Rightarrow> bool \<times> insn" where
  "write_op n f i =
     (if i_op_count i \<le> n then (False, i)
      else case f (i_operands i ! n) of
             None \<Rightarrow> (False, i)
           | Some op \<Rightarrow> (True, mark_modified (i\<lparr>i_operands := (i_operands i)[n := op]\<rparr>)))"

definition set_op_register_unchecked :: "nat \<Rightarrow> register \<Rightarrow> insn \<Rightarrow> bool \<times> insn" where
  "set_op_register_unchecked n reg i = write_op n (replace_register reg) i"

definition set_op_register :: "nat \<Rightarrow> register \<Rightarrow> insn \<Rightarrow> bool \<times> insn" where
  "set_op_register n reg i =
     (let op = insn_op i n
      in case op_register_component i n of
           None \<Rightarrow> (False, i)
         | Some old \<Rightarrow>
            if register_class old \<noteq> register_class reg \<or> width_bits old \<noteq> width_bits reg then (False, i)
            else if \<not> operand_accepts_register op reg then (False, i)
            else set_op_register_unchecked n reg i)"

definition replace_immediate :: "u64 \<Rightarrow> operand \<Rightarrow> operand option" where
  "replace_immediate v op =
     (case op of
        OpImmUnsigned _ \<Rightarrow> Some (OpImmUnsigned v)
      | OpImmLogical _ \<Rightarrow> Some (OpImmLogical v)
      | OpLabel _ \<Rightarrow> Some (OpLabel v)
      | OpImmSigned _ \<Rightarrow> Some (OpImmSigned v)
      | OpImmSignedDec _ \<Rightarrow> Some (OpImmSignedDec v)
      | OpShiftAmount _ \<Rightarrow> (if v < 2 ^ 8 then Some (OpShiftAmount (ucast v)) else None)
      | OpImmShiftedMove _ lsl \<Rightarrow> (if v < 2 ^ 16 then Some (OpImmShiftedMove (ucast v) lsl) else None)
      | OpImmShiftedMsl _ msl \<Rightarrow> (if v < 2 ^ 16 then Some (OpImmShiftedMsl (ucast v) msl) else None)
      | _ \<Rightarrow> None)"

definition set_op_immediate :: "nat \<Rightarrow> u64 \<Rightarrow> insn \<Rightarrow> bool \<times> insn" where
  "set_op_immediate n v i = write_op n (replace_immediate v) i"

section \<open>Edits of the first operand of a kind\<close>

definition edit_live :: "(operand \<Rightarrow> operand option option) \<Rightarrow> insn \<Rightarrow> bool \<times> insn" where
  "edit_live f i =
     (case edit_first f (live_operands i) of
        None \<Rightarrow> (False, i)
      | Some ops \<Rightarrow> (True, mark_modified (i\<lparr>i_operands := ops @ drop (i_op_count i) (i_operands i)\<rparr>)))"

definition set_condition :: "condition \<Rightarrow> insn \<Rightarrow> bool \<times> insn" where
  "set_condition cond = edit_live (\<lambda>op. case op of OpCond _ \<Rightarrow> Some (Some (OpCond cond)) | _ \<Rightarrow> None)"

definition set_label :: "u64 \<Rightarrow> insn \<Rightarrow> bool \<times> insn" where
  "set_label target = edit_live (\<lambda>op. case op of OpLabel _ \<Rightarrow> Some (Some (OpLabel target)) | _ \<Rightarrow> None)"

definition set_near_branch_target :: "u64 \<Rightarrow> insn \<Rightarrow> bool \<times> insn" where
  "set_near_branch_target target i = (if has_direct_target i then set_label target i else (False, i))"

definition set_memory_base :: "register \<Rightarrow> insn \<Rightarrow> bool \<times> insn" where
  "set_memory_base reg =
     edit_live (\<lambda>op. case op of
         OpMemImm _ imm mode \<Rightarrow> Some (Some (OpMemImm reg imm mode))
       | OpMemExt _ index ext shift \<Rightarrow> Some (Some (OpMemExt reg index ext shift))
       | OpSveMem _ offset arr ext imm amount mode \<Rightarrow> Some (Some (OpSveMem reg offset arr ext imm amount mode))
       | _ \<Rightarrow> None)"

definition set_memory_index :: "register \<Rightarrow> insn \<Rightarrow> bool \<times> insn" where
  "set_memory_index reg =
     edit_live (\<lambda>op. case op of
         OpMemExt base _ ext shift \<Rightarrow> Some (Some (OpMemExt base reg ext shift))
       | OpSveMem base _ arr ext imm amount mode \<Rightarrow> Some (Some (OpSveMem base reg arr ext imm amount mode))
       | _ \<Rightarrow> None)"

definition set_memory_displacement64 :: "i64 \<Rightarrow> insn \<Rightarrow> bool \<times> insn" where
  "set_memory_displacement64 disp =
     edit_live (\<lambda>op. case op of
         OpMemImm base _ mode \<Rightarrow> Some (Some (OpMemImm base disp mode))
       | OpSveMem base offset arr ext _ amount mode \<Rightarrow>
          Some (if - (2 ^ 31) \<le> sint disp \<and> sint disp < 2 ^ 31
                then Some (OpSveMem base offset arr ext (ucast disp) amount mode) else None)
       | _ \<Rightarrow> None)"

section \<open>The shared contract\<close>

locale insn_edit =
  fixes edit :: "insn \<Rightarrow> bool \<times> insn"
  assumes refused: "edit i = (False, j) \<Longrightarrow> j = i"
    and accepted: "edit i = (True, j) \<Longrightarrow> is_modified j \<and> i_word j = i_word i \<and> i_ip j = i_ip i \<and> i_code j = i_code i \<and> i_mnemonic j = i_mnemonic i"
    and keeps_wf: "edit i = (b, j) \<Longrightarrow> wf_insn i \<Longrightarrow> wf_insn j"
begin

lemma frame: "edit i = (b, j) \<Longrightarrow> i_word j = i_word i \<and> i_ip j = i_ip i \<and> i_code j = i_code i \<and> i_mnemonic j = i_mnemonic i"
  by (cases b) (auto dest: refused accepted)

lemma modified_iff: "edit i = (b, j) \<Longrightarrow> is_modified j \<longleftrightarrow> b \<or> is_modified i"
  by (cases b) (auto dest: refused accepted)

end

lemma length_edit_first: "edit_first f xs = Some ys \<Longrightarrow> length ys = length xs"
  by (induction xs arbitrary: ys) (auto split: option.splits)

lemma wf_insn_alt:
  "wf_insn i \<longleftrightarrow> length (i_operands i) = 5 \<and> i_op_count i \<le> 5 \<and> (\<forall>k. i_op_count i \<le> k \<longrightarrow> k < 5 \<longrightarrow> i_operands i ! k = OpNone)"
proof (cases "length (i_operands i) = 5")
  case True
  have "list_all (\<lambda>op. op = OpNone) (drop (i_op_count i) (i_operands i)) \<longleftrightarrow>
      (\<forall>k. i_op_count i \<le> k \<longrightarrow> k < 5 \<longrightarrow> i_operands i ! k = OpNone)"
    unfolding list_all_length using True
    by (auto simp: less_diff_conv add.commute) (metis add_diff_inverse_nat less_diff_conv linorder_not_le add.commute)
  then show ?thesis by (simp add: wf_insn_def MAX_OPERANDS_def)
qed (simp add: wf_insn_def MAX_OPERANDS_def)

lemma insn_edit_write_op: "insn_edit (write_op n f)"
  by unfold_locales
    (auto simp: write_op_def wf_insn_alt nth_list_update split: if_splits option.splits)

lemma insn_edit_edit_live: "insn_edit (edit_live f)"
proof
  fix i j b assume e: "edit_live f i = (b, j)" and wf: "wf_insn i"
  have "length (live_operands i) = i_op_count i" using wf by (simp add: live_operands_def wf_insn_alt)
  then show "wf_insn j" using e wf
    by (auto simp: edit_live_def wf_insn_alt nth_append dest!: length_edit_first split: option.splits)
qed (auto simp: edit_live_def split: option.splits)

interpretation ed_set_op: insn_edit "set_op n op" for n op
proof
  fix i j b assume "set_op n op i = (b, j)" "wf_insn i"
  then show "wf_insn j"
    by (auto simp: set_op_def Let_def wf_insn_alt nth_list_update MAX_OPERANDS_def split: if_splits)
qed (auto simp: set_op_def Let_def split: if_splits)

interpretation ed_set_op_count: insn_edit "set_op_count n" for n
  by unfold_locales
    (auto simp: set_op_count_def wf_insn_alt nth_append MAX_OPERANDS_def split: if_splits)

interpretation ed_push_op: insn_edit "push_op op" for op
  by unfold_locales (auto simp: push_op_def Let_def wf_insn_alt MAX_OPERANDS_def split: if_splits)

interpretation ed_register_unchecked: insn_edit "set_op_register_unchecked n reg" for n reg
  using insn_edit_write_op by (simp add: set_op_register_unchecked_def [abs_def])

interpretation ed_register: insn_edit "set_op_register n reg" for n reg
proof
  fix i j b assume e: "set_op_register n reg i = (b, j)"
  then have "b \<longrightarrow> set_op_register_unchecked n reg i = (b, j)" "\<not> b \<longrightarrow> j = i"
    using ed_register_unchecked.refused by (auto simp: set_op_register_def Let_def split: if_splits option.splits)
  then show "wf_insn i \<Longrightarrow> wf_insn j" using ed_register_unchecked.keeps_wf by blast
next
  fix i j assume "set_op_register n reg i = (False, j)"
  then show "j = i"
    using ed_register_unchecked.refused by (auto simp: set_op_register_def Let_def split: if_splits option.splits)
next
  fix i j assume "set_op_register n reg i = (True, j)"
  then have "set_op_register_unchecked n reg i = (True, j)"
    by (auto simp: set_op_register_def Let_def split: if_splits option.splits)
  then show "is_modified j \<and> i_word j = i_word i \<and> i_ip j = i_ip i \<and> i_code j = i_code i \<and> i_mnemonic j = i_mnemonic i"
    by (rule ed_register_unchecked.accepted)
qed

interpretation ed_immediate: insn_edit "set_op_immediate n v" for n v
  using insn_edit_write_op by (simp add: set_op_immediate_def [abs_def])

text \<open>What an accepted edit of an immediate makes of an instruction the decoder has built.\<close>

lemma edit_immediate_built:
  assumes "n < length ops" "length ops \<le> 5" "replace_immediate v (ops ! n) = Some op"
  shows "\<exists>d. set_op_immediate n v (built out c m ops) = (True, d) \<and> wf_insn d \<and>
    i_code d = i_code (built out c m (ops[n := op])) \<and> i_mnemonic d = i_mnemonic (built out c m (ops[n := op])) \<and>
    i_ip d = i_ip (built out c m (ops[n := op])) \<and> live_operands d = live_operands (built out c m (ops[n := op]))"
proof -
  let ?i = "built out c m ops"
  have n: "i_operands ?i ! n = ops ! n" "n < i_op_count ?i" using assms(1) by (simp_all add: built_def nth_append)
  then obtain d where d: "set_op_immediate n v ?i = (True, d)" and e: "d = mark_modified (?i\<lparr>i_operands := (i_operands ?i)[n := op]\<rparr>)"
    using assms by (auto simp: set_op_immediate_def write_op_def)
  have "live_operands d = ops[n := op]" using assms(1,2) by (simp add: e live_operands_def built_def list_update_append)
  moreover have "wf_insn d" by (rule ed_immediate.keeps_wf [OF d]) (use assms(2) in simp)
  ultimately show ?thesis using d by (simp add: e assms(2))
qed

interpretation ed_condition: insn_edit "set_condition c" for c
  using insn_edit_edit_live by (simp add: set_condition_def)

interpretation ed_label: insn_edit "set_label t" for t
  using insn_edit_edit_live by (simp add: set_label_def)

interpretation ed_branch: insn_edit "set_near_branch_target t" for t
  by unfold_locales
    (auto simp: set_near_branch_target_def dest: ed_label.refused ed_label.accepted ed_label.keeps_wf split: if_splits)

interpretation ed_base: insn_edit "set_memory_base reg" for reg
  using insn_edit_edit_live by (simp add: set_memory_base_def)

interpretation ed_index: insn_edit "set_memory_index reg" for reg
  using insn_edit_edit_live by (simp add: set_memory_index_def)

interpretation ed_disp: insn_edit "set_memory_displacement64 d" for d
  using insn_edit_edit_live by (simp add: set_memory_displacement64_def)

end
