(* ===== verification/Dp_Reg_Correct.thy ===== *)
theory Dp_Reg_Correct
  imports Dp_Reg_Codec Insn_Edit
begin

text \<open>
  The properties of Data Processing -- Register: the round trip of every word of the group, the extension gate, the totality of
  the encoder, and the condition of a conditional select under edits.
\<close>

section \<open>Round trip\<close>

text \<open>C17: every word of the register group that decodes is encoded back to its canonical word, which is a word of the group,
  decodes to the same instruction and is its own encoding; for every instruction but SMULH and UMULH, whose accumulator field
  the decoder ignores, it is the word itself.\<close>

theorem dp_reg_round_trip:
  assumes "in_dp_reg w" "i_code (decoded decode_dp_reg w ip fs) \<noteq> C_Invalid"
  shows "let d = decoded decode_dp_reg w ip fs; v = canon_dp_reg w
    in encode_dp_reg d = Ok v \<and> in_dp_reg v \<and> same_semantics (decoded decode_dp_reg v ip fs) d \<and>
       encode_dp_reg (decoded decode_dp_reg v ip fs) = Ok v \<and> (i_code d \<notin> {C_Smulh, C_Umulh} \<longrightarrow> v = w)"
proof -
  let ?d = "decoded decode_dp_reg w ip fs"
  have e: "encode_dp_reg ?d = Ok (canon_dp_reg w)" by (rule dp_reg_encode [OF assms(2)])
  have "i_code ?d \<in> {C_Smulh, C_Umulh}" if h: "bits w 24 5 = 0b11011" "is_high_mul w"
  proof -
    have "i_code (decode_dp_3source w (new_invalid w ip)) \<noteq> C_Invalid" using assms(2) h by (simp add: decoded_def decode_dp_reg_def)
    then show ?thesis
      using h(2) by (auto simp: decoded_def decode_dp_reg_def h(1) decode_dp_3source_def dp3_code_def dp3_operands_def is_high_mul_def
          Let_def new_invalid_def split: if_splits)
  qed
  then have "i_code ?d \<notin> {C_Smulh, C_Umulh} \<longrightarrow> canon_dp_reg w = w" by (auto simp: canon_dp_reg_def)
  with e dp_reg.canonical [OF assms e] dp_reg_same [of w ip fs] in_dp_reg_canon [OF assms(1)] show ?thesis by (simp add: Let_def)
qed

lemmas dp_reg_word_eval = decoded_def decode_dp_reg_def Let_def bits_def bit_at_def new_invalid_def

text \<open>\<open>smulh x27, x1, x7\<close> with a non-canonical accumulator field.\<close>

theorem dp_reg_round_trip_witness:
  "i_code (decoded decode_dp_reg 0x9b47643b 0 FeatureSet_BASE) = C_Smulh \<and>
   encode_dp_reg (decoded decode_dp_reg 0x9b47643b 0 FeatureSet_BASE) = Ok 0x9b477c3b"
proof -
  let ?d = "decoded decode_dp_reg 0x9b47643b 0 FeatureSet_BASE"
  have g: "in_dp_reg 0x9b47643b" by (simp add: in_dp_reg_def bits_def)
  have c: "i_code ?d = C_Smulh"
    by (simp add: dp_reg_word_eval decode_dp_3source_def dp3_code_def dp3_operands_def)
  then have "i_code ?d \<noteq> C_Invalid" by simp
  from dp_reg_round_trip [OF g this] c show ?thesis
    by (simp add: Let_def canon_dp_reg_def is_high_mul_def canon_high_mul_def bits_def)
qed

section \<open>Gate\<close>

lemma admitted_dp_reg: "is_dp_reg c \<Longrightarrow> admitted fs c \<longleftrightarrow> has fs (code_feature c) \<or> c \<in> {C_Maddpt, C_Msubpt}"
  by (auto simp: admitted_def ungated_def is_dp_reg_dispatched dp_reg_code_lists)

text \<open>C19: what the decoder produces in the group it may produce: the code belongs to the group, its extension is in the feature
  set (\<open>MADDPT\<close> and \<open>MSUBPT\<close> excepted), and the instruction is well-formed, unmodified, and carries the word and the address.\<close>

theorem dp_reg_admitted:
  assumes "in_dp_reg w" "i_code (decoded decode_dp_reg w ip fs) \<noteq> C_Invalid"
  shows "let d = decoded decode_dp_reg w ip fs
    in is_dp_reg (i_code d) \<and> (has fs (code_feature (i_code d)) \<or> i_code d \<in> {C_Maddpt, C_Msubpt}) \<and>
       wf_insn d \<and> i_word d = w \<and> i_ip d = ip \<and> i_flags d = 0"
  using assms dp_reg.dec_feature dp_reg.dec_owned dp_reg.dec_wf dp_reg.dec_frame admitted_dp_reg
  unfolding Let_def by blast

text \<open>\<open>maddpt x0, x1, x2, x3\<close> is decoded without FEAT_CPA.\<close>

theorem dp_reg_admitted_witness:
  "i_code (decoded decode_dp_reg 0x9b620c20 0 FeatureSet_BASE) = C_Maddpt \<and> \<not> has FeatureSet_BASE (code_feature C_Maddpt) \<and>
   is_dp_reg (i_code (decoded decode_dp_reg 0x9b620c20 0 FeatureSet_BASE))"
proof -
  let ?d = "decoded decode_dp_reg 0x9b620c20 0 FeatureSet_BASE"
  have g: "in_dp_reg 0x9b620c20" by (simp add: in_dp_reg_def bits_def)
  have c: "i_code ?d = C_Maddpt"
    by (simp add: dp_reg_word_eval decode_dp_3source_def dp3_code_def dp3_operands_def)
  then have "i_code ?d \<noteq> C_Invalid" by simp
  from dp_reg_admitted [OF g this] c show ?thesis by (simp add: Let_def has_iff FeatureSet_BASE_def)
qed

section \<open>Totality\<close>

lemma dp_reg_readers_total [simp]:
  "shift_op op sf \<noteq> Panic" "extended_op op d \<noteq> Panic" "with_shift_op op \<noteq> Panic" "cond_op op \<noteq> Panic"
  by (auto simp: shift_op_def extended_op_def with_shift_op_def cond_op_def Let_def and_then_Panic_iff split: operand.split prod.split)

lemma dp_reg_encoders_total:
  "enc_logical_shifted i \<noteq> Panic" "enc_addsub_shifted i \<noteq> Panic" "enc_addsub_extended i \<noteq> Panic" "enc_addsub_carry i \<noteq> Panic"
  "enc_addsub_pt i \<noteq> Panic" "enc_rmif i \<noteq> Panic" "enc_setf i \<noteq> Panic" "enc_cond_compare i \<noteq> Panic" "enc_cond_select i \<noteq> Panic"
  "enc_dp_3source i \<noteq> Panic" "enc_dp_2source i \<noteq> Panic" "enc_dp_1source_basic i \<noteq> Panic" "enc_dp_1source_pauth i \<noteq> Panic"
  by (simp_all add: dp_reg_enc_defs Let_def and_then_Panic_iff split: prod.split option.split)

lemma dp_reg_readers_supported [simp]:
  "shift_op op sf \<noteq> Err EncUnsupported" "extended_op op d \<noteq> Err EncUnsupported" "with_shift_op op \<noteq> Err EncUnsupported"
  "cond_op op \<noteq> Err EncUnsupported"
  by (auto simp: shift_op_def extended_op_def with_shift_op_def cond_op_def Let_def and_then_Err_iff ok_or_Err_iff
      split: operand.split prod.split)

lemma dp_reg_encoders_supported:
  "enc_logical_shifted i \<noteq> Err EncUnsupported" "enc_addsub_shifted i \<noteq> Err EncUnsupported" "enc_addsub_extended i \<noteq> Err EncUnsupported"
  "enc_addsub_carry i \<noteq> Err EncUnsupported" "enc_addsub_pt i \<noteq> Err EncUnsupported" "enc_rmif i \<noteq> Err EncUnsupported"
  "enc_setf i \<noteq> Err EncUnsupported" "enc_cond_compare i \<noteq> Err EncUnsupported" "enc_cond_select i \<noteq> Err EncUnsupported"
  "enc_dp_3source i \<noteq> Err EncUnsupported" "enc_dp_2source i \<noteq> Err EncUnsupported" "enc_dp_1source_basic i \<noteq> Err EncUnsupported"
  "enc_dp_1source_pauth i \<noteq> Err EncUnsupported"
  by (simp_all add: dp_reg_enc_defs Let_def and_then_Err_iff ok_or_Err_iff split: prod.split option.split)

text \<open>C20: the encoder of the group is total and the two lists of its codes agree: whatever instruction it is given, edited or built
  by hand, it returns a word or an error, and the error is \<open>Unsupported\<close> exactly when the code is missing from the list \<open>is_dp_reg\<close>
  by which \<open>encode/mod.rs\<close> calls it.  A code missing from that list or from the \<open>match\<close> of \<open>encode/dp_reg.rs\<close> alone would break it.\<close>

theorem dp_reg_encoder_total:
  "encode_dp_reg i \<noteq> Panic \<and> (is_dp_reg (i_code i) \<longleftrightarrow> encode_dp_reg i \<noteq> Err EncUnsupported)"
proof
  show "encode_dp_reg i \<noteq> Panic" by (simp add: encode_dp_reg_def Let_def dp_reg_encoders_total)
  show "is_dp_reg (i_code i) \<longleftrightarrow> encode_dp_reg i \<noteq> Err EncUnsupported"
    by (simp add: encode_dp_reg_def is_dp_reg_dispatched Let_def dp_reg_encoders_supported)
qed

section \<open>Editing the condition of a conditional select\<close>

lemma edit_first_cond:
  "list_all (\<lambda>op. operand_kind op = KindRegister) ops \<Longrightarrow>
   edit_first (\<lambda>op. case op of OpCond _ \<Rightarrow> Some (Some (OpCond c)) | _ \<Rightarrow> None) (ops @ [OpCond x]) = Some (ops @ [OpCond c])"
  by (induction ops) (auto split: operand.splits)

lemma set_condition_built:
  assumes "list_all (\<lambda>op. operand_kind op = KindRegister) ops" "length ops \<le> 4" "set_condition c (built out k m (ops @ [OpCond x])) = (b, e)"
  shows "b" "wf_insn e" "same_semantics e (built out k m (ops @ [OpCond c]))"
proof -
  let ?i = "built out k m (ops @ [OpCond x])"
  have s: "set_condition c ?i = (True, mark_modified (?i\<lparr>i_operands := (ops @ [OpCond c]) @ drop (i_op_count ?i) (i_operands ?i)\<rparr>))"
    using edit_first_cond [OF assms(1)] by (simp add: set_condition_def edit_live_def)
  show "b" using assms(3) unfolding s by simp
  show "wf_insn e" by (rule ed_condition.keeps_wf [OF assms(3)]) (use assms(2) in simp)
  show "same_semantics e (built out k m (ops @ [OpCond c]))"
  proof -
    have "live_operands e = ops @ [OpCond c]" using assms(3) unfolding s by (auto simp: live_operands_def)
    then show ?thesis using assms(3) unfolding s by (auto simp: same_semantics_def)
  qed
qed

text \<open>The three shapes of the decoder's result: the last operand is the condition, inverted under an alias.\<close>

definition cond_select_alias :: "u32 \<Rightarrow> bool" where
  "cond_select_alias w \<longleftrightarrow> (bit w 30 \<or> bit w 10) \<and> bits w 16 5 = bits w 5 5"

definition always_cond :: "u32 \<Rightarrow> bool" where
  "always_cond c \<longleftrightarrow> c AND 0b1110 = 0b1110"

definition cond_select_code :: "u32 \<Rightarrow> code" where
  "cond_select_code w =
     (if bit w 30 then (if bit w 10 then (if bit w 31 then C_Csneg64 else C_Csneg32) else (if bit w 31 then C_Csinv64 else C_Csinv32))
      else (if bit w 10 then (if bit w 31 then C_Csinc64 else C_Csinc32) else (if bit w 31 then C_Csel64 else C_Csel32)))"

definition cond_select_shape :: "u32 \<Rightarrow> bool \<Rightarrow> mnemonic \<times> operand list" where
  "cond_select_shape w al =
     (let wd = width_of (bit_at w 31);
          rd = gp_reg False wd (bits w 0 5);
          rn = gp_reg False wd (bits w 5 5)
      in if al \<and> bits w 16 5 = 31 \<and> bit w 30 \<noteq> bit w 10 then (if bit w 30 then M_Csetm else M_Cset, [rd])
         else if al then (if bit w 30 then (if bit w 10 then M_Cneg else M_Cinv) else M_Cinc, [rd, rn])
         else (code_mnemonic (cond_select_code w), [rd, rn, gp_reg False wd (bits w 16 5)]))"

definition cond_select_insn :: "u32 \<Rightarrow> insn \<Rightarrow> bool \<Rightarrow> condition \<Rightarrow> insn" where
  "cond_select_insn w out al c =
     built out (cond_select_code w) (fst (cond_select_shape w al)) (snd (cond_select_shape w al) @ [OpCond c])"

definition shown_cond :: "bool \<Rightarrow> condition \<Rightarrow> condition" where
  "shown_cond al c = (if al then condition_invert c else c)"

lemmas cond_select_eval = cond_select_insn_def cond_select_shape_def cond_select_code_def cond_select_alias_def shown_cond_def

lemma decode_cond_select_insn:
  assumes "\<not> bit w 29" "\<not> bit w 11"
  shows "decode_cond_select w out =
    (let al = (cond_select_alias w \<and> \<not> always_cond (bits w 12 4))
     in cond_select_insn w out al (shown_cond al (condition_from_bits (ucast (bits w 12 4)))))"
  apply (cases "bit w 31"; cases "bit w 30"; cases "bit w 10"; cases "bits w 16 5 = bits w 5 5"; cases "bits w 5 5 = 31")
  apply (simp_all add: decode_cond_select_def cond_select_eval always_cond_def dec_eval assms)
  done

lemma encode_cond_select_insn:
  assumes "bits w 24 5 = 0b11010" "bits w 21 3 = 4" "\<not> bit w 29" "\<not> bit w 11" "al \<longrightarrow> cond_select_alias w"
    "ucast (condition_as_u4 (shown_cond al c)) = bits w 12 4"
  shows "encode_dp_reg (cond_select_insn w out al c) = Ok w"
  using layout_cond_select [OF assms(1-4)] assms(5,6)
  apply (cases "bit w 31"; cases "bit w 30"; cases "bit w 10"; cases al; cases "bits w 16 5 = 31")
  apply (simp_all add: cond_select_eval reg_enc_eval enc_cond_select_def cond_select_fields_def cond_of_op)
  done

lemma set_condition_cond_select:
  assumes "set_condition c (cond_select_insn w out al x) = (b, e)"
  shows "b" "wf_insn e" "same_semantics e (cond_select_insn w out al c)"
proof -
  have r: "list_all (\<lambda>op. operand_kind op = KindRegister) (snd (cond_select_shape w al))" "length (snd (cond_select_shape w al)) \<le> 4"
    by (simp_all add: cond_select_shape_def Let_def)
  show "b" "wf_insn e" "same_semantics e (cond_select_insn w out al c)"
    using set_condition_built [OF r assms [unfolded cond_select_insn_def]] by (simp_all add: cond_select_insn_def)
qed

text \<open>A word with another condition field: the same instruction but for the condition, and the alias if it stands.\<close>

lemma cond_select_agree:
  assumes "agree 12 4 w v"
  shows "bits v 24 5 = bits w 24 5" "bits v 21 3 = bits w 21 3" "bit v 29 = bit w 29" "bit v 11 = bit w 11"
    "cond_select_alias v = cond_select_alias w" "cond_select_insn v out al c = cond_select_insn w out al c"
proof -
  have b: "bits v 24 5 = bits w 24 5" "bits v 21 3 = bits w 21 3" "bits v 16 5 = bits w 16 5" "bits v 5 5 = bits w 5 5"
    "bits v 0 5 = bits w 0 5"
    using agree_bits [OF assms] by simp_all
  have c: "bit v 31 = bit w 31" "bit v 30 = bit w 30" "bit v 29 = bit w 29" "bit v 11 = bit w 11" "bit v 10 = bit w 10"
    using assms by (simp_all add: agree_def)
  have d: "bit_at v 31 = bit_at w 31" using agree_bit_at [OF assms] by simp
  show "bits v 24 5 = bits w 24 5" "bits v 21 3 = bits w 21 3" "bit v 29 = bit w 29" "bit v 11 = bit w 11"
    "cond_select_alias v = cond_select_alias w" "cond_select_insn v out al c = cond_select_insn w out al c"
    unfolding cond_select_alias_def cond_select_insn_def cond_select_shape_def cond_select_code_def b c d by (rule refl)+
qed

lemma cond_select_alias_shown: "cond_select_alias w \<Longrightarrow> fst (cond_select_shape w True) \<noteq> fst (cond_select_shape w False)"
  by (cases "bit w 31"; cases "bit w 30"; cases "bit w 10"; cases "bits w 5 5 = 31")
    (simp_all add: cond_select_alias_def cond_select_shape_def cond_select_code_def Let_def)

lemma cond_select_insn_alias:
  "cond_select_alias w \<Longrightarrow> same_semantics (cond_select_insn w o1 al c) (cond_select_insn w o2 al' c') \<longleftrightarrow> al = al' \<and> c = c' \<and> i_ip o1 = i_ip o2"
  using cond_select_alias_shown [of w] by (cases al; cases al') (auto simp: cond_select_insn_def)

lemma condition_back: "ucast (ucast (condition_as_u4 c) :: u32) = condition_as_u4 c" "take_bit 4 (ucast (condition_as_u4 c) :: u32) = ucast (condition_as_u4 c)"
  by (cases c; simp)+

lemma always_cond_iff:
  "always_cond (ucast (condition_as_u4 (shown_cond al c))) \<longleftrightarrow> c \<in> {CondAl, CondNv}"
  by (cases c; cases al) (simp_all add: always_cond_def shown_cond_def condition_invert_def condition_from_bits_def)

lemma shown_cond_twice [simp]: "shown_cond al (shown_cond al c) = c"
  by (simp add: shown_cond_def condition_invert_invert)

text \<open>C18: the condition of a decoded conditional select can be set to any condition.  The edited instruction is encoded to the
  word in which only the condition field has changed, to the inverse of the condition where the instruction was shown as one of
  the aliases \<open>CSET\<close>, \<open>CSETM\<close>, \<open>CINC\<close>, \<open>CINV\<close>, \<open>CNEG\<close>; and that word decodes to the edited instruction unless the edit
  crosses between \<open>AL\<close>/\<open>NV\<close>, which have no alias, and the other conditions.\<close>

theorem cond_select_edit:
  assumes "bits w 24 5 = 0b11010" "bits w 21 3 = 0b100"
    "i_code (decoded decode_dp_reg w ip fs) \<noteq> C_Invalid" "set_condition c (decoded decode_dp_reg w ip fs) = (b, e)"
  shows "let al = (cond_select_alias w \<and> \<not> always_cond (bits w 12 4));
      v = with_field 12 4 (ucast (condition_as_u4 (shown_cond al c))) w
    in b \<and> encode_dp_reg e = Ok v \<and>
       (same_semantics (decoded decode_dp_reg v ip fs) e \<longleftrightarrow>
        cond_select_alias w \<longrightarrow> (always_cond (bits w 12 4) \<longleftrightarrow> c \<in> {CondAl, CondNv}))"
proof -
  define al where "al = (cond_select_alias w \<and> \<not> always_cond (bits w 12 4))"
  define v where "v = with_field 12 4 (ucast (condition_as_u4 (shown_cond al c))) w"
  have d: "decoded decode_dp_reg x ip fs = decode_cond_select x (new_invalid x ip)"
    if "bits x 24 5 = 0b11010" "bits x 21 3 = 0b100" for x
    using that by (simp add: decoded_def decode_dp_reg_def)
  have g: "\<not> bit w 29" "\<not> bit w 11"
    using assms(3) by (auto simp: d [OF assms(1,2)] decode_cond_select_def Let_def new_invalid_def split: if_splits)
  let ?k = "shown_cond al (condition_from_bits (ucast (bits w 12 4)))"
  have D: "decoded decode_dp_reg w ip fs = cond_select_insn w (new_invalid w ip) al ?k"
    by (simp add: d [OF assms(1,2)] decode_cond_select_insn [OF g] al_def Let_def)
  note e = set_condition_cond_select [OF assms(4) [unfolded D]]
  have f: "bits v 12 4 = ucast (condition_as_u4 (shown_cond al c))" and a: "agree 12 4 w v"
    using with_field [where l = 12 and k = 4 and w = w] by (simp_all add: v_def condition_back)
  note A = cond_select_agree [OF a]
  have gv: "bits v 24 5 = 0b11010" "bits v 21 3 = 0b100" "\<not> bit v 29" "\<not> bit v 11" using A(1-4) assms(1,2) g by simp_all
  have "encode_dp_reg (cond_select_insn v (new_invalid w ip) al c) = Ok v"
    by (rule encode_cond_select_insn) (use gv f A(5) in \<open>simp_all add: al_def\<close>)
  then have E: "encode_dp_reg e = Ok v"
    using dp_reg_enc_same [OF e(2) _ e(3)] by (simp add: A(6)) (simp add: cond_select_insn_def cond_select_shape_def Let_def)
  let ?al = "cond_select_alias w \<and> c \<notin> {CondAl, CondNv}"
  have V: "decoded decode_dp_reg v ip fs = cond_select_insn w (new_invalid v ip) ?al (shown_cond ?al (shown_cond al c))"
    using gv by (simp add: d decode_cond_select_insn A(5,6) f always_cond_iff Let_def condition_back)
  have "same_semantics (decoded decode_dp_reg v ip fs) e \<longleftrightarrow>
      same_semantics (decoded decode_dp_reg v ip fs) (cond_select_insn w (new_invalid w ip) al c)"
    using e(3) same_semantics_trans same_semantics_sym by blast
  also have "\<dots> \<longleftrightarrow> (cond_select_alias w \<longrightarrow> (?al \<longleftrightarrow> al))"
  proof (cases "cond_select_alias w")
    case True
    then show ?thesis by (auto simp: V cond_select_insn_alias [OF True] new_invalid_def)
  next
    case False
    then have "\<not> al" by (simp add: al_def)
    with False show ?thesis by (simp add: V shown_cond_def cond_select_insn_def new_invalid_def)
  qed
  finally show ?thesis using e(1) E by (auto simp: Let_def al_def [symmetric] v_def [symmetric]) (auto simp: al_def)
qed

text \<open>\<open>cset x4, hi\<close> edited to \<open>cset x4, eq\<close>: the word holds \<open>ne\<close>.\<close>

theorem cond_select_edit_witness:
  "encode_dp_reg (snd (set_condition CondEq (decoded decode_dp_reg 0x9a9f97e4 0 FeatureSet_BASE))) = Ok 0x9a9f17e4"
proof -
  let ?d = "decoded decode_dp_reg 0x9a9f97e4 0 FeatureSet_BASE"
  have f: "bits 0x9a9f97e4 24 5 = 0b11010" "bits 0x9a9f97e4 21 3 = 0b100" by (simp_all add: bits_def)
  have c: "i_code ?d \<noteq> C_Invalid"
    by (simp add: dp_reg_word_eval decode_cond_select_def)
  have e: "set_condition CondEq ?d = (fst (set_condition CondEq ?d), snd (set_condition CondEq ?d))" by simp
  have a: "cond_select_alias 0x9a9f97e4 \<and> \<not> always_cond (bits 0x9a9f97e4 12 4)"
    by (simp add: cond_select_alias_def always_cond_def bits_def)
  from cond_select_edit [OF f c e] show ?thesis
    by (simp add: Let_def a shown_cond_def condition_invert_def condition_from_bits_def with_field_def mask_eq_exp_minus_1)
qed

end
