(* ===== verification/Mops.thy ===== *)
theory Mops
  imports Codec_Base
begin

text \<open>
  \<open>src/decode/mops.rs\<close> and \<open>src/encode/mops.rs\<close>: the memory copy and memory set instructions of FEAT_MOPS, with the two
  places of \<open>src/decode/ldst.rs\<close> that reach them (\<open>decode_mops_forms\<close>).

  The two \<open>match\<close> tables are association lists, copied row by row from the two files; that they are inverse to each
  other is a theorem (\<open>mops_tables_inverse\<close>), not a convention.  Both entry points are exact: what they decode is
  encoded back to the same word.
\<close>

section \<open>Decoder\<close>

definition mem_bang :: "u32 \<Rightarrow> operand" where
  "mem_bang n = OpMemImm (gp_register False X64 (ucast (n AND 0x1f))) 0 MemPreNoOffset"

definition reg_bang :: "u32 \<Rightarrow> operand" where
  "reg_bang n = OpRegBang (gp_register False X64 (ucast (n AND 0x1f)))"

definition mops_code_rows :: "((u32 \<times> u32 \<times> u32) \<times> code) list" where
  "mops_code_rows =
    [((0, 0, 0), C_Cpyfp), ((0, 0, 1), C_Cpyfpwt), ((0, 0, 2), C_Cpyfprt), ((0, 0, 3), C_Cpyfpt),
     ((0, 0, 4), C_Cpyfpwn), ((0, 0, 5), C_Cpyfpwtwn), ((0, 0, 6), C_Cpyfprtwn), ((0, 0, 7), C_Cpyfptwn),
     ((0, 0, 8), C_Cpyfprn), ((0, 0, 9), C_Cpyfpwtrn), ((0, 0, 10), C_Cpyfprtrn), ((0, 0, 11), C_Cpyfptrn),
     ((0, 0, 12), C_Cpyfpn), ((0, 0, 13), C_Cpyfpwtn), ((0, 0, 14), C_Cpyfprtn), ((0, 0, 15), C_Cpyfptn),
     ((0, 2, 0), C_Cpyfm), ((0, 2, 1), C_Cpyfmwt), ((0, 2, 2), C_Cpyfmrt), ((0, 2, 3), C_Cpyfmt),
     ((0, 2, 4), C_Cpyfmwn), ((0, 2, 5), C_Cpyfmwtwn), ((0, 2, 6), C_Cpyfmrtwn), ((0, 2, 7), C_Cpyfmtwn),
     ((0, 2, 8), C_Cpyfmrn), ((0, 2, 9), C_Cpyfmwtrn), ((0, 2, 10), C_Cpyfmrtrn), ((0, 2, 11), C_Cpyfmtrn),
     ((0, 2, 12), C_Cpyfmn), ((0, 2, 13), C_Cpyfmwtn), ((0, 2, 14), C_Cpyfmrtn), ((0, 2, 15), C_Cpyfmtn),
     ((0, 4, 0), C_Cpyfe), ((0, 4, 1), C_Cpyfewt), ((0, 4, 2), C_Cpyfert), ((0, 4, 3), C_Cpyfet),
     ((0, 4, 4), C_Cpyfewn), ((0, 4, 5), C_Cpyfewtwn), ((0, 4, 6), C_Cpyfertwn), ((0, 4, 7), C_Cpyfetwn),
     ((0, 4, 8), C_Cpyfern), ((0, 4, 9), C_Cpyfewtrn), ((0, 4, 10), C_Cpyfertrn), ((0, 4, 11), C_Cpyfetrn),
     ((0, 4, 12), C_Cpyfen), ((0, 4, 13), C_Cpyfewtn), ((0, 4, 14), C_Cpyfertn), ((0, 4, 15), C_Cpyfetn),
     ((0, 6, 0), C_Setp), ((0, 6, 1), C_Setpt), ((0, 6, 2), C_Setpn), ((0, 6, 3), C_Setptn),
     ((0, 6, 4), C_Setm), ((0, 6, 5), C_Setmt), ((0, 6, 6), C_Setmn), ((0, 6, 7), C_Setmtn),
     ((0, 6, 8), C_Sete), ((0, 6, 9), C_Setet), ((0, 6, 10), C_Seten), ((0, 6, 11), C_Setetn),
     ((1, 0, 0), C_Cpyp), ((1, 0, 1), C_Cpypwt), ((1, 0, 2), C_Cpyprt), ((1, 0, 3), C_Cpypt),
     ((1, 0, 4), C_Cpypwn), ((1, 0, 5), C_Cpypwtwn), ((1, 0, 6), C_Cpyprtwn), ((1, 0, 7), C_Cpyptwn),
     ((1, 0, 8), C_Cpyprn), ((1, 0, 9), C_Cpypwtrn), ((1, 0, 10), C_Cpyprtrn), ((1, 0, 11), C_Cpyptrn),
     ((1, 0, 12), C_Cpypn), ((1, 0, 13), C_Cpypwtn), ((1, 0, 14), C_Cpyprtn), ((1, 0, 15), C_Cpyptn),
     ((1, 2, 0), C_Cpym), ((1, 2, 1), C_Cpymwt), ((1, 2, 2), C_Cpymrt), ((1, 2, 3), C_Cpymt),
     ((1, 2, 4), C_Cpymwn), ((1, 2, 5), C_Cpymwtwn), ((1, 2, 6), C_Cpymrtwn), ((1, 2, 7), C_Cpymtwn),
     ((1, 2, 8), C_Cpymrn), ((1, 2, 9), C_Cpymwtrn), ((1, 2, 10), C_Cpymrtrn), ((1, 2, 11), C_Cpymtrn),
     ((1, 2, 12), C_Cpymn), ((1, 2, 13), C_Cpymwtn), ((1, 2, 14), C_Cpymrtn), ((1, 2, 15), C_Cpymtn),
     ((1, 4, 0), C_Cpye), ((1, 4, 1), C_Cpyewt), ((1, 4, 2), C_Cpyert), ((1, 4, 3), C_Cpyet),
     ((1, 4, 4), C_Cpyewn), ((1, 4, 5), C_Cpyewtwn), ((1, 4, 6), C_Cpyertwn), ((1, 4, 7), C_Cpyetwn),
     ((1, 4, 8), C_Cpyern), ((1, 4, 9), C_Cpyewtrn), ((1, 4, 10), C_Cpyertrn), ((1, 4, 11), C_Cpyetrn),
     ((1, 4, 12), C_Cpyen), ((1, 4, 13), C_Cpyewtn), ((1, 4, 14), C_Cpyertn), ((1, 4, 15), C_Cpyetn),
     ((1, 6, 0), C_Setgp), ((1, 6, 1), C_Setgpt), ((1, 6, 2), C_Setgpn), ((1, 6, 3), C_Setgptn),
     ((1, 6, 4), C_Setgm), ((1, 6, 5), C_Setgmt), ((1, 6, 6), C_Setgmn), ((1, 6, 7), C_Setgmtn),
     ((1, 6, 8), C_Setge), ((1, 6, 9), C_Setget), ((1, 6, 10), C_Setgen), ((1, 6, 11), C_Setgetn)]"

definition setg_option_rows :: "(u32 \<times> code) list" where
  "setg_option_rows =
    [(0, C_SetgopMops), (1, C_SetgoptMops), (2, C_SetgopnMops), (3, C_SetgoptnMops), (4, C_SetgomMops),
     (5, C_SetgomtMops), (6, C_SetgomnMops), (7, C_SetgomtnMops), (8, C_SetgoeMops), (9, C_SetgoetMops),
     (10, C_SetgoenMops), (11, C_SetgoetnMops)]"

definition decode_mops :: "u32 \<Rightarrow> insn \<Rightarrow> insn" where
  "decode_mops word out =
     (if bits word 30 2 \<noteq> 0b00 \<or> bits word 24 2 \<noteq> 0b01 \<or> bits word 10 2 \<noteq> 0b01 then out
      else
       let family = bit_at word 26;
           op1 = bits word 21 3;
           op2 = bits word 12 4;
           rn = bits word 16 5;
           rs = bits word 5 5;
           rd = bits word 0 5
       in case map_of mops_code_rows (family, op1, op2) of
            None \<Rightarrow> out
          | Some code \<Rightarrow>
             if rd = rs \<or> rd = rn \<or> rs = rn \<or> rd = 31 then out
             else if op1 = 6 then
               fold push_operand [mem_bang rd, reg_bang rs, gp_reg False X64 rn] (insn_set code out)
             else if rn = 31 then out
             else fold push_operand [mem_bang rd, mem_bang rn, reg_bang rs] (insn_set code out))"

definition decode_setg_option :: "u32 \<Rightarrow> insn \<Rightarrow> insn" where
  "decode_setg_option word out =
     (if bits word 16 5 \<noteq> 0b11111 then out
      else
       let op2 = bits word 12 4;
           rs = bits word 5 5;
           rd = bits word 0 5
       in case map_of setg_option_rows op2 of
            None \<Rightarrow> out
          | Some code \<Rightarrow>
             if rd = 31 \<or> rd = rs then out
             else fold push_operand [mem_bang rd, reg_bang rs] (insn_set code out))"

text \<open>The guards of \<open>ldst.rs\<close>, steps 4a and 4a': which words are tried as MOPS, and under which extension.\<close>

definition is_mops_word :: "u32 \<Rightarrow> bool" where
  "is_mops_word word \<longleftrightarrow>
     bits word 30 2 = 0b00 \<and> bits word 27 3 = 0b011 \<and> bits word 24 2 = 0b01 \<and> bit_at word 21 = 0 \<and>
     bits word 10 2 = 0b01"

definition is_setg_option_word :: "u32 \<Rightarrow> bool" where
  "is_setg_option_word word \<longleftrightarrow>
     bits word 30 2 = 0b00 \<and> bits word 27 3 = 0b011 \<and> bits word 24 2 = 0b01 \<and> bit_at word 26 = 1 \<and>
     bits word 10 2 = 0b00 \<and> bits word 21 3 = 0b110"

definition decode_mops_forms :: "u32 \<Rightarrow> feature_set \<Rightarrow> insn \<Rightarrow> insn" where
  "decode_mops_forms word features out =
     (if is_mops_word word then (if has features F_Mops then decode_mops word out else out)
      else if is_setg_option_word word then (if has features F_Mops then decode_setg_option word out else out)
      else out)"

section \<open>Encoder\<close>

definition mops_fields_rows :: "(code \<times> u32 \<times> u32 \<times> u32) list" where
  "mops_fields_rows =
    [(C_Cpyfp, 0, 0, 0), (C_Cpyfpwt, 0, 0, 1), (C_Cpyfprt, 0, 0, 2), (C_Cpyfpt, 0, 0, 3), (C_Cpyfpwn, 0, 0, 4),
     (C_Cpyfpwtwn, 0, 0, 5), (C_Cpyfprtwn, 0, 0, 6), (C_Cpyfptwn, 0, 0, 7), (C_Cpyfprn, 0, 0, 8),
     (C_Cpyfpwtrn, 0, 0, 9), (C_Cpyfprtrn, 0, 0, 10), (C_Cpyfptrn, 0, 0, 11), (C_Cpyfpn, 0, 0, 12),
     (C_Cpyfpwtn, 0, 0, 13), (C_Cpyfprtn, 0, 0, 14), (C_Cpyfptn, 0, 0, 15), (C_Cpyfm, 0, 2, 0),
     (C_Cpyfmwt, 0, 2, 1), (C_Cpyfmrt, 0, 2, 2), (C_Cpyfmt, 0, 2, 3), (C_Cpyfmwn, 0, 2, 4),
     (C_Cpyfmwtwn, 0, 2, 5), (C_Cpyfmrtwn, 0, 2, 6), (C_Cpyfmtwn, 0, 2, 7), (C_Cpyfmrn, 0, 2, 8),
     (C_Cpyfmwtrn, 0, 2, 9), (C_Cpyfmrtrn, 0, 2, 10), (C_Cpyfmtrn, 0, 2, 11), (C_Cpyfmn, 0, 2, 12),
     (C_Cpyfmwtn, 0, 2, 13), (C_Cpyfmrtn, 0, 2, 14), (C_Cpyfmtn, 0, 2, 15), (C_Cpyfe, 0, 4, 0),
     (C_Cpyfewt, 0, 4, 1), (C_Cpyfert, 0, 4, 2), (C_Cpyfet, 0, 4, 3), (C_Cpyfewn, 0, 4, 4),
     (C_Cpyfewtwn, 0, 4, 5), (C_Cpyfertwn, 0, 4, 6), (C_Cpyfetwn, 0, 4, 7), (C_Cpyfern, 0, 4, 8),
     (C_Cpyfewtrn, 0, 4, 9), (C_Cpyfertrn, 0, 4, 10), (C_Cpyfetrn, 0, 4, 11), (C_Cpyfen, 0, 4, 12),
     (C_Cpyfewtn, 0, 4, 13), (C_Cpyfertn, 0, 4, 14), (C_Cpyfetn, 0, 4, 15), (C_Setp, 0, 6, 0),
     (C_Setpt, 0, 6, 1), (C_Setpn, 0, 6, 2), (C_Setptn, 0, 6, 3), (C_Setm, 0, 6, 4), (C_Setmt, 0, 6, 5),
     (C_Setmn, 0, 6, 6), (C_Setmtn, 0, 6, 7), (C_Sete, 0, 6, 8), (C_Setet, 0, 6, 9), (C_Seten, 0, 6, 10),
     (C_Setetn, 0, 6, 11), (C_Cpyp, 1, 0, 0), (C_Cpypwt, 1, 0, 1), (C_Cpyprt, 1, 0, 2), (C_Cpypt, 1, 0, 3),
     (C_Cpypwn, 1, 0, 4), (C_Cpypwtwn, 1, 0, 5), (C_Cpyprtwn, 1, 0, 6), (C_Cpyptwn, 1, 0, 7),
     (C_Cpyprn, 1, 0, 8), (C_Cpypwtrn, 1, 0, 9), (C_Cpyprtrn, 1, 0, 10), (C_Cpyptrn, 1, 0, 11),
     (C_Cpypn, 1, 0, 12), (C_Cpypwtn, 1, 0, 13), (C_Cpyprtn, 1, 0, 14), (C_Cpyptn, 1, 0, 15),
     (C_Cpym, 1, 2, 0), (C_Cpymwt, 1, 2, 1), (C_Cpymrt, 1, 2, 2), (C_Cpymt, 1, 2, 3), (C_Cpymwn, 1, 2, 4),
     (C_Cpymwtwn, 1, 2, 5), (C_Cpymrtwn, 1, 2, 6), (C_Cpymtwn, 1, 2, 7), (C_Cpymrn, 1, 2, 8),
     (C_Cpymwtrn, 1, 2, 9), (C_Cpymrtrn, 1, 2, 10), (C_Cpymtrn, 1, 2, 11), (C_Cpymn, 1, 2, 12),
     (C_Cpymwtn, 1, 2, 13), (C_Cpymrtn, 1, 2, 14), (C_Cpymtn, 1, 2, 15), (C_Cpye, 1, 4, 0),
     (C_Cpyewt, 1, 4, 1), (C_Cpyert, 1, 4, 2), (C_Cpyet, 1, 4, 3), (C_Cpyewn, 1, 4, 4), (C_Cpyewtwn, 1, 4, 5),
     (C_Cpyertwn, 1, 4, 6), (C_Cpyetwn, 1, 4, 7), (C_Cpyern, 1, 4, 8), (C_Cpyewtrn, 1, 4, 9),
     (C_Cpyertrn, 1, 4, 10), (C_Cpyetrn, 1, 4, 11), (C_Cpyen, 1, 4, 12), (C_Cpyewtn, 1, 4, 13),
     (C_Cpyertn, 1, 4, 14), (C_Cpyetn, 1, 4, 15), (C_Setgp, 1, 6, 0), (C_Setgpt, 1, 6, 1), (C_Setgpn, 1, 6, 2),
     (C_Setgptn, 1, 6, 3), (C_Setgm, 1, 6, 4), (C_Setgmt, 1, 6, 5), (C_Setgmn, 1, 6, 6), (C_Setgmtn, 1, 6, 7),
     (C_Setge, 1, 6, 8), (C_Setget, 1, 6, 9), (C_Setgen, 1, 6, 10), (C_Setgetn, 1, 6, 11)]"

definition setg_option_op2_rows :: "(code \<times> u32) list" where
  "setg_option_op2_rows =
    [(C_SetgopMops, 0), (C_SetgoptMops, 1), (C_SetgopnMops, 2), (C_SetgoptnMops, 3), (C_SetgomMops, 4),
     (C_SetgomtMops, 5), (C_SetgomnMops, 6), (C_SetgomtnMops, 7), (C_SetgoeMops, 8), (C_SetgoetMops, 9),
     (C_SetgoenMops, 10), (C_SetgoetnMops, 11)]"

definition mops_fields :: "code \<Rightarrow> (u32 \<times> u32 \<times> u32) option" where
  "mops_fields code = map_of mops_fields_rows code"

definition setg_option_op2 :: "code \<Rightarrow> u32 option" where
  "setg_option_op2 code = map_of setg_option_op2_rows code"

definition is_mops :: "code \<Rightarrow> bool" where
  "is_mops code \<longleftrightarrow> mops_fields code \<noteq> None \<or> setg_option_op2 code \<noteq> None"

definition enc_reg_bang :: "insn \<Rightarrow> nat \<Rightarrow> u32 encoded" where
  "enc_reg_bang insn n =
     (case insn_op insn n of OpRegBang reg \<Rightarrow> Ok (ucast (reg_number reg)) | _ \<Rightarrow> Err EncInvalidOperand)"

definition enc_mem_bang :: "insn \<Rightarrow> nat \<Rightarrow> u32 encoded" where
  "enc_mem_bang insn n =
     (case insn_op insn n of
        OpMemImm base imm mode \<Rightarrow>
          (if imm = 0 \<and> mode = MemPreNoOffset then Ok (ucast (reg_number base)) else Err EncInvalidOperand)
      | _ \<Rightarrow> Err EncInvalidOperand)"

definition encode_mops :: "insn \<Rightarrow> u32 encoded" where
  "encode_mops insn =
     (case setg_option_op2 (i_code insn) of
        Some op2 \<Rightarrow>
          and_then (enc_mem_bang insn 0) (\<lambda>rd.
          and_then (enc_reg_bang insn 1) (\<lambda>rs.
            Ok (push_bit 27 0b00011 OR push_bit 26 1 OR push_bit 24 0b01 OR push_bit 21 0b110 OR push_bit 16 0b11111 OR
                push_bit 12 op2 OR push_bit 5 rs OR rd)))
      | None \<Rightarrow>
          and_then (ok_or EncUnsupported (mops_fields (i_code insn))) (\<lambda>(family, op1, op2).
          and_then
            (if op1 = 6 then
               and_then (enc_mem_bang insn 0) (\<lambda>rd.
               and_then (enc_reg_bang insn 1) (\<lambda>rs.
               and_then (reg_num insn 2) (\<lambda>rn. Ok (rd, rn, rs))))
             else
               and_then (enc_mem_bang insn 0) (\<lambda>rd.
               and_then (enc_mem_bang insn 1) (\<lambda>rn.
               and_then (enc_reg_bang insn 2) (\<lambda>rs. Ok (rd, rn, rs)))))
            (\<lambda>(rd, rn, rs).
              Ok (push_bit 27 0b00011 OR push_bit 26 family OR push_bit 24 0b01 OR push_bit 21 op1 OR push_bit 16 rn OR
                  push_bit 12 op2 OR push_bit 10 0b01 OR push_bit 5 rs OR rd))))"

section \<open>The tables are inverse to each other\<close>

text \<open>The rows of \<open>mops_fields\<close> are those of the decoder with the columns exchanged, and no code occurs twice.\<close>

lemma mops_rows_swapped: "mops_fields_rows = map (\<lambda>(k, c). (c, k)) mops_code_rows"
  by (simp add: mops_fields_rows_def mops_code_rows_def)

lemma setg_option_rows_swapped: "setg_option_op2_rows = map (\<lambda>(k, c). (c, k)) setg_option_rows"
  by (simp add: setg_option_op2_rows_def setg_option_rows_def)

lemma mops_rows_distinct:
  "sorted_wrt (<) (map (code_disc \<circ> snd) mops_code_rows)"
  "sorted_wrt (<) (map (code_disc \<circ> snd) setg_option_rows)"
  by (simp_all add: mops_code_rows_def setg_option_rows_def sorted_wrt2_simps del: sorted_wrt.simps)

lemma mops_rows_feature:
  "list_all (\<lambda>(k, c). code_feature c = F_Mops \<and> code_disc c < 2000) mops_code_rows"
  "list_all (\<lambda>(k, c). code_feature c = F_Mops \<and> 2000 < code_disc c) setg_option_rows"
  by (simp_all add: mops_code_rows_def setg_option_rows_def)

lemma map_of_swapped:
  assumes "sorted_wrt (<) (map (code_disc \<circ> snd) rows)" "map_of rows k = Some c"
  shows "map_of (map (\<lambda>(k, c). (c, k)) rows) c = Some k"
proof (rule map_of_is_SomeI)
  have "distinct (map code_disc (map snd rows))" using assms(1) by (simp add: strict_sorted_iff)
  then have "distinct (map snd rows)" using distinct_map by blast
  then show "distinct (map fst (map (\<lambda>(k, c). (c, k)) rows))" by (simp add: case_prod_beta' comp_def)
  show "(c, k) \<in> set (map (\<lambda>(k, c). (c, k)) rows)" using map_of_SomeD [OF assms(2)] by force
qed

lemma mops_code_SomeD:
  assumes "map_of mops_code_rows k = Some c"
  shows "mops_fields c = Some k" "setg_option_op2 c = None" "code_feature c = F_Mops" "is_mops c"
proof -
  have r: "code_feature c = F_Mops" "code_disc c < 2000"
    using map_of_SomeD [OF assms] mops_rows_feature(1) by (auto simp: list_all_iff)
  then show "code_feature c = F_Mops" by simp
  have "map_of setg_option_op2_rows c = None"
    unfolding map_of_eq_None_iff setg_option_rows_swapped
    using mops_rows_feature(2) r(2) by (auto simp: list_all_iff)
  then show "setg_option_op2 c = None" by (simp add: setg_option_op2_def)
  show f: "mops_fields c = Some k"
    by (simp add: mops_fields_def mops_rows_swapped map_of_swapped [OF mops_rows_distinct(1) assms])
  show "is_mops c" using f by (simp only: is_mops_def) simp
qed

lemma setg_option_SomeD:
  assumes "map_of setg_option_rows k = Some c"
  shows "setg_option_op2 c = Some k" "code_feature c = F_Mops" "is_mops c"
proof -
  show "code_feature c = F_Mops"
    using map_of_SomeD [OF assms] mops_rows_feature(2) by (auto simp: list_all_iff)
  show f: "setg_option_op2 c = Some k"
    by (simp add: setg_option_op2_def setg_option_rows_swapped map_of_swapped [OF mops_rows_distinct(2) assms])
  show "is_mops c" using f by (simp only: is_mops_def) simp
qed

lemma not_mops_Invalid: "\<not> is_mops C_Invalid"
  by (simp add: is_mops_def mops_fields_def mops_fields_rows_def setg_option_op2_def setg_option_op2_rows_def)

section \<open>Exactness\<close>

definition in_mops :: "u32 \<Rightarrow> bool" where
  "in_mops w \<longleftrightarrow> is_mops_word w \<or> is_setg_option_word w"

lemma bang_numbers [simp]:
  "insn_op insn n = mem_bang (bits w l 5) \<Longrightarrow> enc_mem_bang insn n = Ok (bits w l 5)"
  "insn_op insn n = reg_bang (bits w l 5) \<Longrightarrow> enc_reg_bang insn n = Ok (bits w l 5)"
  unfolding enc_mem_bang_def enc_reg_bang_def mem_bang_def reg_bang_def by (simp_all only: operand.case reg_number_field) simp_all

lemma layout_mops:
  assumes "is_mops_word w"
  shows "push_bit 27 3 OR push_bit 26 (bit_at w 26) OR push_bit 24 1 OR push_bit 21 (bits w 21 3) OR
    push_bit 16 (bits w 16 5) OR push_bit 12 (bits w 12 4) OR push_bit 10 1 OR push_bit 5 (bits w 5 5) OR bits w 0 5 = w"
proof -
  note b = assms [unfolded is_mops_word_def]
  have "bits w 30 2 = 0" "bits w 27 3 = 3" "bits w 24 2 = 1" "\<not> bit w 21" "bits w 10 2 = 1" using b by auto
  note f = bits_eqD [OF this(1), of 0] bits_eqD [OF this(1), of 1] bits_eqD [OF this(2), of 0] bits_eqD [OF this(2), of 1]
    bits_eqD [OF this(2), of 2] bits_eqD [OF this(3), of 0] bits_eqD [OF this(3), of 1] this(4)
    bits_eqD [OF this(5), of 0] bits_eqD [OF this(5), of 1]
  show ?thesis using f by (simp add: to_bits)
qed

lemma layout_setg_option:
  assumes "is_setg_option_word w" "bits w 16 5 = 31"
  shows "push_bit 27 3 OR push_bit 26 1 OR push_bit 24 1 OR push_bit 21 6 OR push_bit 16 31 OR
    push_bit 12 (bits w 12 4) OR push_bit 5 (bits w 5 5) OR bits w 0 5 = w"
proof -
  note b = assms(1) [unfolded is_setg_option_word_def]
  have "bits w 30 2 = 0" "bits w 27 3 = 3" "bits w 24 2 = 1" "bit w 26" "bits w 10 2 = 0" "bits w 21 3 = 6" using b by auto
  note f = bits_eqD [OF this(1), of 0] bits_eqD [OF this(1), of 1] bits_eqD [OF this(2), of 0] bits_eqD [OF this(2), of 1]
    bits_eqD [OF this(2), of 2] bits_eqD [OF this(3), of 0] bits_eqD [OF this(3), of 1] this(4)
    bits_eqD [OF this(5), of 0] bits_eqD [OF this(5), of 1] bits_eqD [OF this(6), of 0] bits_eqD [OF this(6), of 1]
    bits_eqD [OF this(6), of 2] bits_eqD [OF assms(2), of 0] bits_eqD [OF assms(2), of 1] bits_eqD [OF assms(2), of 2]
    bits_eqD [OF assms(2), of 3] bits_eqD [OF assms(2), of 4]
  show ?thesis using f by (simp add: to_bits)
qed

lemma exact_mops:
  assumes "is_mops_word w" "i_code (decode_mops w out) \<noteq> C_Invalid" "i_code out = C_Invalid"
  shows "encode_mops (decode_mops w out) = Ok w"
proof -
  let ?k = "(bit_at w 26, bits w 21 3, bits w 12 4)"
  obtain c where c: "map_of mops_code_rows ?k = Some c"
    using assms(2,3) by (auto simp: decode_mops_def Let_def split: if_splits option.splits)
  show ?thesis
    using assms(2,3) c mops_code_SomeD [OF c] layout_mops [OF assms(1)]
    by (auto simp: decode_mops_def Let_def encode_mops_def reg_num_op split: if_splits)
qed

lemma exact_setg_option:
  assumes "is_setg_option_word w" "i_code (decode_setg_option w out) \<noteq> C_Invalid" "i_code out = C_Invalid"
  shows "encode_mops (decode_setg_option w out) = Ok w"
proof -
  have v: "bits w 16 5 = 31" using assms(2,3) by (auto simp: decode_setg_option_def split: if_splits)
  obtain c where c: "map_of setg_option_rows (bits w 12 4) = Some c"
    using assms(2,3) by (auto simp: decode_setg_option_def Let_def split: if_splits option.splits)
  show ?thesis
    using assms(2,3) v c setg_option_SomeD [OF c] layout_setg_option [OF assms(1) v]
    by (auto simp: decode_setg_option_def Let_def encode_mops_def split: if_splits)
qed

lemma built_mops: "has fs F_Mops \<Longrightarrow> built_from is_mops fs out (decode_mops w out)"
  by (auto simp: decode_mops_def Let_def mops_code_SomeD intro!: built_from_built split: option.split)

lemma built_setg_option: "has fs F_Mops \<Longrightarrow> built_from is_mops fs out (decode_setg_option w out)"
  by (auto simp: decode_setg_option_def Let_def setg_option_SomeD intro!: built_from_built split: option.split)

lemma mops_enc_same:
  assumes "wf_insn i" "wf_insn j" "same_semantics i j"
  shows "encode_mops i = encode_mops j"
proof -
  have "insn_op i n = insn_op j n" for n using assms by (rule same_semantics_op)
  then have "enc_mem_bang i n = enc_mem_bang j n" "enc_reg_bang i n = enc_reg_bang j n" "reg_num i n = reg_num j n" for n
    by (simp_all add: enc_mem_bang_def enc_reg_bang_def reg_num_def)
  moreover have "i_code i = i_code j" using assms(3) by (simp add: same_semantics_def)
  ultimately show ?thesis by (simp only: encode_mops_def)
qed

interpretation mops: exact_codec in_mops "\<lambda>w ip. decode_mops_forms w" encode_mops is_mops
proof
  fix w fs out
  show "built_from is_mops fs out (decode_mops_forms w fs out)"
    by (simp add: decode_mops_forms_def built_mops built_setg_option)
next
  fix w ip fs
  assume "in_mops w" "is_mops (i_code (decoded (\<lambda>w ip. decode_mops_forms w) w ip fs))"
  then have "i_code (decoded (\<lambda>w ip. decode_mops_forms w) w ip fs) \<noteq> C_Invalid" using not_mops_Invalid by metis
  moreover have o: "i_code (new_invalid w ip) = C_Invalid" by (simp add: new_invalid_def)
  ultimately show "encode_mops (decoded (\<lambda>w ip. decode_mops_forms w) w ip fs) = Ok w"
    using exact_mops [OF _ _ o] exact_setg_option [OF _ _ o]
    by (auto simp: decoded_def decode_mops_forms_def split: if_splits)
qed (fact not_mops_Invalid mops_enc_same)+

end
