(* ===== verification/Apple.thy ===== *)
theory Apple
  imports Codec_Base
begin

text \<open>
  \<open>src/decode/apple.rs\<close> and \<open>src/encode/apple.rs\<close>: the AMX and GXF instructions of Apple silicon, which live in the
  reserved region of the encoding space and are decoded only with their extensions enabled.  The codec is exact.
\<close>

section \<open>Decoder\<close>

definition amx_code_rows :: "(u32 \<times> code) list" where
  "amx_code_rows =
     [(0, C_AmxLdx), (1, C_AmxLdy), (2, C_AmxStx), (3, C_AmxSty), (4, C_AmxLdz), (5, C_AmxStz), (6, C_AmxLdzi),
      (7, C_AmxStzi), (8, C_AmxExtrx), (9, C_AmxExtry), (10, C_AmxFma64), (11, C_AmxFms64), (12, C_AmxFma32),
      (13, C_AmxFms32), (14, C_AmxMac16), (15, C_AmxFma16), (16, C_AmxFms16), (18, C_AmxVecint), (19, C_AmxVecfp),
      (20, C_AmxMatint), (21, C_AmxMatfp), (22, C_AmxGenlut)]"

definition amx_code :: "u32 \<Rightarrow> code option" where
  "amx_code op = map_of amx_code_rows op"

definition decode_amx :: "u32 \<Rightarrow> u32 \<Rightarrow> insn \<Rightarrow> insn" where
  "decode_amx op operand out =
     (if op = 17 then
        (if operand = 0 then insn_set C_AmxSet out
         else if operand = 1 then insn_set C_AmxClr out
         else out)
      else
       case amx_code op of
         None \<Rightarrow> out
       | Some code \<Rightarrow> push_operand (gp_reg False X64 operand) (insn_set code out))"

definition decode_gxf :: "u32 \<Rightarrow> u32 \<Rightarrow> insn \<Rightarrow> insn" where
  "decode_gxf sub imm5 out =
     (if sub = 0 then (if imm5 = 0 then insn_set C_Gexit out else out)
      else if sub = 1 then push_operand (OpImmUnsigned (ucast imm5)) (insn_set C_Genter out)
      else out)"

definition decode_apple :: "u32 \<Rightarrow> feature_set \<Rightarrow> insn \<Rightarrow> insn" where
  "decode_apple word features out =
     (if word AND 0xfffffc00 = 0x00201000 then
        (if has features F_AppleAmx then decode_amx (drop_bit 5 word AND 0x1f) (word AND 0x1f) out else out)
      else if word AND 0xfffffc00 = 0x00201400 \<and> has features F_Gxf then
        decode_gxf (drop_bit 5 word AND 0x1f) (word AND 0x1f) out
      else out)"

section \<open>Encoder\<close>

definition is_apple :: "code \<Rightarrow> bool" where
  "is_apple code \<longleftrightarrow>
     code \<in> {C_AmxLdx, C_AmxLdy, C_AmxStx, C_AmxSty, C_AmxLdz, C_AmxStz, C_AmxLdzi, C_AmxStzi, C_AmxExtrx, C_AmxExtry,
             C_AmxFma64, C_AmxFms64, C_AmxFma32, C_AmxFms32, C_AmxMac16, C_AmxFma16, C_AmxFms16, C_AmxSet, C_AmxClr,
             C_AmxVecint, C_AmxVecfp, C_AmxMatint, C_AmxMatfp, C_AmxGenlut, C_Genter, C_Gexit}"

text \<open>The op number of a code and whether its operand is a register; \<open>AmxSet\<close> and \<open>AmxClr\<close> have a fixed operand.\<close>

definition amx_reg_op :: "code \<Rightarrow> u32 option" where
  "amx_reg_op code = map_of
     [(C_AmxLdx, 0), (C_AmxLdy, 1), (C_AmxStx, 2), (C_AmxSty, 3), (C_AmxLdz, 4), (C_AmxStz, 5), (C_AmxLdzi, 6),
      (C_AmxStzi, 7), (C_AmxExtrx, 8), (C_AmxExtry, 9), (C_AmxFma64, 10), (C_AmxFms64, 11), (C_AmxFma32, 12),
      (C_AmxFms32, 13), (C_AmxMac16, 14), (C_AmxFma16, 15), (C_AmxFms16, 16), (C_AmxVecint, 18), (C_AmxVecfp, 19),
      (C_AmxMatint, 20), (C_AmxMatfp, 21), (C_AmxGenlut, 22)] code"

definition encode_apple :: "insn \<Rightarrow> u32 encoded" where
  "encode_apple insn =
     (let code = i_code insn
      in if code = C_Gexit then Ok 0x00201400
         else if code = C_Genter then
           and_then (case insn_op insn 0 of OpImmUnsigned v \<Rightarrow> Ok v | _ \<Rightarrow> Err EncInvalidOperand) (\<lambda>imm5.
             if imm5 > 0x1f then Err EncInvalidImmediate else Ok (0x00201420 OR ucast imm5))
         else
           and_then
             (if code = C_AmxSet then Ok (17, 0)
              else if code = C_AmxClr then Ok (17, 1)
              else case amx_reg_op code of
                     None \<Rightarrow> Err EncUnsupported
                   | Some op \<Rightarrow> and_then (reg_num insn 0) (\<lambda>r. Ok (op, r)))
             (\<lambda>(op, operand). Ok (0x00201000 OR push_bit 5 op OR (operand AND 0x1f))))"

section \<open>Exactness\<close>

lemma apple_fields:
  "w AND 0x1f = bits w 0 5" "bits (drop_bit 5 w) 0 5 = bits w 5 5"
  by (simp_all add: bits_def mask_eq_exp_minus_1)

text \<open>The two clusters, as fields; \<open>0x00201000\<close> is bits 12 and 21.\<close>

lemma apple_layout:
  assumes "w AND 0xfffffc00 = (0x00201000 :: u32)"
  shows "0x00201000 OR push_bit 5 (bits w 5 5) OR (bits w 0 5 AND 0x1f) = w"
  using assms by (simp add: to_bits)

lemma gexit_layout: "w AND 0xfffffc00 = (0x00201400 :: u32) \<Longrightarrow> bits w 5 5 = 0 \<Longrightarrow> bits w 0 5 = 0 \<Longrightarrow> w = 0x00201400"
  using bits_eqD [of w 5 5 0] bits_eqD [of w 0 5 0] by (auto simp: to_bits)

lemma genter_layout: "w AND 0xfffffc00 = (0x00201400 :: u32) \<Longrightarrow> bits w 5 5 = 1 \<Longrightarrow> 0x00201420 OR bits w 0 5 = w"
  using bits_eqD [of w 5 5 1] by (auto simp: to_bits)

lemma amx_rows_inverse:
  "list_all (\<lambda>(op, c). amx_reg_op c = Some op \<and> code_feature c = F_AppleAmx) amx_code_rows"
  by (simp add: amx_code_rows_def amx_reg_op_def)

lemma amx_rows_apple:
  "list_all (\<lambda>(op, c). is_apple c \<and> c \<notin> {C_AmxSet, C_AmxClr, C_Genter, C_Gexit}) amx_code_rows"
  by (simp add: amx_code_rows_def is_apple_def)

lemma amx_codes_inverse:
  assumes "amx_code op = Some c"
  shows "amx_reg_op c = Some op" "is_apple c" "code_feature c = F_AppleAmx"
    "c \<noteq> C_AmxSet" "c \<noteq> C_AmxClr" "c \<noteq> C_Genter" "c \<noteq> C_Gexit"
  using map_of_SomeD [OF assms [unfolded amx_code_def]] amx_rows_inverse amx_rows_apple by (auto simp: list_all_iff)

lemma not_apple_Invalid: "\<not> is_apple C_Invalid"
  by (simp add: is_apple_def)

lemma and_31_field: "bits w l 5 AND 0x1f = bits w l 5"
  by (rule bit_word_eqI) (auto simp: and_31_u32 bit_bits bit_take_bit_iff)

lemma exact_amx:
  assumes "w AND 0xfffffc00 = 0x00201000" "i_code (decode_amx (bits w 5 5) (bits w 0 5) out) \<noteq> C_Invalid" "i_code out = C_Invalid"
  shows "encode_apple (decode_amx (bits w 5 5) (bits w 0 5) out) = Ok w"
proof (cases "bits w 5 5 = 17")
  case True
  then show ?thesis
    using assms(2,3) apple_layout [OF assms(1)]
    by (auto simp: decode_amx_def encode_apple_def split: if_splits)
next
  case False
  then obtain c where c: "amx_code (bits w 5 5) = Some c"
    using assms(2,3) by (auto simp: decode_amx_def split: option.splits)
  then show ?thesis
    using False amx_codes_inverse [OF c] apple_layout [OF assms(1)]
    by (simp add: decode_amx_def encode_apple_def reg_num_op)
qed

lemma exact_gxf:
  assumes "w AND 0xfffffc00 = 0x00201400" "i_code (decode_gxf (bits w 5 5) (bits w 0 5) out) \<noteq> C_Invalid" "i_code out = C_Invalid"
  shows "encode_apple (decode_gxf (bits w 5 5) (bits w 0 5) out) = Ok w"
proof -
  have "(ucast (bits w 0 5) :: u64) \<le> 0x1f" using ucast_bits_le [of 5 w 0] by (simp add: mask_eq_exp_minus_1)
  then show ?thesis
    using assms(2,3) gexit_layout [OF assms(1)] genter_layout [OF assms(1)]
    by (auto simp: decode_gxf_def encode_apple_def ucast_field_u64 split: if_splits)
qed

lemma apple_fixed_codes [simp]: "is_apple C_AmxSet" "is_apple C_AmxClr" "is_apple C_Genter" "is_apple C_Gexit"
  by (simp_all add: is_apple_def)

lemma built_apple: "built_from is_apple fs out (decode_apple w fs out)"
  by (simp add: decode_apple_def decode_amx_def decode_gxf_def built_from_built amx_codes_inverse split: if_split option.split)

lemma apple_enc_same:
  assumes "wf_insn i" "wf_insn j" "same_semantics i j"
  shows "encode_apple i = encode_apple j"
proof -
  have "insn_op i n = insn_op j n" for n using assms by (rule same_semantics_op)
  moreover have "i_code i = i_code j" using assms(3) by (simp add: same_semantics_def)
  ultimately show ?thesis by (simp only: encode_apple_def reg_num_op)
qed

interpretation apple: exact_codec "\<lambda>w. True" "\<lambda>w ip. decode_apple w" encode_apple is_apple
proof
  fix w ip fs
  assume "is_apple (i_code (decoded (\<lambda>w ip. decode_apple w) w ip fs))"
  then have "i_code (decoded (\<lambda>w ip. decode_apple w) w ip fs) \<noteq> C_Invalid" using not_apple_Invalid by metis
  moreover have o: "i_code (new_invalid w ip) = C_Invalid" by (simp add: new_invalid_def)
  ultimately show "encode_apple (decoded (\<lambda>w ip. decode_apple w) w ip fs) = Ok w"
    using exact_amx [OF _ _ o] exact_gxf [OF _ _ o]
    by (auto simp: decoded_def decode_apple_def apple_fields split: if_splits)
qed (fact not_apple_Invalid, rule built_apple, fact apple_enc_same)

end
