(* ===== verification/Small_Groups_Correct.thy ===== *)
theory Small_Groups_Correct
  imports Mops Apple
begin

text \<open>
  The properties of the two bit-exact groups: FEAT_MOPS with its setg options, and the Apple extensions.
\<close>

abbreviation mops_decoded :: "u32 \<Rightarrow> u64 \<Rightarrow> feature_set \<Rightarrow> insn" where
  "mops_decoded \<equiv> decoded (\<lambda>w ip. decode_mops_forms w)"

abbreviation apple_decoded :: "u32 \<Rightarrow> u64 \<Rightarrow> feature_set \<Rightarrow> insn" where
  "apple_decoded \<equiv> decoded (\<lambda>w ip. decode_apple w)"

text \<open>C36: the memory copy and set instructions are bit-exact: what decodes encodes back to its own word, no two words
  decode to the same instruction, and the decoder keeps the register constraints of the architecture: the destination is not
  register 31 and no other register of the operation, and for the forms with three registers the other two differ, and in a copy
  the source is not register 31 either.\<close>

theorem mops_exact:
  assumes "in_mops w" "i_code (mops_decoded w ip fs) \<noteq> C_Invalid"
  shows "encode_mops (mops_decoded w ip fs) = Ok w \<and> has fs F_Mops \<and>
    {v. in_mops v \<and> same_semantics (mops_decoded v ip fs) (mops_decoded w ip fs)} = {w} \<and>
    bits w 0 5 \<noteq> 31 \<and> bits w 0 5 \<noteq> bits w 5 5 \<and> bits w 0 5 \<noteq> bits w 16 5 \<and>
    (is_mops_word w \<longrightarrow> bits w 5 5 \<noteq> bits w 16 5 \<and> (bits w 21 3 \<noteq> 6 \<longrightarrow> bits w 16 5 \<noteq> 31))"
proof -
  have o: "is_mops (i_code (mops_decoded w ip fs))" using mops.dec_owned assms by blast
  have r: "has fs F_Mops" "bits w 0 5 \<noteq> 31" "bits w 0 5 \<noteq> bits w 5 5" "bits w 0 5 \<noteq> bits w 16 5"
    "is_mops_word w \<longrightarrow> bits w 5 5 \<noteq> bits w 16 5 \<and> (bits w 21 3 \<noteq> 6 \<longrightarrow> bits w 16 5 \<noteq> 31)"
    using assms by (auto simp: decoded_def decode_mops_forms_def decode_mops_def decode_setg_option_def new_invalid_def Let_def
      split: if_splits option.splits)
  have "v = w" if "in_mops v" "same_semantics (mops_decoded v ip fs) (mops_decoded w ip fs)" for v
    using mops.dec_injective [OF that(1) assms(1) _ that(2)] that(2) assms(2) by (simp add: same_semantics_def)
  then show ?thesis using mops.exact [OF assms(1) o] r assms(1) by auto
qed

text \<open>\<open>cpyfp [x0]!, [x1]!, x2!\<close>.\<close>

theorem mops_exact_witness:
  "encode_mops (mops_decoded 0x19010440 0 FeatureSet_ALL) = Ok 0x19010440 \<and> i_code (mops_decoded 0x19010440 0 FeatureSet_ALL) = C_Cpyfp"
proof -
  have g: "is_mops_word 0x19010440" by (simp add: is_mops_word_def bits_def bit_at_def)
  then have i: "in_mops 0x19010440" by (simp add: in_mops_def)
  have c: "i_code (mops_decoded 0x19010440 0 FeatureSet_ALL) = C_Cpyfp"
    using g by (simp add: decoded_def decode_mops_forms_def decode_mops_def mops_code_rows_def bits_def bit_at_def has_iff FeatureSet_ALL_def)
  then have "i_code (mops_decoded 0x19010440 0 FeatureSet_ALL) \<noteq> C_Invalid" by simp
  from mops_exact [OF i this] c show ?thesis by blast
qed

text \<open>C37: the AMX and GXF instructions are bit-exact on all words: what decodes encodes back to its own word, no other word
  decodes to it, and nothing decodes unless one of the two extensions is enabled.\<close>

theorem apple_exact:
  assumes "i_code (apple_decoded w ip fs) \<noteq> C_Invalid"
  shows "encode_apple (apple_decoded w ip fs) = Ok w \<and> (has fs F_AppleAmx \<or> has fs F_Gxf) \<and>
    {v. same_semantics (apple_decoded v ip fs) (apple_decoded w ip fs)} = {w}"
proof -
  have o: "is_apple (i_code (apple_decoded w ip fs))" using apple.dec_owned assms by blast
  have r: "has fs F_AppleAmx \<or> has fs F_Gxf"
    using assms by (auto simp: decoded_def decode_apple_def new_invalid_def split: if_splits)
  have "v = w" if "same_semantics (apple_decoded v ip fs) (apple_decoded w ip fs)" for v
    using apple.dec_injective [OF TrueI TrueI _ that] that assms by (simp add: same_semantics_def)
  then show ?thesis using apple.exact [OF TrueI o] r by auto
qed

text \<open>\<open>amx.ldx x3\<close>.\<close>

theorem apple_exact_witness:
  "encode_apple (apple_decoded 0x00201003 0 FeatureSet_ALL) = Ok 0x00201003 \<and> i_code (apple_decoded 0x00201003 0 FeatureSet_ALL) = C_AmxLdx"
proof -
  have c: "i_code (apple_decoded 0x00201003 0 FeatureSet_ALL) = C_AmxLdx"
    by (simp add: decoded_def decode_apple_def decode_amx_def amx_code_def amx_code_rows_def has_iff FeatureSet_ALL_def)
  then have "i_code (apple_decoded 0x00201003 0 FeatureSet_ALL) \<noteq> C_Invalid" by simp
  from apple_exact [OF this] c show ?thesis by blast
qed

end
