(* ===== verification/Branch_Decode.thy ===== *)
theory Branch_Decode
  imports Decode_Base
begin

text \<open>
  The branch and exception half of \<open>src/decode/branch_sys.rs\<close>, one definition per function.  \<open>xreg\<close> and \<open>reg\<close> of the
  source are \<open>gp_reg\<close>.  A PC-relative target is computed with wrap-around on \<open>u64\<close>, as in the source
  (\<open>rel_label\<close> is the expression its branches share).
\<close>

definition rel_label :: "u64 \<Rightarrow> u32 \<Rightarrow> nat \<Rightarrow> operand" where
  "rel_label ip imm width = OpLabel (ip + sign_extend (push_bit 2 (ucast imm)) width)"

section \<open>Conditional branch (immediate)\<close>

definition decode_cond_branch :: "u32 \<Rightarrow> feature_set \<Rightarrow> insn \<Rightarrow> insn" where
  "decode_cond_branch word features out =
     (if bit_at word 24 \<noteq> 0 then decode_ret_sppc word features out
      else
       let imm19 = bits word 5 19;
           cond = condition_from_bits (ucast (bits word 0 4))
       in if bit_at word 4 \<noteq> 0 \<and> \<not> has features F_Hbc then out
          else
            fold push_operand [OpCond cond, rel_label (i_ip out) imm19 21]
              (insn_set (if bit_at word 4 \<noteq> 0 then C_BcCond else C_BCond) out))"

section \<open>Compare and branch, test and branch\<close>

definition decode_compare_branch :: "u32 \<Rightarrow> u64 \<Rightarrow> insn \<Rightarrow> insn" where
  "decode_compare_branch word ip out =
     (let sf = bit_at word 31;
          op = bit_at word 24;
          imm19 = bits word 5 19;
          rt = bits word 0 5;
          w = width_of sf;
          code =
            (if (op, sf) = (0, 0) then C_Cbz32
             else if op = 0 then C_Cbz64
             else if sf = 0 then C_Cbnz32
             else C_Cbnz64)
      in fold push_operand [gp_reg False w rt, rel_label ip imm19 21] (insn_set code out))"

definition decode_test_branch :: "u32 \<Rightarrow> u64 \<Rightarrow> insn \<Rightarrow> insn" where
  "decode_test_branch word ip out =
     (let b5 = bit_at word 31;
          op = bit_at word 24;
          b40 = bits word 19 5;
          imm14 = bits word 5 14;
          rt = bits word 0 5;
          bitpos = push_bit 5 b5 OR b40;
          w = width_of b5
      in fold push_operand [gp_reg False w rt, OpImmUnsigned (ucast bitpos), rel_label ip imm14 16]
           (insn_set (if op = 1 then C_Tbnz else C_Tbz) out))"

section \<open>FEAT_CMPBR\<close>

definition cmpbr_reg_code :: "u32 \<Rightarrow> u32 \<Rightarrow> u32 \<Rightarrow> code option" where
  "cmpbr_reg_code sz cc sf =
     (if sz = 0b00 then
        map_of [(0b000, C_Cbgt), (0b001, C_Cbge), (0b010, C_Cbhi), (0b011, C_Cbhs), (0b110, C_Cbeq), (0b111, C_Cbne)] cc
      else if sz = 0b10 \<and> sf = 0 then
        map_of [(0b000, C_Cbbgt), (0b001, C_Cbbge), (0b010, C_Cbbhi), (0b011, C_Cbbhs), (0b110, C_Cbbeq), (0b111, C_Cbbne)] cc
      else if sz = 0b11 \<and> sf = 0 then
        map_of [(0b000, C_Cbhgt), (0b001, C_Cbhge), (0b010, C_Cbhhi), (0b011, C_Cbhhs), (0b110, C_Cbheq), (0b111, C_Cbhne)] cc
      else None)"

definition cmpbr_imm_code :: "u32 \<Rightarrow> code option" where
  "cmpbr_imm_code cc =
     map_of [(0b000, C_Cbgt), (0b001, C_Cblt), (0b010, C_Cbhi), (0b011, C_Cblo), (0b110, C_Cbeq), (0b111, C_Cbne)] cc"

definition decode_cmpbr :: "u32 \<Rightarrow> u64 \<Rightarrow> feature_set \<Rightarrow> insn \<Rightarrow> insn" where
  "decode_cmpbr word ip features out =
     (if \<not> has features F_Cmpbr then out
      else
       let sf = bit_at word 31;
           imm = bit_at word 24;
           cc = bits word 21 3;
           sz = bits word 14 2;
           rt = bits word 0 5;
           label = rel_label ip (bits word 5 9) 11
       in if imm = 0 then
            (case cmpbr_reg_code sz cc sf of
               None \<Rightarrow> out
             | Some code \<Rightarrow>
                let w = (if sz = 0b00 \<and> sf = 1 then X64 else W32);
                    rm = bits word 16 5
                in fold push_operand [gp_reg False w rt, gp_reg False w rm, label] (insn_set code out))
          else if bit_at word 14 \<noteq> 0 then out
          else
            (case cmpbr_imm_code cc of
               None \<Rightarrow> out
             | Some code \<Rightarrow>
                let w = width_of sf;
                    imm6 = bits word 15 6
                in fold push_operand [gp_reg False w rt, OpImmUnsigned (ucast imm6), label] (insn_set code out)))"

section \<open>Unconditional branch (register)\<close>

definition decode_uncond_branch_reg :: "u32 \<Rightarrow> feature_set \<Rightarrow> insn \<Rightarrow> insn" where
  "decode_uncond_branch_reg word features out =
     (let opc = bits word 21 4;
          op2 = bits word 16 5;
          op3 = bits word 10 6;
          rn = bits word 5 5;
          op4 = bits word 0 5;
          pauth = has features F_PAuth;
          pauthlr = has features F_PauthLr;
          one = (\<lambda>code n. push_operand (gp_reg False X64 n) (insn_set code out));
          two = (\<lambda>code. fold push_operand [gp_reg False X64 rn, gp_reg True X64 op4] (insn_set code out))
      in if op2 \<noteq> 0b11111 then out
         else if opc = 0b0000 then
           (if op3 = 0b000000 \<and> op4 = 0b00000 then one C_Br rn
            else if op3 = 0b000010 \<and> op4 = 0b11111 \<and> pauth then one C_Braaz rn
            else if op3 = 0b000011 \<and> op4 = 0b11111 \<and> pauth then one C_Brabz rn
            else out)
         else if opc = 0b0001 then
           (if op3 = 0b000000 \<and> op4 = 0b00000 then one C_Blr rn
            else if op3 = 0b000010 \<and> op4 = 0b11111 \<and> pauth then one C_Blraaz rn
            else if op3 = 0b000011 \<and> op4 = 0b11111 \<and> pauth then one C_Blrabz rn
            else out)
         else if opc = 0b0010 then
           (if op3 = 0b000000 \<and> op4 = 0b00000 then
              (if rn \<noteq> 30 then one C_Ret rn else insn_set C_Ret out)
            else if op3 = 0b000010 \<and> op4 = 0b11111 \<and> pauth \<and> rn = 0b11111 then insn_set C_Retaa out
            else if op3 = 0b000011 \<and> op4 = 0b11111 \<and> pauth \<and> rn = 0b11111 then insn_set C_Retab out
            else if op3 = 0b000010 \<and> pauthlr \<and> rn = 0b11111 \<and> op4 \<noteq> 0b11111 then one C_Retaasppcr op4
            else if op3 = 0b000011 \<and> pauthlr \<and> rn = 0b11111 \<and> op4 \<noteq> 0b11111 then one C_Retabsppcr op4
            else out)
         else if opc = 0b0100 then
           (if op3 = 0b000000 \<and> op4 = 0b00000 \<and> rn = 0b11111 then insn_set C_Eret out
            else if op3 = 0b000010 \<and> op4 = 0b11111 \<and> pauth \<and> rn = 0b11111 then insn_set C_Eretaa out
            else if op3 = 0b000011 \<and> op4 = 0b11111 \<and> pauth \<and> rn = 0b11111 then insn_set C_Eretab out
            else out)
         else if opc = 0b0101 then
           (if op3 = 0b000000 \<and> op4 = 0b00000 \<and> rn = 0b11111 then insn_set C_Drps out else out)
         else if opc = 0b1000 then
           (if op3 = 0b000010 \<and> pauth then two C_Braa
            else if op3 = 0b000011 \<and> pauth then two C_Brab
            else out)
         else if opc = 0b1001 then
           (if op3 = 0b000010 \<and> pauth then two C_Blraa
            else if op3 = 0b000011 \<and> pauth then two C_Blrab
            else out)
         else out)"

section \<open>Unconditional branch (immediate)\<close>

text \<open>The last arm of \<open>decode\<close>.\<close>

definition decode_uncond_branch_imm :: "u32 \<Rightarrow> u64 \<Rightarrow> insn \<Rightarrow> insn" where
  "decode_uncond_branch_imm word ip out =
     (let op = bits word 29 3
      in push_operand (rel_label ip (bits word 0 26) 28)
           (insn_set (if op AND 0b100 \<noteq> 0 then C_BlImm else C_BUncond) out))"

end
