(* ===== verification/Branch_Encode.thy ===== *)
theory Branch_Encode
  imports Encode_Base Branch_Decode
begin

text \<open>
  The branch half of \<open>src/encode/branch_sys.rs\<close>, one definition per function.  \<open>reg_num\<close> and \<open>imm_u\<close> are those of
  \<open>Encode_Base\<close>; \<open>rel_imm\<close> recovers a branch field from the absolute label and the address of the instruction.
\<close>

definition enc_label :: "insn \<Rightarrow> nat \<Rightarrow> u64 encoded" where
  "enc_label insn n = (case insn_op insn n of OpLabel v \<Rightarrow> Ok v | _ \<Rightarrow> Err EncInvalidOperand)"

definition rel_imm :: "u64 \<Rightarrow> u64 \<Rightarrow> nat \<Rightarrow> nat \<Rightarrow> u32 encoded" where
  "rel_imm target ip width shift =
     (let off = target - ip
      in if off AND mask shift \<noteq> 0 then Err EncInvalidImmediate
         else
          let imm = signed_drop_bit shift off;
              hi = signed_drop_bit (width - 1) imm
          in if hi \<noteq> 0 \<and> hi \<noteq> - 1 then Err EncInvalidImmediate
             else Ok (ucast imm AND mask width))"

section \<open>Branches with an immediate\<close>

definition enc_cond_branch :: "insn \<Rightarrow> u32 encoded" where
  "enc_cond_branch insn =
     and_then (case insn_op insn 0 of OpCond c \<Rightarrow> Ok c | _ \<Rightarrow> Err EncInvalidOperand) (\<lambda>cond.
     and_then (enc_label insn 1) (\<lambda>target.
     and_then (rel_imm target (i_ip insn) 19 2) (\<lambda>imm19.
       let o0 = (if i_code insn = C_BcCond then 1 else 0)
       in Ok (push_bit 24 0b01010100 OR push_bit 5 imm19 OR push_bit 4 o0 OR ucast (condition_as_u4 cond)))))"

definition enc_pauth_lr_sppc :: "insn \<Rightarrow> u32 encoded" where
  "enc_pauth_lr_sppc insn =
     (let ret_base = push_bit 22 0b0101010100 OR 0b11111;
          auti_base = push_bit 22 0b1111001110 OR 0b11111
      in and_then
           (if i_code insn = C_Retaasppc then Ok (ret_base, 0)
            else if i_code insn = C_Retabsppc then Ok (ret_base, 1)
            else if i_code insn = C_Autiasppc then Ok (auti_base, 0)
            else if i_code insn = C_Autibsppc then Ok (auti_base, 1)
            else Err EncUnsupported)
           (\<lambda>(base, m).
             and_then (enc_label insn 0) (\<lambda>target.
               let dist = i_ip insn - target
               in if dist AND 0b11 \<noteq> 0 \<or> drop_bit 2 dist > 0xFFFF then Err EncInvalidImmediate
                  else Ok (base OR push_bit 21 m OR push_bit 5 (ucast (drop_bit 2 dist))))))"

definition enc_uncond_branch_imm :: "insn \<Rightarrow> u32 encoded" where
  "enc_uncond_branch_imm insn =
     (let op = (if i_code insn = C_BlImm then 1 else 0)
      in and_then (enc_label insn 0) (\<lambda>target.
         and_then (rel_imm target (i_ip insn) 26 2) (\<lambda>imm26.
           Ok (push_bit 31 op OR push_bit 26 0b00101 OR imm26))))"

definition enc_compare_branch :: "insn \<Rightarrow> u32 encoded" where
  "enc_compare_branch insn =
     (let (sf, op) =
            (if i_code insn = C_Cbz32 then (0, 0)
             else if i_code insn = C_Cbz64 then (1, 0)
             else if i_code insn = C_Cbnz32 then (0, 1)
             else (1, 1))
      in and_then (reg_num insn 0) (\<lambda>rt.
         and_then (enc_label insn 1) (\<lambda>target.
         and_then (rel_imm target (i_ip insn) 19 2) (\<lambda>imm19.
           Ok (push_bit 31 sf OR push_bit 25 0b011010 OR push_bit 24 op OR push_bit 5 imm19 OR rt)))))"

definition enc_test_branch :: "insn \<Rightarrow> u32 encoded" where
  "enc_test_branch insn =
     (let op = (if i_code insn = C_Tbnz then 1 else 0)
      in and_then (reg_num insn 0) (\<lambda>rt.
         and_then (imm_u insn 1) (\<lambda>v.
           let bitpos = ucast v :: u32
           in if bitpos > 63 then Err EncInvalidImmediate
              else
               let b5 = drop_bit 5 bitpos AND 0x1;
                   b40 = bitpos AND 0x1f
               in and_then (enc_label insn 2) (\<lambda>target.
                  and_then (rel_imm target (i_ip insn) 14 2) (\<lambda>imm14.
                    Ok (push_bit 31 b5 OR push_bit 25 0b011011 OR push_bit 24 op OR push_bit 19 b40 OR push_bit 5 imm14 OR rt))))))"

section \<open>FEAT_CMPBR\<close>

definition is_x_reg :: "insn \<Rightarrow> nat \<Rightarrow> bool encoded" where
  "is_x_reg insn n =
     (case insn_op insn n of OpReg reg _ _ _ _ _ \<Rightarrow> Ok (width_bits reg = 64) | _ \<Rightarrow> Err EncInvalidOperand)"

definition cmpbr_rows :: "(code \<times> u32 \<times> u32 option \<times> u32 option) list" where
  "cmpbr_rows =
     [(C_Cbgt, 0b00, Some 0b000, Some 0b000), (C_Cbge, 0b00, Some 0b001, None), (C_Cbhi, 0b00, Some 0b010, Some 0b010),
      (C_Cbhs, 0b00, Some 0b011, None), (C_Cbeq, 0b00, Some 0b110, Some 0b110), (C_Cbne, 0b00, Some 0b111, Some 0b111),
      (C_Cblt, 0b00, None, Some 0b001), (C_Cblo, 0b00, None, Some 0b011),
      (C_Cbbgt, 0b10, Some 0b000, None), (C_Cbbge, 0b10, Some 0b001, None), (C_Cbbhi, 0b10, Some 0b010, None),
      (C_Cbbhs, 0b10, Some 0b011, None), (C_Cbbeq, 0b10, Some 0b110, None), (C_Cbbne, 0b10, Some 0b111, None),
      (C_Cbhgt, 0b11, Some 0b000, None), (C_Cbhge, 0b11, Some 0b001, None), (C_Cbhhi, 0b11, Some 0b010, None),
      (C_Cbhhs, 0b11, Some 0b011, None), (C_Cbheq, 0b11, Some 0b110, None), (C_Cbhne, 0b11, Some 0b111, None)]"

definition enc_cmpbr_reg :: "insn \<Rightarrow> u32 \<Rightarrow> u32 option \<Rightarrow> u32 \<Rightarrow> u32 encoded" where
  "enc_cmpbr_reg insn sz reg_cc imm9 =
     and_then (ok_or EncInvalidOperand reg_cc) (\<lambda>cc.
     and_then
       (if sz = 0b00 then and_then (is_x_reg insn 0) (\<lambda>x. Ok (if x then 1 else 0))
        else
          and_then (is_x_reg insn 0) (\<lambda>x0.
            if x0 then Err EncInvalidOperand
            else and_then (is_x_reg insn 1) (\<lambda>x1. if x1 then Err EncInvalidOperand else Ok 0)))
       (\<lambda>sf.
         and_then (reg_num insn 0) (\<lambda>rt.
         and_then (reg_num insn 1) (\<lambda>rm.
           Ok (push_bit 31 sf OR push_bit 25 0b111010 OR push_bit 21 cc OR push_bit 16 rm OR push_bit 14 sz OR
               push_bit 5 imm9 OR rt)))))"

definition enc_cmpbr_imm :: "insn \<Rightarrow> u32 option \<Rightarrow> u32 \<Rightarrow> u32 encoded" where
  "enc_cmpbr_imm insn imm_cc imm9 =
     and_then (ok_or EncInvalidOperand imm_cc) (\<lambda>cc.
     and_then (is_x_reg insn 0) (\<lambda>x.
     and_then (reg_num insn 0) (\<lambda>rt.
     and_then (imm_u insn 1) (\<lambda>imm6.
       if imm6 > 0x3f then Err EncInvalidImmediate
       else Ok (push_bit 31 (if x then 1 else 0) OR push_bit 25 0b111010 OR push_bit 24 1 OR push_bit 21 cc OR
                push_bit 15 (ucast imm6) OR push_bit 5 imm9 OR rt)))))"

definition enc_cmpbr :: "insn \<Rightarrow> u32 encoded" where
  "enc_cmpbr insn =
     and_then (ok_or EncUnsupported (map_of cmpbr_rows (i_code insn))) (\<lambda>(sz, reg_cc, imm_cc).
     and_then (enc_label insn 2) (\<lambda>target.
     and_then (rel_imm target (i_ip insn) 9 2) (\<lambda>imm9.
       case insn_op insn 1 of
         OpReg _ _ _ _ _ _ \<Rightarrow> enc_cmpbr_reg insn sz reg_cc imm9
       | OpImmUnsigned _ \<Rightarrow> enc_cmpbr_imm insn imm_cc imm9
       | OpImmSigned _ \<Rightarrow> enc_cmpbr_imm insn imm_cc imm9
       | OpImmLogical _ \<Rightarrow> enc_cmpbr_imm insn imm_cc imm9
       | _ \<Rightarrow> Err EncInvalidOperand)))"

section \<open>Unconditional branch (register)\<close>

text \<open>The codes by the shape of their operands: a register, none, a modifier register, two registers.\<close>

definition enc_branch_reg :: "insn \<Rightarrow> u32 encoded" where
  "enc_branch_reg insn =
     (let code = i_code insn;
          one = (\<lambda>f. and_then (reg_num insn 0) (\<lambda>r. Ok (f r)));
          two = (\<lambda>opc op3. and_then (reg_num insn 0) (\<lambda>rn. and_then (reg_num insn 1) (\<lambda>op4. Ok (opc, op3, rn, op4))))
      in and_then
           (if code = C_Br then one (\<lambda>rn. (0b0000, 0b000000, rn, 0))
            else if code = C_Blr then one (\<lambda>rn. (0b0001, 0b000000, rn, 0))
            else if code = C_Ret then
              (if i_op_count insn \<ge> 1 then one (\<lambda>rn. (0b0010, 0b000000, rn, 0)) else Ok (0b0010, 0b000000, 30, 0))
            else if code = C_Eret then Ok (0b0100, 0b000000, 0b11111, 0)
            else if code = C_Drps then Ok (0b0101, 0b000000, 0b11111, 0)
            else if code = C_Braaz then one (\<lambda>rn. (0b0000, 0b000010, rn, 0b11111))
            else if code = C_Brabz then one (\<lambda>rn. (0b0000, 0b000011, rn, 0b11111))
            else if code = C_Blraaz then one (\<lambda>rn. (0b0001, 0b000010, rn, 0b11111))
            else if code = C_Blrabz then one (\<lambda>rn. (0b0001, 0b000011, rn, 0b11111))
            else if code = C_Retaa then Ok (0b0010, 0b000010, 0b11111, 0b11111)
            else if code = C_Retab then Ok (0b0010, 0b000011, 0b11111, 0b11111)
            else if code = C_Retaasppcr then one (\<lambda>xm. (0b0010, 0b000010, 0b11111, xm))
            else if code = C_Retabsppcr then one (\<lambda>xm. (0b0010, 0b000011, 0b11111, xm))
            else if code = C_Eretaa then Ok (0b0100, 0b000010, 0b11111, 0b11111)
            else if code = C_Eretab then Ok (0b0100, 0b000011, 0b11111, 0b11111)
            else if code = C_Braa then two 0b1000 0b000010
            else if code = C_Brab then two 0b1000 0b000011
            else if code = C_Blraa then two 0b1001 0b000010
            else if code = C_Blrab then two 0b1001 0b000011
            else Err EncUnsupported)
           (\<lambda>(opc, op3, rn, op4).
             Ok (push_bit 25 0b1101011 OR push_bit 21 opc OR push_bit 16 0b11111 OR push_bit 10 op3 OR push_bit 5 rn OR op4)))"

end
