(* ===== verification/Branch_Exact.thy ===== *)
theory Branch_Exact
  imports Codec_Base Branch_Encode
begin

text \<open>
  The branch classes are exact: what the decoder builds, the encoder maps back to the word.  The heart is
  \<open>rel_imm_reach\<close>, which says which labels \<open>rel_imm\<close> accepts.
\<close>

section \<open>PC-relative fields\<close>

lemma mask_field: "(x :: u32) AND mask k = take_bit k x" "(y :: u64) AND mask k = take_bit k y"
  by (simp_all add: take_bit_eq_mask)

lemma signed_drop_bit_twice:
  assumes "0 < k"
  shows "signed_drop_bit (k - 1) (signed_drop_bit 2 d) = signed_drop_bit (k + 2 - 1) (d :: u64)"
proof (rule bit_word_eqI)
  fix n assume "n < LENGTH(64)"
  then show "bit (signed_drop_bit (k - 1) (signed_drop_bit 2 d)) n = bit (signed_drop_bit (k + 2 - 1) d) n"
    using assms by (cases "n + k + 1 < 63") (auto simp: bit_signed_drop_bit_iff)
qed

definition rel_reachable :: "nat \<Rightarrow> u64 \<Rightarrow> u64 \<Rightarrow> bool" where
  "rel_reachable k ip target \<longleftrightarrow> 4 dvd uint (target - ip) \<and> fits_signed (k + 2) (target - ip)"

lemma take_2_dvd: "take_bit 2 (d :: u64) = 0 \<longleftrightarrow> 4 dvd uint d"
proof -
  have "take_bit 2 d = 0 \<longleftrightarrow> uint (take_bit 2 d) = 0" by (simp add: word_uint_eq_iff)
  also have "\<dots> \<longleftrightarrow> uint d mod 4 = 0" by (simp only: unsigned_take_bit_eq) (simp add: take_bit_eq_mod)
  finally show ?thesis by (simp add: dvd_eq_mod_eq_0)
qed

lemma rel_imm_reach:
  assumes "0 < k"
  shows "rel_imm target ip k 2 =
    (if rel_reachable k ip target then Ok (take_bit k (ucast (signed_drop_bit 2 (target - ip)))) else Err EncInvalidImmediate)"
proof -
  have "\<not> (signed_drop_bit (k + 2 - 1) d \<noteq> 0 \<and> signed_drop_bit (k + 2 - 1) d \<noteq> - 1) \<longleftrightarrow> fits_signed (k + 2) d" for d :: u64
    using signed_drop_bit_fits [of "k + 2" d] by blast
  then show ?thesis
    unfolding rel_imm_def Let_def mask_field signed_drop_bit_twice [OF assms] rel_reachable_def take_2_dvd by auto
qed

text \<open>An accepted label is restored by the decoder from the field, and the encoder restores the field of a decoded label.\<close>

lemma rel_label_back:
  assumes "0 < k" "k \<le> 32" "rel_reachable k ip target" 
  shows "ip + sign_extend (push_bit 2 (ucast (take_bit k (ucast (signed_drop_bit 2 (target - ip)) :: u32)))) (k + 2) = target"
proof -
  define d where "d = target - ip"
  have "take_bit 2 d = 0" and f: "fits_signed (k + 2) d" using assms(3) by (simp_all add: rel_reachable_def take_2_dvd d_def)
  then have lo: "bit d n \<Longrightarrow> 2 \<le> n" for n by (metis bit_0_eq bit_take_bit_iff bot_apply bot_bool_def not_le)
  have "push_bit 2 (ucast (take_bit k (ucast (signed_drop_bit 2 d) :: u32))) = take_bit (k + 2) d"
  proof (rule bit_word_eqI)
    fix n assume n: "n < LENGTH(64)"
    have "2 \<le> n \<Longrightarrow> Suc (Suc (n - 2)) = n" by simp
    then show "bit (push_bit 2 (ucast (take_bit k (ucast (signed_drop_bit 2 d) :: u32))) :: u64) n = bit (take_bit (k + 2) d) n"
      using lo [of n] assms(2) n by (auto simp: bit_simps bit_signed_drop_bit_iff)
  qed
  moreover have "sign_extend (take_bit (k + 2) d) (k + 2) = d"
    using assms(1,2) f signed_drop_bit_fits [of "k + 2" d] by (intro sign_extend_fits) auto
  ultimately show ?thesis unfolding d_def by (simp only:) simp
qed

lemma rel_imm_field:
  assumes "0 < k" "k \<le> 32"
  shows "rel_imm (ip + sign_extend (push_bit 2 (ucast (bits w l k))) (k + 2)) ip k 2 = Ok (bits w l k)"
proof -
  define d where "d = sign_extend (push_bit 2 (ucast (bits w l k))) (k + 2)"
  have b: "bit d n \<longleftrightarrow> n < 64 \<and> (let m = (if n < k + 2 then n else k + 1) in 2 \<le> m \<and> bit w (l + (m - 2)))" for n
    using assms by (auto simp: d_def bit_sign_extend bit_simps bit_bits Let_def)
  have "signed_drop_bit (k + 2 - 1) d = (if bit d (k + 1) then - 1 else 0)"
    using assms sign_extend_reach [of "k + 2" "push_bit 2 (ucast (bits w l k))"] b [of "k + 1"]
    by (auto simp: d_def bit_simps bit_bits)
  then have "fits_signed (k + 2) d" using signed_drop_bit_fits [of "k + 2" d] by (metis (full_types))
  moreover have "take_bit 2 d = 0" by (rule bit_word_eqI) (use assms in \<open>auto simp: bit_take_bit_iff b Let_def\<close>)
  moreover have "take_bit k (ucast (signed_drop_bit 2 d)) = bits w l k"
    by (rule bit_word_eqI) (use assms in \<open>auto simp: bit_simps bit_signed_drop_bit_iff b bit_bits Let_def\<close>)
  ultimately have "rel_imm (ip + d) ip k 2 = Ok (bits w l k)"
    using rel_imm_reach [OF assms(1), of "ip + d" ip] by (simp add: rel_reachable_def take_2_dvd)
  then show ?thesis by (simp only: d_def)
qed


section \<open>Reading back what the decoder built\<close>

lemma enc_label_op: "enc_label insn n = (case insn_op insn n of OpLabel v \<Rightarrow> Ok v | _ \<Rightarrow> Err EncInvalidOperand)"
  by (simp add: enc_label_def)

lemma rel_imm_label [simp]:
  "rel_imm (ip + sign_extend (push_bit 2 (ucast (bits w l 19))) 21) ip 19 2 = Ok (bits w l 19)"
  "rel_imm (ip + sign_extend (push_bit 2 (ucast (bits w l 14))) 16) ip 14 2 = Ok (bits w l 14)"
  "rel_imm (ip + sign_extend (push_bit 2 (ucast (bits w l 26))) 28) ip 26 2 = Ok (bits w l 26)"
  "rel_imm (ip + sign_extend (push_bit 2 (ucast (bits w l 9))) 11) ip 9 2 = Ok (bits w l 9)"
  using rel_imm_field [of 19 ip w l] rel_imm_field [of 14 ip w l] rel_imm_field [of 26 ip w l] rel_imm_field [of 9 ip w l]
  by simp_all

definition op_is_x :: "operand \<Rightarrow> bool encoded" where
  "op_is_x op = (case op of OpReg reg _ _ _ _ _ \<Rightarrow> Ok (width_bits reg = 64) | _ \<Rightarrow> Err EncInvalidOperand)"

lemma is_x_reg_op: "is_x_reg insn n = op_is_x (insn_op insn n)"
  by (simp add: is_x_reg_def op_is_x_def)

lemma op_is_x_gp_reg [simp]: "op_is_x (gp_reg u W32 n) = Ok False" "op_is_x (gp_reg u X64 n) = Ok True"
  by (simp_all add: op_is_x_def gp_reg_def gp_register_width)

lemmas branch_eval = enc_eval enc_label_op rel_label_def is_x_reg_op

section \<open>Exactness of the branch classes\<close>

lemma layout_cond:
  assumes "bits w 25 7 = 0b0101010" "\<not> bit w 24"
  shows "push_bit 24 0b01010100 OR push_bit 5 (bits w 5 19) OR push_bit 4 (bit_at w 4) OR bits w 0 4 = w"
  using bits_eqD [OF assms(1), of 0] bits_eqD [OF assms(1), of 1] bits_eqD [OF assms(1), of 2] bits_eqD [OF assms(1), of 3]
    bits_eqD [OF assms(1), of 4] bits_eqD [OF assms(1), of 5] bits_eqD [OF assms(1), of 6] assms(2)
  by (simp add: to_bits)

lemma cond_field: "ucast (ucast (bits w 0 4) AND (0xf :: u8)) = bits w 0 4"
proof -
  have m: "(0xf :: u8) = mask 4" by (simp add: mask_eq_exp_minus_1)
  show ?thesis unfolding m by (intro bit_word_eqI) (auto simp: bit_simps bit_bits simp del: mask_numeral)
qed

lemma exact_cond:
  assumes "bits w 25 7 = 0b0101010" "\<not> bit w 24" "i_code (decode_cond_branch w fs out) \<noteq> C_Invalid" "i_code out = C_Invalid"
  shows "enc_cond_branch (decode_cond_branch w fs out) = Ok w"
  using assms(2-4) layout_cond [OF assms(1,2)]
  by (cases "bit w 4") (auto simp: decode_cond_branch_def dec_eval enc_cond_branch_def branch_eval cond_field split: if_splits)


lemma layout_ret_sppc:
  assumes "bits w 25 7 = 0b0101010" "bit w 24" "bits w 22 2 = 0" "bits w 0 5 = 31"
  shows "(push_bit 22 0b0101010100 OR 0b11111) OR push_bit 21 (bit_at w 21) OR push_bit 5 (bits w 5 16) = w"
  using bits_eqD [OF assms(1), of 0] bits_eqD [OF assms(1), of 1] bits_eqD [OF assms(1), of 2] bits_eqD [OF assms(1), of 3]
    bits_eqD [OF assms(1), of 4] bits_eqD [OF assms(1), of 5] bits_eqD [OF assms(1), of 6] assms(2)
    bits_eqD [OF assms(3), of 0] bits_eqD [OF assms(3), of 1] bits_eqD [OF assms(4), of 0] bits_eqD [OF assms(4), of 1]
    bits_eqD [OF assms(4), of 2] bits_eqD [OF assms(4), of 3] bits_eqD [OF assms(4), of 4]
  by (simp add: to_bits)

lemma layout_compare:
  assumes "bits w 25 6 = 0b011010"
  shows "push_bit 31 (bit_at w 31) OR push_bit 25 0b011010 OR push_bit 24 (bit_at w 24) OR push_bit 5 (bits w 5 19) OR bits w 0 5 = w"
  using bits_eqD [OF assms(1), of 0] bits_eqD [OF assms(1), of 1] bits_eqD [OF assms(1), of 2] bits_eqD [OF assms(1), of 3]
    bits_eqD [OF assms(1), of 4] bits_eqD [OF assms(1), of 5]
  by (simp add: to_bits)

lemma exact_compare:
  assumes "bits w 25 6 = 0b011010" "i_ip out = ip"
  shows "enc_compare_branch (decode_compare_branch w ip out) = Ok w"
  using layout_compare [OF assms(1)] assms(2)
  by (cases "bit w 31"; cases "bit w 24")
    (simp_all add: decode_compare_branch_def dec_eval enc_compare_branch_def branch_eval)

lemma layout_test:
  assumes "bits w 25 6 = 0b011011"
  shows "push_bit 31 (bit_at w 31) OR push_bit 25 0b011011 OR push_bit 24 (bit_at w 24) OR push_bit 19 (bits w 19 5) OR
    push_bit 5 (bits w 5 14) OR bits w 0 5 = w"
  using bits_eqD [OF assms(1), of 0] bits_eqD [OF assms(1), of 1] bits_eqD [OF assms(1), of 2] bits_eqD [OF assms(1), of 3]
    bits_eqD [OF assms(1), of 4] bits_eqD [OF assms(1), of 5]
  by (simp add: to_bits)

lemma bitpos_parts:
  "drop_bit 5 (push_bit 5 (bit_at w l) OR bits w k 5) AND 1 = bit_at w l"
  "(push_bit 5 (bit_at w l) OR bits w k 5) AND 0x1f = bits w k 5"
  "\<not> 63 < push_bit 5 (bit_at w l) OR bits w k 5"
proof -
  let ?b = "push_bit 5 (bit_at w l) OR bits w k 5"
  show "drop_bit 5 ?b AND 1 = bit_at w l" "?b AND 0x1f = bits w k 5"
    by (simp_all add: to_bits)
  have "?b AND mask 6 = ?b" by (simp add: to_bits)
  then have "?b \<le> mask 6" by (metis word_and_le1)
  then show "\<not> 63 < ?b" by (simp add: mask_eq_exp_minus_1)
qed

lemma exact_test:
  assumes "bits w 25 6 = 0b011011" "i_ip out = ip"
  shows "enc_test_branch (decode_test_branch w ip out) = Ok w"
proof -
  note p = bitpos_parts [of w 31 19] 
  show ?thesis
    using layout_test [OF assms(1)] assms(2) p
    by (cases "bit w 31"; cases "bit w 24")
      (simp_all add: decode_test_branch_def dec_eval enc_test_branch_def branch_eval)
qed

lemma layout_uncond_imm:
  assumes "bits w 26 5 = 0b00101"
  shows "push_bit 31 (bit_at w 31) OR push_bit 26 0b00101 OR bits w 0 26 = w"
  using bits_eqD [OF assms(1), of 0] bits_eqD [OF assms(1), of 1] bits_eqD [OF assms(1), of 2] bits_eqD [OF assms(1), of 3]
    bits_eqD [OF assms(1), of 4]
  by (simp add: to_bits)

lemma bits_29_top: "bits w 29 3 AND 4 \<noteq> 0 \<longleftrightarrow> bit w 31"
  using and_exp_eq_0_iff_not_bit [of "bits w 29 3" 2] by (simp add: bit_bits)

lemma exact_uncond_imm:
  assumes "bits w 26 5 = 0b00101" "i_ip out = ip"
  shows "enc_uncond_branch_imm (decode_uncond_branch_imm w ip out) = Ok w"
  using layout_uncond_imm [OF assms(1)] assms(2) bits_29_top [of w]
  by (cases "bit w 31") (auto simp: decode_uncond_branch_imm_def dec_eval enc_uncond_branch_imm_def branch_eval)


section \<open>The signed-PC forms\<close>

lemma layout_auti_sppc:
  assumes "w AND 0xFFC0001F = (0xF380001F :: u32)"
  shows "(push_bit 22 0b1111001110 OR 0b11111) OR push_bit 21 (bit_at w 21) OR push_bit 5 (bits w 5 16) = w"
  using assms by (simp add: to_bits)

lemma sppc_field:
  "push_bit 2 (ucast (bits w l 16)) AND 3 = (0 :: u64)"
  "drop_bit 2 (push_bit 2 (ucast (bits w l 16)) :: u64) = ucast (bits w l 16)"
proof -
  have m: "(3 :: u64) = mask 2" by (simp add: mask_eq_exp_minus_1)
  show "push_bit 2 (ucast (bits w l 16)) AND 3 = (0 :: u64)"
    unfolding m by (rule bit_word_eqI) (simp only: bit_and_iff bit_push_bit_iff bit_mask_iff, simp)
  show "drop_bit 2 (push_bit 2 (ucast (bits w l 16)) :: u64) = ucast (bits w l 16)"
    by (rule bit_word_eqI) (auto simp: bit_simps bit_bits)
qed

lemma exact_sppc:
  assumes "i_ip out = ip"
  shows "w AND 0xFFC0001F = 0xF380001F \<Longrightarrow> enc_pauth_lr_sppc (decode_auti_sppc w out) = Ok w"
    and "bits w 25 7 = 0b0101010 \<Longrightarrow> bit w 24 \<Longrightarrow> i_code out = C_Invalid \<Longrightarrow>
      i_code (decode_ret_sppc w fs out) \<noteq> C_Invalid \<Longrightarrow> enc_pauth_lr_sppc (decode_ret_sppc w fs out) = Ok w"
proof -
  assume "w AND 0xFFC0001F = 0xF380001F"
  from layout_auti_sppc [OF this] show "enc_pauth_lr_sppc (decode_auti_sppc w out) = Ok w"
    by (cases "bit w 21")
      (simp_all add: decode_auti_sppc_def push_sppc_label_def dec_eval enc_pauth_lr_sppc_def branch_eval sppc_field)
next
  assume a: "bits w 25 7 = 0b0101010" "bit w 24" "i_code out = C_Invalid" "i_code (decode_ret_sppc w fs out) \<noteq> C_Invalid"
  then have g: "bits w 22 2 = 0" "bits w 0 5 = 31" "has fs F_PauthLr"
    by (auto simp: decode_ret_sppc_def split: if_splits)
  from layout_ret_sppc [OF a(1,2) g(1,2)] g show "enc_pauth_lr_sppc (decode_ret_sppc w fs out) = Ok w"
    by (cases "bit w 21")
      (simp_all add: decode_ret_sppc_def push_sppc_label_def dec_eval enc_pauth_lr_sppc_def branch_eval sppc_field)
qed

section \<open>FEAT_CMPBR\<close>

lemma layout_cmpbr_reg:
  assumes "bits w 25 6 = 0b111010" "\<not> bit w 24"
  shows "push_bit 31 (bit_at w 31) OR push_bit 25 0b111010 OR push_bit 21 (bits w 21 3) OR push_bit 16 (bits w 16 5) OR
    push_bit 14 (bits w 14 2) OR push_bit 5 (bits w 5 9) OR bits w 0 5 = w"
  using bits_eqD [OF assms(1), of 0] bits_eqD [OF assms(1), of 1] bits_eqD [OF assms(1), of 2] bits_eqD [OF assms(1), of 3]
    bits_eqD [OF assms(1), of 4] bits_eqD [OF assms(1), of 5] assms(2)
  by (simp add: to_bits)

lemma layout_cmpbr_imm:
  assumes "bits w 25 6 = 0b111010" "bit w 24" "\<not> bit w 14"
  shows "push_bit 31 (bit_at w 31) OR push_bit 25 0b111010 OR push_bit 24 1 OR push_bit 21 (bits w 21 3) OR
    push_bit 15 (bits w 15 6) OR push_bit 5 (bits w 5 9) OR bits w 0 5 = w"
  using bits_eqD [OF assms(1), of 0] bits_eqD [OF assms(1), of 1] bits_eqD [OF assms(1), of 2] bits_eqD [OF assms(1), of 3]
    bits_eqD [OF assms(1), of 4] bits_eqD [OF assms(1), of 5] assms(2,3)
  by (simp add: to_bits)

text \<open>The rows of the encoder's table are the graph of the decoder's two tables.\<close>

lemma cmpbr_reg_row:
  "cmpbr_reg_code sz cc sf = Some c \<Longrightarrow> \<exists>ic. map_of cmpbr_rows c = Some (sz, Some cc, ic) \<and> (sz = 0 \<or> sf = 0)"
  unfolding cmpbr_reg_code_def
  by (auto simp: cmpbr_rows_def dest!: map_of_SomeD split: if_splits)

lemma cmpbr_imm_row: "cmpbr_imm_code cc = Some c \<Longrightarrow> \<exists>rc. map_of cmpbr_rows c = Some (0, rc, Some cc)"
  unfolding cmpbr_imm_code_def by (drule map_of_SomeD) (auto simp: cmpbr_rows_def)

lemma case_gp_reg [simp]: "(case gp_reg u wd n of OpReg _ _ _ _ _ _ \<Rightarrow> a | OpImmUnsigned x \<Rightarrow> f x | OpImmSigned y \<Rightarrow> g y
    | OpImmLogical z \<Rightarrow> h z | _ \<Rightarrow> e) = a"
  by (simp add: gp_reg_def)

lemma cmpbr_size_bit:
  assumes "sz = 0 \<or> sf = (0 :: u32)" "sf = 0 \<or> sf = 1"
  shows "sz \<noteq> 0 \<Longrightarrow> sf = 0"
  using assms by auto

lemma exact_cmpbr:
  assumes "bits w 25 6 = 0b111010" "i_ip out = ip" "i_code (decode_cmpbr w ip fs out) \<noteq> C_Invalid" "i_code out = C_Invalid"
  shows "enc_cmpbr (decode_cmpbr w ip fs out) = Ok w"
proof (cases "bit w 24")
  case False
  obtain c where c: "cmpbr_reg_code (bits w 14 2) (bits w 21 3) (bit_at w 31) = Some c" and f: "has fs F_Cmpbr"
    using assms(3,4) False by (auto simp: decode_cmpbr_def dec_eval split: if_splits option.splits)
  obtain ic where r: "map_of cmpbr_rows c = Some (bits w 14 2, Some (bits w 21 3), ic)" "bits w 14 2 = 0 \<or> bit_at w 31 = 0"
    using cmpbr_reg_row [OF c] by auto
  show ?thesis
    using False c f r assms(2) layout_cmpbr_reg [OF assms(1) False]
    by (cases "bit w 31"; cases "bits w 14 2 = 0")
      (simp_all add: decode_cmpbr_def dec_eval enc_cmpbr_def enc_cmpbr_reg_def branch_eval)
next
  case True
  obtain c where c: "cmpbr_imm_code (bits w 21 3) = Some c" and f: "has fs F_Cmpbr" "\<not> bit w 14"
    using assms(3,4) True by (auto simp: decode_cmpbr_def dec_eval split: if_splits option.splits)
  obtain rc where r: "map_of cmpbr_rows c = Some (0, rc, Some (bits w 21 3))"
    using cmpbr_imm_row [OF c] by auto
  show ?thesis
    using True c f r assms(2) layout_cmpbr_imm [OF assms(1) True f(2)]
    by (cases "bit w 31")
      (simp_all add: decode_cmpbr_def dec_eval enc_cmpbr_def enc_cmpbr_imm_def branch_eval)
qed


section \<open>Branches to a register\<close>

lemma layout_branch_reg:
  assumes "bits w 25 7 = 0b1101011" "bits w 16 5 = 31"
  shows "push_bit 25 0b1101011 OR push_bit 21 (bits w 21 4) OR push_bit 16 0b11111 OR push_bit 10 (bits w 10 6) OR
    push_bit 5 (bits w 5 5) OR bits w 0 5 = w"
  using bits_eqD [OF assms(1), of 0] bits_eqD [OF assms(1), of 1] bits_eqD [OF assms(1), of 2] bits_eqD [OF assms(1), of 3]
    bits_eqD [OF assms(1), of 4] bits_eqD [OF assms(1), of 5] bits_eqD [OF assms(1), of 6]
    bits_eqD [OF assms(2), of 0] bits_eqD [OF assms(2), of 1] bits_eqD [OF assms(2), of 2] bits_eqD [OF assms(2), of 3]
    bits_eqD [OF assms(2), of 4]
  by (simp add: to_bits)

text \<open>The encoder, code by code.\<close>

definition branch_reg_word :: "u32 \<Rightarrow> u32 \<Rightarrow> u32 \<Rightarrow> u32 \<Rightarrow> u32" where
  "branch_reg_word opc op3 rn op4 =
     push_bit 25 0b1101011 OR push_bit 21 opc OR push_bit 16 0b11111 OR push_bit 10 op3 OR push_bit 5 rn OR op4"

lemma enc_branch_reg_rows:
  "enc_branch_reg (built out C_Br m [r]) = and_then (op_num r) (\<lambda>rn. Ok (branch_reg_word 0 0 rn 0))"
  "enc_branch_reg (built out C_Blr m [r]) = and_then (op_num r) (\<lambda>rn. Ok (branch_reg_word 1 0 rn 0))"
  "enc_branch_reg (built out C_Ret m [r]) = and_then (op_num r) (\<lambda>rn. Ok (branch_reg_word 2 0 rn 0))"
  "enc_branch_reg (built out C_Braaz m [r]) = and_then (op_num r) (\<lambda>rn. Ok (branch_reg_word 0 2 rn 31))"
  "enc_branch_reg (built out C_Brabz m [r]) = and_then (op_num r) (\<lambda>rn. Ok (branch_reg_word 0 3 rn 31))"
  "enc_branch_reg (built out C_Blraaz m [r]) = and_then (op_num r) (\<lambda>rn. Ok (branch_reg_word 1 2 rn 31))"
  "enc_branch_reg (built out C_Blrabz m [r]) = and_then (op_num r) (\<lambda>rn. Ok (branch_reg_word 1 3 rn 31))"
  "enc_branch_reg (built out C_Retaasppcr m [r]) = and_then (op_num r) (\<lambda>rn. Ok (branch_reg_word 2 2 31 rn))"
  "enc_branch_reg (built out C_Retabsppcr m [r]) = and_then (op_num r) (\<lambda>rn. Ok (branch_reg_word 2 3 31 rn))"
  "enc_branch_reg (built out C_Ret m []) = Ok (branch_reg_word 2 0 30 0)"
  "enc_branch_reg (built out C_Eret m []) = Ok (branch_reg_word 4 0 31 0)"
  "enc_branch_reg (built out C_Drps m []) = Ok (branch_reg_word 5 0 31 0)"
  "enc_branch_reg (built out C_Retaa m []) = Ok (branch_reg_word 2 2 31 31)"
  "enc_branch_reg (built out C_Retab m []) = Ok (branch_reg_word 2 3 31 31)"
  "enc_branch_reg (built out C_Eretaa m []) = Ok (branch_reg_word 4 2 31 31)"
  "enc_branch_reg (built out C_Eretab m []) = Ok (branch_reg_word 4 3 31 31)"
  "enc_branch_reg (built out C_Braa m [r, q]) =
    and_then (op_num r) (\<lambda>rn. and_then (op_num q) (\<lambda>op4. Ok (branch_reg_word 8 2 rn op4)))"
  "enc_branch_reg (built out C_Brab m [r, q]) =
    and_then (op_num r) (\<lambda>rn. and_then (op_num q) (\<lambda>op4. Ok (branch_reg_word 8 3 rn op4)))"
  "enc_branch_reg (built out C_Blraa m [r, q]) =
    and_then (op_num r) (\<lambda>rn. and_then (op_num q) (\<lambda>op4. Ok (branch_reg_word 9 2 rn op4)))"
  "enc_branch_reg (built out C_Blrab m [r, q]) =
    and_then (op_num r) (\<lambda>rn. and_then (op_num q) (\<lambda>op4. Ok (branch_reg_word 9 3 rn op4)))"
  by (simp_all add: enc_branch_reg_def branch_reg_word_def reg_num_op and_then_assoc)

lemma exact_branch_reg:
  assumes "bits w 25 7 = 0b1101011" "i_code (decode_uncond_branch_reg w fs out) \<noteq> C_Invalid" "i_code out = C_Invalid"
  shows "enc_branch_reg (decode_uncond_branch_reg w fs out) = Ok w"
proof -
  have g: "bits w 16 5 = 31" using assms(2,3) by (auto simp: decode_uncond_branch_reg_def Let_def split: if_splits)
  let ?w = "branch_reg_word (bits w 21 4) (bits w 10 6) (bits w 5 5) (bits w 0 5)"
  have "encodes_to enc_branch_reg out ?w (decode_uncond_branch_reg w fs out)"
    unfolding decode_uncond_branch_reg_def Let_def
    by (intro encodes_if encodes_out) (simp_all add: encodes_leaf enc_branch_reg_rows)
  moreover have "?w = w"
    unfolding branch_reg_word_def by (rule layout_branch_reg [OF assms(1) g])
  ultimately show ?thesis using assms(2,3) by (metis encodes_toD)
qed

end
