(* ===== verification/Sys_Tables.thy ===== *)
theory Sys_Tables
  imports Operands Mnemonics
begin

text \<open>
  The keyword table of \<open>src/sysop.rs\<close> and the directory of named \<open>SYS\<close>/\<open>SYSL\<close> aliases of \<open>src/tables/sysins.rs\<close>, row
  by row, with their lookups.  The lemmas make the encoder's search by name an inverse of the decoder's search by
  selector: every keyword of the directory is in the keyword table, and no pair of alias mnemonic and keyword occurs
  twice.
\<close>

section \<open>Keywords\<close>

definition sysop_names_0 :: "string list" where
  "sysop_names_0 =
    [[], ''c0'', ''c1'', ''c2'', ''c3'', ''c4'', ''c5'', ''c6'', ''c7'', ''c8'', ''c9'', ''c10'', ''c11'', ''c12'',
     ''c13'', ''c14'']"

definition sysop_names_1 :: "string list" where
  "sysop_names_1 =
    [''c15'', ''sy'', ''st'', ''ld'', ''ish'', ''ishst'', ''ishld'', ''nsh'', ''nshst'', ''nshld'', ''osh'',
     ''oshst'', ''oshld'', ''synxs'', ''nshnxs'', ''nshstnxs'']"

definition sysop_names_2 :: "string list" where
  "sysop_names_2 =
    [''nshldnxs'', ''ishnxs'', ''ishstnxs'', ''ishldnxs'', ''oshnxs'', ''oshstnxs'', ''oshldnxs'', ''csync'',
     ''c'', ''j'', ''jc'', ''rctx'', ''sm'', ''za'', ''pldl1keep'', ''pldl1strm'']"

definition sysop_names_3 :: "string list" where
  "sysop_names_3 =
    [''pldl2keep'', ''pldl2strm'', ''pldl3keep'', ''pldl3strm'', ''plil1keep'', ''plil1strm'', ''plil2keep'',
     ''plil2strm'', ''plil3keep'', ''plil3strm'', ''pstl1keep'', ''pstl1strm'', ''pstl2keep'', ''pstl2strm'',
     ''pstl3keep'', ''pstl3strm'']"

definition sysop_names_4 :: "string list" where
  "sysop_names_4 =
    [''pldkeep'', ''pstkeep'', ''pldstrm'', ''pststrm'', ''spsel'', ''daifset'', ''daifclr'', ''uao'', ''pan'',
     ''dit'', ''ssbs'', ''tco'', ''allint'', ''svcrsm'', ''svcrza'', ''svcrsmza'']"

definition sysop_names_5 :: "string list" where
  "sysop_names_5 =
    [''ialluis'', ''iallu'', ''ivau'', ''ivac'', ''isw'', ''igvac'', ''igsw'', ''igdvac'', ''igdsw'', ''csw'',
     ''cgsw'', ''cgdsw'', ''cisw'', ''cigsw'', ''cigdsw'', ''zva'']"

definition sysop_names_6 :: "string list" where
  "sysop_names_6 =
    [''cvac'', ''cgvac'', ''cgdvac'', ''cvau'', ''cvap'', ''cgvap'', ''cgdvap'', ''cvadp'', ''cgvadp'',
     ''cgdvadp'', ''civac'', ''cigvac'', ''cigdvac'', ''s1e1r'', ''s1e1w'', ''s1e0r'']"

definition sysop_names_7 :: "string list" where
  "sysop_names_7 =
    [''s1e0w'', ''s1e1rp'', ''s1e1wp'', ''s1e2r'', ''s1e2w'', ''s12e1r'', ''s12e1w'', ''s12e0r'', ''s12e0w'',
     ''s1e3r'', ''s1e3w'', ''s1e2rp'', ''s1e2wp'', ''vmalle1is'', ''vae1is'', ''aside1is'']"

definition sysop_names_8 :: "string list" where
  "sysop_names_8 =
    [''vaae1is'', ''vale1is'', ''vaale1is'', ''vmalle1'', ''vae1'', ''aside1'', ''vaae1'', ''vale1'', ''vaale1'',
     ''ipas2e1is'', ''ipas2le1is'', ''alle2is'', ''vae2is'', ''alle1is'', ''vale2is'', ''vmalls12e1is'']"

definition sysop_names_9 :: "string list" where
  "sysop_names_9 =
    [''ipas2e1'', ''ipas2le1'', ''alle2'', ''vae2'', ''alle1'', ''vale2'', ''vmalls12e1'', ''alle3is'', ''vae3is'',
     ''vale3is'', ''alle3'', ''vae3'', ''vale3'', ''nb'', ''dsync'', ''ph'']"

definition sysop_names_10 :: "string list" where
  "sysop_names_10 =
    [''keep'', ''strm'', ''alle1isnxs'', ''alle1nxs'', ''alle1os'', ''alle1osnxs'', ''alle2isnxs'', ''alle2nxs'',
     ''alle2os'', ''alle2osnxs'', ''alle3isnxs'', ''alle3nxs'', ''alle3os'', ''alle3osnxs'', ''aside1isnxs'',
     ''aside1nxs'']"

definition sysop_names_11 :: "string list" where
  "sysop_names_11 =
    [''aside1os'', ''aside1osnxs'', ''cdaff'', ''cddi'', ''cddis'', ''cden'', ''cdeoi'', ''cdhm'', ''cdia'',
     ''cdnmia'', ''cdpend'', ''cdpri'', ''cdrcfg'', ''cgdvaoc'', ''cigdpae'', ''cigdpapa'']"

definition sysop_names_12 :: "string list" where
  "sysop_names_12 =
    [''cigdvaoc'', ''cigdvaps'', ''cipae'', ''cipapa'', ''civaoc'', ''civaps'', ''cvaoc'', ''gbva'', ''gva'',
     ''gzva'', ''ipas2e1isnxs'', ''ipas2e1nxs'', ''ipas2e1os'', ''ipas2e1osnxs'', ''ipas2le1isnxs'',
     ''ipas2le1nxs'']"

definition sysop_names_13 :: "string list" where
  "sysop_names_13 =
    [''ipas2le1os'', ''ipas2le1osnxs'', ''ldaff'', ''lddi'', ''lddis'', ''lden'', ''ldhm'', ''ldpend'', ''ldpri'',
     ''ldrcfg'', ''paall'', ''paallnxs'', ''paallos'', ''paallosnxs'', ''permae1'', ''permae1is'']"

definition sysop_names_14 :: "string list" where
  "sysop_names_14 =
    [''permae1isnxs'', ''permae1nxs'', ''permae1os'', ''permae1osnxs'', ''perme1'', ''perme1is'', ''perme1isnxs'',
     ''perme1nxs'', ''perme1os'', ''perme1osnxs'', ''perme2'', ''perme2is'', ''perme2isnxs'', ''perme2nxs'',
     ''perme2os'', ''perme2osnxs'']"

definition sysop_names_15 :: "string list" where
  "sysop_names_15 =
    [''perme3'', ''perme3is'', ''perme3isnxs'', ''perme3nxs'', ''perme3os'', ''perme3osnxs'', ''ripas2e1'',
     ''ripas2e1is'', ''ripas2e1isnxs'', ''ripas2e1nxs'', ''ripas2e1os'', ''ripas2e1osnxs'', ''ripas2le1'',
     ''ripas2le1is'', ''ripas2le1isnxs'', ''ripas2le1nxs'']"

definition sysop_names_16 :: "string list" where
  "sysop_names_16 =
    [''ripas2le1os'', ''ripas2le1osnxs'', ''rpalos'', ''rpalosnxs'', ''rpaos'', ''rpaosnxs'', ''rvaae1'',
     ''rvaae1is'', ''rvaae1isnxs'', ''rvaae1nxs'', ''rvaae1os'', ''rvaae1osnxs'', ''rvaale1'', ''rvaale1is'',
     ''rvaale1isnxs'', ''rvaale1nxs'']"

definition sysop_names_17 :: "string list" where
  "sysop_names_17 =
    [''rvaale1os'', ''rvaale1osnxs'', ''rvae1'', ''rvae1is'', ''rvae1isnxs'', ''rvae1nxs'', ''rvae1os'',
     ''rvae1osnxs'', ''rvae2'', ''rvae2is'', ''rvae2isnxs'', ''rvae2nxs'', ''rvae2os'', ''rvae2osnxs'', ''rvae3'',
     ''rvae3is'']"

definition sysop_names_18 :: "string list" where
  "sysop_names_18 =
    [''rvae3isnxs'', ''rvae3nxs'', ''rvae3os'', ''rvae3osnxs'', ''rvale1'', ''rvale1is'', ''rvale1isnxs'',
     ''rvale1nxs'', ''rvale1os'', ''rvale1osnxs'', ''rvale2'', ''rvale2is'', ''rvale2isnxs'', ''rvale2nxs'',
     ''rvale2os'', ''rvale2osnxs'']"

definition sysop_names_19 :: "string list" where
  "sysop_names_19 =
    [''rvale3'', ''rvale3is'', ''rvale3isnxs'', ''rvale3nxs'', ''rvale3os'', ''rvale3osnxs'', ''s1e1a'', ''s1e2a'',
     ''s1e3a'', ''vaae1isnxs'', ''vaae1nxs'', ''vaae1os'', ''vaae1osnxs'', ''vaale1isnxs'', ''vaale1nxs'',
     ''vaale1os'']"

definition sysop_names_20 :: "string list" where
  "sysop_names_20 =
    [''vaale1osnxs'', ''vae1isnxs'', ''vae1nxs'', ''vae1os'', ''vae1osnxs'', ''vae2isnxs'', ''vae2nxs'',
     ''vae2os'', ''vae2osnxs'', ''vae3isnxs'', ''vae3nxs'', ''vae3os'', ''vae3osnxs'', ''vale1isnxs'',
     ''vale1nxs'', ''vale1os'']"

definition sysop_names_21 :: "string list" where
  "sysop_names_21 =
    [''vale1osnxs'', ''vale2isnxs'', ''vale2nxs'', ''vale2os'', ''vale2osnxs'', ''vale3isnxs'', ''vale3nxs'',
     ''vale3os'', ''vale3osnxs'', ''vdaff'', ''vddi'', ''vddis'', ''vden'', ''vdhm'', ''vdpend'', ''vdpri'']"

definition sysop_names_22 :: "string list" where
  "sysop_names_22 =
    [''vdrcfg'', ''vmalle1isnxs'', ''vmalle1nxs'', ''vmalle1os'', ''vmalle1osnxs'', ''vmalls12e1isnxs'',
     ''vmalls12e1nxs'', ''vmalls12e1os'', ''vmalls12e1osnxs'', ''vmallws2e1'', ''vmallws2e1is'',
     ''vmallws2e1isnxs'', ''vmallws2e1nxs'', ''vmallws2e1os'', ''vmallws2e1osnxs'', ''vpide1'']"

definition sysop_names_23 :: "string list" where
  "sysop_names_23 =
    [''vpmge1'', ''zgbva'', ''sys'', ''ack'', ''iall'', ''inj'']"


definition sysop_blocks :: "string list list" where
  "sysop_blocks =
    [sysop_names_0, sysop_names_1, sysop_names_2, sysop_names_3, sysop_names_4, sysop_names_5, sysop_names_6,
     sysop_names_7, sysop_names_8, sysop_names_9, sysop_names_10, sysop_names_11, sysop_names_12, sysop_names_13,
     sysop_names_14, sysop_names_15, sysop_names_16, sysop_names_17, sysop_names_18, sysop_names_19,
     sysop_names_20, sysop_names_21, sysop_names_22, sysop_names_23]"

definition sysop_names :: "string list" where
  "sysop_names = concat sysop_blocks"

text \<open>\<open>SysToken::of\<close>: the first slot that holds the name, or the empty token.\<close>

primrec name_slot :: "nat \<Rightarrow> string list \<Rightarrow> string \<Rightarrow> nat option" where
  "name_slot i [] name = None"
| "name_slot i (n # ns) name = (if n = name then Some i else name_slot (i + 1) ns name)"

definition sys_token_of :: "string \<Rightarrow> sys_token" where
  "sys_token_of name =
     (case name_slot 0 sysop_names name of Some i \<Rightarrow> SysToken (of_nat i) | None \<Rightarrow> SysToken 0)"

definition sys_token_cr :: "u32 \<Rightarrow> sys_token" where
  "sys_token_cr n = SysToken (1 + ucast (n AND 0xf))"

primrec sys_token_name :: "sys_token \<Rightarrow> string" where
  "sys_token_name (SysToken i) = (if unat i < length sysop_names then sysop_names ! unat i else [])"

lemmas sysop_row_defs =
  sysop_names_0_def sysop_names_1_def sysop_names_2_def sysop_names_3_def sysop_names_4_def sysop_names_5_def
  sysop_names_6_def sysop_names_7_def sysop_names_8_def sysop_names_9_def sysop_names_10_def
  sysop_names_11_def sysop_names_12_def sysop_names_13_def sysop_names_14_def sysop_names_15_def
  sysop_names_16_def sysop_names_17_def sysop_names_18_def sysop_names_19_def sysop_names_20_def
  sysop_names_21_def sysop_names_22_def sysop_names_23_def
lemmas sysop_block_defs = sysop_blocks_def sysop_row_defs

text \<open>The blocks only shorten the evaluation: an element of the flat table is found by dividing its index.\<close>

lemma nth_concat_blocks:
  assumes "list_all (\<lambda>b. length b = 16) (butlast bs)" "i < length (concat bs)" "list_all (\<lambda>b. length b \<le> 16) bs"
  shows "concat bs ! i = bs ! (i div 16) ! (i mod 16)"
  using assms
proof (induction bs arbitrary: i)
  case (Cons b bs)
  show ?case
  proof (cases "i < length b")
    case True
    have "length b \<le> 16" using Cons.prems(3) by simp
    then show ?thesis using True by (simp add: nth_append)
  next
    case False
    then have "bs \<noteq> []" using Cons.prems by auto
    then have "length b = 16" "list_all (\<lambda>b. length b = 16) (butlast bs)" "list_all (\<lambda>b. length b \<le> 16) bs"
      using Cons.prems by auto
    then show ?thesis
      using False Cons.prems(2) Cons.IH [of "i - 16"]
      by (simp add: nth_append div_if [of i] le_mod_geq)
  qed
qed simp

lemma length_sysop_names: "length sysop_names = 374"
  by (simp add: sysop_names_def sysop_block_defs)

lemma name_slot_Some: "name \<in> set ns \<Longrightarrow> \<exists>i. name_slot k ns name = Some (k + i) \<and> i < length ns \<and> ns ! i = name"
proof (induction ns arbitrary: k)
  case (Cons n ns)
  then show ?case
    by (cases "n = name") (force, use Cons.IH [of "k + 1"] Cons.prems in fastforce)
qed simp

lemma sys_token_name_of [simp]: "name \<in> set sysop_names \<Longrightarrow> sys_token_name (sys_token_of name) = name"
  using name_slot_Some [of name sysop_names 0] length_sysop_names
  by (auto simp: sys_token_of_def unat_of_nat)

section \<open>The alias directory\<close>

record sysins =
  s_op1 :: u8
  s_crn :: u8
  s_crm :: u8
  s_op2 :: u8
  s_read :: bool
  s_mnem :: mnemonic
  s_name :: string
  s_needs_rt :: bool
  s_kw_first :: bool

definition sysins_row ::
    "u8 \<Rightarrow> u8 \<Rightarrow> u8 \<Rightarrow> u8 \<Rightarrow> nat \<Rightarrow> mnemonic \<Rightarrow> string \<Rightarrow> bool \<Rightarrow> bool \<Rightarrow> sysins" where
  "sysins_row op1 crn crm op2 rd mnem name needs_rt kw_first =
     \<lparr>s_op1 = op1, s_crn = crn, s_crm = crm, s_op2 = op2, s_read = (rd \<noteq> 0), s_mnem = mnem, s_name = name,
      s_needs_rt = needs_rt, s_kw_first = kw_first\<rparr>"

definition sys_ins_rows_0 :: "sysins list" where
  "sys_ins_rows_0 =
    [sysins_row 0 7 1 0 0 M_Ic ''ialluis'' False True, sysins_row 0 7 5 0 0 M_Ic ''iallu'' False True,
     sysins_row 0 7 6 1 0 M_Dc ''ivac'' True True, sysins_row 0 7 6 2 0 M_Dc ''isw'' True True,
     sysins_row 0 7 6 3 0 M_Dc ''igvac'' True True, sysins_row 0 7 6 4 0 M_Dc ''igsw'' True True,
     sysins_row 0 7 6 5 0 M_Dc ''igdvac'' True True, sysins_row 0 7 6 6 0 M_Dc ''igdsw'' True True,
     sysins_row 0 7 8 0 0 M_At ''s1e1r'' True True, sysins_row 0 7 8 1 0 M_At ''s1e1w'' True True,
     sysins_row 0 7 8 2 0 M_At ''s1e0r'' True True, sysins_row 0 7 8 3 0 M_At ''s1e0w'' True True,
     sysins_row 0 7 9 0 0 M_At ''s1e1rp'' True True, sysins_row 0 7 9 1 0 M_At ''s1e1wp'' True True,
     sysins_row 0 7 9 2 0 M_At ''s1e1a'' True True, sysins_row 0 7 10 2 0 M_Dc ''csw'' True True]"

definition sys_ins_rows_1 :: "sysins list" where
  "sys_ins_rows_1 =
    [sysins_row 0 7 10 4 0 M_Dc ''cgsw'' True True, sysins_row 0 7 10 6 0 M_Dc ''cgdsw'' True True,
     sysins_row 0 7 14 2 0 M_Dc ''cisw'' True True, sysins_row 0 7 14 4 0 M_Dc ''cigsw'' True True,
     sysins_row 0 7 14 6 0 M_Dc ''cigdsw'' True True, sysins_row 0 7 15 1 0 M_Dc ''civaps'' True True,
     sysins_row 0 7 15 5 0 M_Dc ''cigdvaps'' True True, sysins_row 0 8 1 0 0 M_Tlbi ''vmalle1os'' False True,
     sysins_row 0 8 1 1 0 M_Tlbi ''vae1os'' True True, sysins_row 0 8 1 2 0 M_Tlbi ''aside1os'' True True,
     sysins_row 0 8 1 3 0 M_Tlbi ''vaae1os'' True True, sysins_row 0 8 1 5 0 M_Tlbi ''vale1os'' True True,
     sysins_row 0 8 1 7 0 M_Tlbi ''vaale1os'' True True, sysins_row 0 8 2 1 0 M_Tlbi ''rvae1is'' True True,
     sysins_row 0 8 2 3 0 M_Tlbi ''rvaae1is'' True True, sysins_row 0 8 2 5 0 M_Tlbi ''rvale1is'' True True]"

definition sys_ins_rows_2 :: "sysins list" where
  "sys_ins_rows_2 =
    [sysins_row 0 8 2 7 0 M_Tlbi ''rvaale1is'' True True, sysins_row 0 8 3 0 0 M_Tlbi ''vmalle1is'' False True,
     sysins_row 0 8 3 1 0 M_Tlbi ''vae1is'' True True, sysins_row 0 8 3 2 0 M_Tlbi ''aside1is'' True True,
     sysins_row 0 8 3 3 0 M_Tlbi ''vaae1is'' True True, sysins_row 0 8 3 5 0 M_Tlbi ''vale1is'' True True,
     sysins_row 0 8 3 7 0 M_Tlbi ''vaale1is'' True True, sysins_row 0 8 5 1 0 M_Tlbi ''rvae1os'' True True,
     sysins_row 0 8 5 3 0 M_Tlbi ''rvaae1os'' True True, sysins_row 0 8 5 5 0 M_Tlbi ''rvale1os'' True True,
     sysins_row 0 8 5 7 0 M_Tlbi ''rvaale1os'' True True, sysins_row 0 8 6 1 0 M_Tlbi ''rvae1'' True True,
     sysins_row 0 8 6 3 0 M_Tlbi ''rvaae1'' True True, sysins_row 0 8 6 5 0 M_Tlbi ''rvale1'' True True,
     sysins_row 0 8 6 7 0 M_Tlbi ''rvaale1'' True True, sysins_row 0 8 7 0 0 M_Tlbi ''vmalle1'' False True]"

definition sys_ins_rows_3 :: "sysins list" where
  "sys_ins_rows_3 =
    [sysins_row 0 8 7 1 0 M_Tlbi ''vae1'' True True, sysins_row 0 8 7 2 0 M_Tlbi ''aside1'' True True,
     sysins_row 0 8 7 3 0 M_Tlbi ''vaae1'' True True, sysins_row 0 8 7 5 0 M_Tlbi ''vale1'' True True,
     sysins_row 0 8 7 7 0 M_Tlbi ''vaale1'' True True, sysins_row 0 9 1 0 0 M_Tlbi ''vmalle1osnxs'' False True,
     sysins_row 0 9 1 1 0 M_Tlbi ''vae1osnxs'' True True, sysins_row 0 9 1 2 0 M_Tlbi ''aside1osnxs'' True True,
     sysins_row 0 9 1 3 0 M_Tlbi ''vaae1osnxs'' True True, sysins_row 0 9 1 5 0 M_Tlbi ''vale1osnxs'' True True,
     sysins_row 0 9 1 7 0 M_Tlbi ''vaale1osnxs'' True True, sysins_row 0 9 2 1 0 M_Tlbi ''rvae1isnxs'' True True,
     sysins_row 0 9 2 3 0 M_Tlbi ''rvaae1isnxs'' True True, sysins_row 0 9 2 5 0 M_Tlbi ''rvale1isnxs'' True True,
     sysins_row 0 9 2 7 0 M_Tlbi ''rvaale1isnxs'' True True,
     sysins_row 0 9 3 0 0 M_Tlbi ''vmalle1isnxs'' False True]"

definition sys_ins_rows_4 :: "sysins list" where
  "sys_ins_rows_4 =
    [sysins_row 0 9 3 1 0 M_Tlbi ''vae1isnxs'' True True, sysins_row 0 9 3 2 0 M_Tlbi ''aside1isnxs'' True True,
     sysins_row 0 9 3 3 0 M_Tlbi ''vaae1isnxs'' True True, sysins_row 0 9 3 5 0 M_Tlbi ''vale1isnxs'' True True,
     sysins_row 0 9 3 7 0 M_Tlbi ''vaale1isnxs'' True True, sysins_row 0 9 5 1 0 M_Tlbi ''rvae1osnxs'' True True,
     sysins_row 0 9 5 3 0 M_Tlbi ''rvaae1osnxs'' True True, sysins_row 0 9 5 5 0 M_Tlbi ''rvale1osnxs'' True True,
     sysins_row 0 9 5 7 0 M_Tlbi ''rvaale1osnxs'' True True, sysins_row 0 9 6 1 0 M_Tlbi ''rvae1nxs'' True True,
     sysins_row 0 9 6 3 0 M_Tlbi ''rvaae1nxs'' True True, sysins_row 0 9 6 5 0 M_Tlbi ''rvale1nxs'' True True,
     sysins_row 0 9 6 7 0 M_Tlbi ''rvaale1nxs'' True True, sysins_row 0 9 7 0 0 M_Tlbi ''vmalle1nxs'' False True,
     sysins_row 0 9 7 1 0 M_Tlbi ''vae1nxs'' True True, sysins_row 0 9 7 2 0 M_Tlbi ''aside1nxs'' True True]"

definition sys_ins_rows_5 :: "sysins list" where
  "sys_ins_rows_5 =
    [sysins_row 0 9 7 3 0 M_Tlbi ''vaae1nxs'' True True, sysins_row 0 9 7 5 0 M_Tlbi ''vale1nxs'' True True,
     sysins_row 0 9 7 7 0 M_Tlbi ''vaale1nxs'' True True, sysins_row 0 10 1 0 0 M_Plbi ''vmalle1os'' False True,
     sysins_row 0 10 1 1 0 M_Plbi ''perme1os'' True True, sysins_row 0 10 1 2 0 M_Plbi ''aside1os'' True True,
     sysins_row 0 10 1 3 0 M_Plbi ''permae1os'' True True, sysins_row 0 10 3 0 0 M_Plbi ''vmalle1is'' False True,
     sysins_row 0 10 3 1 0 M_Plbi ''perme1is'' True True, sysins_row 0 10 3 2 0 M_Plbi ''aside1is'' True True,
     sysins_row 0 10 3 3 0 M_Plbi ''permae1is'' True True, sysins_row 0 10 7 0 0 M_Plbi ''vmalle1'' False True,
     sysins_row 0 10 7 1 0 M_Plbi ''perme1'' True True, sysins_row 0 10 7 2 0 M_Plbi ''aside1'' True True,
     sysins_row 0 10 7 3 0 M_Plbi ''permae1'' True True, sysins_row 0 10 9 0 0 M_Plbi ''vmalle1osnxs'' False True]"

definition sys_ins_rows_6 :: "sysins list" where
  "sys_ins_rows_6 =
    [sysins_row 0 10 9 1 0 M_Plbi ''perme1osnxs'' True True,
     sysins_row 0 10 9 2 0 M_Plbi ''aside1osnxs'' True True,
     sysins_row 0 10 9 3 0 M_Plbi ''permae1osnxs'' True True,
     sysins_row 0 10 11 0 0 M_Plbi ''vmalle1isnxs'' False True,
     sysins_row 0 10 11 1 0 M_Plbi ''perme1isnxs'' True True,
     sysins_row 0 10 11 2 0 M_Plbi ''aside1isnxs'' True True,
     sysins_row 0 10 11 3 0 M_Plbi ''permae1isnxs'' True True,
     sysins_row 0 10 15 0 0 M_Plbi ''vmalle1nxs'' False True,
     sysins_row 0 10 15 1 0 M_Plbi ''perme1nxs'' True True, sysins_row 0 10 15 2 0 M_Plbi ''aside1nxs'' True True,
     sysins_row 0 10 15 3 0 M_Plbi ''permae1nxs'' True True, sysins_row 0 12 1 0 0 M_Gic ''cddis'' True True,
     sysins_row 0 12 1 1 0 M_Gic ''cden'' True True, sysins_row 0 12 1 2 0 M_Gic ''cdpri'' True True,
     sysins_row 0 12 1 3 0 M_Gic ''cdaff'' True True, sysins_row 0 12 1 4 0 M_Gic ''cdpend'' True True]"

definition sys_ins_rows_7 :: "sysins list" where
  "sys_ins_rows_7 =
    [sysins_row 0 12 1 5 0 M_Gic ''cdrcfg'' True True, sysins_row 0 12 1 7 0 M_Gic ''cdeoi'' False True,
     sysins_row 0 12 2 0 0 M_Gic ''cddi'' True True, sysins_row 0 12 2 1 0 M_Gic ''cdhm'' True True,
     sysins_row 0 12 3 0 1 M_Gicr ''cdia'' True False, sysins_row 0 12 3 1 1 M_Gicr ''cdnmia'' True False,
     sysins_row 3 7 2 7 0 M_Trcit [] True True, sysins_row 3 7 3 4 0 M_Cfp ''rctx'' True True,
     sysins_row 3 7 3 5 0 M_Dvp ''rctx'' True True, sysins_row 3 7 3 6 0 M_Cosp ''rctx'' True True,
     sysins_row 3 7 3 7 0 M_Cpp ''rctx'' True True, sysins_row 3 7 4 1 0 M_Dc ''zva'' True True,
     sysins_row 3 7 4 3 0 M_Dc ''gva'' True True, sysins_row 3 7 4 4 0 M_Dc ''gzva'' True True,
     sysins_row 3 7 4 5 0 M_Dc ''zgbva'' True True, sysins_row 3 7 4 7 0 M_Dc ''gbva'' True True]"

definition sys_ins_rows_8 :: "sysins list" where
  "sys_ins_rows_8 =
    [sysins_row 3 7 5 1 0 M_Ic ''ivau'' True True, sysins_row 3 7 10 1 0 M_Dc ''cvac'' True True,
     sysins_row 3 7 10 3 0 M_Dc ''cgvac'' True True, sysins_row 3 7 10 5 0 M_Dc ''cgdvac'' True True,
     sysins_row 3 7 11 0 0 M_Dc ''cvaoc'' True True, sysins_row 3 7 11 1 0 M_Dc ''cvau'' True True,
     sysins_row 3 7 11 7 0 M_Dc ''cgdvaoc'' True True, sysins_row 3 7 12 1 0 M_Dc ''cvap'' True True,
     sysins_row 3 7 12 3 0 M_Dc ''cgvap'' True True, sysins_row 3 7 12 5 0 M_Dc ''cgdvap'' True True,
     sysins_row 3 7 13 1 0 M_Dc ''cvadp'' True True, sysins_row 3 7 13 3 0 M_Dc ''cgvadp'' True True,
     sysins_row 3 7 13 5 0 M_Dc ''cgdvadp'' True True, sysins_row 3 7 14 1 0 M_Dc ''civac'' True True,
     sysins_row 3 7 14 3 0 M_Dc ''cigvac'' True True, sysins_row 3 7 14 5 0 M_Dc ''cigdvac'' True True]"

definition sys_ins_rows_9 :: "sysins list" where
  "sys_ins_rows_9 =
    [sysins_row 3 7 15 0 0 M_Dc ''civaoc'' True True, sysins_row 3 7 15 7 0 M_Dc ''cigdvaoc'' True True,
     sysins_row 4 7 0 4 0 M_Mlbi ''alle1'' False True, sysins_row 4 7 0 5 0 M_Mlbi ''vmalle1'' False True,
     sysins_row 4 7 0 6 0 M_Mlbi ''vpide1'' True True, sysins_row 4 7 0 7 0 M_Mlbi ''vpmge1'' True True,
     sysins_row 4 7 8 0 0 M_At ''s1e2r'' True True, sysins_row 4 7 8 1 0 M_At ''s1e2w'' True True,
     sysins_row 4 7 8 4 0 M_At ''s12e1r'' True True, sysins_row 4 7 8 5 0 M_At ''s12e1w'' True True,
     sysins_row 4 7 8 6 0 M_At ''s12e0r'' True True, sysins_row 4 7 8 7 0 M_At ''s12e0w'' True True,
     sysins_row 4 7 9 2 0 M_At ''s1e2a'' True True, sysins_row 4 7 14 0 0 M_Dc ''cipae'' True True,
     sysins_row 4 7 14 7 0 M_Dc ''cigdpae'' True True, sysins_row 4 8 0 1 0 M_Tlbi ''ipas2e1is'' True True]"

definition sys_ins_rows_10 :: "sysins list" where
  "sys_ins_rows_10 =
    [sysins_row 4 8 0 2 0 M_Tlbi ''ripas2e1is'' True True, sysins_row 4 8 0 5 0 M_Tlbi ''ipas2le1is'' True True,
     sysins_row 4 8 0 6 0 M_Tlbi ''ripas2le1is'' True True, sysins_row 4 8 1 0 0 M_Tlbi ''alle2os'' False True,
     sysins_row 4 8 1 1 0 M_Tlbi ''vae2os'' True True, sysins_row 4 8 1 4 0 M_Tlbi ''alle1os'' False True,
     sysins_row 4 8 1 5 0 M_Tlbi ''vale2os'' True True, sysins_row 4 8 1 6 0 M_Tlbi ''vmalls12e1os'' False True,
     sysins_row 4 8 2 1 0 M_Tlbi ''rvae2is'' True True, sysins_row 4 8 2 2 0 M_Tlbi ''vmallws2e1is'' False True,
     sysins_row 4 8 2 5 0 M_Tlbi ''rvale2is'' True True, sysins_row 4 8 3 0 0 M_Tlbi ''alle2is'' False True,
     sysins_row 4 8 3 1 0 M_Tlbi ''vae2is'' True True, sysins_row 4 8 3 4 0 M_Tlbi ''alle1is'' False True,
     sysins_row 4 8 3 5 0 M_Tlbi ''vale2is'' True True, sysins_row 4 8 3 6 0 M_Tlbi ''vmalls12e1is'' False True]"

definition sys_ins_rows_11 :: "sysins list" where
  "sys_ins_rows_11 =
    [sysins_row 4 8 4 0 0 M_Tlbi ''ipas2e1os'' True True, sysins_row 4 8 4 1 0 M_Tlbi ''ipas2e1'' True True,
     sysins_row 4 8 4 2 0 M_Tlbi ''ripas2e1'' True True, sysins_row 4 8 4 3 0 M_Tlbi ''ripas2e1os'' True True,
     sysins_row 4 8 4 4 0 M_Tlbi ''ipas2le1os'' True True, sysins_row 4 8 4 5 0 M_Tlbi ''ipas2le1'' True True,
     sysins_row 4 8 4 6 0 M_Tlbi ''ripas2le1'' True True, sysins_row 4 8 4 7 0 M_Tlbi ''ripas2le1os'' True True,
     sysins_row 4 8 5 1 0 M_Tlbi ''rvae2os'' True True, sysins_row 4 8 5 2 0 M_Tlbi ''vmallws2e1os'' False True,
     sysins_row 4 8 5 5 0 M_Tlbi ''rvale2os'' True True, sysins_row 4 8 6 1 0 M_Tlbi ''rvae2'' True True,
     sysins_row 4 8 6 2 0 M_Tlbi ''vmallws2e1'' False True, sysins_row 4 8 6 5 0 M_Tlbi ''rvale2'' True True,
     sysins_row 4 8 7 0 0 M_Tlbi ''alle2'' False True, sysins_row 4 8 7 1 0 M_Tlbi ''vae2'' True True]"

definition sys_ins_rows_12 :: "sysins list" where
  "sys_ins_rows_12 =
    [sysins_row 4 8 7 4 0 M_Tlbi ''alle1'' False True, sysins_row 4 8 7 5 0 M_Tlbi ''vale2'' True True,
     sysins_row 4 8 7 6 0 M_Tlbi ''vmalls12e1'' False True, sysins_row 4 9 0 1 0 M_Tlbi ''ipas2e1isnxs'' True True,
     sysins_row 4 9 0 2 0 M_Tlbi ''ripas2e1isnxs'' True True,
     sysins_row 4 9 0 5 0 M_Tlbi ''ipas2le1isnxs'' True True,
     sysins_row 4 9 0 6 0 M_Tlbi ''ripas2le1isnxs'' True True,
     sysins_row 4 9 1 0 0 M_Tlbi ''alle2osnxs'' False True, sysins_row 4 9 1 1 0 M_Tlbi ''vae2osnxs'' True True,
     sysins_row 4 9 1 4 0 M_Tlbi ''alle1osnxs'' False True, sysins_row 4 9 1 5 0 M_Tlbi ''vale2osnxs'' True True,
     sysins_row 4 9 1 6 0 M_Tlbi ''vmalls12e1osnxs'' False True,
     sysins_row 4 9 2 1 0 M_Tlbi ''rvae2isnxs'' True True,
     sysins_row 4 9 2 2 0 M_Tlbi ''vmallws2e1isnxs'' False True,
     sysins_row 4 9 2 5 0 M_Tlbi ''rvale2isnxs'' True True, sysins_row 4 9 3 0 0 M_Tlbi ''alle2isnxs'' False True]"

definition sys_ins_rows_13 :: "sysins list" where
  "sys_ins_rows_13 =
    [sysins_row 4 9 3 1 0 M_Tlbi ''vae2isnxs'' True True, sysins_row 4 9 3 4 0 M_Tlbi ''alle1isnxs'' False True,
     sysins_row 4 9 3 5 0 M_Tlbi ''vale2isnxs'' True True,
     sysins_row 4 9 3 6 0 M_Tlbi ''vmalls12e1isnxs'' False True,
     sysins_row 4 9 4 0 0 M_Tlbi ''ipas2e1osnxs'' True True, sysins_row 4 9 4 1 0 M_Tlbi ''ipas2e1nxs'' True True,
     sysins_row 4 9 4 2 0 M_Tlbi ''ripas2e1nxs'' True True,
     sysins_row 4 9 4 3 0 M_Tlbi ''ripas2e1osnxs'' True True,
     sysins_row 4 9 4 4 0 M_Tlbi ''ipas2le1osnxs'' True True,
     sysins_row 4 9 4 5 0 M_Tlbi ''ipas2le1nxs'' True True, sysins_row 4 9 4 6 0 M_Tlbi ''ripas2le1nxs'' True True,
     sysins_row 4 9 4 7 0 M_Tlbi ''ripas2le1osnxs'' True True,
     sysins_row 4 9 5 1 0 M_Tlbi ''rvae2osnxs'' True True,
     sysins_row 4 9 5 2 0 M_Tlbi ''vmallws2e1osnxs'' False True,
     sysins_row 4 9 5 5 0 M_Tlbi ''rvale2osnxs'' True True, sysins_row 4 9 6 1 0 M_Tlbi ''rvae2nxs'' True True]"

definition sys_ins_rows_14 :: "sysins list" where
  "sys_ins_rows_14 =
    [sysins_row 4 9 6 2 0 M_Tlbi ''vmallws2e1nxs'' False True, sysins_row 4 9 6 5 0 M_Tlbi ''rvale2nxs'' True True,
     sysins_row 4 9 7 0 0 M_Tlbi ''alle2nxs'' False True, sysins_row 4 9 7 1 0 M_Tlbi ''vae2nxs'' True True,
     sysins_row 4 9 7 4 0 M_Tlbi ''alle1nxs'' False True, sysins_row 4 9 7 5 0 M_Tlbi ''vale2nxs'' True True,
     sysins_row 4 9 7 6 0 M_Tlbi ''vmalls12e1nxs'' False True, sysins_row 4 10 1 0 0 M_Plbi ''alle2os'' False True,
     sysins_row 4 10 1 1 0 M_Plbi ''perme2os'' True True, sysins_row 4 10 1 4 0 M_Plbi ''alle1os'' False True,
     sysins_row 4 10 3 0 0 M_Plbi ''alle2is'' False True, sysins_row 4 10 3 1 0 M_Plbi ''perme2is'' True True,
     sysins_row 4 10 3 4 0 M_Plbi ''alle1is'' False True, sysins_row 4 10 7 0 0 M_Plbi ''alle2'' False True,
     sysins_row 4 10 7 1 0 M_Plbi ''perme2'' True True, sysins_row 4 10 7 4 0 M_Plbi ''alle1'' False True]"

definition sys_ins_rows_15 :: "sysins list" where
  "sys_ins_rows_15 =
    [sysins_row 4 10 9 0 0 M_Plbi ''alle2osnxs'' False True,
     sysins_row 4 10 9 1 0 M_Plbi ''perme2osnxs'' True True,
     sysins_row 4 10 9 4 0 M_Plbi ''alle1osnxs'' False True,
     sysins_row 4 10 11 0 0 M_Plbi ''alle2isnxs'' False True,
     sysins_row 4 10 11 1 0 M_Plbi ''perme2isnxs'' True True,
     sysins_row 4 10 11 4 0 M_Plbi ''alle1isnxs'' False True,
     sysins_row 4 10 15 0 0 M_Plbi ''alle2nxs'' False True, sysins_row 4 10 15 1 0 M_Plbi ''perme2nxs'' True True,
     sysins_row 4 10 15 4 0 M_Plbi ''alle1nxs'' False True, sysins_row 4 12 1 0 0 M_Gic ''vddis'' True True,
     sysins_row 4 12 1 1 0 M_Gic ''vden'' True True, sysins_row 4 12 1 2 0 M_Gic ''vdpri'' True True,
     sysins_row 4 12 1 3 0 M_Gic ''vdaff'' True True, sysins_row 4 12 1 4 0 M_Gic ''vdpend'' True True,
     sysins_row 4 12 1 5 0 M_Gic ''vdrcfg'' True True, sysins_row 4 12 2 0 0 M_Gic ''vddi'' True True]"

definition sys_ins_rows_16 :: "sysins list" where
  "sys_ins_rows_16 =
    [sysins_row 4 12 2 1 0 M_Gic ''vdhm'' True True, sysins_row 6 7 0 0 0 M_Apas [] True True,
     sysins_row 6 7 8 0 0 M_At ''s1e3r'' True True, sysins_row 6 7 8 1 0 M_At ''s1e3w'' True True,
     sysins_row 6 7 9 2 0 M_At ''s1e3a'' True True, sysins_row 6 7 14 1 0 M_Dc ''cipapa'' True True,
     sysins_row 6 7 14 5 0 M_Dc ''cigdpapa'' True True, sysins_row 6 8 1 0 0 M_Tlbi ''alle3os'' False True,
     sysins_row 6 8 1 1 0 M_Tlbi ''vae3os'' True True, sysins_row 6 8 1 4 0 M_Tlbi ''paallos'' False True,
     sysins_row 6 8 1 5 0 M_Tlbi ''vale3os'' True True, sysins_row 6 8 2 1 0 M_Tlbi ''rvae3is'' True True,
     sysins_row 6 8 2 5 0 M_Tlbi ''rvale3is'' True True, sysins_row 6 8 3 0 0 M_Tlbi ''alle3is'' False True,
     sysins_row 6 8 3 1 0 M_Tlbi ''vae3is'' True True, sysins_row 6 8 3 5 0 M_Tlbi ''vale3is'' True True]"

definition sys_ins_rows_17 :: "sysins list" where
  "sys_ins_rows_17 =
    [sysins_row 6 8 4 3 0 M_Tlbi ''rpaos'' True True, sysins_row 6 8 4 7 0 M_Tlbi ''rpalos'' True True,
     sysins_row 6 8 5 1 0 M_Tlbi ''rvae3os'' True True, sysins_row 6 8 5 5 0 M_Tlbi ''rvale3os'' True True,
     sysins_row 6 8 6 1 0 M_Tlbi ''rvae3'' True True, sysins_row 6 8 6 5 0 M_Tlbi ''rvale3'' True True,
     sysins_row 6 8 7 0 0 M_Tlbi ''alle3'' False True, sysins_row 6 8 7 1 0 M_Tlbi ''vae3'' True True,
     sysins_row 6 8 7 4 0 M_Tlbi ''paall'' False True, sysins_row 6 8 7 5 0 M_Tlbi ''vale3'' True True,
     sysins_row 6 9 1 0 0 M_Tlbi ''alle3osnxs'' False True, sysins_row 6 9 1 1 0 M_Tlbi ''vae3osnxs'' True True,
     sysins_row 6 9 1 4 0 M_Tlbi ''paallosnxs'' False True, sysins_row 6 9 1 5 0 M_Tlbi ''vale3osnxs'' True True,
     sysins_row 6 9 2 1 0 M_Tlbi ''rvae3isnxs'' True True, sysins_row 6 9 2 5 0 M_Tlbi ''rvale3isnxs'' True True]"

definition sys_ins_rows_18 :: "sysins list" where
  "sys_ins_rows_18 =
    [sysins_row 6 9 3 0 0 M_Tlbi ''alle3isnxs'' False True, sysins_row 6 9 3 1 0 M_Tlbi ''vae3isnxs'' True True,
     sysins_row 6 9 3 5 0 M_Tlbi ''vale3isnxs'' True True, sysins_row 6 9 4 3 0 M_Tlbi ''rpaosnxs'' True True,
     sysins_row 6 9 4 7 0 M_Tlbi ''rpalosnxs'' True True, sysins_row 6 9 5 1 0 M_Tlbi ''rvae3osnxs'' True True,
     sysins_row 6 9 5 5 0 M_Tlbi ''rvale3osnxs'' True True, sysins_row 6 9 6 1 0 M_Tlbi ''rvae3nxs'' True True,
     sysins_row 6 9 6 5 0 M_Tlbi ''rvale3nxs'' True True, sysins_row 6 9 7 0 0 M_Tlbi ''alle3nxs'' False True,
     sysins_row 6 9 7 1 0 M_Tlbi ''vae3nxs'' True True, sysins_row 6 9 7 4 0 M_Tlbi ''paallnxs'' False True,
     sysins_row 6 9 7 5 0 M_Tlbi ''vale3nxs'' True True, sysins_row 6 10 1 0 0 M_Plbi ''alle3os'' False True,
     sysins_row 6 10 1 1 0 M_Plbi ''perme3os'' True True, sysins_row 6 10 3 0 0 M_Plbi ''alle3is'' False True]"

definition sys_ins_rows_19 :: "sysins list" where
  "sys_ins_rows_19 =
    [sysins_row 6 10 3 1 0 M_Plbi ''perme3is'' True True, sysins_row 6 10 7 0 0 M_Plbi ''alle3'' False True,
     sysins_row 6 10 7 1 0 M_Plbi ''perme3'' True True, sysins_row 6 10 9 0 0 M_Plbi ''alle3osnxs'' False True,
     sysins_row 6 10 9 1 0 M_Plbi ''perme3osnxs'' True True,
     sysins_row 6 10 11 0 0 M_Plbi ''alle3isnxs'' False True,
     sysins_row 6 10 11 1 0 M_Plbi ''perme3isnxs'' True True,
     sysins_row 6 10 15 0 0 M_Plbi ''alle3nxs'' False True, sysins_row 6 10 15 1 0 M_Plbi ''perme3nxs'' True True,
     sysins_row 6 12 1 0 0 M_Gic ''lddis'' True True, sysins_row 6 12 1 1 0 M_Gic ''lden'' True True,
     sysins_row 6 12 1 2 0 M_Gic ''ldpri'' True True, sysins_row 6 12 1 3 0 M_Gic ''ldaff'' True True,
     sysins_row 6 12 1 4 0 M_Gic ''ldpend'' True True, sysins_row 6 12 1 5 0 M_Gic ''ldrcfg'' True True,
     sysins_row 6 12 2 0 0 M_Gic ''lddi'' True True]"

definition sys_ins_rows_20 :: "sysins list" where
  "sys_ins_rows_20 =
    [sysins_row 6 12 2 1 0 M_Gic ''ldhm'' True True, sysins_row 0 12 0 0 0 M_Gsb ''sys'' False True,
     sysins_row 0 12 0 1 0 M_Gsb ''ack'' False True, sysins_row 1 7 2 4 0 M_Brb ''iall'' False True,
     sysins_row 1 7 2 5 0 M_Brb ''inj'' False True]"


definition sys_ins_blocks :: "sysins list list" where
  "sys_ins_blocks =
    [sys_ins_rows_0, sys_ins_rows_1, sys_ins_rows_2, sys_ins_rows_3, sys_ins_rows_4, sys_ins_rows_5,
     sys_ins_rows_6, sys_ins_rows_7, sys_ins_rows_8, sys_ins_rows_9, sys_ins_rows_10, sys_ins_rows_11,
     sys_ins_rows_12, sys_ins_rows_13, sys_ins_rows_14, sys_ins_rows_15, sys_ins_rows_16, sys_ins_rows_17,
     sys_ins_rows_18, sys_ins_rows_19, sys_ins_rows_20]"

definition sys_ins_table :: "sysins list" where
  "sys_ins_table = concat sys_ins_blocks"

definition sysins_lookup :: "bool \<Rightarrow> u32 \<Rightarrow> u32 \<Rightarrow> u32 \<Rightarrow> u32 \<Rightarrow> sysins option" where
  "sysins_lookup rd op1 crn crm op2 =
     find (\<lambda>t. s_read t = rd \<and> s_op1 t = ucast op1 \<and> s_crn t = ucast crn \<and> s_crm t = ucast crm \<and> s_op2 t = ucast op2)
       sys_ins_table"

definition sysins_by_name :: "mnemonic \<Rightarrow> string \<Rightarrow> sysins option" where
  "sysins_by_name mnem name = find (\<lambda>t. s_mnem t = mnem \<and> s_name t = name) sys_ins_table"

section \<open>The directory is well-formed\<close>

lemma s_row_simps [simp]:
  "s_op1 (sysins_row a b c d r m n x k) = a" "s_crn (sysins_row a b c d r m n x k) = b"
  "s_crm (sysins_row a b c d r m n x k) = c" "s_op2 (sysins_row a b c d r m n x k) = d"
  "s_read (sysins_row a b c d r m n x k) = (r \<noteq> 0)" "s_mnem (sysins_row a b c d r m n x k) = m"
  "s_name (sysins_row a b c d r m n x k) = n" "s_needs_rt (sysins_row a b c d r m n x k) = x"
  "s_kw_first (sysins_row a b c d r m n x k) = k"
  by (simp_all add: sysins_row_def)

text \<open>The slot of each row's keyword in \<open>sysop_names\<close>.\<close>

definition sys_ins_slots :: "nat list" where
  "sys_ins_slots =
    [80, 81, 83, 84, 85, 86, 87, 88, 109, 110, 111, 112, 113, 114, 310, 89, 90, 91, 92, 93, 94, 197, 193, 355, 323,
     176, 315, 335, 319, 275, 263, 293, 269, 125, 126, 127, 128, 129, 130, 278, 266, 296, 272, 274, 262, 292, 268,
     131, 132, 133, 134, 135, 136, 356, 324, 177, 316, 336, 320, 276, 264, 294, 270, 353, 321, 174, 313, 333, 317,
     279, 267, 297, 273, 277, 265, 295, 271, 354, 322, 175, 314, 334, 318, 355, 232, 176, 226, 125, 229, 127, 223,
     131, 228, 133, 222, 356, 233, 177, 227, 353, 230, 174, 224, 354, 231, 175, 225, 180, 181, 187, 178, 186, 188,
     182, 179, 183, 184, 185, 0, 43, 43, 43, 43, 95, 200, 201, 369, 199, 82, 96, 97, 98, 198, 99, 189, 100, 101,
     102, 103, 104, 105, 106, 107, 108, 196, 192, 148, 131, 367, 368, 115, 116, 117, 118, 119, 120, 311, 194, 190,
     137, 247, 138, 253, 168, 327, 164, 339, 359, 281, 362, 299, 139, 140, 141, 142, 143, 204, 144, 246, 250, 208,
     145, 252, 256, 284, 365, 302, 280, 361, 298, 146, 147, 148, 149, 150, 202, 248, 206, 254, 169, 328, 165, 340,
     360, 282, 363, 300, 166, 325, 162, 337, 357, 205, 203, 249, 251, 209, 207, 255, 257, 285, 366, 303, 283, 364,
     301, 167, 326, 163, 338, 358, 168, 238, 164, 139, 235, 141, 146, 234, 148, 169, 239, 165, 166, 236, 162, 167,
     237, 163, 347, 348, 351, 345, 350, 352, 346, 349, 0, 121, 122, 312, 195, 191, 172, 331, 220, 343, 287, 305,
     151, 152, 153, 260, 258, 290, 308, 286, 304, 154, 155, 218, 156, 173, 332, 221, 344, 288, 306, 170, 329, 341,
     261, 259, 291, 309, 289, 307, 171, 330, 219, 342, 172, 244, 151, 241, 154, 240, 173, 245, 170, 242, 171, 243,
     212, 213, 216, 210, 215, 217, 211, 214, 370, 371, 372, 373]"

lemmas sys_ins_row_defs =
  sys_ins_rows_0_def sys_ins_rows_1_def sys_ins_rows_2_def sys_ins_rows_3_def sys_ins_rows_4_def
  sys_ins_rows_5_def sys_ins_rows_6_def sys_ins_rows_7_def sys_ins_rows_8_def sys_ins_rows_9_def
  sys_ins_rows_10_def sys_ins_rows_11_def sys_ins_rows_12_def sys_ins_rows_13_def sys_ins_rows_14_def
  sys_ins_rows_15_def sys_ins_rows_16_def sys_ins_rows_17_def sys_ins_rows_18_def sys_ins_rows_19_def
  sys_ins_rows_20_def
lemmas sys_ins_block_defs = sys_ins_blocks_def sys_ins_row_defs

lemma sysop_names_nth: "i < 374 \<Longrightarrow> sysop_names ! i = sysop_blocks ! (i div 16) ! (i mod 16)"
  using nth_concat_blocks [of sysop_blocks i] length_sysop_names
  by (simp add: sysop_names_def) (simp add: sysop_block_defs)

lemma length_sys_ins_table: "length sys_ins_table = 325"
  by (simp add: sys_ins_table_def sys_ins_block_defs)

lemma sys_ins_table_nth: "i < 325 \<Longrightarrow> sys_ins_table ! i = sys_ins_blocks ! (i div 16) ! (i mod 16)"
  using nth_concat_blocks [of sys_ins_blocks i] length_sys_ins_table
  by (simp add: sys_ins_table_def) (simp add: sys_ins_block_defs)

lemma sysop_block_nth:
  "sysop_blocks ! 0 = sysop_names_0"
  "sysop_blocks ! Suc 0 = sysop_names_1"
  "sysop_blocks ! 2 = sysop_names_2"
  "sysop_blocks ! 3 = sysop_names_3"
  "sysop_blocks ! 4 = sysop_names_4"
  "sysop_blocks ! 5 = sysop_names_5"
  "sysop_blocks ! 6 = sysop_names_6"
  "sysop_blocks ! 7 = sysop_names_7"
  "sysop_blocks ! 8 = sysop_names_8"
  "sysop_blocks ! 9 = sysop_names_9"
  "sysop_blocks ! 10 = sysop_names_10"
  "sysop_blocks ! 11 = sysop_names_11"
  "sysop_blocks ! 12 = sysop_names_12"
  "sysop_blocks ! 13 = sysop_names_13"
  "sysop_blocks ! 14 = sysop_names_14"
  "sysop_blocks ! 15 = sysop_names_15"
  "sysop_blocks ! 16 = sysop_names_16"
  "sysop_blocks ! 17 = sysop_names_17"
  "sysop_blocks ! 18 = sysop_names_18"
  "sysop_blocks ! 19 = sysop_names_19"
  "sysop_blocks ! 20 = sysop_names_20"
  "sysop_blocks ! 21 = sysop_names_21"
  "sysop_blocks ! 22 = sysop_names_22"
  "sysop_blocks ! 23 = sysop_names_23"
  by (simp_all add: sysop_blocks_def)

lemma sys_ins_block_nth:
  "sys_ins_blocks ! 0 = sys_ins_rows_0"
  "sys_ins_blocks ! Suc 0 = sys_ins_rows_1"
  "sys_ins_blocks ! 2 = sys_ins_rows_2"
  "sys_ins_blocks ! 3 = sys_ins_rows_3"
  "sys_ins_blocks ! 4 = sys_ins_rows_4"
  "sys_ins_blocks ! 5 = sys_ins_rows_5"
  "sys_ins_blocks ! 6 = sys_ins_rows_6"
  "sys_ins_blocks ! 7 = sys_ins_rows_7"
  "sys_ins_blocks ! 8 = sys_ins_rows_8"
  "sys_ins_blocks ! 9 = sys_ins_rows_9"
  "sys_ins_blocks ! 10 = sys_ins_rows_10"
  "sys_ins_blocks ! 11 = sys_ins_rows_11"
  "sys_ins_blocks ! 12 = sys_ins_rows_12"
  "sys_ins_blocks ! 13 = sys_ins_rows_13"
  "sys_ins_blocks ! 14 = sys_ins_rows_14"
  "sys_ins_blocks ! 15 = sys_ins_rows_15"
  "sys_ins_blocks ! 16 = sys_ins_rows_16"
  "sys_ins_blocks ! 17 = sys_ins_rows_17"
  "sys_ins_blocks ! 18 = sys_ins_rows_18"
  "sys_ins_blocks ! 19 = sys_ins_rows_19"
  "sys_ins_blocks ! 20 = sys_ins_rows_20"
  by (simp_all add: sys_ins_blocks_def)

lemma sys_ins_names: "list_all2 (\<lambda>t i. s_name t = sysop_names ! i) sys_ins_table sys_ins_slots"
  by (simp add: sys_ins_table_def sys_ins_block_defs sys_ins_slots_def sysop_names_nth sysop_block_nth sysop_row_defs)

lemma sys_ins_slots_bound: "list_all (\<lambda>i. i < 374) sys_ins_slots"
  by (simp add: sys_ins_slots_def)

lemma sys_ins_name_known: "t \<in> set sys_ins_table \<Longrightarrow> s_name t \<in> set sysop_names"
  using sys_ins_names sys_ins_slots_bound length_sysop_names
  by (auto simp: list_all2_conv_all_nth list_all_length in_set_conv_nth)

text \<open>The shape of each row: what the decoder prints for it and what the encoder reads back.\<close>

definition sysins_ok :: "sysins \<Rightarrow> bool" where
  "sysins_ok t \<longleftrightarrow>
     s_op1 t < 8 \<and> s_crn t < 16 \<and> s_crm t < 16 \<and> s_op2 t < 8 \<and>
     (s_read t \<longleftrightarrow> s_mnem t = M_Gicr) \<and> (s_kw_first t \<longleftrightarrow> s_mnem t \<noteq> M_Gicr) \<and>
     (s_name t = [] \<longleftrightarrow> s_mnem t = M_Apas \<or> s_mnem t = M_Trcit) \<and> (s_mnem t = M_Gicr \<longrightarrow> s_needs_rt t) \<and>
     s_mnem t \<notin> {M_Sys, M_Sysl, M_Sysp} \<and>
     (s_mnem t \<in> {M_Cfp, M_Cpp, M_Dvp} \<longrightarrow>
       s_op1 t = 3 \<and> s_crn t = 7 \<and> s_crm t = 3 \<and> s_op2 t \<in> {4, 5, 7} \<and> \<not> s_read t)"

lemma sys_ins_table_ok: "list_all sysins_ok sys_ins_table"
  by (simp add: sys_ins_table_def sys_ins_block_defs sysins_ok_def)

text \<open>No two rows share mnemonic and keyword: their numeric keys, read along a permutation of the rows, increase.\<close>

definition sysins_key :: "sysins \<Rightarrow> nat" where
  "sysins_key t = foldl (\<lambda>a c. a * 256 + of_char c) (mnemonic_disc (s_mnem t)) (s_name t)"

definition sys_ins_order :: "nat list" where
  "sys_ins_order =
    [257, 118, 15, 124, 3, 123, 322, 321, 324, 128, 16, 18, 129, 135, 133, 127, 125, 5, 2, 48, 191, 279, 119, 122,
     120, 114, 108, 115, 319, 314, 320, 255, 250, 256, 116, 121, 323, 1, 17, 130, 136, 19, 157, 141, 138, 132, 7,
     4, 126, 10, 11, 14, 8, 9, 156, 150, 151, 260, 258, 259, 192, 190, 278, 280, 272, 43, 187, 276, 50, 51, 193,
     281, 239, 237, 305, 110, 107, 113, 109, 316, 313, 315, 252, 249, 251, 146, 131, 137, 139, 20, 142, 261, 144,
     21, 6, 154, 155, 152, 153, 12, 13, 49, 273, 44, 45, 189, 277, 52, 34, 24, 172, 164, 270, 264, 93, 92, 238,
     306, 111, 112, 317, 318, 253, 254, 117, 148, 149, 0, 140, 134, 158, 143, 173, 165, 171, 163, 269, 263, 177,
     265, 46, 29, 39, 168, 184, 267, 274, 36, 26, 78, 227, 298, 37, 27, 174, 166, 271, 266, 47, 236, 233, 234, 231,
     303, 301, 94, 91, 147, 262, 145, 22, 228, 226, 297, 35, 25, 181, 299, 178, 291, 30, 40, 73, 223, 295, 31, 41,
     170, 186, 268, 275, 80, 38, 28, 81, 229, 300, 248, 246, 311, 89, 85, 88, 84, 235, 232, 304, 302, 79, 159, 176,
     182, 292, 74, 32, 42, 75, 225, 296, 82, 64, 54, 208, 200, 289, 283, 33, 23, 105, 90, 86, 104, 247, 312, 87,
     83, 209, 201, 207, 199, 288, 282, 213, 161, 180, 284, 160, 179, 76, 59, 69, 204, 220, 286, 293, 66, 56, 67,
     57, 210, 202, 290, 285, 77, 194, 188, 245, 242, 243, 240, 309, 307, 106, 103, 65, 55, 217, 214, 162, 183, 60,
     70, 61, 71, 206, 222, 287, 294, 68, 58, 101, 97, 100, 96, 244, 241, 310, 308, 195, 212, 218, 62, 72, 63, 53,
     175, 167, 169, 185, 102, 98, 99, 95, 197, 216, 196, 215, 230, 224, 198, 219, 211, 203, 205, 221]"

lemma sys_ins_order_sorted: "sorted_wrt (<) (map (\<lambda>i. sysins_key (sys_ins_table ! i)) sys_ins_order)"
  by (simp add: sys_ins_order_def sys_ins_table_nth sys_ins_block_nth sys_ins_row_defs sysins_key_def sorted_wrt2_simps del: sorted_wrt.simps)

lemma sys_ins_order_bound: "list_all (\<lambda>i. i < 325) sys_ins_order \<and> length sys_ins_order = 325"
  by (simp add: sys_ins_order_def)

lemma distinct_by_sorted_order:
  assumes "sorted_wrt (<) (map (\<lambda>i. (key (xs ! i) :: nat)) ord)" "list_all (\<lambda>i. i < n) ord" "length ord = n" "length xs = n"
  shows "distinct (map key xs)"
proof -
  have d: "distinct (map (\<lambda>i. key (xs ! i)) ord)" using assms(1) by (simp add: strict_sorted_iff)
  then have "distinct ord" by (simp add: distinct_map)
  moreover have "set ord \<subseteq> {..<n}" using assms(2) by (auto simp: list_all_iff)
  ultimately have "set ord = {..<n}" using assms(3) by (intro card_subset_eq) (auto simp: distinct_card)
  then have "inj_on (\<lambda>i. key (xs ! i)) {..<length xs}" using d assms(4) by (simp add: distinct_map)
  then show ?thesis by (auto simp: distinct_conv_nth inj_on_def)
qed

lemma sys_ins_keys_distinct: "distinct (map sysins_key sys_ins_table)"
  by (rule distinct_by_sorted_order [OF sys_ins_order_sorted])
    (use sys_ins_order_bound in \<open>simp_all add: length_sys_ins_table\<close>)

lemma sysins_by_name_self: "t \<in> set sys_ins_table \<Longrightarrow> sysins_by_name (s_mnem t) (s_name t) = Some t"
proof -
  assume t: "t \<in> set sys_ins_table"
  then have "sysins_by_name (s_mnem t) (s_name t) \<noteq> None" by (auto simp: sysins_by_name_def find_None_iff)
  then obtain u where u: "sysins_by_name (s_mnem t) (s_name t) = Some u" by auto
  then have "u \<in> set sys_ins_table" "s_mnem u = s_mnem t" "s_name u = s_name t"
    by (auto simp: sysins_by_name_def find_Some_iff)
  moreover from this have "sysins_key u = sysins_key t" by (simp add: sysins_key_def)
  ultimately have "u = t" using sys_ins_keys_distinct t by (meson distinct_map inj_onD)
  with u show ?thesis by simp
qed

lemma sysins_lookup_SomeD:
  assumes "sysins_lookup rd op1 crn crm op2 = Some t"
  shows "t \<in> set sys_ins_table" "sysins_ok t" "s_read t = rd" "s_op1 t = ucast op1" "s_crn t = ucast crn"
    "s_crm t = ucast crm" "s_op2 t = ucast op2" "sysins_by_name (s_mnem t) (s_name t) = Some t"
    "s_name t \<in> set sysop_names"
proof -
  show t: "t \<in> set sys_ins_table" and "s_read t = rd" "s_op1 t = ucast op1" "s_crn t = ucast crn"
    "s_crm t = ucast crm" "s_op2 t = ucast op2"
    using assms by (auto simp: sysins_lookup_def find_Some_iff)
  show "sysins_ok t" using t sys_ins_table_ok by (simp add: list_all_iff)
  show "sysins_by_name (s_mnem t) (s_name t) = Some t" using t by (rule sysins_by_name_self)
  show "s_name t \<in> set sysop_names" using t by (rule sys_ins_name_known)
qed

end
