(* ===== verification/System_Decode.thy ===== *)
theory System_Decode
  imports Branch_Decode Sys_Tables
begin

text \<open>
  The exception and system half of \<open>src/decode/branch_sys.rs\<close>, one definition per function, and the dispatcher
  \<open>decode\<close> of the file (\<open>decode_branch_sys\<close>).
\<close>

definition sysop :: "string \<Rightarrow> operand" where
  "sysop name = OpSysOp (sys_token_of name)"

abbreviation xreg :: "u32 \<Rightarrow> operand" where
  "xreg n \<equiv> gp_reg False X64 n"

section \<open>Exception generation\<close>

definition push_optional_imm :: "u32 \<Rightarrow> insn \<Rightarrow> insn" where
  "push_optional_imm imm16 out = (if imm16 \<noteq> 0 then push_operand (OpImmUnsigned (ucast imm16)) out else out)"

definition decode_exception :: "u32 \<Rightarrow> feature_set \<Rightarrow> insn \<Rightarrow> insn" where
  "decode_exception word features out =
     (let opc = bits word 21 3;
          imm16 = bits word 5 16;
          op2 = bits word 2 3;
          ll = bits word 0 2;
          imm = OpImmUnsigned (ucast imm16)
      in if op2 \<noteq> 0 then out
         else if (opc, ll) = (0b000, 0b01) then push_operand imm (insn_set C_Svc out)
         else if (opc, ll) = (0b000, 0b10) then push_operand imm (insn_set C_Hvc out)
         else if (opc, ll) = (0b000, 0b11) then push_operand imm (insn_set C_Smc out)
         else if (opc, ll) = (0b001, 0b00) then push_operand imm (insn_set C_Brk out)
         else if (opc, ll) = (0b010, 0b00) then push_operand imm (insn_set C_Hlt out)
         else if (opc, ll) = (0b011, 0b00) \<and> has features F_Tme then push_operand imm (insn_set C_Tcancel out)
         else if (opc, ll) = (0b111, 0b00) \<and> has features F_Tev then
           (if imm16 AND 0xEF80 = 0 then
              (let out = push_operand (OpImmUnsigned (ucast (imm16 AND 0x7f))) (insn_set C_Tenter out)
               in if imm16 AND 0x1000 \<noteq> 0 then push_operand (sysop ''nb'') out else out)
            else out)
         else if (opc, ll) = (0b101, 0b01) then push_optional_imm imm16 (insn_set C_Dcps1 out)
         else if (opc, ll) = (0b101, 0b10) then push_optional_imm imm16 (insn_set C_Dcps2 out)
         else if (opc, ll) = (0b101, 0b11) then push_optional_imm imm16 (insn_set C_Dcps3 out)
         else out)"

section \<open>Translation-table change\<close>

definition push_nb :: "bool \<Rightarrow> insn \<Rightarrow> insn" where
  "push_nb nb out = (if nb then push_operand (sysop ''nb'') out else out)"

definition decode_tchange :: "u32 \<Rightarrow> feature_set \<Rightarrow> insn \<Rightarrow> insn" where
  "decode_tchange word features out =
     (if \<not> has features F_Tchange then out
      else if bit_at word 21 \<noteq> 0 \<or> bit_at word 16 \<noteq> 0 \<or> bits word 12 4 \<noteq> 0 then out
      else
       let backward = (bit_at word 18 = 1);
           nb = (bit_at word 17 = 1);
           rt = bits word 0 5
       in if bits word 19 2 = 0b00 then
            (if bits word 10 2 \<noteq> 0 then out
             else push_nb nb (fold push_operand [xreg rt, xreg (bits word 5 5)]
                    (insn_set (if backward then C_TchangebReg else C_TchangefReg) out)))
          else if bits word 19 2 = 0b10 then
            push_nb nb (fold push_operand [xreg rt, OpImmUnsigned (ucast (bits word 5 7))]
              (insn_set (if backward then C_TchangebImm else C_TchangefImm) out))
          else out)"

section \<open>Moves to and from system registers\<close>

definition sysreg_of :: "u32 \<Rightarrow> u32 \<Rightarrow> u32 \<Rightarrow> u32 \<Rightarrow> u32 \<Rightarrow> system_reg" where
  "sysreg_of op0 op1 crn crm op2 = sysreg_from_fields (ucast op0) (ucast op1) (ucast crn) (ucast crm) (ucast op2)"

definition decode_sysreg_move :: "bool \<Rightarrow> u32 \<Rightarrow> u32 \<Rightarrow> u32 \<Rightarrow> u32 \<Rightarrow> u32 \<Rightarrow> u32 \<Rightarrow> insn \<Rightarrow> insn" where
  "decode_sysreg_move rd op0 op1 crn crm op2 rt out =
     (let sr = sysreg_of op0 op1 crn crm op2
      in if rd then fold push_operand [xreg rt, OpSysReg sr] (insn_set C_Mrs out)
         else fold push_operand [OpSysReg sr, xreg rt] (insn_set C_MsrReg out))"

section \<open>PSTATE\<close>

definition pstate_field_name :: "u32 \<Rightarrow> u32 \<Rightarrow> u32 \<Rightarrow> string option" where
  "pstate_field_name op1 op2 crm =
     (if (op1, op2) = (0b000, 0b011) then Some ''uao''
      else if (op1, op2) = (0b000, 0b101) then Some ''spsel''
      else if (op1, op2) = (0b011, 0b001) \<and> crm \<le> 1 then Some ''ssbs''
      else if (op1, op2) = (0b011, 0b010) then Some ''dit''
      else if (op1, op2) = (0b011, 0b100) then Some ''tco''
      else if (op1, op2) = (0b011, 0b110) then Some ''daifset''
      else if (op1, op2) = (0b011, 0b111) then Some ''daifclr''
      else if (op1, op2) = (0b001, 0b000) then Some ''allint''
      else None)"

definition decode_msr_imm :: "u32 \<Rightarrow> u32 \<Rightarrow> u32 \<Rightarrow> u32 \<Rightarrow> insn \<Rightarrow> insn" where
  "decode_msr_imm op1 op2 crm rt out =
     (if rt \<noteq> 0b11111 then out
      else if op1 = 0b011 \<and> op2 = 0b011 then
        (let is_start = (crm AND 0b0001 \<noteq> 0);
             sm = (crm AND 0b0010 \<noteq> 0);
             za = (crm AND 0b0100 \<noteq> 0);
             out = insn_set (if is_start then C_Smstart else C_Smstop) out
         in if sm \<and> \<not> za then push_operand (sysop ''sm'') out
            else if \<not> sm \<and> za then push_operand (sysop ''za'') out
            else out)
      else if op1 = 0b000 \<and> op2 = 0b000 then insn_set C_Cfinv out
      else if op1 = 0b000 \<and> op2 = 0b001 then insn_set C_Xaflag out
      else if op1 = 0b000 \<and> op2 = 0b010 then insn_set C_Axflag out
      else
       case pstate_field_name op1 op2 crm of
         Some field \<Rightarrow>
           fold push_operand [sysop field, OpImmUnsigned (ucast crm)] (set_alias M_Msr (insn_set C_MsrImm out))
       | None \<Rightarrow>
           fold push_operand [OpSysReg (sysreg_of 0 op1 0b0100 crm op2), xreg 0b11111] (insn_set C_MsrReg out))"

section \<open>Hints\<close>

definition set_pauth_hint :: "mnemonic \<Rightarrow> insn \<Rightarrow> insn" where
  "set_pauth_hint m out = set_alias m (insn_set C_HintGeneric out)"

definition set_generic_hint :: "u32 \<Rightarrow> insn \<Rightarrow> insn" where
  "set_generic_hint sel out = push_operand (OpImmUnsigned (ucast sel)) (insn_set C_HintGeneric out)"

text \<open>The PAuth aliases of the space, all gated on FEAT_PAuth (selector 7 is \<open>XPACLRI\<close>).\<close>

definition pauth_hint :: "u32 \<Rightarrow> mnemonic option" where
  "pauth_hint sel =
     map_of [(7, M_Xpaclri), (8, M_Pacia1716), (10, M_Pacib1716), (12, M_Autia1716), (14, M_Autib1716), (24, M_Paciaz),
             (25, M_Paciasp), (26, M_Pacibz), (27, M_Pacibsp), (28, M_Autiaz), (29, M_Autiasp), (30, M_Autibz),
             (31, M_Autibsp), (39, M_Pacm)] sel"

definition decode_pcdphint :: "u32 \<Rightarrow> insn \<Rightarrow> insn" where
  "decode_pcdphint op2 out =
     (if op2 = 0 then push_operand (sysop ''keep'') (insn_set C_Stshh out)
      else if op2 = 1 then push_operand (sysop ''strm'') (insn_set C_Stshh out)
      else if op2 = 2 then insn_set C_Shuh out
      else if op2 = 3 then push_operand (sysop ''ph'') (insn_set C_Shuh out)
      else if op2 = 4 then insn_set C_Stcph out
      else push_operand (OpImmUnsigned (ucast op2)) (insn_set C_Stshh out))"

definition decode_bti :: "u32 \<Rightarrow> insn \<Rightarrow> insn" where
  "decode_bti op2 out =
     (let out = insn_set C_Bti out
      in if op2 = 0b010 then push_operand (sysop ''c'') out
         else if op2 = 0b100 then push_operand (sysop ''j'') out
         else if op2 = 0b110 then push_operand (sysop ''jc'') out
         else out)"

definition decode_hint :: "feature_set \<Rightarrow> u32 \<Rightarrow> u32 \<Rightarrow> u32 \<Rightarrow> insn \<Rightarrow> insn" where
  "decode_hint features crm op2 rt out =
     (if rt \<noteq> 0b11111 then out
      else
       let sel = push_bit 3 crm OR op2;
           pauth = has features F_PAuth
       in if sel = 0 then insn_set C_Nop out
          else if sel = 1 then insn_set C_Yield out
          else if sel = 2 then insn_set C_Wfe out
          else if sel = 3 then insn_set C_Wfi out
          else if sel = 4 then insn_set C_Sev out
          else if sel = 5 then insn_set C_Sevl out
          else if sel = 6 \<and> has features F_Dgh then insn_set C_Dgh out
          else if sel = 16 then insn_set C_Esb out
          else if sel = 17 then push_operand (sysop ''csync'') (insn_set C_Psb out)
          else if sel = 18 then
            (if has features F_Trf then push_operand (sysop ''csync'') (insn_set C_Tsb out) else set_generic_hint sel out)
          else if sel = 19 \<and> has features F_Gcs then push_operand (sysop ''dsync'') (insn_set C_Gcsb out)
          else if sel = 20 then insn_set C_Csdb out
          else if sel = 22 \<and> has features F_Clrbhb then insn_set C_Clrbhb out
          else if pauth \<and> pauth_hint sel \<noteq> None then set_pauth_hint (the (pauth_hint sel)) out
          else if sel = 40 \<and> has features F_Chk then push_operand (xreg 16) (insn_set C_Chkfeat out)
          else if crm = 0b0110 \<and> has features F_Pcdphint then decode_pcdphint op2 out
          else if crm = 0b0100 \<and> op2 AND 0b001 = 0 then decode_bti op2 out
          else set_generic_hint sel out)"

section \<open>WFET and WFIT, barriers\<close>

definition decode_wfxt :: "feature_set \<Rightarrow> u32 \<Rightarrow> u32 \<Rightarrow> u32 \<Rightarrow> insn \<Rightarrow> insn" where
  "decode_wfxt features crm op2 rt out =
     (if crm \<noteq> 0 \<or> \<not> has features F_Wfxt then out
      else if op2 = 0b000 then push_operand (xreg rt) (insn_set C_Wfet out)
      else if op2 = 0b001 then push_operand (xreg rt) (insn_set C_Wfit out)
      else out)"

definition barrier_names :: "(u32 \<times> string) list" where
  "barrier_names =
     [(0b0001, ''oshld''), (0b0010, ''oshst''), (0b0011, ''osh''), (0b0101, ''nshld''), (0b0110, ''nshst''),
      (0b0111, ''nsh''), (0b1001, ''ishld''), (0b1010, ''ishst''), (0b1011, ''ish''), (0b1101, ''ld''),
      (0b1110, ''st''), (0b1111, ''sy'')]"

definition push_barrier_option :: "u32 \<Rightarrow> insn \<Rightarrow> insn" where
  "push_barrier_option crm out =
     (case map_of barrier_names crm of
        None \<Rightarrow> push_operand (OpImmUnsigned (ucast crm)) out
      | Some name \<Rightarrow> push_operand (sysop name) out)"

definition decode_barrier :: "feature_set \<Rightarrow> u32 \<Rightarrow> u32 \<Rightarrow> u32 \<Rightarrow> insn \<Rightarrow> insn" where
  "decode_barrier features crm op2 rt out =
     (if rt \<noteq> 0b11111 then out
      else if op2 = 0b001 then
        (if crm AND 0b0011 = 0b0010 \<and> has features F_Xs then
           (let sel = drop_bit 2 crm AND 0b11;
                name = (if sel = 0b00 then ''oshnxs'' else if sel = 0b01 then ''nshnxs''
                        else if sel = 0b10 then ''ishnxs'' else ''synxs'')
            in push_operand (sysop name) (insn_set C_Dsb out))
         else out)
      else if op2 = 0b010 then
        (let out = insn_set C_Clrex out
         in if crm \<noteq> 0b1111 then push_operand (OpImmUnsigned (ucast crm)) out else out)
      else if op2 = 0b011 \<and> crm = 0 then
        (if has features F_Tme then insn_set C_Tcommit out else out)
      else if op2 = 0b100 then
        (let out = insn_set C_Dsb out
         in if crm = 0b0000 then set_alias M_Ssbb out
            else if crm = 0b0100 then set_alias M_Pssbb out
            else push_barrier_option crm out)
      else if op2 = 0b101 then push_barrier_option crm (insn_set C_Dmb out)
      else if op2 = 0b110 then
        (let out = insn_set C_Isb out
         in if crm \<noteq> 0b1111 then push_operand (OpImmUnsigned (ucast crm)) out else out)
      else if op2 = 0b111 then insn_set C_Sb out
      else out)"

section \<open>System instructions with result\<close>

definition decode_systemresult :: "feature_set \<Rightarrow> u32 \<Rightarrow> u32 \<Rightarrow> u32 \<Rightarrow> u32 \<Rightarrow> u32 \<Rightarrow> insn \<Rightarrow> insn" where
  "decode_systemresult features op1 crn crm op2 rt out =
     (if \<not> has features F_Tme then out
      else if op1 \<noteq> 0b011 \<or> crn \<noteq> 0b0011 \<or> op2 \<noteq> 0b011 then out
      else if crm = 0 then push_operand (xreg rt) (insn_set C_Tstart out)
      else if crm = 1 then push_operand (xreg rt) (insn_set C_Ttest out)
      else out)"

section \<open>The \<open>op0 = 00\<close> space\<close>

definition decode_op0_00_named ::
    "feature_set \<Rightarrow> bool \<Rightarrow> u32 \<Rightarrow> u32 \<Rightarrow> u32 \<Rightarrow> u32 \<Rightarrow> u32 \<Rightarrow> insn \<Rightarrow> insn" where
  "decode_op0_00_named features rd op1 crn crm op2 rt out =
     (if rd then decode_systemresult features op1 crn crm op2 rt out
      else if crn = 0b0100 then decode_msr_imm op1 op2 crm rt out
      else if crn = 0b0010 then decode_hint features crm op2 rt out
      else if crn = 0b0011 then decode_barrier features crm op2 rt out
      else if crn = 0b0001 then decode_wfxt features crm op2 rt out
      else out)"

definition op0_00_unallocated :: "bool \<Rightarrow> u32 \<Rightarrow> u32 \<Rightarrow> u32 \<Rightarrow> u32 \<Rightarrow> u32 \<Rightarrow> bool" where
  "op0_00_unallocated rd op1 crn crm op2 rt \<longleftrightarrow>
     insn_is_invalid (decode_op0_00_named FeatureSet_ALL rd op1 crn crm op2 rt insn_default)"

definition decode_op0_00 :: "feature_set \<Rightarrow> bool \<Rightarrow> u32 \<Rightarrow> u32 \<Rightarrow> u32 \<Rightarrow> u32 \<Rightarrow> u32 \<Rightarrow> insn \<Rightarrow> insn" where
  "decode_op0_00 features rd op1 crn crm op2 rt out =
     (let out = decode_op0_00_named features rd op1 crn crm op2 rt out
      in if insn_is_invalid out \<and> op0_00_unallocated rd op1 crn crm op2 rt
         then decode_sysreg_move rd 0b00 op1 crn crm op2 rt out
         else out)"

section \<open>\<open>SYS\<close> and \<open>SYSL\<close>\<close>

definition gcs_rows :: "((bool \<times> u32 \<times> u32) \<times> code \<times> bool \<times> bool) list" where
  "gcs_rows =
     [((False, 0, 4), (C_Gcspushx, False, False)), ((False, 0, 5), (C_Gcspopcx, False, False)),
      ((False, 0, 6), (C_Gcspopx, False, False)), ((False, 3, 0), (C_Gcspushm, True, False)),
      ((False, 3, 2), (C_Gcsss1, True, False)), ((True, 3, 1), (C_Gcspopm, True, True)),
      ((True, 3, 3), (C_Gcsss2, True, False))]"

text \<open>\<open>None\<close> is the \<open>false\<close> of the source: not a GCS operation.\<close>

definition decode_gcs_sys :: "feature_set \<Rightarrow> u32 \<Rightarrow> u32 \<Rightarrow> u32 \<Rightarrow> u32 \<Rightarrow> u32 \<Rightarrow> bool \<Rightarrow> insn \<Rightarrow> insn option" where
  "decode_gcs_sys features op1 crn crm op2 rt rd out =
     (if crn \<noteq> 7 \<or> crm \<noteq> 7 \<or> \<not> has features F_Gcs then None
      else
       case map_of gcs_rows (rd, op1, op2) of
         None \<Rightarrow> None
       | Some (code, takes_rt, elide) \<Rightarrow>
           (let out = insn_set code out
            in Some (if takes_rt \<and> \<not> (elide \<and> rt = 0b11111) then push_operand (xreg rt) out else out)))"

definition rctx_mnemonic :: "bool \<Rightarrow> u32 \<Rightarrow> u32 \<Rightarrow> u32 \<Rightarrow> u32 \<Rightarrow> mnemonic option" where
  "rctx_mnemonic rd op1 crn crm op2 =
     (if \<not> rd \<and> crn = 7 \<and> crm = 3 \<and> op1 = 3 then
        (if op2 = 0b100 then Some M_Cfp
         else if op2 = 0b101 then Some M_Dvp
         else if op2 = 0b111 then Some M_Cpp
         else None)
      else None)"

definition push_sysins_operands :: "sysins \<Rightarrow> u32 \<Rightarrow> insn \<Rightarrow> insn" where
  "push_sysins_operands t rt out =
     (let out = (if s_name t \<noteq> [] \<and> s_kw_first t then push_operand (sysop (s_name t)) out else out);
          out = (if s_needs_rt t then push_operand (xreg rt) out else out)
      in if s_name t \<noteq> [] \<and> \<not> s_kw_first t then push_operand (sysop (s_name t)) out else out)"

definition decode_sys :: "feature_set \<Rightarrow> u32 \<Rightarrow> u32 \<Rightarrow> u32 \<Rightarrow> u32 \<Rightarrow> u32 \<Rightarrow> bool \<Rightarrow> insn \<Rightarrow> insn" where
  "decode_sys features op1 crn crm op2 rt rd out =
     (case rctx_mnemonic rd op1 crn crm op2 of
        Some m \<Rightarrow> fold push_operand [sysop ''rctx'', xreg rt] (set_alias m (insn_set C_Sys out))
      | None \<Rightarrow>
         (case decode_gcs_sys features op1 crn crm op2 rt rd out of
            Some out' \<Rightarrow> out'
          | None \<Rightarrow>
             (case sysins_lookup rd op1 crn crm op2 of
                Some t \<Rightarrow> push_sysins_operands t rt (set_alias (s_mnem t) (insn_set (if rd then C_Sysl else C_Sys) out))
              | None \<Rightarrow>
                 if rd then
                   fold push_operand
                     [xreg rt, OpImmUnsigned (ucast op1), OpSysOp (sys_token_cr crn), OpSysOp (sys_token_cr crm),
                      OpImmUnsigned (ucast op2)]
                     (insn_set C_Sysl out)
                 else
                   fold push_operand
                     [OpImmUnsigned (ucast op1), OpSysOp (sys_token_cr crn), OpSysOp (sys_token_cr crm),
                      OpImmUnsigned (ucast op2), xreg rt]
                     (insn_set C_Sys out))))"

section \<open>The system block\<close>

definition decode_system :: "u32 \<Rightarrow> feature_set \<Rightarrow> insn \<Rightarrow> insn" where
  "decode_system word features out =
     (let l = bit_at word 21;
          op0 = bits word 19 2;
          op1 = bits word 16 3;
          crn = bits word 12 4;
          crm = bits word 8 4;
          op2 = bits word 5 3;
          rt = bits word 0 5
      in if l = 0 then
           (if op0 = 0b00 then decode_op0_00 features False op1 crn crm op2 rt out
            else if op0 = 0b01 then decode_sys features op1 crn crm op2 rt False out
            else decode_sysreg_move False op0 op1 crn crm op2 rt out)
         else
           (if op0 = 0b00 then decode_op0_00 features True op1 crn crm op2 rt out
            else if op0 = 0b01 then decode_sys features op1 crn crm op2 rt True out
            else decode_sysreg_move True op0 op1 crn crm op2 rt out))"

section \<open>The FEAT_D128 pair block\<close>

definition reg_pair :: "u32 \<Rightarrow> operand option" where
  "reg_pair rt =
     (if rt AND 1 \<noteq> 0 then None
      else Some (OpRegPair (gp_register False X64 (ucast (rt AND 0x1f))) (gp_register False X64 (ucast ((rt + 1) AND 0x1f)))))"

definition reg_pair_or_zz :: "u32 \<Rightarrow> operand option" where
  "reg_pair_or_zz rt =
     (if rt = 0b11111 then Some (OpRegPair (gp_register False X64 31) (gp_register False X64 31)) else reg_pair rt)"

definition decode_sysp :: "u32 \<Rightarrow> u32 \<Rightarrow> u32 \<Rightarrow> u32 \<Rightarrow> u32 \<Rightarrow> insn \<Rightarrow> insn" where
  "decode_sysp op1 crn crm op2 rt out =
     (if rt AND 1 \<noteq> 0 \<and> rt \<noteq> 0b11111 then out
      else
       let generic =
             (let out =
                fold push_operand
                  [OpImmUnsigned (ucast op1), OpSysOp (sys_token_cr crn), OpSysOp (sys_token_cr crm),
                   OpImmUnsigned (ucast op2)]
                  (insn_set C_Sysp out)
              in if rt \<noteq> 0b11111 then (case reg_pair rt of Some pair \<Rightarrow> push_operand pair out | None \<Rightarrow> out) else out)
       in case sysins_lookup False op1 crn crm op2 of
            None \<Rightarrow> generic
          | Some t \<Rightarrow>
             if s_mnem t = M_Tlbi then
               (case reg_pair_or_zz rt of
                  Some pair \<Rightarrow> fold push_operand [sysop (s_name t), pair] (set_alias M_Tlbip (insn_set C_Sysp out))
                | None \<Rightarrow> out)
             else generic)"

definition decode_system_pair :: "u32 \<Rightarrow> feature_set \<Rightarrow> insn \<Rightarrow> insn" where
  "decode_system_pair word features out =
     (if \<not> has features F_D128 then out
      else
       let l = bit_at word 21;
           op0 = bits word 19 2;
           op1 = bits word 16 3;
           crn = bits word 12 4;
           crm = bits word 8 4;
           op2 = bits word 5 3;
           rt = bits word 0 5
       in if l = 0 \<and> op0 = 0b01 then decode_sysp op1 crn crm op2 rt out
          else if rt AND 1 \<noteq> 0 then out
          else
           case reg_pair rt of
             None \<Rightarrow> out
           | Some pair \<Rightarrow>
              let sr = sysreg_of op0 op1 crn crm op2
              in if l = 1 then fold push_operand [pair, OpSysReg sr] (insn_set C_Mrrs out)
                 else fold push_operand [OpSysReg sr, pair] (insn_set C_Msrr out))"

section \<open>The dispatcher\<close>

definition decode_branch_sys :: "u32 \<Rightarrow> u64 \<Rightarrow> feature_set \<Rightarrow> insn \<Rightarrow> insn" where
  "decode_branch_sys word ip features out =
     (let b25_31 = bits word 25 7
      in if b25_31 = 0b1101011 then decode_uncond_branch_reg word features out
         else if bits word 24 8 = 0b11010100 then decode_exception word features out
         else if bits word 22 10 = 0b1101010100 then decode_system word features out
         else if bits word 22 10 = 0b1101010101 then decode_system_pair word features out
         else if bits word 22 10 = 0b1101010110 then decode_tchange word features out
         else if b25_31 = 0b0101010 then decode_cond_branch word features out
         else if bits word 25 6 = 0b011010 then decode_compare_branch word ip out
         else if bits word 25 6 = 0b011011 then decode_test_branch word ip out
         else if bits word 25 6 = 0b111010 then decode_cmpbr word ip features out
         else if bits word 26 5 = 0b00101 then decode_uncond_branch_imm word ip out
         else out)"

end
