(* ===== verification/System_Encode.thy ===== *)
theory System_Encode
  imports Branch_Encode System_Decode
begin

text \<open>
  The exception and system half of \<open>src/encode/branch_sys.rs\<close>, its dispatcher \<open>encode\<close> (\<open>encode_branch_sys\<close>) and the
  set of codes \<open>is_branch_sys\<close> of \<open>src/encode/mod.rs\<close>.
\<close>
definition sysop_name :: "insn \<Rightarrow> nat \<Rightarrow> string encoded" where
  "sysop_name insn n = (case insn_op insn n of OpSysOp tok \<Rightarrow> Ok (sys_token_name tok) | _ \<Rightarrow> Err EncInvalidOperand)"

text \<open>\<open>str::parse::<u32>\<close>: an optional sign, then decimal digits that do not overflow.\<close>

primrec parse_digits :: "nat \<Rightarrow> string \<Rightarrow> nat option" where
  "parse_digits acc [] = Some acc"
| "parse_digits acc (c # cs) =
     (let d = of_char c :: nat
      in if 48 \<le> d \<and> d \<le> 57 then
           (let acc' = 10 * acc + (d - 48) in if acc' < 2 ^ 32 then parse_digits acc' cs else None)
         else None)"

definition parse_u32 :: "string \<Rightarrow> nat option" where
  "parse_u32 s =
     (case s of
        [] \<Rightarrow> None
      | c # cs \<Rightarrow> if c = CHR ''+'' then (if cs = [] then None else parse_digits 0 cs) else parse_digits 0 s)"

definition cr_num :: "insn \<Rightarrow> nat \<Rightarrow> u32 encoded" where
  "cr_num insn n =
     and_then (sysop_name insn n) (\<lambda>name.
       case name of
         [] \<Rightarrow> Err EncInvalidOperand
       | c # digits \<Rightarrow>
           if c = CHR ''c'' then ok_or EncInvalidOperand (map_option of_nat (parse_u32 digits)) else Err EncInvalidOperand)"

definition system_word :: "u32 \<Rightarrow> u32 \<Rightarrow> u32 \<Rightarrow> u32 \<Rightarrow> u32 \<Rightarrow> u32 \<Rightarrow> u32 \<Rightarrow> u32" where
  "system_word l op0 op1 crn crm op2 rt =
     push_bit 22 0b1101010100 OR push_bit 21 (l AND 0x1) OR push_bit 19 (op0 AND 0x3) OR push_bit 16 (op1 AND 0x7) OR
     push_bit 12 (crn AND 0xf) OR push_bit 8 (crm AND 0xf) OR push_bit 5 (op2 AND 0x7) OR (rt AND 0x1f)"

definition system_pair_word :: "u32 \<Rightarrow> u32 \<Rightarrow> u32 \<Rightarrow> u32 \<Rightarrow> u32 \<Rightarrow> u32 \<Rightarrow> u32 \<Rightarrow> u32" where
  "system_pair_word l op0 op1 crn crm op2 rt = system_word l op0 op1 crn crm op2 rt OR push_bit 22 1"

section \<open>Exceptions and translation-table change\<close>

definition enc_exception :: "insn \<Rightarrow> u32 encoded" where
  "enc_exception insn =
     (let code = i_code insn;
          (opc, ll) =
            (if code = C_Svc then (0b000, 0b01)
             else if code = C_Hvc then (0b000, 0b10)
             else if code = C_Smc then (0b000, 0b11)
             else if code = C_Brk then (0b001, 0b00)
             else if code = C_Hlt then (0b010, 0b00)
             else if code = C_Tcancel then (0b011, 0b00)
             else if code = C_Tenter then (0b111, 0b00)
             else if code = C_Dcps1 then (0b101, 0b01)
             else if code = C_Dcps2 then (0b101, 0b10)
             else (0b101, 0b11))
      in and_then
           (if code \<in> {C_Dcps1, C_Dcps2, C_Dcps3} \<and> i_op_count insn = 0 then Ok 0
            else if code = C_Tenter then
              and_then (imm_u insn 0) (\<lambda>v. Ok ((v AND 0x7f) OR (if i_op_count insn > 1 then 0x1000 else 0)))
            else imm_u insn 0)
           (\<lambda>imm16.
             if imm16 > 0xffff then Err EncInvalidImmediate
             else Ok (push_bit 24 0b11010100 OR push_bit 21 opc OR push_bit 5 (ucast imm16) OR ll)))"

definition enc_tchange :: "insn \<Rightarrow> u32 encoded" where
  "enc_tchange insn =
     (let base = push_bit 22 0b1101010110
      in and_then (reg_num insn 0) (\<lambda>rt.
         let b18 = (if i_code insn \<in> {C_TchangebReg, C_TchangebImm} then 1 else 0)
         in and_then
              (if i_code insn \<in> {C_TchangefReg, C_TchangebReg} then
                 and_then (reg_num insn 1) (\<lambda>xn. Ok (base OR push_bit 18 b18 OR push_bit 5 xn OR rt))
               else
                 and_then (imm_u insn 1) (\<lambda>imm.
                   if imm > 0x7f then Err EncInvalidImmediate
                   else Ok (base OR push_bit 19 0b10 OR push_bit 18 b18 OR push_bit 5 (ucast imm) OR rt)))
              (\<lambda>word.
                case insn_op insn 2 of
                  OpSysOp tok \<Rightarrow>
                    if sys_token_name tok = ''nb'' then Ok (word OR push_bit 17 1) else Err EncInvalidOperand
                | _ \<Rightarrow> Ok word)))"

section \<open>Hints, WFET and WFIT, barriers\<close>

definition pauth_hint_selectors :: "(mnemonic \<times> u32) list" where
  "pauth_hint_selectors =
     [(M_Xpaclri, 7), (M_Pacia1716, 8), (M_Pacib1716, 10), (M_Autia1716, 12), (M_Autib1716, 14), (M_Paciaz, 24),
      (M_Paciasp, 25), (M_Pacibz, 26), (M_Pacibsp, 27), (M_Autiaz, 28), (M_Autiasp, 29), (M_Autibz, 30),
      (M_Autibsp, 31), (M_Pacm, 39)]"

definition fixed_hint_selectors :: "(code \<times> u32) list" where
  "fixed_hint_selectors =
     [(C_Nop, 0), (C_Yield, 1), (C_Wfe, 2), (C_Wfi, 3), (C_Sev, 4), (C_Sevl, 5), (C_Dgh, 6), (C_Esb, 16), (C_Psb, 17),
      (C_Tsb, 18), (C_Gcsb, 19), (C_Csdb, 20), (C_Clrbhb, 22), (C_Pacm, 39), (C_Chkfeat, 40),
      (C_Stcph, push_bit 3 0b0110 OR 4)]"

definition hint_selector :: "insn \<Rightarrow> u32 encoded" where
  "hint_selector insn =
     (case map_of fixed_hint_selectors (i_code insn) of
        Some sel \<Rightarrow> Ok sel
      | None \<Rightarrow>
         if i_code insn = C_Shuh then
           (case insn_op insn 0 of
              OpNone \<Rightarrow> Ok (push_bit 3 0b0110 OR 2)
            | OpSysOp tok \<Rightarrow> if sys_token_name tok = ''ph'' then Ok (push_bit 3 0b0110 OR 3) else Err EncInvalidOperand
            | _ \<Rightarrow> Err EncInvalidOperand)
         else if i_code insn = C_Stshh then
           and_then
             (case insn_op insn 0 of
                OpSysOp tok \<Rightarrow>
                  if sys_token_name tok = ''keep'' then Ok 0
                  else if sys_token_name tok = ''strm'' then Ok 1
                  else Err EncInvalidOperand
              | OpImmUnsigned v \<Rightarrow> Ok (ucast v AND 0x7)
              | _ \<Rightarrow> Err EncInvalidOperand)
             (\<lambda>op2. Ok (push_bit 3 0b0110 OR op2))
         else if i_code insn = C_Bti then
           and_then
             (case insn_op insn 0 of
                OpNone \<Rightarrow> Ok 0
              | OpSysOp tok \<Rightarrow>
                  if sys_token_name tok = ''c'' then Ok 0b010
                  else if sys_token_name tok = ''j'' then Ok 0b100
                  else if sys_token_name tok = ''jc'' then Ok 0b110
                  else Err EncInvalidOperand
              | _ \<Rightarrow> Err EncInvalidOperand)
             (\<lambda>op2. Ok (push_bit 3 0b0100 OR op2))
         else if i_code insn = C_HintGeneric then
           (case map_of pauth_hint_selectors (i_mnemonic insn) of
              Some sel \<Rightarrow> Ok sel
            | None \<Rightarrow>
                if i_mnemonic insn = M_Hint then and_then (imm_u insn 0) (\<lambda>v. Ok (ucast v)) else Err EncInvalidOperand)
         else Err EncUnsupported)"

definition enc_hint :: "insn \<Rightarrow> u32 encoded" where
  "enc_hint insn =
     and_then (hint_selector insn) (\<lambda>sel.
       if sel > 0x7f then Err EncInvalidImmediate
       else
        let crm = drop_bit 3 sel AND 0xf;
            op2 = sel AND 0x7
        in Ok (system_word 0 0b00 0b011 0b0010 crm op2 0b11111))"

definition enc_wfxt :: "insn \<Rightarrow> u32 encoded" where
  "enc_wfxt insn =
     (let op2 = (if i_code insn = C_Wfit then 0b001 else 0b000)
      in and_then (reg_num insn 0) (\<lambda>rt. Ok (system_word 0 0b00 0b011 0b0001 0b0000 op2 rt)))"

definition dsb_nxs_imm2 :: "string \<Rightarrow> u32 option" where
  "dsb_nxs_imm2 name = map_of [(''oshnxs'', 0b00), (''nshnxs'', 0b01), (''ishnxs'', 0b10), (''synxs'', 0b11)] name"

definition barrier_option_crm :: "string \<Rightarrow> u32 option" where
  "barrier_option_crm name =
     map_of
       [(''oshld'', 0b0001), (''oshst'', 0b0010), (''osh'', 0b0011), (''nshld'', 0b0101), (''nshst'', 0b0110),
        (''nsh'', 0b0111), (''ishld'', 0b1001), (''ishst'', 0b1010), (''ish'', 0b1011), (''ld'', 0b1101),
        (''st'', 0b1110), (''sy'', 0b1111)] name"

definition barrier_crm :: "insn \<Rightarrow> u32 encoded" where
  "barrier_crm insn =
     (case insn_op insn 0 of
        OpSysOp tok \<Rightarrow> ok_or EncInvalidOperand (barrier_option_crm (sys_token_name tok))
      | OpImmUnsigned v \<Rightarrow> Ok (ucast v AND 0xf)
      | OpImmLogical v \<Rightarrow> Ok (ucast v AND 0xf)
      | OpImmSigned v \<Rightarrow> Ok (ucast v AND 0xf)
      | _ \<Rightarrow> Err EncInvalidOperand)"

text \<open>The early return of the \<open>nXS\<close> forms of \<open>DSB\<close>.\<close>

definition dsb_nxs :: "insn \<Rightarrow> u32 option" where
  "dsb_nxs insn = (case insn_op insn 0 of OpSysOp tok \<Rightarrow> dsb_nxs_imm2 (sys_token_name tok) | _ \<Rightarrow> None)"

definition default_imm :: "insn \<Rightarrow> u32 encoded" where
  "default_imm insn = (if i_op_count insn = 0 then Ok 0b1111 else and_then (imm_u insn 0) (\<lambda>v. Ok (ucast v)))"

definition enc_barrier :: "insn \<Rightarrow> u32 encoded" where
  "enc_barrier insn =
     (let word = (\<lambda>crm op2. system_word 0 0b00 0b011 0b0011 crm op2 0b11111)
      in if i_code insn = C_Clrex then and_then (default_imm insn) (\<lambda>crm. Ok (word (crm AND 0xf) 0b010))
         else if i_code insn = C_Tcommit then Ok (word 0b0000 0b011)
         else if i_code insn = C_Dsb then
           (case dsb_nxs insn of
              Some imm2 \<Rightarrow> Ok (word (push_bit 2 imm2 OR 0b10) 0b001)
            | None \<Rightarrow>
                and_then
                  (if i_mnemonic insn = M_Ssbb then Ok 0b0000
                   else if i_mnemonic insn = M_Pssbb then Ok 0b0100
                   else barrier_crm insn)
                  (\<lambda>crm. Ok (word crm 0b100)))
         else if i_code insn = C_Dmb then and_then (barrier_crm insn) (\<lambda>crm. Ok (word crm 0b101))
         else if i_code insn = C_Isb then and_then (default_imm insn) (\<lambda>crm. Ok (word (crm AND 0xf) 0b110))
         else if i_code insn = C_Sb then Ok (word 0b0000 0b111)
         else Err EncUnsupported)"

section \<open>PSTATE and system registers\<close>

definition pstate_field_fields :: "string \<Rightarrow> (u32 \<times> u32) option" where
  "pstate_field_fields name =
     map_of
       [(''uao'', 0b000, 0b011), (''spsel'', 0b000, 0b101), (''ssbs'', 0b011, 0b001), (''dit'', 0b011, 0b010),
        (''tco'', 0b011, 0b100), (''daifset'', 0b011, 0b110), (''daifclr'', 0b011, 0b111), (''allint'', 0b001, 0b000)]
       name"

definition enc_msr_imm :: "insn \<Rightarrow> u32 encoded" where
  "enc_msr_imm insn =
     and_then
       (if i_code insn = C_Cfinv then Ok (0b000, 0b000, 0)
        else if i_code insn = C_Xaflag then Ok (0b000, 0b001, 0)
        else if i_code insn = C_Axflag then Ok (0b000, 0b010, 0)
        else if i_code insn \<in> {C_Smstart, C_Smstop} then
          (let start = (if i_code insn = C_Smstart then 1 else 0)
           in and_then
                (case insn_op insn 0 of
                   OpNone \<Rightarrow> Ok (1, 1)
                 | OpSysOp tok \<Rightarrow>
                     if sys_token_name tok = ''sm'' then Ok (1, 0)
                     else if sys_token_name tok = ''za'' then Ok (0, 1)
                     else Err EncInvalidOperand
                 | _ \<Rightarrow> Err EncInvalidOperand)
                (\<lambda>(sm, za). Ok (0b011, 0b011, push_bit 2 za OR push_bit 1 sm OR start)))
        else if i_code insn = C_MsrImm then
          and_then (sysop_name insn 0) (\<lambda>field.
          and_then (ok_or EncInvalidOperand (pstate_field_fields field)) (\<lambda>(op1, op2).
          and_then (imm_u insn 1) (\<lambda>v. Ok (op1, op2, ucast v))))
        else Err EncUnsupported)
       (\<lambda>(op1, op2, crm).
         if crm > 0xf then Err EncInvalidImmediate
         else Ok (system_word 0 0b00 op1 0b0100 crm op2 0b11111))"

definition sysreg_at :: "insn \<Rightarrow> nat \<Rightarrow> system_reg encoded" where
  "sysreg_at insn n = (case insn_op insn n of OpSysReg sr \<Rightarrow> Ok sr | _ \<Rightarrow> Err EncInvalidOperand)"

definition enc_sysreg_move :: "insn \<Rightarrow> u32 encoded" where
  "enc_sysreg_move insn =
     (let rd = (i_code insn = C_Mrs);
          l = (if rd then 1 else 0)
      in and_then
           (if rd then and_then (reg_num insn 0) (\<lambda>rt. and_then (sysreg_at insn 1) (\<lambda>sr. Ok (sr, rt)))
            else and_then (sysreg_at insn 0) (\<lambda>sr. and_then (reg_num insn 1) (\<lambda>rt. Ok (sr, rt))))
           (\<lambda>(sr, rt).
             Ok (system_word l (ucast (sysreg_op0 sr)) (ucast (sysreg_op1 sr)) (ucast (sysreg_crn sr))
                   (ucast (sysreg_crm sr)) (ucast (sysreg_op2 sr)) rt)))"

section \<open>\<open>SYS\<close>, \<open>SYSL\<close> and the GCS operations\<close>

definition enc_sys_alias :: "insn \<Rightarrow> u32 encoded" where
  "enc_sys_alias insn =
     (let m = i_mnemonic insn;
          kw_slot = (if m = M_Gicr then 1 else 0)
      in and_then (if m \<in> {M_Apas, M_Trcit} then Ok [] else sysop_name insn kw_slot) (\<lambda>name.
         and_then (ok_or EncInvalidOperand (sysins_by_name m name)) (\<lambda>t.
         and_then
           (if s_needs_rt t then reg_num insn (if s_kw_first t \<and> s_name t \<noteq> [] then 1 else 0) else Ok 0b11111) (\<lambda>rt.
           Ok (system_word (if i_code insn = C_Sysl then 1 else 0) 0b01 (ucast (s_op1 t)) (ucast (s_crn t))
                 (ucast (s_crm t)) (ucast (s_op2 t)) rt)))))"

definition enc_sys :: "insn \<Rightarrow> u32 encoded" where
  "enc_sys insn =
     (if i_code insn = C_Sysl \<and> i_mnemonic insn = M_Sysl then
        and_then (reg_num insn 0) (\<lambda>rt.
        and_then (imm_u insn 1) (\<lambda>op1.
        and_then (cr_num insn 2) (\<lambda>crn.
        and_then (cr_num insn 3) (\<lambda>crm.
        and_then (imm_u insn 4) (\<lambda>op2.
          Ok (system_word 1 0b01 (ucast op1) crn crm (ucast op2) rt))))))
      else if i_mnemonic insn = M_Sys then
        and_then (imm_u insn 0) (\<lambda>op1.
        and_then (cr_num insn 1) (\<lambda>crn.
        and_then (cr_num insn 2) (\<lambda>crm.
        and_then (imm_u insn 3) (\<lambda>op2.
        and_then (if i_op_count insn \<ge> 5 then reg_num insn 4 else Ok 0b11111) (\<lambda>rt.
          Ok (system_word 0 0b01 (ucast op1) crn crm (ucast op2) rt))))))
      else if i_mnemonic insn \<in> {M_Cfp, M_Cpp, M_Dvp} then
        (let op2 = (if i_mnemonic insn = M_Cfp then 0b100 else if i_mnemonic insn = M_Dvp then 0b101 else 0b111)
         in and_then (reg_num insn 1) (\<lambda>rt. Ok (system_word 0 0b01 3 7 3 op2 rt)))
      else enc_sys_alias insn)"

definition gcs_enc_rows :: "(code \<times> u32 \<times> u32 \<times> u32 \<times> bool \<times> bool) list" where
  "gcs_enc_rows =
     [(C_Gcspushx, 0, 0, 4, False, False), (C_Gcspopcx, 0, 0, 5, False, False), (C_Gcspopx, 0, 0, 6, False, False),
      (C_Gcspushm, 0, 3, 0, True, False), (C_Gcsss1, 0, 3, 2, True, False), (C_Gcspopm, 1, 3, 1, True, True),
      (C_Gcsss2, 1, 3, 3, True, False)]"

definition enc_gcs_sys :: "insn \<Rightarrow> u32 encoded" where
  "enc_gcs_sys insn =
     and_then (ok_or EncUnsupported (map_of gcs_enc_rows (i_code insn))) (\<lambda>(rd, op1, op2, takes_rt, elide).
     and_then
       (if takes_rt then (if elide \<and> i_op_count insn = 0 then Ok 0b11111 else reg_num insn 0) else Ok 0b11111) (\<lambda>rt.
       Ok (system_word rd 0b01 op1 0b0111 0b0111 op2 rt)))"

definition enc_systemresult :: "insn \<Rightarrow> u32 encoded" where
  "enc_systemresult insn =
     (let crm = (if i_code insn = C_Ttest then 1 else 0)
      in and_then (reg_num insn 0) (\<lambda>rt. Ok (system_word 1 0b00 0b011 0b0011 crm 0b011 rt)))"

section \<open>The FEAT_D128 pair block and \<open>UDF\<close>\<close>

definition reg_pair_base :: "insn \<Rightarrow> nat \<Rightarrow> u32 encoded" where
  "reg_pair_base insn n =
     (case insn_op insn n of
        OpRegPair first second \<Rightarrow>
          (let lo = ucast (reg_number first);
               hi = ucast (reg_number second)
           in if lo = 31 \<and> hi = 31 then Ok 0b11111
              else if lo AND 1 \<noteq> 0 \<or> hi \<noteq> (lo + 1) AND 0x1f then Err EncInvalidOperand
              else Ok lo)
      | _ \<Rightarrow> Err EncInvalidOperand)"

definition enc_sysreg_pair :: "insn \<Rightarrow> u32 encoded" where
  "enc_sysreg_pair insn =
     (let rd = (i_code insn = C_Mrrs);
          l = (if rd then 1 else 0)
      in and_then
           (if rd then and_then (reg_pair_base insn 0) (\<lambda>rt. and_then (sysreg_at insn 1) (\<lambda>sr. Ok (sr, rt)))
            else and_then (sysreg_at insn 0) (\<lambda>sr. and_then (reg_pair_base insn 1) (\<lambda>rt. Ok (sr, rt))))
           (\<lambda>(sr, rt).
             Ok (system_pair_word l (ucast (sysreg_op0 sr)) (ucast (sysreg_op1 sr)) (ucast (sysreg_crn sr))
                   (ucast (sysreg_crm sr)) (ucast (sysreg_op2 sr)) rt)))"

definition enc_sysp :: "insn \<Rightarrow> u32 encoded" where
  "enc_sysp insn =
     (if i_mnemonic insn = M_Tlbip then
        and_then (sysop_name insn 0) (\<lambda>name.
        and_then (ok_or EncInvalidOperand (sysins_by_name M_Tlbi name)) (\<lambda>t.
        and_then (reg_pair_base insn 1) (\<lambda>rt.
          Ok (system_pair_word 0 0b01 (ucast (s_op1 t)) (ucast (s_crn t)) (ucast (s_crm t)) (ucast (s_op2 t)) rt))))
      else
        and_then (imm_u insn 0) (\<lambda>op1.
        and_then (cr_num insn 1) (\<lambda>crn.
        and_then (cr_num insn 2) (\<lambda>crm.
        and_then (imm_u insn 3) (\<lambda>op2.
        and_then (if i_op_count insn \<ge> 5 then reg_pair_base insn 4 else Ok 0b11111) (\<lambda>rt.
          Ok (system_pair_word 0 0b01 (ucast op1) crn crm (ucast op2) rt)))))))"

definition enc_udf :: "insn \<Rightarrow> u32 encoded" where
  "enc_udf insn =
     and_then (imm_u insn 0) (\<lambda>imm16. if imm16 > 0xffff then Err EncInvalidImmediate else Ok (ucast imm16))"

section \<open>The dispatcher\<close>

definition encode_branch_sys :: "insn \<Rightarrow> u32 encoded" where
  "encode_branch_sys insn =
     (let c = i_code insn
      in if c \<in> {C_BCond, C_BcCond} then enc_cond_branch insn
         else if c \<in> {C_Retaasppc, C_Retabsppc, C_Autiasppc, C_Autibsppc} then enc_pauth_lr_sppc insn
         else if c \<in> {C_BUncond, C_BlImm} then enc_uncond_branch_imm insn
         else if c \<in> {C_Cbz32, C_Cbz64, C_Cbnz32, C_Cbnz64} then enc_compare_branch insn
         else if c \<in> {C_Cbgt, C_Cbge, C_Cbhi, C_Cbhs, C_Cbeq, C_Cbne, C_Cblt, C_Cblo, C_Cbbgt, C_Cbbge, C_Cbbhi, C_Cbbhs,
                       C_Cbbeq, C_Cbbne, C_Cbhgt, C_Cbhge, C_Cbhhi, C_Cbhhs, C_Cbheq, C_Cbhne} then enc_cmpbr insn
         else if c \<in> {C_Tbz, C_Tbnz} then enc_test_branch insn
         else if c \<in> {C_Br, C_Blr, C_Ret, C_Eret, C_Drps, C_Braaz, C_Brabz, C_Blraaz, C_Blrabz, C_Braa, C_Brab, C_Blraa,
                       C_Blrab, C_Retaa, C_Retab, C_Eretaa, C_Eretab, C_Retaasppcr, C_Retabsppcr} then enc_branch_reg insn
         else if c \<in> {C_Svc, C_Hvc, C_Smc, C_Brk, C_Hlt, C_Tcancel, C_Tenter, C_Dcps1, C_Dcps2, C_Dcps3}
           then enc_exception insn
         else if c \<in> {C_Nop, C_Yield, C_Wfe, C_Wfi, C_Sev, C_Sevl, C_Esb, C_Psb, C_Csdb, C_Bti, C_Tsb, C_HintGeneric,
                       C_Gcsb, C_Shuh, C_Stshh, C_Stcph, C_Chkfeat, C_Dgh, C_Clrbhb, C_Pacm} then enc_hint insn
         else if c \<in> {C_Gcspushm, C_Gcspopm, C_Gcsss1, C_Gcsss2, C_Gcspushx, C_Gcspopx, C_Gcspopcx} then enc_gcs_sys insn
         else if c \<in> {C_Wfet, C_Wfit} then enc_wfxt insn
         else if c \<in> {C_Clrex, C_Dmb, C_Dsb, C_Isb, C_Sb, C_Tcommit} then enc_barrier insn
         else if c \<in> {C_MsrImm, C_Cfinv, C_Xaflag, C_Axflag, C_Smstart, C_Smstop} then enc_msr_imm insn
         else if c \<in> {C_MsrReg, C_Mrs} then enc_sysreg_move insn
         else if c \<in> {C_Sys, C_Sysl} then enc_sys insn
         else if c \<in> {C_Tstart, C_Ttest} then enc_systemresult insn
         else if c \<in> {C_Mrrs, C_Msrr} then enc_sysreg_pair insn
         else if c = C_Sysp then enc_sysp insn
         else if c \<in> {C_TchangefReg, C_TchangebReg, C_TchangefImm, C_TchangebImm} then enc_tchange insn
         else if c = C_Udf then enc_udf insn
         else Err EncUnsupported)"

definition is_branch_sys :: "code \<Rightarrow> bool" where
  "is_branch_sys code \<longleftrightarrow>
     code \<in> {C_BCond, C_BcCond, C_BUncond, C_BlImm, C_Retaasppc, C_Retabsppc, C_Autiasppc, C_Autibsppc, C_Cbz32, C_Cbz64,
             C_Cbnz32, C_Cbnz64, C_Tbz, C_Tbnz, C_Cbgt, C_Cbge, C_Cbhi, C_Cbhs, C_Cbeq, C_Cbne, C_Cblt, C_Cblo, C_Cbbgt,
             C_Cbbge, C_Cbbhi, C_Cbbhs, C_Cbbeq, C_Cbbne, C_Cbhgt, C_Cbhge, C_Cbhhi, C_Cbhhs, C_Cbheq, C_Cbhne, C_Br,
             C_Blr, C_Ret, C_Eret, C_Drps, C_Braaz, C_Brabz, C_Blraaz, C_Blrabz, C_Braa, C_Brab, C_Blraa, C_Blrab, C_Retaa,
             C_Retab, C_Eretaa, C_Eretab, C_Retaasppcr, C_Retabsppcr, C_Svc, C_Hvc, C_Smc, C_Brk, C_Hlt, C_Tcancel,
             C_Tenter, C_Dcps1, C_Dcps2, C_Dcps3, C_Nop, C_Yield, C_Wfe, C_Wfi, C_Sev, C_Sevl, C_Esb, C_Psb, C_Csdb, C_Bti,
             C_Tsb, C_HintGeneric, C_Gcsb, C_Shuh, C_Stshh, C_Stcph, C_Chkfeat, C_Dgh, C_Clrbhb, C_Pacm, C_Gcspushm,
             C_Gcspopm, C_Gcsss1, C_Gcsss2, C_Gcspushx, C_Gcspopx, C_Gcspopcx, C_Wfet, C_Wfit, C_Clrex, C_Dmb, C_Dsb, C_Isb,
             C_Sb, C_Tcommit, C_MsrImm, C_Cfinv, C_Xaflag, C_Axflag, C_Smstart, C_Smstop, C_MsrReg, C_Mrs, C_Sys, C_Sysl,
             C_Tstart, C_Ttest, C_Mrrs, C_Msrr, C_Sysp, C_TchangefReg, C_TchangebReg, C_TchangefImm, C_TchangebImm, C_Udf}"

end
