(* ===== verification/System_Exact.thy ===== *)
theory System_Exact
  imports Branch_Exact System_Encode
begin

text \<open>
  What the encoder makes of the system forms, class by class, on the fields the decoder reads.  Several named forms of
  the \<open>op0 = 00\<close> space ignore a field; for them the encoder returns the word with the canonical field.
\<close>

section \<open>Keywords\<close>

lemma known_keywords [simp]:
  "''nb'' \<in> set sysop_names" "''sm'' \<in> set sysop_names" "''za'' \<in> set sysop_names" "''uao'' \<in> set sysop_names"
  "''spsel'' \<in> set sysop_names" "''ssbs'' \<in> set sysop_names" "''dit'' \<in> set sysop_names" "''tco'' \<in> set sysop_names"
  "''daifset'' \<in> set sysop_names" "''daifclr'' \<in> set sysop_names" "''allint'' \<in> set sysop_names"
  "''keep'' \<in> set sysop_names" "''strm'' \<in> set sysop_names" "''ph'' \<in> set sysop_names" "''c'' \<in> set sysop_names"
  "''j'' \<in> set sysop_names" "''jc'' \<in> set sysop_names" "''csync'' \<in> set sysop_names" "''dsync'' \<in> set sysop_names"
  "''oshnxs'' \<in> set sysop_names" "''nshnxs'' \<in> set sysop_names" "''ishnxs'' \<in> set sysop_names" "''synxs'' \<in> set sysop_names"
  "''oshld'' \<in> set sysop_names" "''oshst'' \<in> set sysop_names" "''osh'' \<in> set sysop_names" "''nshld'' \<in> set sysop_names"
  "''nshst'' \<in> set sysop_names" "''nsh'' \<in> set sysop_names" "''ishld'' \<in> set sysop_names" "''ishst'' \<in> set sysop_names"
  "''ish'' \<in> set sysop_names" "''ld'' \<in> set sysop_names" "''st'' \<in> set sysop_names" "''sy'' \<in> set sysop_names"
  "''rctx'' \<in> set sysop_names"
  by (simp_all add: sysop_names_def sysop_block_defs)

text \<open>The \<open>cN\<close> tokens: the sixteen register keywords parse back to their number.\<close>

lemma cr_token_names:
  "sys_token_name (sys_token_cr 0) = ''c0''" "sys_token_name (sys_token_cr 1) = ''c1''"
  "sys_token_name (sys_token_cr 2) = ''c2''" "sys_token_name (sys_token_cr 3) = ''c3''"
  "sys_token_name (sys_token_cr 4) = ''c4''" "sys_token_name (sys_token_cr 5) = ''c5''"
  "sys_token_name (sys_token_cr 6) = ''c6''" "sys_token_name (sys_token_cr 7) = ''c7''"
  "sys_token_name (sys_token_cr 8) = ''c8''" "sys_token_name (sys_token_cr 9) = ''c9''"
  "sys_token_name (sys_token_cr 10) = ''c10''" "sys_token_name (sys_token_cr 11) = ''c11''"
  "sys_token_name (sys_token_cr 12) = ''c12''" "sys_token_name (sys_token_cr 13) = ''c13''"
  "sys_token_name (sys_token_cr 14) = ''c14''" "sys_token_name (sys_token_cr 15) = ''c15''"
  by (simp_all add: sys_token_cr_def length_sysop_names sysop_names_nth sysop_block_nth sysop_names_0_def sysop_names_1_def)

definition op_cr :: "operand \<Rightarrow> u32 encoded" where
  "op_cr op =
     and_then (case op of OpSysOp tok \<Rightarrow> Ok (sys_token_name tok) | _ \<Rightarrow> Err EncInvalidOperand) (\<lambda>name.
       case name of
         [] \<Rightarrow> Err EncInvalidOperand
       | c # digits \<Rightarrow>
           if c = CHR ''c'' then ok_or EncInvalidOperand (map_option of_nat (parse_u32 digits)) else Err EncInvalidOperand)"

lemma cr_num_op: "cr_num insn n = op_cr (insn_op insn n)"
  by (simp add: cr_num_def op_cr_def sysop_name_def)

lemma op_cr_token [simp]: "op_cr (OpSysOp (sys_token_cr (bits w l 4))) = Ok (bits w l 4)"
  using bits_4_cases [of w l]
  by (elim disjE) (simp_all add: op_cr_def cr_token_names parse_u32_def)

section \<open>The layout of a system word\<close>

lemma system_word_layout:
  assumes "bits w 22 10 = 0b1101010100"
  shows "system_word (bit_at w 21) (bits w 19 2) (bits w 16 3) (bits w 12 4) (bits w 8 4) (bits w 5 3) (bits w 0 5) = w"
  using bits_eqD [OF assms, of 0] bits_eqD [OF assms, of 1] bits_eqD [OF assms, of 2] bits_eqD [OF assms, of 3]
    bits_eqD [OF assms, of 4] bits_eqD [OF assms, of 5] bits_eqD [OF assms, of 6] bits_eqD [OF assms, of 7]
    bits_eqD [OF assms, of 8] bits_eqD [OF assms, of 9]
  by (simp add: system_word_def to_bits)

lemma system_word_fields:
  "bits (system_word l op0 op1 crn crm op2 rt) 22 10 = 0b1101010100"
  "bit_at (system_word l op0 op1 crn crm op2 rt) 21 = l AND 1"
  "bits (system_word l op0 op1 crn crm op2 rt) 19 2 = op0 AND 3"
  "bits (system_word l op0 op1 crn crm op2 rt) 16 3 = op1 AND 7"
  "bits (system_word l op0 op1 crn crm op2 rt) 12 4 = crn AND 0xf"
  "bits (system_word l op0 op1 crn crm op2 rt) 8 4 = crm AND 0xf"
  "bits (system_word l op0 op1 crn crm op2 rt) 5 3 = op2 AND 7"
  "bits (system_word l op0 op1 crn crm op2 rt) 0 5 = rt AND 0x1f"
  by (simp_all add: system_word_def to_bits)

lemma system_pair_word_layout:
  assumes "bits w 22 10 = 0b1101010101"
  shows "system_pair_word (bit_at w 21) (bits w 19 2) (bits w 16 3) (bits w 12 4) (bits w 8 4) (bits w 5 3) (bits w 0 5) = w"
  using bits_eqD [OF assms, of 0] bits_eqD [OF assms, of 1] bits_eqD [OF assms, of 2] bits_eqD [OF assms, of 3]
    bits_eqD [OF assms, of 4] bits_eqD [OF assms, of 5] bits_eqD [OF assms, of 6] bits_eqD [OF assms, of 7]
    bits_eqD [OF assms, of 8] bits_eqD [OF assms, of 9]
  by (simp add: system_pair_word_def system_word_def to_bits)


section \<open>The dispatcher, code by code\<close>

lemma encode_branch_sys_rows [simp]:
  "encode_branch_sys (built out C_BCond m ops) = enc_cond_branch (built out C_BCond m ops)"
  "encode_branch_sys (built out C_BcCond m ops) = enc_cond_branch (built out C_BcCond m ops)"
  "encode_branch_sys (built out C_Retaasppc m ops) = enc_pauth_lr_sppc (built out C_Retaasppc m ops)"
  "encode_branch_sys (built out C_Retabsppc m ops) = enc_pauth_lr_sppc (built out C_Retabsppc m ops)"
  "encode_branch_sys (built out C_Autiasppc m ops) = enc_pauth_lr_sppc (built out C_Autiasppc m ops)"
  "encode_branch_sys (built out C_Autibsppc m ops) = enc_pauth_lr_sppc (built out C_Autibsppc m ops)"
  "encode_branch_sys (built out C_BUncond m ops) = enc_uncond_branch_imm (built out C_BUncond m ops)"
  "encode_branch_sys (built out C_BlImm m ops) = enc_uncond_branch_imm (built out C_BlImm m ops)"
  "encode_branch_sys (built out C_Cbz32 m ops) = enc_compare_branch (built out C_Cbz32 m ops)"
  "encode_branch_sys (built out C_Cbz64 m ops) = enc_compare_branch (built out C_Cbz64 m ops)"
  "encode_branch_sys (built out C_Cbnz32 m ops) = enc_compare_branch (built out C_Cbnz32 m ops)"
  "encode_branch_sys (built out C_Cbnz64 m ops) = enc_compare_branch (built out C_Cbnz64 m ops)"
  "encode_branch_sys (built out C_Cbgt m ops) = enc_cmpbr (built out C_Cbgt m ops)"
  "encode_branch_sys (built out C_Cbge m ops) = enc_cmpbr (built out C_Cbge m ops)"
  "encode_branch_sys (built out C_Cbhi m ops) = enc_cmpbr (built out C_Cbhi m ops)"
  "encode_branch_sys (built out C_Cbhs m ops) = enc_cmpbr (built out C_Cbhs m ops)"
  "encode_branch_sys (built out C_Cbeq m ops) = enc_cmpbr (built out C_Cbeq m ops)"
  "encode_branch_sys (built out C_Cbne m ops) = enc_cmpbr (built out C_Cbne m ops)"
  "encode_branch_sys (built out C_Cblt m ops) = enc_cmpbr (built out C_Cblt m ops)"
  "encode_branch_sys (built out C_Cblo m ops) = enc_cmpbr (built out C_Cblo m ops)"
  "encode_branch_sys (built out C_Cbbgt m ops) = enc_cmpbr (built out C_Cbbgt m ops)"
  "encode_branch_sys (built out C_Cbbge m ops) = enc_cmpbr (built out C_Cbbge m ops)"
  "encode_branch_sys (built out C_Cbbhi m ops) = enc_cmpbr (built out C_Cbbhi m ops)"
  "encode_branch_sys (built out C_Cbbhs m ops) = enc_cmpbr (built out C_Cbbhs m ops)"
  "encode_branch_sys (built out C_Cbbeq m ops) = enc_cmpbr (built out C_Cbbeq m ops)"
  "encode_branch_sys (built out C_Cbbne m ops) = enc_cmpbr (built out C_Cbbne m ops)"
  "encode_branch_sys (built out C_Cbhgt m ops) = enc_cmpbr (built out C_Cbhgt m ops)"
  "encode_branch_sys (built out C_Cbhge m ops) = enc_cmpbr (built out C_Cbhge m ops)"
  "encode_branch_sys (built out C_Cbhhi m ops) = enc_cmpbr (built out C_Cbhhi m ops)"
  "encode_branch_sys (built out C_Cbhhs m ops) = enc_cmpbr (built out C_Cbhhs m ops)"
  "encode_branch_sys (built out C_Cbheq m ops) = enc_cmpbr (built out C_Cbheq m ops)"
  "encode_branch_sys (built out C_Cbhne m ops) = enc_cmpbr (built out C_Cbhne m ops)"
  "encode_branch_sys (built out C_Tbz m ops) = enc_test_branch (built out C_Tbz m ops)"
  "encode_branch_sys (built out C_Tbnz m ops) = enc_test_branch (built out C_Tbnz m ops)"
  "encode_branch_sys (built out C_Br m ops) = enc_branch_reg (built out C_Br m ops)"
  "encode_branch_sys (built out C_Blr m ops) = enc_branch_reg (built out C_Blr m ops)"
  "encode_branch_sys (built out C_Ret m ops) = enc_branch_reg (built out C_Ret m ops)"
  "encode_branch_sys (built out C_Eret m ops) = enc_branch_reg (built out C_Eret m ops)"
  "encode_branch_sys (built out C_Drps m ops) = enc_branch_reg (built out C_Drps m ops)"
  "encode_branch_sys (built out C_Braaz m ops) = enc_branch_reg (built out C_Braaz m ops)"
  "encode_branch_sys (built out C_Brabz m ops) = enc_branch_reg (built out C_Brabz m ops)"
  "encode_branch_sys (built out C_Blraaz m ops) = enc_branch_reg (built out C_Blraaz m ops)"
  "encode_branch_sys (built out C_Blrabz m ops) = enc_branch_reg (built out C_Blrabz m ops)"
  "encode_branch_sys (built out C_Braa m ops) = enc_branch_reg (built out C_Braa m ops)"
  "encode_branch_sys (built out C_Brab m ops) = enc_branch_reg (built out C_Brab m ops)"
  "encode_branch_sys (built out C_Blraa m ops) = enc_branch_reg (built out C_Blraa m ops)"
  "encode_branch_sys (built out C_Blrab m ops) = enc_branch_reg (built out C_Blrab m ops)"
  "encode_branch_sys (built out C_Retaa m ops) = enc_branch_reg (built out C_Retaa m ops)"
  "encode_branch_sys (built out C_Retab m ops) = enc_branch_reg (built out C_Retab m ops)"
  "encode_branch_sys (built out C_Eretaa m ops) = enc_branch_reg (built out C_Eretaa m ops)"
  "encode_branch_sys (built out C_Eretab m ops) = enc_branch_reg (built out C_Eretab m ops)"
  "encode_branch_sys (built out C_Retaasppcr m ops) = enc_branch_reg (built out C_Retaasppcr m ops)"
  "encode_branch_sys (built out C_Retabsppcr m ops) = enc_branch_reg (built out C_Retabsppcr m ops)"
  "encode_branch_sys (built out C_Svc m ops) = enc_exception (built out C_Svc m ops)"
  "encode_branch_sys (built out C_Hvc m ops) = enc_exception (built out C_Hvc m ops)"
  "encode_branch_sys (built out C_Smc m ops) = enc_exception (built out C_Smc m ops)"
  "encode_branch_sys (built out C_Brk m ops) = enc_exception (built out C_Brk m ops)"
  "encode_branch_sys (built out C_Hlt m ops) = enc_exception (built out C_Hlt m ops)"
  "encode_branch_sys (built out C_Tcancel m ops) = enc_exception (built out C_Tcancel m ops)"
  "encode_branch_sys (built out C_Tenter m ops) = enc_exception (built out C_Tenter m ops)"
  "encode_branch_sys (built out C_Dcps1 m ops) = enc_exception (built out C_Dcps1 m ops)"
  "encode_branch_sys (built out C_Dcps2 m ops) = enc_exception (built out C_Dcps2 m ops)"
  "encode_branch_sys (built out C_Dcps3 m ops) = enc_exception (built out C_Dcps3 m ops)"
  "encode_branch_sys (built out C_Nop m ops) = enc_hint (built out C_Nop m ops)"
  "encode_branch_sys (built out C_Yield m ops) = enc_hint (built out C_Yield m ops)"
  "encode_branch_sys (built out C_Wfe m ops) = enc_hint (built out C_Wfe m ops)"
  "encode_branch_sys (built out C_Wfi m ops) = enc_hint (built out C_Wfi m ops)"
  "encode_branch_sys (built out C_Sev m ops) = enc_hint (built out C_Sev m ops)"
  "encode_branch_sys (built out C_Sevl m ops) = enc_hint (built out C_Sevl m ops)"
  "encode_branch_sys (built out C_Esb m ops) = enc_hint (built out C_Esb m ops)"
  "encode_branch_sys (built out C_Psb m ops) = enc_hint (built out C_Psb m ops)"
  "encode_branch_sys (built out C_Csdb m ops) = enc_hint (built out C_Csdb m ops)"
  "encode_branch_sys (built out C_Bti m ops) = enc_hint (built out C_Bti m ops)"
  "encode_branch_sys (built out C_Tsb m ops) = enc_hint (built out C_Tsb m ops)"
  "encode_branch_sys (built out C_HintGeneric m ops) = enc_hint (built out C_HintGeneric m ops)"
  "encode_branch_sys (built out C_Gcsb m ops) = enc_hint (built out C_Gcsb m ops)"
  "encode_branch_sys (built out C_Shuh m ops) = enc_hint (built out C_Shuh m ops)"
  "encode_branch_sys (built out C_Stshh m ops) = enc_hint (built out C_Stshh m ops)"
  "encode_branch_sys (built out C_Stcph m ops) = enc_hint (built out C_Stcph m ops)"
  "encode_branch_sys (built out C_Chkfeat m ops) = enc_hint (built out C_Chkfeat m ops)"
  "encode_branch_sys (built out C_Dgh m ops) = enc_hint (built out C_Dgh m ops)"
  "encode_branch_sys (built out C_Clrbhb m ops) = enc_hint (built out C_Clrbhb m ops)"
  "encode_branch_sys (built out C_Pacm m ops) = enc_hint (built out C_Pacm m ops)"
  "encode_branch_sys (built out C_Gcspushm m ops) = enc_gcs_sys (built out C_Gcspushm m ops)"
  "encode_branch_sys (built out C_Gcspopm m ops) = enc_gcs_sys (built out C_Gcspopm m ops)"
  "encode_branch_sys (built out C_Gcsss1 m ops) = enc_gcs_sys (built out C_Gcsss1 m ops)"
  "encode_branch_sys (built out C_Gcsss2 m ops) = enc_gcs_sys (built out C_Gcsss2 m ops)"
  "encode_branch_sys (built out C_Gcspushx m ops) = enc_gcs_sys (built out C_Gcspushx m ops)"
  "encode_branch_sys (built out C_Gcspopx m ops) = enc_gcs_sys (built out C_Gcspopx m ops)"
  "encode_branch_sys (built out C_Gcspopcx m ops) = enc_gcs_sys (built out C_Gcspopcx m ops)"
  "encode_branch_sys (built out C_Wfet m ops) = enc_wfxt (built out C_Wfet m ops)"
  "encode_branch_sys (built out C_Wfit m ops) = enc_wfxt (built out C_Wfit m ops)"
  "encode_branch_sys (built out C_Clrex m ops) = enc_barrier (built out C_Clrex m ops)"
  "encode_branch_sys (built out C_Dmb m ops) = enc_barrier (built out C_Dmb m ops)"
  "encode_branch_sys (built out C_Dsb m ops) = enc_barrier (built out C_Dsb m ops)"
  "encode_branch_sys (built out C_Isb m ops) = enc_barrier (built out C_Isb m ops)"
  "encode_branch_sys (built out C_Sb m ops) = enc_barrier (built out C_Sb m ops)"
  "encode_branch_sys (built out C_Tcommit m ops) = enc_barrier (built out C_Tcommit m ops)"
  "encode_branch_sys (built out C_MsrImm m ops) = enc_msr_imm (built out C_MsrImm m ops)"
  "encode_branch_sys (built out C_Cfinv m ops) = enc_msr_imm (built out C_Cfinv m ops)"
  "encode_branch_sys (built out C_Xaflag m ops) = enc_msr_imm (built out C_Xaflag m ops)"
  "encode_branch_sys (built out C_Axflag m ops) = enc_msr_imm (built out C_Axflag m ops)"
  "encode_branch_sys (built out C_Smstart m ops) = enc_msr_imm (built out C_Smstart m ops)"
  "encode_branch_sys (built out C_Smstop m ops) = enc_msr_imm (built out C_Smstop m ops)"
  "encode_branch_sys (built out C_MsrReg m ops) = enc_sysreg_move (built out C_MsrReg m ops)"
  "encode_branch_sys (built out C_Mrs m ops) = enc_sysreg_move (built out C_Mrs m ops)"
  "encode_branch_sys (built out C_Sys m ops) = enc_sys (built out C_Sys m ops)"
  "encode_branch_sys (built out C_Sysl m ops) = enc_sys (built out C_Sysl m ops)"
  "encode_branch_sys (built out C_Tstart m ops) = enc_systemresult (built out C_Tstart m ops)"
  "encode_branch_sys (built out C_Ttest m ops) = enc_systemresult (built out C_Ttest m ops)"
  "encode_branch_sys (built out C_Mrrs m ops) = enc_sysreg_pair (built out C_Mrrs m ops)"
  "encode_branch_sys (built out C_Msrr m ops) = enc_sysreg_pair (built out C_Msrr m ops)"
  "encode_branch_sys (built out C_Sysp m ops) = enc_sysp (built out C_Sysp m ops)"
  "encode_branch_sys (built out C_TchangefReg m ops) = enc_tchange (built out C_TchangefReg m ops)"
  "encode_branch_sys (built out C_TchangebReg m ops) = enc_tchange (built out C_TchangebReg m ops)"
  "encode_branch_sys (built out C_TchangefImm m ops) = enc_tchange (built out C_TchangefImm m ops)"
  "encode_branch_sys (built out C_TchangebImm m ops) = enc_tchange (built out C_TchangebImm m ops)"
  "encode_branch_sys (built out C_Udf m ops) = enc_udf (built out C_Udf m ops)"
  by (simp_all add: encode_branch_sys_def)

lemma is_branch_sys_rows [simp]:
  "is_branch_sys C_BCond" "is_branch_sys C_BcCond" "is_branch_sys C_Retaasppc" "is_branch_sys C_Retabsppc"
  "is_branch_sys C_Autiasppc" "is_branch_sys C_Autibsppc" "is_branch_sys C_BUncond" "is_branch_sys C_BlImm"
  "is_branch_sys C_Cbz32" "is_branch_sys C_Cbz64" "is_branch_sys C_Cbnz32" "is_branch_sys C_Cbnz64"
  "is_branch_sys C_Cbgt" "is_branch_sys C_Cbge" "is_branch_sys C_Cbhi" "is_branch_sys C_Cbhs"
  "is_branch_sys C_Cbeq" "is_branch_sys C_Cbne" "is_branch_sys C_Cblt" "is_branch_sys C_Cblo"
  "is_branch_sys C_Cbbgt" "is_branch_sys C_Cbbge" "is_branch_sys C_Cbbhi" "is_branch_sys C_Cbbhs"
  "is_branch_sys C_Cbbeq" "is_branch_sys C_Cbbne" "is_branch_sys C_Cbhgt" "is_branch_sys C_Cbhge"
  "is_branch_sys C_Cbhhi" "is_branch_sys C_Cbhhs" "is_branch_sys C_Cbheq" "is_branch_sys C_Cbhne"
  "is_branch_sys C_Tbz" "is_branch_sys C_Tbnz" "is_branch_sys C_Br" "is_branch_sys C_Blr"
  "is_branch_sys C_Ret" "is_branch_sys C_Eret" "is_branch_sys C_Drps" "is_branch_sys C_Braaz"
  "is_branch_sys C_Brabz" "is_branch_sys C_Blraaz" "is_branch_sys C_Blrabz" "is_branch_sys C_Braa"
  "is_branch_sys C_Brab" "is_branch_sys C_Blraa" "is_branch_sys C_Blrab" "is_branch_sys C_Retaa"
  "is_branch_sys C_Retab" "is_branch_sys C_Eretaa" "is_branch_sys C_Eretab" "is_branch_sys C_Retaasppcr"
  "is_branch_sys C_Retabsppcr" "is_branch_sys C_Svc" "is_branch_sys C_Hvc" "is_branch_sys C_Smc"
  "is_branch_sys C_Brk" "is_branch_sys C_Hlt" "is_branch_sys C_Tcancel" "is_branch_sys C_Tenter"
  "is_branch_sys C_Dcps1" "is_branch_sys C_Dcps2" "is_branch_sys C_Dcps3" "is_branch_sys C_Nop"
  "is_branch_sys C_Yield" "is_branch_sys C_Wfe" "is_branch_sys C_Wfi" "is_branch_sys C_Sev"
  "is_branch_sys C_Sevl" "is_branch_sys C_Esb" "is_branch_sys C_Psb" "is_branch_sys C_Csdb"
  "is_branch_sys C_Bti" "is_branch_sys C_Tsb" "is_branch_sys C_HintGeneric" "is_branch_sys C_Gcsb"
  "is_branch_sys C_Shuh" "is_branch_sys C_Stshh" "is_branch_sys C_Stcph" "is_branch_sys C_Chkfeat"
  "is_branch_sys C_Dgh" "is_branch_sys C_Clrbhb" "is_branch_sys C_Pacm" "is_branch_sys C_Gcspushm"
  "is_branch_sys C_Gcspopm" "is_branch_sys C_Gcsss1" "is_branch_sys C_Gcsss2" "is_branch_sys C_Gcspushx"
  "is_branch_sys C_Gcspopx" "is_branch_sys C_Gcspopcx" "is_branch_sys C_Wfet" "is_branch_sys C_Wfit"
  "is_branch_sys C_Clrex" "is_branch_sys C_Dmb" "is_branch_sys C_Dsb" "is_branch_sys C_Isb"
  "is_branch_sys C_Sb" "is_branch_sys C_Tcommit" "is_branch_sys C_MsrImm" "is_branch_sys C_Cfinv"
  "is_branch_sys C_Xaflag" "is_branch_sys C_Axflag" "is_branch_sys C_Smstart" "is_branch_sys C_Smstop"
  "is_branch_sys C_MsrReg" "is_branch_sys C_Mrs" "is_branch_sys C_Sys" "is_branch_sys C_Sysl"
  "is_branch_sys C_Tstart" "is_branch_sys C_Ttest" "is_branch_sys C_Mrrs" "is_branch_sys C_Msrr"
  "is_branch_sys C_Sysp" "is_branch_sys C_TchangefReg" "is_branch_sys C_TchangebReg"
  "is_branch_sys C_TchangefImm" "is_branch_sys C_TchangebImm" "is_branch_sys C_Udf"
  by (simp_all add: is_branch_sys_def)

end
