(* ===== verification/System_Classes.thy ===== *)
theory System_Classes
  imports System_Exact
begin

text \<open>
  The encoder on what the decoder leaves, for each class of the exception and system space: hints, waits, barriers,
  PSTATE, moves, exceptions, \<open>TCHANGE\<close>, \<open>SYS\<close>/\<open>SYSL\<close> with the named aliases, and the FEAT_D128 pairs.  The words are
  given by \<open>system_word\<close> on the decoder's fields; where the decoder ignores a field, by its canonical value.
\<close>

section \<open>Hints\<close>

lemma hint_fields:
  "drop_bit 3 (push_bit 3 (bits w l 4) OR bits v k 3) AND 0xf = bits w l 4"
  "(push_bit 3 (bits w l 4) OR bits v k 3) AND 7 = bits v k 3"
  "\<not> 0x7f < push_bit 3 (bits w l 4) OR bits v k 3"
proof -
  let ?s = "push_bit 3 (bits w l 4) OR bits v k 3"
  show "drop_bit 3 ?s AND 0xf = bits w l 4" "?s AND 7 = bits v k 3" by (simp_all add: to_bits)
  have "?s AND mask 7 = ?s" by (simp add: to_bits)
  then have "?s \<le> mask 7" by (metis word_and_le1)
  then show "\<not> 0x7f < ?s" by (simp add: mask_eq_exp_minus_1)
qed

definition hint_word :: "u32 \<Rightarrow> u32" where
  "hint_word sel = system_word 0 0b00 0b011 0b0010 (drop_bit 3 sel AND 0xf) (sel AND 0x7) 0b11111"

lemma enc_hint_eq:
  "enc_hint insn = and_then (hint_selector insn) (\<lambda>sel. if sel > 0x7f then Err EncInvalidImmediate else Ok (hint_word sel))"
  unfolding enc_hint_def hint_word_def Let_def ..

lemma pauth_hint_row:
  "pauth_hint sel = Some m \<Longrightarrow> map_of pauth_hint_selectors m = Some sel"
  unfolding pauth_hint_def by (drule map_of_SomeD) (auto simp: pauth_hint_selectors_def)

lemma hint_selector_rows:
  "map_of fixed_hint_selectors c = Some sel \<Longrightarrow> hint_selector (built out c m ops) = Ok sel"
  "hint_selector (built out C_HintGeneric m ops) =
     (case map_of pauth_hint_selectors m of
        Some sel \<Rightarrow> Ok sel
      | None \<Rightarrow> if m = M_Hint then and_then (imm_u (built out C_HintGeneric m ops) 0) (\<lambda>v. Ok (ucast v)) else Err EncInvalidOperand)"
  by (simp_all add: hint_selector_def fixed_hint_selectors_def)

lemma no_pauth_generic: "map_of pauth_hint_selectors M_Hint = None"
  by (simp add: pauth_hint_selectors_def)

lemma fixed_hints:
  "map_of fixed_hint_selectors C_Nop = Some 0" "map_of fixed_hint_selectors C_Yield = Some 1"
  "map_of fixed_hint_selectors C_Wfe = Some 2" "map_of fixed_hint_selectors C_Wfi = Some 3"
  "map_of fixed_hint_selectors C_Sev = Some 4" "map_of fixed_hint_selectors C_Sevl = Some 5"
  "map_of fixed_hint_selectors C_Dgh = Some 6" "map_of fixed_hint_selectors C_Esb = Some 16"
  "map_of fixed_hint_selectors C_Psb = Some 17" "map_of fixed_hint_selectors C_Tsb = Some 18"
  "map_of fixed_hint_selectors C_Gcsb = Some 19" "map_of fixed_hint_selectors C_Csdb = Some 20"
  "map_of fixed_hint_selectors C_Clrbhb = Some 22" "map_of fixed_hint_selectors C_Chkfeat = Some 40"
  "map_of fixed_hint_selectors C_Stcph = Some 52"
  by (simp_all add: fixed_hint_selectors_def)

lemma enc_set_generic_hint:
  "\<not> 0x7f < sel \<Longrightarrow> encode_branch_sys (set_generic_hint sel out) = Ok (hint_word sel)"
  by (simp add: set_generic_hint_def enc_hint_eq hint_selector_rows no_pauth_generic imm_u_op ucast_field_u64)

lemma pcdphint_selector:
  "hint_selector (decode_pcdphint (bits v k 3) out) = Ok (push_bit 3 6 OR bits v k 3)"
  using bits_3_cases [of v k]
  by (elim disjE) (simp_all add: decode_pcdphint_def hint_selector_def fixed_hint_selectors_def sysop_def)

lemma bti_selector:
  "bits v k 3 AND 1 = 0 \<Longrightarrow> hint_selector (decode_bti (bits v k 3) out) = Ok (push_bit 3 4 OR bits v k 3)"
  using bits_3_cases [of v k]
  by (elim disjE) (simp_all add: decode_bti_def hint_selector_def fixed_hint_selectors_def sysop_def)

lemma agree_if: "(b \<Longrightarrow> f x = g x) \<Longrightarrow> (\<not> b \<Longrightarrow> f y = g y) \<Longrightarrow> f (if b then x else y) = g (if b then x else y)"
  by simp

lemma pcdphint_bti_enc:
  "encode_branch_sys (decode_pcdphint op2 out) = enc_hint (decode_pcdphint op2 out)"
  "encode_branch_sys (decode_bti op2 out) = enc_hint (decode_bti op2 out)"
  unfolding decode_pcdphint_def decode_bti_def Let_def
  apply (intro agree_if [where f = encode_branch_sys and g = enc_hint])
  apply simp_all
  done

lemma enc_if: "(b \<Longrightarrow> enc x = Ok w) \<Longrightarrow> (\<not> b \<Longrightarrow> enc y = Ok w) \<Longrightarrow> enc (if b then x else y) = Ok (w :: u32)"
  by simp

lemma enc_hint_back:
  "encode_branch_sys (decode_hint fs (bits w l 4) (bits v k 3) 31 out) = Ok (system_word 0 0 3 2 (bits w l 4) (bits v k 3) 31)"
proof -
  define sel where "sel = push_bit 3 (bits w l 4) OR bits v k 3"
  have w: "hint_word sel = system_word 0 0 3 2 (bits w l 4) (bits v k 3) 31" and b: "\<not> 0x7f < sel"
    using hint_fields [of w l v k] by (simp_all add: hint_word_def sel_def)
  have s: "bits w l 4 = c \<Longrightarrow> push_bit 3 c OR bits v k 3 = sel" for c by (simp add: sel_def)
  have p: "pauth_hint sel \<noteq> None \<Longrightarrow> encode_branch_sys (set_pauth_hint (the (pauth_hint sel)) out) = Ok (hint_word sel)"
  proof -
    assume "pauth_hint sel \<noteq> None"
    then obtain m where m: "pauth_hint sel = Some m" by blast
    show ?thesis using b by (simp add: m set_pauth_hint_def enc_hint_eq hint_selector_rows pauth_hint_row [OF m])
  qed
  have q: "bits w l 4 = 6 \<Longrightarrow> encode_branch_sys (decode_pcdphint (bits v k 3) out) = Ok (hint_word sel)"
    using b s by (simp add: pcdphint_bti_enc enc_hint_eq pcdphint_selector)
  have r: "bits w l 4 = 4 \<Longrightarrow> bits v k 3 AND 1 = 0 \<Longrightarrow> encode_branch_sys (decode_bti (bits v k 3) out) = Ok (hint_word sel)"
    using b s by (simp add: pcdphint_bti_enc enc_hint_eq bti_selector)
  have "encode_branch_sys (decode_hint fs (bits w l 4) (bits v k 3) 31 out) = Ok (hint_word sel)"
    unfolding decode_hint_def Let_def sel_def [symmetric]
    by (simp only: refl if_False not_True_eq_False, intro enc_if [where enc = encode_branch_sys],
      simp_all only: simp_thms b p q r enc_set_generic_hint,
      simp_all add: enc_hint_eq hint_selector_rows fixed_hints enc_set_generic_hint)
  with w show ?thesis by simp
qed

section \<open>Event waits, results and barriers\<close>

lemma encodes_wfxt:
  "encodes_to encode_branch_sys out (system_word 0 0 3 1 crm op2 (bits w l 5)) (decode_wfxt fs crm op2 (bits w l 5) out)"
  unfolding decode_wfxt_def Let_def
  by (intro encodes_split) (auto intro!: encodes_leaf simp: enc_wfxt_def enc_eval)

lemma encodes_systemresult:
  "encodes_to encode_branch_sys out (system_word 1 0 op1 crn crm op2 (bits w l 5)) (decode_systemresult fs op1 crn crm op2 (bits w l 5) out)"
  unfolding decode_systemresult_def Let_def
  by (intro encodes_split) (auto intro!: encodes_leaf simp: enc_systemresult_def enc_eval)

lemma push_barrier_option_back:
  "barrier_crm (push_barrier_option (bits v k 4) (built out c m [])) = Ok (bits v k 4)"
  "dsb_nxs (push_barrier_option (bits v k 4) (built out c m [])) = None"
  "i_mnemonic (push_barrier_option (bits v k 4) (built out c m [])) = m"
  "i_code (push_barrier_option (bits v k 4) (built out c m [])) = c"
  using bits_4_cases [of v k]
  by (elim disjE; simp add: push_barrier_option_def barrier_names_def barrier_crm_def barrier_option_crm_def dsb_nxs_def
    dsb_nxs_imm2_def sysop_def)+

lemma encode_push_barrier_option:
  "encode_branch_sys (push_barrier_option (bits v k 4) (built out C_Dsb M_Dsb [])) = Ok (system_word 0 0 3 3 (bits v k 4) 4 31)"
  "encode_branch_sys (push_barrier_option (bits v k 4) (built out C_Dmb m [])) = Ok (system_word 0 0 3 3 (bits v k 4) 5 31)"
  by (simp_all add: encode_branch_sys_def Let_def enc_barrier_def push_barrier_option_back)

definition nxs_name :: "u32 \<Rightarrow> string" where
  "nxs_name sel = (if sel = 0b00 then ''oshnxs'' else if sel = 0b01 then ''nshnxs'' else if sel = 0b10 then ''ishnxs'' else ''synxs'')"

lemma enc_barrier_rows:
  "enc_barrier (built out C_Clrex m ops) = and_then (default_imm (built out C_Clrex m ops)) (\<lambda>crm. Ok (system_word 0 0 3 3 (crm AND 15) 2 31))"
  "enc_barrier (built out C_Isb m ops) = and_then (default_imm (built out C_Isb m ops)) (\<lambda>crm. Ok (system_word 0 0 3 3 (crm AND 15) 6 31))"
  "enc_barrier (built out C_Tcommit m ops) = Ok (system_word 0 0 3 3 0 3 31)"
  "enc_barrier (built out C_Sb m ops) = Ok (system_word 0 0 3 3 0 7 31)"
  "enc_barrier (built out C_Dsb M_Ssbb []) = Ok (system_word 0 0 3 3 0 4 31)"
  "enc_barrier (built out C_Dsb M_Pssbb []) = Ok (system_word 0 0 3 3 4 4 31)"
  by (simp_all add: enc_barrier_def Let_def dsb_nxs_def)

lemma enc_nxs:
  "bits v k 4 AND 3 = 2 \<Longrightarrow>
   enc_barrier (built out C_Dsb M_Dsb [sysop (nxs_name (drop_bit 2 (bits v k 4) AND 3))]) = Ok (system_word 0 0 3 3 (bits v k 4) 1 31)"
  using bits_4_cases [of v k]
  by (elim disjE) (simp_all add: enc_barrier_def dsb_nxs_def dsb_nxs_imm2_def sysop_def nxs_name_def)

lemma bits_and [simp]: "bits v k 3 AND 7 = bits v k 3" "bits v k 4 AND 15 = bits v k 4" "bits v k 5 AND 31 = bits v k 5" "bits v k 2 AND 3 = bits v k 2"
  using bits_mask [of v k 3] bits_mask [of v k 4] bits_mask [of v k 5] bits_mask [of v k 2] by (simp_all add: mask_eq_exp_minus_1)

lemma encodes_barrier:
  "encodes_to encode_branch_sys out (system_word 0 0 3 3 (if op2 = 7 then 0 else bits v k 4) op2 31)
     (decode_barrier fs (bits v k 4) op2 31 out)"
  unfolding decode_barrier_def Let_def nxs_name_def [symmetric]
  by (intro encodes_split)
    (auto intro!: encodes_leaf simp: enc_barrier_rows enc_eval encode_push_barrier_option enc_nxs default_imm_def)

section \<open>System registers and PSTATE\<close>

lemma sysreg_of_back:
  "ucast (sysreg_op0 (sysreg_of (bits w a 2) op1 crn crm op2)) = bits w a 2"
  "ucast (sysreg_op1 (sysreg_of op0 (bits w b 3) crn crm op2)) = bits w b 3"
  "ucast (sysreg_crn (sysreg_of op0 op1 (bits w c 4) crm op2)) = bits w c 4"
  "ucast (sysreg_crm (sysreg_of op0 op1 crn (bits w d 4) op2)) = bits w d 4"
  "ucast (sysreg_op2 (sysreg_of op0 op1 crn crm (bits w e 3))) = bits w e 3"
  unfolding sysreg_of_def sysreg_fields_from_fields
  by (rule bit_word_eqI; auto simp: bit_simps bit_bits)+

lemma sysreg_of_const:
  "sysreg_op0 (sysreg_of 0 op1 crn crm op2) = 0" "sysreg_crn (sysreg_of op0 op1 4 crm op2) = 4"
  by (simp_all add: sysreg_of_def sysreg_fields_from_fields)

lemma encodes_sysreg_move:
  "encode_branch_sys (decode_sysreg_move rd (bits w a 2) (bits w b 3) (bits w c 4) (bits w d 4) (bits w e 3) (bits w l 5) out) =
     Ok (system_word (if rd then 1 else 0) (bits w a 2) (bits w b 3) (bits w c 4) (bits w d 4) (bits w e 3) (bits w l 5))"
  by (simp add: decode_sysreg_move_def Let_def enc_sysreg_move_def sysreg_at_def enc_eval sysreg_of_back)

lemma pstate_field_back:
  "pstate_field_name op1 op2 crm = Some f \<Longrightarrow> pstate_field_fields (sys_token_name (sys_token_of f)) = Some (op1, op2)"
  by (auto simp: pstate_field_name_def pstate_field_fields_def split: if_splits)

definition svcr_crm :: "u32 \<Rightarrow> u32" where
  "svcr_crm crm = (if crm AND 6 = 0 then crm AND 7 OR 6 else crm AND 7)"

definition pstate_crm :: "u32 \<Rightarrow> u32 \<Rightarrow> u32 \<Rightarrow> u32" where
  "pstate_crm op1 op2 crm =
     (if op1 = 3 \<and> op2 = 3 then svcr_crm crm
      else if op1 = 0 \<and> op2 \<in> {0, 1, 2} then 0 else crm)"

lemma enc_msr_imm_rows:
  "enc_msr_imm (built out C_Cfinv m ops) = Ok (system_word 0 0 0 4 0 0 31)"
  "enc_msr_imm (built out C_Xaflag m ops) = Ok (system_word 0 0 0 4 0 1 31)"
  "enc_msr_imm (built out C_Axflag m ops) = Ok (system_word 0 0 0 4 0 2 31)"
  by (simp_all add: enc_msr_imm_def Let_def)

lemma encode_svcr:
  "crm = bits v k 4 \<Longrightarrow> out' = insn_set (if crm AND 1 \<noteq> 0 then C_Smstart else C_Smstop) out \<Longrightarrow>
   encode_branch_sys
     (if crm AND 2 \<noteq> 0 \<and> \<not> crm AND 4 \<noteq> 0 then push_operand (sysop ''sm'') out'
      else if \<not> crm AND 2 \<noteq> 0 \<and> crm AND 4 \<noteq> 0 then push_operand (sysop ''za'') out' else out') =
   Ok (system_word 0 0 3 4 (svcr_crm crm) 3 31)"
  using bits_4_cases [of v k]
  by (elim disjE) (simp_all add: enc_msr_imm_def sysop_def svcr_crm_def)

lemma encode_msr_imm:
  "encode_branch_sys (decode_msr_imm (bits w b 3) (bits w e 3) (bits v k 4) 31 out) =
     Ok (system_word 0 0 (bits w b 3) 4 (pstate_crm (bits w b 3) (bits w e 3) (bits v k 4)) (bits w e 3) 31)"
proof (cases "bits w b 3 = 3 \<and> bits w e 3 = 3")
  case True
  then show ?thesis unfolding decode_msr_imm_def Let_def pstate_crm_def
    using encode_svcr [OF refl refl, of v k out] by simp
next
  case svcr: False
  show ?thesis
  proof (cases "bits w b 3 = 0 \<and> bits w e 3 \<in> {0, 1, 2}")
    case True
    then show ?thesis unfolding decode_msr_imm_def Let_def pstate_crm_def
      by (auto simp: enc_msr_imm_rows)
  next
    case False
    then show ?thesis
    proof (cases "pstate_field_name (bits w b 3) (bits w e 3) (bits v k 4)")
      case None
      then show ?thesis using svcr False unfolding decode_msr_imm_def Let_def pstate_crm_def
        by (auto simp: enc_sysreg_move_def sysreg_at_def enc_eval sysreg_of_back sysreg_of_const)
    next
      case (Some f)
      then show ?thesis using svcr False unfolding decode_msr_imm_def Let_def pstate_crm_def
        by (auto simp: enc_msr_imm_def sysop_name_def sysop_def pstate_field_back enc_eval)
    qed
  qed
qed

section \<open>Exceptions\<close>

definition exception_word :: "u32 \<Rightarrow> u32 \<Rightarrow> u32 \<Rightarrow> u32" where
  "exception_word opc imm ll = push_bit 24 0b11010100 OR push_bit 21 opc OR push_bit 5 imm OR ll"

lemma layout_exception:
  assumes "bits w 24 8 = 0b11010100" "bits w 2 3 = 0"
  shows "exception_word (bits w 21 3) (bits w 5 16) (bits w 0 2) = w"
  using bits_eqD [OF assms(1), of 0] bits_eqD [OF assms(1), of 1] bits_eqD [OF assms(1), of 2] bits_eqD [OF assms(1), of 3]
    bits_eqD [OF assms(1), of 4] bits_eqD [OF assms(1), of 5] bits_eqD [OF assms(1), of 6] bits_eqD [OF assms(1), of 7]
    bits_eqD [OF assms(2), of 0] bits_eqD [OF assms(2), of 1] bits_eqD [OF assms(2), of 2]
  by (simp add: exception_word_def to_bits)

text \<open>The timeline immediate: seven bits and the \<open>nb\<close> bit.\<close>

lemma tenter_imm:
  fixes x :: u32
  assumes "x AND 0xEF80 = 0" "x AND 0xFFFF0000 = 0"
  shows "x AND 0x1000 \<noteq> 0 \<Longrightarrow> x AND 0x7f OR 0x1000 = x" and "x AND 0x1000 = 0 \<Longrightarrow> x AND 0x7f = x"
  using assms by (auto simp: to_bits)

lemma tenter_cast:
  fixes x :: u32
  shows "ucast ((ucast (x AND 0x7f) :: u64) AND 0x7f OR 0x1000) = x AND 0x7f OR (0x1000 :: u32)"
    and "ucast ((ucast (x AND 0x7f) :: u64) AND 0x7f) = x AND (0x7f :: u32)"
    and "\<not> 0xffff < (ucast (x AND 0x7f) :: u64) AND 0x7f OR 0x1000"
    and "\<not> 0xffff < (ucast (x AND 0x7f) :: u64) AND 0x7f"
proof -
  have m: "(0x7f :: u64) = mask 7" "(0x7f :: u32) = mask 7" "(0xffff :: u64) = mask 16" "(0x1000 :: u64) = push_bit 12 1" "(0x1000 :: u32) = push_bit 12 1"
    by (simp_all add: mask_eq_exp_minus_1)
  show "ucast ((ucast (x AND 0x7f) :: u64) AND 0x7f OR 0x1000) = x AND 0x7f OR (0x1000 :: u32)"
    "ucast ((ucast (x AND 0x7f) :: u64) AND 0x7f) = x AND (0x7f :: u32)"
    unfolding m by (rule bit_word_eqI; auto simp: bit_simps)+
  have bit_4096: "bit (4096 :: u64) n \<longleftrightarrow> n = 12" "bit (4096 :: int) n \<longleftrightarrow> n = 12" for n
    using bit_push_bit_iff [of 12 "1 :: u64" n] bit_push_bit_iff [of 12 "1 :: int" n] by (auto simp: bit_1_iff)
  have b: "y AND mask 16 = y \<Longrightarrow> \<not> mask 16 < y" for y :: u64 by (metis linorder_not_less word_and_le1)
  show "\<not> 0xffff < (ucast (x AND 0x7f) :: u64) AND 0x7f OR 0x1000"
    unfolding m by (rule b, rule bit_word_eqI, auto simp: bit_simps bit_4096)
  show "\<not> 0xffff < (ucast (x AND 0x7f) :: u64) AND 0x7f"
    unfolding m by (rule b, rule bit_word_eqI, auto simp: bit_simps)
qed

lemma tenter_plain:
  fixes x :: u32
  assumes "x AND 0xEF80 = 0" "x AND 0xFFFF0000 = 0" "x AND 0x1000 = 0"
  shows "ucast ((ucast x :: u64) AND 0x7f) = x" "\<not> 0xffff < (ucast x :: u64) AND 0x7f"
  using tenter_cast(2,4) [of x] tenter_imm(2) [OF assms] by simp_all

lemma enc_exception_rows:
  "enc_exception (built out C_Svc m [r]) = and_then (op_imm r) (\<lambda>v. if v > 0xffff then Err EncInvalidImmediate else Ok (exception_word 0 (ucast v) 1))"
  "enc_exception (built out C_Hvc m [r]) = and_then (op_imm r) (\<lambda>v. if v > 0xffff then Err EncInvalidImmediate else Ok (exception_word 0 (ucast v) 2))"
  "enc_exception (built out C_Smc m [r]) = and_then (op_imm r) (\<lambda>v. if v > 0xffff then Err EncInvalidImmediate else Ok (exception_word 0 (ucast v) 3))"
  "enc_exception (built out C_Brk m [r]) = and_then (op_imm r) (\<lambda>v. if v > 0xffff then Err EncInvalidImmediate else Ok (exception_word 1 (ucast v) 0))"
  "enc_exception (built out C_Hlt m [r]) = and_then (op_imm r) (\<lambda>v. if v > 0xffff then Err EncInvalidImmediate else Ok (exception_word 2 (ucast v) 0))"
  "enc_exception (built out C_Tcancel m [r]) = and_then (op_imm r) (\<lambda>v. if v > 0xffff then Err EncInvalidImmediate else Ok (exception_word 3 (ucast v) 0))"
  "enc_exception (built out C_Tenter m [r]) = and_then (op_imm r) (\<lambda>v. if (v AND 0x7f) > 0xffff then Err EncInvalidImmediate else Ok (exception_word 7 (ucast (v AND 0x7f)) 0))"
  "enc_exception (built out C_Tenter m [r, q]) = and_then (op_imm r) (\<lambda>v. if (v AND 0x7f OR 0x1000) > 0xffff then Err EncInvalidImmediate else Ok (exception_word 7 (ucast (v AND 0x7f OR 0x1000)) 0))"
  "enc_exception (built out C_Dcps1 m [r]) = and_then (op_imm r) (\<lambda>v. if v > 0xffff then Err EncInvalidImmediate else Ok (exception_word 5 (ucast v) 1))"
  "enc_exception (built out C_Dcps2 m [r]) = and_then (op_imm r) (\<lambda>v. if v > 0xffff then Err EncInvalidImmediate else Ok (exception_word 5 (ucast v) 2))"
  "enc_exception (built out C_Dcps3 m [r]) = and_then (op_imm r) (\<lambda>v. if v > 0xffff then Err EncInvalidImmediate else Ok (exception_word 5 (ucast v) 3))"
  "enc_exception (built out C_Dcps1 m []) = Ok (exception_word 5 0 1)"
  "enc_exception (built out C_Dcps2 m []) = Ok (exception_word 5 0 2)"
  "enc_exception (built out C_Dcps3 m []) = Ok (exception_word 5 0 3)"
  unfolding exception_word_def by (simp_all add: enc_exception_def imm_u_op and_then_assoc)

lemma exact_exception:
  assumes "bits w 24 8 = 0b11010100" "i_code (decode_exception w fs out) \<noteq> C_Invalid" "i_code out = C_Invalid"
  shows "encode_branch_sys (decode_exception w fs out) = Ok w"
proof -
  have g: "bits w 2 3 = 0" using assms(2,3) by (auto simp: decode_exception_def Let_def split: if_splits)
  let ?w = "exception_word (bits w 21 3) (bits w 5 16) (bits w 0 2)"
  have hi: "bits w 5 16 AND 0xFFFF0000 = 0" by (simp add: to_bits)
  have "encodes_to encode_branch_sys out ?w (decode_exception w fs out)"
    unfolding decode_exception_def Let_def push_optional_imm_def
    by (intro encodes_split) (simp_all add: encodes_leaf enc_exception_rows ucast_field_u64 tenter_cast tenter_imm tenter_plain hi)
  moreover have "?w = w" by (rule layout_exception [OF assms(1) g])
  ultimately show ?thesis using assms(2,3) by (metis encodes_toD)
qed

section \<open>Translation-table change\<close>

definition tchange_word :: "u32 \<Rightarrow> u32 \<Rightarrow> u32 \<Rightarrow> u32 \<Rightarrow> u32 \<Rightarrow> u32" where
  "tchange_word imm b18 nb x rt = push_bit 22 0b1101010110 OR push_bit 20 imm OR push_bit 18 b18 OR push_bit 17 nb OR push_bit 5 x OR rt"

lemma layout_tchange:
  assumes "bits w 22 10 = 0b1101010110" "bit_at w 21 = 0" "bit_at w 16 = 0" "bits w 12 4 = 0" "\<not> bit w 19"
  shows "bits w 10 2 = 0 \<Longrightarrow> \<not> bit w 20 \<Longrightarrow> tchange_word 0 (bit_at w 18) (bit_at w 17) (bits w 5 5) (bits w 0 5) = w"
    and "bit w 20 \<Longrightarrow> tchange_word 1 (bit_at w 18) (bit_at w 17) (bits w 5 7) (bits w 0 5) = w"
  using bits_eqD [OF assms(1), of 0] bits_eqD [OF assms(1), of 1] bits_eqD [OF assms(1), of 2] bits_eqD [OF assms(1), of 3]
    bits_eqD [OF assms(1), of 4] bits_eqD [OF assms(1), of 5] bits_eqD [OF assms(1), of 6] bits_eqD [OF assms(1), of 7]
    bits_eqD [OF assms(1), of 8] bits_eqD [OF assms(1), of 9] assms(2,3,5)
    bits_eqD [OF assms(4), of 0] bits_eqD [OF assms(4), of 1] bits_eqD [OF assms(4), of 2] bits_eqD [OF assms(4), of 3]
    bits_eqD [of w 10 2 0 0] bits_eqD [of w 10 2 0 1]
  by (simp_all add: tchange_word_def to_bits)

lemma or_moves:
  fixes a :: u32
  shows "(push_bit 22 0b1101010110 OR push_bit 18 b OR push_bit 5 x OR rt) OR push_bit 17 1 = tchange_word 0 b 1 x rt"
    "push_bit 22 0b1101010110 OR push_bit 18 b OR push_bit 5 x OR rt = tchange_word 0 b 0 x rt"
    "(push_bit 22 0b1101010110 OR push_bit 19 0b10 OR push_bit 18 b OR push_bit 5 x OR rt) OR push_bit 17 1 = tchange_word 1 b 1 x rt"
    "push_bit 22 0b1101010110 OR push_bit 19 0b10 OR push_bit 18 b OR push_bit 5 x OR rt = tchange_word 1 b 0 x rt"
  by (simp_all add: tchange_word_def ac_simps)

lemma enc_tchange_rows:
  "enc_tchange (built out C_TchangefReg m [r, q]) = and_then (op_num r) (\<lambda>rt. and_then (op_num q) (\<lambda>xn. Ok (tchange_word 0 0 0 xn rt)))"
  "enc_tchange (built out C_TchangefReg m [r, q, sysop ''nb'']) = and_then (op_num r) (\<lambda>rt. and_then (op_num q) (\<lambda>xn. Ok (tchange_word 0 0 1 xn rt)))"
  "enc_tchange (built out C_TchangebReg m [r, q]) = and_then (op_num r) (\<lambda>rt. and_then (op_num q) (\<lambda>xn. Ok (tchange_word 0 1 0 xn rt)))"
  "enc_tchange (built out C_TchangebReg m [r, q, sysop ''nb'']) = and_then (op_num r) (\<lambda>rt. and_then (op_num q) (\<lambda>xn. Ok (tchange_word 0 1 1 xn rt)))"
  "enc_tchange (built out C_TchangefImm m [r, q]) = and_then (op_num r) (\<lambda>rt. and_then (op_imm q) (\<lambda>v. if v > 0x7f then Err EncInvalidImmediate else Ok (tchange_word 1 0 0 (ucast v) rt)))"
  "enc_tchange (built out C_TchangefImm m [r, q, sysop ''nb'']) = and_then (op_num r) (\<lambda>rt. and_then (op_imm q) (\<lambda>v. if v > 0x7f then Err EncInvalidImmediate else Ok (tchange_word 1 0 1 (ucast v) rt)))"
  "enc_tchange (built out C_TchangebImm m [r, q]) = and_then (op_num r) (\<lambda>rt. and_then (op_imm q) (\<lambda>v. if v > 0x7f then Err EncInvalidImmediate else Ok (tchange_word 1 1 0 (ucast v) rt)))"
  "enc_tchange (built out C_TchangebImm m [r, q, sysop ''nb'']) = and_then (op_num r) (\<lambda>rt. and_then (op_imm q) (\<lambda>v. if v > 0x7f then Err EncInvalidImmediate else Ok (tchange_word 1 1 1 (ucast v) rt)))"
  unfolding or_moves [symmetric]
  by (cases "op_num r"; cases "op_num q"; cases "op_imm q";
    simp add: enc_tchange_def reg_num_op imm_u_op sysop_def Let_def)+

lemma exact_tchange:
  assumes "bits w 22 10 = 0b1101010110" "i_code (decode_tchange w fs out) \<noteq> C_Invalid" "i_code out = C_Invalid"
  shows "encode_branch_sys (decode_tchange w fs out) = Ok w"
proof -
  have g: "has fs F_Tchange" "bit_at w 21 = 0" "bit_at w 16 = 0" "bits w 12 4 = 0" and
    s: "bits w 19 2 = 0 \<and> bits w 10 2 = 0 \<or> bits w 19 2 = 2"
    using assms(2,3) by (auto simp: decode_tchange_def Let_def split: if_splits)
  have b19: "\<not> bit w 19" using s bits_eqD [of w 19 2 0 0] bits_eqD [of w 19 2 2 0] by auto
  from s show ?thesis
  proof
    assume a: "bits w 19 2 = 0 \<and> bits w 10 2 = 0"
    then have "\<not> bit w 20" using bits_eqD [of w 19 2 0 1] by simp
    with a g layout_tchange(1) [OF assms(1) g(2-4) b19] show ?thesis
      by (cases "bit w 18"; cases "bit w 17") (simp_all add: decode_tchange_def dec_eval push_nb_def enc_tchange_rows)
  next
    assume a: "bits w 19 2 = 2"
    then have "bit w 20" using bits_eqD [of w 19 2 2 1] by simp
    with a g layout_tchange(2) [OF assms(1) g(2-4) b19] show ?thesis
      by (cases "bit w 18"; cases "bit w 17")
        (simp_all add: decode_tchange_def dec_eval push_nb_def enc_tchange_rows ucast_field_u64)
  qed
qed

section \<open>\<open>SYS\<close> and \<open>SYSL\<close>\<close>

definition l_bit :: "bool \<Rightarrow> u32" where
  "l_bit rd = (if rd then 1 else 0)"

lemma encode_gcs_sys:
  assumes "decode_gcs_sys fs op1 crn crm op2 (bits w l 5) rd out = Some d"
  shows "encode_branch_sys d =
    Ok (system_word (l_bit rd) 1 op1 crn crm op2 (if i_code d \<in> {C_Gcspushx, C_Gcspopcx, C_Gcspopx} then 31 else bits w l 5))"
proof -
  obtain c takes elide where r: "map_of gcs_rows (rd, op1, op2) = Some (c, takes, elide)" and g: "crn = 7" "crm = 7"
    and d: "d = (if takes \<and> \<not> (elide \<and> bits w l 5 = 31) then push_operand (xreg (bits w l 5)) (insn_set c out) else insn_set c out)"
    using assms by (auto simp: decode_gcs_sys_def Let_def split: if_splits option.splits)
  from map_of_SomeD [OF r] show ?thesis
    unfolding d g gcs_rows_def
    by (auto simp: enc_gcs_sys_def gcs_enc_rows_def enc_eval l_bit_def)
qed

lemma rctx_of_lookup:
  assumes "sysins_lookup rd (bits w a 3) (bits w b 4) (bits w c 4) (bits w d 3) = Some t"
    "rctx_mnemonic rd (bits w a 3) (bits w b 4) (bits w c 4) (bits w d 3) = None"
  shows "s_mnem t \<notin> {M_Cfp, M_Cpp, M_Dvp}"
proof
  assume m: "s_mnem t \<in> {M_Cfp, M_Cpp, M_Dvp}"
  note t = sysins_lookup_SomeD [OF assms(1)]
  have "s_op1 t = 3" "s_crn t = 7" "s_crm t = 3" "s_op2 t \<in> {4, 5, 7}" "\<not> s_read t"
    using m t(2) by (auto simp: sysins_ok_def)
  with t have f: "ucast (bits w a 3) = (3 :: u8)" "ucast (bits w b 4) = (7 :: u8)" "ucast (bits w c 4) = (3 :: u8)"
    "ucast (bits w d 3) \<in> {4, 5, 7 :: u8}" "\<not> rd" by auto
  have u: "k \<le> 8 \<Longrightarrow> ucast (bits w e k) = (x :: u8) \<Longrightarrow> bits w e k = ucast x" for e k x
    using ucast_field_u8 [of k w e] by auto
  have "bits w a 3 = 3" "bits w b 4 = 7" "bits w c 4 = 3" "bits w d 3 \<in> {4, 5, 7}"
    using u [of 3 a 3] u [of 4 b 7] u [of 4 c 3] u [of 3 d 4] u [of 3 d 5] u [of 3 d 7] f by auto
  with assms(2) f(5) show False by (auto simp: rctx_mnemonic_def)
qed

lemma op_token_name: "name \<in> set sysop_names \<Longrightarrow> sys_token_name (sys_token_of name) = name"
  by (rule sys_token_name_of)

lemma encode_alias:
  assumes "sysins_lookup rd (bits w a 3) (bits w b 4) (bits w c 4) (bits w d 3) = Some t"
    "rctx_mnemonic rd (bits w a 3) (bits w b 4) (bits w c 4) (bits w d 3) = None"
  shows "enc_sys (push_sysins_operands t (bits w l 5) (built out (if rd then C_Sysl else C_Sys) (s_mnem t) [])) =
    Ok (system_word (l_bit rd) 1 (bits w a 3) (bits w b 4) (bits w c 4) (bits w d 3) (if s_needs_rt t then bits w l 5 else 31))"
proof -
  note t = sysins_lookup_SomeD [OF assms(1)]
  have m: "s_mnem t \<notin> {M_Cfp, M_Cpp, M_Dvp, M_Sys, M_Sysl}" "s_name t = [] \<longleftrightarrow> s_mnem t = M_Apas \<or> s_mnem t = M_Trcit"
    "s_kw_first t \<longleftrightarrow> s_mnem t \<noteq> M_Gicr" "s_mnem t = M_Gicr \<longrightarrow> s_needs_rt t"
    using t(2) rctx_of_lookup [OF assms] by (auto simp: sysins_ok_def)
  have e: "enc_sys d = enc_sys_alias d" if "i_mnemonic d = s_mnem t" for d
    using m(1) that by (simp add: enc_sys_def)
  have n: "sys_token_name (sys_token_of (s_name t)) = s_name t" using t(9) by (rule op_token_name)
  note f = t(4-8) ucast_field_u8
  show ?thesis
  proof (cases "s_name t = []")
    case True
    then have a: "s_mnem t \<in> {M_Apas, M_Trcit}" and k: "s_kw_first t" using m by auto
    have b: "sysins_by_name (s_mnem t) [] = Some t" using t(8) True by simp
    from a k True b show ?thesis
      by (cases "s_needs_rt t") (simp_all add: Let_def push_sysins_operands_def e enc_sys_alias_def reg_num_op f l_bit_def)
  next
    case False
    then have a: "s_mnem t \<notin> {M_Apas, M_Trcit}" using m by auto
    show ?thesis
    proof (cases "s_mnem t = M_Gicr")
      case True
      then have "\<not> s_kw_first t" "s_needs_rt t" using m by auto
      moreover have "sysins_by_name M_Gicr (s_name t) = Some t" using t(8) True by simp
      ultimately show ?thesis using True False a n
        by (simp add: Let_def push_sysins_operands_def e enc_sys_alias_def sysop_name_def sysop_def reg_num_op f l_bit_def)
    next
      case g: False
      then have "s_kw_first t" using m by auto
      with g False a n show ?thesis
        by (simp add: Let_def push_sysins_operands_def e enc_sys_alias_def sysop_name_def sysop_def reg_num_op f l_bit_def)
    qed
  qed
qed

lemma encode_sys_raw:
  "enc_sys (built out C_Sysl M_Sysl [xreg (bits w l 5), OpImmUnsigned (ucast (bits w a 3)), OpSysOp (sys_token_cr (bits w b 4)),
     OpSysOp (sys_token_cr (bits w c 4)), OpImmUnsigned (ucast (bits w d 3))]) =
   Ok (system_word 1 1 (bits w a 3) (bits w b 4) (bits w c 4) (bits w d 3) (bits w l 5))"
  "enc_sys (built out C_Sys M_Sys [OpImmUnsigned (ucast (bits w a 3)), OpSysOp (sys_token_cr (bits w b 4)),
     OpSysOp (sys_token_cr (bits w c 4)), OpImmUnsigned (ucast (bits w d 3)), xreg (bits w l 5)]) =
   Ok (system_word 0 1 (bits w a 3) (bits w b 4) (bits w c 4) (bits w d 3) (bits w l 5))"
  by (simp_all add: enc_sys_def cr_num_op enc_eval)

lemma encode_rctx:
  assumes "rctx_mnemonic rd op1 crn crm op2 = Some m"
  shows "enc_sys (built out C_Sys m [sysop ''rctx'', xreg (bits w l 5)]) = Ok (system_word (l_bit rd) 1 op1 crn crm op2 (bits w l 5))"
  using assms by (auto simp: rctx_mnemonic_def enc_sys_def enc_eval l_bit_def split: if_splits)

text \<open>The register field that survives: it is ignored by the forms that take no \<open>Xt\<close>.\<close>

definition takes_xt :: "insn \<Rightarrow> bool" where
  "takes_xt d \<longleftrightarrow>
     \<not> (i_code d \<in> {C_Gcspushx, C_Gcspopcx, C_Gcspopx} \<or>
        i_code d \<in> {C_Sys, C_Sysl} \<and> KindRegister \<notin> operand_kind ` set (live_operands d))"

lemma encode_sys:
  "encode_branch_sys (decode_sys fs (bits w a 3) (bits w b 4) (bits w c 4) (bits w d 3) (bits w l 5) rd out) =
     Ok (system_word (l_bit rd) 1 (bits w a 3) (bits w b 4) (bits w c 4) (bits w d 3)
          (if takes_xt (decode_sys fs (bits w a 3) (bits w b 4) (bits w c 4) (bits w d 3) (bits w l 5) rd out) then bits w l 5 else 31))"
proof (cases "rctx_mnemonic rd (bits w a 3) (bits w b 4) (bits w c 4) (bits w d 3)")
  case (Some m)
  show ?thesis by (simp add: decode_sys_def Some encode_rctx [OF Some] takes_xt_def)
next
  case no_rctx: None
  show ?thesis
  proof (cases "decode_gcs_sys fs (bits w a 3) (bits w b 4) (bits w c 4) (bits w d 3) (bits w l 5) rd out")
    case (Some d')
    from Some have "i_code d' \<notin> {C_Sys, C_Sysl}"
      by (auto simp: decode_gcs_sys_def Let_def gcs_rows_def dest!: map_of_SomeD split: if_splits option.splits)
    then have "takes_xt d' \<longleftrightarrow> i_code d' \<notin> {C_Gcspushx, C_Gcspopcx, C_Gcspopx}" by (simp add: takes_xt_def)
    then show ?thesis using encode_gcs_sys [OF Some] by (simp add: decode_sys_def no_rctx Some)
  next
    case no_gcs: None
    show ?thesis
    proof (cases "sysins_lookup rd (bits w a 3) (bits w b 4) (bits w c 4) (bits w d 3)")
      case None
      then show ?thesis
        by (simp add: decode_sys_def no_rctx no_gcs takes_xt_def encode_sys_raw l_bit_def)
    next
      case (Some t)
      let ?d = "push_sysins_operands t (bits w l 5) (built out (if rd then C_Sysl else C_Sys) (s_mnem t) [])"
      have "takes_xt ?d \<longleftrightarrow> s_needs_rt t"
        by (simp add: takes_xt_def push_sysins_operands_def Let_def sysop_def)
      moreover have "encode_branch_sys ?d = enc_sys ?d"
        by (simp add: push_sysins_operands_def Let_def)
      ultimately show ?thesis
        using encode_alias [OF Some no_rctx, of l out] by (simp add: decode_sys_def no_rctx no_gcs Some)
    qed
  qed
qed

section \<open>Register pairs\<close>

definition op_pair :: "operand \<Rightarrow> u32 encoded" where
  "op_pair op =
     (case op of
        OpRegPair first second \<Rightarrow>
          (let lo = ucast (reg_number first);
               hi = ucast (reg_number second)
           in if lo = 31 \<and> hi = 31 then Ok 0b11111
              else if lo AND 1 \<noteq> 0 \<or> hi \<noteq> (lo + 1) AND 0x1f then Err EncInvalidOperand
              else Ok lo)
      | _ \<Rightarrow> Err EncInvalidOperand)"

lemma reg_pair_base_op: "reg_pair_base insn n = op_pair (insn_op insn n)"
  by (simp add: reg_pair_base_def op_pair_def)

lemma ucast_low5: "ucast (ucast x AND (31 :: u8)) = x AND (31 :: u32)"
  unfolding and_31_u8 and_31_u32 by (rule bit_word_eqI) (auto simp: bit_simps)

lemma op_pair_back:
  "reg_pair (bits w l 5) = Some p \<Longrightarrow> op_pair p = Ok (bits w l 5)"
  "reg_pair_or_zz (bits w l 5) = Some p \<Longrightarrow> op_pair p = Ok (bits w l 5)"
proof -
  show r: "reg_pair (bits w l 5) = Some p \<Longrightarrow> op_pair p = Ok (bits w l 5)" for p
    by (auto simp: reg_pair_def op_pair_def Let_def ucast_low5 split: if_splits)
  show "reg_pair_or_zz (bits w l 5) = Some p \<Longrightarrow> op_pair p = Ok (bits w l 5)"
  proof (cases "bits w l 5 = 31")
    case True
    then show "reg_pair_or_zz (bits w l 5) = Some p \<Longrightarrow> op_pair p = Ok (bits w l 5)"
      by (auto simp: reg_pair_or_zz_def op_pair_def)
  qed (auto simp: reg_pair_or_zz_def dest: r)
qed

lemma op_pair_31: "reg_pair_or_zz 31 = Some p \<Longrightarrow> op_pair p = Ok 31"
  by (auto simp: reg_pair_or_zz_def op_pair_def)

lemma enc_sysp_rows:
  "enc_sysp (built out C_Sysp M_Sysp [OpImmUnsigned (ucast (bits w a 3)), OpSysOp (sys_token_cr (bits w b 4)),
      OpSysOp (sys_token_cr (bits w c 4)), OpImmUnsigned (ucast (bits w d 3)), p]) =
    and_then (op_pair p) (\<lambda>rt. Ok (system_pair_word 0 1 (bits w a 3) (bits w b 4) (bits w c 4) (bits w d 3) rt))"
  "enc_sysp (built out C_Sysp M_Sysp [OpImmUnsigned (ucast (bits w a 3)), OpSysOp (sys_token_cr (bits w b 4)),
      OpSysOp (sys_token_cr (bits w c 4)), OpImmUnsigned (ucast (bits w d 3))]) =
    Ok (system_pair_word 0 1 (bits w a 3) (bits w b 4) (bits w c 4) (bits w d 3) 31)"
  by (simp_all add: enc_sysp_def cr_num_op enc_eval reg_pair_base_op)

lemma enc_tlbip:
  assumes "sysins_lookup False (bits w a 3) (bits w b 4) (bits w c 4) (bits w d 3) = Some t" "s_mnem t = M_Tlbi"
  shows "enc_sysp (built out C_Sysp M_Tlbip [sysop (s_name t), p]) =
    and_then (op_pair p) (\<lambda>rt. Ok (system_pair_word 0 1 (bits w a 3) (bits w b 4) (bits w c 4) (bits w d 3) rt))"
proof -
  note t = sysins_lookup_SomeD [OF assms(1)]
  have "sysins_by_name M_Tlbi (s_name t) = Some t" using t(8) assms(2) by simp
  then show ?thesis
    by (simp add: enc_sysp_def sysop_name_def sysop_def op_token_name [OF t(9)] reg_pair_base_op t(4-7) ucast_field_u8)
qed

lemma encodes_sysp:
  "encodes_to encode_branch_sys out (system_pair_word 0 1 (bits w a 3) (bits w b 4) (bits w c 4) (bits w d 3) (bits w l 5))
     (decode_sysp (bits w a 3) (bits w b 4) (bits w c 4) (bits w d 3) (bits w l 5) out)"
proof -
  have p: "reg_pair (bits w l 5) = None \<Longrightarrow> bits w l 5 AND 1 \<noteq> 0" by (auto simp: reg_pair_def split: if_splits)
  show ?thesis
    unfolding decode_sysp_def Let_def
    by (intro encodes_split) (auto intro!: encodes_leaf dest!: p simp: enc_sysp_rows enc_tlbip op_pair_back op_pair_31)
qed

lemma exact_system_pair:
  assumes "bits w 22 10 = 0b1101010101" "i_code (decode_system_pair w fs out) \<noteq> C_Invalid" "i_code out = C_Invalid"
  shows "encode_branch_sys (decode_system_pair w fs out) = Ok w"
proof -
  let ?w = "system_pair_word (bit_at w 21) (bits w 19 2) (bits w 16 3) (bits w 12 4) (bits w 8 4) (bits w 5 3) (bits w 0 5)"
  have "encodes_to encode_branch_sys out ?w (decode_system_pair w fs out)"
    unfolding decode_system_pair_def Let_def
    by (intro encodes_split)
      (auto simp: encodes_sysp bit_at_0 bit_at_1, auto intro!: encodes_leaf
        simp: enc_sysreg_pair_def reg_pair_base_op op_pair_back sysreg_at_def sysreg_of_back bit_at_0 bit_at_1)
  moreover have "?w = w" by (rule system_pair_word_layout [OF assms(1)])
  ultimately show ?thesis using assms(2,3) by (metis encodes_toD)
qed

end
