(* ===== verification/Branch_Sys_Canon.thy ===== *)
theory Branch_Sys_Canon
  imports System_Classes
begin

text \<open>
  The word a decoded branch or system instruction encodes to (\<open>canon_branch_sys\<close>): the word itself for the branches,
  exceptions and pairs; for the system forms that ignore a field, the word with the canonical value in that field.
\<close>

definition in_branch_sys :: "u32 \<Rightarrow> bool" where
  "in_branch_sys w \<longleftrightarrow> bits w 26 3 = 0b101"

section \<open>Which encoder function a class reaches\<close>

lemma reaches_branch_reg: "leaves (\<lambda>d. encode_branch_sys d = enc_branch_reg d) out (decode_uncond_branch_reg w fs out)"
  unfolding decode_uncond_branch_reg_def Let_def by (intro leaves_split) (simp_all add: leaves_leaf)

lemma reaches_cond: "\<not> bit w 24 \<Longrightarrow> leaves (\<lambda>d. encode_branch_sys d = enc_cond_branch d) out (decode_cond_branch w fs out)"
  by (simp add: decode_cond_branch_def Let_def leaves_leaf)

lemma reaches_sppc: "leaves (\<lambda>d. encode_branch_sys d = enc_pauth_lr_sppc d) out (decode_ret_sppc w fs out)"
  by (simp add: decode_ret_sppc_def push_sppc_label_def Let_def leaves_leaf)

lemma reaches_compare: "encode_branch_sys (decode_compare_branch w ip out) = enc_compare_branch (decode_compare_branch w ip out)"
  by (simp add: decode_compare_branch_def Let_def)

lemma reaches_test: "encode_branch_sys (decode_test_branch w ip out) = enc_test_branch (decode_test_branch w ip out)"
  by (simp add: decode_test_branch_def Let_def)

lemma reaches_uncond: "encode_branch_sys (decode_uncond_branch_imm w ip out) = enc_uncond_branch_imm (decode_uncond_branch_imm w ip out)"
  by (simp add: decode_uncond_branch_imm_def Let_def)

lemma cmpbr_code_reaches: "map_of cmpbr_rows c = Some r \<Longrightarrow> encode_branch_sys (built out c m ops) = enc_cmpbr (built out c m ops)"
  by (drule map_of_SomeD) (auto simp: cmpbr_rows_def)

lemma reaches_cmpbr: "leaves (\<lambda>d. encode_branch_sys d = enc_cmpbr d) out (decode_cmpbr w ip fs out)"
  unfolding decode_cmpbr_def Let_def
  by (intro leaves_split) (auto intro!: leaves_leaf dest!: cmpbr_reg_row cmpbr_imm_row simp: cmpbr_code_reaches)

section \<open>The canonical word\<close>

definition ignores_op1 :: "code \<Rightarrow> bool" where
  "ignores_op1 c \<longleftrightarrow>
     c \<in> {C_Nop, C_Yield, C_Wfe, C_Wfi, C_Sev, C_Sevl, C_Dgh, C_Esb, C_Psb, C_Tsb, C_Gcsb, C_Csdb, C_Clrbhb, C_HintGeneric,
          C_Chkfeat, C_Stshh, C_Shuh, C_Stcph, C_Bti, C_Wfet, C_Wfit, C_Clrex, C_Tcommit, C_Dsb, C_Dmb, C_Isb, C_Sb}"

lemma ignores_op1_rows [simp]:
  "ignores_op1 C_Nop" "ignores_op1 C_Yield" "ignores_op1 C_Wfe" "ignores_op1 C_Wfi" "ignores_op1 C_Sev"
  "ignores_op1 C_Sevl" "ignores_op1 C_Dgh" "ignores_op1 C_Esb" "ignores_op1 C_Psb" "ignores_op1 C_Tsb"
  "ignores_op1 C_Gcsb" "ignores_op1 C_Csdb" "ignores_op1 C_Clrbhb" "ignores_op1 C_HintGeneric"
  "ignores_op1 C_Chkfeat" "ignores_op1 C_Stshh" "ignores_op1 C_Shuh" "ignores_op1 C_Stcph" "ignores_op1 C_Bti"
  "ignores_op1 C_Wfet" "ignores_op1 C_Wfit" "ignores_op1 C_Clrex" "ignores_op1 C_Tcommit" "ignores_op1 C_Dsb"
  "ignores_op1 C_Dmb" "ignores_op1 C_Isb" "ignores_op1 C_Sb"
  by (simp_all add: ignores_op1_def)

text \<open>The encoding of a decoded system instruction puts the canonical value into every field its form ignores:
  \<open>op1 = 3\<close> for hints, event waits and barriers, \<open>CRm\<close> of \<open>SB\<close>, the flag operations and \<open>SMSTART\<close>/\<open>SMSTOP\<close>,
  \<open>Rt = 31\<close> for the operations without \<open>Xt\<close>.\<close>

definition canon_crm :: "code \<Rightarrow> u32 \<Rightarrow> u32" where
  "canon_crm c crm =
     (if c \<in> {C_Sb, C_Cfinv, C_Xaflag, C_Axflag} then 0
      else if c \<in> {C_Smstart, C_Smstop} then svcr_crm crm
      else crm)"

definition canon_fields :: "insn \<Rightarrow> u32 \<Rightarrow> u32 \<Rightarrow> u32 \<Rightarrow> u32 \<Rightarrow> u32 \<Rightarrow> u32 \<Rightarrow> u32 \<Rightarrow> u32" where
  "canon_fields d l op0 op1 crn crm op2 rt =
     system_word l op0 (if ignores_op1 (i_code d) then 3 else op1) crn (canon_crm (i_code d) crm) op2
       (if takes_xt d then rt else 31)"

definition canon_branch_sys :: "insn \<Rightarrow> u32 \<Rightarrow> u32" where
  "canon_branch_sys d w =
     (if bits w 22 10 = 0b1101010100
      then canon_fields d (bit_at w 21) (bits w 19 2) (bits w 16 3) (bits w 12 4) (bits w 8 4) (bits w 5 3) (bits w 0 5)
      else w)"

lemma i_code_push [simp]: "i_code (push_operand op d) = i_code d"
  by (simp add: push_operand_def Let_def)

lemma code_if: "(b \<Longrightarrow> i_code x \<in> S) \<Longrightarrow> (\<not> b \<Longrightarrow> i_code y \<in> S) \<Longrightarrow> i_code (if b then x else y) \<in> S"
  by simp

lemma code_option:
  "(x = None \<Longrightarrow> i_code d \<in> S) \<Longrightarrow> (\<And>y. x = Some y \<Longrightarrow> i_code (f y) \<in> S) \<Longrightarrow> i_code (case x of None \<Rightarrow> d | Some y \<Rightarrow> f y) \<in> S"
  by (simp split: option.split)

lemma code_pcdphint: "i_code (decode_pcdphint op2 out) \<in> {C_Stshh, C_Shuh, C_Stcph}"
  by (simp add: decode_pcdphint_def)

lemma code_bti: "i_code (decode_bti op2 out) = C_Bti"
  by (simp add: decode_bti_def Let_def)

lemma code_hint: "leaves (\<lambda>d. ignores_op1 (i_code d) \<and> i_code d \<noteq> C_Sb) out (decode_hint fs crm op2 31 out)"
proof -
  have p: "ignores_op1 (i_code (decode_pcdphint op2 out)) \<and> i_code (decode_pcdphint op2 out) \<noteq> C_Sb"
    using code_pcdphint [of op2 out] by (auto simp: ignores_op1_def)
  show ?thesis
    unfolding decode_hint_def Let_def
    by (intro leaves_split) (simp_all add: leaves_leaf p code_bti set_pauth_hint_def set_generic_hint_def)
qed

lemma code_wfxt: "leaves (\<lambda>d. ignores_op1 (i_code d) \<and> i_code d \<noteq> C_Sb) out (decode_wfxt fs crm op2 rt out)"
  unfolding decode_wfxt_def Let_def by (intro leaves_split) (simp_all add: leaves_leaf)

lemma code_push_barrier: "i_code (push_barrier_option crm d) = i_code d"
  by (simp add: push_barrier_option_def split: option.split)

lemma code_barrier: "leaves (\<lambda>d. ignores_op1 (i_code d) \<and> (i_code d = C_Sb \<longleftrightarrow> op2 = 7)) out (decode_barrier fs crm op2 31 out)"
  unfolding decode_barrier_def Let_def
  by (intro leaves_split) (simp_all add: leaves_leaf code_push_barrier)

lemma leaves_both: "leaves P out d \<Longrightarrow> leaves Q out d \<Longrightarrow> leaves (\<lambda>d. P d \<and> Q d) out d"
  by (auto simp: leaves_def)

lemma encodes_to_leaves: "encodes_to enc out w d \<longleftrightarrow> leaves (\<lambda>d. enc d = Ok w) out d"
  by (simp add: encodes_to_def leaves_def)

lemma ignores_op1_canon:
  "ignores_op1 c \<Longrightarrow> canon_crm c crm = (if c = C_Sb then 0 else crm)"
  "ignores_op1 (i_code d) \<Longrightarrow> takes_xt d"
  by (auto simp: ignores_op1_def canon_crm_def takes_xt_def)

lemma canon_hint:
  "leaves (\<lambda>d. encode_branch_sys d = Ok (canon_fields d 0 0 op1 2 (bits w b 4) (bits v k 3) 31)) out (decode_hint fs (bits w b 4) (bits v k 3) 31 out)"
proof -
  have "leaves (\<lambda>d. encode_branch_sys d = Ok (system_word 0 0 3 2 (bits w b 4) (bits v k 3) 31)) out (decode_hint fs (bits w b 4) (bits v k 3) 31 out)"
    by (simp add: leaves_leaf enc_hint_back)
  from leaves_both [OF code_hint this] show ?thesis
    by (rule leaves_mono) (simp add: canon_fields_def ignores_op1_canon)
qed

lemma canon_wfxt:
  "leaves (\<lambda>d. encode_branch_sys d = Ok (canon_fields d 0 0 op1 1 crm op2 (bits w l 5))) out (decode_wfxt fs crm op2 (bits w l 5) out)"
  by (rule leaves_mono [OF leaves_both [OF code_wfxt encodes_wfxt [unfolded encodes_to_leaves]]])
    (simp add: canon_fields_def ignores_op1_canon)

lemma canon_barrier:
  "leaves (\<lambda>d. encode_branch_sys d = Ok (canon_fields d 0 0 op1 3 (bits w b 4) op2 31)) out (decode_barrier fs (bits w b 4) op2 31 out)"
  by (rule leaves_mono [OF leaves_both [OF code_barrier encodes_barrier [unfolded encodes_to_leaves]]])
    (auto simp: canon_fields_def ignores_op1_canon)

lemma canon_systemresult:
  "leaves (\<lambda>d. encode_branch_sys d = Ok (canon_fields d 1 0 op1 crn crm op2 (bits w l 5))) out (decode_systemresult fs op1 crn crm op2 (bits w l 5) out)"
proof -
  have "leaves (\<lambda>d. i_code d \<in> {C_Tstart, C_Ttest}) out (decode_systemresult fs op1 crn crm op2 (bits w l 5) out)"
    by (simp add: decode_systemresult_def leaves_leaf)
  from leaves_both [OF this encodes_systemresult [unfolded encodes_to_leaves]] show ?thesis
    by (rule leaves_mono) (auto simp: canon_fields_def ignores_op1_def canon_crm_def takes_xt_def)
qed

lemma code_msr_imm:
  "op1 = 3 \<and> op2 = 3 \<Longrightarrow> i_code (decode_msr_imm op1 op2 crm 31 out) \<in> {C_Smstart, C_Smstop}"
  "op1 = 0 \<Longrightarrow> op2 \<in> {0, 1, 2} \<Longrightarrow> i_code (decode_msr_imm op1 op2 crm 31 out) \<in> {C_Cfinv, C_Xaflag, C_Axflag}"
  "\<not> (op1 = 3 \<and> op2 = 3) \<Longrightarrow> \<not> (op1 = 0 \<and> op2 \<in> {0, 1, 2}) \<Longrightarrow> i_code (decode_msr_imm op1 op2 crm 31 out) \<in> {C_MsrImm, C_MsrReg}"
  unfolding decode_msr_imm_def Let_def by (intro code_if code_option; simp)+

lemma canon_crm_cases:
  "c \<in> {C_Smstart, C_Smstop} \<Longrightarrow> canon_crm c crm = svcr_crm crm \<and> \<not> ignores_op1 c"
  "c \<in> {C_Cfinv, C_Xaflag, C_Axflag} \<Longrightarrow> canon_crm c crm = 0 \<and> \<not> ignores_op1 c"
  "c \<in> {C_MsrImm, C_MsrReg} \<Longrightarrow> canon_crm c crm = crm \<and> \<not> ignores_op1 c"
  by (auto simp: canon_crm_def ignores_op1_def)

lemma takes_xt_code:
  "i_code d \<in> {C_Smstart, C_Smstop} \<Longrightarrow> takes_xt d"
  "i_code d \<in> {C_Cfinv, C_Xaflag, C_Axflag} \<Longrightarrow> takes_xt d"
  "i_code d \<in> {C_MsrImm, C_MsrReg} \<Longrightarrow> takes_xt d"
  by (auto simp: takes_xt_def)

lemma fields_msr_imm:
  "canon_crm (i_code (decode_msr_imm op1 op2 crm 31 out)) crm = pstate_crm op1 op2 crm \<and>
   \<not> ignores_op1 (i_code (decode_msr_imm op1 op2 crm 31 out)) \<and> takes_xt (decode_msr_imm op1 op2 crm 31 out)"
proof -
  note code = code_msr_imm [of op1 op2 crm out]
  consider (svcr) "op1 = 3 \<and> op2 = 3" | (flag) "op1 = 0" "op2 \<in> {0, 1, 2}"
    | (field) "\<not> (op1 = 3 \<and> op2 = 3)" "\<not> (op1 = 0 \<and> op2 \<in> {0, 1, 2})" by blast
  then show ?thesis
  proof cases
    case svcr
    show ?thesis using canon_crm_cases(1) [OF code(1) [OF svcr]] takes_xt_code(1) [OF code(1) [OF svcr]] svcr
      by (simp add: pstate_crm_def)
  next
    case flag
    have "pstate_crm op1 op2 crm = 0" using flag by (auto simp: pstate_crm_def)
    then show ?thesis using canon_crm_cases(2) [OF code(2) [OF flag]] takes_xt_code(2) [OF code(2) [OF flag]] by simp
  next
    case field
    have "pstate_crm op1 op2 crm = crm" using field by (auto simp: pstate_crm_def)
    then show ?thesis using canon_crm_cases(3) [OF code(3) [OF field]] takes_xt_code(3) [OF code(3) [OF field]] by simp
  qed
qed

lemma canon_msr_imm:
  "encode_branch_sys (decode_msr_imm (bits w a 3) (bits w d 3) (bits w c 4) 31 out) =
     Ok (canon_fields (decode_msr_imm (bits w a 3) (bits w d 3) (bits w c 4) 31 out) 0 0 (bits w a 3) 4 (bits w c 4) (bits w d 3) 31)"
  using fields_msr_imm [of "bits w a 3" "bits w d 3" "bits w c 4" out] by (simp add: encode_msr_imm canon_fields_def)

lemma canon_sysreg_move:
  "encode_branch_sys (decode_sysreg_move rd (bits w a 2) (bits w b 3) (bits w c 4) (bits w d 4) (bits w e 3) (bits w l 5) out) =
     Ok (canon_fields (decode_sysreg_move rd (bits w a 2) (bits w b 3) (bits w c 4) (bits w d 4) (bits w e 3) (bits w l 5) out)
          (l_bit rd) (bits w a 2) (bits w b 3) (bits w c 4) (bits w d 4) (bits w e 3) (bits w l 5))"
  unfolding encodes_sysreg_move
  by (simp add: canon_fields_def decode_sysreg_move_def Let_def ignores_op1_def canon_crm_def takes_xt_def l_bit_def)

definition sys_codes :: "code set" where
  "sys_codes = {C_Sys, C_Sysl, C_Gcspushx, C_Gcspopcx, C_Gcspopx, C_Gcspushm, C_Gcsss1, C_Gcspopm, C_Gcsss2}"

lemma code_gcs: "decode_gcs_sys fs op1 crn crm op2 rt rd out = Some d \<Longrightarrow> i_code d \<in> sys_codes"
proof -
  assume "decode_gcs_sys fs op1 crn crm op2 rt rd out = Some d"
  then obtain c x y where "map_of gcs_rows (rd, op1, op2) = Some (c, x, y)" and d: "i_code d = c"
    by (auto simp: decode_gcs_sys_def Let_def split: if_splits option.splits)
  from map_of_SomeD [OF this(1)] have "c \<in> sys_codes" by (auto simp: gcs_rows_def sys_codes_def)
  with d show ?thesis by simp
qed

lemma code_sys: "i_code (decode_sys fs op1 crn crm op2 rt rd out) \<in> sys_codes"
  unfolding decode_sys_def
  by (intro code_if code_option) (auto simp: code_gcs push_sysins_operands_def Let_def, auto simp: sys_codes_def)

lemma canon_sys:
  "encode_branch_sys (decode_sys fs (bits w b 3) (bits w c 4) (bits w d 4) (bits w e 3) (bits w l 5) rd out) =
     Ok (canon_fields (decode_sys fs (bits w b 3) (bits w c 4) (bits w d 4) (bits w e 3) (bits w l 5) rd out)
          (l_bit rd) 1 (bits w b 3) (bits w c 4) (bits w d 4) (bits w e 3) (bits w l 5))"
proof -
  have c: "c \<in> sys_codes \<Longrightarrow> \<not> ignores_op1 c \<and> canon_crm c crm = crm" for c crm
    by (auto simp: ignores_op1_def canon_crm_def sys_codes_def)
  show ?thesis unfolding encode_sys canon_fields_def
    using c [OF code_sys [of fs "bits w b 3" "bits w c 4" "bits w d 4" "bits w e 3" "bits w l 5" rd out]] by simp
qed

section \<open>The encoder reaches the canonical word\<close>

lemma canon_op0_00_named:
  "leaves (\<lambda>d. encode_branch_sys d = Ok (canon_fields d (l_bit rd) 0 (bits w 16 3) (bits w 12 4) (bits w 8 4) (bits w 5 3) (bits w 0 5)))
     out (decode_op0_00_named fs rd (bits w 16 3) (bits w 12 4) (bits w 8 4) (bits w 5 3) (bits w 0 5) out)"
proof (cases "bits w 0 5 = 31")
  case True
  show ?thesis unfolding decode_op0_00_named_def
    by (intro leaves_split)
      (simp_all add: True l_bit_def canon_msr_imm canon_hint canon_barrier leaves_leaf
        canon_systemresult [of _ _ _ _ w 0, simplified True] canon_wfxt [of _ _ _ w 0, simplified True])
next
  case False
  show ?thesis unfolding decode_op0_00_named_def
    by (intro leaves_split)
      (simp_all add: l_bit_def canon_systemresult canon_wfxt, simp_all add: False decode_msr_imm_def decode_hint_def decode_barrier_def)
qed

lemma canon_op0_00:
  assumes "bits w 19 2 = 0"
  shows "leaves (\<lambda>d. encode_branch_sys d = Ok (canon_fields d (l_bit rd) 0 (bits w 16 3) (bits w 12 4) (bits w 8 4) (bits w 5 3) (bits w 0 5)))
     out (decode_op0_00 fs rd (bits w 16 3) (bits w 12 4) (bits w 8 4) (bits w 5 3) (bits w 0 5) out)"
  unfolding decode_op0_00_def Let_def
  by (intro leaves_if canon_op0_00_named leaves_leaf)
    (use canon_sysreg_move [of rd w 19 16 12 8 5 0] assms in simp)

lemma canon_system:
  assumes "bits w 22 10 = 0b1101010100"
  shows "leaves (\<lambda>d. encode_branch_sys d = Ok (canon_branch_sys d w)) out (decode_system w fs out)"
proof -
  let ?P = "\<lambda>rd. leaves (\<lambda>d. encode_branch_sys d =
      Ok (canon_fields d (l_bit rd) (bits w 19 2) (bits w 16 3) (bits w 12 4) (bits w 8 4) (bits w 5 3) (bits w 0 5))) out"
  have o: "bits w 19 2 = 0 \<Longrightarrow>
      ?P rd (decode_op0_00 fs rd (bits w 16 3) (bits w 12 4) (bits w 8 4) (bits w 5 3) (bits w 0 5) out)" for rd
    using canon_op0_00 by simp
  have s: "bits w 19 2 = 1 \<Longrightarrow> ?P rd (decode_sys fs (bits w 16 3) (bits w 12 4) (bits w 8 4) (bits w 5 3) (bits w 0 5) rd out)" for rd
    by (simp add: leaves_leaf canon_sys)
  have m: "?P rd (decode_sysreg_move rd (bits w 19 2) (bits w 16 3) (bits w 12 4) (bits w 8 4) (bits w 5 3) (bits w 0 5) out)" for rd
    by (simp add: leaves_leaf canon_sysreg_move)
  have "?P (bit w 21) (decode_system w fs out)"
    unfolding decode_system_def Let_def
    by (cases "bit w 21")
      (simp_all only: bit_at_0 bit_at_1 if_True if_False simp_thms one_neq_zero, (intro leaves_if; (rule o s m; assumption?))+)
  moreover have "l_bit (bit w 21) = bit_at w 21" by (cases "bit w 21") (simp_all add: l_bit_def dec_eval)
  ultimately show ?thesis using assms by (simp add: canon_branch_sys_def)
qed

text \<open>Every other class of the group is exact.\<close>

lemma exact_classes:
  assumes "i_code out = C_Invalid" "i_ip out = ip"
  shows "bits w 25 7 = 0b1101011 \<Longrightarrow> i_code (decode_uncond_branch_reg w fs out) \<noteq> C_Invalid \<Longrightarrow>
      encode_branch_sys (decode_uncond_branch_reg w fs out) = Ok w"
    and "bits w 25 7 = 0b0101010 \<Longrightarrow> i_code (decode_cond_branch w fs out) \<noteq> C_Invalid \<Longrightarrow>
      encode_branch_sys (decode_cond_branch w fs out) = Ok w"
    and "bits w 25 6 = 0b011010 \<Longrightarrow> encode_branch_sys (decode_compare_branch w ip out) = Ok w"
    and "bits w 25 6 = 0b011011 \<Longrightarrow> encode_branch_sys (decode_test_branch w ip out) = Ok w"
    and "bits w 25 6 = 0b111010 \<Longrightarrow> i_code (decode_cmpbr w ip fs out) \<noteq> C_Invalid \<Longrightarrow>
      encode_branch_sys (decode_cmpbr w ip fs out) = Ok w"
    and "bits w 26 5 = 0b00101 \<Longrightarrow> encode_branch_sys (decode_uncond_branch_imm w ip out) = Ok w"
proof -
  show "bits w 25 7 = 0b1101011 \<Longrightarrow> i_code (decode_uncond_branch_reg w fs out) \<noteq> C_Invalid \<Longrightarrow>
      encode_branch_sys (decode_uncond_branch_reg w fs out) = Ok w"
    using leavesD [OF reaches_branch_reg _ assms(1)] exact_branch_reg assms(1) by metis
  show "encode_branch_sys (decode_cond_branch w fs out) = Ok w"
    if g: "bits w 25 7 = 0b0101010" "i_code (decode_cond_branch w fs out) \<noteq> C_Invalid"
  proof (cases "bit w 24")
    case True
    then have "decode_cond_branch w fs out = decode_ret_sppc w fs out" by (simp add: decode_cond_branch_def)
    then show ?thesis using leavesD [OF reaches_sppc _ assms(1)] exact_sppc(2) [OF assms(2) g(1) True assms(1)] g(2) by metis
  next
    case False
    then show ?thesis using leavesD [OF reaches_cond [OF False] _ assms(1)] exact_cond [OF g(1) False _ assms(1)] g(2) by metis
  qed
  show "encode_branch_sys (decode_cmpbr w ip fs out) = Ok w"
    if "bits w 25 6 = 0b111010" "i_code (decode_cmpbr w ip fs out) \<noteq> C_Invalid"
    using leavesD [OF reaches_cmpbr _ assms(1)] exact_cmpbr [OF that(1) assms(2) that(2) assms(1)] that(2) by metis
qed (simp_all add: reaches_compare reaches_test reaches_uncond exact_compare exact_test exact_uncond_imm assms(2))

lemma system_prefix:
  assumes "bits w 22 10 = 0b1101010100"
  shows "bits w 25 7 = 0b1101010" "bits w 24 8 = 0b11010101"
  using bits_eqD [OF assms, of 0] bits_eqD [OF assms, of 1] bits_eqD [OF assms, of 2] bits_eqD [OF assms, of 3]
    bits_eqD [OF assms, of 4] bits_eqD [OF assms, of 5] bits_eqD [OF assms, of 6] bits_eqD [OF assms, of 7]
    bits_eqD [OF assms, of 8] bits_eqD [OF assms, of 9]
  by (simp_all add: to_bits)

lemma decode_branch_sys_system:
  "bits w 22 10 = 0b1101010100 \<Longrightarrow> decode_branch_sys w ip fs out = decode_system w fs out"
  using system_prefix [of w] by (simp add: decode_branch_sys_def)

lemma branch_sys_encode:
  assumes "i_code (decoded decode_branch_sys w ip fs) \<noteq> C_Invalid"
  shows "encode_branch_sys (decoded decode_branch_sys w ip fs) = Ok (canon_branch_sys (decoded decode_branch_sys w ip fs) w)"
proof (cases "bits w 22 10 = 0b1101010100")
  case True
  note s = decode_branch_sys_system [OF True]
  show ?thesis
    using leavesD [OF canon_system [OF True, of "new_invalid w ip" fs]] assms by (simp add: decoded_def s new_invalid_def)
next
  case False
  let ?out = "new_invalid w ip"
  have i: "i_code ?out = C_Invalid" "i_ip ?out = ip" by (simp_all add: new_invalid_def)
  have "encode_branch_sys (decode_branch_sys w ip fs ?out) = Ok w"
    using assms False unfolding decoded_def decode_branch_sys_def Let_def
    by (simp add: exact_classes [OF i] exact_exception exact_system_pair exact_tchange i split: if_splits)
  then show ?thesis using False by (simp add: decoded_def canon_branch_sys_def)
qed

end
