(* ===== verification/Branch_Sys_Same.thy ===== *)
theory Branch_Sys_Same
  imports Branch_Sys_Canon
begin

text \<open>
  The canonical word of a branch or system instruction decodes to the same instruction as the word it comes from.
\<close>

section \<open>Two runs from the same address\<close>

text \<open>What a class decoder builds depends on the instruction under construction only through its address.\<close>

lemma same_built: "i_ip o1 = i_ip o2 \<Longrightarrow> same_semantics (built o1 c m ops) (built o2 c m ops)"
  by simp

lemma same_pcdphint: "i_ip o1 = i_ip o2 \<Longrightarrow> same_semantics (decode_pcdphint op2 o1) (decode_pcdphint op2 o2)"
  unfolding decode_pcdphint_def by (intro same_if) simp_all

lemma same_bti: "i_ip o1 = i_ip o2 \<Longrightarrow> same_semantics (decode_bti op2 o1) (decode_bti op2 o2)"
  unfolding decode_bti_def Let_def by (intro same_if) simp_all

lemma same_hint:
  "i_ip o1 = i_ip o2 \<Longrightarrow> same_semantics o1 o2 \<Longrightarrow> same_semantics (decode_hint fs crm op2 rt o1) (decode_hint fs crm op2 rt o2)"
  unfolding decode_hint_def Let_def
  by (intro same_if) (simp_all add: same_pcdphint same_bti set_pauth_hint_def set_generic_hint_def)

lemma same_wfxt:
  "i_ip o1 = i_ip o2 \<Longrightarrow> same_semantics o1 o2 \<Longrightarrow> same_semantics (decode_wfxt fs crm op2 rt o1) (decode_wfxt fs crm op2 rt o2)"
  unfolding decode_wfxt_def by (intro same_if) simp_all

lemma same_push_barrier:
  "i_ip o1 = i_ip o2 \<Longrightarrow> same_semantics (push_barrier_option crm (built o1 c m [])) (push_barrier_option crm (built o2 c m []))"
  unfolding push_barrier_option_def by (intro same_option) simp_all

lemma same_barrier:
  "i_ip o1 = i_ip o2 \<Longrightarrow> same_semantics o1 o2 \<Longrightarrow>
   same_semantics (decode_barrier fs (if op2 = 7 then 0 else crm) op2 rt o1) (decode_barrier fs crm op2 rt o2)"
proof (cases "op2 = 7")
  case False
  assume "i_ip o1 = i_ip o2" "same_semantics o1 o2"
  with False show ?thesis
    unfolding decode_barrier_def Let_def by (simp only: if_False) (intro same_if; simp add: same_push_barrier)
qed (simp add: decode_barrier_def)

lemma svcr_bits:
  fixes crm :: u32
  shows "svcr_crm crm AND 1 = crm AND 1"
    "svcr_crm crm AND 2 \<noteq> 0 \<and> \<not> svcr_crm crm AND 4 \<noteq> 0 \<longleftrightarrow> crm AND 2 \<noteq> 0 \<and> \<not> crm AND 4 \<noteq> 0"
    "\<not> svcr_crm crm AND 2 \<noteq> 0 \<and> svcr_crm crm AND 4 \<noteq> 0 \<longleftrightarrow> \<not> crm AND 2 \<noteq> 0 \<and> crm AND 4 \<noteq> 0"
  by (auto simp: svcr_crm_def to_bits)

lemma same_msr_imm:
  assumes "i_ip o1 = i_ip o2" "same_semantics o1 o2"
  shows "same_semantics (decode_msr_imm op1 op2 (pstate_crm op1 op2 crm) rt o1) (decode_msr_imm op1 op2 crm rt o2)"
proof -
  consider (svcr) "op1 = 3 \<and> op2 = 3" | (flag) "op1 = 0" "op2 \<in> {0, 1, 2}"
    | (field) "\<not> (op1 = 3 \<and> op2 = 3)" "\<not> (op1 = 0 \<and> op2 \<in> {0, 1, 2})" by blast
  then show ?thesis
  proof cases
    case svcr
    then have p: "pstate_crm op1 op2 crm = svcr_crm crm" by (simp add: pstate_crm_def)
    show ?thesis unfolding p decode_msr_imm_def Let_def svcr_bits using svcr assms
      by (intro same_if) simp_all
  next
    case flag
    then show ?thesis using assms by (auto simp: decode_msr_imm_def)
  next
    case field
    then have p: "pstate_crm op1 op2 crm = crm" by (auto simp: pstate_crm_def)
    show ?thesis unfolding p decode_msr_imm_def Let_def using assms
      by (intro same_if same_option) simp_all
  qed
qed

lemma same_gcs:
  assumes "i_ip o1 = i_ip o2" "decode_gcs_sys fs op1 crn crm op2 rt rd o2 = Some d" "\<not> takes_xt d"
  shows "\<exists>d'. decode_gcs_sys fs op1 crn crm op2 31 rd o1 = Some d' \<and> same_semantics d' d"
proof -
  obtain c takes elide where r: "map_of gcs_rows (rd, op1, op2) = Some (c, takes, elide)" and g: "crn = 7" "crm = 7" "has fs F_Gcs"
    and d: "d = (if takes \<and> \<not> (elide \<and> rt = 31) then push_operand (xreg rt) (insn_set c o2) else insn_set c o2)"
    using assms(2) by (auto simp: decode_gcs_sys_def Let_def split: if_splits option.splits)
  have "i_code d = c" by (simp add: d)
  moreover have "c \<notin> {C_Sys, C_Sysl}" using map_of_SomeD [OF r] by (auto simp: gcs_rows_def)
  ultimately have "c \<in> {C_Gcspushx, C_Gcspopcx, C_Gcspopx}" using assms(3) by (auto simp: takes_xt_def)
  then have "\<not> takes" using map_of_SomeD [OF r] by (auto simp: gcs_rows_def)
  then show ?thesis using r g assms(1) by (auto simp: d decode_gcs_sys_def)
qed

lemma decode_gcs_sys_None:
  "decode_gcs_sys fs op1 crn crm op2 rt rd out = None \<longleftrightarrow> crn \<noteq> 7 \<or> crm \<noteq> 7 \<or> \<not> has fs F_Gcs \<or> map_of gcs_rows (rd, op1, op2) = None"
  by (auto simp: decode_gcs_sys_def Let_def split: option.split)

lemma same_sys:
  assumes "i_ip o1 = i_ip o2" "\<not> takes_xt (decode_sys fs op1 crn crm op2 rt rd o2)"
  shows "same_semantics (decode_sys fs op1 crn crm op2 31 rd o1) (decode_sys fs op1 crn crm op2 rt rd o2)"
proof (cases "rctx_mnemonic rd op1 crn crm op2")
  case (Some m)
  then have False using assms(2) by (simp add: decode_sys_def takes_xt_def)
  then show ?thesis ..
next
  case no_rctx: None
  show ?thesis
  proof (cases "decode_gcs_sys fs op1 crn crm op2 rt rd o2")
    case (Some d)
    moreover have "\<not> takes_xt d" using assms(2) by (simp add: decode_sys_def no_rctx Some)
    ultimately show ?thesis using same_gcs [OF assms(1) Some] by (auto simp: decode_sys_def no_rctx)
  next
    case no_gcs: None
    then have no_gcs': "decode_gcs_sys fs op1 crn crm op2 31 rd o1 = None" by (simp add: decode_gcs_sys_None)
    show ?thesis
    proof (cases "sysins_lookup rd op1 crn crm op2")
      case None
      then have False using assms(2) by (simp add: decode_sys_def no_rctx no_gcs takes_xt_def split: if_splits)
      then show ?thesis ..
    next
      case (Some t)
      have "takes_xt (push_sysins_operands t rt (built o2 c m [])) \<longleftrightarrow> s_needs_rt t" if "c \<in> {C_Sys, C_Sysl}" for c m
        using that by (auto simp: takes_xt_def push_sysins_operands_def Let_def sysop_def)
      then have "\<not> s_needs_rt t" using assms(2) by (auto simp: decode_sys_def no_rctx no_gcs Some split: if_splits)
      then show ?thesis using assms(1) by (simp add: decode_sys_def no_rctx no_gcs no_gcs' Some push_sysins_operands_def Let_def)
    qed
  qed
qed

section \<open>The canonical word decodes alike\<close>

text \<open>The fields a named \<open>op0 = 00\<close> form is encoded with, as functions of the fields it is decoded from.\<close>

definition named_op1 :: "u32 \<Rightarrow> u32 \<Rightarrow> u32" where
  "named_op1 crn op1 = (if crn = 4 then op1 else 3)"

definition named_crm :: "u32 \<Rightarrow> u32 \<Rightarrow> u32 \<Rightarrow> u32 \<Rightarrow> u32" where
  "named_crm crn op1 op2 crm =
     (if crn = 3 then (if op2 = 7 then 0 else crm) else if crn = 4 then pstate_crm op1 op2 crm else crm)"

lemma same_named:
  assumes "i_ip o1 = i_ip o2" "same_semantics o1 o2"
  shows "same_semantics (decode_op0_00_named fs False (named_op1 crn op1) crn (named_crm crn op1 op2 crm) op2 rt o1)
    (decode_op0_00_named fs False op1 crn crm op2 rt o2)"
proof -
  consider "crn = 4" | "crn = 2" | "crn = 3" | "crn = 1" | "crn \<notin> {1, 2, 3, 4}" by blast
  then show ?thesis
    by cases (simp_all add: decode_op0_00_named_def named_op1_def named_crm_def assms same_msr_imm same_hint same_barrier same_wfxt)
qed

lemma named_fields:
  "leaves (\<lambda>d. takes_xt d \<and> (if ignores_op1 (i_code d) then 3 else op1) = named_op1 crn op1 \<and>
      canon_crm (i_code d) crm = named_crm crn op1 op2 crm) out (decode_op0_00_named fs False op1 crn crm op2 rt out)"
proof (cases "rt = 31")
  case True
  consider (msr) "crn = 4" | (hint) "crn = 2" | (barrier) "crn = 3" | (wfxt) "crn = 1" | (none) "crn \<notin> {1, 2, 3, 4}" by blast
  then show ?thesis
  proof cases
    case msr
    then show ?thesis using fields_msr_imm [of op1 op2 crm out] True
      by (simp add: decode_op0_00_named_def leaves_leaf named_op1_def named_crm_def)
  next
    case hint
    have "decode_op0_00_named fs False op1 crn crm op2 rt out = decode_hint fs crm op2 31 out"
      using hint True by (simp add: decode_op0_00_named_def)
    then show ?thesis using hint by (auto intro!: leaves_mono [OF code_hint] simp: ignores_op1_canon named_op1_def named_crm_def)
  next
    case barrier
    have "decode_op0_00_named fs False op1 crn crm op2 rt out = decode_barrier fs crm op2 31 out"
      using barrier True by (simp add: decode_op0_00_named_def)
    then show ?thesis using barrier by (auto intro!: leaves_mono [OF code_barrier] simp: ignores_op1_canon named_op1_def named_crm_def)
  next
    case wfxt
    have "decode_op0_00_named fs False op1 crn crm op2 rt out = decode_wfxt fs crm op2 31 out"
      using wfxt True by (simp add: decode_op0_00_named_def)
    then show ?thesis using wfxt by (auto intro!: leaves_mono [OF code_wfxt] simp: ignores_op1_canon named_op1_def named_crm_def)
  qed (simp add: decode_op0_00_named_def)
next
  case False
  show ?thesis
  proof (cases "crn = 1")
    case True
    have "decode_op0_00_named fs False op1 crn crm op2 rt out = decode_wfxt fs crm op2 rt out"
      using True by (simp add: decode_op0_00_named_def)
    then show ?thesis using True by (auto intro!: leaves_mono [OF code_wfxt] simp: ignores_op1_canon named_op1_def named_crm_def)
  qed (use False in \<open>simp add: decode_op0_00_named_def decode_msr_imm_def decode_hint_def decode_barrier_def\<close>)
qed

lemma same_op0_00:
  assumes "i_ip o1 = i_ip o2" "same_semantics o1 o2" "i_code o1 = C_Invalid" "i_code o2 = C_Invalid"
    "i_code (decode_op0_00_named fs False op1 crn crm op2 rt o2) \<noteq> C_Invalid"
  shows "same_semantics (decode_op0_00 fs False (named_op1 crn op1) crn (named_crm crn op1 op2 crm) op2 rt o1)
    (decode_op0_00 fs False op1 crn crm op2 rt o2)"
proof -
  note s = same_named [OF assms(1,2), of fs crn op1 op2 crm rt]
  then have "i_code (decode_op0_00_named fs False (named_op1 crn op1) crn (named_crm crn op1 op2 crm) op2 rt o1) \<noteq> C_Invalid"
    using assms(5) by (simp add: same_semantics_def)
  then show ?thesis using s assms(5) by (simp add: decode_op0_00_def insn_is_invalid_def)
qed

lemma canon_own:
  assumes "bits w 22 10 = 0b1101010100" "i_code d \<in> {C_Mrs, C_MsrReg, C_Tstart, C_Ttest}"
  shows "canon_branch_sys d w = w"
  using assms system_word_layout [OF assms(1)]
  by (auto simp: canon_branch_sys_def canon_fields_def ignores_op1_def canon_crm_def takes_xt_def)

definition canon_word :: "u32 \<Rightarrow> u32 \<Rightarrow> u32 \<Rightarrow> u32 \<Rightarrow> u32" where
  "canon_word w op1 crm rt = system_word (bit_at w 21) (bits w 19 2) op1 (bits w 12 4) crm (bits w 5 3) rt"

lemma and_own: "bit_at w n AND 1 = bit_at w n"
  by (cases "bit w n") (simp_all add: bit_at_0 bit_at_1)

lemma decode_canon_word:
  "op1 AND 7 = op1 \<Longrightarrow> crm AND 15 = crm \<Longrightarrow> rt AND 31 = rt \<Longrightarrow>
   decode_branch_sys (canon_word w op1 crm rt) ip fs out =
     (let rd = (bit_at w 21 \<noteq> 0)
      in if bits w 19 2 = 0 then decode_op0_00 fs rd op1 (bits w 12 4) crm (bits w 5 3) rt out
         else if bits w 19 2 = 1 then decode_sys fs op1 (bits w 12 4) crm (bits w 5 3) rt rd out
         else decode_sysreg_move rd (bits w 19 2) op1 (bits w 12 4) crm (bits w 5 3) rt out)"
  unfolding canon_word_def
  by (simp add: decode_branch_sys_system system_word_fields decode_system_def Let_def and_own)

lemma named_masks [simp]:
  "named_op1 crn (bits w a 3) AND 7 = named_op1 crn (bits w a 3)"
  "named_crm crn op1 op2 (bits w c 4) AND 15 = named_crm crn op1 op2 (bits w c 4)"
proof -
  show "named_op1 crn (bits w a 3) AND 7 = named_op1 crn (bits w a 3)" by (simp add: named_op1_def)
  have "svcr_crm (bits w c 4) AND 15 = svcr_crm (bits w c 4)"
    using bits_4_cases [of w c] by (elim disjE) (simp_all add: svcr_crm_def)
  then show "named_crm crn op1 op2 (bits w c 4) AND 15 = named_crm crn op1 op2 (bits w c 4)"
    by (simp add: named_crm_def pstate_crm_def)
qed

lemma decode_system_own:
  "bits w 22 10 = 0b1101010100 \<Longrightarrow> decode_branch_sys w ip fs out =
     (let rd = (bit_at w 21 \<noteq> 0)
      in if bits w 19 2 = 0 then decode_op0_00 fs rd (bits w 16 3) (bits w 12 4) (bits w 8 4) (bits w 5 3) (bits w 0 5) out
         else if bits w 19 2 = 1 then decode_sys fs (bits w 16 3) (bits w 12 4) (bits w 8 4) (bits w 5 3) (bits w 0 5) rd out
         else decode_sysreg_move rd (bits w 19 2) (bits w 16 3) (bits w 12 4) (bits w 8 4) (bits w 5 3) (bits w 0 5) out)"
  by (simp add: decode_branch_sys_system decode_system_def Let_def)

lemma code_op0_00_read: "leaves (\<lambda>d. i_code d \<in> {C_Mrs, C_MsrReg, C_Tstart, C_Ttest}) out (decode_op0_00 fs True op1 crn crm op2 rt out)"
  by (auto simp: decode_op0_00_def decode_op0_00_named_def decode_systemresult_def decode_sysreg_move_def Let_def leaves_def)

lemma canon_word_alt:
  "bits w 22 10 = 0b1101010100 \<Longrightarrow> canon_branch_sys d w =
     canon_word w (if ignores_op1 (i_code d) then 3 else bits w 16 3) (canon_crm (i_code d) (bits w 8 4)) (if takes_xt d then bits w 0 5 else 31)"
  by (simp add: canon_branch_sys_def canon_fields_def canon_word_def)

lemma branch_sys_same:
  assumes "i_code (decoded decode_branch_sys w ip fs) \<noteq> C_Invalid"
  shows "same_semantics (decoded decode_branch_sys (canon_branch_sys (decoded decode_branch_sys w ip fs) w) ip fs)
    (decoded decode_branch_sys w ip fs)"
proof (cases "bits w 22 10 = 0b1101010100")
  case True
  let ?d = "decoded decode_branch_sys w ip fs"
  let ?w' = "canon_branch_sys ?d w"
  note d = decode_system_own [OF True, of ip fs "new_invalid w ip", folded decoded_def]
  have inv [simp]: "i_code (new_invalid v ip) = C_Invalid" "i_ip (new_invalid v ip) = ip" for v by (simp_all add: new_invalid_def)
  have own: "i_code ?d \<in> {C_Mrs, C_MsrReg, C_Tstart, C_Ttest} \<Longrightarrow> ?thesis" using canon_own [OF True, of ?d] by simp
  consider (move) "bits w 19 2 \<noteq> 0" "bits w 19 2 \<noteq> 1" | (sys) "bits w 19 2 = 1" | (op0_00_read) "bits w 19 2 = 0" "bit w 21"
    | (op0_00) "bits w 19 2 = 0" "\<not> bit w 21" by blast
  then show ?thesis
  proof cases
    case move
    then show ?thesis using d by (intro own) (simp add: decode_sysreg_move_def Let_def)
  next
    case op0_00_read
    then have "?d = decode_op0_00 fs True (bits w 16 3) (bits w 12 4) (bits w 8 4) (bits w 5 3) (bits w 0 5) (new_invalid w ip)"
      using d by simp
    then show ?thesis using leavesD [OF code_op0_00_read [of "new_invalid w ip" fs]] assms by (intro own) simp
  next
    case sys
    then have e: "?d = decode_sys fs (bits w 16 3) (bits w 12 4) (bits w 8 4) (bits w 5 3) (bits w 0 5) (bit_at w 21 \<noteq> 0) (new_invalid w ip)"
      using d by simp
    then have "i_code ?d \<in> sys_codes" by (simp add: code_sys)
    then have f: "\<not> ignores_op1 (i_code ?d)" "canon_crm (i_code ?d) crm = crm" for crm
      by (auto simp: sys_codes_def ignores_op1_def canon_crm_def)
    show ?thesis
    proof (cases "takes_xt ?d")
      case t: True
      then have "?w' = w" using f system_word_layout [OF True] by (simp add: canon_word_alt [OF True] canon_word_def)
      then show ?thesis by simp
    next
      case False
      have "?w' = canon_word w (bits w 16 3) (bits w 8 4) 31" using f False by (simp add: canon_word_alt [OF True])
      then have "decoded decode_branch_sys ?w' ip fs =
          decode_sys fs (bits w 16 3) (bits w 12 4) (bits w 8 4) (bits w 5 3) 31 (bit_at w 21 \<noteq> 0) (new_invalid ?w' ip)"
        using sys by (simp add: decoded_def decode_canon_word)
      moreover have "same_semantics (decode_sys fs (bits w 16 3) (bits w 12 4) (bits w 8 4) (bits w 5 3) 31 (bit_at w 21 \<noteq> 0) (new_invalid ?w' ip)) ?d"
        using same_sys [OF _ False [unfolded e]] unfolding e by simp
      ultimately show ?thesis by simp
    qed
  next
    case op0_00
    let ?n = "decode_op0_00_named fs False (bits w 16 3) (bits w 12 4) (bits w 8 4) (bits w 5 3) (bits w 0 5) (new_invalid w ip)"
    have e: "?d = decode_op0_00 fs False (bits w 16 3) (bits w 12 4) (bits w 8 4) (bits w 5 3) (bits w 0 5) (new_invalid w ip)"
      using op0_00 d by simp
    show ?thesis
    proof (cases "i_code ?n = C_Invalid")
      case n: True
      then show ?thesis using assms e by (intro own) (auto simp: decode_op0_00_def decode_sysreg_move_def insn_is_invalid_def Let_def split: if_splits)
    next
      case False
      have dn: "?d = ?n" using False e by (simp add: decode_op0_00_def insn_is_invalid_def)
      have "?w' = canon_word w (named_op1 (bits w 12 4) (bits w 16 3)) (named_crm (bits w 12 4) (bits w 16 3) (bits w 5 3) (bits w 8 4)) (bits w 0 5)"
        using leavesD [OF named_fields False] by (simp add: canon_word_alt [OF True] dn)
      then have "decoded decode_branch_sys ?w' ip fs =
          decode_op0_00 fs False (named_op1 (bits w 12 4) (bits w 16 3)) (bits w 12 4)
            (named_crm (bits w 12 4) (bits w 16 3) (bits w 5 3) (bits w 8 4)) (bits w 5 3) (bits w 0 5) (new_invalid ?w' ip)"
        using op0_00 by (simp add: decoded_def decode_canon_word)
      then show ?thesis using same_op0_00 [OF _ same_invalid _ _ False] e by simp
    qed
  qed
qed (simp add: canon_branch_sys_def)

end
