(* ===== verification/Branch_Sys_Codec.thy ===== *)
theory Branch_Sys_Codec
  imports Branch_Sys_Same
begin

text \<open>
  The branch and system group as a codec: what its decoder builds, what its encoder depends on, and the interpretation
  of \<open>group_codec\<close> on \<open>decode_branch_sys\<close> and \<open>encode_branch_sys\<close>.
\<close>

section \<open>What the decoder builds\<close>

lemma built_branch_reg: "built_from is_branch_sys fs out (decode_uncond_branch_reg w fs out)"
  unfolding decode_uncond_branch_reg_def Let_def by (intro built_split) (simp_all add: built_from_built)

lemma built_cond: "built_from is_branch_sys fs out (decode_cond_branch w fs out)"
  unfolding decode_cond_branch_def decode_ret_sppc_def push_sppc_label_def Let_def
  by (intro built_split) (simp_all add: built_from_built)

lemma built_label_branches:
  "built_from is_branch_sys fs out (decode_compare_branch w ip out)"
  "built_from is_branch_sys fs out (decode_test_branch w ip out)"
  "built_from is_branch_sys fs out (decode_uncond_branch_imm w ip out)"
  by (simp_all add: decode_compare_branch_def decode_test_branch_def decode_uncond_branch_imm_def Let_def built_from_built)

lemma cmpbr_codes: "map_of cmpbr_rows c = Some r \<Longrightarrow> is_branch_sys c \<and> code_feature c = F_Cmpbr"
  by (drule map_of_SomeD) (auto simp: cmpbr_rows_def)

lemma built_cmpbr: "built_from is_branch_sys fs out (decode_cmpbr w ip fs out)"
  unfolding decode_cmpbr_def Let_def
  by (intro built_split) (auto intro!: built_from_built dest!: cmpbr_reg_row cmpbr_imm_row dest: cmpbr_codes)

lemma built_exception: "built_from is_branch_sys fs out (decode_exception w fs out)"
  unfolding decode_exception_def push_optional_imm_def Let_def by (intro built_split) (simp_all add: built_from_built)

lemma built_tchange: "built_from is_branch_sys fs out (decode_tchange w fs out)"
  unfolding decode_tchange_def push_nb_def Let_def by (intro built_split) (simp_all add: built_from_built)

lemma built_sysreg_move: "built_from is_branch_sys fs out (decode_sysreg_move rd op0 op1 crn crm op2 rt out)"
  by (simp add: decode_sysreg_move_def Let_def built_from_built)

lemma built_msr_imm: "built_from is_branch_sys fs out (decode_msr_imm op1 op2 crm rt out)"
  unfolding decode_msr_imm_def Let_def by (intro built_split) (simp_all add: built_from_built)

lemma built_pcdphint: "has fs F_Pcdphint \<Longrightarrow> built_from is_branch_sys fs out (decode_pcdphint op2 out)"
  unfolding decode_pcdphint_def Let_def by (intro built_split) (simp_all add: built_from_built)

lemma built_bti: "built_from is_branch_sys fs out (decode_bti op2 out)"
  unfolding decode_bti_def Let_def by (intro built_split) (simp_all add: built_from_built)

lemma built_hint: "built_from is_branch_sys fs out (decode_hint fs crm op2 rt out)"
  unfolding decode_hint_def Let_def
  by (intro built_split) (simp_all add: built_from_built built_pcdphint built_bti set_pauth_hint_def set_generic_hint_def)

lemma built_wfxt: "built_from is_branch_sys fs out (decode_wfxt fs crm op2 rt out)"
  unfolding decode_wfxt_def Let_def by (intro built_split) (simp_all add: built_from_built)

lemma built_barrier: "built_from is_branch_sys fs out (decode_barrier fs crm op2 rt out)"
  unfolding decode_barrier_def push_barrier_option_def Let_def by (intro built_split) (simp_all add: built_from_built)

lemma built_systemresult: "built_from is_branch_sys fs out (decode_systemresult fs op1 crn crm op2 rt out)"
  unfolding decode_systemresult_def Let_def by (intro built_split) (simp_all add: built_from_built)

lemma built_op0_00: "built_from is_branch_sys fs out (decode_op0_00 fs rd op1 crn crm op2 rt out)"
proof -
  have n: "built_from is_branch_sys fs out (decode_op0_00_named fs rd op1 crn crm op2 rt out)"
    unfolding decode_op0_00_named_def
    by (intro built_split) (simp_all add: built_systemresult built_msr_imm built_hint built_barrier built_wfxt)
  then have "decode_op0_00_named fs rd op1 crn crm op2 rt out = out" if "insn_is_invalid (decode_op0_00_named fs rd op1 crn crm op2 rt out)"
    using that by (auto simp: built_from_def insn_is_invalid_def is_branch_sys_def)
  then show ?thesis using n by (auto simp: decode_op0_00_def Let_def built_sysreg_move)
qed

lemma built_gcs: "decode_gcs_sys fs op1 crn crm op2 rt rd out = Some d \<Longrightarrow> built_from is_branch_sys fs out d"
proof -
  assume a: "decode_gcs_sys fs op1 crn crm op2 rt rd out = Some d"
  then obtain c takes elide where r: "map_of gcs_rows (rd, op1, op2) = Some (c, takes, elide)" and f: "has fs F_Gcs"
    and d: "d = (if takes \<and> \<not> (elide \<and> rt = 31) then push_operand (xreg rt) (insn_set c out) else insn_set c out)"
    by (auto simp: decode_gcs_sys_def Let_def split: if_splits option.splits)
  have "is_branch_sys c" "code_feature c = F_Gcs" using map_of_SomeD [OF r] by (auto simp: gcs_rows_def)
  then show ?thesis using f by (simp add: d built_from_built)
qed

lemma built_sys: "built_from is_branch_sys fs out (decode_sys fs op1 crn crm op2 rt rd out)"
  unfolding decode_sys_def push_sysins_operands_def Let_def
  by (intro built_split) (simp_all add: built_from_built built_gcs)

lemma built_system_pair: "built_from is_branch_sys fs out (decode_system_pair w fs out)"
  unfolding decode_system_pair_def decode_sysp_def Let_def by (intro built_split) (simp_all add: built_from_built)

lemmas built_branch_sys = built_branch_reg built_cond built_label_branches built_cmpbr built_exception built_tchange
  built_op0_00 built_sys built_sysreg_move built_system_pair

lemma decode_branch_sys_built: "built_from is_branch_sys fs out (decode_branch_sys w ip fs out)"
  unfolding decode_branch_sys_def decode_system_def Let_def by (intro built_split built_branch_sys)

section \<open>The encoder looks only at the semantics\<close>

lemmas branch_enc_defs = reg_num_def imm_u_def enc_label_def enc_cond_branch_def enc_pauth_lr_sppc_def enc_uncond_branch_imm_def
  enc_compare_branch_def enc_test_branch_def is_x_reg_def enc_cmpbr_reg_def enc_cmpbr_imm_def enc_cmpbr_def enc_branch_reg_def

lemmas system_enc_defs = reg_num_def imm_u_def sysop_name_def cr_num_def enc_exception_def enc_tchange_def hint_selector_def
  enc_hint_def enc_wfxt_def barrier_crm_def dsb_nxs_def default_imm_def enc_barrier_def enc_msr_imm_def sysreg_at_def
  enc_sysreg_move_def enc_sys_alias_def enc_sys_def enc_gcs_sys_def enc_systemresult_def reg_pair_base_def
  enc_sysreg_pair_def enc_sysp_def enc_udf_def

lemma branch_sys_enc_same:
  assumes "wf_insn i" "wf_insn j" "same_semantics i j"
  shows "encode_branch_sys i = encode_branch_sys j"
proof -
  have o: "insn_op i n = insn_op j n" for n using same_semantics_op [OF assms] .
  have c: "i_code i = i_code j" "i_mnemonic i = i_mnemonic j" "i_ip i = i_ip j" using assms(3) by (simp_all add: same_semantics_def)
  have k: "i_op_count i = i_op_count j"
    using assms by (metis length_live_operands same_semantics_def)
  have a: "enc_cond_branch i = enc_cond_branch j" "enc_pauth_lr_sppc i = enc_pauth_lr_sppc j" "enc_uncond_branch_imm i = enc_uncond_branch_imm j"
    "enc_compare_branch i = enc_compare_branch j" "enc_cmpbr i = enc_cmpbr j" "enc_test_branch i = enc_test_branch j" "enc_branch_reg i = enc_branch_reg j"
    by (simp_all only: branch_enc_defs o c k)
  have b: "enc_exception i = enc_exception j" "enc_hint i = enc_hint j" "enc_gcs_sys i = enc_gcs_sys j" "enc_wfxt i = enc_wfxt j"
    "enc_barrier i = enc_barrier j" "enc_msr_imm i = enc_msr_imm j" "enc_sysreg_move i = enc_sysreg_move j" "enc_sys i = enc_sys j"
    "enc_systemresult i = enc_systemresult j" "enc_sysreg_pair i = enc_sysreg_pair j" "enc_sysp i = enc_sysp j"
    "enc_tchange i = enc_tchange j" "enc_udf i = enc_udf j"
    by (simp_all only: system_enc_defs o c k)
  show ?thesis unfolding encode_branch_sys_def c a b ..
qed

lemma not_branch_sys_Invalid: "\<not> is_branch_sys C_Invalid"
  by (simp add: is_branch_sys_def)

section \<open>The codec\<close>

lemma system_word_group: "bits (system_word l op0 op1 crn crm op2 rt) 26 3 = 5"
  by (simp add: system_word_def to_bits)

lemma in_branch_sys_canon: "in_branch_sys w \<Longrightarrow> in_branch_sys (canon_branch_sys d w)"
  by (simp add: in_branch_sys_def canon_branch_sys_def canon_fields_def system_word_group)

interpretation branch_sys: group_codec in_branch_sys decode_branch_sys encode_branch_sys is_branch_sys
proof
  fix w ip fs
  assume g: "in_branch_sys w" "is_branch_sys (i_code (decoded decode_branch_sys w ip fs))"
  then have "i_code (decoded decode_branch_sys w ip fs) \<noteq> C_Invalid" using not_branch_sys_Invalid by auto
  with g(1) show "\<exists>w'. encode_branch_sys (decoded decode_branch_sys w ip fs) = Ok w' \<and> in_branch_sys w' \<and>
      same_semantics (decoded decode_branch_sys w' ip fs) (decoded decode_branch_sys w ip fs)"
    using branch_sys_encode branch_sys_same in_branch_sys_canon by blast
qed (rule not_branch_sys_Invalid decode_branch_sys_built branch_sys_enc_same; assumption?)+

end
