(* ===== verification/Branch_Retarget.thy ===== *)
theory Branch_Retarget
  imports Branch_Sys_Codec Insn_Edit
begin

text \<open>
  Editing the target of a direct branch (\<open>set_near_branch_target\<close>) and encoding the result.  The label of every form
  that has one sits in one field of the word (\<open>branch_field\<close>); the decoder of the form is a function of the other bits
  and of that field, and so is the encoder (\<open>labelled\<close>).
\<close>

section \<open>Dispatch\<close>

lemma dispatch:
  "bits w 26 5 = 0b00101 \<Longrightarrow> decode_branch_sys w ip fs out = decode_uncond_branch_imm w ip out"
  "bits w 25 7 = 0b0101010 \<Longrightarrow> decode_branch_sys w ip fs out = decode_cond_branch w fs out"
  "bits w 25 6 = 0b011010 \<Longrightarrow> decode_branch_sys w ip fs out = decode_compare_branch w ip out"
  "bits w 25 6 = 0b011011 \<Longrightarrow> decode_branch_sys w ip fs out = decode_test_branch w ip out"
  "bits w 25 6 = 0b111010 \<Longrightarrow> decode_branch_sys w ip fs out = decode_cmpbr w ip fs out"
  by (simp_all add: decode_branch_sys_def Let_def to_bits)

section \<open>Replacing the label field\<close>

definition direct_code :: "code \<Rightarrow> bool" where
  "direct_code c \<longleftrightarrow> (\<forall>out ops. has_direct_target (built out c (code_mnemonic c) ops))"

lemma direct_codes [simp]:
  "direct_code C_BUncond" "direct_code C_BlImm" "direct_code C_BCond" "direct_code C_BcCond" "direct_code C_Cbz32" "direct_code C_Cbz64"
  "direct_code C_Cbnz32" "direct_code C_Cbnz64" "direct_code C_Tbz" "direct_code C_Tbnz"
  by (simp_all add: direct_code_def has_direct_target_def insn_flow_control_def)

lemma cmpbr_direct: "map_of cmpbr_rows c = Some r \<Longrightarrow> direct_code c"
  by (drule map_of_SomeD) (auto simp: cmpbr_rows_def direct_code_def has_direct_target_def insn_flow_control_def)

definition labelled :: "u32 \<Rightarrow> u64 \<Rightarrow> feature_set \<Rightarrow> nat \<Rightarrow> nat \<Rightarrow> bool" where
  "labelled w ip fs l k \<longleftrightarrow>
     (\<exists>c ops f. direct_code c \<and> list_all (\<lambda>op. \<not> is_label op) ops \<and> length ops \<le> 2 \<and>
        (\<forall>v. agree l k w v \<longrightarrow> decoded decode_branch_sys v ip fs =
           built (new_invalid v ip) c (code_mnemonic c) (ops @ [rel_label ip (bits v l k) (k + 2)])) \<and>
        (\<forall>out t. encode_branch_sys (built out c (code_mnemonic c) (ops @ [OpLabel t])) = and_then (rel_imm t (i_ip out) k 2) f))"

lemma is_label_simps [simp]:
  "\<not> is_label (gp_reg u wd n)" "\<not> is_label (OpImmUnsigned v)" "\<not> is_label (OpCond c)" "is_label (OpLabel t)"
  by (simp_all add: gp_reg_def is_label_def)

lemma width_of_bit [simp]: "width_of (bit_at w n) = (if bit w n then X64 else W32)"
  by (simp add: bit_at_1 bit_at_0)

lemma labelledI:
  assumes "direct_code c" "list_all (\<lambda>op. \<not> is_label op) ops" "length ops \<le> 2"
    "\<And>v. agree l k w v \<Longrightarrow> decoded decode_branch_sys v ip fs =
           built (new_invalid v ip) c (code_mnemonic c) (ops @ [rel_label ip (bits v l k) (k + 2)])"
    "\<And>out t. encode_branch_sys (built out c (code_mnemonic c) (ops @ [OpLabel t])) = and_then (rel_imm t (i_ip out) k 2) f"
  shows "labelled w ip fs l k"
  unfolding labelled_def using assms by blast

lemma new_ip [simp]: "i_ip (new_invalid w ip) = ip"
  by (simp add: new_invalid_def)

lemma labelled_uncond:
  assumes "bits w 26 5 = 0b00101"
  shows "labelled w ip fs 0 26"
proof -
  have c: "agree 0 26 w v \<Longrightarrow> bits v 26 5 = 0b00101 \<and> bits v 29 3 = bits w 29 3" for v using assms agree_bits [of 0 26 w v] by simp
  show ?thesis
  proof (cases "bits w 29 3 AND 4 = 0")
    case True
    show ?thesis
      by (rule labelledI [where ops = "[]" and c = C_BUncond and f = "\<lambda>imm. Ok (push_bit 31 0 OR push_bit 26 0b00101 OR imm)"])
        (auto dest!: c simp: decoded_def True dispatch decode_uncond_branch_imm_def rel_label_def enc_uncond_branch_imm_def enc_label_def)
  next
    case False
    show ?thesis
      by (rule labelledI [where ops = "[]" and c = C_BlImm and f = "\<lambda>imm. Ok (push_bit 31 1 OR push_bit 26 0b00101 OR imm)"])
        (auto dest!: c simp: decoded_def False dispatch decode_uncond_branch_imm_def rel_label_def enc_uncond_branch_imm_def enc_label_def)
  qed
qed

lemma labelled_cond:
  assumes "bits w 25 7 = 0b0101010" "\<not> bit w 24" "i_code (decoded decode_branch_sys w ip fs) \<noteq> C_Invalid"
  shows "labelled w ip fs 5 19"
proof -
  let ?c = "condition_from_bits (ucast (bits w 0 4))"
  have c: "agree 5 19 w v \<Longrightarrow> bits v 25 7 = 0b0101010 \<and> \<not> bit v 24 \<and> bit v 4 = bit w 4 \<and> bits v 0 4 = bits w 0 4" for v
    using assms agree_bits [of 5 19 w v] by (simp add: agree_def)
  have h: "bit w 4 \<Longrightarrow> has fs F_Hbc"
    using assms by (auto simp: decoded_def dispatch decode_cond_branch_def new_invalid_def Let_def split: if_splits)
  show ?thesis
  proof (cases "bit w 4")
    case True
    show ?thesis
      by (rule labelledI [where ops = "[OpCond ?c]" and c = C_BcCond and
            f = "\<lambda>imm. Ok (push_bit 24 0b01010100 OR push_bit 5 imm OR push_bit 4 1 OR ucast (condition_as_u4 ?c))"])
        (auto dest!: c simp: decoded_def True h dispatch decode_cond_branch_def rel_label_def enc_cond_branch_def
          enc_label_def Let_def)
  next
    case False
    show ?thesis
      by (rule labelledI [where ops = "[OpCond ?c]" and c = C_BCond and
            f = "\<lambda>imm. Ok (push_bit 24 0b01010100 OR push_bit 5 imm OR push_bit 4 0 OR ucast (condition_as_u4 ?c))"])
        (auto dest!: c simp: decoded_def False dispatch decode_cond_branch_def rel_label_def enc_cond_branch_def
          enc_label_def Let_def)
  qed
qed

lemma labelled_compare:
  assumes "bits w 25 6 = 0b011010"
  shows "labelled w ip fs 5 19"
proof -
  have c: "agree 5 19 w v \<Longrightarrow> bits v 25 6 = 0b011010 \<and> bit v 31 = bit w 31 \<and> bit v 24 = bit w 24 \<and> bits v 0 5 = bits w 0 5" for v
    using assms agree_bits [of 5 19 w v] by (simp add: agree_def)
  let ?c = "if bit w 24 then (if bit w 31 then C_Cbnz64 else C_Cbnz32) else (if bit w 31 then C_Cbz64 else C_Cbz32)"
  show ?thesis
    by (rule labelledI [where ops = "[gp_reg False (width_of (bit_at w 31)) (bits w 0 5)]" and c = ?c and
          f = "\<lambda>imm. Ok (push_bit 31 (bit_at w 31) OR push_bit 25 0b011010 OR push_bit 24 (bit_at w 24) OR push_bit 5 imm OR bits w 0 5)"])
      (auto dest!: c simp: decoded_def dispatch decode_compare_branch_def rel_label_def enc_compare_branch_def
          dec_eval branch_eval)
qed

lemma labelled_test:
  assumes "bits w 25 6 = 0b011011"
  shows "labelled w ip fs 5 14"
proof -
  have c: "agree 5 14 w v \<Longrightarrow> bits v 25 6 = 0b011011 \<and> bit v 31 = bit w 31 \<and> bit v 24 = bit w 24 \<and> bits v 0 5 = bits w 0 5 \<and>
      bits v 19 5 = bits w 19 5" for v
    using assms agree_bits [of 5 14 w v] by (simp add: agree_def)
  note p = bitpos_parts [of w 31 19]
  let ?c = "if bit w 24 then C_Tbnz else C_Tbz"
  let ?b = "push_bit 5 (bit_at w 31) OR bits w 19 5"
  show ?thesis
    by (rule labelledI [where ops = "[gp_reg False (width_of (bit_at w 31)) (bits w 0 5), OpImmUnsigned (ucast ?b)]" and c = ?c and
          f = "\<lambda>imm. Ok (push_bit 31 (bit_at w 31) OR push_bit 25 0b011011 OR push_bit 24 (bit_at w 24) OR push_bit 19 (bits w 19 5) OR
            push_bit 5 imm OR bits w 0 5)"])
      (use p in \<open>auto dest!: c simp: decoded_def dispatch decode_test_branch_def rel_label_def enc_test_branch_def
          dec_eval branch_eval\<close>)
qed

lemma labelled_cmpbr:
  assumes "bits w 25 6 = 0b111010" "i_code (decoded decode_branch_sys w ip fs) \<noteq> C_Invalid"
  shows "labelled w ip fs 5 9"
proof -
  have inv: "i_code (new_invalid w ip) = C_Invalid" by (simp add: new_invalid_def)
  have c: "agree 5 9 w v \<Longrightarrow> bits v 25 6 = 0b111010 \<and> bit v 31 = bit w 31 \<and> bit v 24 = bit w 24 \<and> bit v 14 = bit w 14 \<and>
      bits v 0 5 = bits w 0 5 \<and> bits v 21 3 = bits w 21 3 \<and> bits v 14 2 = bits w 14 2 \<and> bits v 16 5 = bits w 16 5 \<and> bits v 15 6 = bits w 15 6" for v
    using assms agree_bits [of 5 9 w v] by (simp add: agree_def)
  show ?thesis
  proof (cases "bit w 24")
    case False
    obtain k where k: "cmpbr_reg_code (bits w 14 2) (bits w 21 3) (bit_at w 31) = Some k" and f: "has fs F_Cmpbr"
      using assms False inv by (auto simp: decoded_def dispatch decode_cmpbr_def dec_eval split: if_splits option.splits)
    obtain ic where r: "map_of cmpbr_rows k = Some (bits w 14 2, Some (bits w 21 3), ic)" "bits w 14 2 = 0 \<or> bit_at w 31 = 0"
      using cmpbr_reg_row [OF k] by auto
    let ?w = "if bits w 14 2 = 0 \<and> bit_at w 31 = 1 then X64 else W32"
    show ?thesis
      by (rule labelledI [where ops = "[gp_reg False ?w (bits w 0 5), gp_reg False ?w (bits w 16 5)]" and c = k and
            f = "\<lambda>imm. Ok (push_bit 31 (bit_at w 31) OR push_bit 25 0b111010 OR push_bit 21 (bits w 21 3) OR push_bit 16 (bits w 16 5) OR
              push_bit 14 (bits w 14 2) OR push_bit 5 imm OR bits w 0 5)"])
        (use k f r False in \<open>auto dest!: c simp: decoded_def dispatch decode_cmpbr_def rel_label_def cmpbr_code_reaches cmpbr_direct enc_cmpbr_def
          enc_cmpbr_reg_def dec_eval branch_eval\<close>)
  next
    case True
    obtain k where k: "cmpbr_imm_code (bits w 21 3) = Some k" and f: "has fs F_Cmpbr" "\<not> bit w 14"
      using assms True inv by (auto simp: decoded_def dispatch decode_cmpbr_def dec_eval split: if_splits option.splits)
    obtain rc where r: "map_of cmpbr_rows k = Some (0, rc, Some (bits w 21 3))"
      using cmpbr_imm_row [OF k] by auto
    show ?thesis
      by (rule labelledI [where ops = "[gp_reg False (width_of (bit_at w 31)) (bits w 0 5), OpImmUnsigned (ucast (bits w 15 6))]" and c = k and
            f = "\<lambda>imm. Ok (push_bit 31 (bit_at w 31) OR push_bit 25 0b111010 OR push_bit 24 1 OR push_bit 21 (bits w 21 3) OR
              push_bit 15 (bits w 15 6) OR push_bit 5 imm OR bits w 0 5)"])
        (use k f r True in \<open>auto dest!: c simp: decoded_def dispatch decode_cmpbr_def rel_label_def
          cmpbr_code_reaches cmpbr_direct enc_cmpbr_def enc_cmpbr_imm_def dec_eval branch_eval\<close>)
  qed
qed

section \<open>Writing a label\<close>

lemma edit_first_last:
  "list_all (\<lambda>op. \<not> is_label op) ops \<Longrightarrow>
   edit_first (\<lambda>op. case op of OpLabel _ \<Rightarrow> Some (Some (OpLabel t)) | _ \<Rightarrow> None) (ops @ [OpLabel s]) = Some (ops @ [OpLabel t])"
  by (induction ops) (auto simp: is_label_def split: operand.splits)

lemma set_label_built:
  assumes "list_all (\<lambda>op. \<not> is_label op) ops" "length ops \<le> 2" "direct_code c" "set_near_branch_target t (built out c (code_mnemonic c) (ops @ [OpLabel s])) = (b, d)"
  shows "b" "wf_insn d" "same_semantics d (built out c (code_mnemonic c) (ops @ [OpLabel t]))"
proof -
  let ?i = "built out c (code_mnemonic c) (ops @ [OpLabel s])"
  have e: "set_near_branch_target t ?i = (True, mark_modified (?i\<lparr>i_operands := (ops @ [OpLabel t]) @ drop (i_op_count ?i) (i_operands ?i)\<rparr>))"
    using assms(3) edit_first_last [OF assms(1)]
    by (simp add: set_near_branch_target_def direct_code_def set_label_def edit_live_def)
  then show "b" using assms(4) by simp
  show "wf_insn d" by (rule ed_branch.keeps_wf [OF assms(4)]) (use assms(2) in simp)
  show "same_semantics d (built out c (code_mnemonic c) (ops @ [OpLabel t]))"
  proof -
    have "live_operands d = ops @ [OpLabel t]" using assms(4) unfolding e by (auto simp: live_operands_def)
    then show ?thesis using assms(4) unfolding e by (auto simp: same_semantics_def)
  qed
qed

section \<open>Retargeting a branch\<close>

definition branch_field :: "u32 \<Rightarrow> (nat \<times> nat) option" where
  "branch_field w =
     (if bits w 26 5 = 0b00101 then Some (0, 26)
      else if bits w 25 7 = 0b0101010 \<and> \<not> bit w 24 then Some (5, 19)
      else if bits w 25 6 = 0b011010 then Some (5, 19)
      else if bits w 25 6 = 0b011011 then Some (5, 14)
      else if bits w 25 6 = 0b111010 then Some (5, 9)
      else None)"

lemma branch_field_labelled:
  assumes "branch_field w = Some (l, k)" "i_code (decoded decode_branch_sys w ip fs) \<noteq> C_Invalid"
  shows "labelled w ip fs l k" "0 < k" "l + k \<le> 32" "bits w 22 10 \<noteq> 0b1101010100"
proof -
  show "labelled w ip fs l k"
    using assms by (auto simp: branch_field_def labelled_uncond labelled_cond labelled_compare labelled_test labelled_cmpbr split: if_splits)
  show "0 < k" "l + k \<le> 32" using assms(1) by (auto simp: branch_field_def split: if_splits)
  show "bits w 22 10 \<noteq> 0b1101010100"
  proof
    assume "bits w 22 10 = 0b1101010100"
    from bits_eqD [OF this, of 7] bits_eqD [OF this, of 8] bits_eqD [OF this, of 6] bits_eqD [OF this, of 5] bits_eqD [OF this, of 4] bits_eqD [OF this, of 9] bits_eqD [OF this, of 3]
    show False using assms(1) by (auto simp: branch_field_def to_bits split: if_splits)
  qed
qed

lemma branch_field_agree: "branch_field w = Some (l, k) \<Longrightarrow> agree l k w v \<Longrightarrow> branch_field v = Some (l, k)"
proof -
  assume f: "branch_field w = Some (l, k)" and a: "agree l k w v"
  have top: "l + k \<le> 26" "l + k = 26 \<longrightarrow> bits w 26 5 = 0b00101" using f by (auto simp: branch_field_def split: if_splits)
  have "bits v 26 5 = bits w 26 5" using top a agree_bits [OF a, of 26 5] by simp
  moreover have "l + k \<noteq> 26 \<Longrightarrow> bits v 25 7 = bits w 25 7 \<and> bits v 25 6 = bits w 25 6 \<and> bit v 24 = bit w 24"
    using f a agree_bits [OF a, of 25 7] agree_bits [OF a, of 25 6] by (auto simp: branch_field_def agree_def split: if_splits)
  ultimately show ?thesis using f top(2) by (auto simp: branch_field_def split: if_splits)
qed

text \<open>C31: the target of a direct branch may be set to any address: the edit is accepted, and the encoder accepts it exactly
  when the distance is a multiple of four within the range of the form's field; then the result differs from the original
  word in that field only and decodes, at the same address, to the edited instruction.\<close>

theorem branch_retarget:
  assumes "branch_field w = Some (l, k)" "i_code (decoded decode_branch_sys w ip fs) \<noteq> C_Invalid"
    "set_near_branch_target t (decoded decode_branch_sys w ip fs) = (b, d)"
  shows "b \<and> (if rel_reachable k ip t
     then \<exists>v. encode_branch_sys d = Ok v \<and> agree l k w v \<and> same_semantics (decoded decode_branch_sys v ip fs) d
     else encode_branch_sys d = Err EncInvalidImmediate)"
proof -
  note f = branch_field_labelled [OF assms(1,2)]
  obtain c ops g where direct: "direct_code c" and ops: "list_all (\<lambda>op. \<not> is_label op) ops" "length ops \<le> 2"
    and dec: "\<And>v. agree l k w v \<Longrightarrow> decoded decode_branch_sys v ip fs =
           built (new_invalid v ip) c (code_mnemonic c) (ops @ [rel_label ip (bits v l k) (k + 2)])"
    and enc: "\<And>out t. encode_branch_sys (built out c (code_mnemonic c) (ops @ [OpLabel t])) = and_then (rel_imm t (i_ip out) k 2) g"
    using f(1) unfolding labelled_def by blast
  let ?d' = "built (new_invalid w ip) c (code_mnemonic c) (ops @ [OpLabel t])"
  have d: "b" "wf_insn d" "same_semantics d ?d'"
    using set_label_built [OF ops direct] assms(3) unfolding dec [OF agree_refl] rel_label_def by blast+
  have e: "encode_branch_sys d = and_then (rel_imm t ip k 2) g"
    using branch_sys_enc_same [OF d(2) _ d(3)] ops(2) by (simp add: enc)
  show ?thesis
  proof (cases "rel_reachable k ip t")
    case False
    then show ?thesis using d(1) e rel_imm_reach [OF f(2), of t ip] by simp
  next
    case True
    let ?imm = "take_bit k (ucast (signed_drop_bit 2 (t - ip)))"
    let ?v = "with_field l k ?imm w"
    note a = with_field [OF f(3), where w = w and v = ?imm]
    have k: "k \<le> 32" using f(3) by simp
    have lab: "rel_label ip (bits ?v l k) (k + 2) = OpLabel t"
      unfolding rel_label_def a(2) using rel_label_back [OF f(2) k True] by simp
    have v: "i_code (decoded decode_branch_sys ?v ip fs) \<noteq> C_Invalid"
      using assms(2) unfolding dec [OF a(1)] dec [OF agree_refl] by simp
    have "bits ?v 22 10 \<noteq> 0b1101010100"
      using branch_field_labelled(4) [OF branch_field_agree [OF assms(1) a(1)] v] .
    then have "encode_branch_sys (decoded decode_branch_sys ?v ip fs) = Ok ?v"
      using branch_sys_encode [OF v] by (simp add: canon_branch_sys_def)
    then have "encode_branch_sys d = Ok ?v" unfolding dec [OF a(1)] lab by (simp add: enc e)
    moreover have "same_semantics (decoded decode_branch_sys ?v ip fs) d"
      unfolding dec [OF a(1)] lab using d(3) by (auto simp: same_semantics_def)
    ultimately show ?thesis using d(1) True a(1) by auto
  qed
qed

text \<open>\<open>b #4\<close> at \<open>0x1000\<close>, retargeted to \<open>0x2000\<close>.\<close>

theorem branch_retarget_witness:
  "\<exists>b d v. set_near_branch_target 0x2000 (decoded decode_branch_sys 0x14000001 0x1000 FeatureSet_BASE) = (b, d) \<and> b \<and>
     encode_branch_sys d = Ok v"
proof -
  let ?i = "decoded decode_branch_sys 0x14000001 0x1000 FeatureSet_BASE"
  have f: "branch_field 0x14000001 = Some (0, 26)" by (simp add: branch_field_def bits_def)
  then have w: "bits 0x14000001 26 5 = 0b00101" by (simp add: bits_def)
  have c: "i_code ?i \<noteq> C_Invalid" by (simp add: decoded_def dispatch(1) [OF w] decode_uncond_branch_imm_def Let_def)
  obtain b d where e: "set_near_branch_target 0x2000 ?i = (b, d)" by fastforce
  have r: "rel_reachable 26 0x1000 0x2000" by (simp add: rel_reachable_def fits_signed_def)
  from branch_retarget [OF f c e] r e show ?thesis by auto
qed

end
