(* ===== verification/Branch_Sys_Correct.thy ===== *)
theory Branch_Sys_Correct
  imports Branch_Retarget
begin

text \<open>
  The properties of Branches, Exceptions and System: the round trip of every word of the group, the extension gate, the
  totality of the encoder, the operands whose high bits it drops, and the directory of system instructions.
\<close>

section \<open>Round trip\<close>

lemma admitted_branch_sys:
  "is_branch_sys c \<Longrightarrow> admitted fs c \<longleftrightarrow> has fs (code_feature c) \<or> c \<in> {C_Smstart, C_Smstop}"
  by (auto simp: admitted_def ungated_def is_branch_sys_def)

text \<open>C30: every word of the branch and system group that decodes is encoded back to its canonical word, which is a word of
  the group, decodes to the same instruction and is its own encoding; outside the system block it is the word itself.\<close>

theorem branch_sys_round_trip:
  assumes "in_branch_sys w" "i_code (decoded decode_branch_sys w ip fs) \<noteq> C_Invalid"
  shows "let d = decoded decode_branch_sys w ip fs; v = canon_branch_sys d w
    in encode_branch_sys d = Ok v \<and> in_branch_sys v \<and> same_semantics (decoded decode_branch_sys v ip fs) d \<and>
       encode_branch_sys (decoded decode_branch_sys v ip fs) = Ok v \<and> (bits w 22 10 \<noteq> 0b1101010100 \<longrightarrow> v = w)"
proof -
  let ?d = "decoded decode_branch_sys w ip fs"
  have "encode_branch_sys ?d = Ok (canon_branch_sys ?d w)" by (rule branch_sys_encode [OF assms(2)])
  with branch_sys.canonical [OF assms this] branch_sys_same [OF assms(2)] in_branch_sys_canon [OF assms(1)] show ?thesis
    by (simp add: Let_def canon_branch_sys_def)
qed

text \<open>\<open>0xd500201f\<close> is decoded as \<open>NOP\<close> although its \<open>op1\<close> is 0; it is encoded as the architectural \<open>NOP\<close>.\<close>

theorem branch_sys_round_trip_witness:
  "i_code (decoded decode_branch_sys 0xd500201f 0 FeatureSet_BASE) = C_Nop \<and>
   encode_branch_sys (decoded decode_branch_sys 0xd500201f 0 FeatureSet_BASE) = Ok 0xd503201f"
proof -
  let ?d = "decoded decode_branch_sys 0xd500201f 0 FeatureSet_BASE"
  have g: "in_branch_sys 0xd500201f" by (simp add: in_branch_sys_def bits_def)
  have p: "bits 0xd500201f 22 10 = 0b1101010100" by (simp add: bits_def)
  have c: "i_code ?d = C_Nop"
    by (simp add: decoded_def decode_system_own [OF p] decode_op0_00_def decode_op0_00_named_def decode_hint_def insn_is_invalid_def
      bits_def bit_at_def Let_def)
  then have "i_code ?d \<noteq> C_Invalid" by simp
  from branch_sys_round_trip [OF g this] c show ?thesis
    by (simp add: Let_def canon_branch_sys_def canon_fields_def p canon_crm_def takes_xt_def bits_def bit_at_def system_word_def)
qed

text \<open>C32: what the decoder produces in the group it may produce: the code belongs to the group, its extension is in the
  feature set (\<open>SMSTART\<close> and \<open>SMSTOP\<close> excepted), and the instruction is well-formed and carries the word and the address.\<close>

theorem branch_sys_admitted:
  assumes "in_branch_sys w" "i_code (decoded decode_branch_sys w ip fs) \<noteq> C_Invalid"
  shows "let d = decoded decode_branch_sys w ip fs
    in is_branch_sys (i_code d) \<and> (has fs (code_feature (i_code d)) \<or> i_code d \<in> {C_Smstart, C_Smstop}) \<and>
       wf_insn d \<and> i_word d = w \<and> i_ip d = ip \<and> i_flags d = 0"
  using assms branch_sys.dec_feature branch_sys.dec_owned branch_sys.dec_wf branch_sys.dec_frame admitted_branch_sys
  unfolding Let_def by blast

text \<open>\<open>smstart\<close> without FEAT_SME.\<close>

theorem branch_sys_admitted_witness:
  "is_branch_sys (i_code (decoded decode_branch_sys 0xd503477f 0 FeatureSet_BASE)) \<and> \<not> has FeatureSet_BASE F_Sme \<and>
   i_code (decoded decode_branch_sys 0xd503477f 0 FeatureSet_BASE) = C_Smstart"
proof -
  let ?d = "decoded decode_branch_sys 0xd503477f 0 FeatureSet_BASE"
  have g: "in_branch_sys 0xd503477f" by (simp add: in_branch_sys_def bits_def)
  have p: "bits 0xd503477f 22 10 = 0b1101010100" by (simp add: bits_def)
  have c: "i_code ?d = C_Smstart"
    by (simp add: decoded_def decode_system_own [OF p] decode_op0_00_def decode_op0_00_named_def decode_msr_imm_def insn_is_invalid_def
      bits_def bit_at_def Let_def)
  then have "i_code ?d \<noteq> C_Invalid" by simp
  from branch_sys_admitted [OF g this] c show ?thesis by (simp add: Let_def has_iff FeatureSet_BASE_def)
qed

section \<open>Errors\<close>

lemma readers_total [simp]:
  "reg_num i n \<noteq> Panic" "imm_u i n \<noteq> Panic" "enc_label i n \<noteq> Panic" "sysop_name i n \<noteq> Panic" "rel_imm t ip k s \<noteq> Panic"
  "is_x_reg i n \<noteq> Panic" "barrier_crm i \<noteq> Panic" "sysreg_at i n \<noteq> Panic" "reg_pair_base i n \<noteq> Panic"
  by (simp_all add: reg_num_def imm_u_def enc_label_def sysop_name_def rel_imm_def is_x_reg_def barrier_crm_def sysreg_at_def
    reg_pair_base_def Let_def split: operand.split)

lemma readers_total_2 [simp]: "cr_num i n \<noteq> Panic" "default_imm i \<noteq> Panic"
  by (auto simp: cr_num_def default_imm_def and_then_Panic_iff split: list.splits if_splits)

lemma branch_encoders_total:
  "enc_cond_branch i \<noteq> Panic" "enc_pauth_lr_sppc i \<noteq> Panic" "enc_uncond_branch_imm i \<noteq> Panic" "enc_compare_branch i \<noteq> Panic"
  "enc_test_branch i \<noteq> Panic" "enc_cmpbr i \<noteq> Panic" "enc_branch_reg i \<noteq> Panic"
  by (auto simp: enc_cond_branch_def enc_pauth_lr_sppc_def enc_uncond_branch_imm_def enc_compare_branch_def enc_test_branch_def
    enc_cmpbr_def enc_cmpbr_reg_def enc_cmpbr_imm_def enc_branch_reg_def Let_def and_then_Panic_iff split: operand.splits if_splits)

lemma hint_selector_total [simp]: "hint_selector i \<noteq> Panic"
  by (cases "map_of fixed_hint_selectors (i_code i)"; cases "map_of pauth_hint_selectors (i_mnemonic i)"; cases "insn_op i 0")
    (simp_all add: hint_selector_def and_then_Panic_iff)

lemma enc_sys_total: "enc_sys i \<noteq> Panic"
  by (simp add: enc_sys_def enc_sys_alias_def Let_def and_then_Panic_iff split: if_split)

lemma enc_msr_imm_total: "enc_msr_imm i \<noteq> Panic"
  by (auto simp: enc_msr_imm_def Let_def and_then_Panic_iff split: operand.split if_split)

lemma enc_barrier_total: "enc_barrier i \<noteq> Panic"
  by (simp add: enc_barrier_def Let_def and_then_Panic_iff split: option.split if_split)

lemma enc_tchange_total: "enc_tchange i \<noteq> Panic"
  by (auto simp: enc_tchange_def Let_def and_then_Panic_iff split: operand.split if_split)

lemma system_encoders_total:
  "enc_exception i \<noteq> Panic" "enc_hint i \<noteq> Panic" "enc_gcs_sys i \<noteq> Panic" "enc_wfxt i \<noteq> Panic"
  "enc_sysreg_move i \<noteq> Panic" "enc_systemresult i \<noteq> Panic" "enc_sysreg_pair i \<noteq> Panic" "enc_sysp i \<noteq> Panic" "enc_udf i \<noteq> Panic"
  by (simp_all add: enc_exception_def enc_hint_def enc_gcs_sys_def enc_wfxt_def enc_sysreg_move_def enc_systemresult_def
    enc_sysreg_pair_def enc_sysp_def enc_udf_def Let_def and_then_Panic_iff split: if_split prod.split)

lemma is_branch_sys_dispatch: "is_branch_sys (i_code i) \<or> encode_branch_sys i = Err EncUnsupported"
  by (cases "is_branch_sys (i_code i)") (simp_all add: encode_branch_sys_def is_branch_sys_def)

text \<open>C33: the encoder of the group is total: whatever instruction it is given, edited or built by hand, it returns a word or an
  error, and the error is \<open>Unsupported\<close> for a code outside the group.\<close>

theorem branch_sys_encoder_total:
  "encode_branch_sys i \<noteq> Panic \<and> (is_branch_sys (i_code i) \<or> encode_branch_sys i = Err EncUnsupported)"
proof
  show "encode_branch_sys i \<noteq> Panic"
    by (simp add: encode_branch_sys_def Let_def branch_encoders_total system_encoders_total enc_sys_total enc_msr_imm_total
      enc_barrier_total enc_tchange_total)
qed (rule is_branch_sys_dispatch)

lemma edit_immediate_encoded:
  assumes "n < length ops" "length ops \<le> 5" "replace_immediate v (ops ! n) = Some op"
  shows "\<exists>d. set_op_immediate n v (built out c m ops) = (True, d) \<and> encode_branch_sys d = encode_branch_sys (built out c m (ops[n := op]))"
  using edit_immediate_built [OF assms, of out c m] assms(2) branch_sys_enc_same
  by (metis length_list_update wf_built same_semantics_def)

text \<open>C34: a bit number, a hint selector and a PSTATE immediate are cut to 32 bits before they are range-checked: an edit that
  adds a multiple of \<open>2 ^ 32\<close> to the operand is accepted and does not change the encoding.\<close>

theorem branch_sys_edit_truncates:
  "(\<exists>d. set_op_immediate 1 (v + 0x100000000 * k) (built out C_Tbz m [r, OpImmUnsigned v, l]) = (True, d) \<and>
      encode_branch_sys d = encode_branch_sys (built out C_Tbz m [r, OpImmUnsigned v, l])) \<and>
   (\<exists>d. set_op_immediate 0 (v + 0x100000000 * k) (built out C_HintGeneric M_Hint [OpImmUnsigned v]) = (True, d) \<and>
      encode_branch_sys d = encode_branch_sys (built out C_HintGeneric M_Hint [OpImmUnsigned v])) \<and>
   (\<exists>d. set_op_immediate 1 (v + 0x100000000 * k) (built out C_MsrImm m [f, OpImmUnsigned v]) = (True, d) \<and>
      encode_branch_sys d = encode_branch_sys (built out C_MsrImm m [f, OpImmUnsigned v]))"
proof (intro conjI)
  show "\<exists>d. set_op_immediate 1 (v + 0x100000000 * k) (built out C_Tbz m [r, OpImmUnsigned v, l]) = (True, d) \<and>
      encode_branch_sys d = encode_branch_sys (built out C_Tbz m [r, OpImmUnsigned v, l])"
    using edit_immediate_encoded [of 1 "[r, OpImmUnsigned v, l]" "v + 0x100000000 * k" _ out C_Tbz m]
    by (simp add: replace_immediate_def enc_test_branch_def imm_u_op enc_label_op reg_num_op ucast_add_2_32 Let_def cong: if_cong)
  show "\<exists>d. set_op_immediate 0 (v + 0x100000000 * k) (built out C_HintGeneric M_Hint [OpImmUnsigned v]) = (True, d) \<and>
      encode_branch_sys d = encode_branch_sys (built out C_HintGeneric M_Hint [OpImmUnsigned v])"
    using edit_immediate_encoded [of 0 "[OpImmUnsigned v]" "v + 0x100000000 * k" _ out C_HintGeneric M_Hint]
    by (simp add: replace_immediate_def enc_hint_eq hint_selector_rows no_pauth_generic imm_u_op ucast_add_2_32 Let_def cong: if_cong)
  show "\<exists>d. set_op_immediate 1 (v + 0x100000000 * k) (built out C_MsrImm m [f, OpImmUnsigned v]) = (True, d) \<and>
      encode_branch_sys d = encode_branch_sys (built out C_MsrImm m [f, OpImmUnsigned v])"
    using edit_immediate_encoded [of 1 "[f, OpImmUnsigned v]" "v + 0x100000000 * k" _ out C_MsrImm m]
    by (simp add: replace_immediate_def enc_msr_imm_def sysop_name_def imm_u_op ucast_add_2_32 Let_def cong: if_cong)
qed

section \<open>The directory of system instructions\<close>

text \<open>C35: the two lookups of the directory are inverse: the row the decoder finds for a selector is the row the encoder finds
  for its mnemonic and keyword, the keyword survives the token table, and the row holds the selector.\<close>

theorem sysins_lookup_inverse:
  assumes "sysins_lookup rd op1 crn crm op2 = Some t"
  shows "sysins_by_name (s_mnem t) (sys_token_name (sys_token_of (s_name t))) = Some t \<and> s_read t = rd \<and>
    s_op1 t = ucast op1 \<and> s_crn t = ucast crn \<and> s_crm t = ucast crm \<and> s_op2 t = ucast op2"
  using sysins_lookup_SomeD [OF assms] by (simp add: op_token_name)

theorem sysins_lookup_inverse_witness:
  "\<exists>t. sysins_lookup False 0 7 5 0 = Some t \<and> sysins_by_name M_Ic ''iallu'' = Some t"
proof -
  let ?t = "sysins_row 0 7 5 0 0 M_Ic ''iallu'' False True"
  have t: "sysins_lookup False 0 7 5 0 = Some ?t"
    by (simp add: sysins_lookup_def sys_ins_table_def sys_ins_blocks_def sys_ins_rows_0_def)
  from sysins_lookup_inverse [OF t] show ?thesis using t sysins_lookup_SomeD(9) [OF t] by (auto simp: op_token_name)
qed

end
