(* ===== verification/Dp_Imm_Decode.thy ===== *)
theory Dp_Imm_Decode
  imports Decode_Base
begin

text \<open>
  \<open>src/decode/dp_imm.rs\<close>: Data Processing -- Immediate.  One definition per function of the file, in its order; the
  dispatcher \<open>decode\<close> is \<open>decode_dp_imm\<close>.  The subtractions on \<open>immr\<close> and \<open>imms\<close> stay below \<open>datasize\<close> because
  \<open>decode_bitfield\<close> has rejected larger fields, so they never wrap.
\<close>

section \<open>PC-relative addressing\<close>

definition decode_pc_rel :: "u32 \<Rightarrow> u64 \<Rightarrow> insn \<Rightarrow> insn" where
  "decode_pc_rel word ip out =
     (let op = bit_at word 31;
          rd = bits word 0 5;
          immlo = bits word 29 2;
          immhi = bits word 5 19;
          imm21 = push_bit 2 immhi OR immlo;
          target =
            (if op = 1 then
               (let imm = sign_extend (push_bit 12 (ucast imm21)) 33;
                    base = ip AND NOT 0xFFF
                in base + imm)
             else
               (let imm = sign_extend (ucast imm21) 21
                in ip + imm))
      in fold push_operand [gp_reg False X64 rd, OpLabel target]
           (insn_set (if op = 1 then C_Adrp else C_Adr) out))"

section \<open>Add/subtract (immediate)\<close>

definition decode_addsub_imm :: "u32 \<Rightarrow> insn \<Rightarrow> insn" where
  "decode_addsub_imm word out =
     (let sf = bit_at word 31;
          op = bit_at word 30;
          s = bit_at word 29;
          sh = bit_at word 22;
          imm12 = bits word 10 12;
          rn = bits word 5 5;
          rd = bits word 0 5;
          w = width_of sf;
          imm_op = OpImmShiftedMove (ucast imm12) (if sh = 1 then 12 else 0);
          code =
            (if (sf, op, s) = (0, 0, 0) then C_AddImm32
             else if (sf, op, s) = (1, 0, 0) then C_AddImm64
             else if (sf, op, s) = (0, 0, 1) then C_AddsImm32
             else if (sf, op, s) = (1, 0, 1) then C_AddsImm64
             else if (sf, op, s) = (0, 1, 0) then C_SubImm32
             else if (sf, op, s) = (1, 1, 0) then C_SubImm64
             else if (sf, op, s) = (0, 1, 1) then C_SubsImm32
             else C_SubsImm64);
          out = insn_set code out;
          flag_setting = (s = 1);
          rd_is_31 = (rd = 31);
          rn_is_31 = (rn = 31)
      in if \<not> flag_setting \<and> op = 0 \<and> sh = 0 \<and> imm12 = 0 \<and> (rd_is_31 \<or> rn_is_31) then
           fold push_operand [gp_reg True w rd, gp_reg True w rn] (set_alias M_Mov out)
         else if flag_setting \<and> rd_is_31 then
           fold push_operand [gp_reg True w rn, imm_op] (set_alias (if op = 1 then M_Cmp else M_Cmn) out)
         else
           fold push_operand [gp_reg (\<not> flag_setting) w rd, gp_reg True w rn, imm_op] out)"

section \<open>Add/subtract with tags, min/max_bit (immediate)\<close>

definition decode_addsub_imm_tags :: "u32 \<Rightarrow> feature_set \<Rightarrow> insn \<Rightarrow> insn" where
  "decode_addsub_imm_tags word features out =
     (if \<not> has features F_Mte then out
      else
       let sf = bit_at word 31;
           s = bit_at word 29;
           o2 = bit_at word 22
       in if sf \<noteq> 1 \<or> s \<noteq> 0 \<or> o2 \<noteq> 0 then out
          else
           let op = bit_at word 30;
               uimm6 = bits word 16 6;
               uimm4 = bits word 10 4;
               rn = bits word 5 5;
               rd = bits word 0 5
           in fold push_operand
                [gp_reg True X64 rd, gp_reg True X64 rn,
                 OpImmUnsigned (push_bit 4 (ucast uimm6)), OpImmUnsigned (ucast uimm4)]
                (insn_set (if op = 1 then C_SubgImm else C_AddgImm) out))"

definition decode_minmax_imm :: "u32 \<Rightarrow> feature_set \<Rightarrow> insn \<Rightarrow> insn" where
  "decode_minmax_imm word features out =
     (if \<not> has features F_Cssc then out
      else if bit_at word 30 \<noteq> 0 \<or> bit_at word 29 \<noteq> 0 \<or> bits word 20 2 \<noteq> 0 then out
      else
       let sf = bit_at word 31;
           opc = bits word 18 2;
           imm8 = bits word 10 8;
           rn = bits word 5 5;
           rd = bits word 0 5;
           w = width_of sf;
           code =
             (if (sf, opc) = (0, 0b00) then C_SmaxImm32
              else if (sf, opc) = (1, 0b00) then C_SmaxImm64
              else if (sf, opc) = (0, 0b01) then C_UmaxImm32
              else if (sf, opc) = (1, 0b01) then C_UmaxImm64
              else if (sf, opc) = (0, 0b10) then C_SminImm32
              else if (sf, opc) = (1, 0b10) then C_SminImm64
              else if (sf, opc) = (0, 0b11) then C_UminImm32
              else C_UminImm64);
           is_signed = (bit_at opc 0 = 0)
       in fold push_operand
            [gp_reg False w rd, gp_reg False w rn,
             (if is_signed then OpImmSigned (sign_extend (ucast imm8) 8) else OpImmUnsigned (ucast imm8))]
            (insn_set code out))"

section \<open>Logical (immediate)\<close>

definition signed_imm :: "u64 \<Rightarrow> nat \<Rightarrow> i64" where
  "signed_imm imm datasize = sign_extend imm datasize"

definition decode_logical_imm :: "u32 \<Rightarrow> insn \<Rightarrow> insn" where
  "decode_logical_imm word out =
     (let sf = bit_at word 31;
          opc = bits word 29 2;
          n = bit_at word 22;
          immr = bits word 16 6;
          imms = bits word 10 6;
          rn = bits word 5 5;
          rd = bits word 0 5
      in if sf = 0 \<and> n = 1 then out
         else
          let datasize = (if sf = 1 then 64 else 32)
          in case decode_bit_masks n imms immr True datasize of
               None \<Rightarrow> out
             | Some masks \<Rightarrow>
                let imm = (if datasize = 32 then ucast (ucast (wmask masks) :: u32) else wmask masks);
                    w = width_of sf;
                    code =
                      (if (sf, opc) = (0, 0b00) then C_AndImm32
                       else if (sf, opc) = (1, 0b00) then C_AndImm64
                       else if (sf, opc) = (0, 0b01) then C_OrrImm32
                       else if (sf, opc) = (1, 0b01) then C_OrrImm64
                       else if (sf, opc) = (0, 0b10) then C_EorImm32
                       else if (sf, opc) = (1, 0b10) then C_EorImm64
                       else if sf = 0 then C_AndsImm32
                       else C_AndsImm64);
                    out = insn_set code out
                in if opc = 0b11 \<and> rd = 31 then
                     fold push_operand [gp_reg False w rn, OpImmLogical imm] (set_alias M_Tst out)
                   else if opc = 0b01 \<and> rn = 31 \<and> \<not> move_wide_preferred sf n imms immr then
                     fold push_operand [gp_reg True w rd, OpImmSigned (signed_imm imm datasize)] (set_alias M_Mov out)
                   else
                     let rd_use_sp = (opc \<noteq> 0b11)
                     in fold push_operand [gp_reg rd_use_sp w rd, gp_reg False w rn, OpImmLogical imm] out)"

section \<open>Move wide (immediate)\<close>

definition decode_move_wide :: "u32 \<Rightarrow> insn \<Rightarrow> insn" where
  "decode_move_wide word out =
     (let sf = bit_at word 31;
          opc = bits word 29 2;
          hw = bits word 21 2;
          imm16 = bits word 5 16;
          rd = bits word 0 5
      in if opc = 0b01 then out
         else if sf = 0 \<and> hw AND 0b10 \<noteq> 0 then out
         else
          let w = width_of sf;
              shift = (ucast (hw * 16) :: u8);
              datasize = (if sf = 1 then 64 else 32);
              code =
                (if (sf, opc) = (0, 0b00) then C_Movn32
                 else if (sf, opc) = (1, 0b00) then C_Movn64
                 else if (sf, opc) = (0, 0b10) then C_Movz32
                 else if (sf, opc) = (1, 0b10) then C_Movz64
                 else if sf = 0 then C_Movk32
                 else C_Movk64);
              out = insn_set code out;
              is_movn = (opc = 0b00);
              is_movz = (opc = 0b10);
              imm_is_zero_shifted = (imm16 = 0 \<and> hw \<noteq> 0);
              is_32_all_ones = (sf = 0 \<and> imm16 = 0xffff)
          in if is_movz \<and> \<not> imm_is_zero_shifted then
               (let val = push_bit (unat shift) (ucast imm16 :: u64)
                in fold push_operand [gp_reg False w rd, OpImmSigned (signed_imm val datasize)] (set_alias M_Mov out))
             else if \<not> is_movz \<and> is_movn \<and> \<not> imm_is_zero_shifted \<and> \<not> is_32_all_ones then
               (let raw = NOT (push_bit (unat shift) (ucast imm16 :: u64));
                    val = (if datasize = 32 then raw AND 0xffffffff else raw)
                in fold push_operand [gp_reg False w rd, OpImmSigned (signed_imm val datasize)] (set_alias M_Mov out))
             else
               fold push_operand [gp_reg False w rd, OpImmShiftedMove (ucast imm16) shift] out)"

section \<open>Bitfield\<close>

definition emit_sbfm_alias :: "insn \<Rightarrow> reg_width \<Rightarrow> u32 \<Rightarrow> u32 \<Rightarrow> u32 \<Rightarrow> u32 \<Rightarrow> u32 \<Rightarrow> insn" where
  "emit_sbfm_alias out w datasize immr imms rn rd =
     (let max_bit = datasize - 1;
          ext =
            (if immr = 0 then
               (if imms = 7 then Some M_Sxtb
                else if imms = 15 then Some M_Sxth
                else if imms = 31 \<and> datasize = 64 then Some M_Sxtw
                else None)
             else None)
      in case ext of
           Some m \<Rightarrow> fold push_operand [gp_reg False w rd, gp_reg False W32 rn] (set_alias m out)
         | None \<Rightarrow>
            if imms = max_bit then
              fold push_operand [gp_reg False w rd, gp_reg False w rn, OpImmUnsigned (ucast immr)] (set_alias M_Asr out)
            else if imms < immr then
              fold push_operand
                [gp_reg False w rd, gp_reg False w rn, OpImmUnsigned (ucast ((datasize - immr) mod datasize)),
                 OpImmUnsigned (ucast (imms + 1))] (set_alias M_Sbfiz out)
            else
              fold push_operand
                [gp_reg False w rd, gp_reg False w rn, OpImmUnsigned (ucast immr),
                 OpImmUnsigned (ucast (imms - immr + 1))] (set_alias M_Sbfx out))"

definition emit_ubfm_alias :: "insn \<Rightarrow> reg_width \<Rightarrow> u32 \<Rightarrow> u32 \<Rightarrow> u32 \<Rightarrow> u32 \<Rightarrow> u32 \<Rightarrow> insn" where
  "emit_ubfm_alias out w datasize immr imms rn rd =
     (let max_bit = datasize - 1;
          ext =
            (if immr = 0 \<and> datasize = 32 then
               (if imms = 7 then Some M_Uxtb else if imms = 15 then Some M_Uxth else None)
             else None)
      in case ext of
           Some m \<Rightarrow> fold push_operand [gp_reg False w rd, gp_reg False W32 rn] (set_alias m out)
         | None \<Rightarrow>
            if imms \<noteq> max_bit \<and> imms + 1 = immr then
              fold push_operand [gp_reg False w rd, gp_reg False w rn, OpImmUnsigned (ucast (max_bit - imms))]
                (set_alias M_Lsl out)
            else if imms = max_bit then
              fold push_operand [gp_reg False w rd, gp_reg False w rn, OpImmUnsigned (ucast immr)] (set_alias M_Lsr out)
            else if imms < immr then
              fold push_operand
                [gp_reg False w rd, gp_reg False w rn, OpImmUnsigned (ucast ((datasize - immr) mod datasize)),
                 OpImmUnsigned (ucast (imms + 1))] (set_alias M_Ubfiz out)
            else
              fold push_operand
                [gp_reg False w rd, gp_reg False w rn, OpImmUnsigned (ucast immr),
                 OpImmUnsigned (ucast (imms - immr + 1))] (set_alias M_Ubfx out))"

definition emit_bfm_alias :: "insn \<Rightarrow> reg_width \<Rightarrow> u32 \<Rightarrow> u32 \<Rightarrow> u32 \<Rightarrow> u32 \<Rightarrow> u32 \<Rightarrow> insn" where
  "emit_bfm_alias out w datasize immr imms rn rd =
     (if imms < immr then
       (let lsb = (datasize - immr) mod datasize;
            width = imms + 1
        in if rn = 31 then
             fold push_operand [gp_reg False w rd, OpImmUnsigned (ucast lsb), OpImmUnsigned (ucast width)]
               (set_alias M_Bfc out)
           else
             fold push_operand
               [gp_reg False w rd, gp_reg False w rn, OpImmUnsigned (ucast lsb), OpImmUnsigned (ucast width)]
               (set_alias M_Bfi out))
      else
        fold push_operand
          [gp_reg False w rd, gp_reg False w rn, OpImmUnsigned (ucast immr), OpImmUnsigned (ucast (imms - immr + 1))]
          (set_alias M_Bfxil out))"

definition decode_bitfield :: "u32 \<Rightarrow> insn \<Rightarrow> insn" where
  "decode_bitfield word out =
     (let sf = bit_at word 31;
          opc = bits word 29 2;
          n = bit_at word 22;
          immr = bits word 16 6;
          imms = bits word 10 6;
          rn = bits word 5 5;
          rd = bits word 0 5
      in if opc = 0b11 then out
         else if n \<noteq> sf then out
         else if sf = 0 \<and> (bit_at immr 5 = 1 \<or> bit_at imms 5 = 1) then out
         else
          let w = width_of sf;
              datasize = (if sf = 1 then 64 else 32);
              code =
                (if (sf, opc) = (0, 0b00) then C_Sbfm32
                 else if (sf, opc) = (1, 0b00) then C_Sbfm64
                 else if (sf, opc) = (0, 0b01) then C_Bfm32
                 else if (sf, opc) = (1, 0b01) then C_Bfm64
                 else if sf = 0 then C_Ubfm32
                 else C_Ubfm64);
              out = insn_set code out
          in if opc = 0b00 then emit_sbfm_alias out w datasize immr imms rn rd
             else if opc = 0b01 then emit_bfm_alias out w datasize immr imms rn rd
             else emit_ubfm_alias out w datasize immr imms rn rd)"

section \<open>Extract\<close>

definition decode_extract :: "u32 \<Rightarrow> insn \<Rightarrow> insn" where
  "decode_extract word out =
     (let sf = bit_at word 31;
          op21 = bits word 29 2;
          n = bit_at word 22;
          o0 = bit_at word 21;
          rm = bits word 16 5;
          imms = bits word 10 6;
          rn = bits word 5 5;
          rd = bits word 0 5
      in if op21 \<noteq> 0 \<or> o0 \<noteq> 0 then out
         else if n \<noteq> sf then out
         else if sf = 0 \<and> bit_at imms 5 = 1 then out
         else
          let w = width_of sf;
              out = insn_set (if sf = 1 then C_Extr64 else C_Extr32) out
          in if rn = rm then
               fold push_operand [gp_reg False w rd, gp_reg False w rn, OpImmUnsigned (ucast imms)] (set_alias M_Ror out)
             else
               fold push_operand [gp_reg False w rd, gp_reg False w rn, gp_reg False w rm, OpImmUnsigned (ucast imms)] out)"

section \<open>The dispatcher\<close>

definition decode_dp_imm :: "u32 \<Rightarrow> u64 \<Rightarrow> feature_set \<Rightarrow> insn \<Rightarrow> insn" where
  "decode_dp_imm word ip features out =
     (if word AND 0xFFC0001F = 0xF380001F then
        (if has features F_PauthLr then decode_auti_sppc word out else out)
      else
       let op1 = bits word 23 3
       in if op1 = 0b000 \<or> op1 = 0b001 then decode_pc_rel word ip out
          else if op1 = 0b010 then decode_addsub_imm word out
          else if op1 = 0b011 then
            (if bit_at word 22 = 1 then decode_minmax_imm word features out
             else decode_addsub_imm_tags word features out)
          else if op1 = 0b100 then decode_logical_imm word out
          else if op1 = 0b101 then decode_move_wide word out
          else if op1 = 0b110 then decode_bitfield word out
          else decode_extract word out)"

end
