(* ===== verification/Dp_Imm_Encode.thy ===== *)
theory Dp_Imm_Encode
  imports Encode_Base
begin

text \<open>
  \<open>src/encode/dp_imm.rs\<close>: the encoder of Data Processing -- Immediate.  One definition per function of the file; the
  dispatcher \<open>encode\<close> is \<open>encode_dp_imm\<close>.  Rust's checked \<open>-\<close> and \<open>+\<close> on \<open>u32\<close> are \<open>sub_u32\<close> and \<open>add_u32\<close> where an
  operand can make them overflow.
\<close>

definition is_64 :: "code \<Rightarrow> bool" where
  "is_64 code \<longleftrightarrow>
     code \<in> {C_AddImm64, C_SubImm64, C_AddsImm64, C_SubsImm64, C_AddgImm, C_SubgImm, C_AndImm64, C_OrrImm64, C_EorImm64,
             C_AndsImm64, C_Movn64, C_Movz64, C_Movk64, C_Sbfm64, C_Bfm64, C_Ubfm64, C_Extr64, C_SmaxImm64, C_SminImm64,
             C_UmaxImm64, C_UminImm64}"

section \<open>PC-relative addressing\<close>

definition enc_pc_rel :: "insn \<Rightarrow> u32 encoded" where
  "enc_pc_rel insn =
     and_then (reg_num insn 0) (\<lambda>rd.
     and_then (case insn_op insn 1 of OpLabel v \<Rightarrow> Ok v | _ \<Rightarrow> Err EncInvalidOperand) (\<lambda>target.
       let ip = i_ip insn;
           is_adrp = (i_code insn = C_Adrp)
       in and_then
            (if is_adrp then
               (if target AND 0xFFF \<noteq> 0 then Err EncInvalidImmediate
                else
                 let base = ip AND NOT 0xFFF;
                     tgt_page = target AND NOT 0xFFF;
                     diff = tgt_page - base;
                     imm = signed_drop_bit 12 diff
                 in if signed_drop_bit 20 imm \<noteq> 0 \<and> signed_drop_bit 20 imm \<noteq> - 1 then Err EncInvalidImmediate
                    else Ok ((ucast imm :: u32) AND 0x1fffff))
             else
               let diff = target - ip
               in if signed_drop_bit 20 diff \<noteq> 0 \<and> signed_drop_bit 20 diff \<noteq> - 1 then Err EncInvalidImmediate
                  else Ok ((ucast diff :: u32) AND 0x1fffff))
            (\<lambda>imm21.
              let immlo = imm21 AND 0x3;
                  immhi = drop_bit 2 imm21 AND 0x7ffff;
                  op = (if is_adrp then 1 else 0)
              in Ok (push_bit 31 op OR push_bit 29 immlo OR push_bit 24 0b10000 OR push_bit 5 immhi OR rd))))"

section \<open>Add/subtract (immediate)\<close>

definition imm_shifted :: "insn \<Rightarrow> nat \<Rightarrow> (u32 \<times> u32) encoded" where
  "imm_shifted insn n =
     (case insn_op insn n of
        OpImmShiftedMove imm lsl \<Rightarrow>
          and_then (if lsl = 0 then Ok 0 else if lsl = 12 then Ok 1 else Err EncInvalidImmediate) (\<lambda>sh.
            Ok (ucast imm, sh))
      | OpImmUnsigned v \<Rightarrow> (if v > 0xfff then Err EncInvalidImmediate else Ok (ucast v, 0))
      | OpImmLogical v \<Rightarrow> (if v > 0xfff then Err EncInvalidImmediate else Ok (ucast v, 0))
      | OpImmSigned v \<Rightarrow>
          (if \<not> (0 \<le> sint v \<and> sint v \<le> 0xfff) then Err EncInvalidImmediate else Ok (ucast v, 0))
      | _ \<Rightarrow> Err EncInvalidOperand)"

definition enc_addsub_imm :: "insn \<Rightarrow> u32 encoded" where
  "enc_addsub_imm insn =
     (let code = i_code insn;
          sf = (if is_64 code then 1 else 0);
          (op, s) =
            (if code \<in> {C_AddImm32, C_AddImm64} then (0, 0)
             else if code \<in> {C_AddsImm32, C_AddsImm64} then (0, 1)
             else if code \<in> {C_SubImm32, C_SubImm64} then (1, 0)
             else (1, 1))
      in and_then
           (if i_mnemonic insn = M_Mov then
              and_then (reg_num insn 0) (\<lambda>rd. and_then (reg_num insn 1) (\<lambda>rn. Ok (rd, rn, 0, 0)))
            else if i_mnemonic insn \<in> {M_Cmp, M_Cmn} then
              and_then (reg_num insn 0) (\<lambda>rn. and_then (imm_shifted insn 1) (\<lambda>(imm12, sh). Ok (31, rn, imm12, sh)))
            else
              and_then (reg_num insn 0) (\<lambda>rd. and_then (reg_num insn 1) (\<lambda>rn.
              and_then (imm_shifted insn 2) (\<lambda>(imm12, sh). Ok (rd, rn, imm12, sh)))))
           (\<lambda>(rd, rn, imm12, sh).
             if imm12 > 0xfff then Err EncInvalidImmediate
             else Ok (push_bit 31 sf OR push_bit 30 op OR push_bit 29 s OR push_bit 24 0b10001 OR push_bit 22 sh OR
                      push_bit 10 imm12 OR push_bit 5 rn OR rd)))"

section \<open>Add/subtract with tags, min/max_bit (immediate)\<close>

definition enc_addsub_tags :: "insn \<Rightarrow> u32 encoded" where
  "enc_addsub_tags insn =
     (let op = (if i_code insn = C_SubgImm then 1 else 0)
      in and_then (reg_num insn 0) (\<lambda>rd.
         and_then (reg_num insn 1) (\<lambda>rn.
         and_then (imm_u insn 2) (\<lambda>uimm6_scaled.
         and_then (imm_u insn 3) (\<lambda>uimm4.
           if uimm6_scaled AND 0xf \<noteq> 0 \<or> drop_bit 4 uimm6_scaled > 0x3f \<or> uimm4 > 0xf then Err EncInvalidImmediate
           else
            let uimm6 = (ucast (drop_bit 4 uimm6_scaled) :: u32);
                uimm4 = (ucast uimm4 :: u32)
            in Ok (push_bit 31 1 OR push_bit 30 op OR push_bit 23 0b100011 OR push_bit 16 uimm6 OR push_bit 10 uimm4 OR
                   push_bit 5 rn OR rd))))))"

definition enc_minmax_imm :: "insn \<Rightarrow> u32 encoded" where
  "enc_minmax_imm insn =
     (let code = i_code insn;
          sf = (if is_64 code then 1 else 0);
          (opc, is_signed) =
            (if code \<in> {C_SmaxImm32, C_SmaxImm64} then (0b00, True)
             else if code \<in> {C_UmaxImm32, C_UmaxImm64} then (0b01, False)
             else if code \<in> {C_SminImm32, C_SminImm64} then (0b10, True)
             else (0b11, False))
      in and_then (reg_num insn 0) (\<lambda>rd.
         and_then (reg_num insn 1) (\<lambda>rn.
         and_then
           (if is_signed then
              and_then (case insn_op insn 2 of
                          OpImmSigned v \<Rightarrow> Ok v
                        | OpImmUnsigned u \<Rightarrow> Ok u
                        | OpImmLogical u \<Rightarrow> Ok u
                        | _ \<Rightarrow> Err EncInvalidOperand)
                (\<lambda>v :: i64.
                  if \<not> (- 128 \<le> sint v \<and> sint v \<le> 255) then Err EncInvalidImmediate
                  else Ok ((ucast v :: u32) AND 0xff))
            else
              and_then (imm_u insn 2) (\<lambda>v. if v > 0xff then Err EncInvalidImmediate else Ok (ucast v)))
           (\<lambda>imm8.
             Ok (push_bit 31 sf OR push_bit 23 0b100011 OR push_bit 22 1 OR push_bit 18 opc OR push_bit 10 imm8 OR
                 push_bit 5 rn OR rd)))))"

section \<open>Logical (immediate)\<close>

definition enc_logical_imm :: "insn \<Rightarrow> u32 encoded" where
  "enc_logical_imm insn =
     (let code = i_code insn;
          sf = (if is_64 code then 1 else 0);
          datasize = (if sf = 1 then 64 else 32 :: nat);
          opc =
            (if code \<in> {C_AndImm32, C_AndImm64} then 0b00
             else if code \<in> {C_OrrImm32, C_OrrImm64} then 0b01
             else if code \<in> {C_EorImm32, C_EorImm64} then 0b10
             else 0b11)
      in and_then
           (if i_mnemonic insn = M_Tst then
              and_then (reg_num insn 0) (\<lambda>rn. and_then (imm_u insn 1) (\<lambda>v. Ok (31, rn, v)))
            else if i_mnemonic insn = M_Mov then
              and_then (reg_num insn 0) (\<lambda>rd. and_then (imm_u insn 1) (\<lambda>v. Ok (rd, 31, v)))
            else
              and_then (reg_num insn 0) (\<lambda>rd. and_then (reg_num insn 1) (\<lambda>rn. and_then (imm_u insn 2) (\<lambda>v.
                Ok (rd, rn, v)))))
           (\<lambda>(rd, rn, value).
             let value = (if datasize = 32 then value AND 0xffffffff else value)
             in and_then (ok_or EncInvalidImmediate (encode_bit_masks value datasize)) (\<lambda>(n, immr, imms).
                  Ok (push_bit 31 sf OR push_bit 29 opc OR push_bit 23 0b100100 OR push_bit 22 n OR push_bit 16 immr OR
                      push_bit 10 imms OR push_bit 5 rn OR rd))))"

section \<open>Move wide (immediate)\<close>

definition factor_movz :: "u64 \<Rightarrow> nat \<Rightarrow> (u32 \<times> u32) encoded" where
  "factor_movz value datasize =
     ok_or EncInvalidImmediate
       (map_option (\<lambda>hw. let shift = hw * 16 in (ucast (drop_bit shift value AND 0xffff), of_nat hw))
          (find (\<lambda>hw. let shift = hw * 16 in value AND NOT (push_bit shift 0xffff) = 0) [0..<datasize div 16]))"

definition factor_movn :: "u64 \<Rightarrow> nat \<Rightarrow> (u32 \<times> u32) encoded" where
  "factor_movn value datasize =
     (let inv = (if datasize = 32 then NOT value AND 0xffffffff else NOT value)
      in ok_or EncInvalidImmediate
           (map_option (\<lambda>hw. let shift = hw * 16 in (ucast (drop_bit shift inv AND 0xffff), of_nat hw))
              (find (\<lambda>hw. let shift = hw * 16 in inv AND NOT (push_bit shift 0xffff) = 0) [0..<datasize div 16])))"

definition enc_move_wide :: "insn \<Rightarrow> u32 encoded" where
  "enc_move_wide insn =
     (let code = i_code insn;
          sf = (if is_64 code then 1 else 0);
          datasize = (if sf = 1 then 64 else 32 :: nat);
          opc =
            (if code \<in> {C_Movn32, C_Movn64} then 0b00 else if code \<in> {C_Movz32, C_Movz64} then 0b10 else 0b11);
          materialised =
            and_then (imm_u insn 1) (\<lambda>raw.
              let raw = (if datasize = 32 then raw AND 0xffffffff else raw)
              in if opc = 0b10 then factor_movz raw datasize
                 else if opc = 0b00 then factor_movn raw datasize
                 else Err EncInvalidOperand)
      in and_then (reg_num insn 0) (\<lambda>rd.
         and_then
           (case insn_op insn 1 of
              OpImmShiftedMove imm lsl \<Rightarrow> (let hw = lsl div 16 in Ok (ucast imm, ucast hw))
            | OpImmSigned _ \<Rightarrow> materialised
            | OpImmUnsigned _ \<Rightarrow> materialised
            | _ \<Rightarrow> Err EncInvalidOperand)
           (\<lambda>(imm16, hw).
             if sf = 0 \<and> hw AND 0b10 \<noteq> 0 then Err EncInvalidImmediate
             else if imm16 > 0xffff then Err EncInvalidImmediate
             else Ok (push_bit 31 sf OR push_bit 29 opc OR push_bit 23 0b100101 OR push_bit 21 hw OR push_bit 5 imm16 OR
                      rd))))"

section \<open>Bitfield\<close>

text \<open>The arms of \<open>recover_bitfield_fields\<close> that invert \<open>(datasize - immr) MOD datasize\<close> and \<open>imms + 1\<close>.\<close>

definition insert_fields :: "u32 \<Rightarrow> u32 \<Rightarrow> u32 \<Rightarrow> u32 \<Rightarrow> (u32 \<times> u32 \<times> u32) encoded" where
  "insert_fields datasize rn lsb width =
     (if width = 0 then Err EncInvalidImmediate
      else and_then (sub_u32 datasize lsb) (\<lambda>d.
        let immr = d mod datasize
        in and_then (sub_u32 width 1) (\<lambda>imms. Ok (rn, immr, imms))))"

definition extract_fields :: "u32 \<Rightarrow> u32 \<Rightarrow> u32 \<Rightarrow> (u32 \<times> u32 \<times> u32) encoded" where
  "extract_fields rn lsb width =
     (if width = 0 then Err EncInvalidImmediate
      else let immr = lsb
           in and_then (add_u32 lsb width) (\<lambda>e. and_then (sub_u32 e 1) (\<lambda>imms. Ok (rn, immr, imms))))"

definition recover_bitfield_fields :: "insn \<Rightarrow> u32 \<Rightarrow> u32 \<Rightarrow> (u32 \<times> u32 \<times> u32) encoded" where
  "recover_bitfield_fields insn datasize max_bit =
     (let m = i_mnemonic insn
      in if m \<in> {M_Sxtb, M_Uxtb} then and_then (reg_num insn 1) (\<lambda>rn. Ok (rn, 0, 7))
         else if m \<in> {M_Sxth, M_Uxth} then and_then (reg_num insn 1) (\<lambda>rn. Ok (rn, 0, 15))
         else if m = M_Sxtw then and_then (reg_num insn 1) (\<lambda>rn. Ok (rn, 0, 31))
         else if m \<in> {M_Asr, M_Lsr} then
           and_then (reg_num insn 1) (\<lambda>rn. and_then (imm_u insn 2) (\<lambda>shift. Ok (rn, ucast shift, max_bit)))
         else if m = M_Lsl then
           and_then (reg_num insn 1) (\<lambda>rn. and_then (imm_u insn 2) (\<lambda>shift.
             let shift = (ucast shift :: u32)
             in if shift > max_bit then Err EncInvalidImmediate
                else
                 and_then (sub_u32 datasize shift) (\<lambda>d.
                   let immr = d mod datasize
                   in and_then (sub_u32 max_bit shift) (\<lambda>imms. Ok (rn, immr, imms)))))
         else if m \<in> {M_Sbfiz, M_Ubfiz, M_Bfi} then
           and_then (reg_num insn 1) (\<lambda>rn. and_then (imm_u insn 2) (\<lambda>lsb. and_then (imm_u insn 3) (\<lambda>width.
             insert_fields datasize rn (ucast lsb) (ucast width))))
         else if m \<in> {M_Sbfx, M_Ubfx, M_Bfxil} then
           and_then (reg_num insn 1) (\<lambda>rn. and_then (imm_u insn 2) (\<lambda>lsb. and_then (imm_u insn 3) (\<lambda>width.
             extract_fields rn (ucast lsb) (ucast width))))
         else if m = M_Bfc then
           and_then (imm_u insn 1) (\<lambda>lsb. and_then (imm_u insn 2) (\<lambda>width.
             insert_fields datasize 31 (ucast lsb) (ucast width)))
         else
           and_then (reg_num insn 1) (\<lambda>rn. and_then (imm_u insn 2) (\<lambda>immr. and_then (imm_u insn 3) (\<lambda>imms.
             Ok (rn, ucast immr, ucast imms)))))"

definition enc_bitfield :: "insn \<Rightarrow> u32 encoded" where
  "enc_bitfield insn =
     (let code = i_code insn;
          sf = (if is_64 code then 1 else 0);
          n = sf;
          datasize = (if sf = 1 then 64 else 32);
          max_bit = datasize - 1;
          opc =
            (if code \<in> {C_Sbfm32, C_Sbfm64} then 0b00 else if code \<in> {C_Bfm32, C_Bfm64} then 0b01 else 0b10)
      in and_then (recover_bitfield_fields insn datasize max_bit) (\<lambda>(rn, immr, imms).
           if immr > max_bit \<or> imms > max_bit then Err EncInvalidImmediate
           else and_then (reg_num insn 0) (\<lambda>rd.
             Ok (push_bit 31 sf OR push_bit 29 opc OR push_bit 23 0b100110 OR push_bit 22 n OR push_bit 16 immr OR
                 push_bit 10 imms OR push_bit 5 rn OR rd))))"

section \<open>Extract\<close>

definition enc_extract :: "insn \<Rightarrow> u32 encoded" where
  "enc_extract insn =
     (let sf = (if is_64 (i_code insn) then 1 else 0);
          n = sf
      in and_then (reg_num insn 0) (\<lambda>rd.
         and_then
           (if i_mnemonic insn = M_Ror then
              and_then (reg_num insn 1) (\<lambda>rn. and_then (imm_u insn 2) (\<lambda>imms. Ok (rn, rn, ucast imms)))
            else
              and_then (reg_num insn 1) (\<lambda>rn. and_then (reg_num insn 2) (\<lambda>rm. and_then (imm_u insn 3) (\<lambda>imms.
                Ok (rn, rm, ucast imms)))))
           (\<lambda>(rn, rm, imms).
             if sf = 0 \<and> imms AND 0b100000 \<noteq> 0 then Err EncInvalidImmediate
             else if imms > 0x3f then Err EncInvalidImmediate
             else Ok (push_bit 31 sf OR push_bit 23 0b00100111 OR push_bit 22 n OR push_bit 16 rm OR push_bit 10 imms OR
                      push_bit 5 rn OR rd))))"

section \<open>The dispatcher\<close>

definition encode_dp_imm :: "insn \<Rightarrow> u32 encoded" where
  "encode_dp_imm insn =
     (let c = i_code insn
      in if c \<in> {C_Adr, C_Adrp} then enc_pc_rel insn
         else if c \<in> {C_AddImm32, C_AddImm64, C_SubImm32, C_SubImm64, C_AddsImm32, C_AddsImm64, C_SubsImm32, C_SubsImm64}
           then enc_addsub_imm insn
         else if c \<in> {C_AddgImm, C_SubgImm} then enc_addsub_tags insn
         else if c \<in> {C_SmaxImm32, C_SmaxImm64, C_SminImm32, C_SminImm64, C_UmaxImm32, C_UmaxImm64, C_UminImm32, C_UminImm64}
           then enc_minmax_imm insn
         else if c \<in> {C_AndImm32, C_AndImm64, C_OrrImm32, C_OrrImm64, C_EorImm32, C_EorImm64, C_AndsImm32, C_AndsImm64}
           then enc_logical_imm insn
         else if c \<in> {C_Movn32, C_Movn64, C_Movz32, C_Movz64, C_Movk32, C_Movk64} then enc_move_wide insn
         else if c \<in> {C_Sbfm32, C_Sbfm64, C_Bfm32, C_Bfm64, C_Ubfm32, C_Ubfm64} then enc_bitfield insn
         else if c \<in> {C_Extr32, C_Extr64} then enc_extract insn
         else Err EncUnsupported)"

text \<open>\<open>is_dp_imm\<close> of \<open>encode/mod.rs\<close>: the codes of the group.\<close>

definition is_dp_imm :: "code \<Rightarrow> bool" where
  "is_dp_imm code \<longleftrightarrow>
     code \<in> {C_Adr, C_Adrp, C_AddImm32, C_AddImm64, C_AddsImm32, C_AddsImm64, C_SubImm32, C_SubImm64, C_SubsImm32,
             C_SubsImm64, C_AddgImm, C_SubgImm, C_AndImm32, C_AndImm64, C_OrrImm32, C_OrrImm64, C_EorImm32, C_EorImm64,
             C_AndsImm32, C_AndsImm64, C_Movn32, C_Movn64, C_Movz32, C_Movz64, C_Movk32, C_Movk64, C_Sbfm32, C_Sbfm64,
             C_Bfm32, C_Bfm64, C_Ubfm32, C_Ubfm64, C_Extr32, C_Extr64, C_SmaxImm32, C_SmaxImm64, C_SminImm32, C_SminImm64,
             C_UmaxImm32, C_UmaxImm64, C_UminImm32, C_UminImm64}"

end
