(* ===== verification/Dp_Imm_Exact.thy ===== *)
theory Dp_Imm_Exact
  imports Dp_Imm_Decode Dp_Imm_Encode Codec_Base
begin

text \<open>
  The encoding classes of Data Processing -- Immediate whose encoder returns the very word: PC-relative addressing,
  add/subtract, min/max, move wide, bitfield and extract.  For each class, \<open>layout_*\<close> puts the word together from its
  fields and \<open>exact_*\<close> is the round trip.
\<close>

section \<open>The words of the group\<close>

text \<open>The dispatcher of \<open>decode_into\<close> sends here the words with bits 28:26 equal to 100; the pattern of
  AUTIASPPC/AUTIBSPPC among them belongs to the branch encoder.\<close>

definition in_dp_imm :: "u32 \<Rightarrow> bool" where
  "in_dp_imm w \<longleftrightarrow> bits w 26 3 = 0b100 \<and> w AND 0xFFC0001F \<noteq> 0xF380001F"

lemma in_dp_imm_bits: "in_dp_imm w \<Longrightarrow> bit w 28" "in_dp_imm w \<Longrightarrow> \<not> bit w 27" "in_dp_imm w \<Longrightarrow> \<not> bit w 26"
  by (auto simp: in_dp_imm_def dest: bits_eqD [where n = 0] bits_eqD [where n = 1] bits_eqD [where n = 2])

lemma op1_bits:
  assumes "bits w 23 3 = c"
  shows "bit w 25 \<longleftrightarrow> bit c 2" "bit w 24 \<longleftrightarrow> bit c 1" "bit w 23 \<longleftrightarrow> bit c 0"
  using bits_eqD [OF assms, of 0] bits_eqD [OF assms, of 1] bits_eqD [OF assms, of 2] by simp_all

lemma layout_addsub:
  assumes "in_dp_imm w" "bits w 23 3 = 2"
  shows "push_bit 31 (bit_at w 31) OR push_bit 30 (bit_at w 30) OR push_bit 29 (bit_at w 29) OR push_bit 24 0b10001 OR
      push_bit 22 (bit_at w 22) OR push_bit 10 (bits w 10 12) OR push_bit 5 (bits w 5 5) OR bits w 0 5 = w"
  using in_dp_imm_bits [OF assms(1)] op1_bits [OF assms(2)] by (simp add: to_bits)

lemma exact_addsub:
  assumes "in_dp_imm w" "bits w 23 3 = 2"
  shows "encode_dp_imm (decode_addsub_imm w out) = Ok w"
  apply (cases "bit w 31"; cases "bit w 30"; cases "bit w 29"; cases "bit w 22")
  apply (simp_all add: decode_addsub_imm_def dec_eval split: if_split)
  using layout_addsub [OF assms]
  apply (auto simp: encode_dp_imm_def enc_addsub_imm_def is_64_def imm_shifted_def enc_eval)
  done

lemma layout_minmax:
  assumes "in_dp_imm w" "bits w 23 3 = 3" "bit w 22" "\<not> bit w 30" "\<not> bit w 29" "bits w 20 2 = 0"
  shows "push_bit 31 (bit_at w 31) OR push_bit 23 0b100011 OR push_bit 22 1 OR push_bit 18 (bits w 18 2) OR
      push_bit 10 (bits w 10 8) OR push_bit 5 (bits w 5 5) OR bits w 0 5 = w"
  using in_dp_imm_bits [OF assms(1)] op1_bits [OF assms(2)] bits_eqD [OF assms(6), of 0] bits_eqD [OF assms(6), of 1] assms(3-5)
  by (simp add: to_bits)

lemma ucast_and_0xff: "(ucast (x :: u64) :: u32) AND 0xff = take_bit 8 (ucast x)"
  by (simp add: take_bit_eq_mask mask_eq_exp_minus_1)

lemma exact_minmax:
  assumes "in_dp_imm w" "bits w 23 3 = 3" "bit w 22" "i_code (decode_minmax_imm w fs out) \<noteq> C_Invalid" "i_code out = C_Invalid"
  shows "encode_dp_imm (decode_minmax_imm w fs out) = Ok w"
proof -
  have g: "has fs F_Cssc" "\<not> bit w 30" "\<not> bit w 29" "bits w 20 2 = 0"
    using assms(4,5) by (auto simp: decode_minmax_imm_def split: if_splits)
  have s: "bit (bits w 18 2) 0 \<longleftrightarrow> bit w 18" by (simp add: bit_bits)
  show ?thesis
  using bits_2_cases [of w 18]
  apply (cases "bit w 31"; elim disjE)
  apply (simp_all add: decode_minmax_imm_def dec_eval g)
  using layout_minmax [OF assms(1-3) g(2-4)] sint_sign_extend_8 [of "ucast (bits w 10 8)"]
  apply (auto simp: encode_dp_imm_def enc_minmax_imm_def is_64_def enc_eval ucast_sign_extend_field ucast_and_0xff)
  done
qed


definition imm21_of :: "u32 \<Rightarrow> u32" where
  "imm21_of w = push_bit 2 (bits w 5 19) OR bits w 29 2"

lemma imm21_parts:
  "imm21_of w AND 3 = bits w 29 2" "drop_bit 2 (imm21_of w) AND 0x7ffff = bits w 5 19"
  "take_bit 21 (imm21_of w) = imm21_of w"
  unfolding imm21_of_def by (simp_all add: to_bits)

lemma and_0x1fffff: "(x :: u32) AND 0x1fffff = take_bit 21 x"
  by (simp add: take_bit_eq_mask mask_eq_exp_minus_1)

lemma pc_rel_back:
  assumes "take_bit 21 y = (y :: u32)"
  shows "(ucast (sign_extend (ucast y) 21) :: u32) AND 0x1fffff = y"
    "signed_drop_bit 20 (sign_extend (ucast y) 21) \<noteq> 0 \<longrightarrow> signed_drop_bit 20 (sign_extend (ucast y) 21) = - 1"
proof -
  have "take_bit 21 (ucast (sign_extend (ucast y) 21) :: u32) = take_bit 21 y"
    by (rule bit_word_eqI) (auto simp: bit_simps bit_sign_extend)
  then show "(ucast (sign_extend (ucast y) 21) :: u32) AND 0x1fffff = y" using assms by (simp only: and_0x1fffff)
  show "signed_drop_bit 20 (sign_extend (ucast y) 21) \<noteq> 0 \<longrightarrow> signed_drop_bit 20 (sign_extend (ucast y) 21) = - 1"
    using sign_extend_reach [of 21 "ucast y"] by simp
qed

lemma layout_pc_rel:
  assumes "in_dp_imm w" "bits w 23 3 = 0 \<or> bits w 23 3 = 1"
  shows "push_bit 31 (bit_at w 31) OR push_bit 29 (bits w 29 2) OR push_bit 24 0b10000 OR push_bit 5 (bits w 5 19) OR
    bits w 0 5 = w"
proof -
  have "\<not> bit w 25" "\<not> bit w 24" using assms(2) op1_bits by fastforce+
  then show ?thesis using in_dp_imm_bits [OF assms(1)] by (simp add: to_bits)
qed

text \<open>Pages: the low twelve bits of a page base and of a page offset are clear.\<close>

lemma not_0xFFF: "NOT (0xFFF :: u64) = NOT (mask 12)"
  by (simp add: mask_eq_exp_minus_1)

lemma take_bit_page [simp]: "take_bit 12 (ip AND NOT (mask 12) :: u64) = 0"
  by (rule bit_word_eqI) (auto simp: bit_simps)

lemma page_offset:
  "take_bit 12 (sign_extend (push_bit 12 x) 33) = 0"
  "signed_drop_bit 12 (sign_extend (push_bit 12 x) 33) = sign_extend x 21"
proof -
  show "take_bit 12 (sign_extend (push_bit 12 x) 33) = 0"
    by (rule bit_word_eqI) (auto simp: bit_simps bit_sign_extend)
  show "signed_drop_bit 12 (sign_extend (push_bit 12 x) 33) = sign_extend x 21"
    by (rule bit_word_eqI) (auto simp: bit_simps bit_sign_extend)
qed

lemma page_sum:
  assumes "take_bit 12 a = 0" "take_bit 12 b = (0 :: u64)"
  shows "(a + b) AND 0xFFF = 0" "(a + b) AND NOT (mask 12) = a + b"
proof -
  have t: "take_bit 12 (a + b) = 0" using assms by (simp only: take_bit_eq_0_iff dvd_add)
  then show "(a + b) AND 0xFFF = 0" by (simp add: take_bit_eq_mask mask_eq_exp_minus_1)
  have "bit (a + b) i \<Longrightarrow> \<not> i < 12" for i using t bit_take_bit_iff [of 12 "a + b" i] by simp
  then show "(a + b) AND NOT (mask 12) = a + b"
    by (intro bit_word_eqI) (simp only: bit_and_iff bit_not_iff bit_mask_iff possible_bit_word, blast)
qed

lemma layout_pc_rel_enc:
  assumes "in_dp_imm w" "bits w 23 3 = 0 \<or> bits w 23 3 = 1"
  shows "push_bit 31 (bit_at w 31) OR push_bit 29 (imm21_of w AND 3) OR push_bit 24 0b10000 OR
    push_bit 5 (drop_bit 2 (imm21_of w) AND 0x7ffff) OR bits w 0 5 = w"
  unfolding imm21_parts by (rule layout_pc_rel [OF assms])

lemma exact_pc_rel:
  assumes "in_dp_imm w" "bits w 23 3 = 0 \<or> bits w 23 3 = 1" "i_ip out = ip"
  shows "encode_dp_imm (decode_pc_rel w ip out) = Ok w"
proof -
  note b = pc_rel_back [OF imm21_parts(3) [of w]]
  have t: "target AND 0xFFF = 0 \<and> (target AND NOT 0xFFF) - (ip AND NOT 0xFFF) = sign_extend (push_bit 12 (ucast (imm21_of w))) 33"
    if "target = (ip AND NOT 0xFFF) + sign_extend (push_bit 12 (ucast (imm21_of w))) 33" for target
    unfolding that not_0xFFF using page_sum [OF take_bit_page page_offset(1)] by simp
  show ?thesis
    apply (cases "bit w 31")
    apply (simp_all add: decode_pc_rel_def dec_eval flip: imm21_of_def)
    using layout_pc_rel_enc [OF assms(1,2)] b t [OF refl] page_offset(2) [of "ucast (imm21_of w)"]
      sign_extend_reach [of 33 "push_bit 12 (ucast (imm21_of w))", simplified]
    apply (auto simp: encode_dp_imm_def enc_pc_rel_def enc_eval assms(3))
    done
qed

section \<open>Move wide\<close>

lemma ffff_u64: "(0xffff :: u64) = mask 16" "(0xffffffff :: u64) = mask 32"
  by (simp_all add: mask_eq_exp_minus_1)

lemma lane_test:
  assumes "take_bit 16 i = (i :: u64)" "h < 4" "k < 4"
  shows "push_bit (h * 16) i AND NOT (push_bit (k * 16) 0xffff) = 0 \<longleftrightarrow> k = h \<or> i = 0"
proof (cases "k = h")
  case True
  have "bit i n \<Longrightarrow> n < 16" for n using assms(1) bit_take_bit_iff [of 16 i n] by metis
  then show ?thesis using True
    by (auto intro!: bit_word_eqI simp: ffff_u64 bit_and_iff bit_not_iff bit_push_bit_iff bit_mask_iff)
next
  case False
  have i: "bit i n \<Longrightarrow> n < 16" for n using assms(1) bit_take_bit_iff [of 16 i n] by metis
  have "push_bit (h * 16) i AND NOT (push_bit (k * 16) 0xffff) = push_bit (h * 16) i"
  proof (rule bit_word_eqI)
    fix n
    have "\<not> (h * 16 \<le> n \<and> n - h * 16 < 16 \<and> k * 16 \<le> n \<and> n - k * 16 < 16)" using False by arith
    then show "bit (push_bit (h * 16) i AND NOT (push_bit (k * 16) 0xffff)) n = bit (push_bit (h * 16) i) n"
      using i [of "n - h * 16"] by (auto simp: ffff_u64 bit_and_iff bit_not_iff bit_push_bit_iff bit_mask_iff simp del: mask_numeral)
  qed
  moreover have "push_bit (h * 16) i = 0 \<longleftrightarrow> i = 0"
  proof
    assume "push_bit (h * 16) i = 0"
    then have "\<not> bit (push_bit (h * 16) i) (n + h * 16)" for n by simp
    then have "n + h * 16 < 64 \<Longrightarrow> \<not> bit i n" for n by (simp add: bit_push_bit_iff)
    moreover have "n < 16 \<Longrightarrow> n + h * 16 < 64" for n using assms(2) by simp
    ultimately show "i = 0" using i by (intro bit_word_eqI) auto
  qed simp
  ultimately show ?thesis using False by simp
qed

lemma factor_movz_lane:
  assumes "take_bit 16 i = (i :: u64)" "h < n" "n \<le> 4" "i = 0 \<longrightarrow> h = 0"
  shows "factor_movz (push_bit (h * 16) i) (n * 16) = Ok (ucast i, of_nat h)"
proof -
  have t: "push_bit (h * 16) i AND NOT (push_bit (k * 16) 0xffff) = 0 \<longleftrightarrow> k = h \<or> i = 0" if "k < 4" for k
    using lane_test [OF assms(1) _ that, of h] assms(2,3) by simp
  have "find (\<lambda>hw. let shift = hw * 16 in push_bit (h * 16) i AND NOT (push_bit shift 0xffff) = 0) [0..<n] = Some h"
    unfolding find_Some_iff Let_def using t assms(2-4) by (intro exI [of _ h]) auto
  moreover have "drop_bit (h * 16) (push_bit (h * 16) i) AND 0xffff = i"
  proof (rule bit_word_eqI)
    fix m assume "m < LENGTH(64)"
    have "bit i m \<Longrightarrow> m < 16" using assms(1) bit_take_bit_iff [of 16 i m] by metis
    moreover have "m < 16 \<Longrightarrow> m + h * 16 < 64" using assms(2,3) by simp
    ultimately show "bit (drop_bit (h * 16) (push_bit (h * 16) i) AND 0xffff) m = bit i m"
      by (auto simp: ffff_u64 bit_and_iff bit_drop_bit_eq bit_push_bit_iff bit_mask_iff add.commute simp del: mask_numeral)
  qed
  ultimately show ?thesis using assms(2) by (simp add: factor_movz_def Let_def)
qed

lemma factor_movn_movz:
  "factor_movn v 64 = factor_movz (NOT v) 64"
  "factor_movn (v AND 0xffffffff) 32 = factor_movz (NOT v AND 0xffffffff) 32"
proof -
  have "NOT (v AND 0xffffffff) AND 0xffffffff = NOT v AND 0xffffffff"
    unfolding ffff_u64 by (intro bit_word_eqI) (auto simp only: bit_and_iff bit_not_iff bit_mask_iff possible_bit_word)
  then show "factor_movn (v AND 0xffffffff) 32 = factor_movz (NOT v AND 0xffffffff) 32"
    by (simp only: factor_movn_def factor_movz_def Let_def) simp
qed (simp add: factor_movn_def factor_movz_def Let_def)

lemma take_16_field [simp]: "take_bit 16 (ucast (bits w l 16) :: u64) = ucast (bits w l 16)"
  by (rule bit_word_eqI) (auto simp: bit_simps bit_bits)

lemma ucast_field_eq_0 [simp]: "(ucast (bits w l k) :: u64) = 0 \<longleftrightarrow> bits w l k = 0"
  by (metis ucast_field_u64 unsigned_0)

lemma imm32_back:
  "take_bit 32 x = x \<Longrightarrow> sign_extend x 32 AND 0xffffffff = x"
  "take_bit 32 x = x \<Longrightarrow> NOT (sign_extend (NOT x AND 0xffffffff) 32) AND 0xffffffff = (x :: u64)"
proof -
  assume x: "take_bit 32 x = x"
  have "sign_extend x 32 AND mask 32 = take_bit 32 (sign_extend x 32)" by (simp add: take_bit_eq_mask)
  then show "sign_extend x 32 AND 0xffffffff = x" using x sign_extend_low [of 32 x] by (simp add: ffff_u64)
  have b: "bit x n \<Longrightarrow> n < 32" for n using x bit_take_bit_iff [of 32 x n] by metis
  show "NOT (sign_extend (NOT x AND 0xffffffff) 32) AND 0xffffffff = x"
    unfolding ffff_u64 using b
    by (intro bit_word_eqI) (auto simp: bit_and_iff bit_not_iff bit_sign_extend bit_mask_iff simp del: mask_numeral)
qed

lemma take_32_lane [simp]:
  "take_bit 32 (ucast (bits w l 16) :: u64) = ucast (bits w l 16)"
  "take_bit 32 (push_bit 16 (ucast (bits w l 16)) :: u64) = push_bit 16 (ucast (bits w l 16))"
  by (rule bit_word_eqI; auto simp: bit_simps bit_bits)+

lemma sign_extend_64 [simp]: "sign_extend x 64 = x"
  by (simp add: sign_extend_def)

lemmas factor_lanes =
  factor_movz_lane [where h = 0 and n = 4, simplified] factor_movz_lane [where h = 1 and n = 4, simplified]
  factor_movz_lane [where h = 2 and n = 4, simplified] factor_movz_lane [where h = 3 and n = 4, simplified]
  factor_movz_lane [where h = 0 and n = 2, simplified] factor_movz_lane [where h = 1 and n = 2, simplified]

lemma layout_move_wide:
  assumes "in_dp_imm w" "bits w 23 3 = 5"
  shows "push_bit 31 (bit_at w 31) OR push_bit 29 (bits w 29 2) OR push_bit 23 0b100101 OR push_bit 21 (bits w 21 2) OR
    push_bit 5 (bits w 5 16) OR bits w 0 5 = w"
  using in_dp_imm_bits [OF assms(1)] op1_bits [OF assms(2)] by (simp add: to_bits)

lemma exact_move_wide:
  assumes "in_dp_imm w" "bits w 23 3 = 5" "i_code (decode_move_wide w out) \<noteq> C_Invalid" "i_code out = C_Invalid"
  shows "encode_dp_imm (decode_move_wide w out) = Ok w"
proof -
  have g: "bits w 29 2 \<noteq> 1" "\<not> (\<not> bit w 31 \<and> bits w 21 2 AND 2 \<noteq> 0)"
    using assms(3,4) by (auto simp: decode_move_wide_def Let_def split: if_splits)
  show ?thesis
    using bits_2_cases [of w 29] bits_2_cases [of w 21] g
    apply (cases "bit w 31"; elim disjE)
    apply (simp_all add: decode_move_wide_def dec_eval signed_imm_def split: if_split)
    using layout_move_wide [OF assms(1,2)]
    apply (auto simp: encode_dp_imm_def enc_move_wide_def is_64_def enc_eval factor_lanes factor_movn_movz imm32_back)
    done
qed

section \<open>Extract and bitfield\<close>

lemma layout_extract:
  assumes "in_dp_imm w" "bits w 23 3 = 7" "bits w 29 2 = 0" "\<not> bit w 21" "bit w 22 \<longleftrightarrow> bit w 31"
  shows "push_bit 31 (bit_at w 31) OR push_bit 23 0b00100111 OR push_bit 22 (bit_at w 31) OR push_bit 16 (bits w 16 5) OR
    push_bit 10 (bits w 10 6) OR push_bit 5 (bits w 5 5) OR bits w 0 5 = w"
  using in_dp_imm_bits [OF assms(1)] op1_bits [OF assms(2)] bits_eqD [OF assms(3), of 0] bits_eqD [OF assms(3), of 1] assms(4,5)
  by (simp add: to_bits)

lemma and_32: "(x :: u32) AND 32 \<noteq> 0 \<longleftrightarrow> bit x 5"
  using and_exp_eq_0_iff_not_bit [of x 5] by simp

lemma exact_extract:
  assumes "in_dp_imm w" "bits w 23 3 = 7" "i_code (decode_extract w out) \<noteq> C_Invalid" "i_code out = C_Invalid"
  shows "encode_dp_imm (decode_extract w out) = Ok w"
proof -
  have g: "bits w 29 2 = 0" "\<not> bit w 21" "bit w 22 \<longleftrightarrow> bit w 31" "\<not> (\<not> bit w 31 \<and> bit (bits w 10 6) 5)"
    using assms(3,4) bit_at_cases [of w 22] bit_at_cases [of w 31]
    by (auto simp: decode_extract_def Let_def split: if_splits)
  have e: "bit_at w 22 = bit_at w 31" using g(3) bit_at_cases [of w 22] bit_at_cases [of w 31] by auto
  show ?thesis
    using g
    apply (cases "bit w 31")
    apply (simp_all add: decode_extract_def dec_eval e split: if_split)
    using layout_extract [OF assms(1,2) g(1-3)] and_32 [of "bits w 10 6"]
    apply (auto simp: encode_dp_imm_def enc_extract_def is_64_def enc_eval)
    done
qed

lemma layout_bitfield:
  assumes "in_dp_imm w" "bits w 23 3 = 6" "bit w 22 \<longleftrightarrow> bit w 31"
  shows "push_bit 31 (bit_at w 31) OR push_bit 29 (bits w 29 2) OR push_bit 23 0b100110 OR push_bit 22 (bit_at w 31) OR
    push_bit 16 (bits w 16 6) OR push_bit 10 (bits w 10 6) OR push_bit 5 (bits w 5 5) OR bits w 0 5 = w"
  using in_dp_imm_bits [OF assms(1)] op1_bits [OF assms(2)] assms(3)
  by (simp add: to_bits)

text \<open>The arithmetic of the aliases, on numbers below the data size.\<close>

lemma insert_back:
  assumes "ds = 32 \<or> ds = (64 :: u32)" "immr < ds" "imms < immr"
  shows "insert_fields ds rn ((ds - immr) mod ds) (imms + 1) = Ok (rn, immr, imms)"
proof -
  have n: "0 < unat immr" "unat immr < unat ds" "unat imms < unat immr" "unat ds \<le> 64"
    using assms by (auto simp: word_less_nat_alt)
  have "unat (imms + 1) = unat imms + 1" using n by (simp add: unat_word_ariths)
  then have s: "imms + 1 \<noteq> 0" by (metis add_is_0 unsigned_0 zero_neq_one)
  have u: "unat (ds - immr) = unat ds - unat immr" using n by (intro unat_sub) (simp add: word_le_nat_alt)
  have m: "(ds - immr) mod ds = ds - immr"
    by (intro word_unat_eq_iff [THEN iffD2]) (use n in \<open>simp add: unat_mod u\<close>)
  have "(ds - (ds - immr)) mod ds = immr"
    by (intro word_unat_eq_iff [THEN iffD2]) (use n in \<open>simp add: unat_mod\<close>)
  moreover have "ds - immr \<le> ds" using n by (simp add: word_le_nat_alt u)
  ultimately show ?thesis using s by (simp add: insert_fields_def m)
qed

lemma extract_back:
  assumes "imms < (64 :: u32)" "immr \<le> imms"
  shows "extract_fields rn immr (imms - immr + 1) = Ok (rn, immr, imms)"
proof -
  have n: "unat imms < 64" "unat immr \<le> unat imms" using assms by (auto simp: word_less_nat_alt word_le_nat_alt)
  have u: "unat (imms - immr + 1) = unat imms - unat immr + 1"
    using n by (simp add: unat_word_ariths unat_sub word_le_nat_alt)
  have "imms - immr + 1 \<noteq> 0" using u by (metis add_is_0 unsigned_0 zero_neq_one)
  moreover have "unat immr + unat (imms - immr + 1) < 2 ^ 32" using u n by simp
  moreover have "unat (imms + 1) = unat imms + 1" using n by (simp add: unat_word_ariths)
  then have "imms + 1 \<noteq> 0" by (metis add_is_0 unsigned_0 zero_neq_one)
  ultimately show ?thesis by (simp add: extract_fields_def add_u32_def)
qed

lemma lsl_back:
  assumes "ds = 32 \<or> ds = (64 :: u32)" "imms < ds - 1" "imms + 1 = immr"
  shows "(ds - (ds - 1 - imms)) mod ds = immr" "ds - 1 - (ds - 1 - imms) = imms" "\<not> ds - 1 < ds - 1 - imms"
proof -
  have n: "unat imms < unat ds - 1" "unat ds \<le> 64" "0 < unat ds" "unat (ds - 1) = unat ds - 1"
    using assms by (auto simp: word_less_nat_alt)
  have u: "unat (imms + 1) = unat imms + 1" using n by (simp add: unat_word_ariths)
  have "ds - (ds - 1 - imms) = imms + 1" by simp
  moreover have "(imms + 1) mod ds = imms + 1"
    by (intro word_unat_eq_iff [THEN iffD2]) (use n in \<open>simp add: unat_mod u\<close>)
  ultimately show "(ds - (ds - 1 - imms)) mod ds = immr" using assms(3) by simp
  show "ds - 1 - (ds - 1 - imms) = imms" by simp
  have "unat (ds - 1 - imms) = unat ds - 1 - unat imms"
    using n by (simp add: unat_sub word_le_nat_alt)
  then show "\<not> ds - 1 < ds - 1 - imms" using n by (simp add: word_less_nat_alt)
qed

lemma bitfield_in_range:
  assumes "\<not> (\<not> bit w 31 \<and> bit (bits w l 6) 5)" "ds = (if bit w 31 then 64 else 32)"
  shows "bits w l 6 < (ds :: u32)"
proof (cases "bit w 31")
  case True
  then show ?thesis using assms(2) bits_less [of 6 w l] by simp
next
  case False
  then have "bits w l 6 = bits w l 5"
  proof (intro bit_word_eqI)
    fix n
    have "n < 6 \<longleftrightarrow> n < 5 \<or> n = (5 :: nat)" by auto
    then show "bit (bits w l 6) n = bit (bits w l 5) n"
      using assms(1) False by (auto simp: bit_bits)
  qed
  then show ?thesis using False assms(2) bits_less [of 5 w l] by simp
qed

lemmas emit_defs = emit_sbfm_alias_def emit_bfm_alias_def emit_ubfm_alias_def

lemma recover_emitted:
  fixes w ds :: u32
  defines "immr \<equiv> bits w 16 6" and "imms \<equiv> bits w 10 6" and "rn \<equiv> bits w 5 5" and "rd \<equiv> bits w 0 5"
  assumes ds: "ds = 32 \<or> ds = 64" and r: "immr < ds" and s: "imms < ds"
  shows "recover_bitfield_fields (emit_sbfm_alias (built out c m []) wd ds immr imms rn rd) ds (ds - 1) = Ok (rn, immr, imms)"
    and "recover_bitfield_fields (emit_bfm_alias (built out c m []) wd ds immr imms rn rd) ds (ds - 1) = Ok (rn, immr, imms)"
    and "recover_bitfield_fields (emit_ubfm_alias (built out c m []) wd ds immr imms rn rd) ds (ds - 1) = Ok (rn, immr, imms)"
proof -
  have s64: "imms < 64" using s ds by (elim disjE) (simp_all add: less_trans [where y = "32 :: u32"])
  note undo = insert_back [OF ds r] extract_back [OF s64] extract_back [OF s64, of 0, simplified] ucast_field_u64 
  have num: "op_num (gp_reg u v rn) = Ok rn" for u v by (simp add: rn_def)
  have le: "immr \<le> imms" if "\<not> imms < immr" using that by simp
  have lsl: "(ds - (ds - 1 - imms)) mod ds = immr \<and> ds - 1 - (ds - 1 - imms) = imms \<and> \<not> ds - 1 < ds - 1 - imms"
    if "imms \<noteq> ds - 1" "imms + 1 = immr"
  proof -
    have "x < 32 \<Longrightarrow> x \<noteq> 31 \<Longrightarrow> x < 31" "x < 64 \<Longrightarrow> x \<noteq> 63 \<Longrightarrow> x < 63" for x :: u32
      by (simp_all add: word_less_nat_alt word_unat_eq_iff)
    then have "imms < ds - 1" using that(1) s ds by auto
    from lsl_back [OF ds this that(2)] show ?thesis by blast
  qed
  have fits: "x \<le> ds" if "\<not> ds - 1 < x" for x using that ds by (auto simp: word_less_nat_alt word_le_nat_alt)
  show "recover_bitfield_fields (emit_sbfm_alias (built out c m []) wd ds immr imms rn rd) ds (ds - 1) = Ok (rn, immr, imms)"
    by (auto simp: emit_sbfm_alias_def Let_def recover_bitfield_fields_def reg_num_op imm_u_op num undo le split: option.split)
  show "recover_bitfield_fields (emit_bfm_alias (built out c m []) wd ds immr imms rn rd) ds (ds - 1) = Ok (rn, immr, imms)"
    by (auto simp: emit_bfm_alias_def Let_def recover_bitfield_fields_def reg_num_op imm_u_op num undo le)
  show "recover_bitfield_fields (emit_ubfm_alias (built out c m []) wd ds immr imms rn rd) ds (ds - 1) = Ok (rn, immr, imms)"
    using lsl fits
    by (auto simp: sub_u32_def emit_ubfm_alias_def Let_def recover_bitfield_fields_def reg_num_op imm_u_op num undo le split: option.split)
qed

lemma emit_header [simp]:
  "i_code (emit_sbfm_alias (built out c m []) wd ds immr imms rn rd) = c"
  "i_code (emit_bfm_alias (built out c m []) wd ds immr imms rn rd) = c"
  "i_code (emit_ubfm_alias (built out c m []) wd ds immr imms rn rd) = c"
  by (simp_all add: emit_defs Let_def split: option.split)

lemma emit_op_0 [simp]:
  "insn_op (emit_sbfm_alias (built out c m []) wd ds immr imms rn rd) 0 = gp_reg False wd rd"
  "insn_op (emit_bfm_alias (built out c m []) wd ds immr imms rn rd) 0 = gp_reg False wd rd"
  "insn_op (emit_ubfm_alias (built out c m []) wd ds immr imms rn rd) 0 = gp_reg False wd rd"
  by (simp_all add: emit_defs Let_def split: option.split)

lemma exact_bitfield:
  assumes "in_dp_imm w" "bits w 23 3 = 6" "i_code (decode_bitfield w out) \<noteq> C_Invalid" "i_code out = C_Invalid"
  shows "encode_dp_imm (decode_bitfield w out) = Ok w"
proof -
  have g: "bits w 29 2 \<noteq> 3" "bit w 22 \<longleftrightarrow> bit w 31" "\<not> (\<not> bit w 31 \<and> bit (bits w 16 6) 5)"
    "\<not> (\<not> bit w 31 \<and> bit (bits w 10 6) 5)"
    using assms(3,4) by (auto simp: decode_bitfield_def Let_def split: if_splits)
  define ds :: u32 where "ds = (if bit w 31 then 64 else 32)"
  have r: "bits w 16 6 < ds" "bits w 10 6 < ds" using bitfield_in_range g(3,4) ds_def by blast+
  have d: "ds = 32 \<or> ds = 64" by (simp add: ds_def)
  have le: "\<not> ds - 1 < bits w 16 6" "\<not> ds - 1 < bits w 10 6" 
    using r d by (auto simp: word_less_nat_alt)
  note rec = recover_emitted [OF d r]
  show ?thesis
    using bits_2_cases [of w 29] g layout_bitfield [OF assms(1,2) g(2)] rec le ds_def
    apply (cases "bit w 31"; elim disjE)
    apply (simp_all add: decode_bitfield_def dec_eval split: if_split)
    apply (auto simp: encode_dp_imm_def enc_bitfield_def is_64_def enc_eval)
    done
qed

end
