(* ===== verification/Bit_Masks.thy ===== *)
theory Bit_Masks
  imports Bits_Spec Encode_Bits
begin

text \<open>
  Logical immediates.  A logical immediate is a run of \<open>S + 1\<close> ones, rotated right by \<open>R\<close> inside an element
  of \<open>E\<close> bits and repeated over the data size: bit \<open>i\<close> is set iff \<open>(i + R) mod E \<le> S\<close>.  The first section
  shows that \<open>decode_bit_masks\<close> computes this set of bits, the second that the triple \<open>(E, R, S)\<close> is determined
  by it, the third that \<open>encode_bit_masks\<close> therefore finds the fields again.
\<close>

section \<open>The decoded mask\<close>

definition in_run :: "nat \<Rightarrow> nat \<Rightarrow> nat \<Rightarrow> nat \<Rightarrow> bool" where
  "in_run E R S i \<longleftrightarrow> (i + R) mod E \<le> S"

text \<open>The top bit of \<open>immN : NOT(imms)\<close>, the base-2 logarithm of the element size.\<close>

definition n_not_imms :: "u32 \<Rightarrow> u32 \<Rightarrow> u64" where
  "n_not_imms n imms = ucast (push_bit 6 (n AND 1) OR (NOT (imms AND 0x3F) AND 0x3F))"

definition mask_len :: "u32 \<Rightarrow> u32 \<Rightarrow> int" where
  "mask_len n imms = highest_set_bit (n_not_imms n imms)"

text \<open>The fields \<open>(n, imms)\<close> announce elements of \<open>2 ^ len\<close> bits.\<close>

definition announces :: "u32 \<Rightarrow> u32 \<Rightarrow> nat \<Rightarrow> bool" where
  "announces n imms len \<longleftrightarrow>
     1 \<le> len \<and> len \<le> 6 \<and> (bit n 0 \<longleftrightarrow> len = 6) \<and> (len < 6 \<longrightarrow> \<not> bit imms len) \<and>
     (\<forall>k. len < k \<longrightarrow> k < 6 \<longrightarrow> bit imms k)"

lemma and_0x3F: "w AND (0x3F :: u32) = take_bit 6 w"
  by (simp add: take_bit_eq_mask mask_eq_exp_minus_1)

lemma bit_n_not_imms: "bit (n_not_imms n imms) i \<longleftrightarrow> i = 6 \<and> bit n 0 \<or> i < 6 \<and> \<not> bit imms i"
proof -
  have "n AND 1 = of_bool (bit n 0)"
    by (rule bit_word_eqI) (auto simp only: bit_and_iff bit_1_iff bit_of_bool_iff)
  then show ?thesis
    unfolding n_not_imms_def and_0x3F by (simp only: bit_simps) auto
qed

lemma announces_mask_len: "announces n imms len \<Longrightarrow> mask_len n imms = int len"
  unfolding mask_len_def announces_def
  by (rule highest_set_bit_eq) (auto simp: bit_n_not_imms)

lemma mask_len_announces:
  assumes "1 \<le> mask_len n imms"
  shows "announces n imms (nat (mask_len n imms))"
proof -
  have "n_not_imms n imms \<noteq> 0" using assms by (auto simp: mask_len_def highest_set_bit_def)
  then obtain k where k: "bit (n_not_imms n imms) k" "\<forall>j>k. \<not> bit (n_not_imms n imms) j"
    "mask_len n imms = int k"
    unfolding mask_len_def by (rule highest_set_bit_ex)
  from k(2) have "\<forall>j>k. j < 6 \<longrightarrow> bit imms j" "k < 6 \<longrightarrow> \<not> bit n 0"
    by (auto simp: bit_n_not_imms)
  with k(1,3) assms show ?thesis
    by (auto simp: announces_def bit_n_not_imms)
qed

lemma announces_unique: "announces n imms l \<Longrightarrow> announces n imms l' \<Longrightarrow> l = l'"
  using announces_mask_len [of n imms l] announces_mask_len [of n imms l'] by simp

lemma ucast_ones: "len \<le> 6 \<Longrightarrow> (ucast (ones len) :: u32) = mask len"
  by (rule bit_word_eqI) (auto simp: bit_simps)

lemma le_6_cases: "len \<le> 6 \<Longrightarrow> len \<in> {0, 1, 2, 3, 4, 5, 6 :: nat}"
  by auto

lemma unat_mask_u32: "len \<le> 6 \<Longrightarrow> unat (mask len :: u32) = 2 ^ len - 1"
  by (drule le_6_cases) (auto simp: mask_eq_exp_minus_1)

lemma take_bit_eq_mask_iff_unat:
  "len \<le> 6 \<Longrightarrow> take_bit len (imms :: u32) = mask len \<longleftrightarrow> unat (take_bit len imms) = 2 ^ len - 1"
  by (metis unat_mask_u32 unsigned_word_eqI)

lemma ucast_take_bit_u64: "(ucast (take_bit len (x :: u32)) :: u64) = of_nat (unat (take_bit len x))"
  by (rule word_unat_eq_iff [THEN iffD2]) (simp add: unsigned_ucast_eq unsigned_of_nat)

lemma unat_of_nat_u64: "k < 2 ^ 64 \<Longrightarrow> unat (of_nat k :: u64) = k"
  by (simp add: unsigned_of_nat take_bit_nat_eq_self)

lemma decode_bit_masks_eq:
  assumes "announces n imms len"
  shows "decode_bit_masks n imms immr imd m =
    (let S = unat (take_bit len imms); R = unat (take_bit len immr)
     in if imd \<and> S = 2 ^ len - 1 then None
        else Some \<lparr>wmask = replicate_bits (ror (ones (S + 1)) R (2 ^ len)) (2 ^ len) m,
                   tmask = replicate_bits (ones (unat (bits64 (of_nat S - of_nat R) 0 len) + 1)) (2 ^ len) m\<rparr>)"
proof -
  have len: "1 \<le> len" "len \<le> 6" using assms by (auto simp: announces_def)
  have ml: "highest_set_bit (ucast (push_bit 6 (n AND 1) OR (NOT (imms AND 0x3F) AND 0x3F))) = int len"
    using announces_mask_len [OF assms] by (simp only: mask_len_def n_not_imms_def)
  have lev: "take_bit 6 (x :: u32) AND mask len = take_bit len x" for x
    using len by (auto intro!: bit_word_eqI simp: bit_simps)
  have lt: "unat (take_bit len x :: u32) < 2 ^ len" for x
    using len by (intro unat_take_bit_less) simp
  have lt64: "unat (take_bit len x :: u32) < 2 ^ 64" for x
  proof -
    have "(2 :: nat) ^ len \<le> 2 ^ 6" using len by (intro power_increasing) auto
    with lt [of x] have "unat (take_bit len x) < 2 ^ 6" by (rule less_le_trans)
    then show ?thesis by (rule less_trans) simp
  qed
  have esize: "unat (take_bit len x :: u32) mod 2 ^ len = unat (take_bit len x)" for x
    using lt by simp
  have len1: "\<not> int len < 1" "nat (int len) = len" using len by auto
  show ?thesis
    unfolding decode_bit_masks_def Let_def ml and_0x3F ml [unfolded and_0x3F] nat_int ucast_ones [OF len(2)] lev
      ucast_take_bit_u64 unat_of_nat_u64 [OF lt64] take_bit_eq_mask_iff_unat [OF len(2)] esize
      if_not_P [OF len1(1)]
    by (rule refl)
qed

lemma bit_element:
  assumes "S < 2 ^ len" "R < 2 ^ len" "len \<le> 6"
  shows "bit (ror (ones (S + 1)) R (2 ^ len)) i \<longleftrightarrow> i < 2 ^ len \<and> in_run (2 ^ len) R S i"
proof -
  have e: "(2 :: nat) ^ len \<le> 64"
    using assms(3) power_increasing [of len 6 "2 :: nat"] by simp
  have "(i + R) mod 2 ^ len < 64" by (rule less_le_trans [OF mod_less_divisor e]) simp
  then show ?thesis
    unfolding bit_ror [OF assms(2) e] bit_ones in_run_def by (auto simp: less_Suc_eq_le)
qed

definition fits :: "nat \<Rightarrow> nat \<Rightarrow> bool" where
  "fits len m \<longleftrightarrow> (m = 32 \<and> 1 \<le> len \<and> len \<le> 5) \<or> (m = 64 \<and> 1 \<le> len \<and> len \<le> 6)"

lemma fits_dvd: "fits len m \<Longrightarrow> 2 ^ len dvd m \<and> len \<le> 6 \<and> 0 < m \<and> m \<le> 64"
proof -
  assume f: "fits len m"
  have "2 ^ len dvd (2 :: nat) ^ (if m = 32 then 5 else 6)"
    using f by (intro le_imp_power_dvd) (auto simp: fits_def)
  moreover have "(2 :: nat) ^ (if m = 32 then 5 else 6) = m" using f by (auto simp: fits_def)
  ultimately show ?thesis using f by (auto simp only: fits_def)
qed

lemma in_run_mod: "E dvd m \<Longrightarrow> in_run E R S (i mod m) \<longleftrightarrow> in_run E R S i"
  using mod_add_left_eq [of "i mod m" E R] mod_add_left_eq [of i E R]
  by (simp add: in_run_def mod_mod_cancel)

lemma bit_wmask:
  assumes "S < 2 ^ len" "R < 2 ^ len" "fits len m"
  shows "bit (replicate_bits (ror (ones (S + 1)) R (2 ^ len)) (2 ^ len) m) i \<longleftrightarrow> i < m \<and> in_run (2 ^ len) R S i"
proof -
  have f: "2 ^ len dvd m" "len \<le> 6" "0 < m" "m \<le> 64" using fits_dvd [OF assms(3)] by auto
  show ?thesis
    unfolding bit_replicate_bits [OF zero_less_power [OF zero_less_numeral] f(1,3,4)] bit_element [OF assms(1,2) f(2)]
    using in_run_mod [of "2 ^ len" "2 ^ len" R S i] by simp
qed

text \<open>The decoder's result: the run described by the announced element size and the two fields.\<close>

lemma decode_bit_masks_SomeE:
  assumes "decode_bit_masks n imms immr True m = Some b"
  obtains len where "announces n imms len" "unat (take_bit len imms) < 2 ^ len - 1"
    "wmask b = replicate_bits (ror (ones (unat (take_bit len imms) + 1)) (unat (take_bit len immr)) (2 ^ len)) (2 ^ len) m"
proof -
  have "1 \<le> mask_len n imms"
    using assms by (rule contrapos_pp)
      (simp add: decode_bit_masks_def mask_len_def n_not_imms_def Let_def)
  then have ann: "announces n imms (nat (mask_len n imms))" by (rule mask_len_announces)
  define len where "len = nat (mask_len n imms)"
  have "len \<le> 6" using ann by (simp add: announces_def len_def)
  then have lt: "unat (take_bit len imms) < 2 ^ len" by (intro unat_take_bit_less) simp
  with assms ann show ?thesis
    unfolding decode_bit_masks_eq [OF ann] Let_def len_def [symmetric]
    by (intro that) (auto split: if_splits simp del: unsigned_take_bit_eq)
qed

section \<open>A run determines its element size, rotation and length\<close>

lemma in_run_ends:
  assumes "R < E" "S + 1 < E"
  shows "in_run E R S (S + E - R)" "\<not> in_run E R S (S + E - R + 1)" "in_run E R S (E - R)" "\<not> in_run E R S (E - R + E - 1)"
proof -
  have "E - R + E - 1 + R = E - 1 + E" using assms by simp
  then have "(E - R + E - 1 + R) mod E = E - 1" using assms by (metis mod_add_self2 mod_less diff_less less_nat_zero_code not_gr_zero zero_less_one)
  then show "\<not> in_run E R S (E - R + E - 1)" using assms by (simp add: in_run_def)
  have "S + E - R + 1 + R = S + 1 + E" using assms by simp
  then have "(S + E - R + 1 + R) mod E = S + 1" using assms(2) by (simp only: mod_add_self2 mod_less)
  then show "\<not> in_run E R S (S + E - R + 1)" by (simp add: in_run_def)
qed (use assms in \<open>simp_all add: in_run_def\<close>)

lemma in_run_period: "in_run E R S (i + E) \<longleftrightarrow> in_run E R S i"
  by (simp add: in_run_def add.commute add.left_commute)

lemma in_run_no_smaller_period:
  assumes "R < E" "S + 1 < E" "0 < e" "e < E"
  shows "\<exists>i. in_run E R S (i + e) \<noteq> in_run E R S i"
proof (rule ccontr)
  assume "\<nexists>i. in_run E R S (i + e) \<noteq> in_run E R S i"
  then have per: "in_run E R S (i + e) \<longleftrightarrow> in_run E R S i" for i by blast
  have "in_run E R S (S + E - R + e)" "\<not> in_run E R S (S + E - R + 1 + e)"
    unfolding per using in_run_ends [OF assms(1,2)] by simp_all
  moreover have "S + E - R + e + R = S + e + E" "S + E - R + 1 + e + R = S + 1 + e + E"
    using assms by simp_all
  ultimately have "(S + e) mod E \<le> S" "S < (S + 1 + e) mod E"
    unfolding in_run_def by (simp_all only: mod_add_self2 not_le)
  with assms show False
    by (cases "S + e < E") (auto simp: le_mod_geq mod_if split: if_splits)
qed

lemma in_run_same_size:
  assumes "R < E" "S + 1 < E" "r < E" "s + 1 < E" "\<forall>i. in_run E R S i = in_run E r s i"
  shows "R = r \<and> S = s"
proof -
  define x where "x = (E - R + r) mod E"
  have "x < E" using assms by (simp add: x_def)
  have le: "x \<le> s"
    using in_run_ends(3) [OF assms(1,2)] assms(5) by (simp add: in_run_def x_def)
  have "s < (E - R + E - 1 + r) mod E"
    using in_run_ends(4) [OF assms(1,2)] assms(5) by (simp add: in_run_def)
  moreover have "E - R + E - 1 + r = E - R + r + (E - 1)" using assms by linarith
  ultimately have "s < (x + (E - 1)) mod E" by (simp only: x_def mod_add_left_eq)
  with le \<open>x < E\<close> assms have "x = 0"
    by (cases "x = 0") (auto simp: mod_if split: if_splits)
  then have eq: "R = r"
    using assms by (auto simp: x_def mod_if split: if_splits)
  have "j \<le> S \<longleftrightarrow> j \<le> s" if "j < E" for j
  proof -
    have "in_run E R S (j + E - R) \<longleftrightarrow> in_run E R s (j + E - R)" using assms(5) eq by simp
    with that assms(1) show ?thesis by (simp add: in_run_def)
  qed
  from this [of S] this [of s] assms eq show ?thesis by auto
qed

lemma in_run_unique:
  assumes "R < 2 ^ l" "S + 1 < 2 ^ l" "r < 2 ^ k" "s + 1 < 2 ^ k" "\<forall>i. in_run (2 ^ l) R S i = in_run (2 ^ k) r s i"
  shows "l = k \<and> R = r \<and> S = s"
proof -
  have "\<not> k < l"
    using in_run_no_smaller_period [OF assms(1,2), of "2 ^ k"] in_run_period [of "2 ^ k" r s] assms(5)
    by (auto simp: power_strict_increasing_iff)
  moreover have "\<not> l < k"
    using in_run_no_smaller_period [OF assms(3,4), of "2 ^ l"] in_run_period [of "2 ^ l" R S] assms(5)
    by (auto simp: power_strict_increasing_iff)
  ultimately show ?thesis using in_run_same_size [of R "2 ^ l" S r s] assms by auto
qed

end
