(* ===== verification/Encode_Masks.thy ===== *)
theory Encode_Masks
  imports Bit_Masks
begin

text \<open>
  \<open>encode_bit_masks\<close> inverts \<open>decode_bit_masks\<close>: from the expanded mask it recovers exactly the fields
  \<open>(N, immr, imms)\<close>, with the bits of \<open>immr\<close> that the element size makes irrelevant cleared.  Soundness comes from
  the guard at the end of \<open>try_esize\<close>, completeness from the trial at the true element size, and
  exactness from \<open>in_run_unique\<close>.
\<close>

section \<open>The helpers of the encoder\<close>

lemma mask_low_eq: "mask_low w = mask w"
proof (cases "64 \<le> w")
  case True
  then have "(mask w :: u64) = - 1" by (intro bit_word_eqI) (simp add: bit_simps)
  with True show ?thesis by (simp add: mask_low_def)
next
  case False
  then show ?thesis by (auto simp: mask_low_def mask_eq_exp_minus_1 push_bit_eq_mult)
qed

lemma ror_elem_eq: "ror_elem x s w = ror x s w"
  by (simp add: ror_elem_def ror_def Let_def mask_low_eq bits64_eq take_bit_eq_mask)

lemma bit_replicates:
  assumes "0 < e" "e dvd m" "0 < m" "m \<le> 64"
  shows "replicates (v AND mask_low e) e m v \<longleftrightarrow> v = replicate_bits v e m"
proof -
  let ?u = "v AND mask_low e"
  have b: "bit ?u i \<longleftrightarrow> i < e \<and> bit v i" for i by (auto simp: mask_low_eq bit_simps dest: bit_imp_le_length)
  have "bit (replicate_loop ?u e m 0 0) i \<longleftrightarrow> bit (replicate_bits v e m) i" for i
  proof -
    have le: "e \<le> m" using assms by (simp add: dvd_imp_le)
    have "replicate_bits v e m = bits64 (replicate_loop ?u e m 0 0) 0 m"
      using assms le by (simp add: replicate_bits_def bits64_eq mask_low_eq take_bit_eq_mask)
    then have "bit (replicate_bits v e m) i \<longleftrightarrow> i < m \<and> bit (replicate_loop ?u e m 0 0) i"
      by (simp add: bit_bits64)
    moreover have "i < m" if r: "bit (replicate_loop ?u e m 0 0) i"
    proof -
      from r obtain j where j: "j * e < m" "j * e \<le> i" "i - j * e < e"
        using bit_replicate_loop [OF assms(1), of ?u m 0 0 i] b by auto
      from assms(2) obtain c where c: "m = e * c" ..
      with j(1) have "j < c" by (simp add: mult.commute)
      then have "Suc j * e \<le> m" using c by (metis Suc_leI mult.commute mult_le_mono2)
      with j show ?thesis by simp
    qed
    ultimately show ?thesis by blast
  qed
  then show ?thesis unfolding replicates_def by (metis bit_word_eqI)
qed

lemma bij_rotate: "R < E \<Longrightarrow> bij_betw (\<lambda>i. (i + R) mod E) {..<E} {..<(E :: nat)}"
proof (rule bij_betw_byWitness [where f' = "\<lambda>i. (i + (E - R)) mod E"])
  assume "R < E"
  then have "(i + R + (E - R)) mod E = i" "(i + (E - R) + R) mod E = i" if "i < E" for i
    using that by simp_all
  then show "\<forall>a\<in>{..<E}. ((a + R) mod E + (E - R)) mod E = a"
    "\<forall>a\<in>{..<E}. ((a + (E - R)) mod E + R) mod E = a"
    by (simp_all add: mod_add_left_eq)
qed auto

lemma count_ones_card: "count_ones v = card {i. bit v i}"
proof -
  have "{i. bit v i} = set (filter (bit v) [0..<64])"
    using bit_imp_le_length [of v] by auto
  then show ?thesis using distinct_card [of "filter (bit v) [0..<64]"] by (simp only: count_ones_def) simp
qed

lemma count_ones_element:
  assumes "S < 2 ^ len" "R < 2 ^ len" "len \<le> 6"
  shows "count_ones (ror (ones (S + 1)) R (2 ^ len)) = S + 1"
proof -
  let ?f = "\<lambda>i. (i + R) mod 2 ^ len"
  have "{i. bit (ror (ones (S + 1)) R (2 ^ len)) i} = {i \<in> {..<2 ^ len}. ?f i \<in> {..S}}"
    unfolding bit_element [OF assms] in_run_def by auto
  moreover have "bij_betw ?f {i \<in> {..<2 ^ len}. ?f i \<in> {..S}} {..S}"
  proof -
    have b: "bij_betw ?f {..<2 ^ len} {..<2 ^ len}" using bij_rotate [OF assms(2)] .
    have "?f ` {i \<in> {..<2 ^ len}. ?f i \<in> {..S}} = ?f ` {..<2 ^ len} \<inter> {..S}" by auto
    also have "\<dots> = {..S}" using b assms(1) by (auto simp: bij_betw_def)
    finally show ?thesis by (intro bij_betw_subset [OF b]) auto
  qed
  ultimately show ?thesis
    by (simp add: count_ones_card bij_betw_same_card)
qed

lemma count_ones_le: "count_ones (v AND mask_low w) \<le> w"
proof -
  have "{i. bit (v AND mask_low w) i} \<subseteq> {..<w}" by (auto simp: mask_low_eq bit_simps)
  from card_mono [OF _ this] show ?thesis by (simp add: count_ones_card)
qed

section \<open>Packing \<open>N\<close> and \<open>imms\<close>\<close>

lemma bit_pack_imms:
  "len < 6 \<Longrightarrow> bit (snd (pack_n_imms len s)) k \<longleftrightarrow> k < 6 \<and> (len < k \<or> k < len \<and> bit s k)"
proof -
  assume "len < 6"
  have m: "(0x3F :: u32) = mask 6" by (simp add: mask_eq_exp_minus_1)
  show ?thesis
    using \<open>len < 6\<close> unfolding pack_n_imms_def m Let_def if_not_P [OF less_imp_neq [OF \<open>len < 6\<close>]] snd_conv mask_low_eq
    by (simp only: bit_simps) (auto simp: bit_mask_iff)
qed

lemma pack_n_imms_6: "pack_n_imms 6 s = (1, take_bit 6 s)"
  by (simp add: pack_n_imms_def and_0x3F)

lemma fst_pack_n_imms: "fst (pack_n_imms len s) = of_bool (len = 6)"
  by (simp add: pack_n_imms_def Let_def)

lemma announces_pack:
  assumes "1 \<le> len" "len \<le> 6"
  shows "announces (fst (pack_n_imms len s)) (snd (pack_n_imms len s)) len"
proof (cases "len = 6")
  case True
  then show ?thesis by (simp add: announces_def pack_n_imms_6)
next
  case False
  then show ?thesis using assms by (auto simp: announces_def fst_pack_n_imms bit_pack_imms)
qed

lemma take_bit_pack:
  assumes "1 \<le> len" "len \<le> 6"
  shows "take_bit len (snd (pack_n_imms len s)) = take_bit len s"
proof (cases "len = 6")
  case True
  then show ?thesis by (simp add: pack_n_imms_6)
next
  case False
  then show ?thesis using assms by (auto intro!: bit_word_eqI simp: bit_simps bit_pack_imms)
qed

lemma take_bit_6_pack: "len \<le> 6 \<Longrightarrow> take_bit 6 (snd (pack_n_imms len s)) = snd (pack_n_imms len s)"
  by (cases "len = 6") (auto intro!: bit_word_eqI simp: bit_simps bit_pack_imms pack_n_imms_6)

lemma trailing_zeros_pow2: "k \<le> 6 \<Longrightarrow> trailing_zeros (2 ^ k) = k"
proof -
  assume k: "k \<le> 6"
  have "takeWhile (\<lambda>i. \<not> bit ((2 :: nat) ^ k) i) [0..<32] = [0..<k]"
  proof -
    have "[0..<32] = [0..<k] @ k # [Suc k..<32]"
      using k upt_add_eq_append [of 0 k "32 - k"] upt_conv_Cons [of k 32] by simp
    moreover have "takeWhile (\<lambda>i. \<not> bit ((2 :: nat) ^ k) i) ([0..<k] @ k # [Suc k..<32]) = [0..<k]"
      by (subst takeWhile_append2) (auto simp: bit_exp_iff)
    ultimately show ?thesis by simp
  qed
  then show ?thesis by (simp add: trailing_zeros_def)
qed

section \<open>The search finds the fields\<close>

text \<open>Every answer of a trial passed the final guard: its fields decode to the value searched for.\<close>

lemma try_esize_sound:
  assumes "try_esize v m (2 ^ k) = Some (n', immr', imms')" "1 \<le> k" "k \<le> 6"
  obtains r S b where "r < 2 ^ k" "immr' = of_nat r" "n' = fst (pack_n_imms k (of_nat S))"
    "imms' = snd (pack_n_imms k (of_nat S))" "decode_bit_masks n' imms' immr' True m = Some b"
    "(if m = 32 then wmask b AND 0xFFFFFFFF else wmask b) = v"
proof -
  from assms(1) obtain r S where el: "encode_element (v AND mask_low (2 ^ k)) (2 ^ k) = Some (r, S)"
    by (auto simp: try_esize_def Let_def split: if_splits option.splits)
  then have "r < 2 ^ k"
    by (auto simp: encode_element_def Let_def find_Some_iff split: if_splits)
  moreover from assms(1) el obtain b where
    "decode_bit_masks n' imms' immr' True m = Some b" "immr' = of_nat r"
    "(n', imms') = pack_n_imms k (of_nat S)"
    "(if m = 32 then wmask b AND 0xFFFFFFFF else wmask b) = v"
    unfolding try_esize_def Let_def trailing_zeros_pow2 [OF assms(3)]
    by (auto split: if_splits option.splits prod.splits)
  ultimately show ?thesis using that by (metis fst_conv snd_conv)
qed

lemma encode_element_complete:
  assumes "S + 1 < 2 ^ len" "R < 2 ^ len" "len \<le> 6"
    and "elem = ror (ones (S + 1)) R (2 ^ len)"
  obtains r where "r < 2 ^ len" "ror (ones (S + 1)) r (2 ^ len) = elem"
    "encode_element elem (2 ^ len) = Some (r, S)"
proof -
  let ?E = "2 ^ len :: nat"
  have b: "bit elem i \<longleftrightarrow> i < ?E \<and> in_run ?E R S i" for i
    using assms bit_element [of S len R i] by simp
  have el: "elem AND mask_low ?E = elem"
    by (rule bit_word_eqI) (auto simp: bit_simps mask_low_eq b)
  have "elem \<noteq> 0" 
  proof -
    have "in_run ?E R S ((?E - R) mod ?E)" using assms(2) by (simp add: in_run_def mod_add_left_eq)
    then have "bit elem ((?E - R) mod ?E)" by (simp add: b)
    then show ?thesis by auto
  qed
  moreover have "elem \<noteq> mask_low ?E"
  proof
    assume full: "elem = mask_low ?E"
    have le: "(2 :: nat) ^ len \<le> 64" using assms(3) power_increasing [of len 6 "2 :: nat"] by simp
    have "in_run ?E R S i" if "i < ?E" for i
      using that full b [of i] le by (simp add: mask_low_eq bit_simps)
    moreover have "\<not> in_run ?E R S ((S + ?E - R + 1) mod ?E)"
      unfolding in_run_mod [OF dvd_refl] by (rule in_run_ends [OF assms(2,1)])
    ultimately show False by simp
  qed
  ultimately have guard: "\<not> (elem = 0 \<or> elem = mask_low ?E)" by simp
  have cnt: "count_ones elem = S + 1" using assms count_ones_element [of S len R] by simp
  have "find (\<lambda>r. ror_elem (mask_low (S + 1)) r ?E = elem) [0..<?E] \<noteq> None"
    unfolding find_None_iff using assms by (auto simp: ror_elem_eq mask_low_eq ones_eq_mask)
  then obtain r where r: "find (\<lambda>r. ror_elem (mask_low (S + 1)) r ?E = elem) [0..<?E] = Some r" by auto
  then have "r < ?E" "ror (ones (S + 1)) r ?E = elem"
    by (auto simp: find_Some_iff ror_elem_eq mask_low_eq ones_eq_mask)
  moreover have "encode_element elem ?E = Some (r, S)"
    unfolding encode_element_def Let_def el if_not_P [OF guard] cnt r by simp
  ultimately show ?thesis by (rule that)
qed

lemma try_esize_complete:
  assumes "S + 1 < 2 ^ len" "R < 2 ^ len" "fits len m"
    and v: "v = replicate_bits (ror (ones (S + 1)) R (2 ^ len)) (2 ^ len) m"
  shows "try_esize v m (2 ^ len) \<noteq> None"
proof -
  let ?E = "2 ^ len :: nat" and ?el = "ror (ones (S + 1)) R (2 ^ len)"
  have f: "?E dvd m" "len \<le> 6" "0 < m" "m \<le> 64" "1 \<le> len"
    using fits_dvd [OF assms(3)] assms(3) by (auto simp: fits_def)
  have le: "?E \<le> m" using f by (simp add: dvd_imp_le)
  have bv: "bit v i \<longleftrightarrow> i < m \<and> in_run ?E R S i" for i
    unfolding v using assms by (intro bit_wmask) auto
  have el: "v AND mask_low ?E = ?el"
  proof (rule bit_word_eqI)
    fix i
    have "bit (v AND mask_low ?E) i \<longleftrightarrow> i < ?E \<and> bit v i"
      using bit_imp_le_length [of v i] by (simp only: bit_and_iff mask_low_eq bit_mask_iff) auto
    also have "\<dots> \<longleftrightarrow> bit ?el i"
      using le bit_element [of S len R i] assms(1,2) f(2) by (auto simp only: bv)
    finally show "bit (v AND mask_low ?E) i = bit ?el i" .
  qed
  have "replicate_bits v ?E m = v"
  proof (rule bit_word_eqI)
    fix i
    have "i mod ?E < m" by (rule less_le_trans [OF mod_less_divisor le]) simp
    then show "bit (replicate_bits v ?E m) i = bit v i"
      unfolding bit_replicate_bits [OF zero_less_power [OF zero_less_numeral] f(1,3,4)] bv in_run_mod [OF dvd_refl]
      by simp
  qed
  then have rep: "replicates ?el ?E m v"
    using bit_replicates [OF _ f(1,3,4), of v] el by simp
  obtain r where r: "r < ?E" "ror (ones (S + 1)) r ?E = ?el" "encode_element ?el ?E = Some (r, S)"
    using encode_element_complete [OF assms(1,2) f(2) refl] .
  have s: "unat (take_bit len (of_nat S :: u32)) = S" "unat (take_bit len (of_nat r :: u32)) = r"
    using assms(1) r(1) f(2)
    by (simp_all add: unsigned_take_bit_eq unsigned_of_nat take_bit_nat_eq_self min_def)
  have dec: "decode_bit_masks (fst (pack_n_imms len (of_nat S))) (snd (pack_n_imms len (of_nat S))) (of_nat r) True m
      = Some \<lparr>wmask = v, tmask = replicate_bits (ones (unat (bits64 (of_nat S - of_nat r) 0 len) + 1)) ?E m\<rparr>"
    unfolding decode_bit_masks_eq [OF announces_pack [OF f(5,2)]] take_bit_pack [OF f(5,2)] Let_def s v
    using r(2) assms(1) by simp
  have "(if m = 32 then v AND 0xFFFFFFFF else v) = v"
  proof -
    have m32: "(0xFFFFFFFF :: u64) = mask 32" by (simp add: mask_eq_exp_minus_1)
    show ?thesis unfolding m32 by (auto intro!: bit_word_eqI simp: bit_simps bv)
  qed
  then show ?thesis
    using rep r(3) dec f by (simp add: try_esize_def Let_def el trailing_zeros_pow2 split_beta split: if_splits)
qed

lemma encode_loop_finds:
  assumes "j \<le> k" "2 ^ k \<le> m" "try_esize v m (2 ^ k) \<noteq> None"
  shows "\<exists>i t. j \<le> i \<and> i \<le> k \<and> try_esize v m (2 ^ i) = Some t \<and> encode_bit_masks_loop v m (2 ^ j) = Some t"
  using assms(1)
proof (induction rule: inc_induct)
  case base
  then show ?case using assms by (subst encode_bit_masks_loop.simps) auto
next
  case (step j)
  then have le: "(2 :: nat) ^ j \<le> m"
    using assms(2) power_increasing [of j k "2 :: nat"] by linarith
  show ?case
  proof (cases "try_esize v m (2 ^ j)")
    case None
    then have "encode_bit_masks_loop v m (2 ^ j) = encode_bit_masks_loop v m (2 ^ Suc j)"
      using le by (subst encode_bit_masks_loop.simps) simp
    with step.IH show ?thesis by (metis Suc_leD)
  next
    case (Some t)
    then have "encode_bit_masks_loop v m (2 ^ j) = Some t"
      using le by (subst encode_bit_masks_loop.simps) simp
    with Some step.hyps show ?thesis by (metis dual_order.refl less_imp_le)
  qed
qed

lemma take_bit_eq_of_nat:
  "r < 2 ^ k \<Longrightarrow> k < 32 \<Longrightarrow> unat (take_bit k (of_nat r :: u32)) = r"
  by (simp add: unsigned_take_bit_eq unsigned_of_nat take_bit_nat_eq_self min_def)

lemma fields_determined:
  assumes "announces n imms len" "announces n' imms' len" "take_bit len imms' = take_bit len imms"
    and "n' = take_bit 1 n'" "imms' = take_bit 6 imms'"
  shows "n' = take_bit 1 n \<and> imms' = take_bit 6 imms"
proof -
  have "bit n' 0 = bit n 0" using assms(1,2) by (simp add: announces_def)
  moreover have "bit imms' i = bit imms i" if "i < 6" for i
  proof (cases "i < len")
    case True
    from assms(3) have "bit (take_bit len imms') i = bit (take_bit len imms) i" by simp
    with True show ?thesis by (simp add: bit_take_bit_iff)
  next
    case False
    with that assms(1,2) show ?thesis by (auto simp: announces_def nat_neq_iff not_less le_less)
  qed
  ultimately have "take_bit 1 n' = take_bit 1 n" "take_bit 6 imms' = take_bit 6 imms"
    by (auto intro!: bit_word_eqI simp only: bit_take_bit_iff less_one)
  with assms(4,5) show ?thesis by simp
qed

definition mask_fits :: "u32 \<Rightarrow> nat \<Rightarrow> bool" where
  "mask_fits n m \<longleftrightarrow> m = 64 \<or> m = 32 \<and> \<not> bit n 0"

lemma announces_fits: "announces n imms len \<Longrightarrow> mask_fits n m \<Longrightarrow> fits len m"
  by (auto simp: announces_def mask_fits_def fits_def)

lemma trunc_wmask: 
  assumes "\<forall>i. bit v i \<longrightarrow> i < m" "m = 32 \<or> m = 64"
  shows "(if m = 32 then v AND 0xFFFFFFFF else v) = (v :: u64)"
proof -
  have m32: "(0xFFFFFFFF :: u64) = mask 32" by (simp add: mask_eq_exp_minus_1)
  show ?thesis unfolding m32 using assms by (auto intro!: bit_word_eqI simp: bit_simps)
qed

theorem encode_decode_bit_masks:
  assumes dec: "decode_bit_masks n imms immr True m = Some b" and m: "mask_fits n m"
  shows "encode_bit_masks (wmask b) m =
           Some (take_bit 1 n, take_bit (nat (mask_len n imms)) immr, take_bit 6 imms)"
proof -
  obtain len where ann: "announces n imms len"
    and S: "unat (take_bit len imms) < 2 ^ len - 1"
    and w: "wmask b = replicate_bits (ror (ones (unat (take_bit len imms) + 1)) (unat (take_bit len immr)) (2 ^ len)) (2 ^ len) m"
    using dec by (rule decode_bit_masks_SomeE)
  define S' R' where "S' = unat (take_bit len imms)" and "R' = unat (take_bit len immr)"
  note ft = announces_fits [OF ann m]
  have len: "1 \<le> len" "len \<le> 6" using ann by (auto simp: announces_def)
  have lt: "S' + 1 < 2 ^ len" "R' < 2 ^ len"
    using S unat_take_bit_less [of len immr] len by (auto simp: S'_def R'_def simp del: unsigned_take_bit_eq)
  have w': "wmask b = replicate_bits (ror (ones (S' + 1)) R' (2 ^ len)) (2 ^ len) m"
    using w by (simp only: S'_def R'_def)
  have bw: "bit (wmask b) i \<longleftrightarrow> i < m \<and> in_run (2 ^ len) R' S' i" for i
    unfolding w' using lt ft by (intro bit_wmask) auto
  have m64: "m = 32 \<or> m = 64" using m by (auto simp: mask_fits_def)
  obtain i t where i: "1 \<le> i" "i \<le> len" "try_esize (wmask b) m (2 ^ i) = Some t"
    "encode_bit_masks_loop (wmask b) m 2 = Some t"
    using encode_loop_finds [OF len(1) dvd_imp_le try_esize_complete [OF lt ft w']] fits_dvd [OF ft]
    by auto
  obtain n' immr' imms' where t: "t = (n', immr', imms')" by (cases t) auto
  have i6: "i \<le> 6" using i len by simp
  obtain r s b' where snd: "r < 2 ^ i" "immr' = of_nat r" "n' = fst (pack_n_imms i (of_nat s))"
    "imms' = snd (pack_n_imms i (of_nat s))" "decode_bit_masks n' imms' immr' True m = Some b'"
    "(if m = 32 then wmask b' AND 0xFFFFFFFF else wmask b') = wmask b"
    using try_esize_sound [OF i(3) [unfolded t] i(1) i6] .
  have ann': "announces n' imms' i" using snd(3,4) announces_pack [OF i(1) i6] by simp
  have fi: "fits i m" using ft i by (auto simp: fits_def)
  obtain k where "announces n' imms' k"
    and S2: "unat (take_bit k imms') < 2 ^ k - 1"
    and w2: "wmask b' = replicate_bits (ror (ones (unat (take_bit k imms') + 1)) (unat (take_bit k immr')) (2 ^ k)) (2 ^ k) m"
    using snd(5) by (rule decode_bit_masks_SomeE)
  then have k: "k = i" using announces_unique ann' by blast
  define s' where "s' = unat (take_bit i imms')"
  have r: "unat (take_bit i immr') = r" using snd(1,2) i6 by (simp only:) (rule take_bit_eq_of_nat, auto)
  have bw2: "bit (wmask b') j \<longleftrightarrow> j < m \<and> in_run (2 ^ i) r s' j" for j
    unfolding w2 k r s'_def [symmetric] using S2 snd(1) fi k
    by (intro bit_wmask) (auto simp: s'_def)
  have "wmask b' = wmask b"
    using snd(6) trunc_wmask [of "wmask b'" m] bw2 m64 by auto
  then have "in_run (2 ^ len) R' S' j = in_run (2 ^ i) r s' j" for j
  proof -
    have "in_run (2 ^ len) R' S' (j mod m) = in_run (2 ^ i) r s' (j mod m)"
      using bw [of "j mod m"] bw2 [of "j mod m"] \<open>wmask b' = wmask b\<close> m64 by auto
    then show ?thesis using in_run_mod fits_dvd [OF ft] fits_dvd [OF fi] by blast
  qed
  moreover have "s' + 1 < 2 ^ i" using S2 k by (simp add: s'_def)
  ultimately have u: "len = i" "R' = r" "S' = s'"
    using in_run_unique [of R' len S' r i s'] lt snd(1) by blast+
  have "n' = take_bit 1 n'" "imms' = take_bit 6 imms'"
    using snd(3,4) take_bit_6_pack [OF i6] by (auto simp: fst_pack_n_imms)
  moreover have "take_bit len imms' = take_bit len imms"
    by (rule word_unat_eq_iff [THEN iffD2]) (use u in \<open>simp only: S'_def s'_def\<close>)
  ultimately have "n' = take_bit 1 n" "imms' = take_bit 6 imms"
    using fields_determined [OF ann] ann' u(1) by blast+
  moreover have "immr' = take_bit len immr"
  proof -
    have "r = unat (take_bit len immr)" using u(2) by (simp only: R'_def)
    then show ?thesis unfolding snd(2) by (simp only: of_nat_unat ucast_id)
  qed
  moreover have "nat (mask_len n imms) = len" using announces_mask_len [OF ann] by simp
  moreover have "wmask b \<noteq> 0 \<and> wmask b \<noteq> (if m = 64 then - 1 else 0xFFFFFFFF)"
  proof -
    have d: "2 ^ len dvd m" "0 < m" using fits_dvd [OF ft] by auto
    have t: "in_run (2 ^ len) R' S' ((2 ^ len - R') mod m)" "\<not> in_run (2 ^ len) R' S' ((S' + 2 ^ len - R' + 1) mod m)"
      unfolding in_run_mod [OF d(1)] using in_run_ends [OF lt(2,1)] by blast+
    then have "bit (wmask b) ((2 ^ len - R') mod m)" "\<not> bit (wmask b) ((S' + 2 ^ len - R' + 1) mod m)"
      "(S' + 2 ^ len - R' + 1) mod m < m"
      unfolding bw using d(2) by simp_all
    moreover have "(if m = 64 then - 1 else 0xFFFFFFFF) = (mask m :: u64)"
      using m64 by (auto simp: mask_eq_exp_minus_1)
    moreover have "bit (mask m :: u64) j" if "j < m" for j
      using that m64 by (auto simp: bit_mask_iff simp del: mask_numeral)
    moreover have "\<not> bit (0 :: u64) j" for j by simp
    ultimately show ?thesis by metis
  qed
  moreover have tr: "(if m = 32 then wmask b AND 0xFFFFFFFF else wmask b) = wmask b"
    by (rule trunc_wmask) (use bw m64 in blast)+
  moreover have dm: "(if m = 32 then 32 else 64) = m" using m64 by auto
  ultimately show ?thesis
    unfolding encode_bit_masks_def Let_def dm tr i(4) t by simp
qed

end
