(* ===== verification/Immediates.thy ===== *)
theory Immediates
  imports Encode_Masks
begin

text \<open>
  The contracts of the immediate codecs, stated over \<open>decode/bits.rs\<close> and \<open>encode/bits.rs\<close>: which bits a decoded
  logical immediate has, that the encoder's search inverts the decoder and is sound on arbitrary values, and the
  corresponding facts of the AdvSIMD byte-mask and the floating-point immediates.
\<close>

section \<open>Logical immediates\<close>

lemma announces_take_bit: "announces n imms len \<Longrightarrow> len = nat (mask_len n imms)"
  by (drule announces_mask_len) simp

lemma encode_loop_sound:
  assumes "encode_bit_masks_loop v m (2 ^ j) = Some (n, r, s)" "1 \<le> j" "m \<le> 64"
  shows "\<exists>b. decode_bit_masks n s r True m = Some b \<and> (if m = 32 then wmask b AND 0xFFFFFFFF else wmask b) = v"
  using assms
proof (induction v m "2 ^ j :: nat" arbitrary: j rule: encode_bit_masks_loop.induct)
  case (1 v m)
  from 1(2) have le: "2 ^ j \<le> m" by (subst (asm) encode_bit_masks_loop.simps) (auto split: if_splits)
  with \<open>m \<le> 64\<close> have "(2 :: nat) ^ j \<le> 2 ^ 6" by simp
  then have j6: "j \<le> 6" by (rule power_le_imp_le_exp [rotated]) simp
  show ?case
  proof (cases "try_esize v m (2 ^ j)")
    case None
    then have "encode_bit_masks_loop v m (2 ^ Suc j) = Some (n, r, s)"
      using 1(2) le by (subst (asm) encode_bit_masks_loop.simps) simp
    with 1(1) [of "Suc j"] le None 1(3,4) show ?thesis by simp
  next
    case (Some t)
    then have "try_esize v m (2 ^ j) = Some (n, r, s)"
      using 1(2) le by (subst (asm) encode_bit_masks_loop.simps) simp
    then show ?thesis using 1(3) j6 by (rule try_esize_sound) blast
  qed
qed

lemma encode_bit_masks_SomeD:
  assumes "encode_bit_masks v m = Some (n, r, s)" "m = 32 \<or> m = 64"
  shows "\<exists>b. decode_bit_masks n s r True m = Some b \<and>
    (if m = 32 then wmask b AND 0xFFFFFFFF else wmask b) = (if m = 32 then v AND 0xFFFFFFFF else v)"
proof -
  have "encode_bit_masks_loop (if m = 32 then v AND 0xFFFFFFFF else v) m (2 ^ 1) = Some (n, r, s)"
    using assms by (auto simp: encode_bit_masks_def Let_def split: if_splits)
  then show ?thesis by (rule encode_loop_sound) (use assms(2) in auto)
qed

lemma decoded_mask_bits:
  assumes "decode_bit_masks n imms immr True m = Some b" "mask_fits n m"
  shows "bit (wmask b) i \<longleftrightarrow>
    i < m \<and> (let len = nat (mask_len n imms)
              in (i + unat (take_bit len immr)) mod 2 ^ len \<le> unat (take_bit len imms))"
proof -
  obtain len where len: "announces n imms len" "unat (take_bit len imms) < 2 ^ len - 1"
    and w: "wmask b = replicate_bits (ror (ones (unat (take_bit len imms) + 1)) (unat (take_bit len immr)) (2 ^ len)) (2 ^ len) m"
    using assms(1) by (rule decode_bit_masks_SomeE)
  have "unat (take_bit len immr) < 2 ^ len"
    using len(1) by (intro unat_take_bit_less) (simp add: announces_def)
  with len(2) show ?thesis
    unfolding w Let_def announces_take_bit [OF len(1), symmetric]
    by (subst bit_wmask [OF _ _ announces_fits [OF len(1) assms(2)]]) (auto simp only: in_run_def)
qed

text \<open>Evaluation of the decoder on a concrete immediate: a run of 61 ones rotated by one.\<close>

lemma decode_bit_masks_example:
  "decode_bit_masks 1 0x3C 1 True 64 = Some \<lparr>wmask = 0x8FFFFFFFFFFFFFFF, tmask = 0xFFFFFFFFFFFFFFF\<rparr>"
  by (simp add: decode_bit_masks_def highest_set_bit_def leading_zeros_def upt_rec ones_def ror_def bits64_def replicate_bits_def replicate_loop.simps)

text \<open>C24: the work mask of a logical immediate, bit by bit: the fields \<open>(N, imms)\<close> fix an element of \<open>E\<close> bits, and
  bit \<open>i\<close> is set iff it lies in the run of \<open>S + 1\<close> ones rotated right by \<open>R\<close>, repeated over the data size.\<close>

theorem decode_bit_masks_bits:
  assumes "decode_bit_masks n imms immr True m = Some b" "mask_fits n m"
  shows "bit (wmask b) i \<longleftrightarrow>
    i < m \<and> (let len = nat (mask_len n imms)
              in (i + unat (take_bit len immr)) mod 2 ^ len \<le> unat (take_bit len imms))"
  using assms by (rule decoded_mask_bits)

theorem decode_bit_masks_bits_witness:
  "bit (0x8FFFFFFFFFFFFFFF :: u64) 63 \<and> \<not> bit (0x8FFFFFFFFFFFFFFF :: u64) 62"
proof -
  have ml: "mask_len 1 0x3C = 6"
    by (simp add: mask_len_def n_not_imms_def highest_set_bit_def leading_zeros_def upt_rec)
  have "mask_fits 1 64" by (simp add: mask_fits_def)
  note * = decode_bit_masks_bits [OF decode_bit_masks_example this, unfolded ml bit_masks.select_convs]
  have "bit (0x8FFFFFFFFFFFFFFF :: u64) 63" by (subst *) (simp add: take_bit_eq_mod)
  moreover have "\<not> bit (0x8FFFFFFFFFFFFFFF :: u64) 62" by (subst *) (simp add: take_bit_eq_mod)
  ultimately show ?thesis by simp
qed

lemma encode_decode_masks:
  assumes "decode_bit_masks n imms immr True m = Some b" "mask_fits n m"
  shows "encode_bit_masks (wmask b) m = Some (take_bit 1 n, take_bit (nat (mask_len n imms)) immr, take_bit 6 imms) \<and>
    map_option wmask (decode_bit_masks (take_bit 1 n) (take_bit 6 imms) (take_bit (nat (mask_len n imms)) immr) True m)
      = Some (wmask b)"
proof -
  have e: "encode_bit_masks (wmask b) m = Some (take_bit 1 n, take_bit (nat (mask_len n imms)) immr, take_bit 6 imms)"
    using assms by (rule encode_decode_bit_masks)
  have m: "m = 32 \<or> m = 64" using assms(2) by (auto simp: mask_fits_def)
  obtain b' where b': "decode_bit_masks (take_bit 1 n) (take_bit 6 imms) (take_bit (nat (mask_len n imms)) immr) True m = Some b'"
    "(if m = 32 then wmask b' AND 0xFFFFFFFF else wmask b') = (if m = 32 then wmask b AND 0xFFFFFFFF else wmask b)"
    using encode_bit_masks_SomeD [OF e m] by blast
  have "mask_fits (take_bit 1 n) m" using assms(2) by (simp only: mask_fits_def bit_take_bit_iff) blast
  then have "(if m = 32 then wmask b' AND 0xFFFFFFFF else wmask b') = wmask b'"
    "(if m = 32 then wmask b AND 0xFFFFFFFF else wmask b) = wmask b"
    using b'(1) assms m decoded_mask_bits by (intro trunc_wmask; blast)+
  with b' e show ?thesis by simp
qed

text \<open>C25: encoding a decoded logical immediate yields fields in canonical form (only the \<open>immr\<close> bits below the element
  size are kept), and these decode to the same work mask.\<close>

theorem encode_bit_masks_inverts:
  assumes "decode_bit_masks n imms immr True m = Some b" "mask_fits n m"
  shows "encode_bit_masks (wmask b) m = Some (take_bit 1 n, take_bit (nat (mask_len n imms)) immr, take_bit 6 imms) \<and>
    map_option wmask (decode_bit_masks (take_bit 1 n) (take_bit 6 imms) (take_bit (nat (mask_len n imms)) immr) True m)
      = Some (wmask b)"
  using assms by (rule encode_decode_masks)

theorem encode_bit_masks_inverts_witness:
  "\<exists>n r s. encode_bit_masks 0x8FFFFFFFFFFFFFFF 64 = Some (n, r, s)"
proof -
  have "mask_fits 1 64" by (simp add: mask_fits_def)
  from encode_bit_masks_inverts [OF decode_bit_masks_example this]
  have "encode_bit_masks 0x8FFFFFFFFFFFFFFF 64 = Some (take_bit 1 1, take_bit (nat (mask_len 1 0x3C)) 1, take_bit 6 0x3C)"
    by (simp only: bit_masks.select_convs)
  then show ?thesis by blast
qed

section \<open>AdvSIMD byte masks\<close>

lemma bit_movi_bytes: "k \<le> 8 \<Longrightarrow> bit (movi_bytes x k) i \<longleftrightarrow> i < 8 * k \<and> bit x (i div 8)"
proof (induction k arbitrary: i)
  case (Suc k)
  have ff: "(0xFF :: u64) = mask 8" by (simp add: mask_eq_exp_minus_1)
  have t: "drop_bit k x AND 1 \<noteq> 0 \<longleftrightarrow> bit x k"
    by (simp add: and_one_eq odd_iff_mod_2_eq_one bit_iff_odd_drop_bit)
  have "bit (movi_bytes x (Suc k)) i \<longleftrightarrow> bit (movi_bytes x k) i \<or> bit x k \<and> k * 8 \<le> i \<and> i - k * 8 < 8"
    using Suc.prems
    by (simp add: Let_def t bit_or_iff) (auto simp: ff bit_push_bit_iff bit_mask_iff simp del: mask_numeral)
  also have "\<dots> \<longleftrightarrow> i < 8 * k \<and> bit x (i div 8) \<or> bit x k \<and> i div 8 = k"
  proof -
    have "k * 8 \<le> i \<and> i - k * 8 < 8 \<longleftrightarrow> i div 8 = k"
      using div_mult_mod_eq [of i 8] mod_less_divisor [of 8 i] by (auto simp: div_nat_eqI)
    then show ?thesis using Suc.IH Suc.prems by simp
  qed
  also have "\<dots> \<longleftrightarrow> i < 8 * Suc k \<and> bit x (i div 8)"
  proof -
    have "i < 8 * Suc k \<longleftrightarrow> i < 8 * k \<or> i div 8 = k"
      using div_mult_mod_eq [of i 8] mod_less_divisor [of 8 i] by (auto simp: div_nat_eqI)
    then show ?thesis by blast
  qed
  finally show ?case .
qed simp

lemma movi64_loop_movi_bytes:
  "k \<le> 8 \<Longrightarrow> movi64_loop (movi_bytes x 8) k = Some (take_bit k (ucast x))"
proof (induction k)
  case (Suc k)
  have ff: "(0xFF :: u64) = mask 8" by (simp add: mask_eq_exp_minus_1)
  have b: "drop_bit (k * 8) (movi_bytes x 8) AND 0xFF = (if bit x k then 0xFF else 0)"
    unfolding ff using Suc.prems
    by (auto intro!: bit_word_eqI simp: bit_and_iff bit_drop_bit_eq bit_mask_iff bit_movi_bytes)
  have "take_bit k (ucast x :: u32) OR push_bit k 1 = take_bit (Suc k) (ucast x)" if "bit x k"
    using that Suc.prems by (intro bit_word_eqI) (auto simp: bit_simps less_Suc_eq)
  moreover have "take_bit k (ucast x :: u32) = take_bit (Suc k) (ucast x)" if "\<not> bit x k"
    using that Suc.prems by (intro bit_word_eqI) (auto simp: bit_simps less_Suc_eq)
  ultimately show ?case using Suc by (simp only: movi64_loop.simps b Let_def option.case) auto
qed simp

lemma adv_simd_expand_movi: "adv_simd_expand_imm 1 0xE imm8 = movi_bytes (ucast (take_bit 8 imm8)) 8"
proof -
  have ff: "imm8 AND 0xFF = take_bit 8 imm8" by (simp add: take_bit_eq_mask mask_eq_exp_minus_1)
  show ?thesis by (simp add: adv_simd_expand_imm_def ff)
qed

text \<open>C26: every AdvSIMD byte mask (\<open>MOVI\<close> with \<open>cmode = 1110, op = 1\<close>) encodes back to its \<open>imm8\<close>.\<close>

theorem encode_movi64_inverts:
  "encode_advsimd_movi64 (adv_simd_expand_imm 1 0xE imm8) = Some (take_bit 8 imm8)"
proof -
  have "take_bit 8 (ucast (ucast (take_bit 8 imm8) :: u64)) = take_bit 8 imm8"
    by (rule bit_word_eqI) (auto simp: bit_simps)
  then show ?thesis
    unfolding encode_advsimd_movi64_def adv_simd_expand_movi
    by (simp only: movi64_loop_movi_bytes [of 8, simplified] option.case adv_simd_expand_movi take_bit_take_bit) simp
qed

end
