(* ===== verification/Dp_Imm_Codec.thy ===== *)
theory Dp_Imm_Codec
  imports Dp_Imm_Exact Immediates
begin

text \<open>
  The whole group Data Processing -- Immediate.  Two classes have encodings the decoder does not distinguish: bits
  15:14 of ADDG/SUBG are ignored, and a logical immediate ignores the \<open>immr\<close> bits above its element size.  For them
  the encoder returns the canonical word; \<open>canon_dp_imm\<close> says which one, and that it decodes to the same instruction.
  The group is an instance of \<open>group_codec\<close>.
\<close>

section \<open>Canonical words\<close>

definition immr_len :: "u32 \<Rightarrow> nat" where
  "immr_len w = nat (mask_len (bit_at w 22) (bits w 10 6))"

definition canon_tags :: "u32 \<Rightarrow> u32" where
  "canon_tags w = w AND NOT 0xC000"

definition canon_logical :: "u32 \<Rightarrow> u32" where
  "canon_logical w = w AND NOT (push_bit 16 0x3F) OR push_bit 16 (take_bit (immr_len w) (bits w 16 6))"

lemma bit_canon_tags: "bit (canon_tags w) i \<longleftrightarrow> bit w i \<and> i \<noteq> 14 \<and> i \<noteq> 15"
proof -
  have m: "(0xC000 :: u32) = push_bit 14 (mask 2)" by (simp add: mask_eq_exp_minus_1)
  show ?thesis
    unfolding canon_tags_def m bit_and_iff bit_not_iff bit_push_bit_iff bit_mask_iff
    using bit_imp_le_length [of w i] by auto
qed

lemma bit_canon_logical: "bit (canon_logical w) i \<longleftrightarrow> bit w i \<and> (16 \<le> i \<and> i < 22 \<longrightarrow> i - 16 < immr_len w)"
proof -
  have m: "(0x3F :: u32) = mask 6" by (simp add: mask_eq_exp_minus_1)
  show ?thesis
    unfolding canon_logical_def m bit_and_iff bit_or_iff bit_not_iff bit_push_bit_iff bit_mask_iff bit_take_bit_iff bit_bits
    using bit_imp_le_length [of w i] by auto
qed

lemma layout_tags:
  assumes "in_dp_imm w" "bits w 23 3 = 3" "bit w 31" "\<not> bit w 29" "\<not> bit w 22"
  shows "push_bit 31 1 OR push_bit 30 (bit_at w 30) OR push_bit 23 0b100011 OR push_bit 16 (bits w 16 6) OR
    push_bit 10 (bits w 10 4) OR push_bit 5 (bits w 5 5) OR bits w 0 5 = canon_tags w"
  using in_dp_imm_bits [OF assms(1)] op1_bits [OF assms(2)] assms(3-5)
  by (simp add: to_bits bit_canon_tags)

lemma uimm6_back:
  "push_bit 4 (ucast (bits w l 6)) AND (0xf :: u64) = 0"
  "drop_bit 4 (push_bit 4 (ucast (bits w l 6)) :: u64) = ucast (bits w l 6)"
proof -
  have m: "(0xf :: u64) = mask 4" by (simp add: mask_eq_exp_minus_1)
  show "push_bit 4 (ucast (bits w l 6)) AND (0xf :: u64) = 0"
    unfolding m by (rule bit_word_eqI) (simp only: bit_and_iff bit_push_bit_iff bit_mask_iff, simp)
  show "drop_bit 4 (push_bit 4 (ucast (bits w l 6)) :: u64) = ucast (bits w l 6)"
    by (rule bit_word_eqI) (auto simp: bit_simps bit_bits)
qed

lemma encode_tags:
  assumes "in_dp_imm w" "bits w 23 3 = 3" "\<not> bit w 22" "i_code (decode_addsub_imm_tags w fs out) \<noteq> C_Invalid" "i_code out = C_Invalid"
  shows "encode_dp_imm (decode_addsub_imm_tags w fs out) = Ok (canon_tags w)"
proof -
  have g: "has fs F_Mte" "bit w 31" "\<not> bit w 29"
    using assms(4,5) by (auto simp: decode_addsub_imm_tags_def Let_def split: if_splits)
  show ?thesis
    using g assms(3)
    apply (cases "bit w 30")
    apply (simp_all add: decode_addsub_imm_tags_def dec_eval)
    using layout_tags [OF assms(1,2) g(2,3) assms(3)] uimm6_back [of w 16]
    apply (auto simp: encode_dp_imm_def enc_addsub_tags_def enc_eval)
    done
qed

lemma fields_canon_tags:
  "bits (canon_tags w) 0 5 = bits w 0 5" "bits (canon_tags w) 5 5 = bits w 5 5" "bits (canon_tags w) 10 4 = bits w 10 4"
  "bits (canon_tags w) 16 6 = bits w 16 6" "bit_at (canon_tags w) 22 = bit_at w 22" "bit_at (canon_tags w) 29 = bit_at w 29"
  "bit_at (canon_tags w) 30 = bit_at w 30" "bit_at (canon_tags w) 31 = bit_at w 31" "bits (canon_tags w) 23 3 = bits w 23 3"
  "bits (canon_tags w) 26 3 = bits w 26 3"
  by (auto intro!: bit_word_eqI simp: bit_bits bit_canon_tags)

lemma fields_canon_logical:
  "bits (canon_logical w) 0 5 = bits w 0 5" "bits (canon_logical w) 5 5 = bits w 5 5" "bits (canon_logical w) 10 6 = bits w 10 6"
  "bits (canon_logical w) 16 6 = take_bit (immr_len w) (bits w 16 6)"
  "bit_at (canon_logical w) 22 = bit_at w 22" "bits (canon_logical w) 29 2 = bits w 29 2"
  "bit_at (canon_logical w) 31 = bit_at w 31" "bits (canon_logical w) 23 3 = bits w 23 3"
  "bits (canon_logical w) 26 3 = bits w 26 3"
  by (auto intro!: bit_word_eqI simp: bit_bits bit_canon_logical bit_take_bit_iff)

lemma move_wide_preferred_canon:
  "move_wide_preferred (bit_at w 31) (bit_at w 22) (bits w 10 6) (take_bit (immr_len w) (bits w 16 6)) =
   move_wide_preferred (bit_at w 31) (bit_at w 22) (bits w 10 6) (bits w 16 6)"
proof -
  consider "bit w 31 \<and> \<not> bit w 22 \<or> \<not> bit w 31 \<and> (bit w 22 \<or> bit (bits w 10 6) 5)" | "bit w 31" "bit w 22" |
    "\<not> bit w 31" "\<not> bit w 22" "\<not> bit (bits w 10 6) 5" by blast
  then show ?thesis
  proof cases
    case 1
    then show ?thesis
      by (auto simp: move_wide_preferred_def Let_def bit_at_1 bit_at_0 and_0x3F)
  next
    case 2
    then have "announces (bit_at w 22) (bits w 10 6) 6" by (auto simp: announces_def bit_at_1)
    then have "immr_len w = 6" by (simp add: immr_len_def announces_mask_len)
    then show ?thesis by simp
  next
    case 3
    then have "announces (bit_at w 22) (bits w 10 6) 5" by (auto simp: announces_def bit_at_0)
    then have l: "immr_len w = 5" by (simp add: immr_len_def announces_mask_len)
    have u: "uint (take_bit 5 x :: u32) mod 16 = uint x mod 16" for x
      unfolding unsigned_take_bit_eq by (simp add: take_bit_eq_mod mod_mod_cancel)
    have m: "(- uint (take_bit 5 x :: u32)) mod 16 = (- uint x) mod 16" for x
      using u [of x] by (metis mod_minus_eq)
    show ?thesis
      unfolding l move_wide_preferred_def Let_def and_0x3F take_bit_take_bit
      using u [of "bits w 16 6"] m [of "bits w 16 6"] 3 by (simp add: bit_at_0 del: unsigned_take_bit_eq)
  qed
qed

section \<open>Logical (immediate)\<close>

lemma same_tags:
  assumes "i_ip o1 = i_ip o2" "i_code o1 = C_Invalid" "i_code o2 = C_Invalid" "i_code (decode_addsub_imm_tags w fs o2) \<noteq> C_Invalid"
  shows "same_semantics (decode_addsub_imm_tags (canon_tags w) fs o1) (decode_addsub_imm_tags w fs o2)"
  using assms by (auto simp: decode_addsub_imm_tags_def Let_def fields_canon_tags split: if_splits)

lemma wmask_lt_32:
  assumes "decode_bit_masks n imms immr True 32 = Some b" "\<not> bit n 0"
  shows "take_bit 32 (wmask b) = wmask b"
  using decode_bit_masks_bits [OF assms(1)] assms(2)
  by (intro bit_word_eqI) (auto simp: mask_fits_def bit_take_bit_iff)

lemma layout_logical:
  assumes "in_dp_imm w" "bits w 23 3 = 4"
  shows "push_bit 31 (bit_at w 31) OR push_bit 29 (bits w 29 2) OR push_bit 23 0b100100 OR push_bit 22 (bit_at w 22) OR
    push_bit 16 (take_bit (immr_len w) (bits w 16 6)) OR push_bit 10 (bits w 10 6) OR push_bit 5 (bits w 5 5) OR bits w 0 5 =
    canon_logical w"
  using in_dp_imm_bits [OF assms(1)] op1_bits [OF assms(2)] by (auto simp: to_bits bit_canon_logical)

lemma logical_imm_cases:
  assumes "i_code (decode_logical_imm w out) \<noteq> C_Invalid" "i_code out = C_Invalid"
  obtains b where "\<not> (\<not> bit w 31 \<and> bit w 22)"
    "decode_bit_masks (bit_at w 22) (bits w 10 6) (bits w 16 6) True (if bit w 31 then 64 else 32) = Some b"
    "mask_fits (bit_at w 22) (if bit w 31 then 64 else 32)"
    "encode_bit_masks (wmask b) (if bit w 31 then 64 else 32) = Some (bit_at w 22, take_bit (immr_len w) (bits w 16 6), bits w 10 6)"
    "map_option wmask (decode_bit_masks (bit_at w 22) (bits w 10 6) (take_bit (immr_len w) (bits w 16 6)) True (if bit w 31 then 64 else 32)) = Some (wmask b)"
    "\<not> bit w 31 \<longrightarrow> take_bit 32 (wmask b) = wmask b"
proof -
  let ?ds = "if bit w 31 then 64 else 32 :: nat"
  have g: "\<not> (\<not> bit w 31 \<and> bit w 22)"
    using assms by (auto simp: decode_logical_imm_def Let_def)
  have "decode_bit_masks (bit_at w 22) (bits w 10 6) (bits w 16 6) True ?ds \<noteq> None"
  proof
    assume "decode_bit_masks (bit_at w 22) (bits w 10 6) (bits w 16 6) True ?ds = None"
    then have "decode_logical_imm w out = out"
      by (cases "bit w 31") (simp_all add: decode_logical_imm_def Let_def)
    with assms show False by simp
  qed
  then obtain b where b: "decode_bit_masks (bit_at w 22) (bits w 10 6) (bits w 16 6) True ?ds = Some b" by blast
  have m: "mask_fits (bit_at w 22) ?ds" unfolding mask_fits_def bit_bit_at using g by auto
  have t: "take_bit 1 (bit_at w 22) = bit_at w 22" by (simp only: bit_at_eq take_bit_bits [OF order_refl])
  note e = encode_decode_masks [OF b m, folded immr_len_def, unfolded t take_bit_bits [OF order_refl]]
  have "\<not> bit w 31 \<longrightarrow> take_bit 32 (wmask b) = wmask b"
    using b g wmask_lt_32 by (auto simp: bit_bit_at)
  with that g b m e show thesis by blast
qed


lemma encode_logical:
  assumes "in_dp_imm w" "bits w 23 3 = 4" "i_code (decode_logical_imm w out) \<noteq> C_Invalid" "i_code out = C_Invalid"
  shows "encode_dp_imm (decode_logical_imm w out) = Ok (canon_logical w)"
proof -
  from assms(3,4) obtain b where g: "\<not> (\<not> bit w 31 \<and> bit w 22)"
    and d: "decode_bit_masks (bit_at w 22) (bits w 10 6) (bits w 16 6) True (if bit w 31 then 64 else 32) = Some b"
    and e: "encode_bit_masks (wmask b) (if bit w 31 then 64 else 32) = Some (bit_at w 22, take_bit (immr_len w) (bits w 16 6), bits w 10 6)"
    and t: "\<not> bit w 31 \<longrightarrow> take_bit 32 (wmask b) = wmask b"
    by (rule logical_imm_cases)
  have u: "ucast (ucast (wmask b) :: u32) = wmask b" if "take_bit 32 (wmask b) = wmask b"
  proof -
    have "ucast (ucast (wmask b) :: u32) = take_bit 32 (wmask b)" by (rule bit_word_eqI) (auto simp: bit_simps)
    with that show ?thesis by simp
  qed
  have a: "wmask b AND 0xffffffff = wmask b" if "take_bit 32 (wmask b) = wmask b"
    using that by (simp add: ffff_u64 take_bit_eq_mask)
  show ?thesis
    using bits_2_cases [of w 29] g
    apply (cases "bit w 31"; elim disjE)
    apply (use d in \<open>simp_all add: decode_logical_imm_def dec_eval signed_imm_def split: if_split\<close>)
    using layout_logical [OF assms(1,2)] e t u a imm32_back(1) [of "wmask b"]
    apply (auto simp: encode_dp_imm_def enc_logical_imm_def is_64_def enc_eval)
    done
qed

section \<open>The group\<close>

lemma dp_imm_enc_same:
  assumes "wf_insn i" "wf_insn j" "same_semantics i j"
  shows "encode_dp_imm i = encode_dp_imm j"
proof -
  have "insn_op i = insn_op j" using same_semantics_op [OF assms] by (rule ext)
  moreover have "i_code i = i_code j" "i_mnemonic i = i_mnemonic j" "i_ip i = i_ip j"
    using assms(3) by (simp_all add: same_semantics_def)
  ultimately show ?thesis
    by (simp only: encode_dp_imm_def enc_pc_rel_def enc_addsub_imm_def enc_addsub_tags_def enc_minmax_imm_def
        enc_logical_imm_def enc_move_wide_def enc_bitfield_def enc_extract_def recover_bitfield_fields_def
        imm_shifted_def reg_num_op imm_u_op)
qed

lemma built_pc_rel: "built_from is_dp_imm fs out (decode_pc_rel w ip out)"
  by (simp add: decode_pc_rel_def Let_def is_dp_imm_def built_from_built split: if_split)

lemma built_addsub: "built_from is_dp_imm fs out (decode_addsub_imm w out)"
  by (simp add: decode_addsub_imm_def Let_def is_dp_imm_def built_from_built split: if_split)

lemma built_tags: "built_from is_dp_imm fs out (decode_addsub_imm_tags w fs out)"
  by (simp add: decode_addsub_imm_tags_def Let_def is_dp_imm_def built_from_built split: if_split)

lemma built_minmax: "built_from is_dp_imm fs out (decode_minmax_imm w fs out)"
  by (simp add: decode_minmax_imm_def Let_def is_dp_imm_def built_from_built split: if_split)

lemma built_logical: "built_from is_dp_imm fs out (decode_logical_imm w out)"
  by (simp add: decode_logical_imm_def Let_def is_dp_imm_def built_from_built split: if_split option.split)

lemma built_move_wide: "built_from is_dp_imm fs out (decode_move_wide w out)"
  by (simp add: decode_move_wide_def Let_def is_dp_imm_def built_from_built split: if_split)

lemma built_bitfield: "built_from is_dp_imm fs out (decode_bitfield w out)"
  by (simp add: decode_bitfield_def emit_defs Let_def is_dp_imm_def built_from_built split: if_split option.split)

lemma built_extract: "built_from is_dp_imm fs out (decode_extract w out)"
  by (simp add: decode_extract_def Let_def is_dp_imm_def built_from_built split: if_split)

lemmas built_dp_imm =
  built_pc_rel built_addsub built_tags built_minmax built_logical built_move_wide built_bitfield built_extract

lemma decode_dp_imm_built: "in_dp_imm w \<Longrightarrow> built_from is_dp_imm fs out (decode_dp_imm w ip fs out)"
  unfolding decode_dp_imm_def in_dp_imm_def Let_def by (simp add: built_dp_imm)

definition canon_dp_imm :: "u32 \<Rightarrow> u32" where
  "canon_dp_imm w =
     (if bits w 23 3 = 0b011 \<and> \<not> bit w 22 then canon_tags w
      else if bits w 23 3 = 0b100 then canon_logical w
      else w)"

lemma canon_logical_invalid_mask: "immr_len (canon_logical w) = immr_len w"
  by (simp add: immr_len_def fields_canon_logical)

lemma same_logical:
  assumes "i_ip o1 = i_ip o2" "i_code o1 = C_Invalid" "i_code o2 = C_Invalid" "i_code (decode_logical_imm w o2) \<noteq> C_Invalid"
  shows "same_semantics (decode_logical_imm (canon_logical w) o1) (decode_logical_imm w o2)"
proof -
  from assms(4,3) obtain b where g: "\<not> (\<not> bit w 31 \<and> bit w 22)"
    and d: "decode_bit_masks (bit_at w 22) (bits w 10 6) (bits w 16 6) True (if bit w 31 then 64 else 32) = Some b"
    and e: "map_option wmask (decode_bit_masks (bit_at w 22) (bits w 10 6) (take_bit (immr_len w) (bits w 16 6)) True (if bit w 31 then 64 else 32)) = Some (wmask b)"
    by (rule logical_imm_cases)
  from e obtain b' where d': "decode_bit_masks (bit_at w 22) (bits w 10 6) (take_bit (immr_len w) (bits w 16 6)) True (if bit w 31 then 64 else 32) = Some b'"
    and w: "wmask b' = wmask b" by auto
  show ?thesis
    using g d d' w assms(1) move_wide_preferred_canon [of w]
    by (cases "bit w 31")
      (simp_all add: decode_logical_imm_def dec_eval fields_canon_logical same_semantics_if)
qed

lemma dp_imm_encode:
  assumes "in_dp_imm w" "i_code (decoded decode_dp_imm w ip fs) \<noteq> C_Invalid"
  shows "encode_dp_imm (decoded decode_dp_imm w ip fs) = Ok (canon_dp_imm w)"
proof -
  let ?o = "new_invalid w ip"
  have o: "i_code ?o = C_Invalid" "i_ip ?o = ip" by (simp_all add: new_invalid_def)
  note ex = exact_pc_rel [OF assms(1) _ o(2)] exact_addsub [OF assms(1)] exact_minmax [OF assms(1) _ _ _ o(1)]
    encode_tags [OF assms(1) _ _ _ o(1)] encode_logical [OF assms(1) _ _ o(1)] exact_move_wide [OF assms(1) _ _ o(1)]
    exact_bitfield [OF assms(1) _ _ o(1)] exact_extract [OF assms(1) _ _ o(1)]
  have n: "w AND 0xFFC0001F \<noteq> 0xF380001F" using assms(1) by (simp add: in_dp_imm_def)
  show ?thesis
    using bits_3_cases [of w 23] assms(2)
    by (elim disjE; cases "bit w 22")
      (simp_all add: decoded_def decode_dp_imm_def n canon_dp_imm_def ex)
qed

lemma dp_imm_canon:
  assumes "in_dp_imm w" "i_code (decoded decode_dp_imm w ip fs) \<noteq> C_Invalid"
  shows "in_dp_imm (canon_dp_imm w)"
    "same_semantics (decoded decode_dp_imm (canon_dp_imm w) ip fs) (decoded decode_dp_imm w ip fs)"
proof -
  have m: "canon_tags w AND 0xFFC0001F = w AND 0xFFC0001F" "canon_logical w AND 0xFFC0001F = w AND 0xFFC0001F"
    by (simp_all add: to_bits bit_canon_tags bit_canon_logical)
  show "in_dp_imm (canon_dp_imm w)"
    using assms(1) by (simp add: in_dp_imm_def canon_dp_imm_def m fields_canon_tags fields_canon_logical)
  have n: "w AND 0xFFC0001F \<noteq> 0xF380001F" using assms(1) by (simp add: in_dp_imm_def)
  let ?o = "new_invalid w ip"
  have o: "i_code (new_invalid v ip) = C_Invalid" "i_ip (new_invalid v ip) = ip" for v by (simp_all add: new_invalid_def)
  have b: "bit (canon_tags w) 22 = bit w 22" by (simp add: bit_canon_tags)
  show "same_semantics (decoded decode_dp_imm (canon_dp_imm w) ip fs) (decoded decode_dp_imm w ip fs)"
    using bits_3_cases [of w 23] assms(2)
    by (elim disjE; cases "bit w 22")
      (simp_all add: decoded_def decode_dp_imm_def n m canon_dp_imm_def fields_canon_tags fields_canon_logical b o
        same_logical same_tags)
qed

lemma admitted_dp_imm: "is_dp_imm c \<Longrightarrow> admitted fs c \<longleftrightarrow> has fs (code_feature c)"
  by (auto simp: admitted_def ungated_def is_dp_imm_def)

lemma not_dp_imm_Invalid: "\<not> is_dp_imm C_Invalid"
  by (simp add: is_dp_imm_def)

interpretation dp_imm: group_codec in_dp_imm decode_dp_imm encode_dp_imm is_dp_imm
proof
  fix w ip fs
  assume g: "in_dp_imm w" "is_dp_imm (i_code (decoded decode_dp_imm w ip fs))"
  then have "i_code (decoded decode_dp_imm w ip fs) \<noteq> C_Invalid" using not_dp_imm_Invalid by metis
  with g(1) show "\<exists>w'. encode_dp_imm (decoded decode_dp_imm w ip fs) = Ok w' \<and> in_dp_imm w' \<and>
      same_semantics (decoded decode_dp_imm w' ip fs) (decoded decode_dp_imm w ip fs)"
    using dp_imm_encode dp_imm_canon by blast
qed (fact not_dp_imm_Invalid decode_dp_imm_built dp_imm_enc_same)+

end
