(* ===== verification/Dp_Imm_Correct.thy ===== *)
theory Dp_Imm_Correct
  imports Dp_Imm_Codec Insn_Edit
begin

text \<open>
  The properties of Data Processing -- Immediate: the round trip of every word of the group, the extension gate, the
  label of ADR and ADRP under edits, and the operands on which the encoder panics, loses bits or returns a word of another class.
\<close>

section \<open>Round trip\<close>

lemma canon_dp_imm_idem: "canon_dp_imm (canon_dp_imm w) = canon_dp_imm w"
proof -
  have "canon_tags (canon_tags w) = canon_tags w" 
    by (rule bit_word_eqI) (simp add: bit_canon_tags)
  moreover have "canon_logical (canon_logical w) = canon_logical w"
    by (rule bit_word_eqI) (auto simp: bit_canon_logical canon_logical_invalid_mask)
  moreover have "bit (canon_tags w) 22 = bit w 22" by (simp add: bit_canon_tags)
  ultimately show ?thesis by (simp add: canon_dp_imm_def fields_canon_tags fields_canon_logical)
qed

text \<open>C21: every word of the group that decodes is encoded back to its canonical word, which decodes to the same
  instruction; outside ADDG/SUBG and the logical immediates this is the word itself.\<close>

theorem dp_imm_round_trip:
  assumes "in_dp_imm w" "i_code (decoded decode_dp_imm w ip fs) \<noteq> C_Invalid"
  shows "encode_dp_imm (decoded decode_dp_imm w ip fs) = Ok (canon_dp_imm w) \<and>
    same_semantics (decoded decode_dp_imm (canon_dp_imm w) ip fs) (decoded decode_dp_imm w ip fs) \<and>
    (bits w 23 3 \<noteq> 0b011 \<and> bits w 23 3 \<noteq> 0b100 \<longrightarrow> canon_dp_imm w = w)"
  using dp_imm_encode [OF assms] dp_imm_canon [OF assms] by (simp add: canon_dp_imm_def)

lemmas word_eval = decoded_def in_dp_imm_def decode_dp_imm_def Let_def bits_def bit_at_def new_invalid_def

text \<open>\<open>add x0, x1, #1\<close>.\<close>

theorem dp_imm_round_trip_witness:
  "encode_dp_imm (decoded decode_dp_imm 0x91000420 0x1000 FeatureSet_BASE) = Ok 0x91000420"
proof -
  have g: "in_dp_imm 0x91000420" by (simp add: in_dp_imm_def bits_def)
  have d: "i_code (decoded decode_dp_imm 0x91000420 0x1000 FeatureSet_BASE) \<noteq> C_Invalid"
    by (simp add: word_eval decode_addsub_imm_def)
  have "bits 0x91000420 23 3 = 2" by (simp add: bits_def)
  with dp_imm_round_trip [OF g d] show ?thesis by (simp add: canon_dp_imm_def)
qed

text \<open>C23: what the decoder produces it may produce: the code's extension is in the feature set, the code belongs to the
  group, and the instruction is well-formed and carries the word and the address.\<close>

theorem dp_imm_admitted:
  assumes "in_dp_imm w" "i_code (decoded decode_dp_imm w ip fs) \<noteq> C_Invalid"
  shows "has fs (code_feature (i_code (decoded decode_dp_imm w ip fs))) \<and> is_dp_imm (i_code (decoded decode_dp_imm w ip fs)) \<and>
    wf_insn (decoded decode_dp_imm w ip fs) \<and> i_word (decoded decode_dp_imm w ip fs) = w \<and> i_ip (decoded decode_dp_imm w ip fs) = ip"
  using assms dp_imm.dec_feature dp_imm.dec_owned dp_imm.dec_wf dp_imm.dec_frame admitted_dp_imm by blast

text \<open>\<open>addg x0, x1, #16, #2\<close>: admitted with MTE.\<close>

theorem dp_imm_admitted_witness:
  "has (with_feature FeatureSet_BASE F_Mte) F_Mte \<and>
   i_code (decoded decode_dp_imm 0x91810820 0 (with_feature FeatureSet_BASE F_Mte)) = C_AddgImm"
proof -
  let ?fs = "with_feature FeatureSet_BASE F_Mte"
  have h: "has ?fs F_Mte" by (simp add: fg.admits_grant gated_feature_def)
  have g: "in_dp_imm 0x91810820" by (simp add: in_dp_imm_def bits_def)
  have c: "i_code (decoded decode_dp_imm 0x91810820 0 ?fs) = C_AddgImm"
    using h by (simp add: word_eval decode_addsub_imm_tags_def)
  then have "i_code (decoded decode_dp_imm 0x91810820 0 ?fs) \<noteq> C_Invalid" by simp
  from dp_imm_admitted [OF g this] c show ?thesis by simp
qed

section \<open>Labels of ADR and ADRP\<close>

text \<open>The range test of the encoders, in terms of the signed distance.\<close>

definition pc_rel_word :: "u32 \<Rightarrow> u32 \<Rightarrow> u32 \<Rightarrow> u32" where
  "pc_rel_word op imm21 rd =
     push_bit 31 op OR push_bit 29 (imm21 AND 0x3) OR push_bit 24 0b10000 OR push_bit 5 (drop_bit 2 imm21 AND 0x7ffff) OR rd"

lemma pc_rel_word_fields:
  assumes "take_bit 5 rd = rd" "take_bit 21 x = x" "op = 0 \<or> op = 1"
  shows "in_dp_imm (pc_rel_word op x rd)" "bits (pc_rel_word op x rd) 23 3 = 0 \<or> bits (pc_rel_word op x rd) 23 3 = 1"
    "bits (pc_rel_word op x rd) 0 5 = rd" "imm21_of (pc_rel_word op x rd) = x" "bit_at (pc_rel_word op x rd) 31 = op"
proof -
  have r: "\<forall>n. 5 \<le> n \<longrightarrow> \<not> bit rd n" using assms(1) bit_take_bit_iff [of 5 rd] by (metis linorder_not_less)
  have x: "\<forall>n. 21 \<le> n \<longrightarrow> \<not> bit x n" using assms(2) bit_take_bit_iff [of 21 x] by (metis linorder_not_less)
  note e = pc_rel_word_def to_bits r x
  let ?w = "pc_rel_word op x rd"
  have f: "\<not> bit ?w 25" "\<not> bit ?w 24" "bit ?w 28" "\<not> bit ?w 27" "\<not> bit ?w 26" "bit ?w 31 \<longleftrightarrow> op = 1"
    using assms(3) r x by (auto simp: pc_rel_word_def bit_simps)
  then show "bits ?w 23 3 = 0 \<or> bits ?w 23 3 = 1"
    using bits_3_cases [of ?w 23] op1_bits [of ?w] by fastforce
  have "bits ?w 26 3 = 4" using f by (simp add: to_bits)
  moreover have "\<not> bit (?w AND 0xFFC0001F) 25" "bit (0xF380001F :: u32) 25" using f by (simp_all add: bit_and_iff)
  ultimately show "in_dp_imm ?w" unfolding in_dp_imm_def by metis
  show "bits ?w 0 5 = rd" using r x by (simp add: pc_rel_word_def to_bits)
  show "imm21_of ?w = x" using r x by (simp add: pc_rel_word_def imm21_of_def to_bits)
  show "bit_at ?w 31 = op" using assms(3) f by (auto simp: bit_at_1 bit_at_0)
qed

definition label_reachable :: "insn \<Rightarrow> u64 \<Rightarrow> bool" where
  "label_reachable i t \<longleftrightarrow>
     (if i_code i = C_Adrp then t AND 0xFFF = 0 \<and> fits_signed 33 (t - (i_ip i AND NOT 0xFFF))
      else fits_signed 21 (t - i_ip i))"

definition pc_rel_imm :: "insn \<Rightarrow> u64 \<Rightarrow> u32" where
  "pc_rel_imm i t =
     (if i_code i = C_Adrp then take_bit 21 (ucast (signed_drop_bit 12 (t - (i_ip i AND NOT 0xFFF))))
      else take_bit 21 (ucast (t - i_ip i)))"

lemma page_aligned: "t AND 0xFFF = 0 \<Longrightarrow> t AND NOT 0xFFF = (t :: u64)"
proof -
  assume "t AND 0xFFF = 0"
  then have "take_bit 12 t = 0" by (simp add: take_bit_eq_mask mask_eq_exp_minus_1)
  then have "bit t i \<Longrightarrow> \<not> i < 12" for i using bit_take_bit_iff [of 12 t i] by simp
  then show ?thesis
    unfolding not_0xFFF by (intro bit_word_eqI) (simp only: bit_and_iff bit_not_iff bit_mask_iff possible_bit_word, blast)
qed

lemma enc_pc_rel_label:
  assumes "i_code i \<in> {C_Adr, C_Adrp}" "insn_op i 0 = OpReg r a l s e p" "insn_op i 1 = OpLabel t"
  shows "encode_dp_imm i =
    (if label_reachable i t
     then Ok (pc_rel_word (if i_code i = C_Adrp then 1 else 0) (pc_rel_imm i t) (ucast (reg_number r)))
     else Err EncInvalidImmediate)"
proof -
  have f: "signed_drop_bit 20 d \<noteq> 0 \<and> signed_drop_bit 20 d \<noteq> - 1 \<longleftrightarrow> \<not> fits_signed 21 d"
    "signed_drop_bit 20 (signed_drop_bit 12 d) \<noteq> 0 \<and> signed_drop_bit 20 (signed_drop_bit 12 d) \<noteq> - 1 \<longleftrightarrow> \<not> fits_signed 33 d"
    for d :: i64
    using signed_drop_bit_fits [of 21 d] signed_drop_bit_fits [of 33 d] by auto
  have f33: "fits_signed 21 (signed_drop_bit 12 d) \<longleftrightarrow> fits_signed 33 d" for d :: i64
    using f [of d] f(1) [of "signed_drop_bit 12 d"] by blast
  show ?thesis
  proof (cases "i_code i = C_Adrp")
    case True
    then show ?thesis
      unfolding encode_dp_imm_def enc_pc_rel_def Let_def reg_num_op f assms(2,3)
      using page_aligned [of t]
      by (auto simp: f33 op_num_def label_reachable_def pc_rel_imm_def pc_rel_word_def and_0x1fffff)
  next
    case False
    then have "i_code i = C_Adr" using assms(1) by simp
    then show ?thesis
      unfolding encode_dp_imm_def enc_pc_rel_def Let_def reg_num_op f assms(2,3)
      by (auto simp: op_num_def label_reachable_def pc_rel_imm_def pc_rel_word_def and_0x1fffff)
  qed
qed

lemma reg_number_5: "take_bit 5 (ucast (reg_number r) :: u32) = ucast (reg_number r)"
proof -
  have "unat (ucast (reg_number r) :: u32) < 2 ^ 5"
    using reg_number_less [of r] by (simp add: unsigned_ucast_eq take_bit_nat_eq_self)
  then show ?thesis by (intro word_less_take_bit) (simp_all add: word_less_nat_alt)
qed

lemma decode_pc_rel_word:
  assumes "label_reachable i t" "i_code i \<in> {C_Adr, C_Adrp}" "take_bit 5 rd = rd"
  shows "decoded decode_dp_imm (pc_rel_word (if i_code i = C_Adrp then 1 else 0) (pc_rel_imm i t) rd) (i_ip i) fs =
    built (new_invalid (pc_rel_word (if i_code i = C_Adrp then 1 else 0) (pc_rel_imm i t) rd) (i_ip i))
      (i_code i) (code_mnemonic (i_code i)) [gp_reg False X64 rd, OpLabel t]"
proof -
  let ?w = "pc_rel_word (if i_code i = C_Adrp then 1 else 0) (pc_rel_imm i t) rd"
  have x: "take_bit 21 (pc_rel_imm i t) = pc_rel_imm i t" by (simp add: pc_rel_imm_def)
  have op: "(if i_code i = C_Adrp then 1 else 0) = (0 :: u32) \<or> (if i_code i = C_Adrp then 1 else 0) = (1 :: u32)" by simp
  note f = pc_rel_word_fields [OF assms(3) x op]
  have d: "decoded decode_dp_imm ?w (i_ip i) fs = decode_pc_rel ?w (i_ip i) (new_invalid ?w (i_ip i))"
    using f(1,2) by (auto simp: decoded_def decode_dp_imm_def in_dp_imm_def)
  show ?thesis
  proof (cases "i_code i = C_Adrp")
    case True
    let ?d = "t - (i_ip i AND NOT 0xFFF)"
    have a: "t AND 0xFFF = 0" "fits_signed 33 ?d" using assms(1) True by (simp_all add: label_reachable_def)
    have "take_bit 12 t = 0" using a(1) by (simp add: take_bit_eq_mask mask_eq_exp_minus_1)
    then have "take_bit 12 ?d = 0"
      unfolding not_0xFFF using take_bit_page [of "i_ip i"] by (simp only: take_bit_eq_0_iff dvd_diff)
    then have "bit ?d n \<Longrightarrow> \<not> n < 12" for n using bit_take_bit_iff [of 12 ?d n] by simp
    then have z: "bit ?d n \<Longrightarrow> 12 \<le> n \<and> 12 + (n - 12) = n" for n by (metis linorder_not_less le_add_diff_inverse)
    have "push_bit 12 (ucast (take_bit 21 (ucast (signed_drop_bit 12 ?d) :: u32))) = take_bit 33 ?d"
      using z by (intro bit_word_eqI) (auto simp: bit_simps)
    moreover have "sign_extend (take_bit 33 ?d) 33 = ?d"
      using a(2) signed_drop_bit_fits [of 33 ?d] by (intro sign_extend_fits) simp_all
    ultimately show ?thesis
      unfolding d using f(3-5) True
      by (simp add: decode_pc_rel_def Let_def pc_rel_imm_def flip: imm21_of_def)
  next
    case False
    let ?d = "t - i_ip i"
    have a: "fits_signed 21 ?d" using assms(1) False by (simp add: label_reachable_def)
    have "ucast (take_bit 21 (ucast ?d :: u32)) = take_bit 21 ?d" by (rule bit_word_eqI) (auto simp: bit_simps)
    moreover have "sign_extend (take_bit 21 ?d) 21 = ?d"
      using a signed_drop_bit_fits [of 21 ?d] by (intro sign_extend_fits) simp_all
    ultimately show ?thesis
      unfolding d using f(3-5) False assms(2)
      by (simp add: decode_pc_rel_def Let_def pc_rel_imm_def flip: imm21_of_def)
  qed
qed

text \<open>C22: ADR and ADRP with any label, in particular one an edit put there.  The encoder accepts exactly the labels in
  reach (ADR: within 1 MiB of the address; ADRP: a page within 4 GiB of the page of the address), and what it encodes
  decodes at that address to the same code, destination and label; all others are rejected as immediates.\<close>

theorem adr_label_edit:
  assumes "i_code i \<in> {C_Adr, C_Adrp}" "insn_op i 0 = OpReg r a l s e p" "insn_op i 1 = OpLabel t"
  shows "if label_reachable i t
    then \<exists>w. encode_dp_imm i = Ok w \<and> in_dp_imm w \<and> i_code (decoded decode_dp_imm w (i_ip i) fs) = i_code i \<and>
      live_operands (decoded decode_dp_imm w (i_ip i) fs) = [gp_reg False X64 (ucast (reg_number r)), OpLabel t]
    else encode_dp_imm i = Err EncInvalidImmediate"
proof (cases "label_reachable i t")
  case True
  let ?w = "pc_rel_word (if i_code i = C_Adrp then 1 else 0) (pc_rel_imm i t) (ucast (reg_number r))"
  have "in_dp_imm ?w"
    by (rule pc_rel_word_fields(1)) (simp_all add: reg_number_5 pc_rel_imm_def)
  then show ?thesis
    using True enc_pc_rel_label [OF assms] decode_pc_rel_word [OF True assms(1) reg_number_5 [of r], of fs] by simp
qed (use enc_pc_rel_label [OF assms] in simp)

theorem adr_label_edit_witness:
  "encode_dp_imm (built (new_invalid 0 0x1000) C_Adr M_Adr [OpPlainReg (RX 3), OpLabel 0x300000]) = Err EncInvalidImmediate \<and>
   (\<exists>w. encode_dp_imm (built (new_invalid 0 0x1000) C_Adr M_Adr [OpPlainReg (RX 3), OpLabel 0xFF8]) = Ok w)"
proof -
  define edited where "edited t = built (new_invalid 0 0x1000) C_Adr M_Adr [OpPlainReg (RX 3), OpLabel t]" for t
  have c: "i_code (edited t) \<in> {C_Adr, C_Adrp}" "insn_op (edited t) 0 = OpReg (RX 3) None None None None None"
    "insn_op (edited t) 1 = OpLabel t" for t
    by (simp_all add: edited_def)
  have "\<not> label_reachable (edited 0x300000) 0x300000" "label_reachable (edited 0xFF8) 0xFF8"
    by (simp_all add: label_reachable_def fits_signed_def new_invalid_def edited_def)
  then show ?thesis using adr_label_edit [OF c] unfolding edited_def by (metis (full_types))
qed

section \<open>Edits the encoder does not catch\<close>

declare and_then_Panic_iff [simp]

lemma factor_no_panic [simp]: "factor_movz v n \<noteq> Panic" "factor_movn v n \<noteq> Panic"
  by (auto simp: factor_movz_def factor_movn_def Let_def)

lemma imm_shifted_no_panic [simp]: "imm_shifted i n \<noteq> Panic"
  by (auto simp: imm_shifted_def split: operand.split)

lemma insert_fields_Panic: "insert_fields ds rn lsb width = Panic \<longleftrightarrow> width \<noteq> 0 \<and> ds < lsb"
  by (auto simp: insert_fields_def sub_u32_Panic Let_def)

lemma extract_fields_Panic: "extract_fields rn lsb width = Panic \<longleftrightarrow> width \<noteq> 0 \<and> 2 ^ 32 \<le> unat lsb + unat width"
proof -
  have "lsb + width \<noteq> 0" if "width \<noteq> 0" "add_u32 lsb width = Ok (lsb + width)"
  proof -
    have "unat (lsb + width) = unat lsb + unat width"
      using that(2) by (auto simp: add_u32_def unat_add_lem [THEN iffD1] split: if_splits)
    then show ?thesis using that(1) by (metis add_is_0 unat_0 unat_0_iff)
  qed
  then show ?thesis by (auto simp: extract_fields_def add_u32_Panic Let_def) (auto simp: add_u32_def split: if_splits)
qed

lemma other_classes_no_panic:
  "enc_pc_rel i \<noteq> Panic" "enc_addsub_imm i \<noteq> Panic" "enc_addsub_tags i \<noteq> Panic" "enc_minmax_imm i \<noteq> Panic"
  "enc_logical_imm i \<noteq> Panic" "enc_move_wide i \<noteq> Panic" "enc_extract i \<noteq> Panic"
  by (auto simp: enc_pc_rel_def enc_addsub_imm_def enc_addsub_tags_def enc_minmax_imm_def enc_logical_imm_def
      enc_move_wide_def enc_extract_def reg_num_op imm_u_op Let_def split: operand.splits prod.splits)

definition bitfield_codes :: "code set" where
  "bitfield_codes = {C_Sbfm32, C_Sbfm64, C_Bfm32, C_Bfm64, C_Ubfm32, C_Ubfm64}"

definition data_size :: "code \<Rightarrow> u32" where
  "data_size c = (if is_64 c then 64 else 32)"

lemma lsl_fits: "\<not> data_size c - 1 < x \<Longrightarrow> x \<le> data_size c"
  by (auto simp: data_size_def word_less_nat_alt word_le_nat_alt split: if_splits)

lemma recover_Panic:
  "recover_bitfield_fields i (data_size (i_code i)) (data_size (i_code i) - 1) = Panic \<longleftrightarrow>
    (\<exists>rn lsb width. i_mnemonic i \<in> {M_Sbfiz, M_Ubfiz, M_Bfi} \<and> reg_num i 1 = Ok rn \<and> imm_u i 2 = Ok lsb \<and> imm_u i 3 = Ok width \<and>
        (ucast width :: u32) \<noteq> 0 \<and> data_size (i_code i) < ucast lsb) \<or>
    (\<exists>lsb width. i_mnemonic i = M_Bfc \<and> imm_u i 1 = Ok lsb \<and> imm_u i 2 = Ok width \<and>
        (ucast width :: u32) \<noteq> 0 \<and> data_size (i_code i) < ucast lsb) \<or>
    (\<exists>rn lsb width. i_mnemonic i \<in> {M_Sbfx, M_Ubfx, M_Bfxil} \<and> reg_num i 1 = Ok rn \<and> imm_u i 2 = Ok lsb \<and> imm_u i 3 = Ok width \<and>
        (ucast width :: u32) \<noteq> 0 \<and> 2 ^ 32 \<le> unat (ucast lsb :: u32) + unat (ucast width :: u32))"
  using lsl_fits [of "i_code i"]
  by (auto simp: recover_bitfield_fields_def Let_def reg_num_op imm_u_op insert_fields_Panic extract_fields_Panic sub_u32_Panic not_less)

text \<open>C27: exactly where the encoder of the group panics: on the insert aliases of a bitfield whose \<open>lsb\<close> operand, cut to 32 bits, exceeds
  the data size of the code, 32 or 64, and on the extract aliases whose \<open>lsb + width\<close> exceeds a \<open>u32\<close>, provided that the operands
  before are readable and the width is not zero.  No decoded instruction is of that kind, since it round-trips, but the
  editing methods accept such operands.\<close>

theorem dp_imm_panics_only_on_bitfields:
  "encode_dp_imm i = Panic \<longleftrightarrow> i_code i \<in> bitfield_codes \<and>
    ((\<exists>rn lsb width. i_mnemonic i \<in> {M_Sbfiz, M_Ubfiz, M_Bfi} \<and> reg_num i 1 = Ok rn \<and> imm_u i 2 = Ok lsb \<and> imm_u i 3 = Ok width \<and>
        (ucast width :: u32) \<noteq> 0 \<and> data_size (i_code i) < ucast lsb) \<or>
     (\<exists>lsb width. i_mnemonic i = M_Bfc \<and> imm_u i 1 = Ok lsb \<and> imm_u i 2 = Ok width \<and>
        (ucast width :: u32) \<noteq> 0 \<and> data_size (i_code i) < ucast lsb) \<or>
     (\<exists>rn lsb width. i_mnemonic i \<in> {M_Sbfx, M_Ubfx, M_Bfxil} \<and> reg_num i 1 = Ok rn \<and> imm_u i 2 = Ok lsb \<and> imm_u i 3 = Ok width \<and>
        (ucast width :: u32) \<noteq> 0 \<and> 2 ^ 32 \<le> unat (ucast lsb :: u32) + unat (ucast width :: u32)))"
proof -
  have d: "encode_dp_imm i = (if i_code i \<in> bitfield_codes then enc_bitfield i else encode_dp_imm i)"
    by (auto simp: encode_dp_imm_def Let_def bitfield_codes_def)
  have "encode_dp_imm i = Panic \<longleftrightarrow> i_code i \<in> bitfield_codes \<and> enc_bitfield i = Panic"
  proof (cases "i_code i \<in> bitfield_codes")
    case False
    then have "encode_dp_imm i \<noteq> Panic"
      using other_classes_no_panic by (simp add: encode_dp_imm_def Let_def bitfield_codes_def)
    with False show ?thesis by simp
  qed (use d in simp)
  moreover have "enc_bitfield i = Panic \<longleftrightarrow> recover_bitfield_fields i (data_size (i_code i)) (data_size (i_code i) - 1) = Panic"
    by (auto simp: enc_bitfield_def Let_def reg_num_op data_size_def)
  ultimately show ?thesis unfolding recover_Panic by blast
qed

text \<open>The decoded \<open>ubfiz x0, x1, #4, #8\<close>, whose \<open>lsb\<close> an accepted edit changes to 100.\<close>

theorem dp_imm_panics_only_on_bitfields_witness:
  "\<exists>j. set_op_immediate 2 100 (decoded decode_dp_imm 0xD37C1C20 0 FeatureSet_ALL) = (True, j) \<and> encode_dp_imm j = Panic"
proof -
  have d: "decoded decode_dp_imm 0xD37C1C20 0 FeatureSet_ALL =
     built (new_invalid 0xD37C1C20 0) C_Ubfm64 M_Ubfiz [gp_reg False X64 0, gp_reg False X64 1, OpImmUnsigned 4, OpImmUnsigned 8]"
    by (simp add: decoded_def decode_dp_imm_def Let_def bits_def bit_at_def decode_bitfield_def emit_ubfm_alias_def)
  obtain j where j: "set_op_immediate 2 100 (decoded decode_dp_imm 0xD37C1C20 0 FeatureSet_ALL) = (True, j)"
    "i_code j = C_Ubfm64" "i_mnemonic j = M_Ubfiz" "reg_num j 1 = Ok 1" "imm_u j 2 = Ok 100" "imm_u j 3 = Ok 8"
    unfolding d
    by (simp add: set_op_immediate_def write_op_def replace_immediate_def built_def MAX_OPERANDS_def new_invalid_def mark_modified_def
        reg_num_def imm_u_def insn_op_def gp_reg_def)
  then show ?thesis using dp_imm_panics_only_on_bitfields [of j] by (auto simp: bitfield_codes_def data_size_def is_64_def)
qed

section \<open>Edits the encoder cuts\<close>

lemma cut_operand:
  assumes "n < length ops" "length ops \<le> 5" "ops ! n = OpImmUnsigned v"
  shows "insn_op (built out c m (ops[n := OpImmUnsigned u])) p = (if p = n then OpImmUnsigned u else insn_op (built out c m ops) p)"
    "insn_op (built out c m ops) n = OpImmUnsigned v"
  using assms by (auto simp: insn_op_def built_def nth_append)

text \<open>Two instructions that differ in the high half of one immediate.\<close>

definition cut_alike :: "nat \<Rightarrow> u64 \<Rightarrow> u64 \<Rightarrow> insn \<Rightarrow> insn \<Rightarrow> bool" where
  "cut_alike n u v i j \<longleftrightarrow> i_code i = i_code j \<and> i_mnemonic i = i_mnemonic j \<and> (\<forall>p. reg_num i p = reg_num j p) \<and>
     (\<forall>p. p \<noteq> n \<longrightarrow> imm_u i p = imm_u j p) \<and> imm_u i n = Ok u \<and> imm_u j n = Ok v \<and> (ucast u :: u32) = ucast v"

lemma cut_alike_built:
  assumes "n < length ops" "length ops \<le> 5" "ops ! n = OpImmUnsigned v"
  shows "cut_alike n (v + 0x100000000 * k) v (built out c m (ops[n := OpImmUnsigned (v + 0x100000000 * k)])) (built out c m ops)"
  using cut_operand [OF assms, of out c m] assms(2)
  by (auto simp: cut_alike_def reg_num_op imm_u_op op_num_def ucast_add_2_32 simp del: insn_op_built)

lemma cut_alike_and_then:
  assumes "cut_alike n u v i j" "\<And>x y. (ucast x :: u32) = ucast y \<Longrightarrow> f x = g y"
  shows "and_then (imm_u i p) f = and_then (imm_u j p) g"
proof (cases "p = n")
  case True
  then show ?thesis using assms by (simp add: cut_alike_def)
next
  case False
  then have "imm_u i p = imm_u j p" using assms(1) by (simp add: cut_alike_def)
  moreover have "f = g" using assms(2) by (intro ext) simp
  ultimately show ?thesis by simp
qed

lemma and_then_arm: "(\<And>x. f x = g x) \<Longrightarrow> and_then r f = and_then r g"
  by (cases r) simp_all

lemma if_arms: "x = y \<Longrightarrow> z = w \<Longrightarrow> (if b then x else z) = (if b then y else w)"
  by simp

lemma and_then_scrut: "r = s \<Longrightarrow> and_then r f = and_then s f"
  by simp

lemma enc_extract_cut:
  assumes "cut_alike n u v i j"
  shows "enc_extract i = enc_extract j"
proof -
  have e: "i_code i = i_code j" "i_mnemonic i = i_mnemonic j" "reg_num i p = reg_num j p" for p
    using assms by (simp_all add: cut_alike_def)
  show ?thesis
    unfolding enc_extract_def e Let_def
    by (rule and_then_arm, rule and_then_scrut, intro and_then_arm if_arms cut_alike_and_then [OF assms] refl) simp_all
qed

lemma recover_cut:
  assumes "cut_alike n u v i j"
  shows "recover_bitfield_fields i ds mx = recover_bitfield_fields j ds mx"
proof -
  have e: "i_code i = i_code j" "i_mnemonic i = i_mnemonic j" "reg_num i p = reg_num j p" for p
    using assms by (simp_all add: cut_alike_def)
  show ?thesis
    unfolding recover_bitfield_fields_def e Let_def
    by (intro and_then_arm if_arms cut_alike_and_then [OF assms] refl) simp_all
qed

lemma enc_bitfield_cut:
  assumes "cut_alike n u v i j"
  shows "enc_bitfield i = enc_bitfield j"
proof -
  have "i_code i = i_code j" "reg_num i 0 = reg_num j 0" using assms by (simp_all add: cut_alike_def)
  then show ?thesis by (simp only: enc_bitfield_def recover_cut [OF assms])
qed

text \<open>C29: the immediates of the bitfield and extract instructions are cut to 32 bits before they are range-checked: an edit that adds a
  multiple of \<open>2 ^ 32\<close> to any of them is accepted and does not change the encoding.\<close>

theorem bitfield_edit_truncates:
  assumes "c \<in> bitfield_codes \<union> {C_Extr32, C_Extr64}" "n < length ops" "length ops \<le> 5" "ops ! n = OpImmUnsigned v"
  shows "\<exists>d. set_op_immediate n (v + 0x100000000 * k) (built out c m ops) = (True, d) \<and>
    encode_dp_imm d = encode_dp_imm (built out c m ops)"
proof -
  let ?e = "built out c m (ops[n := OpImmUnsigned (v + 0x100000000 * k)])"
  have "encode_dp_imm ?e = encode_dp_imm (built out c m ops)"
    using assms(1) enc_bitfield_cut enc_extract_cut cut_alike_built [OF assms(2-4), of k out c m]
    by (auto simp: encode_dp_imm_def Let_def bitfield_codes_def)
  moreover have "replace_immediate (v + 0x100000000 * k) (ops ! n) = Some (OpImmUnsigned (v + 0x100000000 * k))"
    using assms(4) by (simp add: replace_immediate_def)
  from edit_immediate_built [OF assms(2,3) this, of out c m] obtain d where
    "set_op_immediate n (v + 0x100000000 * k) (built out c m ops) = (True, d)" "wf_insn d" "same_semantics d ?e"
    by (auto simp: same_semantics_def)
  ultimately show ?thesis using dp_imm_enc_same [of d ?e] assms(3) by auto
qed

text \<open>\<open>ubfx x0, x1, #4, #8\<close> with the width edited to \<open>2 ^ 32 + 8\<close>.\<close>

theorem bitfield_edit_truncates_witness:
  "\<exists>d. set_op_immediate 3 0x100000008 (built (new_invalid 0 0) C_Ubfm64 M_Ubfx [gp_reg False X64 0, gp_reg False X64 1, OpImmUnsigned 4, OpImmUnsigned 8]) = (True, d) \<and>
    encode_dp_imm d = Ok 0xD3442C20"
proof -
  let ?ops = "[gp_reg False X64 0, gp_reg False X64 1, OpImmUnsigned 4, OpImmUnsigned 8]"
  have "encode_dp_imm (built (new_invalid 0 0) C_Ubfm64 M_Ubfx ?ops) = Ok 0xD3442C20"
    by (simp add: encode_dp_imm_def Let_def enc_bitfield_def recover_bitfield_fields_def extract_fields_def add_u32_def
        is_64_def reg_num_op imm_u_op op_num_def gp_reg_def)
  then show ?thesis
    using bitfield_edit_truncates [of C_Ubfm64 3 ?ops 8 1 "new_invalid 0 0" M_Ubfx] by (simp add: bitfield_codes_def)
qed

section \<open>Move-wide shifts the encoder does not check\<close>

definition move_wide_word :: "code \<Rightarrow> u32 \<Rightarrow> u32 \<Rightarrow> u32 \<Rightarrow> u32" where
  "move_wide_word c hw imm16 rd =
     push_bit 31 1 OR push_bit 29 (if c = C_Movn64 then 0b00 else if c = C_Movz64 then 0b10 else 0b11) OR
     push_bit 23 0b100101 OR push_bit 21 hw OR push_bit 5 imm16 OR rd"

lemma enc_move_wide_shifted:
  assumes "c \<in> {C_Movn64, C_Movz64, C_Movk64}"
  shows "encode_dp_imm (built out c m [OpReg r a l s e p, OpImmShiftedMove imm sh]) =
    Ok (move_wide_word c (ucast (sh div 16)) (ucast imm) (ucast (reg_number r)))"
proof -
  have "\<not> (0xffff :: u32) < ucast imm"
    using unsigned_less [of imm, where ?'a = nat] by (simp add: word_less_nat_alt unsigned_ucast_eq take_bit_nat_eq_self not_less)
  then show ?thesis
    using assms by (auto simp: encode_dp_imm_def Let_def enc_move_wide_def is_64_def reg_num_op op_num_def move_wide_word_def)
qed

lemma shift_byte:
  "(ucast (sh div 16) :: u32) = drop_bit 4 (ucast (sh :: u8))"
  "(ucast (16 * (sh div 16 mod 4) div 16) :: u32) = take_bit 2 (drop_bit 4 (ucast sh))"
  "(ucast (sh div 16 mod 4) :: u32) = take_bit 2 (drop_bit 4 (ucast sh))"
  "sh < 128 \<longleftrightarrow> \<not> bit sh 7"
proof -
  have d: "x div 16 = drop_bit 4 x" "16 * x = push_bit 4 x" "x mod 4 = take_bit 2 x" for x :: u8
    by (simp_all add: drop_bit_eq_div take_bit_eq_mod push_bit_eq_mult)
  have h: "bit sh n \<Longrightarrow> n < 8" for n using bit_imp_le_length [of sh n] by simp
  show "(ucast (sh div 16) :: u32) = drop_bit 4 (ucast sh)"
    unfolding d by (intro bit_word_eqI) (auto simp: bit_simps dest: h)
  show "(ucast (16 * (sh div 16 mod 4) div 16) :: u32) = take_bit 2 (drop_bit 4 (ucast sh))"
    unfolding d by (intro bit_word_eqI) (auto simp: bit_simps dest: h)
  show "(ucast (sh div 16 mod 4) :: u32) = take_bit 2 (drop_bit 4 (ucast sh))"
    unfolding d by (intro bit_word_eqI) (auto simp: bit_simps dest: h)
  have "unat sh < 256" using unsigned_less [of sh, where ?'a = nat] by simp
  then have "unat sh div 128 = (if 128 \<le> unat sh then 1 else 0)" by (auto intro: div_nat_eqI)
  then have "bit (unat sh) 7 \<longleftrightarrow> 128 \<le> unat sh" by (simp add: bit_iff_odd)
  then have "bit sh 7 \<longleftrightarrow> 128 \<le> unat sh" by (simp add: bit_unsigned_iff)
  then show "sh < 128 \<longleftrightarrow> \<not> bit sh 7" by (simp add: word_less_nat_alt not_le)
qed

text \<open>C28: the shift of a 64-bit MOVN, MOVZ or MOVK is a byte the encoder divides by 16 and shifts into place without a range check.  It
  never refuses one.  A shift below 128 is encoded as the one rounded down to a multiple of 16, modulo 64; a shift of 128 or more spills
  into the opcode: the word returned is one of the class EXTR, not of the class of moves.\<close>

theorem move_wide_shift_unchecked:
  assumes "c \<in> {C_Movn64, C_Movz64, C_Movk64}"
  shows "\<exists>w. encode_dp_imm (built out c m [OpReg r a l s e p, OpImmShiftedMove imm sh]) = Ok w \<and>
    (if sh < 128
     then encode_dp_imm (built out c m [OpReg r a l s e p, OpImmShiftedMove imm (16 * (sh div 16 mod 4))]) = Ok w \<and>
       bits w 23 6 = 0b100101 \<and> bits w 21 2 = ucast (sh div 16 mod 4)
     else bits w 23 6 = 0b100111)"
proof -
  let ?hw = "drop_bit 4 (ucast sh) :: u32"
  let ?w = "move_wide_word c ?hw (ucast imm) (ucast (reg_number r))"
  have r: "\<forall>n. 5 \<le> n \<longrightarrow> \<not> bit (ucast (reg_number r) :: u32) n"
    using reg_number_5 [of r] bit_take_bit_iff [of 5 "ucast (reg_number r) :: u32"] by (metis linorder_not_less)
  then have r: "\<not> bit (reg_number r) n" if "5 \<le> n" "n < 32" for n using that by (auto simp: bit_simps)
  have i: "\<not> bit imm n" if "16 \<le> n" for n using that bit_imp_le_length [of imm n] by auto
  have h: "\<not> bit sh n" if "8 \<le> n" for n using that bit_imp_le_length [of sh n] by auto
  note e = move_wide_word_def to_bits r i h
  have "bits ?w 23 6 = (if bit sh 7 then 0b100111 else 0b100101)" by (simp add: e)
  moreover have "bits ?w 21 2 = take_bit 2 ?hw" if "\<not> bit sh 7" using that by (simp add: e)
  moreover have "move_wide_word c (take_bit 2 ?hw) (ucast imm) (ucast (reg_number r)) = ?w" if "\<not> bit sh 7"
    using that by (simp add: e)
  moreover have "encode_dp_imm (built out c m [OpReg r a l s e p, OpImmShiftedMove imm sh]) = Ok ?w"
    by (simp only: enc_move_wide_shifted [OF assms] shift_byte(1))
  moreover have "encode_dp_imm (built out c m [OpReg r a l s e p, OpImmShiftedMove imm (16 * (sh div 16 mod 4))]) =
      Ok (move_wide_word c (take_bit 2 ?hw) (ucast imm) (ucast (reg_number r)))"
    by (simp only: enc_move_wide_shifted [OF assms] shift_byte(2))
  ultimately show ?thesis unfolding shift_byte(3,4) by simp
qed

text \<open>\<open>movk x0, #1\<close> with the shift 128.\<close>

theorem move_wide_shift_unchecked_witness:
  "\<exists>w. encode_dp_imm (built (new_invalid 0 0) C_Movk64 M_Movk [OpPlainReg (RX 0), OpImmShiftedMove 1 128]) = Ok w \<and> bits w 23 6 = 0b100111"
  using move_wide_shift_unchecked [of C_Movk64 "new_invalid 0 0" M_Movk "RX 0" None None None None None 1 128] by (simp split: if_splits)

end
