(* ===== verification/Ldst_Decode.thy ===== *)
theory Ldst_Decode
  imports Mops Sys_Tables
begin

text \<open>
  \<open>src/decode/ldst.rs\<close>, first part: the operand builders, the classification of the load/store register forms, and the
  decoders of the literal, register and pair forms.  One definition per function of the file, in its order; the \<open>match\<close>es
  whose arms are codes are association lists of their arms.

  Access sizes and scales stay \<open>u32\<close>; a shift by one of them is \<open>push_bit (unat scale)\<close>.  An immediate is an \<open>i64\<close>, that
  is, a word read in two's complement, and \<open><<\<close> on it drops the bits it pushes out, as in Rust.
\<close>

section \<open>Operands\<close>

definition fp_reg :: "u32 \<Rightarrow> u32 \<Rightarrow> register" where
  "fp_reg fp_size n =
     (let n = ucast (n AND 0x1f)
      in if fp_size = 0 then RB n
         else if fp_size = 1 then RH n
         else if fp_size = 2 then RS n
         else if fp_size = 3 then RD n
         else RQ n)"

definition mem_off :: "u32 \<Rightarrow> i64 \<Rightarrow> operand" where
  "mem_off rn imm = OpMemImm (gp_register True X64 (ucast (rn AND 0x1f))) imm MemOffset"

definition mem_post :: "u32 \<Rightarrow> i64 \<Rightarrow> operand" where
  "mem_post rn imm = OpMemImm (gp_register True X64 (ucast (rn AND 0x1f))) imm MemPostImm"

definition mem_pre :: "u32 \<Rightarrow> i64 \<Rightarrow> operand" where
  "mem_pre rn imm = OpMemImm (gp_register True X64 (ucast (rn AND 0x1f))) imm MemPreIndex"

definition prefetch_names :: "((u32 \<times> u32 \<times> u32) \<times> string) list" where
  "prefetch_names =
    [((0, 0, 0), ''pldl1keep''), ((0, 0, 1), ''pldl1strm''), ((0, 1, 0), ''pldl2keep''), ((0, 1, 1), ''pldl2strm''),
     ((0, 2, 0), ''pldl3keep''), ((0, 2, 1), ''pldl3strm''), ((1, 0, 0), ''plil1keep''), ((1, 0, 1), ''plil1strm''),
     ((1, 1, 0), ''plil2keep''), ((1, 1, 1), ''plil2strm''), ((1, 2, 0), ''plil3keep''), ((1, 2, 1), ''plil3strm''),
     ((2, 0, 0), ''pstl1keep''), ((2, 0, 1), ''pstl1strm''), ((2, 1, 0), ''pstl2keep''), ((2, 1, 1), ''pstl2strm''),
     ((2, 2, 0), ''pstl3keep'')]"

definition prefetch_op :: "u32 \<Rightarrow> operand" where
  "prefetch_op rt =
     (let ty = drop_bit 3 rt AND 3;
          target = drop_bit 1 rt AND 3;
          policy = rt AND 1
      in if ty = 3 \<or> target = 3 then OpImmUnsigned (ucast rt)
         else OpSysOp (sys_token_of (the_default ''pstl3strm'' (map_of prefetch_names (ty, target, policy)))))"

definition rprfop_op :: "u32 \<Rightarrow> operand" where
  "rprfop_op imm6 =
     (let imm6 = imm6 AND 0x3f
      in if imm6 AND 0b111010 = 0 then
           OpSysOp (sys_token_of
             (if imm6 AND 0b100 = 0 then (if imm6 AND 1 = 0 then ''pldkeep'' else ''pstkeep'')
              else (if imm6 AND 1 = 0 then ''pldstrm'' else ''pststrm'')))
         else OpImmUnsigned (ucast imm6))"

section \<open>Classification of the register forms\<close>

record ldst_form =
  lf_code :: code
  lf_is_fp :: bool
  lf_fp_code :: u32
  lf_gp_x :: bool
  lf_scale :: u32
  lf_is_prfm :: bool

datatype reg_variant = RvUnsigned | RvUnscaled | RvImmPost | RvImmPre | RvRegOff

definition gp_form :: "code \<Rightarrow> bool \<Rightarrow> u32 \<Rightarrow> ldst_form" where
  "gp_form code x scale =
     \<lparr>lf_code = code, lf_is_fp = False, lf_fp_code = 0, lf_gp_x = x, lf_scale = scale, lf_is_prfm = False\<rparr>"

definition prfm_form :: "code \<Rightarrow> u32 \<Rightarrow> ldst_form" where
  "prfm_form code scale =
     \<lparr>lf_code = code, lf_is_fp = False, lf_fp_code = 0, lf_gp_x = True, lf_scale = scale, lf_is_prfm = True\<rparr>"

definition fp_form :: "code \<Rightarrow> u32 \<Rightarrow> u32 \<Rightarrow> ldst_form" where
  "fp_form code fp_code scale =
     \<lparr>lf_code = code, lf_is_fp = True, lf_fp_code = fp_code, lf_gp_x = False, lf_scale = scale, lf_is_prfm = False\<rparr>"

definition classify_gp :: "u32 \<Rightarrow> u32 \<Rightarrow> reg_variant \<Rightarrow> ldst_form option" where
  "classify_gp sz opc variant =
     (let reg = (variant = RvRegOff);
          f = (\<lambda>code x. gp_form code x sz)
      in map_of
           [((0, 0b00), f (if reg then C_StrbReg else C_StrbImmUnsigned) False),
            ((0, 0b01), f (if reg then C_LdrbReg else C_LdrbImmUnsigned) False),
            ((0, 0b10), f (if reg then C_LdrsbReg64 else C_LdrsbImmUnsigned64) True),
            ((0, 0b11), f (if reg then C_LdrsbReg32 else C_LdrsbImmUnsigned32) False),
            ((1, 0b00), f (if reg then C_StrhReg else C_StrhImmUnsigned) False),
            ((1, 0b01), f (if reg then C_LdrhReg else C_LdrhImmUnsigned) False),
            ((1, 0b10), f (if reg then C_LdrshReg64 else C_LdrshImmUnsigned64) True),
            ((1, 0b11), f (if reg then C_LdrshReg32 else C_LdrshImmUnsigned32) False),
            ((2, 0b00), f (if reg then C_StrReg32 else C_StrImmUnsigned32) False),
            ((2, 0b01), f (if reg then C_LdrReg32 else C_LdrImmUnsigned32) False),
            ((2, 0b10), f (if reg then C_LdrswReg else C_LdrswImmUnsigned) True),
            ((3, 0b00), f (if reg then C_StrReg64 else C_StrImmUnsigned64) True),
            ((3, 0b01), f (if reg then C_LdrReg64 else C_LdrImmUnsigned64) True),
            ((3, 0b10), prfm_form (if reg then C_PrfmReg else C_PrfmImmUnsigned) 3)]
           (sz, opc))"

definition classify_gp_unscaled :: "u32 \<Rightarrow> u32 \<Rightarrow> ldst_form option" where
  "classify_gp_unscaled sz opc =
     (let f = (\<lambda>code x. gp_form code x 0)
      in map_of
           [((0, 0b00), f C_Sturb False), ((0, 0b01), f C_Ldurb False),
            ((0, 0b10), f C_Ldursb64 True), ((0, 0b11), f C_Ldursb32 False),
            ((1, 0b00), f C_Sturh False), ((1, 0b01), f C_Ldurh False),
            ((1, 0b10), f C_Ldursh64 True), ((1, 0b11), f C_Ldursh32 False),
            ((2, 0b00), f C_Stur32 False), ((2, 0b01), f C_Ldur32 False), ((2, 0b10), f C_Ldursw True),
            ((3, 0b00), f C_Stur64 True), ((3, 0b01), f C_Ldur64 True), ((3, 0b10), prfm_form C_Prfum 0)]
           (sz, opc))"

definition classify_gp_immidx :: "u32 \<Rightarrow> u32 \<Rightarrow> reg_variant \<Rightarrow> ldst_form option" where
  "classify_gp_immidx sz opc variant =
     (let pre = (variant = RvImmPre);
          f = (\<lambda>post prec x. gp_form (if pre then prec else post) x 0)
      in map_of
           [((0, 0b00), f C_StrbImmPost C_StrbImmPre False), ((0, 0b01), f C_LdrbImmPost C_LdrbImmPre False),
            ((0, 0b10), f C_LdrsbImmPost64 C_LdrsbImmPre64 True), ((0, 0b11), f C_LdrsbImmPost32 C_LdrsbImmPre32 False),
            ((1, 0b00), f C_StrhImmPost C_StrhImmPre False), ((1, 0b01), f C_LdrhImmPost C_LdrhImmPre False),
            ((1, 0b10), f C_LdrshImmPost64 C_LdrshImmPre64 True), ((1, 0b11), f C_LdrshImmPost32 C_LdrshImmPre32 False),
            ((2, 0b00), f C_StrImmPost32 C_StrImmPre32 False), ((2, 0b01), f C_LdrImmPost32 C_LdrImmPre32 False),
            ((2, 0b10), f C_LdrswImmPost C_LdrswImmPre True),
            ((3, 0b00), f C_StrImmPost64 C_StrImmPre64 True), ((3, 0b01), f C_LdrImmPost64 C_LdrImmPre64 True)]
           (sz, opc))"

definition fp_unscaled_code :: "u32 \<Rightarrow> bool \<Rightarrow> code" where
  "fp_unscaled_code acc load =
     the_default C_StrFpImmUnsigned128
       (map_of
          [((0, True), C_LdrFpImmUnsigned8), ((1, True), C_LdrFpImmUnsigned16), ((2, True), C_LdrFpImmUnsigned32),
           ((3, True), C_LdrFpImmUnsigned64), ((4, True), C_LdrFpImmUnsigned128),
           ((0, False), C_StrFpImmUnsigned8), ((1, False), C_StrFpImmUnsigned16), ((2, False), C_StrFpImmUnsigned32),
           ((3, False), C_StrFpImmUnsigned64)]
          (acc, load))"

definition fp_immidx_code :: "u32 \<Rightarrow> bool \<Rightarrow> reg_variant \<Rightarrow> code" where
  "fp_immidx_code acc load variant = fp_unscaled_code acc load"

definition fp_reg_code :: "reg_variant \<Rightarrow> u32 \<Rightarrow> bool \<Rightarrow> code option" where
  "fp_reg_code variant acc load =
     (case variant of
        RvUnsigned \<Rightarrow>
          Some ((if load then
                   [C_LdrFpImmUnsigned8, C_LdrFpImmUnsigned16, C_LdrFpImmUnsigned32, C_LdrFpImmUnsigned64, C_LdrFpImmUnsigned128]
                 else
                   [C_StrFpImmUnsigned8, C_StrFpImmUnsigned16, C_StrFpImmUnsigned32, C_StrFpImmUnsigned64, C_StrFpImmUnsigned128])
                ! unat acc)
      | RvUnscaled \<Rightarrow> Some (fp_unscaled_code acc load)
      | RvImmPost \<Rightarrow> Some (fp_immidx_code acc load variant)
      | RvImmPre \<Rightarrow> Some (fp_immidx_code acc load variant)
      | RvRegOff \<Rightarrow>
          map_of
            [((0, True), C_LdrFpReg32), ((1, True), C_LdrFpReg32), ((2, True), C_LdrFpReg32), ((3, True), C_LdrFpReg64),
             ((4, True), C_LdrFpReg128), ((0, False), C_StrFpReg32), ((1, False), C_StrFpReg32), ((2, False), C_StrFpReg32),
             ((3, False), C_StrFpReg64), ((4, False), C_StrFpReg128)]
            (acc, load))"

definition classify_reg :: "u32 \<Rightarrow> u32 \<Rightarrow> u32 \<Rightarrow> reg_variant \<Rightarrow> ldst_form option" where
  "classify_reg sz v opc variant =
     (if v = 1 then
        (let acc = push_bit 2 (drop_bit 1 opc) OR sz
         in if acc > 4 then None
            else
             let load = (opc AND 1 = 1)
             in map_option (\<lambda>code. fp_form code acc acc) (fp_reg_code variant acc load))
      else
        (case variant of
           RvUnsigned \<Rightarrow> classify_gp sz opc variant
         | RvRegOff \<Rightarrow> classify_gp sz opc variant
         | RvUnscaled \<Rightarrow> classify_gp_unscaled sz opc
         | RvImmPost \<Rightarrow> classify_gp_immidx sz opc variant
         | RvImmPre \<Rightarrow> classify_gp_immidx sz opc variant))"

section \<open>Load register (literal)\<close>

definition decode_literal :: "u32 \<Rightarrow> u64 \<Rightarrow> insn \<Rightarrow> insn" where
  "decode_literal word ip out =
     (let opc = bits word 30 2;
          v = bit_at word 26;
          imm19 = bits word 5 19;
          rt = bits word 0 5;
          offset = sign_extend (push_bit 2 (ucast imm19)) 21;
          target = ip + offset
      in if v = 1 then
           (case map_of [(0b00, (C_LdrLitFp32, 2)), (0b01, (C_LdrLitFp64, 3)), (0b10, (C_LdrLitFp128, 4))] opc of
              None \<Rightarrow> out
            | Some (code, fp_code) \<Rightarrow>
                fold push_operand [OpPlainReg (fp_reg fp_code rt), OpLabel target] (insn_set code out))
         else if opc = 0b00 then fold push_operand [gp_reg False W32 rt, OpLabel target] (insn_set C_LdrLit32 out)
         else if opc = 0b01 then fold push_operand [gp_reg False X64 rt, OpLabel target] (insn_set C_LdrLit64 out)
         else if opc = 0b10 then fold push_operand [gp_reg False X64 rt, OpLabel target] (insn_set C_LdrswLit out)
         else fold push_operand [prefetch_op rt, OpLabel target] (insn_set C_PrfmLit out))"

section \<open>Load/store register\<close>

definition push_data_reg :: "ldst_form \<Rightarrow> u32 \<Rightarrow> insn \<Rightarrow> insn" where
  "push_data_reg form rt out =
     (if lf_is_prfm form then push_operand (prefetch_op rt) out
      else push_operand (gp_reg False (width_of (of_bool (lf_gp_x form))) rt) out)"

definition decode_reg_unsigned :: "u32 \<Rightarrow> insn \<Rightarrow> insn" where
  "decode_reg_unsigned word out =
     (let sz = bits word 30 2;
          v = bit_at word 26;
          opc = bits word 22 2;
          imm12 = bits word 10 12;
          rn = bits word 5 5;
          rt = bits word 0 5
      in case classify_reg sz v opc RvUnsigned of
           None \<Rightarrow> out
         | Some form \<Rightarrow>
            let imm = push_bit (unat (lf_scale form)) (ucast imm12);
                out = insn_set (lf_code form) out;
                out = (if lf_is_fp form then push_operand (OpPlainReg (fp_reg (lf_fp_code form) rt)) out
                       else push_data_reg form rt out)
            in push_operand (mem_off rn imm) out)"

definition decode_reg_unscaled :: "u32 \<Rightarrow> insn \<Rightarrow> insn" where
  "decode_reg_unscaled word out =
     (let sz = bits word 30 2;
          v = bit_at word 26;
          opc = bits word 22 2;
          imm9 = bits word 12 9;
          rn = bits word 5 5;
          rt = bits word 0 5;
          imm = sign_extend (ucast imm9) 9
      in case classify_reg sz v opc RvUnscaled of
           None \<Rightarrow> out
         | Some form \<Rightarrow>
            let out = insn_set (lf_code form) out;
                out = (if lf_is_fp form then
                         push_operand (OpPlainReg (fp_reg (lf_fp_code form) rt))
                           (set_alias (if opc AND 1 = 1 then M_Ldur else M_Stur) out)
                       else push_data_reg form rt out)
            in push_operand (mem_off rn imm) out)"

definition decode_reg_immidx :: "u32 \<Rightarrow> reg_variant \<Rightarrow> insn \<Rightarrow> insn" where
  "decode_reg_immidx word variant out =
     (let sz = bits word 30 2;
          v = bit_at word 26;
          opc = bits word 22 2;
          imm9 = bits word 12 9;
          rn = bits word 5 5;
          rt = bits word 0 5;
          imm = sign_extend (ucast imm9) 9
      in case classify_reg sz v opc variant of
           None \<Rightarrow> out
         | Some form \<Rightarrow>
            let out = insn_set (lf_code form) out;
                out = (if lf_is_fp form then
                         (let load = (opc AND 1 = 1)
                          in push_operand (OpPlainReg (fp_reg (lf_fp_code form) rt))
                               (set_alias (if load then M_Ldr else M_Str) out))
                       else push_data_reg form rt out);
                mem = (if variant = RvImmPre then mem_pre rn imm else mem_post rn imm)
            in push_operand mem out)"

definition decode_reg_immpost :: "u32 \<Rightarrow> insn \<Rightarrow> insn" where
  "decode_reg_immpost word out = decode_reg_immidx word RvImmPost out"

definition decode_reg_immpre :: "u32 \<Rightarrow> insn \<Rightarrow> insn" where
  "decode_reg_immpre word out = decode_reg_immidx word RvImmPre out"

definition unpriv_codes :: "((u32 \<times> u32) \<times> code \<times> u32) list" where
  "unpriv_codes =
    [((0, 0b00), (C_Sttrb, 0)), ((0, 0b01), (C_Ldtrb, 0)), ((0, 0b10), (C_Ldtrsb64, 1)), ((0, 0b11), (C_Ldtrsb32, 0)),
     ((1, 0b00), (C_Sttrh, 0)), ((1, 0b01), (C_Ldtrh, 0)), ((1, 0b10), (C_Ldtrsh64, 1)), ((1, 0b11), (C_Ldtrsh32, 0)),
     ((2, 0b00), (C_Sttr32, 0)), ((2, 0b01), (C_Ldtr32, 0)), ((2, 0b10), (C_Ldtrsw, 1)),
     ((3, 0b00), (C_Sttr64, 1)), ((3, 0b01), (C_Ldtr64, 1))]"

definition decode_reg_unpriv :: "u32 \<Rightarrow> insn \<Rightarrow> insn" where
  "decode_reg_unpriv word out =
     (if bit_at word 26 \<noteq> 0 then out
      else
       let sz = bits word 30 2;
           opc = bits word 22 2;
           imm9 = bits word 12 9;
           rn = bits word 5 5;
           rt = bits word 0 5;
           imm = sign_extend (ucast imm9) 9
       in case map_of unpriv_codes (sz, opc) of
            None \<Rightarrow> out
          | Some (code, x) \<Rightarrow>
              fold push_operand [gp_reg False (width_of x) rt, mem_off rn imm] (insn_set code out))"

definition pack_shift :: "u32 \<Rightarrow> u32 \<Rightarrow> u8 \<Rightarrow> u8" where
  "pack_shift option s amt = push_bit 7 (ucast s) OR (amt AND 0x7f)"

definition mem_ext :: "u32 \<Rightarrow> u32 \<Rightarrow> u32 \<Rightarrow> u32 \<Rightarrow> u32 \<Rightarrow> operand" where
  "mem_ext rn rm option s scale =
     (let ext = extend_type_from_bits (ucast option);
          idx_w = (ext \<in> {ExtUxtw, ExtSxtw});
          index = gp_register False (if idx_w then W32 else X64) (ucast (rm AND 0x1f));
          base = gp_register True X64 (ucast (rn AND 0x1f));
          amt = (if s = 1 then ucast scale else 0)
      in OpMemExt base index ext (pack_shift option s amt))"

definition decode_reg_offset :: "u32 \<Rightarrow> feature_set \<Rightarrow> insn \<Rightarrow> insn" where
  "decode_reg_offset word features out =
     (let sz = bits word 30 2;
          v = bit_at word 26;
          opc = bits word 22 2;
          rm = bits word 16 5;
          option = bits word 13 3;
          s = bit_at word 12;
          rn = bits word 5 5;
          rt = bits word 0 5
      in if option AND 0b010 = 0 then out
         else if sz = 0b11 \<and> v = 0 \<and> opc = 0b10 \<and> drop_bit 3 rt = 0b11 then
           (if \<not> has features F_Rprfm then out
            else
             let imm6 = push_bit 5 (drop_bit 2 option AND 1) OR push_bit 4 (option AND 1) OR push_bit 3 s OR (rt AND 0b111)
             in fold push_operand [rprfop_op imm6, gp_reg False X64 rm, mem_off rn 0] (insn_set C_RprfmReg out))
         else
           (case classify_reg sz v opc RvRegOff of
              None \<Rightarrow> out
            | Some form \<Rightarrow>
               let out = insn_set (lf_code form) out;
                   out = (if lf_is_fp form then
                            (let load = (opc AND 1 = 1)
                             in push_operand (OpPlainReg (fp_reg (lf_fp_code form) rt))
                                  (set_alias (if load then M_Ldr else M_Str) out))
                          else if lf_is_prfm form then push_operand (prefetch_op rt) out
                          else push_operand (gp_reg False (width_of (of_bool (lf_gp_x form))) rt) out)
               in push_operand (mem_ext rn rm option s (lf_scale form)) out))"

section \<open>Load/store pair\<close>

definition pair_mem :: "u32 \<Rightarrow> u32 \<Rightarrow> i64 \<Rightarrow> operand" where
  "pair_mem idx rn imm =
     (if idx = 0b01 then mem_post rn imm else if idx = 0b11 then mem_pre rn imm else mem_off rn imm)"

datatype gp_pair_kind = PairW | PairX | PairSw

definition pair_code_gp :: "u32 \<Rightarrow> u32 \<Rightarrow> gp_pair_kind \<Rightarrow> code option" where
  "pair_code_gp idx l kind =
     (let load = (l = 1)
      in case kind of
           PairW \<Rightarrow>
             map_of [((0b00, True), C_Ldnp32), ((0b00, False), C_Stnp32), ((0b01, True), C_Ldp32Post), ((0b01, False), C_Stp32Post),
                     ((0b10, True), C_Ldp32), ((0b10, False), C_Stp32), ((0b11, True), C_Ldp32Pre), ((0b11, False), C_Stp32Pre)]
               (idx, load)
         | PairX \<Rightarrow>
             map_of [((0b00, True), C_Ldnp64), ((0b00, False), C_Stnp64), ((0b01, True), C_Ldp64Post), ((0b01, False), C_Stp64Post),
                     ((0b10, True), C_Ldp64), ((0b10, False), C_Stp64), ((0b11, True), C_LdpPre64), ((0b11, False), C_Stp64Pre)]
               (idx, load)
         | PairSw \<Rightarrow> map_of [(0b01, C_LdpswPost), (0b10, C_Ldpsw), (0b11, C_LdpswPre)] idx)"

definition emit_stgp :: "u32 \<Rightarrow> u32 \<Rightarrow> u32 \<Rightarrow> u32 \<Rightarrow> u32 \<Rightarrow> insn \<Rightarrow> insn" where
  "emit_stgp idx imm7 rt2 rn rt out =
     (case map_of [(0b01, C_StgpPost), (0b10, C_StgpOff), (0b11, C_StgpPre)] idx of
        None \<Rightarrow> out
      | Some code \<Rightarrow>
         let imm = push_bit 4 (sign_extend (ucast imm7) 7)
         in fold push_operand [gp_reg False X64 rt, gp_reg False X64 rt2, pair_mem idx rn imm] (insn_set code out))"

definition decode_the_pair :: "u32 \<Rightarrow> u32 \<Rightarrow> u32 \<Rightarrow> u32 \<Rightarrow> u32 \<Rightarrow> u32 \<Rightarrow> feature_set \<Rightarrow> insn \<Rightarrow> insn" where
  "decode_the_pair idx l imm7 rt2 rn rt features out =
     (if \<not> has features F_The then out
      else
       let load = (l = 1)
       in case map_of [((0b00, True), C_Ldtnp), ((0b00, False), C_Sttnp), ((0b01, True), C_LdtpPost), ((0b01, False), C_SttpPost),
                       ((0b10, True), C_LdtpOff), ((0b10, False), C_SttpOff), ((0b11, True), C_LdtpPre), ((0b11, False), C_SttpPre)]
                 (idx, load) of
            None \<Rightarrow> out
          | Some code \<Rightarrow>
             let imm = push_bit 3 (sign_extend (ucast imm7) 7)
             in fold push_operand [gp_reg False X64 rt, gp_reg False X64 rt2, pair_mem idx rn imm] (insn_set code out))"

definition decode_the_pair_q :: "u32 \<Rightarrow> u32 \<Rightarrow> u32 \<Rightarrow> u32 \<Rightarrow> u32 \<Rightarrow> u32 \<Rightarrow> feature_set \<Rightarrow> insn \<Rightarrow> insn" where
  "decode_the_pair_q idx l imm7 rt2 rn rt features out =
     (if \<not> has features F_Lsui then out
      else
       let load = (l = 1)
       in case map_of [((0b00, True), C_Ldtnpq), ((0b00, False), C_Sttnpq), ((0b01, True), C_LdtpqPost), ((0b01, False), C_SttpqPost),
                       ((0b10, True), C_LdtpqOff), ((0b10, False), C_SttpqOff), ((0b11, True), C_LdtpqPre), ((0b11, False), C_SttpqPre)]
                 (idx, load) of
            None \<Rightarrow> out
          | Some code \<Rightarrow>
             let imm = push_bit 4 (sign_extend (ucast imm7) 7)
             in fold push_operand [OpPlainReg (fp_reg 4 rt), OpPlainReg (fp_reg 4 rt2), pair_mem idx rn imm] (insn_set code out))"

definition decode_pair :: "u32 \<Rightarrow> feature_set \<Rightarrow> insn \<Rightarrow> insn" where
  "decode_pair word features out =
     (let opc = bits word 30 2;
          v = bit_at word 26;
          idx = bits word 23 2;
          l = bit_at word 22;
          imm7 = bits word 15 7;
          rt2 = bits word 10 5;
          rn = bits word 5 5;
          rt = bits word 0 5
      in if opc = 0b11 then
           (if v = 0 then decode_the_pair idx l imm7 rt2 rn rt features out
            else decode_the_pair_q idx l imm7 rt2 rn rt features out)
         else if opc = 0b01 \<and> v = 0 \<and> l = 0 then
           (if \<not> has features F_Mte then out else emit_stgp idx imm7 rt2 rn rt out)
         else
          let is_np = (idx = 0b00);
              load = (l = 1)
          in if v = 1 then
               (case map_of [(0b00, (2, 2)), (0b01, (3, 3)), (0b10, (4, 4))] opc of
                  None \<Rightarrow> out
                | Some (fp_code, scale) \<Rightarrow>
                   let code =
                         the_default C_StpFp128
                           (map_of [((True, 2), C_LdpFp32), ((True, 3), C_LdpFp64), ((True, 4), C_LdpFp128),
                                    ((False, 2), C_StpFp32), ((False, 3), C_StpFp64)] (load, fp_code));
                       imm = push_bit (unat (scale :: u32)) (sign_extend (ucast imm7) 7);
                       out = insn_set code out;
                       out = (if is_np then set_alias (if load then M_Ldnp else M_Stnp) out else out)
                   in fold push_operand
                        [OpPlainReg (fp_reg fp_code rt), OpPlainReg (fp_reg fp_code rt2), pair_mem idx rn imm] out)
             else
               (let row =
                  (if opc = 0b00 then Some (False, 2, pair_code_gp idx l PairW)
                   else if opc = 0b01 then (if \<not> load then None else Some (True, 2, pair_code_gp idx l PairSw))
                   else if opc = 0b10 then Some (True, 3, pair_code_gp idx l PairX)
                   else None)
                in case row of
                     None \<Rightarrow> out
                   | Some (gp_x, scale, code) \<Rightarrow>
                      (case code of
                         None \<Rightarrow> out
                       | Some c \<Rightarrow>
                          let imm = push_bit (unat (scale :: u32)) (sign_extend (ucast imm7) 7);
                              w = width_of (of_bool gp_x)
                          in fold push_operand [gp_reg False w rt, gp_reg False w rt2, pair_mem idx rn imm]
                               (insn_set c out))))"

end
