(* ===== verification/Ldst_Atomics_Decode.thy ===== *)
theory Ldst_Atomics_Decode
  imports Ldst_Decode
begin

text \<open>
  \<open>src/decode/ldst.rs\<close>, second part: the exclusive, ordered and compare-and-swap forms, the atomic memory operations of
  FEAT_LSE, FEAT_LSUI, FEAT_LSFE, FEAT_THE, FEAT_LSE128 and FEAT_LS64.  One definition per function of the file, in its order;
  the arms of a \<open>match\<close> on selector fields are an association list, and an array indexed by the ordering \<open>A:R\<close> is the
  list indexed by it.
\<close>

section \<open>Load/store exclusive and ordered\<close>

definition excl_single_codes :: "((u32 \<times> bool \<times> bool) \<times> code) list" where
  "excl_single_codes =
    [((0, True, False), C_Ldxrb), ((0, True, True), C_Ldaxrb), ((0, False, False), C_Stxrb), ((0, False, True), C_Stlxrb),
     ((1, True, False), C_Ldxrh), ((1, True, True), C_Ldaxrh), ((1, False, False), C_Stxrh), ((1, False, True), C_Stlxrh),
     ((2, True, False), C_Ldxr32), ((2, True, True), C_Ldaxr32), ((2, False, False), C_Stxr32), ((2, False, True), C_Stlxr32),
     ((3, True, False), C_Ldxr64), ((3, True, True), C_Ldaxr64), ((3, False, False), C_Stxr64)]"

definition decode_excl_single :: "u32 \<Rightarrow> u32 \<Rightarrow> u32 \<Rightarrow> u32 \<Rightarrow> u32 \<Rightarrow> u32 \<Rightarrow> insn \<Rightarrow> insn" where
  "decode_excl_single sz l o0 rs rn rt out =
     (let load = (l = 1);
          acquire = (o0 = 1);
          code = the_default C_Stlxr64 (map_of excl_single_codes (sz, load, acquire));
          out = insn_set code out;
          rt_x = (sz = 3)
      in if load then
           fold push_operand [gp_reg False (width_of (of_bool rt_x)) rt, mem_off rn 0] out
         else
           fold push_operand [gp_reg False W32 rs, gp_reg False (width_of (of_bool rt_x)) rt, mem_off rn 0] out)"

definition decode_excl_pair :: "u32 \<Rightarrow> u32 \<Rightarrow> u32 \<Rightarrow> u32 \<Rightarrow> u32 \<Rightarrow> u32 \<Rightarrow> u32 \<Rightarrow> insn \<Rightarrow> insn" where
  "decode_excl_pair sz l o0 rs rt2 rn rt out =
     (let load = (l = 1);
          acquire = (o0 = 1);
          x = (sz = 3);
          code =
            the_default C_Stlxp64
              (map_of [((True, False, False), C_Ldxp32), ((True, False, True), C_Ldxp64), ((True, True, False), C_Ldaxp32),
                       ((True, True, True), C_Ldaxp64), ((False, False, False), C_Stxp32), ((False, False, True), C_Stxp64),
                       ((False, True, False), C_Stlxp32)] (load, acquire, x));
          out = insn_set code out;
          w = width_of (of_bool x)
      in if load then fold push_operand [gp_reg False w rt, gp_reg False w rt2, mem_off rn 0] out
         else fold push_operand [gp_reg False W32 rs, gp_reg False w rt, gp_reg False w rt2, mem_off rn 0] out)"

definition ordered_codes :: "((u32 \<times> bool \<times> u32) \<times> code) list" where
  "ordered_codes =
    [((0, True, 1), C_Ldarb), ((0, False, 1), C_Stlrb), ((0, True, 0), C_Ldlarb), ((0, False, 0), C_Stllrb),
     ((1, True, 1), C_Ldarh), ((1, False, 1), C_Stlrh), ((1, True, 0), C_Ldlarh), ((1, False, 0), C_Stllrh),
     ((2, True, 1), C_Ldar32), ((2, False, 1), C_Stlr32), ((2, True, 0), C_Ldlar32), ((2, False, 0), C_Stllr32),
     ((3, True, 1), C_Ldar64), ((3, False, 1), C_Stlr64), ((3, True, 0), C_Ldlar64)]"

definition decode_ordered :: "u32 \<Rightarrow> u32 \<Rightarrow> u32 \<Rightarrow> u32 \<Rightarrow> u32 \<Rightarrow> insn \<Rightarrow> insn" where
  "decode_ordered sz l o0 rn rt out =
     (let load = (l = 1);
          code = the_default C_Stllr64 (map_of ordered_codes (sz, load, o0));
          x = (sz = 3)
      in fold push_operand [gp_reg False (width_of (of_bool x)) rt, mem_off rn 0] (insn_set code out))"

definition cas_codes :: "((u32 \<times> u32 \<times> u32) \<times> code) list" where
  "cas_codes =
    [((0, 0, 0), C_Casb), ((0, 1, 0), C_Casab), ((0, 0, 1), C_Caslb), ((0, 1, 1), C_Casalb),
     ((1, 0, 0), C_Cash), ((1, 1, 0), C_Casah), ((1, 0, 1), C_Caslh), ((1, 1, 1), C_Casalh),
     ((2, 0, 0), C_Cas32), ((2, 1, 0), C_Casa32), ((2, 0, 1), C_Casl32), ((2, 1, 1), C_Casal32),
     ((3, 0, 0), C_Cas64), ((3, 1, 0), C_Casa64), ((3, 0, 1), C_Casl64)]"

definition decode_cas :: "u32 \<Rightarrow> u32 \<Rightarrow> u32 \<Rightarrow> u32 \<Rightarrow> u32 \<Rightarrow> u32 \<Rightarrow> feature_set \<Rightarrow> insn \<Rightarrow> insn" where
  "decode_cas sz l o0 rs rn rt features out =
     (if \<not> has features F_Lse then out
      else
       let code = the_default C_Casal64 (map_of cas_codes (sz, l, o0));
           x = (sz = 3);
           w = width_of (of_bool x)
       in fold push_operand [gp_reg False w rs, gp_reg False w rt, mem_off rn 0] (insn_set code out))"

definition decode_casp :: "u32 \<Rightarrow> u32 \<Rightarrow> u32 \<Rightarrow> u32 \<Rightarrow> u32 \<Rightarrow> u32 \<Rightarrow> feature_set \<Rightarrow> insn \<Rightarrow> insn" where
  "decode_casp sz l o0 rs rn rt features out =
     (if \<not> has features F_Lse then out
      else if rs AND 1 \<noteq> 0 \<or> rt AND 1 \<noteq> 0 then out
      else
       let x = (sz = 1);
           code =
             the_default C_Caspal64
               (map_of [((False, 0, 0), C_Casp32), ((False, 1, 0), C_Caspa32), ((False, 0, 1), C_Caspl32), ((False, 1, 1), C_Caspal32),
                        ((True, 0, 0), C_Casp64), ((True, 1, 0), C_Caspa64), ((True, 0, 1), C_Caspl64)] (x, l, o0));
           w = width_of (of_bool x)
       in fold push_operand
            [gp_reg False w rs, gp_reg False w (rs + 1), gp_reg False w rt, gp_reg False w (rt + 1), mem_off rn 0]
            (insn_set code out))"

definition decode_exclusive :: "u32 \<Rightarrow> feature_set \<Rightarrow> insn \<Rightarrow> insn" where
  "decode_exclusive word features out =
     (let sz = bits word 30 2;
          o2 = bit_at word 23;
          l = bit_at word 22;
          o1 = bit_at word 21;
          rs = bits word 16 5;
          o0 = bit_at word 15;
          rt2 = bits word 10 5;
          rn = bits word 5 5;
          rt = bits word 0 5
      in if o2 = 0 then
           (if o1 = 0 then decode_excl_single sz l o0 rs rn rt out
            else if bit_at sz 1 = 1 then decode_excl_pair sz l o0 rs rt2 rn rt out
            else if rt2 = 0b11111 then decode_casp sz l o0 rs rn rt features out
            else out)
         else if o1 = 1 then
           (if rt2 = 0b11111 then decode_cas sz l o0 rs rn rt features out else out)
         else decode_ordered sz l o0 rn rt out)"

section \<open>FEAT_LSUI\<close>

definition decode_lsui_excl_single :: "u32 \<Rightarrow> u32 \<Rightarrow> u32 \<Rightarrow> u32 \<Rightarrow> u32 \<Rightarrow> u32 \<Rightarrow> insn \<Rightarrow> insn" where
  "decode_lsui_excl_single sz l o0 rs rn rt out =
     (let load = (l = 1);
          acquire = (o0 = 1)
      in case map_of [((2, True, False), C_Ldtxr32), ((2, True, True), C_Ldatxr32), ((2, False, False), C_Sttxr32),
                      ((2, False, True), C_Stltxr32), ((3, True, False), C_Ldtxr64), ((3, True, True), C_Ldatxr64),
                      ((3, False, False), C_Sttxr64), ((3, False, True), C_Stltxr64)] (sz, load, acquire) of
           None \<Rightarrow> out
         | Some code \<Rightarrow>
            let out = insn_set code out;
                rt_x = (sz = 3)
            in if load then
                 fold push_operand [gp_reg False (width_of (of_bool rt_x)) rt, mem_off rn 0] out
               else
                 fold push_operand [gp_reg False W32 rs, gp_reg False (width_of (of_bool rt_x)) rt, mem_off rn 0] out)"

definition decode_lsui_cas :: "u32 \<Rightarrow> u32 \<Rightarrow> u32 \<Rightarrow> u32 \<Rightarrow> u32 \<Rightarrow> u32 \<Rightarrow> insn \<Rightarrow> insn" where
  "decode_lsui_cas sz l o0 rs rn rt out =
     (if sz \<noteq> 3 then out
      else
       let code = the_default C_Casalt64 (map_of [((0, 0), C_Cast64), ((1, 0), C_Casat64), ((0, 1), C_Caslt64)] (l, o0))
       in fold push_operand [gp_reg False X64 rs, gp_reg False X64 rt, mem_off rn 0] (insn_set code out))"

definition decode_lsui_casp :: "u32 \<Rightarrow> u32 \<Rightarrow> u32 \<Rightarrow> u32 \<Rightarrow> u32 \<Rightarrow> u32 \<Rightarrow> insn \<Rightarrow> insn" where
  "decode_lsui_casp sz l o0 rs rn rt out =
     (if sz \<noteq> 1 then out
      else if rs AND 1 \<noteq> 0 \<or> rt AND 1 \<noteq> 0 then out
      else
       let code = the_default C_Caspalt64 (map_of [((0, 0), C_Caspt64), ((1, 0), C_Caspat64), ((0, 1), C_Casplt64)] (l, o0))
       in fold push_operand
            [gp_reg False X64 rs, gp_reg False X64 (rs + 1), gp_reg False X64 rt, gp_reg False X64 (rt + 1), mem_off rn 0]
            (insn_set code out))"

definition decode_lsui :: "u32 \<Rightarrow> feature_set \<Rightarrow> insn \<Rightarrow> insn" where
  "decode_lsui word features out =
     (if \<not> has features F_Lsui then out
      else
       let sz = bits word 30 2;
           o2 = bit_at word 23;
           l = bit_at word 22;
           o1 = bit_at word 21;
           rs = bits word 16 5;
           o0 = bit_at word 15;
           rn = bits word 5 5;
           rt = bits word 0 5
       in if o1 \<noteq> 0 then out
          else if o2 = 0 then decode_lsui_excl_single sz l o0 rs rn rt out
          else if bit_at sz 1 = 1 then decode_lsui_cas sz l o0 rs rn rt out
          else decode_lsui_casp sz l o0 rs rn rt out)"

section \<open>Atomic memory operations\<close>

datatype atomic_op =
    AtomicAdd | AtomicClr | AtomicEor | AtomicSet | AtomicSmax | AtomicSmin | AtomicUmax | AtomicUmin

definition pick :: "u32 \<Rightarrow> u32 \<Rightarrow> mnemonic list \<Rightarrow> mnemonic list \<Rightarrow> mnemonic list \<Rightarrow> mnemonic" where
  "pick sz ord word_forms byte_forms half_forms =
     (if sz = 0 then byte_forms ! unat ord else if sz = 1 then half_forms ! unat ord else word_forms ! unat ord)"

primrec ld_forms :: "atomic_op \<Rightarrow> mnemonic list \<times> mnemonic list \<times> mnemonic list" where
  "ld_forms AtomicAdd =
     ([M_Ldadd, M_Ldaddl, M_Ldadda, M_Ldaddal],
      [M_Ldaddb, M_Ldaddlb, M_Ldaddab, M_Ldaddalb],
      [M_Ldaddh, M_Ldaddlh, M_Ldaddah, M_Ldaddalh])"
| "ld_forms AtomicClr =
     ([M_Ldclr, M_Ldclrl, M_Ldclra, M_Ldclral],
      [M_Ldclrb, M_Ldclrlb, M_Ldclrab, M_Ldclralb],
      [M_Ldclrh, M_Ldclrlh, M_Ldclrah, M_Ldclralh])"
| "ld_forms AtomicEor =
     ([M_Ldeor, M_Ldeorl, M_Ldeora, M_Ldeoral],
      [M_Ldeorb, M_Ldeorlb, M_Ldeorab, M_Ldeoralb],
      [M_Ldeorh, M_Ldeorlh, M_Ldeorah, M_Ldeoralh])"
| "ld_forms AtomicSet =
     ([M_Ldset, M_Ldsetl, M_Ldseta, M_Ldsetal],
      [M_Ldsetb, M_Ldsetlb, M_Ldsetab, M_Ldsetalb],
      [M_Ldseth, M_Ldsetlh, M_Ldsetah, M_Ldsetalh])"
| "ld_forms AtomicSmax =
     ([M_Ldsmax, M_Ldsmaxl, M_Ldsmaxa, M_Ldsmaxal],
      [M_Ldsmaxb, M_Ldsmaxlb, M_Ldsmaxab, M_Ldsmaxalb],
      [M_Ldsmaxh, M_Ldsmaxlh, M_Ldsmaxah, M_Ldsmaxalh])"
| "ld_forms AtomicSmin =
     ([M_Ldsmin, M_Ldsminl, M_Ldsmina, M_Ldsminal],
      [M_Ldsminb, M_Ldsminlb, M_Ldsminab, M_Ldsminalb],
      [M_Ldsminh, M_Ldsminlh, M_Ldsminah, M_Ldsminalh])"
| "ld_forms AtomicUmax =
     ([M_Ldumax, M_Ldumaxl, M_Ldumaxa, M_Ldumaxal],
      [M_Ldumaxb, M_Ldumaxlb, M_Ldumaxab, M_Ldumaxalb],
      [M_Ldumaxh, M_Ldumaxlh, M_Ldumaxah, M_Ldumaxalh])"
| "ld_forms AtomicUmin =
     ([M_Ldumin, M_Lduminl, M_Ldumina, M_Lduminal],
      [M_Lduminb, M_Lduminlb, M_Lduminab, M_Lduminalb],
      [M_Lduminh, M_Lduminlh, M_Lduminah, M_Lduminalh])"

definition ld_mnemonic :: "atomic_op \<Rightarrow> u32 \<Rightarrow> u32 \<Rightarrow> u32 \<Rightarrow> mnemonic" where
  "ld_mnemonic op sz a r =
     (let ord = push_bit 1 a OR r;
          (word_forms, byte_forms, half_forms) = ld_forms op
      in pick sz ord word_forms byte_forms half_forms)"

primrec st_forms :: "atomic_op \<Rightarrow> mnemonic list \<times> mnemonic list \<times> mnemonic list" where
  "st_forms AtomicAdd = ([M_Stadd, M_Staddl], [M_Staddb, M_Staddlb], [M_Staddh, M_Staddlh])"
| "st_forms AtomicClr = ([M_Stclr, M_Stclrl], [M_Stclrb, M_Stclrlb], [M_Stclrh, M_Stclrlh])"
| "st_forms AtomicEor = ([M_Steor, M_Steorl], [M_Steorb, M_Steorlb], [M_Steorh, M_Steorlh])"
| "st_forms AtomicSet = ([M_Stset, M_Stsetl], [M_Stsetb, M_Stsetlb], [M_Stseth, M_Stsetlh])"
| "st_forms AtomicSmax = ([M_Stsmax, M_Stsmaxl], [M_Stsmaxb, M_Stsmaxlb], [M_Stsmaxh, M_Stsmaxlh])"
| "st_forms AtomicSmin = ([M_Stsmin, M_Stsminl], [M_Stsminb, M_Stsminlb], [M_Stsminh, M_Stsminlh])"
| "st_forms AtomicUmax = ([M_Stumax, M_Stumaxl], [M_Stumaxb, M_Stumaxlb], [M_Stumaxh, M_Stumaxlh])"
| "st_forms AtomicUmin = ([M_Stumin, M_Stuminl], [M_Stuminb, M_Stuminlb], [M_Stuminh, M_Stuminlh])"

definition pick_st :: "u32 \<Rightarrow> u32 \<Rightarrow> mnemonic list \<Rightarrow> mnemonic list \<Rightarrow> mnemonic list \<Rightarrow> mnemonic" where
  "pick_st sz r word_forms byte_forms half_forms =
     (if sz = 0 then byte_forms ! unat r else if sz = 1 then half_forms ! unat r else word_forms ! unat r)"

definition st_mnemonic :: "atomic_op \<Rightarrow> u32 \<Rightarrow> u32 \<Rightarrow> mnemonic" where
  "st_mnemonic op sz r =
     (let (word_forms, byte_forms, half_forms) = st_forms op
      in pick_st sz r word_forms byte_forms half_forms)"

definition atomic_simple :: "u32 \<Rightarrow> code \<Rightarrow> code \<Rightarrow> code \<Rightarrow> code \<Rightarrow> code" where
  "atomic_simple sz c32 c64 cb ch = (if sz = 0 then cb else if sz = 1 then ch else if sz = 3 then c64 else c32)"

definition ordered_code :: "u32 \<Rightarrow> u32 \<Rightarrow> code list \<Rightarrow> code list \<Rightarrow> code \<Rightarrow> code \<Rightarrow> code option" where
  "ordered_code sz ord c32 c64 cb ch =
     (if sz = 2 then Some (c32 ! unat ord) else if sz = 3 then Some (c64 ! unat ord)
      else if sz = 0 then Some cb else if sz = 1 then Some ch else None)"

definition atomic_code :: "u32 \<Rightarrow> u32 \<Rightarrow> u32 \<Rightarrow> atomic_op \<Rightarrow> code option" where
  "atomic_code sz a r op =
     (let ord = push_bit 1 a OR r
      in case op of
           AtomicAdd \<Rightarrow>
             ordered_code sz ord [C_Ldadd32, C_Ldaddl32, C_Ldadda32, C_Ldaddal32]
               [C_Ldadd64, C_Ldaddl64, C_Ldadda64, C_Ldaddal64] C_Ldaddb C_Ldaddh
         | AtomicClr \<Rightarrow>
             ordered_code sz ord [C_Ldclr32, C_Ldclrl32, C_Ldclra32, C_Ldclral32]
               [C_Ldclr64, C_Ldclrl64, C_Ldclra64, C_Ldclral64] C_Ldclrb C_Ldclrh
         | AtomicEor \<Rightarrow>
             ordered_code sz ord [C_Ldeor32, C_Ldeorl32, C_Ldeora32, C_Ldeoral32]
               [C_Ldeor64, C_Ldeorl64, C_Ldeora64, C_Ldeoral64] C_Ldeorb C_Ldeorh
         | AtomicSet \<Rightarrow>
             ordered_code sz ord [C_Ldset32, C_Ldsetl32, C_Ldseta32, C_Ldsetal32]
               [C_Ldset64, C_Ldsetl64, C_Ldseta64, C_Ldsetal64] C_Ldsetb C_Ldseth
         | AtomicSmax \<Rightarrow> Some (atomic_simple sz C_Ldsmax32 C_Ldsmax64 C_Ldsmaxb C_Ldsmaxh)
         | AtomicSmin \<Rightarrow> Some (atomic_simple sz C_Ldsmin32 C_Ldsmin64 C_Ldsminb C_Ldsminh)
         | AtomicUmax \<Rightarrow> Some (atomic_simple sz C_Ldumax32 C_Ldumax64 C_Ldumaxb C_Ldumaxh)
         | AtomicUmin \<Rightarrow> Some (atomic_simple sz C_Ldumin32 C_Ldumin64 C_Lduminb C_Lduminh))"

definition emit_atomic_rmw :: "u32 \<Rightarrow> u32 \<Rightarrow> u32 \<Rightarrow> atomic_op \<Rightarrow> u32 \<Rightarrow> u32 \<Rightarrow> u32 \<Rightarrow> insn \<Rightarrow> insn" where
  "emit_atomic_rmw sz a r op rs rn rt out =
     (case atomic_code sz a r op of
        None \<Rightarrow> out
      | Some code \<Rightarrow>
         let out = insn_set code out;
             st_alias = (rt = 31 \<and> a = 0);
             x = (sz = 3);
             w = width_of (of_bool x)
         in if st_alias then
              fold push_operand [gp_reg False w rs, mem_off rn 0] (set_alias (st_mnemonic op sz r) out)
            else
              fold push_operand [gp_reg False w rs, gp_reg False w rt, mem_off rn 0] (set_alias (ld_mnemonic op sz a r) out))"

definition swp_codes :: "((u32 \<times> u32) \<times> code) list" where
  "swp_codes =
    [((2, 0), C_Swp32), ((2, 1), C_Swpl32), ((2, 2), C_Swpa32), ((2, 3), C_Swpal32),
     ((3, 0), C_Swp64), ((3, 1), C_Swpl64), ((3, 2), C_Swpa64), ((3, 3), C_Swpal64),
     ((0, 0), C_Swpb), ((0, 1), C_Swplb), ((0, 2), C_Swpab), ((0, 3), C_Swpalb),
     ((1, 0), C_Swph), ((1, 1), C_Swplh), ((1, 2), C_Swpah)]"

definition emit_swp :: "u32 \<Rightarrow> u32 \<Rightarrow> u32 \<Rightarrow> u32 \<Rightarrow> u32 \<Rightarrow> u32 \<Rightarrow> insn \<Rightarrow> insn" where
  "emit_swp sz a r rs rn rt out =
     (let ord = push_bit 1 a OR r;
          code = the_default C_Swpalh (map_of swp_codes (sz, ord));
          x = (sz = 3);
          w = width_of (of_bool x)
      in fold push_operand [gp_reg False w rs, gp_reg False w rt, mem_off rn 0] (insn_set code out))"

section \<open>FEAT_LSFE\<close>

definition lsfe_ld_f :: "code list list" where
  "lsfe_ld_f =
    [[C_Ldfadd, C_Ldfaddl, C_Ldfadda, C_Ldfaddal],
     [C_Ldfmax, C_Ldfmaxl, C_Ldfmaxa, C_Ldfmaxal],
     [C_Ldfmin, C_Ldfminl, C_Ldfmina, C_Ldfminal],
     [C_Ldfmaxnm, C_Ldfmaxnml, C_Ldfmaxnma, C_Ldfmaxnmal],
     [C_Ldfminnm, C_Ldfminnml, C_Ldfminnma, C_Ldfminnmal]]"

definition lsfe_ld_bf :: "code list list" where
  "lsfe_ld_bf =
    [[C_Ldbfadd, C_Ldbfaddl, C_Ldbfadda, C_Ldbfaddal],
     [C_Ldbfmax, C_Ldbfmaxl, C_Ldbfmaxa, C_Ldbfmaxal],
     [C_Ldbfmin, C_Ldbfminl, C_Ldbfmina, C_Ldbfminal],
     [C_Ldbfmaxnm, C_Ldbfmaxnml, C_Ldbfmaxnma, C_Ldbfmaxnmal],
     [C_Ldbfminnm, C_Ldbfminnml, C_Ldbfminnma, C_Ldbfminnmal]]"

definition lsfe_st_f :: "code list list" where
  "lsfe_st_f =
    [[C_Stfadd, C_Stfaddl],
     [C_Stfmax, C_Stfmaxl],
     [C_Stfmin, C_Stfminl],
     [C_Stfmaxnm, C_Stfmaxnml],
     [C_Stfminnm, C_Stfminnml]]"

definition lsfe_st_bf :: "code list list" where
  "lsfe_st_bf =
    [[C_Stbfadd, C_Stbfaddl],
     [C_Stbfmax, C_Stbfmaxl],
     [C_Stbfmin, C_Stbfminl],
     [C_Stbfmaxnm, C_Stbfmaxnml],
     [C_Stbfminnm, C_Stbfminnml]]"

definition lsfe_ld_code :: "nat \<Rightarrow> nat \<Rightarrow> bool \<Rightarrow> code" where
  "lsfe_ld_code op_idx ord is_bf = (if is_bf then lsfe_ld_bf ! op_idx ! ord else lsfe_ld_f ! op_idx ! ord)"

definition lsfe_st_code :: "nat \<Rightarrow> u32 \<Rightarrow> bool \<Rightarrow> code" where
  "lsfe_st_code op_idx r is_bf =
     (let i = unat r
      in if is_bf then lsfe_st_bf ! op_idx ! i else lsfe_st_f ! op_idx ! i)"

definition decode_lsfe :: "u32 \<Rightarrow> feature_set \<Rightarrow> insn \<Rightarrow> insn" where
  "decode_lsfe word features out =
     (if \<not> has features F_Lsfe then out
      else
       let sz = bits word 30 2;
           a = bit_at word 23;
           r = bit_at word 22;
           rs = bits word 16 5;
           o3 = bit_at word 15;
           opc = bits word 12 3;
           rn = bits word 5 5;
           rt = bits word 0 5
       in case map_of [(0b000, 0), (0b100, 1), (0b101, 2), (0b110, 3), (0b111, 4)] opc of
            None \<Rightarrow> out
          | Some op_idx \<Rightarrow>
             let is_bf = (sz = 0);
                 sc = (if sz = 0 then 1 else sz)
             in if o3 = 0 then
                  (let ord = unat (push_bit 1 a OR r)
                   in fold push_operand [OpPlainReg (fp_reg sc rs), OpPlainReg (fp_reg sc rt), mem_off rn 0]
                        (insn_set (lsfe_ld_code op_idx ord is_bf) out))
                else if rt \<noteq> 0b11111 \<or> a \<noteq> 0 then out
                else
                  fold push_operand [OpPlainReg (fp_reg sc rs), mem_off rn 0] (insn_set (lsfe_st_code op_idx r is_bf) out))"

section \<open>The atomic class\<close>

definition rcw_codes :: "((u32 \<times> bool) \<times> code list) list" where
  "rcw_codes =
    [((0b001, True), [C_Rcwclr, C_Rcwclrl, C_Rcwclra, C_Rcwclral]),
     ((0b010, True), [C_Rcwswp, C_Rcwswpl, C_Rcwswpa, C_Rcwswpal]),
     ((0b011, True), [C_Rcwset, C_Rcwsetl, C_Rcwseta, C_Rcwsetal]),
     ((0b001, False), [C_Rcwsclr, C_Rcwsclrl, C_Rcwsclra, C_Rcwsclral]),
     ((0b010, False), [C_Rcwsswp, C_Rcwsswpl, C_Rcwsswpa, C_Rcwsswpal]),
     ((0b011, False), [C_Rcwsset, C_Rcwssetl, C_Rcwsseta, C_Rcwssetal])]"

definition decode_ls64 :: "u32 \<Rightarrow> u32 \<Rightarrow> u32 \<Rightarrow> u32 \<Rightarrow> feature_set \<Rightarrow> insn \<Rightarrow> insn" where
  "decode_ls64 opc rs rn rt features out =
     (if \<not> has features F_Ls64 then out
      else if opc = 0b101 \<or> opc = 0b001 then
        fold push_operand [gp_reg False X64 rt, mem_off rn 0] (insn_set (if opc = 0b101 then C_Ld64b else C_St64b) out)
      else
        fold push_operand [gp_reg False X64 rs, gp_reg False X64 rt, mem_off rn 0]
          (insn_set (if opc = 0b011 then C_St64bv else C_St64bv0) out))"

definition ls64_form :: "u32 \<Rightarrow> u32 \<Rightarrow> u32 \<Rightarrow> bool" where
  "ls64_form opc rs rt \<longleftrightarrow>
     (let rt_ok = (rt AND 1 = 0 \<and> rt \<le> 22)
      in (opc, rs) \<in> {(0b101, 0b11111), (0b001, 0b11111)} \<and> rt_ok \<or> opc \<in> {0b011, 0b010} \<and> rt_ok)"

definition atomic_ops :: "(u32 \<times> atomic_op) list" where
  "atomic_ops =
    [(0b000, AtomicAdd), (0b001, AtomicClr), (0b010, AtomicEor), (0b011, AtomicSet), (0b100, AtomicSmax), (0b101, AtomicSmin),
     (0b110, AtomicUmax), (0b111, AtomicUmin)]"

definition decode_atomic :: "u32 \<Rightarrow> feature_set \<Rightarrow> insn \<Rightarrow> insn" where
  "decode_atomic word features out =
     (if bit_at word 26 \<noteq> 0 then decode_lsfe word features out
      else
       let sz = bits word 30 2;
           a = bit_at word 23;
           r = bit_at word 22;
           rs = bits word 16 5;
           o3 = bit_at word 15;
           opc = bits word 12 3;
           rn = bits word 5 5;
           rt = bits word 0 5
       in if o3 = 1 \<and> opc = 0b100 \<and> a = 1 \<and> r = 0 \<and> rs = 0b11111 then
            (let code =
                   (if sz = 0 then C_Ldaprb else if sz = 1 then C_Ldaprh else if sz = 2 then C_Ldapr32 else C_Ldapr64)
             in fold push_operand [gp_reg False (width_of (of_bool (sz = 3))) rt, mem_off rn 0] (insn_set code out))
          else if sz = 3 \<and> o3 = 1 \<and> a = 0 \<and> r = 0 \<and> ls64_form opc rs rt then decode_ls64 opc rs rn rt features out
          else if o3 = 1 \<and> opc \<noteq> 0b000 \<and> sz \<le> 1 then
            (let ord = unat (push_bit 1 a OR r)
             in case map_of rcw_codes (opc, sz = 0) of
                  None \<Rightarrow> out
                | Some codes \<Rightarrow>
                   if \<not> has features F_The then out
                   else fold push_operand [gp_reg False X64 rs, gp_reg False X64 rt, mem_off rn 0] (insn_set (codes ! ord) out))
          else if \<not> has features F_Lse then out
          else if o3 = 1 then (if opc \<noteq> 0b000 then out else emit_swp sz a r rs rn rt out)
          else
           (case map_of atomic_ops opc of
              None \<Rightarrow> out
            | Some op \<Rightarrow> emit_atomic_rmw sz a r op rs rn rt out))"

section \<open>FEAT_THE and FEAT_LSE128\<close>

definition ldt_codes :: "((u32 \<times> u32) \<times> code list \<times> code list) list" where
  "ldt_codes =
    [((1, 0b000), [C_Swpt32, C_Swptl32, C_Swpta32, C_Swptal32], [C_Swpt64, C_Swptl64, C_Swpta64, C_Swptal64]),
     ((0, 0b000), [C_Ldtadd32, C_Ldtaddl32, C_Ldtadda32, C_Ldtaddal32], [C_Ldtadd64, C_Ldtaddl64, C_Ldtadda64, C_Ldtaddal64]),
     ((0, 0b001), [C_Ldtclr32, C_Ldtclrl32, C_Ldtclra32, C_Ldtclral32], [C_Ldtclr64, C_Ldtclrl64, C_Ldtclra64, C_Ldtclral64]),
     ((0, 0b011), [C_Ldtset32, C_Ldtsetl32, C_Ldtseta32, C_Ldtsetal32], [C_Ldtset64, C_Ldtsetl64, C_Ldtseta64, C_Ldtsetal64])]"

definition pair_op_codes :: "((u32 \<times> u32 \<times> u32) \<times> code list \<times> feature) list" where
  "pair_op_codes =
    [((0, 0, 0b001), [C_Ldclrp, C_Ldclrpl, C_Ldclrpa, C_Ldclrpal], F_Lse128),
     ((0, 0, 0b011), [C_Ldsetp, C_Ldsetpl, C_Ldsetpa, C_Ldsetpal], F_Lse128),
     ((1, 0, 0b000), [C_Swpp, C_Swppl, C_Swppa, C_Swppal], F_Lse128),
     ((1, 1, 0b001), [C_Rcwsclrp, C_Rcwsclrpl, C_Rcwsclrpa, C_Rcwsclrpal], F_The),
     ((1, 0, 0b001), [C_Rcwclrp, C_Rcwclrpl, C_Rcwclrpa, C_Rcwclrpal], F_The),
     ((1, 1, 0b010), [C_Rcwsswpp, C_Rcwsswppl, C_Rcwsswppa, C_Rcwsswppal], F_The),
     ((1, 0, 0b010), [C_Rcwswpp, C_Rcwswppl, C_Rcwswppa, C_Rcwswppal], F_The),
     ((1, 1, 0b011), [C_Rcwssetp, C_Rcwssetpl, C_Rcwssetpa, C_Rcwssetpal], F_The),
     ((1, 0, 0b011), [C_Rcwsetp, C_Rcwsetpl, C_Rcwsetpa, C_Rcwsetpal], F_The)]"

definition decode_the_atomic :: "u32 \<Rightarrow> feature_set \<Rightarrow> insn \<Rightarrow> insn" where
  "decode_the_atomic word features out =
     (let sz = bits word 30 2;
          a = bit_at word 23;
          r = bit_at word 22;
          rs = bits word 16 5;
          o3 = bit_at word 15;
          opc = bits word 12 3;
          op2 = bits word 10 2;
          rn = bits word 5 5;
          rt = bits word 0 5;
          ord = unat (push_bit 1 a OR r)
      in if op2 = 0b01 then
           (if sz > 1 then out
            else if \<not> has features F_The then out
            else
             (case map_of ldt_codes (o3, opc) of
                None \<Rightarrow> out
              | Some (codes_w, codes_x) \<Rightarrow>
                 let x = (sz = 1);
                     code = (if x then codes_x ! ord else codes_w ! ord);
                     w = width_of (of_bool x)
                 in fold push_operand [gp_reg False w rs, gp_reg False w rt, mem_off rn 0] (insn_set code out)))
         else if op2 = 0b10 then
           (if sz > 1 \<or> o3 \<noteq> 0 \<or> opc \<noteq> 0 then out
            else if \<not> has features F_The then out
            else
             let code =
               (if sz = 1 then [C_Rcwscas, C_Rcwscasl, C_Rcwscasa, C_Rcwscasal] ! ord
                else [C_Rcwcas, C_Rcwcasl, C_Rcwcasa, C_Rcwcasal] ! ord)
             in fold push_operand [gp_reg False X64 rs, gp_reg False X64 rt, mem_off rn 0] (insn_set code out))
         else if op2 = 0b11 then
           (if sz > 1 \<or> o3 \<noteq> 0 \<or> opc \<noteq> 0 then out
            else if \<not> has features F_The then out
            else if rs AND 1 \<noteq> 0 \<or> rt AND 1 \<noteq> 0 then out
            else
             let code =
               (if sz = 1 then [C_Rcwscasp, C_Rcwscaspl, C_Rcwscaspa, C_Rcwscaspal] ! ord
                else [C_Rcwcasp, C_Rcwcaspl, C_Rcwcaspa, C_Rcwcaspal] ! ord)
             in fold push_operand
                  [gp_reg False X64 rs, gp_reg False X64 ((rs + 1) AND 0x1f), gp_reg False X64 rt,
                   gp_reg False X64 ((rt + 1) AND 0x1f), mem_off rn 0]
                  (insn_set code out))
         else if sz > 1 then out
         else
          (case map_of pair_op_codes (o3, sz, opc) of
             None \<Rightarrow> out
           | Some (codes, feat) \<Rightarrow>
              if \<not> has features feat then out
              else if rs = 31 \<or> rt = 31 then out
              else fold push_operand [gp_reg False X64 rt, gp_reg False X64 rs, mem_off rn 0] (insn_set (codes ! ord) out)))"

end
