(* ===== verification/Ldst_Simd_Decode.thy ===== *)
theory Ldst_Simd_Decode
  imports Ldst_Decode
begin

text \<open>
  \<open>src/decode/ldst_simd.rs\<close>: the Advanced SIMD load/store structure instructions.  One definition per function of the file, in
  its order; the file's entry point \<open>decode\<close> is \<open>decode_ldst_simd\<close>.  A register list keeps the four slots of the source, the
  unused ones \<open>RNone\<close>.
\<close>

definition vlist_reg :: "u32 \<Rightarrow> nat \<Rightarrow> nat \<Rightarrow> register" where
  "vlist_reg first count i = (if i < count then RV (ucast ((first + of_nat i) AND 0x1f)) else RNone)"

definition vlist :: "u32 \<Rightarrow> u8 \<Rightarrow> vector_arrangement \<Rightarrow> u8 option \<Rightarrow> operand" where
  "vlist first count arr lane =
     (let count = (if count < 1 then 1 else if count > 4 then 4 else count);
          n = unat count
      in OpMultiReg (vlist_reg first n 0, vlist_reg first n 1, vlist_reg first n 2, vlist_reg first n 3) count (Some arr) lane)"

definition mem_base :: "u32 \<Rightarrow> operand" where
  "mem_base rn = OpMemImm (gp_register True X64 (ucast (rn AND 0x1f))) 0 MemOffset"

definition mem_post_imm :: "u32 \<Rightarrow> i64 \<Rightarrow> operand" where
  "mem_post_imm rn imm = OpMemImm (gp_register True X64 (ucast (rn AND 0x1f))) imm MemPostImm"

definition mem_post_reg :: "u32 \<Rightarrow> operand" where
  "mem_post_reg rn = OpMemImm (gp_register True X64 (ucast (rn AND 0x1f))) 0 MemPostReg"

definition xm :: "u32 \<Rightarrow> operand" where
  "xm rm = OpPlainReg (gp_register False X64 (ucast (rm AND 0x1f)))"

definition arr_mult :: "u32 \<Rightarrow> u32 \<Rightarrow> vector_arrangement" where
  "arr_mult sz q =
     (if sz = 0 then (if q = 0 then V8B else V16B)
      else if sz = 1 then (if q = 0 then V4H else V8H)
      else if sz = 2 then (if q = 0 then V2S else V4S)
      else if sz = 3 \<and> q = 0 then V1D
      else V2D)"

definition elem_bytes :: "vector_arrangement \<Rightarrow> i64" where
  "elem_bytes arr = of_nat (element_bits arr div 8)"

definition push_addr :: "bool \<Rightarrow> u32 \<Rightarrow> u32 \<Rightarrow> i64 \<Rightarrow> insn \<Rightarrow> insn" where
  "push_addr post rm rn total_bytes out =
     (if \<not> post then push_operand (mem_base rn) out
      else if rm = 0b11111 then push_operand (mem_post_imm rn total_bytes) out
      else fold push_operand [mem_post_reg rn, xm rm] out)"

section \<open>Multiple structures\<close>

definition mk_mult :: "bool \<Rightarrow> u8 \<Rightarrow> mnemonic \<Rightarrow> mnemonic \<Rightarrow> code \<Rightarrow> code \<Rightarrow> bool \<Rightarrow> code \<times> mnemonic \<times> u8 \<times> bool" where
  "mk_mult load nregs ld_mn st_mn ld_code st_code multi_struct =
     (if load then (ld_code, ld_mn, nregs, multi_struct) else (st_code, st_mn, nregs, multi_struct))"

definition mult_form :: "bool \<Rightarrow> u32 \<Rightarrow> (code \<times> mnemonic \<times> u8 \<times> bool) option" where
  "mult_form load opcode =
     map_of
       [(0b0000, mk_mult load 4 M_Ld4 M_St4 C_Ld4Multiple C_St4Multiple True),
        (0b0010, mk_mult load 4 M_Ld1 M_St1 C_Ld1Multiple C_St1Multiple False),
        (0b0100, mk_mult load 3 M_Ld3 M_St3 C_Ld3Multiple C_St3Multiple True),
        (0b0110, mk_mult load 3 M_Ld1 M_St1 C_Ld1Multiple C_St1Multiple False),
        (0b0111, mk_mult load 1 M_Ld1 M_St1 C_Ld1Multiple C_St1Multiple False),
        (0b1000, mk_mult load 2 M_Ld2 M_St2 C_Ld2Multiple C_St2Multiple True),
        (0b1010, mk_mult load 2 M_Ld1 M_St1 C_Ld1Multiple C_St1Multiple False)]
       opcode"

definition decode_multiple :: "u32 \<Rightarrow> insn \<Rightarrow> insn" where
  "decode_multiple word out =
     (let q = bit_at word 30;
          post = (bit_at word 23 = 1);
          l = bit_at word 22;
          rm = bits word 16 5;
          opcode = bits word 12 4;
          sz = bits word 10 2;
          rn = bits word 5 5;
          rt = bits word 0 5
      in if bit_at word 21 \<noteq> 0 then out
         else if \<not> post \<and> rm \<noteq> 0 then out
         else
          let load = (l = 1)
          in case mult_form load opcode of
               None \<Rightarrow> out
             | Some (code, mnem, nregs, multi_struct) \<Rightarrow>
                if multi_struct \<and> sz = 0b11 \<and> q = 0 then out
                else
                 let arr = arr_mult sz q;
                     reg_bytes = (if q = 1 then 16 else 8);
                     total = ucast nregs * reg_bytes
                 in push_addr post rm rn total
                      (push_operand (vlist rt nregs arr None) (set_alias mnem (insn_set code out))))"

section \<open>Single structure and replicate\<close>

definition single_code :: "bool \<Rightarrow> u8 \<Rightarrow> code \<times> mnemonic" where
  "single_code load nregs =
     (if load then
        (if nregs = 1 then (C_Ld1Single, M_Ld1) else if nregs = 2 then (C_Ld2Single, M_Ld2)
         else if nregs = 3 then (C_Ld3Single, M_Ld3) else (C_Ld4Single, M_Ld4))
      else
        (if nregs = 1 then (C_St1Single, M_St1) else if nregs = 2 then (C_St2Single, M_St2)
         else if nregs = 3 then (C_St3Single, M_St3) else (C_St4Single, M_St4)))"

definition rep_code :: "u8 \<Rightarrow> code \<times> mnemonic" where
  "rep_code nregs =
     (if nregs = 1 then (C_Ld1SingleRep, M_Ld1r) else if nregs = 2 then (C_Ld2Rep, M_Ld2r)
      else if nregs = 3 then (C_Ld3Rep, M_Ld3r) else (C_Ld4Rep, M_Ld4r))"

definition decode_replicate :: "bool \<Rightarrow> u32 \<Rightarrow> u32 \<Rightarrow> u32 \<Rightarrow> u32 \<Rightarrow> u32 \<Rightarrow> u8 \<Rightarrow> insn \<Rightarrow> insn" where
  "decode_replicate post rm rn rt sz q nregs out =
     (let arr = arr_mult sz q;
          (code, mnem) = rep_code nregs;
          total = ucast nregs * elem_bytes arr
      in push_addr post rm rn total
           (push_operand (vlist rt nregs arr None) (set_alias mnem (insn_set code out))))"

definition single_lane :: "u32 \<Rightarrow> u32 \<Rightarrow> u32 \<Rightarrow> u32 \<Rightarrow> (vector_arrangement \<times> u32 \<times> i64) option" where
  "single_lane scale q s sz =
     (if scale = 0b00 then Some (V8B, push_bit 3 q OR push_bit 2 s OR sz, 1)
      else if scale = 0b01 then
        (if sz AND 1 \<noteq> 0 then None else Some (V4H, push_bit 2 q OR push_bit 1 s OR drop_bit 1 sz, 2))
      else if drop_bit 1 sz \<noteq> 0 then None
      else if sz AND 1 = 0 then Some (V2S, push_bit 1 q OR s, 4)
      else if s \<noteq> 0 then None
      else Some (V1D, q, 8))"

definition decode_single :: "u32 \<Rightarrow> insn \<Rightarrow> insn" where
  "decode_single word out =
     (let q = bit_at word 30;
          post = (bit_at word 23 = 1);
          l = bit_at word 22;
          r = bit_at word 21;
          rm = bits word 16 5;
          opcode = bits word 13 3;
          s = bit_at word 12;
          sz = bits word 10 2;
          rn = bits word 5 5;
          rt = bits word 0 5;
          nregs = ucast (push_bit 1 (opcode AND 1) + r + 1);
          scale = drop_bit 1 opcode;
          load = (l = 1)
      in if \<not> post \<and> rm \<noteq> 0 then out
         else if scale = 0b11 then
           (if \<not> load then out
            else if s \<noteq> 0 then out
            else decode_replicate post rm rn rt sz q nregs out)
         else
          (case single_lane scale q s sz of
             None \<Rightarrow> out
           | Some (arr, index, ebytes) \<Rightarrow>
              let (code, mnem) = single_code load nregs;
                  total = ucast nregs * ebytes
              in push_addr post rm rn total
                   (push_operand (vlist rt nregs arr (Some (ucast index))) (set_alias mnem (insn_set code out)))))"

definition decode_ldst_simd :: "u32 \<Rightarrow> insn \<Rightarrow> insn" where
  "decode_ldst_simd word out =
     (if bit_at word 31 \<noteq> 0 then out
      else if bits word 24 6 = 0b001100 then decode_multiple word out
      else if bits word 24 6 = 0b001101 then decode_single word out
      else out)"

end
