(* ===== verification/Ldst_Group_Decode.thy ===== *)
theory Ldst_Group_Decode
  imports Ldst_Atomics_Decode Ldst_Simd_Decode
begin

text \<open>
  \<open>src/decode/ldst.rs\<close>, third part: the pointer-authenticated loads, the release-consistent and memory-tagging forms, and the
  dispatcher of the group, \<open>decode\<close>, here \<open>decode_ldst\<close>, whose steps follow the numbered steps of the source.
\<close>

section \<open>Pointer-authenticated loads\<close>

definition decode_pac :: "u32 \<Rightarrow> feature_set \<Rightarrow> insn \<Rightarrow> insn" where
  "decode_pac word features out =
     (if bit_at word 26 \<noteq> 0 then out
      else if \<not> has features F_PAuth then out
      else if bits word 30 2 \<noteq> 0b11 then out
      else
       let m = bit_at word 23;
           s = bit_at word 22;
           imm9 = bits word 12 9;
           wbit = bit_at word 11;
           rn = bits word 5 5;
           rt = bits word 0 5;
           off10 = push_bit 9 s OR imm9;
           imm = push_bit 3 (sign_extend (ucast off10) 10);
           code = the_default C_LdrabPre (map_of [((0, 0), C_LdraaOff), ((0, 1), C_LdraaPre), ((1, 0), C_LdrabOff)] (m, wbit))
       in fold push_operand [gp_reg False X64 rt, if wbit = 1 then mem_pre rn imm else mem_off rn imm] (insn_set code out))"

section \<open>Release-consistent forms\<close>

definition decode_gcsstr :: "u32 \<Rightarrow> feature_set \<Rightarrow> insn \<Rightarrow> insn" where
  "decode_gcsstr word features out =
     (if \<not> has features F_Gcs then out
      else if bits word 30 2 \<noteq> 0b11 \<or> bits word 22 2 \<noteq> 0 \<or> bits word 16 5 \<noteq> 0b11111 \<or> bits word 13 3 \<noteq> 0 then out
      else
       let rn = bits word 5 5;
           rt = bits word 0 5
       in fold push_operand [gp_reg False X64 rt, mem_off rn 0]
            (insn_set (if bit_at word 12 = 1 then C_Gcssttr else C_Gcsstr) out))"

definition ldapstl_codes :: "((u32 \<times> u32) \<times> code \<times> u32) list" where
  "ldapstl_codes =
    [((0, 0b00), (C_Stlurb, 0)), ((0, 0b01), (C_Ldapurb, 0)), ((0, 0b10), (C_Ldapursb64, 1)), ((0, 0b11), (C_Ldapursb32, 0)),
     ((1, 0b00), (C_Stlurh, 0)), ((1, 0b01), (C_Ldapurh, 0)), ((1, 0b10), (C_Ldapursh64, 1)), ((1, 0b11), (C_Ldapursh32, 0)),
     ((2, 0b00), (C_Stlur32, 0)), ((2, 0b01), (C_Ldapur32, 0)), ((2, 0b10), (C_Ldapursw, 1)),
     ((3, 0b00), (C_Stlur64, 1)), ((3, 0b01), (C_Ldapur64, 1))]"

definition decode_ldapstl :: "u32 \<Rightarrow> insn \<Rightarrow> insn" where
  "decode_ldapstl word out =
     (let sz = bits word 30 2;
          opc = bits word 22 2;
          imm9 = bits word 12 9;
          rn = bits word 5 5;
          rt = bits word 0 5;
          imm = sign_extend (ucast imm9) 9
      in case map_of ldapstl_codes (sz, opc) of
           None \<Rightarrow> out
         | Some (code, x) \<Rightarrow> fold push_operand [gp_reg False (width_of x) rt, mem_off rn imm] (insn_set code out))"

definition fp_ldapstl_codes :: "((u32 \<times> bool) \<times> code) list" where
  "fp_ldapstl_codes =
    [((0, True), C_LdapurFp8), ((1, True), C_LdapurFp16), ((2, True), C_LdapurFp32), ((3, True), C_LdapurFp64),
     ((4, True), C_LdapurFp128), ((0, False), C_StlurFp8), ((1, False), C_StlurFp16), ((2, False), C_StlurFp32),
     ((3, False), C_StlurFp64)]"

definition decode_fp_ldapstl :: "u32 \<Rightarrow> feature_set \<Rightarrow> insn \<Rightarrow> insn" where
  "decode_fp_ldapstl word features out =
     (if \<not> has features F_Rcpc3 then out
      else
       let sz = bits word 30 2;
           opc = bits word 22 2;
           imm9 = bits word 12 9;
           rn = bits word 5 5;
           rt = bits word 0 5;
           imm = sign_extend (ucast imm9) 9;
           load = (opc AND 1 = 1)
       in case map_of [((0b00, 0), 0), ((0b01, 0), 1), ((0b10, 0), 2), ((0b11, 0), 3), ((0b00, 1), 4)] (sz, drop_bit 1 opc) of
            None \<Rightarrow> out
          | Some fp_code \<Rightarrow>
             let code = the_default C_StlurFp128 (map_of fp_ldapstl_codes (fp_code, load))
             in fold push_operand [OpPlainReg (fp_reg fp_code rt), mem_off rn imm] (insn_set code out))"

definition decode_ldapp_stlp :: "u32 \<Rightarrow> u32 \<Rightarrow> insn \<Rightarrow> insn" where
  "decode_ldapp_stlp word opc2 out =
     (if bits word 30 2 \<noteq> 0b11 then out
      else
       let load = (bit_at word 22 = 1);
           rt2 = bits word 16 5;
           rn = bits word 5 5;
           rt = bits word 0 5
       in case map_of [((0b0101, False), C_StlpPair), ((0b0101, True), C_LdapPair), ((0b0111, True), C_LdappPair)] (opc2, load) of
            None \<Rightarrow> out
          | Some code \<Rightarrow>
              fold push_operand [gp_reg False X64 rt, gp_reg False X64 rt2, mem_off rn 0] (insn_set code out))"

definition decode_ldiapp_stilp :: "u32 \<Rightarrow> feature_set \<Rightarrow> insn \<Rightarrow> insn" where
  "decode_ldiapp_stilp word features out =
     (if \<not> has features F_Rcpc3 then out
      else
       let opc2 = bits word 12 4
       in if opc2 = 0b0101 \<or> opc2 = 0b0111 then decode_ldapp_stlp word opc2 out
          else if bits word 13 3 \<noteq> 0 then out
          else
           let sz = bits word 30 2
           in case map_of [(0b10, W32), (0b11, X64)] sz of
                None \<Rightarrow> out
              | Some w \<Rightarrow>
                 let load = (bit_at word 22 = 1);
                     rt2 = bits word 16 5;
                     offset_form = (bit_at word 12 = 1);
                     rn = bits word 5 5;
                     rt = bits word 0 5;
                     rt_op = gp_reg False w rt;
                     rt2_op = gp_reg False w rt2
                 in if offset_form then
                      fold push_operand [rt_op, rt2_op, mem_off rn 0] (insn_set (if load then C_LdiappOff else C_StilpOff) out)
                    else
                     let bytes = (if sz = 0b11 then 16 else 8)
                     in fold push_operand [rt_op, rt2_op, if load then mem_post rn bytes else mem_pre rn (- bytes)]
                          (insn_set (if load then C_LdiappPost else C_StilpPre) out))"

definition decode_stlr_ldapr_wb :: "u32 \<Rightarrow> feature_set \<Rightarrow> insn \<Rightarrow> insn" where
  "decode_stlr_ldapr_wb word features out =
     (if \<not> has features F_Rcpc3 then out
      else if bits word 12 9 \<noteq> 0 then out
      else
       let sz = bits word 30 2
       in case map_of [(0b10, W32), (0b11, X64)] sz of
            None \<Rightarrow> out
          | Some w \<Rightarrow>
             let load = (bit_at word 22 = 1);
                 rn = bits word 5 5;
                 rt = bits word 0 5;
                 bytes = (if sz = 0b11 then 8 else 4)
             in if load then
                  fold push_operand [gp_reg False w rt, mem_post rn bytes]
                    (insn_set (if sz = 0b11 then C_LdaprPost64 else C_LdaprPost32) out)
                else
                  fold push_operand [gp_reg False w rt, mem_pre rn (- bytes)]
                    (insn_set (if sz = 0b11 then C_StlrPre64 else C_StlrPre32) out))"

section \<open>Memory tagging\<close>

definition decode_tags :: "u32 \<Rightarrow> feature_set \<Rightarrow> insn \<Rightarrow> insn" where
  "decode_tags word features out =
     (if \<not> has features F_Mte then out
      else if bits word 30 2 \<noteq> 0b11 then out
      else
       let opc = bits word 22 2;
           imm9 = bits word 12 9;
           op2 = bits word 10 2;
           rn = bits word 5 5;
           rt = bits word 0 5;
           imm = push_bit 4 (sign_extend (ucast imm9) 9)
       in if op2 \<noteq> 0b00 then
            (let codes =
               (if opc = 0b00 then [C_StgPost, C_StgOff, C_StgPre]
                else if opc = 0b01 then [C_StzgPost, C_StzgOff, C_StzgPre]
                else if opc = 0b10 then [C_St2gPost, C_St2gOff, C_St2gPre]
                else [C_Stz2gPost, C_Stz2gOff, C_Stz2gPre]);
                 (code, mem) =
                   (if op2 = 0b01 then (codes ! 0, mem_post rn imm)
                    else if op2 = 0b10 then (codes ! 1, mem_off rn imm)
                    else (codes ! 2, mem_pre rn imm))
             in fold push_operand [gp_reg True X64 rt, mem] (insn_set code out))
          else if opc = 0b00 then
            (if imm9 \<noteq> 0 then out else fold push_operand [gp_reg False X64 rt, mem_off rn 0] (insn_set C_Stzgm out))
          else if opc = 0b01 then
            fold push_operand [gp_reg False X64 rt, mem_off rn imm] (insn_set C_LdgOff out)
          else if opc = 0b10 then
            (if imm9 \<noteq> 0 then out else fold push_operand [gp_reg False X64 rt, mem_off rn 0] (insn_set C_Stgm out))
          else
            (if imm9 \<noteq> 0 then out else fold push_operand [gp_reg False X64 rt, mem_off rn 0] (insn_set C_Ldgm out)))"

definition decode_ldst_tags_or_ldapstl :: "u32 \<Rightarrow> feature_set \<Rightarrow> insn \<Rightarrow> insn" where
  "decode_ldst_tags_or_ldapstl word features out =
     (if bit_at word 21 = 1 then
        (if bits word 30 2 = 0b11 then decode_tags word features out else decode_the_atomic word features out)
      else if bits word 10 2 = 0b00 then decode_ldapstl word out
      else if bits word 10 2 = 0b10 then
        (if bit_at word 23 = 0 then decode_ldiapp_stilp word features out else decode_stlr_ldapr_wb word features out)
      else if bits word 10 2 = 0b11 then decode_gcsstr word features out
      else out)"

section \<open>The dispatcher\<close>

definition decode_ldst_register :: "u32 \<Rightarrow> feature_set \<Rightarrow> insn \<Rightarrow> insn" where
  "decode_ldst_register word features out =
     (if bit_at word 24 = 1 then decode_reg_unsigned word out
      else if bit_at word 21 = 1 then
        (if bits word 10 2 = 0b10 then decode_reg_offset word features out
         else if bits word 10 2 = 0b00 then decode_atomic word features out
         else decode_pac word features out)
      else if bits word 10 2 = 0b00 then decode_reg_unscaled word out
      else if bits word 10 2 = 0b01 then decode_reg_immpost word out
      else if bits word 10 2 = 0b10 then decode_reg_unpriv word out
      else decode_reg_immpre word out)"

definition decode_ldst :: "u32 \<Rightarrow> u64 \<Rightarrow> feature_set \<Rightarrow> insn \<Rightarrow> insn" where
  "decode_ldst word ip features out =
     (if bits word 27 3 = 0b011 \<and> bits word 24 2 = 0b00 then decode_literal word ip out
      else if bits word 24 6 = 0b001000 then decode_exclusive word features out
      else if bits word 24 6 = 0b001001 then decode_lsui word features out
      else if bit_at word 31 = 0 \<and> bits word 24 6 \<in> {0b001100, 0b001101} then decode_ldst_simd word out
      else if is_mops_word word then (if has features F_Mops then decode_mops word out else out)
      else if is_setg_option_word word then (if has features F_Mops then decode_setg_option word out else out)
      else if bits word 24 6 = 0b011001 then decode_ldst_tags_or_ldapstl word features out
      else if bits word 27 3 = 0b011 \<and> bit_at word 26 = 1 \<and> bits word 24 2 = 0b01 \<and> bit_at word 21 = 0 \<and> bits word 10 2 = 0b10
      then decode_fp_ldapstl word features out
      else if bits word 27 3 = 0b101 then decode_pair word features out
      else if bits word 27 3 = 0b111 then decode_ldst_register word features out
      else out)"

end
