(* ===== verification/Ldst_Encode.thy ===== *)
theory Ldst_Encode
  imports Encode_Base Sys_Tables Ldst_Decode "HOL-Library.Signed_Division"
begin

text \<open>
  \<open>src/encode/ldst.rs\<close>, first part: the operand readers, the inverse classification of the register forms, and the encoders
  of the literal, register and pair forms.  One definition per function of the file, in its order; the enum \<open>RegVariant\<close>, of
  which the file has its own copy, is \<open>reg_variant\<close> of \<open>Ldst_Decode\<close>.

  \<open>imm % step\<close> on \<open>i64\<close> is the remainder of the division that truncates (\<open>rem_i64\<close>); \<open>imm >> k\<close> on \<open>i64\<close> is
  \<open>signed_drop_bit\<close>; a comparison of \<open>i64\<close> values is one of their \<open>sint\<close>.
\<close>

section \<open>Field and operand readers\<close>

definition mem_imm :: "insn \<Rightarrow> nat \<Rightarrow> (u32 \<times> i64 \<times> mem_index_mode) encoded" where
  "mem_imm insn n =
     (case insn_op insn n of
        OpMemImm base imm mode \<Rightarrow> Ok (ucast (reg_number base), imm, mode)
      | _ \<Rightarrow> Err EncInvalidOperand)"

definition prefetch_fields :: "(string \<times> u32) list" where
  "prefetch_fields =
    [(''pldl1keep'', 0), (''pldl1strm'', 1), (''pldl2keep'', 2), (''pldl2strm'', 3), (''pldl3keep'', 4),
     (''pldl3strm'', 5), (''plil1keep'', 8), (''plil1strm'', 9), (''plil2keep'', 10), (''plil2strm'', 11),
     (''plil3keep'', 12), (''plil3strm'', 13), (''pstl1keep'', 16), (''pstl1strm'', 17), (''pstl2keep'', 18),
     (''pstl2strm'', 19), (''pstl3keep'', 20), (''pstl3strm'', 21)]"

definition prefetch_field_of :: "sys_token \<Rightarrow> u32 option" where
  "prefetch_field_of tok = map_of prefetch_fields (sys_token_name tok)"

definition prefetch_rt :: "insn \<Rightarrow> nat \<Rightarrow> u32 encoded" where
  "prefetch_rt insn n =
     (case insn_op insn n of
        OpImmUnsigned v \<Rightarrow> if v > 0x1f then Err EncInvalidImmediate else Ok (ucast v)
      | OpSysOp tok \<Rightarrow> ok_or EncInvalidOperand (prefetch_field_of tok)
      | _ \<Rightarrow> Err EncInvalidOperand)"

definition rprfop_field :: "insn \<Rightarrow> nat \<Rightarrow> u32 encoded" where
  "rprfop_field insn n =
     (case insn_op insn n of
        OpImmUnsigned v \<Rightarrow> if v > 0x3f then Err EncInvalidImmediate else Ok (ucast v)
      | OpSysOp tok \<Rightarrow>
          ok_or EncInvalidOperand
            (map_of [(''pldkeep'', 0b000000), (''pstkeep'', 0b000001), (''pldstrm'', 0b000100), (''pststrm'', 0b000101)]
               (sys_token_name tok))
      | _ \<Rightarrow> Err EncInvalidOperand)"

definition enc_rprfm :: "insn \<Rightarrow> u32 encoded" where
  "enc_rprfm insn =
     and_then (rprfop_field insn 0) (\<lambda>imm6. and_then (reg_num insn 1) (\<lambda>rm. and_then (mem_imm insn 2) (\<lambda>(rn, off, mode).
       if off \<noteq> 0 \<or> mode \<noteq> MemOffset then Err EncInvalidOperand
       else
        let option = push_bit 2 (drop_bit 5 imm6 AND 1) OR push_bit 1 1 OR (drop_bit 4 imm6 AND 1);
            s = drop_bit 3 imm6 AND 1;
            rt = 0b11000 OR (imm6 AND 0b111)
        in Ok (push_bit 24 0b11111000 OR push_bit 23 1 OR push_bit 21 1 OR push_bit 16 rm OR push_bit 13 option OR
               push_bit 12 s OR push_bit 11 1 OR push_bit 5 rn OR rt))))"

section \<open>Inverse classification of the register forms\<close>

record reg_form =
  rf_size :: u32
  rf_v :: u32
  rf_opc :: u32
  rf_is_fp :: bool
  rf_fp_code :: u32
  rf_is_prfm :: bool

definition gp_reg_form :: "u32 \<Rightarrow> u32 \<Rightarrow> reg_form" where
  "gp_reg_form sz opc =
     \<lparr>rf_size = sz, rf_v = 0, rf_opc = opc, rf_is_fp = False, rf_fp_code = 0, rf_is_prfm = False\<rparr>"

definition prf_reg_form :: "u32 \<Rightarrow> u32 \<Rightarrow> reg_form" where
  "prf_reg_form sz opc =
     \<lparr>rf_size = sz, rf_v = 0, rf_opc = opc, rf_is_fp = False, rf_fp_code = 0, rf_is_prfm = True\<rparr>"

definition fp_reg_form :: "u32 \<Rightarrow> bool \<Rightarrow> reg_form" where
  "fp_reg_form acc load =
     \<lparr>rf_size = acc AND 0b11, rf_v = 1, rf_opc = push_bit 1 (drop_bit 2 acc) OR of_bool load, rf_is_fp = True, rf_fp_code = acc,
      rf_is_prfm = False\<rparr>"

definition reg_form_rows :: "(code \<times> reg_variant \<times> reg_form) list" where
  "reg_form_rows =
    [(C_StrbImmUnsigned, (RvUnsigned, gp_reg_form 0 0)), (C_LdrbImmUnsigned, (RvUnsigned, gp_reg_form 0 1)),
     (C_LdrsbImmUnsigned64, (RvUnsigned, gp_reg_form 0 2)), (C_LdrsbImmUnsigned32, (RvUnsigned, gp_reg_form 0 3)),
     (C_StrhImmUnsigned, (RvUnsigned, gp_reg_form 1 0)), (C_LdrhImmUnsigned, (RvUnsigned, gp_reg_form 1 1)),
     (C_LdrshImmUnsigned64, (RvUnsigned, gp_reg_form 1 2)), (C_LdrshImmUnsigned32, (RvUnsigned, gp_reg_form 1 3)),
     (C_StrImmUnsigned32, (RvUnsigned, gp_reg_form 2 0)), (C_LdrImmUnsigned32, (RvUnsigned, gp_reg_form 2 1)),
     (C_LdrswImmUnsigned, (RvUnsigned, gp_reg_form 2 2)), (C_StrImmUnsigned64, (RvUnsigned, gp_reg_form 3 0)),
     (C_LdrImmUnsigned64, (RvUnsigned, gp_reg_form 3 1)), (C_PrfmImmUnsigned, (RvUnsigned, prf_reg_form 3 2)),
     (C_StrFpImmUnsigned8, (RvUnsigned, fp_reg_form 0 False)), (C_LdrFpImmUnsigned8, (RvUnsigned, fp_reg_form 0 True)),
     (C_StrFpImmUnsigned16, (RvUnsigned, fp_reg_form 1 False)), (C_LdrFpImmUnsigned16, (RvUnsigned, fp_reg_form 1 True)),
     (C_StrFpImmUnsigned32, (RvUnsigned, fp_reg_form 2 False)), (C_LdrFpImmUnsigned32, (RvUnsigned, fp_reg_form 2 True)),
     (C_StrFpImmUnsigned64, (RvUnsigned, fp_reg_form 3 False)), (C_LdrFpImmUnsigned64, (RvUnsigned, fp_reg_form 3 True)),
     (C_StrFpImmUnsigned128, (RvUnsigned, fp_reg_form 4 False)),
     (C_LdrFpImmUnsigned128, (RvUnsigned, fp_reg_form 4 True)), (C_StrbReg, (RvRegOff, gp_reg_form 0 0)),
     (C_LdrbReg, (RvRegOff, gp_reg_form 0 1)), (C_LdrsbReg64, (RvRegOff, gp_reg_form 0 2)),
     (C_LdrsbReg32, (RvRegOff, gp_reg_form 0 3)), (C_StrhReg, (RvRegOff, gp_reg_form 1 0)),
     (C_LdrhReg, (RvRegOff, gp_reg_form 1 1)), (C_LdrshReg64, (RvRegOff, gp_reg_form 1 2)),
     (C_LdrshReg32, (RvRegOff, gp_reg_form 1 3)), (C_StrReg32, (RvRegOff, gp_reg_form 2 0)),
     (C_LdrReg32, (RvRegOff, gp_reg_form 2 1)), (C_LdrswReg, (RvRegOff, gp_reg_form 2 2)),
     (C_StrReg64, (RvRegOff, gp_reg_form 3 0)), (C_LdrReg64, (RvRegOff, gp_reg_form 3 1)),
     (C_PrfmReg, (RvRegOff, prf_reg_form 3 2)), (C_LdrFpReg32, (RvRegOff, fp_reg_form 2 True)),
     (C_LdrFpReg64, (RvRegOff, fp_reg_form 3 True)), (C_LdrFpReg128, (RvRegOff, fp_reg_form 4 True)),
     (C_StrFpReg32, (RvRegOff, fp_reg_form 2 False)), (C_StrFpReg64, (RvRegOff, fp_reg_form 3 False)),
     (C_StrFpReg128, (RvRegOff, fp_reg_form 4 False)), (C_Sturb, (RvUnscaled, gp_reg_form 0 0)),
     (C_Ldurb, (RvUnscaled, gp_reg_form 0 1)), (C_Ldursb64, (RvUnscaled, gp_reg_form 0 2)),
     (C_Ldursb32, (RvUnscaled, gp_reg_form 0 3)), (C_Sturh, (RvUnscaled, gp_reg_form 1 0)),
     (C_Ldurh, (RvUnscaled, gp_reg_form 1 1)), (C_Ldursh64, (RvUnscaled, gp_reg_form 1 2)),
     (C_Ldursh32, (RvUnscaled, gp_reg_form 1 3)), (C_Stur32, (RvUnscaled, gp_reg_form 2 0)),
     (C_Ldur32, (RvUnscaled, gp_reg_form 2 1)), (C_Ldursw, (RvUnscaled, gp_reg_form 2 2)),
     (C_Stur64, (RvUnscaled, gp_reg_form 3 0)), (C_Ldur64, (RvUnscaled, gp_reg_form 3 1)),
     (C_Prfum, (RvUnscaled, prf_reg_form 3 2)), (C_StrbImmPost, (RvImmPost, gp_reg_form 0 0)),
     (C_LdrbImmPost, (RvImmPost, gp_reg_form 0 1)), (C_LdrsbImmPost64, (RvImmPost, gp_reg_form 0 2)),
     (C_LdrsbImmPost32, (RvImmPost, gp_reg_form 0 3)), (C_StrhImmPost, (RvImmPost, gp_reg_form 1 0)),
     (C_LdrhImmPost, (RvImmPost, gp_reg_form 1 1)), (C_LdrshImmPost64, (RvImmPost, gp_reg_form 1 2)),
     (C_LdrshImmPost32, (RvImmPost, gp_reg_form 1 3)), (C_StrImmPost32, (RvImmPost, gp_reg_form 2 0)),
     (C_LdrImmPost32, (RvImmPost, gp_reg_form 2 1)), (C_LdrswImmPost, (RvImmPost, gp_reg_form 2 2)),
     (C_StrImmPost64, (RvImmPost, gp_reg_form 3 0)), (C_LdrImmPost64, (RvImmPost, gp_reg_form 3 1)),
     (C_StrbImmPre, (RvImmPre, gp_reg_form 0 0)), (C_LdrbImmPre, (RvImmPre, gp_reg_form 0 1)),
     (C_LdrsbImmPre64, (RvImmPre, gp_reg_form 0 2)), (C_LdrsbImmPre32, (RvImmPre, gp_reg_form 0 3)),
     (C_StrhImmPre, (RvImmPre, gp_reg_form 1 0)), (C_LdrhImmPre, (RvImmPre, gp_reg_form 1 1)),
     (C_LdrshImmPre64, (RvImmPre, gp_reg_form 1 2)), (C_LdrshImmPre32, (RvImmPre, gp_reg_form 1 3)),
     (C_StrImmPre32, (RvImmPre, gp_reg_form 2 0)), (C_LdrImmPre32, (RvImmPre, gp_reg_form 2 1)),
     (C_LdrswImmPre, (RvImmPre, gp_reg_form 2 2)), (C_StrImmPre64, (RvImmPre, gp_reg_form 3 0)),
     (C_LdrImmPre64, (RvImmPre, gp_reg_form 3 1))]"

definition reg_form_of :: "code \<Rightarrow> (reg_variant \<times> reg_form) option" where
  "reg_form_of code = map_of reg_form_rows code"

definition reg_variant_of :: "code \<Rightarrow> reg_variant option" where
  "reg_variant_of code = map_option fst (reg_form_of code)"

definition fp_acc_of :: "register \<Rightarrow> u32 option" where
  "fp_acc_of reg = map_of [(8, 0), (16, 1), (32, 2), (64, 3), (128, 4)] (width_bits reg)"

section \<open>Load register (literal)\<close>

definition label_imm19 :: "u64 \<Rightarrow> u64 \<Rightarrow> u32 encoded" where
  "label_imm19 target ip =
     (let off = target - ip
      in if off AND 0b11 \<noteq> 0 then Err EncInvalidImmediate
         else
          let imm = signed_drop_bit 2 off
          in if signed_drop_bit 18 imm \<noteq> 0 \<and> signed_drop_bit 18 imm \<noteq> - 1 then Err EncInvalidImmediate
             else Ok (ucast imm AND 0x7ffff))"

definition enc_literal :: "insn \<Rightarrow> u32 encoded" where
  "enc_literal insn =
     (let code = i_code insn;
          (opc, v) =
            (if code = C_LdrLit32 then (0b00, 0)
             else if code = C_LdrLit64 then (0b01, 0)
             else if code = C_LdrswLit then (0b10, 0)
             else if code = C_PrfmLit then (0b11, 0)
             else if code = C_LdrLitFp32 then (0b00, 1)
             else if code = C_LdrLitFp64 then (0b01, 1)
             else (0b10, 1))
      in and_then (if code = C_PrfmLit then prefetch_rt insn 0 else reg_num insn 0) (\<lambda>rt.
           and_then (case insn_op insn 1 of OpLabel v \<Rightarrow> Ok v | _ \<Rightarrow> Err EncInvalidOperand) (\<lambda>target.
           and_then (label_imm19 target (i_ip insn)) (\<lambda>imm19.
             Ok (push_bit 30 opc OR push_bit 27 0b011 OR push_bit 26 v OR push_bit 5 imm19 OR rt)))))"

section \<open>Load/store register\<close>

definition rem_i64 :: "i64 \<Rightarrow> i64 \<Rightarrow> i64" where
  "rem_i64 a b = word_of_int (sint a smod sint b)"

definition encode_scaled_imm :: "i64 \<Rightarrow> u32 \<Rightarrow> u32 encoded" where
  "encode_scaled_imm imm scale =
     (let step = push_bit (unat scale) 1
      in if rem_i64 imm step \<noteq> 0 then Err EncInvalidImmediate
         else
          let v = signed_drop_bit (unat scale) imm
          in if \<not> (0 \<le> sint v \<and> sint v \<le> 0xfff) then Err EncInvalidImmediate else Ok (ucast v))"

definition data_reg_field :: "insn \<Rightarrow> reg_form \<Rightarrow> u32 encoded" where
  "data_reg_field insn form = (if rf_is_prfm form then prefetch_rt insn 0 else reg_num insn 0)"

definition enc_reg_unsigned :: "insn \<Rightarrow> u32 encoded" where
  "enc_reg_unsigned insn =
     and_then (ok_or EncUnsupported (reg_form_of (i_code insn))) (\<lambda>(_, form).
     and_then (data_reg_field insn form) (\<lambda>rt.
     and_then (mem_imm insn 1) (\<lambda>(rn, imm, mode).
       if mode \<noteq> MemOffset then Err EncInvalidOperand
       else
        let scale = (if rf_is_fp form then rf_fp_code form else rf_size form)
        in if sint imm < 0 then Err EncInvalidImmediate
           else
            and_then (encode_scaled_imm imm scale) (\<lambda>imm12.
              Ok (push_bit 30 (rf_size form) OR push_bit 27 0b111 OR push_bit 26 (rf_v form) OR push_bit 24 0b01 OR
                  push_bit 22 (rf_opc form) OR push_bit 10 imm12 OR push_bit 5 rn OR rt)))))"

definition encode_imm9 :: "i64 \<Rightarrow> u32 encoded" where
  "encode_imm9 imm =
     (if \<not> (- 256 \<le> sint imm \<and> sint imm \<le> 255) then Err EncInvalidImmediate else Ok (ucast imm AND 0x1ff))"

definition enc_reg_unscaled :: "insn \<Rightarrow> u32 encoded" where
  "enc_reg_unscaled insn =
     and_then (ok_or EncUnsupported (reg_form_of (i_code insn))) (\<lambda>(_, form).
     and_then (data_reg_field insn form) (\<lambda>rt.
     and_then (mem_imm insn 1) (\<lambda>(rn, imm, mode).
       if mode \<noteq> MemOffset then Err EncInvalidOperand
       else
        and_then (encode_imm9 imm) (\<lambda>imm9.
          Ok (push_bit 30 (rf_size form) OR push_bit 27 0b111 OR push_bit 26 (rf_v form) OR push_bit 22 (rf_opc form) OR
              push_bit 12 imm9 OR push_bit 5 rn OR rt)))))"

definition enc_reg_immidx :: "insn \<Rightarrow> u32 encoded" where
  "enc_reg_immidx insn =
     and_then (ok_or EncUnsupported (reg_form_of (i_code insn))) (\<lambda>(variant, form).
     and_then (data_reg_field insn form) (\<lambda>rt.
     and_then (mem_imm insn 1) (\<lambda>(rn, imm, mode).
       let want = (if variant = RvImmPre then MemPreIndex else MemPostImm)
       in if mode \<noteq> want then Err EncInvalidOperand
          else
           and_then (encode_imm9 imm) (\<lambda>imm9.
             let op4 = (if variant = RvImmPre then 0b11 else 0b01)
             in Ok (push_bit 30 (rf_size form) OR push_bit 27 0b111 OR push_bit 26 (rf_v form) OR push_bit 22 (rf_opc form) OR
                    push_bit 12 imm9 OR push_bit 10 op4 OR push_bit 5 rn OR rt)))))"

text \<open>The floating-point forms that share the unsigned-offset codes: \<open>None\<close> defers to the unsigned-offset encoder.\<close>

definition enc_fp_unscaled_or_idx :: "insn \<Rightarrow> u32 encoded option" where
  "enc_fp_unscaled_or_idx insn =
     (case reg_form_of (i_code insn) of
        None \<Rightarrow> None
      | Some (_, form) \<Rightarrow>
         if \<not> rf_is_fp form then None
         else
          (case insn_op insn 1 of
             OpMemImm base imm mode \<Rightarrow>
               (let rn = ucast (reg_number base);
                    is_unscaled = (i_mnemonic insn \<in> {M_Ldur, M_Stur});
                    finish = (\<lambda>op4.
                      Some (and_then (reg_num insn 0) (\<lambda>rt. and_then (encode_imm9 imm) (\<lambda>imm9.
                        Ok (push_bit 30 (rf_size form) OR push_bit 27 0b111 OR push_bit 26 (rf_v form) OR
                            push_bit 22 (rf_opc form) OR push_bit 12 imm9 OR push_bit 10 op4 OR push_bit 5 rn OR rt)))))
                in case mode of
                     MemOffset \<Rightarrow> if is_unscaled then finish 0b00 else None
                   | MemPostImm \<Rightarrow> finish 0b01
                   | MemPreIndex \<Rightarrow> finish 0b11
                   | MemPostReg \<Rightarrow> Some (Err EncInvalidOperand)
                   | MemPreNoOffset \<Rightarrow> Some (Err EncInvalidOperand))
           | _ \<Rightarrow> None))"

definition unpriv_field_rows :: "(code \<times> u32 \<times> u32) list" where
  "unpriv_field_rows =
    [(C_Sttrb, 0, 0), (C_Ldtrb, 0, 1), (C_Ldtrsb64, 0, 2), (C_Ldtrsb32, 0, 3), (C_Sttrh, 1, 0), (C_Ldtrh, 1, 1),
     (C_Ldtrsh64, 1, 2), (C_Ldtrsh32, 1, 3), (C_Sttr32, 2, 0), (C_Ldtr32, 2, 1), (C_Ldtrsw, 2, 2), (C_Sttr64, 3, 0),
     (C_Ldtr64, 3, 1)]"

definition unpriv_fields :: "code \<Rightarrow> (u32 \<times> u32) option" where
  "unpriv_fields code = map_of unpriv_field_rows code"

definition enc_reg_unpriv :: "insn \<Rightarrow> u32 encoded" where
  "enc_reg_unpriv insn =
     and_then (ok_or EncUnsupported (unpriv_fields (i_code insn))) (\<lambda>(sz, opc).
     and_then (reg_num insn 0) (\<lambda>rt.
     and_then (mem_imm insn 1) (\<lambda>(rn, imm, mode).
       if mode \<noteq> MemOffset then Err EncInvalidOperand
       else
        and_then (encode_imm9 imm) (\<lambda>imm9.
          Ok (push_bit 30 sz OR push_bit 27 0b111 OR push_bit 22 opc OR push_bit 12 imm9 OR push_bit 10 0b10 OR
              push_bit 5 rn OR rt)))))"

definition recover_mem_ext :: "insn \<Rightarrow> nat \<Rightarrow> u32 \<Rightarrow> (u32 \<times> u32 \<times> u32 \<times> u32) encoded" where
  "recover_mem_ext insn n scale =
     (case insn_op insn n of
        OpMemExt base index ext shift \<Rightarrow>
          (let rn = ucast (reg_number base);
               rm = ucast (reg_number index);
               option = ucast (extend_type_as_bits ext)
           in if option AND 0b010 = 0 then Err EncInvalidOperand
              else
               let s = drop_bit 7 shift AND 1;
                   amt = ucast (shift AND 0x7f);
                   expected = (if s = 1 then scale else 0)
               in if amt \<noteq> expected then Err EncInvalidImmediate else Ok (rn, rm, option, ucast s))
      | _ \<Rightarrow> Err EncInvalidOperand)"

definition enc_reg_offset :: "insn \<Rightarrow> u32 encoded" where
  "enc_reg_offset insn =
     and_then (ok_or EncUnsupported (reg_form_of (i_code insn))) (\<lambda>(_, form).
     and_then (data_reg_field insn form) (\<lambda>rt.
     and_then
       (if rf_is_fp form then
          and_then (ok_or EncInvalidOperand (fp_acc_of (insn_op_register insn 0))) (\<lambda>acc.
            Ok (form\<lparr>rf_fp_code := acc, rf_size := acc AND 0b11, rf_opc := push_bit 1 (drop_bit 2 acc) OR (rf_opc form AND 1)\<rparr>))
        else Ok form) (\<lambda>form.
     let scale = (if rf_is_fp form then rf_fp_code form else rf_size form)
     in and_then (recover_mem_ext insn 1 scale) (\<lambda>(rn, rm, option, s).
          Ok (push_bit 30 (rf_size form) OR push_bit 27 0b111 OR push_bit 26 (rf_v form) OR push_bit 22 (rf_opc form) OR
              push_bit 21 1 OR push_bit 16 rm OR push_bit 13 option OR push_bit 12 s OR push_bit 10 0b10 OR push_bit 5 rn OR rt)))))"

section \<open>Load/store pair\<close>

record pair_form =
  pf_opc :: u32
  pf_v :: u32
  pf_l :: u32
  pf_idx :: u32
  pf_scale :: u32
  pf_is_fp :: bool
  pf_fp_code :: u32

definition gp_pair :: "u32 \<Rightarrow> u32 \<Rightarrow> u32 \<Rightarrow> u32 \<Rightarrow> pair_form" where
  "gp_pair opc l idx scale =
     \<lparr>pf_opc = opc, pf_v = 0, pf_l = l, pf_idx = idx, pf_scale = scale, pf_is_fp = False, pf_fp_code = 0\<rparr>"

definition fp_pair :: "u32 \<Rightarrow> u32 \<Rightarrow> u32 \<Rightarrow> u32 \<Rightarrow> u32 \<Rightarrow> pair_form" where
  "fp_pair opc l idx scale fp_code =
     \<lparr>pf_opc = opc, pf_v = 1, pf_l = l, pf_idx = idx, pf_scale = scale, pf_is_fp = True, pf_fp_code = fp_code\<rparr>"

definition pair_kind_rows :: "(code \<times> pair_form) list" where
  "pair_kind_rows =
    [(C_Stnp32, gp_pair 0 0 0 2), (C_Ldnp32, gp_pair 0 1 0 2), (C_Stp32Post, gp_pair 0 0 1 2),
     (C_Ldp32Post, gp_pair 0 1 1 2), (C_Stp32, gp_pair 0 0 2 2), (C_Ldp32, gp_pair 0 1 2 2),
     (C_Stp32Pre, gp_pair 0 0 3 2), (C_Ldp32Pre, gp_pair 0 1 3 2), (C_Stnp64, gp_pair 2 0 0 3),
     (C_Ldnp64, gp_pair 2 1 0 3), (C_Stp64Post, gp_pair 2 0 1 3), (C_Ldp64Post, gp_pair 2 1 1 3),
     (C_Stp64, gp_pair 2 0 2 3), (C_Ldp64, gp_pair 2 1 2 3), (C_Stp64Pre, gp_pair 2 0 3 3), (C_LdpPre64, gp_pair 2 1 3 3),
     (C_LdpswPost, gp_pair 1 1 1 2), (C_Ldpsw, gp_pair 1 1 2 2), (C_LdpswPre, gp_pair 1 1 3 2),
     (C_StgpPost, gp_pair 1 0 1 4), (C_StgpOff, gp_pair 1 0 2 4), (C_StgpPre, gp_pair 1 0 3 4),
     (C_StpFp32, fp_pair 0 0 2 2 2), (C_LdpFp32, fp_pair 0 1 2 2 2), (C_StpFp64, fp_pair 1 0 2 3 3),
     (C_LdpFp64, fp_pair 1 1 2 3 3), (C_StpFp128, fp_pair 2 0 2 4 4), (C_LdpFp128, fp_pair 2 1 2 4 4),
     (C_Ldtnp, gp_pair 3 1 0 3), (C_Sttnp, gp_pair 3 0 0 3), (C_LdtpPost, gp_pair 3 1 1 3), (C_SttpPost, gp_pair 3 0 1 3),
     (C_LdtpOff, gp_pair 3 1 2 3), (C_SttpOff, gp_pair 3 0 2 3), (C_LdtpPre, gp_pair 3 1 3 3),
     (C_SttpPre, gp_pair 3 0 3 3), (C_Ldtnpq, fp_pair 3 1 0 4 4), (C_Sttnpq, fp_pair 3 0 0 4 4),
     (C_LdtpqPost, fp_pair 3 1 1 4 4), (C_SttpqPost, fp_pair 3 0 1 4 4), (C_LdtpqOff, fp_pair 3 1 2 4 4),
     (C_SttpqOff, fp_pair 3 0 2 4 4), (C_LdtpqPre, fp_pair 3 1 3 4 4), (C_SttpqPre, fp_pair 3 0 3 4 4)]"

definition pair_kind :: "code \<Rightarrow> pair_form option" where
  "pair_kind code = map_of pair_kind_rows code"

definition encode_scaled_imm7 :: "i64 \<Rightarrow> u32 \<Rightarrow> u32 encoded" where
  "encode_scaled_imm7 imm scale =
     (let step = push_bit (unat scale) 1
      in if rem_i64 imm step \<noteq> 0 then Err EncInvalidImmediate
         else
          let v = signed_drop_bit (unat scale) imm
          in if \<not> (- 64 \<le> sint v \<and> sint v \<le> 63) then Err EncInvalidImmediate else Ok (ucast v AND 0x7f))"

definition pair_mode_idx :: "mnemonic \<Rightarrow> mem_index_mode \<Rightarrow> u32 encoded" where
  "pair_mode_idx mnem mode =
     (if mnem \<in> {M_Ldnp, M_Stnp, M_Ldtnp, M_Sttnp} then
        (if mode \<noteq> MemOffset then Err EncInvalidOperand else Ok 0b00)
      else
        (case mode of
           MemPostImm \<Rightarrow> Ok 0b01
         | MemPreIndex \<Rightarrow> Ok 0b11
         | MemOffset \<Rightarrow> Ok 0b10
         | MemPostReg \<Rightarrow> Err EncInvalidOperand
         | MemPreNoOffset \<Rightarrow> Err EncInvalidOperand))"

definition enc_pair :: "insn \<Rightarrow> u32 encoded" where
  "enc_pair insn =
     and_then (ok_or EncUnsupported (pair_kind (i_code insn))) (\<lambda>form.
     and_then (reg_num insn 0) (\<lambda>rt.
     and_then (reg_num insn 1) (\<lambda>rt2.
     and_then (mem_imm insn 2) (\<lambda>(rn, imm, mode).
     and_then (pair_mode_idx (i_mnemonic insn) mode) (\<lambda>mode_idx.
     and_then
       (if pf_is_fp form then
          and_then (ok_or EncInvalidOperand (fp_acc_of (insn_op_register insn 0))) (\<lambda>acc.
            if acc \<noteq> pf_fp_code form then Err EncInvalidOperand else Ok (form\<lparr>pf_idx := mode_idx\<rparr>))
        else if mode_idx \<noteq> pf_idx form then Err EncInvalidOperand
        else Ok form) (\<lambda>form.
     and_then (encode_scaled_imm7 imm (pf_scale form)) (\<lambda>imm7.
       Ok (push_bit 30 (pf_opc form) OR push_bit 27 0b101 OR push_bit 26 (pf_v form) OR push_bit 23 (pf_idx form) OR
           push_bit 22 (pf_l form) OR push_bit 15 imm7 OR push_bit 10 rt2 OR push_bit 5 rn OR rt))))))))"

end
