(* ===== verification/Names.thy ===== *)
theory Names
  imports Mnemonics
begin

text \<open>
  \<open>src/tables/names.rs\<close>: the spelling of every mnemonic.  The macro \<open>mnemonic_names!\<close> generates \<open>mnemonic_name\<close> as a \<open>match\<close>
  over one table of 1705 rows \<open>Mnemonic::Variant => "name"\<close>; here the table is in blocks of 64 rows, in the order of the
  macro call, which is not that of the enum.
\<close>

definition mnemonic_names_0 :: "(mnemonic \<times> string) list" where
  "mnemonic_names_0 =
    [(M_Invalid, []), (M_Add, ''add''), (M_Sub, ''sub''), (M_Ldr, ''ldr''), (M_Str, ''str''), (M_B, ''b''),
     (M_Bl, ''bl''), (M_Movz, ''movz''), (M_Revd, ''revd''), (M_Adc, ''adc''), (M_Adcs, ''adcs''), (M_Adds, ''adds''),
     (M_Subs, ''subs''), (M_Sbc, ''sbc''), (M_Sbcs, ''sbcs''), (M_Adr, ''adr''), (M_Adrp, ''adrp''), (M_Neg, ''neg''),
     (M_Negs, ''negs''), (M_Ngc, ''ngc''), (M_Ngcs, ''ngcs''), (M_Cmp, ''cmp''), (M_Cmn, ''cmn''), (M_Mov, ''mov''),
     (M_Movn, ''movn''), (M_Movk, ''movk''), (M_And, ''and''), (M_Ands, ''ands''), (M_Orr, ''orr''), (M_Orn, ''orn''),
     (M_Eor, ''eor''), (M_Eon, ''eon''), (M_Bic, ''bic''), (M_Bics, ''bics''), (M_Tst, ''tst''), (M_Mvn, ''mvn''),
     (M_Sbfm, ''sbfm''), (M_Bfm, ''bfm''), (M_Ubfm, ''ubfm''), (M_Sbfx, ''sbfx''), (M_Sbfiz, ''sbfiz''), (M_Bfi, ''bfi''),
     (M_Bfxil, ''bfxil''), (M_Bfc, ''bfc''), (M_Ubfx, ''ubfx''), (M_Ubfiz, ''ubfiz''), (M_Extr, ''extr''),
     (M_Lsl, ''lsl''), (M_Lsr, ''lsr''), (M_Asr, ''asr''), (M_Ror, ''ror''), (M_Lslv, ''lslv''), (M_Lsrv, ''lsrv''),
     (M_Asrv, ''asrv''), (M_Rorv, ''rorv''), (M_Sxtb, ''sxtb''), (M_Sxth, ''sxth''), (M_Sxtw, ''sxtw''),
     (M_Uxtb, ''uxtb''), (M_Uxth, ''uxth''), (M_Csel, ''csel''), (M_Csinc, ''csinc''), (M_Csinv, ''csinv''),
     (M_Csneg, ''csneg'')]"

definition mnemonic_names_1 :: "(mnemonic \<times> string) list" where
  "mnemonic_names_1 =
    [(M_Cset, ''cset''), (M_Csetm, ''csetm''), (M_Cinc, ''cinc''), (M_Cinv, ''cinv''), (M_Cneg, ''cneg''),
     (M_Ccmn, ''ccmn''), (M_Ccmp, ''ccmp''), (M_Rbit, ''rbit''), (M_Rev16, ''rev16''), (M_Rev, ''rev''),
     (M_Rev32, ''rev32''), (M_Clz, ''clz''), (M_Cls, ''cls''), (M_Udiv, ''udiv''), (M_Sdiv, ''sdiv''),
     (M_Crc32b, ''crc32b''), (M_Crc32h, ''crc32h''), (M_Crc32w, ''crc32w''), (M_Crc32x, ''crc32x''),
     (M_Crc32cb, ''crc32cb''), (M_Crc32ch, ''crc32ch''), (M_Crc32cw, ''crc32cw''), (M_Crc32cx, ''crc32cx''),
     (M_Madd, ''madd''), (M_Msub, ''msub''), (M_Mul, ''mul''), (M_Mneg, ''mneg''), (M_Smaddl, ''smaddl''),
     (M_Smsubl, ''smsubl''), (M_Smull, ''smull''), (M_Smnegl, ''smnegl''), (M_Smulh, ''smulh''), (M_Umaddl, ''umaddl''),
     (M_Umsubl, ''umsubl''), (M_Umull, ''umull''), (M_Umnegl, ''umnegl''), (M_Umulh, ''umulh''), (M_Br, ''br''),
     (M_Blr, ''blr''), (M_Ret, ''ret''), (M_Eret, ''eret''), (M_Drps, ''drps''), (M_Cbz, ''cbz''), (M_Cbnz, ''cbnz''),
     (M_Tbz, ''tbz''), (M_Tbnz, ''tbnz''), (M_Braa, ''braa''), (M_Braaz, ''braaz''), (M_Brab, ''brab''),
     (M_Brabz, ''brabz''), (M_Blraa, ''blraa''), (M_Blraaz, ''blraaz''), (M_Blrab, ''blrab''), (M_Blrabz, ''blrabz''),
     (M_Svc, ''svc''), (M_Hvc, ''hvc''), (M_Smc, ''smc''), (M_Brk, ''brk''), (M_Hlt, ''hlt''), (M_Dcps1, ''dcps1''),
     (M_Dcps2, ''dcps2''), (M_Dcps3, ''dcps3''), (M_Nop, ''nop''), (M_Yield, ''yield'')]"

definition mnemonic_names_2 :: "(mnemonic \<times> string) list" where
  "mnemonic_names_2 =
    [(M_Wfe, ''wfe''), (M_Wfi, ''wfi''), (M_Sev, ''sev''), (M_Sevl, ''sevl''), (M_Esb, ''esb''), (M_Psb, ''psb''),
     (M_Csdb, ''csdb''), (M_Bti, ''bti''), (M_Hint, ''hint''), (M_Clrex, ''clrex''), (M_Dsb, ''dsb''), (M_Dmb, ''dmb''),
     (M_Isb, ''isb''), (M_Ssbb, ''ssbb''), (M_Pssbb, ''pssbb''), (M_Sb, ''sb''), (M_Msr, ''msr''), (M_Mrs, ''mrs''),
     (M_Sys, ''sys''), (M_Sysl, ''sysl''), (M_Ic, ''ic''), (M_Dc, ''dc''), (M_At, ''at''), (M_Tlbi, ''tlbi''),
     (M_Cfinv, ''cfinv''), (M_Axflag, ''axflag''), (M_Xaflag, ''xaflag''), (M_Pacia, ''pacia''), (M_Pacib, ''pacib''),
     (M_Pacda, ''pacda''), (M_Pacdb, ''pacdb''), (M_Paciza, ''paciza''), (M_Pacizb, ''pacizb''), (M_Pacdza, ''pacdza''),
     (M_Pacdzb, ''pacdzb''), (M_Pacia1716, ''pacia1716''), (M_Pacib1716, ''pacib1716''), (M_Paciasp, ''paciasp''),
     (M_Paciaz, ''paciaz''), (M_Pacibsp, ''pacibsp''), (M_Pacibz, ''pacibz''), (M_Pacga, ''pacga''), (M_Autia, ''autia''),
     (M_Autib, ''autib''), (M_Autda, ''autda''), (M_Autdb, ''autdb''), (M_Autiza, ''autiza''), (M_Autizb, ''autizb''),
     (M_Autdza, ''autdza''), (M_Autdzb, ''autdzb''), (M_Autia1716, ''autia1716''), (M_Autib1716, ''autib1716''),
     (M_Autiasp, ''autiasp''), (M_Autiaz, ''autiaz''), (M_Autibsp, ''autibsp''), (M_Autibz, ''autibz''),
     (M_Xpaci, ''xpaci''), (M_Xpacd, ''xpacd''), (M_Xpaclri, ''xpaclri''), (M_Retaa, ''retaa''), (M_Retab, ''retab''),
     (M_Eretaa, ''eretaa''), (M_Eretab, ''eretab''), (M_Ldrb, ''ldrb'')]"

definition mnemonic_names_3 :: "(mnemonic \<times> string) list" where
  "mnemonic_names_3 =
    [(M_Ldrh, ''ldrh''), (M_Ldrsb, ''ldrsb''), (M_Ldrsh, ''ldrsh''), (M_Ldrsw, ''ldrsw''), (M_Strb, ''strb''),
     (M_Strh, ''strh''), (M_Ldur, ''ldur''), (M_Stur, ''stur''), (M_Ldurb, ''ldurb''), (M_Ldurh, ''ldurh''),
     (M_Ldursb, ''ldursb''), (M_Ldursh, ''ldursh''), (M_Ldursw, ''ldursw''), (M_Sturb, ''sturb''), (M_Sturh, ''sturh''),
     (M_Ldtr, ''ldtr''), (M_Sttr, ''sttr''), (M_Ldtrb, ''ldtrb''), (M_Ldtrh, ''ldtrh''), (M_Ldtrsb, ''ldtrsb''),
     (M_Ldtrsh, ''ldtrsh''), (M_Ldtrsw, ''ldtrsw''), (M_Sttrb, ''sttrb''), (M_Sttrh, ''sttrh''), (M_Prfm, ''prfm''),
     (M_Prfum, ''prfum''), (M_Ldp, ''ldp''), (M_Stp, ''stp''), (M_Ldpsw, ''ldpsw''), (M_Ldnp, ''ldnp''),
     (M_Stnp, ''stnp''), (M_Ldar, ''ldar''), (M_Ldarb, ''ldarb''), (M_Ldarh, ''ldarh''), (M_Stlr, ''stlr''),
     (M_Stlrb, ''stlrb''), (M_Stlrh, ''stlrh''), (M_Ldxr, ''ldxr''), (M_Ldxrb, ''ldxrb''), (M_Ldxrh, ''ldxrh''),
     (M_Ldxp, ''ldxp''), (M_Stxr, ''stxr''), (M_Stxrb, ''stxrb''), (M_Stxrh, ''stxrh''), (M_Stxp, ''stxp''),
     (M_Ldaxr, ''ldaxr''), (M_Ldaxrb, ''ldaxrb''), (M_Ldaxrh, ''ldaxrh''), (M_Ldaxp, ''ldaxp''), (M_Stlxr, ''stlxr''),
     (M_Stlxrb, ''stlxrb''), (M_Stlxrh, ''stlxrh''), (M_Stlxp, ''stlxp''), (M_Ldapr, ''ldapr''), (M_Ldaprb, ''ldaprb''),
     (M_Ldaprh, ''ldaprh''), (M_Stllr, ''stllr''), (M_Stllrb, ''stllrb''), (M_Stllrh, ''stllrh''), (M_Ldlar, ''ldlar''),
     (M_Ldlarb, ''ldlarb''), (M_Ldlarh, ''ldlarh''), (M_Cas, ''cas''), (M_Casa, ''casa'')]"

definition mnemonic_names_4 :: "(mnemonic \<times> string) list" where
  "mnemonic_names_4 =
    [(M_Casl, ''casl''), (M_Casal, ''casal''), (M_Casb, ''casb''), (M_Casab, ''casab''), (M_Caslb, ''caslb''),
     (M_Casalb, ''casalb''), (M_Cash, ''cash''), (M_Casah, ''casah''), (M_Caslh, ''caslh''), (M_Casalh, ''casalh''),
     (M_Casp, ''casp''), (M_Caspa, ''caspa''), (M_Caspl, ''caspl''), (M_Caspal, ''caspal''), (M_Ldtxr, ''ldtxr''),
     (M_Ldatxr, ''ldatxr''), (M_Sttxr, ''sttxr''), (M_Stltxr, ''stltxr''), (M_Cast, ''cast''), (M_Casat, ''casat''),
     (M_Caslt, ''caslt''), (M_Casalt, ''casalt''), (M_Caspt, ''caspt''), (M_Caspat, ''caspat''), (M_Casplt, ''casplt''),
     (M_Caspalt, ''caspalt''), (M_Ld64b, ''ld64b''), (M_St64b, ''st64b''), (M_St64bv, ''st64bv''),
     (M_St64bv0, ''st64bv0''), (M_Ldclrp, ''ldclrp''), (M_Ldclrpa, ''ldclrpa''), (M_Ldclrpal, ''ldclrpal''),
     (M_Ldclrpl, ''ldclrpl''), (M_Ldsetp, ''ldsetp''), (M_Ldsetpa, ''ldsetpa''), (M_Ldsetpal, ''ldsetpal''),
     (M_Ldsetpl, ''ldsetpl''), (M_Ldtadd, ''ldtadd''), (M_Ldtadda, ''ldtadda''), (M_Ldtaddal, ''ldtaddal''),
     (M_Ldtaddl, ''ldtaddl''), (M_Ldtclr, ''ldtclr''), (M_Ldtclra, ''ldtclra''), (M_Ldtclral, ''ldtclral''),
     (M_Ldtclrl, ''ldtclrl''), (M_Ldtset, ''ldtset''), (M_Ldtseta, ''ldtseta''), (M_Ldtsetal, ''ldtsetal''),
     (M_Ldtsetl, ''ldtsetl''), (M_Rcwcas, ''rcwcas''), (M_Rcwcasa, ''rcwcasa''), (M_Rcwcasal, ''rcwcasal''),
     (M_Rcwcasl, ''rcwcasl''), (M_Rcwcasp, ''rcwcasp''), (M_Rcwcaspa, ''rcwcaspa''), (M_Rcwcaspal, ''rcwcaspal''),
     (M_Rcwcaspl, ''rcwcaspl''), (M_Rcwclrp, ''rcwclrp''), (M_Rcwclrpa, ''rcwclrpa''), (M_Rcwclrpal, ''rcwclrpal''),
     (M_Rcwclrpl, ''rcwclrpl''), (M_Rcwscas, ''rcwscas''), (M_Rcwscasa, ''rcwscasa'')]"

definition mnemonic_names_5 :: "(mnemonic \<times> string) list" where
  "mnemonic_names_5 =
    [(M_Rcwscasal, ''rcwscasal''), (M_Rcwscasl, ''rcwscasl''), (M_Rcwscasp, ''rcwscasp''), (M_Rcwscaspa, ''rcwscaspa''),
     (M_Rcwscaspal, ''rcwscaspal''), (M_Rcwscaspl, ''rcwscaspl''), (M_Rcwsclrp, ''rcwsclrp''),
     (M_Rcwsclrpa, ''rcwsclrpa''), (M_Rcwsclrpal, ''rcwsclrpal''), (M_Rcwsclrpl, ''rcwsclrpl''), (M_Rcwsetp, ''rcwsetp''),
     (M_Rcwsetpa, ''rcwsetpa''), (M_Rcwsetpal, ''rcwsetpal''), (M_Rcwsetpl, ''rcwsetpl''), (M_Rcwssetp, ''rcwssetp''),
     (M_Rcwssetpa, ''rcwssetpa''), (M_Rcwssetpal, ''rcwssetpal''), (M_Rcwssetpl, ''rcwssetpl''),
     (M_Rcwsswpp, ''rcwsswpp''), (M_Rcwsswppa, ''rcwsswppa''), (M_Rcwsswppal, ''rcwsswppal''),
     (M_Rcwsswppl, ''rcwsswppl''), (M_Rcwswpp, ''rcwswpp''), (M_Rcwswppa, ''rcwswppa''), (M_Rcwswppal, ''rcwswppal''),
     (M_Rcwswppl, ''rcwswppl''), (M_Rcwclr, ''rcwclr''), (M_Rcwclra, ''rcwclra''), (M_Rcwclral, ''rcwclral''),
     (M_Rcwclrl, ''rcwclrl''), (M_Rcwset, ''rcwset''), (M_Rcwseta, ''rcwseta''), (M_Rcwsetal, ''rcwsetal''),
     (M_Rcwsetl, ''rcwsetl''), (M_Rcwswp, ''rcwswp''), (M_Rcwswpa, ''rcwswpa''), (M_Rcwswpal, ''rcwswpal''),
     (M_Rcwswpl, ''rcwswpl''), (M_Rcwsclr, ''rcwsclr''), (M_Rcwsclra, ''rcwsclra''), (M_Rcwsclral, ''rcwsclral''),
     (M_Rcwsclrl, ''rcwsclrl''), (M_Rcwsset, ''rcwsset''), (M_Rcwsseta, ''rcwsseta''), (M_Rcwssetal, ''rcwssetal''),
     (M_Rcwssetl, ''rcwssetl''), (M_Rcwsswp, ''rcwsswp''), (M_Rcwsswpa, ''rcwsswpa''), (M_Rcwsswpal, ''rcwsswpal''),
     (M_Rcwsswpl, ''rcwsswpl''), (M_Swpp, ''swpp''), (M_Swppa, ''swppa''), (M_Swppal, ''swppal''), (M_Swppl, ''swppl''),
     (M_Swpt, ''swpt''), (M_Swpta, ''swpta''), (M_Swptal, ''swptal''), (M_Swptl, ''swptl''), (M_Swp, ''swp''),
     (M_Swpa, ''swpa''), (M_Swpl, ''swpl''), (M_Swpal, ''swpal''), (M_Swpb, ''swpb''), (M_Swpab, ''swpab'')]"

definition mnemonic_names_6 :: "(mnemonic \<times> string) list" where
  "mnemonic_names_6 =
    [(M_Swplb, ''swplb''), (M_Swpalb, ''swpalb''), (M_Swph, ''swph''), (M_Swpah, ''swpah''), (M_Swplh, ''swplh''),
     (M_Swpalh, ''swpalh''), (M_Ldadd, ''ldadd''), (M_Ldclr, ''ldclr''), (M_Ldeor, ''ldeor''), (M_Ldset, ''ldset''),
     (M_Ldsmax, ''ldsmax''), (M_Ldsmin, ''ldsmin''), (M_Ldumax, ''ldumax''), (M_Ldumin, ''ldumin''),
     (M_Ldadda, ''ldadda''), (M_Ldclra, ''ldclra''), (M_Ldeora, ''ldeora''), (M_Ldseta, ''ldseta''),
     (M_Ldaddl, ''ldaddl''), (M_Ldclrl, ''ldclrl''), (M_Ldeorl, ''ldeorl''), (M_Ldsetl, ''ldsetl''),
     (M_Ldaddal, ''ldaddal''), (M_Ldclral, ''ldclral''), (M_Ldeoral, ''ldeoral''), (M_Ldsetal, ''ldsetal''),
     (M_Stadd, ''stadd''), (M_Stclr, ''stclr''), (M_Steor, ''steor''), (M_Stset, ''stset''), (M_Stsmax, ''stsmax''),
     (M_Stsmin, ''stsmin''), (M_Stumax, ''stumax''), (M_Stumin, ''stumin''), (M_Ldraa, ''ldraa''), (M_Ldrab, ''ldrab''),
     (M_Ldapur, ''ldapur''), (M_Ldapurb, ''ldapurb''), (M_Ldapurh, ''ldapurh''), (M_Ldapursb, ''ldapursb''),
     (M_Ldapursh, ''ldapursh''), (M_Ldapursw, ''ldapursw''), (M_Stlur, ''stlur''), (M_Stlurb, ''stlurb''),
     (M_Stlurh, ''stlurh''), (M_Ldiapp, ''ldiapp''), (M_Stilp, ''stilp''), (M_Ldtp, ''ldtp''), (M_Sttp, ''sttp''),
     (M_Ldtnp, ''ldtnp''), (M_Sttnp, ''sttnp''), (M_Stg, ''stg''), (M_Stzg, ''stzg''), (M_St2g, ''st2g''),
     (M_Stz2g, ''stz2g''), (M_Stgp, ''stgp''), (M_Ldg, ''ldg''), (M_Ldgm, ''ldgm''), (M_Stgm, ''stgm''),
     (M_Stzgm, ''stzgm''), (M_Cpyfp, ''cpyfp''), (M_Cpyfpwt, ''cpyfpwt''), (M_Cpyfprt, ''cpyfprt''),
     (M_Cpyfpt, ''cpyfpt'')]"

definition mnemonic_names_7 :: "(mnemonic \<times> string) list" where
  "mnemonic_names_7 =
    [(M_Cpyfpwn, ''cpyfpwn''), (M_Cpyfpwtwn, ''cpyfpwtwn''), (M_Cpyfprtwn, ''cpyfprtwn''), (M_Cpyfptwn, ''cpyfptwn''),
     (M_Cpyfprn, ''cpyfprn''), (M_Cpyfpwtrn, ''cpyfpwtrn''), (M_Cpyfprtrn, ''cpyfprtrn''), (M_Cpyfptrn, ''cpyfptrn''),
     (M_Cpyfpn, ''cpyfpn''), (M_Cpyfpwtn, ''cpyfpwtn''), (M_Cpyfprtn, ''cpyfprtn''), (M_Cpyfptn, ''cpyfptn''),
     (M_Cpyfm, ''cpyfm''), (M_Cpyfmwt, ''cpyfmwt''), (M_Cpyfmrt, ''cpyfmrt''), (M_Cpyfmt, ''cpyfmt''),
     (M_Cpyfmwn, ''cpyfmwn''), (M_Cpyfmwtwn, ''cpyfmwtwn''), (M_Cpyfmrtwn, ''cpyfmrtwn''), (M_Cpyfmtwn, ''cpyfmtwn''),
     (M_Cpyfmrn, ''cpyfmrn''), (M_Cpyfmwtrn, ''cpyfmwtrn''), (M_Cpyfmrtrn, ''cpyfmrtrn''), (M_Cpyfmtrn, ''cpyfmtrn''),
     (M_Cpyfmn, ''cpyfmn''), (M_Cpyfmwtn, ''cpyfmwtn''), (M_Cpyfmrtn, ''cpyfmrtn''), (M_Cpyfmtn, ''cpyfmtn''),
     (M_Cpyfe, ''cpyfe''), (M_Cpyfewt, ''cpyfewt''), (M_Cpyfert, ''cpyfert''), (M_Cpyfet, ''cpyfet''),
     (M_Cpyfewn, ''cpyfewn''), (M_Cpyfewtwn, ''cpyfewtwn''), (M_Cpyfertwn, ''cpyfertwn''), (M_Cpyfetwn, ''cpyfetwn''),
     (M_Cpyfern, ''cpyfern''), (M_Cpyfewtrn, ''cpyfewtrn''), (M_Cpyfertrn, ''cpyfertrn''), (M_Cpyfetrn, ''cpyfetrn''),
     (M_Cpyfen, ''cpyfen''), (M_Cpyfewtn, ''cpyfewtn''), (M_Cpyfertn, ''cpyfertn''), (M_Cpyfetn, ''cpyfetn''),
     (M_Setp, ''setp''), (M_Setpt, ''setpt''), (M_Setpn, ''setpn''), (M_Setptn, ''setptn''), (M_Setm, ''setm''),
     (M_Setmt, ''setmt''), (M_Setmn, ''setmn''), (M_Setmtn, ''setmtn''), (M_Sete, ''sete''), (M_Setet, ''setet''),
     (M_Seten, ''seten''), (M_Setetn, ''setetn''), (M_Cpyp, ''cpyp''), (M_Cpypwt, ''cpypwt''), (M_Cpyprt, ''cpyprt''),
     (M_Cpypt, ''cpypt''), (M_Cpypwn, ''cpypwn''), (M_Cpypwtwn, ''cpypwtwn''), (M_Cpyprtwn, ''cpyprtwn''),
     (M_Cpyptwn, ''cpyptwn'')]"

definition mnemonic_names_8 :: "(mnemonic \<times> string) list" where
  "mnemonic_names_8 =
    [(M_Cpyprn, ''cpyprn''), (M_Cpypwtrn, ''cpypwtrn''), (M_Cpyprtrn, ''cpyprtrn''), (M_Cpyptrn, ''cpyptrn''),
     (M_Cpypn, ''cpypn''), (M_Cpypwtn, ''cpypwtn''), (M_Cpyprtn, ''cpyprtn''), (M_Cpyptn, ''cpyptn''), (M_Cpym, ''cpym''),
     (M_Cpymwt, ''cpymwt''), (M_Cpymrt, ''cpymrt''), (M_Cpymt, ''cpymt''), (M_Cpymwn, ''cpymwn''),
     (M_Cpymwtwn, ''cpymwtwn''), (M_Cpymrtwn, ''cpymrtwn''), (M_Cpymtwn, ''cpymtwn''), (M_Cpymrn, ''cpymrn''),
     (M_Cpymwtrn, ''cpymwtrn''), (M_Cpymrtrn, ''cpymrtrn''), (M_Cpymtrn, ''cpymtrn''), (M_Cpymn, ''cpymn''),
     (M_Cpymwtn, ''cpymwtn''), (M_Cpymrtn, ''cpymrtn''), (M_Cpymtn, ''cpymtn''), (M_Cpye, ''cpye''),
     (M_Cpyewt, ''cpyewt''), (M_Cpyert, ''cpyert''), (M_Cpyet, ''cpyet''), (M_Cpyewn, ''cpyewn''),
     (M_Cpyewtwn, ''cpyewtwn''), (M_Cpyertwn, ''cpyertwn''), (M_Cpyetwn, ''cpyetwn''), (M_Cpyern, ''cpyern''),
     (M_Cpyewtrn, ''cpyewtrn''), (M_Cpyertrn, ''cpyertrn''), (M_Cpyetrn, ''cpyetrn''), (M_Cpyen, ''cpyen''),
     (M_Cpyewtn, ''cpyewtn''), (M_Cpyertn, ''cpyertn''), (M_Cpyetn, ''cpyetn''), (M_Setgp, ''setgp''),
     (M_Setgpt, ''setgpt''), (M_Setgpn, ''setgpn''), (M_Setgptn, ''setgptn''), (M_Setgm, ''setgm''),
     (M_Setgmt, ''setgmt''), (M_Setgmn, ''setgmn''), (M_Setgmtn, ''setgmtn''), (M_Setge, ''setge''),
     (M_Setget, ''setget''), (M_Setgen, ''setgen''), (M_Setgetn, ''setgetn''), (M_Ldaddab, ''ldaddab''),
     (M_Ldaddah, ''ldaddah''), (M_Ldaddalb, ''ldaddalb''), (M_Ldaddalh, ''ldaddalh''), (M_Ldaddb, ''ldaddb''),
     (M_Ldaddh, ''ldaddh''), (M_Ldaddlb, ''ldaddlb''), (M_Ldaddlh, ''ldaddlh''), (M_Ldclrab, ''ldclrab''),
     (M_Ldclrah, ''ldclrah''), (M_Ldclralb, ''ldclralb''), (M_Ldclralh, ''ldclralh'')]"

definition mnemonic_names_9 :: "(mnemonic \<times> string) list" where
  "mnemonic_names_9 =
    [(M_Ldclrb, ''ldclrb''), (M_Ldclrh, ''ldclrh''), (M_Ldclrlb, ''ldclrlb''), (M_Ldclrlh, ''ldclrlh''),
     (M_Ldeorab, ''ldeorab''), (M_Ldeorah, ''ldeorah''), (M_Ldeoralb, ''ldeoralb''), (M_Ldeoralh, ''ldeoralh''),
     (M_Ldeorb, ''ldeorb''), (M_Ldeorh, ''ldeorh''), (M_Ldeorlb, ''ldeorlb''), (M_Ldeorlh, ''ldeorlh''),
     (M_Ldsetab, ''ldsetab''), (M_Ldsetah, ''ldsetah''), (M_Ldsetalb, ''ldsetalb''), (M_Ldsetalh, ''ldsetalh''),
     (M_Ldsetb, ''ldsetb''), (M_Ldseth, ''ldseth''), (M_Ldsetlb, ''ldsetlb''), (M_Ldsetlh, ''ldsetlh''),
     (M_Ldsmaxa, ''ldsmaxa''), (M_Ldsmaxab, ''ldsmaxab''), (M_Ldsmaxah, ''ldsmaxah''), (M_Ldsmaxal, ''ldsmaxal''),
     (M_Ldsmaxalb, ''ldsmaxalb''), (M_Ldsmaxalh, ''ldsmaxalh''), (M_Ldsmaxb, ''ldsmaxb''), (M_Ldsmaxh, ''ldsmaxh''),
     (M_Ldsmaxl, ''ldsmaxl''), (M_Ldsmaxlb, ''ldsmaxlb''), (M_Ldsmaxlh, ''ldsmaxlh''), (M_Ldsmina, ''ldsmina''),
     (M_Ldsminab, ''ldsminab''), (M_Ldsminah, ''ldsminah''), (M_Ldsminal, ''ldsminal''), (M_Ldsminalb, ''ldsminalb''),
     (M_Ldsminalh, ''ldsminalh''), (M_Ldsminb, ''ldsminb''), (M_Ldsminh, ''ldsminh''), (M_Ldsminl, ''ldsminl''),
     (M_Ldsminlb, ''ldsminlb''), (M_Ldsminlh, ''ldsminlh''), (M_Ldumaxa, ''ldumaxa''), (M_Ldumaxab, ''ldumaxab''),
     (M_Ldumaxah, ''ldumaxah''), (M_Ldumaxal, ''ldumaxal''), (M_Ldumaxalb, ''ldumaxalb''), (M_Ldumaxalh, ''ldumaxalh''),
     (M_Ldumaxb, ''ldumaxb''), (M_Ldumaxh, ''ldumaxh''), (M_Ldumaxl, ''ldumaxl''), (M_Ldumaxlb, ''ldumaxlb''),
     (M_Ldumaxlh, ''ldumaxlh''), (M_Ldumina, ''ldumina''), (M_Lduminab, ''lduminab''), (M_Lduminah, ''lduminah''),
     (M_Lduminal, ''lduminal''), (M_Lduminalb, ''lduminalb''), (M_Lduminalh, ''lduminalh''), (M_Lduminb, ''lduminb''),
     (M_Lduminh, ''lduminh''), (M_Lduminl, ''lduminl''), (M_Lduminlb, ''lduminlb''), (M_Lduminlh, ''lduminlh'')]"

definition mnemonic_names_10 :: "(mnemonic \<times> string) list" where
  "mnemonic_names_10 =
    [(M_Staddb, ''staddb''), (M_Staddh, ''staddh''), (M_Staddl, ''staddl''), (M_Staddlb, ''staddlb''),
     (M_Staddlh, ''staddlh''), (M_Stclrb, ''stclrb''), (M_Stclrh, ''stclrh''), (M_Stclrl, ''stclrl''),
     (M_Stclrlb, ''stclrlb''), (M_Stclrlh, ''stclrlh''), (M_Steorb, ''steorb''), (M_Steorh, ''steorh''),
     (M_Steorl, ''steorl''), (M_Steorlb, ''steorlb''), (M_Steorlh, ''steorlh''), (M_Stsetb, ''stsetb''),
     (M_Stseth, ''stseth''), (M_Stsetl, ''stsetl''), (M_Stsetlb, ''stsetlb''), (M_Stsetlh, ''stsetlh''),
     (M_Stsmaxb, ''stsmaxb''), (M_Stsmaxh, ''stsmaxh''), (M_Stsmaxl, ''stsmaxl''), (M_Stsmaxlb, ''stsmaxlb''),
     (M_Stsmaxlh, ''stsmaxlh''), (M_Stsminb, ''stsminb''), (M_Stsminh, ''stsminh''), (M_Stsminl, ''stsminl''),
     (M_Stsminlb, ''stsminlb''), (M_Stsminlh, ''stsminlh''), (M_Stumaxb, ''stumaxb''), (M_Stumaxh, ''stumaxh''),
     (M_Stumaxl, ''stumaxl''), (M_Stumaxlb, ''stumaxlb''), (M_Stumaxlh, ''stumaxlh''), (M_Stuminb, ''stuminb''),
     (M_Stuminh, ''stuminh''), (M_Stuminl, ''stuminl''), (M_Stuminlb, ''stuminlb''), (M_Stuminlh, ''stuminlh''),
     (M_Fmov, ''fmov''), (M_Fcvt, ''fcvt''), (M_Fcvtzs, ''fcvtzs''), (M_Fcvtzu, ''fcvtzu''), (M_Fcvtas, ''fcvtas''),
     (M_Fcvtau, ''fcvtau''), (M_Fcvtms, ''fcvtms''), (M_Fcvtmu, ''fcvtmu''), (M_Fcvtns, ''fcvtns''),
     (M_Fcvtnu, ''fcvtnu''), (M_Fcvtps, ''fcvtps''), (M_Fcvtpu, ''fcvtpu''), (M_Scvtf, ''scvtf''), (M_Ucvtf, ''ucvtf''),
     (M_Fabs, ''fabs''), (M_Fneg, ''fneg''), (M_Fsqrt, ''fsqrt''), (M_Fadd, ''fadd''), (M_Fsub, ''fsub''),
     (M_Fmul, ''fmul''), (M_Fdiv, ''fdiv''), (M_Fnmul, ''fnmul''), (M_Fmadd, ''fmadd''), (M_Fmsub, ''fmsub'')]"

definition mnemonic_names_11 :: "(mnemonic \<times> string) list" where
  "mnemonic_names_11 =
    [(M_Fnmadd, ''fnmadd''), (M_Fnmsub, ''fnmsub''), (M_Fmax, ''fmax''), (M_Fmin, ''fmin''), (M_Fmaxnm, ''fmaxnm''),
     (M_Fminnm, ''fminnm''), (M_Fcmp, ''fcmp''), (M_Fcmpe, ''fcmpe''), (M_Fccmp, ''fccmp''), (M_Fccmpe, ''fccmpe''),
     (M_Fcsel, ''fcsel''), (M_Frinta, ''frinta''), (M_Frinti, ''frinti''), (M_Frintm, ''frintm''), (M_Frintn, ''frintn''),
     (M_Frintp, ''frintp''), (M_Frintx, ''frintx''), (M_Frintz, ''frintz''), (M_Fjcvtzs, ''fjcvtzs''),
     (M_Frint32x, ''frint32x''), (M_Frint32z, ''frint32z''), (M_Frint64x, ''frint64x''), (M_Frint64z, ''frint64z''),
     (M_Bfcvt, ''bfcvt''), (M_Dup, ''dup''), (M_Ins, ''ins''), (M_Umov, ''umov''), (M_Smov, ''smov''), (M_Movi, ''movi''),
     (M_Mvni, ''mvni''), (M_Tbl, ''tbl''), (M_Tbx, ''tbx''), (M_Luti2, ''luti2''), (M_Luti4, ''luti4''), (M_Ext, ''ext''),
     (M_Zip1, ''zip1''), (M_Zip2, ''zip2''), (M_Uzp1, ''uzp1''), (M_Uzp2, ''uzp2''), (M_Zip, ''zip''), (M_Uzp, ''uzp''),
     (M_Trn1, ''trn1''), (M_Trn2, ''trn2''), (M_Addv, ''addv''), (M_Cnt, ''cnt''), (M_Ld1, ''ld1''), (M_Ld2, ''ld2''),
     (M_Ld3, ''ld3''), (M_Ld4, ''ld4''), (M_St1, ''st1''), (M_St2, ''st2''), (M_St3, ''st3''), (M_St4, ''st4''),
     (M_Ld1r, ''ld1r''), (M_Ld2r, ''ld2r''), (M_Ld3r, ''ld3r''), (M_Ld4r, ''ld4r''), (M_Addg, ''addg''),
     (M_Subg, ''subg''), (M_Subp, ''subp''), (M_Subps, ''subps''), (M_Irg, ''irg''), (M_Gmi, ''gmi''), (M_Cfp, ''cfp'')]"

definition mnemonic_names_12 :: "(mnemonic \<times> string) list" where
  "mnemonic_names_12 =
    [(M_Cpp, ''cpp''), (M_Dvp, ''dvp''), (M_Tcancel, ''tcancel''), (M_Tcommit, ''tcommit''), (M_Tstart, ''tstart''),
     (M_Ttest, ''ttest''), (M_Tsb, ''tsb''), (M_Wfet, ''wfet''), (M_Wfit, ''wfit''), (M_Udf, ''udf''), (M_Abs, ''abs''),
     (M_Addhn, ''addhn''), (M_Addhn2, ''addhn2''), (M_Addp, ''addp''), (M_Cmeq, ''cmeq''), (M_Cmge, ''cmge''),
     (M_Cmgt, ''cmgt''), (M_Cmhi, ''cmhi''), (M_Cmhs, ''cmhs''), (M_Cmle, ''cmle''), (M_Cmlt, ''cmlt''),
     (M_Cmtst, ''cmtst''), (M_Fabd, ''fabd''), (M_Facge, ''facge''), (M_Facgt, ''facgt''), (M_Faddp, ''faddp''),
     (M_Fcadd, ''fcadd''), (M_Fcmeq, ''fcmeq''), (M_Fcmge, ''fcmge''), (M_Fcmgt, ''fcmgt''), (M_Fcmla, ''fcmla''),
     (M_Fcmle, ''fcmle''), (M_Fcmlt, ''fcmlt''), (M_Fcvtl, ''fcvtl''), (M_Fcvtl2, ''fcvtl2''), (M_Fcvtn, ''fcvtn''),
     (M_Fcvtn2, ''fcvtn2''), (M_Famax, ''famax''), (M_Famin, ''famin''), (M_Bfcvtn, ''bfcvtn''), (M_Bfcvtn2, ''bfcvtn2''),
     (M_F1cvtl, ''f1cvtl''), (M_F1cvtl2, ''f1cvtl2''), (M_F2cvtl, ''f2cvtl''), (M_F2cvtl2, ''f2cvtl2''),
     (M_Bf1cvtl, ''bf1cvtl''), (M_Bf1cvtl2, ''bf1cvtl2''), (M_Bf2cvtl, ''bf2cvtl''), (M_Bf2cvtl2, ''bf2cvtl2''),
     (M_Fcvtxn, ''fcvtxn''), (M_Fcvtxn2, ''fcvtxn2''), (M_Fmaxnmp, ''fmaxnmp''), (M_Fmaxnmv, ''fmaxnmv''),
     (M_Fmaxp, ''fmaxp''), (M_Fmaxv, ''fmaxv''), (M_Fminnmp, ''fminnmp''), (M_Fminnmv, ''fminnmv''), (M_Fminp, ''fminp''),
     (M_Fminv, ''fminv''), (M_Fmla, ''fmla''), (M_Fmlal, ''fmlal''), (M_Fmlal2, ''fmlal2''), (M_Fmls, ''fmls''),
     (M_Fmlsl, ''fmlsl'')]"

definition mnemonic_names_13 :: "(mnemonic \<times> string) list" where
  "mnemonic_names_13 =
    [(M_Fmlsl2, ''fmlsl2''), (M_Fmulx, ''fmulx''), (M_Frecpe, ''frecpe''), (M_Frecps, ''frecps''), (M_Frecpx, ''frecpx''),
     (M_Frsqrte, ''frsqrte''), (M_Frsqrts, ''frsqrts''), (M_Mla, ''mla''), (M_Mls, ''mls''), (M_Pmul, ''pmul''),
     (M_Pmull, ''pmull''), (M_Pmull2, ''pmull2''), (M_Raddhn, ''raddhn''), (M_Raddhn2, ''raddhn2''), (M_Rev64, ''rev64''),
     (M_Rsubhn, ''rsubhn''), (M_Rsubhn2, ''rsubhn2''), (M_Saba, ''saba''), (M_Sabal, ''sabal''), (M_Sabal2, ''sabal2''),
     (M_Sabd, ''sabd''), (M_Sabdl, ''sabdl''), (M_Sabdl2, ''sabdl2''), (M_Sadalp, ''sadalp''), (M_Saddl, ''saddl''),
     (M_Saddl2, ''saddl2''), (M_Saddlp, ''saddlp''), (M_Saddlv, ''saddlv''), (M_Saddw, ''saddw''), (M_Saddw2, ''saddw2''),
     (M_Shadd, ''shadd''), (M_Shll, ''shll''), (M_Shll2, ''shll2''), (M_Shsub, ''shsub''), (M_Smax, ''smax''),
     (M_Smaxp, ''smaxp''), (M_Smaxv, ''smaxv''), (M_Smin, ''smin''), (M_Sminp, ''sminp''), (M_Sminv, ''sminv''),
     (M_Smlal, ''smlal''), (M_Smlal2, ''smlal2''), (M_Smlsl, ''smlsl''), (M_Smlsl2, ''smlsl2''), (M_Smull2, ''smull2''),
     (M_Sqabs, ''sqabs''), (M_Sqadd, ''sqadd''), (M_Sqdmlal, ''sqdmlal''), (M_Sqdmlal2, ''sqdmlal2''),
     (M_Sqdmlsl, ''sqdmlsl''), (M_Sqdmlsl2, ''sqdmlsl2''), (M_Sqdmulh, ''sqdmulh''), (M_Sqdmull, ''sqdmull''),
     (M_Sqdmull2, ''sqdmull2''), (M_Sqneg, ''sqneg''), (M_Sqrdmlah, ''sqrdmlah''), (M_Sqrdmlsh, ''sqrdmlsh''),
     (M_Sqrdmulh, ''sqrdmulh''), (M_Sqrshl, ''sqrshl''), (M_Sqshl, ''sqshl''), (M_Sqsub, ''sqsub''), (M_Sqxtn, ''sqxtn''),
     (M_Sqxtn2, ''sqxtn2''), (M_Sqxtun, ''sqxtun'')]"

definition mnemonic_names_14 :: "(mnemonic \<times> string) list" where
  "mnemonic_names_14 =
    [(M_Sqxtun2, ''sqxtun2''), (M_Srhadd, ''srhadd''), (M_Srshl, ''srshl''), (M_Sshl, ''sshl''), (M_Ssubl, ''ssubl''),
     (M_Ssubl2, ''ssubl2''), (M_Ssubw, ''ssubw''), (M_Ssubw2, ''ssubw2''), (M_Subhn, ''subhn''), (M_Subhn2, ''subhn2''),
     (M_Suqadd, ''suqadd''), (M_Uaba, ''uaba''), (M_Uabal, ''uabal''), (M_Uabal2, ''uabal2''), (M_Uabd, ''uabd''),
     (M_Uabdl, ''uabdl''), (M_Uabdl2, ''uabdl2''), (M_Uadalp, ''uadalp''), (M_Uaddl, ''uaddl''), (M_Uaddl2, ''uaddl2''),
     (M_Uaddlp, ''uaddlp''), (M_Uaddlv, ''uaddlv''), (M_Uaddw, ''uaddw''), (M_Uaddw2, ''uaddw2''), (M_Uhadd, ''uhadd''),
     (M_Uhsub, ''uhsub''), (M_Umax, ''umax''), (M_Umaxp, ''umaxp''), (M_Umaxv, ''umaxv''), (M_Umin, ''umin''),
     (M_Uminp, ''uminp''), (M_Uminv, ''uminv''), (M_Umlal, ''umlal''), (M_Umlal2, ''umlal2''), (M_Umlsl, ''umlsl''),
     (M_Umlsl2, ''umlsl2''), (M_Umull2, ''umull2''), (M_Uqadd, ''uqadd''), (M_Uqrshl, ''uqrshl''), (M_Uqshl, ''uqshl''),
     (M_Uqsub, ''uqsub''), (M_Uqxtn, ''uqxtn''), (M_Uqxtn2, ''uqxtn2''), (M_Urecpe, ''urecpe''), (M_Urhadd, ''urhadd''),
     (M_Urshl, ''urshl''), (M_Ursqrte, ''ursqrte''), (M_Ushl, ''ushl''), (M_Usqadd, ''usqadd''), (M_Usubl, ''usubl''),
     (M_Usubl2, ''usubl2''), (M_Usubw, ''usubw''), (M_Usubw2, ''usubw2''), (M_Xtn, ''xtn''), (M_Xtn2, ''xtn2''),
     (M_Sshr, ''sshr''), (M_Ushr, ''ushr''), (M_Srshr, ''srshr''), (M_Urshr, ''urshr''), (M_Ssra, ''ssra''),
     (M_Usra, ''usra''), (M_Srsra, ''srsra''), (M_Ursra, ''ursra''), (M_Shl, ''shl'')]"

definition mnemonic_names_15 :: "(mnemonic \<times> string) list" where
  "mnemonic_names_15 =
    [(M_Sqshlu, ''sqshlu''), (M_Shrn, ''shrn''), (M_Shrn2, ''shrn2''), (M_Rshrn, ''rshrn''), (M_Rshrn2, ''rshrn2''),
     (M_Sqshrn, ''sqshrn''), (M_Sqshrn2, ''sqshrn2''), (M_Sqrshrn, ''sqrshrn''), (M_Sqrshrn2, ''sqrshrn2''),
     (M_Uqshrn, ''uqshrn''), (M_Uqshrn2, ''uqshrn2''), (M_Uqrshrn, ''uqrshrn''), (M_Uqrshrn2, ''uqrshrn2''),
     (M_Sqshrun, ''sqshrun''), (M_Sqshrun2, ''sqshrun2''), (M_Sqrshrun, ''sqrshrun''), (M_Sqrshrun2, ''sqrshrun2''),
     (M_Sshll, ''sshll''), (M_Sshll2, ''sshll2''), (M_Ushll, ''ushll''), (M_Ushll2, ''ushll2''), (M_Sxtl, ''sxtl''),
     (M_Sxtl2, ''sxtl2''), (M_Uxtl, ''uxtl''), (M_Uxtl2, ''uxtl2''), (M_Sli, ''sli''), (M_Sri, ''sri''),
     (M_Subr, ''subr''), (M_Sdivr, ''sdivr''), (M_Udivr, ''udivr''), (M_Mad, ''mad''), (M_Msb, ''msb''),
     (M_Cnot, ''cnot''), (M_Not, ''not''), (M_Index, ''index''), (M_Movprfx, ''movprfx''), (M_Asrd, ''asrd''),
     (M_Asrr, ''asrr''), (M_Lslr, ''lslr''), (M_Lsrr, ''lsrr''), (M_Saddv, ''saddv''), (M_Uaddv, ''uaddv''),
     (M_Andv, ''andv''), (M_Orv, ''orv''), (M_Eorv, ''eorv''), (M_Dupm, ''dupm''), (M_Cpy, ''cpy''), (M_Sel, ''sel''),
     (M_Insr, ''insr''), (M_Cmpeq, ''cmpeq''), (M_Cmpge, ''cmpge''), (M_Cmpgt, ''cmpgt''), (M_Cmphi, ''cmphi''),
     (M_Cmphs, ''cmphs''), (M_Cmpne, ''cmpne''), (M_Cmple, ''cmple''), (M_Cmplo, ''cmplo''), (M_Cmpls, ''cmpls''),
     (M_Cmplt, ''cmplt''), (M_Incb, ''incb''), (M_Inch, ''inch''), (M_Incw, ''incw''), (M_Incd, ''incd''),
     (M_Decb, ''decb'')]"

definition mnemonic_names_16 :: "(mnemonic \<times> string) list" where
  "mnemonic_names_16 =
    [(M_Dech, ''dech''), (M_Decw, ''decw''), (M_Decd, ''decd''), (M_Sqincb, ''sqincb''), (M_Sqinch, ''sqinch''),
     (M_Sqincw, ''sqincw''), (M_Sqincd, ''sqincd''), (M_Sqdecb, ''sqdecb''), (M_Sqdech, ''sqdech''),
     (M_Sqdecw, ''sqdecw''), (M_Sqdecd, ''sqdecd''), (M_Uqincb, ''uqincb''), (M_Uqinch, ''uqinch''),
     (M_Uqincw, ''uqincw''), (M_Uqincd, ''uqincd''), (M_Uqdecb, ''uqdecb''), (M_Uqdech, ''uqdech''),
     (M_Uqdecw, ''uqdecw''), (M_Uqdecd, ''uqdecd''), (M_Incp, ''incp''), (M_Decp, ''decp''), (M_Sqincp, ''sqincp''),
     (M_Sqdecp, ''sqdecp''), (M_Uqincp, ''uqincp''), (M_Uqdecp, ''uqdecp''), (M_Cntb, ''cntb''), (M_Cnth, ''cnth''),
     (M_Cntw, ''cntw''), (M_Cntd, ''cntd''), (M_Cntp, ''cntp''), (M_Addvl, ''addvl''), (M_Addpl, ''addpl''),
     (M_Rdvl, ''rdvl''), (M_Sdot, ''sdot''), (M_Udot, ''udot''), (M_Usdot, ''usdot''), (M_Sudot, ''sudot''),
     (M_Movs, ''movs''), (M_Nots, ''nots''), (M_Orrs, ''orrs''), (M_Eors, ''eors''), (M_Orns, ''orns''),
     (M_Nand, ''nand''), (M_Nands, ''nands''), (M_Nor, ''nor''), (M_Nors, ''nors''), (M_Rdffr, ''rdffr''),
     (M_Uxtw, ''uxtw''), (M_Cadd, ''cadd''), (M_Sqcadd, ''sqcadd''), (M_Cmla, ''cmla''), (M_Cdot, ''cdot''),
     (M_Sqrdcmlah, ''sqrdcmlah''), (M_Smullb, ''smullb''), (M_Smullt, ''smullt''), (M_Umullb, ''umullb''),
     (M_Umullt, ''umullt''), (M_Smlalb, ''smlalb''), (M_Smlalt, ''smlalt''), (M_Umlalb, ''umlalb''),
     (M_Umlalt, ''umlalt''), (M_Smlslb, ''smlslb''), (M_Smlslt, ''smlslt''), (M_Umlslb, ''umlslb'')]"

definition mnemonic_names_17 :: "(mnemonic \<times> string) list" where
  "mnemonic_names_17 =
    [(M_Umlslt, ''umlslt''), (M_Sqdmullb, ''sqdmullb''), (M_Sqdmullt, ''sqdmullt''), (M_Sqdmlalb, ''sqdmlalb''),
     (M_Sqdmlalt, ''sqdmlalt''), (M_Sqdmlslb, ''sqdmlslb''), (M_Sqdmlslt, ''sqdmlslt''), (M_Sqdmlslbt, ''sqdmlslbt''),
     (M_Sqdmlalbt, ''sqdmlalbt''), (M_Sabdlb, ''sabdlb''), (M_Sabdlt, ''sabdlt''), (M_Uabdlb, ''uabdlb''),
     (M_Uabdlt, ''uabdlt''), (M_Pmullb, ''pmullb''), (M_Pmullt, ''pmullt''), (M_Shsubr, ''shsubr''),
     (M_Uhsubr, ''uhsubr''), (M_Smmla, ''smmla''), (M_Ummla, ''ummla''), (M_Usmmla, ''usmmla''), (M_Histcnt, ''histcnt''),
     (M_Bfmmla, ''bfmmla''), (M_Revb, ''revb''), (M_Revh, ''revh''), (M_Revw, ''revw''), (M_Splice, ''splice''),
     (M_Compact, ''compact''), (M_Sunpkhi, ''sunpkhi''), (M_Sunpklo, ''sunpklo''), (M_Uunpkhi, ''uunpkhi''),
     (M_Uunpklo, ''uunpklo''), (M_Punpkhi, ''punpkhi''), (M_Punpklo, ''punpklo''), (M_Clasta, ''clasta''),
     (M_Clastb, ''clastb''), (M_Lasta, ''lasta''), (M_Lastb, ''lastb''), (M_Ptrue, ''ptrue''), (M_Ptrues, ''ptrues''),
     (M_Pfalse, ''pfalse''), (M_Ptest, ''ptest''), (M_Pfirst, ''pfirst''), (M_Pnext, ''pnext''), (M_Rdffrs, ''rdffrs''),
     (M_Wrffr, ''wrffr''), (M_Setffr, ''setffr''), (M_Brka, ''brka''), (M_Brkas, ''brkas''), (M_Brkb, ''brkb''),
     (M_Brkbs, ''brkbs''), (M_Brkn, ''brkn''), (M_Brkns, ''brkns''), (M_Brkpa, ''brkpa''), (M_Brkpas, ''brkpas''),
     (M_Brkpb, ''brkpb''), (M_Brkpbs, ''brkpbs''), (M_Whilelt, ''whilelt''), (M_Whilele, ''whilele''),
     (M_Whilelo, ''whilelo''), (M_Whilels, ''whilels''), (M_Whilege, ''whilege''), (M_Whilegt, ''whilegt''),
     (M_Whilehi, ''whilehi''), (M_Whilehs, ''whilehs'')]"

definition mnemonic_names_18 :: "(mnemonic \<times> string) list" where
  "mnemonic_names_18 =
    [(M_Whilerw, ''whilerw''), (M_Whilewr, ''whilewr''), (M_Ctermeq, ''ctermeq''), (M_Ctermne, ''ctermne''),
     (M_Pmov, ''pmov''), (M_Fmad, ''fmad''), (M_Fmsb, ''fmsb''), (M_Fnmad, ''fnmad''), (M_Fnmsb, ''fnmsb''),
     (M_Fnmla, ''fnmla''), (M_Fnmls, ''fnmls''), (M_Fscale, ''fscale''), (M_Fadda, ''fadda''), (M_Faddv, ''faddv''),
     (M_Flogb, ''flogb''), (M_Fexpa, ''fexpa''), (M_Ftmad, ''ftmad''), (M_Ftsmul, ''ftsmul''), (M_Ftssel, ''ftssel''),
     (M_Fcvtlt, ''fcvtlt''), (M_Fcvtnt, ''fcvtnt''), (M_Fcvtx, ''fcvtx''), (M_Fcvtxnt, ''fcvtxnt''), (M_Fmmla, ''fmmla''),
     (M_Bfdot, ''bfdot''), (M_Bfmlalb, ''bfmlalb''), (M_Bfmlalt, ''bfmlalt''), (M_Bfcvtnt, ''bfcvtnt''),
     (M_Fmlalb, ''fmlalb''), (M_Fmlalt, ''fmlalt''), (M_Fmlslb, ''fmlslb''), (M_Fmlslt, ''fmlslt''), (M_Fdivr, ''fdivr''),
     (M_Fsubr, ''fsubr''), (M_Fcmne, ''fcmne''), (M_Fcmuo, ''fcmuo''), (M_Fdup, ''fdup''), (M_Ld1b, ''ld1b''),
     (M_Ld1h, ''ld1h''), (M_Ld1w, ''ld1w''), (M_Ld1d, ''ld1d''), (M_Ld1sb, ''ld1sb''), (M_Ld1sh, ''ld1sh''),
     (M_Ld1sw, ''ld1sw''), (M_Ldff1b, ''ldff1b''), (M_Ldff1h, ''ldff1h''), (M_Ldff1w, ''ldff1w''), (M_Ldff1d, ''ldff1d''),
     (M_Ldff1sb, ''ldff1sb''), (M_Ldff1sh, ''ldff1sh''), (M_Ldff1sw, ''ldff1sw''), (M_Ldnf1b, ''ldnf1b''),
     (M_Ldnf1h, ''ldnf1h''), (M_Ldnf1w, ''ldnf1w''), (M_Ldnf1d, ''ldnf1d''), (M_Ldnf1sb, ''ldnf1sb''),
     (M_Ldnf1sh, ''ldnf1sh''), (M_Ldnf1sw, ''ldnf1sw''), (M_Ldnt1b, ''ldnt1b''), (M_Ldnt1h, ''ldnt1h''),
     (M_Ldnt1w, ''ldnt1w''), (M_Ldnt1d, ''ldnt1d''), (M_Ldnt1sb, ''ldnt1sb''), (M_Ldnt1sh, ''ldnt1sh'')]"

definition mnemonic_names_19 :: "(mnemonic \<times> string) list" where
  "mnemonic_names_19 =
    [(M_Ldnt1sw, ''ldnt1sw''), (M_Ld1rb, ''ld1rb''), (M_Ld1rh, ''ld1rh''), (M_Ld1rw, ''ld1rw''), (M_Ld1rd, ''ld1rd''),
     (M_Ld1rsb, ''ld1rsb''), (M_Ld1rsh, ''ld1rsh''), (M_Ld1rsw, ''ld1rsw''), (M_Ld1rqb, ''ld1rqb''),
     (M_Ld1rqh, ''ld1rqh''), (M_Ld1rqw, ''ld1rqw''), (M_Ld1rqd, ''ld1rqd''), (M_Ld1rob, ''ld1rob''),
     (M_Ld1roh, ''ld1roh''), (M_Ld1row, ''ld1row''), (M_Ld1rod, ''ld1rod''), (M_Ld2b, ''ld2b''), (M_Ld2h, ''ld2h''),
     (M_Ld2w, ''ld2w''), (M_Ld2d, ''ld2d''), (M_Ld3b, ''ld3b''), (M_Ld3h, ''ld3h''), (M_Ld3w, ''ld3w''),
     (M_Ld3d, ''ld3d''), (M_Ld4b, ''ld4b''), (M_Ld4h, ''ld4h''), (M_Ld4w, ''ld4w''), (M_Ld4d, ''ld4d''),
     (M_St1b, ''st1b''), (M_St1h, ''st1h''), (M_St1w, ''st1w''), (M_St1d, ''st1d''), (M_St2b, ''st2b''),
     (M_St2h, ''st2h''), (M_St2w, ''st2w''), (M_St2d, ''st2d''), (M_St3b, ''st3b''), (M_St3h, ''st3h''),
     (M_St3w, ''st3w''), (M_St3d, ''st3d''), (M_St4b, ''st4b''), (M_St4h, ''st4h''), (M_St4w, ''st4w''),
     (M_St4d, ''st4d''), (M_Stnt1b, ''stnt1b''), (M_Stnt1h, ''stnt1h''), (M_Stnt1w, ''stnt1w''), (M_Stnt1d, ''stnt1d''),
     (M_Prfb, ''prfb''), (M_Prfh, ''prfh''), (M_Prfw, ''prfw''), (M_Prfd, ''prfd''), (M_Eor3, ''eor3''),
     (M_Bcax, ''bcax''), (M_Bsl, ''bsl''), (M_Bit, ''bit''), (M_Bif, ''bif''), (M_Bsl1n, ''bsl1n''), (M_Bsl2n, ''bsl2n''),
     (M_Nbsl, ''nbsl''), (M_Xar, ''xar''), (M_Rax1, ''rax1''), (M_Saddlb, ''saddlb''), (M_Saddlt, ''saddlt'')]"

definition mnemonic_names_20 :: "(mnemonic \<times> string) list" where
  "mnemonic_names_20 =
    [(M_Uaddlb, ''uaddlb''), (M_Uaddlt, ''uaddlt''), (M_Ssublb, ''ssublb''), (M_Ssublt, ''ssublt''),
     (M_Usublb, ''usublb''), (M_Usublt, ''usublt''), (M_Saddwb, ''saddwb''), (M_Saddwt, ''saddwt''),
     (M_Uaddwb, ''uaddwb''), (M_Uaddwt, ''uaddwt''), (M_Ssubwb, ''ssubwb''), (M_Ssubwt, ''ssubwt''),
     (M_Usubwb, ''usubwb''), (M_Usubwt, ''usubwt''), (M_Addhnb, ''addhnb''), (M_Addhnt, ''addhnt''),
     (M_Subhnb, ''subhnb''), (M_Subhnt, ''subhnt''), (M_Raddhnb, ''raddhnb''), (M_Raddhnt, ''raddhnt''),
     (M_Rsubhnb, ''rsubhnb''), (M_Rsubhnt, ''rsubhnt''), (M_Saddlbt, ''saddlbt''), (M_Ssublbt, ''ssublbt''),
     (M_Ssubltb, ''ssubltb''), (M_Sabalb, ''sabalb''), (M_Sabalt, ''sabalt''), (M_Uabalb, ''uabalb''),
     (M_Uabalt, ''uabalt''), (M_Adclb, ''adclb''), (M_Adclt, ''adclt''), (M_Sbclb, ''sbclb''), (M_Sbclt, ''sbclt''),
     (M_Sqsubr, ''sqsubr''), (M_Uqsubr, ''uqsubr''), (M_Sqshlr, ''sqshlr''), (M_Uqshlr, ''uqshlr''),
     (M_Srshlr, ''srshlr''), (M_Urshlr, ''urshlr''), (M_Sqrshlr, ''sqrshlr''), (M_Uqrshlr, ''uqrshlr''),
     (M_Sshllb, ''sshllb''), (M_Sshllt, ''sshllt''), (M_Ushllb, ''ushllb''), (M_Ushllt, ''ushllt''), (M_Shrnb, ''shrnb''),
     (M_Shrnt, ''shrnt''), (M_Rshrnb, ''rshrnb''), (M_Rshrnt, ''rshrnt''), (M_Sqshrnb, ''sqshrnb''),
     (M_Sqshrnt, ''sqshrnt''), (M_Sqrshrnb, ''sqrshrnb''), (M_Sqrshrnt, ''sqrshrnt''), (M_Uqshrnb, ''uqshrnb''),
     (M_Uqshrnt, ''uqshrnt''), (M_Uqrshrnb, ''uqrshrnb''), (M_Uqrshrnt, ''uqrshrnt''), (M_Sqshrunb, ''sqshrunb''),
     (M_Sqshrunt, ''sqshrunt''), (M_Sqrshrunb, ''sqrshrunb''), (M_Sqrshrunt, ''sqrshrunt''), (M_Sqxtnb, ''sqxtnb''),
     (M_Sqxtnt, ''sqxtnt''), (M_Sqxtunb, ''sqxtunb'')]"

definition mnemonic_names_21 :: "(mnemonic \<times> string) list" where
  "mnemonic_names_21 =
    [(M_Sqxtunt, ''sqxtunt''), (M_Uqxtnb, ''uqxtnb''), (M_Uqxtnt, ''uqxtnt''), (M_Bext, ''bext''), (M_Bdep, ''bdep''),
     (M_Bgrp, ''bgrp''), (M_Eorbt, ''eorbt''), (M_Eortb, ''eortb''), (M_Histseg, ''histseg''), (M_Sm4e, ''sm4e''),
     (M_Sm4ekey, ''sm4ekey''), (M_Match, ''match''), (M_Nmatch, ''nmatch''), (M_Aesd, ''aesd''), (M_Aese, ''aese''),
     (M_Aesmc, ''aesmc''), (M_Aesimc, ''aesimc''), (M_Sclamp, ''sclamp''), (M_Uclamp, ''uclamp''), (M_Fclamp, ''fclamp''),
     (M_Bfclamp, ''bfclamp''), (M_Sha1c, ''sha1c''), (M_Sha1p, ''sha1p''), (M_Sha1m, ''sha1m''), (M_Sha1h, ''sha1h''),
     (M_Sha1su0, ''sha1su0''), (M_Sha1su1, ''sha1su1''), (M_Sha256h, ''sha256h''), (M_Sha256h2, ''sha256h2''),
     (M_Sha256su0, ''sha256su0''), (M_Sha256su1, ''sha256su1''), (M_Sha512h, ''sha512h''), (M_Sha512h2, ''sha512h2''),
     (M_Sha512su0, ''sha512su0''), (M_Sha512su1, ''sha512su1''), (M_Sm3ss1, ''sm3ss1''), (M_Sm3tt1a, ''sm3tt1a''),
     (M_Sm3tt1b, ''sm3tt1b''), (M_Sm3tt2a, ''sm3tt2a''), (M_Sm3tt2b, ''sm3tt2b''), (M_Sm3partw1, ''sm3partw1''),
     (M_Sm3partw2, ''sm3partw2''), (M_Rmif, ''rmif''), (M_Setf8, ''setf8''), (M_Setf16, ''setf16''),
     (M_Smstart, ''smstart''), (M_Smstop, ''smstop''), (M_Mova, ''mova''), (M_Fmopa, ''fmopa''), (M_Fmops, ''fmops''),
     (M_Bfmopa, ''bfmopa''), (M_Bfmops, ''bfmops''), (M_Smopa, ''smopa''), (M_Smops, ''smops''), (M_Umopa, ''umopa''),
     (M_Umops, ''umops''), (M_Sumopa, ''sumopa''), (M_Sumops, ''sumops''), (M_Usmopa, ''usmopa''), (M_Usmops, ''usmops''),
     (M_Bmopa, ''bmopa''), (M_Bmops, ''bmops''), (M_Fmop4a, ''fmop4a''), (M_Fmop4s, ''fmop4s'')]"

definition mnemonic_names_22 :: "(mnemonic \<times> string) list" where
  "mnemonic_names_22 =
    [(M_Bfmop4a, ''bfmop4a''), (M_Bfmop4s, ''bfmop4s''), (M_Smop4a, ''smop4a''), (M_Smop4s, ''smop4s''),
     (M_Umop4a, ''umop4a''), (M_Umop4s, ''umop4s''), (M_Sumop4a, ''sumop4a''), (M_Sumop4s, ''sumop4s''),
     (M_Usmop4a, ''usmop4a''), (M_Usmop4s, ''usmop4s''), (M_Addha, ''addha''), (M_Addva, ''addva''), (M_Zero, ''zero''),
     (M_Ld1q, ''ld1q''), (M_St1q, ''st1q''), (M_Ctz, ''ctz''), (M_Mrrs, ''mrrs''), (M_Msrr, ''msrr''), (M_Sysp, ''sysp''),
     (M_Tlbip, ''tlbip''), (M_Smlall, ''smlall''), (M_Smlsll, ''smlsll''), (M_Umlall, ''umlall''), (M_Umlsll, ''umlsll''),
     (M_Usmlall, ''usmlall''), (M_Sumlall, ''sumlall''), (M_Fmlall, ''fmlall''), (M_Bfmla, ''bfmla''),
     (M_Bfmls, ''bfmls''), (M_Bfmul, ''bfmul''), (M_Bfmlal, ''bfmlal''), (M_Bfmlsl, ''bfmlsl''), (M_Ftmopa, ''ftmopa''),
     (M_Stmopa, ''stmopa''), (M_Bftmopa, ''bftmopa''), (M_Utmopa, ''utmopa''), (M_Sutmopa, ''sutmopa''),
     (M_Ustmopa, ''ustmopa''), (M_Zipq1, ''zipq1''), (M_Zipq2, ''zipq2''), (M_Uzpq1, ''uzpq1''), (M_Uzpq2, ''uzpq2''),
     (M_Tblq, ''tblq''), (M_Tbxq, ''tbxq''), (M_Expand, ''expand''), (M_Dupq, ''dupq''), (M_Extq, ''extq''),
     (M_Addqv, ''addqv''), (M_Smaxqv, ''smaxqv''), (M_Umaxqv, ''umaxqv''), (M_Sminqv, ''sminqv''), (M_Uminqv, ''uminqv''),
     (M_Orqv, ''orqv''), (M_Eorqv, ''eorqv''), (M_Andqv, ''andqv''), (M_Faddqv, ''faddqv''), (M_Fmaxnmqv, ''fmaxnmqv''),
     (M_Fminnmqv, ''fminnmqv''), (M_Fmaxqv, ''fmaxqv''), (M_Fminqv, ''fminqv''), (M_Addpt, ''addpt''),
     (M_Subpt, ''subpt''), (M_Maddpt, ''maddpt''), (M_Msubpt, ''msubpt'')]"

definition mnemonic_names_23 :: "(mnemonic \<times> string) list" where
  "mnemonic_names_23 =
    [(M_Cbgt, ''cbgt''), (M_Cbge, ''cbge''), (M_Cbhi, ''cbhi''), (M_Cbhs, ''cbhs''), (M_Cbeq, ''cbeq''),
     (M_Cbne, ''cbne''), (M_Cblt, ''cblt''), (M_Cblo, ''cblo''), (M_Cbbgt, ''cbbgt''), (M_Cbbge, ''cbbge''),
     (M_Cbbhi, ''cbbhi''), (M_Cbbhs, ''cbbhs''), (M_Cbbeq, ''cbbeq''), (M_Cbbne, ''cbbne''), (M_Cbhgt, ''cbhgt''),
     (M_Cbhge, ''cbhge''), (M_Cbhhi, ''cbhhi''), (M_Cbhhs, ''cbhhs''), (M_Cbheq, ''cbheq''), (M_Cbhne, ''cbhne''),
     (M_Fdot, ''fdot''), (M_Fmlallbb, ''fmlallbb''), (M_Fmlallbt, ''fmlallbt''), (M_Fmlalltb, ''fmlalltb''),
     (M_Fvdot, ''fvdot''), (M_Bfvdot, ''bfvdot''), (M_Uvdot, ''uvdot''), (M_Svdot, ''svdot''), (M_Suvdot, ''suvdot''),
     (M_Usvdot, ''usvdot''), (M_Fvdotb, ''fvdotb''), (M_Fvdott, ''fvdott''), (M_Fmlalltt, ''fmlalltt''),
     (M_Addsvl, ''addsvl''), (M_Addspl, ''addspl''), (M_Rdsvl, ''rdsvl''), (M_Sqrshr, ''sqrshr''), (M_Uqrshr, ''uqrshr''),
     (M_Sqrshru, ''sqrshru''), (M_Ldfadd, ''ldfadd''), (M_Ldfadda, ''ldfadda''), (M_Ldfaddl, ''ldfaddl''),
     (M_Ldfaddal, ''ldfaddal''), (M_Ldfmax, ''ldfmax''), (M_Ldfmaxa, ''ldfmaxa''), (M_Ldfmaxl, ''ldfmaxl''),
     (M_Ldfmaxal, ''ldfmaxal''), (M_Ldfmin, ''ldfmin''), (M_Ldfmina, ''ldfmina''), (M_Ldfminl, ''ldfminl''),
     (M_Ldfminal, ''ldfminal''), (M_Ldfmaxnm, ''ldfmaxnm''), (M_Ldfmaxnma, ''ldfmaxnma''), (M_Ldfmaxnml, ''ldfmaxnml''),
     (M_Ldfmaxnmal, ''ldfmaxnmal''), (M_Ldfminnm, ''ldfminnm''), (M_Ldfminnma, ''ldfminnma''),
     (M_Ldfminnml, ''ldfminnml''), (M_Ldfminnmal, ''ldfminnmal''), (M_Stfadd, ''stfadd''), (M_Stfaddl, ''stfaddl''),
     (M_Stfmax, ''stfmax''), (M_Stfmaxl, ''stfmaxl''), (M_Stfmin, ''stfmin'')]"

definition mnemonic_names_24 :: "(mnemonic \<times> string) list" where
  "mnemonic_names_24 =
    [(M_Stfminl, ''stfminl''), (M_Stfmaxnm, ''stfmaxnm''), (M_Stfmaxnml, ''stfmaxnml''), (M_Stfminnm, ''stfminnm''),
     (M_Stfminnml, ''stfminnml''), (M_Ldbfadd, ''ldbfadd''), (M_Ldbfadda, ''ldbfadda''), (M_Ldbfaddl, ''ldbfaddl''),
     (M_Ldbfaddal, ''ldbfaddal''), (M_Ldbfmax, ''ldbfmax''), (M_Ldbfmaxa, ''ldbfmaxa''), (M_Ldbfmaxl, ''ldbfmaxl''),
     (M_Ldbfmaxal, ''ldbfmaxal''), (M_Ldbfmin, ''ldbfmin''), (M_Ldbfmina, ''ldbfmina''), (M_Ldbfminl, ''ldbfminl''),
     (M_Ldbfminal, ''ldbfminal''), (M_Ldbfmaxnm, ''ldbfmaxnm''), (M_Ldbfmaxnma, ''ldbfmaxnma''),
     (M_Ldbfmaxnml, ''ldbfmaxnml''), (M_Ldbfmaxnmal, ''ldbfmaxnmal''), (M_Ldbfminnm, ''ldbfminnm''),
     (M_Ldbfminnma, ''ldbfminnma''), (M_Ldbfminnml, ''ldbfminnml''), (M_Ldbfminnmal, ''ldbfminnmal''),
     (M_Stbfadd, ''stbfadd''), (M_Stbfaddl, ''stbfaddl''), (M_Stbfmax, ''stbfmax''), (M_Stbfmaxl, ''stbfmaxl''),
     (M_Stbfmin, ''stbfmin''), (M_Stbfminl, ''stbfminl''), (M_Stbfmaxnm, ''stbfmaxnm''), (M_Stbfmaxnml, ''stbfmaxnml''),
     (M_Stbfminnm, ''stbfminnm''), (M_Stbfminnml, ''stbfminnml''), (M_Ld2q, ''ld2q''), (M_Ld3q, ''ld3q''),
     (M_Ld4q, ''ld4q''), (M_St2q, ''st2q''), (M_St3q, ''st3q''), (M_St4q, ''st4q''), (M_Movaz, ''movaz''), (M_Bc, ''bc''),
     (M_Retaasppc, ''retaasppc''), (M_Retabsppc, ''retabsppc''), (M_Autiasppc, ''autiasppc''),
     (M_Autibsppc, ''autibsppc''), (M_Paciasppc, ''paciasppc''), (M_Pacibsppc, ''pacibsppc''),
     (M_Pacnbiasppc, ''pacnbiasppc''), (M_Pacnbibsppc, ''pacnbibsppc''), (M_Autiasppcr, ''autiasppcr''),
     (M_Autibsppcr, ''autibsppcr''), (M_Retaasppcr, ''retaasppcr''), (M_Retabsppcr, ''retabsppcr''), (M_Bfadd, ''bfadd''),
     (M_Bfsub, ''bfsub''), (M_Bfmax, ''bfmax''), (M_Bfmin, ''bfmin''), (M_Bfmaxnm, ''bfmaxnm''), (M_Bfminnm, ''bfminnm''),
     (M_Psel, ''psel''), (M_Bfmlslb, ''bfmlslb''), (M_Bfmlslt, ''bfmlslt'')]"

definition mnemonic_names_25 :: "(mnemonic \<times> string) list" where
  "mnemonic_names_25 =
    [(M_Lastp, ''lastp''), (M_Firstp, ''firstp''), (M_Rprfm, ''rprfm''), (M_Addqp, ''addqp''), (M_Addsubp, ''addsubp''),
     (M_Luti6, ''luti6''), (M_Madpt, ''madpt''), (M_Mlapt, ''mlapt''), (M_Ldapp, ''ldapp''), (M_Ldap, ''ldap''),
     (M_Stlp, ''stlp''), (M_Pmlal, ''pmlal''), (M_Aesemc, ''aesemc''), (M_Aesdimc, ''aesdimc''), (M_Sqcvtn, ''sqcvtn''),
     (M_Uqcvtn, ''uqcvtn''), (M_Sqcvtun, ''sqcvtun''), (M_Setgop, ''setgop''), (M_Setgopt, ''setgopt''),
     (M_Setgopn, ''setgopn''), (M_Setgoptn, ''setgoptn''), (M_Setgom, ''setgom''), (M_Setgomt, ''setgomt''),
     (M_Setgomn, ''setgomn''), (M_Setgomtn, ''setgomtn''), (M_Setgoe, ''setgoe''), (M_Setgoet, ''setgoet''),
     (M_Setgoen, ''setgoen''), (M_Setgoetn, ''setgoetn''), (M_Tchangef, ''tchangef''), (M_Tchangeb, ''tchangeb''),
     (M_Bf2cvt, ''bf2cvt''), (M_Scvtflt, ''scvtflt''), (M_Bfscale, ''bfscale''), (M_Sunpk, ''sunpk''),
     (M_Uunpk, ''uunpk''), (M_Sqcvt, ''sqcvt''), (M_Uqcvt, ''uqcvt''), (M_Sqcvtu, ''sqcvtu''), (M_Fcvtzsn, ''fcvtzsn''),
     (M_Fcvtzun, ''fcvtzun''), (M_F1cvt, ''f1cvt''), (M_F2cvt, ''f2cvt''), (M_Bf1cvt, ''bf1cvt''),
     (M_F1cvtlt, ''f1cvtlt''), (M_F2cvtlt, ''f2cvtlt''), (M_Bf1cvtlt, ''bf1cvtlt''), (M_Bf2cvtlt, ''bf2cvtlt''),
     (M_Fcvtnb, ''fcvtnb''), (M_Ucvtflt, ''ucvtflt''), (M_Pext, ''pext''), (M_Movt, ''movt''), (M_Plbi, ''plbi''),
     (M_Gic, ''gic''), (M_Gicr, ''gicr''), (M_Mlbi, ''mlbi''), (M_Apas, ''apas''), (M_Trcit, ''trcit''),
     (M_Cosp, ''cosp''), (M_Gcspushm, ''gcspushm''), (M_Gcspopm, ''gcspopm''), (M_Gcsss1, ''gcsss1''),
     (M_Gcsss2, ''gcsss2''), (M_Gcspushx, ''gcspushx'')]"

definition mnemonic_names_26 :: "(mnemonic \<times> string) list" where
  "mnemonic_names_26 =
    [(M_Gcspopx, ''gcspopx''), (M_Gcspopcx, ''gcspopcx''), (M_Gcsb, ''gcsb''), (M_Gcsstr, ''gcsstr''),
     (M_Gcssttr, ''gcssttr''), (M_Tenter, ''tenter''), (M_Shuh, ''shuh''), (M_Stshh, ''stshh''), (M_Stcph, ''stcph''),
     (M_Chkfeat, ''chkfeat''), (M_Dgh, ''dgh''), (M_Clrbhb, ''clrbhb''), (M_Pacm, ''pacm''), (M_Gsb, ''gsb''),
     (M_Brb, ''brb''), (M_AmxLdx, ''ldx''), (M_AmxLdy, ''ldy''), (M_AmxStx, ''stx''), (M_AmxSty, ''sty''),
     (M_AmxLdz, ''ldz''), (M_AmxStz, ''stz''), (M_AmxLdzi, ''ldzi''), (M_AmxStzi, ''stzi''), (M_AmxExtrx, ''extrx''),
     (M_AmxExtry, ''extry''), (M_AmxFma64, ''fma64''), (M_AmxFms64, ''fms64''), (M_AmxFma32, ''fma32''),
     (M_AmxFms32, ''fms32''), (M_AmxMac16, ''mac16''), (M_AmxFma16, ''fma16''), (M_AmxFms16, ''fms16''),
     (M_AmxSet, ''set''), (M_AmxClr, ''clr''), (M_AmxVecint, ''vecint''), (M_AmxVecfp, ''vecfp''),
     (M_AmxMatint, ''matint''), (M_AmxMatfp, ''matfp''), (M_AmxGenlut, ''genlut''), (M_Genter, ''genter''),
     (M_Gexit, ''gexit'')]"

definition mnemonic_name_blocks :: "(mnemonic \<times> string) list list" where
  "mnemonic_name_blocks =
    [mnemonic_names_0, mnemonic_names_1, mnemonic_names_2, mnemonic_names_3, mnemonic_names_4, mnemonic_names_5,
     mnemonic_names_6, mnemonic_names_7, mnemonic_names_8, mnemonic_names_9, mnemonic_names_10, mnemonic_names_11,
     mnemonic_names_12, mnemonic_names_13, mnemonic_names_14, mnemonic_names_15, mnemonic_names_16, mnemonic_names_17,
     mnemonic_names_18, mnemonic_names_19, mnemonic_names_20, mnemonic_names_21, mnemonic_names_22, mnemonic_names_23,
     mnemonic_names_24, mnemonic_names_25, mnemonic_names_26]"

definition mnemonic_name :: "mnemonic \<Rightarrow> string" where
  "mnemonic_name m = (case map_of (concat mnemonic_name_blocks) m of Some name \<Rightarrow> name | None \<Rightarrow> [])"

end
