(* ===== verification/Ldst_Atomics_Encode.thy ===== *)
theory Ldst_Atomics_Encode
  imports Ldst_Encode Names
begin

text \<open>
  \<open>src/encode/ldst.rs\<close>, second part: the encoders of the exclusive, ordered, compare-and-swap and atomic forms.  One definition
  per function of the file, in its order.  The macros \<open>q!\<close>, \<open>ord!\<close> and \<open>ldt!\<close>, which try one quartet of codes (plain, L, A,
  AL) after the other, are \<open>first_some\<close> over the list of quartets.
\<close>

section \<open>Load/store exclusive and ordered\<close>

definition excl_single_rows :: "(code \<times> u32 \<times> u32 \<times> u32) list" where
  "excl_single_rows =
    [(C_Ldxrb, 0, 1, 0), (C_Ldaxrb, 0, 1, 1), (C_Stxrb, 0, 0, 0), (C_Stlxrb, 0, 0, 1), (C_Ldxrh, 1, 1, 0),
     (C_Ldaxrh, 1, 1, 1), (C_Stxrh, 1, 0, 0), (C_Stlxrh, 1, 0, 1), (C_Ldxr32, 2, 1, 0), (C_Ldaxr32, 2, 1, 1),
     (C_Stxr32, 2, 0, 0), (C_Stlxr32, 2, 0, 1), (C_Ldxr64, 3, 1, 0), (C_Ldaxr64, 3, 1, 1), (C_Stxr64, 3, 0, 0),
     (C_Stlxr64, 3, 0, 1)]"

definition excl_single_fields :: "code \<Rightarrow> (u32 \<times> u32 \<times> u32) option" where
  "excl_single_fields code = map_of excl_single_rows code"

definition excl_word :: "u32 \<Rightarrow> u32 \<Rightarrow> u32 \<Rightarrow> u32 \<Rightarrow> u32 \<Rightarrow> u32 \<Rightarrow> u32 \<Rightarrow> u32 \<Rightarrow> u32 \<Rightarrow> u32" where
  "excl_word sz o2 l o1 rs o0 rt2 rn rt =
     push_bit 30 sz OR push_bit 24 0b001000 OR push_bit 23 o2 OR push_bit 22 l OR push_bit 21 o1 OR push_bit 16 rs OR
     push_bit 15 o0 OR push_bit 10 rt2 OR push_bit 5 rn OR rt"

definition excl_single_regs :: "insn \<Rightarrow> u32 \<Rightarrow> (u32 \<times> u32 \<times> u32) encoded" where
  "excl_single_regs insn l =
     (if l = 1 then
        and_then (reg_num insn 0) (\<lambda>rt. and_then (mem_imm insn 1) (\<lambda>(rn, _, _). Ok (0b11111, rt, rn)))
      else
        and_then (reg_num insn 0) (\<lambda>rs. and_then (reg_num insn 1) (\<lambda>rt. and_then (mem_imm insn 2) (\<lambda>(rn, _, _). Ok (rs, rt, rn)))))"

definition enc_excl_single :: "insn \<Rightarrow> u32 encoded" where
  "enc_excl_single insn =
     and_then (ok_or EncUnsupported (excl_single_fields (i_code insn))) (\<lambda>(sz, l, o0).
     and_then (excl_single_regs insn l) (\<lambda>(rs, rt, rn). Ok (excl_word sz 0 l 0 rs o0 0b11111 rn rt)))"

definition excl_pair_rows :: "(code \<times> u32 \<times> u32 \<times> u32) list" where
  "excl_pair_rows =
    [(C_Ldxp32, 2, 1, 0), (C_Ldxp64, 3, 1, 0), (C_Ldaxp32, 2, 1, 1), (C_Ldaxp64, 3, 1, 1), (C_Stxp32, 2, 0, 0),
     (C_Stxp64, 3, 0, 0), (C_Stlxp32, 2, 0, 1), (C_Stlxp64, 3, 0, 1)]"

definition excl_pair_fields :: "code \<Rightarrow> (u32 \<times> u32 \<times> u32) option" where
  "excl_pair_fields code = map_of excl_pair_rows code"

definition enc_excl_pair :: "insn \<Rightarrow> u32 encoded" where
  "enc_excl_pair insn =
     and_then (ok_or EncUnsupported (excl_pair_fields (i_code insn))) (\<lambda>(sz, l, o0).
     and_then
       (if l = 1 then
          and_then (reg_num insn 0) (\<lambda>rt. and_then (reg_num insn 1) (\<lambda>rt2. and_then (mem_imm insn 2) (\<lambda>(rn, _, _).
            Ok (0b11111, rt, rt2, rn))))
        else
          and_then (reg_num insn 0) (\<lambda>rs. and_then (reg_num insn 1) (\<lambda>rt. and_then (reg_num insn 2) (\<lambda>rt2.
            and_then (mem_imm insn 3) (\<lambda>(rn, _, _). Ok (rs, rt, rt2, rn))))))
       (\<lambda>(rs, rt, rt2, rn). Ok (excl_word sz 0 l 1 rs o0 rt2 rn rt)))"

definition ordered_rows :: "(code \<times> u32 \<times> u32 \<times> u32) list" where
  "ordered_rows =
    [(C_Ldarb, 0, 1, 1), (C_Stlrb, 0, 0, 1), (C_Ldlarb, 0, 1, 0), (C_Stllrb, 0, 0, 0), (C_Ldarh, 1, 1, 1),
     (C_Stlrh, 1, 0, 1), (C_Ldlarh, 1, 1, 0), (C_Stllrh, 1, 0, 0), (C_Ldar32, 2, 1, 1), (C_Stlr32, 2, 0, 1),
     (C_Ldlar32, 2, 1, 0), (C_Stllr32, 2, 0, 0), (C_Ldar64, 3, 1, 1), (C_Stlr64, 3, 0, 1), (C_Ldlar64, 3, 1, 0),
     (C_Stllr64, 3, 0, 0)]"

definition ordered_fields :: "code \<Rightarrow> (u32 \<times> u32 \<times> u32) option" where
  "ordered_fields code = map_of ordered_rows code"

definition enc_ordered :: "insn \<Rightarrow> u32 encoded" where
  "enc_ordered insn =
     and_then (ok_or EncUnsupported (ordered_fields (i_code insn))) (\<lambda>(sz, l, o0).
     and_then (reg_num insn 0) (\<lambda>rt.
     and_then (mem_imm insn 1) (\<lambda>(rn, _, _). Ok (excl_word sz 1 l 0 0b11111 o0 0b11111 rn rt))))"

section \<open>Compare and swap\<close>

definition cas_rows :: "(code \<times> u32 \<times> u32 \<times> u32) list" where
  "cas_rows =
    [(C_Casb, 0, 0, 0), (C_Casab, 0, 1, 0), (C_Caslb, 0, 0, 1), (C_Casalb, 0, 1, 1), (C_Cash, 1, 0, 0),
     (C_Casah, 1, 1, 0), (C_Caslh, 1, 0, 1), (C_Casalh, 1, 1, 1), (C_Cas32, 2, 0, 0), (C_Casa32, 2, 1, 0),
     (C_Casl32, 2, 0, 1), (C_Casal32, 2, 1, 1), (C_Cas64, 3, 0, 0), (C_Casa64, 3, 1, 0), (C_Casl64, 3, 0, 1),
     (C_Casal64, 3, 1, 1)]"

definition cas_fields :: "code \<Rightarrow> (u32 \<times> u32 \<times> u32) option" where
  "cas_fields code = map_of cas_rows code"

definition enc_cas :: "insn \<Rightarrow> u32 encoded" where
  "enc_cas insn =
     and_then (ok_or EncUnsupported (cas_fields (i_code insn))) (\<lambda>(sz, l, o0).
     and_then (reg_num insn 0) (\<lambda>rs. and_then (reg_num insn 1) (\<lambda>rt.
     and_then (mem_imm insn 2) (\<lambda>(rn, _, _). Ok (excl_word sz 1 l 1 rs o0 0b11111 rn rt)))))"

definition casp_rows :: "(code \<times> u32 \<times> u32 \<times> u32) list" where
  "casp_rows =
    [(C_Casp32, 0, 0, 0), (C_Caspa32, 0, 1, 0), (C_Caspl32, 0, 0, 1), (C_Caspal32, 0, 1, 1), (C_Casp64, 1, 0, 0),
     (C_Caspa64, 1, 1, 0), (C_Caspl64, 1, 0, 1), (C_Caspal64, 1, 1, 1)]"

definition casp_fields :: "code \<Rightarrow> (u32 \<times> u32 \<times> u32) option" where
  "casp_fields code = map_of casp_rows code"

text \<open>The four registers of a pair compare-and-swap, which three encoders read and check in the same way.\<close>

definition cas_pair_regs :: "insn \<Rightarrow> (u32 \<times> u32 \<times> u32) encoded" where
  "cas_pair_regs insn =
     and_then (reg_num insn 0) (\<lambda>rs. and_then (reg_num insn 1) (\<lambda>rs1. and_then (reg_num insn 2) (\<lambda>rt.
     and_then (reg_num insn 3) (\<lambda>rt1. and_then (mem_imm insn 4) (\<lambda>(rn, _, _).
       if rs AND 1 \<noteq> 0 \<or> rt AND 1 \<noteq> 0 then Err EncInvalidOperand
       else if rs1 \<noteq> (rs + 1) AND 0x1f \<or> rt1 \<noteq> (rt + 1) AND 0x1f then Err EncInvalidOperand
       else Ok (rs, rt, rn))))))"

definition enc_casp :: "insn \<Rightarrow> u32 encoded" where
  "enc_casp insn =
     and_then (ok_or EncUnsupported (casp_fields (i_code insn))) (\<lambda>(x, l, o0).
     and_then (cas_pair_regs insn) (\<lambda>(rs, rt, rn).
       let sz = x in Ok (excl_word sz 0 l 1 rs o0 0b11111 rn rt)))"

section \<open>FEAT_LSUI\<close>

definition lsui_excl_single_rows :: "(code \<times> u32 \<times> u32 \<times> u32) list" where
  "lsui_excl_single_rows =
    [(C_Ldtxr32, 2, 1, 0), (C_Ldatxr32, 2, 1, 1), (C_Sttxr32, 2, 0, 0), (C_Stltxr32, 2, 0, 1), (C_Ldtxr64, 3, 1, 0),
     (C_Ldatxr64, 3, 1, 1), (C_Sttxr64, 3, 0, 0), (C_Stltxr64, 3, 0, 1)]"

definition lsui_excl_single_fields :: "code \<Rightarrow> (u32 \<times> u32 \<times> u32) option" where
  "lsui_excl_single_fields code = map_of lsui_excl_single_rows code"

definition enc_lsui_excl_single :: "insn \<Rightarrow> u32 encoded" where
  "enc_lsui_excl_single insn =
     and_then (ok_or EncUnsupported (lsui_excl_single_fields (i_code insn))) (\<lambda>(sz, l, o0).
     and_then (excl_single_regs insn l) (\<lambda>(rs, rt, rn). Ok (excl_word sz 0 l 0 rs o0 0b11111 rn rt OR push_bit 24 1)))"

definition lsui_cas_rows :: "(code \<times> u32 \<times> u32) list" where
  "lsui_cas_rows =
    [(C_Cast64, 0, 0), (C_Casat64, 1, 0), (C_Caslt64, 0, 1), (C_Casalt64, 1, 1)]"

definition lsui_cas_fields :: "code \<Rightarrow> (u32 \<times> u32) option" where
  "lsui_cas_fields code = map_of lsui_cas_rows code"

definition enc_lsui_cas :: "insn \<Rightarrow> u32 encoded" where
  "enc_lsui_cas insn =
     and_then (ok_or EncUnsupported (lsui_cas_fields (i_code insn))) (\<lambda>(l, o0).
     and_then (reg_num insn 0) (\<lambda>rs. and_then (reg_num insn 1) (\<lambda>rt.
     and_then (mem_imm insn 2) (\<lambda>(rn, _, _). Ok (excl_word 3 1 l 0 rs o0 0b11111 rn rt OR push_bit 24 1)))))"

definition lsui_casp_rows :: "(code \<times> u32 \<times> u32) list" where
  "lsui_casp_rows =
    [(C_Caspt64, 0, 0), (C_Caspat64, 1, 0), (C_Casplt64, 0, 1), (C_Caspalt64, 1, 1)]"

definition lsui_casp_fields :: "code \<Rightarrow> (u32 \<times> u32) option" where
  "lsui_casp_fields code = map_of lsui_casp_rows code"

definition enc_lsui_casp :: "insn \<Rightarrow> u32 encoded" where
  "enc_lsui_casp insn =
     and_then (ok_or EncUnsupported (lsui_casp_fields (i_code insn))) (\<lambda>(l, o0).
     and_then (cas_pair_regs insn) (\<lambda>(rs, rt, rn). Ok (excl_word 1 1 l 0 rs o0 0b11111 rn rt OR push_bit 24 1)))"

section \<open>Atomic memory operations\<close>

definition atomic_word :: "u32 \<Rightarrow> u32 \<Rightarrow> u32 \<Rightarrow> u32 \<Rightarrow> u32 \<Rightarrow> u32 \<Rightarrow> u32 \<Rightarrow> u32 \<Rightarrow> u32" where
  "atomic_word sz a r rs o3 opc rn rt =
     push_bit 30 sz OR push_bit 27 0b111 OR push_bit 23 a OR push_bit 22 r OR push_bit 21 1 OR push_bit 16 rs OR
     push_bit 15 o3 OR push_bit 12 opc OR push_bit 5 rn OR rt"

definition swp_rows :: "(code \<times> u32 \<times> u32 \<times> u32) list" where
  "swp_rows =
    [(C_Swpb, 0, 0, 0), (C_Swplb, 0, 0, 1), (C_Swpab, 0, 1, 0), (C_Swpalb, 0, 1, 1), (C_Swph, 1, 0, 0),
     (C_Swplh, 1, 0, 1), (C_Swpah, 1, 1, 0), (C_Swpalh, 1, 1, 1), (C_Swp32, 2, 0, 0), (C_Swpl32, 2, 0, 1),
     (C_Swpa32, 2, 1, 0), (C_Swpal32, 2, 1, 1), (C_Swp64, 3, 0, 0), (C_Swpl64, 3, 0, 1), (C_Swpa64, 3, 1, 0),
     (C_Swpal64, 3, 1, 1)]"

definition swp_fields :: "code \<Rightarrow> (u32 \<times> u32 \<times> u32) option" where
  "swp_fields code = map_of swp_rows code"

definition enc_swp :: "insn \<Rightarrow> u32 encoded" where
  "enc_swp insn =
     and_then (ok_or EncUnsupported (swp_fields (i_code insn))) (\<lambda>(sz, a, r).
     and_then (reg_num insn 0) (\<lambda>rs. and_then (reg_num insn 1) (\<lambda>rt.
     and_then (mem_imm insn 2) (\<lambda>(rn, _, _). Ok (atomic_word sz a r rs 1 0b000 rn rt)))))"

text \<open>The ordering \<open>(a, r)\<close> of a code in its quartet.\<close>

definition quartet_ord :: "code \<Rightarrow> code list \<Rightarrow> (u32 \<times> u32) option" where
  "quartet_ord code codes = map_of (zip codes [(0, 0), (0, 1), (1, 0), (1, 1)]) code"

definition rcw_quartets :: "((u32 \<times> u32) \<times> code list) list" where
  "rcw_quartets =
    [((0, 1), [C_Rcwclr, C_Rcwclrl, C_Rcwclra, C_Rcwclral]), ((0, 2), [C_Rcwswp, C_Rcwswpl, C_Rcwswpa, C_Rcwswpal]),
     ((0, 3), [C_Rcwset, C_Rcwsetl, C_Rcwseta, C_Rcwsetal]), ((1, 1), [C_Rcwsclr, C_Rcwsclrl, C_Rcwsclra, C_Rcwsclral]),
     ((1, 2), [C_Rcwsswp, C_Rcwsswpl, C_Rcwsswpa, C_Rcwsswpal]),
     ((1, 3), [C_Rcwsset, C_Rcwssetl, C_Rcwsseta, C_Rcwssetal])]"

definition rcw_single_fields :: "code \<Rightarrow> (u32 \<times> u32 \<times> u32 \<times> u32) option" where
  "rcw_single_fields code =
     first_some (\<lambda>((sz, opc), codes). map_option (\<lambda>(a, r). (sz, a, r, opc)) (quartet_ord code codes)) rcw_quartets"

definition enc_rcw_single :: "insn \<Rightarrow> u32 encoded" where
  "enc_rcw_single insn =
     and_then (ok_or EncUnsupported (rcw_single_fields (i_code insn))) (\<lambda>(sz, a, r, opc).
     and_then (reg_num insn 0) (\<lambda>rs. and_then (reg_num insn 1) (\<lambda>rt.
     and_then (mem_imm insn 2) (\<lambda>(rn, _, _). Ok (atomic_word sz a r rs 1 opc rn rt)))))"

section \<open>FEAT_THE and FEAT_LSE128\<close>

datatype the_shape = SingleW | SingleX | PairShape | CasPair

definition the_quartets :: "((u32 \<times> u32 \<times> u32 \<times> u32 \<times> the_shape) \<times> code list) list" where
  "the_quartets =
    [((0, 0, 0, 1, SingleW), [C_Ldtadd32, C_Ldtaddl32, C_Ldtadda32, C_Ldtaddal32]),
     ((1, 0, 0, 1, SingleX), [C_Ldtadd64, C_Ldtaddl64, C_Ldtadda64, C_Ldtaddal64]),
     ((0, 0, 1, 1, SingleW), [C_Ldtclr32, C_Ldtclrl32, C_Ldtclra32, C_Ldtclral32]),
     ((1, 0, 1, 1, SingleX), [C_Ldtclr64, C_Ldtclrl64, C_Ldtclra64, C_Ldtclral64]),
     ((0, 0, 3, 1, SingleW), [C_Ldtset32, C_Ldtsetl32, C_Ldtseta32, C_Ldtsetal32]),
     ((1, 0, 3, 1, SingleX), [C_Ldtset64, C_Ldtsetl64, C_Ldtseta64, C_Ldtsetal64]),
     ((0, 1, 0, 1, SingleW), [C_Swpt32, C_Swptl32, C_Swpta32, C_Swptal32]),
     ((1, 1, 0, 1, SingleX), [C_Swpt64, C_Swptl64, C_Swpta64, C_Swptal64]),
     ((0, 0, 0, 2, SingleX), [C_Rcwcas, C_Rcwcasl, C_Rcwcasa, C_Rcwcasal]),
     ((1, 0, 0, 2, SingleX), [C_Rcwscas, C_Rcwscasl, C_Rcwscasa, C_Rcwscasal]),
     ((0, 0, 0, 3, CasPair), [C_Rcwcasp, C_Rcwcaspl, C_Rcwcaspa, C_Rcwcaspal]),
     ((1, 0, 0, 3, CasPair), [C_Rcwscasp, C_Rcwscaspl, C_Rcwscaspa, C_Rcwscaspal]),
     ((0, 0, 1, 0, PairShape), [C_Ldclrp, C_Ldclrpl, C_Ldclrpa, C_Ldclrpal]),
     ((0, 0, 3, 0, PairShape), [C_Ldsetp, C_Ldsetpl, C_Ldsetpa, C_Ldsetpal]),
     ((0, 1, 0, 0, PairShape), [C_Swpp, C_Swppl, C_Swppa, C_Swppal]),
     ((0, 1, 1, 0, PairShape), [C_Rcwclrp, C_Rcwclrpl, C_Rcwclrpa, C_Rcwclrpal]),
     ((0, 1, 2, 0, PairShape), [C_Rcwswpp, C_Rcwswppl, C_Rcwswppa, C_Rcwswppal]),
     ((0, 1, 3, 0, PairShape), [C_Rcwsetp, C_Rcwsetpl, C_Rcwsetpa, C_Rcwsetpal]),
     ((1, 1, 1, 0, PairShape), [C_Rcwsclrp, C_Rcwsclrpl, C_Rcwsclrpa, C_Rcwsclrpal]),
     ((1, 1, 2, 0, PairShape), [C_Rcwsswpp, C_Rcwsswppl, C_Rcwsswppa, C_Rcwsswppal]),
     ((1, 1, 3, 0, PairShape), [C_Rcwssetp, C_Rcwssetpl, C_Rcwssetpa, C_Rcwssetpal])]"

definition the_atomic_fields :: "code \<Rightarrow> (u32 \<times> u32 \<times> u32 \<times> u32 \<times> u32 \<times> u32 \<times> the_shape) option" where
  "the_atomic_fields code =
     first_some
       (\<lambda>((sz, o3, opc, op2, shape), codes). map_option (\<lambda>(a, r). (sz, a, r, o3, opc, op2, shape)) (quartet_ord code codes))
       the_quartets"

definition the_atomic_word :: "u32 \<Rightarrow> u32 \<Rightarrow> u32 \<Rightarrow> u32 \<Rightarrow> u32 \<Rightarrow> u32 \<Rightarrow> u32 \<Rightarrow> u32 \<Rightarrow> u32 \<Rightarrow> u32" where
  "the_atomic_word sz a r rs o3 opc op2 rn rt =
     push_bit 30 sz OR push_bit 27 0b011 OR push_bit 24 0b01 OR push_bit 23 a OR push_bit 22 r OR push_bit 21 1 OR
     push_bit 16 rs OR push_bit 15 o3 OR push_bit 12 opc OR push_bit 10 op2 OR push_bit 5 rn OR rt"

definition enc_the_atomic :: "insn \<Rightarrow> u32 encoded" where
  "enc_the_atomic insn =
     and_then (ok_or EncUnsupported (the_atomic_fields (i_code insn))) (\<lambda>(sz, a, r, o3, opc, op2, shape).
     and_then
       (case shape of
          PairShape \<Rightarrow>
            and_then (reg_num insn 0) (\<lambda>rt. and_then (reg_num insn 1) (\<lambda>rs. and_then (mem_imm insn 2) (\<lambda>(rn, _, _).
              if rs = 31 \<or> rt = 31 then Err EncInvalidOperand else Ok (rs, rt, rn))))
        | CasPair \<Rightarrow> cas_pair_regs insn
        | _ \<Rightarrow>
            and_then (reg_num insn 0) (\<lambda>rs. and_then (reg_num insn 1) (\<lambda>rt. and_then (mem_imm insn 2) (\<lambda>(rn, _, _).
              Ok (rs, rt, rn)))))
       (\<lambda>(rs, rt, rn). Ok (the_atomic_word sz a r rs o3 opc op2 rn rt)))"

section \<open>LD<op> and ST<op>\<close>

definition atomic_opc :: "code \<Rightarrow> u32 option" where
  "atomic_opc code =
     first_some (\<lambda>(opc, codes). if code \<in> set codes then Some opc else None)
       [(0, [C_Ldadd32, C_Ldaddl32, C_Ldadda32, C_Ldaddal32, C_Ldadd64, C_Ldaddl64, C_Ldadda64, C_Ldaddal64, C_Ldaddb, C_Ldaddh]),
        (1, [C_Ldclr32, C_Ldclrl32, C_Ldclra32, C_Ldclral32, C_Ldclr64, C_Ldclrl64, C_Ldclra64, C_Ldclral64, C_Ldclrb, C_Ldclrh]),
        (2, [C_Ldeor32, C_Ldeorl32, C_Ldeora32, C_Ldeoral32, C_Ldeor64, C_Ldeorl64, C_Ldeora64, C_Ldeoral64, C_Ldeorb, C_Ldeorh]),
        (3, [C_Ldset32, C_Ldsetl32, C_Ldseta32, C_Ldsetal32, C_Ldset64, C_Ldsetl64, C_Ldseta64, C_Ldsetal64, C_Ldsetb, C_Ldseth]),
        (4, [C_Ldsmax32, C_Ldsmax64, C_Ldsmaxb, C_Ldsmaxh]), (5, [C_Ldsmin32, C_Ldsmin64, C_Ldsminb, C_Ldsminh]),
        (6, [C_Ldumax32, C_Ldumax64, C_Ldumaxb, C_Ldumaxh]), (7, [C_Ldumin32, C_Ldumin64, C_Lduminb, C_Lduminh])]"

definition atomic_fields :: "code \<Rightarrow> u32 option" where
  "atomic_fields code = atomic_opc code"

definition strip_last :: "char \<Rightarrow> string \<Rightarrow> string option" where
  "strip_last c name = (if name \<noteq> [] \<and> last name = c then Some (butlast name) else None)"

definition ends_with :: "string \<Rightarrow> string \<Rightarrow> bool" where
  "ends_with name suf \<longleftrightarrow> take (length suf) (rev name) = rev suf"

definition ord_from_mnem :: "u32 \<Rightarrow> mnemonic \<Rightarrow> (u32 \<times> u32 \<times> u32) option" where
  "ord_from_mnem sz mnem =
     (let name = mnemonic_name mnem;
          core =
            (case strip_last CHR ''b'' name of
               Some n \<Rightarrow> n
             | None \<Rightarrow> (case strip_last CHR ''h'' name of Some n \<Rightarrow> n | None \<Rightarrow> name));
          a = of_bool (ends_with core ''a'' \<or> ends_with core ''al'');
          r = of_bool (ends_with core ''l'' \<or> ends_with core ''al'')
      in Some (sz, a, r))"

definition atomic_size_rows :: "(code list \<times> u32 \<times> (u32 \<times> u32) option) list" where
  "atomic_size_rows =
    [([C_Ldadd32, C_Ldclr32, C_Ldeor32, C_Ldset32], 2, Some (0, 0)),
     ([C_Ldaddl32, C_Ldclrl32, C_Ldeorl32, C_Ldsetl32], 2, Some (0, 1)),
     ([C_Ldadda32, C_Ldclra32, C_Ldeora32, C_Ldseta32], 2, Some (1, 0)),
     ([C_Ldaddal32, C_Ldclral32, C_Ldeoral32, C_Ldsetal32], 2, Some (1, 1)),
     ([C_Ldadd64, C_Ldclr64, C_Ldeor64, C_Ldset64], 3, Some (0, 0)),
     ([C_Ldaddl64, C_Ldclrl64, C_Ldeorl64, C_Ldsetl64], 3, Some (0, 1)),
     ([C_Ldadda64, C_Ldclra64, C_Ldeora64, C_Ldseta64], 3, Some (1, 0)),
     ([C_Ldaddal64, C_Ldclral64, C_Ldeoral64, C_Ldsetal64], 3, Some (1, 1)),
     ([C_Ldsmax32, C_Ldsmin32, C_Ldumax32, C_Ldumin32], 2, None),
     ([C_Ldsmax64, C_Ldsmin64, C_Ldumax64, C_Ldumin64], 3, None),
     ([C_Ldaddb, C_Ldclrb, C_Ldeorb, C_Ldsetb, C_Ldsmaxb, C_Ldsminb, C_Ldumaxb, C_Lduminb], 0, None),
     ([C_Ldaddh, C_Ldclrh, C_Ldeorh, C_Ldseth, C_Ldsmaxh, C_Ldsminh, C_Ldumaxh, C_Lduminh], 1, None)]"

definition atomic_size_ord :: "code \<Rightarrow> mnemonic \<Rightarrow> (u32 \<times> u32 \<times> u32) option" where
  "atomic_size_ord code mnem =
     (case first_some (\<lambda>(codes, row). if code \<in> set codes then Some row else None) atomic_size_rows of
        Some (sz, Some (a, r)) \<Rightarrow> Some (sz, a, r)
      | Some (sz, None) \<Rightarrow> ord_from_mnem sz mnem
      | None \<Rightarrow> None)"

definition enc_atomic :: "insn \<Rightarrow> u32 encoded" where
  "enc_atomic insn =
     (let code = i_code insn
      in and_then (ok_or EncUnsupported (atomic_opc code)) (\<lambda>opc.
         and_then (ok_or EncUnsupported (atomic_size_ord code (i_mnemonic insn))) (\<lambda>(sz, a, r).
         let is_st = (take 2 (mnemonic_name (i_mnemonic insn)) = ''st'')
         in and_then
              (if is_st then
                 and_then (reg_num insn 0) (\<lambda>rs. and_then (mem_imm insn 1) (\<lambda>(rn, _, _). Ok (rs, 0b11111, rn)))
               else
                 and_then (reg_num insn 0) (\<lambda>rs. and_then (reg_num insn 1) (\<lambda>rt. and_then (mem_imm insn 2) (\<lambda>(rn, _, _).
                   Ok (rs, rt, rn)))))
              (\<lambda>(rs, rt, rn). Ok (atomic_word sz a r rs 0 opc rn rt)))))"

section \<open>FEAT_LSFE\<close>

definition lsfe_rows :: "(code \<times> u32 \<times> u32 \<times> u32 \<times> u32 \<times> bool \<times> bool) list" where
  "lsfe_rows =
    [(C_Ldfadd, 0, 0, 0, 0, False, False), (C_Ldfadda, 0, 1, 0, 0, False, False), (C_Ldfaddl, 0, 0, 1, 0, False, False),
     (C_Ldfaddal, 0, 1, 1, 0, False, False), (C_Ldfmax, 0, 0, 0, 4, False, False), (C_Ldfmaxa, 0, 1, 0, 4, False, False),
     (C_Ldfmaxl, 0, 0, 1, 4, False, False), (C_Ldfmaxal, 0, 1, 1, 4, False, False), (C_Ldfmin, 0, 0, 0, 5, False, False),
     (C_Ldfmina, 0, 1, 0, 5, False, False), (C_Ldfminl, 0, 0, 1, 5, False, False), (C_Ldfminal, 0, 1, 1, 5, False, False),
     (C_Ldfmaxnm, 0, 0, 0, 6, False, False), (C_Ldfmaxnma, 0, 1, 0, 6, False, False),
     (C_Ldfmaxnml, 0, 0, 1, 6, False, False), (C_Ldfmaxnmal, 0, 1, 1, 6, False, False),
     (C_Ldfminnm, 0, 0, 0, 7, False, False), (C_Ldfminnma, 0, 1, 0, 7, False, False),
     (C_Ldfminnml, 0, 0, 1, 7, False, False), (C_Ldfminnmal, 0, 1, 1, 7, False, False),
     (C_Stfadd, 1, 0, 0, 0, False, True), (C_Stfaddl, 1, 0, 1, 0, False, True), (C_Stfmax, 1, 0, 0, 4, False, True),
     (C_Stfmaxl, 1, 0, 1, 4, False, True), (C_Stfmin, 1, 0, 0, 5, False, True), (C_Stfminl, 1, 0, 1, 5, False, True),
     (C_Stfmaxnm, 1, 0, 0, 6, False, True), (C_Stfmaxnml, 1, 0, 1, 6, False, True), (C_Stfminnm, 1, 0, 0, 7, False, True),
     (C_Stfminnml, 1, 0, 1, 7, False, True), (C_Ldbfadd, 0, 0, 0, 0, True, False), (C_Ldbfadda, 0, 1, 0, 0, True, False),
     (C_Ldbfaddl, 0, 0, 1, 0, True, False), (C_Ldbfaddal, 0, 1, 1, 0, True, False), (C_Ldbfmax, 0, 0, 0, 4, True, False),
     (C_Ldbfmaxa, 0, 1, 0, 4, True, False), (C_Ldbfmaxl, 0, 0, 1, 4, True, False), (C_Ldbfmaxal, 0, 1, 1, 4, True, False),
     (C_Ldbfmin, 0, 0, 0, 5, True, False), (C_Ldbfmina, 0, 1, 0, 5, True, False), (C_Ldbfminl, 0, 0, 1, 5, True, False),
     (C_Ldbfminal, 0, 1, 1, 5, True, False), (C_Ldbfmaxnm, 0, 0, 0, 6, True, False),
     (C_Ldbfmaxnma, 0, 1, 0, 6, True, False), (C_Ldbfmaxnml, 0, 0, 1, 6, True, False),
     (C_Ldbfmaxnmal, 0, 1, 1, 6, True, False), (C_Ldbfminnm, 0, 0, 0, 7, True, False),
     (C_Ldbfminnma, 0, 1, 0, 7, True, False), (C_Ldbfminnml, 0, 0, 1, 7, True, False),
     (C_Ldbfminnmal, 0, 1, 1, 7, True, False), (C_Stbfadd, 1, 0, 0, 0, True, True), (C_Stbfaddl, 1, 0, 1, 0, True, True),
     (C_Stbfmax, 1, 0, 0, 4, True, True), (C_Stbfmaxl, 1, 0, 1, 4, True, True), (C_Stbfmin, 1, 0, 0, 5, True, True),
     (C_Stbfminl, 1, 0, 1, 5, True, True), (C_Stbfmaxnm, 1, 0, 0, 6, True, True), (C_Stbfmaxnml, 1, 0, 1, 6, True, True),
     (C_Stbfminnm, 1, 0, 0, 7, True, True), (C_Stbfminnml, 1, 0, 1, 7, True, True)]"

definition lsfe_fields :: "code \<Rightarrow> (u32 \<times> u32 \<times> u32 \<times> u32 \<times> bool \<times> bool) option" where
  "lsfe_fields code = map_of lsfe_rows code"

definition lsfe_word :: "u32 \<Rightarrow> u32 \<Rightarrow> u32 \<Rightarrow> u32 \<Rightarrow> u32 \<Rightarrow> u32 \<Rightarrow> u32 \<Rightarrow> u32 \<Rightarrow> u32" where
  "lsfe_word sz a r rs o3 opc rn rt =
     push_bit 30 sz OR push_bit 27 0b111 OR push_bit 26 1 OR push_bit 23 a OR push_bit 22 r OR push_bit 21 1 OR
     push_bit 16 rs OR push_bit 15 o3 OR push_bit 12 opc OR push_bit 5 rn OR rt"

definition enc_lsfe :: "insn \<Rightarrow> u32 encoded" where
  "enc_lsfe insn =
     and_then (ok_or EncUnsupported (lsfe_fields (i_code insn))) (\<lambda>(o3, a, r, opc, is_bf, is_store).
     and_then
       (if is_bf then Ok 0
        else
         (case insn_op insn 0 of
            OpReg reg _ _ _ _ _ \<Rightarrow> ok_or EncInvalidOperand (map_of [(16, 1), (32, 2), (64, 3)] (width_bits reg))
          | _ \<Rightarrow> Err EncInvalidOperand)) (\<lambda>sz.
     and_then (reg_num insn 0) (\<lambda>rs.
     and_then
       (if is_store then and_then (mem_imm insn 1) (\<lambda>(rn, _, _). Ok (0b11111, rn))
        else and_then (reg_num insn 1) (\<lambda>rt. and_then (mem_imm insn 2) (\<lambda>(rn, _, _). Ok (rt, rn))))
       (\<lambda>(rt, rn). Ok (lsfe_word sz a r rs o3 opc rn rt)))))"

section \<open>LDAPR and FEAT_LS64\<close>

definition enc_ldapr :: "insn \<Rightarrow> u32 encoded" where
  "enc_ldapr insn =
     (let code = i_code insn;
          sz = (if code = C_Ldaprb then 0 else if code = C_Ldaprh then 1 else if code = C_Ldapr32 then 2 else 3)
      in and_then (reg_num insn 0) (\<lambda>rt. and_then (mem_imm insn 1) (\<lambda>(rn, _, _).
           Ok (atomic_word sz 1 0 0b11111 1 0b100 rn rt))))"

definition enc_ls64 :: "insn \<Rightarrow> u32 encoded" where
  "enc_ls64 insn =
     (let code = i_code insn
      in and_then
           (if code \<in> {C_Ld64b, C_St64b} then
              and_then (reg_num insn 0) (\<lambda>rt. and_then (mem_imm insn 1) (\<lambda>(rn, _, _). Ok (0b11111, rt, rn)))
            else
              and_then (reg_num insn 0) (\<lambda>rs. and_then (reg_num insn 1) (\<lambda>rt. and_then (mem_imm insn 2) (\<lambda>(rn, _, _).
                Ok (rs, rt, rn)))))
           (\<lambda>(rs, rt, rn).
             let opc = (if code = C_Ld64b then 0b101 else if code = C_St64b then 0b001 else if code = C_St64bv then 0b011 else 0b010)
             in Ok (atomic_word 3 0 0 rs 1 opc rn rt)))"

end
