(* ===== verification/Ldst_Simd_Encode.thy ===== *)
theory Ldst_Simd_Encode
  imports Encode_Base
begin

text \<open>
  \<open>src/encode/ldst_simd.rs\<close>: the encoder of the Advanced SIMD load/store structure instructions.  One definition per function
  of the file, in its order; the entry point \<open>encode\<close> is \<open>encode_ldst_simd\<close>.  The checked \<open>nregs - 1\<close> on \<open>u32\<close> is \<open>sub_u32\<close>.
\<close>

section \<open>Register lists and addresses\<close>

definition simd_multiple_codes :: "code list" where
  "simd_multiple_codes =
    [C_Ld1Multiple, C_Ld2Multiple, C_Ld3Multiple, C_Ld4Multiple, C_St1Multiple, C_St2Multiple, C_St3Multiple, C_St4Multiple]"

definition simd_single_codes :: "code list" where
  "simd_single_codes =
    [C_Ld1Single, C_Ld2Single, C_Ld3Single, C_Ld4Single, C_St1Single, C_St2Single, C_St3Single, C_St4Single]"

definition simd_rep_codes :: "code list" where
  "simd_rep_codes = [C_Ld1SingleRep, C_Ld2Rep, C_Ld3Rep, C_Ld4Rep]"

definition is_ldst_simd :: "code \<Rightarrow> bool" where
  "is_ldst_simd code \<longleftrightarrow> code \<in> set (simd_multiple_codes @ simd_single_codes @ simd_rep_codes)"

definition multireg :: "insn \<Rightarrow> nat \<Rightarrow> (u32 \<times> u8 \<times> vector_arrangement \<times> u8 option) encoded" where
  "multireg insn n =
     (case insn_op insn n of
        OpMultiReg (r0, _, _, _) count arr lane \<Rightarrow>
          (let first = ucast (reg_number r0)
           in and_then (ok_or EncInvalidOperand arr) (\<lambda>arr. Ok (first, count, arr, lane)))
      | _ \<Rightarrow> Err EncInvalidOperand)"

definition recover_addr :: "insn \<Rightarrow> nat \<Rightarrow> i64 \<Rightarrow> (bool \<times> u32 \<times> u32) encoded" where
  "recover_addr insn mem_idx expected_bytes =
     (case insn_op insn mem_idx of
        OpMemImm base imm mode \<Rightarrow>
          (let rn = ucast (reg_number base)
           in case mode of
                MemOffset \<Rightarrow> if imm \<noteq> 0 then Err EncInvalidImmediate else Ok (False, 0, rn)
              | MemPostImm \<Rightarrow> if imm \<noteq> expected_bytes then Err EncInvalidImmediate else Ok (True, 0b11111, rn)
              | MemPostReg \<Rightarrow>
                  and_then
                    (case insn_op insn (mem_idx + 1) of
                       OpReg reg _ _ _ _ _ \<Rightarrow> Ok (ucast (reg_number reg))
                     | _ \<Rightarrow> Err EncInvalidOperand)
                    (\<lambda>rm. if rm = 0b11111 then Err EncInvalidOperand else Ok (True, rm, rn))
              | MemPreIndex \<Rightarrow> Err EncInvalidOperand
              | MemPreNoOffset \<Rightarrow> Err EncInvalidOperand)
      | _ \<Rightarrow> Err EncInvalidOperand)"

definition size_q_of :: "vector_arrangement \<Rightarrow> (u32 \<times> u32) option" where
  "size_q_of arr =
     map_of [(V8B, (0, 0)), (V16B, (0, 1)), (V4H, (1, 0)), (V8H, (1, 1)), (V2S, (2, 0)), (V4S, (2, 1)), (V1D, (3, 0)), (V2D, (3, 1))]
       arr"

section \<open>Multiple structures\<close>

definition multiple_opcode :: "code \<Rightarrow> u8 \<Rightarrow> u32 option" where
  "multiple_opcode code count =
     map_of
       [((C_Ld4Multiple, 4), 0b0000), ((C_St4Multiple, 4), 0b0000), ((C_Ld3Multiple, 3), 0b0100), ((C_St3Multiple, 3), 0b0100),
        ((C_Ld2Multiple, 2), 0b1000), ((C_St2Multiple, 2), 0b1000), ((C_Ld1Multiple, 1), 0b0111), ((C_St1Multiple, 1), 0b0111),
        ((C_Ld1Multiple, 2), 0b1010), ((C_St1Multiple, 2), 0b1010), ((C_Ld1Multiple, 3), 0b0110), ((C_St1Multiple, 3), 0b0110),
        ((C_Ld1Multiple, 4), 0b0010), ((C_St1Multiple, 4), 0b0010)]
       (code, count)"

definition is_store_multiple :: "code \<Rightarrow> bool" where
  "is_store_multiple code \<longleftrightarrow> code \<in> {C_St1Multiple, C_St2Multiple, C_St3Multiple, C_St4Multiple}"

definition enc_multiple :: "insn \<Rightarrow> u32 encoded" where
  "enc_multiple insn =
     (let code = i_code insn
      in and_then (multireg insn 0) (\<lambda>(first, count, arr, lane).
           if lane \<noteq> None then Err EncInvalidOperand
           else
            and_then (ok_or EncInvalidOperand (multiple_opcode code count)) (\<lambda>opcode.
            and_then (ok_or EncInvalidOperand (size_q_of arr)) (\<lambda>(sz, q).
            let l = of_bool (\<not> is_store_multiple code);
                reg_bytes = (if q = 1 then 16 else 8);
                total = ucast count * reg_bytes
            in and_then (recover_addr insn 1 total) (\<lambda>(post, rm, rn).
                 Ok (push_bit 30 q OR push_bit 26 0b0011 OR push_bit 23 (of_bool post) OR push_bit 22 l OR push_bit 16 rm OR
                     push_bit 12 opcode OR push_bit 10 sz OR push_bit 5 rn OR first))))))"

section \<open>Single structure\<close>

definition is_store_single :: "code \<Rightarrow> bool" where
  "is_store_single code \<longleftrightarrow> code \<in> {C_St1Single, C_St2Single, C_St3Single, C_St4Single}"

definition single_count :: "code \<Rightarrow> u8" where
  "single_count code =
     (if code \<in> {C_Ld1Single, C_St1Single} then 1 else if code \<in> {C_Ld2Single, C_St2Single} then 2
      else if code \<in> {C_Ld3Single, C_St3Single} then 3 else 4)"

definition elem_log2 :: "vector_arrangement \<Rightarrow> u32 option" where
  "elem_log2 arr = map_of [(V8B, 0), (V4H, 1), (V2S, 2), (V1D, 3)] arr"

definition pack_lane :: "u32 \<Rightarrow> u32 \<Rightarrow> (u32 \<times> u32 \<times> u32 \<times> u32) encoded" where
  "pack_lane ebytes_log2 lane =
     (if ebytes_log2 = 0 then
        (if lane > 15 then Err EncInvalidImmediate
         else Ok (0b00, drop_bit 3 lane AND 1, drop_bit 2 lane AND 1, lane AND 0b11))
      else if ebytes_log2 = 1 then
        (if lane > 7 then Err EncInvalidImmediate
         else Ok (0b01, drop_bit 2 lane AND 1, drop_bit 1 lane AND 1, push_bit 1 (lane AND 1)))
      else if ebytes_log2 = 2 then
        (if lane > 3 then Err EncInvalidImmediate
         else Ok (0b10, drop_bit 1 lane AND 1, lane AND 1, 0b00))
      else if lane > 1 then Err EncInvalidImmediate
      else Ok (0b10, lane AND 1, 0, 0b01))"

definition enc_single :: "insn \<Rightarrow> u32 encoded" where
  "enc_single insn =
     (let code = i_code insn
      in and_then (multireg insn 0) (\<lambda>(first, count, arr, lane).
         and_then (ok_or EncInvalidOperand lane) (\<lambda>lane.
           if count \<noteq> single_count code then Err EncInvalidOperand
           else
            let nregs = (ucast count :: u32);
                l = of_bool (\<not> is_store_single code)
            in and_then (sub_u32 nregs 1) (\<lambda>nm1.
               let r = nm1 AND 1;
                   opc0 = drop_bit 1 nm1 AND 1
               in and_then (ok_or EncInvalidOperand (elem_log2 arr)) (\<lambda>ebytes_log2.
               and_then (pack_lane ebytes_log2 (ucast lane)) (\<lambda>(scale, q, s, sz).
               let opcode = push_bit 1 scale OR opc0;
                   ebytes = push_bit (unat ebytes_log2) 1;
                   total = ucast nregs * ebytes
               in and_then (recover_addr insn 1 total) (\<lambda>(post, rm, rn).
                    Ok (push_bit 30 q OR push_bit 26 0b0011 OR push_bit 24 0b01 OR push_bit 23 (of_bool post) OR push_bit 22 l OR
                        push_bit 21 r OR push_bit 16 rm OR push_bit 13 opcode OR push_bit 12 s OR push_bit 10 sz OR
                        push_bit 5 rn OR first))))))))"

section \<open>Load replicate\<close>

definition rep_count :: "code \<Rightarrow> u8" where
  "rep_count code = (if code = C_Ld1SingleRep then 1 else if code = C_Ld2Rep then 2 else if code = C_Ld3Rep then 3 else 4)"

definition enc_replicate :: "insn \<Rightarrow> u32 encoded" where
  "enc_replicate insn =
     (let code = i_code insn
      in and_then (multireg insn 0) (\<lambda>(first, count, arr, lane).
           if lane \<noteq> None then Err EncInvalidOperand
           else if count \<noteq> rep_count code then Err EncInvalidOperand
           else
            let nregs = (ucast count :: u32)
            in and_then (ok_or EncInvalidOperand (size_q_of arr)) (\<lambda>(sz, q).
               and_then (sub_u32 nregs 1) (\<lambda>nm1.
               let r = nm1 AND 1;
                   opc0 = drop_bit 1 nm1 AND 1;
                   opcode = push_bit 1 0b11 OR opc0;
                   s = 0;
                   ebytes = of_nat (element_bits arr div 8);
                   total = ucast nregs * ebytes
               in and_then (recover_addr insn 1 total) (\<lambda>(post, rm, rn).
                    Ok (push_bit 30 q OR push_bit 26 0b0011 OR push_bit 24 0b01 OR push_bit 23 (of_bool post) OR push_bit 22 1 OR
                        push_bit 21 r OR push_bit 16 rm OR push_bit 13 opcode OR push_bit 12 s OR push_bit 10 sz OR
                        push_bit 5 rn OR first))))))"

definition encode_ldst_simd :: "insn \<Rightarrow> u32 encoded" where
  "encode_ldst_simd insn =
     (if i_code insn \<in> set simd_multiple_codes then enc_multiple insn
      else if i_code insn \<in> set simd_single_codes then enc_single insn
      else if i_code insn \<in> set simd_rep_codes then enc_replicate insn
      else Err EncUnsupported)"

end
