(* ===== verification/Ldst_Group_Encode.thy ===== *)
theory Ldst_Group_Encode
  imports Ldst_Atomics_Encode Ldst_Simd_Encode
begin

text \<open>
  \<open>src/encode/ldst.rs\<close>, third part: the encoders of the pointer-authenticated, release-consistent and memory-tagging forms,
  \<open>is_ldst\<close> and the dispatcher of the group, \<open>encode\<close>, here \<open>encode_ldst\<close>, with the arms of its \<open>match\<close> in their order.
\<close>

section \<open>Guarded control stacks and pointer authentication\<close>

definition enc_gcsstr :: "insn \<Rightarrow> u32 encoded" where
  "enc_gcsstr insn =
     (let str = of_bool (i_code insn = C_Gcssttr)
      in and_then (reg_num insn 0) (\<lambda>rt. and_then (mem_imm insn 1) (\<lambda>(rn, imm, _).
           if imm \<noteq> 0 then Err EncInvalidImmediate
           else Ok (0xd91f0000 OR push_bit 12 str OR push_bit 10 0b11 OR push_bit 5 rn OR rt))))"

definition enc_pac :: "insn \<Rightarrow> u32 encoded" where
  "enc_pac insn =
     (let code = i_code insn;
          (m, wbit) = (if code = C_LdraaOff then (0, 0) else if code = C_LdraaPre then (0, 1)
                       else if code = C_LdrabOff then (1, 0) else (1, 1))
      in and_then (reg_num insn 0) (\<lambda>rt. and_then (mem_imm insn 1) (\<lambda>(rn, imm, mode).
           let want = (if wbit = 1 then MemPreIndex else MemOffset)
           in if mode \<noteq> want then Err EncInvalidOperand
              else if imm AND 0b111 \<noteq> 0 then Err EncInvalidImmediate
              else
               let off10 = signed_drop_bit 3 imm
               in if \<not> (- 512 \<le> sint off10 \<and> sint off10 \<le> 511) then Err EncInvalidImmediate
                  else
                   let off10 = ucast off10 AND 0x3ff;
                       s = drop_bit 9 off10 AND 1;
                       imm9 = off10 AND 0x1ff
                   in Ok (push_bit 30 0b11 OR push_bit 27 0b111 OR push_bit 23 m OR push_bit 22 s OR push_bit 21 1 OR
                          push_bit 12 imm9 OR push_bit 11 wbit OR push_bit 10 1 OR push_bit 5 rn OR rt))))"

section \<open>Release-consistent forms\<close>

definition ldapstl_rows :: "(code \<times> u32 \<times> u32) list" where
  "ldapstl_rows =
    [(C_Stlurb, 0, 0), (C_Ldapurb, 0, 1), (C_Ldapursb64, 0, 2), (C_Ldapursb32, 0, 3), (C_Stlurh, 1, 0), (C_Ldapurh, 1, 1),
     (C_Ldapursh64, 1, 2), (C_Ldapursh32, 1, 3), (C_Stlur32, 2, 0), (C_Ldapur32, 2, 1), (C_Ldapursw, 2, 2),
     (C_Stlur64, 3, 0), (C_Ldapur64, 3, 1)]"

definition ldapstl_fields :: "code \<Rightarrow> (u32 \<times> u32) option" where
  "ldapstl_fields code = map_of ldapstl_rows code"

definition enc_ldapstl :: "insn \<Rightarrow> u32 encoded" where
  "enc_ldapstl insn =
     and_then (ok_or EncUnsupported (ldapstl_fields (i_code insn))) (\<lambda>(sz, opc).
     and_then (reg_num insn 0) (\<lambda>rt.
     and_then (mem_imm insn 1) (\<lambda>(rn, imm, mode).
       if mode \<noteq> MemOffset then Err EncInvalidOperand
       else
        and_then (encode_imm9 imm) (\<lambda>imm9.
          Ok (push_bit 30 sz OR push_bit 24 0b011001 OR push_bit 22 opc OR push_bit 12 imm9 OR push_bit 5 rn OR rt)))))"

definition fp_ldapur_codes :: "code list" where
  "fp_ldapur_codes = [C_LdapurFp8, C_LdapurFp16, C_LdapurFp32, C_LdapurFp64, C_LdapurFp128]"

definition fp_stlur_codes :: "code list" where
  "fp_stlur_codes = [C_StlurFp8, C_StlurFp16, C_StlurFp32, C_StlurFp64, C_StlurFp128]"

definition enc_fp_ldapstl :: "insn \<Rightarrow> u32 encoded" where
  "enc_fp_ldapstl insn =
     (let load = (i_code insn \<in> set fp_ldapur_codes)
      in and_then (ok_or EncInvalidOperand (fp_acc_of (insn_op_register insn 0))) (\<lambda>acc.
         let (sz, opc_hi) = (if acc = 4 then (0, 1) else (acc, 0));
             opc = push_bit 1 opc_hi OR of_bool load
         in and_then (reg_num insn 0) (\<lambda>rt. and_then (mem_imm insn 1) (\<lambda>(rn, imm, mode).
              if mode \<noteq> MemOffset then Err EncInvalidOperand
              else
               and_then (encode_imm9 imm) (\<lambda>imm9.
                 Ok (push_bit 30 sz OR push_bit 27 0b011 OR push_bit 26 1 OR push_bit 24 0b01 OR push_bit 22 opc OR
                     push_bit 12 imm9 OR push_bit 10 0b10 OR push_bit 5 rn OR rt))))))"

definition enc_ldiapp_stilp :: "insn \<Rightarrow> u32 encoded" where
  "enc_ldiapp_stilp insn =
     (let code = i_code insn;
          load = (code \<in> {C_LdiappOff, C_LdiappPost});
          offset_form = (code \<in> {C_LdiappOff, C_StilpOff})
      in and_then (ok_or EncInvalidOperand (map_of [(32, 0b10), (64, 0b11)] (width_bits (insn_op_register insn 0)))) (\<lambda>sz.
         and_then (reg_num insn 0) (\<lambda>rt. and_then (reg_num insn 1) (\<lambda>rt2. and_then (mem_imm insn 2) (\<lambda>(rn, imm, mode).
           let want_mode = (if offset_form then MemOffset else if load then MemPostImm else MemPreIndex)
           in if mode \<noteq> want_mode then Err EncInvalidOperand
              else
               let bytes = (if sz = 0b11 then 16 else 8);
                   want_imm = (if offset_form then 0 else if load then bytes else - bytes)
               in if imm \<noteq> want_imm then Err EncInvalidOperand
                  else
                   let l = of_bool load;
                       off = of_bool offset_form
                   in Ok (push_bit 30 sz OR push_bit 24 0b011001 OR push_bit 22 l OR push_bit 16 rt2 OR push_bit 12 off OR
                          push_bit 11 1 OR push_bit 5 rn OR rt))))))"

definition enc_ldapp_stlp :: "insn \<Rightarrow> u32 encoded" where
  "enc_ldapp_stlp insn =
     and_then
       (ok_or EncInvalidOperand (map_of [(C_StlpPair, (0, 0b0101)), (C_LdapPair, (1, 0b0101)), (C_LdappPair, (1, 0b0111))] (i_code insn)))
       (\<lambda>(l, opc2).
          if width_bits (insn_op_register insn 0) \<noteq> 64 \<or> width_bits (insn_op_register insn 1) \<noteq> 64 then Err EncInvalidOperand
          else
           and_then (reg_num insn 0) (\<lambda>rt. and_then (reg_num insn 1) (\<lambda>rt2. and_then (mem_imm insn 2) (\<lambda>(rn, imm, mode).
             if mode \<noteq> MemOffset \<or> imm \<noteq> 0 then Err EncInvalidOperand
             else
              Ok (push_bit 30 0b11 OR push_bit 24 0b011001 OR push_bit 22 l OR push_bit 16 rt2 OR push_bit 12 opc2 OR
                  push_bit 10 0b10 OR push_bit 5 rn OR rt)))))"

definition enc_stlr_ldapr_wb :: "insn \<Rightarrow> u32 encoded" where
  "enc_stlr_ldapr_wb insn =
     and_then
       (ok_or EncUnsupported
          (map_of [(C_StlrPre32, (0b10, False)), (C_StlrPre64, (0b11, False)), (C_LdaprPost32, (0b10, True)),
                   (C_LdaprPost64, (0b11, True))] (i_code insn)))
       (\<lambda>(sz, load).
          and_then (reg_num insn 0) (\<lambda>rt. and_then (mem_imm insn 1) (\<lambda>(rn, imm, mode).
            let bytes = (if sz = 0b11 then 8 else 4);
                (want_mode, want_imm) = (if load then (MemPostImm, bytes) else (MemPreIndex, - bytes))
            in if mode \<noteq> want_mode \<or> imm \<noteq> want_imm then Err EncInvalidOperand
               else
                let l = of_bool load
                in Ok (push_bit 30 sz OR push_bit 24 0b011001 OR push_bit 23 1 OR push_bit 22 l OR push_bit 10 0b10 OR
                       push_bit 5 rn OR rt))))"

section \<open>Memory tagging\<close>

definition tag_word :: "u32 \<Rightarrow> u32 \<Rightarrow> u32 \<Rightarrow> u32 \<Rightarrow> u32 \<Rightarrow> u32" where
  "tag_word opc imm9 op2 rn rt =
     push_bit 24 0b11011001 OR push_bit 22 opc OR push_bit 21 1 OR push_bit 12 imm9 OR push_bit 10 op2 OR push_bit 5 rn OR rt"

definition encode_tag_imm9 :: "i64 \<Rightarrow> u32 encoded" where
  "encode_tag_imm9 imm =
     (if imm AND 0xf \<noteq> 0 then Err EncInvalidImmediate
      else
       let v = signed_drop_bit 4 imm
       in if \<not> (- 256 \<le> sint v \<and> sint v \<le> 255) then Err EncInvalidImmediate else Ok (ucast v AND 0x1ff))"

definition stg_rows :: "(code \<times> u32 \<times> u32) list" where
  "stg_rows =
    [(C_StgPost, 0b00, 0b01), (C_StgOff, 0b00, 0b10), (C_StgPre, 0b00, 0b11),
     (C_StzgPost, 0b01, 0b01), (C_StzgOff, 0b01, 0b10), (C_StzgPre, 0b01, 0b11),
     (C_St2gPost, 0b10, 0b01), (C_St2gOff, 0b10, 0b10), (C_St2gPre, 0b10, 0b11),
     (C_Stz2gPost, 0b11, 0b01), (C_Stz2gOff, 0b11, 0b10), (C_Stz2gPre, 0b11, 0b11)]"

definition tag_bulk_rows :: "(code \<times> u32 \<times> bool) list" where
  "tag_bulk_rows = [(C_Stzgm, 0b00, False), (C_LdgOff, 0b01, True), (C_Stgm, 0b10, False), (C_Ldgm, 0b11, False)]"

definition tag_is :: "code \<Rightarrow> bool" where
  "tag_is code \<longleftrightarrow>
     code \<in> set [C_StgPost, C_StgOff, C_StgPre, C_StzgPost, C_StzgOff, C_StzgPre, C_St2gPost, C_St2gOff, C_St2gPre,
                 C_Stz2gPost, C_Stz2gOff, C_Stz2gPre, C_Stzgm, C_LdgOff, C_Stgm, C_Ldgm]"

definition enc_tags :: "insn \<Rightarrow> u32 encoded" where
  "enc_tags insn =
     (case map_of stg_rows (i_code insn) of
        Some (opc, op2) \<Rightarrow>
          and_then (reg_num insn 0) (\<lambda>rt. and_then (mem_imm insn 1) (\<lambda>(rn, imm, mode).
            let want = (if op2 = 0b01 then MemPostImm else if op2 = 0b10 then MemOffset else MemPreIndex)
            in if mode \<noteq> want then Err EncInvalidOperand
               else and_then (encode_tag_imm9 imm) (\<lambda>imm9. Ok (tag_word opc imm9 op2 rn rt))))
      | None \<Rightarrow>
          and_then (ok_or EncUnsupported (map_of tag_bulk_rows (i_code insn))) (\<lambda>(opc, with_off).
          and_then (reg_num insn 0) (\<lambda>rt. and_then (mem_imm insn 1) (\<lambda>(rn, imm, mode).
            if mode \<noteq> MemOffset then Err EncInvalidOperand
            else
             and_then
               (if with_off then encode_tag_imm9 imm
                else if imm \<noteq> 0 then Err EncInvalidImmediate
                else Ok 0)
               (\<lambda>imm9. Ok (tag_word opc imm9 0b00 rn rt))))))"

section \<open>The dispatcher\<close>

definition literal_codes :: "code list" where
  "literal_codes = [C_LdrLit32, C_LdrLit64, C_LdrswLit, C_PrfmLit, C_LdrLitFp32, C_LdrLitFp64, C_LdrLitFp128]"

definition ldapr_codes :: "code list" where
  "ldapr_codes = [C_Ldaprb, C_Ldaprh, C_Ldapr32, C_Ldapr64]"

definition ls64_codes :: "code list" where
  "ls64_codes = [C_Ld64b, C_St64b, C_St64bv, C_St64bv0]"

definition gcs_store_codes :: "code list" where
  "gcs_store_codes = [C_Gcsstr, C_Gcssttr]"

definition pac_codes :: "code list" where
  "pac_codes = [C_LdraaOff, C_LdraaPre, C_LdrabOff, C_LdrabPre]"

definition ldiapp_codes :: "code list" where
  "ldiapp_codes = [C_LdiappOff, C_LdiappPost, C_StilpOff, C_StilpPre]"

definition ldapp_codes :: "code list" where
  "ldapp_codes = [C_LdappPair, C_LdapPair, C_StlpPair]"

definition wb_codes :: "code list" where
  "wb_codes = [C_StlrPre32, C_StlrPre64, C_LdaprPost32, C_LdaprPost64]"

definition is_ldst :: "code \<Rightarrow> bool" where
  "is_ldst code \<longleftrightarrow>
     code \<in> set literal_codes \<or> code = C_RprfmReg \<or> code \<in> set ldapr_codes \<or> code \<in> set pac_codes \<or> code \<in> set ls64_codes \<or>
     code \<in> set fp_ldapur_codes \<or> code \<in> set fp_stlur_codes \<or> code \<in> set ldiapp_codes \<or> code \<in> set wb_codes \<or>
     code \<in> set ldapp_codes \<or> code \<in> set gcs_store_codes \<or>
     reg_form_of code \<noteq> None \<or> unpriv_fields code \<noteq> None \<or> pair_kind code \<noteq> None \<or> excl_single_fields code \<noteq> None \<or>
     excl_pair_fields code \<noteq> None \<or> ordered_fields code \<noteq> None \<or> cas_fields code \<noteq> None \<or> casp_fields code \<noteq> None \<or>
     lsui_excl_single_fields code \<noteq> None \<or> lsui_cas_fields code \<noteq> None \<or> lsui_casp_fields code \<noteq> None \<or>
     swp_fields code \<noteq> None \<or> atomic_opc code \<noteq> None \<or> lsfe_fields code \<noteq> None \<or> rcw_single_fields code \<noteq> None \<or>
     the_atomic_fields code \<noteq> None \<or> ldapstl_fields code \<noteq> None \<or> tag_is code \<or> is_ldst_simd code"

definition encode_ldst :: "insn \<Rightarrow> u32 encoded" where
  "encode_ldst insn =
     (let code = i_code insn
      in if code = C_RprfmReg then enc_rprfm insn
         else if code \<in> set literal_codes then enc_literal insn
         else if reg_variant_of code = Some RvUnsigned then
           (case enc_fp_unscaled_or_idx insn of Some r \<Rightarrow> r | None \<Rightarrow> enc_reg_unsigned insn)
         else if reg_variant_of code = Some RvRegOff then enc_reg_offset insn
         else if reg_variant_of code = Some RvUnscaled then enc_reg_unscaled insn
         else if reg_variant_of code = Some RvImmPost \<or> reg_variant_of code = Some RvImmPre then enc_reg_immidx insn
         else if unpriv_fields code \<noteq> None then enc_reg_unpriv insn
         else if pair_kind code \<noteq> None then enc_pair insn
         else if excl_single_fields code \<noteq> None then enc_excl_single insn
         else if excl_pair_fields code \<noteq> None then enc_excl_pair insn
         else if ordered_fields code \<noteq> None then enc_ordered insn
         else if cas_fields code \<noteq> None then enc_cas insn
         else if casp_fields code \<noteq> None then enc_casp insn
         else if lsui_excl_single_fields code \<noteq> None then enc_lsui_excl_single insn
         else if lsui_cas_fields code \<noteq> None then enc_lsui_cas insn
         else if lsui_casp_fields code \<noteq> None then enc_lsui_casp insn
         else if swp_fields code \<noteq> None then enc_swp insn
         else if atomic_fields code \<noteq> None then enc_atomic insn
         else if lsfe_fields code \<noteq> None then enc_lsfe insn
         else if rcw_single_fields code \<noteq> None then enc_rcw_single insn
         else if the_atomic_fields code \<noteq> None then enc_the_atomic insn
         else if code \<in> set ldapr_codes then enc_ldapr insn
         else if code \<in> set ls64_codes then enc_ls64 insn
         else if code \<in> set gcs_store_codes then enc_gcsstr insn
         else if code \<in> set pac_codes then enc_pac insn
         else if ldapstl_fields code \<noteq> None then enc_ldapstl insn
         else if code \<in> set fp_ldapur_codes \<or> code \<in> set fp_stlur_codes then enc_fp_ldapstl insn
         else if code \<in> set ldiapp_codes then enc_ldiapp_stilp insn
         else if code \<in> set ldapp_codes then enc_ldapp_stlp insn
         else if code \<in> set wb_codes then enc_stlr_ldapr_wb insn
         else if tag_is code then enc_tags insn
         else if is_ldst_simd code then encode_ldst_simd insn
         else Err EncUnsupported)"

end
