(* ===== verification/Ldst_Facts.thy ===== *)
theory Ldst_Facts
  imports Ldst_Group_Decode Ldst_Group_Encode Branch_Exact
begin

text \<open>
  What the proofs about loads and stores share: the extension of every code of the group, read off the table of \<open>Codes\<close> by
  ranges of discriminants; the operand readers of the encoder on the operands the decoder builds; and the immediates, scaled
  and sign-extended by the decoder, checked and scaled back by the encoder.
\<close>

section \<open>Extensions of the codes\<close>

definition block_feature :: "nat \<Rightarrow> nat \<Rightarrow> nat \<Rightarrow> feature \<Rightarrow> bool" where
  "block_feature b lo hi f \<longleftrightarrow>
     b < length code_blocks \<and> hi \<le> length (code_blocks ! b) \<and>
     list_all (\<lambda>(c, m, g). g = f) (take (hi - lo) (drop lo (code_blocks ! b)))"

lemma code_feature_block:
  assumes "block_feature b lo hi f" "64 * b + lo \<le> d" "d < 64 * b + hi" "hi \<le> 64"
  shows "code_feature (Code d) = f"
proof -
  have d: "d div 64 = b" using assms(2-4) by (intro div_nat_eqI) auto
  then have m: "d mod 64 = d - 64 * b" by (simp add: modulo_nat_def)
  have i: "d - 64 * b < hi" "lo \<le> d - 64 * b" using assms(2,3) by linarith+
  then have "code_blocks ! b ! (d - 64 * b) = take (hi - lo) (drop lo (code_blocks ! b)) ! (d - 64 * b - lo)"
    using assms(1) by (simp add: block_feature_def del: diff_diff_left)
  moreover have "d - 64 * b - lo < length (take (hi - lo) (drop lo (code_blocks ! b)))"
    using assms(1) i by (auto simp: block_feature_def)
  moreover have "lo + (d - 64 * b - lo) = d - 64 * b" using i by simp
  ultimately have "snd (snd (code_blocks ! b ! (d - 64 * b))) = f"
    using assms(1) by (auto simp: block_feature_def list_all_length case_prod_beta)
  then show ?thesis by (simp add: code_feature_def code_row_def d m)
qed

lemma ldst_block_features:
  "block_feature 0 5 7 F_Base"
  "block_feature 1 52 64 F_Base"
  "block_feature 2 0 64 F_Base"
  "block_feature 3 0 64 F_Base"
  "block_feature 4 0 31 F_Base"
  "block_feature 4 31 64 F_Lse"
  "block_feature 5 0 7 F_Lse"
  "block_feature 5 7 11 F_Ls64"
  "block_feature 5 11 64 F_The"
  "block_feature 6 0 43 F_The"
  "block_feature 6 43 55 F_Lse128"
  "block_feature 6 55 64 F_Lse"
  "block_feature 7 0 61 F_Lse"
  "block_feature 12 56 59 F_Base"
  "block_feature 12 59 63 F_PAuth"
  "block_feature 12 63 64 F_Base"
  "block_feature 13 0 12 F_Base"
  "block_feature 13 12 26 F_Rcpc3"
  "block_feature 13 26 34 F_The"
  "block_feature 13 34 42 F_Lsui"
  "block_feature 13 42 46 F_Rcpc3"
  "block_feature 13 46 64 F_Mte"
  "block_feature 14 0 1 F_Mte"
  "block_feature 30 20 37 F_Base"
  "block_feature 38 10 26 F_Lsui"
  "block_feature 39 0 60 F_Lsfe"
  "block_feature 42 22 23 F_Rprfm"
  "block_feature 42 43 46 F_Rcpc3"
  "block_feature 46 7 9 F_Gcs"
  by (simp_all add: block_feature_def code_blocks_def code_rows_0_def code_rows_1_def code_rows_2_def code_rows_3_def code_rows_4_def code_rows_5_def code_rows_6_def code_rows_7_def code_rows_12_def code_rows_13_def code_rows_14_def code_rows_30_def code_rows_38_def code_rows_39_def code_rows_42_def code_rows_46_def)

lemma ldst_features [simp]:
  "5 \<le> d \<Longrightarrow> d \<le> 6 \<Longrightarrow> code_feature (Code d) = F_Base"
  "116 \<le> d \<Longrightarrow> d \<le> 127 \<Longrightarrow> code_feature (Code d) = F_Base"
  "128 \<le> d \<Longrightarrow> d \<le> 191 \<Longrightarrow> code_feature (Code d) = F_Base"
  "192 \<le> d \<Longrightarrow> d \<le> 255 \<Longrightarrow> code_feature (Code d) = F_Base"
  "256 \<le> d \<Longrightarrow> d \<le> 286 \<Longrightarrow> code_feature (Code d) = F_Base"
  "287 \<le> d \<Longrightarrow> d \<le> 319 \<Longrightarrow> code_feature (Code d) = F_Lse"
  "320 \<le> d \<Longrightarrow> d \<le> 326 \<Longrightarrow> code_feature (Code d) = F_Lse"
  "327 \<le> d \<Longrightarrow> d \<le> 330 \<Longrightarrow> code_feature (Code d) = F_Ls64"
  "331 \<le> d \<Longrightarrow> d \<le> 383 \<Longrightarrow> code_feature (Code d) = F_The"
  "384 \<le> d \<Longrightarrow> d \<le> 426 \<Longrightarrow> code_feature (Code d) = F_The"
  "427 \<le> d \<Longrightarrow> d \<le> 438 \<Longrightarrow> code_feature (Code d) = F_Lse128"
  "439 \<le> d \<Longrightarrow> d \<le> 447 \<Longrightarrow> code_feature (Code d) = F_Lse"
  "448 \<le> d \<Longrightarrow> d \<le> 508 \<Longrightarrow> code_feature (Code d) = F_Lse"
  "824 \<le> d \<Longrightarrow> d \<le> 826 \<Longrightarrow> code_feature (Code d) = F_Base"
  "827 \<le> d \<Longrightarrow> d \<le> 830 \<Longrightarrow> code_feature (Code d) = F_PAuth"
  "831 \<le> d \<Longrightarrow> d \<le> 831 \<Longrightarrow> code_feature (Code d) = F_Base"
  "832 \<le> d \<Longrightarrow> d \<le> 843 \<Longrightarrow> code_feature (Code d) = F_Base"
  "844 \<le> d \<Longrightarrow> d \<le> 857 \<Longrightarrow> code_feature (Code d) = F_Rcpc3"
  "858 \<le> d \<Longrightarrow> d \<le> 865 \<Longrightarrow> code_feature (Code d) = F_The"
  "866 \<le> d \<Longrightarrow> d \<le> 873 \<Longrightarrow> code_feature (Code d) = F_Lsui"
  "874 \<le> d \<Longrightarrow> d \<le> 877 \<Longrightarrow> code_feature (Code d) = F_Rcpc3"
  "878 \<le> d \<Longrightarrow> d \<le> 895 \<Longrightarrow> code_feature (Code d) = F_Mte"
  "896 \<le> d \<Longrightarrow> d \<le> 896 \<Longrightarrow> code_feature (Code d) = F_Mte"
  "1940 \<le> d \<Longrightarrow> d \<le> 1956 \<Longrightarrow> code_feature (Code d) = F_Base"
  "2442 \<le> d \<Longrightarrow> d \<le> 2457 \<Longrightarrow> code_feature (Code d) = F_Lsui"
  "2496 \<le> d \<Longrightarrow> d \<le> 2555 \<Longrightarrow> code_feature (Code d) = F_Lsfe"
  "2710 \<le> d \<Longrightarrow> d \<le> 2710 \<Longrightarrow> code_feature (Code d) = F_Rprfm"
  "2731 \<le> d \<Longrightarrow> d \<le> 2733 \<Longrightarrow> code_feature (Code d) = F_Rcpc3"
  "2951 \<le> d \<Longrightarrow> d \<le> 2952 \<Longrightarrow> code_feature (Code d) = F_Gcs"
  by (rule ldst_block_features [THEN code_feature_block]; (simp; fail))+

section \<open>Immediates\<close>

text \<open>\<open>fits_signed\<close> for the immediates of the group: the sign extension of \<open>n\<close> bits lies in the range of \<open>n\<close> bits.\<close>

lemma sint_sign_extend_range:
  assumes "0 < n" "n < 64"
  shows "- (2 ^ (n - 1)) \<le> sint (sign_extend x n)" "sint (sign_extend x n) < 2 ^ (n - 1)"
  using assms by (simp_all add: sint_sign_extend signed_take_bit_int_greater_eq_minus_exp signed_take_bit_int_less_exp)

lemma signed_drop_push_bit_sign_extend:
  assumes "0 < n" "n + k < 64"
  shows "signed_drop_bit k (push_bit k (sign_extend x n)) = sign_extend x n"
  using assms by (intro bit_word_eqI) (auto simp: bit_signed_drop_bit_iff bit_sign_extend bit_simps)

lemma rem_i64_push_bit: "k < 63 \<Longrightarrow> rem_i64 (push_bit k z) (2 ^ k) = 0"
proof -
  assume k: "k < 63"
  have s: "sint (2 ^ k :: i64) = 2 ^ k"
    using k by (intro bit_eqI) (auto simp: bit_sint_iff bit_simps min_def)
  have "take_bit k (sint (push_bit k z)) = 0"
    by (rule bit_eqI) (use k in \<open>auto simp: bit_simps bit_sint_iff\<close>)
  then have "2 ^ k dvd sint (push_bit k z)" by (simp add: take_bit_eq_0_iff)
  then have "sint (push_bit k z) smod 2 ^ k = 0" by (simp add: signed_modulo_int_def)
  then show ?thesis by (simp add: rem_i64_def s)
qed

lemma low_bits_push_bit [simp]:
  "push_bit 3 z AND (7 :: i64) = 0" "push_bit 4 z AND (15 :: i64) = 0"
proof -
  have "x AND (7 :: i64) = take_bit 3 x" "x AND (15 :: i64) = take_bit 4 x" for x :: i64
    by (simp_all add: take_bit_eq_mask mask_eq_exp_minus_1)
  then show "push_bit 3 z AND (7 :: i64) = 0" "push_bit 4 z AND (15 :: i64) = 0"
    by (simp_all add: take_bit_push_bit)
qed

lemma and_mask_u32:
  "x AND (0x1ff :: u32) = take_bit 9 x" "x AND (0x7f :: u32) = take_bit 7 x" "x AND (0x3ff :: u32) = take_bit 10 x"
  by (simp_all add: take_bit_eq_mask mask_eq_exp_minus_1)

lemma encode_imm9_field [simp]: "encode_imm9 (sign_extend (ucast (bits w l 9)) 9) = Ok (bits w l 9)"
  using sint_sign_extend_range [of 9 "ucast (bits w l 9)"] ucast_sign_extend_field [of 9 w l]
  by (simp add: encode_imm9_def and_mask_u32)

lemma encode_scaled_imm7_field:
  assumes "unat s \<le> 4"
  shows "encode_scaled_imm7 (push_bit (unat s) (sign_extend (ucast (bits w l 7)) 7)) s = Ok (bits w l 7)"
  using assms sint_sign_extend_range [of 7 "ucast (bits w l 7)"] ucast_sign_extend_field [of 7 w l]
  by (simp add: encode_scaled_imm7_def Let_def and_mask_u32 rem_i64_push_bit signed_drop_push_bit_sign_extend)

lemma encode_tag_imm9_field [simp]:
  "encode_tag_imm9 (push_bit 4 (sign_extend (ucast (bits w l 9)) 9)) = Ok (bits w l 9)"
  using sint_sign_extend_range [of 9 "ucast (bits w l 9)"] ucast_sign_extend_field [of 9 w l]
  by (simp add: encode_tag_imm9_def Let_def and_mask_u32 signed_drop_push_bit_sign_extend)

text \<open>The scaled unsigned offset.\<close>

lemma scaled_offset_bits: "bit (push_bit s (ucast (bits w l 12)) :: i64) i \<longleftrightarrow> i < 64 \<and> s \<le> i \<and> i - s < 12 \<and> bit w (l + (i - s))"
  by (auto simp: bit_simps bit_bits)

lemma scaled_offset_nonneg: "s \<le> 4 \<Longrightarrow> 0 \<le> sint (push_bit s (ucast (bits w l 12)) :: i64)"
proof -
  assume "s \<le> 4"
  then have "\<not> bit (push_bit s (ucast (bits w l 12)) :: i64) (LENGTH(64) - Suc 0)" by (auto simp: scaled_offset_bits)
  then show ?thesis by (simp only: bit_last_iff not_less)
qed

lemma encode_scaled_imm_field:
  assumes "unat s \<le> 4"
  shows "encode_scaled_imm (push_bit (unat s) (ucast (bits w l 12))) s = Ok (bits w l 12)"
proof -
  let ?x = "ucast (bits w l 12) :: i64"
  have d: "signed_drop_bit (unat s) (push_bit (unat s) ?x) = ?x"
    using assms by (intro bit_word_eqI) (auto simp: bit_signed_drop_bit_iff bit_simps bit_bits)
  have n: "0 \<le> sint ?x" using scaled_offset_nonneg [of 0 w l] by simp
  have "sint ?x = uint ?x" by (intro bit_eqI) (auto simp: bit_sint_iff bit_uint_iff bit_simps bit_bits min_def)
  moreover have "?x \<le> mask 12" by (rule ucast_bits_le) simp
  then have "uint ?x \<le> uint (mask 12 :: u64)" by (simp add: word_le_def)
  ultimately have "sint ?x \<le> 0xfff" by (simp add: mask_eq_exp_minus_1)
  with n d assms show ?thesis
    by (simp add: encode_scaled_imm_def Let_def rem_i64_push_bit ucast_field_u64)
qed

text \<open>The ten-bit offset of the authenticated loads, split over two fields of the word.\<close>

definition off10_of :: "u32 \<Rightarrow> u32" where
  "off10_of w = push_bit 9 (bit_at w 22) OR bits w 12 9"

lemma bit_off10: "bit (off10_of w) i \<longleftrightarrow> i < 10 \<and> bit w (if i = 9 then 22 else 12 + i)"
proof (cases "i < 10")
  case True
  then have "i = 9 \<or> i < 9" by auto
  then show ?thesis by (auto simp: off10_of_def bit_simps bit_bits bit_bit_at)
qed (auto simp: off10_of_def bit_simps bit_bits bit_bit_at)

lemma pac_offset:
  fixes w :: u32
  defines "imm \<equiv> push_bit 3 (sign_extend (ucast (off10_of w)) 10)"
  shows "imm AND 7 = 0" "- 512 \<le> sint (signed_drop_bit 3 imm)" "sint (signed_drop_bit 3 imm) \<le> 511"
    "take_bit 10 (ucast (signed_drop_bit 3 imm)) = off10_of w"
proof -
  have d: "signed_drop_bit 3 imm = sign_extend (ucast (off10_of w)) 10"
    by (simp add: imm_def signed_drop_push_bit_sign_extend)
  show "imm AND 7 = 0" by (simp add: imm_def)
  show "- 512 \<le> sint (signed_drop_bit 3 imm)" "sint (signed_drop_bit 3 imm) \<le> 511"
    using sint_sign_extend_range [of 10 "ucast (off10_of w)"] by (simp_all add: d)
  show "take_bit 10 (ucast (signed_drop_bit 3 imm)) = off10_of w"
    by (rule bit_word_eqI) (auto simp: d bit_simps bit_sign_extend bit_off10)
qed

lemma label_imm19_eq: "label_imm19 target ip = rel_imm target ip 19 2"
  by (simp add: label_imm19_def rel_imm_def Let_def mask_eq_exp_minus_1)

section \<open>Operand readers\<close>

definition op_mem :: "operand \<Rightarrow> (u32 \<times> i64 \<times> mem_index_mode) encoded" where
  "op_mem op = (case op of OpMemImm base imm mode \<Rightarrow> Ok (ucast (reg_number base), imm, mode) | _ \<Rightarrow> Err EncInvalidOperand)"

lemma mem_imm_op: "mem_imm insn n = op_mem (insn_op insn n)"
  by (simp add: mem_imm_def op_mem_def)

lemma op_mem_simps [simp]:
  "op_mem (mem_off (bits w l 5) imm) = Ok (bits w l 5, imm, MemOffset)"
  "op_mem (mem_post (bits w l 5) imm) = Ok (bits w l 5, imm, MemPostImm)"
  "op_mem (mem_pre (bits w l 5) imm) = Ok (bits w l 5, imm, MemPreIndex)"
  unfolding op_mem_def mem_off_def mem_post_def mem_pre_def operand.case reg_number_field by simp_all

text \<open>A register of the vector file: its number is the field and its width the access size.\<close>

lemma reg_number_fp_reg [simp]: "ucast (reg_number (fp_reg s (bits w l 5))) = bits w l 5"
proof -
  have "ucast (reg_number (fp_reg s n)) = n AND 31" for n
    unfolding fp_reg_def Let_def and_31_u32
    by (rule bit_word_eqI) (auto simp: bit_simps)
  then show ?thesis by (simp add: and_31_u32)
qed

lemma op_num_fp_reg [simp]: "op_num (OpPlainReg (fp_reg s (bits w l 5))) = Ok (bits w l 5)"
  by (simp add: op_num_def)

lemma width_bits_fp_reg [simp]:
  "width_bits (fp_reg 0 n) = 8" "width_bits (fp_reg 1 n) = 16" "width_bits (fp_reg 2 n) = 32"
  "width_bits (fp_reg 3 n) = 64" "width_bits (fp_reg 4 n) = 128"
  by (simp_all add: fp_reg_def Let_def)

lemma fp_acc_of_fp_reg [simp]:
  "fp_acc_of (fp_reg 0 n) = Some 0" "fp_acc_of (fp_reg 1 n) = Some 1" "fp_acc_of (fp_reg 2 n) = Some 2"
  "fp_acc_of (fp_reg 3 n) = Some 3" "fp_acc_of (fp_reg 4 n) = Some 4"
  by (simp_all add: fp_acc_of_def)

definition op_register :: "operand \<Rightarrow> register" where
  "op_register op = (case op of OpReg r _ _ _ _ _ \<Rightarrow> r | _ \<Rightarrow> RNone)"

section \<open>Prefetch operations\<close>

lemma sysop_block_names: "set sysop_names_2 \<union> set sysop_names_3 \<union> set sysop_names_4 \<subseteq> set sysop_names"
  by (auto simp: sysop_names_def sysop_blocks_def)

lemma prefetch_known:
  "list_all (\<lambda>(k, name). name \<in> set sysop_names) prefetch_names" "''pstl3strm'' \<in> set sysop_names"
  "list_all (\<lambda>name. name \<in> set sysop_names) [''pldkeep'', ''pstkeep'', ''pldstrm'', ''pststrm'']"
proof -
  have "list_all (\<lambda>(k, name). name \<in> set sysop_names_2 \<union> set sysop_names_3 \<union> set sysop_names_4) prefetch_names"
    by (simp add: prefetch_names_def sysop_names_2_def sysop_names_3_def sysop_names_4_def)
  then show "list_all (\<lambda>(k, name). name \<in> set sysop_names) prefetch_names"
    using sysop_block_names by (fastforce simp: list_all_iff)
  have "''pstl3strm'' \<in> set sysop_names_3" by (simp add: sysop_names_3_def)
  then show "''pstl3strm'' \<in> set sysop_names" using sysop_block_names by blast
  have "list_all (\<lambda>name. name \<in> set sysop_names_4) [''pldkeep'', ''pstkeep'', ''pldstrm'', ''pststrm'']"
    by (simp add: sysop_names_4_def)
  then show "list_all (\<lambda>name. name \<in> set sysop_names) [''pldkeep'', ''pstkeep'', ''pldstrm'', ''pststrm'']"
    using sysop_block_names by (auto simp: list_all_iff)
qed

definition op_prefetch :: "operand \<Rightarrow> u32 encoded" where
  "op_prefetch op =
     (case op of
        OpImmUnsigned v \<Rightarrow> if v > 0x1f then Err EncInvalidImmediate else Ok (ucast v)
      | OpSysOp tok \<Rightarrow> ok_or EncInvalidOperand (prefetch_field_of tok)
      | _ \<Rightarrow> Err EncInvalidOperand)"

lemma prefetch_rt_op: "prefetch_rt insn n = op_prefetch (insn_op insn n)"
  by (simp add: prefetch_rt_def op_prefetch_def)

lemma bits_split_high: "bits w l (a + b) = push_bit a (bits w (l + a) b) OR bits w l a"
  by (rule bit_word_eqI) (auto simp: bit_simps bit_bits)

lemma bits_5_split: "bits w l 5 = push_bit 3 (bits w (l + 3) 2) OR push_bit 1 (bits w (l + 1) 2) OR bits w l 1"
  using bits_split_high [of w l 3 2] bits_split_high [of w l 1 2] by (simp add: numeral_3_eq_3 [symmetric])

lemma odd_bits: "odd (bits w l k) \<longleftrightarrow> 0 < k \<and> bit w l"
  using bit_bits [of w l k 0] by (simp add: bit_0)

lemma prefetch_selectors:
  "drop_bit 3 (bits w l 5) AND 3 = bits w (l + 3) 2" "drop_bit 1 (bits w l 5) AND 3 = bits w (l + 1) 2"
  "bits w l 5 AND 1 = bits w l 1"
proof -
  have m: "x AND (3 :: u32) = take_bit 2 x" "x AND (1 :: u32) = take_bit 1 x" for x
    by (simp_all add: take_bit_eq_mask mask_eq_exp_minus_1)
  show "drop_bit 3 (bits w l 5) AND 3 = bits w (l + 3) 2" "drop_bit 1 (bits w l 5) AND 3 = bits w (l + 1) 2"
    "bits w l 5 AND 1 = bits w l 1"
    unfolding m by (rule bit_word_eqI; auto simp: bit_simps bit_bits odd_bits add.commute add.left_commute)+
qed

lemma op_prefetch_field:
  "op_prefetch (OpSysOp (sys_token_of name)) = ok_or EncInvalidOperand (map_of prefetch_fields name)"
  if "name \<in> set sysop_names"
  using that by (simp add: op_prefetch_def prefetch_field_of_def)

lemma op_prefetch_back [simp]: "op_prefetch (prefetch_op (bits w l 5)) = Ok (bits w l 5)"
proof -
  have n: "name \<in> set sysop_names" if "map_of prefetch_names k = Some name" for k name
    using prefetch_known(1) map_of_SomeD [OF that] by (auto simp: list_all_iff)
  have "op_prefetch (prefetch_op (bits w l 5)) =
    (if bits w (l + 3) 2 = 3 \<or> bits w (l + 1) 2 = 3 then Ok (bits w l 5)
     else ok_or EncInvalidOperand (map_of prefetch_fields
       (the_default ''pstl3strm'' (map_of prefetch_names (bits w (l + 3) 2, bits w (l + 1) 2, bits w l 1)))))"
  proof (cases "bits w (l + 3) 2 = 3 \<or> bits w (l + 1) 2 = 3")
    case True
    have "\<not> 31 < (ucast (bits w l 5) :: u64)"
      using ucast_bits_le [of 5 w l] by (simp add: mask_eq_exp_minus_1)
    with True show ?thesis
      by (simp add: prefetch_op_def Let_def prefetch_selectors prefetch_selectors [unfolded One_nat_def] op_prefetch_def ucast_field_u64)
  next
    case False
    then show ?thesis
      using n prefetch_known(2)
      by (simp add: prefetch_op_def Let_def prefetch_selectors prefetch_selectors [unfolded One_nat_def] op_prefetch_field the_default_def split: option.split)
  qed
  also have "\<dots> = Ok (bits w l 5)"
    unfolding bits_5_split [of w l] using bits_2_cases [of w "l + 3"] bits_2_cases [of w "l + 1"] bits_1_cases [of w l]
    by (elim disjE) (simp_all add: prefetch_names_def prefetch_fields_def the_default_def)
  finally show ?thesis .
qed

text \<open>Range prefetches: the named operations are the fields with no other bit than 0 and 2.\<close>

definition op_rprfop :: "operand \<Rightarrow> u32 encoded" where
  "op_rprfop op =
     (case op of
        OpImmUnsigned v \<Rightarrow> if v > 0x3f then Err EncInvalidImmediate else Ok (ucast v)
      | OpSysOp tok \<Rightarrow>
          ok_or EncInvalidOperand
            (map_of [(''pldkeep'', 0b000000), (''pstkeep'', 0b000001), (''pldstrm'', 0b000100), (''pststrm'', 0b000101)]
               (sys_token_name tok))
      | _ \<Rightarrow> Err EncInvalidOperand)"

lemma rprfop_field_op: "rprfop_field insn n = op_rprfop (insn_op insn n)"
  by (simp add: rprfop_field_def op_rprfop_def)

lemma six_bits: "x AND (0x3f :: u32) = take_bit 6 x"
  by (simp add: take_bit_eq_mask mask_eq_exp_minus_1)

lemma six_bits_named:
  assumes "take_bit 6 x AND (0b111010 :: u32) = 0"
  shows "take_bit 6 x = (if bit x 2 then 4 else 0) OR (if bit x 0 then 1 else 0)"
proof -
  have b: "\<not> bit x 1" "\<not> bit x 3" "\<not> bit x 4" "\<not> bit x 5"
    using assms [THEN arg_cong, of "\<lambda>y. bit y 1"] assms [THEN arg_cong, of "\<lambda>y. bit y 3"]
      assms [THEN arg_cong, of "\<lambda>y. bit y 4"] assms [THEN arg_cong, of "\<lambda>y. bit y 5"]
    by (simp_all add: bit_simps)
  then show ?thesis by (cases "bit x 2"; cases "bit x 0") (simp_all add: u32_eq_all_bits bit_simps)
qed

lemma op_rprfop_back: "op_rprfop (rprfop_op x) = Ok (take_bit 6 x)"
proof (cases "take_bit 6 x AND 0b111010 = 0")
  case True
  have n: "name \<in> {''pldkeep'', ''pstkeep'', ''pldstrm'', ''pststrm''} \<Longrightarrow> sys_token_name (sys_token_of name) = name" for name
    using prefetch_known(3) by auto
  show ?thesis
    using True n six_bits_named [OF True]
    by (cases "bit x 2"; cases "bit x 0") (simp_all add: rprfop_op_def op_rprfop_def six_bits Let_def)
next
  case False
  have "take_bit 6 x \<le> mask 6" by (metis take_bit_eq_mask word_and_le1)
  then have "ucast (take_bit 6 x) \<le> (mask 6 :: u64)" by (simp add: word_le_nat_alt mask_eq_exp_minus_1 unsigned_ucast_eq take_bit_nat_eq_self)
  then have "\<not> 0x3f < (ucast (take_bit 6 x) :: u64)" by (simp add: mask_eq_exp_minus_1)
  with False show ?thesis by (simp add: rprfop_op_def op_rprfop_def six_bits Let_def ucast_field_u64)
qed

end
