(* ===== verification/Ldst_Dispatch.thy ===== *)
theory Ldst_Dispatch
  imports Ldst_Facts
begin

text \<open>
  The dispatch of \<open>encode_ldst\<close>: the tables of the encoder occupy disjoint ranges of codes, so that the encoder of a code is the
  encoder of the table the code is in.  \<open>ldst_leaf\<close> is what every leaf of the decoder of the group has to satisfy.
\<close>

section \<open>The ranges of the tables\<close>

definition in_ranges :: "(nat \<times> nat) list \<Rightarrow> code \<Rightarrow> bool" where
  "in_ranges rs c \<longleftrightarrow> list_ex (\<lambda>(lo, hi). lo \<le> code_disc c \<and> code_disc c \<le> hi) rs"

lemma in_ranges_simps [simp]:
  "\<not> in_ranges [] c" "in_ranges ((lo, hi) # rs) (Code d) \<longleftrightarrow> lo \<le> d \<and> d \<le> hi \<or> in_ranges rs (Code d)"
  by (simp_all add: in_ranges_def)

definition rows_in :: "(nat \<times> nat) list \<Rightarrow> (code \<times> 'a) list \<Rightarrow> bool" where
  "rows_in rs rows \<longleftrightarrow> list_all (\<lambda>(c, x). in_ranges rs c) rows"

lemma rows_in_None: "rows_in rs rows \<Longrightarrow> \<not> in_ranges rs c \<Longrightarrow> map_of rows c = None"
  by (auto simp: rows_in_def list_all_iff map_of_eq_None_iff)

lemma ldst_rows_in:
  "rows_in [(5, 5), (116, 168), (176, 189), (203, 218)] reg_form_rows"
  "rows_in [(190, 202)] unpriv_field_rows"
  "rows_in [(6, 6), (219, 242), (858, 873), (890, 892)] pair_kind_rows"
  "rows_in [(243, 258)] excl_single_rows"
  "rows_in [(259, 266)] excl_pair_rows"
  "rows_in [(267, 274), (279, 286)] ordered_rows"
  "rows_in [(287, 302)] cas_rows"
  "rows_in [(303, 310)] casp_rows"
  "rows_in [(2442, 2449)] lsui_excl_single_rows"
  "rows_in [(2450, 2453)] lsui_cas_rows"
  "rows_in [(2454, 2457)] lsui_casp_rows"
  "rows_in [(311, 326)] swp_rows"
  "rows_in [(2496, 2555)] lsfe_rows"
  "rows_in [(831, 843)] ldapstl_rows"
  by (simp_all add: rows_in_def reg_form_rows_def unpriv_field_rows_def pair_kind_rows_def excl_single_rows_def excl_pair_rows_def ordered_rows_def cas_rows_def casp_rows_def lsui_excl_single_rows_def lsui_cas_rows_def lsui_casp_rows_def swp_rows_def lsfe_rows_def ldapstl_rows_def)

lemma ldst_fields_None [simp]:
  "\<not> in_ranges [(5, 5), (116, 168), (176, 189), (203, 218)] c \<Longrightarrow> reg_form_of c = None"
  "\<not> in_ranges [(190, 202)] c \<Longrightarrow> unpriv_fields c = None"
  "\<not> in_ranges [(6, 6), (219, 242), (858, 873), (890, 892)] c \<Longrightarrow> pair_kind c = None"
  "\<not> in_ranges [(243, 258)] c \<Longrightarrow> excl_single_fields c = None"
  "\<not> in_ranges [(259, 266)] c \<Longrightarrow> excl_pair_fields c = None"
  "\<not> in_ranges [(267, 274), (279, 286)] c \<Longrightarrow> ordered_fields c = None"
  "\<not> in_ranges [(287, 302)] c \<Longrightarrow> cas_fields c = None"
  "\<not> in_ranges [(303, 310)] c \<Longrightarrow> casp_fields c = None"
  "\<not> in_ranges [(2442, 2449)] c \<Longrightarrow> lsui_excl_single_fields c = None"
  "\<not> in_ranges [(2450, 2453)] c \<Longrightarrow> lsui_cas_fields c = None"
  "\<not> in_ranges [(2454, 2457)] c \<Longrightarrow> lsui_casp_fields c = None"
  "\<not> in_ranges [(311, 326)] c \<Longrightarrow> swp_fields c = None"
  "\<not> in_ranges [(2496, 2555)] c \<Longrightarrow> lsfe_fields c = None"
  "\<not> in_ranges [(831, 843)] c \<Longrightarrow> ldapstl_fields c = None"
  by (simp_all add: reg_form_of_def unpriv_fields_def pair_kind_def excl_single_fields_def excl_pair_fields_def ordered_fields_def cas_fields_def casp_fields_def lsui_excl_single_fields_def lsui_cas_fields_def lsui_casp_fields_def swp_fields_def lsfe_fields_def ldapstl_fields_def ldst_rows_in [THEN rows_in_None])

text \<open>The tables that are lists of quartets, and the classes that are lists of codes.\<close>

definition quartets_in :: "(nat \<times> nat) list \<Rightarrow> ('k \<times> code list) list \<Rightarrow> bool" where
  "quartets_in rs qs \<longleftrightarrow> list_all (\<lambda>(k, cs). list_all (in_ranges rs) cs) qs"

lemma first_some_None: "\<forall>x \<in> set xs. f x = None \<Longrightarrow> first_some f xs = None"
  by (induction xs) auto

lemma first_some_SomeD: "first_some f xs = Some y \<Longrightarrow> \<exists>x \<in> set xs. f x = Some y"
  by (induction xs) (auto split: option.splits)

lemma first_some_member:
  "first_some (\<lambda>(k, cs). if c \<in> set cs then Some k else None) qs = Some y \<Longrightarrow> \<exists>cs. (y, cs) \<in> set qs \<and> c \<in> set cs"
  by (induction qs) (auto split: if_splits)

lemma quartet_ord_in: "quartet_ord c cs = Some y \<Longrightarrow> c \<in> set cs"
  by (auto simp: quartet_ord_def dest!: map_of_SomeD set_zip_leftD)

lemma ldst_quartets_in:
  "quartets_in [(403, 426)] rcw_quartets"
  "quartets_in [(331, 402), (427, 438)] the_quartets"
  by (simp_all add: quartets_in_def rcw_quartets_def the_quartets_def)

lemma rcw_single_fields_in: "rcw_single_fields c = Some y \<Longrightarrow> in_ranges [(403, 426)] c"
  using ldst_quartets_in
  by (auto simp: rcw_single_fields_def quartets_in_def list_all_iff dest!: first_some_SomeD quartet_ord_in)

lemma the_atomic_fields_in: "the_atomic_fields c = Some y \<Longrightarrow> in_ranges [(331, 402), (427, 438)] c"
  using ldst_quartets_in
  by (auto simp: the_atomic_fields_def quartets_in_def list_all_iff dest!: first_some_SomeD quartet_ord_in)

lemma ldst_codes_in:
  "c \<in> set literal_codes \<Longrightarrow> in_ranges [(169, 175)] c"
  "c \<in> set ldapr_codes \<Longrightarrow> in_ranges [(275, 278)] c"
  "c \<in> set ls64_codes \<Longrightarrow> in_ranges [(327, 330)] c"
  "c \<in> set gcs_store_codes \<Longrightarrow> in_ranges [(2951, 2952)] c"
  "c \<in> set pac_codes \<Longrightarrow> in_ranges [(827, 830)] c"
  "c \<in> set fp_ldapur_codes \<Longrightarrow> in_ranges [(844, 848)] c"
  "c \<in> set fp_stlur_codes \<Longrightarrow> in_ranges [(849, 853)] c"
  "c \<in> set ldiapp_codes \<Longrightarrow> in_ranges [(854, 857)] c"
  "c \<in> set ldapp_codes \<Longrightarrow> in_ranges [(2731, 2733)] c"
  "c \<in> set wb_codes \<Longrightarrow> in_ranges [(874, 877)] c"
  "c \<in> set simd_multiple_codes \<Longrightarrow> in_ranges [(824, 825), (1940, 1945)] c"
  "c \<in> set simd_single_codes \<Longrightarrow> in_ranges [(1946, 1953)] c"
  "c \<in> set simd_rep_codes \<Longrightarrow> in_ranges [(826, 826), (1954, 1956)] c"
  by (auto simp: literal_codes_def ldapr_codes_def ls64_codes_def gcs_store_codes_def pac_codes_def fp_ldapur_codes_def fp_stlur_codes_def ldiapp_codes_def ldapp_codes_def wb_codes_def simd_multiple_codes_def simd_single_codes_def simd_rep_codes_def)

lemma atomic_opc_in: "atomic_opc c = Some opc \<Longrightarrow> in_ranges [(439, 448), (451, 460), (463, 472), (475, 484), (487, 490), (493, 496), (499, 502), (505, 508)] c"
proof -
  let ?lists =
   "[(0, [C_Ldadd32, C_Ldaddl32, C_Ldadda32, C_Ldaddal32, C_Ldadd64, C_Ldaddl64, C_Ldadda64, C_Ldaddal64, C_Ldaddb, C_Ldaddh]),
        (1, [C_Ldclr32, C_Ldclrl32, C_Ldclra32, C_Ldclral32, C_Ldclr64, C_Ldclrl64, C_Ldclra64, C_Ldclral64, C_Ldclrb, C_Ldclrh]),
        (2, [C_Ldeor32, C_Ldeorl32, C_Ldeora32, C_Ldeoral32, C_Ldeor64, C_Ldeorl64, C_Ldeora64, C_Ldeoral64, C_Ldeorb, C_Ldeorh]),
        (3, [C_Ldset32, C_Ldsetl32, C_Ldseta32, C_Ldsetal32, C_Ldset64, C_Ldsetl64, C_Ldseta64, C_Ldsetal64, C_Ldsetb, C_Ldseth]),
        (4, [C_Ldsmax32, C_Ldsmax64, C_Ldsmaxb, C_Ldsmaxh]), (5, [C_Ldsmin32, C_Ldsmin64, C_Ldsminb, C_Ldsminh]),
        (6, [C_Ldumax32, C_Ldumax64, C_Ldumaxb, C_Ldumaxh]), (7, [C_Ldumin32, C_Ldumin64, C_Lduminb, C_Lduminh])] :: (u32 \<times> code list) list"
  have a: "list_all (\<lambda>(k, cs). list_all (in_ranges [(439, 448), (451, 460), (463, 472), (475, 484), (487, 490), (493, 496), (499, 502), (505, 508)]) cs) ?lists"
    by simp
  assume "atomic_opc c = Some opc"
  then obtain cs where "(opc, cs) \<in> set ?lists" "c \<in> set cs"
    unfolding atomic_opc_def by (blast dest: first_some_member)
  with a show "in_ranges [(439, 448), (451, 460), (463, 472), (475, 484), (487, 490), (493, 496), (499, 502), (505, 508)] c" unfolding list_all_iff by blast
qed

lemma tag_is_in: "tag_is c \<Longrightarrow> in_ranges [(878, 889), (893, 896)] c"
proof -
  have "list_all (in_ranges [(878, 889), (893, 896)])
    [C_StgPost, C_StgOff, C_StgPre, C_StzgPost, C_StzgOff, C_StzgPre, C_St2gPost, C_St2gOff, C_St2gPre,
     C_Stz2gPost, C_Stz2gOff, C_Stz2gPre, C_Stzgm, C_LdgOff, C_Stgm, C_Ldgm]"
    by simp
  then show "tag_is c \<Longrightarrow> in_ranges [(878, 889), (893, 896)] c" by (simp only: tag_is_def list_all_iff)
qed

lemma is_ldst_simd_in: "is_ldst_simd c \<Longrightarrow> in_ranges [(824, 826), (1940, 1956)] c"
  unfolding is_ldst_simd_def set_append Un_iff
  by (elim disjE; drule ldst_codes_in; auto simp: in_ranges_def)

lemma ldst_fields_in:
  "reg_form_of c = Some y0 \<Longrightarrow> in_ranges [(5, 5), (116, 168), (176, 189), (203, 218)] c"
  "unpriv_fields c = Some y1 \<Longrightarrow> in_ranges [(190, 202)] c"
  "pair_kind c = Some y2 \<Longrightarrow> in_ranges [(6, 6), (219, 242), (858, 873), (890, 892)] c"
  "excl_single_fields c = Some y3 \<Longrightarrow> in_ranges [(243, 258)] c"
  "excl_pair_fields c = Some y4 \<Longrightarrow> in_ranges [(259, 266)] c"
  "ordered_fields c = Some y5 \<Longrightarrow> in_ranges [(267, 274), (279, 286)] c"
  "cas_fields c = Some y6 \<Longrightarrow> in_ranges [(287, 302)] c"
  "casp_fields c = Some y7 \<Longrightarrow> in_ranges [(303, 310)] c"
  "lsui_excl_single_fields c = Some y8 \<Longrightarrow> in_ranges [(2442, 2449)] c"
  "lsui_cas_fields c = Some y9 \<Longrightarrow> in_ranges [(2450, 2453)] c"
  "lsui_casp_fields c = Some y10 \<Longrightarrow> in_ranges [(2454, 2457)] c"
  "swp_fields c = Some y11 \<Longrightarrow> in_ranges [(311, 326)] c"
  "lsfe_fields c = Some y12 \<Longrightarrow> in_ranges [(2496, 2555)] c"
  "ldapstl_fields c = Some y13 \<Longrightarrow> in_ranges [(831, 843)] c"
  using ldst_fields_None [of c] by (metis option.distinct(1))+

lemma reg_variant_in: "reg_variant_of c = Some v \<Longrightarrow> in_ranges [(5, 5), (116, 168), (176, 189), (203, 218)] c"
  by (auto simp: reg_variant_of_def dest: ldst_fields_in)

lemma ldst_class_None [simp]:
  "\<not> in_ranges [(403, 426)] c \<Longrightarrow> rcw_single_fields c = None"
  "\<not> in_ranges [(331, 402), (427, 438)] c \<Longrightarrow> the_atomic_fields c = None"
  "\<not> in_ranges [(5, 5), (116, 168), (176, 189), (203, 218)] c \<Longrightarrow> reg_variant_of c = None"
  "\<not> in_ranges [(439, 448), (451, 460), (463, 472), (475, 484), (487, 490), (493, 496), (499, 502), (505, 508)] c \<Longrightarrow> atomic_opc c = None"
  "\<not> in_ranges [(439, 448), (451, 460), (463, 472), (475, 484), (487, 490), (493, 496), (499, 502), (505, 508)] c \<Longrightarrow> atomic_fields c = None"
  "\<not> in_ranges [(169, 175)] c \<Longrightarrow> c \<notin> set literal_codes"
  "\<not> in_ranges [(275, 278)] c \<Longrightarrow> c \<notin> set ldapr_codes"
  "\<not> in_ranges [(327, 330)] c \<Longrightarrow> c \<notin> set ls64_codes"
  "\<not> in_ranges [(2951, 2952)] c \<Longrightarrow> c \<notin> set gcs_store_codes"
  "\<not> in_ranges [(827, 830)] c \<Longrightarrow> c \<notin> set pac_codes"
  "\<not> in_ranges [(844, 848)] c \<Longrightarrow> c \<notin> set fp_ldapur_codes"
  "\<not> in_ranges [(849, 853)] c \<Longrightarrow> c \<notin> set fp_stlur_codes"
  "\<not> in_ranges [(854, 857)] c \<Longrightarrow> c \<notin> set ldiapp_codes"
  "\<not> in_ranges [(2731, 2733)] c \<Longrightarrow> c \<notin> set ldapp_codes"
  "\<not> in_ranges [(874, 877)] c \<Longrightarrow> c \<notin> set wb_codes"
  "\<not> in_ranges [(824, 825), (1940, 1945)] c \<Longrightarrow> c \<notin> set simd_multiple_codes"
  "\<not> in_ranges [(1946, 1953)] c \<Longrightarrow> c \<notin> set simd_single_codes"
  "\<not> in_ranges [(826, 826), (1954, 1956)] c \<Longrightarrow> c \<notin> set simd_rep_codes"
  "\<not> in_ranges [(878, 889), (893, 896)] c \<Longrightarrow> \<not> tag_is c"
  "\<not> in_ranges [(824, 826), (1940, 1956)] c \<Longrightarrow> \<not> is_ldst_simd c"
  using rcw_single_fields_in [of c] the_atomic_fields_in [of c] reg_variant_in [of c] atomic_opc_in [of c] ldst_codes_in [of c]
    tag_is_in [of c] is_ldst_simd_in [of c] not_None_eq
  by (metis atomic_fields_def)+

section \<open>The encoder of a code\<close>

text \<open>A class of codes excludes the classes that \<open>encode_ldst\<close> tries before it.\<close>

lemma encode_ldst_class:
  assumes "i_code i = c"
  shows
    "c = C_RprfmReg \<Longrightarrow> encode_ldst i = enc_rprfm i"
    "c \<in> set literal_codes \<Longrightarrow> encode_ldst i = enc_literal i"
    "reg_variant_of c = Some RvRegOff \<Longrightarrow> encode_ldst i = enc_reg_offset i"
    "reg_variant_of c = Some RvUnscaled \<Longrightarrow> encode_ldst i = enc_reg_unscaled i"
    "reg_variant_of c = Some RvImmPost \<Longrightarrow> encode_ldst i = enc_reg_immidx i"
    "reg_variant_of c = Some RvImmPre \<Longrightarrow> encode_ldst i = enc_reg_immidx i"
    "unpriv_fields c = Some yunpriv_field \<Longrightarrow> encode_ldst i = enc_reg_unpriv i"
    "pair_kind c = Some ypair_kind \<Longrightarrow> encode_ldst i = enc_pair i"
    "excl_single_fields c = Some yexcl_single \<Longrightarrow> encode_ldst i = enc_excl_single i"
    "excl_pair_fields c = Some yexcl_pair \<Longrightarrow> encode_ldst i = enc_excl_pair i"
    "ordered_fields c = Some yordered \<Longrightarrow> encode_ldst i = enc_ordered i"
    "cas_fields c = Some ycas \<Longrightarrow> encode_ldst i = enc_cas i"
    "casp_fields c = Some ycasp \<Longrightarrow> encode_ldst i = enc_casp i"
    "lsui_excl_single_fields c = Some ylsui_excl_single \<Longrightarrow> encode_ldst i = enc_lsui_excl_single i"
    "lsui_cas_fields c = Some ylsui_cas \<Longrightarrow> encode_ldst i = enc_lsui_cas i"
    "lsui_casp_fields c = Some ylsui_casp \<Longrightarrow> encode_ldst i = enc_lsui_casp i"
    "swp_fields c = Some yswp \<Longrightarrow> encode_ldst i = enc_swp i"
    "lsfe_fields c = Some ylsfe \<Longrightarrow> encode_ldst i = enc_lsfe i"
    "ldapstl_fields c = Some yldapstl \<Longrightarrow> encode_ldst i = enc_ldapstl i"
    "atomic_opc c = Some y \<Longrightarrow> encode_ldst i = enc_atomic i"
    "rcw_single_fields c = Some z \<Longrightarrow> encode_ldst i = enc_rcw_single i"
    "the_atomic_fields c = Some u \<Longrightarrow> encode_ldst i = enc_the_atomic i"
    "c \<in> set ldapr_codes \<Longrightarrow> encode_ldst i = enc_ldapr i"
    "c \<in> set ls64_codes \<Longrightarrow> encode_ldst i = enc_ls64 i"
    "c \<in> set gcs_store_codes \<Longrightarrow> encode_ldst i = enc_gcsstr i"
    "c \<in> set pac_codes \<Longrightarrow> encode_ldst i = enc_pac i"
    "c \<in> set fp_ldapur_codes \<Longrightarrow> encode_ldst i = enc_fp_ldapstl i"
    "c \<in> set fp_stlur_codes \<Longrightarrow> encode_ldst i = enc_fp_ldapstl i"
    "c \<in> set ldiapp_codes \<Longrightarrow> encode_ldst i = enc_ldiapp_stilp i"
    "c \<in> set ldapp_codes \<Longrightarrow> encode_ldst i = enc_ldapp_stlp i"
    "c \<in> set wb_codes \<Longrightarrow> encode_ldst i = enc_stlr_ldapr_wb i"
    "reg_variant_of c = Some RvUnsigned \<Longrightarrow> encode_ldst i = (case enc_fp_unscaled_or_idx i of Some r \<Rightarrow> r | None \<Rightarrow> enc_reg_unsigned i)"
    "tag_is c \<Longrightarrow> encode_ldst i = enc_tags i"
    "is_ldst_simd c \<Longrightarrow> encode_ldst i = encode_ldst_simd i"
proof -
  obtain d where d: "c = Code d" by (cases c)
  show "encode_ldst i = enc_rprfm i" if "c = C_RprfmReg"
    using that by (simp add: encode_ldst_def assms)
  show "encode_ldst i = enc_literal i" if "c \<in> set literal_codes"
    using that ldst_codes_in(1) [OF that] unfolding d in_ranges_simps
    by (elim disjE) (simp_all add: encode_ldst_def atomic_fields_def assms d)
  show "encode_ldst i = enc_reg_offset i" if "reg_variant_of c = Some RvRegOff"
    using that reg_variant_in [OF that] unfolding d in_ranges_simps
    by (elim disjE) (simp_all add: encode_ldst_def atomic_fields_def assms d)
  show "encode_ldst i = enc_reg_unscaled i" if "reg_variant_of c = Some RvUnscaled"
    using that reg_variant_in [OF that] unfolding d in_ranges_simps
    by (elim disjE) (simp_all add: encode_ldst_def atomic_fields_def assms d)
  show "encode_ldst i = enc_reg_immidx i" if "reg_variant_of c = Some RvImmPost"
    using that reg_variant_in [OF that] unfolding d in_ranges_simps
    by (elim disjE) (simp_all add: encode_ldst_def atomic_fields_def assms d)
  show "encode_ldst i = enc_reg_immidx i" if "reg_variant_of c = Some RvImmPre"
    using that reg_variant_in [OF that] unfolding d in_ranges_simps
    by (elim disjE) (simp_all add: encode_ldst_def atomic_fields_def assms d)
  show "encode_ldst i = enc_reg_unpriv i" if "unpriv_fields c = Some yunpriv_field"
    using that ldst_fields_in(2) [OF that] unfolding d in_ranges_simps
    by (elim disjE) (simp_all add: encode_ldst_def atomic_fields_def assms d)
  show "encode_ldst i = enc_pair i" if "pair_kind c = Some ypair_kind"
    using that ldst_fields_in(3) [OF that] unfolding d in_ranges_simps
    by (elim disjE) (simp_all add: encode_ldst_def atomic_fields_def assms d)
  show "encode_ldst i = enc_excl_single i" if "excl_single_fields c = Some yexcl_single"
    using that ldst_fields_in(4) [OF that] unfolding d in_ranges_simps
    by (elim disjE) (simp_all add: encode_ldst_def atomic_fields_def assms d)
  show "encode_ldst i = enc_excl_pair i" if "excl_pair_fields c = Some yexcl_pair"
    using that ldst_fields_in(5) [OF that] unfolding d in_ranges_simps
    by (elim disjE) (simp_all add: encode_ldst_def atomic_fields_def assms d)
  show "encode_ldst i = enc_ordered i" if "ordered_fields c = Some yordered"
    using that ldst_fields_in(6) [OF that] unfolding d in_ranges_simps
    by (elim disjE) (simp_all add: encode_ldst_def atomic_fields_def assms d)
  show "encode_ldst i = enc_cas i" if "cas_fields c = Some ycas"
    using that ldst_fields_in(7) [OF that] unfolding d in_ranges_simps
    by (elim disjE) (simp_all add: encode_ldst_def atomic_fields_def assms d)
  show "encode_ldst i = enc_casp i" if "casp_fields c = Some ycasp"
    using that ldst_fields_in(8) [OF that] unfolding d in_ranges_simps
    by (elim disjE) (simp_all add: encode_ldst_def atomic_fields_def assms d)
  show "encode_ldst i = enc_lsui_excl_single i" if "lsui_excl_single_fields c = Some ylsui_excl_single"
    using that ldst_fields_in(9) [OF that] unfolding d in_ranges_simps
    by (elim disjE) (simp_all add: encode_ldst_def atomic_fields_def assms d)
  show "encode_ldst i = enc_lsui_cas i" if "lsui_cas_fields c = Some ylsui_cas"
    using that ldst_fields_in(10) [OF that] unfolding d in_ranges_simps
    by (elim disjE) (simp_all add: encode_ldst_def atomic_fields_def assms d)
  show "encode_ldst i = enc_lsui_casp i" if "lsui_casp_fields c = Some ylsui_casp"
    using that ldst_fields_in(11) [OF that] unfolding d in_ranges_simps
    by (elim disjE) (simp_all add: encode_ldst_def atomic_fields_def assms d)
  show "encode_ldst i = enc_swp i" if "swp_fields c = Some yswp"
    using that ldst_fields_in(12) [OF that] unfolding d in_ranges_simps
    by (elim disjE) (simp_all add: encode_ldst_def atomic_fields_def assms d)
  show "encode_ldst i = enc_lsfe i" if "lsfe_fields c = Some ylsfe"
    using that ldst_fields_in(13) [OF that] unfolding d in_ranges_simps
    by (elim disjE) (simp_all add: encode_ldst_def atomic_fields_def assms d)
  show "encode_ldst i = enc_ldapstl i" if "ldapstl_fields c = Some yldapstl"
    using that ldst_fields_in(14) [OF that] unfolding d in_ranges_simps
    by (elim disjE) (simp_all add: encode_ldst_def atomic_fields_def assms d)
  show "encode_ldst i = enc_atomic i" if "atomic_opc c = Some y"
    using that atomic_opc_in [OF that] unfolding d in_ranges_simps
    by (elim disjE) (simp_all add: encode_ldst_def atomic_fields_def assms d)
  show "encode_ldst i = enc_rcw_single i" if "rcw_single_fields c = Some z"
    using that rcw_single_fields_in [OF that] unfolding d in_ranges_simps
    by (elim disjE) (simp_all add: encode_ldst_def atomic_fields_def assms d)
  show "encode_ldst i = enc_the_atomic i" if "the_atomic_fields c = Some u"
    using that the_atomic_fields_in [OF that] unfolding d in_ranges_simps
    by (elim disjE) (simp_all add: encode_ldst_def atomic_fields_def assms d)
  show "encode_ldst i = enc_ldapr i" if "c \<in> set ldapr_codes"
    using that ldst_codes_in(2) [OF that] unfolding d in_ranges_simps
    by (elim disjE) (simp_all add: encode_ldst_def atomic_fields_def assms d)
  show "encode_ldst i = enc_ls64 i" if "c \<in> set ls64_codes"
    using that ldst_codes_in(3) [OF that] unfolding d in_ranges_simps
    by (elim disjE) (simp_all add: encode_ldst_def atomic_fields_def assms d)
  show "encode_ldst i = enc_gcsstr i" if "c \<in> set gcs_store_codes"
    using that ldst_codes_in(4) [OF that] unfolding d in_ranges_simps
    by (elim disjE) (simp_all add: encode_ldst_def atomic_fields_def assms d)
  show "encode_ldst i = enc_pac i" if "c \<in> set pac_codes"
    using that ldst_codes_in(5) [OF that] unfolding d in_ranges_simps
    by (elim disjE) (simp_all add: encode_ldst_def atomic_fields_def assms d)
  show "encode_ldst i = enc_fp_ldapstl i" if "c \<in> set fp_ldapur_codes"
    using that ldst_codes_in(6) [OF that] unfolding d in_ranges_simps
    by (elim disjE) (simp_all add: encode_ldst_def atomic_fields_def assms d)
  show "encode_ldst i = enc_fp_ldapstl i" if "c \<in> set fp_stlur_codes"
    using that ldst_codes_in(7) [OF that] unfolding d in_ranges_simps
    by (elim disjE) (simp_all add: encode_ldst_def atomic_fields_def assms d)
  show "encode_ldst i = enc_ldiapp_stilp i" if "c \<in> set ldiapp_codes"
    using that ldst_codes_in(8) [OF that] unfolding d in_ranges_simps
    by (elim disjE) (simp_all add: encode_ldst_def atomic_fields_def assms d)
  show "encode_ldst i = enc_ldapp_stlp i" if "c \<in> set ldapp_codes"
    using that ldst_codes_in(9) [OF that] unfolding d in_ranges_simps
    by (elim disjE) (simp_all add: encode_ldst_def atomic_fields_def assms d)
  show "encode_ldst i = enc_stlr_ldapr_wb i" if "c \<in> set wb_codes"
    using that ldst_codes_in(10) [OF that] unfolding d in_ranges_simps
    by (elim disjE) (simp_all add: encode_ldst_def atomic_fields_def assms d)
  show "encode_ldst i = (case enc_fp_unscaled_or_idx i of Some r \<Rightarrow> r | None \<Rightarrow> enc_reg_unsigned i)" if "reg_variant_of c = Some RvUnsigned"
    using that reg_variant_in [OF that] unfolding d in_ranges_simps
    by (elim disjE) (simp_all add: encode_ldst_def atomic_fields_def assms d)
  show "encode_ldst i = enc_tags i" if "tag_is c"
    using that tag_is_in [OF that] unfolding d in_ranges_simps
    by (elim disjE) (simp_all add: encode_ldst_def atomic_fields_def assms d)
  show "encode_ldst i = encode_ldst_simd i" if "is_ldst_simd c"
    using that is_ldst_simd_in [OF that] unfolding d in_ranges_simps
    by (elim disjE) (simp_all add: encode_ldst_def atomic_fields_def assms d)
qed

text \<open>One rule per class, named by it.\<close>

lemmas by_rprfm = encode_ldst_class(1) [OF refl]
lemmas by_literal = encode_ldst_class(2) [OF refl]
lemmas by_reg_offset = encode_ldst_class(3) [OF refl]
lemmas by_reg_unscaled = encode_ldst_class(4) [OF refl]
lemmas by_reg_immidx = encode_ldst_class(5) [OF refl]
lemmas by_reg_immpre = encode_ldst_class(6) [OF refl]
lemmas by_unpriv_field = encode_ldst_class(7) [OF refl]
lemmas by_pair_kind = encode_ldst_class(8) [OF refl]
lemmas by_excl_single = encode_ldst_class(9) [OF refl]
lemmas by_excl_pair = encode_ldst_class(10) [OF refl]
lemmas by_ordered = encode_ldst_class(11) [OF refl]
lemmas by_cas = encode_ldst_class(12) [OF refl]
lemmas by_casp = encode_ldst_class(13) [OF refl]
lemmas by_lsui_excl_single = encode_ldst_class(14) [OF refl]
lemmas by_lsui_cas = encode_ldst_class(15) [OF refl]
lemmas by_lsui_casp = encode_ldst_class(16) [OF refl]
lemmas by_swp = encode_ldst_class(17) [OF refl]
lemmas by_lsfe = encode_ldst_class(18) [OF refl]
lemmas by_ldapstl = encode_ldst_class(19) [OF refl]
lemmas by_atomic = encode_ldst_class(20) [OF refl]
lemmas by_rcw_single = encode_ldst_class(21) [OF refl]
lemmas by_the_atomic = encode_ldst_class(22) [OF refl]
lemmas by_ldapr = encode_ldst_class(23) [OF refl]
lemmas by_ls64 = encode_ldst_class(24) [OF refl]
lemmas by_gcs_store = encode_ldst_class(25) [OF refl]
lemmas by_pac = encode_ldst_class(26) [OF refl]
lemmas by_fp_ldapur = encode_ldst_class(27) [OF refl]
lemmas by_fp_stlur = encode_ldst_class(28) [OF refl]
lemmas by_ldiapp = encode_ldst_class(29) [OF refl]
lemmas by_ldapp = encode_ldst_class(30) [OF refl]
lemmas by_wb = encode_ldst_class(31) [OF refl]
lemmas by_unsigned = encode_ldst_class(32) [OF refl]
lemmas by_tags = encode_ldst_class(33) [OF refl]
lemmas by_simd = encode_ldst_class(34) [OF refl]

end
