(* ===== verification/Ldst_Forms.thy ===== *)
theory Ldst_Forms
  imports Ldst_Dispatch
begin

text \<open>
  What every leaf of the decoder of loads and stores has to satisfy, \<open>ldst_leaf\<close>: an instruction of at most five operands,
  admitted by the feature set, which the encoder of the group maps to the very word.  The classification of the register forms
  and its inverse: the row of the encoder for the code the decoder chooses is the selector of the word.
\<close>

definition ldst_leaf :: "feature_set \<Rightarrow> insn \<Rightarrow> u32 \<Rightarrow> insn \<Rightarrow> bool" where
  "ldst_leaf fs out w d \<longleftrightarrow>
     (\<exists>c m ops. d = built out c m ops \<and> length ops \<le> 5 \<and> has fs (code_feature c) \<and> encode_ldst d = Ok w)"

lemma ldst_leafI:
  "encode_ldst (built out c m ops) = Ok w \<Longrightarrow> has fs (code_feature c) \<Longrightarrow> length ops \<le> 5 \<Longrightarrow>
   leaves (ldst_leaf fs out w) out (built out c m ops)"
  by (auto simp: leaves_def ldst_leaf_def)

lemmas ldst_enc_eval = mem_imm_op reg_num_op prefetch_rt_op

lemma map_of_rows: "distinct (map fst rows) \<Longrightarrow> list_all (\<lambda>(c, x). map_of rows c = Some x) rows"
  by (auto simp: list_all_iff intro: map_of_is_SomeI)

section \<open>The classification and its inverse\<close>

lemma reg_form_rows_of: "list_all (\<lambda>(c, x). reg_form_of c = Some x) reg_form_rows"
  unfolding reg_form_of_def by (rule map_of_rows) (simp add: reg_form_rows_def)

lemmas reg_form_simps [simp] = reg_form_rows_of [unfolded reg_form_rows_def list.pred_inject prod.case]

definition form_matches :: "reg_variant \<Rightarrow> u32 \<Rightarrow> u32 \<Rightarrow> ldst_form \<Rightarrow> bool" where
  "form_matches variant sz opc f \<longleftrightarrow>
     reg_form_of (lf_code f) = Some (variant, if lf_is_prfm f then prf_reg_form sz opc else gp_reg_form sz opc) \<and>
     \<not> lf_is_fp f \<and> code_feature (lf_code f) = F_Base \<and> (variant \<in> {RvUnsigned, RvRegOff} \<longrightarrow> lf_scale f = sz)"

lemma classify_gp_matches:
  assumes "variant = RvUnsigned \<or> variant = RvRegOff" "classify_gp sz opc variant = Some f"
  shows "form_matches variant sz opc f"
  using assms map_of_SomeD [OF assms(2) [unfolded classify_gp_def Let_def]]
  by (elim disjE) (auto simp: form_matches_def gp_form_def prfm_form_def)

lemma classify_gp_unscaled_matches:
  assumes "classify_gp_unscaled sz opc = Some f"
  shows "form_matches RvUnscaled sz opc f"
  using map_of_SomeD [OF assms [unfolded classify_gp_unscaled_def Let_def]]
  by (auto simp: form_matches_def gp_form_def prfm_form_def)

lemma classify_gp_immidx_matches:
  assumes "variant = RvImmPost \<or> variant = RvImmPre" "classify_gp_immidx sz opc variant = Some f"
  shows "form_matches variant sz opc f"
  using assms map_of_SomeD [OF assms(2) [unfolded classify_gp_immidx_def Let_def]]
  by (elim disjE) (auto simp: form_matches_def gp_form_def)

lemma classify_reg_matches:
  assumes "classify_reg sz 0 opc variant = Some f"
  shows "form_matches variant sz opc f"
  using assms classify_gp_matches classify_gp_unscaled_matches classify_gp_immidx_matches
  by (cases variant) (auto simp: classify_reg_def)

text \<open>The floating-point forms: \<open>acc\<close> is the access size, and the unsigned-offset codes serve four variants.\<close>

definition fp_acc :: "u32 \<Rightarrow> u32 \<Rightarrow> u32" where
  "fp_acc sz opc = push_bit 2 (drop_bit 1 opc) OR sz"

definition fp_row :: "u32 \<Rightarrow> u32 \<Rightarrow> reg_form \<Rightarrow> bool" where
  "fp_row sz opc r \<longleftrightarrow> rf_size r = sz \<and> rf_v r = 1 \<and> rf_opc r = opc \<and> rf_is_fp r \<and> rf_fp_code r = fp_acc sz opc \<and> \<not> rf_is_prfm r"

lemma fp_reg_form_simps [simp]:
  "rf_size (fp_reg_form acc l) = acc AND 3" "rf_v (fp_reg_form acc l) = 1"
  "rf_opc (fp_reg_form acc l) = push_bit 1 (drop_bit 2 acc) OR of_bool l" "rf_is_fp (fp_reg_form acc l)"
  "rf_fp_code (fp_reg_form acc l) = acc" "\<not> rf_is_prfm (fp_reg_form acc l)"
  by (simp_all add: fp_reg_form_def)

definition fp_matches :: "reg_variant \<Rightarrow> u32 \<Rightarrow> u32 \<Rightarrow> ldst_form \<Rightarrow> bool" where
  "fp_matches variant sz opc f \<longleftrightarrow>
     lf_is_fp f \<and> lf_fp_code f = fp_acc sz opc \<and> lf_scale f = fp_acc sz opc \<and> code_feature (lf_code f) = F_Base \<and>
     fp_acc sz opc \<in> {0, 1, 2, 3, 4} \<and>
     (if variant = RvRegOff then
        \<exists>r. reg_form_of (lf_code f) = Some (RvRegOff, r) \<and> rf_v r = 1 \<and> rf_is_fp r \<and> \<not> rf_is_prfm r \<and>
          fp_acc sz opc AND 3 = sz \<and> push_bit 1 (drop_bit 2 (fp_acc sz opc)) OR (rf_opc r AND 1) = opc
      else
        code_mnemonic (lf_code f) \<in> {M_Ldr, M_Str} \<and> (\<exists>r. reg_form_of (lf_code f) = Some (RvUnsigned, r) \<and> fp_row sz opc r))"

lemma fp_imm_mnemonics [simp]:
  "code_mnemonic C_LdrFpImmUnsigned8 = M_Ldr" "code_mnemonic C_LdrFpImmUnsigned16 = M_Ldr"
  "code_mnemonic C_LdrFpImmUnsigned32 = M_Ldr" "code_mnemonic C_LdrFpImmUnsigned64 = M_Ldr"
  "code_mnemonic C_LdrFpImmUnsigned128 = M_Ldr" "code_mnemonic C_StrFpImmUnsigned8 = M_Str"
  "code_mnemonic C_StrFpImmUnsigned16 = M_Str" "code_mnemonic C_StrFpImmUnsigned32 = M_Str"
  "code_mnemonic C_StrFpImmUnsigned64 = M_Str" "code_mnemonic C_StrFpImmUnsigned128 = M_Str"
  by (simp_all add: code_eval code_rows_3_def)

lemma classify_fp_matches:
  assumes "classify_reg (bits w a 2) 1 (bits w b 2) variant = Some f"
  shows "fp_matches variant (bits w a 2) (bits w b 2) f"
  using assms bits_2_cases [of w a] bits_2_cases [of w b]
  apply (cases variant; elim disjE)
  apply (simp_all add: classify_reg_def fp_matches_def fp_row_def fp_acc_def fp_form_def fp_reg_code_def fp_immidx_code_def fp_unscaled_code_def Let_def
     the_default_def)
  apply auto
  done

section \<open>Load/store register\<close>

lemma ldst_op_bits:
  assumes "bits w 27 3 = c"
  shows "bit w 29 \<longleftrightarrow> bit c 2" "bit w 28 \<longleftrightarrow> bit c 1" "bit w 27 \<longleftrightarrow> bit c 0"
  using bits_eqD [OF assms, of 2] bits_eqD [OF assms, of 1] bits_eqD [OF assms, of 0] by simp_all

lemma ldst_op4_bits:
  assumes "bits w 10 2 = c"
  shows "bit w 11 \<longleftrightarrow> bit c 1" "bit w 10 \<longleftrightarrow> bit c 0"
  using bits_eqD [OF assms, of 1] bits_eqD [OF assms, of 0] by simp_all

lemma layout_reg_unsigned:
  assumes "bits w 27 3 = 7" "bit w 24" "\<not> bit w 25"
  shows "push_bit 30 (bits w 30 2) OR push_bit 27 7 OR push_bit 26 (bit_at w 26) OR push_bit 24 1 OR push_bit 22 (bits w 22 2) OR
    push_bit 10 (bits w 10 12) OR push_bit 5 (bits w 5 5) OR bits w 0 5 = w"
  using ldst_op_bits [OF assms(1)] assms(2,3) by (simp add: to_bits)

lemma layout_reg_imm9:
  assumes "bits w 27 3 = 7" "\<not> bit w 24" "\<not> bit w 25" "\<not> bit w 21" "bits w 10 2 = c"
  shows "push_bit 30 (bits w 30 2) OR push_bit 27 7 OR push_bit 26 (bit_at w 26) OR push_bit 22 (bits w 22 2) OR
    push_bit 12 (bits w 12 9) OR push_bit 10 c OR push_bit 5 (bits w 5 5) OR bits w 0 5 = w"
  using ldst_op_bits [OF assms(1)] assms(2-4) unfolding assms(5) [symmetric] by (simp add: to_bits)

definition data_op :: "ldst_form \<Rightarrow> u32 \<Rightarrow> operand" where
  "data_op f rt = (if lf_is_prfm f then prefetch_op rt else gp_reg False (width_of (of_bool (lf_gp_x f))) rt)"

lemma push_data_op: "push_data_reg f rt out = push_operand (data_op f rt) out"
  by (simp add: push_data_reg_def data_op_def)

definition gp_form_of :: "u32 \<Rightarrow> u32 \<Rightarrow> bool \<Rightarrow> reg_form" where
  "gp_form_of sz opc prfm = (if prfm then prf_reg_form sz opc else gp_reg_form sz opc)"

lemma gp_form_of_simps [simp]:
  "rf_size (gp_form_of sz opc p) = sz" "rf_v (gp_form_of sz opc p) = 0" "rf_opc (gp_form_of sz opc p) = opc"
  "\<not> rf_is_fp (gp_form_of sz opc p)" "rf_is_prfm (gp_form_of sz opc p) = p"
  by (simp_all add: gp_form_of_def prf_reg_form_def gp_reg_form_def)

lemma form_matchesD:
  assumes "form_matches v sz opc f"
  shows "reg_form_of (lf_code f) = Some (v, gp_form_of sz opc (lf_is_prfm f))" "reg_variant_of (lf_code f) = Some v"
    "\<not> lf_is_fp f" "has fs (code_feature (lf_code f))" "v \<in> {RvUnsigned, RvRegOff} \<Longrightarrow> lf_scale f = sz"
  using assms by (auto simp: form_matches_def gp_form_of_def reg_variant_of_def)

lemma data_reg_field_back:
  "data_reg_field (built out c m (data_op f (bits w 0 5) # ops)) (gp_form_of sz opc (lf_is_prfm f)) = Ok (bits w 0 5)"
  by (simp add: data_reg_field_def data_op_def ldst_enc_eval)

lemma fp_matchesE:
  assumes "fp_matches v sz opc f" "v \<noteq> RvRegOff"
  obtains r where "reg_form_of (lf_code f) = Some (RvUnsigned, r)" "reg_variant_of (lf_code f) = Some RvUnsigned"
    "rf_size r = sz" "rf_v r = 1" "rf_opc r = opc" "rf_is_fp r" "rf_fp_code r = fp_acc sz opc" "\<not> rf_is_prfm r"
    "lf_is_fp f" "has fs (code_feature (lf_code f))" "lf_scale f = fp_acc sz opc" "lf_fp_code f = fp_acc sz opc"
    "unat (fp_acc sz opc) \<le> 4" "code_mnemonic (lf_code f) \<notin> {M_Ldur, M_Stur}"
  using assms by (auto simp: fp_matches_def fp_row_def reg_variant_of_def)

lemma classify_word:
  assumes "classify_reg (bits w 30 2) (bit_at w 26) (bits w 22 2) v = Some f"
  shows "\<not> bit w 26 \<Longrightarrow> form_matches v (bits w 30 2) (bits w 22 2) f" "bit w 26 \<Longrightarrow> fp_matches v (bits w 30 2) (bits w 22 2) f"
  using assms by (auto intro!: classify_reg_matches classify_fp_matches simp: bit_at_1 bit_at_0)

lemma enc_fp_op:
  "enc_fp_unscaled_or_idx insn =
     (case reg_form_of (i_code insn) of
        None \<Rightarrow> None
      | Some (_, form) \<Rightarrow>
         if \<not> rf_is_fp form then None
         else
          (case op_mem (insn_op insn 1) of
             Ok (rn, imm, mode) \<Rightarrow>
               (let finish = (\<lambda>op4.
                      Some (and_then (reg_num insn 0) (\<lambda>rt. and_then (encode_imm9 imm) (\<lambda>imm9.
                        Ok (push_bit 30 (rf_size form) OR push_bit 27 0b111 OR push_bit 26 (rf_v form) OR
                            push_bit 22 (rf_opc form) OR push_bit 12 imm9 OR push_bit 10 op4 OR push_bit 5 rn OR rt)))))
                in case mode of
                     MemOffset \<Rightarrow> if i_mnemonic insn \<in> {M_Ldur, M_Stur} then finish 0b00 else None
                   | MemPostImm \<Rightarrow> finish 0b01
                   | MemPreIndex \<Rightarrow> finish 0b11
                   | MemPostReg \<Rightarrow> Some (Err EncInvalidOperand)
                   | MemPreNoOffset \<Rightarrow> Some (Err EncInvalidOperand))
           | _ \<Rightarrow> None))"
  by (auto simp: enc_fp_unscaled_or_idx_def op_mem_def Let_def split: option.split operand.split mem_index_mode.split)

end
