(* ===== verification/Ldst_Reg_Exact.thy ===== *)
theory Ldst_Reg_Exact
  imports Ldst_Forms
begin

text \<open>
  The register forms of loads and stores: literal, unsigned offset, unscaled, pre- and post-indexed, unprivileged and register
  offset.  Every leaf of their decoders is a \<open>ldst_leaf\<close>.
\<close>

section \<open>Load register (literal)\<close>

lemma layout_literal:
  assumes "bits w 27 3 = 3" "bits w 24 2 = 0"
  shows "push_bit 30 (bits w 30 2) OR push_bit 27 3 OR push_bit 26 (bit_at w 26) OR push_bit 5 (bits w 5 19) OR bits w 0 5 = w"
  using bits_eqD [OF assms(1), of 0] bits_eqD [OF assms(1), of 1] bits_eqD [OF assms(1), of 2]
    bits_eqD [OF assms(2), of 0] bits_eqD [OF assms(2), of 1]
  by (simp add: to_bits)

lemma leaves_literal:
  assumes "bits w 27 3 = 3" "bits w 24 2 = 0" "i_ip out = ip"
  shows "leaves (ldst_leaf fs out w) out (decode_literal w ip out)"
  using layout_literal [OF assms(1,2)] bits_2_cases [of w 30]
  apply (cases "bit w 26"; elim disjE)
  apply (simp_all add: decode_literal_def dec_eval leaves_out)
  apply (intro ldst_leafI; simp add: by_literal literal_codes_def enc_literal_def ldst_enc_eval label_imm19_eq assms(3))+
  done

section \<open>Unsigned offset\<close>

lemma leaves_reg_unsigned_gp:
  assumes "bits w 27 3 = 7" "bit w 24" "\<not> bit w 25" "\<not> bit w 26"
  shows "leaves (ldst_leaf fs out w) out (decode_reg_unsigned w out)"
proof (cases "classify_reg (bits w 30 2) (bit_at w 26) (bits w 22 2) RvUnsigned")
  case (Some f)
  note F = form_matchesD [OF classify_word(1) [OF Some assms(4)]]
  have s: "unat (bits w 30 2) \<le> 4" using unat_bits_less [of 2 w 30] by simp
  have z: "\<not> sint (push_bit (unat (bits w 30 2)) (ucast (bits w 10 12)) :: i64) < 0"
    using scaled_offset_nonneg [OF s] by (simp add: not_less)
  show ?thesis
    unfolding decode_reg_unsigned_def Let_def Some option.case
    using layout_reg_unsigned [OF assms(1-3)] bit_at_0 [OF assms(4)]
    by (simp add: F push_data_op)
      (intro ldst_leafI; simp add: F by_unsigned enc_fp_op enc_reg_unsigned_def data_reg_field_back mem_imm_op z
        encode_scaled_imm_field [OF s])
qed (simp add: decode_reg_unsigned_def Let_def)

lemma leaves_reg_unsigned_fp:
  assumes "bits w 27 3 = 7" "bit w 24" "\<not> bit w 25" "bit w 26"
  shows "leaves (ldst_leaf fs out w) out (decode_reg_unsigned w out)"
proof (cases "classify_reg (bits w 30 2) (bit_at w 26) (bits w 22 2) RvUnsigned")
  case (Some f)
  from classify_word(2) [OF Some assms(4)] obtain r where F:
    "reg_form_of (lf_code f) = Some (RvUnsigned, r)" "reg_variant_of (lf_code f) = Some RvUnsigned"
    "rf_size r = bits w 30 2" "rf_v r = 1" "rf_opc r = bits w 22 2" "rf_is_fp r"
    "rf_fp_code r = fp_acc (bits w 30 2) (bits w 22 2)" "\<not> rf_is_prfm r"
    "lf_is_fp f" "has fs (code_feature (lf_code f))" "lf_scale f = fp_acc (bits w 30 2) (bits w 22 2)"
    "lf_fp_code f = fp_acc (bits w 30 2) (bits w 22 2)"
    and s: "unat (fp_acc (bits w 30 2) (bits w 22 2)) \<le> 4" and n: "code_mnemonic (lf_code f) \<notin> {M_Ldur, M_Stur}"
    by (rule fp_matchesE) auto
  have z: "\<not> sint (push_bit (unat (fp_acc (bits w 30 2) (bits w 22 2))) (ucast (bits w 10 12)) :: i64) < 0"
    using scaled_offset_nonneg [OF s] by (simp add: not_less)
  show ?thesis
    unfolding decode_reg_unsigned_def Let_def Some option.case
    using layout_reg_unsigned [OF assms(1-3)] bit_at_1 [OF assms(4)] n
    by (simp add: F)
      (intro ldst_leafI; simp add: F by_unsigned enc_fp_op enc_reg_unsigned_def data_reg_field_def ldst_enc_eval z
        encode_scaled_imm_field [OF s])
qed (simp add: decode_reg_unsigned_def Let_def)

lemma leaves_reg_unsigned:
  "bits w 27 3 = 7 \<Longrightarrow> bit w 24 \<Longrightarrow> \<not> bit w 25 \<Longrightarrow> leaves (ldst_leaf fs out w) out (decode_reg_unsigned w out)"
  using leaves_reg_unsigned_gp leaves_reg_unsigned_fp by blast

section \<open>Nine-bit offsets\<close>

lemma leaves_reg_unscaled:
  assumes "bits w 27 3 = 7" "\<not> bit w 24" "\<not> bit w 25" "\<not> bit w 21" "bits w 10 2 = 0"
  shows "leaves (ldst_leaf fs out w) out (decode_reg_unscaled w out)"
proof (cases "classify_reg (bits w 30 2) (bit_at w 26) (bits w 22 2) RvUnscaled")
  case (Some f)
  show ?thesis
  proof (cases "bit w 26")
    case False
    note F = form_matchesD [OF classify_word(1) [OF Some False]]
    show ?thesis
      unfolding decode_reg_unscaled_def Let_def Some option.case
      using layout_reg_imm9 [OF assms] bit_at_0 [OF False]
      by (simp add: F push_data_op)
        (intro ldst_leafI; simp add: F by_reg_unscaled enc_reg_unscaled_def data_reg_field_back mem_imm_op)
  next
    case True
    from classify_word(2) [OF Some True] obtain r where F:
      "reg_form_of (lf_code f) = Some (RvUnsigned, r)" "reg_variant_of (lf_code f) = Some RvUnsigned"
      "rf_size r = bits w 30 2" "rf_v r = 1" "rf_opc r = bits w 22 2" "rf_is_fp r" "\<not> rf_is_prfm r"
      "lf_is_fp f" "has fs (code_feature (lf_code f))"
      by (rule fp_matchesE) auto
    show ?thesis
      unfolding decode_reg_unscaled_def Let_def Some option.case
      using layout_reg_imm9 [OF assms] bit_at_1 [OF True]
      by (simp add: F split del: if_split)
        (intro ldst_leafI; simp add: F by_unsigned enc_fp_op ldst_enc_eval)
  qed
qed (simp add: decode_reg_unscaled_def Let_def)

lemma leaves_reg_immidx:
  assumes "bits w 27 3 = 7" "\<not> bit w 24" "\<not> bit w 25" "\<not> bit w 21"
    "v = RvImmPost \<and> bits w 10 2 = 1 \<or> v = RvImmPre \<and> bits w 10 2 = 3"
  shows "leaves (ldst_leaf fs out w) out (decode_reg_immidx w v out)"
proof (cases "classify_reg (bits w 30 2) (bit_at w 26) (bits w 22 2) v")
  case (Some f)
  show ?thesis
  proof (cases "bit w 26")
    case False
    note F = form_matchesD [OF classify_word(1) [OF Some False]]
    show ?thesis
      unfolding decode_reg_immidx_def Let_def Some option.case
      using layout_reg_imm9 [OF assms(1-4) refl] bit_at_0 [OF False] assms(5)
      by (elim disjE conjE; simp add: F push_data_op)
        (intro ldst_leafI; simp add: F by_reg_immidx by_reg_immpre enc_reg_immidx_def data_reg_field_back mem_imm_op)+
  next
    case True
    from assms(5) have v: "v \<noteq> RvRegOff" by auto
    from classify_word(2) [OF Some True] v obtain r where F:
      "reg_form_of (lf_code f) = Some (RvUnsigned, r)" "reg_variant_of (lf_code f) = Some RvUnsigned"
      "rf_size r = bits w 30 2" "rf_v r = 1" "rf_opc r = bits w 22 2" "rf_is_fp r" "\<not> rf_is_prfm r"
      "lf_is_fp f" "has fs (code_feature (lf_code f))"
      by (rule fp_matchesE) auto
    show ?thesis
      unfolding decode_reg_immidx_def Let_def Some option.case
      using layout_reg_imm9 [OF assms(1-4) refl] bit_at_1 [OF True] assms(5)
      by (elim disjE conjE; simp add: F split del: if_split)
        (intro ldst_leafI; simp add: F by_unsigned enc_fp_op ldst_enc_eval)+
  qed
qed (simp add: decode_reg_immidx_def Let_def)

lemma unpriv_rows_match: "list_all (\<lambda>((sz, opc), (c, x)). unpriv_fields c = Some (sz, opc) \<and> code_feature c = F_Base) unpriv_codes"
  by (simp add: unpriv_codes_def unpriv_fields_def unpriv_field_rows_def)

lemma leaves_reg_unpriv:
  assumes "bits w 27 3 = 7" "\<not> bit w 24" "\<not> bit w 25" "\<not> bit w 21" "bits w 10 2 = 2"
  shows "leaves (ldst_leaf fs out w) out (decode_reg_unpriv w out)"
proof (cases "bit w 26")
  case False
  show ?thesis
  proof (cases "map_of unpriv_codes (bits w 30 2, bits w 22 2)")
    case (Some row)
    obtain c x where r: "row = (c, x)" by (cases row)
    have F: "unpriv_fields c = Some (bits w 30 2, bits w 22 2)" "has fs (code_feature c)"
      using unpriv_rows_match map_of_SomeD [OF Some] by (auto simp: list_all_iff r)
    show ?thesis
      unfolding decode_reg_unpriv_def Let_def Some option.case r prod.case
      using layout_reg_imm9 [OF assms] bit_at_0 [OF False]
      by simp (intro ldst_leafI; simp add: F by_unpriv_field enc_reg_unpriv_def ldst_enc_eval)
  qed (simp add: decode_reg_unpriv_def Let_def)
qed (simp add: decode_reg_unpriv_def)

section \<open>Register offset\<close>

definition op_mem_ext :: "operand \<Rightarrow> u32 \<Rightarrow> (u32 \<times> u32 \<times> u32 \<times> u32) encoded" where
  "op_mem_ext op scale =
     (case op of
        OpMemExt base index ext shift \<Rightarrow>
          (let rn = ucast (reg_number base);
               rm = ucast (reg_number index);
               option = ucast (extend_type_as_bits ext)
           in if option AND 0b010 = 0 then Err EncInvalidOperand
              else
               let s = drop_bit 7 shift AND 1;
                   amt = ucast (shift AND 0x7f);
                   expected = (if s = 1 then scale else 0)
               in if amt \<noteq> expected then Err EncInvalidImmediate else Ok (rn, rm, option, ucast s))
      | _ \<Rightarrow> Err EncInvalidOperand)"

lemma recover_mem_ext_op: "recover_mem_ext insn n scale = op_mem_ext (insn_op insn n) scale"
  by (simp add: recover_mem_ext_def op_mem_ext_def)

lemma option_back: "ucast (extend_type_as_bits (extend_type_from_bits (ucast (bits w l 3)))) = bits w l 3"
  using bits_3_cases [of w l] by (elim disjE) (simp_all add: extend_type_from_bits_def)

lemma pack_shift_fields:
  fixes scale x :: u32
  assumes "unat scale \<le> 4" "x = 0 \<or> x = 1"
  shows "drop_bit 7 (pack_shift opt x (if x = 1 then ucast scale else 0)) AND 1 = ucast x"
    "ucast (pack_shift opt x (if x = 1 then ucast scale else 0) AND 0x7f) = (if x = 1 then scale else 0)"
proof -
  have "unat scale = 0 \<or> unat scale = 1 \<or> unat scale = 2 \<or> unat scale = 3 \<or> unat scale = 4" using assms(1) by linarith
  then have s: "scale = 0 \<or> scale = 1 \<or> scale = 2 \<or> scale = 3 \<or> scale = 4" by (simp add: word_unat_eq_iff)
  show "drop_bit 7 (pack_shift opt x (if x = 1 then ucast scale else 0)) AND 1 = ucast x"
    using assms(2) s by (elim disjE) (simp_all add: pack_shift_def)
  show "ucast (pack_shift opt x (if x = 1 then ucast scale else 0) AND 0x7f) = (if x = 1 then scale else 0)"
    using assms(2) s by (elim disjE) (simp_all add: pack_shift_def)
qed

lemmas pack_shift_back = pack_shift_fields [OF _ bit_at_cases]

lemma op_mem_ext_back:
  assumes "unat scale \<le> 4" "bits w 13 3 AND 2 \<noteq> 0"
  shows "op_mem_ext (mem_ext (bits w 5 5) (bits w 16 5) (bits w 13 3) (bit_at w 12) scale) scale =
    Ok (bits w 5 5, bits w 16 5, bits w 13 3, bit_at w 12)"
proof -
  have u: "ucast (ucast (bit_at w 12) :: u8) = bit_at w 12" "(ucast (bit_at w 12) :: u8) = 1 \<longleftrightarrow> bit_at w 12 = 1"
    by (cases "bit w 12"; simp add: bit_at_1 bit_at_0)+
  show ?thesis
    unfolding op_mem_ext_def mem_ext_def Let_def operand.case option_back pack_shift_back [OF assms(1)] reg_number_field
    using assms(2) by (simp add: u)
qed

lemma layout_reg_offset:
  assumes "bits w 27 3 = 7" "\<not> bit w 24" "\<not> bit w 25" "bit w 21" "bits w 10 2 = 2"
  shows "push_bit 30 (bits w 30 2) OR push_bit 27 7 OR push_bit 26 (bit_at w 26) OR push_bit 22 (bits w 22 2) OR push_bit 21 1 OR
    push_bit 16 (bits w 16 5) OR push_bit 13 (bits w 13 3) OR push_bit 12 (bit_at w 12) OR push_bit 10 2 OR
    push_bit 5 (bits w 5 5) OR bits w 0 5 = w"
  using ldst_op_bits [OF assms(1)] assms(2-4) ldst_op4_bits [OF assms(5)] by (simp add: to_bits)

lemma leaves_reg_offset_rows:
  assumes "bits w 27 3 = 7" "\<not> bit w 24" "\<not> bit w 25" "bit w 21" "bits w 10 2 = 2"
    "\<not> (bits w 30 2 = 3 \<and> bit_at w 26 = 0 \<and> bits w 22 2 = 2 \<and> drop_bit 3 (bits w 0 5) = 3)"
  shows "leaves (ldst_leaf fs out w) out (decode_reg_offset w fs out)"
proof (cases "bits w 13 3 AND 2 = 0")
  case False
  note L = layout_reg_offset [OF assms(1-5)]
  show ?thesis
  proof (cases "classify_reg (bits w 30 2) (bit_at w 26) (bits w 22 2) RvRegOff")
    case (Some f)
    show ?thesis
    proof (cases "bit w 26")
      case v: False
      note F = form_matchesD [OF classify_word(1) [OF Some v]]
      have s: "unat (bits w 30 2) \<le> 4" using unat_bits_less [of 2 w 30] by simp
      show ?thesis
        unfolding decode_reg_offset_def Let_def Some option.case if_not_P [OF assms(6)] if_not_P [OF False]
          data_op_def [symmetric]
        using L bit_at_0 [OF v]
        by (simp add: F if_distrib [of "\<lambda>op. push_operand op _", symmetric] data_op_def [symmetric])
          (intro ldst_leafI; simp add: F by_reg_offset enc_reg_offset_def data_reg_field_back recover_mem_ext_op
            op_mem_ext_back [OF s False])
    next
      case v: True
      from classify_word(2) [OF Some v] obtain r where F:
        "reg_form_of (lf_code f) = Some (RvRegOff, r)" "rf_v r = 1" "rf_is_fp r" "\<not> rf_is_prfm r"
        "lf_is_fp f" "code_feature (lf_code f) = F_Base" "lf_scale f = fp_acc (bits w 30 2) (bits w 22 2)"
        "lf_fp_code f = fp_acc (bits w 30 2) (bits w 22 2)" "fp_acc (bits w 30 2) (bits w 22 2) AND 3 = bits w 30 2"
        and p: "push_bit 1 (drop_bit 2 (fp_acc (bits w 30 2) (bits w 22 2))) OR (rf_opc r AND 1) = bits w 22 2"
        and a: "fp_acc (bits w 30 2) (bits w 22 2) \<in> {0, 1, 2, 3, 4}"
        by (auto simp: fp_matches_def)
      have s: "unat (fp_acc (bits w 30 2) (bits w 22 2)) \<le> 4" using a by auto
      have r: "fp_acc_of (fp_reg (fp_acc (bits w 30 2) (bits w 22 2)) n) = Some (fp_acc (bits w 30 2) (bits w 22 2))" for n
        using a by auto
      show ?thesis
        unfolding decode_reg_offset_def Let_def Some option.case if_not_P [OF assms(6)] if_not_P [OF False]
        using L bit_at_1 [OF v] p
        apply (simp add: F split del: if_split)
        apply (intro ldst_leafI; simp add: F by_reg_offset reg_variant_of_def enc_reg_offset_def data_reg_field_def recover_mem_ext_op ldst_enc_eval
            op_mem_ext_back [OF s False] insn_op_register_def r)
        done
    qed
  qed (use assms(6) in \<open>auto simp: decode_reg_offset_def Let_def\<close>)
qed (simp add: decode_reg_offset_def)

text \<open>RPRFM: the six bits of the operation are spread over three fields.\<close>

definition rprfm_field :: "u32 \<Rightarrow> u32" where
  "rprfm_field w = push_bit 5 (drop_bit 2 (bits w 13 3) AND 1) OR push_bit 4 (bits w 13 3 AND 1) OR push_bit 3 (bit_at w 12) OR
    (bits w 0 5 AND 7)"

lemma rprfm_field_eq:
  "rprfm_field w = push_bit 5 (bit_at w 15) OR push_bit 4 (bit_at w 13) OR push_bit 3 (bit_at w 12) OR bits w 0 3"
proof -
  have m: "x AND (7 :: u32) = take_bit 3 x" "y AND (1 :: u32) = take_bit 1 y" for x y
    by (simp_all add: take_bit_eq_mask mask_eq_exp_minus_1)
  have "drop_bit 2 (bits w 13 3) AND 1 = bit_at w 15" "bits w 13 3 AND 1 = bit_at w 13" "bits w 0 5 AND 7 = bits w 0 3"
    unfolding m by (rule bit_word_eqI; auto simp: bit_simps bit_bits bit_bit_at even_drop_bit_iff_not_bit odd_bits)+
  then show ?thesis by (simp only: rprfm_field_def)
qed

lemma bit_rprfm_field:
  "bit (rprfm_field w) n \<longleftrightarrow> n < 3 \<and> bit w n \<or> n = 3 \<and> bit w 12 \<or> n = 4 \<and> bit w 13 \<or> n = 5 \<and> bit w 15"
  unfolding rprfm_field_eq by (auto simp: bit_simps bit_bits bit_bit_at)

lemma leaves_rprfm:
  assumes "bits w 27 3 = 7" "\<not> bit w 24" "\<not> bit w 25" "bit w 21" "bits w 10 2 = 2"
    "bits w 30 2 = 3" "bit_at w 26 = 0" "bits w 22 2 = 2" "drop_bit 3 (bits w 0 5) = 3"
  shows "leaves (ldst_leaf fs out w) out (decode_reg_offset w fs out)"
proof (cases "bits w 13 3 AND 2 = 0 \<or> \<not> has fs F_Rprfm")
  case False
  have b: "bit w 14" "bit w 31" "bit w 30" "\<not> bit w 26" "bit w 23" "\<not> bit w 22" "bit w 4" "bit w 3"
    using bits_eqD [OF assms(6), of 0] bits_eqD [OF assms(6), of 1] bits_eqD [OF assms(8), of 0] bits_eqD [OF assms(8), of 1]
      assms(7) False arg_cong [OF assms(9), of "\<lambda>x. bit x 0"] arg_cong [OF assms(9), of "\<lambda>x. bit x 1"]
    by (auto simp: to_bits)
  have r: "take_bit 6 (rprfm_field w) = rprfm_field w" by (rule bit_word_eqI) (auto simp: bit_take_bit_iff bit_rprfm_field)
  show ?thesis
    unfolding decode_reg_offset_def Let_def rprfm_field_def [symmetric]
    using assms(6-9) False
    apply simp
    apply (intro ldst_leafI; simp add: by_rprfm enc_rprfm_def rprfop_field_op op_rprfop_back r ldst_enc_eval)
    using ldst_op_bits [OF assms(1)] assms(2-4) ldst_op4_bits [OF assms(5)] b
    apply (simp add: to_bits bit_rprfm_field)
    done
qed (use assms(6-9) in \<open>auto simp: decode_reg_offset_def Let_def\<close>)

lemma leaves_reg_offset:
  assumes "bits w 27 3 = 7" "\<not> bit w 24" "\<not> bit w 25" "bit w 21" "bits w 10 2 = 2"
  shows "leaves (ldst_leaf fs out w) out (decode_reg_offset w fs out)"
  using leaves_rprfm [OF assms] leaves_reg_offset_rows [OF assms] by blast

end
