(* ===== verification/Ldst_Pair_Exact.thy ===== *)
theory Ldst_Pair_Exact
  imports Ldst_Forms
begin

text \<open>
  Load/store pair: general, signed, tagged, floating-point and the two FEAT_THE/FEAT_LSUI families.  The mnemonic tells the
  encoder the non-temporal forms, the addressing mode the others.
\<close>

section \<open>Mnemonics and rows of the pair codes\<close>

lemma pair_mnemonics_0 [simp]:
  "code_mnemonic C_LdpPre64 = M_Ldp"
  by (simp_all add: code_eval code_rows_0_def)

lemma pair_mnemonics_3 [simp]:
  "code_mnemonic C_Stnp32 = M_Stnp" "code_mnemonic C_Ldnp32 = M_Ldnp"
  "code_mnemonic C_Stp32Post = M_Stp" "code_mnemonic C_Ldp32Post = M_Ldp"
  "code_mnemonic C_Stp32 = M_Stp" "code_mnemonic C_Ldp32 = M_Ldp"
  "code_mnemonic C_Stp32Pre = M_Stp" "code_mnemonic C_Ldp32Pre = M_Ldp"
  "code_mnemonic C_Stnp64 = M_Stnp" "code_mnemonic C_Ldnp64 = M_Ldnp"
  "code_mnemonic C_Stp64Post = M_Stp" "code_mnemonic C_Ldp64Post = M_Ldp"
  "code_mnemonic C_Stp64 = M_Stp" "code_mnemonic C_Ldp64 = M_Ldp"
  "code_mnemonic C_Stp64Pre = M_Stp" "code_mnemonic C_LdpswPost = M_Ldpsw"
  "code_mnemonic C_Ldpsw = M_Ldpsw" "code_mnemonic C_LdpswPre = M_Ldpsw"
  "code_mnemonic C_StpFp32 = M_Stp" "code_mnemonic C_LdpFp32 = M_Ldp"
  "code_mnemonic C_StpFp64 = M_Stp" "code_mnemonic C_LdpFp64 = M_Ldp"
  "code_mnemonic C_StpFp128 = M_Stp" "code_mnemonic C_LdpFp128 = M_Ldp"
  by (simp_all add: code_eval code_rows_3_def)

lemma pair_mnemonics_13 [simp]:
  "code_mnemonic C_StgpPost = M_Stgp" "code_mnemonic C_StgpOff = M_Stgp"
  "code_mnemonic C_StgpPre = M_Stgp" "code_mnemonic C_Ldtnp = M_Ldtnp"
  "code_mnemonic C_Sttnp = M_Sttnp" "code_mnemonic C_LdtpPost = M_Ldtp"
  "code_mnemonic C_SttpPost = M_Sttp" "code_mnemonic C_LdtpOff = M_Ldtp"
  "code_mnemonic C_SttpOff = M_Sttp" "code_mnemonic C_LdtpPre = M_Ldtp"
  "code_mnemonic C_SttpPre = M_Sttp" "code_mnemonic C_Ldtnpq = M_Ldtnp"
  "code_mnemonic C_Sttnpq = M_Sttnp" "code_mnemonic C_LdtpqPost = M_Ldtp"
  "code_mnemonic C_SttpqPost = M_Sttp" "code_mnemonic C_LdtpqOff = M_Ldtp"
  "code_mnemonic C_SttpqOff = M_Sttp" "code_mnemonic C_LdtpqPre = M_Ldtp"
  "code_mnemonic C_SttpqPre = M_Sttp"
  by (simp_all add: code_eval code_rows_13_def)

lemma pair_kind_rows_of: "list_all (\<lambda>(c, x). pair_kind c = Some x) pair_kind_rows"
  unfolding pair_kind_def by (rule map_of_rows) (simp add: pair_kind_rows_def)

lemmas pair_kind_simps [simp] = pair_kind_rows_of [unfolded pair_kind_rows_def list.pred_inject prod.case]

lemma gp_pair_simps [simp]:
  "pf_opc (gp_pair opc l idx s) = opc" "pf_v (gp_pair opc l idx s) = 0" "pf_l (gp_pair opc l idx s) = l"
  "pf_idx (gp_pair opc l idx s) = idx" "pf_scale (gp_pair opc l idx s) = s" "\<not> pf_is_fp (gp_pair opc l idx s)"
  by (simp_all add: gp_pair_def)

lemma fp_pair_simps [simp]:
  "pf_opc (fp_pair opc l idx s a) = opc" "pf_v (fp_pair opc l idx s a) = 1" "pf_l (fp_pair opc l idx s a) = l"
  "pf_scale (fp_pair opc l idx s a) = s" "pf_is_fp (fp_pair opc l idx s a)" "pf_fp_code (fp_pair opc l idx s a) = a"
  by (simp_all add: fp_pair_def)

definition non_temporal :: "mnemonic \<Rightarrow> bool" where
  "non_temporal m \<longleftrightarrow> m \<in> {M_Ldnp, M_Stnp, M_Ldtnp, M_Sttnp}"

definition pair_mode :: "u32 \<Rightarrow> mem_index_mode" where
  "pair_mode idx = (if idx = 1 then MemPostImm else if idx = 3 then MemPreIndex else MemOffset)"

lemma op_mem_pair [simp]: "op_mem (pair_mem idx (bits w l 5) imm) = Ok (bits w l 5, imm, pair_mode idx)"
  by (simp add: pair_mem_def pair_mode_def)

lemma pair_mode_idx_back:
  "non_temporal m \<longleftrightarrow> bits w 23 2 = 0 \<Longrightarrow> pair_mode_idx m (pair_mode (bits w 23 2)) = Ok (bits w 23 2)"
  using bits_2_cases [of w 23] by (auto simp: pair_mode_idx_def pair_mode_def non_temporal_def)

lemma layout_pair:
  assumes "bits w 27 3 = 5" "\<not> bit w 25"
  shows "push_bit 30 (bits w 30 2) OR push_bit 27 5 OR push_bit 26 (bit_at w 26) OR push_bit 23 (bits w 23 2) OR
    push_bit 22 (bit_at w 22) OR push_bit 15 (bits w 15 7) OR push_bit 10 (bits w 10 5) OR push_bit 5 (bits w 5 5) OR bits w 0 5 = w"
  using bits_eqD [OF assms(1), of 0] bits_eqD [OF assms(1), of 1] bits_eqD [OF assms(1), of 2] assms(2)
  by (simp add: to_bits)

section \<open>The leaves\<close>

definition pair_ops :: "operand \<Rightarrow> operand \<Rightarrow> u32 \<Rightarrow> u32 \<Rightarrow> operand list" where
  "pair_ops op1 op2 s w = [op1, op2, pair_mem (bits w 23 2) (bits w 5 5) (push_bit (unat s) (sign_extend (ucast (bits w 15 7)) 7))]"

lemma leaf_gp_pair:
  assumes "bits w 27 3 = 5" "\<not> bit w 25" "\<not> bit w 26" "unat s \<le> 4"
    "pair_kind c = Some (gp_pair (bits w 30 2) (bit_at w 22) (bits w 23 2) s)"
    "non_temporal (code_mnemonic c) \<longleftrightarrow> bits w 23 2 = 0" "has fs (code_feature c)"
  shows "leaves (ldst_leaf fs out w) out
    (built out c (code_mnemonic c) (pair_ops (gp_reg False wd (bits w 0 5)) (gp_reg False wd' (bits w 10 5)) s w))"
  using layout_pair [OF assms(1,2)] bit_at_0 [OF assms(3)] assms(7)
  by (intro ldst_leafI; simp add: assms(5) by_pair_kind enc_pair_def ldst_enc_eval pair_ops_def pair_mode_idx_back [OF assms(6)]
      encode_scaled_imm7_field [OF assms(4)])

lemma leaf_fp_pair:
  assumes "bits w 27 3 = 5" "\<not> bit w 25" "bit w 26" "a = 2 \<or> a = 3 \<or> a = 4"
    "pair_kind c = Some (fp_pair (bits w 30 2) (bit_at w 22) idx a a)"
    "non_temporal m \<longleftrightarrow> bits w 23 2 = 0" "has fs (code_feature c)"
  shows "leaves (ldst_leaf fs out w) out
    (built out c m (pair_ops (OpPlainReg (fp_reg a (bits w 0 5))) (OpPlainReg (fp_reg a (bits w 10 5))) a w))"
proof -
  have s: "unat a \<le> 4" and f: "fp_acc_of (fp_reg a n) = Some a" for n using assms(4) by auto
  show ?thesis
    using layout_pair [OF assms(1,2)] bit_at_1 [OF assms(3)] assms(7)
    by (intro ldst_leafI; simp add: assms(5) by_pair_kind enc_pair_def ldst_enc_eval pair_ops_def pair_mode_idx_back [OF assms(6)]
        encode_scaled_imm7_field [OF s] insn_op_register_def f)
qed

text \<open>Fields as the decoder passes them on.\<close>

definition gp_pair_row :: "u32 \<Rightarrow> u32 \<Rightarrow> u32 \<Rightarrow> u32 \<Rightarrow> feature \<Rightarrow> code \<Rightarrow> bool" where
  "gp_pair_row opc l idx s f c \<longleftrightarrow>
     pair_kind c = Some (gp_pair opc l idx s) \<and> (non_temporal (code_mnemonic c) \<longleftrightarrow> idx = 0) \<and> code_feature c = f"

lemma leaf_gp_pair_row:
  assumes "bits w 27 3 = 5" "\<not> bit w 25" "\<not> bit w 26" "unat s \<le> 4"
    "gp_pair_row (bits w 30 2) (bit_at w 22) (bits w 23 2) s f c" "has fs f"
  shows "leaves (ldst_leaf fs out w) out
    (fold push_operand (pair_ops (gp_reg False wd (bits w 0 5)) (gp_reg False wd' (bits w 10 5)) s w) (insn_set c out))"
  using leaf_gp_pair [OF assms(1-4)] assms(5,6) by (simp add: gp_pair_row_def pair_ops_def)

lemma stgp_rows:
  "map_of [(1, C_StgpPost), (2, C_StgpOff), (3, C_StgpPre)] idx = Some c \<Longrightarrow> gp_pair_row 1 0 idx 4 F_Mte c"
  by (auto simp: gp_pair_row_def non_temporal_def split: if_splits)

lemma the_pair_rows:
  "map_of [((0b00, True), C_Ldtnp), ((0b00, False), C_Sttnp), ((0b01, True), C_LdtpPost), ((0b01, False), C_SttpPost),
           ((0b10, True), C_LdtpOff), ((0b10, False), C_SttpOff), ((0b11, True), C_LdtpPre), ((0b11, False), C_SttpPre)] (idx, ld) =
     Some c \<Longrightarrow> gp_pair_row 3 (of_bool ld) idx 3 F_The c"
  by (auto simp: gp_pair_row_def non_temporal_def split: if_splits)

lemma the_pair_q_rows:
  "map_of [((0b00, True), C_Ldtnpq), ((0b00, False), C_Sttnpq), ((0b01, True), C_LdtpqPost), ((0b01, False), C_SttpqPost),
           ((0b10, True), C_LdtpqOff), ((0b10, False), C_SttpqOff), ((0b11, True), C_LdtpqPre), ((0b11, False), C_SttpqPre)] (idx, ld) =
     Some c \<Longrightarrow> pair_kind c = Some (fp_pair 3 (of_bool ld) idx 4 4) \<and> (non_temporal (code_mnemonic c) \<longleftrightarrow> idx = 0) \<and> code_feature c = F_Lsui"
  by (auto simp: non_temporal_def split: if_splits)

lemma pair_code_gp_rows:
  "pair_code_gp idx l PairW = Some c \<Longrightarrow> l = 0 \<or> l = 1 \<Longrightarrow> gp_pair_row 0 l idx 2 F_Base c"
  "pair_code_gp idx l PairX = Some c \<Longrightarrow> l = 0 \<or> l = 1 \<Longrightarrow> gp_pair_row 2 l idx 3 F_Base c"
  "pair_code_gp idx l PairSw = Some c \<Longrightarrow> gp_pair_row 1 1 idx 2 F_Base c"
  by (auto simp: pair_code_gp_def gp_pair_row_def non_temporal_def split: if_splits)

lemma load_bit: "of_bool (bit_at w p = 1) = bit_at w p" "of_bool (bit w p) = bit_at w p"
  by (cases "bit w p"; simp add: bit_at_1 bit_at_0)+

lemma leaves_stgp:
  assumes "bits w 27 3 = 5" "\<not> bit w 25" "\<not> bit w 26" "bits w 30 2 = 1" "bit_at w 22 = 0" "has fs F_Mte"
  shows "leaves (ldst_leaf fs out w) out (emit_stgp (bits w 23 2) (bits w 15 7) (bits w 10 5) (bits w 5 5) (bits w 0 5) out)"
  unfolding emit_stgp_def Let_def
  by (intro leaves_split; drule stgp_rows) (use leaf_gp_pair_row [OF assms(1-3), of 4] assms in \<open>simp add: pair_ops_def\<close>)

lemma leaves_the_pair:
  assumes "bits w 27 3 = 5" "\<not> bit w 25" "\<not> bit w 26" "bits w 30 2 = 3"
  shows "leaves (ldst_leaf fs out w) out
    (decode_the_pair (bits w 23 2) (bit_at w 22) (bits w 15 7) (bits w 10 5) (bits w 5 5) (bits w 0 5) fs out)"
  unfolding decode_the_pair_def Let_def
  by (intro leaves_split; (drule the_pair_rows)?)
    (use leaf_gp_pair_row [OF assms(1-3), of 3] assms in \<open>simp_all add: pair_ops_def load_bit\<close>)

lemma leaves_the_pair_q:
  assumes "bits w 27 3 = 5" "\<not> bit w 25" "bit w 26" "bits w 30 2 = 3"
  shows "leaves (ldst_leaf fs out w) out
    (decode_the_pair_q (bits w 23 2) (bit_at w 22) (bits w 15 7) (bits w 10 5) (bits w 5 5) (bits w 0 5) fs out)"
  unfolding decode_the_pair_q_def Let_def
  by (intro leaves_split; (drule the_pair_q_rows)?)
    (use leaf_fp_pair [OF assms(1-3), of 4] assms in \<open>simp_all add: pair_ops_def load_bit\<close>)

lemma leaves_fp_pair:
  assumes "bits w 27 3 = 5" "\<not> bit w 25" "bit w 26" "bits w 30 2 \<noteq> 3"
  shows "leaves (ldst_leaf fs out w) out (decode_pair w fs out)"
  unfolding decode_pair_def Let_def
  using leaf_fp_pair [OF assms(1-3), of 2] leaf_fp_pair [OF assms(1-3), of 3] leaf_fp_pair [OF assms(1-3), of 4] bits_2_cases [of w 30] assms(4) bit_at_1 [OF assms(3)]
  apply (cases "bit w 22"; elim disjE; cases "bits w 23 2 = 0")
  apply (simp_all add: bit_at_1 bit_at_0 the_default_def pair_ops_def non_temporal_def)
  done

lemma leaves_gp_pair:
  assumes "bits w 27 3 = 5" "\<not> bit w 25" "\<not> bit w 26" "bits w 30 2 \<noteq> 3"
  shows "leaves (ldst_leaf fs out w) out (decode_pair w fs out)"
proof -
  note r = leaf_gp_pair_row [OF assms(1-3)]
  consider "bits w 30 2 = 0" | "bits w 30 2 = 1" | "bits w 30 2 = 2" using bits_2_cases [of w 30] assms(4) by auto
  then show ?thesis
  proof cases
    case 1
    show ?thesis
      unfolding decode_pair_def Let_def
      using r [where s = 2 and f = F_Base] 1 assms(3) pair_code_gp_rows(1) [OF _ bit_at_cases]
      by (auto simp: pair_ops_def bit_at_0 split: option.split)
  next
    case 2
    show ?thesis
      unfolding decode_pair_def Let_def
      using r [where s = 2 and f = F_Base] 2 assms(1-3) leaves_stgp pair_code_gp_rows(3)
      by (cases "bit w 22") (auto simp: pair_ops_def bit_at_0 bit_at_1 split: option.split)
  next
    case 3
    show ?thesis
      unfolding decode_pair_def Let_def
      using r [where s = 3 and f = F_Base] 3 assms(3) pair_code_gp_rows(2) [OF _ bit_at_cases]
      by (auto simp: pair_ops_def bit_at_0 split: option.split)
  qed
qed

lemma leaves_pair:
  assumes "bits w 27 3 = 5" "\<not> bit w 25"
  shows "leaves (ldst_leaf fs out w) out (decode_pair w fs out)"
proof (cases "bits w 30 2 = 3")
  case True
  show ?thesis
    using leaves_the_pair [OF assms] leaves_the_pair_q [OF assms] True unfolding decode_pair_def Let_def
    by (cases "bit w 26") (simp_all add: bit_at_1 bit_at_0)
next
  case False
  then show ?thesis using leaves_gp_pair [OF assms] leaves_fp_pair [OF assms] by blast
qed

end
