(* ===== verification/Ldst_Excl_Exact.thy ===== *)
theory Ldst_Excl_Exact
  imports Ldst_Forms
begin

text \<open>
  Load/store exclusive and ordered, compare-and-swap and their FEAT_LSUI variants.  The decoder ignores the register fields
  \<open>Rs\<close> and \<open>Rt2\<close> where the form has no such register, and the encoder sets them to ones, as the architecture asks: the word that
  comes back is \<open>canon_excl\<close>.
\<close>

section \<open>The canonical word\<close>

definition rt2_free :: "u32 \<Rightarrow> bool" where
  "rt2_free w \<longleftrightarrow> \<not> bit w 21"

definition rs_free :: "u32 \<Rightarrow> bool" where
  "rs_free w \<longleftrightarrow>
     (if bit w 24 then \<not> bit w 23 \<and> bit w 22
      else if bit w 23 then \<not> bit w 21
      else bit w 22 \<and> (bit w 21 \<longrightarrow> bit w 31))"

definition canon_excl :: "u32 \<Rightarrow> u32" where
  "canon_excl w = w OR (if rt2_free w then 0x7c00 else 0) OR (if rs_free w then 0x1f0000 else 0)"

lemma bit_canon_excl:
  "bit (canon_excl w) i \<longleftrightarrow> bit w i \<or> rt2_free w \<and> 10 \<le> i \<and> i < 15 \<or> rs_free w \<and> 16 \<le> i \<and> i < 21"
proof -
  have m: "(0x7c00 :: u32) = push_bit 10 (mask 5)" "(0x1f0000 :: u32) = push_bit 16 (mask 5)"
    by (simp_all add: mask_eq_exp_minus_1)
  show ?thesis unfolding canon_excl_def m by (auto simp: bit_simps)
qed

definition lsui_bit :: "u32 \<Rightarrow> u32" where
  "lsui_bit w = (if bit w 24 then push_bit 24 1 else 0)"

lemma layout_excl:
  assumes "bits w 25 5 = 4"
  shows "excl_word (bits w 30 2) (bit_at w 23) (bit_at w 22) (bit_at w 21) (if rs_free w then 31 else bits w 16 5) (bit_at w 15)
    (if rt2_free w then 31 else bits w 10 5) (bits w 5 5) (bits w 0 5) OR lsui_bit w = canon_excl w"
  using bits_eqD [OF assms, of 0] bits_eqD [OF assms, of 1] bits_eqD [OF assms, of 2] bits_eqD [OF assms, of 3]
    bits_eqD [OF assms, of 4]
  by (cases "rs_free w"; cases "rt2_free w"; cases "bit w 24")
    (simp_all add: to_bits bit_canon_excl excl_word_def lsui_bit_def)

lemma canon_excl_same: "\<not> rt2_free w \<Longrightarrow> \<not> rs_free w \<Longrightarrow> canon_excl w = w"
  by (simp add: canon_excl_def)

section \<open>The leaves\<close>

text \<open>The selectors of a class: the row of the encoder carries them, the extension admits the code.\<close>

definition excl_row :: "u32 \<Rightarrow> (code \<Rightarrow> (u32 \<times> u32 \<times> u32) option) \<Rightarrow> feature_set \<Rightarrow> code \<Rightarrow> bool" where
  "excl_row w row_of fs c \<longleftrightarrow> row_of c = Some (bits w 30 2, bit_at w 22, bit_at w 15) \<and> has fs (code_feature c)"

lemma excl_single_code:
  "excl_row w excl_single_fields fs (the_default C_Stlxr64 (map_of excl_single_codes (bits w 30 2, bit_at w 22 = 1, bit_at w 15 = 1)))"
  using bits_2_cases [of w 30]
  by (cases "bit w 22"; cases "bit w 15"; elim disjE)
    (simp_all add: excl_row_def bit_at_1 bit_at_0 excl_single_codes_def excl_single_fields_def excl_single_rows_def the_default_def)

lemma ordered_code:
  "excl_row w ordered_fields fs (the_default C_Stllr64 (map_of ordered_codes (bits w 30 2, bit_at w 22 = 1, bit_at w 15)))"
  using bits_2_cases [of w 30]
  by (cases "bit w 22"; cases "bit w 15"; elim disjE)
    (simp_all add: excl_row_def bit_at_1 bit_at_0 ordered_codes_def ordered_fields_def ordered_rows_def the_default_def)

lemma cas_code:
  "has fs F_Lse \<Longrightarrow> excl_row w cas_fields fs (the_default C_Casal64 (map_of cas_codes (bits w 30 2, bit_at w 22, bit_at w 15)))"
  using bits_2_cases [of w 30]
  by (cases "bit w 22"; cases "bit w 15"; elim disjE)
    (simp_all add: excl_row_def bit_at_1 bit_at_0 cas_codes_def cas_fields_def cas_rows_def the_default_def)

lemma leaf_excl_single:
  assumes "bits w 25 5 = 4" "\<not> bit w 24" "\<not> bit w 23" "\<not> bit w 21" "excl_row w excl_single_fields fs c"
  shows "bit w 22 \<Longrightarrow> leaves (ldst_leaf fs out (canon_excl w)) out (built out c m [gp_reg False wd (bits w 0 5), mem_off (bits w 5 5) 0])"
    "\<not> bit w 22 \<Longrightarrow> leaves (ldst_leaf fs out (canon_excl w)) out
      (built out c m [gp_reg False W32 (bits w 16 5), gp_reg False wd (bits w 0 5), mem_off (bits w 5 5) 0])"
  using layout_excl [OF assms(1)] assms(2-5) unfolding excl_row_def
  by (intro ldst_leafI; simp add: by_excl_single enc_excl_single_def excl_single_regs_def ldst_enc_eval rs_free_def rt2_free_def
      lsui_bit_def bit_at_0 bit_at_1)+

lemma leaves_excl_single:
  assumes "bits w 25 5 = 4" "\<not> bit w 24" "\<not> bit w 23" "\<not> bit w 21"
  shows "leaves (ldst_leaf fs out (canon_excl w)) out
    (decode_excl_single (bits w 30 2) (bit_at w 22) (bit_at w 15) (bits w 16 5) (bits w 5 5) (bits w 0 5) out)"
  using leaf_excl_single [OF assms excl_single_code] unfolding decode_excl_single_def Let_def
  by (cases "bit w 22") (simp_all add: bit_at_0 bit_at_1)

lemma leaves_ordered:
  assumes "bits w 25 5 = 4" "\<not> bit w 24" "bit w 23" "\<not> bit w 21"
  shows "leaves (ldst_leaf fs out (canon_excl w)) out
    (decode_ordered (bits w 30 2) (bit_at w 22) (bit_at w 15) (bits w 5 5) (bits w 0 5) out)"
proof -
  have "leaves (ldst_leaf fs out (canon_excl w)) out (built out c m [gp_reg False wd (bits w 0 5), mem_off (bits w 5 5) 0])"
    if "excl_row w ordered_fields fs c" for c m wd
    using layout_excl [OF assms(1)] assms(2-4) that unfolding excl_row_def
    by (intro ldst_leafI; simp add: by_ordered enc_ordered_def ldst_enc_eval rs_free_def rt2_free_def lsui_bit_def bit_at_0 bit_at_1)
  then show ?thesis using ordered_code by (simp add: decode_ordered_def Let_def)
qed

lemma leaves_cas:
  assumes "bits w 25 5 = 4" "\<not> bit w 24" "bit w 23" "bit w 21" "bits w 10 5 = 31"
  shows "leaves (ldst_leaf fs out (canon_excl w)) out
    (decode_cas (bits w 30 2) (bit_at w 22) (bit_at w 15) (bits w 16 5) (bits w 5 5) (bits w 0 5) fs out)"
proof -
  have "leaves (ldst_leaf fs out (canon_excl w)) out
     (built out c m [gp_reg False wd (bits w 16 5), gp_reg False wd (bits w 0 5), mem_off (bits w 5 5) 0])"
    if "excl_row w cas_fields fs c" for c m wd
    using layout_excl [OF assms(1)] assms(2-5) that unfolding excl_row_def
    by (intro ldst_leafI; simp add: by_cas enc_cas_def ldst_enc_eval rs_free_def rt2_free_def lsui_bit_def bit_at_0 bit_at_1)
  then show ?thesis using cas_code by (simp add: decode_cas_def Let_def)
qed

section \<open>Pairs\<close>

lemma excl_pair_code:
  assumes "bits w 30 2 = 2 \<or> bits w 30 2 = 3"
  shows "excl_row w excl_pair_fields fs
    (the_default C_Stlxp64
              (map_of [((True, False, False), C_Ldxp32), ((True, False, True), C_Ldxp64), ((True, True, False), C_Ldaxp32),
                       ((True, True, True), C_Ldaxp64), ((False, False, False), C_Stxp32), ((False, False, True), C_Stxp64),
                       ((False, True, False), C_Stlxp32)] (bit_at w 22 = 1, bit_at w 15 = 1, bits w 30 2 = 3)))"
  using assms
  by (cases "bit w 22"; cases "bit w 15"; elim disjE)
    (simp_all add: excl_row_def bit_at_1 bit_at_0 excl_pair_fields_def excl_pair_rows_def the_default_def)

lemma leaf_excl_pair:
  assumes "bits w 25 5 = 4" "\<not> bit w 24" "\<not> bit w 23" "bit w 21" "bit w 31" "excl_row w excl_pair_fields fs c"
  shows "bit w 22 \<Longrightarrow> leaves (ldst_leaf fs out (canon_excl w)) out
      (built out c m [gp_reg False wd (bits w 0 5), gp_reg False wd (bits w 10 5), mem_off (bits w 5 5) 0])"
    "\<not> bit w 22 \<Longrightarrow> leaves (ldst_leaf fs out (canon_excl w)) out
      (built out c m [gp_reg False W32 (bits w 16 5), gp_reg False wd (bits w 0 5), gp_reg False wd (bits w 10 5),
         mem_off (bits w 5 5) 0])"
  using layout_excl [OF assms(1)] assms(2-6) unfolding excl_row_def
  by (intro ldst_leafI; simp add: by_excl_pair enc_excl_pair_def ldst_enc_eval rs_free_def rt2_free_def lsui_bit_def bit_at_0 bit_at_1)+

lemma size_high: "bit w 31 \<Longrightarrow> bits w 30 2 = 2 \<or> bits w 30 2 = 3" "\<not> bit w 31 \<Longrightarrow> bits w 30 2 = 0 \<or> bits w 30 2 = 1"
  using bits_2_cases [of w 30] bits_eqD [of w 30 2 _ 1] by fastforce+

lemma leaves_excl_pair:
  assumes "bits w 25 5 = 4" "\<not> bit w 24" "\<not> bit w 23" "bit w 21" "bit w 31"
  shows "leaves (ldst_leaf fs out (canon_excl w)) out
    (decode_excl_pair (bits w 30 2) (bit_at w 22) (bit_at w 15) (bits w 16 5) (bits w 10 5) (bits w 5 5) (bits w 0 5) out)"
  using leaf_excl_pair [OF assms excl_pair_code [OF size_high(1) [OF assms(5)]]] unfolding decode_excl_pair_def Let_def
  by (cases "bit w 22") (simp_all add: bit_at_0 bit_at_1)

text \<open>The second register of an even-odd pair.\<close>

lemma even_pair:
  assumes "bits w l 5 AND 1 = 0"
  shows "op_num (gp_reg u wd (bits w l 5 + 1)) = Ok ((bits w l 5 + 1) AND 31)"
    "op_num (gp_reg u wd ((bits w l 5 + 1) AND 31)) = Ok ((bits w l 5 + 1) AND 31)"
proof -
  have "op_num (gp_reg u wd x) = Ok (x AND 31)" for x
    unfolding op_num_def gp_reg_def operand.case reg_number_gp_register and_31_u8 and_31_u32
    by (simp add: take_bit_eq_mask) (rule bit_word_eqI, auto simp: bit_simps)
  then show "op_num (gp_reg u wd (bits w l 5 + 1)) = Ok ((bits w l 5 + 1) AND 31)"
    "op_num (gp_reg u wd ((bits w l 5 + 1) AND 31)) = Ok ((bits w l 5 + 1) AND 31)"
    by (simp_all add: and.assoc)
qed

lemma cas_pair_regs_back:
  assumes "bits w 16 5 AND 1 = 0" "bits w 0 5 AND 1 = 0"
  shows "cas_pair_regs (built out c m [gp_reg False wd (bits w 16 5), gp_reg False wd (bits w 16 5 + 1), gp_reg False wd (bits w 0 5),
      gp_reg False wd (bits w 0 5 + 1), mem_off (bits w 5 5) 0]) = Ok (bits w 16 5, bits w 0 5, bits w 5 5)"
    "cas_pair_regs (built out c m [gp_reg False wd (bits w 16 5), gp_reg False wd ((bits w 16 5 + 1) AND 31),
      gp_reg False wd (bits w 0 5), gp_reg False wd ((bits w 0 5 + 1) AND 31), mem_off (bits w 5 5) 0]) =
      Ok (bits w 16 5, bits w 0 5, bits w 5 5)"
  using assms by (simp_all add: cas_pair_regs_def ldst_enc_eval even_pair del: and_one_eq)

lemma casp_code:
  assumes "bits w 30 2 = 0 \<or> bits w 30 2 = 1" "has fs F_Lse"
  shows "excl_row w casp_fields fs
     (the_default C_Caspal64
               (map_of [((False, 0, 0), C_Casp32), ((False, 1, 0), C_Caspa32), ((False, 0, 1), C_Caspl32), ((False, 1, 1), C_Caspal32),
                        ((True, 0, 0), C_Casp64), ((True, 1, 0), C_Caspa64), ((True, 0, 1), C_Caspl64)]
                 (bits w 30 2 = 1, bit_at w 22, bit_at w 15)))"
  using assms
  by (cases "bit w 22"; cases "bit w 15"; elim disjE)
    (simp_all add: excl_row_def bit_at_1 bit_at_0 casp_fields_def casp_rows_def the_default_def)

lemma leaves_casp:
  assumes "bits w 25 5 = 4" "\<not> bit w 24" "\<not> bit w 23" "bit w 21" "\<not> bit w 31" "bits w 10 5 = 31"
  shows "leaves (ldst_leaf fs out (canon_excl w)) out
    (decode_casp (bits w 30 2) (bit_at w 22) (bit_at w 15) (bits w 16 5) (bits w 5 5) (bits w 0 5) fs out)"
proof -
  have "leaves (ldst_leaf fs out (canon_excl w)) out
     (built out c m [gp_reg False wd (bits w 16 5), gp_reg False wd (bits w 16 5 + 1), gp_reg False wd (bits w 0 5),
        gp_reg False wd (bits w 0 5 + 1), mem_off (bits w 5 5) 0])"
    if "excl_row w casp_fields fs c" "bits w 16 5 AND 1 = 0" "bits w 0 5 AND 1 = 0" for c m wd
    using layout_excl [OF assms(1)] assms(2-6) that(1) unfolding excl_row_def
    by (intro ldst_leafI; simp add: by_casp enc_casp_def cas_pair_regs_back [OF that(2,3)] rs_free_def rt2_free_def lsui_bit_def
        bit_at_0 bit_at_1)
  then show ?thesis
    using casp_code [OF size_high(2) [OF assms(5)]] unfolding decode_casp_def Let_def
    by (simp add: leaves_def del: and_one_eq)
qed

section \<open>FEAT_LSUI\<close>

lemma lsui_single_code:
  "map_of [((2, True, False), C_Ldtxr32), ((2, True, True), C_Ldatxr32), ((2, False, False), C_Sttxr32),
           ((2, False, True), C_Stltxr32), ((3, True, False), C_Ldtxr64), ((3, True, True), C_Ldatxr64),
           ((3, False, False), C_Sttxr64), ((3, False, True), C_Stltxr64)] (bits w 30 2, bit_at w 22 = 1, bit_at w 15 = 1) = Some c \<Longrightarrow>
   has fs F_Lsui \<Longrightarrow> excl_row w lsui_excl_single_fields fs c"
  by (cases "bit w 22"; cases "bit w 15")
    (auto simp: excl_row_def bit_at_1 bit_at_0 lsui_excl_single_fields_def lsui_excl_single_rows_def split: if_splits)

lemma leaf_lsui_single:
  assumes "bits w 25 5 = 4" "bit w 24" "\<not> bit w 23" "\<not> bit w 21" "excl_row w lsui_excl_single_fields fs c"
  shows "bit w 22 \<Longrightarrow> leaves (ldst_leaf fs out (canon_excl w)) out (built out c m [gp_reg False wd (bits w 0 5), mem_off (bits w 5 5) 0])"
    "\<not> bit w 22 \<Longrightarrow> leaves (ldst_leaf fs out (canon_excl w)) out
      (built out c m [gp_reg False W32 (bits w 16 5), gp_reg False wd (bits w 0 5), mem_off (bits w 5 5) 0])"
  using layout_excl [OF assms(1)] assms(2-5) unfolding excl_row_def
  by (intro ldst_leafI; simp add: by_lsui_excl_single enc_lsui_excl_single_def excl_single_regs_def ldst_enc_eval rs_free_def
      rt2_free_def lsui_bit_def bit_at_0 bit_at_1)+

lemma leaves_lsui_single:
  assumes "bits w 25 5 = 4" "bit w 24" "\<not> bit w 23" "\<not> bit w 21" "has fs F_Lsui"
  shows "leaves (ldst_leaf fs out (canon_excl w)) out
    (decode_lsui_excl_single (bits w 30 2) (bit_at w 22) (bit_at w 15) (bits w 16 5) (bits w 5 5) (bits w 0 5) out)"
  using leaf_lsui_single [OF assms(1-4) lsui_single_code [OF _ assms(5)]] unfolding decode_lsui_excl_single_def Let_def
  by (cases "bit w 22") (auto simp: bit_at_0 bit_at_1 split: option.split)

definition lsui_row :: "u32 \<Rightarrow> (code \<Rightarrow> (u32 \<times> u32) option) \<Rightarrow> feature_set \<Rightarrow> code \<Rightarrow> bool" where
  "lsui_row w row_of fs c \<longleftrightarrow> row_of c = Some (bit_at w 22, bit_at w 15) \<and> has fs (code_feature c)"

lemma lsui_cas_code:
  assumes "has fs F_Lsui"
  shows "lsui_row w lsui_cas_fields fs
      (the_default C_Casalt64 (map_of [((0, 0), C_Cast64), ((1, 0), C_Casat64), ((0, 1), C_Caslt64)] (bit_at w 22, bit_at w 15)))"
    "lsui_row w lsui_casp_fields fs
      (the_default C_Caspalt64 (map_of [((0, 0), C_Caspt64), ((1, 0), C_Caspat64), ((0, 1), C_Casplt64)] (bit_at w 22, bit_at w 15)))"
  using assms
  by (cases "bit w 22"; cases "bit w 15";
      simp add: lsui_row_def bit_at_1 bit_at_0 lsui_cas_fields_def lsui_cas_rows_def lsui_casp_fields_def lsui_casp_rows_def the_default_def)+

lemma leaves_lsui_cas:
  assumes "bits w 25 5 = 4" "bit w 24" "bit w 23" "\<not> bit w 21" "has fs F_Lsui"
  shows "leaves (ldst_leaf fs out (canon_excl w)) out
    (decode_lsui_cas (bits w 30 2) (bit_at w 22) (bit_at w 15) (bits w 16 5) (bits w 5 5) (bits w 0 5) out)"
proof -
  have "leaves (ldst_leaf fs out (canon_excl w)) out
     (built out c m [gp_reg False X64 (bits w 16 5), gp_reg False X64 (bits w 0 5), mem_off (bits w 5 5) 0])"
    if "lsui_row w lsui_cas_fields fs c" "bits w 30 2 = 3" for c m
    using layout_excl [OF assms(1)] assms(2-5) that unfolding lsui_row_def
    by (intro ldst_leafI; simp add: by_lsui_cas enc_lsui_cas_def ldst_enc_eval rs_free_def rt2_free_def lsui_bit_def bit_at_0 bit_at_1)
  then show ?thesis using lsui_cas_code(1) [OF assms(5)] by (simp add: decode_lsui_cas_def Let_def)
qed

lemma leaves_lsui_casp:
  assumes "bits w 25 5 = 4" "bit w 24" "bit w 23" "\<not> bit w 21" "has fs F_Lsui"
  shows "leaves (ldst_leaf fs out (canon_excl w)) out
    (decode_lsui_casp (bits w 30 2) (bit_at w 22) (bit_at w 15) (bits w 16 5) (bits w 5 5) (bits w 0 5) out)"
proof -
  have "leaves (ldst_leaf fs out (canon_excl w)) out
     (built out c m [gp_reg False X64 (bits w 16 5), gp_reg False X64 (bits w 16 5 + 1), gp_reg False X64 (bits w 0 5),
        gp_reg False X64 (bits w 0 5 + 1), mem_off (bits w 5 5) 0])"
    if "lsui_row w lsui_casp_fields fs c" "bits w 30 2 = 1" "bits w 16 5 AND 1 = 0" "bits w 0 5 AND 1 = 0" for c m
    using layout_excl [OF assms(1)] assms(2-5) that(1,2) unfolding lsui_row_def
    by (intro ldst_leafI; simp add: by_lsui_casp enc_lsui_casp_def cas_pair_regs_back [OF that(3,4)] rs_free_def rt2_free_def
        lsui_bit_def bit_at_0 bit_at_1)
  then show ?thesis using lsui_cas_code(2) [OF assms(5)] unfolding decode_lsui_casp_def Let_def
    by (simp add: leaves_def del: and_one_eq)
qed

section \<open>The two classes\<close>

lemma excl_class_bits:
  assumes "bits w 24 6 = c"
  shows "bits w 25 5 = drop_bit 1 c" "bit w 24 \<longleftrightarrow> bit c 0"
  unfolding assms [symmetric]
  by (rule bit_word_eqI; auto simp: bit_simps bit_bits) (simp add: bit_bits)

lemma leaves_exclusive:
  assumes "bits w 24 6 = 8"
  shows "leaves (ldst_leaf fs out (canon_excl w)) out (decode_exclusive w fs out)"
proof -
  have b: "bits w 25 5 = 4" "\<not> bit w 24" using excl_class_bits [OF assms] by simp_all
  have s: "bit_at (bits w 30 2) 1 = bit_at w 31" by (cases "bit w 31") (simp_all add: bit_bits)
  show ?thesis
    unfolding decode_exclusive_def Let_def s
    using leaves_excl_single [OF b] leaves_ordered [OF b] leaves_cas [OF b] leaves_excl_pair [OF b] leaves_casp [OF b]
    by (cases "bit w 23"; cases "bit w 21") (simp_all add: bit_at_1 bit_at_0)
qed

lemma leaves_lsui:
  assumes "bits w 24 6 = 9"
  shows "leaves (ldst_leaf fs out (canon_excl w)) out (decode_lsui w fs out)"
proof -
  have b: "bits w 25 5 = 4" "bit w 24" using excl_class_bits [OF assms] by simp_all
  show ?thesis
    unfolding decode_lsui_def Let_def
    using leaves_lsui_single [OF b] leaves_lsui_cas [OF b] leaves_lsui_casp [OF b]
    by (cases "bit w 23"; cases "bit w 21") (simp_all add: bit_at_1 bit_at_0)
qed

end
