(* ===== verification/Ldst_Rcpc_Exact.thy ===== *)
theory Ldst_Rcpc_Exact
  imports Ldst_Forms
begin

text \<open>
  The authenticated loads, the guarded control stack stores, the release-consistent forms of FEAT_LRCPC2 and FEAT_LRCPC3 and the
  memory-tagging forms.
\<close>

section \<open>Authenticated loads\<close>

lemma off10_parts:
  "push_bit 22 (drop_bit 9 (off10_of w)) AND 0x400000 = push_bit 22 (bit_at w 22)"
  "push_bit 12 (off10_of w) AND 0x1ff000 = push_bit 12 (bits w 12 9)"
  by (simp_all add: to_bits bit_off10)

lemma layout_pac:
  assumes "bits w 27 3 = 7" "\<not> bit w 24" "\<not> bit w 25" "\<not> bit w 26" "bit w 21" "bit w 10" "bits w 30 2 = 3"
  shows "push_bit 30 3 OR push_bit 27 7 OR push_bit 23 (bit_at w 23) OR push_bit 22 (bit_at w 22) OR push_bit 21 1 OR
    push_bit 12 (bits w 12 9) OR push_bit 11 (bit_at w 11) OR push_bit 10 1 OR push_bit 5 (bits w 5 5) OR bits w 0 5 = w"
  using ldst_op_bits [OF assms(1)] assms(2-6) bits_eqD [OF assms(7), of 0] bits_eqD [OF assms(7), of 1] by (simp add: to_bits)

lemma leaves_pac:
  assumes "bits w 27 3 = 7" "\<not> bit w 24" "\<not> bit w 25" "bit w 21" "bit w 10"
  shows "leaves (ldst_leaf fs out w) out (decode_pac w fs out)"
proof (cases "\<not> bit w 26 \<and> has fs F_PAuth \<and> bits w 30 2 = 3")
  case True
  then show ?thesis
    using layout_pac [OF assms(1-3) _ assms(4,5)] pac_offset [of w]
    unfolding decode_pac_def Let_def off10_of_def [symmetric]
    apply (cases "bit w 23"; cases "bit w 11")
    apply (simp_all add: bit_at_1 bit_at_0 the_default_def)
    apply (intro ldst_leafI; simp add: by_pac pac_codes_def enc_pac_def ldst_enc_eval and_mask_u32(3) off10_parts Let_def bit_at_1 bit_at_0)+
    done
qed (auto simp: decode_pac_def bit_at_1)

section \<open>The words of class 011001\<close>

lemma rcpc_class_bits:
  assumes "bits w 24 6 = 25"
  shows "\<not> bit w 29" "bit w 28" "bit w 27" "\<not> bit w 26" "\<not> bit w 25" "bit w 24"
  using bits_eqD [OF assms, of 5] bits_eqD [OF assms, of 4] bits_eqD [OF assms, of 3] bits_eqD [OF assms, of 2]
    bits_eqD [OF assms, of 1] bits_eqD [OF assms, of 0] by simp_all

lemma layout_class:
  assumes "bits w 24 6 = 25"
  shows "push_bit 30 (bits w 30 2) OR push_bit 24 25 OR push_bit 22 (bits w 22 2) OR push_bit 21 (bit_at w 21) OR
    push_bit 12 (bits w 12 9) OR push_bit 10 (bits w 10 2) OR push_bit 5 (bits w 5 5) OR bits w 0 5 = w"
  using rcpc_class_bits [OF assms] by (simp add: to_bits)

lemma ldapstl_rows_match: "list_all (\<lambda>((sz, opc), (c, x)). ldapstl_fields c = Some (sz, opc) \<and> code_feature c = F_Base) ldapstl_codes"
  by (simp add: ldapstl_codes_def ldapstl_fields_def ldapstl_rows_def)

lemma leaves_ldapstl:
  assumes "bits w 24 6 = 25" "\<not> bit w 21" "bits w 10 2 = 0"
  shows "leaves (ldst_leaf fs out w) out (decode_ldapstl w out)"
proof (cases "map_of ldapstl_codes (bits w 30 2, bits w 22 2)")
  case (Some row)
  obtain c x where r: "row = (c, x)" by (cases row)
  have F: "ldapstl_fields c = Some (bits w 30 2, bits w 22 2)" "has fs (code_feature c)"
    using ldapstl_rows_match map_of_SomeD [OF Some] by (auto simp: list_all_iff r)
  show ?thesis
    unfolding decode_ldapstl_def Let_def Some option.case r prod.case
    using layout_class [OF assms(1)] assms(3) bit_at_0 [OF assms(2)]
    by simp (intro ldst_leafI; simp add: F by_ldapstl enc_ldapstl_def ldst_enc_eval)
qed (simp add: decode_ldapstl_def Let_def)

lemma leaves_gcsstr:
  assumes "bits w 24 6 = 25" "\<not> bit w 21" "bits w 10 2 = 3"
  shows "leaves (ldst_leaf fs out w) out (decode_gcsstr w fs out)"
proof (cases "has fs F_Gcs \<and> bits w 30 2 = 3 \<and> bits w 22 2 = 0 \<and> bits w 16 5 = 31 \<and> bits w 13 3 = 0")
  case True
  then have f: "has fs F_Gcs" "bits w 30 2 = 3" "bits w 22 2 = 0" "bits w 16 5 = 31" "bits w 13 3 = 0" by simp_all
  have "0xd91f0000 OR push_bit 12 (bit_at w 12) OR push_bit 10 3 OR push_bit 5 (bits w 5 5) OR bits w 0 5 = w"
    using rcpc_class_bits [OF assms(1)] assms(2) ldst_op4_bits [OF assms(3)]
      bits_eqD [OF f(2), of 0] bits_eqD [OF f(2), of 1] bits_eqD [OF f(3), of 0] bits_eqD [OF f(3), of 1]
      bits_eqD [OF f(4), of 0] bits_eqD [OF f(4), of 1] bits_eqD [OF f(4), of 2] bits_eqD [OF f(4), of 3] bits_eqD [OF f(4), of 4]
      bits_eqD [OF f(5), of 0] bits_eqD [OF f(5), of 1] bits_eqD [OF f(5), of 2]
    by (simp add: to_bits)
  then show ?thesis
    unfolding decode_gcsstr_def Let_def
    using f
    by (cases "bit w 12"; simp add: bit_at_1 bit_at_0; intro ldst_leafI;
        simp add: by_gcs_store gcs_store_codes_def enc_gcsstr_def ldst_enc_eval)
qed (auto simp: decode_gcsstr_def)

section \<open>FEAT_LRCPC3\<close>

lemma fp_ldapstl_code:
  assumes "map_of [((0b00, 0), 0), ((0b01, 0), 1), ((0b10, 0), 2), ((0b11, 0), 3), ((0b00, 1), 4)] (sz, hi) = Some fp" 
  defines "c \<equiv> \<lambda>ld. the_default C_StlurFp128 (map_of fp_ldapstl_codes (fp :: u32, ld))"
  shows "c True \<in> set fp_ldapur_codes" "c False \<in> set fp_stlur_codes" "code_feature (c ld) = F_Rcpc3"
    "fp_acc_of (fp_reg fp n) = Some fp" "(if fp = 4 then (0, 1) else (fp, 0)) = (sz :: u32, hi :: u32)"
    "c False \<notin> set fp_ldapur_codes"
  using assms(1) unfolding c_def
  by (cases ld; auto simp: fp_ldapstl_codes_def the_default_def fp_ldapur_codes_def fp_stlur_codes_def split: if_splits)+

lemma layout_fp_ldapstl:
  assumes "bits w 27 3 = 3" "bit w 26" "bits w 24 2 = 1" "\<not> bit w 21" "bits w 10 2 = 2"
  shows "push_bit 30 (bits w 30 2) OR push_bit 27 3 OR push_bit 26 1 OR push_bit 24 1 OR push_bit 22 (bits w 22 2) OR
    push_bit 12 (bits w 12 9) OR push_bit 10 2 OR push_bit 5 (bits w 5 5) OR bits w 0 5 = w"
  using ldst_op_bits [OF assms(1)] assms(2,4) bits_eqD [OF assms(3), of 0] bits_eqD [OF assms(3), of 1] ldst_op4_bits [OF assms(5)]
  by (simp add: to_bits)

lemma opc_join:
  "bits w l 2 AND 1 = 1 \<Longrightarrow> push_bit 22 (drop_bit (Suc 0) (bits w l 2) * 2) OR 0x400000 = push_bit 22 (bits w l 2)"
  "bits w l 2 AND 1 \<noteq> 1 \<Longrightarrow> push_bit 22 (drop_bit (Suc 0) (bits w l 2) * 2) = push_bit 22 (bits w l 2)"
  using bits_2_cases [of w l] by (elim disjE; simp)+

lemma leaves_fp_ldapstl:
  assumes "bits w 27 3 = 3" "bit w 26" "bits w 24 2 = 1" "\<not> bit w 21" "bits w 10 2 = 2"
  shows "leaves (ldst_leaf fs out w) out (decode_fp_ldapstl w fs out)"
proof (cases "map_of [((0b00, 0), 0 :: u32), ((0b01, 0), 1), ((0b10, 0), 2), ((0b11, 0), 3), ((0b00, 1), 4)] (bits w 30 2, drop_bit 1 (bits w 22 2))")
  case (Some fp)
  note F = fp_ldapstl_code [OF Some]
  let ?c = "the_default C_StlurFp128 (map_of fp_ldapstl_codes (fp, bits w 22 2 AND 1 = 1))"
  have n: "?c \<notin> set fp_ldapur_codes" if "\<not> bits w 22 2 AND 1 = 1"
    using that F(6) by simp
  have e: "encode_ldst (built out ?c m ops) = enc_fp_ldapstl (built out ?c m ops)" for m ops
    using F(1,2) by (cases "bits w 22 2 AND 1 = 1") (simp_all add: by_fp_ldapur by_fp_stlur)
  have l: "(?c \<in> set fp_ldapur_codes) = (bits w 22 2 AND 1 = 1)" using n F(1) by (cases "bits w 22 2 AND 1 = 1") auto
  have s: "(if fp = 4 then (0, 1) else (fp, 0)) = (bits w 30 2, drop_bit 1 (bits w 22 2))" by (rule F(5))
  show ?thesis
    unfolding decode_fp_ldapstl_def Let_def Some option.case
    using layout_fp_ldapstl [OF assms] 
    by (intro leaves_if leaves_out; simp; intro ldst_leafI;
       simp add: e enc_fp_ldapstl_def l s F(3,4) ldst_enc_eval insn_op_register_def opc_join)
qed (simp add: decode_fp_ldapstl_def Let_def)

text \<open>The pairs: the fields \<open>Rt2\<close> and \<open>opc2\<close> take the place of the offset.\<close>

lemma layout_rcpc_pair:
  assumes "bits w 24 6 = 25" "\<not> bit w 21" "bits w 10 2 = 2" "\<not> bit w 23"
  shows "push_bit 30 (bits w 30 2) OR push_bit 24 25 OR push_bit 22 (bit_at w 22) OR push_bit 16 (bits w 16 5) OR
    push_bit 12 (bits w 12 4) OR push_bit 10 2 OR push_bit 5 (bits w 5 5) OR bits w 0 5 = w"
  using rcpc_class_bits [OF assms(1)] assms(2,4) ldst_op4_bits [OF assms(3)] by (simp add: to_bits)

lemma op_register_insn: "insn_op_register insn n = op_register (insn_op insn n)"
  by (simp add: insn_op_register_def op_register_def)

lemma width_op_gp_reg [simp]:
  "width_bits (op_register (gp_reg u X64 n)) = 64" "width_bits (op_register (gp_reg u W32 n)) = 32"
  by (simp_all add: op_register_def gp_reg_def gp_register_width)

lemma leaves_ldapp_stlp:
  assumes "bits w 24 6 = 25" "\<not> bit w 21" "bits w 10 2 = 2" "\<not> bit w 23" "has fs F_Rcpc3"
  shows "leaves (ldst_leaf fs out w) out (decode_ldapp_stlp w (bits w 12 4) out)"
  unfolding decode_ldapp_stlp_def Let_def
  using layout_rcpc_pair [OF assms(1-4)] assms(5)
  by (cases "bit w 22"; simp add: bit_at_1 bit_at_0; intro conjI impI ldst_leafI;
     simp add: by_ldapp ldapp_codes_def enc_ldapp_stlp_def ldst_enc_eval op_register_insn)

lemma opc2_bit: "bits w 13 3 = 0 \<Longrightarrow> bits w 12 4 = bit_at w 12"
  using bits_eqD [of w 13 3 0 0] bits_eqD [of w 13 3 0 1] bits_eqD [of w 13 3 0 2] by (simp add: to_bits)

lemma leaves_ldiapp_stilp:
  assumes "bits w 24 6 = 25" "\<not> bit w 21" "bits w 10 2 = 2" "\<not> bit w 23"
  shows "leaves (ldst_leaf fs out w) out (decode_ldiapp_stilp w fs out)"
proof (cases "has fs F_Rcpc3 \<and> bits w 12 4 \<noteq> 5 \<and> bits w 12 4 \<noteq> 7 \<and> bits w 13 3 = 0 \<and> (bits w 30 2 = 2 \<or> bits w 30 2 = 3)")
  case True
  then have o: "bits w 12 4 = bit_at w 12" using opc2_bit by simp
  show ?thesis
    unfolding decode_ldiapp_stilp_def Let_def
    using layout_rcpc_pair [OF assms] True unfolding o
    by (cases "bit w 22"; cases "bit w 12"; simp add: bit_at_1 bit_at_0; elim conjE disjE; simp; intro ldst_leafI;
       simp add: by_ldiapp ldiapp_codes_def enc_ldiapp_stilp_def ldst_enc_eval op_register_insn)
next
  case False
  then show ?thesis using leaves_ldapp_stlp [OF assms] by (auto simp: decode_ldiapp_stilp_def Let_def)
qed

lemma layout_wb:
  assumes "bits w 24 6 = 25" "\<not> bit w 21" "bits w 10 2 = 2" "bit w 23" "bits w 12 9 = 0"
  shows "push_bit 30 (bits w 30 2) OR push_bit 24 25 OR push_bit 23 1 OR push_bit 22 (bit_at w 22) OR push_bit 10 2 OR
    push_bit 5 (bits w 5 5) OR bits w 0 5 = w"
proof -
  have "\<not> bit w (12 + n)" if "n < 9" for n using bits_eqD [OF assms(5) that] by simp
  from this [of 0] this [of 1] this [of 2] this [of 3] this [of 4] this [of 5] this [of 6] this [of 7] this [of 8]
  show ?thesis using rcpc_class_bits [OF assms(1)] assms(2,4) ldst_op4_bits [OF assms(3)] by (simp add: to_bits)
qed

lemma leaves_stlr_ldapr_wb:
  assumes "bits w 24 6 = 25" "\<not> bit w 21" "bits w 10 2 = 2" "bit w 23"
  shows "leaves (ldst_leaf fs out w) out (decode_stlr_ldapr_wb w fs out)"
proof (cases "has fs F_Rcpc3 \<and> bits w 12 9 = 0 \<and> (bits w 30 2 = 2 \<or> bits w 30 2 = 3)")
  case True
  then show ?thesis
    unfolding decode_stlr_ldapr_wb_def Let_def
    using layout_wb [OF assms]
    by (cases "bit w 22"; simp add: bit_at_1 bit_at_0; elim conjE disjE; simp; intro ldst_leafI;
       simp add: by_wb wb_codes_def enc_stlr_ldapr_wb_def ldst_enc_eval)
qed (auto simp: decode_stlr_ldapr_wb_def Let_def)

section \<open>Memory tagging\<close>

lemma layout_tag_stores:
  assumes "bits w 24 6 = 25" "bit w 21" "bits w 30 2 = 3"
  shows "tag_word (bits w 22 2) (bits w 12 9) (bits w 10 2) (bits w 5 5) (bits w 0 5) = w"
  using rcpc_class_bits [OF assms(1)] assms(2) bits_eqD [OF assms(3), of 0] bits_eqD [OF assms(3), of 1]
  by (simp add: tag_word_def to_bits)

lemma leaves_tags:
  assumes "bits w 24 6 = 25" "bit w 21" "bits w 30 2 = 3"
  shows "leaves (ldst_leaf fs out w) out (decode_tags w fs out)"
proof (cases "has fs F_Mte")
  case True
  show ?thesis
    unfolding decode_tags_def Let_def
    using layout_tag_stores [OF assms] assms(3) True bits_2_cases [of w 22] bits_2_cases [of w 10]
    apply (elim disjE)
    apply (simp_all split: if_split)
    apply (intro conjI impI ldst_leafI; simp add: by_tags tag_is_def enc_tags_def stg_rows_def tag_bulk_rows_def ldst_enc_eval)+
    done
qed (simp add: decode_tags_def)

end
