(* ===== verification/Ldst_Simd_Exact.thy ===== *)
theory Ldst_Simd_Exact
  imports Ldst_Forms
begin

text \<open>
  The Advanced SIMD structure loads and stores.  The operands are a register list and an address, post-indexed by a register, by
  the number of bytes transferred, or not at all; the lane of a single structure is spread over \<open>Q\<close>, \<open>S\<close> and \<open>size\<close>.
\<close>

section \<open>Register lists and addresses\<close>

definition op_multi :: "operand \<Rightarrow> (u32 \<times> u8 \<times> vector_arrangement \<times> u8 option) encoded" where
  "op_multi op =
     (case op of
        OpMultiReg (r0, _, _, _) count arr lane \<Rightarrow>
          and_then (ok_or EncInvalidOperand arr) (\<lambda>arr. Ok (ucast (reg_number r0), count, arr, lane))
      | _ \<Rightarrow> Err EncInvalidOperand)"

lemma multireg_op: "multireg insn n = op_multi (insn_op insn n)"
  unfolding multireg_def op_multi_def Let_def ..

lemma first_register: "ucast (reg_number (RV (ucast ((bits w l 5 + 0) AND 31)))) = bits w l 5"
  unfolding and_31_u32 by (rule bit_word_eqI) (auto simp: bit_simps bit_bits)

lemma op_multi_vlist:
  assumes "n = 1 \<or> n = 2 \<or> n = 3 \<or> n = 4"
  shows "op_multi (vlist (bits w l 5) n arr lane) = Ok (bits w l 5, n, arr, lane)"
proof -
  have n: "\<not> n < 1" "\<not> 4 < n" "0 < unat n" using assms by auto
  show ?thesis
    using first_register [of w l] n by (simp add: op_multi_def vlist_def Let_def vlist_reg_def)
qed

definition addr_ops :: "bool \<Rightarrow> u32 \<Rightarrow> u32 \<Rightarrow> i64 \<Rightarrow> operand list" where
  "addr_ops post rm rn nbytes =
     (if \<not> post then [mem_base rn] else if rm = 31 then [mem_post_imm rn nbytes] else [mem_post_reg rn, xm rm])"

lemma push_addr_ops: "push_addr post rm rn nbytes (built out c m [v]) = built out c m (v # addr_ops post rm rn nbytes)"
  by (simp add: push_addr_def addr_ops_def)

lemma length_addr_ops: "length (v # addr_ops post rm rn nbytes) \<le> 5"
  by (simp add: addr_ops_def)

lemma recover_addr_back:
  assumes "post \<or> bits w 16 5 = 0"
  shows "recover_addr (built out c m (v # addr_ops post (bits w 16 5) (bits w 5 5) nbytes)) 1 nbytes =
    Ok (post, bits w 16 5, bits w 5 5)"
  using assms
  by (auto simp: addr_ops_def recover_addr_def mem_base_def mem_post_imm_def mem_post_reg_def xm_def
      simp del: reg_number_gp_register)

section \<open>Multiple structures\<close>

lemma size_q_back: "size_q_of (arr_mult (bits w 10 2) (bit_at w 30)) = Some (bits w 10 2, bit_at w 30)"
  using bits_2_cases [of w 10] by (cases "bit w 30"; elim disjE) (simp_all add: bit_at_1 bit_at_0 arr_mult_def size_q_of_def)

definition mult_ok :: "bool \<Rightarrow> u32 \<Rightarrow> code \<times> mnemonic \<times> u8 \<times> bool \<Rightarrow> bool" where
  "mult_ok load opcode = (\<lambda>(c, m, n, ms).
     c \<in> set simd_multiple_codes \<and> multiple_opcode c n = Some opcode \<and> is_store_multiple c = (\<not> load) \<and>
     (n = 1 \<or> n = 2 \<or> n = 3 \<or> n = 4) \<and> code_feature c = F_Base)"

lemma mult_form_ok: "mult_form load opcode = Some f \<Longrightarrow> mult_ok load opcode f"
  unfolding mult_form_def
  by (drule map_of_SomeD)
    (cases load; auto simp: mk_mult_def mult_ok_def simd_multiple_codes_def multiple_opcode_def is_store_multiple_def)

lemma layout_multiple:
  assumes "bits w 24 6 = 12" "\<not> bit w 31" "\<not> bit w 21"
  shows "push_bit 30 (bit_at w 30) OR push_bit 26 3 OR push_bit 23 (bit_at w 23) OR push_bit 22 (bit_at w 22) OR
    push_bit 16 (bits w 16 5) OR push_bit 12 (bits w 12 4) OR push_bit 10 (bits w 10 2) OR push_bit 5 (bits w 5 5) OR bits w 0 5 = w"
  using bits_eqD [OF assms(1), of 0] bits_eqD [OF assms(1), of 1] bits_eqD [OF assms(1), of 2] bits_eqD [OF assms(1), of 3]
    bits_eqD [OF assms(1), of 4] bits_eqD [OF assms(1), of 5] assms(2,3)
  by (simp add: to_bits)

lemma simd_class:
  "c \<in> set simd_multiple_codes \<Longrightarrow> i_code i = c \<Longrightarrow> encode_ldst i = enc_multiple i"
  by (simp add: by_simd is_ldst_simd_def encode_ldst_simd_def)

lemma flag_bit: "of_bool (bit_at w p = 1) = bit_at w p" "of_bool (bit w p) = bit_at w p" "of_bool (\<not> (bit_at w p \<noteq> 1)) = bit_at w p"
  by (cases "bit w p"; simp add: bit_at_1 bit_at_0)+

lemma leaf_multiple:
  assumes "bits w 24 6 = 12" "\<not> bit w 31" "\<not> bit w 21" "bit w 23 \<or> bits w 16 5 = 0" "mult_form (bit w 22) (bits w 12 4) = Some (c, m, n, ms)"
    "nbytes = ucast n * (if bit w 30 then 16 else 8)" "post \<longleftrightarrow> bit w 23" "rm = bits w 16 5" "sz = bits w 10 2"
  shows "leaves (ldst_leaf fs out w) out
    (built out c m (vlist (bits w 0 5) n (arr_mult sz (bit_at w 30)) None # addr_ops post rm (bits w 5 5) nbytes))"
  unfolding assms(7-9)
proof (rule ldst_leafI)
  have F: "c \<in> set simd_multiple_codes" "multiple_opcode c n = Some (bits w 12 4)" "is_store_multiple c \<longleftrightarrow> \<not> bit w 22"
    and n: "n = 1 \<or> n = 2 \<or> n = 3 \<or> n = 4"
    using mult_form_ok [OF assms(5)] by (auto simp: mult_ok_def)
  show "encode_ldst (built out c m (vlist (bits w 0 5) n (arr_mult (bits w 10 2) (bit_at w 30)) None #
       addr_ops (bit w 23) (bits w 16 5) (bits w 5 5) nbytes)) = Ok w"
    using layout_multiple [OF assms(1-3)] recover_addr_back [OF assms(4)] unfolding assms(6)
    by (simp add: simd_class [OF F(1)] enc_multiple_def multireg_op op_multi_vlist [OF n] F(2,3) size_q_back flag_bit)
  show "has fs (code_feature c)" using mult_form_ok [OF assms(5)] by (auto simp: mult_ok_def)
qed (rule length_addr_ops)

lemma leaves_multiple:
  assumes "bits w 24 6 = 12" "\<not> bit w 31"
  shows "leaves (ldst_leaf fs out w) out (decode_multiple w out)"
  unfolding decode_multiple_def Let_def
  by (auto simp: push_addr_ops split: option.split if_split intro!: leaf_multiple [OF assms])

section \<open>Single structures and replication\<close>

lemma lane_cases:
  assumes "scale = 0 \<or> scale = 1 \<or> scale = 2" "q = 0 \<or> q = 1" "s = 0 \<or> s = 1" "sz = 0 \<or> sz = 1 \<or> sz = 2 \<or> sz = 3"
  shows "case single_lane scale q s sz of None \<Rightarrow> True | Some (arr, index, eb) \<Rightarrow>
    (case elem_log2 arr of None \<Rightarrow> False | Some e \<Rightarrow> eb = push_bit (unat e) 1 \<and> pack_lane e (ucast (ucast index :: u8)) = Ok (scale, q, s, sz))"
  using assms
  by (elim disjE) (simp_all add: single_lane_def elem_log2_def pack_lane_def)

lemma lane_back:
  assumes "single_lane (bits w 14 2) (bit_at w 30) (bit_at w 12) (bits w 10 2) = Some (arr, index, eb)" "bits w 14 2 \<noteq> 3"
  shows "\<exists>e. elem_log2 arr = Some e \<and> eb = push_bit (unat e) 1 \<and>
    pack_lane e (ucast (ucast index :: u8)) = Ok (bits w 14 2, bit_at w 30, bit_at w 12, bits w 10 2)"
proof -
  have "bits w 14 2 = 0 \<or> bits w 14 2 = 1 \<or> bits w 14 2 = 2" using bits_2_cases [of w 14] assms(2) by auto
  from lane_cases [OF this bit_at_cases bit_at_cases bits_2_cases, of w 30 w 12 w 10] assms(1)
  show ?thesis by (auto split: option.splits)
qed

lemma opcode_parts:
  "bits w 13 3 AND 1 = bit_at w 13" "drop_bit 1 (bits w 13 3) = bits w 14 2" "push_bit 1 (bits w 14 2) OR bit_at w 13 = bits w 13 3"
proof -
  have m: "y AND (1 :: u32) = take_bit 1 y" for y by (simp add: take_bit_eq_mask mask_eq_exp_minus_1)
  show "bits w 13 3 AND 1 = bit_at w 13" unfolding m
    by (rule bit_word_eqI) (auto simp: bit_simps bit_bits bit_bit_at odd_bits)
  show "drop_bit 1 (bits w 13 3) = bits w 14 2" by (rule bit_word_eqI) (auto simp: bit_simps bit_bits)
  show "push_bit 1 (bits w 14 2) OR bit_at w 13 = bits w 13 3"
    using bits_split_high [of w 13 1 2] by (simp add: bit_at_eq numeral_3_eq_3)
qed

lemma opcode_join: "push_bit 13 (bits w 14 2 * 2) OR push_bit 13 (bit_at w 13) = push_bit 13 (bits w 13 3)"
  using arg_cong [OF opcode_parts(3) [of w], of "push_bit 13"] by simp

text \<open>The number of registers, from bits 13 and 21.\<close>

definition nregs_of :: "u32 \<Rightarrow> u8" where
  "nregs_of w = ucast (push_bit 1 (bit_at w 13) + bit_at w 21 + 1 :: u32)"

lemma nregs_cases: "nregs_of w = 1 \<or> nregs_of w = 2 \<or> nregs_of w = 3 \<or> nregs_of w = 4"
  unfolding nregs_of_def by (cases "bit w 13"; cases "bit w 21") (simp_all add: bit_at_1 bit_at_0)

lemma nregs_pushed:
  "push_bit 21 (ucast (nregs_of w) - 1) AND 0x200000 = push_bit 21 (bit_at w 21)"
  "push_bit 13 (drop_bit (Suc 0) (ucast (nregs_of w) - 1)) AND 0x2000 = push_bit 13 (bit_at w 13)"
  unfolding nregs_of_def by (cases "bit w 13"; cases "bit w 21"; simp add: bit_at_1 bit_at_0)+

lemma nregs_pred [simp]: "sub_u32 (ucast (nregs_of w)) 1 = Ok (ucast (nregs_of w) - 1)"
  using nregs_cases [of w] by (elim disjE) (simp_all add: sub_u32_def)

lemma layout_single:
  assumes "bits w 24 6 = 13" "\<not> bit w 31"
  shows "push_bit 30 (bit_at w 30) OR push_bit 26 3 OR push_bit 24 1 OR push_bit 23 (bit_at w 23) OR push_bit 22 (bit_at w 22) OR
    push_bit 21 (bit_at w 21) OR push_bit 16 (bits w 16 5) OR push_bit 13 (bits w 13 3) OR push_bit 12 (bit_at w 12) OR
    push_bit 10 (bits w 10 2) OR push_bit 5 (bits w 5 5) OR bits w 0 5 = w"
  using bits_eqD [OF assms(1), of 0] bits_eqD [OF assms(1), of 1] bits_eqD [OF assms(1), of 2] bits_eqD [OF assms(1), of 3]
    bits_eqD [OF assms(1), of 4] bits_eqD [OF assms(1), of 5] assms(2)
  by (simp add: to_bits)

definition single_ok :: "bool \<Rightarrow> u8 \<Rightarrow> code \<Rightarrow> bool" where
  "single_ok load n c \<longleftrightarrow> c \<in> set simd_single_codes \<and> c \<notin> set simd_multiple_codes \<and> single_count c = n \<and> is_store_single c = (\<not> load) \<and>
     code_feature c = F_Base"

lemma single_code_ok:
  assumes "n = 1 \<or> n = 2 \<or> n = 3 \<or> n = 4"
  shows "single_ok load n (fst (single_code load n))"
  using assms
  by (cases load; elim disjE)
    (simp_all add: single_code_def single_ok_def simd_single_codes_def simd_multiple_codes_def single_count_def is_store_single_def)

lemma leaf_single:
  assumes "bits w 24 6 = 13" "\<not> bit w 31" "bit w 23 \<or> bits w 16 5 = 0" "bits w 14 2 \<noteq> 3"
    "single_lane (bits w 14 2) (bit_at w 30) (bit_at w 12) (bits w 10 2) = Some (arr, index, eb)"
    "single_code (bit w 22) (nregs_of w) = (c, m)"
  shows "leaves (ldst_leaf fs out w) out
    (built out c m (vlist (bits w 0 5) (nregs_of w) arr (Some (ucast index)) #
       addr_ops (bit w 23) (bits w 16 5) (bits w 5 5) (ucast (nregs_of w) * eb)))"
proof (rule ldst_leafI)
  obtain e where e: "elem_log2 arr = Some e" "eb = push_bit (unat e) 1"
    "pack_lane e (ucast (ucast index :: u8)) = Ok (bits w 14 2, bit_at w 30, bit_at w 12, bits w 10 2)"
    using lane_back [OF assms(5,4)] by blast
  have F: "c \<in> set simd_single_codes" "c \<notin> set simd_multiple_codes" "single_count c = nregs_of w" "is_store_single c \<longleftrightarrow> \<not> bit w 22"
    and f: "code_feature c = F_Base"
    using single_code_ok [OF nregs_cases, of "bit w 22" w] assms(6) by (simp_all add: single_ok_def)
  have d: "encode_ldst i = enc_single i" if "i_code i = c" for i
    using F that by (simp add: by_simd is_ldst_simd_def encode_ldst_simd_def)
  have t: "(ucast (ucast (nregs_of w) :: u32) :: i64) = ucast (nregs_of w)"
    using nregs_cases [of w] by (elim disjE) simp_all
  show "encode_ldst (built out c m (vlist (bits w 0 5) (nregs_of w) arr (Some (ucast index)) #
       addr_ops (bit w 23) (bits w 16 5) (bits w 5 5) (ucast (nregs_of w) * eb))) = Ok w"
    unfolding d [OF built_fields(1)] enc_single_def Let_def multireg_op e(2)
    using layout_single [OF assms(1,2)] recover_addr_back [OF assms(3)]
    by (simp add: op_multi_vlist [OF nregs_cases] F(3,4) e(1,3) t flag_bit
         nregs_pushed opcode_join)
  show "has fs (code_feature c)" by (simp add: f)
qed (rule length_addr_ops)

lemma rep_code_ok:
  assumes "n = 1 \<or> n = 2 \<or> n = 3 \<or> n = 4" "rep_code n = (c, m)"
  shows "c \<in> set simd_rep_codes" "c \<notin> set simd_multiple_codes" "c \<notin> set simd_single_codes" "rep_count c = n" "code_feature c = F_Base"
  using assms
  by (elim disjE; auto simp: rep_code_def simd_rep_codes_def simd_single_codes_def simd_multiple_codes_def rep_count_def)+

lemma elem_bytes_nat: "of_nat (element_bits arr div 8) = elem_bytes arr"
  by (simp add: elem_bytes_def)

lemma leaf_replicate:
  assumes "bits w 24 6 = 13" "\<not> bit w 31" "bit w 23 \<or> bits w 16 5 = 0" "bits w 14 2 = 3" "bit w 22" "\<not> bit w 12"
    "rep_code (nregs_of w) = (c, m)"
  defines "arr \<equiv> arr_mult (bits w 10 2) (bit_at w 30)"
  shows "leaves (ldst_leaf fs out w) out
    (built out c m (vlist (bits w 0 5) (nregs_of w) arr None #
       addr_ops (bit w 23) (bits w 16 5) (bits w 5 5) (ucast (nregs_of w) * elem_bytes arr)))"
proof (rule ldst_leafI)
  note F = rep_code_ok [OF nregs_cases assms(7)]
  have d: "encode_ldst i = enc_replicate i" if "i_code i = c" for i
    using F that by (simp add: by_simd is_ldst_simd_def encode_ldst_simd_def)
  have t: "(ucast (ucast (nregs_of w) :: u32) :: i64) = ucast (nregs_of w)"
    using nregs_cases [of w] by (elim disjE) simp_all
  have o: "0xC000 OR push_bit 13 (bit_at w 13) = push_bit 13 (bits w 13 3)"
    using opcode_join [of w] assms(4) by simp
  have s: "size_q_of arr = Some (bits w 10 2, bit_at w 30)" unfolding arr_def by (rule size_q_back)
  show "encode_ldst (built out c m (vlist (bits w 0 5) (nregs_of w) arr None #
       addr_ops (bit w 23) (bits w 16 5) (bits w 5 5) (ucast (nregs_of w) * elem_bytes arr))) = Ok w"
    unfolding d [OF built_fields(1)] enc_replicate_def Let_def multireg_op elem_bytes_nat t
    using layout_single [OF assms(1,2)] recover_addr_back [OF assms(3)] bit_at_1 [OF assms(5)] bit_at_0 [OF assms(6)]
    by (simp add: op_multi_vlist [OF nregs_cases] F(4) s t flag_bit nregs_pushed o)
  show "has fs (code_feature c)" by (simp add: F(5))
qed (rule length_addr_ops)

lemma leaves_single:
  assumes "bits w 24 6 = 13" "\<not> bit w 31"
  shows "leaves (ldst_leaf fs out w) out (decode_single w out)"
proof (cases "\<not> bit w 23 \<and> bits w 16 5 \<noteq> 0")
  case False
  then have p: "bit w 23 \<or> bits w 16 5 = 0" by auto
  show ?thesis
  proof (cases "bits w 14 2 = 3")
    case True
    then show ?thesis
      using leaf_replicate [OF assms p True] p
      unfolding decode_single_def Let_def opcode_parts(1,2) nregs_of_def [symmetric] decode_replicate_def
      by (cases "rep_code (nregs_of w)") (simp add: push_addr_ops)
  next
    case n: False
    have l: "leaves (ldst_leaf fs out w) out
      (case single_code (bit w 22) (nregs_of w) of (code, mnem) \<Rightarrow>
         push_addr (bit w 23) (bits w 16 5) (bits w 5 5) (ucast (nregs_of w) * eb)
           (push_operand (vlist (bits w 0 5) (nregs_of w) arr (Some (ucast index))) (set_alias mnem (insn_set code out))))"
      if "single_lane (bits w 14 2) (bit_at w 30) (bit_at w 12) (bits w 10 2) = Some (arr, index, eb)" for arr index eb
      using leaf_single [OF assms p n that] by (cases "single_code (bit w 22) (nregs_of w)") (simp add: push_addr_ops)
    show ?thesis
    proof (cases "single_lane (bits w 14 2) (bit_at w 30) (bit_at w 12) (bits w 10 2)")
      case (Some r)
      obtain arr index eb where r: "r = (arr, index, eb)" by (cases r)
      show ?thesis
        using l [OF Some [unfolded r]] p n
        unfolding decode_single_def Let_def opcode_parts(1,2) nregs_of_def [symmetric] Some r
        by (cases "bit w 23") (simp_all add: n)
    qed (use p n in \<open>auto simp: decode_single_def Let_def opcode_parts(1,2) opcode_parts(2) [simplified]\<close>)
  qed
qed (simp add: decode_single_def)

lemma leaves_ldst_simd:
  "\<not> bit w 31 \<Longrightarrow> leaves (ldst_leaf fs out w) out (decode_ldst_simd w out)"
  using leaves_multiple leaves_single by (simp add: decode_ldst_simd_def)

end
