(* ===== verification/Ldst_Names.thy ===== *)
theory Ldst_Names
  imports Ldst_Forms
begin

text \<open>
  The encoder of \<open>LD<op>\<close> and \<open>ST<op>\<close> reads the ordering off the name of the mnemonic.  The names of the atomics stand in the blocks 6,
  8, 9 and 10 of the table; the other blocks have no mnemonic in their ranges.
\<close>

section \<open>Names\<close>

definition name_gap :: "nat \<Rightarrow> nat \<Rightarrow> (mnemonic \<times> string) list \<Rightarrow> bool" where
  "name_gap lo hi rows \<longleftrightarrow> list_all (\<lambda>(m, n). mnemonic_disc m < lo \<or> hi < mnemonic_disc m) rows"

lemma name_gap_skip:
  "name_gap lo hi rows \<Longrightarrow> lo \<le> mnemonic_disc m \<Longrightarrow> mnemonic_disc m \<le> hi \<Longrightarrow> map_of (rows @ rest) m = map_of rest m"
  by (induction rows) (auto simp: name_gap_def)

lemma name_gaps:
  "name_gap 378 405 mnemonic_names_0" "name_gap 378 405 mnemonic_names_1" "name_gap 378 405 mnemonic_names_2"
  "name_gap 378 405 mnemonic_names_3" "name_gap 378 405 mnemonic_names_4" "name_gap 378 405 mnemonic_names_5"
  "name_gap 552 667 mnemonic_names_0" "name_gap 552 667 mnemonic_names_1" "name_gap 552 667 mnemonic_names_2"
  "name_gap 552 667 mnemonic_names_3" "name_gap 552 667 mnemonic_names_4" "name_gap 552 667 mnemonic_names_5"
  "name_gap 552 667 mnemonic_names_6" "name_gap 552 667 mnemonic_names_7"
  "name_gap 564 667 mnemonic_names_8" "name_gap 628 667 mnemonic_names_9"
  by (simp_all add: name_gap_def mnemonic_names_0_def mnemonic_names_1_def mnemonic_names_2_def mnemonic_names_3_def
      mnemonic_names_4_def mnemonic_names_5_def mnemonic_names_6_def mnemonic_names_7_def mnemonic_names_8_def mnemonic_names_9_def)

text \<open>A mnemonic of one of the ranges is looked up in its block.\<close>

definition named_in :: "nat \<Rightarrow> nat \<Rightarrow> (mnemonic \<times> string) list \<Rightarrow> bool" where
  "named_in lo hi rows \<longleftrightarrow>
     list_all (\<lambda>(m, n). lo \<le> mnemonic_disc m \<and> mnemonic_disc m \<le> hi \<longrightarrow> mnemonic_name m = n) rows"

lemma map_of_block: "distinct (map fst rows) \<Longrightarrow> (m, n) \<in> set rows \<Longrightarrow> map_of (rows @ rest) m = Some n"
  by (simp add: map_add_Some_iff map_of_is_SomeI)

lemma concat_names:
  "concat mnemonic_name_blocks =
    mnemonic_names_0 @ mnemonic_names_1 @ mnemonic_names_2 @ mnemonic_names_3 @ mnemonic_names_4 @ mnemonic_names_5 @
    mnemonic_names_6 @ mnemonic_names_7 @ mnemonic_names_8 @ mnemonic_names_9 @ mnemonic_names_10 @
    concat (drop 11 mnemonic_name_blocks)"
  by (simp add: mnemonic_name_blocks_def)

lemma block_distinct:
  "distinct (map fst mnemonic_names_6)" "distinct (map fst mnemonic_names_8)" "distinct (map fst mnemonic_names_9)"
  "distinct (map fst mnemonic_names_10)"
  by (simp_all add: mnemonic_names_6_def mnemonic_names_8_def mnemonic_names_9_def mnemonic_names_10_def)

lemma atomics_named:
  "named_in 378 405 mnemonic_names_6" "named_in 552 563 mnemonic_names_8" "named_in 564 627 mnemonic_names_9"
  "named_in 628 667 mnemonic_names_10"
proof -
  show "named_in 378 405 mnemonic_names_6"
    unfolding named_in_def list_all_iff mnemonic_name_def concat_names
    using name_gaps(1-6) by (auto simp: name_gap_skip [where lo = 378 and hi = 405] map_of_block [OF block_distinct(1)] simp del: map_of_append)
  show "named_in 552 563 mnemonic_names_8"
    unfolding named_in_def list_all_iff mnemonic_name_def concat_names
    using name_gaps(7-14) by (auto simp: name_gap_skip [where lo = 552 and hi = 667] map_of_block [OF block_distinct(2)] simp del: map_of_append)
  show "named_in 564 627 mnemonic_names_9"
    unfolding named_in_def list_all_iff mnemonic_name_def concat_names
    using name_gaps(7-15)
    by (auto simp: name_gap_skip [where lo = 552 and hi = 667] name_gap_skip [where lo = 564 and hi = 667] map_of_block [OF block_distinct(3)] simp del: map_of_append)
  show "named_in 628 667 mnemonic_names_10"
    unfolding named_in_def list_all_iff mnemonic_name_def concat_names
    using name_gaps(7-16)
    by (auto simp: name_gap_skip [where lo = 552 and hi = 667] name_gap_skip [where lo = 564 and hi = 667]
        name_gap_skip [where lo = 628 and hi = 667] map_of_block [OF block_distinct(4)] simp del: map_of_append)
qed

lemmas atomic_names [simp] =
  atomics_named(1) [unfolded named_in_def mnemonic_names_6_def, simplified]
  atomics_named(2) [unfolded named_in_def mnemonic_names_8_def, simplified]
  atomics_named(3) [unfolded named_in_def mnemonic_names_9_def, simplified]
  atomics_named(4) [unfolded named_in_def mnemonic_names_10_def, simplified]

section \<open>The ordering in a name\<close>

definition spells :: "mnemonic \<Rightarrow> u32 \<Rightarrow> u32 \<Rightarrow> bool \<Rightarrow> bool" where
  "spells m a r st \<longleftrightarrow> (\<forall>sz. ord_from_mnem sz m = Some (sz, a, r)) \<and> (take 2 (mnemonic_name m) = ''st'') = st"

lemmas spells_eval = spells_def ord_from_mnem_def strip_last_def ends_with_def Let_def

definition spell_forms :: "(u32 \<times> u32) list \<Rightarrow> bool \<Rightarrow> mnemonic list \<times> mnemonic list \<times> mnemonic list \<Rightarrow> bool" where
  "spell_forms ords st = (\<lambda>(ws, bs, hs).
     list_all2 (\<lambda>m (a, r). spells m a r st) ws ords \<and> list_all2 (\<lambda>m (a, r). spells m a r st) bs ords \<and>
     list_all2 (\<lambda>m (a, r). spells m a r st) hs ords)"

lemma ld_forms_spell: "spell_forms [(0, 0), (0, 1), (1, 0), (1, 1)] False (ld_forms op)"
  by (cases op) (simp_all add: spell_forms_def spells_eval)

lemma st_forms_spell: "spell_forms [(0, 0), (0, 1)] True (st_forms op)"
  by (cases op) (simp_all add: spell_forms_def spells_eval)

lemma spells_nth:
  assumes "list_all2 (\<lambda>m (a, r). spells m a r st) ms ords" "k < length ords" "ords ! k = (a, r)"
  shows "spells (ms ! k) a r st"
  using list_all2_nthD2 [OF assms(1,2)] assms(3) by simp

lemma ld_spells: "spells (ld_mnemonic op sz (bit_at w p) (bit_at w q)) (bit_at w p) (bit_at w q) False"
proof -
  obtain ws bs hs where f: "ld_forms op = (ws, bs, hs)" by (cases "ld_forms op")
  note s = ld_forms_spell [of op, unfolded f spell_forms_def prod.case]
  have k: "unat (push_bit 1 (bit_at w p) OR bit_at w q) < 4"
    "[(0, 0), (0, 1), (1, 0), (1, 1)] ! unat (push_bit 1 (bit_at w p) OR bit_at w q) = (bit_at w p, bit_at w q)"
    by (cases "bit w p"; cases "bit w q"; simp add: bit_at_1 bit_at_0)+
  show ?thesis
    using spells_nth [OF conjunct1 [OF s] _ k(2)] spells_nth [OF conjunct1 [OF conjunct2 [OF s]] _ k(2)]
      spells_nth [OF conjunct2 [OF conjunct2 [OF s]] _ k(2)] k(1)
    by (simp add: ld_mnemonic_def f pick_def Let_def)
qed

lemma st_spells: "spells (st_mnemonic op sz (bit_at w q)) 0 (bit_at w q) True"
proof -
  obtain ws bs hs where f: "st_forms op = (ws, bs, hs)" by (cases "st_forms op")
  note s = st_forms_spell [of op, unfolded f spell_forms_def prod.case]
  have k: "unat (bit_at w q) < 2" "[(0, 0), (0, 1)] ! unat (bit_at w q) = (0, bit_at w q)"
    by (cases "bit w q"; simp add: bit_at_1 bit_at_0)+
  show ?thesis
    using spells_nth [OF conjunct1 [OF s] _ k(2)] spells_nth [OF conjunct1 [OF conjunct2 [OF s]] _ k(2)]
      spells_nth [OF conjunct2 [OF conjunct2 [OF s]] _ k(2)] k(1)
    by (simp add: st_mnemonic_def f pick_st_def Let_def)
qed

end
