(* ===== verification/Ldst_Atomics_Exact.thy ===== *)
theory Ldst_Atomics_Exact
  imports Ldst_Names Ldst_Excl_Exact
begin

text \<open>
  The atomic memory operations: the \<open>LD<op>\<close> and \<open>ST<op>\<close> forms, swaps, read-check-write, FEAT_LS64, LDAPR, the floating-point
  atomics and the FEAT_THE and FEAT_LSE128 families.  A family of four codes is indexed by the ordering \<open>A:R\<close>.
\<close>

section \<open>Families of four\<close>

abbreviation orderings :: "(u32 \<times> u32) list" where
  "orderings \<equiv> [(0, 0), (0, 1), (1, 0), (1, 1)]"

abbreviation ord_of :: "u32 \<Rightarrow> nat" where
  "ord_of w \<equiv> unat (push_bit 1 (bit_at w 23) OR bit_at w 22)"

lemma quartet_nth:
  assumes "list_all2 (\<lambda>c (a, r). P c a r) cs orderings"
  shows "P (cs ! ord_of w) (bit_at w 23) (bit_at w 22)"
proof -
  have k: "ord_of w < length orderings" "orderings ! ord_of w = (bit_at w 23, bit_at w 22)"
    by (cases "bit w 23"; cases "bit w 22"; simp add: bit_at_1 bit_at_0)+
  show ?thesis using list_all2_nthD2 [OF assms k(1)] unfolding k(2) by simp
qed

lemma layout_atomic:
  assumes "bits w 27 3 = 7" "\<not> bit w 24" "\<not> bit w 25" "\<not> bit w 26" "bit w 21" "bits w 10 2 = 0"
  shows "atomic_word (bits w 30 2) (bit_at w 23) (bit_at w 22) (bits w 16 5) (bit_at w 15) (bits w 12 3) (bits w 5 5) (bits w 0 5) = w"
  using ldst_op_bits [OF assms(1)] assms(2-5) ldst_op4_bits [OF assms(6)] by (simp add: atomic_word_def to_bits)

section \<open>LDAPR and FEAT_LS64\<close>

lemma leaf_ldapr:
  assumes "bits w 27 3 = 7" "\<not> bit w 24" "\<not> bit w 25" "\<not> bit w 26" "bit w 21" "bits w 10 2 = 0"
    "bit w 15" "bits w 12 3 = 4" "bit w 23" "\<not> bit w 22" "bits w 16 5 = 31"
  shows "leaves (ldst_leaf fs out w) out
    (fold push_operand [gp_reg False wd (bits w 0 5), mem_off (bits w 5 5) 0]
      (insn_set (if bits w 30 2 = 0 then C_Ldaprb else if bits w 30 2 = 1 then C_Ldaprh else if bits w 30 2 = 2 then C_Ldapr32 else C_Ldapr64) out))"
  using layout_atomic [OF assms(1-6)] assms(8,11) bits_2_cases [of w 30] bit_at_1 [OF assms(7)] bit_at_1 [OF assms(9)] bit_at_0 [OF assms(10)]
  by (elim disjE; simp; intro ldst_leafI; simp add: by_ldapr ldapr_codes_def enc_ldapr_def ldst_enc_eval)

lemma leaf_ls64:
  assumes "bits w 27 3 = 7" "\<not> bit w 24" "\<not> bit w 25" "\<not> bit w 26" "bit w 21" "bits w 10 2 = 0"
    "bits w 30 2 = 3" "bit w 15" "\<not> bit w 23" "\<not> bit w 22" "ls64_form (bits w 12 3) (bits w 16 5) (bits w 0 5)"
  shows "leaves (ldst_leaf fs out w) out (decode_ls64 (bits w 12 3) (bits w 16 5) (bits w 5 5) (bits w 0 5) fs out)"
proof -
  consider "bits w 12 3 = 5" "bits w 16 5 = 31" | "bits w 12 3 = 1" "bits w 16 5 = 31" | "bits w 12 3 = 3" | "bits w 12 3 = 2"
    using assms(11) by (auto simp: ls64_form_def Let_def)
  then show ?thesis
    using layout_atomic [OF assms(1-6)] assms(7) bit_at_1 [OF assms(8)] bit_at_0 [OF assms(9)] bit_at_0 [OF assms(10)]
    by cases (simp_all add: decode_ls64_def ldst_leafI by_ls64 ls64_codes_def enc_ls64_def ldst_enc_eval)
qed

section \<open>Read-check-write and swaps\<close>

lemma rcw_quartet_rows:
  "list_all (\<lambda>((opc, z), cs). list_all2 (\<lambda>c (a, r). rcw_single_fields c = Some (if z then 0 else 1, a, r, opc) \<and> code_feature c = F_The)
     cs orderings) rcw_codes"
  by (simp add: rcw_codes_def rcw_single_fields_def rcw_quartets_def quartet_ord_def)

lemma leaf_rcw_row:
  assumes "bits w 27 3 = 7" "\<not> bit w 24" "\<not> bit w 25" "\<not> bit w 26" "bit w 21" "bits w 10 2 = 0" "bit w 15"
    "rcw_single_fields c = Some (bits w 30 2, bit_at w 23, bit_at w 22, bits w 12 3)" "has fs (code_feature c)"
  shows "leaves (ldst_leaf fs out w) out (built out c m [gp_reg False X64 (bits w 16 5), gp_reg False X64 (bits w 0 5), mem_off (bits w 5 5) 0])"
  using layout_atomic [OF assms(1-6)] bit_at_1 [OF assms(7)] assms(8,9)
  by (intro ldst_leafI) (simp_all add: by_rcw_single enc_rcw_single_def ldst_enc_eval)

lemma rcw_code:
  assumes "bits w 30 2 = 0 \<or> bits w 30 2 = 1" "map_of rcw_codes (bits w 12 3, bits w 30 2 = 0) = Some cs"
  shows "rcw_single_fields (cs ! ord_of w) = Some (bits w 30 2, bit_at w 23, bit_at w 22, bits w 12 3)"
    "code_feature (cs ! ord_of w) = F_The"
proof -
  have "list_all2 (\<lambda>c (a, r). rcw_single_fields c = Some (if bits w 30 2 = 0 then 0 else 1, a, r, bits w 12 3) \<and> code_feature c = F_The)
     cs orderings"
    using rcw_quartet_rows map_of_SomeD [OF assms(2)] by (auto simp: list_all_iff)
  from quartet_nth [OF this, of w] assms(1)
  show "rcw_single_fields (cs ! ord_of w) = Some (bits w 30 2, bit_at w 23, bit_at w 22, bits w 12 3)"
    "code_feature (cs ! ord_of w) = F_The" by (auto split: if_splits)
qed

lemmas leaf_rcw = leaf_rcw_row [OF _ _ _ _ _ _ _ rcw_code(1)]

lemma leaf_swp_row:
  assumes "bits w 27 3 = 7" "\<not> bit w 24" "\<not> bit w 25" "\<not> bit w 26" "bit w 21" "bits w 10 2 = 0" "bit w 15" "bits w 12 3 = 0"
    "swp_fields c = Some (bits w 30 2, bit_at w 23, bit_at w 22)" "has fs (code_feature c)"
  shows "leaves (ldst_leaf fs out w) out (built out c m [gp_reg False wd (bits w 16 5), gp_reg False wd (bits w 0 5), mem_off (bits w 5 5) 0])"
  using layout_atomic [OF assms(1-6)] bit_at_1 [OF assms(7)] assms(8-10)
  by (intro ldst_leafI) (simp_all add: by_swp enc_swp_def ldst_enc_eval)

lemma swp_code:
  "swp_fields (the_default C_Swpalh (map_of swp_codes (bits w 30 2, push_bit 1 (bit_at w 23) OR bit_at w 22))) =
     Some (bits w 30 2, bit_at w 23, bit_at w 22)"
  "code_feature (the_default C_Swpalh (map_of swp_codes (bits w 30 2, push_bit 1 (bit_at w 23) OR bit_at w 22))) = F_Lse"
  using bits_2_cases [of w 30]
  by (cases "bit w 23"; cases "bit w 22"; elim disjE;
      simp add: bit_at_1 bit_at_0 swp_codes_def swp_fields_def swp_rows_def the_default_def)+

lemma fold_built: "length xs + length ops \<le> 5 \<Longrightarrow> fold push_operand ops (built out c m xs) = built out c m (xs @ ops)"
  by (induction ops arbitrary: xs) simp_all

lemma built_as_fold: "length ops \<le> 5 \<Longrightarrow> fold push_operand ops (insn_set c out) = built out c (code_mnemonic c) ops"
  by (simp add: fold_built)

lemma leaves_swp:
  assumes "bits w 27 3 = 7" "\<not> bit w 24" "\<not> bit w 25" "\<not> bit w 26" "bit w 21" "bits w 10 2 = 0"
    "bit w 15" "bits w 12 3 = 0" "has fs F_Lse"
  shows "leaves (ldst_leaf fs out w) out
    (emit_swp (bits w 30 2) (bit_at w 23) (bit_at w 22) (bits w 16 5) (bits w 5 5) (bits w 0 5) out)"
  unfolding emit_swp_def Let_def
  by (subst built_as_fold, simp, rule leaf_swp_row [OF assms(1-8) swp_code(1)]) (simp only: swp_code(2) assms(9))

section \<open>LD<op> and ST<op>\<close>

definition rmw_row :: "u32 \<Rightarrow> u32 \<Rightarrow> u32 \<Rightarrow> u32 \<Rightarrow> mnemonic \<Rightarrow> code \<Rightarrow> bool" where
  "rmw_row opc sz a r m c \<longleftrightarrow> atomic_opc c = Some opc \<and> code_feature c = F_Lse \<and> atomic_size_ord c m = Some (sz, a, r)"

definition rmw_rows :: "u32 \<Rightarrow> atomic_op \<Rightarrow> mnemonic \<Rightarrow> u32 \<Rightarrow> u32 \<Rightarrow> bool" where
  "rmw_rows opc op m a r \<longleftrightarrow>
     list_all (\<lambda>sz. case atomic_code sz a r op of Some c \<Rightarrow> rmw_row opc sz a r m c | None \<Rightarrow> False) [0, 1, 2, 3]"

lemma rmw_rows_all:
  assumes "spells m a r st" "(a, r) \<in> set orderings" "(opc, op) \<in> set atomic_ops"
  shows "rmw_rows opc op m a r"
proof -
  have s: "ord_from_mnem sz m = Some (sz, a, r)" for sz using assms(1) by (simp add: spells_def)
  note e = rmw_rows_def rmw_row_def atomic_code_def atomic_simple_def ordered_code_def atomic_opc_def atomic_size_ord_def
    atomic_size_rows_def s
  consider "opc = 0" "op = AtomicAdd" | "opc = 1" "op = AtomicClr" | "opc = 2" "op = AtomicEor" | "opc = 3" "op = AtomicSet"
    | "opc = 4" "op = AtomicSmax" | "opc = 5" "op = AtomicSmin" | "opc = 6" "op = AtomicUmax" | "opc = 7" "op = AtomicUmin"
    using assms(3) by (auto simp: atomic_ops_def)
  then show ?thesis
    using assms(2) by cases (simp_all, (elim disjE; simp add: e)+)
qed


lemma leaf_rmw_row:
  assumes "bits w 27 3 = 7" "\<not> bit w 24" "\<not> bit w 25" "\<not> bit w 26" "bit w 21" "bits w 10 2 = 0" "\<not> bit w 15"
    "rmw_row (bits w 12 3) (bits w 30 2) (bit_at w 23) (bit_at w 22) m c" "has fs F_Lse"
  shows "spells m (bit_at w 23) (bit_at w 22) False \<Longrightarrow> leaves (ldst_leaf fs out w) out
      (built out c m [gp_reg False wd (bits w 16 5), gp_reg False wd (bits w 0 5), mem_off (bits w 5 5) 0])"
    "spells m (bit_at w 23) (bit_at w 22) True \<Longrightarrow> bits w 0 5 = 31 \<Longrightarrow> leaves (ldst_leaf fs out w) out
      (built out c m [gp_reg False wd (bits w 16 5), mem_off (bits w 5 5) 0])"
  using layout_atomic [OF assms(1-6)] bit_at_0 [OF assms(7)] assms(8,9)
  by (intro ldst_leafI; simp add: rmw_row_def spells_def by_atomic enc_atomic_def Let_def ldst_enc_eval)+

lemma rmw_row_code:
  assumes "spells m (bit_at w 23) (bit_at w 22) st" "(bits w 12 3, op) \<in> set atomic_ops"
    "atomic_code (bits w 30 2) (bit_at w 23) (bit_at w 22) op = Some c"
  shows "rmw_row (bits w 12 3) (bits w 30 2) (bit_at w 23) (bit_at w 22) m c"
proof -
  have "(bit_at w 23, bit_at w 22) \<in> set orderings" by (cases "bit w 23"; cases "bit w 22"; simp add: bit_at_1 bit_at_0)
  from rmw_rows_all [OF assms(1) this assms(2)] show ?thesis
    using assms(3) bits_2_cases [of w 30] by (elim disjE) (simp_all add: rmw_rows_def)
qed

lemma leaves_rmw:
  assumes "bits w 27 3 = 7" "\<not> bit w 24" "\<not> bit w 25" "\<not> bit w 26" "bit w 21" "bits w 10 2 = 0" "\<not> bit w 15"
    "has fs F_Lse" "(bits w 12 3, op) \<in> set atomic_ops"
  shows "leaves (ldst_leaf fs out w) out
    (emit_atomic_rmw (bits w 30 2) (bit_at w 23) (bit_at w 22) op (bits w 16 5) (bits w 5 5) (bits w 0 5) out)"
proof (cases "atomic_code (bits w 30 2) (bit_at w 23) (bit_at w 22) op")
  case None
  then show ?thesis by (simp add: emit_atomic_rmw_def leaves_def)
next
  case (Some c)
  have l: "spells (ld_mnemonic op (bits w 30 2) (bit_at w 23) (bit_at w 22)) (bit_at w 23) (bit_at w 22) False"
    by (rule ld_spells)
  have s: "spells (st_mnemonic op (bits w 30 2) (bit_at w 22)) (bit_at w 23) (bit_at w 22) True" if "bit_at w 23 = 0"
    unfolding that by (rule st_spells)
  show ?thesis
    unfolding emit_atomic_rmw_def Some option.case Let_def
    using leaf_rmw_row(1) [OF assms(1-7) rmw_row_code [OF l assms(9) Some] assms(8) l]
      leaf_rmw_row(2) [OF assms(1-7) rmw_row_code [OF s assms(9) Some] assms(8) s]
    by simp
qed

section \<open>FEAT_LSFE\<close>

lemma layout_lsfe:
  assumes "bits w 27 3 = 7" "\<not> bit w 24" "\<not> bit w 25" "bit w 26" "bit w 21" "bits w 10 2 = 0"
  shows "lsfe_word (bits w 30 2) (bit_at w 23) (bit_at w 22) (bits w 16 5) (bit_at w 15) (bits w 12 3) (bits w 5 5) (bits w 0 5) = w"
  using ldst_op_bits [OF assms(1)] assms(2-5) ldst_op4_bits [OF assms(6)] by (simp add: lsfe_word_def to_bits)

definition lsfe_ops :: "(u32 \<times> nat) list" where
  "lsfe_ops = [(0b000, 0), (0b100, 1), (0b101, 2), (0b110, 3), (0b111, 4)]"

lemma lsfe_rows_of: "list_all (\<lambda>(c, x). lsfe_fields c = Some x) lsfe_rows"
  unfolding lsfe_fields_def by (rule map_of_rows) (simp add: lsfe_rows_def)

lemmas lsfe_fields_simps = lsfe_rows_of [unfolded lsfe_rows_def list.pred_inject prod.case]

lemma lsfe_tables:
  "list_all (\<lambda>(opc, k). list_all2 (\<lambda>c (a, r). lsfe_fields c = Some (0, a, r, opc, False, False) \<and> code_feature c = F_Lsfe) (lsfe_ld_f ! k) orderings) lsfe_ops"
  "list_all (\<lambda>(opc, k). list_all2 (\<lambda>c (a, r). lsfe_fields c = Some (0, a, r, opc, True, False) \<and> code_feature c = F_Lsfe) (lsfe_ld_bf ! k) orderings) lsfe_ops"
  "list_all (\<lambda>(opc, k). list_all2 (\<lambda>c (a, r). lsfe_fields c = Some (1, a, r, opc, False, True) \<and> code_feature c = F_Lsfe) (lsfe_st_f ! k) [(0, 0), (0, 1)]) lsfe_ops"
  "list_all (\<lambda>(opc, k). list_all2 (\<lambda>c (a, r). lsfe_fields c = Some (1, a, r, opc, True, True) \<and> code_feature c = F_Lsfe) (lsfe_st_bf ! k) [(0, 0), (0, 1)]) lsfe_ops"
  by (simp_all add: lsfe_ops_def lsfe_ld_f_def lsfe_ld_bf_def lsfe_st_f_def lsfe_st_bf_def lsfe_fields_simps)

lemma lsfe_ld_row:
  assumes "(bits w 12 3, k) \<in> set lsfe_ops"
  shows "lsfe_fields (lsfe_ld_code k (ord_of w) bf) = Some (0, bit_at w 23, bit_at w 22, bits w 12 3, bf, False) \<and>
    code_feature (lsfe_ld_code k (ord_of w) bf) = F_Lsfe"
proof -
  have t: "list_all2 (\<lambda>c (a, r). lsfe_fields c = Some (0, a, r, bits w 12 3, False, False) \<and> code_feature c = F_Lsfe) (lsfe_ld_f ! k) orderings"
    "list_all2 (\<lambda>c (a, r). lsfe_fields c = Some (0, a, r, bits w 12 3, True, False) \<and> code_feature c = F_Lsfe) (lsfe_ld_bf ! k) orderings"
    using lsfe_tables(1,2) assms by (auto simp: list_all_iff)
  show ?thesis
    unfolding lsfe_ld_code_def using quartet_nth [OF t(1), of w] quartet_nth [OF t(2), of w] by (cases bf) (simp_all only: if_True if_False)
qed

lemma couple_nth:
  assumes "list_all2 (\<lambda>c (a, r). P c a r) cs [(0 :: u32, 0 :: u32), (0, 1)]"
  shows "P (cs ! unat (bit_at w 22)) 0 (bit_at w 22)"
proof -
  have k: "unat (bit_at w 22) < length [(0 :: u32, 0 :: u32), (0, 1)]"
    "[(0 :: u32, 0 :: u32), (0, 1)] ! unat (bit_at w 22) = (0, bit_at w 22)"
    by (cases "bit w 22"; simp add: bit_at_1 bit_at_0)+
  show ?thesis using list_all2_nthD2 [OF assms k(1)] unfolding k(2) by simp
qed

lemma lsfe_st_row:
  assumes "(bits w 12 3, k) \<in> set lsfe_ops"
  shows "lsfe_fields (lsfe_st_code k (bit_at w 22) bf) = Some (1, 0, bit_at w 22, bits w 12 3, bf, True) \<and>
    code_feature (lsfe_st_code k (bit_at w 22) bf) = F_Lsfe"
proof -
  have t: "list_all2 (\<lambda>c (a, r). lsfe_fields c = Some (1, a, r, bits w 12 3, False, True) \<and> code_feature c = F_Lsfe) (lsfe_st_f ! k) [(0, 0), (0, 1)]"
    "list_all2 (\<lambda>c (a, r). lsfe_fields c = Some (1, a, r, bits w 12 3, True, True) \<and> code_feature c = F_Lsfe) (lsfe_st_bf ! k) [(0, 0), (0, 1)]"
    using lsfe_tables(3,4) assms by (auto simp: list_all_iff)
  show ?thesis
    unfolding lsfe_st_code_def Let_def using couple_nth [OF t(1), of w] couple_nth [OF t(2), of w]
    by (cases bf) (simp_all only: if_True if_False)
qed

lemma lsfe_size:
  "bits w 30 2 \<noteq> 0 \<Longrightarrow> map_of [(16, 1), (32, 2), (64, 3)] (width_bits (fp_reg (bits w 30 2) n)) = Some (bits w 30 2)"
  using bits_2_cases [of w 30] by (elim disjE) simp_all

lemma leaf_lsfe_row:
  assumes "bits w 27 3 = 7" "\<not> bit w 24" "\<not> bit w 25" "bit w 26" "bit w 21" "bits w 10 2 = 0" "has fs (code_feature c)"
  shows "\<not> bit w 15 \<Longrightarrow> lsfe_fields c = Some (0, bit_at w 23, bit_at w 22, bits w 12 3, bits w 30 2 = 0, False) \<Longrightarrow> leaves (ldst_leaf fs out w) out
      (built out c m [OpPlainReg (fp_reg (if bits w 30 2 = 0 then 1 else bits w 30 2) (bits w 16 5)),
         OpPlainReg (fp_reg (if bits w 30 2 = 0 then 1 else bits w 30 2) (bits w 0 5)), mem_off (bits w 5 5) 0])"
    "bit w 15 \<Longrightarrow> lsfe_fields c = Some (1, bit_at w 23, bit_at w 22, bits w 12 3, bits w 30 2 = 0, True) \<Longrightarrow> bits w 0 5 = 31 \<Longrightarrow>
      leaves (ldst_leaf fs out w) out
      (built out c m [OpPlainReg (fp_reg (if bits w 30 2 = 0 then 1 else bits w 30 2) (bits w 16 5)), mem_off (bits w 5 5) 0])"
  using layout_lsfe [OF assms(1-6)] assms(7) lsfe_size [of w "bits w 16 5"]
  by (intro ldst_leafI; cases "bits w 30 2 = 0"; simp add: by_lsfe enc_lsfe_def ldst_enc_eval bit_at_1 bit_at_0)+

lemma leaves_lsfe:
  assumes "bits w 27 3 = 7" "\<not> bit w 24" "\<not> bit w 25" "bit w 26" "bit w 21" "bits w 10 2 = 0"
  shows "leaves (ldst_leaf fs out w) out (decode_lsfe w fs out)"
proof (cases "has fs F_Lsfe")
  case False
  then show ?thesis by (simp add: decode_lsfe_def leaves_def)
next
  case f: True
  show ?thesis
  proof (cases "map_of lsfe_ops (bits w 12 3)")
    case None
    then show ?thesis by (simp add: decode_lsfe_def lsfe_ops_def leaves_def)
  next
    case (Some k)
    note m = map_of_SomeD [OF Some]
    show ?thesis
      using f Some leaf_lsfe_row(1) [OF assms, of _ "lsfe_ld_code k (ord_of w) (bits w 30 2 = 0)"] lsfe_ld_row [OF m]
        leaf_lsfe_row(2) [OF assms, of _ "lsfe_st_code k (bit_at w 22) (bits w 30 2 = 0)"] lsfe_st_row [OF m]
      unfolding decode_lsfe_def Let_def lsfe_ops_def
      by (cases "bit w 15"; cases "bit w 23") (simp_all add: bit_at_1 bit_at_0 leaves_def del: push_bit_of_1)
  qed
qed

section \<open>The atomic class\<close>

lemma leaves_atomic:
  assumes "bits w 27 3 = 7" "\<not> bit w 24" "\<not> bit w 25" "bit w 21" "bits w 10 2 = 0"
  shows "leaves (ldst_leaf fs out w) out (decode_atomic w fs out)"
proof (cases "bit w 26")
  case True
  then show ?thesis using leaves_lsfe [OF assms(1-3) True assms(4,5)] by (simp add: decode_atomic_def bit_at_1)
next
  case f: False
  note b = assms(1-3) f assms(4,5)
  have ldapr: "leaves (ldst_leaf fs out w) out
     (let code = (if bits w 30 2 = 0 then C_Ldaprb else if bits w 30 2 = 1 then C_Ldaprh else if bits w 30 2 = 2 then C_Ldapr32 else C_Ldapr64)
      in fold push_operand [gp_reg False wd (bits w 0 5), mem_off (bits w 5 5) 0] (insn_set code out))"
    if "bit_at w 15 = 1 \<and> bits w 12 3 = 4 \<and> bit_at w 23 = 1 \<and> bit_at w 22 = 0 \<and> bits w 16 5 = 31" for wd
    unfolding Let_def by (rule leaf_ldapr [OF b]) (use that in simp_all)
  have ls64: "leaves (ldst_leaf fs out w) out (decode_ls64 (bits w 12 3) (bits w 16 5) (bits w 5 5) (bits w 0 5) fs out)"
    if "bits w 30 2 = 3 \<and> bit_at w 15 = 1 \<and> bit_at w 23 = 0 \<and> bit_at w 22 = 0 \<and> ls64_form (bits w 12 3) (bits w 16 5) (bits w 0 5)"
    by (rule leaf_ls64 [OF b]) (use that in simp_all)
  have rcw: "leaves (ldst_leaf fs out w) out
     (case map_of rcw_codes (bits w 12 3, bits w 30 2 = 0) of
        None \<Rightarrow> out
      | Some codes \<Rightarrow>
         if \<not> has fs F_The then out
         else fold push_operand [gp_reg False X64 (bits w 16 5), gp_reg False X64 (bits w 0 5), mem_off (bits w 5 5) 0] (insn_set (codes ! ord_of w) out))"
    if "bit_at w 15 = 1 \<and> bits w 12 3 \<noteq> 0 \<and> bits w 30 2 \<le> 1"
  proof -
    have z: "bits w 30 2 = 0 \<or> bits w 30 2 = 1" using that bits_2_cases [of w 30] by (auto simp: word_le_nat_alt)
    have "leaves (ldst_leaf fs out w) out (fold push_operand [gp_reg False X64 (bits w 16 5), gp_reg False X64 (bits w 0 5), mem_off (bits w 5 5) 0]
       (insn_set (cs ! ord_of w) out))"
      if "map_of rcw_codes (bits w 12 3, bits w 30 2 = 0) = Some cs" "has fs F_The" for cs
      by (subst built_as_fold, simp, rule leaf_rcw [OF b _ z that(1)])
        (use \<open>bit_at w 15 = 1 \<and> _\<close> in simp, simp only: rcw_code(2) [OF z that(1)] that(2))
    then show ?thesis by (auto simp: leaves_def split: option.split)
  qed
  have rmw: "leaves (ldst_leaf fs out w) out
     (case map_of atomic_ops (bits w 12 3) of
        None \<Rightarrow> out
      | Some op \<Rightarrow> emit_atomic_rmw (bits w 30 2) (bit_at w 23) (bit_at w 22) op (bits w 16 5) (bits w 5 5) (bits w 0 5) out)"
    if "has fs F_Lse" "bit_at w 15 \<noteq> 1"
    using leaves_rmw [OF b _ that(1)] that(2) map_of_SomeD [of atomic_ops "bits w 12 3"]
    by (cases "bit w 15") (auto simp: leaves_def bit_at_1 bit_at_0 split: option.split)
  have swp: "leaves (ldst_leaf fs out w) out
     (emit_swp (bits w 30 2) (bit_at w 23) (bit_at w 22) (bits w 16 5) (bits w 5 5) (bits w 0 5) out)"
    if "\<not> \<not> has fs F_Lse" "bit_at w 15 = 1" "\<not> bits w 12 3 \<noteq> 0"
    using leaves_swp [OF b] that by simp
  show ?thesis
    unfolding decode_atomic_def bit_at_0 [OF f] Let_def
    by (intro leaves_if leaves_out; (rule leaves_out | erule notE, rule refl | rule ldapr [unfolded Let_def] ls64 rcw rmw swp; blast)?)
qed

section \<open>FEAT_THE and FEAT_LSE128\<close>

lemma layout_the:
  assumes "bits w 24 6 = 25" "bit w 21"
  shows "the_atomic_word (bits w 30 2) (bit_at w 23) (bit_at w 22) (bits w 16 5) (bit_at w 15) (bits w 12 3) (bits w 10 2) (bits w 5 5)
    (bits w 0 5) = w"
  using bits_eqD [OF assms(1), of 0] bits_eqD [OF assms(1), of 1] bits_eqD [OF assms(1), of 2] bits_eqD [OF assms(1), of 3]
    bits_eqD [OF assms(1), of 4] bits_eqD [OF assms(1), of 5] assms(2)
  by (simp add: the_atomic_word_def to_bits)

definition the_row :: "u32 \<Rightarrow> the_shape \<Rightarrow> feature \<Rightarrow> code \<Rightarrow> bool" where
  "the_row w shape feat c \<longleftrightarrow>
     the_atomic_fields c = Some (bits w 30 2, bit_at w 23, bit_at w 22, bit_at w 15, bits w 12 3, bits w 10 2, shape) \<and>
     code_feature c = feat"

lemma leaf_the:
  assumes "bits w 24 6 = 25" "bit w 21" "the_row w shape feat c" "has fs feat"
  shows "shape \<in> {SingleW, SingleX} \<Longrightarrow> leaves (ldst_leaf fs out w) out
      (built out c m [gp_reg False wd (bits w 16 5), gp_reg False wd (bits w 0 5), mem_off (bits w 5 5) 0])"
    "shape = PairShape \<Longrightarrow> \<not> (bits w 16 5 = 31 \<or> bits w 0 5 = 31) \<Longrightarrow> leaves (ldst_leaf fs out w) out
      (built out c m [gp_reg False wd (bits w 0 5), gp_reg False wd (bits w 16 5), mem_off (bits w 5 5) 0])"
    "shape = CasPair \<Longrightarrow> bits w 16 5 AND 1 = 0 \<Longrightarrow> bits w 0 5 AND 1 = 0 \<Longrightarrow> leaves (ldst_leaf fs out w) out
      (built out c m [gp_reg False wd (bits w 16 5), gp_reg False wd ((bits w 16 5 + 1) AND 31),
         gp_reg False wd (bits w 0 5), gp_reg False wd ((bits w 0 5 + 1) AND 31), mem_off (bits w 5 5) 0])"
  using layout_the [OF assms(1,2)] assms(3,4) cas_pair_regs_back(2) [of w out c m wd]
  by (intro ldst_leafI; auto simp: the_row_def by_the_atomic enc_the_atomic_def ldst_enc_eval simp del: and_one_eq)+

lemma the_quartet:
  assumes "list_all2 (\<lambda>c (a, r). the_atomic_fields c = Some (sz, a, r, o3, opc, op2, shape) \<and> code_feature c = feat) cs orderings"
    "bits w 30 2 = sz" "bit_at w 15 = o3" "bits w 12 3 = opc" "bits w 10 2 = op2"
  shows "the_row w shape feat (cs ! ord_of w)"
  using quartet_nth [OF assms(1), of w] by (simp only: the_row_def assms(2-5))

lemmas the_fields_eval = the_atomic_fields_def the_quartets_def quartet_ord_def

lemma if_sel: "b = 0 \<or> b = 1 \<Longrightarrow> (b = 0 \<Longrightarrow> P y) \<Longrightarrow> (b = 1 \<Longrightarrow> P x) \<Longrightarrow> P (if b = (1 :: u32) then x else y)"
  by auto

lemma ldt_rows:
  "list_all (\<lambda>((o3, opc), ws, xs).
     list_all2 (\<lambda>c (a, r). the_atomic_fields c = Some (0, a, r, o3, opc, 1, SingleW) \<and> code_feature c = F_The) ws orderings \<and>
     list_all2 (\<lambda>c (a, r). the_atomic_fields c = Some (1, a, r, o3, opc, 1, SingleX) \<and> code_feature c = F_The) xs orderings) ldt_codes"
  by (simp add: ldt_codes_def the_fields_eval)

lemma rcwcas_rows:
  "list_all2 (\<lambda>c (a, r). the_atomic_fields c = Some (1, a, r, 0, 0, 2, SingleX) \<and> code_feature c = F_The)
     [C_Rcwscas, C_Rcwscasl, C_Rcwscasa, C_Rcwscasal] orderings"
  "list_all2 (\<lambda>c (a, r). the_atomic_fields c = Some (0, a, r, 0, 0, 2, SingleX) \<and> code_feature c = F_The)
     [C_Rcwcas, C_Rcwcasl, C_Rcwcasa, C_Rcwcasal] orderings"
  "list_all2 (\<lambda>c (a, r). the_atomic_fields c = Some (1, a, r, 0, 0, 3, CasPair) \<and> code_feature c = F_The)
     [C_Rcwscasp, C_Rcwscaspl, C_Rcwscaspa, C_Rcwscaspal] orderings"
  "list_all2 (\<lambda>c (a, r). the_atomic_fields c = Some (0, a, r, 0, 0, 3, CasPair) \<and> code_feature c = F_The)
     [C_Rcwcasp, C_Rcwcaspl, C_Rcwcaspa, C_Rcwcaspal] orderings"
  by (simp_all add: the_fields_eval)

lemma pair_op_rows:
  "list_all (\<lambda>((o3, sz, opc), cs, feat).
     list_all2 (\<lambda>c (a, r). the_atomic_fields c = Some (sz, a, r, o3, opc, 0, PairShape) \<and> code_feature c = feat) cs orderings) pair_op_codes"
  by (simp add: pair_op_codes_def the_fields_eval)

lemma leaves_the_atomic:
  assumes "bits w 24 6 = 25" "bit w 21"
  shows "leaves (ldst_leaf fs out w) out (decode_the_atomic w fs out)"
proof -
  have z: "bits w 30 2 = 0 \<or> bits w 30 2 = 1" if "\<not> 1 < bits w 30 2"
    using that bits_2_cases [of w 30] by (auto simp: word_less_nat_alt)
  have one: "leaves (ldst_leaf fs out w) out
      (fold push_operand [gp_reg False wd (bits w 16 5), gp_reg False wd (bits w 0 5), mem_off (bits w 5 5) 0] (insn_set c out))"
    if "the_row w shape F_The c" "has fs F_The" "shape \<in> {SingleW, SingleX}" for c shape wd
    by (subst built_as_fold, simp, rule leaf_the(1) [OF assms that(1,2,3)])
  have ldt: "leaves (ldst_leaf fs out w) out
     (case map_of ldt_codes (bit_at w 15, bits w 12 3) of
        None \<Rightarrow> out
      | Some (codes_w, codes_x) \<Rightarrow>
          fold push_operand [gp_reg False (width_of (of_bool (bits w 30 2 = 1))) (bits w 16 5),
             gp_reg False (width_of (of_bool (bits w 30 2 = 1))) (bits w 0 5), mem_off (bits w 5 5) 0]
           (insn_set (if bits w 30 2 = 1 then codes_x ! ord_of w else codes_w ! ord_of w) out))"
    if "bits w 10 2 = 1" "\<not> 1 < bits w 30 2" "\<not> \<not> has fs F_The"
  proof (rule leaves_option, rule leaves_out)
    fix p assume m: "map_of ldt_codes (bit_at w 15, bits w 12 3) = Some p"
    obtain ws xs where p: "p = (ws, xs)" by (cases p)
    note l = bspec [OF ldt_rows [unfolded list_all_iff] map_of_SomeD [OF m], unfolded p prod.case]
    have "\<exists>shape. the_row w shape F_The (if bits w 30 2 = 1 then xs ! ord_of w else ws ! ord_of w) \<and> shape \<in> {SingleW, SingleX}"
      using z [OF that(2)]
    proof
      assume s: "bits w 30 2 = 0"
      show ?thesis using the_quartet [OF conjunct1 [OF l] s refl refl that(1)] unfolding s by (simp del: push_bit_of_1) blast
    next
      assume s: "bits w 30 2 = 1"
      show ?thesis using the_quartet [OF conjunct2 [OF l] s refl refl that(1)] unfolding s by (simp only: if_True simp_thms) blast
    qed
    then obtain shape where r: "the_row w shape F_The (if bits w 30 2 = 1 then xs ! ord_of w else ws ! ord_of w)" "shape \<in> {SingleW, SingleX}"
      by blast
    show "leaves (ldst_leaf fs out w) out (case p of (codes_w, codes_x) \<Rightarrow>
          fold push_operand [gp_reg False (width_of (of_bool (bits w 30 2 = 1))) (bits w 16 5),
             gp_reg False (width_of (of_bool (bits w 30 2 = 1))) (bits w 0 5), mem_off (bits w 5 5) 0]
           (insn_set (if bits w 30 2 = 1 then codes_x ! ord_of w else codes_w ! ord_of w) out))"
      unfolding p prod.case by (rule one [OF r(1) _ r(2)]) (use that(3) in blast)
  qed
  have cas: "leaves (ldst_leaf fs out w) out
      (fold push_operand [gp_reg False X64 (bits w 16 5), gp_reg False X64 (bits w 0 5), mem_off (bits w 5 5) 0]
         (insn_set (if bits w 30 2 = 1 then [C_Rcwscas, C_Rcwscasl, C_Rcwscasa, C_Rcwscasal] ! ord_of w
            else [C_Rcwcas, C_Rcwcasl, C_Rcwcasa, C_Rcwcasal] ! ord_of w) out))"
    if "bits w 10 2 = 2" "\<not> (1 < bits w 30 2 \<or> bit_at w 15 \<noteq> 0 \<or> bits w 12 3 \<noteq> 0)" "\<not> \<not> has fs F_The"
  proof -
    have f: "bit_at w 15 = 0" "bits w 12 3 = 0" "\<not> 1 < bits w 30 2" using that(2) by blast+
    have "the_row w SingleX F_The (if bits w 30 2 = 1 then [C_Rcwscas, C_Rcwscasl, C_Rcwscasa, C_Rcwscasal] ! ord_of w
            else [C_Rcwcas, C_Rcwcasl, C_Rcwcasa, C_Rcwcasal] ! ord_of w)"
      by (rule if_sel [OF z [OF f(3)]]; rule the_quartet [OF rcwcas_rows(2) _ f(1,2) that(1)] the_quartet [OF rcwcas_rows(1) _ f(1,2) that(1)])
    from one [OF this] that(3) show ?thesis by blast
  qed
  have casp: "leaves (ldst_leaf fs out w) out
      (fold push_operand [gp_reg False X64 (bits w 16 5), gp_reg False X64 ((bits w 16 5 + 1) AND 0x1f), gp_reg False X64 (bits w 0 5),
         gp_reg False X64 ((bits w 0 5 + 1) AND 0x1f), mem_off (bits w 5 5) 0]
         (insn_set (if bits w 30 2 = 1 then [C_Rcwscasp, C_Rcwscaspl, C_Rcwscaspa, C_Rcwscaspal] ! ord_of w
            else [C_Rcwcasp, C_Rcwcaspl, C_Rcwcaspa, C_Rcwcaspal] ! ord_of w) out))"
    if "bits w 10 2 = 3" "\<not> (1 < bits w 30 2 \<or> bit_at w 15 \<noteq> 0 \<or> bits w 12 3 \<noteq> 0)" "\<not> \<not> has fs F_The"
      "\<not> (bits w 16 5 AND 1 \<noteq> 0 \<or> bits w 0 5 AND 1 \<noteq> 0)"
  proof -
    have f: "bit_at w 15 = 0" "bits w 12 3 = 0" "\<not> 1 < bits w 30 2" using that(2) by blast+
    have r: "the_row w CasPair F_The (if bits w 30 2 = 1 then [C_Rcwscasp, C_Rcwscaspl, C_Rcwscaspa, C_Rcwscaspal] ! ord_of w
            else [C_Rcwcasp, C_Rcwcaspl, C_Rcwcaspa, C_Rcwcaspal] ! ord_of w)"
      by (rule if_sel [OF z [OF f(3)]]; rule the_quartet [OF rcwcas_rows(4) _ f(1,2) that(1)] the_quartet [OF rcwcas_rows(3) _ f(1,2) that(1)])
    show ?thesis
      by (subst built_as_fold, simp, rule leaf_the(3) [OF assms r _ refl]) (use that(3,4) in blast)+
  qed
  have pair: "leaves (ldst_leaf fs out w) out
       (fold push_operand [gp_reg False X64 (bits w 0 5), gp_reg False X64 (bits w 16 5), mem_off (bits w 5 5) 0] (insn_set (cs ! ord_of w) out))"
    if "map_of pair_op_codes (bit_at w 15, bits w 30 2, bits w 12 3) = Some (cs, feat)" "bits w 10 2 = 0" "has fs feat"
      "\<not> (bits w 16 5 = 31 \<or> bits w 0 5 = 31)" for cs feat
  proof -
    note l = bspec [OF pair_op_rows [unfolded list_all_iff] map_of_SomeD [OF that(1)], unfolded prod.case]
    show ?thesis
      by (subst built_as_fold, simp, rule leaf_the(2) [OF assms the_quartet [OF l refl refl refl that(2)] that(3) refl that(4)])
  qed
  have op2: "bits w 10 2 = 0" if "bits w 10 2 \<noteq> 1" "bits w 10 2 \<noteq> 2" "bits w 10 2 \<noteq> 3"
    using that bits_2_cases [of w 10] by blast
  have pairs: "leaves (ldst_leaf fs out w) out
     (case map_of pair_op_codes (bit_at w 15, bits w 30 2, bits w 12 3) of
        None \<Rightarrow> out
      | Some (codes, feat) \<Rightarrow>
         if \<not> has fs feat then out
         else if bits w 16 5 = 31 \<or> bits w 0 5 = 31 then out
         else fold push_operand [gp_reg False X64 (bits w 0 5), gp_reg False X64 (bits w 16 5), mem_off (bits w 5 5) 0]
           (insn_set (codes ! ord_of w) out))"
    if "bits w 10 2 \<noteq> 1" "bits w 10 2 \<noteq> 2" "bits w 10 2 \<noteq> 3"
  proof (rule leaves_option, rule leaves_out)
    fix p assume m: "map_of pair_op_codes (bit_at w 15, bits w 30 2, bits w 12 3) = Some p"
    obtain cs feat where p: "p = (cs, feat)" by (cases p)
    show "leaves (ldst_leaf fs out w) out
      (case p of (codes, feat) \<Rightarrow>
         if \<not> has fs feat then out
         else if bits w 16 5 = 31 \<or> bits w 0 5 = 31 then out
         else fold push_operand [gp_reg False X64 (bits w 0 5), gp_reg False X64 (bits w 16 5), mem_off (bits w 5 5) 0]
           (insn_set (codes ! ord_of w) out))"
      unfolding p prod.case
      by (intro leaves_if leaves_out; rule pair [OF m [unfolded p] op2 [OF that]]; blast)
  qed
  show ?thesis
    unfolding decode_the_atomic_def Let_def
    by (intro leaves_if leaves_out; (rule leaves_out | rule ldt cas casp pairs; blast)?)
qed

end
