(* ===== verification/Ldst_Codec.thy ===== *)
theory Ldst_Codec
  imports Ldst_Reg_Exact Ldst_Pair_Exact Ldst_Excl_Exact Ldst_Rcpc_Exact Ldst_Simd_Exact Ldst_Atomics_Exact Mops
begin

text \<open>
  Loads and stores as a codec: every leaf of \<open>decode_ldst\<close> is an instruction that the encoders of the group map to the canonical
  word, the codes of the group and their ranges, what the encoder depends on, and the interpretation of \<open>group_codec\<close>.
\<close>

section \<open>The dispatcher\<close>

lemma leaves_register:
  assumes "bits w 27 3 = 7" "\<not> bit w 25"
  shows "leaves (ldst_leaf fs out w) out (decode_ldst_register w fs out)"
proof -
  have o: "bits w 10 2 = 0 \<or> bits w 10 2 = 1 \<or> bits w 10 2 = 2 \<or> bits w 10 2 = 3" using bits_2_cases [of w 10] by auto
  have p: "bit w 10 \<longleftrightarrow> bits w 10 2 = 1 \<or> bits w 10 2 = 3" using o ldst_op4_bits(2) [OF refl, of w] by auto
  show ?thesis
  proof (cases "bit w 24")
    case True
    then show ?thesis using leaves_reg_unsigned assms by (simp add: decode_ldst_register_def bit_at_1)
  next
    case f: False
    note b = assms(1) f assms(2)
    show ?thesis
    proof (cases "bit w 21")
      case True
      have "leaves (ldst_leaf fs out w) out (decode_pac w fs out)" if "bits w 10 2 \<noteq> 2" "bits w 10 2 \<noteq> 0"
        by (rule leaves_pac [OF b True]) (use that o p in auto)
      then show ?thesis
        using f True leaves_reg_offset [OF b True] leaves_atomic [OF b True]
        by (simp add: decode_ldst_register_def bit_at_1 bit_at_0 split del: if_split) (intro leaves_if; simp)
    next
      case False
      have "leaves (ldst_leaf fs out w) out (decode_reg_immpre w out)" if "bits w 10 2 \<noteq> 0" "bits w 10 2 \<noteq> 1" "bits w 10 2 \<noteq> 2"
        unfolding decode_reg_immpre_def by (rule leaves_reg_immidx [OF b False]) (use that o in auto)
      moreover have "leaves (ldst_leaf fs out w) out (decode_reg_immpost w out)" if "bits w 10 2 = 1"
        unfolding decode_reg_immpost_def by (rule leaves_reg_immidx [OF b False]) (use that in simp)
      ultimately show ?thesis
        using f False leaves_reg_unscaled [OF b False] leaves_reg_unpriv [OF b False]
        by (simp add: decode_ldst_register_def bit_at_1 bit_at_0 split del: if_split) (intro leaves_if; simp)
    qed
  qed
qed

lemma leaves_tags_or_ldapstl:
  assumes "bits w 24 6 = 25"
  shows "leaves (ldst_leaf fs out w) out (decode_ldst_tags_or_ldapstl w fs out)"
  using leaves_tags [OF assms] leaves_the_atomic [OF assms] leaves_ldapstl [OF assms] leaves_ldiapp_stilp [OF assms]
    leaves_stlr_ldapr_wb [OF assms] leaves_gcsstr [OF assms]
  unfolding decode_ldst_tags_or_ldapstl_def
  by (cases "bit w 21"; cases "bit w 23") (simp_all add: bit_at_1 bit_at_0 split del: if_split, (intro leaves_if leaves_out; simp)+)

section \<open>The canonical word\<close>

definition canon_ldst :: "u32 \<Rightarrow> u32" where
  "canon_ldst w = (if bits w 24 6 \<in> {8, 9} then canon_excl w else w)"

definition encode_memory :: "insn \<Rightarrow> u32 encoded" where
  "encode_memory i = (if is_mops (i_code i) then encode_mops i else encode_ldst i)"

definition owns_memory :: "code \<Rightarrow> bool" where
  "owns_memory c \<longleftrightarrow> is_mops c \<or> is_ldst c"

definition in_ldst :: "u32 \<Rightarrow> bool" where
  "in_ldst w \<longleftrightarrow> bit w 27 \<and> \<not> bit w 25"

definition mops_leaf :: "feature_set \<Rightarrow> insn \<Rightarrow> u32 \<Rightarrow> insn \<Rightarrow> bool" where
  "mops_leaf fs out w d \<longleftrightarrow>
     (\<exists>c m ops. d = built out c m ops \<and> length ops \<le> 5 \<and> has fs (code_feature c) \<and> is_mops c \<and> encode_mops d = Ok w)"

definition memory_leaf :: "feature_set \<Rightarrow> insn \<Rightarrow> u32 \<Rightarrow> insn \<Rightarrow> bool" where
  "memory_leaf fs out w d \<longleftrightarrow> ldst_leaf fs out w d \<or> mops_leaf fs out w d"

lemma memory_leaves: "leaves (ldst_leaf fs out w) out d \<Longrightarrow> leaves (memory_leaf fs out w) out d"
  by (erule leaves_mono) (simp add: memory_leaf_def)

lemma mops_leafI:
  "encode_mops (built out c m ops) = Ok w \<Longrightarrow> has fs (code_feature c) \<Longrightarrow> is_mops c \<Longrightarrow> length ops \<le> 5 \<Longrightarrow>
   leaves (memory_leaf fs out w) out (built out c m ops)"
  by (auto simp: leaves_def memory_leaf_def mops_leaf_def)

lemma leaves_mops:
  assumes "is_mops_word w" "has fs F_Mops"
  shows "leaves (memory_leaf fs out w) out (decode_mops w out)"
proof (cases "map_of mops_code_rows (bit_at w 26, bits w 21 3, bits w 12 4)")
  case (Some c)
  note r = mops_code_SomeD [OF Some]
  show ?thesis
    unfolding decode_mops_def Let_def Some option.case
    by (intro leaves_if leaves_out;
        simp; intro mops_leafI; use r layout_mops [OF assms(1)] assms(2) in \<open>simp add: encode_mops_def reg_num_op\<close>)
qed (simp add: decode_mops_def Let_def)

lemma leaves_setg_option:
  assumes "is_setg_option_word w" "has fs F_Mops"
  shows "leaves (memory_leaf fs out w) out (decode_setg_option w out)"
proof (cases "bits w 16 5 = 31")
  case v: True
  show ?thesis
  proof (cases "map_of setg_option_rows (bits w 12 4)")
    case (Some c)
    note r = setg_option_SomeD [OF Some]
    show ?thesis
      unfolding decode_setg_option_def Let_def Some option.case
      by (intro leaves_if leaves_out;
          simp; intro mops_leafI; use r layout_setg_option [OF assms(1) v] assms(2) in \<open>simp add: encode_mops_def\<close>)
  qed (simp add: decode_setg_option_def Let_def)
qed (simp add: decode_setg_option_def)

lemma pair_class_bits: "bits w 27 3 = drop_bit 3 (bits w 24 6)"
  by (rule bit_word_eqI) (auto simp: bit_simps bit_bits)

lemma leaves_memory:
  assumes "in_ldst w" "bits w 27 3 = 3 \<Longrightarrow> bits w 24 2 = 0 \<Longrightarrow> i_ip out = ip"
  shows "leaves (memory_leaf fs out (canon_ldst w)) out (decode_ldst w ip fs out)"
proof -
  have b: "\<not> bit w 25" using assms(1) by (simp add: in_ldst_def)
  show ?thesis
  proof (cases "bits w 24 6 \<in> {8, 9}")
    case True
    then have "\<not> (bits w 27 3 = 3 \<and> bits w 24 2 = 0)" by (auto simp: pair_class_bits)
    then show ?thesis
      using True memory_leaves [OF leaves_exclusive] memory_leaves [OF leaves_lsui]
      by (auto simp: decode_ldst_def canon_ldst_def)
  next
    case False
    show ?thesis
      using False b leaves_mops leaves_setg_option memory_leaves [OF leaves_literal] assms(2)
        memory_leaves [OF leaves_ldst_simd] memory_leaves [OF leaves_tags_or_ldapstl] memory_leaves [OF leaves_fp_ldapstl]
        memory_leaves [OF leaves_pair] memory_leaves [OF leaves_register]
      unfolding decode_ldst_def canon_ldst_def
      by (intro leaves_if leaves_out) (simp_all add: b)
  qed
qed

section \<open>The codes of the group\<close>

definition ldst_range :: "(nat \<times> nat) list" where
  "ldst_range =
    [(5, 6), (116, 448), (451, 460), (463, 472), (475, 484), (487, 490), (493, 496), (499, 502), (505, 508), (824, 896), (1940, 1956),
     (2442, 2457), (2496, 2555), (2710, 2710), (2731, 2733), (2951, 2952)]"

lemma in_ranges_mono:
  "in_ranges rs c \<Longrightarrow> list_all (\<lambda>(a, b). list_ex (\<lambda>(lo, hi). lo \<le> a \<and> b \<le> hi) big) rs \<Longrightarrow> in_ranges big c"
proof -
  assume "in_ranges rs c" "list_all (\<lambda>(a, b). list_ex (\<lambda>(lo, hi). lo \<le> a \<and> b \<le> hi) big) rs"
  then obtain a b where r: "(a, b) \<in> set rs" "a \<le> code_disc c" "code_disc c \<le> b"
    and big: "\<forall>(a, b) \<in> set rs. \<exists>(lo, hi) \<in> set big. lo \<le> a \<and> b \<le> hi"
    by (auto simp: in_ranges_def list_ex_iff list_all_iff)
  from bspec [OF big r(1)] obtain lo hi where "(lo, hi) \<in> set big" "lo \<le> a" "b \<le> hi" by auto
  then show "in_ranges big c" using r unfolding in_ranges_def list_ex_iff by (intro bexI [of _ "(lo, hi)"]) auto
qed

lemma reg_form_in: "reg_form_of c = Some y \<Longrightarrow> in_ranges [(5, 5), (116, 168), (176, 189), (203, 218)] c"
  by (rule reg_variant_in [of c "fst y"]) (simp add: reg_variant_of_def)

lemma is_ldst_range: "is_ldst c \<Longrightarrow> in_ranges ldst_range c"
  unfolding is_ldst_def not_None_eq
  by (elim disjE exE;
      (rule in_ranges_mono, erule reg_form_in ldst_fields_in ldst_codes_in rcw_single_fields_in the_atomic_fields_in atomic_opc_in
         tag_is_in is_ldst_simd_in)?; simp add: ldst_range_def)

lemma encode_ldst_owned: "encode_ldst i = Ok w \<Longrightarrow> is_ldst (i_code i)"
proof (rule ccontr)
  assume "\<not> is_ldst (i_code i)"
  then have "encode_ldst i = Err EncUnsupported"
    unfolding is_ldst_def encode_ldst_def Let_def de_Morgan_disj not_not
    by (simp add: reg_variant_of_def atomic_fields_def)
  moreover assume "encode_ldst i = Ok w"
  ultimately show False by simp
qed

section \<open>The encoder looks only at the semantics\<close>

lemmas memory_operand_defs = reg_num_def mem_imm_def prefetch_rt_def rprfop_field_def data_reg_field_def recover_mem_ext_def
  excl_single_regs_def cas_pair_regs_def multireg_def recover_addr_def

lemmas register_enc_defs = enc_rprfm_def enc_literal_def enc_reg_unsigned_def enc_reg_unscaled_def enc_reg_immidx_def
  enc_fp_unscaled_or_idx_def enc_reg_unpriv_def enc_reg_offset_def enc_pair_def

lemmas atomic_enc_defs = enc_excl_single_def enc_excl_pair_def enc_ordered_def enc_cas_def enc_casp_def enc_lsui_excl_single_def
  enc_lsui_cas_def enc_lsui_casp_def enc_swp_def enc_rcw_single_def enc_the_atomic_def enc_atomic_def enc_lsfe_def enc_ldapr_def
  enc_ls64_def

lemmas group_enc_defs = enc_multiple_def enc_single_def enc_replicate_def encode_ldst_simd_def enc_gcsstr_def enc_pac_def
  enc_ldapstl_def enc_fp_ldapstl_def enc_ldiapp_stilp_def enc_ldapp_stlp_def enc_stlr_ldapr_wb_def enc_tags_def

lemma ldst_enc_same:
  assumes "wf_insn i" "wf_insn j" "same_semantics i j"
  shows "encode_ldst i = encode_ldst j"
proof -
  have o: "insn_op i n = insn_op j n" for n using same_semantics_op [OF assms] .
  have r: "insn_op_register i n = insn_op_register j n" for n by (simp add: insn_op_register_def o)
  have c: "i_code i = i_code j" "i_mnemonic i = i_mnemonic j" "i_ip i = i_ip j" using assms(3) by (simp_all add: same_semantics_def)
  note e = memory_operand_defs o r c
  have a: "enc_rprfm i = enc_rprfm j" "enc_literal i = enc_literal j" "enc_reg_unsigned i = enc_reg_unsigned j"
    "enc_reg_unscaled i = enc_reg_unscaled j" "enc_reg_immidx i = enc_reg_immidx j"
    "enc_fp_unscaled_or_idx i = enc_fp_unscaled_or_idx j" "enc_reg_unpriv i = enc_reg_unpriv j"
    "enc_reg_offset i = enc_reg_offset j" "enc_pair i = enc_pair j"
    by (simp_all only: register_enc_defs e)
  have b: "enc_excl_single i = enc_excl_single j" "enc_excl_pair i = enc_excl_pair j" "enc_ordered i = enc_ordered j"
    "enc_cas i = enc_cas j" "enc_casp i = enc_casp j" "enc_lsui_excl_single i = enc_lsui_excl_single j"
    "enc_lsui_cas i = enc_lsui_cas j" "enc_lsui_casp i = enc_lsui_casp j" "enc_swp i = enc_swp j"
    "enc_rcw_single i = enc_rcw_single j" "enc_the_atomic i = enc_the_atomic j" "enc_atomic i = enc_atomic j"
    "enc_lsfe i = enc_lsfe j" "enc_ldapr i = enc_ldapr j" "enc_ls64 i = enc_ls64 j"
    by (simp_all only: atomic_enc_defs e)
  have g: "encode_ldst_simd i = encode_ldst_simd j" "enc_gcsstr i = enc_gcsstr j" "enc_pac i = enc_pac j"
    "enc_ldapstl i = enc_ldapstl j" "enc_fp_ldapstl i = enc_fp_ldapstl j" "enc_ldiapp_stilp i = enc_ldiapp_stilp j"
    "enc_ldapp_stlp i = enc_ldapp_stlp j" "enc_stlr_ldapr_wb i = enc_stlr_ldapr_wb j" "enc_tags i = enc_tags j"
    by (simp_all only: group_enc_defs e)
  show ?thesis unfolding encode_ldst_def c a b g ..
qed

section \<open>Decoding the canonical word\<close>

lemma canon_excl_fields:
  "bits (canon_excl w) 24 6 = bits w 24 6" "bits (canon_excl w) 30 2 = bits w 30 2" "bits (canon_excl w) 5 5 = bits w 5 5"
  "bits (canon_excl w) 0 5 = bits w 0 5" "bit (canon_excl w) 31 = bit w 31" "bit (canon_excl w) 25 = bit w 25"
  "bit (canon_excl w) 27 = bit w 27" "bit_at (canon_excl w) 31 = bit_at w 31"
  "bit_at (canon_excl w) 23 = bit_at w 23" "bit_at (canon_excl w) 22 = bit_at w 22" "bit_at (canon_excl w) 21 = bit_at w 21"
  "bit_at (canon_excl w) 15 = bit_at w 15"
  "\<not> rs_free w \<Longrightarrow> bits (canon_excl w) 16 5 = bits w 16 5" "\<not> rt2_free w \<Longrightarrow> bits (canon_excl w) 10 5 = bits w 10 5"
  by (rule bit_word_eqI; auto simp: bit_bits bit_bit_at bit_canon_excl | simp add: bit_canon_excl)+

lemma same_exclusive:
  assumes "bits w 24 6 = 8" "same_semantics out out'"
  shows "same_semantics (decode_exclusive (canon_excl w) fs out) (decode_exclusive w fs out')"
proof -
  have b: "bits w 25 5 = 4" "\<not> bit w 24" using excl_class_bits [OF assms(1)] by simp_all
  have s: "bit_at (bits w 30 2) 1 = bit_at w 31" by (cases "bit w 31") (simp_all add: bit_bits)
  have i: "i_ip out = i_ip out'" using assms(2) by (simp add: same_semantics_def)
  have r: "bit w 21 \<Longrightarrow> \<not> rt2_free w" "\<not> bit w 23 \<Longrightarrow> \<not> bit w 21 \<Longrightarrow> \<not> bit w 22 \<Longrightarrow> \<not> rs_free w"
    "bit w 21 \<Longrightarrow> bit w 23 \<Longrightarrow> \<not> rs_free w" "\<not> bit w 23 \<Longrightarrow> bit w 21 \<Longrightarrow> \<not> bit w 22 \<Longrightarrow> \<not> rs_free w"
    "\<not> bit w 23 \<Longrightarrow> bit w 21 \<Longrightarrow> \<not> bit w 31 \<Longrightarrow> \<not> rs_free w"
    using b(2) by (auto simp: rs_free_def rt2_free_def)
  show ?thesis
    unfolding decode_exclusive_def Let_def canon_excl_fields(1-12) s decode_excl_single_def decode_excl_pair_def decode_casp_def
      decode_cas_def decode_ordered_def
    by (cases "bit w 21"; cases "bit w 22"; cases "bit w 23"; cases "bit w 31")
      (simp_all add: bit_at_1 bit_at_0 r canon_excl_fields(13,14) assms(2) i same_semantics_if)
qed

lemma same_lsui:
  assumes "bits w 24 6 = 9" "same_semantics out out'"
  shows "same_semantics (decode_lsui (canon_excl w) fs out) (decode_lsui w fs out')"
proof -
  have b: "bits w 25 5 = 4" "bit w 24" using excl_class_bits [OF assms(1)] by simp_all
  have s: "bit_at (bits w 30 2) 1 = bit_at w 31" by (cases "bit w 31") (simp_all add: bit_bits)
  have i: "i_ip out = i_ip out'" using assms(2) by (simp add: same_semantics_def)
  have r: "\<not> bit w 22 \<Longrightarrow> \<not> rs_free w" "bit w 23 \<Longrightarrow> \<not> rs_free w"
    using b(2) by (auto simp: rs_free_def)
  show ?thesis
    unfolding decode_lsui_def Let_def canon_excl_fields(1-12) s decode_lsui_excl_single_def decode_lsui_cas_def decode_lsui_casp_def
    by (cases "bit w 21"; cases "bit w 22"; cases "bit w 23"; cases "bit w 31")
      (simp_all add: bit_at_1 bit_at_0 r canon_excl_fields(13) assms(2) i same_semantics_if split: option.split)
qed

lemma canon_ldst_in: "in_ldst w \<Longrightarrow> in_ldst (canon_ldst w)"
  by (simp add: in_ldst_def canon_ldst_def canon_excl_fields)

lemma canon_decode:
  "same_semantics (decoded decode_ldst (canon_ldst w) ip fs) (decoded decode_ldst w ip fs)"
proof -
  consider "bits w 24 6 = 8" | "bits w 24 6 = 9" | "bits w 24 6 \<notin> {8, 9}" by blast
  then show ?thesis
  proof cases
    case 1
    then have "bits w 27 3 \<noteq> 3" by (auto simp: pair_class_bits)
    moreover have "bits (canon_excl w) 27 3 = bits w 27 3" using 1 by (simp add: pair_class_bits canon_excl_fields)
    ultimately show ?thesis
      using 1 same_exclusive [OF 1 same_invalid] by (auto simp: decoded_def decode_ldst_def canon_ldst_def canon_excl_fields)
  next
    case 2
    then have "bits w 27 3 \<noteq> 3" by (auto simp: pair_class_bits)
    moreover have "bits (canon_excl w) 27 3 = bits w 27 3" using 2 by (simp add: pair_class_bits canon_excl_fields)
    ultimately show ?thesis
      using 2 same_lsui [OF 2 same_invalid] by (auto simp: decoded_def decode_ldst_def canon_ldst_def canon_excl_fields)
  next
    case 3
    then show ?thesis by (simp add: canon_ldst_def)
  qed
qed

section \<open>The codec\<close>

lemma memory_leaf_enc:
  assumes "memory_leaf fs out w d" "i_code d \<notin> {c. is_mops c \<and> is_ldst c}"
  shows "encode_memory d = Ok w"
  using assms encode_ldst_owned [of d w] by (auto simp: memory_leaf_def mops_leaf_def ldst_leaf_def encode_memory_def)

lemma is_mops_in: "is_mops c \<Longrightarrow> in_ranges [(897, 1016), (2778, 2789)] c"
proof -
  have r: "rows_in [(897, 1016), (2778, 2789)] mops_fields_rows" "rows_in [(897, 1016), (2778, 2789)] setg_option_op2_rows"
    by (simp_all add: rows_in_def mops_fields_rows_def setg_option_op2_rows_def)
  assume "is_mops c"
  then show ?thesis using rows_in_None [OF r(1), of c] rows_in_None [OF r(2), of c]
    unfolding is_mops_def mops_fields_def setg_option_op2_def by metis
qed

lemma mops_not_ldst: "is_mops c \<Longrightarrow> \<not> is_ldst c"
proof
  assume "is_mops c" "is_ldst c"
  then have "in_ranges [(897, 1016), (2778, 2789)] c" "in_ranges ldst_range c" by (simp_all only: is_mops_in is_ldst_range)
  then show False by (cases c) (auto simp: ldst_range_def)
qed

lemma not_memory_Invalid: "\<not> owns_memory C_Invalid"
  using not_mops_Invalid is_ldst_range [of C_Invalid] by (auto simp: owns_memory_def ldst_range_def)

lemma memory_leaf_shape:
  "memory_leaf fs out w d \<Longrightarrow> \<exists>c m ops. d = built out c m ops \<and> owns_memory c \<and> length ops \<le> 5 \<and> admitted fs c"
  unfolding memory_leaf_def ldst_leaf_def mops_leaf_def owns_memory_def
  by (elim disjE exE conjE; intro exI conjI; (assumption | rule admitted_has)?; (use encode_ldst_owned [of d] in force)?)

lemma built_literal: "built_from owns_memory fs out (decode_literal w ip out)"
proof -
  have o: "owns_memory c" if "c \<in> set literal_codes" for c using that by (simp add: owns_memory_def is_ldst_def)
  show ?thesis
    unfolding decode_literal_def Let_def
    using bits_2_cases [of w 30]
    by (cases "bit w 26"; elim disjE) (simp_all add: bit_at_1 bit_at_0 built_from_built o literal_codes_def)
qed

lemma memory_built:
  assumes "in_ldst w"
  shows "built_from owns_memory fs out (decode_ldst w ip fs out)"
proof (cases "bits w 27 3 = 3 \<and> bits w 24 2 = 0")
  case True
  then show ?thesis using built_literal by (simp add: decode_ldst_def)
next
  case False
  then show ?thesis
    unfolding built_from_leaves by (intro leaves_mono [OF leaves_memory [OF assms]] memory_leaf_shape) auto
qed

lemma memory_enc_same:
  assumes "wf_insn i" "wf_insn j" "same_semantics i j"
  shows "encode_memory i = encode_memory j"
  using mops_enc_same [OF assms] ldst_enc_same [OF assms] assms(3) by (simp add: encode_memory_def same_semantics_def)

lemma memory_encode:
  assumes "in_ldst w" "i_code (decoded decode_ldst w ip fs) \<noteq> C_Invalid"
  shows "encode_memory (decoded decode_ldst w ip fs) = Ok (canon_ldst w)"
proof -
  have "i_ip (new_invalid w ip) = ip" "i_code (new_invalid w ip) = C_Invalid" by (simp_all add: new_invalid_def)
  then have "memory_leaf fs (new_invalid w ip) (canon_ldst w) (decoded decode_ldst w ip fs)"
    using leavesD [OF leaves_memory [OF assms(1)]] assms(2) unfolding decoded_def by metis
  then show ?thesis by (rule memory_leaf_enc) (use mops_not_ldst in blast)
qed

interpretation ldst: group_codec in_ldst decode_ldst encode_memory owns_memory
proof
  fix w ip fs
  assume g: "in_ldst w" "owns_memory (i_code (decoded decode_ldst w ip fs))"
  then have "i_code (decoded decode_ldst w ip fs) \<noteq> C_Invalid" using not_memory_Invalid by auto
  from memory_encode [OF g(1) this] canon_ldst_in [OF g(1)] canon_decode [of w ip fs]
  show "\<exists>w'. encode_memory (decoded decode_ldst w ip fs) = Ok w' \<and> in_ldst w' \<and>
      same_semantics (decoded decode_ldst w' ip fs) (decoded decode_ldst w ip fs)" by blast
qed (rule not_memory_Invalid memory_built memory_enc_same; assumption?)+

end
