(* ===== verification/Codec_Top.thy ===== *)
theory Codec_Top
  imports Dp_Reg_Correct Small_Groups_Correct Branch_Sys_Correct Dp_Imm_Correct Ldst_Codec
begin

text \<open>
  \<open>src/decode/mod.rs\<close> and \<open>src/encode/mod.rs\<close>: the two dispatchers, in the default build of the crate, which leaves the SVE and
  SME modules out (\<open>default = []\<close> in \<open>Cargo.toml\<close>).

  The group that this development does not model, SIMD and floating point, is an argument: a \<open>group\<close> is a group decoder, a
  group encoder and the codes it owns.  Every statement is for any such group, with what it needs of it as a hypothesis.
\<close>

section \<open>The group that is an argument\<close>

record group =
  g_decode :: "u32 \<Rightarrow> u64 \<Rightarrow> feature_set \<Rightarrow> insn \<Rightarrow> insn"
  g_encode :: "insn \<Rightarrow> u32 encoded"
  g_owns :: "code \<Rightarrow> bool"

section \<open>Decoding\<close>

text \<open>The stubs of a build without the features \<open>sme\<close> and \<open>sve\<close>.\<close>

definition decode_sme :: "u32 \<Rightarrow> u64 \<Rightarrow> feature_set \<Rightarrow> insn \<Rightarrow> insn" where
  "decode_sme word ip features out = out"

definition decode_sve :: "u32 \<Rightarrow> u64 \<Rightarrow> feature_set \<Rightarrow> insn \<Rightarrow> insn" where
  "decode_sve word ip features out = out"

definition decode_reserved :: "u32 \<Rightarrow> u64 \<Rightarrow> feature_set \<Rightarrow> insn \<Rightarrow> insn" where
  "decode_reserved word ip features out =
     (if drop_bit 16 word = 0 then push_operand (OpImmUnsigned (ucast (word AND 0xffff))) (insn_set C_Udf out)
      else if word AND 0xfffff800 = 0x00201000 then decode_apple word features out
      else if drop_bit 31 word = 1 then decode_sme word ip features out
      else out)"

definition decode_dispatch :: "group \<Rightarrow> u32 \<Rightarrow> u64 \<Rightarrow> feature_set \<Rightarrow> insn \<Rightarrow> insn" where
  "decode_dispatch gs word ip features out =
     (let op0 = drop_bit 25 word AND 0xF
      in if op0 = 0b0000 then decode_reserved word ip features out
         else if op0 = 0b0001 \<or> op0 = 0b0011 then out
         else if op0 = 0b0010 then decode_sve word ip features out
         else if op0 = 0b1000 \<or> op0 = 0b1001 then decode_dp_imm word ip features out
         else if op0 = 0b1010 \<or> op0 = 0b1011 then decode_branch_sys word ip features out
         else if op0 = 0b0100 \<or> op0 = 0b0110 \<or> op0 = 0b1100 \<or> op0 = 0b1110 then decode_ldst word ip features out
         else if op0 = 0b0101 \<or> op0 = 0b1101 then decode_dp_reg word ip features out
         else if op0 = 0b0111 \<or> op0 = 0b1111 then g_decode gs word ip features out
         else out)"

definition decode_into :: "group \<Rightarrow> u32 \<Rightarrow> u64 \<Rightarrow> feature_set \<Rightarrow> insn" where
  "decode_into gs word ip features = decode_dispatch gs word ip features (new_invalid word ip)"

definition decode :: "group \<Rightarrow> u32 \<Rightarrow> u64 \<Rightarrow> feature_set \<Rightarrow> insn" where
  "decode gs word ip features = decode_into gs word ip features"

section \<open>Encoding\<close>

definition is_sve :: "code \<Rightarrow> bool" where
  "is_sve code = False"

definition encode_sve :: "insn \<Rightarrow> u32 encoded" where
  "encode_sve insn = Err EncUnsupported"

definition is_sme :: "code \<Rightarrow> bool" where
  "is_sme code = False"

definition encode_sme :: "insn \<Rightarrow> u32 encoded" where
  "encode_sme insn = Err EncUnsupported"

definition encode :: "group \<Rightarrow> insn \<Rightarrow> u32 encoded" where
  "encode gs insn =
     (let code = i_code insn
      in if code = C_Invalid then Err EncInvalid
         else if is_dp_imm code then encode_dp_imm insn
         else if is_dp_reg code then encode_dp_reg insn
         else if is_branch_sys code then encode_branch_sys insn
         else if is_mops code then encode_mops insn
         else if is_ldst code then encode_ldst insn
         else if g_owns gs code then g_encode gs insn
         else if is_sve code then encode_sve insn
         else if is_sme code then encode_sme insn
         else if is_apple code then encode_apple insn
         else Err EncUnsupported)"

text \<open>\<open>u32::to_le_bytes\<close>, and the methods of \<open>Instruction\<close> over \<open>encode\<close>.\<close>

definition to_le_bytes :: "u32 \<Rightarrow> u8 list" where
  "to_le_bytes w = [ucast w, ucast (drop_bit 8 w), ucast (drop_bit 16 w), ucast (drop_bit 24 w)]"

definition encode_bytes :: "group \<Rightarrow> insn \<Rightarrow> u8 list encoded" where
  "encode_bytes gs insn = and_then (encode gs insn) (\<lambda>word. Ok (to_le_bytes word))"

text \<open>On an error nothing changes; on a panic the caller gets no instruction back, and the argument stands for it.\<close>

definition re_encode :: "group \<Rightarrow> insn \<Rightarrow> u32 encoded \<times> insn" where
  "re_encode gs insn =
     (case encode gs insn of
        Ok word \<Rightarrow> (Ok word, clear_modified (insn\<lparr>i_word := word\<rparr>))
      | Err e \<Rightarrow> (Err e, insn)
      | Panic \<Rightarrow> (Panic, insn))"

section \<open>The top-level fields\<close>

definition op0_of :: "u32 \<Rightarrow> u32" where
  "op0_of w = bits w 25 4"

lemma op0_eq: "drop_bit 25 w AND 0xF = op0_of w"
  by (simp add: op0_of_def bits_def mask_eq_exp_minus_1)

lemma op0_cases: "op0_of w \<in> {0, 1, 2, 3, 4, 5, 6, 7, 8, 9, 10, 11, 12, 13, 14, 15}"
  using bits_4_cases [of w 25] by (auto simp: op0_of_def)

text \<open>The words of each modelled group, as fields of the word.\<close>

lemma op0_groups:
  "op0_of w \<in> {8, 9} \<longleftrightarrow> bits w 26 3 = 0b100"
  "op0_of w \<in> {10, 11} \<longleftrightarrow> in_branch_sys w"
  "op0_of w \<in> {5, 13} \<longleftrightarrow> in_dp_reg w"
  "op0_of w \<in> {4, 6, 12, 14} \<longleftrightarrow> in_ldst w"
  "op0_of w = 0 \<longleftrightarrow> \<not> bit w 28 \<and> \<not> bit w 27 \<and> \<not> bit w 26 \<and> \<not> bit w 25"
  unfolding op0_of_def in_branch_sys_def in_dp_reg_def in_ldst_def by (auto simp: to_bits)

section \<open>Whose code is it\<close>

text \<open>The codes of a modelled group lie in a few ranges of the enumeration, and the ranges are disjoint; so the order of the
  encoder's arms does not matter for them.\<close>

definition dp_imm_range :: "(nat \<times> nat) list" where
  "dp_imm_range = [(1, 1), (3, 3), (8, 39), (2057, 2064)]"

definition dp_reg_range :: "(nat \<times> nat) list" where
  "dp_reg_range = [(2, 2), (105, 105), (511, 629), (1446, 1449), (2030, 2056), (2605, 2610)]"

definition branch_sys_range :: "(nat \<times> nat) list" where
  "branch_sys_range = [(4, 4), (40, 96), (108, 115), (1450, 1469), (1957, 1958), (2065, 2067), (2600, 2604), (2611, 2612), (2790, 2950)]"

definition mops_range :: "(nat \<times> nat) list" where
  "mops_range = [(897, 1016), (2778, 2789)]"

definition apple_range :: "(nat \<times> nat) list" where
  "apple_range = [(2953, 2978)]"

lemmas code_ranges = dp_imm_range_def dp_reg_range_def branch_sys_range_def mops_range_def ldst_range_def apple_range_def

lemma is_dp_imm_range: "is_dp_imm c \<Longrightarrow> in_ranges dp_imm_range c"
  unfolding is_dp_imm_def insert_iff empty_iff by (elim disjE; simp add: dp_imm_range_def)

lemma is_dp_reg_range: "is_dp_reg c \<Longrightarrow> in_ranges dp_reg_range c"
proof -
  have "list_all (in_ranges dp_reg_range) (logical_codes @ addsub_shifted_codes @ addsub_extended_codes @
      addsub_carry_codes @ [C_Rmif, C_Setf8, C_Setf16] @ cond_compare_codes @ cond_select_codes @ dp3_codes @
      [C_Addpt, C_Subpt] @ dp2_codes @ dp1_codes @ pauth_codes)"
    by (simp add: dp_reg_code_lists dp_reg_range_def)
  then show "is_dp_reg c \<Longrightarrow> in_ranges dp_reg_range c" unfolding is_dp_reg_dispatched list_all_iff by blast
qed

lemma is_branch_sys_range: "is_branch_sys c \<Longrightarrow> in_ranges branch_sys_range c"
  unfolding is_branch_sys_def insert_iff empty_iff by (elim disjE; simp add: branch_sys_range_def)

lemma is_mops_range: "is_mops c \<Longrightarrow> in_ranges mops_range c"
proof -
  have r: "list_all (\<lambda>x. in_ranges mops_range (fst x)) mops_fields_rows" "list_all (\<lambda>x. in_ranges mops_range (fst x)) setg_option_op2_rows"
    by (simp_all add: mops_fields_rows_def setg_option_op2_rows_def mops_range_def)
  assume "is_mops c"
  then obtain y z where "map_of mops_fields_rows c = Some y \<or> map_of setg_option_op2_rows c = Some z"
    by (auto simp: is_mops_def mops_fields_def setg_option_op2_def)
  then show "in_ranges mops_range c" using r by (auto simp: list_all_iff dest!: map_of_SomeD)
qed

lemma is_apple_range: "is_apple c \<Longrightarrow> in_ranges apple_range c"
  unfolding is_apple_def insert_iff empty_iff by (elim disjE; simp add: apple_range_def)

lemma invalid_range:
  "\<not> in_ranges dp_imm_range C_Invalid" "\<not> in_ranges dp_reg_range C_Invalid" "\<not> in_ranges branch_sys_range C_Invalid"
  "\<not> in_ranges mops_range C_Invalid" "\<not> in_ranges ldst_range C_Invalid" "\<not> in_ranges apple_range C_Invalid"
  by (simp_all add: code_ranges)

lemma ranges_disjoint:
  "in_ranges dp_reg_range c \<Longrightarrow> \<not> in_ranges dp_imm_range c"
  "in_ranges branch_sys_range c \<Longrightarrow> \<not> in_ranges dp_imm_range c \<and> \<not> in_ranges dp_reg_range c"
  "in_ranges mops_range c \<Longrightarrow> \<not> in_ranges dp_imm_range c \<and> \<not> in_ranges dp_reg_range c \<and> \<not> in_ranges branch_sys_range c"
  "in_ranges ldst_range c \<Longrightarrow>
    \<not> in_ranges dp_imm_range c \<and> \<not> in_ranges dp_reg_range c \<and> \<not> in_ranges branch_sys_range c \<and> \<not> in_ranges mops_range c"
  "in_ranges apple_range c \<Longrightarrow>
    \<not> in_ranges dp_imm_range c \<and> \<not> in_ranges dp_reg_range c \<and> \<not> in_ranges branch_sys_range c \<and> \<not> in_ranges mops_range c \<and>
    \<not> in_ranges ldst_range c"
  by (cases c; auto simp: code_ranges)+

lemmas group_range = is_dp_imm_range is_dp_reg_range is_branch_sys_range is_mops_range is_ldst_range is_apple_range

lemma owners_disjoint:
  "is_dp_imm c \<Longrightarrow> c \<noteq> C_Invalid"
  "is_dp_reg c \<Longrightarrow> c \<noteq> C_Invalid \<and> \<not> is_dp_imm c"
  "is_branch_sys c \<Longrightarrow> c \<noteq> C_Invalid \<and> \<not> is_dp_imm c \<and> \<not> is_dp_reg c"
  "is_mops c \<Longrightarrow> c \<noteq> C_Invalid \<and> \<not> is_dp_imm c \<and> \<not> is_dp_reg c \<and> \<not> is_branch_sys c"
  "is_ldst c \<Longrightarrow> c \<noteq> C_Invalid \<and> \<not> is_dp_imm c \<and> \<not> is_dp_reg c \<and> \<not> is_branch_sys c \<and> \<not> is_mops c"
  "is_apple c \<Longrightarrow> c \<noteq> C_Invalid \<and> \<not> is_dp_imm c \<and> \<not> is_dp_reg c \<and> \<not> is_branch_sys c \<and> \<not> is_mops c \<and> \<not> is_ldst c"
  using invalid_range ranges_disjoint [of c] group_range by metis+

text \<open>The arms of \<open>encode\<close> for the modelled groups.\<close>

lemma encode_arms:
  "is_dp_imm (i_code i) \<Longrightarrow> encode gs i = encode_dp_imm i"
  "is_dp_reg (i_code i) \<Longrightarrow> encode gs i = encode_dp_reg i"
  "is_branch_sys (i_code i) \<Longrightarrow> encode gs i = encode_branch_sys i"
  "is_mops (i_code i) \<Longrightarrow> encode gs i = encode_mops i"
  "is_apple (i_code i) \<Longrightarrow> \<not> g_owns gs (i_code i) \<Longrightarrow> encode gs i = encode_apple i"
  "i_code i = C_Invalid \<Longrightarrow> encode gs i = Err EncInvalid"
  "owns_memory (i_code i) \<Longrightarrow> encode gs i = encode_memory i"
  by (auto simp: encode_def Let_def owners_disjoint is_sve_def is_sme_def owns_memory_def encode_memory_def)

text \<open>The arms of \<open>decode\<close>.\<close>

definition in_reserved :: "u32 \<Rightarrow> bool" where
  "in_reserved w \<longleftrightarrow> op0_of w = 0"

definition in_auti_sppc :: "u32 \<Rightarrow> bool" where
  "in_auti_sppc w \<longleftrightarrow> w AND 0xFFC0001F = 0xF380001F"

lemma decode_arms:
  "in_dp_imm w \<Longrightarrow> decode_dispatch gs w ip fs out = decode_dp_imm w ip fs out"
  "in_auti_sppc w \<Longrightarrow> decode_dispatch gs w ip fs out = (if has fs F_PauthLr then decode_auti_sppc w out else out)"
  "in_branch_sys w \<Longrightarrow> decode_dispatch gs w ip fs out = decode_branch_sys w ip fs out"
  "in_dp_reg w \<Longrightarrow> decode_dispatch gs w ip fs out = decode_dp_reg w ip fs out"
  "in_reserved w \<Longrightarrow> decode_dispatch gs w ip fs out = decode_reserved w ip fs out"
  "in_ldst w \<Longrightarrow> decode_dispatch gs w ip fs out = decode_ldst w ip fs out"
proof -
  show "in_ldst w \<Longrightarrow> decode_dispatch gs w ip fs out = decode_ldst w ip fs out"
    using op0_groups(4) [of w] by (auto simp: decode_dispatch_def op0_eq)
  show "in_dp_imm w \<Longrightarrow> decode_dispatch gs w ip fs out = decode_dp_imm w ip fs out"
    using op0_groups(1) [of w] by (auto simp: decode_dispatch_def op0_eq in_dp_imm_def)
  show "in_branch_sys w \<Longrightarrow> decode_dispatch gs w ip fs out = decode_branch_sys w ip fs out"
    using op0_groups(2) [of w] by (auto simp: decode_dispatch_def op0_eq)
  show "in_dp_reg w \<Longrightarrow> decode_dispatch gs w ip fs out = decode_dp_reg w ip fs out"
    using op0_groups(3) [of w] by (auto simp: decode_dispatch_def op0_eq)
  show "in_reserved w \<Longrightarrow> decode_dispatch gs w ip fs out = decode_reserved w ip fs out"
    by (simp add: decode_dispatch_def op0_eq in_reserved_def)
  assume a: "in_auti_sppc w"
  then have "bits w 26 3 = 0b100" unfolding in_auti_sppc_def by (simp add: to_bits)
  then show "decode_dispatch gs w ip fs out = (if has fs F_PauthLr then decode_auti_sppc w out else out)"
    using op0_groups(1) [of w] a by (auto simp: decode_dispatch_def op0_eq decode_dp_imm_def in_auti_sppc_def)
qed

section \<open>The round trip through both dispatchers\<close>

text \<open>The words that the modelled groups decode: everything but SIMD and floating point (\<open>x111\<close>).\<close>

definition modelled_word :: "u32 \<Rightarrow> bool" where
  "modelled_word w \<longleftrightarrow> op0_of w \<notin> {7, 15}"

lemma modelled_cases:
  assumes "modelled_word w"
  obtains "in_dp_imm w" | "in_auti_sppc w" | "in_branch_sys w" | "in_dp_reg w" | "in_ldst w" | "in_reserved w" | "op0_of w \<in> {1, 2, 3}"
proof -
  from op0_cases [of w] assms consider "op0_of w = 0" | "op0_of w \<in> {1, 2, 3}" | "op0_of w \<in> {8, 9}" | "op0_of w \<in> {10, 11}"
    | "op0_of w \<in> {4, 6, 12, 14}" | "op0_of w \<in> {5, 13}"
    unfolding modelled_word_def by fastforce
  then show ?thesis
    using that op0_groups(1-4) [of w] unfolding in_dp_imm_def in_auti_sppc_def in_reserved_def by cases blast+
qed

text \<open>What the argument must not do: claim an Apple code, whose arm comes after its own.\<close>

definition spares_apple :: "group \<Rightarrow> bool" where
  "spares_apple gs \<longleftrightarrow> (\<forall>c. is_apple c \<longrightarrow> \<not> g_owns gs c)"

lemma udf_layout: "drop_bit 16 w = (0 :: u32) \<Longrightarrow> w AND 0xffff = w"
proof -
  assume z: "drop_bit 16 w = 0"
  have m: "(0xffff :: u32) = mask 16" by (simp add: mask_eq_exp_minus_1)
  show ?thesis unfolding m
  proof (rule bit_word_eqI)
    fix n assume "n < LENGTH(32)"
    have "\<not> bit w n" if "16 \<le> n"
    proof -
      have "bit (drop_bit 16 w) (n - 16) = bit w n" using that by (simp add: bit_drop_bit_eq)
      then show ?thesis using z by simp
    qed
    then show "bit (w AND mask 16) n = bit w n" by (cases "16 \<le> n") (auto simp: bit_simps)
  qed
qed

text \<open>The round trip of one word, and how a group's codec gives it for the words it is given.\<close>

definition returns :: "group \<Rightarrow> u32 \<Rightarrow> u64 \<Rightarrow> feature_set \<Rightarrow> bool" where
  "returns gs w ip fs \<longleftrightarrow>
     (\<exists>v. encode gs (decode gs w ip fs) = Ok v \<and> modelled_word v \<and> same_semantics (decode gs v ip fs) (decode gs w ip fs) \<and>
          encode gs (decode gs v ip fs) = Ok v)"

lemma decode_decoded: "decode gs w ip fs = decoded (decode_dispatch gs) w ip fs"
  by (simp add: decode_def decode_into_def decoded_def)

context group_codec
begin

lemma returns_via:
  assumes "in_group w" "i_code (decoded dec w ip fs) \<noteq> C_Invalid"
    and d: "\<And>v. in_group v \<Longrightarrow> decode gs v ip fs = decoded dec v ip fs"
    and e: "\<And>v. in_group v \<Longrightarrow> owned (i_code (decoded dec v ip fs)) \<Longrightarrow> encode gs (decoded dec v ip fs) = enc (decoded dec v ip fs)"
    and m: "\<And>v. in_group v \<Longrightarrow> modelled_word v"
  shows "returns gs w ip fs"
proof -
  have o: "owned (i_code (decoded dec w ip fs))" using assms dec_owned by blast
  from round_trip [OF assms(1) this] obtain v where v: "enc (decoded dec w ip fs) = Ok v" "in_group v"
    "same_semantics (decoded dec v ip fs) (decoded dec w ip fs)" by blast
  have "enc (decoded dec v ip fs) = Ok v" by (rule canonical [OF assms(1,2) v(1)])
  moreover have "owned (i_code (decoded dec v ip fs))" using v(3) o by (simp add: same_semantics_def)
  ultimately show ?thesis
    unfolding returns_def d [OF assms(1)] using v o d [OF v(2)] e [OF v(2)] e [OF assms(1)] m [OF v(2)] by auto
qed

end

lemma modelled_words:
  "in_dp_imm w \<Longrightarrow> modelled_word w" "in_branch_sys w \<Longrightarrow> modelled_word w" "in_dp_reg w \<Longrightarrow> modelled_word w"
  "in_reserved w \<Longrightarrow> modelled_word w" "in_auti_sppc w \<Longrightarrow> modelled_word w" "in_ldst w \<Longrightarrow> modelled_word w"
  using op0_groups(1-4) [of w] decode_arms
  by (auto simp: modelled_word_def in_dp_imm_def in_reserved_def in_auti_sppc_def to_bits)

lemma encode_reserved:
  assumes "in_reserved w" "spares_apple gs" "i_code (decode gs w ip fs) \<noteq> C_Invalid"
  shows "encode gs (decode gs w ip fs) = Ok w"
proof (cases "drop_bit 16 w = 0")
  case True
  have u: "is_branch_sys C_Udf" by (simp add: is_branch_sys_def)
  have "w AND 0xffff = bits w 0 16" by (simp add: bits_def)
  then have w: "bits w 0 16 = w" "(ucast w :: u64) \<le> 0xffff"
    using udf_layout [OF True] field_bounds_u64(5) [of w 0] by simp_all
  have d: "decode gs w ip fs = built (new_invalid w ip) C_Udf (code_mnemonic C_Udf) [OpImmUnsigned (ucast w)]"
    using udf_layout [OF True] by (simp add: decode_decoded decoded_def decode_arms(5) [OF assms(1)] decode_reserved_def True)
  have "encode gs (decode gs w ip fs) = encode_branch_sys (decode gs w ip fs)" by (rule encode_arms) (simp add: d u)
  also have "\<dots> = enc_udf (decode gs w ip fs)" by (simp add: d encode_branch_sys_def)
  also have "\<dots> = Ok w" using w by (simp add: d enc_udf_def imm_u_op ucast_field_u64)
  finally show ?thesis .
next
  case False
  then have d: "decode gs w ip fs = decoded (\<lambda>w ip. decode_apple w) w ip fs"
    using assms(3) by (auto simp: decode_decoded decoded_def decode_arms(5) [OF assms(1)] decode_reserved_def decode_sme_def
      new_invalid_def split: if_splits)
  then have a: "encode_apple (decode gs w ip fs) = Ok w" "is_apple (i_code (decode gs w ip fs))"
    using apple.exact [of w ip fs] apple.dec_owned [of w ip fs] assms(3) by simp_all
  then show ?thesis using assms(2) encode_arms(5) by (simp add: spares_apple_def)
qed

lemma encode_auti_sppc:
  assumes "in_auti_sppc w" "i_code (decode gs w ip fs) \<noteq> C_Invalid"
  shows "encode gs (decode gs w ip fs) = Ok w"
proof -
  have d: "decode gs w ip fs = decode_auti_sppc w (new_invalid w ip)"
    using assms(2) by (auto simp: decode_decoded decoded_def decode_arms(2) [OF assms(1)] new_invalid_def split: if_splits)
  have c: "i_code (decode gs w ip fs) \<in> {C_Autiasppc, C_Autibsppc}" by (simp add: d decode_auti_sppc_def push_sppc_label_def Let_def)
  have u: "is_branch_sys C_Autiasppc" "is_branch_sys C_Autibsppc" by (simp_all add: is_branch_sys_def)
  have "encode gs (decode gs w ip fs) = encode_branch_sys (decode gs w ip fs)" by (rule encode_arms) (use c u in auto)
  also have "\<dots> = enc_pauth_lr_sppc (decode gs w ip fs)" using c by (auto simp: encode_branch_sys_def)
  also have "\<dots> = Ok w" unfolding d by (rule exact_sppc(1)) (use assms(1) in \<open>simp_all add: in_auti_sppc_def\<close>)
  finally show ?thesis .
qed

lemma returns_modelled:
  assumes "modelled_word w" "spares_apple gs" "i_code (decode gs w ip fs) \<noteq> C_Invalid"
  shows "returns gs w ip fs"
proof -
  have exact: "returns gs w ip fs" if "encode gs (decode gs w ip fs) = Ok w"
    using that assms(1) by (auto simp: returns_def)
  have arm: "decode gs v ip fs = decoded dec v ip fs" if "decode_dispatch gs v ip fs (new_invalid v ip) = dec v ip fs (new_invalid v ip)" for v dec
    using that by (simp add: decode_decoded decoded_def)
  note dis = decode_arms [where gs = gs and ip = ip and fs = fs]
  from assms(1) show "returns gs w ip fs"
  proof (cases rule: modelled_cases)
    case 1
    then show ?thesis
      using assms(3) arm dis(1) encode_arms(1) modelled_words(1) by (intro dp_imm.returns_via) auto
  next
    case 2
    show ?thesis by (rule exact [OF encode_auti_sppc [OF 2 assms(3)]])
  next
    case 3
    then show ?thesis
      using assms(3) arm dis(3) encode_arms(3) modelled_words(2) by (intro branch_sys.returns_via) auto
  next
    case 4
    then show ?thesis
      using assms(3) arm dis(4) encode_arms(2) modelled_words(3) by (intro dp_reg.returns_via) auto
  next
    case 5
    then show ?thesis
      using assms(3) arm dis(6) encode_arms(7) modelled_words(6) by (intro ldst.returns_via) auto
  next
    case 6
    show ?thesis by (rule exact [OF encode_reserved [OF 6 assms(2,3)]])
  next
    case 7
    then have "decode gs w ip fs = new_invalid w ip"
      by (auto simp: decode_decoded decoded_def decode_dispatch_def op0_eq decode_sve_def)
    then show ?thesis using assms(3) by (simp add: new_invalid_def)
  qed
qed

section \<open>What the dispatcher builds\<close>

text \<open>What an edited instruction asks of the group that is an argument: its encoder looks at the code, the mnemonic, the address and the
  live operands only.\<close>

definition semantic_group :: "group \<Rightarrow> bool" where
  "semantic_group g \<longleftrightarrow> (\<forall>i j. wf_insn i \<longrightarrow> wf_insn j \<longrightarrow> same_semantics i j \<longrightarrow> g_encode g i = g_encode g j)"

text \<open>The codes that a word may get, by its top-level field.\<close>

definition word_owns :: "u32 \<Rightarrow> code \<Rightarrow> bool" where
  "word_owns w c \<longleftrightarrow>
     (if op0_of w = 0 then c = C_Udf \<or> is_apple c
      else if op0_of w \<in> {8, 9} then is_dp_imm c \<or> c \<in> {C_Autiasppc, C_Autibsppc}
      else if op0_of w \<in> {10, 11} then is_branch_sys c
      else if op0_of w \<in> {4, 6, 12, 14} then owns_memory c
      else if op0_of w \<in> {5, 13} then is_dp_reg c
      else False)"

lemma built_from_mono: "built_from P fs out d \<Longrightarrow> (\<And>c. P c \<Longrightarrow> Q c) \<Longrightarrow> built_from Q fs out d"
  by (auto simp: built_from_def)

lemma has_Udf: "has fs (code_feature C_Udf)"
  by simp

lemma built_auti_sppc:
  "has fs F_PauthLr \<Longrightarrow> built_from (\<lambda>c. c \<in> {C_Autiasppc, C_Autibsppc}) fs out (decode_auti_sppc w out)"
  by (simp add: decode_auti_sppc_def push_sppc_label_def Let_def built_from_built)

lemma built_reserved: "built_from (\<lambda>c. c = C_Udf \<or> is_apple c) fs out (decode_reserved w ip fs out)"
proof -
  have "built_from (\<lambda>c. c = C_Udf \<or> is_apple c) fs out (decode_apple w fs out)"
    by (rule built_from_mono [OF built_apple]) simp
  then show ?thesis
    unfolding decode_reserved_def decode_sme_def
    by (intro built_split) (simp_all add: built_from_built)
qed

lemma decode_dispatch_built:
  assumes "modelled_word w"
  shows "built_from (word_owns w) fs out (decode_dispatch gs w ip fs out)"
proof -
  from op0_cases [of w] assms consider "op0_of w = 0" | "op0_of w \<in> {1, 2, 3}" | "op0_of w \<in> {8, 9}" | "op0_of w \<in> {10, 11}"
    | "op0_of w \<in> {4, 6, 12, 14}" | "op0_of w \<in> {5, 13}" unfolding modelled_word_def by fastforce
  then show ?thesis
  proof cases
    case 1
    then have "word_owns w = (\<lambda>c. c = C_Udf \<or> is_apple c)" by (simp add: word_owns_def fun_eq_iff)
    then show ?thesis using built_reserved decode_arms(5) 1 by (simp add: in_reserved_def)
  next
    case 2
    then show ?thesis by (auto simp: decode_dispatch_def op0_eq decode_sve_def)
  next
    case 3
    then have e: "word_owns w = (\<lambda>c. is_dp_imm c \<or> c \<in> {C_Autiasppc, C_Autibsppc})" by (auto simp: word_owns_def fun_eq_iff)
    show ?thesis
    proof (cases "in_auti_sppc w")
      case True
      have "built_from (word_owns w) fs out (decode_auti_sppc w out)" if "has fs F_PauthLr"
        by (rule built_from_mono [OF built_auti_sppc [OF that]]) (simp add: e)
      then show ?thesis by (simp add: decode_arms(2) [OF True])
    next
      case False
      then have i: "in_dp_imm w" using 3 op0_groups(1) [of w] by (simp add: in_dp_imm_def in_auti_sppc_def)
      have "built_from (word_owns w) fs out (decode_dp_imm w ip fs out)"
        by (rule built_from_mono [OF decode_dp_imm_built [OF i]]) (simp add: e)
      then show ?thesis by (simp add: decode_arms(1) [OF i])
    qed
  next
    case 4
    then have "word_owns w = is_branch_sys" "in_branch_sys w"
      using op0_groups(2) [of w] by (auto simp: word_owns_def fun_eq_iff)
    then show ?thesis using branch_sys.dec_built decode_arms(3) by simp
  next
    case 5
    then have "word_owns w = owns_memory" "in_ldst w"
      using op0_groups(4) [of w] by (auto simp: word_owns_def fun_eq_iff)
    then show ?thesis using ldst.dec_built decode_arms(6) by simp
  next
    case 6
    then have "word_owns w = is_dp_reg" "in_dp_reg w"
      using op0_groups(3) [of w] by (auto simp: word_owns_def fun_eq_iff)
    then show ?thesis using dp_reg.dec_built decode_arms(4) by simp
  qed
qed

lemma decode_built: "modelled_word w \<Longrightarrow> built_from (word_owns w) fs (new_invalid w ip) (decode gs w ip fs)"
  unfolding decode_decoded decoded_def by (rule decode_dispatch_built)

text \<open>The encoder depends on the semantics of the instruction only.\<close>

lemma encode_same:
  assumes "semantic_group gs" "wf_insn i" "wf_insn j" "same_semantics i j"
  shows "encode gs i = encode gs j"
proof -
  have c: "i_code i = i_code j" using assms(4) by (simp add: same_semantics_def)
  have e: "encode_dp_imm i = encode_dp_imm j" "encode_dp_reg i = encode_dp_reg j" "encode_branch_sys i = encode_branch_sys j"
    "encode_mops i = encode_mops j" "encode_apple i = encode_apple j"
    "encode_ldst i = encode_ldst j" "g_encode gs i = g_encode gs j"
    using assms(1) unfolding semantic_group_def
    by (blast intro: assms(2-4) dp_imm.enc_same dp_reg.enc_same branch_sys.enc_same mops.enc_same apple.enc_same ldst_enc_same)+
  show ?thesis unfolding encode_def c e encode_sve_def encode_sme_def ..
qed

text \<open>Instructions of the same word, flags and semantics are equal.\<close>

lemma same_semantics_eq:
  assumes "wf_insn i" "wf_insn j" "same_semantics i j" "i_word i = i_word j" "i_flags i = i_flags j"
  shows "i = j"
proof -
  have "i = built i (i_code j) (i_mnemonic j) (live_operands j)"
    using wf_insn_eq_built [OF assms(1)] assms(3) unfolding same_semantics_def by metis
  also have "\<dots> = built j (i_code j) (i_mnemonic j) (live_operands j)"
    using assms(3-5) by (intro insn.equality) (simp_all add: same_semantics_def built_def)
  also have "\<dots> = j" using wf_insn_eq_built [OF assms(2)] ..
  finally show ?thesis .
qed

end
