(* ===== verification/Codec_Top_Correct.thy ===== *)
theory Codec_Top_Correct
  imports Codec_Top
begin

text \<open>
  The properties of the two dispatchers together: the round trip over all modelled words, what every decoded instruction is, and
  \<open>re_encode\<close>, which brings an instruction back to a word that decodes to it.
\<close>

text \<open>For the witnesses: a group that decodes and encodes nothing.\<close>

definition no_group :: group where
  "no_group = \<lparr>g_decode = \<lambda>w ip fs out. out, g_encode = \<lambda>i. Err EncUnsupported, g_owns = \<lambda>c. False\<rparr>"

lemma no_group_good [simp]: "spares_apple no_group" "semantic_group no_group"
  by (simp_all add: no_group_def spares_apple_def semantic_group_def)

section \<open>Round trip\<close>

text \<open>C1: in the default build, every word outside SIMD and floating point either does not decode, and its instruction is
  refused by the encoder as invalid, or is encoded, by the dispatch on the code, to a word that decodes at the same address to the
  same instruction and is its own encoding.  The group that is an argument may be anything that does not claim an Apple code.\<close>

theorem decode_encode_round_trip:
  assumes "modelled_word w" "spares_apple gs"
  shows "let d = decode gs w ip fs
    in i_code d = C_Invalid \<and> encode gs d = Err EncInvalid \<or>
       (\<exists>v. encode gs d = Ok v \<and> modelled_word v \<and> same_semantics (decode gs v ip fs) d \<and>
            encode gs (decode gs v ip fs) = Ok v)"
  using returns_modelled [OF assms, of ip fs] encode_arms(6) by (auto simp: returns_def Let_def)

lemma add_word: "modelled_word 0x91000420" "i_code (decode gs 0x91000420 ip fs) = C_AddImm64"
proof -
  have "in_dp_imm 0x91000420" by (simp add: in_dp_imm_def bits_def)
  then show "modelled_word 0x91000420" "i_code (decode gs 0x91000420 ip fs) = C_AddImm64"
    using modelled_words(1) decode_arms(1)
    by (simp_all add: decode_decoded decoded_def decode_dp_imm_def decode_addsub_imm_def bits_def bit_at_def)
qed

text \<open>\<open>add x0, x1, #1\<close>.\<close>

theorem decode_encode_round_trip_witness:
  "\<exists>v. encode no_group (decode no_group 0x91000420 0 FeatureSet_ALL) = Ok v \<and>
       same_semantics (decode no_group v 0 FeatureSet_ALL) (decode no_group 0x91000420 0 FeatureSet_ALL)"
  using decode_encode_round_trip [OF add_word(1) no_group_good(1), of 0 FeatureSet_ALL] add_word(2) [of no_group 0 FeatureSet_ALL]
  by (auto simp: Let_def)

section \<open>What a decoded instruction is\<close>

lemma new_invalid_fields:
  "i_word (new_invalid w ip) = w" "i_ip (new_invalid w ip) = ip" "i_flags (new_invalid w ip) = 0" "i_code (new_invalid w ip) = C_Invalid"
  by (simp_all add: new_invalid_def)

lemma decode_frame:
  assumes "modelled_word w"
  shows "wf_insn (decode gs w ip fs)" "i_word (decode gs w ip fs) = w" "i_ip (decode gs w ip fs) = ip" "i_flags (decode gs w ip fs) = 0"
  using decode_built [OF assms, of fs ip gs] unfolding built_from_def by (auto simp: new_invalid_fields)

text \<open>C3: every word outside SIMD and floating point, at every address and whatever the group that is an argument does, decodes to a
  well-formed, unmodified instruction that carries the word and the address.  It is the invalid instruction of the word, or its code
  belongs to the group of the word's top-level field and its extension is in the feature set, \<open>SMSTART\<close>, \<open>SMSTOP\<close>, \<open>MADDPT\<close> and
  \<open>MSUBPT\<close> excepted, which are decoded ungated; the three unallocated fields never decode.\<close>

theorem decode_typed:
  assumes "modelled_word w"
  shows "let d = decode gs w ip fs
    in wf_insn d \<and> i_word d = w \<and> i_ip d = ip \<and> \<not> is_modified d \<and>
       (if i_code d = C_Invalid then d = new_invalid w ip
        else word_owns w (i_code d) \<and> op0_of w \<notin> {1, 2, 3} \<and>
          (has fs (code_feature (i_code d)) \<or> i_code d \<in> {C_Smstart, C_Smstop, C_Maddpt, C_Msubpt}))"
proof -
  have o: "\<not> word_owns w C_Invalid"
    using not_dp_imm_Invalid not_dp_reg_Invalid not_branch_sys_Invalid apple.not_owned_Invalid not_memory_Invalid
    by (simp add: word_owns_def)
  note b = decode_built [OF assms, of fs ip gs]
  show ?thesis
  proof (cases "i_code (decode gs w ip fs) = C_Invalid")
    case True
    with b o have "decode gs w ip fs = new_invalid w ip" unfolding built_from_def by auto
    with True show ?thesis by (simp add: Let_def is_modified_bit new_invalid_fields)
  next
    case False
    with b obtain c m ops where d: "decode gs w ip fs = built (new_invalid w ip) c m ops" "word_owns w c" "length ops \<le> 5"
      "admitted fs c" unfolding built_from_def by (auto simp: new_invalid_fields)
    moreover have "op0_of w \<notin> {1, 2, 3}" using d(2) by (auto simp: word_owns_def)
    moreover have "has fs (code_feature c) \<or> c \<in> {C_Smstart, C_Smstop, C_Maddpt, C_Msubpt}"
      using d(4) by (simp only: admitted_def ungated_def)
    ultimately show ?thesis using False by (simp only: Let_def is_modified_bit new_invalid_fields built_fields) simp
  qed
qed

theorem decode_typed_witness:
  "wf_insn (decode no_group 0x91000420 8 FeatureSet_ALL) \<and> is_dp_imm (i_code (decode no_group 0x91000420 8 FeatureSet_ALL))"
  using decode_typed [OF add_word(1), of no_group 8 FeatureSet_ALL] add_word(2) [of no_group 8 FeatureSet_ALL]
  by (simp add: Let_def is_dp_imm_def)

section \<open>Encoding again\<close>

lemma re_encode_Ok:
  assumes "encode gs i = Ok v" "wf_insn i"
  shows "re_encode gs i = (Ok v, clear_modified (i\<lparr>i_word := v\<rparr>))" "wf_insn (clear_modified (i\<lparr>i_word := v\<rparr>))"
    "same_semantics (clear_modified (i\<lparr>i_word := v\<rparr>)) i"
  using assms by (simp_all add: re_encode_def clear_modified_def wf_insn_def same_semantics_def live_operands_def)

text \<open>C10: encoding a decoded instruction again leaves exactly the instruction that the new word decodes to, and a second time
  changes nothing.\<close>

theorem re_encode_is_decode:
  assumes "modelled_word w" "spares_apple gs" "i_code (decode gs w ip fs) \<noteq> C_Invalid"
  shows "\<exists>v. re_encode gs (decode gs w ip fs) = (Ok v, decode gs v ip fs) \<and>
    re_encode gs (decode gs v ip fs) = (Ok v, decode gs v ip fs)"
proof -
  let ?d = "decode gs w ip fs"
  obtain v where v: "modelled_word v" "encode gs ?d = Ok v" "same_semantics (decode gs v ip fs) ?d" "encode gs (decode gs v ip fs) = Ok v"
    using returns_modelled [OF assms] by (auto simp: returns_def)
  note frame = decode_frame [OF assms(1), of gs ip fs] decode_frame [OF v(1), of gs ip fs]
  have again: "re_encode gs d = (Ok v, decode gs v ip fs)"
    if "encode gs d = Ok v" "wf_insn d" "same_semantics (decode gs v ip fs) d" "i_flags d = 0" for d
  proof -
    have "clear_modified (d\<lparr>i_word := v\<rparr>) = decode gs v ip fs"
      using re_encode_Ok(2,3) [OF that(1,2)] frame that(3,4)
      by (intro same_semantics_eq) (auto simp: clear_modified_def same_semantics_def)
    then show ?thesis using re_encode_Ok(1) [OF that(1,2)] by simp
  qed
  have "re_encode gs ?d = (Ok v, decode gs v ip fs)" by (rule again) (use v frame in auto)
  moreover have "re_encode gs (decode gs v ip fs) = (Ok v, decode gs v ip fs)" by (rule again) (use v frame in auto)
  ultimately show ?thesis by blast
qed

theorem re_encode_is_decode_witness:
  "\<exists>v. re_encode no_group (decode no_group 0x91000420 0 FeatureSet_ALL) = (Ok v, decode no_group v 0 FeatureSet_ALL)"
  using re_encode_is_decode [OF add_word(1) no_group_good(1), of 0 FeatureSet_ALL] add_word(2) [of no_group 0 FeatureSet_ALL] by auto

end
