(* ===== verification/Decoder.thy ===== *)
theory Decoder
  imports Codec_Top
begin

text \<open>
  \<open>src/decoder.rs\<close>: the streaming \<open>Decoder\<close> over a byte slice, its methods, and the two iterators.

  \<^item> A \<open>usize\<close> is a \<open>nat\<close>; \<open>pos as u64\<close> is \<open>of_nat\<close>.  The only addition to the cursor is behind the bounds check, so it
    stays below the length of the slice.
  \<^item> A method on \<open>&mut self\<close> returns the new decoder; \<open>decode_into\<close> returns the instruction it writes to \<open>out\<close>.
  \<^item> \<open>data.get(pos..)\<close> is \<open>slice_from\<close>, \<open>None\<close> beyond the end.
  \<^item> Both iterators have the same \<open>next\<close>, \<open>decoder_next\<close>; \<open>decoder_collect\<close> is the loop \<open>for insn in decoder\<close>.
\<close>

section \<open>The decoder\<close>

record decoder_options =
  o_features :: feature_set

definition DecoderOptions_NONE :: decoder_options where
  "DecoderOptions_NONE = \<lparr>o_features = FeatureSet_ALL\<rparr>"

record decoder =
  d_data :: "u8 list"
  d_pos :: nat
  d_ip :: u64
  d_options :: decoder_options
  d_last_error :: decode_error

definition decoder_new :: "u8 list \<Rightarrow> u64 \<Rightarrow> decoder_options \<Rightarrow> decoder" where
  "decoder_new data ip options = \<lparr>d_data = data, d_pos = 0, d_ip = ip, d_options = options, d_last_error = DecNone\<rparr>"

definition slice_from :: "nat \<Rightarrow> 'a list \<Rightarrow> 'a list option" where
  "slice_from n xs = (if n \<le> length xs then Some (drop n xs) else None)"

definition slice_to :: "nat \<Rightarrow> 'a list \<Rightarrow> 'a list option" where
  "slice_to n xs = (if n \<le> length xs then Some (take n xs) else None)"

definition from_le_bytes :: "u8 \<Rightarrow> u8 \<Rightarrow> u8 \<Rightarrow> u8 \<Rightarrow> u32" where
  "from_le_bytes b0 b1 b2 b3 = ucast b0 OR push_bit 8 (ucast b1) OR push_bit 16 (ucast b2) OR push_bit 24 (ucast b3)"

definition decoder_window :: "decoder \<Rightarrow> u8 list option" where
  "decoder_window dec =
     (case slice_from (d_pos dec) (d_data dec) of None \<Rightarrow> None | Some remaining \<Rightarrow> slice_to INSN_LEN remaining)"

definition decoder_decode_into :: "group \<Rightarrow> decoder \<Rightarrow> insn \<times> decoder" where
  "decoder_decode_into gs dec =
     (case decoder_window dec of
        None \<Rightarrow> (insn_default, dec\<lparr>d_last_error := DecEndOfInstruction\<rparr>)
      | Some window \<Rightarrow>
          (let word = from_le_bytes (window ! 0) (window ! 1) (window ! 2) (window ! 3);
               out = decode_into gs word (d_ip dec) (o_features (d_options dec))
           in (out, dec\<lparr>d_last_error := (if insn_is_invalid out then DecUnmatched else DecNone),
                        d_pos := d_pos dec + INSN_LEN,
                        d_ip := d_ip dec + of_nat INSN_LEN\<rparr>)))"

definition decoder_decode :: "group \<Rightarrow> decoder \<Rightarrow> insn \<times> decoder" where
  "decoder_decode gs dec = decoder_decode_into gs dec"

definition decoder_can_decode :: "decoder \<Rightarrow> bool" where
  "decoder_can_decode dec =
     (case slice_from (d_pos dec) (d_data dec) of None \<Rightarrow> False | Some remaining \<Rightarrow> INSN_LEN \<le> length remaining)"

definition decoder_set_position :: "nat \<Rightarrow> decoder \<Rightarrow> decoder" where
  "decoder_set_position pos dec =
     (let dec = (if d_pos dec \<le> pos then dec\<lparr>d_ip := d_ip dec + of_nat (pos - d_pos dec)\<rparr>
                 else dec\<lparr>d_ip := d_ip dec - of_nat (d_pos dec - pos)\<rparr>)
      in dec\<lparr>d_pos := pos\<rparr>)"

definition decoder_set_ip :: "u64 \<Rightarrow> decoder \<Rightarrow> decoder" where
  "decoder_set_ip ip dec = dec\<lparr>d_ip := ip\<rparr>"

definition decoder_next :: "group \<Rightarrow> decoder \<Rightarrow> insn option \<times> decoder" where
  "decoder_next gs dec =
     (if decoder_can_decode dec then (case decoder_decode gs dec of (insn, dec') \<Rightarrow> (Some insn, dec')) else (None, dec))"

section \<open>One step\<close>

lemma decoder_window_iff:
  "decoder_window dec =
     (if d_pos dec + 4 \<le> length (d_data dec) then Some (take 4 (drop (d_pos dec) (d_data dec))) else None)"
  by (auto simp: decoder_window_def slice_from_def slice_to_def INSN_LEN_def)

lemma decoder_can_decode_iff: "decoder_can_decode dec \<longleftrightarrow> d_pos dec + 4 \<le> length (d_data dec)"
  by (auto simp: decoder_can_decode_def slice_from_def INSN_LEN_def)

text \<open>The word at a byte offset.\<close>

definition word_at :: "u8 list \<Rightarrow> nat \<Rightarrow> u32" where
  "word_at data p = from_le_bytes (data ! p) (data ! (p + 1)) (data ! (p + 2)) (data ! (p + 3))"

definition advance :: "insn \<Rightarrow> decoder \<Rightarrow> decoder" where
  "advance insn dec =
     dec\<lparr>d_last_error := (if insn_is_invalid insn then DecUnmatched else DecNone), d_pos := d_pos dec + 4, d_ip := d_ip dec + 4\<rparr>"

lemma decoder_decode_eq:
  "decoder_decode gs dec =
     (if decoder_can_decode dec
      then (let insn = decode gs (word_at (d_data dec) (d_pos dec)) (d_ip dec) (o_features (d_options dec)) in (insn, advance insn dec))
      else (insn_default, dec\<lparr>d_last_error := DecEndOfInstruction\<rparr>))"
  by (simp add: decoder_decode_def decoder_decode_into_def decoder_window_iff decoder_can_decode_iff word_at_def advance_def
      decode_def Let_def INSN_LEN_def)

lemma decoder_next_eq:
  "decoder_next gs dec =
     (if decoder_can_decode dec
      then (let insn = decode gs (word_at (d_data dec) (d_pos dec)) (d_ip dec) (o_features (d_options dec)) in (Some insn, advance insn dec))
      else (None, dec))"
  by (simp add: decoder_next_def decoder_decode_eq Let_def)

section \<open>The loop\<close>

text \<open>Each step moves the cursor four bytes towards the end, so the loop ends.\<close>

function decoder_collect :: "group \<Rightarrow> decoder \<Rightarrow> insn list \<times> decoder" where
  "decoder_collect gs dec =
     (case decoder_next gs dec of
        (None, dec') \<Rightarrow> ([], dec')
      | (Some insn, dec') \<Rightarrow> (case decoder_collect gs dec' of (insns, dec'') \<Rightarrow> (insn # insns, dec'')))"
  by pat_completeness auto

termination
  by (relation "measure (\<lambda>(gs, dec). length (d_data dec) - d_pos dec)")
    (auto simp: decoder_next_eq decoder_can_decode_iff advance_def Let_def split: if_splits)

declare decoder_collect.simps [simp del]

end
