(* ===== verification/Decoder_Correct.thy ===== *)
theory Decoder_Correct
  imports Decoder Codec_Top_Correct
begin

text \<open>
  The properties of the streaming decoder: the loop over it is the word-by-word decoding of the slice, it ends, its state is
  consistent under every sequence of calls, and decoding the encoded bytes of a program gives the program back.
\<close>

section \<open>The loop decodes the words of the slice\<close>

definition decoder_words :: "decoder \<Rightarrow> nat" where
  "decoder_words dec = (length (d_data dec) - d_pos dec) div 4"

definition decoder_insn :: "group \<Rightarrow> decoder \<Rightarrow> nat \<Rightarrow> insn" where
  "decoder_insn gs dec k =
     decode gs (word_at (d_data dec) (d_pos dec + 4 * k)) (d_ip dec + 4 * of_nat k) (o_features (d_options dec))"

definition decoder_end :: "group \<Rightarrow> decoder \<Rightarrow> decoder" where
  "decoder_end gs dec =
     (let n = decoder_words dec
      in dec\<lparr>d_pos := d_pos dec + 4 * n, d_ip := d_ip dec + 4 * of_nat n,
             d_last_error := (if n = 0 then d_last_error dec
                              else if insn_is_invalid (decoder_insn gs dec (n - 1)) then DecUnmatched else DecNone)\<rparr>)"

lemma decoder_words_0: "decoder_words dec = 0 \<longleftrightarrow> \<not> decoder_can_decode dec"
  by (auto simp: decoder_words_def decoder_can_decode_iff)

lemma decoder_words_Suc: "decoder_can_decode dec \<Longrightarrow> decoder_words dec = Suc (decoder_words (advance insn dec))"
  by (auto simp: decoder_words_def decoder_can_decode_iff advance_def)

lemma decoder_insn_advance: "decoder_insn gs (advance insn dec) k = decoder_insn gs dec (Suc k)"
  by (simp add: decoder_insn_def advance_def algebra_simps)

lemma decoder_next_split:
  "\<not> decoder_can_decode dec \<Longrightarrow> decoder_next gs dec = (None, dec)"
  "decoder_can_decode dec \<Longrightarrow> decoder_next gs dec = (Some (decoder_insn gs dec 0), advance (decoder_insn gs dec 0) dec)"
  by (simp_all add: decoder_next_eq decoder_insn_def Let_def)

lemma decoder_end_advance:
  assumes "decoder_can_decode dec"
  shows "decoder_end gs (advance (decoder_insn gs dec 0) dec) = decoder_end gs dec"
proof -
  let ?d = "advance (decoder_insn gs dec 0) dec"
  have n: "decoder_words dec = Suc (decoder_words ?d)" by (rule decoder_words_Suc [OF assms])
  have i: "decoder_insn gs dec (decoder_words ?d) = decoder_insn gs ?d (decoder_words ?d - 1)" if "decoder_words ?d \<noteq> 0"
    using that by (simp add: decoder_insn_advance)
  show ?thesis unfolding decoder_end_def Let_def n
    by (cases "decoder_words ?d = 0") (simp_all add: i, simp_all add: advance_def algebra_simps)
qed

lemma decoder_collect_eq:
  "decoder_collect gs dec = (map (decoder_insn gs dec) [0..<decoder_words dec], decoder_end gs dec)"
proof (induction gs dec rule: decoder_collect.induct)
  case (1 gs dec)
  show ?case
  proof (cases "decoder_can_decode dec")
    case False
    then have "decoder_words dec = 0" by (simp add: decoder_words_0)
    then show ?thesis
      by (subst decoder_collect.simps) (simp add: decoder_next_split(1) [OF False] decoder_end_def)
  next
    case True
    let ?i = "decoder_insn gs dec 0" and ?d = "advance (decoder_insn gs dec 0) dec"
    have n: "decoder_words dec = Suc (decoder_words ?d)" by (rule decoder_words_Suc [OF True])
    have "map (decoder_insn gs dec) [0..<decoder_words dec] = ?i # map (decoder_insn gs ?d) [0..<decoder_words ?d]"
      unfolding n map_upt_Suc by (simp add: decoder_insn_advance)
    moreover have "decoder_collect gs ?d = (map (decoder_insn gs ?d) [0..<decoder_words ?d], decoder_end gs dec)"
      using 1 [OF decoder_next_split(2) [OF True, symmetric] refl] decoder_end_advance [OF True] by simp
    ultimately show ?thesis by (subst decoder_collect.simps) (simp add: decoder_next_split(2) [OF True])
  qed
qed

text \<open>C5: the loop over a decoder refines the word-by-word decoding of its slice: it yields, for each whole word from the cursor
  on and in order, the decoding of that word at its address, and leaves the cursor and the address behind the last whole word,
  with the data and the options untouched.\<close>

theorem decoder_collect_refines:
  "case decoder_collect gs dec of (insns, dec') \<Rightarrow>
     insns = map (\<lambda>k. decode gs (word_at (d_data dec) (d_pos dec + 4 * k)) (d_ip dec + 4 * of_nat k) (o_features (d_options dec)))
       [0..<(length (d_data dec) - d_pos dec) div 4] \<and>
     d_pos dec' = d_pos dec + 4 * length insns \<and> d_ip dec' = d_ip dec + 4 * of_nat (length insns) \<and>
     d_data dec' = d_data dec \<and> d_options dec' = d_options dec \<and> \<not> decoder_can_decode dec'"
proof -
  have "\<not> decoder_can_decode (decoder_end gs dec)"
    by (auto simp: decoder_end_def decoder_can_decode_iff decoder_words_def Let_def)
  then show ?thesis
    by (simp add: decoder_collect_eq decoder_insn_def [abs_def] decoder_words_def) (simp add: decoder_end_def Let_def decoder_words_def)
qed

section \<open>The iterator ends\<close>

definition after_nexts :: "group \<Rightarrow> nat \<Rightarrow> decoder \<Rightarrow> decoder" where
  "after_nexts gs k = (\<lambda>dec. snd (decoder_next gs dec)) ^^ k"

lemma after_nexts_Suc: "after_nexts gs (Suc k) dec = after_nexts gs k (snd (decoder_next gs dec))"
  by (simp add: after_nexts_def funpow_Suc_right del: funpow.simps)

lemma after_nexts_0 [simp]: "after_nexts gs 0 dec = dec"
  by (simp add: after_nexts_def)

text \<open>C6: the iterator is fused and ends: the calls of \<open>next\<close> return an instruction exactly as long as whole words are left, that is
  \<open>(length - cursor) div 4\<close> times, then \<open>None\<close> for ever, without moving any more.\<close>

theorem decoder_iterator_ends:
  "(fst (decoder_next gs (after_nexts gs k dec)) = None \<longleftrightarrow> (length (d_data dec) - d_pos dec) div 4 \<le> k) \<and>
   ((length (d_data dec) - d_pos dec) div 4 \<le> k \<longrightarrow>
      after_nexts gs k dec = after_nexts gs ((length (d_data dec) - d_pos dec) div 4) dec)"
proof -
  have "(fst (decoder_next gs (after_nexts gs k dec)) = None \<longleftrightarrow> decoder_words dec \<le> k) \<and>
      (decoder_words dec \<le> k \<longrightarrow> after_nexts gs k dec = after_nexts gs (decoder_words dec) dec)"
  proof (induction k arbitrary: dec)
    case 0
    then show ?case
      using decoder_next_split [of dec gs] decoder_words_0 [of dec] by (cases "decoder_can_decode dec") (auto simp: after_nexts_def)
  next
    case (Suc k)
    show ?case
    proof (cases "decoder_can_decode dec")
      case True
      then show ?thesis
        using Suc [of "snd (decoder_next gs dec)"] decoder_words_Suc [OF True, of "decoder_insn gs dec 0"]
        by (simp add: after_nexts_Suc decoder_next_split(2))
    next
      case False
      then show ?thesis
        using Suc [of dec] decoder_words_0 [of dec] by (auto simp: after_nexts_Suc decoder_next_split(1))
    qed
  qed
  then show ?thesis by (simp add: decoder_words_def)
qed

text \<open>The word \<open>add x0, x1, #1\<close> and two more bytes: one instruction, then none.\<close>

theorem decoder_iterator_ends_witness:
  "let dec = decoder_new [0x20, 0x04, 0, 0x91, 7, 7] 0 DecoderOptions_NONE
   in fst (decoder_next no_group dec) \<noteq> None \<and> fst (decoder_next no_group (after_nexts no_group 1 dec)) = None \<and>
      after_nexts no_group 5 dec = after_nexts no_group 1 dec"
  using decoder_iterator_ends [of no_group 0 "decoder_new [0x20, 0x04, 0, 0x91, 7, 7] 0 DecoderOptions_NONE"]
    decoder_iterator_ends [of no_group 1 "decoder_new [0x20, 0x04, 0, 0x91, 7, 7] 0 DecoderOptions_NONE"]
    decoder_iterator_ends [of no_group 5 "decoder_new [0x20, 0x04, 0, 0x91, 7, 7] 0 DecoderOptions_NONE"]
  by (simp add: Let_def decoder_new_def after_nexts_def)

section \<open>The state under every sequence of calls\<close>

text \<open>What the callers of a decoder may do to it; \<open>base\<close> is the address that the start of the slice has by the calls so far.  A
  slice is shorter than \<open>2 ^ 63\<close> bytes, and a position is a \<open>usize\<close>.\<close>

inductive decoder_reaches :: "group \<Rightarrow> u8 list \<Rightarrow> decoder_options \<Rightarrow> u64 \<Rightarrow> decoder \<Rightarrow> bool" for gs data options where
  new: "decoder_reaches gs data options ip (decoder_new data ip options)"
| dec: "decoder_reaches gs data options base dec \<Longrightarrow> decoder_reaches gs data options base (snd (decoder_decode gs dec))"
| nxt: "decoder_reaches gs data options base dec \<Longrightarrow> decoder_reaches gs data options base (snd (decoder_next gs dec))"
| pos: "decoder_reaches gs data options base dec \<Longrightarrow> p < 2 ^ 64 \<Longrightarrow>
    decoder_reaches gs data options base (decoder_set_position p dec)"
| ip: "decoder_reaches gs data options base dec \<Longrightarrow>
    decoder_reaches gs data options (ip - of_nat (d_pos dec)) (decoder_set_ip ip dec)"

inductive_cases decoder_reachesE: "decoder_reaches gs data options base dec"

definition decoder_inv :: "u8 list \<Rightarrow> decoder_options \<Rightarrow> u64 \<Rightarrow> decoder \<Rightarrow> bool" where
  "decoder_inv data options base dec \<longleftrightarrow>
     d_data dec = data \<and> d_options dec = options \<and> d_ip dec = base + of_nat (d_pos dec) \<and> d_pos dec < 2 ^ 64 \<and>
     d_last_error dec \<in> {DecNone, DecUnmatched, DecEndOfInstruction}"

lemma decoder_inv_advance:
  "decoder_inv data options base dec \<Longrightarrow> decoder_can_decode dec \<Longrightarrow> length data < 2 ^ 63 \<Longrightarrow>
   decoder_inv data options base (advance insn dec)"
  by (auto simp: decoder_inv_def advance_def decoder_can_decode_iff)

lemma decoder_inv_decode:
  assumes "decoder_inv data options base dec" "length data < 2 ^ 63"
  shows "decoder_inv data options base (snd (decoder_decode gs dec))"
proof (cases "decoder_can_decode dec")
  case True
  then show ?thesis using decoder_inv_advance [OF assms(1) True assms(2)] by (simp add: decoder_decode_eq Let_def)
next
  case False
  then show ?thesis using assms by (simp add: decoder_decode_eq decoder_inv_def)
qed

lemma decoder_inv_next:
  assumes "decoder_inv data options base dec" "length data < 2 ^ 63"
  shows "decoder_inv data options base (snd (decoder_next gs dec))"
  using decoder_inv_advance [OF assms(1) _ assms(2)] assms by (simp add: decoder_next_eq Let_def)

lemma decoder_set_position_fields:
  "d_pos (decoder_set_position p dec) = p" "d_data (decoder_set_position p dec) = d_data dec"
  "d_options (decoder_set_position p dec) = d_options dec" "d_last_error (decoder_set_position p dec) = d_last_error dec"
  "d_ip (decoder_set_position p dec) = d_ip dec - of_nat (d_pos dec) + of_nat p"
  by (simp_all add: decoder_set_position_def Let_def of_nat_diff)

lemma decoder_inv_set_position:
  "decoder_inv data options base dec \<Longrightarrow> p < 2 ^ 64 \<Longrightarrow> decoder_inv data options base (decoder_set_position p dec)"
  by (simp add: decoder_inv_def decoder_set_position_fields)

lemma decoder_reaches_inv:
  assumes "decoder_reaches gs data options base dec" "length data < 2 ^ 63"
  shows "decoder_inv data options base dec"
  using assms(1)
proof induction
  case new
  then show ?case by (simp add: decoder_inv_def decoder_new_def)
next
  case dec
  then show ?case using decoder_inv_decode assms(2) by blast
next
  case nxt
  then show ?case using decoder_inv_next assms(2) by blast
next
  case pos
  then show ?case using decoder_inv_set_position by blast
next
  case ip
  then show ?case by (simp add: decoder_inv_def decoder_set_ip_def)
qed

text \<open>C4: whatever calls are made on a decoder over a slice, seeking beyond its end included: the data and the options stay, the
  cursor is a \<open>usize\<close> (the addition to it never overflows), the address is the base address plus the cursor modulo \<open>2 ^ 64\<close>, the
  status is one of the three that are documented, and so the next instruction is the word at the cursor decoded at its address.\<close>

theorem decoder_state_consistent:
  assumes "decoder_reaches gs data options base dec" "length data < 2 ^ 63"
  shows "d_data dec = data \<and> d_options dec = options \<and> d_pos dec < 2 ^ 64 \<and> d_ip dec = base + of_nat (d_pos dec) \<and>
    d_last_error dec \<in> {DecNone, DecUnmatched, DecEndOfInstruction} \<and>
    fst (decoder_decode gs dec) =
      (if d_pos dec + 4 \<le> length data
       then decode gs (word_at data (d_pos dec)) (base + of_nat (d_pos dec)) (o_features options) else insn_default)"
  using decoder_reaches_inv [OF assms] by (auto simp: decoder_inv_def decoder_decode_eq decoder_can_decode_iff Let_def)

theorem decoder_state_consistent_witness:
  "d_ip (decoder_set_position 1 (decoder_set_position (2 ^ 64 - 1) (decoder_new [0x20, 0x04, 0, 0x91] 0x1000 DecoderOptions_NONE))) = 0x1001"
proof -
  have "decoder_reaches no_group [0x20, 0x04, 0, 0x91] DecoderOptions_NONE 0x1000
      (decoder_set_position 1 (decoder_set_position (2 ^ 64 - 1) (decoder_new [0x20, 0x04, 0, 0x91] 0x1000 DecoderOptions_NONE)))"
    by (intro decoder_reaches.intros) simp_all
  from decoder_state_consistent [OF this] show ?thesis by (simp add: decoder_set_position_fields)
qed

lemma next_after_nexts:
  "k < decoder_words dec \<Longrightarrow> fst (decoder_next gs (after_nexts gs k dec)) = Some (decoder_insn gs dec k)"
proof (induction k arbitrary: dec)
  case 0
  then show ?case using decoder_words_0 [of dec] by (simp add: decoder_next_split(2))
next
  case (Suc k)
  then have c: "decoder_can_decode dec" using decoder_words_0 [of dec] by force
  then show ?case
    using Suc decoder_words_Suc [OF c, of "decoder_insn gs dec 0"]
    by (simp add: after_nexts_Suc decoder_next_split(2) decoder_insn_advance)
qed

text \<open>C7: no word is skipped and none is starved.  Whatever calls were made before, every whole word at or behind the cursor, in steps
  of four bytes, is yielded: the instruction of the \<open>k\<close>-th one by the call of \<open>next\<close> after \<open>k\<close> others, decoded at its own address.\<close>

theorem decoder_yields_every_word:
  assumes "decoder_reaches gs data options base dec" "length data < 2 ^ 63" "d_pos dec + 4 * k + 4 \<le> length data"
  shows "fst (decoder_next gs (after_nexts gs k dec)) =
    Some (decode gs (word_at data (d_pos dec + 4 * k)) (base + of_nat (d_pos dec + 4 * k)) (o_features options))"
proof -
  have i: "decoder_inv data options base dec" by (rule decoder_reaches_inv [OF assms(1,2)])
  then have "k < decoder_words dec" using assms(3) by (simp add: decoder_words_def decoder_inv_def)
  from next_after_nexts [OF this] i show ?thesis by (simp add: decoder_insn_def decoder_inv_def algebra_simps)
qed

text \<open>After a seek to byte 1, the second call yields the word at byte 5.\<close>

theorem decoder_yields_every_word_witness:
  "fst (decoder_next no_group (after_nexts no_group 1
      (decoder_set_position 1 (decoder_new [0, 0, 0, 0, 0, 0x20, 0x04, 0, 0x91] 0x1000 DecoderOptions_NONE)))) =
    Some (decode no_group 0x91000420 0x1005 (o_features DecoderOptions_NONE))"
proof -
  let ?data = "[0, 0, 0, 0, 0, 0x20, 0x04, 0, 0x91] :: u8 list"
  have "decoder_reaches no_group ?data DecoderOptions_NONE 0x1000
      (decoder_set_position 1 (decoder_new ?data 0x1000 DecoderOptions_NONE))"
    by (intro decoder_reaches.intros) simp
  from decoder_yields_every_word [OF this, of 1] show ?thesis
    by (simp add: decoder_set_position_fields decoder_new_def word_at_def from_le_bytes_def)
qed

section \<open>A program and its bytes\<close>

lemma to_le_bytes_back: "word_at (to_le_bytes v @ bs) 0 = v"
proof (rule bit_word_eqI)
  fix n assume "n < LENGTH(32)"
  then have n: "n < 8 \<or> (8 \<le> n \<and> n < 16) \<or> (16 \<le> n \<and> n < 24) \<or> (24 \<le> n \<and> n < 32)" by auto
  have "word_at (to_le_bytes v @ bs) 0 =
      from_le_bytes (ucast v) (ucast (drop_bit 8 v)) (ucast (drop_bit 16 v)) (ucast (drop_bit 24 v))"
    by (simp add: word_at_def to_le_bytes_def numeral_2_eq_2 numeral_3_eq_3)
  then show "bit (word_at (to_le_bytes v @ bs) 0) n = bit v n"
    using n by (elim disjE conjE) (simp_all add: from_le_bytes_def bit_simps less_diff_conv2)
qed

lemma length_to_le_bytes [simp]: "length (to_le_bytes v) = 4"
  by (simp add: to_le_bytes_def)

lemma word_at_skip: "word_at (to_le_bytes v @ bs) (4 + p) = word_at bs p"
  by (simp add: word_at_def nth_append add.commute)

lemma word_at_bytes: "k < length vs \<Longrightarrow> word_at (concat (map to_le_bytes vs)) (4 * k) = vs ! k"
proof (induction vs arbitrary: k)
  case (Cons v vs)
  then show ?case
    using to_le_bytes_back [of v] word_at_skip [of v "concat (map to_le_bytes vs)" "4 * (k - 1)"]
    by (cases k) (simp_all add: algebra_simps)
qed simp

lemma length_program: "length (concat (map to_le_bytes vs)) = 4 * length vs"
  by (induction vs) simp_all

text \<open>The loop that writes out a program, one \<open>encode_bytes\<close> after the other.\<close>

fun encode_program :: "group \<Rightarrow> insn list \<Rightarrow> u8 list encoded" where
  "encode_program gs [] = Ok []"
| "encode_program gs (i # is) = and_then (encode_bytes gs i) (\<lambda>b. and_then (encode_program gs is) (\<lambda>bs. Ok (b @ bs)))"

lemma encode_program_words:
  "list_all2 (\<lambda>i v. encode gs i = Ok v) is vs \<Longrightarrow> encode_program gs is = Ok (concat (map to_le_bytes vs))"
  by (induction "is" vs rule: list_all2_induct) (simp_all add: encode_bytes_def)

text \<open>C2: a program survives the disassembler and the assembler: the instructions that the loop over a slice yields, if they all
  decode and lie in the modelled groups, are written out to as many bytes as the slice has whole words, and the loop over those
  bytes from the same address yields instructions of the same semantics, one for one.\<close>

theorem program_round_trip:
  assumes "spares_apple gs" "fst (decoder_collect gs (decoder_new data ip options)) = insns"
    "\<forall>i \<in> set insns. i_code i \<noteq> C_Invalid" "\<forall>k < length insns. modelled_word (word_at data (4 * k))"
  shows "\<exists>bytes. encode_program gs insns = Ok bytes \<and> length bytes = 4 * length insns \<and>
    list_all2 same_semantics (fst (decoder_collect gs (decoder_new bytes ip options))) insns"
proof -
  define at where "at ws = (\<lambda>k. decode gs (ws k) (ip + 4 * of_nat k) (o_features options))" for ws :: "nat \<Rightarrow> u32"
  have loop: "fst (decoder_collect gs (decoder_new d ip options)) = map (at (\<lambda>k. word_at d (4 * k))) [0..<length d div 4]" for d
    by (simp add: decoder_collect_eq decoder_insn_def [abs_def] decoder_words_def decoder_new_def at_def)
  let ?w = "\<lambda>k. word_at data (4 * k)" and ?n = "length insns"
  have insns: "insns = map (at ?w) [0..<?n]" using loop [of data] assms(2) by auto
  have nth: "insns ! k = at ?w k" if "k < ?n" for k using insns that by (metis add_0 nth_map_upt diff_zero)
  have "returns gs (?w k) (ip + 4 * of_nat k) (o_features options)" if "k < ?n" for k
    using returns_modelled [OF _ assms(1)] assms(3,4) nth [OF that] nth_mem [OF that] that by (simp add: at_def)
  then have "\<forall>k. k < ?n \<longrightarrow> (\<exists>v. encode gs (at ?w k) = Ok v \<and> same_semantics (at (\<lambda>_. v) k) (at ?w k))"
    by (auto simp: returns_def at_def)
  then obtain v where v: "encode gs (at ?w k) = Ok (v k)" "same_semantics (at (\<lambda>_. v k) k) (at ?w k)" if "k < ?n" for k
    by metis
  let ?vs = "map v [0..<?n]"
  have "list_all2 (\<lambda>i v. encode gs i = Ok v) insns ?vs"
    by (auto simp: list_all2_conv_all_nth nth v)
  then have e: "encode_program gs insns = Ok (concat (map to_le_bytes ?vs))" by (rule encode_program_words)
  have "at (\<lambda>k. word_at (concat (map to_le_bytes ?vs)) (4 * k)) k = at (\<lambda>_. v k) k" if "k < ?n" for k
    using word_at_bytes [of k ?vs] that by (simp add: at_def)
  then have "list_all2 same_semantics (fst (decoder_collect gs (decoder_new (concat (map to_le_bytes ?vs)) ip options))) insns"
    by (auto simp: list_all2_conv_all_nth loop length_program nth v simp del: map_map)
  with e show ?thesis using length_program [of ?vs] by auto
qed

theorem program_round_trip_witness:
  "\<exists>bytes. encode_program no_group (fst (decoder_collect no_group (decoder_new [0x20, 0x04, 0, 0x91, 7] 0 DecoderOptions_NONE)))
     = Ok bytes \<and> length bytes = 4"
proof -
  let ?insns = "fst (decoder_collect no_group (decoder_new [0x20, 0x04, 0, 0x91, 7] 0 DecoderOptions_NONE))"
  have w: "word_at [0x20, 0x04, 0, 0x91, 7] 0 = 0x91000420" by (simp add: word_at_def from_le_bytes_def)
  have i: "?insns = [decode no_group 0x91000420 0 FeatureSet_ALL]"
    using w by (simp add: decoder_collect_eq decoder_words_def decoder_insn_def [abs_def] decoder_new_def DecoderOptions_NONE_def)
  then show ?thesis
    using program_round_trip [OF no_group_good(1) refl, of "[0x20, 0x04, 0, 0x91, 7]" 0 DecoderOptions_NONE] add_word(1) add_word(2) [of no_group 0 FeatureSet_ALL] w
    by auto
qed

end
