(* ===== verification/Relocation.thy ===== *)
theory Relocation
  imports Codec_Top_Correct Insn_Edit
begin

text \<open>
  Moving an instruction: \<open>relocate\<close> shifts every label with the address, and the encoders see an address only in the difference
  between a label and it.  So the encoding of every instruction but ADRP is unchanged, whatever its operands; an instruction without
  a label may also have its address replaced (\<open>set_ip\<close>).
\<close>

section \<open>The operands of a relocated instruction\<close>

text \<open>A case distinction on a shifted operand is one on the operand whose label arm is shifted; where the label falls into the default
  of the distinction, the two sides are the same.\<close>

lemma case_shift_label:
  "case_operand
     f0 f1 f2 f3 f4 f5 f6 f7 f8 f9 f10 f11 f12 f13 f14 f15 f16 f17 f18 f19 f20 f21 f22 f23 f24 f25 f26 f27 f28 f29
     f30 f31
     (shift_label d op) =
   case_operand
     f0 f1 f2 f3 f4 f5 f6 f7 f8 (\<lambda>t. f9 (t + d)) f10 f11 f12 f13 f14 f15 f16 f17 f18 f19 f20 f21 f22 f23
     f24 f25 f26 f27 f28 f29 f30 f31
     op"
  by (cases op) (simp_all add: shift_label_def)

lemma insn_op_relocate: "wf_insn i \<Longrightarrow> insn_op (relocate ip i) n = shift_label (ip - i_ip i) (insn_op i n)"
  by (auto simp: relocate_def Let_def insn_op_def live_operands_def nth_append wf_insn_def shift_label_def)

lemma relocate_fields [simp]:
  "i_code (relocate ip i) = i_code i" "i_mnemonic (relocate ip i) = i_mnemonic i" "i_op_count (relocate ip i) = i_op_count i"
  "i_word (relocate ip i) = i_word i" "i_ip (relocate ip i) = i_ip i + (ip - i_ip i)"
  by (simp_all add: relocate_def Let_def)

lemma wf_relocate: "wf_insn i \<Longrightarrow> wf_insn (relocate ip i)"
  by (auto simp: relocate_def Let_def wf_insn_def live_operands_def mark_modified_def)

text \<open>Without a label only the address changes.\<close>

lemma relocate_no_label: "\<not> has_label i \<Longrightarrow> relocate ip i = i\<lparr>i_ip := ip\<rparr>"
proof -
  assume n: "\<not> has_label i"
  then have "map (shift_label (ip - i_ip i)) (live_operands i) = live_operands i"
    by (intro map_idI) (auto simp: has_label_def list_ex_iff is_label_def shift_label_def split: operand.splits)
  then show ?thesis using n by (simp add: relocate_def live_operands_def)
qed

section \<open>The readers\<close>

lemma enc_label_relocate:
  "wf_insn i \<Longrightarrow> enc_label (relocate ip i) n = and_then (enc_label i n) (\<lambda>t. Ok (t + (ip - i_ip i)))"
  by (simp add: enc_label_def insn_op_relocate case_shift_label) (cases "insn_op i n"; simp)

lemma rel_imm_shift [simp]: "rel_imm (t + d) (p + d) width shift = rel_imm t p width shift"
  by (simp add: rel_imm_def)

section \<open>The group encoders\<close>

lemmas relocate_reads = reg_num_def imm_u_def insn_op_relocate case_shift_label relocate_fields and_then_assoc and_then.simps
  enc_label_relocate rel_imm_shift

lemmas relocate_dp_reg = enc_logical_shifted_def enc_addsub_shifted_def enc_addsub_extended_def enc_addsub_carry_def
  enc_addsub_pt_def enc_rmif_def enc_setf_def enc_cond_compare_def enc_cond_select_def enc_dp_3source_def enc_dp_2source_def
  enc_dp_1source_basic_def enc_dp_1source_pauth_def recover_shift_def recover_extended_rm_def reg_with_shift_def cond_of_def

lemma dp_reg_relocate:
  assumes "wf_insn i"
  shows "encode_dp_reg (relocate ip i) = encode_dp_reg i"
proof -
  let ?j = "relocate ip i"
  note o = insn_op_relocate [OF assms]
  have e: "enc_logical_shifted ?j = enc_logical_shifted i" "enc_addsub_shifted ?j = enc_addsub_shifted i"
    "enc_addsub_extended ?j = enc_addsub_extended i" "enc_addsub_carry ?j = enc_addsub_carry i" "enc_addsub_pt ?j = enc_addsub_pt i"
    "enc_rmif ?j = enc_rmif i" "enc_setf ?j = enc_setf i" "enc_cond_compare ?j = enc_cond_compare i"
    "enc_cond_select ?j = enc_cond_select i" "enc_dp_3source ?j = enc_dp_3source i" "enc_dp_2source ?j = enc_dp_2source i"
    "enc_dp_1source_basic ?j = enc_dp_1source_basic i" "enc_dp_1source_pauth ?j = enc_dp_1source_pauth i"
    by (simp_all only: relocate_dp_reg reg_num_def imm_u_def o case_shift_label relocate_fields)
  show ?thesis unfolding encode_dp_reg_def e relocate_fields ..
qed

lemma branch_sys_relocate:
  assumes "wf_insn i"
  shows "encode_branch_sys (relocate ip i) = encode_branch_sys i"
proof -
  let ?j = "relocate ip i"
  note o = insn_op_relocate [OF assms]
  have r: "reg_num ?j n = reg_num i n" "imm_u ?j n = imm_u i n" "is_x_reg ?j n = is_x_reg i n" for n
    by (simp_all only: reg_num_def imm_u_def is_x_reg_def o case_shift_label)
  have x: "enc_cmpbr_reg ?j a b c = enc_cmpbr_reg i a b c" "enc_cmpbr_imm ?j b c = enc_cmpbr_imm i b c" for a b c
    by (simp_all only: enc_cmpbr_reg_def enc_cmpbr_imm_def r)
  have s: "i_ip i + d - (t + d) = i_ip i - t" for t d by simp
  have a: "enc_cond_branch ?j = enc_cond_branch i" "enc_pauth_lr_sppc ?j = enc_pauth_lr_sppc i" "enc_uncond_branch_imm ?j = enc_uncond_branch_imm i"
    "enc_compare_branch ?j = enc_compare_branch i" "enc_cmpbr ?j = enc_cmpbr i" "enc_test_branch ?j = enc_test_branch i"
    by (simp_all only: enc_cond_branch_def enc_pauth_lr_sppc_def enc_uncond_branch_imm_def enc_compare_branch_def enc_cmpbr_def
        enc_test_branch_def enc_label_relocate [OF assms] and_then_assoc and_then.simps rel_imm_shift s r x o case_shift_label relocate_fields)
  have b: "enc_branch_reg ?j = enc_branch_reg i" by (simp_all only: enc_branch_reg_def r relocate_fields)
  have c: "enc_exception ?j = enc_exception i" "enc_hint ?j = enc_hint i" "enc_gcs_sys ?j = enc_gcs_sys i" "enc_wfxt ?j = enc_wfxt i"
    "enc_barrier ?j = enc_barrier i" "enc_msr_imm ?j = enc_msr_imm i" "enc_sysreg_move ?j = enc_sysreg_move i" "enc_sys ?j = enc_sys i"
    "enc_systemresult ?j = enc_systemresult i" "enc_sysreg_pair ?j = enc_sysreg_pair i" "enc_sysp ?j = enc_sysp i"
    "enc_tchange ?j = enc_tchange i" "enc_udf ?j = enc_udf i"
    by (simp_all only: system_enc_defs o case_shift_label relocate_fields)
  show ?thesis unfolding encode_branch_sys_def relocate_fields a b c ..
qed

lemma mops_relocate:
  assumes "wf_insn i"
  shows "encode_mops (relocate ip i) = encode_mops i"
  by (simp only: encode_mops_def enc_mem_bang_def enc_reg_bang_def reg_num_def insn_op_relocate [OF assms] case_shift_label relocate_fields)

lemma apple_relocate:
  assumes "wf_insn i"
  shows "encode_apple (relocate ip i) = encode_apple i"
  by (simp only: encode_apple_def reg_num_def imm_u_def insn_op_relocate [OF assms] case_shift_label relocate_fields)

lemma label_imm19_shift: "label_imm19 (t + d) (p + d) = label_imm19 t p"
  by (simp add: label_imm19_def)

lemma ldst_relocate:
  assumes "wf_insn i"
  shows "encode_ldst (relocate ip i) = encode_ldst i"
proof -
  let ?j = "relocate ip i"
  note o = insn_op_relocate [OF assms]
  have r: "insn_op_register ?j n = insn_op_register i n" for n by (simp only: insn_op_register_def o case_shift_label)
  note e = memory_operand_defs o r case_shift_label relocate_fields
  have a: "enc_rprfm ?j = enc_rprfm i" "enc_reg_unsigned ?j = enc_reg_unsigned i"
    "enc_reg_unscaled ?j = enc_reg_unscaled i" "enc_reg_immidx ?j = enc_reg_immidx i"
    "enc_fp_unscaled_or_idx ?j = enc_fp_unscaled_or_idx i" "enc_reg_unpriv ?j = enc_reg_unpriv i"
    "enc_reg_offset ?j = enc_reg_offset i" "enc_pair ?j = enc_pair i"
    by (simp_all only: register_enc_defs e)
  have l: "enc_literal ?j = enc_literal i"
  proof (cases "\<exists>t. insn_op i 1 = OpLabel t")
    case True
    then obtain t where t: "insn_op i 1 = OpLabel t" by blast
    then have t': "insn_op ?j 1 = OpLabel (t + (ip - i_ip i))" by (simp add: o shift_label_def)
    show ?thesis unfolding enc_literal_def t t' operand.case and_then.simps by (simp only: e label_imm19_shift)
  next
    case False
    then have "shift_label (ip - i_ip i) (insn_op i 1) = insn_op i 1" by (auto simp: shift_label_def split: operand.split)
    moreover have "(case insn_op i 1 of OpLabel v \<Rightarrow> Ok v | _ \<Rightarrow> Err EncInvalidOperand) = Err EncInvalidOperand"
      using False by (auto split: operand.split)
    moreover have "prefetch_rt ?j 0 = prefetch_rt i 0" "reg_num ?j 0 = reg_num i 0" by (simp_all only: e)
    ultimately show ?thesis unfolding enc_literal_def o relocate_fields by (simp only: and_then.simps)
  qed
  have b: "enc_excl_single ?j = enc_excl_single i" "enc_excl_pair ?j = enc_excl_pair i" "enc_ordered ?j = enc_ordered i"
    "enc_cas ?j = enc_cas i" "enc_casp ?j = enc_casp i" "enc_lsui_excl_single ?j = enc_lsui_excl_single i"
    "enc_lsui_cas ?j = enc_lsui_cas i" "enc_lsui_casp ?j = enc_lsui_casp i" "enc_swp ?j = enc_swp i"
    "enc_rcw_single ?j = enc_rcw_single i" "enc_the_atomic ?j = enc_the_atomic i" "enc_atomic ?j = enc_atomic i"
    "enc_lsfe ?j = enc_lsfe i" "enc_ldapr ?j = enc_ldapr i" "enc_ls64 ?j = enc_ls64 i"
    by (simp_all only: atomic_enc_defs e)
  have g: "encode_ldst_simd ?j = encode_ldst_simd i" "enc_gcsstr ?j = enc_gcsstr i" "enc_pac ?j = enc_pac i"
    "enc_ldapstl ?j = enc_ldapstl i" "enc_fp_ldapstl ?j = enc_fp_ldapstl i" "enc_ldiapp_stilp ?j = enc_ldiapp_stilp i"
    "enc_ldapp_stlp ?j = enc_ldapp_stlp i" "enc_stlr_ldapr_wb ?j = enc_stlr_ldapr_wb i" "enc_tags ?j = enc_tags i"
    by (simp_all only: group_enc_defs e)
  show ?thesis unfolding encode_ldst_def relocate_fields a l b g ..
qed

text \<open>ADRP encodes the distance of pages, so with a label it may move by whole pages only.\<close>

definition keeps_page :: "u64 \<Rightarrow> insn \<Rightarrow> bool" where
  "keeps_page ip i \<longleftrightarrow> i_code i \<noteq> C_Adrp \<or> \<not> has_label i \<or> (ip - i_ip i) AND 0xFFF = 0"

lemma has_label_op: "insn_op i n = OpLabel t \<Longrightarrow> wf_insn i \<Longrightarrow> has_label i"
proof -
  assume o: "insn_op i n = OpLabel t" and "wf_insn i"
  then have "n < length (live_operands i)" "live_operands i ! n = OpLabel t" by (auto simp: insn_op_live split: if_splits)
  then have "OpLabel t \<in> set (live_operands i)" by (metis nth_mem)
  then show ?thesis by (force simp: has_label_def list_ex_iff is_label_def)
qed

lemma take_bit_add_word: "take_bit n (t + d) = take_bit n (take_bit n t + take_bit n (d :: u64))"
  by transfer (simp add: take_bit_add min_def)

lemma add_pages:
  assumes "d AND 0xFFF = 0"
  shows "(t + d) AND 0xFFF = t AND 0xFFF" "(t + d) AND NOT 0xFFF = (t AND NOT 0xFFF) + (d :: u64)"
proof -
  have m: "(0xFFF :: u64) = mask 12" by (simp add: mask_eq_exp_minus_1)
  have "take_bit 12 d = 0" using assms by (simp only: m take_bit_eq_mask)
  then have "take_bit 12 (t + d) = take_bit 12 (take_bit 12 t + 0)" using take_bit_add_word [of 12 t d] by simp
  then have "take_bit 12 (t + d) = take_bit 12 t" by simp
  then show a: "(t + d) AND 0xFFF = t AND 0xFFF" by (simp only: m take_bit_eq_mask)
  have "x = (x AND 0xFFF) + (x AND NOT 0xFFF)" for x :: u64
  proof -
    have "(x AND 0xFFF) + (x AND NOT 0xFFF) = (x AND 0xFFF) OR (x AND NOT 0xFFF)"
      by (rule disjunctive_add) (auto simp: bit_simps)
    also have "\<dots> = x" by (rule bit_word_eqI) (auto simp: bit_simps)
    finally show ?thesis ..
  qed
  from this [of t] this [of "t + d"] have "((t + d) AND 0xFFF) + ((t + d) AND NOT 0xFFF) = (t AND 0xFFF) + (t AND NOT 0xFFF) + d"
    by (simp only:)
  then show "(t + d) AND NOT 0xFFF = (t AND NOT 0xFFF) + d" unfolding a by (simp only: add.assoc add_left_cancel)
qed

lemma dp_imm_relocate:
  assumes "wf_insn i" "keeps_page ip i"
  shows "encode_dp_imm (relocate ip i) = encode_dp_imm i"
proof -
  let ?j = "relocate ip i"
  note o = insn_op_relocate [OF assms(1)]
  have r: "reg_num ?j n = reg_num i n" "imm_u ?j n = imm_u i n" for n
    by (simp_all only: reg_num_def imm_u_def o case_shift_label)
  have "enc_pc_rel ?j = enc_pc_rel i"
  proof (cases "\<exists>t. insn_op i 1 = OpLabel t")
    case True
    then obtain t where t: "insn_op i 1 = OpLabel t" by blast
    then have t': "insn_op ?j 1 = OpLabel (t + (ip - i_ip i))" by (simp add: o shift_label_def)
    show ?thesis
    proof (cases "i_code i = C_Adrp")
      case True
      then have d: "(ip - i_ip i) AND 0xFFF = 0" using assms(2) has_label_op [OF t assms(1)] by (simp add: keeps_page_def)
      show ?thesis unfolding enc_pc_rel_def t t' r relocate_fields operand.case and_then.simps Let_def True add_pages [OF d] by simp
    next
      case False
      then show ?thesis unfolding enc_pc_rel_def t t' r relocate_fields operand.case and_then.simps Let_def by simp
    qed
  next
    case False
    then have "shift_label (ip - i_ip i) (insn_op i 1) = insn_op i 1" by (auto simp: shift_label_def split: operand.split)
    then show ?thesis using False unfolding enc_pc_rel_def o r
      by (cases "reg_num i 0") (auto split: operand.split)
  qed
  moreover have "enc_addsub_imm ?j = enc_addsub_imm i" "enc_addsub_tags ?j = enc_addsub_tags i" "enc_minmax_imm ?j = enc_minmax_imm i"
    "enc_logical_imm ?j = enc_logical_imm i" "enc_move_wide ?j = enc_move_wide i" "enc_bitfield ?j = enc_bitfield i"
    "enc_extract ?j = enc_extract i"
    by (simp_all only: enc_addsub_imm_def enc_addsub_tags_def enc_minmax_imm_def enc_logical_imm_def enc_move_wide_def
        enc_bitfield_def enc_extract_def recover_bitfield_fields_def imm_shifted_def r o case_shift_label relocate_fields)
  ultimately show ?thesis by (simp only: encode_dp_imm_def relocate_fields)
qed

section \<open>The dispatcher\<close>

text \<open>What is asked of the group that is an argument.\<close>

definition relocatable_group :: "group \<Rightarrow> bool" where
  "relocatable_group g \<longleftrightarrow> (\<forall>i ip. wf_insn i \<longrightarrow> g_encode g (relocate ip i) = g_encode g i)"

lemma encode_relocate:
  assumes "relocatable_group gs \<or> \<not> g_owns gs (i_code i)" "wf_insn i" "keeps_page ip i"
  shows "encode gs (relocate ip i) = encode gs i"
proof -
  have g: "(if g_owns gs (i_code i) then g_encode gs (relocate ip i) else x) = (if g_owns gs (i_code i) then g_encode gs i else x)" for x
    using assms(1,2) by (auto simp: relocatable_group_def)
  show ?thesis
    unfolding encode_def Let_def relocate_fields g dp_imm_relocate [OF assms(2,3)] dp_reg_relocate [OF assms(2)]
      branch_sys_relocate [OF assms(2)] mops_relocate [OF assms(2)] ldst_relocate [OF assms(2)] apple_relocate [OF assms(2)] encode_sve_def encode_sme_def ..
qed

end
