(* ===== verification/Edit_Machine.thy ===== *)
theory Edit_Machine
  imports Relocation
begin

text \<open>
  The life of an instruction after it is decoded: any sequence of the editing methods of \<open>src/instruction.rs\<close> and of
  \<open>re_encode\<close> of \<open>src/encode/mod.rs\<close>, as a step relation; what the flag \<open>is_modified\<close> means along it, and what moving an
  instruction does to its encoding.
\<close>

section \<open>Moving\<close>

text \<open>C9: relocating an instruction outside SIMD and floating point, that is of a code the group that is an argument does not claim,
  keeps its encoding, errors included, whatever its operands are and wherever it goes.  The exception is an ADRP with a label that
  moves by a number of bytes that is no multiple of 4 KiB: if it could be encoded before, it is now rejected with
  \<open>InvalidImmediate\<close>.\<close>

theorem relocate_keeps_encoding:
  assumes "\<not> g_owns gs (i_code i)" "wf_insn i"
  shows "if i_code i = C_Adrp \<and> has_label i \<and> (ip - i_ip i) AND 0xFFF \<noteq> 0
    then (\<forall>v. encode gs i = Ok v \<longrightarrow> encode gs (relocate ip i) = Err EncInvalidImmediate)
    else encode gs (relocate ip i) = encode gs i"
proof (cases "keeps_page ip i")
  case True
  with encode_relocate [OF disjI2 [OF assms(1)] assms(2) True] show ?thesis unfolding keeps_page_def by auto
next
  case False
  then have c: "i_code i = C_Adrp" and d: "(ip - i_ip i) AND 0xFFF \<noteq> 0" by (simp_all add: keeps_page_def)
  have o: "is_dp_imm (i_code i)" by (simp add: c is_dp_imm_def)
  have e: "encode gs j = enc_pc_rel j" if "i_code j = C_Adrp" for j
    using encode_arms(1) [of j gs] that by (simp add: is_dp_imm_def encode_dp_imm_def)
  have "encode gs (relocate ip i) = Err EncInvalidImmediate" if v: "encode gs i = Ok v" for v
  proof -
    from v obtain r t where r: "reg_num i 0 = Ok r" "insn_op i 1 = OpLabel t" "t AND 0xFFF = 0"
      unfolding e [OF c] enc_pc_rel_def by (auto simp: c Let_def split: operand.splits if_splits)
    have "(t + (ip - i_ip i)) AND 0xFFF \<noteq> 0"
      using d add_pages(1) [OF r(3), of "ip - i_ip i"] by (simp add: add.commute)
    moreover have "insn_op (relocate ip i) 1 = OpLabel (t + (ip - i_ip i))"
      using r(2) by (simp add: insn_op_relocate [OF assms(2)] shift_label_def)
    moreover have "reg_num (relocate ip i) 0 = Ok r"
      using r(1) by (simp only: reg_num_def insn_op_relocate [OF assms(2)] case_shift_label)
    ultimately show ?thesis using c by (simp add: e enc_pc_rel_def Let_def)
  qed
  then show ?thesis using False by (simp add: keeps_page_def)
qed

lemma no_group_relocatable [simp]: "relocatable_group no_group"
  by (simp add: no_group_def relocatable_group_def)

lemma b_word: "decode gs 0x14000002 ip fs = built (new_invalid 0x14000002 ip) C_BUncond M_B [OpLabel (ip + 8)]"
proof -
  have "in_branch_sys 0x14000002" by (simp add: in_branch_sys_def bits_def)
  then show ?thesis using decode_arms(3) [of "0x14000002" gs ip fs]
    by (simp add: decode_decoded decoded_def decode_branch_sys_def decode_uncond_branch_imm_def rel_label_def bits_def bit_at_def
        sign_extend_def Let_def)
qed

text \<open>\<open>b +8\<close>, decoded at 0 and moved to \<open>0x1000\<close>.\<close>

theorem relocate_keeps_encoding_witness:
  "encode no_group (relocate 0x1000 (decode no_group 0x14000002 0 FeatureSet_BASE)) =
   encode no_group (decode no_group 0x14000002 0 FeatureSet_BASE)"
proof -
  have "wf_insn (decode no_group 0x14000002 0 FeatureSet_BASE)" "\<not> g_owns no_group (i_code (decode no_group 0x14000002 0 FeatureSet_BASE))"
    by (simp_all add: b_word no_group_def)
  from relocate_keeps_encoding [OF this(2,1), where ip = "0x1000"] show ?thesis by (simp add: b_word split: if_splits)
qed

section \<open>Every sequence of edits\<close>

inductive edit_step :: "group \<Rightarrow> insn \<Rightarrow> insn \<Rightarrow> bool" for gs where
  ip: "edit_step gs i (set_ip ip i)"
| move: "edit_step gs i (relocate ip i)"
| recode: "edit_step gs i (set_code c i)"
| rename: "edit_step gs i (set_mnemonic m i)"
| op: "edit_step gs i (snd (set_op n op i))"
| count: "edit_step gs i (snd (set_op_count n i))"
| push: "edit_step gs i (snd (push_op op i))"
| reg: "edit_step gs i (snd (set_op_register n r i))"
| reg_unchecked: "edit_step gs i (snd (set_op_register_unchecked n r i))"
| imm: "edit_step gs i (snd (set_op_immediate n v i))"
| cond: "edit_step gs i (snd (set_condition cc i))"
| lab: "edit_step gs i (snd (set_label t i))"
| target: "edit_step gs i (snd (set_near_branch_target t i))"
| base: "edit_step gs i (snd (set_memory_base r i))"
| index: "edit_step gs i (snd (set_memory_index r i))"
| disp: "edit_step gs i (snd (set_memory_displacement64 d i))"
| commit: "edit_step gs i (snd (re_encode gs i))"

inductive_cases edit_stepE: "edit_step gs i j"

text \<open>The flag is truthful: without it, the stored word is what the encoder makes of the instruction.\<close>

definition settled :: "group \<Rightarrow> insn \<Rightarrow> bool" where
  "settled gs i \<longleftrightarrow> wf_insn i \<and> (\<not> is_modified i \<longrightarrow> encode gs i = Ok (i_word i))"

context insn_edit
begin

lemma edit_settled: "settled gs i \<Longrightarrow> settled gs (snd (edit i))"
proof -
  assume s: "settled gs i"
  obtain b j where e: "edit i = (b, j)" by fastforce
  show ?thesis
  proof (cases b)
    case True
    then show ?thesis using e s accepted [of i j] keeps_wf [of i b j] by (simp add: settled_def)
  next
    case False
    then show ?thesis using e s refused [of i j] by simp
  qed
qed

end

lemmas settled_edits = ed_set_op.edit_settled ed_set_op_count.edit_settled ed_push_op.edit_settled ed_register.edit_settled
  ed_register_unchecked.edit_settled ed_immediate.edit_settled ed_condition.edit_settled ed_label.edit_settled
  ed_branch.edit_settled ed_base.edit_settled ed_index.edit_settled ed_disp.edit_settled

lemma wf_headers:
  "wf_insn (i\<lparr>i_ip := ip\<rparr>) = wf_insn i" "wf_insn (mark_modified i) = wf_insn i"
  "wf_insn (i\<lparr>i_code := c\<rparr>) = wf_insn i" "wf_insn (i\<lparr>i_mnemonic := m\<rparr>) = wf_insn i"
  by (simp_all add: wf_insn_def mark_modified_def)

lemma settled_moves:
  assumes "relocatable_group gs" "settled gs i"
  shows "settled gs (relocate ip i)" "settled gs (set_ip ip i)"
proof -
  have wf: "wf_insn i" using assms(2) by (simp add: settled_def)
  show r: "settled gs (relocate ip i)"
  proof (cases "has_label i")
    case True
    then have "is_modified (relocate ip i)" by (simp add: relocate_def Let_def)
    then show ?thesis using wf_relocate [OF wf] by (simp add: settled_def)
  next
    case False
    have "is_modified (relocate ip i) = is_modified i"
      using relocate_no_label [OF False] by (simp add: is_modified_def)
    moreover have "encode gs (relocate ip i) = encode gs i"
      using False by (intro encode_relocate [OF disjI1 [OF assms(1)] wf]) (simp add: keeps_page_def)
    ultimately show ?thesis using assms(2) wf_relocate [OF wf] by (simp add: settled_def)
  qed
  show "settled gs (set_ip ip i)"
  proof (cases "has_label i")
    case True
    then have "has_label (i\<lparr>i_ip := ip\<rparr>)" by (simp add: has_label_def live_operands_def)
    then show ?thesis using wf by (simp add: set_ip_def settled_def wf_headers)
  next
    case False
    then have "set_ip ip i = relocate ip i"
      using relocate_no_label [OF False] by (simp add: set_ip_def has_label_def live_operands_def)
    then show ?thesis using r by simp
  qed
qed

lemma settled_re_encode:
  assumes "semantic_group gs" "settled gs i"
  shows "settled gs (snd (re_encode gs i))"
proof (cases "encode gs i")
  case (Ok v)
  have wf: "wf_insn i" using assms(2) by (simp add: settled_def)
  note r = re_encode_Ok [OF Ok wf]
  have "encode gs (clear_modified (i\<lparr>i_word := v\<rparr>)) = Ok v"
    using encode_same [OF assms(1) r(2) wf r(3)] Ok by simp
  then show ?thesis using r by (simp add: settled_def clear_modified_def)
qed (use assms(2) in \<open>simp_all add: re_encode_def\<close>)

lemma settled_step:
  assumes "relocatable_group gs" "semantic_group gs" "edit_step gs i j" "settled gs i"
  shows "settled gs j"
  using assms(3)
proof cases
  case (recode c)
  then show ?thesis using assms(4) by (simp add: settled_def set_code_def wf_headers)
next
  case (rename m)
  then show ?thesis using assms(4) by (simp add: settled_def set_mnemonic_def wf_headers)
qed (simp_all add: assms settled_edits settled_moves settled_re_encode)

text \<open>C8: the flag \<open>is_modified\<close> tells the truth through every sequence of edits, moves and re-encodings: if an instruction starts out
  well-formed, and either modified or with a word that is its encoding, then whatever is done to it, it stays well-formed, and as long
  as or whenever the flag is clear, the stored word is exactly what the encoder makes of it.  The start matters: the decoder accepts
  words that are not their instruction's encoding, and their flag is clear.  An edit may set any code, so the group that is an argument is
  asked for what the modelled encoders are proved to do: to see the code, the mnemonic, the address and the live operands only, and
  a label only in its distance to the address.\<close>

theorem modified_flag_truthful:
  assumes "relocatable_group gs" "semantic_group gs" "wf_insn i" "is_modified i \<or> encode gs i = Ok (i_word i)" "(edit_step gs)\<^sup>*\<^sup>* i j"
  shows "wf_insn j \<and> (is_modified j \<or> encode gs j = Ok (i_word j))"
  using assms(5)
proof -
  have "settled gs i" using assms(3,4) by (auto simp: settled_def)
  with assms(5) have "settled gs j"
    by (induction rule: rtranclp_induct) (use assms(1,2) settled_step in blast)+
  then show ?thesis by (auto simp: settled_def)
qed

text \<open>\<open>b +8\<close> decoded at 0: its target is changed, and the new word is stored.\<close>

theorem modified_flag_truthful_witness:
  "let d = decode no_group 0x14000002 0 FeatureSet_BASE; j = snd (re_encode no_group (snd (set_label 0x40 d)))
   in is_modified j \<or> encode no_group j = Ok (i_word j)"
proof -
  let ?d = "decode no_group 0x14000002 0 FeatureSet_BASE"
  have w: "wf_insn ?d" by (simp add: b_word)
  have "encode no_group ?d = enc_uncond_branch_imm ?d"
    using encode_arms(3) [of ?d no_group] by (simp add: b_word is_branch_sys_def encode_branch_sys_def)
  then have e: "encode no_group ?d = Ok (i_word ?d)"
    by (simp add: b_word enc_uncond_branch_imm_def enc_label_def rel_imm_def new_invalid_def mask_eq_exp_minus_1)
  have "(edit_step no_group)\<^sup>*\<^sup>* ?d (snd (re_encode no_group (snd (set_label 0x40 ?d))))"
    by (meson edit_step.lab edit_step.commit r_into_rtranclp rtranclp.rtrancl_into_rtrancl)
  from modified_flag_truthful [OF no_group_relocatable no_group_good(2) w disjI2 [OF e] this] show ?thesis by (simp add: Let_def)
qed

end
