(* ===== verification/Ldst_Offset.thy ===== *)
theory Ldst_Offset
  imports Ldst_Codec Insn_Edit
begin

text \<open>
  Editing the displacement of a load/store pair (\<open>set_memory_displacement64\<close>) and encoding the result.  The decoder of a pair is a
  function of the word without its field \<open>imm7\<close> and of that field (\<open>pair_slot\<close>); the encoder accepts the 128 multiples of the
  access size that the field can hold.
\<close>

section \<open>The scaled offset\<close>

definition pair_offset :: "u32 \<Rightarrow> u32 \<Rightarrow> i64" where
  "pair_offset s v = push_bit (unat s) (sign_extend (ucast v) 7)"

definition offset_fits :: "u32 \<Rightarrow> i64 \<Rightarrow> bool" where
  "offset_fits s imm \<longleftrightarrow> 2 ^ unat s dvd sint imm \<and> - 64 * 2 ^ unat s \<le> sint imm \<and> sint imm \<le> 63 * 2 ^ unat s"

lemma rem_i64_dvd: "k < 63 \<Longrightarrow> rem_i64 imm (2 ^ k) = 0 \<longleftrightarrow> 2 ^ k dvd sint imm"
proof -
  assume k: "k < 63"
  have s: "sint (2 ^ k :: i64) = 2 ^ k"
    using k by (intro bit_eqI) (auto simp: bit_sint_iff bit_simps min_def)
  have b: "\<bar>sint imm smod 2 ^ k\<bar> < 2 ^ k" by (simp add: signed_modulo_int_def abs_mult sgn_if)
  have "(2 :: int) ^ k \<le> 2 ^ 62" using k by (intro power_increasing) auto
  then have "sint imm smod 2 ^ k \<in> {- (2 ^ 63) ..< 2 ^ 63}" using b by auto
  then have "sint (word_of_int (sint imm smod 2 ^ k) :: i64) = sint imm smod 2 ^ k"
    by (simp add: int_word_sint mod_pos_pos_trivial)
  then have "(word_of_int (sint imm smod 2 ^ k) :: i64) = 0 \<longleftrightarrow> sint imm smod 2 ^ k = 0"
    by (metis of_int_0 sint_0)
  moreover have "sint imm smod 2 ^ k = 0 \<longleftrightarrow> 2 ^ k dvd sint imm"
    by (auto simp: signed_modulo_int_def sgn_0_0 dvd_eq_mod_eq_0 [symmetric])
  ultimately show ?thesis unfolding rem_i64_def s by blast
qed

lemma sint_signed_drop_bit: "sint (signed_drop_bit k (x :: i64)) = sint x div 2 ^ k"
  by (simp add: sint_signed_drop_bit_eq drop_bit_eq_div)

lemma scale_cancel: "(a :: int) * 2 ^ k \<le> 2 ^ k * q \<longleftrightarrow> a \<le> q" "2 ^ k * q \<le> a * 2 ^ k \<longleftrightarrow> q \<le> a"
  by (simp_all add: mult.commute)

lemma encode_scaled_imm7_iff:
  assumes "unat s \<le> 4"
  shows "encode_scaled_imm7 imm s = (if offset_fits s imm then Ok (ucast (signed_drop_bit (unat s) imm) AND 0x7f) else Err EncInvalidImmediate)"
proof -
  have d: "- 64 \<le> sint imm div 2 ^ unat s \<and> sint imm div 2 ^ unat s \<le> 63 \<longleftrightarrow> - 64 * 2 ^ unat s \<le> sint imm \<and> sint imm \<le> 63 * 2 ^ unat s"
    if "2 ^ unat s dvd sint imm"
  proof -
    from that obtain q where q: "sint imm = 2 ^ unat s * q" by blast
    show ?thesis unfolding q scale_cancel by simp
  qed
  show ?thesis
    using assms d by (auto simp: encode_scaled_imm7_def Let_def rem_i64_dvd offset_fits_def sint_signed_drop_bit)
qed

lemma sign_extend_of_small:
  assumes "- 64 \<le> sint t" "sint (t :: i64) \<le> 63"
  shows "sign_extend (ucast (ucast t AND (0x7f :: u32))) 7 = t"
proof -
  have "signed_take_bit 6 (sint t) = sint t" using assms by (intro signed_take_bit_int_eq_self) auto
  then have m: "bit (sint t) i = bit (sint t) (min 6 i)" for i using bit_signed_take_bit_iff [of 6 "sint t" i] by simp
  then have t: "bit t i = bit t 6" if "6 \<le> i" "i < 64" for i
    using that m [of i] by (simp add: bit_sint_iff min_def)
  show ?thesis
    unfolding and_mask_u32
  proof (rule bit_word_eqI)
    fix i assume i: "i < LENGTH(64)"
    show "bit (sign_extend (ucast (take_bit 7 (ucast t :: u32))) 7) i = bit t i"
      using i t [of i] by (cases "i < 7") (simp_all add: bit_sign_extend bit_simps)
  qed
qed

lemma offset_back:
  assumes "unat s \<le> 4" "offset_fits s imm"
  shows "pair_offset s (ucast (signed_drop_bit (unat s) imm) AND 0x7f) = imm"
proof -
  let ?k = "unat s"
  let ?t = "signed_drop_bit ?k imm"
  have d: "2 ^ ?k dvd sint imm" using assms(2) by (simp add: offset_fits_def)
  then obtain q where q: "sint imm = 2 ^ ?k * q" by blast
  have "- 64 \<le> q" "q \<le> 63"
    using assms(2) unfolding offset_fits_def q scale_cancel by simp_all
  then have r: "- 64 \<le> sint ?t" "sint ?t \<le> 63" by (simp_all add: sint_signed_drop_bit q)
  have "take_bit ?k (sint imm) = 0" using d by (simp add: take_bit_eq_0_iff)
  then have z: "\<not> bit imm i" if "i < ?k" for i
  proof -
    have "\<not> bit (take_bit ?k (sint imm)) i" using \<open>take_bit ?k (sint imm) = 0\<close> by simp
    then show ?thesis using that assms(1) by (simp add: bit_simps bit_sint_iff min_def)
  qed
  have "push_bit ?k ?t = imm"
  proof (rule bit_word_eqI)
    fix n assume "n < LENGTH(64)"
    then show "bit (push_bit ?k ?t) n = bit imm n"
      using z [of n] by (cases "?k \<le> n") (auto simp: bit_simps bit_signed_drop_bit_iff)
  qed
  then show ?thesis by (simp add: pair_offset_def sign_extend_of_small [OF r])
qed

section \<open>The decoder as a function of the field\<close>

definition plain_reg :: "operand \<Rightarrow> bool" where
  "plain_reg op \<longleftrightarrow> operand_kind op = KindRegister"

definition pair_slot :: "(u32 \<Rightarrow> insn) \<Rightarrow> insn \<Rightarrow> u32 \<Rightarrow> u32 \<Rightarrow> bool" where
  "pair_slot F out idx rn \<longleftrightarrow>
     (\<forall>x. F x = out) \<or>
     (\<exists>c m r1 r2 f. pair_kind c = Some f \<and> unat (pf_scale f) \<le> 4 \<and> plain_reg r1 \<and> plain_reg r2 \<and>
        (\<forall>x. F x = built out c m [r1, r2, pair_mem idx rn (pair_offset (pf_scale f) x)]))"

lemma slot_if: "(b \<Longrightarrow> pair_slot F out idx rn) \<Longrightarrow> (\<not> b \<Longrightarrow> pair_slot G out idx rn) \<Longrightarrow> pair_slot (\<lambda>x. if b then F x else G x) out idx rn"
  by (cases b) simp_all

lemma slot_option:
  "(y = None \<Longrightarrow> pair_slot F out idx rn) \<Longrightarrow> (\<And>z. y = Some z \<Longrightarrow> pair_slot (G z) out idx rn) \<Longrightarrow>
   pair_slot (\<lambda>x. case y of None \<Rightarrow> F x | Some z \<Rightarrow> G z x) out idx rn"
  by (cases y) simp_all

lemma slot_out: "pair_slot (\<lambda>x. out) out idx rn"
  by (simp add: pair_slot_def)

lemma plain_regs [simp]: "plain_reg (gp_reg u wd n)" "plain_reg (OpPlainReg r)"
  by (simp_all add: plain_reg_def gp_reg_def)

lemma slot_leaf:
  "pair_kind c = Some f \<Longrightarrow> unat (pf_scale f) \<le> 4 \<Longrightarrow> plain_reg r1 \<Longrightarrow> plain_reg r2 \<Longrightarrow>
   pair_slot (\<lambda>x. built out c m [r1, r2, pair_mem idx rn (pair_offset (pf_scale f) x)]) out idx rn"
  unfolding pair_slot_def by blast

lemma slot_gp:
  assumes "gp_pair_row opc l idx s f c" "unat s \<le> 4"
  shows "pair_slot (\<lambda>x. fold push_operand [gp_reg False wd rt, gp_reg False wd rt2, pair_mem idx rn (push_bit (unat s) (sign_extend (ucast x) 7))]
    (insn_set c out)) out idx rn"
  using slot_leaf [of c "gp_pair opc l idx s" "gp_reg False wd rt" "gp_reg False wd rt2" out "code_mnemonic c" idx rn] assms
  by (simp add: gp_pair_row_def pair_offset_def)

lemma slot_fp:
  assumes "pair_kind c = Some f" "pf_scale f = a" "unat a \<le> 4"
  shows "pair_slot (\<lambda>x. fold push_operand [OpPlainReg (fp_reg a rt), OpPlainReg (fp_reg a rt2),
      pair_mem idx rn (push_bit (unat a) (sign_extend (ucast x) 7))] (built out c m [])) out idx rn"
  using slot_leaf [of c f "OpPlainReg (fp_reg a rt)" "OpPlainReg (fp_reg a rt2)" out m idx rn] assms
  by (simp add: pair_offset_def)

lemma slot_stgp: "pair_slot (\<lambda>x. emit_stgp idx x rt2 rn rt out) out idx rn"
  unfolding emit_stgp_def Let_def
  using slot_gp [OF stgp_rows, where out = out and wd = X64] by (intro slot_option slot_out) simp

lemma slot_the_pair: "pair_slot (\<lambda>x. decode_the_pair idx l x rt2 rn rt fs out) out idx rn"
  unfolding decode_the_pair_def Let_def
  using slot_gp [OF the_pair_rows, where out = out and wd = X64] by (intro slot_if slot_option slot_out) simp

lemma slot_the_pair_q: "pair_slot (\<lambda>x. decode_the_pair_q idx l x rt2 rn rt fs out) out idx rn"
  unfolding decode_the_pair_q_def Let_def
  using slot_fp [OF conjunct1 [OF the_pair_q_rows], where a = 4 and out = out] by (intro slot_if slot_option slot_out) simp

lemma sign_extend_low_bits: "sign_extend (ucast (take_bit 7 x :: u32)) 7 = sign_extend (ucast x) 7"
  by (rule bit_word_eqI) (simp add: bit_sign_extend bit_simps)

lemma agree_pair_fields:
  assumes "agree 15 7 w v"
  shows "bits v 30 2 = bits w 30 2" "bit_at v 26 = bit_at w 26" "bits v 23 2 = bits w 23 2" "bit_at v 22 = bit_at w 22"
    "bits v 10 5 = bits w 10 5" "bits v 5 5 = bits w 5 5" "bits v 0 5 = bits w 0 5" "bits v 27 3 = bits w 27 3" "bits v 24 6 = bits w 24 6"
    "bit v 25 = bit w 25"
  by (rule agree_bits [OF assms] agree_bit_at [OF assms], simp)+ (use assms in \<open>simp add: agree_def\<close>)

definition with_imm7 :: "u32 \<Rightarrow> u32 \<Rightarrow> u32" where
  "with_imm7 w x = with_field 15 7 x w"

lemma with_imm7:
  "agree 15 7 w (with_imm7 w x)" "bits (with_imm7 w x) 15 7 = take_bit 7 x" "agree 15 7 w v \<Longrightarrow> with_imm7 w (bits v 15 7) = v"
proof -
  show "agree 15 7 w (with_imm7 w x)" "bits (with_imm7 w x) 15 7 = take_bit 7 x"
    unfolding with_imm7_def by (rule with_field; simp)+
  assume a: "agree 15 7 w v"
  show "with_imm7 w (bits v 15 7) = v"
    unfolding with_imm7_def with_field_def
  proof (rule bit_word_eqI)
    fix n assume "n < LENGTH(32)"
    then show "bit (w AND NOT (push_bit 15 (mask 7)) OR push_bit 15 (take_bit 7 (bits v 15 7))) n = bit v n"
      using a by (cases "15 \<le> n"; cases "n < 22") (auto simp: agree_def bit_simps bit_bits)
  qed
qed

lemmas imm7_fields = agree_pair_fields [OF with_imm7(1)] with_imm7(2)

lemma slot_low: "pair_slot F out idx rn \<Longrightarrow> pair_slot (\<lambda>x. F (take_bit 7 x)) out idx rn"
proof -
  assume "pair_slot F out idx rn"
  then consider "\<forall>x. F x = out"
    | c m r1 r2 f where "pair_kind c = Some f" "unat (pf_scale f) \<le> 4" "plain_reg r1" "plain_reg r2"
        "\<And>x. F x = built out c m [r1, r2, pair_mem idx rn (pair_offset (pf_scale f) x)]"
    unfolding pair_slot_def by blast
  then show ?thesis
  proof cases
    case 1
    then show ?thesis by (simp add: pair_slot_def)
  next
    case 2
    then show ?thesis using slot_leaf [OF 2(1-4), of out m idx rn] by (simp add: pair_offset_def sign_extend_low_bits)
  qed
qed

lemma slot_fp_pair:
  assumes "bits w 30 2 \<noteq> 3" "bit w 26"
  shows "pair_slot (\<lambda>x. decode_pair (with_imm7 w x) fs out) out (bits w 23 2) (bits w 5 5)"
proof -
  note r = slot_fp [where a = 2, simplified] slot_fp [where a = 3, simplified] slot_fp [where a = 4, simplified]
  show ?thesis
    unfolding decode_pair_def Let_def imm7_fields sign_extend_low_bits
    using bits_2_cases [of w 30] assms bit_at_1 [OF assms(2)]
    by (cases "bit w 22"; elim disjE; cases "bits w 23 2 = 0") (simp_all add: bit_at_1 bit_at_0 the_default_def r)
qed

lemma slot_gp_pair:
  assumes "bits w 30 2 \<noteq> 3" "\<not> bit w 26"
  shows "pair_slot (\<lambda>x. decode_pair (with_imm7 w x) fs out) out (bits w 23 2) (bits w 5 5)"
proof -
  consider "bits w 30 2 = 0" | "bits w 30 2 = 1" | "bits w 30 2 = 2" using bits_2_cases [of w 30] assms(1) by auto
  then show ?thesis
  proof cases
    case 1
    show ?thesis
      unfolding decode_pair_def Let_def imm7_fields sign_extend_low_bits
      using 1 assms(2) slot_gp [OF pair_code_gp_rows(1) [OF _ bit_at_cases], where out = out, simplified]
      by (simp add: bit_at_0; intro slot_option slot_out; simp)
  next
    case 2
    show ?thesis
      unfolding decode_pair_def Let_def imm7_fields sign_extend_low_bits
      using 2 assms(2) slot_low [OF slot_stgp] slot_gp [OF pair_code_gp_rows(3), where out = out, simplified]
      by (cases "bit w 22"; simp add: bit_at_0 bit_at_1; (intro slot_option slot_if slot_out; simp)?)
  next
    case 3
    show ?thesis
      unfolding decode_pair_def Let_def imm7_fields sign_extend_low_bits
      using 3 assms(2) slot_gp [OF pair_code_gp_rows(2) [OF _ bit_at_cases], where out = out, simplified]
      by (simp add: bit_at_0; intro slot_option slot_out; simp)
  qed
qed

lemma slot_pair: "pair_slot (\<lambda>x. decode_pair (with_imm7 w x) fs out) out (bits w 23 2) (bits w 5 5)"
proof (cases "bits w 30 2 = 3")
  case True
  then show ?thesis
    unfolding decode_pair_def Let_def imm7_fields
    using slot_low [OF slot_the_pair] slot_low [OF slot_the_pair_q] by (cases "bit w 26") (simp_all add: bit_at_1 bit_at_0)
next
  case False
  then show ?thesis using slot_fp_pair slot_gp_pair by blast
qed

section \<open>Encoding an edited pair\<close>

lemma enc_pair_offset:
  assumes "pair_kind c = Some f" "unat (pf_scale f) \<le> 4" "\<not> offset_fits (pf_scale f) imm"
    "enc_pair (built out c m [r1, r2, OpMemImm b old mode]) = Ok v"
  shows "enc_pair (built out c m [r1, r2, OpMemImm b imm mode]) = Err EncInvalidImmediate"
  using assms(1,4) encode_scaled_imm7_iff [OF assms(2), of imm] assms(3)
  by (auto simp: enc_pair_def ldst_enc_eval op_mem_def insn_op_register_def ok_or_def split: if_splits option.splits)

lemma set_disp_built:
  assumes "plain_reg r1" "plain_reg r2" "set_memory_displacement64 imm (built out c m [r1, r2, OpMemImm b old mode]) = (ok, e)"
  shows "ok" "wf_insn e" "same_semantics e (built out c m [r1, r2, OpMemImm b imm mode])"
proof -
  let ?i = "built out c m [r1, r2, OpMemImm b old mode]"
  have s: "set_memory_displacement64 imm ?i =
      (True, mark_modified (?i\<lparr>i_operands := [r1, r2, OpMemImm b imm mode] @ drop (i_op_count ?i) (i_operands ?i)\<rparr>))"
    using assms(1,2) by (cases r1; cases r2) (simp_all add: plain_reg_def set_memory_displacement64_def edit_live_def)
  show "ok" using assms(3) unfolding s by simp
  show "wf_insn e" by (rule ed_disp.keeps_wf [OF assms(3)]) simp
  have "live_operands e = [r1, r2, OpMemImm b imm mode]" using assms(3) unfolding s by (auto simp: live_operands_def)
  then show "same_semantics e (built out c m [r1, r2, OpMemImm b imm mode])"
    using assms(3) unfolding s by (auto simp: same_semantics_def)
qed

lemma pair_mem_form: "\<exists>b mode. \<forall>imm. pair_mem idx rn imm = OpMemImm b imm mode"
  by (auto simp: pair_mem_def mem_post_def mem_pre_def mem_off_def)

lemma decode_ldst_pair:
  assumes "bits w 27 3 = 5"
  shows "decode_ldst w ip fs out = decode_pair w fs out"
proof -
  have "bit (bits w 24 6) 5" using bits_eqD [OF assms, of 2] by (simp add: bit_bits)
  then have "bits w 24 6 \<notin> {8, 9, 12, 13, 25}" by auto
  then show ?thesis using assms by (auto simp: decode_ldst_def is_mops_word_def is_setg_option_word_def)
qed

lemma same_special_pairs:
  assumes "same_semantics out out'" "i_ip out = i_ip out'"
  shows "same_semantics (decode_the_pair idx l x rt2 rn rt fs out) (decode_the_pair idx l x rt2 rn rt fs out')"
    "same_semantics (decode_the_pair_q idx l x rt2 rn rt fs out) (decode_the_pair_q idx l x rt2 rn rt fs out')"
    "same_semantics (emit_stgp idx x rt2 rn rt out) (emit_stgp idx x rt2 rn rt out')"
  unfolding decode_the_pair_def decode_the_pair_q_def emit_stgp_def Let_def
  by (intro same_split; simp add: assms)+

lemma same_pair:
  assumes "same_semantics out out'"
  shows "same_semantics (decode_pair w fs out) (decode_pair w fs out')"
proof -
  have i: "i_ip out = i_ip out'" using assms by (simp add: same_semantics_def)
  note s = same_special_pairs [OF assms i]
  consider "bits w 30 2 = 3" | "bits w 30 2 \<noteq> 3" "bit w 26" | "bits w 30 2 = 0" "\<not> bit w 26" | "bits w 30 2 = 1" "\<not> bit w 26"
    | "bits w 30 2 = 2" "\<not> bit w 26" using bits_2_cases [of w 30] by blast
  then show ?thesis
  proof cases
    case 2
    then show ?thesis
      using bits_2_cases [of w 30] bit_at_1 [OF 2(2)] unfolding decode_pair_def Let_def
      by (elim disjE; cases "bits w 23 2 = 0") (simp_all add: i assms)
  qed (simp_all add: decode_pair_def Let_def bit_at_0 s i assms same_semantics_if split: option.split)
qed

definition pair_scale :: "code \<Rightarrow> u32" where
  "pair_scale c = (case pair_kind c of Some f \<Rightarrow> pf_scale f | None \<Rightarrow> 0)"

lemma pair_offset_edit_core:
  assumes "bits w 27 3 = 5" "\<not> bit w 25" "i_code (decoded decode_ldst w ip fs) \<noteq> C_Invalid"
    "set_memory_displacement64 imm (decoded decode_ldst w ip fs) = (ok, e)"
  shows "ok \<and> (if offset_fits (pair_scale (i_code e)) imm
      then \<exists>v. agree 15 7 w v \<and> encode_ldst e = Ok v \<and> same_semantics (decoded decode_ldst v ip fs) e
      else encode_ldst e = Err EncInvalidImmediate)"
proof -
  let ?out = "new_invalid w ip"
  have d: "decoded decode_ldst v ip fs = decode_pair v fs (new_invalid v ip)" if "agree 15 7 w v" for v
    using agree_pair_fields(8) [OF that] assms(1) by (simp add: decoded_def decode_ldst_pair)
  note dw = d [OF agree_refl]
  have w: "with_imm7 w (bits w 15 7) = w" by (rule with_imm7(3)) simp
  have "decode_pair (with_imm7 w (bits w 15 7)) fs ?out \<noteq> ?out" using assms(3) unfolding dw w by (auto simp: new_invalid_def)
  then obtain c m r1 r2 f where k: "pair_kind c = Some f" "unat (pf_scale f) \<le> 4" "plain_reg r1" "plain_reg r2"
    and F: "\<And>x. decode_pair (with_imm7 w x) fs ?out =
       built ?out c m [r1, r2, pair_mem (bits w 23 2) (bits w 5 5) (pair_offset (pf_scale f) x)]"
    using slot_pair [of w fs ?out] unfolding pair_slot_def by blast
  obtain b mode where p: "\<And>imm. pair_mem (bits w 23 2) (bits w 5 5) imm = OpMemImm b imm mode"
    using pair_mem_form by metis
  note F = F [unfolded p]
  have dF: "decode_pair w fs ?out = built ?out c m [r1, r2, OpMemImm b (pair_offset (pf_scale f) (bits w 15 7)) mode]"
    using F [of "bits w 15 7"] unfolding w .
  note e = set_disp_built [OF k(3,4) assms(4) [unfolded dw dF]]
  have c: "i_code e = c" "pair_scale c = pf_scale f" using e(3) k(1) by (simp_all add: same_semantics_def pair_scale_def)
  have enc: "encode_ldst (decode_pair v fs out) = Ok v" if "decode_pair v fs out \<noteq> out" "agree 15 7 w v" for v out
    using leaves_pair [of v fs out] that agree_pair_fields(8,10) [OF that(2)] assms(1,2) by (auto simp: leaves_def ldst_leaf_def)
  have wf: "wf_insn (built ?out c m [r1, r2, OpMemImm b imm mode])" by simp
  have es: "encode_ldst e = encode_ldst (built ?out c m [r1, r2, OpMemImm b imm mode])" by (rule ldst_enc_same [OF e(2) wf e(3)])
  have pk: "encode_ldst (built ?out c m ops) = enc_pair (built ?out c m ops)" for ops by (rule by_pair_kind) (simp add: k(1))
  show ?thesis
  proof (cases "offset_fits (pf_scale f) imm")
    case True
    define x where "x = (ucast (signed_drop_bit (unat (pf_scale f)) imm) AND 0x7f :: u32)"
    let ?v = "with_imm7 w x"
    have a: "agree 15 7 w ?v" by (rule with_imm7(1))
    have D: "decode_pair ?v fs ?out = built ?out c m [r1, r2, OpMemImm b imm mode]"
      unfolding F x_def offset_back [OF k(2) True] ..
    then have "decode_pair ?v fs ?out \<noteq> ?out"
      using k(1) by (auto simp: new_invalid_def dest: arg_cong [where f = i_code])
    from enc [OF this a] have "encode_ldst e = Ok ?v" unfolding D es .
    moreover have "same_semantics (decoded decode_ldst ?v ip fs) e"
      unfolding d [OF a] using same_pair [OF same_invalid [of ?v ip w], of ?v fs] e(3) unfolding D
      by (meson same_semantics_sym same_semantics_trans)
    ultimately show ?thesis using True e(1) a by (auto simp: c)
  next
    case False
    have "decode_pair w fs ?out \<noteq> ?out" using assms(3) unfolding dw by (auto simp: new_invalid_def)
    then have "enc_pair (built ?out c m [r1, r2, OpMemImm b (pair_offset (pf_scale f) (bits w 15 7)) mode]) = Ok w"
      using enc [of w ?out] by (simp add: dF pk)
    from enc_pair_offset [OF k(1,2) False this] show ?thesis using False e(1) by (simp add: c es pk)
  qed
qed

end
