(* ===== verification/Ldst_Correct.thy ===== *)
theory Ldst_Correct
  imports Ldst_Codec Ldst_Offset
begin

text \<open>
  The properties of loads and stores, the memory copy and set instructions among them, which share the words of the group: the round
  trip of every word, when two words are the same instruction, the extension gate, the totality of the encoder, the offset of a pair
  under edits, and the ordering suffix of the atomics.
\<close>

section \<open>Round trip\<close>

lemma canon_excl_twice: "canon_excl (canon_excl w) = canon_excl w"
proof (rule bit_word_eqI)
  have f: "rs_free (canon_excl w) = rs_free w" "rt2_free (canon_excl w) = rt2_free w"
    by (simp_all add: rs_free_def rt2_free_def bit_canon_excl)
  fix n assume "n < LENGTH(32)"
  then show "bit (canon_excl (canon_excl w)) n = bit (canon_excl w) n" by (auto simp: bit_canon_excl f)
qed

lemma canon_ldst_twice: "canon_ldst (canon_ldst w) = canon_ldst w"
  by (simp add: canon_ldst_def canon_excl_fields canon_excl_twice)

text \<open>C11: every word of the group that decodes is encoded back to its canonical word, which is a word of the group, decodes to the
  same instruction and is its own canonical word.  Only the exclusive, ordered and compare-and-swap classes have words that are not
  canonical: there the decoder ignores the register fields that the instruction does not use.\<close>

theorem ldst_round_trip:
  assumes "in_ldst w" "i_code (decoded decode_ldst w ip fs) \<noteq> C_Invalid"
  shows "let d = decoded decode_ldst w ip fs; v = canon_ldst w
    in encode_memory d = Ok v \<and> in_ldst v \<and> same_semantics (decoded decode_ldst v ip fs) d \<and>
       encode_memory (decoded decode_ldst v ip fs) = Ok v \<and> canon_ldst v = v \<and> (bits w 24 6 \<notin> {8, 9} \<longrightarrow> v = w)"
proof -
  have e: "encode_memory (decoded decode_ldst w ip fs) = Ok (canon_ldst w)" by (rule memory_encode [OF assms])
  show ?thesis
    using e canon_ldst_in [OF assms(1)] canon_decode [of w ip fs] ldst.canonical [OF assms e] canon_ldst_twice [of w]
    by (simp add: Let_def canon_ldst_def)
qed

lemmas ldst_word_eval = decoded_def decode_ldst_def is_mops_word_def is_setg_option_word_def Let_def bits_def bit_at_def new_invalid_def

lemma ldxr_decoded:
  "i_code (decoded decode_ldst 0x88400020 0 FeatureSet_BASE) = C_Ldxr32" "in_ldst 0x88400020" "canon_ldst 0x88400020 = 0x885f7c20"
  by (simp_all add: ldst_word_eval decode_exclusive_def decode_excl_single_def excl_single_codes_def the_default_def in_ldst_def canon_ldst_def
      canon_excl_def rs_free_def rt2_free_def)

text \<open>\<open>ldxr w0, [x1]\<close> with zeros in the two unused register fields.\<close>

theorem ldst_round_trip_witness:
  "i_code (decoded decode_ldst 0x88400020 0 FeatureSet_BASE) = C_Ldxr32 \<and>
   encode_memory (decoded decode_ldst 0x88400020 0 FeatureSet_BASE) = Ok 0x885f7c20"
  using ldst_round_trip [of "0x88400020" 0 FeatureSet_BASE] ldxr_decoded by (simp add: Let_def)

text \<open>C12: two words of the group that decode are the same instruction exactly if their canonical words are equal; so the decoder
  confuses two words only where the architecture ignores the fields in which they differ.\<close>

theorem ldst_same_iff_canon:
  assumes "in_ldst w" "in_ldst v" "i_code (decoded decode_ldst w ip fs) \<noteq> C_Invalid" "i_code (decoded decode_ldst v ip fs) \<noteq> C_Invalid"
  shows "same_semantics (decoded decode_ldst w ip fs) (decoded decode_ldst v ip fs) \<longleftrightarrow> canon_ldst w = canon_ldst v"
proof
  assume "same_semantics (decoded decode_ldst w ip fs) (decoded decode_ldst v ip fs)"
  then have "encode_memory (decoded decode_ldst w ip fs) = encode_memory (decoded decode_ldst v ip fs)"
    using ldst.dec_wf assms(1,2) by (intro memory_enc_same) auto
  then show "canon_ldst w = canon_ldst v" using memory_encode assms by simp
next
  assume "canon_ldst w = canon_ldst v"
  then show "same_semantics (decoded decode_ldst w ip fs) (decoded decode_ldst v ip fs)"
    using canon_decode same_semantics_sym same_semantics_trans by metis
qed

theorem ldst_same_iff_canon_witness:
  "same_semantics (decoded decode_ldst 0x88400020 0 FeatureSet_BASE) (decoded decode_ldst 0x885f7c20 0 FeatureSet_BASE)"
proof -
  have v: "i_code (decoded decode_ldst 0x885f7c20 0 FeatureSet_BASE) = C_Ldxr32" "in_ldst 0x885f7c20" "canon_ldst 0x885f7c20 = 0x885f7c20"
    by (simp_all add: ldst_word_eval decode_exclusive_def decode_excl_single_def excl_single_codes_def the_default_def in_ldst_def canon_ldst_def
        canon_excl_def rs_free_def rt2_free_def)
  show ?thesis using ldst_same_iff_canon [OF ldxr_decoded(2) v(2), of 0 FeatureSet_BASE] ldxr_decoded v by simp
qed

section \<open>Gate\<close>

lemma owns_memory_gated: "owns_memory c \<Longrightarrow> \<not> ungated c"
  unfolding owns_memory_def ungated_def
  by (auto dest!: is_mops_in is_ldst_range simp: ldst_range_def)

text \<open>C15: what the decoder of the group produces it may produce: the code is one the encoders of the group own, its extension is in the
  feature set, without exception, and the instruction is well-formed, unmodified, and carries the word and the address.\<close>

theorem ldst_admitted:
  assumes "in_ldst w" "i_code (decoded decode_ldst w ip fs) \<noteq> C_Invalid"
  shows "let d = decoded decode_ldst w ip fs
    in owns_memory (i_code d) \<and> has fs (code_feature (i_code d)) \<and> wf_insn d \<and> i_word d = w \<and> i_ip d = ip \<and> i_flags d = 0"
  using assms ldst.dec_feature ldst.dec_owned ldst.dec_wf ldst.dec_frame owns_memory_gated
  unfolding Let_def admitted_def by blast

text \<open>\<open>cas w0, w1, [x2]\<close> needs FEAT_LSE.\<close>

theorem ldst_admitted_witness:
  "i_code (decoded decode_ldst 0x88a07c41 0 FeatureSet_ALL) = C_Cas32 \<and> has FeatureSet_ALL (code_feature C_Cas32) \<and>
   i_code (decoded decode_ldst 0x88a07c41 0 FeatureSet_BASE) = C_Invalid"
proof -
  note e = ldst_word_eval decode_exclusive_def decode_cas_def cas_codes_def the_default_def
  have "in_ldst 0x88a07c41" by (simp add: in_ldst_def)
  moreover have "i_code (decoded decode_ldst 0x88a07c41 0 FeatureSet_ALL) = C_Cas32" by (simp add: e has_iff FeatureSet_ALL_def)
  moreover have "i_code (decoded decode_ldst 0x88a07c41 0 FeatureSet_BASE) = C_Invalid" by (simp add: e has_iff FeatureSet_BASE_def)
  ultimately show ?thesis using ldst_admitted [of "0x88a07c41" 0 FeatureSet_ALL] by (simp add: Let_def)
qed

section \<open>Totality\<close>

lemma and_then_total: "m \<noteq> Panic \<Longrightarrow> (\<And>x. f x \<noteq> Panic) \<Longrightarrow> and_then m f \<noteq> Panic"
  by (simp add: and_then_Panic_iff)

lemma memory_readers_total [simp]:
  "reg_num i n \<noteq> Panic" "mem_imm i n \<noteq> Panic" "prefetch_rt i n \<noteq> Panic" "rprfop_field i n \<noteq> Panic" "data_reg_field i f \<noteq> Panic"
  "label_imm19 t p \<noteq> Panic" "encode_scaled_imm m s \<noteq> Panic" "encode_scaled_imm7 m s \<noteq> Panic" "encode_imm9 m \<noteq> Panic"
  "encode_tag_imm9 m \<noteq> Panic"
  by (auto simp: reg_num_def mem_imm_def prefetch_rt_def rprfop_field_def data_reg_field_def label_imm19_def encode_scaled_imm_def
      encode_scaled_imm7_def encode_imm9_def encode_tag_imm9_def Let_def split: operand.split)


lemma address_readers_total [simp]:
  "recover_mem_ext i n s \<noteq> Panic" "pair_mode_idx m x \<noteq> Panic" "excl_single_regs i l \<noteq> Panic" "cas_pair_regs i \<noteq> Panic"
  "multireg i n \<noteq> Panic" "recover_addr i n b \<noteq> Panic" "pack_lane e l \<noteq> Panic"
  by (auto simp: recover_mem_ext_def pair_mode_idx_def excl_single_regs_def cas_pair_regs_def multireg_def recover_addr_def
      pack_lane_def Let_def and_then_Panic_iff split: operand.split mem_index_mode.split)

lemma register_encoders_total:
  "enc_rprfm i \<noteq> Panic" "enc_literal i \<noteq> Panic" "enc_reg_unsigned i \<noteq> Panic" "enc_reg_unscaled i \<noteq> Panic" "enc_reg_immidx i \<noteq> Panic"
  "enc_fp_unscaled_or_idx i \<noteq> Some Panic" "enc_reg_unpriv i \<noteq> Panic" "enc_reg_offset i \<noteq> Panic" "enc_pair i \<noteq> Panic"
  by (simp_all add: register_enc_defs Let_def and_then_Panic_iff split: operand.split mem_index_mode.split prod.split option.split)

lemma atomic_encoders_total:
  "enc_excl_single i \<noteq> Panic" "enc_excl_pair i \<noteq> Panic" "enc_ordered i \<noteq> Panic" "enc_cas i \<noteq> Panic" "enc_casp i \<noteq> Panic"
  "enc_lsui_excl_single i \<noteq> Panic" "enc_lsui_cas i \<noteq> Panic" "enc_lsui_casp i \<noteq> Panic" "enc_swp i \<noteq> Panic" "enc_rcw_single i \<noteq> Panic"
  "enc_the_atomic i \<noteq> Panic" "enc_atomic i \<noteq> Panic" "enc_lsfe i \<noteq> Panic" "enc_ldapr i \<noteq> Panic" "enc_ls64 i \<noteq> Panic"
  by (simp_all add: atomic_enc_defs Let_def and_then_Panic_iff split: operand.split prod.split the_shape.split)

text \<open>\<open>nregs - 1\<close> does not overflow behind the tests of the register count.\<close>

lemma counts_positive: "ucast (single_count c) \<noteq> (0 :: u32)" "ucast (rep_count c) \<noteq> (0 :: u32)"
  by (simp_all add: single_count_def rep_count_def)

lemma structure_encoders_total [simp]: "enc_single i \<noteq> Panic" "enc_replicate i \<noteq> Panic"
  using counts_positive
  by (auto simp: enc_single_def enc_replicate_def Let_def and_then_Panic_iff split: prod.splits if_splits)

lemma memory_group_encoders_total:
  "encode_ldst_simd i \<noteq> Panic" "enc_gcsstr i \<noteq> Panic" "enc_pac i \<noteq> Panic" "enc_ldapstl i \<noteq> Panic" "enc_fp_ldapstl i \<noteq> Panic"
  "enc_ldiapp_stilp i \<noteq> Panic" "enc_ldapp_stlp i \<noteq> Panic" "enc_stlr_ldapr_wb i \<noteq> Panic" "enc_tags i \<noteq> Panic"
  by (simp add: encode_ldst_simd_def enc_multiple_def Let_def and_then_Panic_iff split: prod.split option.split)
    (simp_all add: group_enc_defs Let_def and_then_Panic_iff split: prod.split option.split)

lemma total_if: "a \<noteq> Panic \<Longrightarrow> b \<noteq> Panic \<Longrightarrow> (if c then a else b) \<noteq> Panic"
  by simp

lemma total_fp: "(case enc_fp_unscaled_or_idx i of Some r \<Rightarrow> r | None \<Rightarrow> enc_reg_unsigned i) \<noteq> Panic"
  using register_encoders_total(3,6) [of i] by (auto split: option.split)

text \<open>An arm of the dispatcher never fails as \<open>Unsupported\<close>: its table has a row for every code that reaches it.\<close>

lemma memory_readers_supported [simp]:
  "mem_imm i n \<noteq> Err EncUnsupported" "prefetch_rt i n \<noteq> Err EncUnsupported" "rprfop_field i n \<noteq> Err EncUnsupported" "data_reg_field i f \<noteq> Err EncUnsupported"
  "label_imm19 t p \<noteq> Err EncUnsupported" "encode_scaled_imm m s \<noteq> Err EncUnsupported" "encode_scaled_imm7 m s \<noteq> Err EncUnsupported" "encode_imm9 m \<noteq> Err EncUnsupported"
  "encode_tag_imm9 m \<noteq> Err EncUnsupported"
  by (auto simp: op_num_def reg_num_def mem_imm_def prefetch_rt_def rprfop_field_def data_reg_field_def label_imm19_def encode_scaled_imm_def
      encode_scaled_imm7_def encode_imm9_def encode_tag_imm9_def Let_def and_then_Err_iff ok_or_Err_iff split: operand.splits)

lemma address_readers_supported [simp]:
  "recover_mem_ext i n s \<noteq> Err EncUnsupported" "pair_mode_idx m x \<noteq> Err EncUnsupported" "excl_single_regs i l \<noteq> Err EncUnsupported" "cas_pair_regs i \<noteq> Err EncUnsupported"
  "multireg i n \<noteq> Err EncUnsupported" "recover_addr i n b \<noteq> Err EncUnsupported" "pack_lane e l \<noteq> Err EncUnsupported"
  by (auto simp: recover_mem_ext_def pair_mode_idx_def excl_single_regs_def cas_pair_regs_def multireg_def recover_addr_def
      pack_lane_def Let_def and_then_Err_iff ok_or_Err_iff split: operand.split mem_index_mode.split)

lemma atomic_sizes_cover: "atomic_opc c \<noteq> None \<Longrightarrow> atomic_size_ord c m \<noteq> None"
  apply (unfold atomic_opc_def not_None_eq)
  apply (erule exE)
  apply (drule first_some_member)
  apply (auto simp: atomic_size_ord_def atomic_size_rows_def ord_from_mnem_def Let_def)
  done

lemma register_encoders_supported:
  "enc_rprfm i \<noteq> Err EncUnsupported" "enc_literal i \<noteq> Err EncUnsupported"
  "reg_form_of (i_code i) \<noteq> None \<Longrightarrow> enc_reg_unsigned i \<noteq> Err EncUnsupported"
  "reg_form_of (i_code i) \<noteq> None \<Longrightarrow> enc_reg_unscaled i \<noteq> Err EncUnsupported"
  "reg_form_of (i_code i) \<noteq> None \<Longrightarrow> enc_reg_immidx i \<noteq> Err EncUnsupported"
  "enc_fp_unscaled_or_idx i \<noteq> Some (Err EncUnsupported)" 
  "unpriv_fields (i_code i) \<noteq> None \<Longrightarrow> enc_reg_unpriv i \<noteq> Err EncUnsupported"
  "reg_form_of (i_code i) \<noteq> None \<Longrightarrow> enc_reg_offset i \<noteq> Err EncUnsupported"
  "pair_kind (i_code i) \<noteq> None \<Longrightarrow> enc_pair i \<noteq> Err EncUnsupported"
  by (auto simp: register_enc_defs Let_def and_then_Err_iff ok_or_Err_iff split: operand.splits mem_index_mode.splits prod.splits option.splits)

lemma atomic_encoders_supported:
  "excl_single_fields (i_code i) \<noteq> None \<Longrightarrow> enc_excl_single i \<noteq> Err EncUnsupported"
  "excl_pair_fields (i_code i) \<noteq> None \<Longrightarrow> enc_excl_pair i \<noteq> Err EncUnsupported"
  "ordered_fields (i_code i) \<noteq> None \<Longrightarrow> enc_ordered i \<noteq> Err EncUnsupported"
  "cas_fields (i_code i) \<noteq> None \<Longrightarrow> enc_cas i \<noteq> Err EncUnsupported"
  "casp_fields (i_code i) \<noteq> None \<Longrightarrow> enc_casp i \<noteq> Err EncUnsupported"
  "lsui_excl_single_fields (i_code i) \<noteq> None \<Longrightarrow> enc_lsui_excl_single i \<noteq> Err EncUnsupported"
  "lsui_cas_fields (i_code i) \<noteq> None \<Longrightarrow> enc_lsui_cas i \<noteq> Err EncUnsupported"
  "lsui_casp_fields (i_code i) \<noteq> None \<Longrightarrow> enc_lsui_casp i \<noteq> Err EncUnsupported"
  "swp_fields (i_code i) \<noteq> None \<Longrightarrow> enc_swp i \<noteq> Err EncUnsupported"
  "rcw_single_fields (i_code i) \<noteq> None \<Longrightarrow> enc_rcw_single i \<noteq> Err EncUnsupported"
  "the_atomic_fields (i_code i) \<noteq> None \<Longrightarrow> enc_the_atomic i \<noteq> Err EncUnsupported"
  "lsfe_fields (i_code i) \<noteq> None \<Longrightarrow> enc_lsfe i \<noteq> Err EncUnsupported"
  "enc_ldapr i \<noteq> Err EncUnsupported" "enc_ls64 i \<noteq> Err EncUnsupported"
  by (auto simp: atomic_enc_defs Let_def and_then_Err_iff ok_or_Err_iff split: operand.splits prod.splits the_shape.splits)

lemma enc_atomic_supported: "atomic_opc (i_code i) \<noteq> None \<Longrightarrow> enc_atomic i \<noteq> Err EncUnsupported"
  using atomic_sizes_cover [of "i_code i" "i_mnemonic i"]
  by (auto simp: enc_atomic_def Let_def and_then_Err_iff ok_or_Err_iff split: prod.splits)

lemma memory_group_encoders_supported:
  "is_ldst_simd (i_code i) \<Longrightarrow> encode_ldst_simd i \<noteq> Err EncUnsupported" 
  "enc_gcsstr i \<noteq> Err EncUnsupported" "enc_pac i \<noteq> Err EncUnsupported"
  "ldapstl_fields (i_code i) \<noteq> None \<Longrightarrow> enc_ldapstl i \<noteq> Err EncUnsupported" "enc_fp_ldapstl i \<noteq> Err EncUnsupported"
  "enc_ldiapp_stilp i \<noteq> Err EncUnsupported" "enc_ldapp_stlp i \<noteq> Err EncUnsupported"
  "i_code i \<in> set wb_codes \<Longrightarrow> enc_stlr_ldapr_wb i \<noteq> Err EncUnsupported"
  "tag_is (i_code i) \<Longrightarrow> enc_tags i \<noteq> Err EncUnsupported"
  by (auto simp: group_enc_defs is_ldst_simd_def wb_codes_def tag_is_def stg_rows_def tag_bulk_rows_def Let_def and_then_Err_iff ok_or_Err_iff split: prod.splits option.splits if_splits)


lemma supported_if: "(c \<Longrightarrow> a \<noteq> Err EncUnsupported) \<Longrightarrow> (\<not> c \<Longrightarrow> b \<noteq> Err EncUnsupported) \<Longrightarrow> (if c then a else b) \<noteq> Err EncUnsupported"
  by simp

lemma supported_fp:
  "reg_form_of (i_code i) \<noteq> None \<Longrightarrow> (case enc_fp_unscaled_or_idx i of Some r \<Rightarrow> r | None \<Rightarrow> enc_reg_unsigned i) \<noteq> Err EncUnsupported"
  using register_encoders_supported(3,6) [of i] by (auto split: option.split)

lemma reg_variant_form: "reg_variant_of c = Some v \<Longrightarrow> reg_form_of c \<noteq> None"
  by (auto simp: reg_variant_of_def)

lemma reg_form_variant:
  "reg_form_of c \<noteq> None \<Longrightarrow>
   reg_variant_of c = Some RvUnsigned \<or> reg_variant_of c = Some RvRegOff \<or> reg_variant_of c = Some RvUnscaled \<or>
     reg_variant_of c = Some RvImmPost \<or> reg_variant_of c = Some RvImmPre"
  by (cases "the (reg_variant_of c)") (auto simp: reg_variant_of_def)

lemma ldst_supported: "is_ldst (i_code i) \<Longrightarrow> encode_ldst i \<noteq> Err EncUnsupported"
  using reg_form_variant [of "i_code i"] unfolding encode_ldst_def Let_def atomic_fields_def
  by (intro supported_if register_encoders_supported atomic_encoders_supported enc_atomic_supported memory_group_encoders_supported
      supported_fp)
    (blast dest: reg_variant_form | (simp only: is_ldst_def; blast))+

text \<open>C16: the encoder of the group is total, and its code list agrees with its tables: whatever instruction it is given, edited or
  built by hand, it returns a word or an error, and the error is \<open>Unsupported\<close> exactly when the code is not one of \<open>is_ldst\<close>.  The only
  arithmetic of the file that could overflow, \<open>nregs - 1\<close>, is guarded by the test of the register count.\<close>

theorem ldst_encoder_total:
  "encode_ldst i \<noteq> Panic \<and> (is_ldst (i_code i) \<longleftrightarrow> encode_ldst i \<noteq> Err EncUnsupported)"
proof (intro conjI iffI)
  show "encode_ldst i \<noteq> Panic"
    unfolding encode_ldst_def Let_def
    by (intro total_if register_encoders_total atomic_encoders_total memory_group_encoders_total total_fp) simp
  show "is_ldst (i_code i)" if "encode_ldst i \<noteq> Err EncUnsupported"
    using that unfolding is_ldst_def encode_ldst_def Let_def
    by (cases "is_ldst (i_code i)") (simp_all add: is_ldst_def reg_variant_of_def atomic_fields_def)
qed (rule ldst_supported)

section \<open>Editing the offset of a pair\<close>

text \<open>C13: \<open>set_memory_displacement64\<close> on a decoded load/store pair always applies.  The result is encoded exactly if the new displacement
  is a multiple of the access size and one of the 128 values the signed 7-bit field holds; then only that field of the word changes
  and the word decodes to the edited instruction.  Every other displacement is \<open>InvalidImmediate\<close>.\<close>

theorem pair_offset_edit:
  assumes "bits w 27 3 = 0b101" "\<not> bit w 25" "i_code (decoded decode_ldst w ip fs) \<noteq> C_Invalid"
    "set_memory_displacement64 imm (decoded decode_ldst w ip fs) = (ok, e)"
  shows "ok \<and> (if offset_fits (pair_scale (i_code e)) imm
      then \<exists>v. agree 15 7 w v \<and> encode_ldst e = Ok v \<and> same_semantics (decoded decode_ldst v ip fs) e
      else encode_ldst e = Err EncInvalidImmediate)"
  by (rule pair_offset_edit_core [OF assms])

text \<open>\<open>ldp w0, w1, [x2]\<close>: 252 is the last offset that fits.\<close>

theorem pair_offset_edit_witness:
  "(\<exists>v. agree 15 7 0x29400440 v \<and>
      encode_ldst (snd (set_memory_displacement64 252 (decoded decode_ldst 0x29400440 0 FeatureSet_BASE))) = Ok v) \<and>
   encode_ldst (snd (set_memory_displacement64 256 (decoded decode_ldst 0x29400440 0 FeatureSet_BASE))) = Err EncInvalidImmediate"
proof -
  let ?d = "decoded decode_ldst 0x29400440 0 FeatureSet_BASE"
  have c: "i_code ?d = C_Ldp32"
    by (simp add: ldst_word_eval decode_pair_def pair_code_gp_def the_default_def)
  have w: "bits 0x29400440 27 3 = (5 :: u32)" by (simp add: bits_def)
  have e: "i_code (snd (set_memory_displacement64 imm ?d)) = C_Ldp32" for imm
    using ed_disp.frame [OF prod.collapse [symmetric]] c by metis
  have f: "pair_scale C_Ldp32 = 2" by (simp add: pair_scale_def pair_kind_def pair_kind_rows_def gp_pair_def)
  have "\<not> bit (0x29400440 :: u32) 25" "i_code ?d \<noteq> C_Invalid" using c by simp_all
  note p = pair_offset_edit [OF w this prod.collapse [symmetric]]
  show ?thesis using p [of 252] p [of 256] unfolding e f by (auto simp: offset_fits_def)
qed

section \<open>The ordering of an atomic\<close>


text \<open>C14: the name of the mnemonic spells the ordering.  \<open>LD<op>\<close> and \<open>ST<op>\<close> share one code for all orderings of a byte, a halfword, a
  minimum or a maximum; the encoder strips the size suffix from the name and reads acquire and release off its end, and for every
  operation and size it finds exactly the two bits of the word from which the decoder chose the mnemonic.\<close>

theorem atomic_ordering_named:
  "ord_from_mnem sz (ld_mnemonic op s (bit_at w 23) (bit_at w 22)) = Some (sz, bit_at w 23, bit_at w 22) \<and>
   take 2 (mnemonic_name (ld_mnemonic op s (bit_at w 23) (bit_at w 22))) \<noteq> ''st'' \<and>
   ord_from_mnem sz (st_mnemonic op s (bit_at w 22)) = Some (sz, 0, bit_at w 22) \<and>
   take 2 (mnemonic_name (st_mnemonic op s (bit_at w 22))) = ''st''"
  using ld_spells [of op s w 23 22] st_spells [of op s w 22] by (simp add: spells_def)

end
