(* ===== verification/Implicit.thy ===== *)
theory Implicit
  imports Insn Sys_Tables
begin

text \<open>
  \<open>src/implicit.rs\<close>, and \<open>OpAccess\<close> and \<open>UsedRegister\<close> of \<open>src/info.rs\<close>: the registers that an instruction touches without naming them.
  A fixed-capacity array with its count is the list of its live entries; an entry beyond the capacity is dropped, as in the source.
\<close>

section \<open>Accesses\<close>

datatype op_access = AccNone | AccRead | AccWrite | AccReadWrite | AccCondRead | AccCondWrite

definition access_merge :: "op_access \<Rightarrow> op_access \<Rightarrow> op_access" where
  "access_merge x y =
     (if x = AccNone then y else if y = AccNone then x else if x = y then x else AccReadWrite)"

record used_register =
  ur_register :: register
  ur_access :: op_access

text \<open>The common body of \<open>ImplicitRegisters::add\<close> and \<open>InfoBuilder::add_reg\<close>: merge into the first entry of the register, or append one
  if there is room.\<close>

definition add_access :: "nat \<Rightarrow> register \<Rightarrow> op_access \<Rightarrow> used_register list \<Rightarrow> used_register list" where
  "add_access capacity reg acc regs =
     (if reg = RNone \<or> acc = AccNone then regs
      else
       case edit_first
              (\<lambda>entry. if ur_register entry = reg then Some (Some (entry\<lparr>ur_access := access_merge (ur_access entry) acc\<rparr>)) else None)
              regs of
         Some regs \<Rightarrow> regs
       | None \<Rightarrow> if length regs < capacity then regs @ [\<lparr>ur_register = reg, ur_access = acc\<rparr>] else regs)"

section \<open>The list\<close>

definition MAX_IMPLICIT_REGS :: nat where
  "MAX_IMPLICIT_REGS = 10"

definition implicit_new :: "used_register list" where
  "implicit_new = []"

definition implicit_add :: "register \<Rightarrow> op_access \<Rightarrow> used_register list \<Rightarrow> used_register list" where
  "implicit_add reg acc out = add_access MAX_IMPLICIT_REGS reg acc out"

definition access_of :: "used_register list \<Rightarrow> register \<Rightarrow> op_access" where
  "access_of regs reg =
     the_default AccNone (first_some (\<lambda>entry. if ur_register entry = reg then Some (ur_access entry) else None) regs)"

definition reads :: "used_register list \<Rightarrow> register \<Rightarrow> bool" where
  "reads regs reg \<longleftrightarrow> access_of regs reg \<in> {AccRead, AccReadWrite, AccCondRead}"

definition writes :: "used_register list \<Rightarrow> register \<Rightarrow> bool" where
  "writes regs reg \<longleftrightarrow> access_of regs reg \<in> {AccWrite, AccReadWrite, AccCondWrite}"

section \<open>NZCV\<close>

definition mnemonic_reads_flags :: "mnemonic \<Rightarrow> bool" where
  "mnemonic_reads_flags m \<longleftrightarrow> m \<in> set
    [M_Adc, M_Adcs, M_Sbc, M_Sbcs, M_Ngc, M_Ngcs, M_Csel, M_Csinc, M_Csinv, M_Csneg, M_Cinc, M_Cinv, M_Cneg, M_Cset, M_Csetm,
     M_Ccmp, M_Ccmn, M_Fcsel, M_Rmif, M_Setf8, M_Setf16, M_Cfinv, M_Axflag, M_Xaflag]"

definition reads_nzcv :: "insn \<Rightarrow> bool" where
  "reads_nzcv insn \<longleftrightarrow> insn_condition insn \<noteq> None \<or> mnemonic_reads_flags (i_mnemonic insn)"

definition add_nzcv :: "insn \<Rightarrow> used_register list \<Rightarrow> used_register list" where
  "add_nzcv insn out =
     (let written = writes_flags (insn_set_flags insn);
          read = reads_nzcv insn
      in if read \<and> written then implicit_add RNzcv AccReadWrite out
         else if read then implicit_add RNzcv AccRead out
         else if written then implicit_add RNzcv AccWrite out
         else out)"

section \<open>The other groups of registers\<close>

definition add_link_register :: "insn \<Rightarrow> mnemonic \<Rightarrow> used_register list \<Rightarrow> used_register list" where
  "add_link_register insn m out =
     (case insn_flow_control insn of
        FlowCall \<Rightarrow> implicit_add (RX 30) AccWrite out
      | FlowIndirectCall \<Rightarrow> implicit_add (RX 30) AccWrite out
      | FlowReturn \<Rightarrow>
          if m = M_Ret \<and> i_op_count insn = 0 then implicit_add (RX 30) AccRead out
          else if m \<in> set [M_Retaa, M_Retab, M_Retaasppc, M_Retabsppc, M_Retaasppcr, M_Retabsppcr] then implicit_add (RX 30) AccRead out
          else out
      | _ \<Rightarrow> out)"

definition add_pointer_auth :: "mnemonic \<Rightarrow> used_register list \<Rightarrow> used_register list" where
  "add_pointer_auth m out =
     (if m \<in> set [M_Paciasp, M_Pacibsp, M_Autiasp, M_Autibsp] then implicit_add RSp AccRead (implicit_add (RX 30) AccReadWrite out)
      else if m \<in> set [M_Paciaz, M_Pacibz, M_Autiaz, M_Autibz] then implicit_add (RX 30) AccReadWrite out
      else if m = M_Xpaclri then implicit_add (RX 30) AccReadWrite out
      else if m \<in> set [M_Pacia1716, M_Pacib1716, M_Autia1716, M_Autib1716] then
        implicit_add (RX 16) AccRead (implicit_add (RX 17) AccReadWrite out)
      else if m \<in> set [M_Paciasppc, M_Pacibsppc, M_Pacnbiasppc, M_Pacnbibsppc, M_Autiasppc, M_Autibsppc, M_Autiasppcr, M_Autibsppcr] then
        implicit_add RSp AccRead (implicit_add (RX 30) AccReadWrite out)
      else if m \<in> set [M_Retaasppc, M_Retabsppc, M_Retaasppcr, M_Retabsppcr] then implicit_add RSp AccRead out
      else if m \<in> set [M_Retaa, M_Retab] then implicit_add RSp AccRead out
      else if m \<in> set [M_Eretaa, M_Eretab] then implicit_add RSp AccRead out
      else out)"

definition ls64_data_slot :: "mnemonic \<Rightarrow> (nat \<times> op_access) option" where
  "ls64_data_slot m =
     (if m = M_Ld64b then Some (0, AccWrite)
      else if m = M_St64b then Some (0, AccRead)
      else if m \<in> set [M_St64bv, M_St64bv0] then Some (1, AccRead)
      else None)"

definition add_ls64_group :: "insn \<Rightarrow> mnemonic \<Rightarrow> used_register list \<Rightarrow> used_register list" where
  "add_ls64_group insn m out =
     (case ls64_data_slot m of
        None \<Rightarrow> out
      | Some (slot, acc) \<Rightarrow>
         (case insn_op insn slot of
            OpReg base _ _ _ _ _ \<Rightarrow>
              if register_class base \<noteq> ClassGp \<or> width_bits base \<noteq> 64 then out
              else
               let n = reg_number base
               in if n AND 1 \<noteq> 0 \<or> n > 22 then out
                  else fold (\<lambda>i. implicit_add (gp_register False X64 (n + i)) acc) [1, 2, 3, 4, 5, 6, 7] out
          | _ \<Rightarrow> out))"

definition add_ffr :: "mnemonic \<Rightarrow> used_register list \<Rightarrow> used_register list" where
  "add_ffr m out =
     (if m \<in> set [M_Ldff1b, M_Ldff1h, M_Ldff1w, M_Ldff1d, M_Ldff1sb, M_Ldff1sh, M_Ldff1sw] then implicit_add RFfr AccReadWrite out
      else if m \<in> set [M_Ldnf1b, M_Ldnf1h, M_Ldnf1w, M_Ldnf1d, M_Ldnf1sb, M_Ldnf1sh, M_Ldnf1sw] then implicit_add RFfr AccRead out
      else if m \<in> set [M_Setffr, M_Wrffr] then implicit_add RFfr AccWrite out
      else if m \<in> set [M_Rdffr, M_Rdffrs] then implicit_add RFfr AccRead out
      else out)"

definition add_sme_state :: "insn \<Rightarrow> mnemonic \<Rightarrow> used_register list \<Rightarrow> used_register list" where
  "add_sme_state insn m out =
     (if m \<notin> set [M_Smstart, M_Smstop] then out
      else if (case insn_op insn 0 of OpSysOp tok \<Rightarrow> sys_token_name tok = ''sm'' | _ \<Rightarrow> False) then out
      else implicit_add RZa AccWrite out)"

definition add_pc :: "insn \<Rightarrow> mnemonic \<Rightarrow> used_register list \<Rightarrow> used_register list" where
  "add_pc insn m out =
     (if m \<in> set [M_Paciasppc, M_Pacibsppc, M_Pacnbiasppc, M_Pacnbibsppc, M_Autiasppc, M_Autibsppc] then implicit_add RPc AccRead out
      else if is_control_transfer (insn_flow_control insn) then out
      else if list_ex (\<lambda>i. case insn_op insn i of OpLabel _ \<Rightarrow> True | _ \<Rightarrow> False) [0..<i_op_count insn] then implicit_add RPc AccRead out
      else out)"

definition implicit_registers :: "insn \<Rightarrow> used_register list" where
  "implicit_registers insn =
     (let m = i_mnemonic insn;
          out = implicit_new;
          out = add_nzcv insn out;
          out = add_link_register insn m out;
          out = add_pointer_auth m out;
          out = add_ls64_group insn m out;
          out = add_ffr m out;
          out = add_sme_state insn m out
      in add_pc insn m out)"

end
