(* ===== verification/Info.thy ===== *)
theory Info
  imports Implicit
begin

text \<open>
  \<open>src/info.rs\<close>: how an instruction accesses the registers and the memory that its operands name, folded together with the implicit
  registers of \<open>Implicit\<close>.  The mnemonic lists are those of the source, in its order; \<open>regs[..count]\<close> and \<open>mem[..count]\<close> are the lists.
\<close>

section \<open>The summary\<close>

definition MAX_USED_REGS :: nat where
  "MAX_USED_REGS = 20"

definition MAX_USED_MEM :: nat where
  "MAX_USED_MEM = 2"

record used_mem =
  um_base :: register
  um_index :: register
  um_offset :: i64
  um_access :: op_access

record insn_info =
  in_regs :: "used_register list"
  in_mem :: "used_mem list"
  in_flow :: flow_control
  in_flags_read :: bool
  in_flags_written :: bool

definition used_registers :: "insn_info \<Rightarrow> used_register list" where
  "used_registers info = in_regs info"

definition used_memory :: "insn_info \<Rightarrow> used_mem list" where
  "used_memory info = in_mem info"

section \<open>Classes of mnemonics\<close>

definition accumulates_into_dest :: "mnemonic \<Rightarrow> bool" where
  "accumulates_into_dest m \<longleftrightarrow> m \<in> set
    [M_Mla, M_Mls, M_Smlal, M_Smlal2, M_Umlal, M_Umlal2, M_Smlsl, M_Smlsl2, M_Umlsl, M_Umlsl2, M_Sqdmlal, M_Sqdmlal2,
     M_Sqdmlsl, M_Sqdmlsl2, M_Sqrdmlah, M_Sqrdmlsh, M_Fmla, M_Fmls, M_Fmlal, M_Fmlal2, M_Fmlsl, M_Fmlsl2, M_Fmlalb, M_Fmlalt,
     M_Fmlslb, M_Fmlslt, M_Fnmla, M_Fnmls, M_Sdot, M_Udot, M_Usdot, M_Sudot, M_Bfdot, M_Fdot, M_Smmla, M_Ummla, M_Usmmla,
     M_Bfmmla, M_Fmmla, M_Fcmla, M_Cmla, M_Sqrdcmlah, M_Movk, M_Bfi, M_Bfxil, M_Bfm, M_Sbfm, M_Ubfm, M_Ins, M_Sli, M_Sri,
     M_Bfcvtn, M_Bfcvtnt, M_Fmopa, M_Fmops, M_Bfmopa, M_Bfmops, M_Smopa, M_Smops, M_Umopa, M_Umops, M_Sumopa, M_Sumops,
     M_Usmopa, M_Usmops, M_Bmopa, M_Bmops, M_Addha, M_Addva, M_Chkfeat, M_Pacia, M_Pacib, M_Pacda, M_Pacdb, M_Paciza, M_Pacizb,
     M_Pacdza, M_Pacdzb, M_Autia, M_Autib, M_Autda, M_Autdb, M_Autiza, M_Autizb, M_Autdza, M_Autdzb, M_Xpaci, M_Xpacd]"

definition has_no_dest_register :: "mnemonic \<Rightarrow> bool" where
  "has_no_dest_register m \<longleftrightarrow> m \<in> set
    [M_Cmp, M_Cmn, M_Tst, M_Ccmp, M_Ccmn, M_Fcmp, M_Fcmpe, M_Fccmp, M_Fccmpe, M_Rmif, M_Setf8, M_Setf16, M_Wrffr, M_Autiasppcr,
     M_Autibsppcr]"

datatype mem_kind =
    NotMem | MemLoad | MemStore | MemStoreExclusive | MemAtomicRmw | MemAtomicStore | MemCompareSwap | MemPrefetch

definition compare_swap_mnemonics :: "mnemonic list" where
  "compare_swap_mnemonics =
    [M_Cas, M_Casa, M_Casl, M_Casal, M_Casb, M_Casab, M_Caslb, M_Casalb, M_Cash, M_Casah, M_Caslh, M_Casalh, M_Casp, M_Caspa,
     M_Caspl, M_Caspal, M_Cast, M_Casat, M_Caslt, M_Casalt, M_Caspt, M_Caspat, M_Casplt, M_Caspalt]"

definition atomic_rmw_mnemonics :: "mnemonic list" where
  "atomic_rmw_mnemonics =
    [M_Swp, M_Swpa, M_Swpl, M_Swpal, M_Swpb, M_Swpab, M_Swplb, M_Swpalb, M_Swph, M_Swpah, M_Swplh, M_Swpalh, M_Swpp, M_Swppa,
     M_Swppl, M_Swppal, M_Ldadd, M_Ldadda, M_Ldaddl, M_Ldaddal, M_Ldaddb, M_Ldaddab, M_Ldaddlb, M_Ldaddalb, M_Ldaddh,
     M_Ldaddah, M_Ldaddlh, M_Ldaddalh, M_Ldclr, M_Ldclra, M_Ldclrl, M_Ldclral, M_Ldclrb, M_Ldclrab, M_Ldclrlb, M_Ldclralb,
     M_Ldclrh, M_Ldclrah, M_Ldclrlh, M_Ldclralh, M_Ldclrp, M_Ldclrpa, M_Ldclrpl, M_Ldclrpal, M_Ldeor, M_Ldeora, M_Ldeorl,
     M_Ldeoral, M_Ldeorb, M_Ldeorab, M_Ldeorlb, M_Ldeoralb, M_Ldeorh, M_Ldeorah, M_Ldeorlh, M_Ldeoralh, M_Ldset, M_Ldseta,
     M_Ldsetl, M_Ldsetal, M_Ldsetb, M_Ldsetab, M_Ldsetlb, M_Ldsetalb, M_Ldseth, M_Ldsetah, M_Ldsetlh, M_Ldsetalh, M_Ldsetp,
     M_Ldsetpa, M_Ldsetpl, M_Ldsetpal, M_Ldsmax, M_Ldsmaxa, M_Ldsmaxl, M_Ldsmaxal, M_Ldsmaxb, M_Ldsmaxab, M_Ldsmaxlb,
     M_Ldsmaxalb, M_Ldsmaxh, M_Ldsmaxah, M_Ldsmaxlh, M_Ldsmaxalh, M_Ldsmin, M_Ldsmina, M_Ldsminl, M_Ldsminal, M_Ldsminb,
     M_Ldsminab, M_Ldsminlb, M_Ldsminalb, M_Ldsminh, M_Ldsminah, M_Ldsminlh, M_Ldsminalh, M_Ldumax, M_Ldumaxa, M_Ldumaxl,
     M_Ldumaxal, M_Ldumaxb, M_Ldumaxab, M_Ldumaxlb, M_Ldumaxalb, M_Ldumaxh, M_Ldumaxah, M_Ldumaxlh, M_Ldumaxalh, M_Ldumin,
     M_Ldumina, M_Lduminl, M_Lduminal, M_Lduminb, M_Lduminab, M_Lduminlb, M_Lduminalb, M_Lduminh, M_Lduminah, M_Lduminlh,
     M_Lduminalh, M_Rcwclr, M_Rcwclra, M_Rcwclrl, M_Rcwclral, M_Rcwsclr, M_Rcwsclra, M_Rcwsclrl, M_Rcwsclral, M_Rcwswp,
     M_Rcwswpa, M_Rcwswpl, M_Rcwswpal, M_Rcwsswp, M_Rcwsswpa, M_Rcwsswpl, M_Rcwsswpal, M_Rcwset, M_Rcwseta, M_Rcwsetl,
     M_Rcwsetal, M_Rcwsset, M_Rcwsseta, M_Rcwssetl, M_Rcwssetal, M_Ldfadd, M_Ldfadda, M_Ldfaddl, M_Ldfaddal, M_Ldfmax,
     M_Ldfmaxa, M_Ldfmaxl, M_Ldfmaxal, M_Ldfmin, M_Ldfmina, M_Ldfminl, M_Ldfminal, M_Ldfmaxnm, M_Ldfmaxnma, M_Ldfmaxnml,
     M_Ldfmaxnmal, M_Ldfminnm, M_Ldfminnma, M_Ldfminnml, M_Ldfminnmal, M_Ldbfadd, M_Ldbfadda, M_Ldbfaddl, M_Ldbfaddal,
     M_Ldbfmax, M_Ldbfmaxa, M_Ldbfmaxl, M_Ldbfmaxal, M_Ldbfmin, M_Ldbfmina, M_Ldbfminl, M_Ldbfminal, M_Ldbfmaxnm, M_Ldbfmaxnma,
     M_Ldbfmaxnml, M_Ldbfmaxnmal, M_Ldbfminnm, M_Ldbfminnma, M_Ldbfminnml, M_Ldbfminnmal]"

definition atomic_store_mnemonics :: "mnemonic list" where
  "atomic_store_mnemonics =
    [M_Stadd, M_Staddl, M_Staddb, M_Staddlb, M_Staddh, M_Staddlh, M_Stclr, M_Stclrl, M_Stclrb, M_Stclrlb, M_Stclrh, M_Stclrlh,
     M_Steor, M_Steorl, M_Steorb, M_Steorlb, M_Steorh, M_Steorlh, M_Stset, M_Stsetl, M_Stsetb, M_Stsetlb, M_Stseth, M_Stsetlh,
     M_Stsmax, M_Stsmaxl, M_Stsmaxb, M_Stsmaxlb, M_Stsmaxh, M_Stsmaxlh, M_Stsmin, M_Stsminl, M_Stsminb, M_Stsminlb, M_Stsminh,
     M_Stsminlh, M_Stumax, M_Stumaxl, M_Stumaxb, M_Stumaxlb, M_Stumaxh, M_Stumaxlh, M_Stumin, M_Stuminl, M_Stuminb, M_Stuminlb,
     M_Stuminh, M_Stuminlh, M_Stfadd, M_Stfaddl, M_Stfmax, M_Stfmaxl, M_Stfmin, M_Stfminl, M_Stfmaxnm, M_Stfmaxnml, M_Stfminnm,
     M_Stfminnml, M_Stbfadd, M_Stbfaddl, M_Stbfmax, M_Stbfmaxl, M_Stbfmin, M_Stbfminl, M_Stbfmaxnm, M_Stbfmaxnml, M_Stbfminnm,
     M_Stbfminnml]"

definition store_exclusive_mnemonics :: "mnemonic list" where
  "store_exclusive_mnemonics =
    [M_Stxr, M_Stxrb, M_Stxrh, M_Stlxr, M_Stlxrb, M_Stlxrh, M_Stxp, M_Stlxp, M_St64bv, M_St64bv0]"

definition prefetch_mnemonics :: "mnemonic list" where
  "prefetch_mnemonics =
    [M_Prfm, M_Prfum]"

definition load_mnemonics :: "mnemonic list" where
  "load_mnemonics =
    [M_Ldr, M_Ldrb, M_Ldrh, M_Ldrsb, M_Ldrsh, M_Ldrsw, M_Ldur, M_Ldurb, M_Ldurh, M_Ldursb, M_Ldursh, M_Ldursw, M_Ldp, M_Ldpsw,
     M_Ldnp, M_Ldtr, M_Ldtrb, M_Ldtrh, M_Ldtrsb, M_Ldtrsh, M_Ldtrsw, M_Ldxr, M_Ldxrb, M_Ldxrh, M_Ldaxr, M_Ldaxrb, M_Ldaxrh,
     M_Ldxp, M_Ldaxp, M_Ldar, M_Ldarb, M_Ldarh, M_Ldlar, M_Ldlarb, M_Ldlarh, M_Ldapr, M_Ldaprb, M_Ldaprh, M_Ldapur, M_Ldapurb,
     M_Ldapurh, M_Ldapursb, M_Ldapursh, M_Ldapursw, M_Ldraa, M_Ldrab, M_Ld64b, M_Ld1, M_Ld2, M_Ld3, M_Ld4, M_Ld1r, M_Ld2r,
     M_Ld3r, M_Ld4r, M_Ld1b, M_Ld1h, M_Ld1w, M_Ld1d, M_Ld1q, M_Ld1rqb, M_Ld1rqh, M_Ld1rqw, M_Ld1rqd, M_Ld1rob, M_Ld1roh,
     M_Ld1row, M_Ld1rod, M_Ld2b, M_Ld2h, M_Ld2w, M_Ld2d, M_Ld2q, M_Ld3b, M_Ld3h, M_Ld3w, M_Ld3d, M_Ld3q, M_Ld4b, M_Ld4h,
     M_Ld4w, M_Ld4d, M_Ld4q, M_Ld1sb, M_Ld1sh, M_Ld1sw, M_Ldnt1b, M_Ldnt1h, M_Ldnt1w, M_Ldnt1d, M_Ldnf1b, M_Ldnf1h, M_Ldnf1w,
     M_Ldnf1d, M_Ldff1b, M_Ldff1h, M_Ldff1w, M_Ldff1d, M_Ldff1sb, M_Ldff1sh, M_Ldff1sw, M_Ldnf1sb, M_Ldnf1sh, M_Ldnf1sw,
     M_Ldnt1sb, M_Ldnt1sh, M_Ldnt1sw]"

definition store_mnemonics :: "mnemonic list" where
  "store_mnemonics =
    [M_Str, M_Strb, M_Strh, M_Stur, M_Sturb, M_Sturh, M_Stp, M_Stnp, M_Sttr, M_Sttrb, M_Sttrh, M_Stlr, M_Stlrb, M_Stlrh,
     M_Stllr, M_Stllrb, M_Stllrh, M_Stlur, M_Stlurb, M_Stlurh, M_Stgp, M_Stz2g, M_Stg, M_Stzg, M_St2g, M_St64b, M_St1, M_St2,
     M_St3, M_St4, M_St1b, M_St1h, M_St1w, M_St1d, M_St1q, M_St2b, M_St2h, M_St2w, M_St2d, M_St2q, M_St3b, M_St3h, M_St3w,
     M_St3d, M_St3q, M_St4b, M_St4h, M_St4w, M_St4d, M_St4q, M_Stnt1b, M_Stnt1h, M_Stnt1w, M_Stnt1d]"

definition classify_mem :: "mnemonic \<Rightarrow> bool \<Rightarrow> mem_kind" where
  "classify_mem m has_mem_operand =
     (if m \<in> set compare_swap_mnemonics then MemCompareSwap
      else if m \<in> set atomic_rmw_mnemonics then MemAtomicRmw
      else if m \<in> set atomic_store_mnemonics then MemAtomicStore
      else if m \<in> set store_exclusive_mnemonics then MemStoreExclusive
      else if m \<in> set prefetch_mnemonics then MemPrefetch
      else if m \<in> set load_mnemonics then MemLoad
      else if m \<in> set store_mnemonics then MemStore
      else if has_mem_operand then MemLoad
      else NotMem)"

section \<open>The accumulator\<close>

record info_builder =
  ib_regs :: "used_register list"
  ib_mem :: "used_mem list"

definition info_builder_new :: info_builder where
  "info_builder_new = \<lparr>ib_regs = [], ib_mem = []\<rparr>"

definition add_reg :: "register \<Rightarrow> op_access \<Rightarrow> info_builder \<Rightarrow> info_builder" where
  "add_reg reg acc b = b\<lparr>ib_regs := add_access MAX_USED_REGS reg acc (ib_regs b)\<rparr>"

definition add_mem :: "register \<Rightarrow> register \<Rightarrow> i64 \<Rightarrow> op_access \<Rightarrow> info_builder \<Rightarrow> info_builder" where
  "add_mem base index offset acc b =
     (if length (ib_mem b) < MAX_USED_MEM
      then b\<lparr>ib_mem := ib_mem b @ [\<lparr>um_base = base, um_index = index, um_offset = offset, um_access = acc\<rparr>]\<rparr>
      else b)"

definition add_operand_regs :: "operand \<Rightarrow> op_access \<Rightarrow> info_builder \<Rightarrow> info_builder" where
  "add_operand_regs op acc b =
     (case op of
        OpReg reg _ _ _ _ _ \<Rightarrow> add_reg reg acc b
      | OpRegBang reg \<Rightarrow> add_reg reg acc b
      | OpMultiReg (r0, r1, r2, r3) count _ _ \<Rightarrow> fold (\<lambda>r. add_reg r acc) (take (unat count) [r0, r1, r2, r3]) b
      | OpSveVecGroup first count _ _ stride _ \<Rightarrow>
          let base = reg_number first
          in fold (\<lambda>i. let n = base + of_nat i * stride in add_reg (sve_register n) acc) [0..<unat count] b
      | OpRegPair first second \<Rightarrow> add_reg second acc (add_reg first acc b)
      | OpIndexedElement reg _ index _ \<Rightarrow> add_reg index AccRead (add_reg reg acc b)
      | OpPredCounter reg _ _ _ \<Rightarrow> add_reg reg acc b
      | OpSmeTileSlice _ _ _ sel _ _ \<Rightarrow> add_reg RZa acc (add_reg sel AccRead b)
      | OpSmeZaSlice _ sel _ _ _ _ _ \<Rightarrow> add_reg RZa acc (add_reg sel AccRead b)
      | OpSmeTile _ _ \<Rightarrow> add_reg RZa acc b
      | OpSmeZaMask _ zt0 \<Rightarrow> add_reg (if zt0 then RZt0 else RZa) acc b
      | OpSmeZt0Index _ _ \<Rightarrow> add_reg RZt0 acc b
      | _ \<Rightarrow> b)"

definition is_mops_rmw :: "insn \<Rightarrow> nat \<Rightarrow> bool" where
  "is_mops_rmw insn op_count \<longleftrightarrow>
     list_ex
       (\<lambda>i. case insn_op insn i of
              OpRegBang _ \<Rightarrow> True
            | OpMemImm _ _ mode \<Rightarrow> mode = MemPreNoOffset
            | _ \<Rightarrow> False)
       [0..<op_count]"

definition is_writeback :: "mem_index_mode \<Rightarrow> bool" where
  "is_writeback mode \<longleftrightarrow> mode \<in> {MemPreIndex, MemPostImm, MemPostReg, MemPreNoOffset}"

definition add_memory_operand :: "operand \<Rightarrow> op_access \<Rightarrow> info_builder \<Rightarrow> info_builder" where
  "add_memory_operand op mem_access b =
     (case op of
        OpMemImm base imm mode \<Rightarrow>
          let base_access = (if is_writeback mode then AccReadWrite else AccRead)
          in add_mem base RNone imm mem_access (add_reg base base_access b)
      | OpMemExt base index _ _ \<Rightarrow> add_mem base index 0 mem_access (add_reg index AccRead (add_reg base AccRead b))
      | OpSveMem base offset _ _ imm _ _ \<Rightarrow>
          add_mem base offset (scast imm) mem_access (add_reg offset AccRead (add_reg base AccRead b))
      | _ \<Rightarrow> b)"

definition has_merging_predicate :: "insn \<Rightarrow> nat \<Rightarrow> bool" where
  "has_merging_predicate insn op_count \<longleftrightarrow>
     list_ex (\<lambda>i. case insn_op insn i of OpReg _ _ _ _ _ pred \<Rightarrow> pred = Some PredQualMerging | _ \<Rightarrow> False) [0..<op_count]"

definition is_predicate_operand :: "operand \<Rightarrow> bool" where
  "is_predicate_operand op =
     (case op of
        OpReg reg _ _ _ _ _ \<Rightarrow> register_class reg = ClassPredicate
      | OpPredCounter _ _ _ _ \<Rightarrow> True
      | _ \<Rightarrow> False)"

definition is_memory_operand :: "operand \<Rightarrow> bool" where
  "is_memory_operand op =
     (case op of OpMemImm _ _ _ \<Rightarrow> True | OpMemExt _ _ _ _ \<Rightarrow> True | OpSveMem _ _ _ _ _ _ _ \<Rightarrow> True | _ \<Rightarrow> False)"

section \<open>Memory instructions\<close>

definition memory_access :: "mem_kind \<Rightarrow> op_access" where
  "memory_access kind =
     (case kind of
        MemLoad \<Rightarrow> AccRead | MemPrefetch \<Rightarrow> AccRead
      | MemStore \<Rightarrow> AccWrite | MemStoreExclusive \<Rightarrow> AccWrite
      | MemAtomicRmw \<Rightarrow> AccReadWrite | MemAtomicStore \<Rightarrow> AccReadWrite | MemCompareSwap \<Rightarrow> AccReadWrite
      | NotMem \<Rightarrow> AccRead)"

definition data_access :: "mem_kind \<Rightarrow> nat \<Rightarrow> nat \<Rightarrow> op_access" where
  "data_access kind i mem_slot =
     (case kind of
        MemLoad \<Rightarrow> AccWrite
      | MemStore \<Rightarrow> AccRead | MemAtomicStore \<Rightarrow> AccRead | MemPrefetch \<Rightarrow> AccRead
      | MemStoreExclusive \<Rightarrow> if i = 0 then AccWrite else AccRead
      | MemAtomicRmw \<Rightarrow> if i + 1 = mem_slot then AccWrite else AccRead
      | MemCompareSwap \<Rightarrow>
          let data_slots = mem_slot
          in if i < data_slots div 2 then AccReadWrite else AccRead
      | NotMem \<Rightarrow> AccRead)"

definition classify_memory_form :: "insn \<Rightarrow> mem_kind \<Rightarrow> nat \<Rightarrow> nat \<Rightarrow> info_builder \<Rightarrow> info_builder" where
  "classify_memory_form insn kind mem_slot op_count b =
     (let b = add_memory_operand (insn_op insn mem_slot) (memory_access kind) b
      in fold
           (\<lambda>i b.
              if i = mem_slot then b
              else
               let op = insn_op insn i
               in if i > 0 \<and> is_predicate_operand op then add_operand_regs op AccRead b
                  else add_operand_regs op (data_access kind i mem_slot) b)
           [0..<op_count] b)"

section \<open>Data processing\<close>

definition classify_dataproc_form :: "insn \<Rightarrow> mnemonic \<Rightarrow> nat \<Rightarrow> info_builder \<Rightarrow> info_builder" where
  "classify_dataproc_form insn m op_count b =
     (let no_dest = has_no_dest_register m;
          accum = (accumulates_into_dest m \<or> has_merging_predicate insn op_count)
      in fold
           (\<lambda>i b.
              let op = insn_op insn i
              in if is_memory_operand op then add_memory_operand op AccRead b
                 else
                  let acc =
                    (if no_dest then AccRead
                     else if i = 0 then (if accum then AccReadWrite else AccWrite)
                     else AccRead)
                  in add_operand_regs op acc b)
           [0..<op_count] b)"

section \<open>The query\<close>

definition classify_mops_form :: "insn \<Rightarrow> nat \<Rightarrow> info_builder \<Rightarrow> info_builder" where
  "classify_mops_form insn op_count b =
     fold
       (\<lambda>i b.
          case insn_op insn i of
            OpMemImm base imm mode \<Rightarrow>
              if mode = MemPreNoOffset then add_memory_operand (OpMemImm base imm mode) AccReadWrite b
              else add_operand_regs (OpMemImm base imm mode) AccRead b
          | OpRegBang reg \<Rightarrow> add_reg reg AccReadWrite b
          | op \<Rightarrow> add_operand_regs op AccRead b)
       [0..<op_count] b"

definition explicit_accesses :: "insn \<Rightarrow> info_builder" where
  "explicit_accesses insn =
     (let b = info_builder_new;
          m = i_mnemonic insn;
          op_count = i_op_count insn;
          flow = insn_flow_control insn;
          mem_slot = find (\<lambda>i. is_memory_operand (insn_op insn i)) [0..<op_count];
          kind = classify_mem m (mem_slot \<noteq> None)
      in if is_mops_rmw insn op_count then classify_mops_form insn op_count b
         else if mem_slot \<noteq> None \<and> kind \<noteq> NotMem then classify_memory_form insn kind (the mem_slot) op_count b
         else if is_control_transfer flow then fold (\<lambda>i. add_operand_regs (insn_op insn i) AccRead) [0..<op_count] b
         else classify_dataproc_form insn m op_count b)"

definition instruction_info :: "insn \<Rightarrow> insn_info" where
  "instruction_info insn =
     (let b = explicit_accesses insn;
          implicit = implicit_registers insn;
          b = fold (\<lambda>entry. add_reg (ur_register entry) (ur_access entry)) implicit b;
          flags_written = writes_flags (insn_set_flags insn);
          flags_read = reads_nzcv insn
      in \<lparr>in_regs = ib_regs b, in_mem = ib_mem b, in_flow = insn_flow_control insn, in_flags_read = flags_read,
          in_flags_written = flags_written\<rparr>)"

text \<open>The cache \<open>InstructionInfoFactory\<close>.\<close>

type_synonym info_factory = "insn_info option"

definition info_factory_new :: info_factory where
  "info_factory_new = None"

definition info_factory_info :: "insn \<Rightarrow> info_factory \<Rightarrow> insn_info \<times> info_factory" where
  "info_factory_info insn factory = (instruction_info insn, Some (instruction_info insn))"

end
