(* ===== verification/Info_Facts.thy ===== *)
theory Info_Facts
  imports Info
begin

text \<open>
  What the accumulators of \<open>Implicit\<close> and \<open>Info\<close> compute.  Accesses merge in a semilattice, so the result does not depend on the order
  in which registers are recorded; a list of touches recorded with room enough for all is the pointwise join of its accesses.
\<close>

section \<open>The semilattice of accesses\<close>

interpretation access: semilattice_neutr access_merge AccNone
proof
  fix x y z :: op_access
  show "access_merge (access_merge x y) z = access_merge x (access_merge y z)"
    by (cases x; cases y; cases z) (simp_all add: access_merge_def)
qed (auto simp: access_merge_def)

declare access.left_neutral [simp] access.right_neutral [simp]

lemma access_merge_None [simp]: "access_merge x y = AccNone \<longleftrightarrow> x = AccNone \<and> y = AccNone"
  "AccNone = access_merge x y \<longleftrightarrow> x = AccNone \<and> y = AccNone"
  by (auto simp: access_merge_def)

definition access_le :: "op_access \<Rightarrow> op_access \<Rightarrow> bool" where
  "access_le x y \<longleftrightarrow> access_merge x y = y"

lemma access_le_merge [simp]: "access_le x (access_merge x y)" "access_le x (access_merge y x)" "access_le AccNone x"
  by (simp_all add: access_le_def access.left_idem access.left_commute access.commute)

lemma access_le_None: "access_le x y \<Longrightarrow> x \<noteq> AccNone \<Longrightarrow> y \<noteq> AccNone"
  by (auto simp: access_le_def)

lemma access_le_trans: "access_le x y \<Longrightarrow> access_le y z \<Longrightarrow> access_le x z"
  unfolding access_le_def by (metis access.assoc)

section \<open>Recording one access\<close>

abbreviation registers_of :: "used_register list \<Rightarrow> register set" where
  "registers_of regs \<equiv> set (map ur_register regs)"

definition access_wf :: "used_register list \<Rightarrow> bool" where
  "access_wf regs \<longleftrightarrow> distinct (map ur_register regs) \<and> RNone \<notin> registers_of regs \<and> AccNone \<notin> set (map ur_access regs)"

abbreviation merge_into :: "register \<Rightarrow> op_access \<Rightarrow> used_register \<Rightarrow> used_register option option" where
  "merge_into reg acc \<equiv>
     (\<lambda>entry. if ur_register entry = reg then Some (Some (entry\<lparr>ur_access := access_merge (ur_access entry) acc\<rparr>)) else None)"

lemma access_of_simps [simp]:
  "access_of [] r = AccNone"
  "access_of (e # es) r = (if ur_register e = r then ur_access e else access_of es r)"
  by (simp_all add: access_of_def the_default_def)

lemma access_of_append: "access_of (xs @ ys) r = (if r \<in> registers_of xs then access_of xs r else access_of ys r)"
  by (induction xs) auto

lemma access_of_None: "r \<notin> registers_of xs \<Longrightarrow> access_of xs r = AccNone"
  by (induction xs) auto

lemma access_of_member: "access_wf xs \<Longrightarrow> r \<in> registers_of xs \<longleftrightarrow> access_of xs r \<noteq> AccNone"
  by (induction xs) (auto simp: access_wf_def)

lemma merge_None: "edit_first (merge_into reg acc) xs = None \<longleftrightarrow> reg \<notin> registers_of xs"
  by (induction xs) auto

lemma merge_regs: "edit_first (merge_into reg acc) xs = Some ys \<Longrightarrow> map ur_register ys = map ur_register xs"
  by (induction xs arbitrary: ys) (auto split: if_splits)

lemma merge_access_of:
  "edit_first (merge_into reg acc) xs = Some ys \<Longrightarrow>
   access_of ys r = (if r = reg then access_merge (access_of xs r) acc else access_of xs r)"
proof (induction xs arbitrary: ys)
  case (Cons x xs)
  then show ?case by (cases "ur_register x = reg") (auto split: if_splits)
qed simp

lemma merge_keeps_some: "edit_first (merge_into reg acc) xs = Some ys \<Longrightarrow> AccNone \<notin> ur_access ` set xs \<Longrightarrow> AccNone \<notin> ur_access ` set ys"
proof (induction xs arbitrary: ys)
  case (Cons x xs)
  then show ?case by (cases "ur_register x = reg") auto
qed simp

lemma add_access_cases:
  obtains "add_access cap reg acc xs = xs" "reg = RNone \<or> acc = AccNone \<or> reg \<notin> registers_of xs \<and> cap \<le> length xs"
  | ys where "add_access cap reg acc xs = ys" "edit_first (merge_into reg acc) xs = Some ys" "reg \<noteq> RNone" "acc \<noteq> AccNone"
  | "add_access cap reg acc xs = xs @ [\<lparr>ur_register = reg, ur_access = acc\<rparr>]" "reg \<notin> registers_of xs" "length xs < cap" "reg \<noteq> RNone"
      "acc \<noteq> AccNone"
proof (cases "edit_first (merge_into reg acc) xs")
  case None
  then have n: "reg \<notin> registers_of xs" by (rule iffD1 [OF merge_None])
  then show ?thesis using that(1,3) None by (cases "reg = RNone \<or> acc = AccNone"; cases "length xs < cap") (auto simp: add_access_def)
next
  case (Some ys)
  then show ?thesis using that(1,2) by (cases "reg = RNone \<or> acc = AccNone") (auto simp: add_access_def)
qed

lemma add_access_length: "length (add_access cap reg acc xs) \<le> Suc (length xs)" "length xs \<le> cap \<Longrightarrow> length (add_access cap reg acc xs) \<le> cap"
proof -
  have "length ys = length xs" if "edit_first (merge_into reg acc) xs = Some ys" for ys
    using merge_regs [OF that] map_eq_imp_length_eq by blast
  then show "length (add_access cap reg acc xs) \<le> Suc (length xs)" "length xs \<le> cap \<Longrightarrow> length (add_access cap reg acc xs) \<le> cap"
    by (cases rule: add_access_cases [of cap reg acc xs]; simp)+
qed

lemma add_access_wf:
  assumes "access_wf xs"
  shows "access_wf (add_access cap reg acc xs)"
proof (cases rule: add_access_cases [of cap reg acc xs])
  case (2 ys)
  then show ?thesis
    using assms merge_regs [OF 2(2)] merge_keeps_some [OF 2(2)] by (simp add: access_wf_def flip: set_map)
qed (use assms in \<open>auto simp: access_wf_def\<close>)

lemma access_of_add_access:
  assumes "length xs < cap"
  shows "access_of (add_access cap reg acc xs) r =
    (if r = reg \<and> r \<noteq> RNone then access_merge (access_of xs r) acc else access_of xs r)"
proof (cases rule: add_access_cases [of cap reg acc xs])
  case 1
  then show ?thesis using assms by auto
next
  case (2 ys)
  then show ?thesis using merge_access_of [OF 2(2), of r] by simp
next
  case 3
  then show ?thesis by (auto simp: access_of_append access_of_None)
qed

section \<open>Recording a list of touches\<close>

type_synonym touch = "register \<times> op_access"

abbreviation record_all :: "nat \<Rightarrow> touch list \<Rightarrow> used_register list \<Rightarrow> used_register list" where
  "record_all cap ts \<equiv> fold (\<lambda>(r, a). add_access cap r a) ts"

definition touched :: "touch list \<Rightarrow> register \<Rightarrow> op_access" where
  "touched ts r = (if r = RNone then AccNone else foldr (\<lambda>(r', a) x. if r' = r then access_merge a x else x) ts AccNone)"

lemma touched_simps [simp]:
  "touched [] r = AccNone"
  "touched ((r', a) # ts) r = (if r' = r \<and> r \<noteq> RNone then access_merge a (touched ts r) else touched ts r)"
  by (auto simp: touched_def)

lemma touched_append [simp]: "touched (ts @ us) r = access_merge (touched ts r) (touched us r)"
  by (induction ts) (auto simp: access.assoc)

lemma touched_RNone [simp]: "touched ts RNone = AccNone"
  by (simp add: touched_def)

lemma touched_member: "(r, a) \<in> set ts \<Longrightarrow> r \<noteq> RNone \<Longrightarrow> access_le a (touched ts r)"
proof (induction ts)
  case (Cons t ts)
  then show ?case
    by (cases t) (auto simp: access_le_def access.left_idem access.left_commute)
qed simp

lemma record_all_wf: "access_wf xs \<Longrightarrow> access_wf (record_all cap ts xs)"
  by (induction ts arbitrary: xs) (auto intro: add_access_wf)

lemma record_all_length:
  "length (record_all cap ts xs) \<le> length xs + length ts" "length xs \<le> cap \<Longrightarrow> length (record_all cap ts xs) \<le> cap"
proof (induction ts arbitrary: xs)
  case (Cons t ts)
  {
    case 1
    show ?case using Cons(1) [of "add_access cap (fst t) (snd t) xs"] add_access_length(1) [of cap "fst t" "snd t" xs] by (cases t) simp
  next
    case 2
    then show ?case using Cons(2) [of "add_access cap (fst t) (snd t) xs"] add_access_length(2) [of xs cap "fst t" "snd t"] by (cases t) simp
  }
qed simp_all

lemma record_all_access:
  "length xs + length ts \<le> cap \<Longrightarrow> access_of (record_all cap ts xs) r = access_merge (access_of xs r) (touched ts r)"
proof (induction ts arbitrary: xs)
  case (Cons t ts)
  obtain r' a where t: "t = (r', a)" by (cases t)
  have "length (add_access cap r' a xs) + length ts \<le> cap" using Cons.prems add_access_length(1) [of cap r' a xs] by simp
  from Cons.IH [OF this] Cons.prems show ?case
    by (auto simp: t access_of_add_access access.assoc)
qed simp

end
