(* ===== verification/Info_Implicit.thy ===== *)
theory Info_Implicit
  imports Info_Facts
begin

text \<open>
  The implicit registers, register by register: an abstract specification, and that the list of \<open>implicit_registers\<close> implements it
  and never reaches its capacity.
\<close>

section \<open>The touches of each group\<close>

definition given :: "bool \<Rightarrow> op_access \<Rightarrow> op_access" where
  "given b a = (if b then a else AccNone)"

definition nzcv_access :: "insn \<Rightarrow> op_access" where
  "nzcv_access i = access_merge (given (reads_nzcv i) AccRead) (given (writes_flags (insn_set_flags i)) AccWrite)"

definition link_access :: "insn \<Rightarrow> op_access" where
  "link_access i =
     (if is_call (insn_flow_control i) then AccWrite
      else if i_mnemonic i = M_Ret \<and> i_op_count i = 0 \<or>
        i_mnemonic i \<in> set [M_Retaa, M_Retab, M_Retaasppc, M_Retabsppc, M_Retaasppcr, M_Retabsppcr] then AccRead
      else AccNone)"

definition signs_link :: "mnemonic \<Rightarrow> bool" where
  "signs_link m \<longleftrightarrow> m \<in> set
     [M_Paciasp, M_Pacibsp, M_Autiasp, M_Autibsp, M_Paciaz, M_Pacibz, M_Autiaz, M_Autibz, M_Xpaclri, M_Paciasppc, M_Pacibsppc,
      M_Pacnbiasppc, M_Pacnbibsppc, M_Autiasppc, M_Autibsppc, M_Autiasppcr, M_Autibsppcr]"

definition signs_x17 :: "mnemonic \<Rightarrow> bool" where
  "signs_x17 m \<longleftrightarrow> m \<in> set [M_Pacia1716, M_Pacib1716, M_Autia1716, M_Autib1716]"

definition sp_is_modifier :: "mnemonic \<Rightarrow> bool" where
  "sp_is_modifier m \<longleftrightarrow> m \<in> set
     [M_Paciasp, M_Pacibsp, M_Autiasp, M_Autibsp, M_Paciasppc, M_Pacibsppc, M_Pacnbiasppc, M_Pacnbibsppc, M_Autiasppc, M_Autibsppc,
      M_Autiasppcr, M_Autibsppcr, M_Retaasppc, M_Retabsppc, M_Retaasppcr, M_Retabsppcr, M_Retaa, M_Retab, M_Eretaa, M_Eretab]"

text \<open>The base of a transfer of 64 bytes: an even register up to \<open>x22\<close>.\<close>

definition ls64_base :: "insn \<Rightarrow> (u5 \<times> op_access) option" where
  "ls64_base i =
     (case ls64_data_slot (i_mnemonic i) of
        None \<Rightarrow> None
      | Some (slot, acc) \<Rightarrow>
          (case insn_op i slot of OpReg (RX b) _ _ _ _ _ \<Rightarrow> if even (unat b) \<and> b \<le> 22 then Some (b, acc) else None | _ \<Rightarrow> None))"

definition ffr_access :: "mnemonic \<Rightarrow> op_access" where
  "ffr_access m =
     (if m \<in> set [M_Ldff1b, M_Ldff1h, M_Ldff1w, M_Ldff1d, M_Ldff1sb, M_Ldff1sh, M_Ldff1sw] then AccReadWrite
      else if m \<in> set [M_Ldnf1b, M_Ldnf1h, M_Ldnf1w, M_Ldnf1d, M_Ldnf1sb, M_Ldnf1sh, M_Ldnf1sw, M_Rdffr, M_Rdffrs] then AccRead
      else given (m \<in> set [M_Setffr, M_Wrffr]) AccWrite)"

definition za_access :: "insn \<Rightarrow> op_access" where
  "za_access i =
     given (i_mnemonic i \<in> set [M_Smstart, M_Smstop] \<and>
           \<not> (case insn_op i 0 of OpSysOp tok \<Rightarrow> sys_token_name tok = ''sm'' | _ \<Rightarrow> False)) AccWrite"

definition pc_access :: "insn \<Rightarrow> op_access" where
  "pc_access i =
     given (i_mnemonic i \<in> set [M_Paciasppc, M_Pacibsppc, M_Pacnbiasppc, M_Pacnbibsppc, M_Autiasppc, M_Autibsppc] \<or>
           \<not> is_control_transfer (insn_flow_control i) \<and> (\<exists>n < i_op_count i. \<exists>t. insn_op i n = OpLabel t)) AccRead"

definition implicit_touches :: "insn \<Rightarrow> touch list" where
  "implicit_touches i =
     (let m = i_mnemonic i
      in (RNzcv, nzcv_access i) # (RX 30, link_access i) #
         (RX 30, given (signs_link m) AccReadWrite) # (RX 17, given (signs_x17 m) AccReadWrite) # (RX 16, given (signs_x17 m) AccRead) #
         (RSp, given (sp_is_modifier m) AccRead) #
         (case ls64_base i of None \<Rightarrow> [] | Some (b, acc) \<Rightarrow> map (\<lambda>k. (RX (b + k), acc)) [1, 2, 3, 4, 5, 6, 7]) @
         [(RFfr, ffr_access m), (RZa, za_access i), (RPc, pc_access i)])"

section \<open>The specification\<close>

definition implicit_spec :: "insn \<Rightarrow> register \<Rightarrow> op_access" where
  "implicit_spec i r =
     (let m = i_mnemonic i
      in case r of
           RNzcv \<Rightarrow> nzcv_access i
         | RSp \<Rightarrow> given (sp_is_modifier m) AccRead
         | RX n \<Rightarrow>
             if n = 30 then access_merge (link_access i) (given (signs_link m) AccReadWrite)
             else if signs_x17 m then (if n = 17 then AccReadWrite else given (n = 16) AccRead)
             else (case ls64_base i of
                     None \<Rightarrow> AccNone
                   | Some (b, acc) \<Rightarrow> given (unat b < unat n \<and> unat n \<le> unat b + 7) acc)
         | RFfr \<Rightarrow> ffr_access m
         | RZa \<Rightarrow> za_access i
         | RPc \<Rightarrow> pc_access i
         | _ \<Rightarrow> AccNone)"

lemma touch_None: "add_access cap r AccNone xs = xs"
  by (simp add: add_access_def)

lemma nzcv_stage: "add_nzcv i out = record_all 10 [(RNzcv, nzcv_access i)] out"
  by (auto simp: add_nzcv_def nzcv_access_def Let_def implicit_add_def MAX_IMPLICIT_REGS_def given_def touch_None access_merge_def)

lemma link_flow:
  "m \<in> set [M_Ret, M_Retaa, M_Retab, M_Retaasppc, M_Retabsppc, M_Retaasppcr, M_Retabsppcr] \<Longrightarrow> i_mnemonic i = m \<Longrightarrow>
   insn_flow_control i = FlowReturn"
  by (auto simp: insn_flow_control_def)

lemma link_stage: "add_link_register i (i_mnemonic i) out = record_all 10 [(RX 30, link_access i)] out"
  using link_flow [of "i_mnemonic i" i]
  by (auto simp: add_link_register_def link_access_def is_call_def implicit_add_def MAX_IMPLICIT_REGS_def touch_None split: flow_control.split)

lemmas pauth_mnemonics = signs_link_def signs_x17_def sp_is_modifier_def

lemma pauth_stage:
  "add_pointer_auth m out =
     record_all 10 [(RX 30, given (signs_link m) AccReadWrite), (RX 17, given (signs_x17 m) AccReadWrite),
       (RX 16, given (signs_x17 m) AccRead), (RSp, given (sp_is_modifier m) AccRead)] out"
proof (cases "signs_link m \<or> signs_x17 m \<or> sp_is_modifier m")
  case True
  then show ?thesis
    unfolding signs_link_def signs_x17_def sp_is_modifier_def
    by (simp, elim disjE; simp add: add_pointer_auth_def pauth_mnemonics given_def touch_None implicit_add_def MAX_IMPLICIT_REGS_def)
next
  case False
  then show ?thesis by (simp add: add_pointer_auth_def pauth_mnemonics given_def touch_None)
qed

text \<open>The seven companions of the base register.\<close>

lemma ls64_companions:
  assumes "k \<in> {1, 2, 3, 4, 5, 6, 7}" "b \<le> 22"
  shows "gp_register False X64 (ucast (b :: u5) + k) = RX (b + ucast k)" "unat (b + ucast k) = unat b + unat k"
proof -
  have b: "unat b \<le> 22" using assms(2) by (simp add: word_le_nat_alt)
  have k: "unat k \<le> 7" using assms(1) by auto
  have u: "unat (ucast k :: u5) = unat k" using k by (simp add: unsigned_ucast_eq take_bit_nat_eq_self)
  show "unat (b + ucast k) = unat b + unat k" using b k by (simp add: unat_add_lem [THEN iffD1] u)
  moreover have "unat (ucast b + k) = unat b + unat k" using b k by (simp add: unat_add_lem [THEN iffD1] unsigned_ucast_eq take_bit_nat_eq_self)
  ultimately have "ucast (ucast b + k) = b + ucast k"
    using b k by (simp add: word_unat_eq_iff unsigned_ucast_eq take_bit_nat_eq_self del: unat_add_lem)
  then show "gp_register False X64 (ucast b + k) = RX (b + ucast k)" by (simp add: gp_register_eq)
qed

lemma x_base: "register_class r = ClassGp \<and> width_bits r = 64 \<longleftrightarrow> r = RSp \<or> (\<exists>b. r = RX b)"
  by (cases r) auto

lemma unat_parity: "even (unat (w :: 'a :: len word)) \<longleftrightarrow> even w"
  by transfer (simp add: even_nat_iff)

lemma base_odd: "reg_number (RX b) AND 1 \<noteq> 0 \<longleftrightarrow> odd (unat b)"
proof -
  have "reg_number (RX b) AND 1 = of_bool (bit b 0)"
    by (rule bit_word_eqI) (auto simp: bit_simps)
  then show ?thesis by (simp add: bit_0 unat_parity)
qed

lemma base_limit: "reg_number (RX b) > 22 \<longleftrightarrow> \<not> b \<le> 22"
  by (simp add: word_le_nat_alt word_less_nat_alt unsigned_ucast_eq take_bit_nat_eq_self unat_u5 [THEN less_le_trans] not_le)

lemma ls64_stage:
  "add_ls64_group i (i_mnemonic i) out =
     record_all 10 (case ls64_base i of None \<Rightarrow> [] | Some (b, acc) \<Rightarrow> map (\<lambda>k. (RX (b + k), acc)) [1, 2, 3, 4, 5, 6, 7]) out"
proof (cases "ls64_data_slot (i_mnemonic i)")
  case None
  then show ?thesis by (simp add: add_ls64_group_def ls64_base_def)
next
  case (Some p)
  obtain slot acc where s: "ls64_data_slot (i_mnemonic i) = Some (slot, acc)" using Some by (cases p) simp
  show ?thesis
  proof (cases "\<exists>r a l s e p. insn_op i slot = OpReg r a l s e p")
    case False
    then show ?thesis by (cases "insn_op i slot") (simp_all add: add_ls64_group_def ls64_base_def s)
  next
    case True
    then obtain r a l sh e p where o: "insn_op i slot = OpReg r a l sh e p" by blast
    show ?thesis
    proof (cases "\<exists>b. r = RX b")
      case True
      then obtain b where b: "r = RX b" by blast
      show ?thesis
        using base_odd [of b] base_limit [of b] ls64_companions(1) [of _ b]
        by (simp add: add_ls64_group_def ls64_base_def s o b implicit_add_def MAX_IMPLICIT_REGS_def Let_def)
    next
      case False
      then have "register_class r \<noteq> ClassGp \<or> width_bits r \<noteq> 64 \<or> r = RSp" using x_base [of r] by auto
      then show ?thesis
        using False by (cases r) (auto simp: add_ls64_group_def ls64_base_def s o Let_def)
    qed
  qed
qed

lemma is_label: "(case op of OpLabel _ \<Rightarrow> True | _ \<Rightarrow> False) \<longleftrightarrow> (\<exists>t. op = OpLabel t)"
  by (cases op) simp_all

lemma state_stages:
  "add_ffr m out = record_all 10 [(RFfr, ffr_access m)] out"
  "add_sme_state i (i_mnemonic i) out = record_all 10 [(RZa, za_access i)] out"
  "add_pc i (i_mnemonic i) out = record_all 10 [(RPc, pc_access i)] out"
proof -
  show "add_ffr m out = record_all 10 [(RFfr, ffr_access m)] out"
    by (simp add: add_ffr_def ffr_access_def given_def implicit_add_def MAX_IMPLICIT_REGS_def touch_None)
  show "add_sme_state i (i_mnemonic i) out = record_all 10 [(RZa, za_access i)] out"
    by (simp add: add_sme_state_def za_access_def given_def implicit_add_def MAX_IMPLICIT_REGS_def touch_None)
  have "list_ex (\<lambda>n. case insn_op i n of OpLabel _ \<Rightarrow> True | _ \<Rightarrow> False) [0..<i_op_count i] \<longleftrightarrow> (\<exists>n < i_op_count i. \<exists>t. insn_op i n = OpLabel t)"
    by (simp add: list_ex_iff is_label Bex_def)
  then show "add_pc i (i_mnemonic i) out = record_all 10 [(RPc, pc_access i)] out"
    by (auto simp: add_pc_def pc_access_def given_def implicit_add_def MAX_IMPLICIT_REGS_def touch_None)
qed

lemma implicit_registers_touches: "implicit_registers i = record_all 10 (implicit_touches i) []"
  unfolding implicit_registers_def implicit_touches_def Let_def implicit_new_def
  by (simp add: nzcv_stage link_stage pauth_stage ls64_stage state_stages split: option.split)


section \<open>The list implements the specification\<close>

lemma ls64_alone:
  assumes "ls64_base i = Some (b, acc)"
  shows "link_access i = AccNone" "\<not> signs_link (i_mnemonic i)" "\<not> signs_x17 (i_mnemonic i)" "\<not> sp_is_modifier (i_mnemonic i)"
    "ffr_access (i_mnemonic i) = AccNone" "za_access i = AccNone" "b \<le> 22"
proof -
  have "i_mnemonic i \<in> set [M_Ld64b, M_St64b, M_St64bv, M_St64bv0]"
    using assms by (auto simp: ls64_base_def ls64_data_slot_def split: if_splits)
  then show "link_access i = AccNone" "\<not> signs_link (i_mnemonic i)" "\<not> signs_x17 (i_mnemonic i)" "\<not> sp_is_modifier (i_mnemonic i)"
    "ffr_access (i_mnemonic i) = AccNone" "za_access i = AccNone"
    by (auto simp: link_access_def insn_flow_control_def is_call_def pauth_mnemonics ffr_access_def za_access_def given_def)
  show "b \<le> 22" using assms by (auto simp: ls64_base_def split: option.splits operand.splits register.splits if_splits)
qed

lemma record_None: "record_all cap ts xs = record_all cap (filter (\<lambda>(r, a). a \<noteq> AccNone) ts) xs"
  by (induction ts arbitrary: xs) (auto simp: touch_None)

lemma implicit_room: "length (filter (\<lambda>(r, a). a \<noteq> AccNone) (implicit_touches i)) \<le> 9"
proof (cases "ls64_base i")
  case None
  have "length (filter P xs) \<le> length xs" for P and xs :: "touch list" by simp
  from this [of "\<lambda>(r, a). a \<noteq> AccNone" "implicit_touches i"] None show ?thesis
    by (simp add: implicit_touches_def Let_def)
next
  case (Some p)
  obtain b acc where p: "p = (b, acc)" by (cases p)
  from ls64_alone [OF Some [unfolded p]] show ?thesis
    by (simp add: implicit_touches_def Let_def Some p given_def)
qed

lemma touched_filter: "touched (filter (\<lambda>(r, a). a \<noteq> AccNone) ts) r = touched ts r"
  by (induction ts) (auto split: if_splits)

lemma access_of_implicit: "access_of (implicit_registers i) r = touched (implicit_touches i) r"
  unfolding implicit_registers_touches record_None [of 10 "implicit_touches i"]
  using implicit_room [of i] by (simp add: record_all_access touched_filter)

lemma length_implicit: "length (implicit_registers i) \<le> 9"
  unfolding implicit_registers_touches record_None [of 10 "implicit_touches i"]
  using implicit_room [of i] record_all_length(1) [of 10 "filter (\<lambda>(r, a). a \<noteq> AccNone) (implicit_touches i)" "[]"] by simp

lemma wf_implicit: "access_wf (implicit_registers i)"
  unfolding implicit_registers_touches by (rule record_all_wf) (simp add: access_wf_def)

lemma ls64_touched:
  assumes "b \<le> 22"
  shows "touched (map (\<lambda>k. (RX (b + k), acc)) [1, 2, 3, 4, 5, 6, 7]) (RX n) = given (unat b < unat n \<and> unat n \<le> unat b + 7) acc"
proof -
  have e: "b + k = n \<longleftrightarrow> unat n = unat b + unat k" if "k \<in> {1, 2, 3, 4, 5, 6, 7}" for k
  proof -
    have "unat (b + k) = unat b + unat k"
      using assms that by (auto simp: word_le_nat_alt unat_add_lem [THEN iffD1])
    then show ?thesis by (auto simp: word_unat_eq_iff)
  qed
  consider "unat b < unat n \<and> unat n \<le> unat b + 7" "unat n - unat b \<in> {1, 2, 3, 4, 5, 6, 7}" | "\<not> (unat b < unat n \<and> unat n \<le> unat b + 7)" by fastforce
  then show ?thesis
    by cases (auto simp: e given_def)
qed

lemma ls64_untouched: "(\<And>n. r \<noteq> RX n) \<Longrightarrow> touched (map (\<lambda>k. (RX (b + k), acc)) ks) r = AccNone"
  by (induction ks) auto

lemma implicit_touches_spec: "touched (implicit_touches i) r = implicit_spec i r"
proof (cases "ls64_base i")
  case None
  then show ?thesis by (cases r) (auto simp: implicit_touches_def implicit_spec_def Let_def given_def access_merge_def)
next
  case (Some p)
  obtain b acc where p: "p = (b, acc)" by (cases p)
  note a = ls64_alone [OF Some [unfolded p]]
  have "unat b \<le> 22" using a(7) by (simp add: word_le_nat_alt)
  then have "\<not> unat (30 :: u5) \<le> unat b + 7" by simp
  then show ?thesis
    using a ls64_touched [OF a(7), of acc] ls64_untouched [of r b acc]
    by (cases r) (auto simp: implicit_touches_def implicit_spec_def Let_def given_def Some p simp del: list.map)
qed

end
