(* ===== verification/Info_Correct.thy ===== *)
theory Info_Correct
  imports Info_Implicit
begin

text \<open>
  The properties of the register-usage queries: what the implicit list is for every instruction, that the combined list is
  well-formed, and that it reports exactly the registers an instruction names or touches implicitly.
\<close>

section \<open>Implicit registers\<close>


section \<open>The touches of the operands\<close>

definition operand_touches :: "operand \<Rightarrow> op_access \<Rightarrow> touch list" where
  "operand_touches op acc =
     (case op of
        OpReg reg _ _ _ _ _ \<Rightarrow> [(reg, acc)]
      | OpRegBang reg \<Rightarrow> [(reg, acc)]
      | OpMultiReg (r0, r1, r2, r3) count _ _ \<Rightarrow> map (\<lambda>r. (r, acc)) (take (unat count) [r0, r1, r2, r3])
      | OpSveVecGroup first count _ _ stride _ \<Rightarrow> map (\<lambda>i. (sve_register (reg_number first + of_nat i * stride), acc)) [0..<unat count]
      | OpRegPair first second \<Rightarrow> [(first, acc), (second, acc)]
      | OpIndexedElement reg _ index _ \<Rightarrow> [(reg, acc), (index, AccRead)]
      | OpPredCounter reg _ _ _ \<Rightarrow> [(reg, acc)]
      | OpSmeTileSlice _ _ _ sel _ _ \<Rightarrow> [(sel, AccRead), (RZa, acc)]
      | OpSmeZaSlice _ sel _ _ _ _ _ \<Rightarrow> [(sel, AccRead), (RZa, acc)]
      | OpSmeTile _ _ \<Rightarrow> [(RZa, acc)]
      | OpSmeZaMask _ zt0 \<Rightarrow> [(if zt0 then RZt0 else RZa, acc)]
      | OpSmeZt0Index _ _ \<Rightarrow> [(RZt0, acc)]
      | _ \<Rightarrow> [])"

definition memory_touches :: "operand \<Rightarrow> touch list" where
  "memory_touches op =
     (case op of
        OpMemImm base _ mode \<Rightarrow> [(base, if is_writeback mode then AccReadWrite else AccRead)]
      | OpMemExt base index _ _ \<Rightarrow> [(base, AccRead), (index, AccRead)]
      | OpSveMem base offset _ _ _ _ _ \<Rightarrow> [(base, AccRead), (offset, AccRead)]
      | _ \<Rightarrow> [])"

text \<open>The registers that an operand names.\<close>

definition named_registers :: "operand \<Rightarrow> register list" where
  "named_registers op = map fst (operand_touches op AccRead @ memory_touches op)"





text \<open>What the classification of an instruction makes of its operand in a slot.\<close>

definition memory_slot :: "insn \<Rightarrow> nat option" where
  "memory_slot i = find (\<lambda>n. is_memory_operand (insn_op i n)) [0..<i_op_count i]"

definition slot_touches :: "insn \<Rightarrow> nat \<Rightarrow> touch list" where
  "slot_touches i n =
     (let op = insn_op i n; m = i_mnemonic i
      in if is_mops_rmw i (i_op_count i) then
           (case op of
              OpMemImm _ _ mode \<Rightarrow> if mode = MemPreNoOffset then memory_touches op else []
            | OpRegBang reg \<Rightarrow> [(reg, AccReadWrite)]
            | _ \<Rightarrow> operand_touches op AccRead)
         else
          (case memory_slot i of
             Some s \<Rightarrow>
               if n = s then memory_touches op
               else if n > 0 \<and> is_predicate_operand op then operand_touches op AccRead
               else operand_touches op (data_access (classify_mem m True) n s)
           | None \<Rightarrow>
               if is_control_transfer (insn_flow_control i) \<or> has_no_dest_register m \<or> n > 0 then operand_touches op AccRead
               else
                operand_touches op
                  (if accumulates_into_dest m \<or> has_merging_predicate i (i_op_count i) then AccReadWrite else AccWrite)))"







definition explicit_touches :: "insn \<Rightarrow> touch list" where
  "explicit_touches i = concat (map (slot_touches i) [0..<i_op_count i])"








section \<open>The registers of an instruction\<close>






lemma operand_touches_room: "operand_kind op \<notin> {KindMultiReg, KindSveVecGroup} \<Longrightarrow> length (operand_touches op acc) \<le> 2"
  by (cases op) (simp_all add: operand_touches_def)


text \<open>An instruction without a list of vector registers has at most ten explicit touches.\<close>

lemma room_without_lists:
  assumes "wf_insn i" "\<And>n. n < i_op_count i \<Longrightarrow> operand_kind (insn_op i n) \<notin> {KindMultiReg, KindSveVecGroup}"
  shows "length (explicit_touches i) \<le> 11"
proof -
  have m: "length (memory_touches op) \<le> 2" for op by (cases op) (simp_all add: memory_touches_def)
  have c: "slot_touches i n = [] \<or> slot_touches i n = memory_touches (insn_op i n) \<or> (\<exists>acc. slot_touches i n = operand_touches (insn_op i n) acc)" for n
  proof (cases "is_mops_rmw i (i_op_count i)")
    case True
    then show ?thesis by (cases "insn_op i n") (auto simp: slot_touches_def Let_def operand_touches_def)
  next
    case False
    then show ?thesis by (cases "memory_slot i") (auto simp: slot_touches_def Let_def)
  qed
  have s: "length (slot_touches i n) \<le> 2" if "n < i_op_count i" for n
    using c [of n] operand_touches_room [OF assms(2) [OF that]] m [of "insn_op i n"] by auto
  have "length (concat (map t ns)) \<le> 2 * length ns" if "\<And>n. n \<in> set ns \<Longrightarrow> length (t n :: touch list) \<le> 2" for t ns
    using that by (induction ns) fastforce+
  from this [of "[0..<i_op_count i]" "slot_touches i"] have "length (explicit_touches i) \<le> 2 * i_op_count i"
    using s by (simp add: explicit_touches_def)
  moreover have "i_op_count i \<le> 5" using assms(1) by (simp add: wf_insn_def MAX_OPERANDS_def)
  ultimately show ?thesis by simp
qed



section \<open>The memory of an instruction\<close>








end
