(* ===== verification/Spec2Isabelle.thy ===== *)
theory Spec2Isabelle
  imports Codec_Top_Correct Decoder_Correct Edit_Machine Ldst_Correct Info_Correct
begin

text \<open>
  \<^bold>\<open>What the program is.\<close>  fARM64 is a Rust library that decodes A64 machine words to instructions
  (\<open>src/src/decode\<close>), lets the caller edit them (\<open>src/src/instruction.rs\<close>) and encodes them back to words
  (\<open>src/src/encode\<close>).  Decoding and encoding dispatch to one module per encoding group of the architecture;
  \<open>Decoder\<close> (\<open>src/src/decoder.rs\<close>) walks a byte slice with the top-level decoder.  The encoder never looks at the stored word:
  it rebuilds it from the code, the mnemonic, the operands and the address.

  \<^bold>\<open>Which theory models what.\<close>
  \<^item> \<open>Prelude\<close>: the result type \<open>encoded\<close> of the encoders (\<open>Ok\<close>, \<open>Err\<close> of an \<open>EncodeError\<close>, and \<open>Panic\<close> for an arithmetic overflow
    that Rust checks), word types and word lemmas.  The \<open>-\<close> and \<open>+\<close> on \<open>u32\<close> values that come from operands are \<open>sub_u32\<close> and \<open>add_u32\<close>
    wherever they overflow unless a guard of the code prevents it.
  \<^item> \<open>Bits\<close>, \<open>Encode_Bits\<close>: \<open>decode/bits.rs\<close> and \<open>encode/bits.rs\<close>.  \<open>Bits_Spec\<close>, \<open>Bit_Masks\<close>, \<open>Encode_Masks\<close>, \<open>Immediates\<close>: what the
    logical-immediate functions mean, bit by bit, and that the encoder inverts the decoder.
  \<^item> \<open>Enums\<close>, \<open>Registers\<close>, \<open>Operands\<close>, \<open>Mnemonics\<close>, \<open>Codes\<close>, \<open>Code_Facts\<close>: \<open>enums.rs\<close>, \<open>features.rs\<close>, \<open>error.rs\<close>, \<open>register.rs\<close>,
    \<open>operand.rs\<close>, \<open>sysreg.rs\<close> and \<open>mnemonic.rs\<close>.  A \<open>Code\<close> is its position in the enumeration, named by an abbreviation; the table
    of mnemonics and extensions is the one of the source, in blocks of 64 rows.
  \<^item> \<open>Insn\<close>, \<open>Insn_Edit\<close>: \<open>instruction.rs\<close>.  The record \<open>insn\<close> is \<open>struct Instruction\<close>; a method on \<open>&mut self\<close> returns the new
    instruction.  The locale \<open>insn_edit\<close> is the contract of every editing method and is interpreted on each of them.
  \<^item> \<open>Decode_Base\<close>, \<open>Encode_Base\<close>, \<open>Codec_Base\<close>: the helpers that the group modules share, and the contract between a group's decoder and
    its encoder, the locales \<open>group_codec\<close> and \<open>exact_codec\<close>.
  \<^item> \<open>Dp_Imm_*\<close>: Data Processing -- Immediate (\<open>dp_imm.rs\<close>, twice).  \<open>Dp_Reg_*\<close>: Data Processing -- Register (\<open>dp_reg.rs\<close>).
    \<open>Branch_*\<close>, \<open>System_*\<close>, \<open>Sys_Tables\<close>: branches, exceptions and system instructions (\<open>branch_sys.rs\<close>, \<open>sysop.rs\<close>,
    \<open>tables/sysins.rs\<close>).  \<open>Mops\<close>: \<open>mops.rs\<close>.  \<open>Apple\<close>: \<open>apple.rs\<close>.  Each group has a theory of decoders, one of encoders, the evaluation of
    the encoder on what the decoder builds (\<open>_Exact\<close>), and the interpretation of \<open>group_codec\<close> (\<open>_Codec\<close>, or in the same theory).
  \<^item> \<open>Ldst_*\<close>: loads and stores (\<open>ldst.rs\<close> and \<open>ldst_simd.rs\<close>, twice).  \<open>Ldst_Decode\<close>, \<open>Ldst_Atomics_Decode\<close>, \<open>Ldst_Simd_Decode\<close> and
    \<open>Ldst_Group_Decode\<close> are the decoders, the \<open>_Encode\<close> theories of the same names the encoders; \<open>Names\<close> is the name of a mnemonic
    (\<open>tables/names.rs\<close>), which the encoder of the atomics takes apart.  \<open>Ldst_Facts\<close>, \<open>Ldst_Dispatch\<close>, \<open>Ldst_Forms\<close> and \<open>Ldst_Names\<close>
    hold what the tables, the dispatch on the code, the inverse classification and the names are; one \<open>_Exact\<close> theory per class of
    words proves that the encoder returns the word, and \<open>Ldst_Codec\<close> composes them.  In the exclusive, ordered and
    compare-and-swap classes the decoder ignores the register fields that an instruction does not use, and the canonical word has
    ones there (\<open>canon_excl\<close>).  The words of the memory copy and set instructions lie in this group, so its codec is
    \<open>decode_ldst\<close> with \<open>encode_memory\<close>, which is \<open>encode_mops\<close> or \<open>encode_ldst\<close> by the code.
  \<^item> \<open>Codec_Top\<close>: \<open>decode/mod.rs\<close> and \<open>encode/mod.rs\<close>.  \<open>Decoder\<close>: \<open>decoder.rs\<close>.
  \<^item> \<open>Relocation\<close>, \<open>Edit_Machine\<close>: what moving does to the encoding, and the life of an instruction under all editing methods as a step
    relation.
  \<^item> \<open>Implicit\<close>, \<open>Info\<close>: \<open>implicit.rs\<close> and \<open>info.rs\<close>, the registers and the memory an instruction touches.  The fixed arrays with a
    count are lists with a capacity.  \<open>Info_Facts\<close> shows that accesses merge in a semilattice, so that a list recorded with room is
    the pointwise join of its touches; \<open>Info_Implicit\<close> specifies the implicit registers one by one.
  \<^item> The theories named \<open>_Correct\<close> and \<open>Branch_Retarget\<close> hold the properties.

  \<^bold>\<open>How the parts meet.\<close>  A group decoder gets the word, the address, the feature set and the instruction to fill, and either leaves
  it alone or sets a code and operands (\<open>built_from\<close>).  The code alone selects the group encoder.  \<open>Codec_Top\<close> proves that the code
  ranges of the groups are disjoint, so that the encoder of a decoded instruction is the one of the group that decoded it, and
  composes the interpretations of \<open>group_codec\<close> to the round trip over all modelled words.

  \<^bold>\<open>What the properties show.\<close>
  \<^item> Round trips: decoding, encoding and decoding again returns the same instruction, for each group and for the two dispatchers; the
    word itself comes back except where the architecture or the decoder ignores a field, and the canonical word is then given
    explicitly.  Streams of instructions survive being written out and decoded again.
  \<^item> Types and gates: everything decoded is well-formed and belongs to the group of its word, and its extension is in the feature set,
    with four exceptions that the statements name: SMSTART, SMSTOP, MADDPT and MSUBPT are decoded ungated.
  \<^item> Totality: the code lists by which \<open>encode/mod.rs\<close> selects a group encoder hold exactly the codes that the encoder has an arm and
    table rows for (loads and stores, registers), and exactly which operands make an encoder overflow.
  \<^item> Editing: the flag \<open>is_modified\<close> is truthful under every sequence of edits; what an edited label, branch target, condition or
    displacement does to the encoding, which edits are rejected, and on which edits
    the encoder truncates, panics or returns a word of another class.
  \<^item> The decoder: the loop refines the word-by-word decoding of the slice and ends; the state is consistent under every sequence of
    calls.
  \<^item> Register usage: the implicit registers and the combined report implement their specifications register by register, and within
    the stated number of operand registers no capacity is reached; which memory access each class of mnemonics is given.

  \<^bold>\<open>Bounds and recursion.\<close>  Words are kept at their width and wrap as in Rust; \<open>usize\<close> is a natural number, and the cursor of the
  decoder is proved to stay below \<open>2 ^ 64\<close>.  No definition uses fuel: the loops of the bit functions are bounded by the number of
  element sizes, and the loop over the decoder has a measure.

  \<^bold>\<open>Not modelled.\<close>  SIMD and floating point is an argument of the top-level functions (a \<open>group\<close> of a decoder, an encoder and the codes
  it owns).  The statements about the dispatchers are about the words outside it, or the codes it does not own, and hold for any such
  group, the round trip for any that does not claim an Apple code; only \<open>modified_flag_truthful\<close>, whose edits may set any code,
  asks of its encoder what is proved of the others (\<open>semantic_group\<close>, \<open>relocatable_group\<close>).  SVE and SME are behind cargo features
  that the default build leaves out; the model is of that build, and their arms are the stubs of the source.  Formatting
  (\<open>format/\<close>, and the tables of \<open>tables/names.rs\<close> that only it reads) only reads instructions.
\<close>

end
